(* ===== verification/Prelude.thy ===== *)
theory Prelude
  imports Complex_Main "HOL-Library.AList"
begin

text \<open>
  Shared layer of the development: results that are either an error or a value, computations
  that thread a state and may raise, Python dictionaries as insertion ordered association
  lists, and the generic list facts the components use. The collections declared here
  (\<open>mon_simps\<close> for the two monads, \<open>pydict\<close> for dictionaries, \<open>pystr\<close> for
  strings) are extended by the later theories, so that \<open>simp add: mon_simps pydict\<close>
  carries the component proofs.
\<close>

named_theorems mon_simps \<open>unfolding of the error and state monads\<close>
named_theorems pydict \<open>facts on insertion ordered dictionaries\<close>
named_theorems pystr \<open>facts on strings and numerals\<close>

section \<open>Results: an error or a value\<close>

text \<open>A raised exception is \<open>Inl\<close>, a returned value is \<open>Inr\<close>.\<close>

definition bindE :: "'e + 'a \<Rightarrow> ('a \<Rightarrow> 'e + 'b) \<Rightarrow> 'e + 'b" where
  "bindE r f = (case r of Inl e \<Rightarrow> Inl e | Inr a \<Rightarrow> f a)"

lemma bindE_Inl [simp, mon_simps]: "bindE (Inl e) f = Inl e"
  by (simp add: bindE_def)

lemma bindE_Inr [simp, mon_simps]: "bindE (Inr a) f = f a"
  by (simp add: bindE_def)

lemma bindE_eq_Inr: "bindE r f = Inr b \<longleftrightarrow> (\<exists>a. r = Inr a \<and> f a = Inr b)"
  by (cases r) auto

lemma bindE_eq_Inl: "bindE r f = Inl e \<longleftrightarrow> r = Inl e \<or> (\<exists>a. r = Inr a \<and> f a = Inl e)"
  by (cases r) auto

definition okE :: "'e + 'a \<Rightarrow> bool" where
  "okE r = (case r of Inl _ \<Rightarrow> False | Inr _ \<Rightarrow> True)"

lemma okE_simps [simp]: "okE (Inr a)" "\<not> okE (Inl e)"
  by (simp_all add: okE_def)

text \<open>Left to right evaluation of a list of fallible computations: the first error wins.\<close>

fun mapE :: "('a \<Rightarrow> 'e + 'b) \<Rightarrow> 'a list \<Rightarrow> 'e + 'b list" where
  "mapE f [] = Inr []"
| "mapE f (x # xs) = bindE (f x) (\<lambda>y. bindE (mapE f xs) (\<lambda>ys. Inr (y # ys)))"

lemma mapE_Inr_map: "(\<And>x. x \<in> set xs \<Longrightarrow> f x = Inr (g x)) \<Longrightarrow> mapE f xs = Inr (map g xs)"
  by (induction xs) auto

lemma mapE_length: "mapE f xs = Inr ys \<Longrightarrow> length ys = length xs"
  by (induction xs arbitrary: ys) (auto simp: bindE_eq_Inr)

lemma mapE_append:
  "mapE f (xs @ ys) = bindE (mapE f xs) (\<lambda>us. bindE (mapE f ys) (\<lambda>vs. Inr (us @ vs)))"
proof (induction xs)
  case Nil
  show ?case by (cases "mapE f ys") auto
next
  case (Cons x xs)
  then show ?case
    by (cases "f x"; cases "mapE f xs"; cases "mapE f ys") auto
qed

lemma mapE_Inr_nth:
  "mapE f xs = Inr ys \<Longrightarrow> i < length xs \<Longrightarrow> f (xs ! i) = Inr (ys ! i)"
proof (induction xs arbitrary: ys i)
  case Nil
  then show ?case by simp
next
  case (Cons x xs)
  then show ?case by (cases i) (auto simp: bindE_eq_Inr)
qed

section \<open>Computations on a state that may raise\<close>

text \<open>
  A method that mutates an object and may raise is a function from the object's state to a
  result and the state it leaves behind; a raise keeps the state changes made before it.
\<close>

type_synonym ('s, 'e, 'a) action = "'s \<Rightarrow> ('e + 'a) \<times> 's"

definition retS :: "'a \<Rightarrow> ('s, 'e, 'a) action" where
  "retS a = (\<lambda>s. (Inr a, s))"

definition raiseS :: "'e \<Rightarrow> ('s, 'e, 'a) action" where
  "raiseS e = (\<lambda>s. (Inl e, s))"

definition liftS :: "'e + 'a \<Rightarrow> ('s, 'e, 'a) action" where
  "liftS r = (\<lambda>s. (r, s))"

definition modS :: "('s \<Rightarrow> 's) \<Rightarrow> ('s, 'e, unit) action" where
  "modS f = (\<lambda>s. (Inr (), f s))"

definition getS :: "('s \<Rightarrow> 'a) \<Rightarrow> ('s, 'e, 'a) action" where
  "getS f = (\<lambda>s. (Inr (f s), s))"

definition bindS :: "('s, 'e, 'a) action \<Rightarrow> ('a \<Rightarrow> ('s, 'e, 'b) action) \<Rightarrow> ('s, 'e, 'b) action" where
  "bindS m f = (\<lambda>s. case m s of (Inl e, s') \<Rightarrow> (Inl e, s') | (Inr a, s') \<Rightarrow> f a s')"

definition thenS :: "('s, 'e, 'a) action \<Rightarrow> ('s, 'e, 'b) action \<Rightarrow> ('s, 'e, 'b) action" where
  "thenS m k = bindS m (\<lambda>_. k)"

text \<open>\<open>try: m / except e: h e\<close>; a handler that does not match re-raises.\<close>

definition catchS :: "('s, 'e, 'a) action \<Rightarrow> ('e \<Rightarrow> ('s, 'e, 'a) action) \<Rightarrow> ('s, 'e, 'a) action" where
  "catchS m h = (\<lambda>s. case m s of (Inl e, s') \<Rightarrow> h e s' | (Inr a, s') \<Rightarrow> (Inr a, s'))"

text \<open>\<open>try: m / finally: c\<close>; an exception of the \<open>finally\<close> block replaces the result.\<close>

definition finallyS :: "('s, 'e, 'a) action \<Rightarrow> ('s, 'e, unit) action \<Rightarrow> ('s, 'e, 'a) action" where
  "finallyS m c = (\<lambda>s. case m s of (r, s') \<Rightarrow>
      (case c s' of (Inl e, s'') \<Rightarrow> (Inl e, s'') | (Inr _, s'') \<Rightarrow> (r, s'')))"

definition whenS :: "bool \<Rightarrow> ('s, 'e, unit) action \<Rightarrow> ('s, 'e, unit) action" where
  "whenS b m = (if b then m else retS ())"

lemma retS_app [simp, mon_simps]: "retS a s = (Inr a, s)"
  by (simp add: retS_def)

lemma raiseS_app [simp, mon_simps]: "raiseS e s = (Inl e, s)"
  by (simp add: raiseS_def)

lemma liftS_app [simp, mon_simps]: "liftS r s = (r, s)"
  by (simp add: liftS_def)

lemma modS_app [simp, mon_simps]: "modS f s = (Inr (), f s)"
  by (simp add: modS_def)

lemma getS_app [simp, mon_simps]: "getS f s = (Inr (f s), s)"
  by (simp add: getS_def)

lemma bindS_Inr [simp, mon_simps]: "m s = (Inr a, s') \<Longrightarrow> bindS m f s = f a s'"
  by (simp add: bindS_def)

lemma bindS_Inl [simp, mon_simps]: "m s = (Inl e, s') \<Longrightarrow> bindS m f s = (Inl e, s')"
  by (simp add: bindS_def)

lemma thenS_Inr [simp, mon_simps]: "m s = (Inr a, s') \<Longrightarrow> thenS m k s = k s'"
  by (simp add: thenS_def)

lemma thenS_Inl [simp, mon_simps]: "m s = (Inl e, s') \<Longrightarrow> thenS m k s = (Inl e, s')"
  by (simp add: thenS_def)

lemma bindS_eq_Inr:
  "bindS m f s = (Inr b, t) \<longleftrightarrow> (\<exists>a s'. m s = (Inr a, s') \<and> f a s' = (Inr b, t))"
  by (auto simp: bindS_def split: prod.splits sum.splits)

lemma bindS_eq_Inl:
  "bindS m f s = (Inl e, t) \<longleftrightarrow>
     m s = (Inl e, t) \<or> (\<exists>a s'. m s = (Inr a, s') \<and> f a s' = (Inl e, t))"
  by (auto simp: bindS_def split: prod.splits sum.splits)

lemma whenS_simps [simp, mon_simps]: "whenS True m = m" "whenS False m = retS ()"
  by (simp_all add: whenS_def)

text \<open>\<open>[m for _ in range(n)]\<close>: run a computation \<open>n\<close> times and collect the results.\<close>

primrec repeatS :: "nat \<Rightarrow> ('s, 'e, 'a) action \<Rightarrow> ('s, 'e, 'a list) action" where
  "repeatS 0 m = retS []"
| "repeatS (Suc n) m = bindS m (\<lambda>x. bindS (repeatS n m) (\<lambda>xs. retS (x # xs)))"

text \<open>\<open>[f x for x in xs]\<close> with effects.\<close>

primrec mapS :: "('a \<Rightarrow> ('s, 'e, 'b) action) \<Rightarrow> 'a list \<Rightarrow> ('s, 'e, 'b list) action" where
  "mapS f [] = retS []"
| "mapS f (x # xs) = bindS (f x) (\<lambda>y. bindS (mapS f xs) (\<lambda>ys. retS (y # ys)))"

lemma repeatS_length: "repeatS n m s = (Inr xs, t) \<Longrightarrow> length xs = n"
  by (induction n arbitrary: s xs t) (auto simp: bindS_eq_Inr)

lemma mapS_length: "mapS f xs s = (Inr ys, t) \<Longrightarrow> length ys = length xs"
  by (induction xs arbitrary: s ys t) (auto simp: bindS_eq_Inr)

lemma mapS_inv:
  assumes "\<And>x s. x \<in> set xs \<Longrightarrow> P s \<Longrightarrow> P (snd (f x s))" and "P s"
  shows "P (snd (mapS f xs s))"
  using assms
proof (induction xs arbitrary: s)
  case Nil
  then show ?case by simp
next
  case (Cons x xs)
  obtain r s' where fx: "f x s = (r, s')" by force
  with Cons.prems have P': "P s'" by (metis list.set_intros(1) snd_conv)
  have IH: "P (snd (mapS f xs s'))"
    using Cons.IH Cons.prems(1) P' by simp
  show ?case
    using fx P' IH by (cases r) (auto simp: bindS_def split: prod.splits sum.splits)
qed

section \<open>Dictionaries as insertion ordered association lists\<close>

type_synonym ('k, 'v) dict = "('k \<times> 'v) list"

abbreviation dict_get :: "('k, 'v) dict \<Rightarrow> 'k \<Rightarrow> 'v option" where
  "dict_get \<equiv> map_of"

text \<open>\<open>d[k] = v\<close>: an existing key keeps its position, a new key goes to the end.\<close>

abbreviation dict_set :: "'k \<Rightarrow> 'v \<Rightarrow> ('k, 'v) dict \<Rightarrow> ('k, 'v) dict" where
  "dict_set \<equiv> AList.update"

abbreviation dict_del :: "'k \<Rightarrow> ('k, 'v) dict \<Rightarrow> ('k, 'v) dict" where
  "dict_del \<equiv> AList.delete"

definition dict_keys :: "('k, 'v) dict \<Rightarrow> 'k list" where
  "dict_keys d = map fst d"

definition dict_has :: "('k, 'v) dict \<Rightarrow> 'k \<Rightarrow> bool" where
  "dict_has d k = (dict_get d k \<noteq> None)"

text \<open>\<open>d.update(e)\<close> and \<open>dict(pairs)\<close>: the assignments of \<open>e\<close> in order.\<close>

definition dict_update :: "('k, 'v) dict \<Rightarrow> ('k, 'v) dict \<Rightarrow> ('k, 'v) dict" where
  "dict_update d e = foldl (\<lambda>m (k, v). dict_set k v m) d e"

definition dict_of_pairs :: "('k \<times> 'v) list \<Rightarrow> ('k, 'v) dict" where
  "dict_of_pairs ps = dict_update [] ps"

definition dict_wf :: "('k, 'v) dict \<Rightarrow> bool" where
  "dict_wf d = distinct (map fst d)"

lemma dict_wf_Nil [simp]: "dict_wf []"
  by (simp add: dict_wf_def)

lemma dict_wf_set [simp, pydict]: "dict_wf d \<Longrightarrow> dict_wf (dict_set k v d)"
  by (simp add: dict_wf_def distinct_update)

lemma dict_wf_del [simp, pydict]: "dict_wf d \<Longrightarrow> dict_wf (dict_del k d)"
  by (simp add: dict_wf_def distinct_delete)

lemma dict_get_set [simp, pydict]:
  "dict_get (dict_set k v d) k' = (if k' = k then Some v else dict_get d k')"
  by (simp add: update_conv)

lemma dict_get_del [simp, pydict]:
  "dict_get (dict_del k d) k' = (if k' = k then None else dict_get d k')"
  by (simp add: delete_conv)

lemma dict_update_Nil [simp]: "dict_update d [] = d"
  by (simp add: dict_update_def)

lemma dict_update_Cons [simp]: "dict_update d ((k, v) # e) = dict_update (dict_set k v d) e"
  by (simp add: dict_update_def)

lemma dict_update_append: "dict_update d (e @ f) = dict_update (dict_update d e) f"
  by (simp add: dict_update_def)

lemma dict_wf_update [simp, pydict]: "dict_wf d \<Longrightarrow> dict_wf (dict_update d e)"
proof (induction e arbitrary: d)
  case Nil
  then show ?case by simp
next
  case (Cons p e)
  then show ?case by (cases p) simp
qed

lemma dict_wf_of_pairs [simp]: "dict_wf (dict_of_pairs ps)"
  by (simp add: dict_of_pairs_def)

text \<open>In a run of assignments the last one to a key wins.\<close>

lemma dict_get_update [pydict]:
  "dict_get (dict_update d e) k =
     (case dict_get (rev e) k of None \<Rightarrow> dict_get d k | Some v \<Rightarrow> Some v)"
proof (induction e arbitrary: d)
  case Nil
  then show ?case by simp
next
  case (Cons p e)
  obtain k' v' where p: "p = (k', v')" by force
  show ?case
    unfolding p dict_update_Cons Cons.IH
    by (cases "dict_get (rev e) k") (simp_all add: map_add_def)
qed

lemma dict_get_of_pairs [pydict]: "dict_get (dict_of_pairs ps) k = dict_get (rev ps) k"
  by (simp add: dict_of_pairs_def dict_get_update split: option.splits)

lemma dict_keys_set: "set (map fst (dict_set k v d)) = insert k (set (map fst d))"
  by (induction d) auto

lemma dict_keys_update: "set (map fst (dict_update d e)) = set (map fst d) \<union> set (map fst e)"
proof (induction e arbitrary: d)
  case Nil
  then show ?case by simp
next
  case (Cons p e)
  obtain k v where p: "p = (k, v)" by force
  show ?case
    unfolding p dict_update_Cons Cons.IH dict_keys_set by auto
qed

lemma dict_set_new: "k \<notin> set (map fst d) \<Longrightarrow> dict_set k v d = d @ [(k, v)]"
  by (induction d) auto

lemma dict_update_distinct:
  "distinct (map fst (d @ e)) \<Longrightarrow> dict_update d e = d @ e"
proof (induction e arbitrary: d)
  case Nil
  then show ?case by simp
next
  case (Cons p e)
  obtain k v where p: "p = (k, v)" by force
  from Cons.prems have new: "k \<notin> set (map fst d)" by (auto simp: p)
  from Cons.prems have "distinct (map fst ((d @ [(k, v)]) @ e))" by (auto simp: p)
  then show ?case using Cons.IH [of "d @ [(k, v)]"] new by (simp add: p dict_set_new)
qed

lemma dict_of_pairs_distinct: "distinct (map fst ps) \<Longrightarrow> dict_of_pairs ps = ps"
  using dict_update_distinct [of "[]" ps] by (simp add: dict_of_pairs_def)

lemma dict_get_in_keys: "dict_get d k = Some v \<Longrightarrow> k \<in> set (map fst d)"
  by (induction d) (auto split: if_splits)

lemma dict_set_length:
  "length (dict_set k v d) = (if k \<in> set (map fst d) then length d else Suc (length d))"
  by (induction d) auto

section \<open>Lists\<close>

lemma filter_id_if: "(\<And>x. x \<in> set xs \<Longrightarrow> P x) \<Longrightarrow> filter P xs = xs"
  by (induction xs) auto

lemma butlast2: "length ys = 2 \<Longrightarrow> take (length (xs @ ys) - 2) (xs @ ys) = xs"
  by simp

text \<open>\<open>xs[::2]\<close> and \<open>xs[1::2]\<close>.\<close>

fun evens :: "'a list \<Rightarrow> 'a list" where
  "evens [] = []"
| "evens [x] = [x]"
| "evens (x # y # xs) = x # evens xs"

fun odds :: "'a list \<Rightarrow> 'a list" where
  "odds [] = []"
| "odds [x] = []"
| "odds (x # y # xs) = y # odds xs"

text \<open>\<open>it = iter(xs); zip(it, it)\<close>: consecutive pairs, a last odd element is dropped.\<close>

fun pairs_of :: "'a list \<Rightarrow> ('a \<times> 'a) list" where
  "pairs_of [] = []"
| "pairs_of [x] = []"
| "pairs_of (x # y # xs) = (x, y) # pairs_of xs"

lemma zip_evens_odds: "zip (evens xs) (odds xs) = pairs_of xs"
  by (induction xs rule: pairs_of.induct) auto

fun unpair :: "('a \<times> 'a) list \<Rightarrow> 'a list" where
  "unpair [] = []"
| "unpair ((x, y) # ps) = x # y # unpair ps"

lemma pairs_of_unpair [simp]: "pairs_of (unpair ps) = ps"
  by (induction ps rule: unpair.induct) auto

lemma length_pairs_of: "length (pairs_of xs) = length xs div 2"
  by (induction xs rule: pairs_of.induct) auto

end
