(* ===== verification/PyStr.thy ===== *)
theory PyStr
  imports Prelude
begin

text \<open>
  What the source uses of Python's \<open>bytes\<close> and \<open>str\<close>. A byte string is a list of
  \<open>char\<close> (a byte each). A \<open>str\<close> is represented by its UTF-8 encoding, so encoding
  to UTF-8 is the identity and decoding is a validity check (\<open>strict\<close>) or the
  replacement of ill-formed sequences by U+FFFD (\<open>replace\<close>). Searching for, splitting at
  and comparing with ASCII text commutes with that representation; \<open>len\<close> of a \<open>str\<close>
  does not, and no model below takes it. Case mapping is the ASCII one.
\<close>

section \<open>Characters\<close>

definition is_digit :: "char \<Rightarrow> bool" where
  "is_digit c = (48 \<le> (of_char c :: nat) \<and> (of_char c :: nat) \<le> 57)"

definition digit_val :: "char \<Rightarrow> nat" where
  "digit_val c = of_char c - 48"

definition digit_char :: "nat \<Rightarrow> char" where
  "digit_char n = char_of (48 + n)"

text \<open>ASCII whitespace: tab, newline, vertical tab, form feed, carriage return, space.\<close>

definition is_ws :: "char \<Rightarrow> bool" where
  "is_ws c = (let n = (of_char c :: nat) in n = 32 \<or> (9 \<le> n \<and> n \<le> 13))"

definition upper_char :: "char \<Rightarrow> char" where
  "upper_char c = (let n = (of_char c :: nat) in if 97 \<le> n \<and> n \<le> 122 then char_of (n - 32) else c)"

definition lower_char :: "char \<Rightarrow> char" where
  "lower_char c = (let n = (of_char c :: nat) in if 65 \<le> n \<and> n \<le> 90 then char_of (n + 32) else c)"

definition upper :: "string \<Rightarrow> string" where
  "upper s = map upper_char s"

definition lower :: "string \<Rightarrow> string" where
  "lower s = map lower_char s"

definition is_upper_char :: "char \<Rightarrow> bool" where
  "is_upper_char c = (65 \<le> (of_char c :: nat) \<and> (of_char c :: nat) \<le> 90)"

lemma digit_char_is_digit [simp]: "n < 10 \<Longrightarrow> is_digit (digit_char n)"
  by (simp add: is_digit_def digit_char_def)

lemma digit_val_char [simp]: "n < 10 \<Longrightarrow> digit_val (digit_char n) = n"
  by (simp add: digit_val_def digit_char_def)

lemma lower_lower [simp]: "lower (lower s) = lower s"
proof -
  have "lower_char (lower_char c) = lower_char c" for c
    by (auto simp: lower_char_def Let_def)
  then show ?thesis by (simp add: lower_def)
qed

section \<open>Decimal numerals\<close>

text \<open>\<open>str(n)\<close> and \<open>repr(n)\<close> of an integer.\<close>

fun dec_nat :: "nat \<Rightarrow> string" where
  "dec_nat n = (if n < 10 then [digit_char n] else dec_nat (n div 10) @ [digit_char (n mod 10)])"

declare dec_nat.simps [simp del]

definition dec_int :: "int \<Rightarrow> string" where
  "dec_int z = (if z < 0 then CHR ''-'' # dec_nat (nat (- z)) else dec_nat (nat z))"

lemma dec_nat_nonempty [simp]: "dec_nat n \<noteq> []"
  by (subst dec_nat.simps) simp

lemma dec_nat_digits: "c \<in> set (dec_nat n) \<Longrightarrow> is_digit c"
proof (induction n rule: dec_nat.induct)
  case (1 n)
  show ?case
  proof (cases "n < 10")
    case True
    with "1.prems" show ?thesis by (simp add: dec_nat.simps [of n])
  next
    case False
    with "1.prems" consider "c \<in> set (dec_nat (n div 10))" | "c = digit_char (n mod 10)"
      by (auto simp: dec_nat.simps [of n])
    then show ?thesis using "1.IH" False by cases simp_all
  qed
qed

text \<open>
  \<open>int(s)\<close>: surrounding whitespace and a sign are allowed, and single underscores between
  digits; anything else is a \<open>ValueError\<close>, here \<open>None\<close>.
\<close>

fun digits_acc :: "nat \<Rightarrow> string \<Rightarrow> nat option" where
  "digits_acc acc [] = Some acc"
| "digits_acc acc (c # cs) =
     (if is_digit c then digits_acc (10 * acc + digit_val c) cs
      else if c = CHR ''_'' then
        (case cs of [] \<Rightarrow> None | d # _ \<Rightarrow> if is_digit d then digits_acc acc cs else None)
      else None)"

definition digits_val :: "string \<Rightarrow> nat option" where
  "digits_val s = (case s of [] \<Rightarrow> None | d # ds \<Rightarrow>
     if is_digit d then digits_acc 0 s else None)"

definition strip :: "string \<Rightarrow> string" where
  "strip s = rev (dropWhile is_ws (rev (dropWhile is_ws s)))"

definition py_int :: "string \<Rightarrow> int option" where
  "py_int s = (case strip s of
       [] \<Rightarrow> None
     | c # cs \<Rightarrow>
         if c = CHR ''-'' then map_option (\<lambda>n. - int n) (digits_val cs)
         else if c = CHR ''+'' then map_option int (digits_val cs)
         else map_option int (digits_val (c # cs)))"

lemma digit_not_ws: "is_digit c \<Longrightarrow> \<not> is_ws c"
  by (auto simp: is_digit_def is_ws_def Let_def)

lemma digit_not_underscore [simp]: "\<not> is_digit (CHR ''_'')" "\<not> is_digit (CHR ''-'')"
    "\<not> is_digit (CHR ''+'')" "\<not> is_digit (CHR '' '')" "\<not> is_digit (CHR '':'')"
    "\<not> is_digit (CHR 0x0D)" "\<not> is_digit (CHR 0x0A)" "\<not> is_digit (CHR ''@'')"
  by (simp_all add: is_digit_def)

lemma minus_not_ws [simp]: "\<not> is_ws (CHR ''-'')"
  by (simp add: is_ws_def)

lemma strip_id:
  assumes "s \<noteq> []" "\<not> is_ws (hd s)" "\<not> is_ws (last s)"
  shows "strip s = s"
proof -
  have "dropWhile is_ws s = s" using assms by (cases s) auto
  moreover have "dropWhile is_ws (rev s) = rev s"
    using assms by (cases s rule: rev_cases) auto
  ultimately show ?thesis by (simp add: strip_def)
qed

lemma digits_acc_append_digit:
  "(\<And>c. c \<in> set s \<Longrightarrow> is_digit c) \<Longrightarrow> is_digit d \<Longrightarrow>
   digits_acc acc (s @ [d]) = map_option (\<lambda>n. 10 * n + digit_val d) (digits_acc acc s)"
  by (induction s arbitrary: acc) auto

lemma digits_acc_dec_nat: "digits_acc 0 (dec_nat n) = Some n"
proof (induction n rule: dec_nat.induct)
  case (1 n)
  show ?case
  proof (cases "n < 10")
    case True
    then show ?thesis by (simp add: dec_nat.simps [of n])
  next
    case False
    have "digits_acc 0 (dec_nat (n div 10) @ [digit_char (n mod 10)]) = Some (10 * (n div 10) + n mod 10)"
      using "1.IH" [OF False] by (simp add: digits_acc_append_digit dec_nat_digits)
    with False show ?thesis by (simp add: dec_nat.simps [of n])
  qed
qed

lemma hd_last_dec_nat: "is_digit (hd (dec_nat n))" "is_digit (last (dec_nat n))"
  using dec_nat_digits [of "hd (dec_nat n)" n] dec_nat_digits [of "last (dec_nat n)" n]
  by simp_all

lemma digits_val_dec_nat [simp]: "digits_val (dec_nat n) = Some n"
proof -
  obtain d ds where s: "dec_nat n = d # ds" by (cases "dec_nat n") auto
  moreover have "is_digit d" using hd_last_dec_nat(1) [of n] by (simp add: s)
  ultimately show ?thesis using digits_acc_dec_nat [of n] by (simp add: digits_val_def)
qed

lemma py_int_dec_nat [simp, pystr]: "py_int (dec_nat n) = Some (int n)"
proof -
  have st: "strip (dec_nat n) = dec_nat n"
    by (rule strip_id) (simp_all add: hd_last_dec_nat digit_not_ws)
  obtain d ds where s: "dec_nat n = d # ds" by (cases "dec_nat n") auto
  have d: "is_digit d" using hd_last_dec_nat(1) [of n] by (simp add: s)
  then have "d \<noteq> CHR ''-''" "d \<noteq> CHR ''+''" by auto
  moreover have "digits_val (d # ds) = Some n" by (metis s digits_val_dec_nat)
  moreover have "strip (d # ds) = d # ds" by (metis s st)
  ultimately show ?thesis by (simp add: py_int_def s)
qed

lemma py_int_dec_int [simp, pystr]: "py_int (dec_int z) = Some z"
proof (cases "z < 0")
  case True
  let ?m = "dec_nat (nat (- z))"
  have st: "strip (CHR ''-'' # ?m) = CHR ''-'' # ?m"
    by (rule strip_id) (simp_all add: hd_last_dec_nat digit_not_ws minus_not_ws)
  with True show ?thesis by (simp add: dec_int_def py_int_def)
next
  case False
  then show ?thesis by (simp add: dec_int_def)
qed

lemma dec_int_no_crlf: "c \<in> set (dec_int z) \<Longrightarrow> is_digit c \<or> c = CHR ''-''"
  using dec_nat_digits by (auto simp: dec_int_def split: if_splits)

section \<open>Searching and splitting\<close>

text \<open>\<open>s.split(sep)\<close> at every character that satisfies \<open>P\<close>.\<close>

fun split_on :: "(char \<Rightarrow> bool) \<Rightarrow> string \<Rightarrow> string list" where
  "split_on P [] = [[]]"
| "split_on P (x # xs) =
     (if P x then [] # split_on P xs
      else (case split_on P xs of [] \<Rightarrow> [[x]] | y # ys \<Rightarrow> (x # y) # ys))"

definition split_char :: "char \<Rightarrow> string \<Rightarrow> string list" where
  "split_char c s = split_on (\<lambda>x. x = c) s"

text \<open>\<open>s.split()\<close>: maximal runs of non-whitespace.\<close>

definition split_ws :: "string \<Rightarrow> string list" where
  "split_ws s = filter (\<lambda>w. w \<noteq> []) (split_on is_ws s)"

text \<open>\<open>s.split(c, 1)\<close> and \<open>s.rsplit(c, 1)\<close> when the separator occurs.\<close>

fun split1 :: "char \<Rightarrow> string \<Rightarrow> (string \<times> string) option" where
  "split1 c [] = None"
| "split1 c (x # xs) =
     (if x = c then Some ([], xs) else map_option (\<lambda>(a, b). (x # a, b)) (split1 c xs))"

definition rsplit1 :: "char \<Rightarrow> string \<Rightarrow> (string \<times> string) option" where
  "rsplit1 c s = map_option (\<lambda>(a, b). (rev b, rev a)) (split1 c (rev s))"

text \<open>\<open>s.find(c, start)\<close>.\<close>

fun find_index :: "char \<Rightarrow> string \<Rightarrow> nat option" where
  "find_index c [] = None"
| "find_index c (x # xs) = (if x = c then Some 0 else map_option Suc (find_index c xs))"

definition py_find :: "char \<Rightarrow> string \<Rightarrow> nat \<Rightarrow> int" where
  "py_find c s start = (case find_index c (drop start s) of None \<Rightarrow> -1 | Some i \<Rightarrow> int (start + i))"

definition starts_with :: "string \<Rightarrow> string \<Rightarrow> bool" where
  "starts_with p s = (take (length p) s = p)"

fun has_sub :: "string \<Rightarrow> string \<Rightarrow> bool" where
  "has_sub p [] = (p = [])"
| "has_sub p (x # xs) = (starts_with p (x # xs) \<or> has_sub p xs)"

text \<open>\<open>s.split(sep, 1)\<close> for a longer separator.\<close>

fun split1_sub :: "string \<Rightarrow> string \<Rightarrow> (string \<times> string) option" where
  "split1_sub p [] = None"
| "split1_sub p (x # xs) =
     (if starts_with p (x # xs) then Some ([], drop (length p) (x # xs))
      else map_option (\<lambda>(a, b). (x # a, b)) (split1_sub p xs))"

fun join_with :: "string \<Rightarrow> string list \<Rightarrow> string" where
  "join_with sep [] = []"
| "join_with sep [w] = w"
| "join_with sep (w # v # ws) = w @ sep @ join_with sep (v # ws)"

lemma split_on_nonempty [simp]: "split_on P s \<noteq> []"
  by (induction s) (auto split: list.splits)

lemma split_on_none: "(\<And>c. c \<in> set s \<Longrightarrow> \<not> P c) \<Longrightarrow> split_on P s = [s]"
  by (induction s) auto

lemma split_on_append_sep:
  "(\<And>c. c \<in> set s \<Longrightarrow> \<not> P c) \<Longrightarrow> P x \<Longrightarrow> split_on P (s @ x # t) = s # split_on P t"
  by (induction s) auto

lemma split_char_no_sep: "c \<notin> set s \<Longrightarrow> split_char c s = [s]"
  unfolding split_char_def by (rule split_on_none) auto

lemma split_char_append: "c \<notin> set s \<Longrightarrow> split_char c (s @ c # t) = s # split_char c t"
  unfolding split_char_def by (rule split_on_append_sep) auto

lemma join_split_char: "join_with [c] (split_char c s) = s"
proof (induction s)
  case Nil
  show ?case by (simp add: split_char_def)
next
  case (Cons x xs)
  obtain y ys where sp: "split_on (\<lambda>x. x = c) xs = y # ys"
    by (cases "split_on (\<lambda>x. x = c) xs") auto
  with Cons show ?case by (cases ys) (auto simp: split_char_def)
qed

lemma split1_None_iff: "split1 c s = None \<longleftrightarrow> c \<notin> set s"
  by (induction s) auto

lemma split1_append: "c \<notin> set a \<Longrightarrow> split1 c (a @ c # b) = Some (a, b)"
  by (induction a) auto

lemma split1_Some: "split1 c s = Some (a, b) \<Longrightarrow> s = a @ c # b \<and> c \<notin> set a"
  by (induction s arbitrary: a) (auto split: if_splits)

lemma rsplit1_append: "c \<notin> set b \<Longrightarrow> rsplit1 c (a @ c # b) = Some (a, b)"
  using split1_append [of c "rev b" "rev a"] by (simp add: rsplit1_def)

lemma find_index_None: "find_index c s = None \<longleftrightarrow> c \<notin> set s"
  by (induction s) auto

lemma find_index_append: "c \<notin> set a \<Longrightarrow> find_index c (a @ c # b) = Some (length a)"
  by (induction a) auto

lemma find_index_Some:
  "find_index c s = Some i \<Longrightarrow> i < length s \<and> s ! i = c \<and> c \<notin> set (take i s)"
proof (induction s arbitrary: i)
  case Nil
  then show ?case by simp
next
  case (Cons x xs)
  then show ?case by (cases i) (auto split: if_splits)
qed

section \<open>UTF-8\<close>

text \<open>
  One decoding step on a non-empty byte sequence: \<open>Inr n\<close> for a well-formed character of
  \<open>n\<close> bytes, \<open>Inl n\<close> for an ill-formed maximal subpart of \<open>n\<close> bytes (Unicode
  table 3-7, as CPython's decoder).
\<close>

definition u8_cont :: "nat \<Rightarrow> bool" where
  "u8_cont b = (128 \<le> b \<and> b \<le> 191)"

definition u8_lead :: "nat \<Rightarrow> nat" where
  "u8_lead b = (if 194 \<le> b \<and> b \<le> 223 then 2 else if 224 \<le> b \<and> b \<le> 239 then 3
                else if 240 \<le> b \<and> b \<le> 244 then 4 else 0)"

definition u8_second :: "nat \<Rightarrow> nat \<Rightarrow> bool" where
  "u8_second b0 b1 =
     (if b0 = 224 then 160 \<le> b1 \<and> b1 \<le> 191
      else if b0 = 237 then 128 \<le> b1 \<and> b1 \<le> 159
      else if b0 = 240 then 144 \<le> b1 \<and> b1 \<le> 191
      else if b0 = 244 then 128 \<le> b1 \<and> b1 \<le> 143
      else u8_cont b1)"

fun u8_step :: "nat list \<Rightarrow> nat + nat" where
  "u8_step [] = Inl 1"
| "u8_step (b0 # r0) =
     (if b0 < 128 then Inr 1
      else if u8_lead b0 = 0 then Inl 1
      else (case r0 of [] \<Rightarrow> Inl 1 | b1 # r1 \<Rightarrow>
        if \<not> u8_second b0 b1 then Inl 1
        else if u8_lead b0 = 2 then Inr 2
        else (case r1 of [] \<Rightarrow> Inl 2 | b2 # r2 \<Rightarrow>
          if \<not> u8_cont b2 then Inl 2
          else if u8_lead b0 = 3 then Inr 3
          else (case r2 of [] \<Rightarrow> Inl 3 | b3 # _ \<Rightarrow>
            if u8_cont b3 then Inr 4 else Inl 3))))"

definition u8_width :: "nat + nat \<Rightarrow> nat" where
  "u8_width r = (case r of Inl n \<Rightarrow> n | Inr n \<Rightarrow> n)"

lemma u8_width_pos: "0 < u8_width (u8_step bs)"
  by (cases bs) (auto simp: u8_width_def split: list.splits)

definition u8_next :: "string \<Rightarrow> nat + nat" where
  "u8_next s = u8_step (map of_char (take 4 s))"

function utf8_valid :: "string \<Rightarrow> bool" where
  "utf8_valid s = (if s = [] then True else
     (case u8_next s of Inl _ \<Rightarrow> False | Inr n \<Rightarrow> utf8_valid (drop n s)))"
  by pat_completeness auto
termination
proof (relation "measure length")
  show "wf (measure length)" by simp
next
  fix s :: string and n
  assume "s \<noteq> []" "u8_next s = Inr n"
  then show "(drop n s, s) \<in> measure length"
    using u8_width_pos [of "map of_char (take 4 s)"] by (cases s) (auto simp: u8_next_def u8_width_def)
qed

declare utf8_valid.simps [simp del]

text \<open>U+FFFD in UTF-8.\<close>

definition replacement_char :: string where
  "replacement_char = [CHR 0xEF, CHR 0xBF, CHR 0xBD]"

function utf8_replace :: "string \<Rightarrow> string" where
  "utf8_replace s = (if s = [] then [] else
     (case u8_next s of
        Inl n \<Rightarrow> replacement_char @ utf8_replace (drop n s)
      | Inr n \<Rightarrow> take n s @ utf8_replace (drop n s)))"
  by pat_completeness auto
termination
proof (relation "measure length")
  show "wf (measure length)" by simp
next
  fix s :: string and n
  assume "s \<noteq> []" "u8_next s = Inl n"
  then show "(drop n s, s) \<in> measure length"
    using u8_width_pos [of "map of_char (take 4 s)"] by (cases s) (auto simp: u8_next_def u8_width_def)
next
  fix s :: string and n
  assume "s \<noteq> []" "u8_next s = Inr n"
  then show "(drop n s, s) \<in> measure length"
    using u8_width_pos [of "map of_char (take 4 s)"] by (cases s) (auto simp: u8_next_def u8_width_def)
qed

declare utf8_replace.simps [simp del]

lemma utf8_Nil [simp]: "utf8_valid []" "utf8_replace [] = []"
  by (simp_all add: utf8_valid.simps utf8_replace.simps)

text \<open>Decoding with \<open>errors="replace"\<close> does not change well-formed input.\<close>

lemma utf8_replace_valid [simp, pystr]: "utf8_valid s \<Longrightarrow> utf8_replace s = s"
proof (induction s rule: utf8_valid.induct)
  case (1 s)
  show ?case
  proof (cases "s = []")
    case True
    then show ?thesis by simp
  next
    case False
    with "1.prems" obtain n where n: "u8_next s = Inr n" and v: "utf8_valid (drop n s)"
      by (auto simp: utf8_valid.simps [of s] split: sum.splits)
    have "utf8_replace (drop n s) = drop n s"
      using "1.IH" [OF False n] v by simp
    with False n show ?thesis by (simp add: utf8_replace.simps [of s])
  qed
qed

definition ascii :: "string \<Rightarrow> bool" where
  "ascii s = (\<forall>c \<in> set s. (of_char c :: nat) < 128)"

lemma u8_next_ascii: "(of_char c :: nat) < 128 \<Longrightarrow> u8_next (c # s) = Inr 1"
  by (simp add: u8_next_def)

lemma ascii_utf8_valid [simp, pystr]: "ascii s \<Longrightarrow> utf8_valid s"
proof (induction s)
  case Nil
  then show ?case by simp
next
  case (Cons c s)
  then show ?case
    by (simp add: utf8_valid.simps [of "c # s"] u8_next_ascii ascii_def)
qed

end
