(* ===== verification/Exceptions.thy ===== *)
theory Exceptions
  imports PyStr
begin

text \<open>
  The exception classes of \<open>redis/exceptions.py\<close> and the Python classes the source
  raises or catches, their inheritance, and the redirection errors, whose constructor parses
  the message sent by the cluster. An exception is its class and its first argument.
\<close>

section \<open>Classes and inheritance\<close>

text \<open>
  The last group are Python's own classes (\<open>SocketTimeout\<close> is \<open>socket.timeout\<close>) and the
  two classes of \<open>redis/sentinel.py\<close>. A cancelled task of \<open>asyncio\<close> raises \<open>CancelledError\<close>, which is no \<open>Exception\<close>.
\<close>

datatype exc_class =
    RedisError | ConnectionError | TimeoutError | AuthenticationError | AuthorizationError
  | BusyLoadingError | InvalidResponse | ResponseError | DataError | PubSubError | WatchError
  | NoScriptError | OutOfMemoryError | ExecAbortError | ReadOnlyError | NoPermissionError
  | ModuleError | LockError | LockNotOwnedError | ChildDeadlockedError
  | AuthenticationWrongNumberOfArgsError | RedisClusterException | ClusterError
  | ClusterDownError | AskError | TryAgainError | ClusterCrossSlotError | MovedError
  | MasterDownError | SlotNotCoveredError | MaxConnectionsError
  | PyException | ValueError | TypeError | KeyError | IndexError | AttributeError | OSError
  | SocketTimeout | BlockingIOError | UnicodeDecodeError | RuntimeError | RecursionError
  | AssertionError | NameError | UnboundLocalError | OverflowError | NotImplementedError | MasterNotFoundError | SlaveNotFoundError
  | CancelledError | StopIteration

fun exc_bases :: "exc_class \<Rightarrow> exc_class list" where
  "exc_bases RedisError = [PyException]"
| "exc_bases ConnectionError = [RedisError]"
| "exc_bases TimeoutError = [RedisError]"
| "exc_bases AuthenticationError = [ConnectionError]"
| "exc_bases AuthorizationError = [ConnectionError]"
| "exc_bases BusyLoadingError = [ConnectionError]"
| "exc_bases InvalidResponse = [RedisError]"
| "exc_bases ResponseError = [RedisError]"
| "exc_bases DataError = [RedisError]"
| "exc_bases PubSubError = [RedisError]"
| "exc_bases WatchError = [RedisError]"
| "exc_bases NoScriptError = [ResponseError]"
| "exc_bases OutOfMemoryError = [ResponseError]"
| "exc_bases ExecAbortError = [ResponseError]"
| "exc_bases ReadOnlyError = [ResponseError]"
| "exc_bases NoPermissionError = [ResponseError]"
| "exc_bases ModuleError = [ResponseError]"
| "exc_bases LockError = [RedisError, ValueError]"
| "exc_bases LockNotOwnedError = [LockError]"
| "exc_bases ChildDeadlockedError = [PyException]"
| "exc_bases AuthenticationWrongNumberOfArgsError = [ResponseError]"
| "exc_bases RedisClusterException = [PyException]"
| "exc_bases ClusterError = [RedisError]"
| "exc_bases ClusterDownError = [ClusterError, ResponseError]"
| "exc_bases AskError = [ResponseError]"
| "exc_bases TryAgainError = [ResponseError]"
| "exc_bases ClusterCrossSlotError = [ResponseError]"
| "exc_bases MovedError = [AskError]"
| "exc_bases MasterDownError = [ClusterDownError]"
| "exc_bases SlotNotCoveredError = [RedisClusterException]"
| "exc_bases MaxConnectionsError = [ConnectionError]"
| "exc_bases PyException = []"
| "exc_bases ValueError = [PyException]"
| "exc_bases TypeError = [PyException]"
| "exc_bases KeyError = [PyException]"
| "exc_bases IndexError = [PyException]"
| "exc_bases AttributeError = [PyException]"
| "exc_bases OSError = [PyException]"
| "exc_bases SocketTimeout = [OSError]"
| "exc_bases BlockingIOError = [OSError]"
| "exc_bases UnicodeDecodeError = [ValueError]"
| "exc_bases RuntimeError = [PyException]"
| "exc_bases RecursionError = [RuntimeError]"
| "exc_bases AssertionError = [PyException]"
| "exc_bases NameError = [PyException]"
| "exc_bases UnboundLocalError = [NameError]"
| "exc_bases OverflowError = [PyException]"
| "exc_bases NotImplementedError = [RuntimeError]"
| "exc_bases MasterNotFoundError = [ConnectionError]"
| "exc_bases SlaveNotFoundError = [ConnectionError]"
| "exc_bases CancelledError = []"
| "exc_bases StopIteration = [PyException]"

text \<open>The length of the longest chain up to \<open>Exception\<close>.\<close>

definition exc_rank :: "exc_class \<Rightarrow> nat" where
  "exc_rank c = (case c of
      PyException \<Rightarrow> 0
    | RedisError \<Rightarrow> 1 | ValueError \<Rightarrow> 1 | TypeError \<Rightarrow> 1 | KeyError \<Rightarrow> 1 | IndexError \<Rightarrow> 1
    | AttributeError \<Rightarrow> 1 | OSError \<Rightarrow> 1 | RuntimeError \<Rightarrow> 1 | AssertionError \<Rightarrow> 1
    | ChildDeadlockedError \<Rightarrow> 1 | NameError \<Rightarrow> 1 | RedisClusterException \<Rightarrow> 1
    | ConnectionError \<Rightarrow> 2 | TimeoutError \<Rightarrow> 2 | InvalidResponse \<Rightarrow> 2 | ResponseError \<Rightarrow> 2
    | DataError \<Rightarrow> 2 | PubSubError \<Rightarrow> 2 | WatchError \<Rightarrow> 2 | LockError \<Rightarrow> 2 | ClusterError \<Rightarrow> 2
    | SocketTimeout \<Rightarrow> 2 | BlockingIOError \<Rightarrow> 2 | UnicodeDecodeError \<Rightarrow> 2
    | RecursionError \<Rightarrow> 2 | SlotNotCoveredError \<Rightarrow> 2
    | MovedError \<Rightarrow> 4 | MasterDownError \<Rightarrow> 4
    | _ \<Rightarrow> 3)"

lemma exc_bases_rank: "d \<in> set (exc_bases c) \<Longrightarrow> exc_rank d < exc_rank c"
  by (cases c) (auto simp: exc_rank_def)

function exc_le :: "exc_class \<Rightarrow> exc_class \<Rightarrow> bool" where
  "exc_le c d = (if c = d then True else (\<exists>b \<in> set (exc_bases c). exc_le b d))"
  by pat_completeness auto
termination
  by (relation "measure (\<lambda>(c, _). exc_rank c)") (auto simp: exc_bases_rank)

declare exc_le.simps [simp del]

lemma subclass_refl [simp]: "exc_le c c"
  by (simp add: exc_le.simps)

lemma subclass_base: "b \<in> set (exc_bases c) \<Longrightarrow> exc_le b d \<Longrightarrow> exc_le c d"
  by (subst exc_le.simps) auto

lemma subclass_trans: "exc_le c d \<Longrightarrow> exc_le d e \<Longrightarrow> exc_le c e"
proof (induction c d rule: exc_le.induct)
  case (1 c d)
  show ?case
  proof (cases "c = d")
    case True
    with "1.prems" show ?thesis by simp
  next
    case False
    with "1.prems"(1) obtain b where "b \<in> set (exc_bases c)" "exc_le b d"
      by (auto simp: exc_le.simps [of c d])
    with "1.IH" [OF False] "1.prems"(2) show ?thesis
      by (blast intro: subclass_base)
  qed
qed

text \<open>The classes are ordered by inheritance: a class is at most its bases.\<close>

lemma exc_le_rank: "exc_le c d \<Longrightarrow> c = d \<or> exc_rank d < exc_rank c"
proof (induction c d rule: exc_le.induct)
  case (1 c d)
  show ?case
  proof (cases "c = d")
    case False
    with "1.prems" obtain b where "b \<in> set (exc_bases c)" "exc_le b d"
      by (auto simp: exc_le.simps [of c d])
    with "1.IH" [OF False] exc_bases_rank [of b c] show ?thesis by fastforce
  qed simp
qed

instantiation exc_class :: order
begin

definition less_eq_exc_class :: "exc_class \<Rightarrow> exc_class \<Rightarrow> bool" where
  "less_eq_exc_class c d = exc_le c d"

definition less_exc_class :: "exc_class \<Rightarrow> exc_class \<Rightarrow> bool" where
  "less_exc_class c d = (exc_le c d \<and> \<not> exc_le d c)"

instance
proof
  fix c d e :: exc_class
  show "c \<le> d \<Longrightarrow> d \<le> e \<Longrightarrow> c \<le> e" unfolding less_eq_exc_class_def by (rule subclass_trans)
  show "c \<le> d \<Longrightarrow> d \<le> c \<Longrightarrow> c = d" unfolding less_eq_exc_class_def using exc_le_rank [of c d] exc_le_rank [of d c] by auto
qed (simp_all add: less_eq_exc_class_def less_exc_class_def)

end

text \<open>The instances of the classes the handlers of the source catch.\<close>

lemma subclass_ConnectionError_iff [simp]:
  "exc_le c ConnectionError \<longleftrightarrow> c \<in> {ConnectionError, AuthenticationError, AuthorizationError,
     BusyLoadingError, MaxConnectionsError, MasterNotFoundError, SlaveNotFoundError}"
  by (cases c) (simp_all add: exc_le.simps)

lemma subclass_TimeoutError_iff [simp]: "exc_le c TimeoutError \<longleftrightarrow> c = TimeoutError"
  by (cases c) (simp_all add: exc_le.simps)

lemma subclass_ResponseError_iff [simp]:
  "exc_le c ResponseError \<longleftrightarrow> c \<in> {ResponseError, NoScriptError, OutOfMemoryError, ExecAbortError,
     ReadOnlyError, NoPermissionError, ModuleError, AuthenticationWrongNumberOfArgsError,
     ClusterDownError, AskError, TryAgainError, ClusterCrossSlotError, MovedError, MasterDownError}"
  by (cases c) (simp_all add: exc_le.simps)

lemma subclass_OSError_iff [simp]:
  "exc_le c OSError \<longleftrightarrow> c \<in> {OSError, SocketTimeout, BlockingIOError}"
  by (cases c) (simp_all add: exc_le.simps)

lemma subclass_SocketTimeout_iff [simp]: "exc_le c SocketTimeout \<longleftrightarrow> c = SocketTimeout"
  by (cases c) (simp_all add: exc_le.simps)

lemma subclass_AuthenticationError_iff [simp]:
  "exc_le c AuthenticationError \<longleftrightarrow> c = AuthenticationError"
  by (cases c) (simp_all add: exc_le.simps)

lemma subclass_MovedError_iff [simp]: "exc_le c MovedError \<longleftrightarrow> c = MovedError"
  by (cases c) (simp_all add: exc_le.simps)

lemma subclass_AskError_iff [simp]: "exc_le c AskError \<longleftrightarrow> c \<in> {AskError, MovedError}"
  by (cases c) (simp_all add: exc_le.simps)

lemma subclass_TryAgainError_iff [simp]: "exc_le c TryAgainError \<longleftrightarrow> c = TryAgainError"
  by (cases c) (simp_all add: exc_le.simps)

lemma subclass_ClusterDownError_iff [simp]:
  "exc_le c ClusterDownError \<longleftrightarrow> c \<in> {ClusterDownError, MasterDownError}"
  by (cases c) (simp_all add: exc_le.simps)

lemma subclass_WatchError_iff [simp]: "exc_le c WatchError \<longleftrightarrow> c = WatchError"
  by (cases c) (simp_all add: exc_le.simps)

lemma subclass_ExecAbortError_iff [simp]: "exc_le c ExecAbortError \<longleftrightarrow> c = ExecAbortError"
  by (cases c) (simp_all add: exc_le.simps)

lemma subclass_ReadOnlyError_iff [simp]: "exc_le c ReadOnlyError \<longleftrightarrow> c = ReadOnlyError"
  by (cases c) (simp_all add: exc_le.simps)

lemma subclass_MasterNotFoundError_iff [simp]:
  "exc_le c MasterNotFoundError \<longleftrightarrow> c = MasterNotFoundError"
  by (cases c) (simp_all add: exc_le.simps)

lemma subclass_RedisError_iff:
  "exc_le c RedisError \<longleftrightarrow> c \<notin> {ChildDeadlockedError, RedisClusterException, SlotNotCoveredError,
     PyException, ValueError, TypeError, KeyError, IndexError, AttributeError, OSError,
     SocketTimeout, BlockingIOError, UnicodeDecodeError, RuntimeError, RecursionError, AssertionError,
     NameError, UnboundLocalError, OverflowError, NotImplementedError, CancelledError, StopIteration}"
  by (cases c) (simp_all add: exc_le.simps)

lemma subclass_PyException_iff [simp]: "exc_le c PyException \<longleftrightarrow> c \<noteq> CancelledError"
  by (cases c) (simp_all add: exc_le.simps)

lemma subclass_MaxConnectionsError_iff [simp]: "exc_le c MaxConnectionsError \<longleftrightarrow> c = MaxConnectionsError"
  by (cases c) (simp_all add: exc_le.simps)

lemma subclass_BusyLoadingError_iff [simp]: "exc_le c BusyLoadingError \<longleftrightarrow> c = BusyLoadingError"
  by (cases c) (simp_all add: exc_le.simps)

section \<open>Exception values\<close>

datatype exc = Exc (exc_cls: exc_class) (exc_msg: string)

definition isinstance :: "exc \<Rightarrow> exc_class \<Rightarrow> bool" where
  "isinstance e c = exc_le (exc_cls e) c"

definition isinstance_any :: "exc \<Rightarrow> exc_class list \<Rightarrow> bool" where
  "isinstance_any e cs = (\<exists>c \<in> set cs. isinstance e c)"

lemma isinstance_Exc [simp]: "isinstance (Exc c m) d = exc_le c d"
  by (simp add: isinstance_def)

lemma isinstance_le: "isinstance e c \<longleftrightarrow> exc_cls e \<le> c"
  by (simp add: isinstance_def less_eq_exc_class_def)

text \<open>An \<open>except\<close> clause for a base class catches every instance of a class below it.\<close>

lemma isinstance_trans: "isinstance e c \<Longrightarrow> exc_le c d \<Longrightarrow> isinstance e d"
  unfolding isinstance_def by (rule subclass_trans)

section \<open>Redirection errors\<close>

record redirect =
  slot_id :: int
  redir_host :: string
  redir_port :: int

text \<open>
  \<open>AskError.__init__\<close>, which \<open>MovedError\<close> inherits: the message is
  \<open>"<slot> <host>:<port>"\<close>; a wrong number of fields or a non-numeric slot or port raises
  \<open>ValueError\<close> from the constructor.
\<close>

definition ask_error_init :: "string \<Rightarrow> exc + redirect" where
  "ask_error_init resp =
     (case split_char (CHR '' '') resp of
        [slot, new_node] \<Rightarrow>
          (case rsplit1 (CHR '':'') new_node of
             None \<Rightarrow> Inl (Exc ValueError ''not enough values to unpack (expected 2, got 1)'')
           | Some (host, port) \<Rightarrow>
               (case py_int slot of
                  None \<Rightarrow> Inl (Exc ValueError ''invalid literal for int()'')
                | Some n \<Rightarrow>
                    (case py_int port of
                       None \<Rightarrow> Inl (Exc ValueError ''invalid literal for int()'')
                     | Some p \<Rightarrow> Inr \<lparr>slot_id = n, redir_host = host, redir_port = p\<rparr>)))
      | _ \<Rightarrow> Inl (Exc ValueError ''wrong number of values to unpack (expected 2)''))"

definition ask_message :: "redirect \<Rightarrow> string" where
  "ask_message r = dec_int (slot_id r) @ '' '' @ redir_host r @ '':'' @ dec_int (redir_port r)"

lemma dec_int_no_space: "CHR '' '' \<notin> set (dec_int z)"
  using dec_int_no_crlf [of "CHR '' ''" z] by auto

lemma dec_int_no_colon: "CHR '':'' \<notin> set (dec_int z)"
  using dec_int_no_crlf [of "CHR '':''" z] by auto

text \<open>Every redirection to a host without spaces, IPv6 addresses included, is read back.\<close>

lemma ask_error_init_message:
  assumes "CHR '' '' \<notin> set (redir_host r)"
  shows "ask_error_init (ask_message r) = Inr r"
proof -
  let ?node = "redir_host r @ CHR '':'' # dec_int (redir_port r)"
  have "CHR '' '' \<notin> set ?node" using assms dec_int_no_space by auto
  then have "split_char (CHR '' '') (dec_int (slot_id r) @ CHR '' '' # ?node)
      = [dec_int (slot_id r), ?node]"
    by (simp add: split_char_append dec_int_no_space split_char_no_sep)
  moreover have "rsplit1 (CHR '':'') ?node = Some (redir_host r, dec_int (redir_port r))"
    by (rule rsplit1_append) (rule dec_int_no_colon)
  ultimately show ?thesis
    by (simp add: ask_error_init_def ask_message_def)
qed

end
