(* ===== verification/PyVal.thy ===== *)
theory PyVal
  imports Exceptions
begin

text \<open>
  The Python values that travel through the client: arguments of commands and responses of
  the server. Floats are exact rationals with the two infinities and NaN (rounding to binary
  is not modelled); a \<open>dict\<close> is an insertion ordered association list; an exception
  instance may be an element of a response, as the parsers return it.
\<close>

datatype pyfloat = Fin rat | PosInf | NegInf | NaN

datatype pyval =
    PNone
  | PBool bool
  | PInt int
  | PFloat pyfloat
  | PStr string
  | PBytes string
  | PMemoryview string
  | PList "pyval list"
  | PTuple "pyval list"
  | PDict "(pyval \<times> pyval) list"
  | PSet "pyval list"
  | PExc exc

text \<open>\<open>bool(v)\<close>.\<close>

fun truthy :: "pyval \<Rightarrow> bool" where
  "truthy PNone = False"
| "truthy (PBool b) = b"
| "truthy (PInt n) = (n \<noteq> 0)"
| "truthy (PFloat f) = (f \<noteq> Fin 0)"
| "truthy (PStr s) = (s \<noteq> [])"
| "truthy (PBytes s) = (s \<noteq> [])"
| "truthy (PMemoryview s) = (s \<noteq> [])"
| "truthy (PList xs) = (xs \<noteq> [])"
| "truthy (PTuple xs) = (xs \<noteq> [])"
| "truthy (PDict d) = (d \<noteq> [])"
| "truthy (PSet xs) = (xs \<noteq> [])"
| "truthy (PExc e) = True"

text \<open>
  Keys of a \<open>dict\<close>: lists, dicts and sets are unhashable; \<open>True\<close>, \<open>1\<close> and
  \<open>1.0\<close> are the same key. A key already present keeps its first form.
\<close>

fun hashable :: "pyval \<Rightarrow> bool" where
  "hashable (PList _) = False"
| "hashable (PDict _) = False"
| "hashable (PSet _) = False"
| "hashable (PTuple xs) = list_all hashable xs"
| "hashable _ = True"

fun num_key :: "pyval \<Rightarrow> pyval" where
  "num_key (PBool b) = PInt (if b then 1 else 0)"
| "num_key (PFloat (Fin q)) = (if of_int (floor q) = q then PInt (floor q) else PFloat (Fin q))"
| "num_key (PTuple xs) = PTuple (map num_key xs)"
| "num_key v = v"

definition py_key_eq :: "pyval \<Rightarrow> pyval \<Rightarrow> bool" where
  "py_key_eq a b = (num_key a = num_key b)"

fun pd_get :: "pyval \<Rightarrow> (pyval \<times> pyval) list \<Rightarrow> pyval option" where
  "pd_get k [] = None"
| "pd_get k ((k', v) # d) = (if py_key_eq k k' then Some v else pd_get k d)"

fun pd_set :: "pyval \<Rightarrow> pyval \<Rightarrow> (pyval \<times> pyval) list \<Rightarrow> (pyval \<times> pyval) list" where
  "pd_set k v [] = [(k, v)]"
| "pd_set k v ((k', v') # d) =
     (if py_key_eq k k' then (k', v) # d else (k', v') # pd_set k v d)"

definition unhashable_error :: exc where
  "unhashable_error = Exc TypeError ''unhashable type''"

text \<open>\<open>dict(pairs)\<close>: later pairs overwrite earlier ones; an unhashable key raises.\<close>

fun py_dict :: "(pyval \<times> pyval) list \<Rightarrow> (pyval \<times> pyval) list \<Rightarrow> exc + (pyval \<times> pyval) list" where
  "py_dict d [] = Inr d"
| "py_dict d ((k, v) # ps) =
     (if hashable k then py_dict (pd_set k v d) ps else Inl unhashable_error)"

lemma py_key_eq_refl [simp]: "py_key_eq k k"
  by (simp add: py_key_eq_def)

lemma py_key_eq_PStr [simp]: "py_key_eq (PStr a) (PStr b) \<longleftrightarrow> a = b"
    "py_key_eq (PBytes a) (PBytes b) \<longleftrightarrow> a = b"
    "py_key_eq (PStr a) (PBytes b) \<longleftrightarrow> False"
    "py_key_eq (PBytes a) (PStr b) \<longleftrightarrow> False"
  by (simp_all add: py_key_eq_def)

lemma pd_get_set [simp, pydict]:
  "pd_get k (pd_set k' v d) = (if py_key_eq k k' then Some v else pd_get k d)"
  by (induction d) (auto simp: py_key_eq_def)

lemma pd_set_new: "(\<And>k'. k' \<in> set (map fst d) \<Longrightarrow> \<not> py_key_eq k k') \<Longrightarrow> pd_set k v d = d @ [(k, v)]"
  by (induction d) auto

lemma py_dict_distinct_str:
  assumes "distinct (ks' @ ks)" "length ks' = length vs'" "length ks = length vs"
  shows "py_dict (zip (map PStr ks') vs') (zip (map PStr ks) vs)
       = Inr (zip (map PStr ks') vs' @ zip (map PStr ks) vs)"
  using assms(3,1,2)
proof (induction ks vs arbitrary: ks' vs' rule: list_induct2)
  case Nil
  then show ?case by simp
next
  case (Cons k ks v vs)
  have "pd_set (PStr k) v (zip (map PStr ks') vs') = zip (map PStr ks') vs' @ [(PStr k, v)]"
  proof (rule pd_set_new)
    fix k' assume "k' \<in> set (map fst (zip (map PStr ks') vs'))"
    then have "k' \<in> PStr ` set ks'" using Cons.prems(2) by simp
    then show "\<not> py_key_eq (PStr k) k'" using Cons.prems(1) by auto
  qed
  also have "\<dots> = zip (map PStr (ks' @ [k])) (vs' @ [v])"
    using Cons.prems(2) by simp
  finally show ?case
    using Cons.IH [of "ks' @ [k]" "vs' @ [v]"] Cons.prems by simp
qed

section \<open>Text and bytes\<close>

text \<open>\<open>redis/utils.py\<close>: \<open>str_if_bytes\<close> decodes bytes and leaves everything else alone.\<close>

fun str_if_bytes :: "pyval \<Rightarrow> pyval" where
  "str_if_bytes (PBytes b) = PStr (utf8_replace b)"
| "str_if_bytes v = v"

lemma str_if_bytes_idem [simp]: "str_if_bytes (str_if_bytes v) = str_if_bytes v"
  by (cases v) auto

lemma str_if_bytes_ascii [simp]: "ascii b \<Longrightarrow> str_if_bytes (PBytes b) = PStr b"
  by simp

text \<open>\<open>ensure_string\<close> (\<open>redis/utils.py\<close>): strict decoding of bytes, other types raise.\<close>

fun ensure_string :: "pyval \<Rightarrow> exc + string" where
  "ensure_string (PBytes b) =
     (if utf8_valid b then Inr b else Inl (Exc UnicodeDecodeError ''utf-8''))"
| "ensure_string (PStr s) = Inr s"
| "ensure_string _ = Inl (Exc TypeError ''Key must be either a string or bytes'')"

text \<open>\<open>int(v)\<close> on a response item.\<close>

fun to_int :: "pyval \<Rightarrow> exc + int" where
  "to_int (PInt n) = Inr n"
| "to_int (PBool b) = Inr (if b then 1 else 0)"
| "to_int (PFloat (Fin q)) = Inr (if q < 0 then ceiling q else floor q)"
| "to_int (PFloat PosInf) = Inl (Exc OverflowError ''cannot convert float infinity to integer'')"
| "to_int (PFloat NegInf) = Inl (Exc OverflowError ''cannot convert float infinity to integer'')"
| "to_int (PFloat NaN) = Inl (Exc ValueError ''cannot convert float NaN to integer'')"
| "to_int (PStr s) = (case py_int s of Some n \<Rightarrow> Inr n
     | None \<Rightarrow> Inl (Exc ValueError ''invalid literal for int()''))"
| "to_int (PBytes s) = (case py_int s of Some n \<Rightarrow> Inr n
     | None \<Rightarrow> Inl (Exc ValueError ''invalid literal for int()''))"
| "to_int (PMemoryview s) = (case py_int s of Some n \<Rightarrow> Inr n
     | None \<Rightarrow> Inl (Exc ValueError ''invalid literal for int()''))"
| "to_int _ = Inl (Exc TypeError ''int() argument must be a string or a number'')"

section \<open>Floats\<close>

text \<open>
  \<open>float(s)\<close>: an optional sign, then \<open>inf\<close>, \<open>infinity\<close> or \<open>nan\<close> in any case,
  or digits with an optional fraction and an optional decimal exponent.
\<close>

definition ten_pow :: "int \<Rightarrow> rat" where
  "ten_pow e = (if e < 0 then 1 / 10 ^ nat (- e) else 10 ^ nat e)"

definition mantissa :: "string \<Rightarrow> rat option" where
  "mantissa s = (case split1 (CHR ''.'') s of
       None \<Rightarrow> map_option of_nat (digits_val s)
     | Some (a, b) \<Rightarrow>
         (if a = [] \<and> b = [] then None
          else case (if a = [] then Some 0 else digits_val a, if b = [] then Some 0 else digits_val b) of
            (Some m, Some f) \<Rightarrow>
              Some (of_nat m + of_nat f * ten_pow (- int (length (filter is_digit b))))
          | _ \<Rightarrow> None))"

definition unsigned_float :: "string \<Rightarrow> pyfloat option" where
  "unsigned_float s =
     (let t = lower s in
      if t = ''inf'' \<or> t = ''infinity'' then Some PosInf
      else if t = ''nan'' then Some NaN
      else case split1 (CHR ''e'') t of
        None \<Rightarrow> map_option Fin (mantissa t)
      | Some (m, x) \<Rightarrow>
          (case (mantissa m, if x \<noteq> [] \<and> \<not> is_ws (hd x) then py_int x else None) of
             (Some q, Some e) \<Rightarrow> Some (Fin (q * ten_pow e))
           | _ \<Rightarrow> None))"

fun neg_float :: "pyfloat \<Rightarrow> pyfloat" where
  "neg_float (Fin q) = Fin (- q)"
| "neg_float PosInf = NegInf"
| "neg_float NegInf = PosInf"
| "neg_float NaN = NaN"

definition py_float :: "string \<Rightarrow> pyfloat option" where
  "py_float s = (case strip s of
       [] \<Rightarrow> None
     | c # cs \<Rightarrow>
         if c = CHR ''-'' then map_option neg_float (unsigned_float cs)
         else if c = CHR ''+'' then unsigned_float cs
         else unsigned_float (c # cs))"

fun to_float :: "pyval \<Rightarrow> exc + pyfloat" where
  "to_float (PFloat f) = Inr f"
| "to_float (PInt n) = Inr (Fin (of_int n))"
| "to_float (PBool b) = Inr (Fin (if b then 1 else 0))"
| "to_float (PStr s) = (case py_float s of Some f \<Rightarrow> Inr f
     | None \<Rightarrow> Inl (Exc ValueError ''could not convert string to float''))"
| "to_float (PBytes s) = (case py_float s of Some f \<Rightarrow> Inr f
     | None \<Rightarrow> Inl (Exc ValueError ''could not convert string to float''))"
| "to_float _ = Inl (Exc TypeError ''float() argument must be a string or a number'')"

lemma py_float_example: "py_float ''-1.50e1'' = Some (Fin (-15))"
  by code_simp

end
