(* ===== verification/Utils.thy ===== *)
theory Utils
  imports PyVal
begin

text \<open>
  Helpers of \<open>redis/utils.py\<close>, \<open>redis/commands/helpers.py\<close> and
  \<open>redis/credentials.py\<close>: version comparison (with the proof that it is a total order on
  versions), argument lists, string conversions, quoting (with its inverse), merging of results
  and static credentials.
\<close>

section \<open>Versions\<close>

definition invalid_int :: exc where
  "invalid_int = Exc ValueError ''invalid literal for int()''"

definition version_numbers :: "string \<Rightarrow> exc + int list" where
  "version_numbers v = mapE (\<lambda>s. case py_int s of Some n \<Rightarrow> Inr n | None \<Rightarrow> Inl invalid_int) (split_char (CHR ''.'') v)"

definition pad_zeros :: "nat \<Rightarrow> int list \<Rightarrow> int list" where
  "pad_zeros n xs = xs @ replicate (n - length xs) 0"

fun compare_lists :: "int list \<Rightarrow> int list \<Rightarrow> int" where
  "compare_lists (x # xs) (y # ys) =
     (if y < x then -1 else if x < y then 1 else compare_lists xs ys)"
| "compare_lists _ _ = 0"

definition compare_numbers :: "int list \<Rightarrow> int list \<Rightarrow> int" where
  "compare_numbers xs ys = compare_lists (pad_zeros (length ys) xs) (pad_zeros (length xs) ys)"

definition compare_versions :: "string \<Rightarrow> string \<Rightarrow> exc + int" where
  "compare_versions version1 version2 =
     bindE (version_numbers version1) (\<lambda>n1. bindE (version_numbers version2) (\<lambda>n2.
       Inr (compare_numbers n1 n2)))"

lemma compare_lists_antisym: "compare_lists ys xs = - compare_lists xs ys"
  by (induction xs ys rule: compare_lists.induct) (auto split: list.splits)

lemma compare_numbers_antisym: "compare_numbers ys xs = - compare_numbers xs ys"
  unfolding compare_numbers_def by (rule compare_lists_antisym)

text \<open>
  The order the comparison stands for: a version is the sequence of its numbers followed by
  zeros, compared at the first difference.
\<close>

definition num_at :: "int list \<Rightarrow> nat \<Rightarrow> int" where
  "num_at xs i = (if i < length xs then xs ! i else 0)"

definition version_less :: "int list \<Rightarrow> int list \<Rightarrow> bool" where
  "version_less xs ys = (\<exists>i. num_at xs i < num_at ys i \<and> (\<forall>j < i. num_at xs j = num_at ys j))"

lemma at_pad: "num_at (pad_zeros n xs) i = num_at xs i"
  by (auto simp: num_at_def pad_zeros_def nth_append)

lemma length_pad: "length (pad_zeros n xs) = max n (length xs)"
  by (auto simp: pad_zeros_def)

lemma at_Cons: "num_at (x # xs) 0 = x" "num_at (x # xs) (Suc i) = num_at xs i"
  by (simp_all add: num_at_def)

lemma version_less_Cons:
  "version_less (x # xs) (y # ys) \<longleftrightarrow> x < y \<or> (x = y \<and> version_less xs ys)"
proof
  assume "version_less (x # xs) (y # ys)"
  then obtain i where i: "num_at (x # xs) i < num_at (y # ys) i" "\<forall>j < i. num_at (x # xs) j = num_at (y # ys) j"
    by (auto simp: version_less_def)
  show "x < y \<or> (x = y \<and> version_less xs ys)"
  proof (cases i)
    case 0
    with i show ?thesis by (simp add: at_Cons)
  next
    case (Suc k)
    with i(2) have "x = y" by (auto simp: at_Cons dest: spec [of _ 0])
    moreover have "\<forall>j < k. num_at xs j = num_at ys j"
      using i(2) Suc by (auto simp: at_Cons dest: spec [of _ "Suc _"])
    ultimately show ?thesis using i(1) Suc by (auto simp: at_Cons version_less_def)
  qed
next
  assume "x < y \<or> (x = y \<and> version_less xs ys)"
  then show "version_less (x # xs) (y # ys)"
  proof
    assume "x < y"
    then show ?thesis by (auto simp: version_less_def at_Cons intro: exI [of _ 0])
  next
    assume "x = y \<and> version_less xs ys"
    then obtain i where "x = y" "num_at xs i < num_at ys i" "\<forall>j < i. num_at xs j = num_at ys j"
      by (auto simp: version_less_def)
    then have "num_at (x # xs) (Suc i) < num_at (y # ys) (Suc i) \<and> (\<forall>j < Suc i. num_at (x # xs) j = num_at (y # ys) j)"
      by (auto simp: at_Cons less_Suc_eq_0_disj)
    then show ?thesis unfolding version_less_def by blast
  qed
qed

lemma compare_lists_less:
  "length xs = length ys \<Longrightarrow> compare_lists xs ys = 1 \<longleftrightarrow> version_less xs ys"
proof (induction xs ys rule: list_induct2)
  case Nil
  show ?case by (simp add: version_less_def num_at_def)
next
  case (Cons x xs y ys)
  then show ?case by (auto simp: version_less_Cons)
qed

lemma compare_numbers_less: "compare_numbers xs ys = 1 \<longleftrightarrow> version_less xs ys"
proof -
  have "compare_numbers xs ys = 1 \<longleftrightarrow>
      version_less (pad_zeros (length ys) xs) (pad_zeros (length xs) ys)"
    unfolding compare_numbers_def by (rule compare_lists_less) (simp add: length_pad)
  then show ?thesis by (simp add: version_less_def at_pad)
qed

lemma compare_lists_range: "compare_lists xs ys \<in> {-1, 0, 1}"
  by (induction xs ys rule: compare_lists.induct) auto

lemma version_less_trans: "version_less xs ys \<Longrightarrow> version_less ys zs \<Longrightarrow> version_less xs zs"
proof -
  assume "version_less xs ys" "version_less ys zs"
  then obtain i j where i: "num_at xs i < num_at ys i" "\<forall>k < i. num_at xs k = num_at ys k"
    and j: "num_at ys j < num_at zs j" "\<forall>k < j. num_at ys k = num_at zs k"
    by (auto simp: version_less_def)
  have "num_at xs (min i j) < num_at zs (min i j)"
    using i j by (cases i j rule: linorder_cases) (auto simp: min_def)
  moreover have "\<forall>k < min i j. num_at xs k = num_at zs k" using i(2) j(2) by simp
  ultimately show ?thesis unfolding version_less_def by blast
qed

section \<open>Arguments and strings\<close>

definition not_iterable :: exc where
  "not_iterable = Exc TypeError ''object is not iterable''"

text \<open>Iterating a value; bytes give their byte values, a \<open>str\<close> its characters.\<close>

definition py_iter :: "pyval \<Rightarrow> exc + pyval list" where
  "py_iter v = (case v of
      PList xs \<Rightarrow> Inr xs
    | PTuple xs \<Rightarrow> Inr xs
    | PSet xs \<Rightarrow> Inr xs
    | PDict d \<Rightarrow> Inr (map fst d)
    | PBytes b \<Rightarrow> Inr (map (\<lambda>c. PInt (of_char c)) b)
    | PMemoryview b \<Rightarrow> Inr (map (\<lambda>c. PInt (of_char c)) b)
    | PStr s \<Rightarrow> Inr (map (\<lambda>c. PStr [c]) s)
    | _ \<Rightarrow> Inl not_iterable)"

definition list_or_args :: "pyval \<Rightarrow> pyval list \<Rightarrow> pyval list" where
  "list_or_args keys args =
     (case keys of
        PStr _ \<Rightarrow> [keys]
      | PBytes _ \<Rightarrow> [keys]
      | _ \<Rightarrow> (case py_iter keys of Inr xs \<Rightarrow> xs | Inl _ \<Rightarrow> [keys])) @ args"

definition nativestr :: "pyval \<Rightarrow> pyval" where
  "nativestr x = (let r = (case x of PBytes b \<Rightarrow> PStr (utf8_replace b) | _ \<Rightarrow> x) in
     if r = PStr ''null'' then PNone else r)"

definition delist :: "pyval list option \<Rightarrow> pyval list option" where
  "delist x = map_option (map nativestr) x"

text \<open>The three attempts on an item of \<open>parse_to_list\<close>.\<close>

definition parse_item :: "pyval \<Rightarrow> exc + pyval" where
  "parse_item item = (case to_int item of
      Inr n \<Rightarrow> Inr (PInt n)
    | Inl e \<Rightarrow>
        if isinstance e ValueError then
          (case to_float item of
             Inr f \<Rightarrow> Inr (PFloat f)
           | Inl e' \<Rightarrow> if isinstance e' ValueError then Inr (nativestr item) else Inl e')
        else if isinstance e TypeError then Inr PNone
        else Inl e)"

definition parse_to_list :: "pyval list option \<Rightarrow> exc + pyval list" where
  "parse_to_list response = (case response of None \<Rightarrow> Inr [] | Some xs \<Rightarrow> mapE parse_item xs)"

fun escape :: "string \<Rightarrow> string" where
  "escape [] = []"
| "escape (c # cs) =
     (if c = CHR 0x5C then [CHR 0x5C, CHR 0x5C] else if c = CHR 0x22 then [CHR 0x5C, CHR 0x22] else [c])
     @ escape cs"

definition quote_string :: "pyval \<Rightarrow> exc + pyval" where
  "quote_string v =
     (let quoted = (\<lambda>s. PStr (if s = [] then [CHR 0x22, CHR 0x22] else CHR 0x22 # escape s @ [CHR 0x22])) in
      case v of
        PBytes b \<Rightarrow> (if utf8_valid b then Inr (quoted b) else Inl (Exc UnicodeDecodeError ''utf-8''))
      | PStr s \<Rightarrow> Inr (quoted s)
      | _ \<Rightarrow> Inr v)"

text \<open>The reader of a quoted string: it stops at the first quote that is not escaped.\<close>

fun unquote :: "string \<Rightarrow> (string \<times> string) option" where
  "unquote [] = None"
| "unquote [c] = (if c = CHR 0x22 then Some ([], []) else None)"
| "unquote (c # d # cs) =
     (if c = CHR 0x22 then Some ([], d # cs)
      else if c = CHR 0x5C then map_option (\<lambda>(s, r). (d # s, r)) (unquote cs)
      else map_option (\<lambda>(s, r). (c # s, r)) (unquote (d # cs)))"

lemma unquote_quote: "unquote (CHR 0x22 # rest) = Some ([], rest)"
  by (cases rest) simp_all

lemma unquote_plain: "c \<noteq> CHR 0x22 \<Longrightarrow> c \<noteq> CHR 0x5C \<Longrightarrow> cs \<noteq> [] \<Longrightarrow>
    unquote (c # cs) = map_option (\<lambda>(s, r). (c # s, r)) (unquote cs)"
  by (cases cs) simp_all

lemma unquote_escape: "unquote (escape s @ CHR 0x22 # rest) = Some (s, rest)"
proof (induction s)
  case Nil
  show ?case by (simp add: unquote_quote)
next
  case (Cons c s)
  then show ?case by (simp add: unquote_plain)
qed

section \<open>Results\<close>

definition dict_merge :: "('k, 'v) dict list \<Rightarrow> ('k, 'v) dict" where
  "dict_merge dicts = foldl dict_update [] dicts"

definition py_in :: "pyval \<Rightarrow> pyval list \<Rightarrow> bool" where
  "py_in v xs = list_ex (py_key_eq v) xs"

text \<open>
  \<open>merge_result\<close> collects the items of all nodes into a set; the order of the resulting
  list is unspecified in Python and is that of first occurrence here.
\<close>

fun add_all :: "pyval list \<Rightarrow> pyval list \<Rightarrow> exc + pyval list" where
  "add_all [] acc = Inr acc"
| "add_all (x # xs) acc =
     (if hashable x then add_all xs (if py_in x acc then acc else acc @ [x]) else Inl unhashable_error)"

fun merge_loop :: "pyval list \<Rightarrow> pyval list \<Rightarrow> exc + pyval list" where
  "merge_loop [] acc = Inr acc"
| "merge_loop (v # vs) acc = bindE (py_iter v) (\<lambda>xs. bindE (add_all xs acc) (merge_loop vs))"

definition merge_result :: "(string, pyval) dict \<Rightarrow> exc + pyval" where
  "merge_result res = bindE (merge_loop (map snd res) []) (\<lambda>xs. Inr (PList xs))"

definition format_error_message :: "string \<Rightarrow> string list \<Rightarrow> string" where
  "format_error_message host_error args = (case args of
      [] \<Rightarrow> ''Error connecting to '' @ host_error @ ''.''
    | [a] \<Rightarrow> ''Error '' @ a @ '' connecting to '' @ host_error @ ''.''
    | a # b # _ \<Rightarrow> ''Error '' @ a @ '' connecting to '' @ host_error @ ''. '' @ b @ ''.'')"

section \<open>Static credentials\<close>

record credentials =
  cred_username :: string
  cred_password :: string

definition UsernamePasswordCredentialProvider :: "string option \<Rightarrow> string option \<Rightarrow> credentials" where
  "UsernamePasswordCredentialProvider u p =
     \<lparr>cred_username = (case u of Some s \<Rightarrow> s | None \<Rightarrow> []), cred_password = (case p of Some s \<Rightarrow> s | None \<Rightarrow> [])\<rparr>"

definition get_credentials :: "credentials \<Rightarrow> string list" where
  "get_credentials c =
     (if cred_username c \<noteq> [] then [cred_username c, cred_password c] else [cred_password c])"

section \<open>Properties\<close>

text \<open>comparing two versions is antisymmetric, and the answer 1 says exactly that the first
  version is lower at the first number where the two differ, missing numbers being zero.\<close>

theorem compare_versions_order:
  assumes "version_numbers v = Inr xs" "version_numbers w = Inr ys"
  shows "\<exists>c. compare_versions v w = Inr c \<and> compare_versions w v = Inr (- c) \<and> c \<in> {-1, 0, 1} \<and>
      (c = 1 \<longleftrightarrow> version_less xs ys) \<and> (c = -1 \<longleftrightarrow> version_less ys xs)"
proof -
  have "compare_numbers xs ys = -1 \<longleftrightarrow> version_less ys xs"
    using compare_numbers_antisym [of ys xs] compare_numbers_less [of ys xs] by auto
  moreover have "compare_numbers xs ys \<in> {-1, 0, 1}"
    unfolding compare_numbers_def by (rule compare_lists_range)
  ultimately show ?thesis
    using assms compare_numbers_antisym [of ys xs]
    by (simp add: compare_versions_def compare_numbers_less)
qed

lemma version_7_4: "version_numbers ''7.4'' = Inr [7, 4]" "version_numbers ''7.4.0'' = Inr [7, 4, 0]"
  by code_simp+

theorem compare_versions_order_witness:
  "\<exists>c. compare_versions ''7.4'' ''7.4.0'' = Inr c \<and> compare_versions ''7.4.0'' ''7.4'' = Inr (- c) \<and>
      c \<in> {-1, 0, 1} \<and> (c = 1 \<longleftrightarrow> version_less [7, 4] [7, 4, 0]) \<and> (c = -1 \<longleftrightarrow> version_less [7, 4, 0] [7, 4])"
  by (rule compare_versions_order [OF version_7_4])

text \<open>a quoted string is read back: the reader that honours escapes recovers the text and
  stops at the closing quote, so no text can end the quotation early.\<close>

theorem quote_string_roundtrip:
  "\<exists>q. quote_string (PStr s) = Inr (PStr (CHR 0x22 # q)) \<and> unquote (q @ rest) = Some (s, rest)"
  by (cases "s = []") (simp_all add: quote_string_def unquote_quote unquote_escape)

end
