(* ===== verification/Serializer.thy ===== *)
theory Serializer
  imports PyVal
begin

text \<open>
  \<open>Encoder\<close> (\<open>redis/_parsers/encoders.py\<close>) and the serializer of commands:
  \<open>PythonRespSerializer.pack\<close> and \<open>AbstractConnection.pack_commands\<close>
  (\<open>redis/connection.py\<close>). The encoding is UTF-8; the text \<open>repr\<close> gives a float is a
  field of the encoder, since floats are exact here.
\<close>

section \<open>Encoder\<close>

datatype errors_mode = Strict | Replace

record encoder =
  encoding_errors :: errors_mode
  decode_responses :: bool
  float_repr :: "pyfloat \<Rightarrow> string"

definition bool_input_error :: exc where
  "bool_input_error = Exc DataError
     ''Invalid input of type: 'bool'. Convert to a bytes, string, int or float first.''"

definition type_input_error :: exc where
  "type_input_error = Exc DataError
     ''Invalid input type. Convert to a bytes, string, int or float first.''"

fun encode :: "encoder \<Rightarrow> pyval \<Rightarrow> exc + pyval" where
  "encode enc (PBytes b) = Inr (PBytes b)"
| "encode enc (PMemoryview b) = Inr (PMemoryview b)"
| "encode enc (PBool _) = Inl bool_input_error"
| "encode enc (PInt n) = Inr (PBytes (dec_int n))"
| "encode enc (PFloat f) = Inr (PBytes (float_repr enc f))"
| "encode enc (PStr s) = Inr (PBytes s)"
| "encode enc _ = Inl type_input_error"

definition decode_bytes :: "encoder \<Rightarrow> string \<Rightarrow> exc + pyval" where
  "decode_bytes enc b = (case encoding_errors enc of
      Strict \<Rightarrow> if utf8_valid b then Inr (PStr b) else Inl (Exc UnicodeDecodeError ''utf-8'')
    | Replace \<Rightarrow> Inr (PStr (utf8_replace b)))"

fun decode_value :: "encoder \<Rightarrow> pyval \<Rightarrow> exc + pyval" where
  "decode_value enc (PMemoryview b) = decode_bytes enc b"
| "decode_value enc (PBytes b) = decode_bytes enc b"
| "decode_value enc v = Inr v"

definition decode :: "encoder \<Rightarrow> pyval \<Rightarrow> bool \<Rightarrow> exc + pyval" where
  "decode enc v force = (if decode_responses enc \<or> force then decode_value enc v else Inr v)"

text \<open>The encodable values, and the bytes of an encoded one.\<close>

fun encodable :: "pyval \<Rightarrow> bool" where
  "encodable (PBytes _) = True"
| "encodable (PMemoryview _) = True"
| "encodable (PInt _) = True"
| "encodable (PFloat _) = True"
| "encodable (PStr _) = True"
| "encodable _ = False"

fun raw :: "pyval \<Rightarrow> string" where
  "raw (PBytes b) = b"
| "raw (PMemoryview b) = b"
| "raw _ = []"

fun is_memoryview :: "pyval \<Rightarrow> bool" where
  "is_memoryview (PMemoryview _) = True"
| "is_memoryview _ = False"

lemma encode_ok_iff: "(\<exists>b. encode enc v = Inr b) \<longleftrightarrow> encodable v"
  by (cases v) auto

lemma encode_bytes_like: "encode enc v = Inr b \<Longrightarrow> b = PBytes (raw b) \<or> b = PMemoryview (raw b)"
  by (cases v) auto

lemma encode_idem: "encode enc v = Inr b \<Longrightarrow> encode enc b = Inr b"
  by (cases v) auto

lemma decode_encode_str:
  "utf8_valid s \<Longrightarrow> decode_responses enc \<or> force \<Longrightarrow>
   bindE (encode enc (PStr s)) (\<lambda>b. decode enc b force) = Inr (PStr s)"
  by (cases "encoding_errors enc") (simp_all add: decode_def decode_bytes_def)

section \<open>Packing one command\<close>

definition CRLF :: string where
  "CRLF = [CHR 0x0D, CHR 0x0A]"

lemma length_CRLF [simp]: "length CRLF = 2"
  by (simp add: CRLF_def)

text \<open>
  The first argument may carry literal arguments after the command name
  (\<open>"CONFIG GET"\<close>), which are sent separately.
\<close>

definition split_first :: "pyval list \<Rightarrow> exc + pyval list" where
  "split_first args = (case args of
      [] \<Rightarrow> Inl (Exc IndexError ''tuple index out of range'')
    | a # rest \<Rightarrow> (case a of
        PStr s \<Rightarrow> Inr (map PBytes (split_ws s) @ rest)
      | PBytes b \<Rightarrow> if CHR '' '' \<in> set b then Inr (map PBytes (split_ws b) @ rest) else Inr args
      | PMemoryview b \<Rightarrow> Inr args
      | PList xs \<Rightarrow> if PBytes '' '' \<in> set xs then Inl (Exc AttributeError ''split'') else Inr args
      | PTuple xs \<Rightarrow> if PBytes '' '' \<in> set xs then Inl (Exc AttributeError ''split'') else Inr args
      | PSet xs \<Rightarrow> if PBytes '' '' \<in> set xs then Inl (Exc AttributeError ''split'') else Inr args
      | PDict d \<Rightarrow> if PBytes '' '' \<in> fst ` set d then Inl (Exc AttributeError ''split'') else Inr args
      | _ \<Rightarrow> Inl (Exc TypeError ''argument is not iterable'')))"

definition bulk_header :: "nat \<Rightarrow> string" where
  "bulk_header n = ''$'' @ dec_nat n @ CRLF"

fun pack_loop :: "nat \<Rightarrow> pyval list \<Rightarrow> string \<Rightarrow> pyval list \<Rightarrow> pyval list" where
  "pack_loop cutoff [] buff outp = outp @ [PBytes buff]"
| "pack_loop cutoff (arg # args) buff outp =
     (let arg_length = length (raw arg) in
      if cutoff < length buff \<or> cutoff < arg_length \<or> is_memoryview arg then
        pack_loop cutoff args CRLF (outp @ [PBytes (buff @ bulk_header arg_length), arg])
      else
        pack_loop cutoff args (buff @ bulk_header arg_length @ raw arg @ CRLF) outp)"

definition array_header :: "nat \<Rightarrow> string" where
  "array_header n = ''*'' @ dec_nat n @ CRLF"

definition pack :: "encoder \<Rightarrow> nat \<Rightarrow> pyval list \<Rightarrow> exc + pyval list" where
  "pack enc cutoff args =
     bindE (split_first args) (\<lambda>args'.
     bindE (mapE (encode enc) args') (\<lambda>es.
     Inr (pack_loop cutoff es (array_header (length args')) [])))"

text \<open>The wire format, independent of how the command is cut into chunks.\<close>

definition bulk :: "string \<Rightarrow> string" where
  "bulk b = bulk_header (length b) @ b @ CRLF"

definition resp_command :: "string list \<Rightarrow> string" where
  "resp_command bs = array_header (length bs) @ concat (map bulk bs)"

definition chunks_bytes :: "pyval list \<Rightarrow> string" where
  "chunks_bytes cs = concat (map raw cs)"

lemma chunks_bytes_append [simp]: "chunks_bytes (xs @ ys) = chunks_bytes xs @ chunks_bytes ys"
  by (simp add: chunks_bytes_def)

lemma chunks_bytes_simps [simp]: "chunks_bytes [] = []" "chunks_bytes (x # xs) = raw x @ chunks_bytes xs"
  by (simp_all add: chunks_bytes_def)

lemma chunks_bytes_pack_loop:
  "chunks_bytes (pack_loop cutoff es buff outp)
     = chunks_bytes outp @ buff @ concat (map (bulk \<circ> raw) es)"
  by (induction cutoff es buff outp rule: pack_loop.induct) (simp_all add: Let_def bulk_def)

lemma pack_eq_command:
  assumes "pack enc cutoff args = Inr out"
  shows "\<exists>args' es. split_first args = Inr args' \<and> mapE (encode enc) args' = Inr es \<and>
           chunks_bytes out = resp_command (map raw es)"
proof -
  from assms obtain args' es where a: "split_first args = Inr args'" "mapE (encode enc) args' = Inr es"
    and out: "out = pack_loop cutoff es (array_header (length args')) []"
    by (auto simp: pack_def bindE_eq_Inr)
  have "length es = length args'" using a(2) by (rule mapE_length)
  then have "chunks_bytes out = resp_command (map raw es)"
    by (simp add: out chunks_bytes_pack_loop resp_command_def comp_def)
  with a show ?thesis by blast
qed

section \<open>Packing a pipeline\<close>

type_synonym pack_state = "pyval list \<times> string list \<times> nat"

definition flush_pieces :: "pyval list \<Rightarrow> string list \<Rightarrow> pyval list" where
  "flush_pieces outp pieces = (if pieces \<noteq> [] then outp @ [PBytes (concat pieces)] else outp)"

definition chunk_step :: "nat \<Rightarrow> pack_state \<Rightarrow> pyval \<Rightarrow> pack_state" where
  "chunk_step cutoff st chunk = (case st of (outp, pieces, buffer_length) \<Rightarrow>
     (let chunklen = length (raw chunk);
          (outp, pieces, buffer_length) =
            (if cutoff < buffer_length \<or> cutoff < chunklen \<or> is_memoryview chunk
             then (flush_pieces outp pieces, [], 0)
             else (outp, pieces, buffer_length))
      in if cutoff < chunklen \<or> is_memoryview chunk
         then (outp @ [chunk], pieces, buffer_length)
         else (outp, pieces @ [raw chunk], buffer_length + chunklen)))"

fun pack_commands_loop ::
  "encoder \<Rightarrow> nat \<Rightarrow> pyval list list \<Rightarrow> pack_state \<Rightarrow> exc + pack_state" where
  "pack_commands_loop enc cutoff [] st = Inr st"
| "pack_commands_loop enc cutoff (cmd # cmds) st =
     bindE (pack enc cutoff cmd) (\<lambda>chunks.
       pack_commands_loop enc cutoff cmds (foldl (chunk_step cutoff) st chunks))"

definition pack_commands :: "encoder \<Rightarrow> nat \<Rightarrow> pyval list list \<Rightarrow> exc + pyval list" where
  "pack_commands enc cutoff cmds =
     bindE (pack_commands_loop enc cutoff cmds ([], [], 0)) (\<lambda>(outp, pieces, _).
       Inr (flush_pieces outp pieces))"

text \<open>
  The invariant of the loop: the bytes so far, the length of the pending pieces, and a bound
  on every chunk that was joined.
\<close>

definition pack_bytes :: "pack_state \<Rightarrow> string" where
  "pack_bytes st = (case st of (outp, pieces, _) \<Rightarrow> chunks_bytes outp @ concat pieces)"

definition chunk_ok :: "nat \<Rightarrow> pyval set \<Rightarrow> pyval \<Rightarrow> bool" where
  "chunk_ok cutoff given c = (c \<in> given \<or> length (raw c) \<le> 2 * cutoff)"

definition pack_inv :: "nat \<Rightarrow> pyval set \<Rightarrow> pack_state \<Rightarrow> bool" where
  "pack_inv cutoff given st = (case st of (outp, pieces, n) \<Rightarrow>
     n = length (concat pieces) \<and> n \<le> 2 * cutoff \<and> (\<forall>c \<in> set outp. chunk_ok cutoff given c))"

lemma raw_flush [simp]: "chunks_bytes (flush_pieces outp pieces) = chunks_bytes outp @ concat pieces"
  by (simp add: flush_pieces_def)

lemma chunk_step_bytes: "pack_bytes (chunk_step cutoff st c) = pack_bytes st @ raw c"
  by (cases st) (simp add: chunk_step_def pack_bytes_def Let_def)

lemma foldl_chunk_step_bytes:
  "pack_bytes (foldl (chunk_step cutoff) st cs) = pack_bytes st @ chunks_bytes cs"
  by (induction cs arbitrary: st) (simp_all add: chunk_step_bytes)

lemma flush_ok:
  "(\<forall>c \<in> set outp. chunk_ok cutoff given c) \<Longrightarrow> length (concat pieces) \<le> 2 * cutoff \<Longrightarrow>
   \<forall>c \<in> set (flush_pieces outp pieces). chunk_ok cutoff given c"
  by (auto simp: flush_pieces_def chunk_ok_def)

lemma chunk_step_inv:
  assumes "pack_inv cutoff given st"
  shows "pack_inv cutoff (insert c given) (chunk_step cutoff st c)"
proof -
  obtain outp pieces n where st: "st = (outp, pieces, n)" by (cases st)
  have inv: "n = length (concat pieces)" "n \<le> 2 * cutoff" "\<forall>x \<in> set outp. chunk_ok cutoff (insert c given) x"
    using assms by (auto simp: st pack_inv_def chunk_ok_def)
  have fl: "\<forall>x \<in> set (flush_pieces outp pieces). chunk_ok cutoff (insert c given) x"
    using inv by (intro flush_ok) auto
  show ?thesis
  proof (cases "cutoff < length (raw c) \<or> is_memoryview c")
    case True
    with fl show ?thesis
      by (auto simp: st chunk_step_def pack_inv_def chunk_ok_def)
  next
    case False
    with inv fl show ?thesis
      by (auto simp: st chunk_step_def pack_inv_def)
  qed
qed

lemma pack_inv_mono: "pack_inv cutoff g st \<Longrightarrow> g \<subseteq> g' \<Longrightarrow> pack_inv cutoff g' st"
  by (auto simp: pack_inv_def chunk_ok_def split: prod.splits)

lemma foldl_chunk_step_inv:
  "pack_inv cutoff given st \<Longrightarrow>
   pack_inv cutoff (given \<union> set cs) (foldl (chunk_step cutoff) st cs)"
proof (induction cs arbitrary: st given)
  case Nil
  then show ?case by simp
next
  case (Cons c cs)
  have "pack_inv cutoff (insert c given) (chunk_step cutoff st c)"
    using Cons.prems by (rule chunk_step_inv)
  from Cons.IH [OF this] show ?case by simp
qed

lemma pack_commands_loop_spec:
  assumes "pack_commands_loop enc cutoff cmds st = Inr st'" "pack_inv cutoff given st"
  shows "\<exists>outs. mapE (pack enc cutoff) cmds = Inr outs \<and>
      pack_bytes st' = pack_bytes st @ concat (map chunks_bytes outs) \<and>
      pack_inv cutoff (given \<union> set (concat outs)) st'"
  using assms
proof (induction cmds arbitrary: st given)
  case Nil
  then show ?case by simp
next
  case (Cons cmd cmds)
  from Cons.prems(1) obtain chunks where p: "pack enc cutoff cmd = Inr chunks"
    and rest: "pack_commands_loop enc cutoff cmds (foldl (chunk_step cutoff) st chunks) = Inr st'"
    by (auto simp: bindE_eq_Inr)
  have "pack_inv cutoff (given \<union> set chunks) (foldl (chunk_step cutoff) st chunks)"
    using Cons.prems(2) by (rule foldl_chunk_step_inv)
  from Cons.IH [OF rest this] obtain outs where
    "mapE (pack enc cutoff) cmds = Inr outs"
    "pack_bytes st' = (pack_bytes st @ chunks_bytes chunks) @ concat (map chunks_bytes outs)"
    "pack_inv cutoff (given \<union> set chunks \<union> set (concat outs)) st'"
    by (auto simp: foldl_chunk_step_bytes)
  with p show ?case by (auto simp: Un_assoc)
qed

lemma pack_commands_spec:
  assumes "pack_commands enc cutoff cmds = Inr out"
  shows "\<exists>outs. mapE (pack enc cutoff) cmds = Inr outs \<and>
      chunks_bytes out = concat (map chunks_bytes outs) \<and>
      (\<forall>c \<in> set out. chunk_ok cutoff (set (concat outs)) c)"
proof -
  from assms obtain outp pieces n where
    loop: "pack_commands_loop enc cutoff cmds ([], [], 0) = Inr (outp, pieces, n)"
    and out: "out = flush_pieces outp pieces"
    by (auto simp: pack_commands_def bindE_eq_Inr)
  have "pack_inv cutoff {} ([], [], 0)" by (simp add: pack_inv_def)
  from pack_commands_loop_spec [OF loop this] obtain outs where
    o: "mapE (pack enc cutoff) cmds = Inr outs"
    and b: "chunks_bytes outp @ concat pieces = concat (map chunks_bytes outs)"
    and i: "pack_inv cutoff (set (concat outs)) (outp, pieces, n)"
    by (auto simp: pack_bytes_def)
  have "\<forall>c \<in> set out. chunk_ok cutoff (set (concat outs)) c"
    unfolding out using i by (intro flush_ok) (auto simp: pack_inv_def)
  with o b show ?thesis by (auto simp: out)
qed

text \<open>C35: packing a pipeline sends the same bytes as packing its commands one after the other, and
  every chunk that was joined has at most twice the cutoff's length.\<close>

theorem pack_commands_correct:
  assumes "pack_commands enc cutoff cmds = Inr out"
  shows "\<exists>outs. mapE (pack enc cutoff) cmds = Inr outs \<and>
      chunks_bytes out = concat (map chunks_bytes outs) \<and>
      (\<forall>c \<in> set out. c \<in> set (concat outs) \<or> length (raw c) \<le> 2 * cutoff)"
  using pack_commands_spec [OF assms] by (auto simp: chunk_ok_def)

definition two_gets :: "pyval list list" where
  "two_gets = [[PBytes ''GET'', PBytes ''k''], [PBytes ''GET'', PMemoryview ''m'']]"

definition strict_encoder :: encoder where
  "strict_encoder = \<lparr>encoding_errors = Strict, decode_responses = False, float_repr = (\<lambda>_. [])\<rparr>"

theorem pack_commands_correct_witness:
  "\<exists>out outs. pack_commands strict_encoder 10 two_gets = Inr out \<and>
      mapE (pack strict_encoder 10) two_gets = Inr outs \<and>
      chunks_bytes out = concat (map chunks_bytes outs) \<and>
      (\<forall>c \<in> set out. c \<in> set (concat outs) \<or> length (raw c) \<le> 2 * 10)"
proof -
  have "\<exists>out. pack_commands strict_encoder 10 two_gets = Inr out"
    by (simp add: pack_commands_def pack_def two_gets_def split_first_def split: prod.splits)
  then obtain out where "pack_commands strict_encoder 10 two_gets = Inr out" by blast
  from this pack_commands_correct [OF this] show ?thesis by blast
qed

end
