(* ===== verification/Floats.thy ===== *)
theory Floats
  imports Prelude
begin

text \<open>
  Python's binary floats, as far as the library computes with them: a float is the rational it stands for, and a product is rounded
  to 53 bits. Used for the times of command arguments and of locks.
\<close>

section \<open>Binary floats\<close>

text \<open>Rounding a rational to 53 bits, ties to even; the exponents of times are far from the limits.\<close>

function bit_length :: "int \<Rightarrow> nat" where
  "bit_length n = (if n \<le> 0 then 0 else Suc (bit_length (n div 2)))"
  by pat_completeness auto
termination by (relation "measure nat") auto

declare bit_length.simps [simp del]

definition pow2 :: "int \<Rightarrow> rat" where
  "pow2 e = (if 0 \<le> e then 2 ^ nat e else 1 / 2 ^ nat (- e))"

definition round_half_even :: "rat \<Rightarrow> int" where
  "round_half_even q =
     (let n = floor q; r = q - of_int n
      in if r < 1 / 2 then n else if 1 / 2 < r then n + 1 else if even n then n else n + 1)"

definition float_exponent :: "rat \<Rightarrow> int" where
  "float_exponent q =
     (case quotient_of q of (n, d) \<Rightarrow>
        let e = int (bit_length n) - int (bit_length d) - 53
        in if q < pow2 (e + 53) then e else e + 1)"

definition float64 :: "rat \<Rightarrow> rat" where
  "float64 q =
     (if q = 0 then 0
      else let e = float_exponent \<bar>q\<bar> in sgn q * (of_int (round_half_even (\<bar>q\<bar> / pow2 e)) * pow2 e))"

text \<open>\<open>int(x)\<close> of a float.\<close>

definition trunc :: "rat \<Rightarrow> int" where
  "trunc q = (if q < 0 then ceiling q else floor q)"

end
