(* ===== verification/KeySlot.thy ===== *)
theory KeySlot
  imports PyStr "HOL-Library.Word"
begin

unbundle bit_operations_syntax

text \<open>
  \<open>redis/crc.py\<close>: the hash slot of a key. \<open>crc_hqx\<close> is Python's
  \<open>binascii.crc_hqx\<close>, the 16-bit CRC of the polynomial \<open>0x1021\<close>, most significant bit
  first; \<open>key_slot\<close> hashes the part of the key inside the first non-empty pair of braces.
\<close>

section \<open>The 16-bit CRC\<close>

definition crc_shift :: "16 word \<Rightarrow> 16 word" where
  "crc_shift c = (if bit c 15 then push_bit 1 c XOR 0x1021 else push_bit 1 c)"

definition crc_byte :: "16 word \<Rightarrow> char \<Rightarrow> 16 word" where
  "crc_byte c b = (crc_shift ^^ 8) (c XOR push_bit 8 (of_nat (of_char b)))"

definition crc_hqx :: "string \<Rightarrow> 16 word \<Rightarrow> 16 word" where
  "crc_hqx s c = foldl crc_byte c s"

lemma crc_hqx_append: "crc_hqx (s @ t) c = crc_hqx t (crc_hqx s c)"
  by (simp add: crc_hqx_def)

text \<open>The published check value of this CRC.\<close>

lemma funpow_8: "(f ^^ 8) x = f (f (f (f (f (f (f (f x)))))))"
  by (simp add: numeral_eq_Suc)

lemma crc_hqx_check: "crc_hqx ''123456789'' 0 = 0x31C3"
  by (simp add: crc_hqx_def crc_byte_def crc_shift_def funpow_8)

section \<open>Key slots\<close>

definition REDIS_CLUSTER_HASH_SLOTS :: nat where
  "REDIS_CLUSTER_HASH_SLOTS = 16384"

text \<open>\<open>xs[a:b]\<close> for indices inside the list.\<close>

definition slice :: "nat \<Rightarrow> nat \<Rightarrow> 'a list \<Rightarrow> 'a list" where
  "slice a b xs = take (b - a) (drop a xs)"

definition hashed_part :: "string \<Rightarrow> string" where
  "hashed_part key =
     (let start = py_find (CHR ''{'') key 0 in
      if start > -1 then
        (let stop = py_find (CHR ''}'') key (nat start + 1) in
         if stop > -1 \<and> stop \<noteq> start + 1 then slice (nat start + 1) (nat stop) key else key)
      else key)"

definition key_slot_in :: "string \<Rightarrow> nat \<Rightarrow> nat" where
  "key_slot_in key bucket = unat (crc_hqx (hashed_part key) 0) mod bucket"

definition key_slot :: "string \<Rightarrow> nat" where
  "key_slot key = key_slot_in key REDIS_CLUSTER_HASH_SLOTS"

lemma py_find_bound: "py_find c s k = -1 \<or> int k \<le> py_find c s k"
  by (auto simp: py_find_def split: option.splits)

lemma py_find_0_append: "c \<notin> set a \<Longrightarrow> py_find c (a @ c # b) 0 = int (length a)"
  by (simp add: py_find_def find_index_append)

lemma py_find_0_absent: "c \<notin> set s \<Longrightarrow> py_find c s 0 = -1"
  using find_index_None [of c s] by (simp add: py_find_def)

lemma py_find_after:
  assumes "length a = k"
  shows "c \<notin> set t \<Longrightarrow> py_find c (a @ t @ c # b) k = int (k + length t)"
    and "c \<notin> set t \<Longrightarrow> py_find c (a @ t) k = -1"
  using assms find_index_append [of c t b] find_index_None [of c t] by (simp_all add: py_find_def)

text \<open>The four shapes of a key.\<close>

lemma hashed_part_no_open: "CHR ''{'' \<notin> set key \<Longrightarrow> hashed_part key = key"
  by (simp add: hashed_part_def py_find_0_absent)

lemma hashed_part_tag:
  assumes "CHR ''{'' \<notin> set a" "CHR ''}'' \<notin> set tag" "tag \<noteq> []"
  shows "hashed_part (a @ ''{'' @ tag @ ''}'' @ b) = tag"
proof -
  let ?key = "a @ CHR ''{'' # tag @ CHR ''}'' # b"
  have s: "py_find (CHR ''{'') ?key 0 = int (length a)"
    using assms(1) by (rule py_find_0_append)
  have e: "py_find (CHR ''}'') ?key (length a + 1) = int (length a + 1 + length tag)"
    using py_find_after(1) [of "a @ [CHR ''{'']" "length a + 1" "CHR ''}''" tag b] assms(2) by simp
  have st: "nat (1 + (int (length a) + int (length tag))) = Suc (length a + length tag)"
    by simp
  have "slice (length a + 1) (length a + 1 + length tag) ?key = tag"
    by (simp add: slice_def)
  with s e assms(3) show ?thesis by (simp add: hashed_part_def st)
qed

lemma hashed_part_empty_tag:
  assumes "CHR ''{'' \<notin> set a"
  shows "hashed_part (a @ ''{}'' @ b) = a @ ''{}'' @ b"
proof -
  let ?key = "a @ CHR ''{'' # CHR ''}'' # b"
  have s: "py_find (CHR ''{'') ?key 0 = int (length a)"
    using assms by (rule py_find_0_append)
  have e: "py_find (CHR ''}'') ?key (length a + 1) = int (length a + 1)"
    using py_find_after(1) [of "a @ [CHR ''{'']" "length a + 1" "CHR ''}''" "[]" b] by simp
  from s e show ?thesis by (simp add: hashed_part_def)
qed

lemma hashed_part_unclosed:
  assumes "CHR ''{'' \<notin> set a" "CHR ''}'' \<notin> set b"
  shows "hashed_part (a @ ''{'' @ b) = a @ ''{'' @ b"
proof -
  let ?key = "a @ CHR ''{'' # b"
  have s: "py_find (CHR ''{'') ?key 0 = int (length a)"
    using assms(1) by (rule py_find_0_append)
  have e: "py_find (CHR ''}'') ?key (length a + 1) = -1"
    using py_find_after(2) [of "a @ [CHR ''{'']" "length a + 1" "CHR ''}''" b] assms(2) by simp
  from s e show ?thesis by (simp add: hashed_part_def)
qed

text \<open>A slot known from the Redis Cluster specification's own examples.\<close>

lemma key_slot_foo: "key_slot ''foo'' = 12182"
proof -
  have "hashed_part ''foo'' = ''foo''"
    by (rule hashed_part_no_open) simp
  then show ?thesis
    by (simp add: key_slot_def key_slot_in_def REDIS_CLUSTER_HASH_SLOTS_def
        crc_hqx_def crc_byte_def crc_shift_def funpow_8)
qed

lemma key_slot_range: "key_slot key < REDIS_CLUSTER_HASH_SLOTS"
  by (simp add: key_slot_def key_slot_in_def REDIS_CLUSTER_HASH_SLOTS_def)

text \<open>keys with the same hash tag go to the same slot of the cluster, whatever surrounds the
  tag, and that slot is the one of the tag alone.\<close>

theorem key_slot_same_tag:
  assumes "CHR ''{'' \<notin> set a" "CHR ''}'' \<notin> set tag" "CHR ''{'' \<notin> set tag" "tag \<noteq> []"
  shows "key_slot (a @ ''{'' @ tag @ ''}'' @ b) = key_slot tag \<and> key_slot tag < REDIS_CLUSTER_HASH_SLOTS"
  using hashed_part_tag [OF assms(1,2,4), of b] hashed_part_no_open [OF assms(3)] key_slot_range [of tag]
  by (simp add: key_slot_def key_slot_in_def)

theorem key_slot_same_tag_witness:
  "key_slot (''user:'' @ ''{'' @ ''foo'' @ ''}'' @ '':name'') = key_slot ''foo'' \<and>
   key_slot ''foo'' < REDIS_CLUSTER_HASH_SLOTS"
  by (rule key_slot_same_tag) simp_all

end
