(* ===== verification/Retry.thy ===== *)
theory Retry
  imports Exceptions
begin

text \<open>
  \<open>redis/backoff.py\<close> and \<open>redis/retry.py\<close>: the backoff policies and the retry loop.
  Times are exact rationals. \<open>random.uniform(a, b)\<close> is \<open>a + (b - a) * u\<close> for a number
  \<open>u\<close> the random generator draws from the unit interval, an argument here. The loop is a
  partial function: with a negative number of retries it may run for ever, and then its value
  is \<open>None\<close>.
\<close>

section \<open>Backoff policies\<close>

definition DEFAULT_CAP :: rat where "DEFAULT_CAP = 512 / 1000"

definition DEFAULT_BASE :: rat where "DEFAULT_BASE = 8 / 1000"

datatype backoff_policy =
    ConstantBackoff rat
  | ExponentialBackoff (pol_cap: rat) (pol_base: rat)
  | FullJitterBackoff (pol_cap: rat) (pol_base: rat)
  | EqualJitterBackoff (pol_cap: rat) (pol_base: rat)
  | DecorrelatedJitterBackoff (pol_cap: rat) (pol_base: rat)

definition NoBackoff :: backoff_policy where
  "NoBackoff = ConstantBackoff 0"

definition default_backoff :: backoff_policy where
  "default_backoff = EqualJitterBackoff DEFAULT_CAP DEFAULT_BASE"

record backoff =
  bk_policy :: backoff_policy
  previous_backoff :: rat

definition new_backoff :: "backoff_policy \<Rightarrow> backoff" where
  "new_backoff p = \<lparr>bk_policy = p, previous_backoff = 0\<rparr>"

definition uniform :: "rat \<Rightarrow> rat \<Rightarrow> rat \<Rightarrow> rat" where
  "uniform a b u = a + (b - a) * u"

text \<open>Only the decorrelated policy has a state to reset.\<close>

definition backoff_reset :: "backoff \<Rightarrow> backoff" where
  "backoff_reset b = (case bk_policy b of
      DecorrelatedJitterBackoff _ _ \<Rightarrow> b\<lparr>previous_backoff := 0\<rparr>
    | _ \<Rightarrow> b)"

definition backoff_compute :: "backoff \<Rightarrow> nat \<Rightarrow> rat \<Rightarrow> rat \<times> backoff" where
  "backoff_compute b failures u = (case bk_policy b of
      ConstantBackoff t \<Rightarrow> (t, b)
    | ExponentialBackoff cap base \<Rightarrow> (min cap (base * 2 ^ failures), b)
    | FullJitterBackoff cap base \<Rightarrow> (uniform 0 (min cap (base * 2 ^ failures)) u, b)
    | EqualJitterBackoff cap base \<Rightarrow>
        (let temp = min cap (base * 2 ^ failures) / 2 in (temp + uniform 0 temp u, b))
    | DecorrelatedJitterBackoff cap base \<Rightarrow>
        (let max_backoff = max base (previous_backoff b * 3);
             temp = uniform base max_backoff u;
             r = min cap temp
         in (r, b\<lparr>previous_backoff := r\<rparr>)))"

lemma uniform_bounds:
  assumes "a \<le> b" "0 \<le> u" "u \<le> 1"
  shows "a \<le> uniform a b u" "uniform a b u \<le> b"
proof -
  have "0 \<le> (b - a) * u" using assms by (simp add: mult_nonneg_nonneg)
  then show "a \<le> uniform a b u" by (simp add: uniform_def)
  have "(b - a) * u \<le> (b - a) * 1" using assms by (intro mult_left_mono) auto
  then show "uniform a b u \<le> b" by (simp add: uniform_def)
qed

text \<open>The cap and the base of a capped policy, and its well-formedness.\<close>

definition capped :: "backoff_policy \<Rightarrow> bool" where
  "capped p = (case p of ConstantBackoff _ \<Rightarrow> False | _ \<Rightarrow> 0 \<le> pol_cap p \<and> 0 \<le> pol_base p)"

lemma exp_min_nonneg: "0 \<le> cap \<Longrightarrow> 0 \<le> base \<Longrightarrow> 0 \<le> min cap (base * 2 ^ n)" for cap base :: rat
  by (simp add: min_def)

lemma backoff_compute_policy [simp]: "bk_policy (snd (backoff_compute b n u)) = bk_policy b"
  by (simp add: backoff_compute_def Let_def split: backoff_policy.splits)

lemma backoff_compute_bounds:
  assumes "capped (bk_policy b)" "0 \<le> u" "u \<le> 1"
  shows "0 \<le> fst (backoff_compute b n u) \<and> fst (backoff_compute b n u) \<le> pol_cap (bk_policy b)"
proof (cases "bk_policy b")
  case (ConstantBackoff t)
  with assms show ?thesis by (simp add: capped_def)
next
  case (ExponentialBackoff cap base)
  with assms show ?thesis by (simp add: backoff_compute_def capped_def exp_min_nonneg)
next
  case (FullJitterBackoff cap base)
  let ?m = "min cap (base * 2 ^ n)"
  have "0 \<le> ?m" using assms FullJitterBackoff by (simp add: capped_def exp_min_nonneg)
  then have "0 \<le> uniform 0 ?m u" "uniform 0 ?m u \<le> ?m"
    using uniform_bounds assms by blast+
  then show ?thesis using FullJitterBackoff by (simp add: backoff_compute_def)
next
  case (EqualJitterBackoff cap base)
  let ?m = "min cap (base * 2 ^ n)"
  have m: "0 \<le> ?m / 2" "?m \<le> cap" using assms EqualJitterBackoff by (simp_all add: capped_def exp_min_nonneg)
  then have u: "0 \<le> uniform 0 (?m / 2) u" "uniform 0 (?m / 2) u \<le> ?m / 2"
    using uniform_bounds assms by blast+
  have "0 \<le> ?m / 2 + uniform 0 (?m / 2) u" "?m / 2 + uniform 0 (?m / 2) u \<le> cap"
    using m u by linarith+
  then show ?thesis using EqualJitterBackoff by (simp add: backoff_compute_def Let_def)
next
  case (DecorrelatedJitterBackoff cap base)
  let ?x = "max base (previous_backoff b * 3)"
  have "base \<le> uniform base ?x u" using uniform_bounds assms by simp
  then have "0 \<le> min cap (uniform base ?x u)"
    using assms DecorrelatedJitterBackoff by (simp add: capped_def)
  then show ?thesis using DecorrelatedJitterBackoff by (simp add: backoff_compute_def Let_def)
qed

section \<open>The retry loop\<close>

record retry =
  rt_backoff :: backoff
  rt_retries :: int
  rt_supported :: "exc_class list"

definition default_supported_errors :: "exc_class list" where
  "default_supported_errors = [ConnectionError, TimeoutError, SocketTimeout]"

definition new_retry :: "backoff_policy \<Rightarrow> int \<Rightarrow> retry" where
  "new_retry p n = \<lparr>rt_backoff = new_backoff p, rt_retries = n, rt_supported = default_supported_errors\<rparr>"

definition update_supported_errors :: "retry \<Rightarrow> exc_class list \<Rightarrow> retry" where
  "update_supported_errors r es = r\<lparr>rt_supported := remdups (rt_supported r @ es)\<rparr>"

text \<open>
  One run of \<open>while True\<close>: \<open>op\<close> and \<open>fail\<close> act on the caller's state \<open>'s\<close>,
  \<open>slp\<close> is \<open>sleep\<close>, \<open>rnd n\<close> the random number drawn after the \<open>n\<close>-th failure.
\<close>

partial_function (option) retry_loop ::
  "retry \<Rightarrow> (nat \<Rightarrow> rat) \<Rightarrow> (rat \<Rightarrow> 's \<Rightarrow> 's) \<Rightarrow> ('s, exc, 'a) action \<Rightarrow>
   (exc \<Rightarrow> ('s, exc, unit) action) \<Rightarrow> nat \<Rightarrow> backoff \<Rightarrow> 's \<Rightarrow> (((exc + 'a) \<times> 's) \<times> backoff) option"
where
  "retry_loop r rnd slp op fail failures bk s =
     (case op s of
        (Inr a, s1) \<Rightarrow> Some ((Inr a, s1), bk)
      | (Inl e, s1) \<Rightarrow>
          (if \<not> isinstance_any e (rt_supported r) then Some ((Inl e, s1), bk)
           else (case fail e s1 of
               (Inl e', s2) \<Rightarrow> Some ((Inl e', s2), bk)
             | (Inr _, s2) \<Rightarrow>
                 (if 0 \<le> rt_retries r \<and> rt_retries r < int (Suc failures) then Some ((Inl e, s2), bk)
                  else (let (t, bk') = backoff_compute bk (Suc failures) (rnd (Suc failures))
                        in retry_loop r rnd slp op fail (Suc failures) bk'
                             (if 0 < t then slp t s2 else s2))))))"

declare retry_loop.simps [code]

definition call_with_retry ::
  "retry \<Rightarrow> (nat \<Rightarrow> rat) \<Rightarrow> (rat \<Rightarrow> 's \<Rightarrow> 's) \<Rightarrow> ('s, exc, 'a) action \<Rightarrow>
   (exc \<Rightarrow> ('s, exc, unit) action) \<Rightarrow> 's \<Rightarrow> (((exc + 'a) \<times> 's) \<times> backoff) option"
where
  "call_with_retry r rnd slp op fail s = retry_loop r rnd slp op fail 0 (backoff_reset (rt_backoff r)) s"

text \<open>With a non-negative number of retries the loop returns.\<close>

lemma retry_loop_total:
  assumes "0 \<le> rt_retries r"
  shows "\<exists>y. retry_loop r rnd slp op fail failures bk s = Some y"
proof (induction "nat (rt_retries r + 1) - failures" arbitrary: failures bk s rule: less_induct)
  case less
  show ?case
  proof (cases "rt_retries r < int (Suc failures)")
    case True
    with assms show ?thesis
      by (subst retry_loop.simps) (auto split: prod.splits sum.splits)
  next
    case False
    then have "nat (rt_retries r + 1) - Suc failures < nat (rt_retries r + 1) - failures"
      by linarith
    from less [OF this] show ?thesis
      by (subst retry_loop.simps) (auto split: prod.splits sum.splits)
  qed
qed

text \<open>
  The attempts that are made: \<open>counted op\<close> is \<open>op\<close> with a counter of its calls in the
  state, and \<open>attempt_bound\<close> the number of calls the remaining retries allow.
\<close>

definition counted :: "('s, exc, 'a) action \<Rightarrow> (nat \<times> 's, exc, 'a) action" where
  "counted op = (\<lambda>(n, s). case op s of (r, s') \<Rightarrow> (r, (Suc n, s')))"

definition uncounted :: "('s, exc, 'a) action \<Rightarrow> (nat \<times> 's, exc, 'a) action" where
  "uncounted m = (\<lambda>(n, s). case m s of (r, s') \<Rightarrow> (r, (n, s')))"

lemma retry_loop_attempts:
  assumes "0 \<le> rt_retries r" "int failures \<le> rt_retries r"
    and "retry_loop r rnd (\<lambda>t (n, s). (n, slp t s)) (counted op) (\<lambda>e. uncounted (fail e)) failures bk (n, s)
       = Some ((res, (m, s')), bk')"
  shows "int m \<le> int n + (rt_retries r + 1 - int failures)"
  using assms(2,3)
proof (induction "nat (rt_retries r + 1) - failures" arbitrary: failures bk n s rule: less_induct)
  case less
  obtain res1 s1 where op: "op s = (res1, s1)" by force
  have c: "counted op (n, s) = (res1, (Suc n, s1))" by (simp add: counted_def op)
  show ?case
  proof (cases res1)
    case (Inr a)
    with less.prems c show ?thesis by (simp add: retry_loop.simps)
  next
    case (Inl e)
    obtain res2 s2 where fl: "fail e s1 = (res2, s2)" by force
    have u: "uncounted (fail e) (Suc n, s1) = (res2, (Suc n, s2))" by (simp add: uncounted_def fl)
    show ?thesis
    proof (cases "isinstance_any e (rt_supported r) \<and> (\<exists>x. res2 = Inr x) \<and> \<not> rt_retries r < int (Suc failures)")
      case False
      with less.prems assms(1) c u Inl show ?thesis
        by (auto simp: retry_loop.simps [of r] split: if_splits sum.splits prod.splits)
    next
      case True
      obtain t bk1 where bc: "backoff_compute bk (Suc failures) (rnd (Suc failures)) = (t, bk1)" by force
      have eq: "retry_loop r rnd (\<lambda>t (n, s). (n, slp t s)) (counted op) (\<lambda>e. uncounted (fail e)) (Suc failures) bk1
          (Suc n, if 0 < t then slp t s2 else s2) = Some ((res, (m, s')), bk')"
        using less.prems(2) c u Inl True bc
        by (subst (asm) retry_loop.simps) (auto split: if_splits)
      have dec: "nat (rt_retries r + 1) - Suc failures < nat (rt_retries r + 1) - failures"
        using True by linarith
      show ?thesis
        using less.hyps [OF dec _ eq] True by simp
    qed
  qed
qed

section \<open>What the loop returns\<close>

text \<open>
  An operation that consumes a script of outcomes. \<open>retry_spec\<close> is the promise of the
  class: the first success within the allowed attempts, an unsupported error at once, else
  the error of the last attempt.
\<close>

fun scripted :: "((exc + 'a) list, exc, 'a) action" where
  "scripted [] = (Inl (Exc PyException ''script exhausted''), [])"
| "scripted (r # rs) = (r, rs)"

fun retry_spec :: "exc_class list \<Rightarrow> nat \<Rightarrow> (exc + 'a) list \<Rightarrow> (exc + 'a) \<times> (exc + 'a) list" where
  "retry_spec cs n [] = (Inl (Exc PyException ''script exhausted''), [])"
| "retry_spec cs n (Inr a # rs) = (Inr a, rs)"
| "retry_spec cs 0 (Inl e # rs) = (Inl e, rs)"
| "retry_spec cs (Suc n) (Inl e # rs) =
     (if isinstance_any e cs then retry_spec cs n rs else (Inl e, rs))"

lemma retry_loop_spec:
  assumes "\<not> isinstance_any (Exc PyException ''script exhausted'') (rt_supported r)"
    and "rt_retries r = int (failures + n)"
  shows "\<exists>bk'. retry_loop r rnd (\<lambda>_ s. s) scripted (\<lambda>_. retS ()) failures bk rs
       = Some (retry_spec (rt_supported r) n rs, bk')"
  using assms(2)
proof (induction "rt_supported r" n rs arbitrary: failures bk rule: retry_spec.induct)
  case (1 n)
  with assms(1) show ?case by (simp add: retry_loop.simps)
next
  case (2 n a rs)
  then show ?case by (simp add: retry_loop.simps)
next
  case (3 e rs)
  then show ?case by (simp add: retry_loop.simps)
next
  case (4 n e rs)
  show ?case
  proof (cases "isinstance_any e (rt_supported r)")
    case False
    then show ?thesis by (simp add: retry_loop.simps)
  next
    case True
    obtain t bk1 where bc: "backoff_compute bk (Suc failures) (rnd (Suc failures)) = (t, bk1)" by force
    have "retry_loop r rnd (\<lambda>_ s. s) scripted (\<lambda>_. retS ()) failures bk (Inl e # rs)
        = retry_loop r rnd (\<lambda>_ s. s) scripted (\<lambda>_. retS ()) (Suc failures) bk1 rs"
      using True "4.prems" bc by (subst retry_loop.simps) simp
    moreover have "rt_retries r = int (Suc failures + n)" using "4.prems" by simp
    ultimately show ?thesis
      using "4.hyps" [OF True, of "Suc failures" bk1] True by simp
  qed
qed

text \<open>every delay a capped policy computes lies between zero and its cap, whatever the number
  of failures, the previous delay and the random draw.\<close>

theorem backoff_within_cap:
  assumes "capped (bk_policy b)" "0 \<le> u" "u \<le> 1"
  shows "0 \<le> fst (backoff_compute b n u) \<and> fst (backoff_compute b n u) \<le> pol_cap (bk_policy b)"
  using assms by (rule backoff_compute_bounds)

theorem backoff_within_cap_witness:
  "0 \<le> fst (backoff_compute (new_backoff default_backoff) 5 (1/2)) \<and>
   fst (backoff_compute (new_backoff default_backoff) 5 (1/2)) \<le> pol_cap (bk_policy (new_backoff default_backoff))"
  by (rule backoff_within_cap)
     (simp_all add: capped_def new_backoff_def default_backoff_def DEFAULT_CAP_def DEFAULT_BASE_def)

text \<open>C37: with \<open>n\<close> retries, calling an operation whose attempts end as scripted returns
  the first success among the first \<open>n + 1\<close> attempts, raises an unsupported error at once,
  and else raises the error of the last attempt; the attempts behind it are not made.\<close>

theorem call_with_retry_correct:
  assumes "\<not> isinstance_any (Exc PyException ''script exhausted'') (rt_supported r)"
    and "rt_retries r = int n"
  shows "\<exists>bk'. call_with_retry r rnd (\<lambda>_ s. s) scripted (\<lambda>_. retS ()) rs
       = Some (retry_spec (rt_supported r) n rs, bk')"
  unfolding call_with_retry_def using assms by (intro retry_loop_spec) simp_all

theorem call_with_retry_correct_witness:
  "\<exists>bk'. call_with_retry (new_retry NoBackoff 1) (\<lambda>_. 0) (\<lambda>_ s. s) scripted (\<lambda>_. retS ())
         [Inl (Exc TimeoutError []), Inr ''OK'', Inr ''late'']
       = Some (retry_spec (rt_supported (new_retry NoBackoff 1)) 1
                [Inl (Exc TimeoutError []), Inr ''OK'', Inr ''late''], bk')"
  by (rule call_with_retry_correct)
     (simp_all add: new_retry_def default_supported_errors_def isinstance_any_def)

text \<open>an operation that always fails with a supported error is called at most
  \<open>retries + 1\<close> times, and the call returns.\<close>

theorem call_with_retry_attempts:
  assumes "0 \<le> rt_retries r"
  shows "\<exists>res m s' bk'. call_with_retry r rnd (\<lambda>t (n, s). (n, slp t s)) (counted op)
       (\<lambda>e. uncounted (fail e)) (0, s) = Some ((res, (m, s')), bk') \<and> int m \<le> rt_retries r + 1"
proof -
  obtain res m s' bk' where r: "retry_loop r rnd (\<lambda>t (n, s). (n, slp t s)) (counted op)
      (\<lambda>e. uncounted (fail e)) 0 (backoff_reset (rt_backoff r)) (0, s) = Some ((res, (m, s')), bk')"
    using retry_loop_total [OF assms] by (metis prod.exhaust)
  have "int m \<le> int 0 + (rt_retries r + 1 - int 0)"
    by (rule retry_loop_attempts [OF assms _ r]) (simp add: assms)
  with r show ?thesis by (simp add: call_with_retry_def)
qed

theorem call_with_retry_attempts_witness:
  "\<exists>res m s' bk'. call_with_retry (new_retry NoBackoff 3) (\<lambda>_. 0) (\<lambda>t (n, s). (n, s)) (counted scripted)
       (\<lambda>e. uncounted (retS ())) (0, [] :: (exc + bool) list) = Some ((res, (m, s')), bk') \<and>
     int m \<le> rt_retries (new_retry NoBackoff 3) + 1"
  by (rule call_with_retry_attempts) (simp add: new_retry_def)

end
