(* ===== verification/SocketBuffer.thy ===== *)
theory SocketBuffer
  imports Serializer
begin

text \<open>
  \<open>SocketBuffer\<close> (\<open>redis/_parsers/socket.py\<close>): a growing byte buffer with a read
  position over a socket. The socket is the script of what its \<open>recv\<close> calls give; a
  script that is used up is a peer that sends nothing more, so the next \<open>recv\<close> ends by the
  socket's timeout. The last part is the interface the parsers use, a flat byte stream, and the
  proof that the buffer provides it whatever the chunks.
\<close>

section \<open>State\<close>

text \<open>
  \<open>RecvBlocked b\<close> is one of \<open>NONBLOCKING_EXCEPTIONS\<close>; \<open>b\<close> says that its
  \<open>errno\<close> is the allowed one of its class. \<open>RecvRaise\<close> is any other exception.
\<close>

datatype recv_event = RecvData string | RecvTimeout | RecvBlocked bool | RecvRaise exc

record sockbuf =
  sb_data :: string
  sb_pos :: nat
  sb_events :: "recv_event list"
  sb_timeout :: "rat option"        \<comment> \<open>the timeout set on the socket\<close>
  socket_timeout :: "rat option"    \<comment> \<open>the timeout of the connection\<close>

definition new_sockbuf :: "recv_event list \<Rightarrow> rat option \<Rightarrow> sockbuf" where
  "new_sockbuf evs t = \<lparr>sb_data = [], sb_pos = 0, sb_events = evs, sb_timeout = t, socket_timeout = t\<rparr>"

definition server_closed :: exc where
  "server_closed = Exc ConnectionError ''Connection closed by server.''"

definition timeout_reading :: exc where
  "timeout_reading = Exc TimeoutError ''Timeout reading from socket''"

definition error_reading :: exc where
  "error_reading = Exc ConnectionError ''Error while reading from socket''"

section \<open>Operations\<close>

definition unread_bytes :: "sockbuf \<Rightarrow> nat" where
  "unread_bytes sb = length (sb_data sb) - sb_pos sb"

text \<open>
  The loop of \<open>_read_from_socket\<close>: it appends to the buffer, and with a length it goes on
  until as many bytes have been received.
\<close>

fun recv_loop ::
  "int option \<Rightarrow> bool \<Rightarrow> int \<Rightarrow> string \<Rightarrow> recv_event list \<Rightarrow> (exc + bool) \<times> string \<times> recv_event list" where
  "recv_loop len raise_on_timeout marker buf [] =
     (if raise_on_timeout then Inl timeout_reading else Inr False, buf, [])"
| "recv_loop len raise_on_timeout marker buf (RecvTimeout # evs) =
     (if raise_on_timeout then Inl timeout_reading else Inr False, buf, evs)"
| "recv_loop len raise_on_timeout marker buf (RecvBlocked allowed # evs) =
     (if \<not> raise_on_timeout \<and> allowed then Inr False else Inl error_reading, buf, evs)"
| "recv_loop len raise_on_timeout marker buf (RecvRaise e # evs) = (Inl e, buf, evs)"
| "recv_loop len raise_on_timeout marker buf (RecvData data # evs) =
     (if data = [] then (Inl server_closed, buf, evs)
      else let marker' = marker + int (length data) in
        if (case len of None \<Rightarrow> False | Some n \<Rightarrow> marker' < n)
        then recv_loop len raise_on_timeout marker' (buf @ data) evs
        else (Inr True, buf @ data, evs))"

text \<open>The outer option is \<open>SENTINEL\<close>; a custom timeout is undone by the \<open>finally\<close> block.\<close>

definition read_from_socket ::
  "int option \<Rightarrow> rat option option \<Rightarrow> bool \<Rightarrow> (sockbuf, exc, bool) action" where
  "read_from_socket len timeout raise_on_timeout = (\<lambda>sb.
     let sb1 = (case timeout of None \<Rightarrow> sb | Some t \<Rightarrow> sb\<lparr>sb_timeout := t\<rparr>) in
     (case recv_loop len raise_on_timeout 0 (sb_data sb1) (sb_events sb1) of (r, buf, evs) \<Rightarrow>
        let sb2 = sb1\<lparr>sb_data := buf, sb_events := evs\<rparr> in
        (r, case timeout of None \<Rightarrow> sb2 | Some _ \<Rightarrow> sb2\<lparr>sb_timeout := socket_timeout sb2\<rparr>)))"

definition can_read :: "rat option \<Rightarrow> (sockbuf, exc, bool) action" where
  "can_read timeout = (\<lambda>sb.
     if 0 < unread_bytes sb then (Inr True, sb) else read_from_socket None (Some timeout) False sb)"

text \<open>\<open>BytesIO.read(n)\<close>: a negative \<open>n\<close> reads to the end.\<close>

definition bio_read :: "int \<Rightarrow> sockbuf \<Rightarrow> string \<times> sockbuf" where
  "bio_read n sb =
     (let rest = drop (sb_pos sb) (sb_data sb);
          data = (if n < 0 then rest else take (nat n) rest)
      in (data, sb\<lparr>sb_pos := sb_pos sb + length data\<rparr>))"

text \<open>\<open>BytesIO.readline()\<close>: up to and with the next newline, or to the end.\<close>

fun upto_nl :: "string \<Rightarrow> string" where
  "upto_nl [] = []"
| "upto_nl (c # cs) = (if c = CHR 0x0A then [c] else c # upto_nl cs)"

definition bio_readline :: "sockbuf \<Rightarrow> string \<times> sockbuf" where
  "bio_readline sb =
     (let data = upto_nl (drop (sb_pos sb) (sb_data sb))
      in (data, sb\<lparr>sb_pos := sb_pos sb + length data\<rparr>))"

text \<open>\<open>data[:-2]\<close> and \<open>data.endswith(SYM_CRLF)\<close>.\<close>

definition chop2 :: "'a list \<Rightarrow> 'a list" where
  "chop2 xs = take (length xs - 2) xs"

definition ends_crlf :: "string \<Rightarrow> bool" where
  "ends_crlf s = (\<exists>p. s = p @ CRLF)"

lemma ends_crlf_code [code]: "ends_crlf s = (drop (length s - 2) s = CRLF)"
proof
  assume "ends_crlf s"
  then show "drop (length s - 2) s = CRLF" by (auto simp: ends_crlf_def)
next
  assume "drop (length s - 2) s = CRLF"
  then have "s = take (length s - 2) s @ CRLF" by (metis append_take_drop_id)
  then show "ends_crlf s" unfolding ends_crlf_def by blast
qed

definition sb_read :: "int \<Rightarrow> (sockbuf, exc, string) action" where
  "sb_read n = (\<lambda>sb.
     let len = n + 2; (data, sb1) = bio_read len sb; missing = len - int (length data) in
     if missing \<noteq> 0 then
       (case read_from_socket (Some missing) None True sb1 of
          (Inl e, sb2) \<Rightarrow> (Inl e, sb2)
        | (Inr _, sb2) \<Rightarrow> (case bio_read missing sb2 of (rest2, sb3) \<Rightarrow> (Inr (chop2 (data @ rest2)), sb3)))
     else (Inr (chop2 data), sb1))"

lemma recv_loop_consumes:
  "recv_loop len rt m buf evs = (Inr b, buf', evs') \<Longrightarrow> rt \<Longrightarrow> length evs' < length evs"
  by (induction len rt m buf evs rule: recv_loop.induct) (auto simp: Let_def split: if_splits)

lemma read_from_socket_consumes:
  "read_from_socket len t True sb = (Inr b, sb') \<Longrightarrow> length (sb_events sb') < length (sb_events sb)"
  by (auto simp: read_from_socket_def Let_def split: prod.splits option.splits
           dest!: recv_loop_consumes)

text \<open>Every turn of the loop takes an event off the script, so the loop ends.\<close>

function readline_loop :: "string \<Rightarrow> (sockbuf, exc, string) action" where
  "readline_loop data sb =
     (if ends_crlf data then (Inr (chop2 data), sb)
      else (case read_from_socket None None True sb of
          (Inl e, sb1) \<Rightarrow> (Inl e, sb1)
        | (Inr _, sb1) \<Rightarrow> (case bio_readline sb1 of (rest2, sb2) \<Rightarrow> readline_loop (data @ rest2) sb2)))"
  by pat_completeness auto
termination
proof (relation "measure (\<lambda>(_, sb). length (sb_events sb))", goal_cases)
  case 1
  show ?case by simp
next
  case 2
  then show ?case
    by (auto simp: bio_readline_def Let_def dest!: read_from_socket_consumes [OF sym])
qed

declare readline_loop.simps [simp del]

definition sb_readline :: "(sockbuf, exc, string) action" where
  "sb_readline = (\<lambda>sb. case bio_readline sb of (data, sb1) \<Rightarrow> readline_loop data sb1)"

definition get_pos :: "sockbuf \<Rightarrow> nat" where
  "get_pos sb = sb_pos sb"

definition rewind :: "nat \<Rightarrow> sockbuf \<Rightarrow> sockbuf" where
  "rewind pos sb = sb\<lparr>sb_pos := pos\<rparr>"

text \<open>
  With unread bytes the method returns early, so its compaction step is never reached; else it
  empties the buffer.
\<close>

definition purge :: "sockbuf \<Rightarrow> sockbuf" where
  "purge sb =
     (let unread = unread_bytes sb in
      if 0 < unread then sb
      else sb\<lparr>sb_data := take unread (sb_data sb), sb_pos := 0\<rparr>)"

section \<open>The buffer is a flat byte stream\<close>

text \<open>
  The bytes a reader still gets, and the states in which the script gives data only and the
  position lies in the buffer.
\<close>

fun event_bytes :: "recv_event \<Rightarrow> string" where
  "event_bytes (RecvData d) = d"
| "event_bytes _ = []"

fun is_data :: "recv_event \<Rightarrow> bool" where
  "is_data (RecvData d) = (d \<noteq> [])"
| "is_data _ = False"

definition pending :: "sockbuf \<Rightarrow> string" where
  "pending sb = drop (sb_pos sb) (sb_data sb) @ concat (map event_bytes (sb_events sb))"

definition sb_good :: "sockbuf \<Rightarrow> bool" where
  "sb_good sb = (sb_pos sb \<le> length (sb_data sb) \<and> list_all is_data (sb_events sb))"

lemma chop2_append2 [simp]: "length t = 2 \<Longrightarrow> chop2 (xs @ t) = xs"
  by (simp add: chop2_def)

lemma upto_nl_prefix: "\<exists>r. xs = upto_nl xs @ r"
  by (induction xs) auto

lemma upto_nl_none: "CHR 0x0A \<notin> set xs \<Longrightarrow> upto_nl xs = xs"
  by (induction xs) auto

lemma upto_nl_append: "CHR 0x0A \<notin> set xs \<Longrightarrow> upto_nl (xs @ CHR 0x0A # ys) = xs @ [CHR 0x0A]"
  by (induction xs) auto

lemma recv_loop_data:
  assumes "list_all is_data evs" "n \<le> m + int (length (concat (map event_bytes evs)))" "m < n"
  shows "\<exists>got evs'. recv_loop (Some n) rt m buf evs = (Inr True, buf @ got, evs') \<and>
      list_all is_data evs' \<and> concat (map event_bytes evs) = got @ concat (map event_bytes evs') \<and>
      n \<le> m + int (length got)"
  using assms
proof (induction evs arbitrary: m buf)
  case Nil
  then show ?case by simp
next
  case (Cons ev evs)
  from Cons.prems(1) obtain d where ev: "ev = RecvData d" and d: "d \<noteq> []"
    by (cases ev) auto
  show ?case
  proof (cases "m + int (length d) < n")
    case False
    with d Cons.prems show ?thesis
      by (intro exI [of _ d] exI [of _ evs]) (simp add: ev)
  next
    case True
    have "list_all is_data evs" using Cons.prems(1) by simp
    moreover have "n \<le> m + int (length d) + int (length (concat (map event_bytes evs)))"
      using Cons.prems(2) by (simp add: ev)
    ultimately obtain got evs' where
      "recv_loop (Some n) rt (m + int (length d)) (buf @ d) evs = (Inr True, (buf @ d) @ got, evs')"
      "list_all is_data evs'" "concat (map event_bytes evs) = got @ concat (map event_bytes evs')"
      "n \<le> m + int (length d) + int (length got)"
      using Cons.IH True by blast
    with True d show ?thesis
      by (intro exI [of _ "d @ got"] exI [of _ evs']) (simp add: ev)
  qed
qed

lemma read_from_socket_pos:
  "read_from_socket len t rt sb = (r, sb') \<Longrightarrow> sb_pos sb' = sb_pos sb"
  by (auto simp: read_from_socket_def Let_def split: prod.splits option.splits)

text \<open>A custom timeout never outlives the call.\<close>

lemma read_from_socket_timeout:
  assumes "sb_timeout sb = socket_timeout sb"
  shows "sb_timeout (snd (read_from_socket len t rt sb)) = socket_timeout (snd (read_from_socket len t rt sb))"
  using assms by (auto simp: read_from_socket_def Let_def split: prod.splits option.splits)

text \<open>A read takes exactly its bytes and the terminator, whatever the chunks.\<close>

lemma sb_read_spec:
  assumes good: "sb_good sb" and p: "pending sb = b @ t @ rest" and t: "length t = 2"
  shows "\<exists>sb'. sb_read (int (length b)) sb = (Inr b, sb') \<and> pending sb' = rest \<and> sb_good sb'"
proof -
  define buf where "buf = drop (sb_pos sb) (sb_data sb)"
  define evb where "evb = concat (map event_bytes (sb_events sb))"
  define k where "k = length b + 2"
  have pend: "buf @ evb = b @ t @ rest" using p by (simp add: pending_def buf_def evb_def)
  have k: "int (length b) + 2 = int k" by (simp add: k_def)
  have want: "take k (buf @ evb) = b @ t" "drop k (buf @ evb) = rest"
    using t by (simp_all add: pend k_def)
  have posle: "sb_pos sb \<le> length (sb_data sb)" using good by (simp add: sb_good_def)
  have lbuf: "length (sb_data sb) = sb_pos sb + length buf" using posle by (simp add: buf_def)
  show ?thesis
  proof (cases "k \<le> length buf")
    case True
    then have "take k buf = b @ t" "rest = drop k buf @ evb" using want by simp_all
    moreover have "drop (sb_pos sb + k) (sb_data sb) = drop k buf"
      by (simp add: buf_def add.commute)
    moreover have "length (b @ t) = k" using t by (simp add: k_def)
    ultimately show ?thesis
      using True good t lbuf
      by (auto simp: sb_read_def k Let_def bio_read_def buf_def [symmetric] pending_def evb_def
          sb_good_def simp del: length_append)
  next
    case False
    define miss where "miss = k - length buf"
    have tb: "take k buf = buf" using False by simp
    have le: "k \<le> length buf + length evb"
    proof -
      have "length (buf @ evb) = length b + length t + length rest" by (simp add: pend)
      then show ?thesis using t by (simp add: k_def)
    qed
    have "\<exists>got evs'. recv_loop (Some (int miss)) True 0 (sb_data sb) (sb_events sb)
          = (Inr True, sb_data sb @ got, evs') \<and>
      list_all is_data evs' \<and> evb = got @ concat (map event_bytes evs') \<and>
      int miss \<le> 0 + int (length got)"
      unfolding evb_def
      using good False le by (intro recv_loop_data) (simp_all add: sb_good_def miss_def evb_def)
    then obtain got evs' where
      rl: "recv_loop (Some (int miss)) True 0 (sb_data sb) (sb_events sb) = (Inr True, sb_data sb @ got, evs')"
      and e': "list_all is_data evs'" "evb = got @ concat (map event_bytes evs')"
      and ml: "miss \<le> length got"
      by auto
    have bt: "buf @ take miss got = b @ t"
      using want(1) False ml by (simp add: e' miss_def)
    have rs: "drop miss got @ concat (map event_bytes evs') = rest"
      using want(2) False ml by (simp add: e' miss_def)
    have dp: "drop (sb_pos sb + length buf) (sb_data sb @ got) = got"
      using lbuf by simp
    let ?sb1 = "sb\<lparr>sb_pos := sb_pos sb + length buf\<rparr>"
    let ?sb2 = "sb\<lparr>sb_data := sb_data sb @ got, sb_events := evs', sb_pos := sb_pos sb + length buf\<rparr>"
    let ?sb3 = "sb\<lparr>sb_data := sb_data sb @ got, sb_events := evs', sb_pos := sb_pos sb + length buf + miss\<rparr>"
    have b1: "bio_read (int k) sb = (buf, ?sb1)"
      using tb by (simp add: bio_read_def buf_def [symmetric])
    have b2: "read_from_socket (Some (int miss)) None True ?sb1 = (Inr True, ?sb2)"
      using rl by (simp add: read_from_socket_def)
    have b3: "bio_read (int miss) ?sb2 = (take miss got, ?sb3)"
      using ml by (simp add: bio_read_def Let_def dp del: drop_append)
    have "int k - int (length buf) = int miss" using False by (simp add: miss_def)
    moreover have "miss \<noteq> 0" using False by (simp add: miss_def)
    ultimately have "sb_read (int (length b)) sb = (Inr (chop2 (buf @ take miss got)), ?sb3)"
      by (simp add: sb_read_def k Let_def b1 b2 b3)
    moreover have "drop (sb_pos sb + length buf + miss) (sb_data sb @ got) = drop miss got"
      using lbuf by simp
    ultimately show ?thesis
      using bt rs t e' ml lbuf by (simp add: pending_def sb_good_def)
  qed
qed

lemma recv_once:
  assumes "list_all is_data (ev # evs)"
  shows "read_from_socket None None True (sb\<lparr>sb_events := ev # evs\<rparr>)
     = (Inr True, sb\<lparr>sb_data := sb_data sb @ event_bytes ev, sb_events := evs\<rparr>)"
  using assms by (cases ev) (auto simp: read_from_socket_def Let_def)

lemma no_crlf_without_nl: "CHR 0x0A \<notin> set s \<Longrightarrow> \<not> ends_crlf s"
  by (auto simp: ends_crlf_def CRLF_def)

lemma split_at_crlf:
  assumes "a @ e = l @ CRLF @ rest" "CHR 0x0A \<notin> set l"
  shows "(CHR 0x0A \<notin> set a \<and> (\<exists>r. l @ [CHR 0x0D] = a @ r)) \<or>
         (\<exists>r. a = l @ CRLF @ r \<and> rest = r @ e)"
proof -
  have "(\<exists>us. a @ us = l @ CRLF \<and> e = us @ rest) \<or> (\<exists>us. a = (l @ CRLF) @ us \<and> us @ e = rest)"
    using assms(1) append_eq_append_conv2 [of a e "l @ CRLF" rest] by auto
  then show ?thesis
  proof
    assume "\<exists>us. a @ us = l @ CRLF \<and> e = us @ rest"
    then obtain us where us: "a @ us = l @ CRLF" "e = us @ rest" by blast
    show ?thesis
    proof (cases us rule: rev_cases)
      case Nil
      with us show ?thesis by auto
    next
      case (snoc ys y)
      with us have "a @ ys = l @ [CHR 0x0D]" by (simp add: CRLF_def)
      moreover from this have "CHR 0x0A \<notin> set a"
      proof -
        have "set a \<subseteq> set (l @ [CHR 0x0D])" by (metis \<open>a @ ys = l @ [CHR 0x0D]\<close> set_append Un_upper1)
        then show ?thesis using assms(2) by auto
      qed
      ultimately show ?thesis by metis
    qed
  next
    assume "\<exists>us. a = (l @ CRLF) @ us \<and> us @ e = rest"
    then show ?thesis by auto
  qed
qed

lemma readline_loop_spec:
  assumes "sb_pos sb = length (sb_data sb)" "list_all is_data (sb_events sb)"
    and "data @ concat (map event_bytes (sb_events sb)) = l @ CRLF @ rest"
    and "CHR 0x0A \<notin> set l" "CHR 0x0A \<notin> set data"
  shows "\<exists>sb'. readline_loop data sb = (Inr l, sb') \<and> pending sb' = rest \<and> sb_good sb'"
  using assms
proof (induction "sb_events sb" arbitrary: sb data)
  case Nil
  then have "data = l @ CRLF @ rest" by (metis append_Nil2 concat.simps(1) list.simps(8))
  with Nil.prems(5) show ?case by (simp add: CRLF_def)
next
  case (Cons ev evs)
  let ?d = "event_bytes ev"
  let ?sb1 = "sb\<lparr>sb_data := sb_data sb @ ?d, sb_events := evs\<rparr>"
  have evs: "list_all is_data (ev # evs)" using Cons.hyps(2) Cons.prems(2) by simp
  have rfs: "read_from_socket None None True sb = (Inr True, ?sb1)"
    using recv_once [OF evs, of sb] Cons.hyps(2) by simp
  have dr: "drop (sb_pos sb) (sb_data sb @ ?d) = ?d" using Cons.prems(1) by simp
  have total: "(data @ ?d) @ concat (map event_bytes evs) = l @ CRLF @ rest"
    using Cons.prems(3) Cons.hyps(2) [symmetric] by simp
  have nc: "\<not> ends_crlf data" using Cons.prems(5) by (rule no_crlf_without_nl)
  let ?sb2 = "?sb1\<lparr>sb_pos := sb_pos sb + length (upto_nl ?d)\<rparr>"
  have step: "readline_loop data sb = readline_loop (data @ upto_nl ?d) ?sb2"
    using nc rfs dr by (subst readline_loop.simps) (simp add: bio_readline_def Let_def)
  from split_at_crlf [OF total Cons.prems(4)] show ?case
  proof
    assume "CHR 0x0A \<notin> set (data @ ?d) \<and> (\<exists>r. l @ [CHR 0x0D] = (data @ ?d) @ r)"
    then have nn: "CHR 0x0A \<notin> set (data @ ?d)" by blast
    then have "upto_nl ?d = ?d" by (simp add: upto_nl_none)
    moreover have "\<exists>sb'. readline_loop (data @ ?d) (?sb1\<lparr>sb_pos := sb_pos sb + length ?d\<rparr>) = (Inr l, sb')
        \<and> pending sb' = rest \<and> sb_good sb'"
      by (rule Cons.hyps(1)) (use Cons.prems evs total nn in simp_all)
    ultimately show ?thesis using step by simp
  next
    assume "\<exists>r. data @ ?d = l @ CRLF @ r \<and> rest = r @ concat (map event_bytes evs)"
    then obtain r where r: "data @ ?d = (l @ [CHR 0x0D]) @ CHR 0x0A # r"
      and rest: "rest = r @ concat (map event_bytes evs)" by (auto simp: CRLF_def)
    have "upto_nl (data @ ?d) = l @ CRLF"
      unfolding r using Cons.prems(4) by (subst upto_nl_append) (simp_all add: CRLF_def)
    moreover have "upto_nl (data @ ?d) = data @ upto_nl ?d"
      using Cons.prems(5) by (induction data) auto
    ultimately have u: "data @ upto_nl ?d = l @ CRLF" by simp
    obtain r' where r': "?d = upto_nl ?d @ r'" using upto_nl_prefix by blast
    have "(data @ upto_nl ?d) @ r' = (l @ CRLF) @ r"
      using r r' by (simp add: CRLF_def)
    then have "r' = r" using u by simp
    then have "drop (length (upto_nl ?d)) ?d = r" by (metis r' append_eq_conv_conj)
    moreover have "length (upto_nl ?d) \<le> length ?d" by (metis r' length_append le_add1)
    ultimately have "readline_loop data sb = (Inr l, ?sb2) \<and> pending ?sb2 = rest \<and> sb_good ?sb2"
      using step u rest evs Cons.prems(1)
      by (subst (asm) readline_loop.simps)
         (auto simp: pending_def sb_good_def ends_crlf_def)
    then show ?thesis by blast
  qed
qed

lemma sb_readline_spec:
  assumes good: "sb_good sb" and p: "pending sb = l @ CRLF @ rest" and l: "CHR 0x0A \<notin> set l"
  shows "\<exists>sb'. sb_readline sb = (Inr l, sb') \<and> pending sb' = rest \<and> sb_good sb'"
proof -
  let ?buf = "drop (sb_pos sb) (sb_data sb)"
  let ?evb = "concat (map event_bytes (sb_events sb))"
  have posle: "sb_pos sb \<le> length (sb_data sb)" using good by (simp add: sb_good_def)
  have "?buf @ ?evb = l @ CRLF @ rest" using p by (simp add: pending_def)
  from split_at_crlf [OF this l] show ?thesis
  proof
    assume "CHR 0x0A \<notin> set ?buf \<and> (\<exists>r. l @ [CHR 0x0D] = ?buf @ r)"
    then have nn: "CHR 0x0A \<notin> set ?buf" by blast
    then have u: "upto_nl ?buf = ?buf" by (rule upto_nl_none)
    have "\<exists>sb'. readline_loop ?buf (sb\<lparr>sb_pos := length (sb_data sb)\<rparr>) = (Inr l, sb')
        \<and> pending sb' = rest \<and> sb_good sb'"
      by (rule readline_loop_spec) (use good p l nn in \<open>simp_all add: sb_good_def pending_def\<close>)
    then show ?thesis using posle by (simp add: sb_readline_def bio_readline_def u Let_def)
  next
    assume "\<exists>r. ?buf = l @ CRLF @ r \<and> rest = r @ ?evb"
    then obtain r where buf: "?buf = l @ CRLF @ r" and rest: "rest = r @ ?evb" by blast
    have "upto_nl ?buf = upto_nl ((l @ [CHR 0x0D]) @ CHR 0x0A # r)"
      by (simp add: buf CRLF_def)
    also have "\<dots> = l @ CRLF" using l by (subst upto_nl_append) (simp_all add: CRLF_def)
    finally have u: "upto_nl ?buf = l @ CRLF" .
    have dr: "drop (sb_pos sb + (length l + 2)) (sb_data sb) = r"
    proof -
      have "drop (length l + 2) ?buf = r" by (simp add: buf)
      then show ?thesis by (simp add: add.commute)
    qed
    have len: "length ?buf = length l + 2 + length r" by (simp add: buf)
    have "sb_readline sb = (Inr l, sb\<lparr>sb_pos := sb_pos sb + (length l + 2)\<rparr>)"
      by (simp add: sb_readline_def bio_readline_def u Let_def, subst readline_loop.simps)
         (auto simp: ends_crlf_def)
    moreover have "sb_pos sb + (length l + 2) \<le> length (sb_data sb)" using len posle by simp
    ultimately show ?thesis using good rest dr by (simp add: pending_def sb_good_def)
  qed
qed

section \<open>The interface of the parsers\<close>

text \<open>
  What a parser relies on: a line (without a newline in it) and a counted read are taken off
  the front of the pending bytes.
\<close>

locale byte_reader =
  fixes rl :: "('s, exc, string) action"
    and rd :: "int \<Rightarrow> ('s, exc, string) action"
    and pend :: "'s \<Rightarrow> string"
    and good :: "'s \<Rightarrow> bool"
  assumes readline_law: "good s \<Longrightarrow> pend s = l @ CRLF @ rest \<Longrightarrow> CHR 0x0A \<notin> set l \<Longrightarrow>
      \<exists>s'. rl s = (Inr l, s') \<and> pend s' = rest \<and> good s'"
    and read_law: "good s \<Longrightarrow> pend s = b @ CRLF @ rest \<Longrightarrow>
      \<exists>s'. rd (int (length b)) s = (Inr b, s') \<and> pend s' = rest \<and> good s'"

interpretation sockbuf_reader: byte_reader sb_readline sb_read pending sb_good
proof unfold_locales
  fix s l rest
  assume "sb_good s" "pending s = l @ CRLF @ rest" "CHR 0x0A \<notin> set l"
  then show "\<exists>s'. sb_readline s = (Inr l, s') \<and> pending s' = rest \<and> sb_good s'"
    by (rule sb_readline_spec)
next
  fix s b rest
  assume "sb_good s" "pending s = b @ CRLF @ rest"
  then show "\<exists>s'. sb_read (int (length b)) s = (Inr b, s') \<and> pending s' = rest \<and> sb_good s'"
    by (rule sb_read_spec) simp
qed

text \<open>
  Two buffers with the same pending bytes, cut into chunks in different ways, give a reader
  the same lines.
\<close>

lemma readline_chunking:
  assumes "sb_good sb1" "sb_good sb2" "pending sb1 = pending sb2"
    and "pending sb1 = l @ CRLF @ rest" "CHR 0x0A \<notin> set l"
  shows "fst (sb_readline sb1) = fst (sb_readline sb2)"
  using sb_readline_spec [OF assms(1,4,5)] sb_readline_spec [of sb2 l rest] assms by auto

lemma purge_pending: "sb_good sb \<Longrightarrow> pending (purge sb) = pending sb \<and> sb_good (purge sb)"
  by (auto simp: purge_def pending_def sb_good_def unread_bytes_def Let_def)

text \<open>
  A bare newline in a line makes the loop ask the socket for more, although the rest of the
  line is in the buffer already.
\<close>

lemma readline_bare_newline:
  "fst (sb_readline (new_sockbuf [RecvData (''+a'' @ [CHR 0x0A] @ ''b'' @ CRLF)] None)) = Inl timeout_reading"
  by (simp add: new_sockbuf_def sb_readline_def bio_readline_def readline_loop.simps
      read_from_socket_def ends_crlf_code CRLF_def Let_def)

end
