(* ===== verification/Resp.thy ===== *)
theory Resp
  imports SocketBuffer
begin

text \<open>
  The reply parsers of \<open>redis/_parsers/base.py\<close>, \<open>resp2.py\<close> and \<open>resp3.py\<close>.
  The body of \<open>_read_response\<close> is defined once for a reader (the line and byte operations
  and the two points where the asynchronous parser differs) and instantiated with the
  \<open>SocketBuffer\<close> and with the asynchronous stream buffer. Its depth argument is Python's
  recursion limit. The correctness part gives replies a datatype, their wire format and their
  Python value, and shows that a parser over any \<open>byte_reader\<close> computes exactly that value.
\<close>

section \<open>Error replies\<close>

datatype err_entry = ErrClass exc_class | ErrTable "(string, exc_class) dict"

definition NO_AUTH_SET_ERROR :: "(string, exc_class) dict" where
  "NO_AUTH_SET_ERROR =
    [(''AUTH <password> called without any password configured for the default user. '' @
      ''Are you sure your configuration is correct?'', AuthenticationError),
     (''Client sent AUTH, but no password is set'', AuthenticationError)]"

definition EXCEPTION_CLASSES :: "(string, err_entry) dict" where
  "EXCEPTION_CLASSES =
    [(''ERR'', ErrTable
       ([(''max number of clients reached'', ConnectionError),
         (''invalid password'', AuthenticationError),
         (''wrong number of arguments for 'auth' command'', AuthenticationWrongNumberOfArgsError),
         (''wrong number of arguments for 'AUTH' command'', AuthenticationWrongNumberOfArgsError),
         (''Error loading the extension. Please check the server logs.'', ModuleError),
         (''Error unloading module: the module exports one or more module-side data types, can't unload'',
          ModuleError),
         (''Error unloading module: no such module with that name'', ModuleError),
         (''Error unloading module: operation not possible.'', ModuleError)]
        @ NO_AUTH_SET_ERROR)),
     (''OOM'', ErrClass OutOfMemoryError),
     (''WRONGPASS'', ErrClass AuthenticationError),
     (''EXECABORT'', ErrClass ExecAbortError),
     (''LOADING'', ErrClass BusyLoadingError),
     (''NOSCRIPT'', ErrClass NoScriptError),
     (''READONLY'', ErrClass ReadOnlyError),
     (''NOAUTH'', ErrClass AuthenticationError),
     (''NOPERM'', ErrClass NoPermissionError)]"

text \<open>\<open>ClusterParser\<close> (\<open>redis/cluster.py\<close>).\<close>

definition CLUSTER_EXCEPTION_CLASSES :: "(string, err_entry) dict" where
  "CLUSTER_EXCEPTION_CLASSES = dict_update EXCEPTION_CLASSES
    [(''ASK'', ErrClass AskError),
     (''TRYAGAIN'', ErrClass TryAgainError),
     (''MOVED'', ErrClass MovedError),
     (''CLUSTERDOWN'', ErrClass ClusterDownError),
     (''CROSSSLOT'', ErrClass ClusterCrossSlotError),
     (''MASTERDOWN'', ErrClass MasterDownError)]"

text \<open>Calling an exception class; only the redirections parse their message.\<close>

definition make_exc :: "exc_class \<Rightarrow> string \<Rightarrow> exc + exc" where
  "make_exc c msg =
     (if exc_le c AskError then bindE (ask_error_init msg) (\<lambda>_. Inr (Exc c msg))
      else Inr (Exc c msg))"

definition parse_error :: "(string, err_entry) dict \<Rightarrow> string \<Rightarrow> exc + exc" where
  "parse_error classes response =
     (let error_code = hd (split_char (CHR '' '') response) in
      case dict_get classes error_code of
        None \<Rightarrow> Inr (Exc ResponseError response)
      | Some entry \<Rightarrow>
          (let response' = drop (length error_code + 1) response in
           make_exc (case entry of
               ErrClass c \<Rightarrow> c
             | ErrTable t \<Rightarrow> (case dict_get t response' of Some c \<Rightarrow> c | None \<Rightarrow> ResponseError))
             response'))"

lemma parse_error_moved:
  assumes "CHR '' '' \<notin> set (redir_host r)"
  shows "parse_error CLUSTER_EXCEPTION_CLASSES (''MOVED '' @ ask_message r) = Inr (Exc MovedError (ask_message r))"
proof -
  have "hd (split_char (CHR '' '') (''MOVED'' @ CHR '' '' # ask_message r)) = ''MOVED''"
    by (subst split_char_append) auto
  moreover have "dict_get CLUSTER_EXCEPTION_CLASSES ''MOVED'' = Some (ErrClass MovedError)"
    by (simp add: CLUSTER_EXCEPTION_CLASSES_def EXCEPTION_CLASSES_def)
  ultimately show ?thesis
    using ask_error_init_message [OF assms] by (simp add: parse_error_def make_exc_def)
qed

section \<open>Readers\<close>

text \<open>
  \<open>rd_clear\<close> is what the asynchronous parser does before it raises a connection error, and
  \<open>rd_empty_closed\<close> says whether an empty line is taken for a closed connection (the
  synchronous parsers) or for a protocol error.
\<close>

record 's reader =
  rd_line :: "('s, exc, string) action"
  rd_bytes :: "int \<Rightarrow> ('s, exc, string) action"
  rd_clear :: "('s, exc, unit) action"
  rd_empty_closed :: bool

record parser_cfg =
  pc_classes :: "(string, err_entry) dict"
  pc_encoder :: encoder

definition recursion_error :: exc where
  "recursion_error = Exc RecursionError ''maximum recursion depth exceeded''"

definition invalid_response :: "string \<Rightarrow> exc" where
  "invalid_response raw_line = Exc InvalidResponse (''Protocol Error: '' @ raw_line)"

definition decode_reply :: "parser_cfg \<Rightarrow> bool \<Rightarrow> pyval \<Rightarrow> exc + pyval" where
  "decode_reply c dd v = (if \<not> dd then decode (pc_encoder c) v False else Inr v)"

text \<open>The error branch: connection errors are raised, every other error is the reply.\<close>

definition error_reply :: "parser_cfg \<Rightarrow> string \<Rightarrow> exc + pyval" where
  "error_reply c response =
     bindE (parse_error (pc_classes c) (utf8_replace response)) (\<lambda>err.
       if isinstance err ConnectionError then Inl err else Inr (PExc err))"

definition read_error :: "'s reader \<Rightarrow> parser_cfg \<Rightarrow> string \<Rightarrow> ('s, exc, pyval) action" where
  "read_error R c response =
     (case parse_error (pc_classes c) (utf8_replace response) of
        Inl e \<Rightarrow> raiseS e
      | Inr err \<Rightarrow> (if isinstance err ConnectionError then thenS (rd_clear R) (raiseS err)
                    else retS (PExc err)))"

definition as_int :: "string \<Rightarrow> ('s, exc, int) action" where
  "as_int s = liftS (to_int (PBytes s))"

section \<open>RESP2\<close>

text \<open>The branches on the first byte of a line; \<open>rec\<close> reads the elements.\<close>

definition resp2_line ::
  "'s reader \<Rightarrow> parser_cfg \<Rightarrow> bool \<Rightarrow> ('s, exc, pyval) action \<Rightarrow> string \<Rightarrow> ('s, exc, pyval) action" where
  "resp2_line R c dd rec raw_line = (
     case raw_line of
       [] \<Rightarrow> raiseS (if rd_empty_closed R then server_closed else invalid_response [])
     | byte # response \<Rightarrow>
         if byte = CHR ''-'' then read_error R c response
         else if byte = CHR ''+'' then liftS (decode_reply c dd (PBytes response))
         else if byte = CHR '':'' then bindS (as_int response) (\<lambda>n. retS (PInt n))
         else if byte = CHR ''$'' \<and> response = ''-1'' then retS PNone
         else if byte = CHR ''$'' then
           bindS (as_int response) (\<lambda>n.
           bindS (rd_bytes R n) (\<lambda>b. liftS (decode_reply c dd (PBytes b))))
         else if byte = CHR ''*'' \<and> response = ''-1'' then retS PNone
         else if byte = CHR ''*'' then
           bindS (as_int response) (\<lambda>n.
           bindS (repeatS (nat n) rec) (\<lambda>xs.
             liftS (decode_reply c dd (PList xs))))
         else raiseS (invalid_response raw_line))"

primrec resp2_read :: "'s reader \<Rightarrow> parser_cfg \<Rightarrow> bool \<Rightarrow> nat \<Rightarrow> ('s, exc, pyval) action" where
  "resp2_read R c dd 0 = raiseS recursion_error"
| "resp2_read R c dd (Suc d) = bindS (rd_line R) (resp2_line R c dd (resp2_read R c dd d))"

section \<open>RESP3\<close>

text \<open>
  Push messages go to a handler; unless the caller asked for one, the parser then reads on.
\<close>

record 's push_handlers =
  pubsub_push_handler_func :: "pyval list \<Rightarrow> ('s, exc, pyval) action"
  invalidation_push_handler_func :: "(pyval list \<Rightarrow> ('s, exc, pyval) action) option"

definition handle_push_response :: "'s push_handlers \<Rightarrow> pyval list \<Rightarrow> ('s, exc, pyval) action" where
  "handle_push_response H response =
     (case response of
        [] \<Rightarrow> raiseS (Exc IndexError ''list index out of range'')
      | x # _ \<Rightarrow>
          if x \<notin> {PBytes ''invalidate'', PStr ''invalidate''} then pubsub_push_handler_func H response
          else (case invalidation_push_handler_func H of
              Some h \<Rightarrow> h response
            | None \<Rightarrow> retS PNone))"

text \<open>The handlers a new parser has: the message is logged and returned.\<close>

definition handle_pubsub_push_response :: "pyval list \<Rightarrow> ('s, exc, pyval) action" where
  "handle_pubsub_push_response response = retS (PList response)"

definition new_push_handlers :: "'s push_handlers" where
  "new_push_handlers = \<lparr>pubsub_push_handler_func = handle_pubsub_push_response,
                        invalidation_push_handler_func = None\<rparr>"

text \<open>The loop of the map branch: key, then value, then the assignment, which may not hash.\<close>

primrec read_pairs ::
  "nat \<Rightarrow> ('s, exc, pyval) action \<Rightarrow> ('s, exc, pyval) action \<Rightarrow> (pyval \<times> pyval) list \<Rightarrow>
   ('s, exc, (pyval \<times> pyval) list) action" where
  "read_pairs 0 rk rv dict = retS dict"
| "read_pairs (Suc n) rk rv dict =
     bindS rk (\<lambda>k. bindS rv (\<lambda>v.
       if hashable k then read_pairs n rk rv (pd_set k v dict) else raiseS unhashable_error))"

definition decode_reply3 :: "parser_cfg \<Rightarrow> bool \<Rightarrow> pyval \<Rightarrow> exc + pyval" where
  "decode_reply3 c dd v =
     (case v of PBytes _ \<Rightarrow> decode_reply c dd v | _ \<Rightarrow> Inr v)"

definition resp3_line ::
  "'s reader \<Rightarrow> 's push_handlers \<Rightarrow> parser_cfg \<Rightarrow> bool \<Rightarrow> (bool \<Rightarrow> ('s, exc, pyval) action) \<Rightarrow> bool \<Rightarrow>
   string \<Rightarrow> ('s, exc, pyval) action" where
  "resp3_line R H c dd rec push_request raw_line = (
     case raw_line of
       [] \<Rightarrow> raiseS (if rd_empty_closed R then server_closed else invalid_response [])
     | byte # response \<Rightarrow>
         if byte = CHR ''-'' then read_error R c response
         else if byte = CHR ''!'' then
           bindS (as_int response) (\<lambda>n. bindS (rd_bytes R n) (\<lambda>b. read_error R c b))
         else if byte = CHR ''+'' then liftS (decode_reply3 c dd (PBytes response))
         else if byte = CHR ''_'' then retS PNone
         else if byte = CHR '':'' \<or> byte = CHR ''('' then bindS (as_int response) (\<lambda>n. retS (PInt n))
         else if byte = CHR '','' then
           bindS (liftS (to_float (PBytes response))) (\<lambda>f. retS (PFloat f))
         else if byte = CHR ''#'' then retS (PBool (response = ''t''))
         else if byte = CHR ''$'' then
           bindS (as_int response) (\<lambda>n.
           bindS (rd_bytes R n) (\<lambda>b. liftS (decode_reply3 c dd (PBytes b))))
         else if byte = CHR ''='' then
           bindS (as_int response) (\<lambda>n.
           bindS (rd_bytes R n) (\<lambda>b. liftS (decode_reply3 c dd (PBytes (drop 4 b)))))
         else if byte = CHR ''*'' \<or> byte = CHR ''~'' then
           bindS (as_int response) (\<lambda>n.
           bindS (repeatS (nat n) (rec False)) (\<lambda>xs.
             liftS (decode_reply3 c dd (PList xs))))
         else if byte = CHR ''%'' then
           bindS (as_int response) (\<lambda>n.
           bindS (read_pairs (nat n) (rec False)
                    (rec push_request) []) (\<lambda>dict.
             liftS (decode_reply3 c dd (PDict dict))))
         else if byte = CHR ''>'' then
           bindS (as_int response) (\<lambda>n.
           bindS (repeatS (nat n) (rec push_request)) (\<lambda>xs.
           bindS (handle_push_response H xs) (\<lambda>res.
             if \<not> push_request then rec push_request else retS res)))
         else raiseS (invalid_response raw_line))"

primrec resp3_read ::
  "'s reader \<Rightarrow> 's push_handlers \<Rightarrow> parser_cfg \<Rightarrow> bool \<Rightarrow> nat \<Rightarrow> bool \<Rightarrow> ('s, exc, pyval) action" where
  "resp3_read R H c dd 0 push_request = raiseS recursion_error"
| "resp3_read R H c dd (Suc d) push_request =
     bindS (rd_line R) (resp3_line R H c dd (resp3_read R H c dd d) push_request)"

section \<open>The synchronous parsers\<close>

definition sync_reader :: "sockbuf reader" where
  "sync_reader = \<lparr>rd_line = sb_readline, rd_bytes = sb_read, rd_clear = retS (), rd_empty_closed = True\<rparr>"

text \<open>The parser's buffer is \<open>None\<close> until it connects.\<close>

definition no_buffer :: exc where
  "no_buffer = Exc AttributeError ''readline''"

definition rewinding :: "(sockbuf, exc, 'a) action \<Rightarrow> (sockbuf option, exc, 'a) action" where
  "rewinding m = (\<lambda>buffer. case buffer of
      None \<Rightarrow> (Inl no_buffer, None)
    | Some sb \<Rightarrow> (case m sb of
          (Inl e, sb') \<Rightarrow> (Inl e, Some (rewind (get_pos sb) sb'))
        | (Inr v, sb') \<Rightarrow> (Inr v, Some (purge sb'))))"

definition resp2_read_response :: "parser_cfg \<Rightarrow> bool \<Rightarrow> nat \<Rightarrow> (sockbuf option, exc, pyval) action" where
  "resp2_read_response c dd limit = rewinding (resp2_read sync_reader c dd limit)"

definition resp3_read_response ::
  "sockbuf push_handlers \<Rightarrow> parser_cfg \<Rightarrow> bool \<Rightarrow> nat \<Rightarrow> bool \<Rightarrow> (sockbuf option, exc, pyval) action" where
  "resp3_read_response H c dd limit push_request =
     rewinding (resp3_read sync_reader H c dd limit push_request)"

section \<open>The asynchronous parsers\<close>

text \<open>
  \<open>_AsyncRESPBase\<close>: \<open>as_chunks\<close> are the bytes read since the last success, and
  \<open>as_stream\<close> is what the stream still delivers before its end.
\<close>

record async_state =
  as_buffer :: string
  as_pos :: int
  as_chunks :: "string list"
  as_stream :: string
  as_has_stream :: bool
  as_connected :: bool

definition as_clear :: "(async_state, exc, unit) action" where
  "as_clear = modS (\<lambda>s. s\<lparr>as_buffer := [], as_chunks := []\<rparr>)"

text \<open>\<open>xs[i:j]\<close> with Python's treatment of negative indices.\<close>

definition py_slice :: "'a list \<Rightarrow> int \<Rightarrow> int \<Rightarrow> 'a list" where
  "py_slice xs i j =
     (let n = int (length xs); cut = (\<lambda>k. nat (if k < 0 then max 0 (n + k) else min k n))
      in drop (cut i) (take (cut j) xs))"

definition async_read :: "int \<Rightarrow> (async_state, exc, string) action" where
  "async_read n = (\<lambda>s.
     let want = n + 2; end_pos = as_pos s + want; len = int (length (as_buffer s)) in
     if end_pos \<le> len then
       (Inr (py_slice (as_buffer s) (as_pos s) (end_pos - 2)), s\<lparr>as_pos := as_pos s + want\<rparr>)
     else
       (let tail = py_slice (as_buffer s) (as_pos s) len; need = want - int (length tail) in
        if need < 0 then (Inl (Exc ValueError ''readexactly size can not be less than zero''), s)
        else if int (length (as_stream s)) < need then
          (Inl server_closed, s\<lparr>as_stream := []\<rparr>)
        else
          (let data = take (nat need) (as_stream s) in
           (Inr (chop2 (tail @ data)),
            s\<lparr>as_stream := drop (nat need) (as_stream s),
              as_chunks := as_chunks s @ [data], as_pos := as_pos s + want\<rparr>))))"

fun find_crlf :: "string \<Rightarrow> nat option" where
  "find_crlf [] = None"
| "find_crlf [c] = None"
| "find_crlf (c # d # s) =
     (if c = CHR 0x0D \<and> d = CHR 0x0A then Some 0 else map_option Suc (find_crlf (d # s)))"

definition async_readline :: "(async_state, exc, string) action" where
  "async_readline = (\<lambda>s.
     let tail = py_slice (as_buffer s) (as_pos s) (int (length (as_buffer s))) in
     (case find_crlf tail of
        Some k \<Rightarrow> (Inr (take k tail), s\<lparr>as_pos := as_pos s + int k + 2\<rparr>)
      | None \<Rightarrow>
          (let data = upto_nl (as_stream s); s1 = s\<lparr>as_stream := drop (length data) (as_stream s)\<rparr> in
           if \<not> ends_crlf data then (Inl server_closed, s1)
           else (let result = chop2 (tail @ data) in
             (Inr result, s1\<lparr>as_chunks := as_chunks s @ [data],
                             as_pos := as_pos s + int (length result) + 2\<rparr>)))))"

definition async_reader :: "async_state reader" where
  "async_reader = \<lparr>rd_line = async_readline, rd_bytes = async_read, rd_clear = as_clear,
                   rd_empty_closed = False\<rparr>"

definition async_start :: "async_state \<Rightarrow> async_state" where
  "async_start s = s\<lparr>as_buffer := as_buffer s @ concat (as_chunks s), as_chunks := [], as_pos := 0\<rparr>"

definition async_resp2_read_response :: "parser_cfg \<Rightarrow> bool \<Rightarrow> nat \<Rightarrow> (async_state, exc, pyval) action" where
  "async_resp2_read_response c dd limit = (\<lambda>s.
     if \<not> as_connected s then (Inl server_closed, s)
     else bindS (resp2_read async_reader c dd limit) (\<lambda>r. thenS as_clear (retS r)) (async_start s))"

definition async_resp3_read_response ::
  "async_state push_handlers \<Rightarrow> parser_cfg \<Rightarrow> bool \<Rightarrow> nat \<Rightarrow> bool \<Rightarrow> (async_state, exc, pyval) action" where
  "async_resp3_read_response H c dd limit push_request = (\<lambda>s.
     if \<not> as_has_stream s then (Inl server_closed, async_start s)
     else bindS (resp3_read async_reader H c dd limit push_request) (\<lambda>r. thenS as_clear (retS r)) (async_start s))"

end
