(* ===== verification/RespCorrect.thy ===== *)
theory RespCorrect
  imports Resp
begin

text \<open>
  Correctness of the parsers. A \<open>reply\<close> is what a server sends; \<open>enc_reply\<close> is its wire
  format and \<open>reply_val\<close> the value, or the exception, a client gets for it. Over any reader
  that satisfies the \<open>byte_reader\<close> laws both parsers compute exactly \<open>reply_val\<close> and
  leave the bytes after the reply; the laws are discharged for the socket buffer, cut into
  chunks in any way, and for the asynchronous stream. The last part shows that a failed
  read leaves the pending bytes as they were.
\<close>

section \<open>Replies\<close>

datatype reply =
    RSimple string | RError string | RInt int | RBulk string | RArr "reply list"
  | RNullBulk | RNullArr
  | RNull | RBulkErr string | RDouble string | RBool bool | RBig int | RVerb string
  | RSet "reply list" | RMap "(reply \<times> reply) list"

definition tagged :: "char \<Rightarrow> string \<Rightarrow> string" where
  "tagged t s = t # s @ CRLF"

definition counted_line :: "char \<Rightarrow> nat \<Rightarrow> string" where
  "counted_line t n = tagged t (dec_nat n)"

fun enc_reply :: "reply \<Rightarrow> string" where
  "enc_reply (RSimple s) = tagged (CHR ''+'') s"
| "enc_reply (RError s) = tagged (CHR ''-'') s"
| "enc_reply (RInt n) = tagged (CHR '':'') (dec_int n)"
| "enc_reply (RBulk b) = counted_line (CHR ''$'') (length b) @ b @ CRLF"
| "enc_reply (RArr xs) = counted_line (CHR ''*'') (length xs) @ concat (map enc_reply xs)"
| "enc_reply RNullBulk = tagged (CHR ''$'') ''-1''"
| "enc_reply RNullArr = tagged (CHR ''*'') ''-1''"
| "enc_reply RNull = tagged (CHR ''_'') []"
| "enc_reply (RBulkErr b) = counted_line (CHR ''!'') (length b) @ b @ CRLF"
| "enc_reply (RDouble s) = tagged (CHR '','') s"
| "enc_reply (RBool b) = tagged (CHR ''#'') (if b then ''t'' else ''f'')"
| "enc_reply (RBig n) = tagged (CHR ''('') (dec_int n)"
| "enc_reply (RVerb b) = counted_line (CHR ''='') (length b) @ b @ CRLF"
| "enc_reply (RSet xs) = counted_line (CHR ''~'') (length xs) @ concat (map enc_reply xs)"
| "enc_reply (RMap kvs) = counted_line (CHR ''%'') (length kvs) @
     concat (map (\<lambda>(k, v). enc_reply k @ enc_reply v) kvs)"

text \<open>
  A reply that nests less than \<open>d\<close> deep, has no newline in a line and uses only the
  constructors of its protocol (\<open>p3\<close> selects RESP3).
\<close>

definition line_ok :: "string \<Rightarrow> bool" where
  "line_ok s = (CHR 0x0A \<notin> set s)"

definition reply_shape :: "bool \<Rightarrow> (reply \<Rightarrow> bool) \<Rightarrow> reply \<Rightarrow> bool" where
  "reply_shape p3 ok r = (case r of
      RSimple s \<Rightarrow> line_ok s
    | RError s \<Rightarrow> line_ok s
    | RInt _ \<Rightarrow> True
    | RBulk _ \<Rightarrow> True
    | RArr xs \<Rightarrow> list_all ok xs
    | RNullBulk \<Rightarrow> \<not> p3
    | RNullArr \<Rightarrow> \<not> p3
    | RDouble s \<Rightarrow> p3 \<and> line_ok s
    | RSet xs \<Rightarrow> p3 \<and> list_all ok xs
    | RMap kvs \<Rightarrow> p3 \<and> list_all (\<lambda>(k, v). ok k \<and> ok v) kvs
    | _ \<Rightarrow> p3)"

primrec reply_ok :: "bool \<Rightarrow> nat \<Rightarrow> reply \<Rightarrow> bool" where
  "reply_ok p3 0 r = False"
| "reply_ok p3 (Suc d) r = reply_shape p3 (reply_ok p3 d) r"

lemma reply_shape_mono: "(\<And>x. P x \<Longrightarrow> Q x) \<Longrightarrow> reply_shape p3 P r \<Longrightarrow> reply_shape p3 Q r"
  by (cases r) (auto simp: reply_shape_def list_all_iff)

lemma reply_ok_Suc: "reply_ok p3 d r \<Longrightarrow> reply_ok p3 (Suc d) r"
proof (induction d arbitrary: r)
  case 0
  then show ?case by simp
next
  case (Suc d)
  from Suc.prems have "reply_shape p3 (reply_ok p3 d) r" by simp
  then have "reply_shape p3 (reply_ok p3 (Suc d)) r"
    by (rule reply_shape_mono [rotated]) (rule Suc.IH)
  then show ?case by simp
qed

lemma reply_ok_add: "reply_ok p3 d r \<Longrightarrow> reply_ok p3 (n + d) r"
  by (induction n) (use reply_ok_Suc in auto)

lemma mapE_cong [fundef_cong]:
  "xs = ys \<Longrightarrow> (\<And>x. x \<in> set ys \<Longrightarrow> f x = g x) \<Longrightarrow> mapE f xs = mapE g ys"
  by (induction xs arbitrary: ys) auto

fun pairs_val ::
  "('a \<Rightarrow> exc + pyval) \<Rightarrow> ('a \<times> 'a) list \<Rightarrow> (pyval \<times> pyval) list \<Rightarrow> exc + (pyval \<times> pyval) list" where
  "pairs_val f [] dict = Inr dict"
| "pairs_val f ((k, v) # kvs) dict =
     bindE (f k) (\<lambda>k'. bindE (f v) (\<lambda>v'.
       if hashable k' then pairs_val f kvs (pd_set k' v' dict) else Inl unhashable_error))"

lemma pairs_val_cong [fundef_cong]:
  assumes "kvs = kvs'" "dict = dict'"
    and "\<And>k v. (k, v) \<in> set kvs' \<Longrightarrow> f k = g k" "\<And>k v. (k, v) \<in> set kvs' \<Longrightarrow> f v = g v"
  shows "pairs_val f kvs dict = pairs_val g kvs' dict'"
  using assms(3,4) unfolding assms(1,2)
proof (induction kvs' arbitrary: dict')
  case Nil
  then show ?case by simp
next
  case (Cons p kvs')
  obtain k v where p: "p = (k, v)" by force
  have "f k = g k" "f v = g v" using Cons.prems by (auto simp: p)
  moreover have "pairs_val f kvs' d = pairs_val g kvs' d" for d
    using Cons.prems by (intro Cons.IH) auto
  ultimately show ?case by (simp add: p cong: if_cong)
qed

fun reply_val :: "parser_cfg \<Rightarrow> bool \<Rightarrow> reply \<Rightarrow> exc + pyval" where
  "reply_val c dd (RSimple s) = decode_reply c dd (PBytes s)"
| "reply_val c dd (RError s) = error_reply c s"
| "reply_val c dd (RInt n) = Inr (PInt n)"
| "reply_val c dd (RBulk b) = decode_reply c dd (PBytes b)"
| "reply_val c dd (RArr xs) = bindE (mapE (reply_val c dd) xs) (\<lambda>vs. Inr (PList vs))"
| "reply_val c dd RNullBulk = Inr PNone"
| "reply_val c dd RNullArr = Inr PNone"
| "reply_val c dd RNull = Inr PNone"
| "reply_val c dd (RBulkErr b) = error_reply c b"
| "reply_val c dd (RDouble s) = bindE (to_float (PBytes s)) (\<lambda>f. Inr (PFloat f))"
| "reply_val c dd (RBool b) = Inr (PBool b)"
| "reply_val c dd (RBig n) = Inr (PInt n)"
| "reply_val c dd (RVerb b) = decode_reply c dd (PBytes (drop 4 b))"
| "reply_val c dd (RSet xs) = bindE (mapE (reply_val c dd) xs) (\<lambda>vs. Inr (PList vs))"
| "reply_val c dd (RMap kvs) = bindE (pairs_val (reply_val c dd) kvs []) (\<lambda>dict. Inr (PDict dict))"

text \<open>The serializer's commands are arrays of bulk strings.\<close>

lemma resp_command_reply: "resp_command bs = enc_reply (RArr (map RBulk bs))"
  by (simp add: resp_command_def array_header_def counted_line_def tagged_def bulk_def [abs_def]
      bulk_header_def comp_def)

lemma decode_reply_simps [simp]:
  "decode_reply c dd (PList xs) = Inr (PList xs)"
  "decode_reply3 c dd (PList xs) = Inr (PList xs)"
  "decode_reply3 c dd (PDict d) = Inr (PDict d)"
  "decode_reply3 c dd (PBytes b) = decode_reply c dd (PBytes b)"
  by (simp_all add: decode_reply_def decode_reply3_def decode_def)

lemma to_int_dec [simp]: "to_int (PBytes (dec_int n)) = Inr n" "to_int (PBytes (dec_nat k)) = Inr (int k)"
  by simp_all

lemma as_int_dec [simp]:
  "as_int (dec_int n) s = (Inr n, s)" "as_int (dec_nat k) s = (Inr (int k), s)"
  by (simp_all add: as_int_def del: to_int.simps)

lemma dec_nat_not_neg [simp]: "dec_nat n \<noteq> ''-1''"
  using dec_nat_digits [of "CHR ''-''" n] by auto

lemma line_ok_dec [simp]: "line_ok (dec_nat n)" "line_ok (dec_int z)"
  using dec_nat_digits [of "CHR 0x0A" n] dec_int_no_crlf [of "CHR 0x0A" z]
  by (auto simp: line_ok_def)

lemma error_reply_read:
  "read_error R c b s = (case error_reply c b of
     Inr v \<Rightarrow> (Inr v, s)
   | Inl e \<Rightarrow> (case parse_error (pc_classes c) (utf8_replace b) of
        Inl _ \<Rightarrow> (Inl e, s) | Inr _ \<Rightarrow> thenS (rd_clear R) (raiseS e) s))"
  by (auto simp: read_error_def error_reply_def split: sum.splits)

section \<open>The parsers over a reader\<close>

text \<open>
  \<open>parses P m txt val\<close>: on pending bytes that start with \<open>txt\<close>, the computation gives
  \<open>val\<close>, and if that is a value it leaves the rest.
\<close>

locale resp_reader = byte_reader "rd_line R" "rd_bytes R" pend good
  for R :: "'s reader" and pend :: "'s \<Rightarrow> string" and good :: "'s \<Rightarrow> bool" +
  assumes clear_law: "\<exists>s'. rd_clear R s = (Inr (), s')"
begin

definition parses :: "('s, exc, 'v) action \<Rightarrow> string \<Rightarrow> exc + 'v \<Rightarrow> bool" where
  "parses m txt val = (\<forall>s rest. good s \<longrightarrow> pend s = txt @ rest \<longrightarrow>
     (\<exists>s'. m s = (val, s') \<and> (okE val \<longrightarrow> pend s' = rest \<and> good s')))"

lemma parsesI:
  "(\<And>s rest. good s \<Longrightarrow> pend s = txt @ rest \<Longrightarrow>
     \<exists>s'. m s = (val, s') \<and> (okE val \<longrightarrow> pend s' = rest \<and> good s')) \<Longrightarrow> parses m txt val"
  unfolding parses_def by blast

lemma parsesE:
  assumes "parses m txt val" "good s" "pend s = txt @ rest"
  obtains s' where "m s = (val, s')" "okE val \<longrightarrow> pend s' = rest \<and> good s'"
  using assms unfolding parses_def by blast

lemma parses_liftS: "parses (liftS v) [] v"
  by (auto simp: parses_def)

lemma parses_bind:
  assumes "parses m t v" "\<And>a. v = Inr a \<Longrightarrow> parses (f a) u (g a)"
  shows "parses (bindS m f) (t @ u) (bindE v g)"
proof (rule parsesI)
  fix s rest assume s: "good s" "pend s = (t @ u) @ rest"
  then have "pend s = t @ (u @ rest)" by simp
  with assms(1) s(1) obtain s' where s': "m s = (v, s')" "okE v \<longrightarrow> pend s' = u @ rest \<and> good s'"
    by (rule parsesE)
  show "\<exists>s'. bindS m f s = (bindE v g, s') \<and> (okE (bindE v g) \<longrightarrow> pend s' = rest \<and> good s')"
  proof (cases v)
    case (Inl e)
    with s' show ?thesis by (simp add: bindS_def)
  next
    case (Inr a)
    with s' have "good s'" "pend s' = u @ rest" by simp_all
    with assms(2) [OF Inr] obtain s'' where "f a s' = (g a, s'')" "okE (g a) \<longrightarrow> pend s'' = rest \<and> good s''"
      by (rule parsesE)
    with s' Inr show ?thesis by (auto simp: bindS_def)
  qed
qed

lemma parses_line: "line_ok l \<Longrightarrow> parses (rd_line R) (l @ CRLF) (Inr l)"
  using readline_law by (auto simp: parses_def line_ok_def)

lemma parses_bytes: "parses (rd_bytes R (int (length b))) (b @ CRLF) (Inr b)"
  using read_law by (auto simp: parses_def)

text \<open>The first line of a reply selects the branch.\<close>

lemma parses_tagged:
  assumes "line_ok l" "t \<noteq> CHR 0x0A" "parses (f (t # l)) u v"
  shows "parses (bindS (rd_line R) f) (tagged t l @ u) v"
proof -
  have "line_ok (t # l)" using assms(1,2) by (simp add: line_ok_def)
  then have "parses (rd_line R) (tagged t l) (Inr (t # l))"
    using parses_line [of "t # l"] by (simp add: tagged_def)
  from parses_bind [OF this, of f u "\<lambda>_. v"] assms(3) show ?thesis by simp
qed

lemma parses_int_bind:
  assumes "parses (f n) u v"
  shows "parses (bindS (as_int (dec_int n)) f) u v"
proof -
  have "parses (as_int (dec_int n)) [] (Inr n)" by (auto simp: parses_def)
  from parses_bind [OF this, of f u "\<lambda>_. v"] assms show ?thesis by simp
qed

lemma parses_nat_bind:
  assumes "parses (f (int n)) u v"
  shows "parses (bindS (as_int (dec_nat n)) f) u v"
proof -
  have "parses (as_int (dec_nat n)) [] (Inr (int n))" by (auto simp: parses_def)
  from parses_bind [OF this, of f u "\<lambda>_. v"] assms show ?thesis by simp
qed

lemma parses_bulk_bind:
  assumes "parses (f b) [] v"
  shows "parses (bindS (rd_bytes R (int (length b))) f) (b @ CRLF) v"
  using parses_bind [OF parses_bytes, of b f "[]" "\<lambda>_. v"] assms by simp

lemma parses_error: "parses (read_error R c b) [] (error_reply c b)"
proof (rule parsesI)
  fix s rest assume s: "good s" "pend s = [] @ rest"
  obtain s1 where "rd_clear R s = (Inr (), s1)" using clear_law by blast
  with s show "\<exists>s'. read_error R c b s = (error_reply c b, s') \<and>
      (okE (error_reply c b) \<longrightarrow> pend s' = rest \<and> good s')"
    by (cases "error_reply c b"; cases "parse_error (pc_classes c) (utf8_replace b)")
       (auto simp: error_reply_read thenS_def bindS_def)
qed

lemma parses_repeat:
  assumes "\<And>x. x \<in> set xs \<Longrightarrow> parses m (enc x) (val x)"
  shows "parses (repeatS (length xs) m) (concat (map enc xs)) (mapE val xs)"
  using assms
proof (induction xs)
  case Nil
  show ?case by (auto simp: parses_def)
next
  case (Cons x xs)
  have x: "parses m (enc x) (val x)" using Cons.prems by simp
  have xs: "parses (repeatS (length xs) m) (concat (map enc xs)) (mapE val xs)"
    using Cons.prems by (intro Cons.IH) simp
  have "parses (bindS m (\<lambda>y. bindS (repeatS (length xs) m) (\<lambda>ys. liftS (Inr (y # ys)))))
     (enc x @ (concat (map enc xs) @ []))
     (bindE (val x) (\<lambda>y. bindE (mapE val xs) (\<lambda>ys. Inr (y # ys))))"
    by (intro parses_bind x xs parses_liftS)
  then show ?case by (simp add: liftS_def retS_def)
qed

lemma parses_pairs:
  assumes "\<And>k v. (k, v) \<in> set kvs \<Longrightarrow> parses rk (enc k) (val k) \<and> parses rv (enc v) (val v)"
  shows "parses (read_pairs (length kvs) rk rv dict)
    (concat (map (\<lambda>(k, v). enc k @ enc v) kvs)) (pairs_val val kvs dict)"
  using assms
proof (induction kvs arbitrary: dict)
  case Nil
  show ?case by (auto simp: parses_def)
next
  case (Cons p kvs)
  obtain k v where p: "p = (k, v)" by force
  have k: "parses rk (enc k) (val k)" and v: "parses rv (enc v) (val v)"
    using Cons.prems [of k v] by (simp_all add: p)
  have rest: "parses (read_pairs (length kvs) rk rv d) (concat (map (\<lambda>(k, v). enc k @ enc v) kvs))
      (pairs_val val kvs d)" for d
    using Cons.prems by (intro Cons.IH) auto
  have "parses (if hashable k' then read_pairs (length kvs) rk rv (pd_set k' v' dict) else raiseS unhashable_error)
      (concat (map (\<lambda>(k, v). enc k @ enc v) kvs))
      (if hashable k' then pairs_val val kvs (pd_set k' v' dict) else Inl unhashable_error)" for k' v'
    using rest by (auto simp: parses_def)
  then have "parses (bindS rk (\<lambda>k'. bindS rv (\<lambda>v'.
        if hashable k' then read_pairs (length kvs) rk rv (pd_set k' v' dict) else raiseS unhashable_error)))
     (enc k @ (enc v @ concat (map (\<lambda>(k, v). enc k @ enc v) kvs)))
     (bindE (val k) (\<lambda>k'. bindE (val v) (\<lambda>v'.
        if hashable k' then pairs_val val kvs (pd_set k' v' dict) else Inl unhashable_error)))"
    by (intro parses_bind k v)
  then show ?case by (simp add: p)
qed

lemma parses_list_reply:
  assumes "parses m txt v"
    and "\<And>xs s. (f xs :: ('s, exc, pyval) action) s = (Inr (PList xs), s)"
  shows "parses (bindS m f) txt (bindE v (\<lambda>xs. Inr (PList xs)))"
proof -
  have "parses (f xs) [] (Inr (PList xs))" for xs using assms(2) by (auto simp: parses_def)
  with parses_bind [OF assms(1), of f "[]"] show ?thesis by simp
qed

lemma parses_retS: "parses (retS a) [] (Inr a)"
  by (auto simp: parses_def)

lemma resp2_parses:
  "reply_ok False d r \<Longrightarrow> parses (resp2_read R c dd d) (enc_reply r) (reply_val c dd r)"
proof (induction d arbitrary: r)
  case 0
  then show ?case by simp
next
  case (Suc d)
  let ?line = "resp2_line R c dd (resp2_read R c dd d)"
  note tag = parses_tagged [of _ _ ?line, folded resp2_read.simps(2)]
  note cl = counted_line_def
  show ?case
  proof (cases r)
    case (RSimple s)
    have "parses (?line (CHR ''+'' # s)) [] (decode_reply c dd (PBytes s))"
      by (simp add: resp2_line_def parses_liftS)
    from tag [OF _ _ this] show ?thesis using Suc.prems RSimple by (simp add: reply_shape_def)
  next
    case (RError s)
    have "parses (?line (CHR ''-'' # s)) [] (error_reply c s)"
      by (simp add: resp2_line_def parses_error)
    from tag [OF _ _ this] show ?thesis using Suc.prems RError by (simp add: reply_shape_def)
  next
    case (RInt n)
    have "parses (?line (CHR '':'' # dec_int n)) [] (Inr (PInt n))"
      by (simp add: resp2_line_def parses_int_bind parses_retS)
    from tag [OF _ _ this] show ?thesis using RInt by simp
  next
    case (RBulk b)
    have "parses (?line (CHR ''$'' # dec_nat (length b))) (b @ CRLF) (decode_reply c dd (PBytes b))"
      by (simp add: resp2_line_def parses_nat_bind parses_bulk_bind parses_liftS)
    from tag [OF _ _ this] show ?thesis using RBulk by (simp add: cl)
  next
    case (RArr xs)
    have "parses (repeatS (length xs) (resp2_read R c dd d)) (concat (map enc_reply xs)) (mapE (reply_val c dd) xs)"
      using Suc RArr by (intro parses_repeat) (auto simp: reply_shape_def list_all_iff)
    then have "parses (?line (CHR ''*'' # dec_nat (length xs)))
        (concat (map enc_reply xs)) (bindE (mapE (reply_val c dd) xs) (\<lambda>vs. Inr (PList vs)))"
      by (simp add: resp2_line_def parses_nat_bind parses_list_reply)
    from tag [OF _ _ this] show ?thesis using RArr by (simp add: cl)
  next
    case RNullBulk
    have "parses (?line (CHR ''$'' # ''-1'')) [] (Inr PNone)"
      by (simp add: resp2_line_def parses_retS)
    from tag [OF _ _ this] show ?thesis using RNullBulk by (simp add: line_ok_def)
  next
    case RNullArr
    have "parses (?line (CHR ''*'' # ''-1'')) [] (Inr PNone)"
      by (simp add: resp2_line_def parses_retS)
    from tag [OF _ _ this] show ?thesis using RNullArr by (simp add: line_ok_def)
  qed (use Suc.prems in \<open>simp_all add: reply_shape_def\<close>)
qed

lemma resp3_parses:
  "reply_ok True d r \<Longrightarrow> parses (resp3_read R H c dd d push) (enc_reply r) (reply_val c dd r)"
proof (induction d arbitrary: r push)
  case 0
  then show ?case by simp
next
  case (Suc d)
  let ?rec = "resp3_read R H c dd d"
  let ?line = "resp3_line R H c dd ?rec push"
  note tag = parses_tagged [of _ _ ?line, folded resp3_read.simps(2)]
  note cl = counted_line_def
  show ?case
  proof (cases r)
    case (RSimple s)
    have "parses (?line (CHR ''+'' # s)) [] (decode_reply c dd (PBytes s))"
      by (simp add: resp3_line_def parses_liftS)
    from tag [OF _ _ this] show ?thesis using Suc.prems RSimple by (simp add: reply_shape_def)
  next
    case (RError s)
    have "parses (?line (CHR ''-'' # s)) [] (error_reply c s)"
      by (simp add: resp3_line_def parses_error)
    from tag [OF _ _ this] show ?thesis using Suc.prems RError by (simp add: reply_shape_def)
  next
    case (RInt n)
    have "parses (?line (CHR '':'' # dec_int n)) [] (Inr (PInt n))"
      by (simp add: resp3_line_def parses_int_bind parses_retS)
    from tag [OF _ _ this] show ?thesis using RInt by simp
  next
    case (RBulk b)
    have "parses (?line (CHR ''$'' # dec_nat (length b))) (b @ CRLF) (decode_reply c dd (PBytes b))"
      by (simp add: resp3_line_def parses_nat_bind parses_bulk_bind parses_liftS)
    from tag [OF _ _ this] show ?thesis using RBulk by (simp add: cl)
  next
    case (RArr xs)
    have "parses (repeatS (length xs) (?rec False)) (concat (map enc_reply xs)) (mapE (reply_val c dd) xs)"
      using Suc RArr by (intro parses_repeat) (auto simp: reply_shape_def list_all_iff)
    then have "parses (?line (CHR ''*'' # dec_nat (length xs)))
        (concat (map enc_reply xs)) (bindE (mapE (reply_val c dd) xs) (\<lambda>vs. Inr (PList vs)))"
      by (simp add: resp3_line_def parses_nat_bind parses_list_reply)
    from tag [OF _ _ this] show ?thesis using RArr by (simp add: cl)
  next
    case RNull
    have "parses (?line (CHR ''_'' # [])) [] (Inr PNone)"
      by (simp add: resp3_line_def parses_retS)
    from tag [OF _ _ this] show ?thesis using RNull by (simp add: line_ok_def)
  next
    case (RBulkErr b)
    have "parses (?line (CHR ''!'' # dec_nat (length b))) (b @ CRLF) (error_reply c b)"
      by (simp add: resp3_line_def parses_nat_bind parses_bulk_bind parses_error)
    from tag [OF _ _ this] show ?thesis using RBulkErr by (simp add: cl)
  next
    case (RDouble s)
    have "parses (bindS (liftS (to_float (PBytes s))) (\<lambda>f. retS (PFloat f))) ([] @ [])
        (bindE (to_float (PBytes s)) (\<lambda>f. Inr (PFloat f)))"
      by (intro parses_bind parses_liftS parses_retS)
    then have "parses (?line (CHR '','' # s)) [] (bindE (to_float (PBytes s)) (\<lambda>f. Inr (PFloat f)))"
      by (simp add: resp3_line_def)
    from tag [OF _ _ this] show ?thesis using Suc.prems RDouble by (simp add: reply_shape_def)
  next
    case (RBool b)
    have "parses (?line (CHR ''#'' # (if b then ''t'' else ''f''))) [] (Inr (PBool b))"
      using parses_retS [of "PBool b"] by (cases b) (simp_all add: resp3_line_def)
    from tag [OF _ _ this] show ?thesis using RBool by (simp add: line_ok_def)
  next
    case (RBig n)
    have "parses (?line (CHR ''('' # dec_int n)) [] (Inr (PInt n))"
      by (simp add: resp3_line_def parses_int_bind parses_retS)
    from tag [OF _ _ this] show ?thesis using RBig by simp
  next
    case (RVerb b)
    have "parses (?line (CHR ''='' # dec_nat (length b))) (b @ CRLF) (decode_reply c dd (PBytes (drop 4 b)))"
      by (simp add: resp3_line_def parses_nat_bind parses_bulk_bind parses_liftS)
    from tag [OF _ _ this] show ?thesis using RVerb by (simp add: cl)
  next
    case (RSet xs)
    have "parses (repeatS (length xs) (?rec False)) (concat (map enc_reply xs)) (mapE (reply_val c dd) xs)"
      using Suc RSet by (intro parses_repeat) (auto simp: reply_shape_def list_all_iff)
    then have "parses (?line (CHR ''~'' # dec_nat (length xs)))
        (concat (map enc_reply xs)) (bindE (mapE (reply_val c dd) xs) (\<lambda>vs. Inr (PList vs)))"
      by (simp add: resp3_line_def parses_nat_bind parses_list_reply)
    from tag [OF _ _ this] show ?thesis using RSet by (simp add: cl)
  next
    case (RMap kvs)
    have "parses (read_pairs (length kvs) (?rec False) (?rec push) [])
        (concat (map (\<lambda>(k, v). enc_reply k @ enc_reply v) kvs)) (pairs_val (reply_val c dd) kvs [])"
      using Suc RMap by (intro parses_pairs) (auto simp: reply_shape_def list_all_iff)
    moreover have "parses (liftS (decode_reply3 c dd (PDict m))) [] (Inr (PDict m))" for m
      by (simp add: parses_liftS)
    ultimately have "parses (bindS (read_pairs (length kvs) (?rec False) (?rec push) [])
          (\<lambda>dict. liftS (decode_reply3 c dd (PDict dict))))
        (concat (map (\<lambda>(k, v). enc_reply k @ enc_reply v) kvs) @ [])
        (bindE (pairs_val (reply_val c dd) kvs []) (\<lambda>dict. Inr (PDict dict)))"
      by (rule parses_bind)
    then have "parses (?line (CHR ''%'' # dec_nat (length kvs)))
        (concat (map (\<lambda>(k, v). enc_reply k @ enc_reply v) kvs))
        (bindE (pairs_val (reply_val c dd) kvs []) (\<lambda>dict. Inr (PDict dict)))"
      by (simp add: resp3_line_def parses_nat_bind)
    from tag [OF _ _ this] show ?thesis using RMap by (simp add: cl)
  qed (use Suc.prems in \<open>simp_all add: reply_shape_def\<close>)
qed

end

section \<open>Push messages\<close>

text \<open>A handler may change what is not the stream, but must not fail or read from it.\<close>

definition enc_push :: "reply list \<Rightarrow> string" where
  "enc_push xs = counted_line (CHR ''>'') (length xs) @ concat (map enc_reply xs)"

locale push_reader = resp_reader R pend good
  for R :: "'s reader" and pend :: "'s \<Rightarrow> string" and good :: "'s \<Rightarrow> bool" +
  fixes H :: "'s push_handlers"
  assumes handler_law: "good s \<Longrightarrow> xs \<noteq> [] \<Longrightarrow>
      \<exists>v s'. handle_push_response H xs s = (Inr v, s') \<and> pend s' = pend s \<and> good s'"
begin

lemma parses_push:
  assumes "xs \<noteq> []" "list_all (reply_ok True d) xs" "mapE (reply_val c dd) xs = Inr vs"
    and "good s" "pend s = enc_push xs @ rest"
  shows "\<exists>v s1 s'. handle_push_response H vs s1 = (Inr v, s') \<and> pend s' = rest \<and> good s' \<and>
      resp3_read R H c dd (Suc d) push s =
        (if push then (Inr v, s') else resp3_read R H c dd d False s')"
proof -
  let ?l = "CHR ''>'' # dec_nat (length xs)"
  have "parses (rd_line R) (?l @ CRLF) (Inr ?l)"
    using line_ok_dec(1) [of "length xs"] by (intro parses_line) (simp add: line_ok_def)
  moreover have "pend s = (?l @ CRLF) @ (concat (map enc_reply xs) @ rest)"
    using assms(5) by (simp add: enc_push_def counted_line_def tagged_def)
  ultimately obtain s0 where s0: "rd_line R s = (Inr ?l, s0)" "pend s0 = concat (map enc_reply xs) @ rest" "good s0"
    using assms(4) by (elim parsesE) auto
  have "parses (repeatS (length xs) (resp3_read R H c dd d push)) (concat (map enc_reply xs)) (mapE (reply_val c dd) xs)"
    using assms(2) resp3_parses by (intro parses_repeat) (auto simp: list_all_iff)
  with s0 obtain s1 where s1: "repeatS (length xs) (resp3_read R H c dd d push) s0 = (Inr vs, s1)"
      "pend s1 = rest" "good s1"
    by (auto simp: assms(3) elim: parsesE)
  have vs: "vs \<noteq> []" using assms(1,3) mapE_length by fastforce
  obtain v s2 where s2: "handle_push_response H vs s1 = (Inr v, s2)" "pend s2 = pend s1" "good s2"
    using handler_law [OF s1(3) vs] by blast
  have "resp3_read R H c dd (Suc d) push s
      = bindS (repeatS (length xs) (resp3_read R H c dd d push)) (\<lambda>xs.
          bindS (handle_push_response H xs) (\<lambda>res.
            if \<not> push then resp3_read R H c dd d push else retS res)) s0"
    using s0(1) by (simp add: resp3_line_def bindS_def del: repeatS.simps)
  also have "\<dots> = (if push then (Inr v, s2) else resp3_read R H c dd d False s2)"
    using s1(1) s2(1) by simp
  finally show ?thesis using s1(2) s2 by auto
qed

text \<open>Any number of push messages before a reply are handled and do not disturb it.\<close>

lemma parses_pushes:
  assumes "\<And>xs. xs \<in> set ps \<Longrightarrow> xs \<noteq> [] \<and> list_all (reply_ok True d) xs \<and> okE (mapE (reply_val c dd) xs)"
    and "reply_ok True d r"
  shows "parses (resp3_read R H c dd (length ps + d) False) (concat (map enc_push ps) @ enc_reply r) (reply_val c dd r)"
  using assms(1)
proof (induction ps)
  case Nil
  show ?case using assms(2) resp3_parses by simp
next
  case (Cons xs ps)
  have IH: "parses (resp3_read R H c dd (length ps + d) False) (concat (map enc_push ps) @ enc_reply r) (reply_val c dd r)"
    using Cons.prems by (intro Cons.IH) auto
  have xs: "xs \<noteq> []" "list_all (reply_ok True (length ps + d)) xs"
    using Cons.prems [of xs] reply_ok_add by (auto simp: list_all_iff)
  obtain vs where vs: "mapE (reply_val c dd) xs = Inr vs"
    using Cons.prems [of xs] by (cases "mapE (reply_val c dd) xs") auto
  show ?case
  proof (rule parsesI)
    fix s rest
    assume s: "good s" "pend s = (concat (map enc_push (xs # ps)) @ enc_reply r) @ rest"
    then have "pend s = enc_push xs @ ((concat (map enc_push ps) @ enc_reply r) @ rest)" by simp
    from parses_push [OF xs vs s(1) this, of False] obtain s' where
      "pend s' = (concat (map enc_push ps) @ enc_reply r) @ rest" "good s'"
      "resp3_read R H c dd (Suc (length ps + d)) False s = resp3_read R H c dd (length ps + d) False s'"
      by auto
    with IH show "\<exists>s'. resp3_read R H c dd (length (xs # ps) + d) False s = (reply_val c dd r, s') \<and>
        (okE (reply_val c dd r) \<longrightarrow> pend s' = rest \<and> good s')"
      by (auto elim: parsesE)
  qed
qed

end

section \<open>The socket buffer as a reader\<close>

interpretation sync: resp_reader sync_reader pending sb_good
  by unfold_locales (auto simp: sync_reader_def intro: sockbuf_reader.readline_law sockbuf_reader.read_law)

text \<open>
  All bytes the buffer ever held or will get. No operation loses any of them: what it takes
  off the script goes to the end of the buffer.
\<close>

definition total :: "sockbuf \<Rightarrow> string" where
  "total sb = sb_data sb @ concat (map event_bytes (sb_events sb))"

definition grown :: "sockbuf \<Rightarrow> sockbuf \<Rightarrow> bool" where
  "grown sb sb' = (total sb' = total sb \<and> length (sb_data sb) \<le> length (sb_data sb') \<and>
     (list_all is_data (sb_events sb) \<longrightarrow> list_all is_data (sb_events sb')))"

definition keeps :: "(sockbuf, exc, 'a) action \<Rightarrow> bool" where
  "keeps m = (\<forall>sb. grown sb (snd (m sb)))"

lemma grown_refl [simp]: "grown sb sb"
  by (simp add: grown_def)

lemma grown_trans: "grown a b \<Longrightarrow> grown b c \<Longrightarrow> grown a c"
  by (auto simp: grown_def)

lemma keepsD: "keeps m \<Longrightarrow> m sb = (r, sb') \<Longrightarrow> grown sb sb'"
  unfolding keeps_def by (metis snd_conv)

lemma keepsI: "(\<And>sb r sb'. m sb = (r, sb') \<Longrightarrow> grown sb sb') \<Longrightarrow> keeps m"
  unfolding keeps_def by (metis surj_pair snd_conv)

lemma keeps_pure [simp]: "keeps (liftS v)" "keeps (retS a)" "keeps (raiseS e)" "keeps (as_int s)"
  by (simp_all add: keeps_def as_int_def)

lemma keeps_bind:
  assumes "keeps m" "\<And>a. keeps (f a)"
  shows "keeps (bindS m f)"
proof (rule keepsI)
  fix sb r sb' assume r: "bindS m f sb = (r, sb')"
  obtain x sb1 where m: "m sb = (x, sb1)" by force
  with assms(1) have "grown sb sb1" by (rule keepsD)
  with r m show "grown sb sb'"
    by (cases x) (auto simp: bindS_def intro: grown_trans keepsD [OF assms(2)])
qed

lemma recv_loop_total:
  "recv_loop len rt m buf evs = (r, buf', evs') \<Longrightarrow>
   buf' @ concat (map event_bytes evs') = buf @ concat (map event_bytes evs) \<and>
   length buf \<le> length buf' \<and> (list_all is_data evs \<longrightarrow> list_all is_data evs')"
  by (induction len rt m buf evs rule: recv_loop.induct) (auto simp: Let_def split: if_splits)

lemma read_from_socket_keeps: "keeps (read_from_socket len t rt)"
proof (rule keepsI)
  fix sb r sb' assume "read_from_socket len t rt sb = (r, sb')"
  then show "grown sb sb'"
    by (auto simp: read_from_socket_def grown_def total_def Let_def split: prod.splits option.splits
        dest!: recv_loop_total)
qed

lemma bio_grown: "bio_read n sb = (d, sb') \<Longrightarrow> grown sb sb'" "bio_readline sb = (d, sb') \<Longrightarrow> grown sb sb'"
  by (auto simp: bio_read_def bio_readline_def grown_def total_def Let_def)

lemma sb_read_keeps: "keeps (sb_read n)"
proof (rule keepsI)
  fix sb r sb' assume r: "sb_read n sb = (r, sb')"
  obtain data sb1 where b1: "bio_read (n + 2) sb = (data, sb1)" by force
  obtain x sb2 where b2: "read_from_socket (Some (n + 2 - int (length data))) None True sb1 = (x, sb2)" by force
  obtain d sb3 where b3: "bio_read (n + 2 - int (length data)) sb2 = (d, sb3)" by force
  have g: "grown sb sb1" "grown sb1 sb2" "grown sb2 sb3"
    using bio_grown b1 b3 keepsD [OF read_from_socket_keeps b2] by blast+
  from r b1 b2 b3 g show "grown sb sb'"
    by (cases x) (auto simp: sb_read_def Let_def split: if_splits intro: grown_trans)
qed

lemma readline_loop_grown: "readline_loop data sb = (r, sb') \<Longrightarrow> grown sb sb'"
proof (induction "length (sb_events sb)" arbitrary: data sb r rule: less_induct)
  case less
  obtain x sb1 where b1: "read_from_socket None None True sb = (x, sb1)" by force
  obtain d sb2 where b2: "bio_readline sb1 = (d, sb2)" by force
  have g: "grown sb sb1" "grown sb1 sb2"
    using bio_grown b2 keepsD [OF read_from_socket_keeps b1] by blast+
  show ?case
  proof (cases "ends_crlf data")
    case True
    with less.prems show ?thesis by (subst (asm) readline_loop.simps) simp
  next
    case False
    show ?thesis
    proof (cases x)
      case (Inl e)
      with less.prems False b1 g show ?thesis by (subst (asm) readline_loop.simps) simp
    next
      case (Inr b)
      with less.prems False b1 b2 have rl: "readline_loop (data @ d) sb2 = (r, sb')"
        by (subst (asm) readline_loop.simps) simp
      have "length (sb_events sb1) < length (sb_events sb)"
        using b1 Inr by (auto dest: read_from_socket_consumes)
      moreover have "sb_events sb2 = sb_events sb1" using b2 by (auto simp: bio_readline_def Let_def)
      ultimately have "length (sb_events sb2) < length (sb_events sb)" by simp
      from less.hyps [OF this rl] g show ?thesis by (blast intro: grown_trans)
    qed
  qed
qed

lemma sb_readline_keeps: "keeps sb_readline"
proof (rule keepsI)
  fix sb r sb' assume r: "sb_readline sb = (r, sb')"
  obtain d sb1 where b1: "bio_readline sb = (d, sb1)" by force
  with r have "grown sb sb1" "grown sb1 sb'"
    by (auto simp: sb_readline_def dest: bio_grown readline_loop_grown)
  then show "grown sb sb'" by (rule grown_trans)
qed

lemma repeat_keeps: "keeps m \<Longrightarrow> keeps (repeatS n m)"
  by (induction n) (auto intro!: keeps_bind)

lemma read_pairs_keeps: "keeps rk \<Longrightarrow> keeps rv \<Longrightarrow> keeps (read_pairs n rk rv d)"
  by (induction n arbitrary: d) (auto intro!: keeps_bind)

lemma read_error_keeps: "keeps (read_error sync_reader c b)"
  by (auto simp: read_error_def sync_reader_def thenS_def intro!: keeps_bind split: sum.splits)

lemma sync_reader_keeps: "keeps (rd_line sync_reader)" "keeps (rd_bytes sync_reader n)"
  using sb_readline_keeps sb_read_keeps by (simp_all add: sync_reader_def)

lemma if_keeps: "keeps a \<Longrightarrow> keeps b \<Longrightarrow> keeps (if P then a else b)"
  by simp

lemmas keeps_intros = if_keeps keeps_bind read_error_keeps sync_reader_keeps repeat_keeps
  read_pairs_keeps keeps_pure

lemma resp2_keeps: "keeps (resp2_read sync_reader c dd d)"
proof (induction d)
  case 0
  show ?case unfolding resp2_read.simps by (rule keeps_pure)
next
  case (Suc d)
  have "keeps (resp2_line sync_reader c dd (resp2_read sync_reader c dd d) l)" for l
    by (cases l) (simp_all only: resp2_line_def list.case, (intro keeps_intros Suc)+)
  then show ?case by (simp add: keeps_bind sync_reader_keeps)
qed

lemma resp3_keeps:
  assumes "\<And>xs. keeps (handle_push_response H xs)"
  shows "keeps (resp3_read sync_reader H c dd d push)"
proof (induction d arbitrary: push)
  case 0
  show ?case unfolding resp3_read.simps by (rule keeps_pure)
next
  case (Suc d)
  have "keeps (resp3_line sync_reader H c dd (resp3_read sync_reader H c dd d) push l)" for l
    by (cases l) (simp_all only: resp3_line_def list.case, (intro keeps_intros assms Suc)+)
  then show ?case by (simp add: keeps_bind sync_reader_keeps)
qed

text \<open>A failed read puts the position back, so that the bytes of the reply are read again.\<close>

lemma rewinding_error:
  assumes "keeps m" "sb_good sb" "rewinding m (Some sb) = (Inl e, buf)"
  shows "\<exists>sb'. buf = Some sb' \<and> pending sb' = pending sb \<and> sb_good sb'"
proof -
  from assms(3) obtain sb1 where m: "m sb = (Inl e, sb1)" and buf: "buf = Some (rewind (get_pos sb) sb1)"
    by (auto simp: rewinding_def split: prod.splits sum.splits)
  have g: "grown sb sb1" using assms(1) m by (rule keepsD)
  have le: "sb_pos sb \<le> length (sb_data sb)" "sb_pos sb \<le> length (sb_data sb1)"
    using assms(2) g by (auto simp: sb_good_def grown_def)
  have "drop (sb_pos sb) (total sb1) = drop (sb_pos sb) (total sb)" using g by (simp add: grown_def)
  with le have "pending (rewind (get_pos sb) sb1) = pending sb"
    by (simp add: pending_def rewind_def get_pos_def total_def)
  moreover have "sb_good (rewind (get_pos sb) sb1)"
    using g le assms(2) by (auto simp: sb_good_def grown_def rewind_def get_pos_def)
  ultimately show ?thesis using buf by blast
qed

lemma rewinding_value:
  assumes "sync.parses m txt (Inr v)" "sb_good sb" "pending sb = txt @ rest"
  shows "\<exists>sb'. rewinding m (Some sb) = (Inr v, Some sb') \<and> pending sb' = rest \<and> sb_good sb'"
  using assms by (auto simp: rewinding_def purge_pending elim!: sync.parsesE)

lemma rewinding_parses:
  assumes "sync.parses m txt r" "keeps m" "sb_good sb" "pending sb = txt @ rest"
  shows "\<exists>sb'. rewinding m (Some sb) = (r, Some sb') \<and> sb_good sb' \<and>
      pending sb' = (case r of Inr _ \<Rightarrow> rest | Inl _ \<Rightarrow> pending sb)"
proof (cases r)
  case (Inr v)
  with rewinding_value assms show ?thesis by fastforce
next
  case (Inl e)
  obtain sb1 where "m sb = (Inl e, sb1)" using assms Inl by (auto elim: sync.parsesE)
  then have "rewinding m (Some sb) = (Inl e, Some (rewind (get_pos sb) sb1))"
    by (simp add: rewinding_def)
  with rewinding_error [OF assms(2,3) this] Inl show ?thesis by auto
qed

section \<open>The asynchronous stream as a reader\<close>

definition as_tail :: "async_state \<Rightarrow> string" where
  "as_tail s = py_slice (as_buffer s) (as_pos s) (int (length (as_buffer s)))"

definition as_pending :: "async_state \<Rightarrow> string" where
  "as_pending s = as_tail s @ as_stream s"

text \<open>The unread part of the buffer does not end between a carriage return and a newline.\<close>

definition as_good :: "async_state \<Rightarrow> bool" where
  "as_good s = (0 \<le> as_pos s \<and>
     \<not> (as_tail s \<noteq> [] \<and> last (as_tail s) = CHR 0x0D \<and> as_stream s \<noteq> [] \<and> hd (as_stream s) = CHR 0x0A))"

lemma as_tail_nat: "0 \<le> as_pos s \<Longrightarrow> as_tail s = drop (nat (as_pos s)) (as_buffer s)"
  by (simp add: as_tail_def py_slice_def Let_def min_def)

lemma find_crlf_append: "CHR 0x0A \<notin> set l \<Longrightarrow> find_crlf (l @ CRLF @ r) = Some (length l)"
  by (induction l rule: find_crlf.induct) (auto simp: CRLF_def)

lemma find_crlf_Some: "find_crlf s = Some k \<Longrightarrow> \<exists>r. s = take k s @ CRLF @ r \<and> k \<le> length s"
proof (induction s arbitrary: k rule: find_crlf.induct)
  case (3 c d s)
  then show ?case
    by (cases k) (auto simp: CRLF_def split: if_splits)
qed simp_all

lemma find_crlf_no_nl: "CHR 0x0A \<notin> set s \<Longrightarrow> find_crlf s = None"
  by (induction s rule: find_crlf.induct) auto

lemma async_readline_law:
  assumes "as_good s" "as_pending s = l @ CRLF @ rest" "CHR 0x0A \<notin> set l"
  shows "\<exists>s'. async_readline s = (Inr l, s') \<and> as_pending s' = rest \<and> as_good s'"
proof -
  have p0: "0 \<le> as_pos s" using assms(1) by (simp add: as_good_def)
  let ?t = "as_tail s"
  have "?t @ as_stream s = l @ CRLF @ rest" using assms(2) by (simp add: as_pending_def)
  from split_at_crlf [OF this assms(3)] show ?thesis
  proof
    assume "\<exists>r. ?t = l @ CRLF @ r \<and> rest = r @ as_stream s"
    then obtain r where r: "?t = l @ CRLF @ r" "rest = r @ as_stream s" by blast
    let ?s' = "s\<lparr>as_pos := as_pos s + int (length l) + 2\<rparr>"
    have rl: "async_readline s = (Inr l, ?s')"
      using r(1) assms(3) by (simp add: async_readline_def as_tail_def [symmetric] find_crlf_append Let_def)
    have "as_tail ?s' = drop (length l + 2) ?t"
      using p0 by (simp add: as_tail_nat nat_add_distrib add.commute add.left_commute)
    then have t': "as_tail ?s' = r" using r(1) by simp
    have "last ?t = last r" if "r \<noteq> []" using r(1) that by simp
    then have "as_good ?s'" using assms(1) t' r(1) p0 by (auto simp: as_good_def)
    with rl t' r(2) show ?thesis by (auto simp: as_pending_def)
  next
    assume "CHR 0x0A \<notin> set ?t \<and> (\<exists>r. l @ [CHR 0x0D] = ?t @ r)"
    then obtain r where nn: "CHR 0x0A \<notin> set ?t" and r: "l @ [CHR 0x0D] = ?t @ r" by blast
    have "?t @ as_stream s = ?t @ r @ CHR 0x0A # rest"
      using assms(2) r by (simp add: as_pending_def CRLF_def)
    then have st: "as_stream s = r @ CHR 0x0A # rest" by simp
    have rne: "r \<noteq> []"
    proof
      assume "r = []"
      with r st have "?t = l @ [CHR 0x0D]" "as_stream s = CHR 0x0A # rest" by simp_all
      with assms(1) show False by (simp add: as_good_def)
    qed
    have "last r = last (l @ [CHR 0x0D])" using r rne by (metis last_appendR)
    then have lr: "last r = CHR 0x0D" by simp
    then obtain r0 where r0: "r = r0 @ [CHR 0x0D]" using rne by (metis append_butlast_last_id)
    then have l: "l = ?t @ r0" using r by simp
    have nr: "CHR 0x0A \<notin> set r" using r0 l assms(3) by auto
    have u: "upto_nl (as_stream s) = r0 @ CRLF"
      using st nr upto_nl_append [of r rest] r0 by (simp add: CRLF_def)
    let ?s' = "s\<lparr>as_stream := rest, as_chunks := as_chunks s @ [r0 @ CRLF],
        as_pos := as_pos s + int (length l) + 2\<rparr>"
    have "drop (length (r0 @ CRLF)) (as_stream s) = rest" by (simp add: st r0 CRLF_def)
    moreover have "chop2 (?t @ r0 @ CRLF) = l" using l chop2_append2 [of CRLF "?t @ r0"] by simp
    ultimately have rl: "async_readline s = (Inr l, ?s')"
      using nn u by (simp add: async_readline_def as_tail_def [symmetric] find_crlf_no_nl Let_def ends_crlf_def)
    have "length (as_buffer s) \<le> nat (as_pos s) + length ?t" using p0 by (simp add: as_tail_nat)
    then have "as_tail ?s' = []" using p0 l by (simp add: as_tail_nat)
    then show ?thesis using rl p0 by (auto simp: as_pending_def as_good_def)
  qed
qed

lemma async_read_law:
  assumes "as_good s" "as_pending s = b @ CRLF @ rest"
  shows "\<exists>s'. async_read (int (length b)) s = (Inr b, s') \<and> as_pending s' = rest \<and> as_good s'"
proof -
  have p0: "0 \<le> as_pos s" using assms(1) by (simp add: as_good_def)
  let ?t = "as_tail s"
  let ?want = "length b + 2"
  have t: "?t = drop (nat (as_pos s)) (as_buffer s)" using p0 by (rule as_tail_nat)
  have p: "?t @ as_stream s = (b @ CRLF) @ rest" using assms(2) by (simp add: as_pending_def)
  have len: "length (b @ CRLF) = ?want" by simp
  show ?thesis
  proof (cases "as_pos s + int ?want \<le> int (length (as_buffer s))")
    case True
    let ?s' = "s\<lparr>as_pos := as_pos s + int ?want\<rparr>"
    from True have le: "?want \<le> length ?t" using p0 by (simp add: t)
    have "take ?want (?t @ as_stream s) = b @ CRLF" unfolding p by simp
    then have tk: "take ?want ?t = b @ CRLF" using le by simp
    have "drop ?want (?t @ as_stream s) = rest" unfolding p by simp
    then have dr: "drop ?want ?t @ as_stream s = rest" using le by simp
    have "py_slice (as_buffer s) (as_pos s) (as_pos s + int ?want - 2) = take (length b) ?t"
    proof -
      have "nat (as_pos s + int (length b)) = nat (as_pos s) + length b" using p0 by simp
      then show ?thesis using True p0 by (simp add: py_slice_def Let_def t drop_take min_def)
    qed
    also have "\<dots> = take (length b) (take ?want ?t)" by simp
    also have "\<dots> = b" unfolding tk by simp
    finally have rd: "async_read (int (length b)) s = (Inr b, ?s')"
      using True by (simp add: async_read_def Let_def algebra_simps)
    have t': "as_tail ?s' = drop ?want ?t"
      using p0 by (simp add: as_tail_nat t nat_add_distrib add.commute add.left_commute)
    have "last ?t = last (as_tail ?s')" if "as_tail ?s' \<noteq> []"
      using that unfolding t' by (simp only: last_drop drop_eq_Nil not_le)
    then have "as_good ?s'" using assms(1) t' p0 by (auto simp: as_good_def)
    with rd t' dr show ?thesis by (auto simp: as_pending_def)
  next
    case False
    let ?need = "?want - length ?t"
    let ?s' = "s\<lparr>as_stream := drop ?need (as_stream s), as_chunks := as_chunks s @ [take ?need (as_stream s)],
        as_pos := as_pos s + int ?want\<rparr>"
    have lt: "length ?t < ?want" using False p0 by (simp add: t)
    have ls: "?want \<le> length ?t + length (as_stream s)"
    proof -
      have "length (?t @ as_stream s) = ?want + length rest" unfolding p by simp
      then show ?thesis by simp
    qed
    have "take ?want (?t @ as_stream s) = b @ CRLF" unfolding p by simp
    then have tk: "?t @ take ?need (as_stream s) = b @ CRLF" using lt by simp
    have "drop ?want (?t @ as_stream s) = rest" unfolding p by simp
    then have dr: "drop ?need (as_stream s) = rest" using lt by simp
    have natneed: "nat (int (length b) + 2 - int (length ?t)) = Suc (Suc (length b)) - length ?t"
      by arith
    have "async_read (int (length b)) s = (Inr (chop2 (?t @ take ?need (as_stream s))), ?s')"
      using False ls lt natneed
      by (simp add: async_read_def Let_def as_tail_def [symmetric] algebra_simps)
    then have rd: "async_read (int (length b)) s = (Inr b, ?s')" unfolding tk by simp
    have "as_tail ?s' = []" using False p0 by (simp add: as_tail_nat)
    then show ?thesis using rd dr p0 by (auto simp: as_pending_def as_good_def)
  qed
qed

interpretation async: resp_reader async_reader as_pending as_good
  by unfold_locales
    (auto simp: async_reader_def as_clear_def intro: async_readline_law async_read_law)

section \<open>Replies through the parsers\<close>

lemma async_start_pending:
  "as_buffer s = [] \<Longrightarrow> as_chunks s = [] \<Longrightarrow>
   as_pending (async_start s) = as_stream s \<and> as_good (async_start s)"
  by (simp add: async_start_def as_pending_def as_good_def as_tail_nat)

lemma async_read_response:
  assumes "as_buffer s = []" "as_chunks s = []" "as_stream s = txt @ rest"
    and "async.parses m txt (Inr v)"
  shows "\<exists>s'. bindS m (\<lambda>r. thenS as_clear (retS r)) (async_start s) = (Inr v, s') \<and>
      as_buffer s' = [] \<and> as_chunks s' = []"
proof -
  have "as_good (async_start s)" "as_pending (async_start s) = txt @ rest"
    using async_start_pending [OF assms(1,2)] assms(3) by simp_all
  with assms(4) obtain s1 where "m (async_start s) = (Inr v, s1)" by (auto elim: async.parsesE)
  then show ?thesis by (auto simp: as_clear_def thenS_def bindS_def)
qed


interpretation sync_push: push_reader sync_reader pending sb_good new_push_handlers
proof unfold_locales
  fix s :: sockbuf and xs :: "pyval list"
  assume "sb_good s" "xs \<noteq> []"
  then show "\<exists>v s'. handle_push_response new_push_handlers xs s = (Inr v, s') \<and> pending s' = pending s \<and> sb_good s'"
    by (cases xs) (auto simp: handle_push_response_def new_push_handlers_def handle_pubsub_push_response_def)
qed

lemma push_handlers_keep: "keeps (handle_push_response new_push_handlers xs)"
  by (cases xs) (auto simp: handle_push_response_def new_push_handlers_def handle_pubsub_push_response_def)

definition plain_cfg :: parser_cfg where
  "plain_cfg = \<lparr>pc_classes = EXCEPTION_CLASSES,
     pc_encoder = \<lparr>encoding_errors = Strict, decode_responses = True, float_repr = (\<lambda>_. [])\<rparr>\<rparr>"

definition sample_reply :: reply where
  "sample_reply = RArr [RBulk ''key'', RInt (-3), RNullBulk, RError ''ERR unknown command'']"

definition sample_buf :: sockbuf where
  "sample_buf = new_sockbuf [RecvData (take 7 (enc_reply sample_reply)), RecvData (drop 7 (enc_reply sample_reply))] None"

lemma enc_sample: "enc_reply sample_reply =
    ''*4'' @ CRLF @ ''$3'' @ CRLF @ ''key'' @ CRLF @ '':-3'' @ CRLF @ ''$-1'' @ CRLF @ ''-ERR unknown command'' @ CRLF"
  by code_simp

lemma sample_buf_good: "sb_good sample_buf" "pending sample_buf = enc_reply sample_reply @ []"
  by (simp_all add: sample_buf_def new_sockbuf_def sb_good_def pending_def enc_sample CRLF_def)

text \<open>C1: reading a reply with the RESP2 parser gives exactly the value (or the exception) of the
  reply the server sent, however the socket cuts the bytes into chunks; after a value the
  bytes behind the reply are still unread, and after an exception the whole reply is.\<close>

theorem resp2_read_correct:
  assumes "reply_ok False limit r" "sb_good sb" "pending sb = enc_reply r @ rest"
  shows "\<exists>sb'. resp2_read_response c dd limit (Some sb) = (reply_val c dd r, Some sb') \<and> sb_good sb' \<and>
      pending sb' = (case reply_val c dd r of Inr _ \<Rightarrow> rest | Inl _ \<Rightarrow> pending sb)"
  unfolding resp2_read_response_def
  by (rule rewinding_parses [OF sync.resp2_parses [OF assms(1)] resp2_keeps assms(2,3)])

theorem resp2_read_correct_witness:
  "\<exists>sb'. resp2_read_response plain_cfg False 2 (Some sample_buf) =
      (reply_val plain_cfg False sample_reply, Some sb') \<and> sb_good sb' \<and>
      pending sb' = (case reply_val plain_cfg False sample_reply of Inr _ \<Rightarrow> [] | Inl _ \<Rightarrow> pending sample_buf)"
  by (rule resp2_read_correct [OF _ sample_buf_good])
     (simp add: sample_reply_def reply_shape_def line_ok_def numeral_2_eq_2)

text \<open>C2: the RESP3 parser handles any number of push messages that arrive before a reply and
  then gives exactly the value of the reply, whatever the chunks.\<close>

theorem resp3_read_correct:
  assumes "reply_ok True d r" "sb_good sb"
    and "pending sb = concat (map enc_push ps) @ enc_reply r @ rest"
    and "\<forall>xs \<in> set ps. xs \<noteq> [] \<and> list_all (reply_ok True d) xs \<and> okE (mapE (reply_val c dd) xs)"
  shows "\<exists>sb'. resp3_read_response new_push_handlers c dd (length ps + d) False (Some sb)
        = (reply_val c dd r, Some sb') \<and> sb_good sb' \<and>
      pending sb' = (case reply_val c dd r of Inr _ \<Rightarrow> rest | Inl _ \<Rightarrow> pending sb)"
proof -
  have "sync.parses (resp3_read sync_reader new_push_handlers c dd (length ps + d) False)
      (concat (map enc_push ps) @ enc_reply r) (reply_val c dd r)"
    using assms(1,4) by (intro sync_push.parses_pushes) auto
  then show ?thesis
    unfolding resp3_read_response_def
    by (rule rewinding_parses [OF _ resp3_keeps [OF push_handlers_keep] assms(2)]) (simp add: assms(3))
qed

definition sample_push :: "reply list" where
  "sample_push = [RBulk ''message'', RBulk ''ch'', RBulk ''hi'']"

definition sample_map :: reply where
  "sample_map = RMap [(RBulk ''a'', RBool True)]"

definition push_buf :: sockbuf where
  "push_buf = new_sockbuf [RecvData (enc_push sample_push @ enc_reply sample_map @ ''+'')] None"

theorem resp3_read_correct_witness:
  "\<exists>sb'. resp3_read_response new_push_handlers plain_cfg True (length [sample_push] + 2) False (Some push_buf)
        = (reply_val plain_cfg True sample_map, Some sb') \<and> sb_good sb' \<and>
      pending sb' = (case reply_val plain_cfg True sample_map of Inr _ \<Rightarrow> ''+'' | Inl _ \<Rightarrow> pending push_buf)"
  by (rule resp3_read_correct)
     (simp_all add: sample_map_def sample_push_def push_buf_def new_sockbuf_def sb_good_def pending_def
        reply_shape_def line_ok_def numeral_2_eq_2 enc_push_def decode_reply_def)

text \<open>the asynchronous RESP2 parser gives the value of the reply the stream delivers and
  clears its parsing buffer.\<close>

theorem async_resp2_correct:
  assumes "reply_ok False limit r" "as_connected s" "as_buffer s = []" "as_chunks s = []"
    and "as_stream s = enc_reply r @ rest" "reply_val c dd r = Inr v"
  shows "\<exists>s'. async_resp2_read_response c dd limit s = (Inr v, s') \<and> as_buffer s' = [] \<and> as_chunks s' = []"
proof -
  have "async.parses (resp2_read async_reader c dd limit) (enc_reply r) (Inr v)"
    using async.resp2_parses [OF assms(1), of c dd] assms(6) by simp
  from async_read_response [OF assms(3,4,5) this] assms(2) show ?thesis
    by (simp add: async_resp2_read_response_def)
qed

theorem async_resp2_correct_witness:
  "\<exists>s'. async_resp2_read_response plain_cfg True 1
      \<lparr>as_buffer = [], as_pos = 0, as_chunks = [], as_stream = enc_reply (RInt 5) @ [],
       as_has_stream = True, as_connected = True\<rparr> = (Inr (PInt 5), s') \<and> as_buffer s' = [] \<and> as_chunks s' = []"
  by (rule async_resp2_correct [of 1 "RInt 5"]) (simp_all add: reply_shape_def)

text \<open>C36: a read that fails, for instance because the socket times out in the middle of a reply,
  leaves the bytes received so far to be read again: nothing of the reply is lost.\<close>

theorem resp2_failure_keeps_bytes:
  assumes "sb_good sb" "resp2_read_response c dd limit (Some sb) = (Inl e, buf)"
  shows "\<exists>sb'. buf = Some sb' \<and> pending sb' = pending sb \<and> sb_good sb'"
  using rewinding_error [OF resp2_keeps assms(1)] assms(2) by (simp add: resp2_read_response_def)

definition half_buf :: sockbuf where
  "half_buf = new_sockbuf [RecvData ''$3''] None"

lemma half_buf_fails: "resp2_read_response plain_cfg True 2 (Some half_buf) =
    (Inl timeout_reading, Some (half_buf\<lparr>sb_data := ''$3'', sb_events := []\<rparr>))"
  by (simp add: resp2_read_response_def rewinding_def half_buf_def new_sockbuf_def numeral_2_eq_2
      sync_reader_def sb_readline_def bio_readline_def readline_loop.simps read_from_socket_def
      ends_crlf_code CRLF_def Let_def rewind_def get_pos_def bindS_def)

theorem resp2_failure_keeps_bytes_witness:
  "\<exists>sb'. Some (half_buf\<lparr>sb_data := ''$3'', sb_events := []\<rparr>) = Some sb' \<and> pending sb' = pending half_buf \<and> sb_good sb'"
  by (rule resp2_failure_keeps_bytes [OF _ half_buf_fails])
     (simp add: half_buf_def new_sockbuf_def sb_good_def)

text \<open>C3: what the client sends for a command is read back by a RESP parser as the list of its
  encoded arguments, for every cutoff of the chunking.\<close>

theorem pack_parse_roundtrip:
  assumes "pack enc cutoff args = Inr out" "2 \<le> limit" "sb_good sb" "pending sb = chunks_bytes out @ rest"
  shows "\<exists>args' es sb'. split_first args = Inr args' \<and> mapE (encode enc) args' = Inr es \<and>
      resp2_read_response c True limit (Some sb) = (Inr (PList (map (PBytes \<circ> raw) es)), Some sb') \<and>
      pending sb' = rest"
proof -
  from pack_eq_command [OF assms(1)] obtain args' es where
    a: "split_first args = Inr args'" "mapE (encode enc) args' = Inr es"
    and w: "chunks_bytes out = enc_reply (RArr (map RBulk (map raw es)))"
    by (auto simp: resp_command_reply)
  let ?r = "RArr (map RBulk (map raw es))"
  have v: "reply_val c True ?r = Inr (PList (map (PBytes \<circ> raw) es))"
  proof -
    have "mapE (reply_val c True) (map RBulk (map raw es)) = Inr (map (PBytes \<circ> raw) es)"
      by (induction es) (simp_all add: decode_reply_def)
    then show ?thesis by simp
  qed
  obtain d where "limit = Suc (Suc d)" using assms(2) by (metis le_iff_add add_2_eq_Suc)
  then have ok: "reply_ok False limit ?r" by (simp add: reply_shape_def list_all_iff)
  have "sync.parses (resp2_read sync_reader c True limit) (enc_reply ?r) (Inr (PList (map (PBytes \<circ> raw) es)))"
    using sync.resp2_parses [OF ok, of c True] v by simp
  moreover have "pending sb = enc_reply ?r @ rest" using assms(4) w by simp
  ultimately obtain sb' where "resp2_read_response c True limit (Some sb)
      = (Inr (PList (map (PBytes \<circ> raw) es)), Some sb')" "pending sb' = rest"
    using rewinding_value [OF _ assms(3)] unfolding resp2_read_response_def by metis
  with a show ?thesis by blast
qed

definition plain_encoder :: encoder where
  "plain_encoder = pc_encoder plain_cfg"

definition get_buf :: sockbuf where
  "get_buf = new_sockbuf [RecvData (chunks_bytes (pack_loop 6000 [PBytes ''GET'', PBytes ''k''] (array_header 2) []))] None"

theorem pack_parse_roundtrip_witness:
  "\<exists>args' es sb'. split_first [PStr ''GET'', PStr ''k''] = Inr args' \<and> mapE (encode plain_encoder) args' = Inr es \<and>
      resp2_read_response plain_cfg True 2 (Some get_buf) = (Inr (PList (map (PBytes \<circ> raw) es)), Some sb') \<and>
      pending sb' = []"
proof (rule pack_parse_roundtrip)
  show "pack plain_encoder 6000 [PStr ''GET'', PStr ''k''] =
      Inr (pack_loop 6000 [PBytes ''GET'', PBytes ''k''] (array_header 2) [])"
    by (simp add: pack_def split_first_def split_ws_def is_ws_def numeral_2_eq_2
        del: pack_loop.simps)
qed (simp_all add: get_buf_def new_sockbuf_def sb_good_def pending_def array_header_def
      chunks_bytes_pack_loop del: pack_loop.simps)

end
