(* ===== verification/Cache.thy ===== *)
theory Cache
  imports PyVal
begin

text \<open>
  Client-side cache (\<open>redis/cache.py\<close>): \<open>DefaultCache\<close> over an \<open>OrderedDict\<close>,
  the eviction policy as an interface with \<open>LRUPolicy\<close> as its provider, and
  \<open>CacheConfig\<close>. The operations are computations on the cache that may raise. The lemmas
  show the size bound, what an invalidation removes, and that the cache under the LRU policy
  refines a list ordered by recency.
\<close>

section \<open>Data\<close>

datatype entry_status = VALID | IN_PROGRESS

record cache_key =
  ck_command :: string
  ck_redis_keys :: "pyval list"

text \<open>A connection is referred to by its number.\<close>

record cache_entry =
  ce_key :: cache_key
  ce_value :: pyval
  ce_status :: entry_status
  ce_conn :: nat

type_synonym collection = "(cache_key, cache_entry) dict"

definition DEFAULT_MAX_SIZE :: int where
  "DEFAULT_MAX_SIZE = 10000"

definition DEFAULT_ALLOW_LIST :: "string list" where
  "DEFAULT_ALLOW_LIST =
    [''BITCOUNT'', ''BITFIELD_RO'', ''BITPOS'', ''EXISTS'', ''GEODIST'', ''GEOHASH'', ''GEOPOS'',
     ''GEORADIUSBYMEMBER_RO'', ''GEORADIUS_RO'', ''GEOSEARCH'', ''GET'', ''GETBIT'', ''GETRANGE'',
     ''HEXISTS'', ''HGET'', ''HGETALL'', ''HKEYS'', ''HLEN'', ''HMGET'', ''HSTRLEN'', ''HVALS'',
     ''JSON.ARRINDEX'', ''JSON.ARRLEN'', ''JSON.GET'', ''JSON.MGET'', ''JSON.OBJKEYS'',
     ''JSON.OBJLEN'', ''JSON.RESP'', ''JSON.STRLEN'', ''JSON.TYPE'', ''LCS'', ''LINDEX'', ''LLEN'',
     ''LPOS'', ''LRANGE'', ''MGET'', ''SCARD'', ''SDIFF'', ''SINTER'', ''SINTERCARD'', ''SISMEMBER'',
     ''SMEMBERS'', ''SMISMEMBER'', ''SORT_RO'', ''STRLEN'', ''SUBSTR'', ''SUNION'', ''TS.GET'',
     ''TS.INFO'', ''TS.RANGE'', ''TS.REVRANGE'', ''TYPE'', ''XLEN'', ''XPENDING'', ''XRANGE'',
     ''XREAD'', ''XREVRANGE'', ''ZCARD'', ''ZCOUNT'', ''ZDIFF'', ''ZINTER'', ''ZINTERCARD'',
     ''ZLEXCOUNT'', ''ZMSCORE'', ''ZRANGE'', ''ZRANGEBYLEX'', ''ZRANGEBYSCORE'', ''ZRANK'',
     ''ZREVRANGE'', ''ZREVRANGEBYLEX'', ''ZREVRANGEBYSCORE'', ''ZREVRANK'', ''ZSCORE'', ''ZUNION'']"

text \<open>\<open>CacheConfig\<close>; the cache class is the one modelled here.\<close>

record eviction_policy =
  pol_touch :: "cache_key \<Rightarrow> collection \<Rightarrow> exc + collection"
  pol_evict_next :: "collection \<Rightarrow> exc + cache_key \<times> collection"

record cache_config =
  max_size :: int
  policy :: eviction_policy

definition is_exceeds_max_size :: "cache_config \<Rightarrow> int \<Rightarrow> bool" where
  "is_exceeds_max_size cfg count = (max_size cfg < count)"

definition is_allowed_to_cache :: "cache_config \<Rightarrow> string \<Rightarrow> bool" where
  "is_allowed_to_cache cfg command = (command \<in> set DEFAULT_ALLOW_LIST)"

section \<open>The LRU policy\<close>

definition not_in_cache :: exc where
  "not_in_cache = Exc ValueError ''Given entry does not belong to the cache''"

definition evictions_above :: exc where
  "evictions_above = Exc ValueError ''Evictions count is above cache size''"

definition move_to_end :: "'k \<Rightarrow> ('k, 'v) dict \<Rightarrow> ('k, 'v) dict" where
  "move_to_end k d = (case dict_get d k of None \<Rightarrow> d | Some v \<Rightarrow> dict_del k d @ [(k, v)])"

definition lru_touch :: "cache_key \<Rightarrow> collection \<Rightarrow> exc + collection" where
  "lru_touch k d = (if dict_get d k = None then Inl not_in_cache else Inr (move_to_end k d))"

text \<open>\<open>popitem(last=False)\<close>.\<close>

definition lru_evict_next :: "collection \<Rightarrow> exc + cache_key \<times> collection" where
  "lru_evict_next d = (case d of
      [] \<Rightarrow> Inl (Exc KeyError ''dictionary is empty'')
    | (k, _) # d' \<Rightarrow> Inr (k, d'))"

primrec pop_first :: "nat \<Rightarrow> collection \<Rightarrow> exc + cache_key list \<times> collection" where
  "pop_first 0 d = Inr ([], d)"
| "pop_first (Suc n) d =
     bindE (lru_evict_next d) (\<lambda>(k, d'). bindE (pop_first n d') (\<lambda>(ks, d''). Inr (k # ks, d'')))"

definition lru_evict_many :: "int \<Rightarrow> collection \<Rightarrow> exc + cache_key list \<times> collection" where
  "lru_evict_many count d =
     (if int (length d) < count then Inl evictions_above else pop_first (nat count) d)"

definition LRUPolicy :: eviction_policy where
  "LRUPolicy = \<lparr>pol_touch = lru_touch, pol_evict_next = lru_evict_next\<rparr>"

section \<open>DefaultCache\<close>

type_synonym 'a cache_op = "(collection, exc, 'a) action"

definition touch :: "cache_config \<Rightarrow> cache_key \<Rightarrow> unit cache_op" where
  "touch cfg k = (\<lambda>d. case pol_touch (policy cfg) k d of Inl e \<Rightarrow> (Inl e, d) | Inr d' \<Rightarrow> (Inr (), d'))"

definition evict_next :: "cache_config \<Rightarrow> cache_key cache_op" where
  "evict_next cfg = (\<lambda>d. case pol_evict_next (policy cfg) d of
      Inl e \<Rightarrow> (Inl e, d) | Inr (k, d') \<Rightarrow> (Inr k, d'))"

definition is_cachable :: "cache_config \<Rightarrow> cache_key \<Rightarrow> bool" where
  "is_cachable cfg k = is_allowed_to_cache cfg (ck_command k)"

definition cache_set :: "cache_config \<Rightarrow> cache_entry \<Rightarrow> bool cache_op" where
  "cache_set cfg entry =
     (if \<not> is_cachable cfg (ce_key entry) then retS False
      else thenS (modS (dict_set (ce_key entry) entry))
          (thenS (touch cfg (ce_key entry))
          (bindS (getS length) (\<lambda>n.
             if is_exceeds_max_size cfg (int n) then thenS (evict_next cfg) (retS True)
             else retS True))))"

definition cache_get :: "cache_config \<Rightarrow> cache_key \<Rightarrow> cache_entry option cache_op" where
  "cache_get cfg k = bindS (getS (\<lambda>d. dict_get d k)) (\<lambda>entry.
     case entry of None \<Rightarrow> retS None | Some e \<Rightarrow> thenS (touch cfg k) (retS (Some e)))"

definition pop :: "cache_key \<Rightarrow> unit cache_op" where
  "pop k = (\<lambda>d. if dict_get d k = None then (Inl (Exc KeyError ''pop''), d) else (Inr (), dict_del k d))"

definition delete_by_cache_keys :: "cache_config \<Rightarrow> cache_key list \<Rightarrow> bool list cache_op" where
  "delete_by_cache_keys cfg ks = mapS (\<lambda>k. bindS (cache_get cfg k) (\<lambda>entry.
     if entry \<noteq> None then thenS (pop k) (retS True) else retS False)) ks"

definition decode_redis_key :: "pyval \<Rightarrow> exc + pyval" where
  "decode_redis_key v = (case v of
      PBytes b \<Rightarrow> (if utf8_valid b then Inr (PStr b) else Inl (Exc UnicodeDecodeError ''utf-8''))
    | _ \<Rightarrow> Inr v)"

definition mentions :: "pyval \<Rightarrow> cache_key \<Rightarrow> bool" where
  "mentions v k = list_ex (py_key_eq v) (ck_redis_keys k)"

text \<open>The keys of the cache that mention one of the redis keys, once for each that they mention.\<close>

definition keys_to_delete :: "pyval list \<Rightarrow> collection \<Rightarrow> exc + cache_key list" where
  "keys_to_delete redis_keys d =
     bindE (mapE (\<lambda>v. bindE (decode_redis_key v) (\<lambda>r. Inr (filter (mentions r) (map fst d)))) redis_keys)
       (\<lambda>kss. Inr (concat kss))"

definition delete_by_redis_keys :: "pyval list \<Rightarrow> bool list cache_op" where
  "delete_by_redis_keys redis_keys = bindS (getS (keys_to_delete redis_keys)) (\<lambda>r.
     case r of Inl e \<Rightarrow> raiseS e
     | Inr ks \<Rightarrow> thenS (mapS pop ks) (retS (map (\<lambda>_. True) ks)))"

definition flush :: "nat cache_op" where
  "flush = bindS (getS length) (\<lambda>n. thenS (modS (\<lambda>_. [])) (retS n))"

section \<open>What a cache relies on in its policy\<close>

lemma move_to_end_props:
  assumes "dict_wf d" "dict_get d k = Some v"
  shows "dict_wf (move_to_end k d)" "dict_get (move_to_end k d) = dict_get d"
    "length (move_to_end k d) = length d"
proof -
  have m: "move_to_end k d = dict_del k d @ [(k, v)]" using assms(2) by (simp add: move_to_end_def)
  have kd: "k \<notin> set (map fst (dict_del k d))" by (simp add: delete_keys)
  then show "dict_wf (move_to_end k d)"
    using assms(1) m by (simp add: dict_wf_def distinct_delete)
  show "dict_get (move_to_end k d) = dict_get d"
  proof
    fix k' show "dict_get (move_to_end k d) k' = dict_get d k'"
      using assms(2) by (simp add: m map_add_def delete_conv' split: option.splits)
  qed
  have "length d = Suc (length (dict_del k d))"
    using assms
  proof (induction d)
    case Nil
    then show ?case by simp
  next
    case (Cons p d)
    show ?case
    proof (cases "fst p = k")
      case True
      with Cons.prems have "k \<notin> fst ` set d" by (auto simp: dict_wf_def)
      then have "dict_del k d = d" by (simp add: delete_idem)
      with True show ?thesis by (cases p) (simp add: AList.delete_eq)
    next
      case False
      with Cons show ?thesis by (cases p) (auto simp: dict_wf_def AList.delete_eq)
    qed
  qed
  then show "length (move_to_end k d) = length d" by (simp add: m)
qed

locale eviction =
  fixes P :: eviction_policy
  assumes touch_law: "dict_wf d \<Longrightarrow> dict_get d k = Some v \<Longrightarrow>
      \<exists>d'. pol_touch P k d = Inr d' \<and> dict_wf d' \<and> dict_get d' = dict_get d \<and> length d' = length d"
    and evict_law: "dict_wf d \<Longrightarrow> d \<noteq> [] \<Longrightarrow>
      \<exists>k d'. pol_evict_next P d = Inr (k, d') \<and> dict_wf d' \<and> Suc (length d') = length d \<and>
        dict_get d k \<noteq> None \<and> dict_get d' = (dict_get d)(k := None)"
begin

lemma touch_present:
  assumes "dict_wf d" "dict_get d k = Some v" "policy cfg = P"
  obtains d' where "touch cfg k d = (Inr (), d')" "dict_wf d'" "dict_get d' = dict_get d" "length d' = length d"
  using touch_law [OF assms(1,2)] assms(3) by (auto simp: touch_def)

lemma cache_get_spec:
  assumes "dict_wf d" "policy cfg = P"
  shows "\<exists>d'. cache_get cfg k d = (Inr (dict_get d k), d') \<and> dict_wf d' \<and>
     dict_get d' = dict_get d \<and> length d' = length d"
proof (cases "dict_get d k")
  case None
  with assms show ?thesis by (simp add: cache_get_def bindS_def)
next
  case (Some v)
  from assms(1) Some assms(2) obtain d' where "touch cfg k d = (Inr (), d')" "dict_wf d'"
      "dict_get d' = dict_get d" "length d' = length d"
    by (rule touch_present)
  with Some show ?thesis by (simp add: cache_get_def bindS_def)
qed

text \<open>
  A set stores the entry; only when the cache was full of other keys is one entry evicted.
\<close>

lemma cache_set_spec:
  assumes wf: "dict_wf d" and p: "policy cfg = P" and c: "is_cachable cfg (ce_key e)"
  shows "\<exists>d'. cache_set cfg e d = (Inr True, d') \<and> dict_wf d' \<and>
     (if max_size cfg < int (length (dict_set (ce_key e) e d))
      then \<exists>k. dict_get d' = ((dict_get d)(ce_key e \<mapsto> e))(k := None) \<and>
             Suc (length d') = length (dict_set (ce_key e) e d)
      else dict_get d' = (dict_get d)(ce_key e \<mapsto> e) \<and> length d' = length (dict_set (ce_key e) e d))"
proof -
  let ?d1 = "dict_set (ce_key e) e d"
  have g1: "dict_get ?d1 = (dict_get d)(ce_key e \<mapsto> e)" by (rule update_conv')
  have wf1: "dict_wf ?d1" using wf by simp
  have "dict_get ?d1 (ce_key e) = Some e" by simp
  from touch_present [OF wf1 this p] obtain d2 where d2: "touch cfg (ce_key e) ?d1 = (Inr (), d2)"
      "dict_wf d2" "dict_get d2 = dict_get ?d1" "length d2 = length ?d1" .
  show ?thesis
  proof (cases "max_size cfg < int (length ?d1)")
    case False
    with c d2 g1 show ?thesis
      by (simp add: cache_set_def thenS_def bindS_def is_exceeds_max_size_def)
  next
    case True
    have "?d1 \<noteq> []" by (cases d) auto
    then have "d2 \<noteq> []" using d2(4) by auto
    with evict_law d2(2) p obtain k d3 where "evict_next cfg d2 = (Inr k, d3)" "dict_wf d3"
        "Suc (length d3) = length d2" "dict_get d3 = (dict_get d2)(k := None)"
      unfolding evict_next_def by fastforce
    with True c d2 g1 show ?thesis
      by (auto simp: cache_set_def thenS_def bindS_def is_exceeds_max_size_def)
  qed
qed

lemma cache_set_bound:
  assumes "dict_wf d" "policy cfg = P" "int (length d) \<le> max 0 (max_size cfg)"
    and "cache_set cfg e d = (r, d')"
  shows "dict_wf d' \<and> int (length d') \<le> max 0 (max_size cfg)"
proof (cases "is_cachable cfg (ce_key e)")
  case False
  with assms show ?thesis by (simp add: cache_set_def)
next
  case True
  from cache_set_spec [OF assms(1,2) True] assms(3,4) show ?thesis
    by (auto simp: dict_set_length split: if_splits)
qed

end

interpretation lru: eviction LRUPolicy
proof unfold_locales
  fix d :: collection and k v
  assume "dict_wf d" "dict_get d k = Some v"
  with move_to_end_props [OF this] show "\<exists>d'. pol_touch LRUPolicy k d = Inr d' \<and> dict_wf d' \<and>
      dict_get d' = dict_get d \<and> length d' = length d"
    by (simp add: LRUPolicy_def lru_touch_def)
next
  fix d :: collection
  assume wf: "dict_wf d" and "d \<noteq> []"
  then obtain k v d' where d: "d = (k, v) # d'" by (metis list.exhaust surj_pair)
  with wf have "dict_get d' k = None" by (auto simp: dict_wf_def map_of_eq_None_iff)
  then have "dict_get d' = (dict_get d)(k := None)" by (auto simp: d fun_eq_iff)
  with wf d show "\<exists>k d'. pol_evict_next LRUPolicy d = Inr (k, d') \<and> dict_wf d' \<and>
      Suc (length d') = length d \<and> dict_get d k \<noteq> None \<and> dict_get d' = (dict_get d)(k := None)"
    by (simp add: LRUPolicy_def lru_evict_next_def dict_wf_def)
qed

section \<open>Invalidation\<close>

lemma pop_ok: "dict_get d k \<noteq> None \<Longrightarrow> pop k d = (Inr (), dict_del k d)"
  by (simp add: pop_def)

lemma pop_all:
  assumes "distinct ks" "\<And>k. k \<in> set ks \<Longrightarrow> dict_get d k \<noteq> None"
  shows "\<exists>us. mapS pop ks d = (Inr us, foldl (\<lambda>d k. dict_del k d) d ks)"
  using assms
proof (induction ks arbitrary: d)
  case Nil
  then show ?case by simp
next
  case (Cons k ks)
  have "pop k d = (Inr (), dict_del k d)" using Cons.prems by (intro pop_ok) simp
  moreover have "\<exists>us. mapS pop ks (dict_del k d) = (Inr us, foldl (\<lambda>d k. dict_del k d) (dict_del k d) ks)"
    using Cons.prems by (intro Cons.IH) auto
  ultimately show ?case by (auto simp: bindS_def)
qed

lemma foldl_del_get:
  "dict_get (foldl (\<lambda>d k. dict_del k d) d ks) k = (if k \<in> set ks then None else dict_get d k)"
  by (induction ks arbitrary: d) auto

text \<open>The matches of each redis key, decoded.\<close>

lemma keys_to_delete_spec:
  assumes "mapE decode_redis_key redis_keys = Inr rs"
  shows "keys_to_delete redis_keys d = Inr (concat (map (\<lambda>r. filter (mentions r) (map fst d)) rs))"
proof -
  have "mapE (\<lambda>v. bindE (decode_redis_key v) (\<lambda>r. Inr (filter (mentions r) (map fst d)))) redis_keys
      = Inr (map (\<lambda>r. filter (mentions r) (map fst d)) rs)"
    using assms by (induction redis_keys arbitrary: rs) (auto simp: bindE_eq_Inr)
  then show ?thesis by (simp add: keys_to_delete_def)
qed

lemma distinct_matches:
  assumes "dict_wf d" "distinct rs"
    and "\<And>k r r'. k \<in> set (map fst d) \<Longrightarrow> r \<in> set rs \<Longrightarrow> r' \<in> set rs \<Longrightarrow>
      mentions r k \<Longrightarrow> mentions r' k \<Longrightarrow> r = r'"
  shows "distinct (concat (map (\<lambda>r. filter (mentions r) (map fst d)) rs))"
  using assms(2,3)
proof (induction rs)
  case Nil
  show ?case by simp
next
  case (Cons r rs)
  have "distinct (concat (map (\<lambda>r. filter (mentions r) (map fst d)) rs))"
    using Cons.prems by (intro Cons.IH) (auto simp only: distinct.simps list.set insert_iff)
  moreover have "distinct (filter (mentions r) (map fst d))"
    using assms(1) by (simp add: dict_wf_def)
  moreover have "set (filter (mentions r) (map fst d)) \<inter>
      set (concat (map (\<lambda>r. filter (mentions r) (map fst d)) rs)) = {}"
  proof -
    have "False" if "k \<in> set (map fst d)" "mentions r k" "r' \<in> set rs" "mentions r' k" for k r'
      using Cons.prems(2) [of k r r'] Cons.prems(1) that by auto
    then show ?thesis by auto
  qed
  ultimately show ?case by simp
qed

lemma delete_by_redis_keys_spec:
  assumes wf: "dict_wf d" and rs: "mapE decode_redis_key redis_keys = Inr rs" and "distinct rs"
    and one: "\<And>k r r'. k \<in> set (map fst d) \<Longrightarrow> r \<in> set rs \<Longrightarrow> r' \<in> set rs \<Longrightarrow>
      mentions r k \<Longrightarrow> mentions r' k \<Longrightarrow> r = r'"
  shows "\<exists>bs d'. delete_by_redis_keys redis_keys d = (Inr bs, d') \<and>
     (\<forall>k. dict_get d' k = (if \<exists>r \<in> set rs. mentions r k then None else dict_get d k))"
proof -
  let ?ks = "concat (map (\<lambda>r. filter (mentions r) (map fst d)) rs)"
  have "distinct ?ks" using wf assms(3) one by (rule distinct_matches)
  moreover have "dict_get d k \<noteq> None" if "k \<in> set ?ks" for k
    using that by (auto simp: map_of_eq_None_iff)
  ultimately obtain us where "mapS pop ?ks d = (Inr us, foldl (\<lambda>d k. dict_del k d) d ?ks)"
    using pop_all by blast
  then have "delete_by_redis_keys redis_keys d =
      (Inr (map (\<lambda>_. True) ?ks), foldl (\<lambda>d k. dict_del k d) d ?ks)"
    by (simp add: delete_by_redis_keys_def bindS_def thenS_def keys_to_delete_spec [OF rs])
  moreover have "dict_get (foldl (\<lambda>d k. dict_del k d) d ?ks) k =
      (if \<exists>r \<in> set rs. mentions r k then None else dict_get d k)" for k
  proof (cases "k \<in> set (map fst d)")
    case True
    then show ?thesis by (auto simp: foldl_del_get)
  next
    case False
    then have "dict_get d k = None" by (simp add: map_of_eq_None_iff)
    with False show ?thesis by (auto simp: foldl_del_get)
  qed
  ultimately show ?thesis by blast
qed


text \<open>An operation never leaves the cache ill-formed or above its bound.\<close>

definition cache_inv :: "cache_config \<Rightarrow> collection \<Rightarrow> bool" where
  "cache_inv cfg d = (dict_wf d \<and> int (length d) \<le> max 0 (max_size cfg))"

lemma cache_inv_del: "cache_inv cfg d \<Longrightarrow> cache_inv cfg (dict_del k d)"
  using length_delete_le [of k d] by (auto simp: cache_inv_def)

lemma pop_inv: "cache_inv cfg d \<Longrightarrow> cache_inv cfg (snd (pop k d))"
  by (simp add: pop_def cache_inv_del)

lemma cache_get_inv:
  assumes "cache_inv cfg d" "policy cfg = LRUPolicy"
  shows "cache_inv cfg (snd (cache_get cfg k d))"
  using lru.cache_get_spec [of d cfg k] assms by (auto simp: cache_inv_def)

lemma cache_set_inv:
  assumes "cache_inv cfg d" "policy cfg = LRUPolicy"
  shows "cache_inv cfg (snd (cache_set cfg e d))"
  using lru.cache_set_bound [of d cfg e] assms by (metis cache_inv_def prod.collapse)

lemma delete_by_cache_keys_inv:
  assumes "cache_inv cfg d" "policy cfg = LRUPolicy"
  shows "cache_inv cfg (snd (delete_by_cache_keys cfg ks d))"
  unfolding delete_by_cache_keys_def
proof (rule mapS_inv [where P = "cache_inv cfg", OF _ assms(1)])
  fix k d
  assume d: "cache_inv cfg d"
  then have "cache_inv cfg (snd (cache_get cfg k d))" using assms(2) by (rule cache_get_inv)
  then show "cache_inv cfg (snd (bindS (cache_get cfg k) (\<lambda>entry.
      if entry \<noteq> None then thenS (pop k) (retS True) else retS False) d))"
    using pop_inv [of cfg "snd (cache_get cfg k d)" k]
    by (auto simp: bindS_def thenS_def split: prod.splits sum.splits)
qed

lemma delete_by_redis_keys_inv:
  assumes "cache_inv cfg d"
  shows "cache_inv cfg (snd (delete_by_redis_keys rks d))"
proof -
  have "cache_inv cfg (snd (mapS pop ks d))" for ks
    using assms by (rule mapS_inv [rotated]) (rule pop_inv)
  then have "cache_inv cfg d'" if "mapS pop ks d = (r, d')" for ks r d'
    using that by (metis snd_conv)
  with assms show ?thesis
    by (auto simp: delete_by_redis_keys_def bindS_def thenS_def split: prod.splits sum.splits)
qed

lemma flush_inv: "cache_inv cfg (snd (flush d))"
  by (simp add: flush_def bindS_def thenS_def cache_inv_def)

text \<open>The calls a client makes on a cache, and the states they lead to.\<close>

datatype cache_call =
    Set cache_entry | Get cache_key | DeleteByCacheKeys "cache_key list"
  | DeleteByRedisKeys "pyval list" | Flush

fun run_call :: "cache_config \<Rightarrow> cache_call \<Rightarrow> collection \<Rightarrow> collection" where
  "run_call cfg (Set e) d = snd (cache_set cfg e d)"
| "run_call cfg (Get k) d = snd (cache_get cfg k d)"
| "run_call cfg (DeleteByCacheKeys ks) d = snd (delete_by_cache_keys cfg ks d)"
| "run_call cfg (DeleteByRedisKeys rks) d = snd (delete_by_redis_keys rks d)"
| "run_call cfg Flush d = snd (flush d)"

lemma run_call_inv: "cache_inv cfg d \<Longrightarrow> policy cfg = LRUPolicy \<Longrightarrow> cache_inv cfg (run_call cfg c d)"
  by (cases c) (simp_all add: cache_set_inv cache_get_inv delete_by_cache_keys_inv
      delete_by_redis_keys_inv flush_inv)

section \<open>Recency\<close>

text \<open>
  The abstract cache: keys and entries from the least to the most recently used one. A use
  moves to the end, a new key of a full cache drops the front.
\<close>

definition lru_use :: "cache_key \<Rightarrow> cache_entry \<Rightarrow> collection \<Rightarrow> collection" where
  "lru_use k e d = filter (\<lambda>(k', _). k' \<noteq> k) d @ [(k, e)]"

definition lru_insert :: "int \<Rightarrow> cache_key \<Rightarrow> cache_entry \<Rightarrow> collection \<Rightarrow> collection" where
  "lru_insert n k e d = (let d' = lru_use k e d in if n < int (length d') then tl d' else d')"

lemma dict_del_filter: "dict_del k d = filter (\<lambda>(k', _). k' \<noteq> k) d"
  by (auto simp: AList.delete_eq intro: filter_cong)

lemma dict_del_set: "dict_del k (dict_set k v d) = dict_del k d"
  by (induction d) (auto simp: AList.delete_eq)

lemma move_to_end_set: "move_to_end k (dict_set k e d) = lru_use k e d"
  by (simp add: move_to_end_def lru_use_def dict_del_set) (simp add: dict_del_filter)

lemma cache_set_lru:
  assumes "policy cfg = LRUPolicy" "is_cachable cfg (ce_key e)" "0 \<le> max_size cfg"
  shows "cache_set cfg e d = (Inr True, lru_insert (max_size cfg) (ce_key e) e d)"
proof -
  let ?d = "lru_use (ce_key e) e d"
  have t: "touch cfg (ce_key e) (dict_set (ce_key e) e d) = (Inr (), ?d)"
    using assms(1) by (simp add: touch_def LRUPolicy_def lru_touch_def move_to_end_set)
  show ?thesis
  proof (cases "max_size cfg < int (length ?d)")
    case False
    with assms t show ?thesis
      by (simp add: cache_set_def thenS_def bindS_def is_exceeds_max_size_def lru_insert_def Let_def)
  next
    case True
    obtain k v d' where d': "?d = (k, v) # d'" by (cases ?d) (auto simp: lru_use_def)
    then have "evict_next cfg ?d = (Inr k, tl ?d)"
      using assms(1) by (simp add: evict_next_def LRUPolicy_def lru_evict_next_def)
    with True assms t show ?thesis
      by (simp add: cache_set_def thenS_def bindS_def is_exceeds_max_size_def lru_insert_def Let_def)
  qed
qed

lemma cache_get_lru:
  assumes "policy cfg = LRUPolicy"
  shows "cache_get cfg k d = (case dict_get d k of
     None \<Rightarrow> (Inr None, d) | Some e \<Rightarrow> (Inr (Some e), lru_use k e d))"
  using assms
  by (auto simp: cache_get_def bindS_def touch_def LRUPolicy_def lru_touch_def move_to_end_def
      lru_use_def thenS_def dict_del_filter split: option.splits)

section \<open>Properties\<close>

definition lru_config :: "int \<Rightarrow> cache_config" where
  "lru_config n = \<lparr>max_size = n, policy = LRUPolicy\<rparr>"

definition sample_key :: "string \<Rightarrow> cache_key" where
  "sample_key k = \<lparr>ck_command = ''GET'', ck_redis_keys = [PStr k]\<rparr>"

definition sample_entry :: "string \<Rightarrow> cache_entry" where
  "sample_entry k = \<lparr>ce_key = sample_key k, ce_value = PInt 1, ce_status = VALID, ce_conn = 0\<rparr>"

lemma sample_key_eq [simp]: "sample_key a = sample_key b \<longleftrightarrow> a = b"
  by (simp add: sample_key_def)

lemma sample_entry_key [simp]: "ce_key (sample_entry k) = sample_key k"
  by (simp add: sample_entry_def)

text \<open>C30: whatever calls are made on a cache with the LRU policy, failed ones included, every
  key has at most one entry and the number of entries never exceeds the configured maximum.\<close>

theorem cache_bounded:
  assumes "policy cfg = LRUPolicy"
  shows "dict_wf (foldl (\<lambda>d c. run_call cfg c d) [] cs) \<and>
    int (length (foldl (\<lambda>d c. run_call cfg c d) [] cs)) \<le> max 0 (max_size cfg)"
proof -
  have "cache_inv cfg (foldl (\<lambda>d c. run_call cfg c d) d cs)" if "cache_inv cfg d" for d
    using that by (induction cs arbitrary: d) (simp_all add: run_call_inv assms)
  moreover have "cache_inv cfg []" by (simp add: cache_inv_def)
  ultimately show ?thesis by (auto simp: cache_inv_def)
qed

theorem cache_bounded_witness:
  "dict_wf (foldl (\<lambda>d c. run_call (lru_config 1) c d) [] [Set (sample_entry ''a''), Set (sample_entry ''b'')]) \<and>
    int (length (foldl (\<lambda>d c. run_call (lru_config 1) c d) [] [Set (sample_entry ''a''), Set (sample_entry ''b'')]))
      \<le> max 0 (max_size (lru_config 1))"
  by (rule cache_bounded) (simp add: lru_config_def)

text \<open>C31: under the LRU policy the cache is the list of its entries by recency: setting an entry
  makes it the most recent one and drops the least recent one of a full cache, a hit makes the
  entry the most recent one, and a miss changes nothing.\<close>

theorem cache_refines_lru:
  assumes "policy cfg = LRUPolicy" "is_cachable cfg (ce_key e)" "0 \<le> max_size cfg"
  shows "cache_set cfg e d = (Inr True, lru_insert (max_size cfg) (ce_key e) e d) \<and>
    cache_get cfg k d = (case dict_get d k of
       None \<Rightarrow> (Inr None, d) | Some e' \<Rightarrow> (Inr (Some e'), lru_use k e' d))"
  using cache_set_lru [OF assms] cache_get_lru [OF assms(1)] by blast

theorem cache_refines_lru_witness:
  "cache_set (lru_config 1) (sample_entry ''b'') [(sample_key ''a'', sample_entry ''a'')]
     = (Inr True, lru_insert (max_size (lru_config 1)) (ce_key (sample_entry ''b'')) (sample_entry ''b'')
          [(sample_key ''a'', sample_entry ''a'')]) \<and>
   cache_get (lru_config 1) (sample_key ''a'') [(sample_key ''a'', sample_entry ''a'')]
     = (case dict_get [(sample_key ''a'', sample_entry ''a'')] (sample_key ''a'') of
          None \<Rightarrow> (Inr None, [(sample_key ''a'', sample_entry ''a'')])
        | Some e' \<Rightarrow> (Inr (Some e'), lru_use (sample_key ''a'') e' [(sample_key ''a'', sample_entry ''a'')]))"
  by (rule cache_refines_lru)
     (simp_all add: lru_config_def is_cachable_def is_allowed_to_cache_def sample_key_def DEFAULT_ALLOW_LIST_def)

text \<open>C32: an invalidation message whose keys are distinct and of which no cache key mentions two
  removes exactly the entries that mention an invalidated key.\<close>

theorem invalidation_exact:
  assumes "dict_wf d" "mapE decode_redis_key redis_keys = Inr rs" "distinct rs"
    and "\<forall>k \<in> set (map fst d). \<forall>r \<in> set rs. \<forall>r' \<in> set rs. mentions r k \<longrightarrow> mentions r' k \<longrightarrow> r = r'"
  shows "\<exists>bs d'. delete_by_redis_keys redis_keys d = (Inr bs, d') \<and>
     (\<forall>k. dict_get d' k = (if \<exists>r \<in> set rs. mentions r k then None else dict_get d k))"
  by (rule delete_by_redis_keys_spec [OF assms(1-3)]) (use assms(4) in blast)

theorem invalidation_exact_witness:
  "\<exists>bs d'. delete_by_redis_keys [PBytes ''a'']
       [(sample_key ''a'', sample_entry ''a''), (sample_key ''b'', sample_entry ''b'')] = (Inr bs, d') \<and>
     (\<forall>k. dict_get d' k = (if \<exists>r \<in> set [PStr ''a'']. mentions r k then None
        else dict_get [(sample_key ''a'', sample_entry ''a''), (sample_key ''b'', sample_entry ''b'')] k))"
proof (rule invalidation_exact)
  show "mapE decode_redis_key [PBytes ''a''] = Inr [PStr ''a'']"
    by (simp add: decode_redis_key_def ascii_def)
qed (simp_all add: dict_wf_def)

text \<open>when one message invalidates two keys that the same cached command mentions, the
  second removal of the entry raises \<open>KeyError\<close>.\<close>

theorem invalidation_two_keys_raises:
  "fst (delete_by_redis_keys [PStr ''a'', PStr ''b'']
     [(\<lparr>ck_command = ''MGET'', ck_redis_keys = [PStr ''a'', PStr ''b'']\<rparr>, e)]) = Inl (Exc KeyError ''pop'')"
  by (simp add: delete_by_redis_keys_def keys_to_delete_def decode_redis_key_def mentions_def
      bindS_def thenS_def pop_def AList.delete_eq)

text \<open>an entry stored for a key given as bytes survives every invalidation of that key.\<close>

theorem invalidation_misses_bytes_key:
  assumes "utf8_valid b"
  shows "delete_by_redis_keys [PBytes b] [(\<lparr>ck_command = ''GET'', ck_redis_keys = [PBytes b]\<rparr>, e)]
     = (Inr [], [(\<lparr>ck_command = ''GET'', ck_redis_keys = [PBytes b]\<rparr>, e)])"
  using assms by (simp add: delete_by_redis_keys_def keys_to_delete_def decode_redis_key_def
      mentions_def bindS_def thenS_def)

theorem invalidation_misses_bytes_key_witness:
  "delete_by_redis_keys [PBytes ''a''] [(\<lparr>ck_command = ''GET'', ck_redis_keys = [PBytes ''a'']\<rparr>, sample_entry ''a'')]
     = (Inr [], [(\<lparr>ck_command = ''GET'', ck_redis_keys = [PBytes ''a'']\<rparr>, sample_entry ''a'')])"
  by (rule invalidation_misses_bytes_key) (simp add: ascii_def)

end
