(* ===== verification/CacheProxy.thy ===== *)
theory CacheProxy
  imports Cache Resp Utils
begin

text \<open>
  \<open>CacheProxyConnection\<close> (\<open>redis/connection.py\<close>): the connections of a pool that share
  one cache. A connection is the messages its parser will read, the first of which have
  already arrived, and the commands sent on it; invalidation messages run the push handler on
  the shared cache. Locks are not modelled: each method is a single step, except that
  \<open>send_command\<close> and \<open>read_response\<close> of different connections may interleave.
\<close>

section \<open>State\<close>

datatype message = Push "pyval list" | Reply "exc + pyval"

record inner =
  ic_msgs :: "message list"
  ic_ready :: nat
  ic_sent :: "pyval list list"
  ic_send_error :: "exc option"

record proxies =
  px_cache :: collection
  px_conns :: "nat \<Rightarrow> inner"
  px_current :: "nat \<Rightarrow> cache_key option"

definition DUMMY_CACHE_VALUE :: pyval where
  "DUMMY_CACHE_VALUE = PBytes ''foo''"

definition MIN_ALLOWED_VERSION :: string where
  "MIN_ALLOWED_VERSION = ''7.4.0''"

definition DEFAULT_SERVER_NAME :: string where
  "DEFAULT_SERVER_NAME = ''redis''"

section \<open>Connecting\<close>

definition meta_get :: "string \<Rightarrow> (pyval \<times> pyval) list \<Rightarrow> pyval" where
  "meta_get k m =
     (let v = (case pd_get (PBytes k) m of Some v \<Rightarrow> v | None \<Rightarrow> PNone) in
      if v = PNone then (case pd_get (PStr k) m of Some v \<Rightarrow> v | None \<Rightarrow> PNone) else v)"

text \<open>The check of the server's handshake data; the guard tests the version twice.\<close>

definition check_server :: "(pyval \<times> pyval) list \<Rightarrow> exc + unit" where
  "check_server handshake_metadata =
     (let server_name = meta_get ''server'' handshake_metadata;
          server_ver = meta_get ''version'' handshake_metadata in
      if server_ver = PNone \<or> server_ver = PNone then
        Inl (Exc ConnectionError ''Cannot retrieve information about server version'')
      else
        bindE (ensure_string server_ver) (\<lambda>ver.
        bindE (ensure_string server_name) (\<lambda>name.
        if name \<noteq> DEFAULT_SERVER_NAME then Inl (Exc ConnectionError
            ''To maximize compatibility with all Redis products, client-side caching is supported by Redis 7.4 or later'')
        else bindE (compare_versions ver MIN_ALLOWED_VERSION) (\<lambda>c.
        if c = 1 then Inl (Exc ConnectionError
            ''To maximize compatibility with all Redis products, client-side caching is supported by Redis 7.4 or later'')
        else Inr ()))))"

section \<open>Invalidation messages\<close>

definition on_invalidation_callback :: "pyval list \<Rightarrow> (collection, exc, pyval) action" where
  "on_invalidation_callback data = (case data of
      _ # PNone # _ \<Rightarrow> thenS flush (retS PNone)
    | _ # v # _ \<Rightarrow> (case py_iter v of
          Inl e \<Rightarrow> raiseS e
        | Inr ks \<Rightarrow> thenS (delete_by_redis_keys ks) (retS PNone))
    | _ \<Rightarrow> raiseS (Exc IndexError ''list index out of range''))"

definition tracking_handlers :: "collection push_handlers" where
  "tracking_handlers =
     new_push_handlers\<lparr>invalidation_push_handler_func := Some on_invalidation_callback\<rparr>"

text \<open>
  \<open>_conn.read_response\<close>: with \<open>push_request\<close> it returns after one push message, else it
  handles the messages before the reply. Nothing left to read is a timeout.
\<close>

fun deliver :: "bool \<Rightarrow> message list \<Rightarrow> collection \<Rightarrow> (exc + pyval) \<times> message list \<times> collection" where
  "deliver push_request [] d = (Inl timeout_reading, [], d)"
| "deliver push_request (Reply r # ms) d = (r, ms, d)"
| "deliver push_request (Push xs # ms) d =
     (case handle_push_response tracking_handlers xs d of
        (Inl e, d') \<Rightarrow> (Inl e, ms, d')
      | (Inr v, d') \<Rightarrow> (if push_request then (Inr v, ms, d') else deliver push_request ms d'))"

definition inner_read :: "nat \<Rightarrow> bool \<Rightarrow> (proxies, exc, pyval) action" where
  "inner_read c push_request = (\<lambda>s.
     let conn = px_conns s c in
     (case deliver push_request (ic_msgs conn) (px_cache s) of (r, ms, d) \<Rightarrow>
        (r, s\<lparr>px_cache := d,
              px_conns := (px_conns s)(c := conn\<lparr>ic_msgs := ms,
                 ic_ready := ic_ready conn - (length (ic_msgs conn) - length ms)\<rparr>)\<rparr>)))"

definition inner_send :: "nat \<Rightarrow> pyval list \<Rightarrow> (proxies, exc, unit) action" where
  "inner_send c args = (\<lambda>s.
     let conn = px_conns s c in
     (case ic_send_error conn of
        Some e \<Rightarrow> (Inl e, s)
      | None \<Rightarrow> (Inr (), s\<lparr>px_conns := (px_conns s)(c := conn\<lparr>ic_sent := ic_sent conn @ [args]\<rparr>)\<rparr>)))"

definition proxy_can_read :: "nat \<Rightarrow> proxies \<Rightarrow> bool" where
  "proxy_can_read c s = (0 < ic_ready (px_conns s c))"

lemma deliver_consumes: "deliver p ms d = (Inr v, ms', d') \<Longrightarrow> length ms' < length ms"
  by (induction p ms d rule: deliver.induct) (auto split: prod.splits sum.splits if_splits)

lemma inner_read_ready:
  assumes "inner_read c True s = (Inr v, s')" "proxy_can_read c s"
  shows "ic_ready (px_conns s' c) < ic_ready (px_conns s c)"
proof -
  obtain ms d where d: "deliver True (ic_msgs (px_conns s c)) (px_cache s) = (Inr v, ms, d)"
    and s': "ic_ready (px_conns s' c) = ic_ready (px_conns s c) - (length (ic_msgs (px_conns s c)) - length ms)"
    using assms(1) by (auto simp: inner_read_def Let_def split: prod.splits)
  from deliver_consumes [OF d] s' assms(2) show ?thesis by (simp add: proxy_can_read_def)
qed

text \<open>\<open>while conn.can_read(): conn.read_response(push_request=True)\<close>; every turn takes a message.\<close>

function drain :: "nat \<Rightarrow> (proxies, exc, unit) action" where
  "drain c s =
     (if \<not> proxy_can_read c s then (Inr (), s)
      else (case inner_read c True s of (Inl e, s') \<Rightarrow> (Inl e, s') | (Inr _, s') \<Rightarrow> drain c s'))"
  by pat_completeness auto
termination
  by (relation "measure (\<lambda>(c, s). ic_ready (px_conns s c))")
     (auto dest: inner_read_ready [OF sym])

declare drain.simps [simp del]

section \<open>Sending and reading\<close>

definition on_cache :: "'a cache_op \<Rightarrow> (proxies, exc, 'a) action" where
  "on_cache m = (\<lambda>s. case m (px_cache s) of (r, d) \<Rightarrow> (r, s\<lparr>px_cache := d\<rparr>))"

definition set_current :: "nat \<Rightarrow> cache_key option \<Rightarrow> (proxies, exc, unit) action" where
  "set_current i k = modS (\<lambda>s. s\<lparr>px_current := (px_current s)(i := k)\<rparr>)"

definition no_cache_key :: exc where
  "no_cache_key = Exc ValueError ''Cannot create cache key.''"

text \<open>
  \<open>send_command\<close>: the cache key is the command's name and the keys the caller gives; the
  other arguments are not part of it.
\<close>

definition proxy_send_command ::
  "cache_config \<Rightarrow> nat \<Rightarrow> string \<Rightarrow> pyval list \<Rightarrow> pyval list option \<Rightarrow> (proxies, exc, unit) action" where
  "proxy_send_command cfg i cmd args keys =
     thenS (drain i)
     (if \<not> is_cachable cfg \<lparr>ck_command = cmd, ck_redis_keys = []\<rparr> then
        thenS (set_current i None) (inner_send i (PStr cmd # args))
      else (case keys of
        None \<Rightarrow> raiseS no_cache_key
      | Some ks \<Rightarrow>
          (let key = \<lparr>ck_command = cmd, ck_redis_keys = ks\<rparr> in
           thenS (set_current i (Some key))
           (bindS (on_cache (cache_get cfg key)) (\<lambda>found.
              case found of
                Some _ \<Rightarrow> bindS (on_cache (cache_get cfg key)) (\<lambda>entry.
                  case entry of
                    Some e \<Rightarrow> (if ce_conn e \<noteq> i then drain (ce_conn e) else retS ())
                  | None \<Rightarrow> raiseS (Exc AttributeError ''connection_ref''))
              | None \<Rightarrow>
                  thenS (on_cache (cache_set cfg
                    \<lparr>ce_key = key, ce_value = DUMMY_CACHE_VALUE, ce_status = IN_PROGRESS, ce_conn = i\<rparr>))
                  (inner_send i (PStr cmd # args)))))))"

definition proxy_store :: "cache_config \<Rightarrow> nat \<Rightarrow> pyval \<Rightarrow> (proxies, exc, pyval) action" where
  "proxy_store cfg i response = bindS (getS (\<lambda>s. px_current s i)) (\<lambda>current.
     case current of
       None \<Rightarrow> retS response
     | Some key \<Rightarrow>
         if response = PNone then
           thenS (on_cache (delete_by_cache_keys cfg [key])) (retS response)
         else bindS (on_cache (cache_get cfg key)) (\<lambda>entry.
           case entry of
             None \<Rightarrow> retS response
           | Some e \<Rightarrow> thenS (on_cache (cache_set cfg (e\<lparr>ce_status := VALID, ce_value := response\<rparr>)))
                        (retS response)))"

text \<open>The test at the head of \<open>read_response\<close>, which looks the entry up three times.\<close>

definition no_entry :: exc where
  "no_entry = Exc AttributeError ''cache_value''"

definition cached_value :: "cache_config \<Rightarrow> nat \<Rightarrow> (proxies, exc, pyval option) action" where
  "cached_value cfg i = bindS (getS (\<lambda>s. px_current s i)) (\<lambda>current.
     case current of
       None \<Rightarrow> retS None
     | Some key \<Rightarrow> bindS (on_cache (cache_get cfg key)) (\<lambda>e1.
         case e1 of
           None \<Rightarrow> retS None
         | Some _ \<Rightarrow> bindS (on_cache (cache_get cfg key)) (\<lambda>e2.
             case e2 of
               None \<Rightarrow> raiseS no_entry
             | Some e \<Rightarrow>
                 (if ce_status e \<noteq> IN_PROGRESS then bindS (on_cache (cache_get cfg key)) (\<lambda>e3.
                    case e3 of None \<Rightarrow> raiseS no_entry | Some e' \<Rightarrow> retS (Some (ce_value e')))
                  else retS None))))"

definition proxy_read_response :: "cache_config \<Rightarrow> nat \<Rightarrow> bool \<Rightarrow> (proxies, exc, pyval) action" where
  "proxy_read_response cfg i push_request = bindS (cached_value cfg i) (\<lambda>hit.
     case hit of
       Some v \<Rightarrow> retS v
     | None \<Rightarrow> bindS (inner_read i push_request) (proxy_store cfg i))"

text \<open>\<open>disconnect\<close> flushes the shared cache and closes the connection.\<close>

definition proxy_disconnect :: "nat \<Rightarrow> (proxies, exc, unit) action" where
  "proxy_disconnect i = thenS (on_cache flush)
     (modS (\<lambda>s. s\<lparr>px_conns := (px_conns s)(i := (px_conns s i)\<lparr>ic_msgs := [], ic_ready := 0\<rparr>)\<rparr>))"

text \<open>A call of a command on connection \<open>i\<close>.\<close>

definition proxy_call ::
  "cache_config \<Rightarrow> nat \<Rightarrow> string \<Rightarrow> pyval list \<Rightarrow> pyval list \<Rightarrow> (proxies, exc, pyval) action" where
  "proxy_call cfg i cmd args keys =
     thenS (proxy_send_command cfg i cmd args (Some keys)) (proxy_read_response cfg i False)"


section \<open>Properties\<close>

lemma drain_idle: "ic_ready (px_conns s c) = 0 \<Longrightarrow> drain c s = (Inr (), s)"
  by (simp add: drain.simps proxy_can_read_def)

lemma on_cache_get:
  assumes "dict_wf (px_cache s)" "policy cfg = LRUPolicy" "dict_get (px_cache s) k = v"
    and "dict_get (px_cache s) = g" "px_conns s = cs" "px_current s = cur"
  obtains s' where "on_cache (cache_get cfg k) s = (Inr v, s')"
    "dict_wf (px_cache s')" "dict_get (px_cache s') = g"
    "px_conns s' = cs" "px_current s' = cur" "length (px_cache s') = length (px_cache s)"
proof -
  from lru.cache_get_spec [OF assms(1,2), of k] obtain d' where
    "cache_get cfg k (px_cache s) = (Inr (dict_get (px_cache s) k), d')" "dict_wf d'"
    "dict_get d' = dict_get (px_cache s)" "length d' = length (px_cache s)" by blast
  then show thesis using that [of "s\<lparr>px_cache := d'\<rparr>"] assms(3-6) by (simp add: on_cache_def)
qed

lemma cached_value_hit:
  assumes "dict_wf (px_cache s)" "policy cfg = LRUPolicy" "px_current s i = Some key"
    and "dict_get (px_cache s) key = Some e" "ce_status e = VALID"
  shows "\<exists>s'. cached_value cfg i s = (Inr (Some (ce_value e)), s') \<and> px_conns s' = px_conns s \<and>
    px_current s' = px_current s \<and> dict_wf (px_cache s') \<and> dict_get (px_cache s') = dict_get (px_cache s)"
proof -
  from on_cache_get [OF assms(1,2,4) refl refl refl] obtain s1 where
    s1: "on_cache (cache_get cfg key) s = (Inr (Some e), s1)" "dict_wf (px_cache s1)"
      "dict_get (px_cache s1) = dict_get (px_cache s)" "px_conns s1 = px_conns s" "px_current s1 = px_current s" .
  have g1: "dict_get (px_cache s1) key = Some e" using s1(3) assms(4) by simp
  from on_cache_get [OF s1(2) assms(2) g1 s1(3-5)] obtain s2 where
    s2: "on_cache (cache_get cfg key) s1 = (Inr (Some e), s2)" "dict_wf (px_cache s2)"
      "dict_get (px_cache s2) = dict_get (px_cache s)" "px_conns s2 = px_conns s" "px_current s2 = px_current s" .
  have g2: "dict_get (px_cache s2) key = Some e" using s2(3) assms(4) by simp
  from on_cache_get [OF s2(2) assms(2) g2 s2(3-5)] obtain s3 where
    s3: "on_cache (cache_get cfg key) s2 = (Inr (Some e), s3)" "dict_wf (px_cache s3)"
      "dict_get (px_cache s3) = dict_get (px_cache s)" "px_conns s3 = px_conns s" "px_current s3 = px_current s" .
  have "cached_value cfg i s = (Inr (Some (ce_value e)), s3)"
    using assms(3,5) s1(1) s2(1) s3(1) by (simp add: cached_value_def bindS_def)
  with s3 show ?thesis by blast
qed

lemma cached_value_miss:
  assumes "dict_wf (px_cache s)" "policy cfg = LRUPolicy" "px_current s i = Some key"
    and "\<forall>e. dict_get (px_cache s) key = Some e \<longrightarrow> ce_status e = IN_PROGRESS"
  shows "\<exists>s'. cached_value cfg i s = (Inr None, s') \<and> px_conns s' = px_conns s \<and>
    px_current s' = px_current s \<and> dict_wf (px_cache s') \<and> dict_get (px_cache s') = dict_get (px_cache s)"
proof -
  from on_cache_get [OF assms(1,2) refl refl refl refl] obtain s1 where
    s1: "on_cache (cache_get cfg key) s = (Inr (dict_get (px_cache s) key), s1)" "dict_wf (px_cache s1)"
      "dict_get (px_cache s1) = dict_get (px_cache s)" "px_conns s1 = px_conns s" "px_current s1 = px_current s" .
  show ?thesis
  proof (cases "dict_get (px_cache s) key")
    case None
    then have "cached_value cfg i s = (Inr None, s1)"
      using assms(3) s1(1) by (simp add: cached_value_def bindS_def)
    with s1 show ?thesis by blast
  next
    case (Some e)
    then have st: "ce_status e = IN_PROGRESS" using assms(4) by blast
    have g1: "dict_get (px_cache s1) key = Some e" using s1(3) Some by simp
    from on_cache_get [OF s1(2) assms(2) g1 s1(3-5)] obtain s2 where
      s2: "on_cache (cache_get cfg key) s1 = (Inr (Some e), s2)" "dict_wf (px_cache s2)"
        "dict_get (px_cache s2) = dict_get (px_cache s)" "px_conns s2 = px_conns s" "px_current s2 = px_current s" .
    have "cached_value cfg i s = (Inr None, s2)"
      using assms(3) st s1(1) Some s2(1) by (simp add: cached_value_def bindS_def)
    with s2 show ?thesis by blast
  qed
qed

text \<open>A hit: nothing is sent or read, whatever the other arguments of the command are.\<close>

lemma call_hit:
  assumes wf: "dict_wf (px_cache s)" and p: "policy cfg = LRUPolicy"
    and c: "cmd \<in> set DEFAULT_ALLOW_LIST"
    and e: "dict_get (px_cache s) \<lparr>ck_command = cmd, ck_redis_keys = ks\<rparr> = Some e" "ce_status e = VALID"
    and idle: "ic_ready (px_conns s i) = 0" "ic_ready (px_conns s (ce_conn e)) = 0"
  shows "\<exists>s'. proxy_call cfg i cmd args ks s = (Inr (ce_value e), s') \<and> px_conns s' = px_conns s"
proof -
  let ?key = "\<lparr>ck_command = cmd, ck_redis_keys = ks\<rparr>"
  let ?s0 = "s\<lparr>px_current := (px_current s)(i := Some ?key)\<rparr>"
  have cc: "is_cachable cfg \<lparr>ck_command = cmd, ck_redis_keys = []\<rparr>"
    using c by (simp add: is_cachable_def is_allowed_to_cache_def)
  have wf0: "dict_wf (px_cache ?s0)" using wf by simp
  have g0: "dict_get (px_cache ?s0) ?key = Some e" using e(1) by simp
  have f0: "dict_get (px_cache ?s0) = dict_get (px_cache s)" "px_conns ?s0 = px_conns s"
    "px_current ?s0 = (px_current s)(i := Some ?key)" by simp_all
  from on_cache_get [OF wf0 p g0 f0] obtain s1 where
    s1: "on_cache (cache_get cfg ?key) ?s0 = (Inr (Some e), s1)" "dict_wf (px_cache s1)"
      "dict_get (px_cache s1) = dict_get (px_cache s)" "px_conns s1 = px_conns s"
      "px_current s1 = (px_current s)(i := Some ?key)" .
  have g1: "dict_get (px_cache s1) ?key = Some e" using s1(3) e(1) by simp
  from on_cache_get [OF s1(2) p g1 s1(3-5)] obtain s2 where
    s2: "on_cache (cache_get cfg ?key) s1 = (Inr (Some e), s2)" "dict_wf (px_cache s2)"
      "dict_get (px_cache s2) = dict_get (px_cache s)" "px_conns s2 = px_conns s"
      "px_current s2 = (px_current s)(i := Some ?key)" .
  have g2: "dict_get (px_cache s2) ?key = Some e" "px_current s2 i = Some ?key" using s2(3,5) e(1) by simp_all
  have "proxy_send_command cfg i cmd args (Some ks) s = (Inr (), s2)"
    using cc s1(1) s2(1,4) idle
    by (simp add: proxy_send_command_def drain_idle thenS_def bindS_def set_current_def Let_def)
  moreover from cached_value_hit [OF s2(2) p g2(2) g2(1) e(2)] obtain s3 where
    "cached_value cfg i s2 = (Inr (Some (ce_value e)), s3)" "px_conns s3 = px_conns s2" by blast
  ultimately show ?thesis
    using s2(4) by (simp add: proxy_call_def proxy_read_response_def thenS_def bindS_def)
qed

text \<open>A miss: the command is sent, and the reply is returned and stored.\<close>

lemma send_miss:
  assumes wf: "dict_wf (px_cache s)" and p: "policy cfg = LRUPolicy"
    and size: "int (length (px_cache s)) < max_size cfg"
    and c: "cmd \<in> set DEFAULT_ALLOW_LIST"
    and miss: "dict_get (px_cache s) \<lparr>ck_command = cmd, ck_redis_keys = ks\<rparr> = None"
    and idle: "ic_ready (px_conns s i) = 0" and ok: "ic_send_error (px_conns s i) = None"
  shows "\<exists>s'. proxy_send_command cfg i cmd args (Some ks) s = (Inr (), s') \<and>
     dict_wf (px_cache s') \<and> int (length (px_cache s')) \<le> max_size cfg \<and>
     dict_get (px_cache s') = (dict_get (px_cache s))(\<lparr>ck_command = cmd, ck_redis_keys = ks\<rparr> \<mapsto>
       \<lparr>ce_key = \<lparr>ck_command = cmd, ck_redis_keys = ks\<rparr>, ce_value = DUMMY_CACHE_VALUE,
        ce_status = IN_PROGRESS, ce_conn = i\<rparr>) \<and>
     px_current s' i = Some \<lparr>ck_command = cmd, ck_redis_keys = ks\<rparr> \<and>
     px_conns s' = (px_conns s)(i := (px_conns s i)\<lparr>ic_sent := ic_sent (px_conns s i) @ [PStr cmd # args]\<rparr>)"
proof -
  let ?key = "\<lparr>ck_command = cmd, ck_redis_keys = ks\<rparr>"
  let ?e = "\<lparr>ce_key = ?key, ce_value = DUMMY_CACHE_VALUE, ce_status = IN_PROGRESS, ce_conn = i\<rparr>"
  let ?s0 = "s\<lparr>px_current := (px_current s)(i := Some ?key)\<rparr>"
  have cc: "is_cachable cfg \<lparr>ck_command = cmd, ck_redis_keys = ks'\<rparr>" for ks'
    using c by (simp add: is_cachable_def is_allowed_to_cache_def)
  have wf0: "dict_wf (px_cache ?s0)" using wf by simp
  have g0: "dict_get (px_cache ?s0) ?key = None" using miss by simp
  have f0: "dict_get (px_cache ?s0) = dict_get (px_cache s)" "px_conns ?s0 = px_conns s"
    "px_current ?s0 = (px_current s)(i := Some ?key)" by simp_all
  from on_cache_get [OF wf0 p g0 f0] obtain s1 where
    s1: "on_cache (cache_get cfg ?key) ?s0 = (Inr None, s1)" "dict_wf (px_cache s1)"
      "dict_get (px_cache s1) = dict_get (px_cache s)" "px_conns s1 = px_conns s"
      "px_current s1 = (px_current s)(i := Some ?key)" "length (px_cache s1) = length (px_cache ?s0)" .
  have new: "?key \<notin> set (map fst (px_cache s1))" using miss s1(3) by (simp flip: map_of_eq_None_iff)
  then have len: "length (dict_set ?key ?e (px_cache s1)) = Suc (length (px_cache s))"
    using s1(6) by (simp add: dict_set_length)
  have "is_cachable cfg (ce_key ?e)" using cc by simp
  from lru.cache_set_spec [OF s1(2) p this] size len obtain d' where
    d': "cache_set cfg ?e (px_cache s1) = (Inr True, d')" "dict_wf d'"
      "dict_get d' = (dict_get (px_cache s1))(?key \<mapsto> ?e)" "length d' = Suc (length (px_cache s))"
    by auto
  have "proxy_send_command cfg i cmd args (Some ks) s =
      (Inr (), s1\<lparr>px_cache := d', px_conns := (px_conns s)(i := (px_conns s i)\<lparr>ic_sent := ic_sent (px_conns s i) @ [PStr cmd # args]\<rparr>)\<rparr>)"
    using cc s1 d' idle ok
    by (simp add: proxy_send_command_def drain_idle thenS_def bindS_def set_current_def on_cache_def
        inner_send_def Let_def)
  with d' s1 size show ?thesis by simp
qed

lemma read_stores:
  assumes wf: "dict_wf (px_cache s)" "int (length (px_cache s)) \<le> max_size cfg" and p: "policy cfg = LRUPolicy"
    and cur: "px_current s i = Some key" and c: "ck_command key \<in> set DEFAULT_ALLOW_LIST"
    and e: "dict_get (px_cache s) key = Some e" "ce_status e = IN_PROGRESS" "ce_key e = key"
    and m: "ic_msgs (px_conns s i) = Reply (Inr v) # ms" and v: "v \<noteq> PNone"
  shows "\<exists>s'. proxy_read_response cfg i False s = (Inr v, s') \<and>
     dict_get (px_cache s') = (dict_get (px_cache s))(key \<mapsto> e\<lparr>ce_status := VALID, ce_value := v\<rparr>) \<and>
     dict_wf (px_cache s') \<and> ic_sent (px_conns s' i) = ic_sent (px_conns s i) \<and>
     ic_ready (px_conns s' i) = ic_ready (px_conns s i) - 1"
proof -
  let ?e = "e\<lparr>ce_status := VALID, ce_value := v\<rparr>"
  have "\<forall>e. dict_get (px_cache s) key = Some e \<longrightarrow> ce_status e = IN_PROGRESS" using e by simp
  from cached_value_miss [OF wf(1) p cur this] obtain s1 where
    s1: "cached_value cfg i s = (Inr None, s1)" "px_conns s1 = px_conns s" "px_current s1 = px_current s"
      "dict_wf (px_cache s1)" "dict_get (px_cache s1) = dict_get (px_cache s)" by blast
  obtain s2 where s2: "inner_read i False s1 = (Inr v, s2)" "px_cache s2 = px_cache s1"
      "px_current s2 = px_current s1" "ic_sent (px_conns s2 i) = ic_sent (px_conns s i)"
      "ic_ready (px_conns s2 i) = ic_ready (px_conns s i) - 1"
    using m s1(2) by (simp add: inner_read_def Let_def)
  have wf2: "dict_wf (px_cache s2)" using s1 s2 by simp
  have f2: "dict_get (px_cache s2) key = Some e" "dict_get (px_cache s2) = dict_get (px_cache s)"
    using e(1) s1 s2 by simp_all
  from on_cache_get [OF wf2 p f2 refl refl] obtain s3 where
    s3: "on_cache (cache_get cfg key) s2 = (Inr (Some e), s3)" "dict_wf (px_cache s3)"
      "dict_get (px_cache s3) = dict_get (px_cache s)" "px_conns s3 = px_conns s2" .
  have dom: "key \<in> set (map fst (px_cache s3))"
    using s3(3) e(1) by (intro dict_get_in_keys [of _ _ e]) simp
  have lens: "length (px_cache s3) = length (px_cache s)"
  proof -
    have "set (map fst (px_cache s3)) = set (map fst (px_cache s))"
      using s3(3) by (metis dom_map_of_conv_image_fst image_set)
    then show ?thesis
      using s3(2) wf(1) by (metis dict_wf_def distinct_card length_map)
  qed
  have ck: "is_cachable cfg (ce_key ?e)" using c e(3) by (simp add: is_cachable_def is_allowed_to_cache_def)
  from lru.cache_set_spec [OF s3(2) p ck] dom lens wf(2) e(3) obtain d' where
    d': "cache_set cfg ?e (px_cache s3) = (Inr True, d')" "dict_wf d'" "dict_get d' = (dict_get (px_cache s3))(key \<mapsto> ?e)"
    by (auto simp: dict_set_length)
  have "proxy_store cfg i v s2 = (Inr v, s3\<lparr>px_cache := d'\<rparr>)"
    using cur s1 s2 s3 d' v by (simp add: proxy_store_def bindS_def thenS_def on_cache_def)
  then have "proxy_read_response cfg i False s = (Inr v, s3\<lparr>px_cache := d'\<rparr>)"
    using s1 s2 by (simp add: proxy_read_response_def bindS_def)
  with d' s2 s3 show ?thesis by simp
qed

lemma invalidation_push:
  assumes "dict_wf d" "utf8_valid k"
  shows "\<exists>d'. handle_push_response tracking_handlers [PBytes ''invalidate'', PList [PBytes k]] d = (Inr PNone, d') \<and>
     (\<forall>key. dict_get d' key = (if mentions (PStr k) key then None else dict_get d key))"
proof -
  have "mapE decode_redis_key [PBytes k] = Inr [PStr k]"
    using assms(2) by (simp add: decode_redis_key_def)
  from delete_by_redis_keys_spec [OF assms(1) this] obtain bs d' where
    "delete_by_redis_keys [PBytes k] d = (Inr bs, d')"
    "\<forall>key. dict_get d' key = (if mentions (PStr k) key then None else dict_get d key)"
    by auto
  then show ?thesis
    by (simp add: handle_push_response_def tracking_handlers_def on_invalidation_callback_def
        py_iter_def thenS_def bindS_def)
qed

lemma call_miss:
  assumes "dict_wf (px_cache s)" "policy cfg = LRUPolicy" "int (length (px_cache s)) < max_size cfg"
    and "cmd \<in> set DEFAULT_ALLOW_LIST" "dict_get (px_cache s) \<lparr>ck_command = cmd, ck_redis_keys = ks\<rparr> = None"
    and "ic_ready (px_conns s i) = 0" "ic_send_error (px_conns s i) = None"
    and "ic_msgs (px_conns s i) = Reply (Inr v) # ms" "v \<noteq> PNone"
  shows "\<exists>s1 e. proxy_call cfg i cmd args ks s = (Inr v, s1) \<and>
     ic_sent (px_conns s1 i) = ic_sent (px_conns s i) @ [PStr cmd # args] \<and>
     dict_wf (px_cache s1) \<and> ic_ready (px_conns s1 i) = 0 \<and>
     dict_get (px_cache s1) \<lparr>ck_command = cmd, ck_redis_keys = ks\<rparr> = Some e \<and>
     ce_status e = VALID \<and> ce_value e = v \<and> ce_conn e = i"
proof -
  let ?key = "\<lparr>ck_command = cmd, ck_redis_keys = ks\<rparr>"
  let ?e = "\<lparr>ce_key = ?key, ce_value = DUMMY_CACHE_VALUE, ce_status = IN_PROGRESS, ce_conn = i\<rparr>"
  from send_miss [OF assms(1-7), of args] obtain s0 where
    s0: "proxy_send_command cfg i cmd args (Some ks) s = (Inr (), s0)" "dict_wf (px_cache s0)"
      "int (length (px_cache s0)) \<le> max_size cfg" "dict_get (px_cache s0) ?key = Some ?e"
      "px_current s0 i = Some ?key"
      "px_conns s0 = (px_conns s)(i := (px_conns s i)\<lparr>ic_sent := ic_sent (px_conns s i) @ [PStr cmd # args]\<rparr>)"
    by auto
  have "ic_msgs (px_conns s0 i) = Reply (Inr v) # ms" using s0(6) assms(8) by simp
  from read_stores [OF s0(2,3) assms(2) s0(5) _ s0(4) _ _ this assms(9)] assms(4) obtain s1 where
    s1: "proxy_read_response cfg i False s0 = (Inr v, s1)" "dict_wf (px_cache s1)"
      "dict_get (px_cache s1) ?key = Some (?e\<lparr>ce_status := VALID, ce_value := v\<rparr>)"
      "ic_sent (px_conns s1 i) = ic_sent (px_conns s0 i)" "ic_ready (px_conns s1 i) = 0"
    using s0(6) assms(6) by auto
  have "proxy_call cfg i cmd args ks s = (Inr v, s1)"
    using s0(1) s1(1) by (simp add: proxy_call_def thenS_def bindS_def)
  moreover have "ic_sent (px_conns s1 i) = ic_sent (px_conns s i) @ [PStr cmd # args]"
    using s1(4) s0(6) by simp
  ultimately show ?thesis using s1(2,3,5) by auto
qed

text \<open>C33: a first call of a cacheable command sends it and returns the server's reply, which the
  cache then holds; a second call on the same connection returns the same value without
  sending or reading anything.\<close>

theorem cached_call_roundtrip:
  assumes "dict_wf (px_cache s)" "policy cfg = LRUPolicy" "int (length (px_cache s)) < max_size cfg"
    and "cmd \<in> set DEFAULT_ALLOW_LIST" "dict_get (px_cache s) \<lparr>ck_command = cmd, ck_redis_keys = ks\<rparr> = None"
    and "ic_ready (px_conns s i) = 0" "ic_send_error (px_conns s i) = None"
    and "ic_msgs (px_conns s i) = Reply (Inr v) # ms" "v \<noteq> PNone"
  shows "\<exists>s1. proxy_call cfg i cmd args ks s = (Inr v, s1) \<and>
     ic_sent (px_conns s1 i) = ic_sent (px_conns s i) @ [PStr cmd # args] \<and>
     (\<exists>s2. proxy_call cfg i cmd args ks s1 = (Inr v, s2) \<and> px_conns s2 = px_conns s1)"
proof -
  from call_miss [OF assms] obtain s1 e where
    s1: "proxy_call cfg i cmd args ks s = (Inr v, s1)"
      "ic_sent (px_conns s1 i) = ic_sent (px_conns s i) @ [PStr cmd # args]"
      "dict_wf (px_cache s1)" "ic_ready (px_conns s1 i) = 0"
      "dict_get (px_cache s1) \<lparr>ck_command = cmd, ck_redis_keys = ks\<rparr> = Some e"
    and e: "ce_status e = VALID" "ce_value e = v" "ce_conn e = i" by blast
  from call_hit [OF s1(3) assms(2,4) s1(5) e(1) s1(4)] e s1 show ?thesis by auto
qed

definition idle_conn :: "message list \<Rightarrow> inner" where
  "idle_conn ms = \<lparr>ic_msgs = ms, ic_ready = 0, ic_sent = [], ic_send_error = None\<rparr>"

definition start :: "(nat \<Rightarrow> inner) \<Rightarrow> collection \<Rightarrow> proxies" where
  "start conns d = \<lparr>px_cache = d, px_conns = conns, px_current = (\<lambda>_. None)\<rparr>"

theorem cached_call_roundtrip_witness:
  "\<exists>s1. proxy_call (lru_config 5) 0 ''GET'' [PStr ''k''] [PStr ''k''] (start (\<lambda>_. idle_conn [Reply (Inr (PInt 7))]) [])
       = (Inr (PInt 7), s1) \<and>
     ic_sent (px_conns s1 0) = ic_sent (px_conns (start (\<lambda>_. idle_conn [Reply (Inr (PInt 7))]) []) 0) @ [PStr ''GET'' # [PStr ''k'']] \<and>
     (\<exists>s2. proxy_call (lru_config 5) 0 ''GET'' [PStr ''k''] [PStr ''k''] s1 = (Inr (PInt 7), s2) \<and> px_conns s2 = px_conns s1)"
  by (rule cached_call_roundtrip)
     (simp_all add: start_def idle_conn_def lru_config_def DEFAULT_ALLOW_LIST_def)

text \<open>an invalidation message that has arrived on the connection is applied before the next
  call: the call of a command on an invalidated key is sent again and returns the new reply.\<close>

theorem invalidated_call_is_fresh:
  assumes "dict_wf (px_cache s)" "policy cfg = LRUPolicy" "int (length (px_cache s)) < max_size cfg"
    and "cmd \<in> set DEFAULT_ALLOW_LIST" "PStr k \<in> set ks" "utf8_valid k"
    and "ic_ready (px_conns s i) = 1" "ic_send_error (px_conns s i) = None"
    and "ic_msgs (px_conns s i) = Push [PBytes ''invalidate'', PList [PBytes k]] # Reply (Inr v) # ms" "v \<noteq> PNone"
  shows "\<exists>s'. proxy_call cfg i cmd args ks s = (Inr v, s') \<and>
     ic_sent (px_conns s' i) = ic_sent (px_conns s i) @ [PStr cmd # args]"
proof -
  let ?key = "\<lparr>ck_command = cmd, ck_redis_keys = ks\<rparr>"
  from invalidation_push [OF assms(1,6)] obtain d where
    d: "handle_push_response tracking_handlers [PBytes ''invalidate'', PList [PBytes k]] (px_cache s) = (Inr PNone, d)"
      "\<forall>key. dict_get d key = (if mentions (PStr k) key then None else dict_get (px_cache s) key)" by blast
  let ?s1 = "s\<lparr>px_cache := d, px_conns := (px_conns s)(i := (px_conns s i)
      \<lparr>ic_msgs := Reply (Inr v) # ms, ic_ready := 0\<rparr>)\<rparr>"
  have rd: "inner_read i True s = (Inr PNone, ?s1)"
    using d(1) assms(7,9) by (simp add: inner_read_def Let_def)
  then have dr: "drain i s = (Inr (), ?s1)"
    using assms(7) by (subst drain.simps) (simp add: proxy_can_read_def drain_idle)
  have "cache_inv \<lparr>max_size = int (length (px_cache s)), policy = LRUPolicy\<rparr> (px_cache s)"
    using assms(1) by (simp add: cache_inv_def)
  then have "cache_inv \<lparr>max_size = int (length (px_cache s)), policy = LRUPolicy\<rparr>
      (snd (delete_by_redis_keys [PBytes k] (px_cache s)))"
    by (rule delete_by_redis_keys_inv)
  moreover have "snd (delete_by_redis_keys [PBytes k] (px_cache s)) = d"
    using d(1) by (auto simp: handle_push_response_def tracking_handlers_def on_invalidation_callback_def
        py_iter_def thenS_def bindS_def split: prod.splits sum.splits)
  ultimately have wf: "dict_wf d" "length d \<le> length (px_cache s)" by (auto simp: cache_inv_def)
  have "mentions (PStr k) ?key" using assms(5) by (auto simp: mentions_def list_ex_iff intro!: bexI [of _ "PStr k"])
  then have miss: "dict_get d ?key = None" using d(2) by simp
  have "\<exists>s' e. proxy_call cfg i cmd args ks ?s1 = (Inr v, s') \<and>
     ic_sent (px_conns s' i) = ic_sent (px_conns ?s1 i) @ [PStr cmd # args] \<and>
     dict_wf (px_cache s') \<and> ic_ready (px_conns s' i) = 0 \<and> dict_get (px_cache s') ?key = Some e \<and>
     ce_status e = VALID \<and> ce_value e = v \<and> ce_conn e = i"
    by (rule call_miss) (use wf miss assms in simp_all)
  then obtain s' where s': "proxy_call cfg i cmd args ks ?s1 = (Inr v, s')"
      "ic_sent (px_conns s' i) = ic_sent (px_conns s i) @ [PStr cmd # args]" by auto
  have "drain i ?s1 = (Inr (), ?s1)" by (rule drain_idle) simp
  then have "proxy_call cfg i cmd args ks s = proxy_call cfg i cmd args ks ?s1"
    by (simp add: proxy_call_def proxy_send_command_def thenS_def bindS_def dr)
  with s' show ?thesis by auto
qed

theorem invalidated_call_is_fresh_witness:
  "\<exists>s'. proxy_call (lru_config 5) 0 ''GET'' [PStr ''a''] [PStr ''a'']
       (start (\<lambda>_. (idle_conn [Push [PBytes ''invalidate'', PList [PBytes ''a'']], Reply (Inr (PInt 8))])\<lparr>ic_ready := 1\<rparr>)
          [(sample_key ''a'', sample_entry ''a'')]) = (Inr (PInt 8), s') \<and>
     ic_sent (px_conns s' 0) = ic_sent (px_conns (start (\<lambda>_. (idle_conn [Push [PBytes ''invalidate'', PList [PBytes ''a'']],
          Reply (Inr (PInt 8))])\<lparr>ic_ready := 1\<rparr>) [(sample_key ''a'', sample_entry ''a'')]) 0) @ [PStr ''GET'' # [PStr ''a'']]"
  by (rule invalidated_call_is_fresh)
     (simp_all add: start_def idle_conn_def lru_config_def DEFAULT_ALLOW_LIST_def dict_wf_def ascii_def)

text \<open>the cache key leaves out every argument that is not a key: once one field of a hash is
  cached, asking for any other field of it returns the value of the first.\<close>

theorem cache_ignores_other_arguments:
  assumes "dict_wf (px_cache s)" "policy cfg = LRUPolicy"
    and "dict_get (px_cache s) \<lparr>ck_command = ''HGET'', ck_redis_keys = [h]\<rparr> = Some e" "ce_status e = VALID"
    and "ic_ready (px_conns s i) = 0" "ic_ready (px_conns s (ce_conn e)) = 0"
  shows "\<exists>s'. proxy_call cfg i ''HGET'' [h, field] [h] s = (Inr (ce_value e), s') \<and> px_conns s' = px_conns s"
  by (rule call_hit) (use assms in \<open>simp_all add: DEFAULT_ALLOW_LIST_def\<close>)

definition hget_entry :: cache_entry where
  "hget_entry = \<lparr>ce_key = \<lparr>ck_command = ''HGET'', ck_redis_keys = [PStr ''h'']\<rparr>, ce_value = PStr ''value of f1'',
     ce_status = VALID, ce_conn = 0\<rparr>"

theorem cache_ignores_other_arguments_witness:
  "\<exists>s'. proxy_call (lru_config 5) 0 ''HGET'' [PStr ''h'', PStr ''f2''] [PStr ''h'']
       (start (\<lambda>_. idle_conn []) [(ce_key hget_entry, hget_entry)]) = (Inr (ce_value hget_entry), s') \<and>
     px_conns s' = px_conns (start (\<lambda>_. idle_conn []) [(ce_key hget_entry, hget_entry)])"
  by (rule cache_ignores_other_arguments)
     (simp_all add: start_def idle_conn_def lru_config_def dict_wf_def hget_entry_def)

text \<open>C34: when the entry of another connection is invalidated while that connection's messages are
  drained, the command is not sent, and reading its response waits for a reply that will
  never come.\<close>

theorem drained_entry_is_never_requested:
  assumes "dict_wf (px_cache s)" "policy cfg = LRUPolicy" "cmd \<in> set DEFAULT_ALLOW_LIST"
    and "dict_get (px_cache s) \<lparr>ck_command = cmd, ck_redis_keys = [PStr k]\<rparr> = Some e" "ce_conn e = j" "j \<noteq> i"
    and "utf8_valid k" "ic_ready (px_conns s i) = 0" "ic_msgs (px_conns s i) = []"
    and "ic_ready (px_conns s j) = 1" "ic_msgs (px_conns s j) = [Push [PBytes ''invalidate'', PList [PBytes k]]]"
  shows "\<exists>s'. proxy_call cfg i cmd args [PStr k] s = (Inl timeout_reading, s') \<and>
     ic_sent (px_conns s' i) = ic_sent (px_conns s i)"
proof -
  let ?key = "\<lparr>ck_command = cmd, ck_redis_keys = [PStr k]\<rparr>"
  let ?s0 = "s\<lparr>px_current := (px_current s)(i := Some ?key)\<rparr>"
  have cc: "is_cachable cfg \<lparr>ck_command = cmd, ck_redis_keys = []\<rparr>"
    using assms(3) by (simp add: is_cachable_def is_allowed_to_cache_def)
  have wf0: "dict_wf (px_cache ?s0)" using assms(1) by simp
  have g0: "dict_get (px_cache ?s0) ?key = Some e" using assms(4) by simp
  have f0: "dict_get (px_cache ?s0) = dict_get (px_cache s)" "px_conns ?s0 = px_conns s"
    "px_current ?s0 = (px_current s)(i := Some ?key)" by simp_all
  from on_cache_get [OF wf0 assms(2) g0 f0] obtain s1 where
    s1: "on_cache (cache_get cfg ?key) ?s0 = (Inr (Some e), s1)" "dict_wf (px_cache s1)"
      "dict_get (px_cache s1) = dict_get (px_cache s)" "px_conns s1 = px_conns s"
      "px_current s1 = (px_current s)(i := Some ?key)" .
  have g1: "dict_get (px_cache s1) ?key = Some e" using s1(3) assms(4) by simp
  from on_cache_get [OF s1(2) assms(2) g1 s1(3-5)] obtain s2 where
    s2: "on_cache (cache_get cfg ?key) s1 = (Inr (Some e), s2)" "dict_wf (px_cache s2)"
      "dict_get (px_cache s2) = dict_get (px_cache s)" "px_conns s2 = px_conns s"
      "px_current s2 = (px_current s)(i := Some ?key)" .
  have g2: "dict_get (px_cache s2) ?key = Some e" "px_current s2 i = Some ?key" using s2(3,5) assms(4) by simp_all
  from invalidation_push [OF s2(2) assms(7)] obtain d where
    d: "handle_push_response tracking_handlers [PBytes ''invalidate'', PList [PBytes k]] (px_cache s2) = (Inr PNone, d)"
      "\<forall>key. dict_get d key = (if mentions (PStr k) key then None else dict_get (px_cache s2) key)" by blast
  let ?s3 = "s2\<lparr>px_cache := d, px_conns := (px_conns s)(j := (px_conns s j)\<lparr>ic_msgs := [], ic_ready := 0\<rparr>)\<rparr>"
  have "inner_read j True s2 = (Inr PNone, ?s3)"
    using d(1) assms(10,11) s2(4) by (simp add: inner_read_def Let_def)
  then have dr: "drain j s2 = (Inr (), ?s3)"
    using assms(10) s2(4) by (subst drain.simps) (simp add: proxy_can_read_def drain_idle)
  have snd_cmd: "proxy_send_command cfg i cmd args (Some [PStr k]) s = (Inr (), ?s3)"
    using cc s1(1) s2(1) dr assms(5,6,8)
    by (simp add: proxy_send_command_def drain_idle thenS_def bindS_def set_current_def Let_def)
  have "dict_get d ?key = None" using d(2) by (simp add: mentions_def)
  then have "cached_value cfg i ?s3 = (Inr None, ?s3)"
    using g2(2) by (simp add: cached_value_def bindS_def on_cache_def cache_get_def)
  then have "proxy_read_response cfg i False ?s3 = (Inl timeout_reading, ?s3\<lparr>px_conns := (px_conns ?s3)(i := (px_conns s i)\<lparr>ic_msgs := [], ic_ready := 0\<rparr>)\<rparr>)"
    using assms(6,8,9) by (simp add: proxy_read_response_def bindS_def inner_read_def Let_def)
  with snd_cmd show ?thesis by (simp add: proxy_call_def thenS_def bindS_def)
qed

definition two_conns :: "nat \<Rightarrow> inner" where
  "two_conns j = (if j = 0 then (idle_conn [Push [PBytes ''invalidate'', PList [PBytes ''a'']]])\<lparr>ic_ready := 1\<rparr>
     else idle_conn [])"

theorem drained_entry_is_never_requested_witness:
  "\<exists>s'. proxy_call (lru_config 5) 1 ''GET'' [PStr ''a''] [PStr ''a''] (start two_conns [(sample_key ''a'', sample_entry ''a'')])
      = (Inl timeout_reading, s') \<and>
     ic_sent (px_conns s' 1) = ic_sent (px_conns (start two_conns [(sample_key ''a'', sample_entry ''a'')]) 1)"
  by (rule drained_entry_is_never_requested [where j = 0 and e = "sample_entry ''a''"])
     (simp_all add: start_def idle_conn_def lru_config_def DEFAULT_ALLOW_LIST_def dict_wf_def ascii_def
        two_conns_def sample_key_def sample_entry_def)

end
