(* ===== verification/Pool.thy ===== *)
theory Pool
  imports Exceptions
begin

text \<open>
  \<open>ConnectionPool\<close> and \<open>BlockingConnectionPool\<close> (\<open>redis/connection.py\<close>). The
  connections' own operations (connect, readability, disconnect) are an argument of the model,
  computations on a world of their own; the pool's bookkeeping is modelled in full, the fork check
  included. The step relations describe clients
  that release what they were given; of \<open>get_connection\<close> only the take is under the pool's lock, so other threads may run
  before and while the connection is verified. The invariants say that no connection is handed out twice
  and that the limit holds. What a double or foreign release does is shown separately. The constructor of a
  connection is taken to succeed: it opens nothing, and its arguments are the same for every connection of the pool.
\<close>

section \<open>Connections\<close>

text \<open>A connection object is its identity and the process that created it.\<close>

record conn =
  c_id :: nat
  c_pid :: int

record 'w conn_ops =
  op_connect :: "nat \<Rightarrow> ('w, exc, unit) action"
  op_can_read :: "nat \<Rightarrow> ('w, exc, bool) action"
  op_disconnect :: "nat \<Rightarrow> ('w, exc, unit) action"

section \<open>ConnectionPool\<close>

record 'w pool =
  pl_created :: int
  pl_available :: "conn list"
  pl_in_use :: "conn list"
  pl_pid :: int
  pl_max :: int
  pl_cache :: bool
  pl_next :: nat
  pl_world :: 'w

definition max_connections_arg :: "int option \<Rightarrow> exc + int" where
  "max_connections_arg m =
     (let n = (case m of None \<Rightarrow> 2 ^ 31 | Some k \<Rightarrow> if k = 0 then 2 ^ 31 else k) in
      if n < 0 then Inl (Exc ValueError ''\"max_connections\" must be a positive integer'') else Inr n)"

definition pool_reset :: "int \<Rightarrow> 'w pool \<Rightarrow> 'w pool" where
  "pool_reset pid p = p\<lparr>pl_created := 0, pl_available := [], pl_in_use := [], pl_pid := pid\<rparr>"

definition new_pool :: "int \<Rightarrow> int option \<Rightarrow> bool \<Rightarrow> 'w \<Rightarrow> exc + 'w pool" where
  "new_pool pid m cache w = bindE (max_connections_arg m) (\<lambda>n.
     Inr (pool_reset pid \<lparr>pl_created = 0, pl_available = [], pl_in_use = [], pl_pid = pid,
        pl_max = n, pl_cache = cache, pl_next = 0, pl_world = w\<rparr>))"

type_synonym ('w, 'a) pool_op = "('w pool, exc, 'a) action"

definition checkpid :: "int \<Rightarrow> ('w, unit) pool_op" where
  "checkpid pid = modS (\<lambda>p. if pl_pid p \<noteq> pid then pool_reset pid p else p)"

definition on_world :: "('w, exc, 'a) action \<Rightarrow> ('w, 'a) pool_op" where
  "on_world m = (\<lambda>p. case m (pl_world p) of (r, w) \<Rightarrow> (r, p\<lparr>pl_world := w\<rparr>))"

definition too_many :: exc where
  "too_many = Exc ConnectionError ''Too many connections''"

definition make_connection :: "int \<Rightarrow> ('w, conn) pool_op" where
  "make_connection pid = (\<lambda>p.
     if pl_max p \<le> pl_created p then (Inl too_many, p)
     else (Inr \<lparr>c_id = pl_next p, c_pid = pid\<rparr>,
           p\<lparr>pl_created := pl_created p + 1, pl_next := Suc (pl_next p)\<rparr>))"

text \<open>\<open>list.pop()\<close> takes the last element.\<close>

definition take_connection :: "int \<Rightarrow> ('w, conn) pool_op" where
  "take_connection pid =
     bindS (\<lambda>p. if pl_available p = [] then make_connection pid p
        else (Inr (last (pl_available p)), p\<lparr>pl_available := butlast (pl_available p)\<rparr>))
       (\<lambda>c. thenS (modS (\<lambda>p. p\<lparr>pl_in_use := (if c \<in> set (pl_in_use p) then pl_in_use p else pl_in_use p @ [c])\<rparr>))
          (retS c))"

text \<open>A connection handed out is connected and has nothing left to read.\<close>

definition verify_connection :: "'w conn_ops \<Rightarrow> bool \<Rightarrow> nat \<Rightarrow> ('w, exc, unit) action" where
  "verify_connection env has_cache i =
     thenS (op_connect env i)
       (catchS
          (bindS (op_can_read env i) (\<lambda>b.
             if b \<and> \<not> has_cache then raiseS (Exc ConnectionError ''Connection has data'') else retS ()))
          (\<lambda>e. if isinstance_any e [ConnectionError, OSError] then
                 thenS (op_disconnect env i)
                 (thenS (op_connect env i)
                 (bindS (op_can_read env i) (\<lambda>b.
                    if b then raiseS (Exc ConnectionError ''Connection not ready'') else retS ())))
               else raiseS e))"

definition release :: "'w conn_ops \<Rightarrow> int \<Rightarrow> conn \<Rightarrow> ('w, unit) pool_op" where
  "release env pid c =
     thenS (checkpid pid)
     (thenS (modS (\<lambda>p. p\<lparr>pl_in_use := remove1 c (pl_in_use p)\<rparr>))
     (\<lambda>p. if c_pid c = pl_pid p then (Inr (), p\<lparr>pl_available := pl_available p @ [c]\<rparr>)
          else on_world (op_disconnect env (c_id c)) (p\<lparr>pl_created := pl_created p - 1\<rparr>)))"

definition get_connection :: "'w conn_ops \<Rightarrow> int \<Rightarrow> ('w, conn) pool_op" where
  "get_connection env pid =
     thenS (checkpid pid)
     (bindS (take_connection pid) (\<lambda>c.
        catchS
          (bindS (getS pl_cache) (\<lambda>has_cache.
             thenS (on_world (verify_connection env has_cache (c_id c))) (retS c)))
          (\<lambda>e. thenS (release env pid c) (raiseS e))))"

text \<open>The first connection whose \<open>disconnect\<close> raises ends the loop.\<close>

definition pool_disconnect :: "'w conn_ops \<Rightarrow> int \<Rightarrow> bool \<Rightarrow> ('w, unit) pool_op" where
  "pool_disconnect env pid inuse_connections =
     thenS (checkpid pid)
     (bindS (getS (\<lambda>p. if inuse_connections then pl_available p @ pl_in_use p else pl_available p)) (\<lambda>cs.
        thenS (mapS (\<lambda>c. on_world (op_disconnect env (c_id c))) cs) (retS ())))"

section \<open>Invariant\<close>

definition pool_inv :: "int \<Rightarrow> 'w pool \<Rightarrow> bool" where
  "pool_inv pid p =
     (distinct (pl_available p @ pl_in_use p) \<and>
      (\<forall>c \<in> set (pl_available p @ pl_in_use p). c_id c < pl_next p \<and> c_pid c = pid) \<and>
      pl_pid p = pid \<and>
      pl_created p = int (length (pl_available p) + length (pl_in_use p)) \<and>
      pl_created p \<le> max 0 (pl_max p))"

text \<open>What the operations keep: the bookkeeping may change, the rest of the pool may not.\<close>

lemma checkpid_same: "pl_pid p = pid \<Longrightarrow> checkpid pid p = (Inr (), p)"
  by (simp add: checkpid_def)

lemma on_world_fields:
  assumes "on_world m p = (r, p')"
  shows "pl_available p' = pl_available p \<and> pl_in_use p' = pl_in_use p \<and> pl_pid p' = pl_pid p \<and>
    pl_created p' = pl_created p \<and> pl_max p' = pl_max p \<and> pl_next p' = pl_next p"
  using assms by (auto simp: on_world_def split: prod.splits)

lemma on_world_inv: "on_world m p = (r, p') \<Longrightarrow> pool_inv pid p \<Longrightarrow> pool_inv pid p'"
  by (drule on_world_fields) (simp add: pool_inv_def)

lemma pool_reset_inv: "pool_inv pid (pool_reset pid p)"
  by (simp add: pool_inv_def pool_reset_def)

lemma take_connection_spec:
  assumes inv: "pool_inv pid p" and t: "take_connection pid p = (r, p')"
  shows "pool_inv pid p' \<and> pl_max p' = pl_max p \<and>
    (case r of
       Inr c \<Rightarrow> c \<notin> set (pl_in_use p) \<and> pl_in_use p' = pl_in_use p @ [c] \<and> c_pid c = pid
     | Inl e \<Rightarrow> e = too_many \<and> p' = p)"
proof (cases "pl_available p = []")
  case True
  show ?thesis
  proof (cases "pl_max p \<le> pl_created p")
    case True
    with \<open>pl_available p = []\<close> t inv show ?thesis
      by (auto simp: take_connection_def make_connection_def bindS_def)
  next
    case False
    let ?c = "\<lparr>c_id = pl_next p, c_pid = pid\<rparr>"
    have "\<forall>c \<in> set (pl_in_use p). c_id c < pl_next p" using inv by (simp add: pool_inv_def)
    then have new: "?c \<notin> set (pl_in_use p)" by force
    have rp: "r = Inr ?c" "p' = p\<lparr>pl_created := pl_created p + 1, pl_next := Suc (pl_next p), pl_in_use := pl_in_use p @ [?c]\<rparr>"
      using False True t new
      by (simp_all add: take_connection_def make_connection_def bindS_def thenS_def)
    show ?thesis using inv new False True
      by (auto simp: rp pool_inv_def less_Suc_eq)
  qed
next
  case False
  let ?c = "last (pl_available p)"
  obtain as where av: "pl_available p = as @ [?c]" using False by (metis append_butlast_last_id)
  have "?c \<in> set (pl_available p)" using False by simp
  then have new: "?c \<notin> set (pl_in_use p)" using inv by (auto simp: pool_inv_def)
  have rp: "r = Inr ?c" "p' = p\<lparr>pl_available := butlast (pl_available p), pl_in_use := pl_in_use p @ [?c]\<rparr>"
    using False t new by (simp_all add: take_connection_def bindS_def thenS_def)
  have b: "butlast (pl_available p) = as" by (subst av) simp
  have i: "distinct (as @ [?c] @ pl_in_use p)"
    "\<forall>c \<in> set (as @ [?c] @ pl_in_use p). c_id c < pl_next p \<and> c_pid c = pid"
    "pl_created p = int (length as + 1 + length (pl_in_use p))"
    using inv av unfolding pool_inv_def by (metis append.assoc length_append length_Cons list.size(3) Suc_eq_plus1 add_0)+
  with inv new show ?thesis by (auto simp: rp b pool_inv_def)
qed

lemma release_inv:
  assumes inv: "pool_inv pid p" and c: "c \<in> set (pl_in_use p)"
  shows "\<exists>p'. release env pid c p = (Inr (), p') \<and> pool_inv pid p' \<and>
    pl_in_use p' = remove1 c (pl_in_use p) \<and> pl_max p' = pl_max p"
proof -
  let ?p' = "p\<lparr>pl_in_use := remove1 c (pl_in_use p), pl_available := pl_available p @ [c]\<rparr>"
  have pid: "pl_pid p = pid" "c_pid c = pid" using inv c by (auto simp: pool_inv_def)
  then have r: "release env pid c p = (Inr (), ?p')"
    by (simp add: release_def checkpid_same thenS_def bindS_def)
  have d: "distinct (pl_available p)" "distinct (pl_in_use p)" "set (pl_available p) \<inter> set (pl_in_use p) = {}"
      "\<forall>c \<in> set (pl_available p @ pl_in_use p). c_id c < pl_next p \<and> c_pid c = pid"
      "pl_created p = int (length (pl_available p) + length (pl_in_use p))" "pl_created p \<le> max 0 (pl_max p)"
    using inv by (simp_all add: pool_inv_def)
  have "c \<notin> set (pl_available p)" using d(3) c by blast
  then have "distinct (pl_available ?p' @ pl_in_use ?p')"
    using d(1-3) by (auto dest: notin_set_remove1)
  moreover have "\<forall>c \<in> set (pl_available ?p' @ pl_in_use ?p'). c_id c < pl_next ?p' \<and> c_pid c = pid"
    using d(2,4) c by auto
  moreover have "length (pl_in_use p) = Suc (length (remove1 c (pl_in_use p)))"
    using c length_pos_if_in_set [OF c] by (simp add: length_remove1)
  ultimately have "pool_inv pid ?p'"
    using d(5,6) pid by (simp add: pool_inv_def)
  with r show ?thesis by auto
qed

lemma get_connection_inv:
  assumes inv: "pool_inv pid p" and g: "get_connection env pid p = (r, p')"
  shows "pool_inv pid p' \<and> pl_max p' = pl_max p \<and>
    (case r of
       Inr c \<Rightarrow> c \<notin> set (pl_in_use p) \<and> pl_in_use p' = pl_in_use p @ [c]
     | Inl e \<Rightarrow> pl_in_use p' = pl_in_use p)"
proof -
  have pid: "pl_pid p = pid" using inv by (simp add: pool_inv_def)
  obtain rt pt where t: "take_connection pid p = (rt, pt)" by force
  note ts = take_connection_spec [OF inv t]
  show ?thesis
  proof (cases rt)
    case (Inl e)
    with t g pid have "r = Inl e" "p' = pt"
      by (simp_all add: get_connection_def checkpid_same thenS_def bindS_def)
    with ts Inl inv show ?thesis by simp
  next
    case (Inr c)
    have c: "pool_inv pid pt" "c \<notin> set (pl_in_use p)" "pl_in_use pt = pl_in_use p @ [c]" "pl_max pt = pl_max p"
      using ts Inr by simp_all
    obtain rv pv where v: "on_world (verify_connection env (pl_cache pt) (c_id c)) pt = (rv, pv)" by force
    have pv: "pool_inv pid pv" "pl_in_use pv = pl_in_use p @ [c]" "pl_max pv = pl_max p"
      using on_world_inv [OF v c(1)] on_world_fields [OF v] c by simp_all
    show ?thesis
    proof (cases rv)
      case (Inr u)
      with t \<open>rt = Inr c\<close> v g pid have "r = Inr c" "p' = pv"
        by (simp_all add: get_connection_def checkpid_same thenS_def bindS_def catchS_def)
      with pv c show ?thesis by simp
    next
      case (Inl e)
      have "c \<in> set (pl_in_use pv)" using pv(2) by simp
      from release_inv [OF pv(1) this, of env] obtain p2 where
        p2: "release env pid c pv = (Inr (), p2)" "pool_inv pid p2" "pl_in_use p2 = remove1 c (pl_in_use pv)"
          "pl_max p2 = pl_max pv" by blast
      have "remove1 c (pl_in_use p @ [c]) = pl_in_use p" using c(2) by (simp add: remove1_append)
      moreover have "r = Inl e" "p' = p2"
        using t \<open>rt = Inr c\<close> v g pid Inl p2(1)
        by (simp_all add: get_connection_def checkpid_same thenS_def bindS_def catchS_def)
      ultimately show ?thesis using p2 pv by simp
    qed
  qed
qed

lemma mapS_on_world:
  "mapS (\<lambda>c. on_world (f c)) cs p = (r, p') \<Longrightarrow>
   pl_available p' = pl_available p \<and> pl_in_use p' = pl_in_use p \<and> pl_pid p' = pl_pid p \<and>
   pl_created p' = pl_created p \<and> pl_max p' = pl_max p \<and> pl_next p' = pl_next p"
proof (induction cs arbitrary: p r p')
  case Nil
  then show ?case by simp
next
  case (Cons c cs)
  obtain r1 p1 where h: "on_world (f c) p = (r1, p1)" by force
  note f1 = on_world_fields [OF h]
  show ?case
  proof (cases r1)
    case (Inl e)
    with Cons.prems h f1 show ?thesis by (simp add: bindS_def)
  next
    case (Inr a)
    obtain r2 p2 where t: "mapS (\<lambda>c. on_world (f c)) cs p1 = (r2, p2)" by force
    with Cons.prems h Inr have "p' = p2" by (cases r2) (simp_all add: bindS_def)
    with Cons.IH [OF t] f1 show ?thesis by simp
  qed
qed

lemma pool_disconnect_inv:
  assumes inv: "pool_inv pid p" and d: "pool_disconnect env pid b p = (r, p')"
  shows "pool_inv pid p' \<and> pl_in_use p' = pl_in_use p \<and> pl_max p' = pl_max p"
proof -
  have pid: "pl_pid p = pid" using inv by (simp add: pool_inv_def)
  let ?cs = "if b then pl_available p @ pl_in_use p else pl_available p"
  obtain r1 p1 where m: "mapS (\<lambda>c. on_world (op_disconnect env (c_id c))) ?cs p = (r1, p1)" by force
  with d pid have "p' = p1"
    by (cases r1) (simp_all add: pool_disconnect_def checkpid_same thenS_def bindS_def)
  with mapS_on_world [OF m] inv show ?thesis by (simp add: pool_inv_def)
qed

section \<open>Clients of the pool\<close>

text \<open>
  The steps of the threads of one process, which release each connection they were given once. An
  attempt to get a connection may also fail. \<open>takes\<close> is the part of \<open>get_connection\<close> under the lock and \<open>verifies\<close> the part
  after it, which ends in a release when it fails; \<open>get\<close> is a whole call that no other thread interrupts.
\<close>

inductive pool_step :: "'w conn_ops \<Rightarrow> int \<Rightarrow> 'w pool \<Rightarrow> 'w pool \<Rightarrow> bool" for env pid where
  get: "get_connection env pid p = (r, p') \<Longrightarrow> pool_step env pid p p'"
| takes: "thenS (checkpid pid) (take_connection pid) p = (r, p') \<Longrightarrow> pool_step env pid p p'"
| verifies: "c \<in> set (pl_in_use p) \<Longrightarrow> on_world (verify_connection env (pl_cache p) (c_id c)) p = (u, p') \<Longrightarrow> pool_step env pid p p'"
| release: "c \<in> set (pl_in_use p) \<Longrightarrow> release env pid c p = (r, p') \<Longrightarrow> pool_step env pid p p'"
| disconnect: "pool_disconnect env pid b p = (r, p') \<Longrightarrow> pool_step env pid p p'"

inductive_cases pool_stepE: "pool_step env pid p p'"

lemma pool_step_inv: "pool_step env pid p p' \<Longrightarrow> pool_inv pid p \<Longrightarrow> pool_inv pid p' \<and> pl_max p' = pl_max p"
proof (induction rule: pool_step.induct)
  case (get p r p')
  then show ?case using get_connection_inv by blast
next
  case (takes p r p')
  then have "take_connection pid p = (r, p')" by (simp add: checkpid_same pool_inv_def thenS_def bindS_def)
  then show ?case using take_connection_spec [OF takes.prems] takes.prems by simp
next
  case (verifies c p u p')
  then show ?case using on_world_inv on_world_fields by metis
next
  case (release c p r p')
  with release_inv [OF release.prems release.hyps(1), of env] show ?case by auto
next
  case (disconnect b p r p')
  then show ?case using pool_disconnect_inv by blast
qed

inductive pool_reach :: "'w conn_ops \<Rightarrow> int \<Rightarrow> 'w pool \<Rightarrow> 'w pool \<Rightarrow> bool" for env pid p0 where
  init: "pool_reach env pid p0 p0"
| step: "pool_reach env pid p0 p \<Longrightarrow> pool_step env pid p p' \<Longrightarrow> pool_reach env pid p0 p'"

lemma pool_reach_inv:
  "pool_reach env pid p0 p \<Longrightarrow> pool_inv pid p0 \<Longrightarrow> pool_inv pid p \<and> pl_max p = pl_max p0"
  by (induction rule: pool_reach.induct) (auto dest: pool_step_inv)

lemma new_pool_inv: "new_pool pid m cache w = Inr p \<Longrightarrow> pool_inv pid p \<and> 0 \<le> pl_max p"
  by (auto simp: new_pool_def bindE_eq_Inr max_connections_arg_def pool_reset_def pool_inv_def Let_def
      split: option.splits if_splits)


section \<open>BlockingConnectionPool\<close>

text \<open>
  A LIFO queue of bounded length, filled with placeholders. \<open>bp_held\<close> records the
  connections that clients hold; the code does not keep it.
\<close>

record 'w bpool =
  bp_queue :: "conn option list"
  bp_max :: int
  bp_connections :: "conn list"
  bp_pid :: int
  bp_cache :: bool
  bp_next :: nat
  bp_world :: 'w
  bp_held :: "conn list"

definition queue_full :: exc where
  "queue_full = Exc PyException ''queue.Full''"

definition put_nowait :: "conn option \<Rightarrow> ('w bpool, exc, unit) action" where
  "put_nowait x = (\<lambda>p. if bp_max p \<le> int (length (bp_queue p)) then (Inl queue_full, p)
     else (Inr (), p\<lparr>bp_queue := bp_queue p @ [x]\<rparr>))"

definition bpool_reset :: "int \<Rightarrow> 'w bpool \<Rightarrow> 'w bpool" where
  "bpool_reset pid p = p\<lparr>bp_queue := replicate (nat (bp_max p)) None, bp_connections := [],
     bp_pid := pid, bp_held := []\<rparr>"

definition new_bpool :: "int \<Rightarrow> int option \<Rightarrow> bool \<Rightarrow> 'w \<Rightarrow> exc + 'w bpool" where
  "new_bpool pid m cache w = bindE (max_connections_arg m) (\<lambda>n.
     Inr (bpool_reset pid \<lparr>bp_queue = [], bp_max = n, bp_connections = [], bp_pid = pid,
        bp_cache = cache, bp_next = 0, bp_world = w, bp_held = []\<rparr>))"

definition bcheckpid :: "int \<Rightarrow> ('w bpool, exc, unit) action" where
  "bcheckpid pid = modS (\<lambda>p. if bp_pid p \<noteq> pid then bpool_reset pid p else p)"

definition on_bworld :: "('w, exc, 'a) action \<Rightarrow> ('w bpool, exc, 'a) action" where
  "on_bworld m = (\<lambda>p. case m (bp_world p) of (r, w) \<Rightarrow> (r, p\<lparr>bp_world := w\<rparr>))"

text \<open>\<open>reset\<close> does not set \<open>self._lock\<close>, which a pool with a cache needs here.\<close>

definition bmake_connection :: "int \<Rightarrow> ('w bpool, exc, conn) action" where
  "bmake_connection pid = (\<lambda>p.
     if bp_cache p then (Inl (Exc AttributeError ''_lock''), p)
     else (let c = \<lparr>c_id = bp_next p, c_pid = pid\<rparr> in
       (Inr c, p\<lparr>bp_connections := bp_connections p @ [c], bp_next := Suc (bp_next p)\<rparr>)))"

definition no_connection :: exc where
  "no_connection = Exc ConnectionError ''No connection available.''"

text \<open>
  \<open>queue.get\<close> waits for the timeout; within one step no other client puts anything back, so
  an empty queue ends in \<open>Empty\<close>.
\<close>

definition queue_get :: "('w bpool, exc, conn option) action" where
  "queue_get = (\<lambda>p. if bp_queue p = [] then (Inl no_connection, p)
     else (Inr (last (bp_queue p)), p\<lparr>bp_queue := butlast (bp_queue p)\<rparr>))"

definition hold :: "conn \<Rightarrow> ('w bpool, exc, unit) action" where
  "hold c = modS (\<lambda>p. p\<lparr>bp_held := bp_held p @ [c]\<rparr>)"

definition brelease :: "'w conn_ops \<Rightarrow> int \<Rightarrow> conn \<Rightarrow> ('w bpool, exc, unit) action" where
  "brelease env pid c =
     thenS (bcheckpid pid)
     (thenS (modS (\<lambda>p. p\<lparr>bp_held := remove1 c (bp_held p)\<rparr>))
     (\<lambda>p. if c_pid c \<noteq> bp_pid p then
            thenS (on_bworld (op_disconnect env (c_id c))) (put_nowait None) p
          else catchS (put_nowait (Some c)) (\<lambda>e. if e = queue_full then retS () else raiseS e) p))"

definition bget_connection :: "'w conn_ops \<Rightarrow> int \<Rightarrow> ('w bpool, exc, conn) action" where
  "bget_connection env pid =
     thenS (bcheckpid pid)
     (bindS queue_get (\<lambda>x.
      bindS (case x of None \<Rightarrow> bmake_connection pid | Some c \<Rightarrow> retS c) (\<lambda>c.
      thenS (hold c)
        (catchS (thenS (on_bworld (verify_connection env False (c_id c))) (retS c))
           (\<lambda>e. thenS (brelease env pid c) (raiseS e))))))"

definition bpool_disconnect :: "'w conn_ops \<Rightarrow> int \<Rightarrow> ('w bpool, exc, unit) action" where
  "bpool_disconnect env pid =
     thenS (bcheckpid pid)
     (bindS (getS bp_connections) (\<lambda>cs.
        thenS (mapS (\<lambda>c. on_bworld (op_disconnect env (c_id c))) cs) (retS ())))"

text \<open>The connections in the queue.\<close>

definition queued :: "'w bpool \<Rightarrow> conn list" where
  "queued p = List.map_filter id (bp_queue p)"

definition bpool_inv :: "int \<Rightarrow> 'w bpool \<Rightarrow> bool" where
  "bpool_inv pid p =
     (distinct (queued p @ bp_held p) \<and>
      (\<forall>c \<in> set (queued p @ bp_held p). c_id c < bp_next p \<and> c_pid c = pid) \<and>
      bp_pid p = pid \<and> \<not> bp_cache p \<and>
      length (bp_queue p) + length (bp_held p) = nat (bp_max p))"

lemma queued_snoc: "queued (p\<lparr>bp_queue := xs @ [x]\<rparr>) = List.map_filter id xs @ (case x of None \<Rightarrow> [] | Some c \<Rightarrow> [c])"
  by (cases x) (simp_all add: queued_def List.map_filter_def)

lemma queued_queue [simp]: "bp_queue p = q \<Longrightarrow> queued (p\<lparr>bp_held := h\<rparr>) = queued p"
  by (simp add: queued_def)

lemma bcheckpid_same: "bp_pid p = pid \<Longrightarrow> bcheckpid pid p = (Inr (), p)"
  by (simp add: bcheckpid_def)

lemma on_bworld_fields:
  assumes "on_bworld m p = (r, p')"
  shows "\<exists>w. p' = p\<lparr>bp_world := w\<rparr>"
  using assms by (auto simp: on_bworld_def split: prod.splits)

lemma bpool_inv_world [simp]: "bpool_inv pid (p\<lparr>bp_world := w\<rparr>) = bpool_inv pid p"
  by (simp add: bpool_inv_def queued_def)

lemma brelease_inv:
  assumes inv: "bpool_inv pid p" and c: "c \<in> set (bp_held p)"
  shows "\<exists>p'. brelease env pid c p = (Inr (), p') \<and> bpool_inv pid p' \<and>
    bp_held p' = remove1 c (bp_held p) \<and> bp_max p' = bp_max p"
proof -
  have pid: "bp_pid p = pid" "c_pid c = pid" using inv c by (auto simp: bpool_inv_def)
  let ?p1 = "p\<lparr>bp_held := remove1 c (bp_held p)\<rparr>"
  let ?p' = "?p1\<lparr>bp_queue := bp_queue p @ [Some c]\<rparr>"
  have len: "0 < length (bp_held p)" using c by (cases "bp_held p") auto
  have room: "\<not> bp_max p \<le> int (length (bp_queue p))"
  proof -
    have "length (bp_queue p) < nat (bp_max p)" using inv len unfolding bpool_inv_def by linarith
    then show ?thesis by simp
  qed
  have r: "brelease env pid c p = (Inr (), ?p')"
    using pid room by (simp add: brelease_def bcheckpid_same thenS_def bindS_def catchS_def put_nowait_def)
  have q: "queued ?p' = queued p @ [c]"
    by (simp add: queued_def List.map_filter_def)
  have "distinct (bp_held p)" "c \<notin> set (queued p)" using inv c by (auto simp: bpool_inv_def)
  moreover have "length (bp_queue p) + 1 + (length (bp_held p) - 1) = nat (bp_max p)"
    using inv len unfolding bpool_inv_def by linarith
  ultimately have "bpool_inv pid ?p'"
    using inv c q by (auto simp: bpool_inv_def length_remove1)
  with r show ?thesis by auto
qed

lemma bget_connection_inv:
  assumes inv: "bpool_inv pid p" and g: "bget_connection env pid p = (r, p')"
  shows "bpool_inv pid p' \<and> bp_max p' = bp_max p \<and>
    (case r of
       Inr c \<Rightarrow> c \<notin> set (bp_held p) \<and> bp_held p' = bp_held p @ [c]
     | Inl e \<Rightarrow> bp_held p' = bp_held p)"
proof (cases "bp_queue p = []")
  case True
  with g inv have "r = Inl no_connection" "p' = p"
    by (simp_all add: bget_connection_def bcheckpid_same bpool_inv_def thenS_def bindS_def queue_get_def)
  with inv show ?thesis by simp
next
  case False
  then obtain q x where qx: "bp_queue p = q @ [x]" by (metis append_butlast_last_id)
  have pid: "bp_pid p = pid" "\<not> bp_cache p" using inv by (auto simp: bpool_inv_def)
  have qd: "queued p = List.map_filter id q @ (case x of None \<Rightarrow> [] | Some c \<Rightarrow> [c])"
    using qx by (cases x) (simp_all add: queued_def List.map_filter_def)
  define c where "c = (case x of None \<Rightarrow> \<lparr>c_id = bp_next p, c_pid = pid\<rparr> | Some c \<Rightarrow> c)"
  define p1 where "p1 = (case x of
      None \<Rightarrow> p\<lparr>bp_queue := q, bp_connections := bp_connections p @ [c], bp_next := Suc (bp_next p)\<rparr>
    | Some _ \<Rightarrow> p\<lparr>bp_queue := q\<rparr>)"
  let ?p2 = "p1\<lparr>bp_held := bp_held p @ [c]\<rparr>"
  have "\<forall>c \<in> set (bp_held p) \<union> set (List.map_filter id q). c_id c < bp_next p"
    using inv qd by (auto simp: bpool_inv_def)
  then have "\<lparr>c_id = bp_next p, c_pid = pid\<rparr> \<notin> set (bp_held p)"
    "\<lparr>c_id = bp_next p, c_pid = pid\<rparr> \<notin> set (List.map_filter id q)" by force+
  then have cn: "c \<notin> set (bp_held p)" "c \<notin> set (List.map_filter id q)" "c_pid c = pid"
    using inv qd by (auto simp: c_def bpool_inv_def split: option.splits)
  have inv2: "bpool_inv pid ?p2" "bp_max ?p2 = bp_max p"
    using inv qd cn qx by (auto simp: bpool_inv_def p1_def c_def queued_def less_Suc_eq split: option.splits)
  have p2s: "thenS (hold c) k p1 = k ?p2" for k :: "('a bpool, exc, conn) action"
    by (cases x) (simp_all add: hold_def p1_def thenS_def bindS_def)
  have step: "bget_connection env pid p =
      catchS (thenS (on_bworld (verify_connection env False (c_id c))) (retS c))
        (\<lambda>e. thenS (brelease env pid c) (raiseS e)) ?p2"
    using pid qx p2s
    by (cases x) (simp_all add: bget_connection_def bcheckpid_same thenS_def bindS_def queue_get_def
        bmake_connection_def c_def p1_def Let_def)
  obtain rv pv where v: "on_bworld (verify_connection env False (c_id c)) ?p2 = (rv, pv)" by force
  then obtain w where pv: "pv = ?p2\<lparr>bp_world := w\<rparr>" using on_bworld_fields by blast
  have invv: "bpool_inv pid pv" "bp_held pv = bp_held p @ [c]" "bp_max pv = bp_max p"
    using inv2 by (simp_all add: pv)
  show ?thesis
  proof (cases rv)
    case (Inr u)
    with step g v have "r = Inr c" "p' = pv" by (simp_all add: catchS_def thenS_def bindS_def)
    with invv cn show ?thesis by simp
  next
    case (Inl e)
    have "c \<in> set (bp_held pv)" using invv by simp
    from brelease_inv [OF invv(1) this, of env] obtain p3 where
      p3: "brelease env pid c pv = (Inr (), p3)" "bpool_inv pid p3" "bp_held p3 = remove1 c (bp_held pv)"
        "bp_max p3 = bp_max pv" by blast
    have "remove1 c (bp_held p @ [c]) = bp_held p" using cn(1) by (simp add: remove1_append)
    moreover have "r = Inl e" "p' = p3" using step g v Inl p3(1) by (simp_all add: catchS_def thenS_def bindS_def)
    ultimately show ?thesis using p3 invv by simp
  qed
qed

inductive bpool_step :: "'w conn_ops \<Rightarrow> int \<Rightarrow> 'w bpool \<Rightarrow> 'w bpool \<Rightarrow> bool" for env pid where
  get: "bget_connection env pid p = (r, p') \<Longrightarrow> bpool_step env pid p p'"
| release: "c \<in> set (bp_held p) \<Longrightarrow> brelease env pid c p = (r, p') \<Longrightarrow> bpool_step env pid p p'"

inductive bpool_reach :: "'w conn_ops \<Rightarrow> int \<Rightarrow> 'w bpool \<Rightarrow> 'w bpool \<Rightarrow> bool" for env pid p0 where
  init: "bpool_reach env pid p0 p0"
| step: "bpool_reach env pid p0 p \<Longrightarrow> bpool_step env pid p p' \<Longrightarrow> bpool_reach env pid p0 p'"

lemma bpool_step_inv: "bpool_step env pid p p' \<Longrightarrow> bpool_inv pid p \<Longrightarrow> bpool_inv pid p' \<and> bp_max p' = bp_max p"
proof (induction rule: bpool_step.induct)
  case (get p r p')
  then show ?case using bget_connection_inv by blast
next
  case (release c p r p')
  with brelease_inv [OF release.prems release.hyps(1), of env] show ?case by auto
qed

lemma bpool_reach_inv:
  "bpool_reach env pid p0 p \<Longrightarrow> bpool_inv pid p0 \<Longrightarrow> bpool_inv pid p \<and> bp_max p = bp_max p0"
  by (induction rule: bpool_reach.induct) (auto dest: bpool_step_inv)

lemma new_bpool_inv: "new_bpool pid m False w = Inr p \<Longrightarrow> bpool_inv pid p"
  by (auto simp: new_bpool_def bindE_eq_Inr bpool_reset_def bpool_inv_def queued_def List.map_filter_def)

section \<open>Properties\<close>

text \<open>A network on which everything works, for the examples.\<close>

definition calm :: "unit conn_ops" where
  "calm = \<lparr>op_connect = (\<lambda>_. retS ()), op_can_read = (\<lambda>_. retS False), op_disconnect = (\<lambda>_. retS ())\<rparr>"

definition pool2 :: "unit pool" where
  "pool2 = \<lparr>pl_created = 0, pl_available = [], pl_in_use = [], pl_pid = 1, pl_max = 2, pl_cache = False,
     pl_next = 0, pl_world = ()\<rparr>"

lemma new_pool2: "new_pool 1 (Some 2) False () = Inr pool2"
  by (simp add: new_pool_def max_connections_arg_def pool_reset_def pool2_def)

lemma verify_calm [simp]: "verify_connection calm b i w = (Inr (), w)"
  by (simp add: verify_connection_def calm_def thenS_def bindS_def catchS_def)

text \<open>C13: as long as clients release each connection they were given once, the pool never hands
  out a connection that is in use, failed attempts leave no connection behind, and the
  connections it has created never exceed the limit, however the threads' steps interleave before.\<close>

theorem pool_no_double_handout:
  assumes "new_pool pid m cache w = Inr p0" "pool_reach env pid p0 p" "get_connection env pid p = (r, p')"
  shows "(case r of Inr c \<Rightarrow> c \<notin> set (pl_in_use p) \<and> pl_in_use p' = pl_in_use p @ [c]
          | Inl e \<Rightarrow> pl_in_use p' = pl_in_use p) \<and>
    int (length (pl_available p') + length (pl_in_use p')) = pl_created p' \<and> pl_created p' \<le> pl_max p0"
proof -
  from new_pool_inv [OF assms(1)] have i0: "pool_inv pid p0" "0 \<le> pl_max p0" by simp_all
  from pool_reach_inv [OF assms(2) i0(1)] have i: "pool_inv pid p" "pl_max p = pl_max p0" by simp_all
  from get_connection_inv [OF i(1) assms(3)] i(2) have i': "pool_inv pid p'" "pl_max p' = pl_max p0"
    and r: "case r of Inr c \<Rightarrow> c \<notin> set (pl_in_use p) \<and> pl_in_use p' = pl_in_use p @ [c]
          | Inl e \<Rightarrow> pl_in_use p' = pl_in_use p" by simp_all
  from i' i0(2) have "int (length (pl_available p') + length (pl_in_use p')) = pl_created p'"
    "pl_created p' \<le> pl_max p0" by (simp_all add: pool_inv_def)
  with r show ?thesis by blast
qed

theorem pool_no_double_handout_witness:
  "(case fst (get_connection calm 1 pool2) of
      Inr c \<Rightarrow> c \<notin> set (pl_in_use pool2) \<and> pl_in_use (snd (get_connection calm 1 pool2)) = pl_in_use pool2 @ [c]
    | Inl e \<Rightarrow> pl_in_use (snd (get_connection calm 1 pool2)) = pl_in_use pool2) \<and>
    int (length (pl_available (snd (get_connection calm 1 pool2))) + length (pl_in_use (snd (get_connection calm 1 pool2))))
      = pl_created (snd (get_connection calm 1 pool2)) \<and> pl_created (snd (get_connection calm 1 pool2)) \<le> pl_max pool2"
  by (rule pool_no_double_handout [OF new_pool2 pool_reach.init]) simp

text \<open>the blocking pool keeps the number of placeholders, idle connections and connections in
  use equal to its size and never hands out a connection that is in use.\<close>

theorem blocking_pool_no_double_handout:
  assumes "new_bpool pid m False w = Inr p0" "bpool_reach env pid p0 p" "bget_connection env pid p = (r, p')"
  shows "(case r of Inr c \<Rightarrow> c \<notin> set (bp_held p) \<and> bp_held p' = bp_held p @ [c]
          | Inl e \<Rightarrow> bp_held p' = bp_held p) \<and>
    length (bp_queue p') + length (bp_held p') = nat (bp_max p0)"
proof -
  from bpool_reach_inv [OF assms(2) new_bpool_inv [OF assms(1)]]
  have i: "bpool_inv pid p" "bp_max p = bp_max p0" by simp_all
  from bget_connection_inv [OF i(1) assms(3)] i(2) show ?thesis by (simp add: bpool_inv_def)
qed

definition bpool1 :: "unit bpool" where
  "bpool1 = \<lparr>bp_queue = [None], bp_max = 1, bp_connections = [], bp_pid = 1, bp_cache = False,
     bp_next = 0, bp_world = (), bp_held = []\<rparr>"

lemma new_bpool1: "new_bpool 1 (Some 1) False () = Inr bpool1"
  by (simp add: new_bpool_def max_connections_arg_def bpool_reset_def bpool1_def)

theorem blocking_pool_no_double_handout_witness:
  "(case fst (bget_connection calm 1 bpool1) of
      Inr c \<Rightarrow> c \<notin> set (bp_held bpool1) \<and> bp_held (snd (bget_connection calm 1 bpool1)) = bp_held bpool1 @ [c]
    | Inl e \<Rightarrow> bp_held (snd (bget_connection calm 1 bpool1)) = bp_held bpool1) \<and>
    length (bp_queue (snd (bget_connection calm 1 bpool1))) + length (bp_held (snd (bget_connection calm 1 bpool1)))
      = nat (bp_max bpool1)"
  by (rule blocking_pool_no_double_handout [OF new_bpool1 bpool_reach.init]) simp

text \<open>a connection that is released twice is handed out to two clients at once.\<close>

theorem double_release_shares_connection:
  assumes "pool_inv pid p" "c \<in> set (pl_in_use p)"
    and "op_connect env = (\<lambda>_. retS ())" "op_can_read env = (\<lambda>_. retS False)"
  shows "\<exists>p1 p2 p3 p4. release env pid c p = (Inr (), p1) \<and> release env pid c p1 = (Inr (), p2) \<and>
    get_connection env pid p2 = (Inr c, p3) \<and> get_connection env pid p3 = (Inr c, p4)"
proof -
  have pid: "pl_pid p = pid" "c_pid c = pid" and d: "distinct (pl_in_use p)"
    using assms(1,2) by (auto simp: pool_inv_def)
  let ?p1 = "p\<lparr>pl_in_use := remove1 c (pl_in_use p), pl_available := pl_available p @ [c]\<rparr>"
  let ?p2 = "p\<lparr>pl_in_use := remove1 c (pl_in_use p), pl_available := pl_available p @ [c, c]\<rparr>"
  have r1: "release env pid c p = (Inr (), ?p1)"
    using pid by (simp add: release_def checkpid_same thenS_def bindS_def)
  have "c \<notin> set (remove1 c (pl_in_use p))" using d by simp
  then have r2: "release env pid c ?p1 = (Inr (), ?p2)"
    using pid by (simp add: release_def checkpid_same thenS_def bindS_def remove1_idem)
  have v: "on_world (verify_connection env b i) q = (Inr (), q)" for b i and q :: "'a pool"
    using assms(3,4) by (simp add: on_world_def verify_connection_def thenS_def bindS_def catchS_def)
  have g: "\<exists>q'. get_connection env pid q = (Inr c, q') \<and> pl_available q' = as \<and> pl_pid q' = pid"
    if "pl_pid q = pid" "pl_available q = as @ [c]" for q :: "'a pool" and as
    using that v by (simp add: get_connection_def checkpid_same thenS_def bindS_def catchS_def take_connection_def)
  have "pl_available ?p2 = (pl_available p @ [c]) @ [c]" "pl_pid ?p2 = pid" using pid by simp_all
  from g [OF this(2,1)] obtain p3 where p3: "get_connection env pid ?p2 = (Inr c, p3)"
      "pl_available p3 = pl_available p @ [c]" "pl_pid p3 = pid" by blast
  from g [OF p3(3,2)] r1 r2 p3(1) show ?thesis by blast
qed

definition pool_in_use :: "unit pool" where
  "pool_in_use = pool2\<lparr>pl_created := 1, pl_in_use := [\<lparr>c_id = 0, c_pid = 1\<rparr>], pl_next := 1\<rparr>"

theorem double_release_shares_connection_witness:
  "\<exists>p1 p2 p3 p4. release calm 1 \<lparr>c_id = 0, c_pid = 1\<rparr> pool_in_use = (Inr (), p1) \<and>
    release calm 1 \<lparr>c_id = 0, c_pid = 1\<rparr> p1 = (Inr (), p2) \<and>
    get_connection calm 1 p2 = (Inr \<lparr>c_id = 0, c_pid = 1\<rparr>, p3) \<and>
    get_connection calm 1 p3 = (Inr \<lparr>c_id = 0, c_pid = 1\<rparr>, p4)"
  by (rule double_release_shares_connection)
     (simp_all add: pool_in_use_def pool2_def pool_inv_def calm_def)

text \<open>after a fork, releasing a connection inherited from the parent makes the blocking pool of
  the child raise \<open>Full\<close>, although the release of a foreign connection is meant to succeed.\<close>

theorem blocking_release_after_fork_raises:
  assumes "bp_pid p \<noteq> pid" "c_pid c \<noteq> pid" "0 \<le> bp_max p" "op_disconnect env (c_id c) (bp_world p) = (Inr (), w)"
  shows "fst (brelease env pid c p) = Inl queue_full"
  using assms by (simp add: brelease_def bcheckpid_def bpool_reset_def thenS_def bindS_def on_bworld_def put_nowait_def)

theorem blocking_release_after_fork_raises_witness:
  "fst (brelease calm 2 \<lparr>c_id = 0, c_pid = 1\<rparr> bpool1) = Inl queue_full"
  by (rule blocking_release_after_fork_raises) (simp_all add: bpool1_def calm_def)

end
