(* ===== verification/Callbacks.thy ===== *)
theory Callbacks
  imports Utils
begin

text \<open>
  Response callbacks (\<open>redis/_parsers/helpers.py\<close>): the functions that turn a raw response
  into the value a command returns. Subscripting, slicing, unpacking and iteration raise the
  exceptions Python raises. Options are a dictionary from names to values; a cast function among
  them is an argument of its own. Line ends are the ASCII ones.
\<close>

section \<open>Operations on values\<close>

definition not_subscriptable :: exc where
  "not_subscriptable = Exc TypeError ''object is not subscriptable''"

definition index_error :: exc where
  "index_error = Exc IndexError ''index out of range''"

definition list_index :: "pyval list \<Rightarrow> int \<Rightarrow> exc + pyval" where
  "list_index xs i =
     (let k = (if i < 0 then int (length xs) + i else i) in
      if 0 \<le> k \<and> k < int (length xs) then Inr (xs ! nat k) else Inl index_error)"

text \<open>\<open>v[i]\<close>.\<close>

definition py_index :: "pyval \<Rightarrow> int \<Rightarrow> exc + pyval" where
  "py_index v i = (case v of
      PList xs \<Rightarrow> list_index xs i
    | PTuple xs \<Rightarrow> list_index xs i
    | PBytes b \<Rightarrow> list_index (map (\<lambda>c. PInt (of_char c)) b) i
    | PMemoryview b \<Rightarrow> list_index (map (\<lambda>c. PInt (of_char c)) b) i
    | PStr s \<Rightarrow> list_index (map (\<lambda>c. PStr [c]) s) i
    | PDict d \<Rightarrow> (case pd_get (PInt i) d of Some x \<Rightarrow> Inr x | None \<Rightarrow> Inl (Exc KeyError []))
    | _ \<Rightarrow> Inl not_subscriptable)"

text \<open>\<open>v[name]\<close> for a string.\<close>

definition py_item :: "pyval \<Rightarrow> string \<Rightarrow> exc + pyval" where
  "py_item v name = (case v of
      PDict d \<Rightarrow> (case pd_get (PStr name) d of Some x \<Rightarrow> Inr x | None \<Rightarrow> Inl (Exc KeyError name))
    | PList _ \<Rightarrow> Inl (Exc TypeError ''indices must be integers'')
    | PTuple _ \<Rightarrow> Inl (Exc TypeError ''indices must be integers'')
    | PBytes _ \<Rightarrow> Inl (Exc TypeError ''indices must be integers'')
    | PStr _ \<Rightarrow> Inl (Exc TypeError ''indices must be integers'')
    | _ \<Rightarrow> Inl not_subscriptable)"

text \<open>\<open>v[0::2]\<close> and \<open>v[1::2]\<close>, then iterated.\<close>

definition py_halves :: "pyval \<Rightarrow> exc + (pyval list \<times> pyval list)" where
  "py_halves v = (case v of
      PDict _ \<Rightarrow> Inl (Exc TypeError ''unhashable type'')
    | PSet _ \<Rightarrow> Inl not_subscriptable
    | _ \<Rightarrow> (case py_iter v of Inl _ \<Rightarrow> Inl not_subscriptable | Inr xs \<Rightarrow> Inr (evens xs, odds xs)))"

text \<open>\<open>a, b = v\<close>.\<close>

definition unpack2 :: "pyval \<Rightarrow> exc + (pyval \<times> pyval)" where
  "unpack2 v = bindE (py_iter v) (\<lambda>xs. case xs of
      [a, b] \<Rightarrow> Inr (a, b)
    | _ \<Rightarrow> Inl (Exc ValueError ''wrong number of values to unpack (expected 2)''))"

definition py_dict_val :: "(pyval \<times> pyval) list \<Rightarrow> exc + pyval" where
  "py_dict_val ps = bindE (py_dict [] ps) (\<lambda>d. Inr (PDict d))"

definition to_int_val :: "pyval \<Rightarrow> exc + pyval" where
  "to_int_val v = bindE (to_int v) (\<lambda>n. Inr (PInt n))"

definition to_float_val :: "pyval \<Rightarrow> exc + pyval" where
  "to_float_val v = bindE (to_float v) (\<lambda>f. Inr (PFloat f))"

type_synonym options = "(string, pyval) dict"

definition opt :: "options \<Rightarrow> string \<Rightarrow> bool" where
  "opt o' name = (case dict_get o' name of None \<Rightarrow> False | Some v \<Rightarrow> truthy v)"

section \<open>Simple results\<close>

definition bool_ok :: "pyval \<Rightarrow> pyval" where
  "bool_ok response = PBool (str_if_bytes response = PStr ''OK'')"

definition float_or_none :: "pyval \<Rightarrow> exc + pyval" where
  "float_or_none response = (if response = PNone then Inr PNone else to_float_val response)"

definition parse_zadd :: "pyval \<Rightarrow> options \<Rightarrow> exc + pyval" where
  "parse_zadd response o' =
     (if response = PNone then Inr PNone
      else if opt o' ''as_score'' then to_float_val response else to_int_val response)"

definition parse_client_kill :: "pyval \<Rightarrow> exc + pyval" where
  "parse_client_kill response = (case response of
      PInt n \<Rightarrow> Inr (PInt n)
    | PBool b \<Rightarrow> Inr (PBool b)
    | _ \<Rightarrow> Inr (bool_ok response))"

text \<open>\<open>response and str_if_bytes(response) == "OK"\<close> keeps a falsy response.\<close>

definition parse_set_result :: "pyval \<Rightarrow> options \<Rightarrow> pyval" where
  "parse_set_result response o' =
     (if opt o' ''get'' then response
      else if truthy response then bool_ok response else response)"

section \<open>Dictionaries from flat lists\<close>

definition pairs_to_dict :: "pyval \<Rightarrow> bool \<Rightarrow> bool \<Rightarrow> exc + pyval" where
  "pairs_to_dict response decode_keys decode_string_values =
     (if response = PNone then Inr (PDict [])
      else if decode_keys \<or> decode_string_values then
        bindE (py_halves response) (\<lambda>(ks, vs).
          py_dict_val (zip (if decode_keys then map str_if_bytes ks else ks)
                           (if decode_string_values then map str_if_bytes vs else vs)))
      else bindE (py_iter response) (\<lambda>xs. py_dict_val (pairs_of xs)))"

text \<open>A value that its type does not accept is kept as it is.\<close>

fun typed_loop ::
  "(string, pyval \<Rightarrow> exc + pyval) dict \<Rightarrow> (pyval \<times> pyval) list \<Rightarrow> (pyval \<times> pyval) list \<Rightarrow>
   exc + (pyval \<times> pyval) list" where
  "typed_loop types [] acc = Inr acc"
| "typed_loop types ((k, v) # ps) acc =
     (if \<not> hashable k then Inl unhashable_error
      else
        (let v' = (case k of
             PStr name \<Rightarrow> (case dict_get types name of
                 Some f \<Rightarrow> (case f v of Inr x \<Rightarrow> x | Inl _ \<Rightarrow> v)
               | None \<Rightarrow> v)
           | _ \<Rightarrow> v)
         in typed_loop types ps (pd_set k v' acc)))"

definition pairs_to_dict_typed :: "pyval list \<Rightarrow> (string, pyval \<Rightarrow> exc + pyval) dict \<Rightarrow> exc + (pyval \<times> pyval) list" where
  "pairs_to_dict_typed response types = typed_loop types (pairs_of response) []"

definition parse_list_of_dicts :: "pyval \<Rightarrow> exc + pyval" where
  "parse_list_of_dicts response = bindE (py_iter response) (\<lambda>xs.
     bindE (mapE (\<lambda>x. pairs_to_dict x True False) xs) (\<lambda>ds. Inr (PList ds)))"

definition parse_config_get :: "pyval \<Rightarrow> exc + pyval" where
  "parse_config_get response = bindE (py_iter response) (\<lambda>xs.
     bindE (if xs = [] then Inr (PList []) else pairs_to_dict (PList (map str_if_bytes xs)) False False) (\<lambda>r.
     Inr (if truthy r then r else PDict [])))"

section \<open>Sorted sets and sorting\<close>

definition score_pairs :: "(pyval \<Rightarrow> exc + pyval) \<Rightarrow> pyval list \<Rightarrow> exc + pyval" where
  "score_pairs cast xs =
     bindE (mapE (\<lambda>(v, s). bindE (cast s) (\<lambda>s'. Inr (PTuple [v, s']))) (pairs_of xs)) (\<lambda>ps. Inr (PList ps))"

definition zset_score_pairs :: "(pyval \<Rightarrow> exc + pyval) \<Rightarrow> pyval \<Rightarrow> options \<Rightarrow> exc + pyval" where
  "zset_score_pairs score_cast_func response o' =
     (if \<not> truthy response \<or> \<not> opt o' ''withscores'' then Inr response
      else bindE (py_iter response) (score_pairs score_cast_func))"

definition parse_zscan :: "(pyval \<Rightarrow> exc + pyval) \<Rightarrow> pyval \<Rightarrow> exc + pyval" where
  "parse_zscan score_cast_func response =
     bindE (unpack2 response) (\<lambda>(cursor, r).
     bindE (py_iter r) (\<lambda>xs.
     bindE (to_int_val cursor) (\<lambda>c.
     bindE (score_pairs score_cast_func xs) (\<lambda>ps. Inr (PTuple [c, ps])))))"

definition parse_zmscore :: "pyval \<Rightarrow> exc + pyval" where
  "parse_zmscore response = bindE (py_iter response) (\<lambda>xs.
     bindE (mapE float_or_none xs) (\<lambda>ys. Inr (PList ys)))"

text \<open>\<open>response[i::n]\<close> for each \<open>i < n\<close>, zipped: the full groups of \<open>n\<close>.\<close>

definition stride :: "nat \<Rightarrow> nat \<Rightarrow> 'a list \<Rightarrow> 'a list" where
  "stride n i xs = map (\<lambda>k. xs ! (i + k * n)) [0..<(length xs - i + n - 1) div n]"

definition zip_all :: "'a list list \<Rightarrow> 'a list list" where
  "zip_all xss = (if xss = [] then [] else
     map (\<lambda>k. map (\<lambda>xs. xs ! k) xss) [0..<Min (set (map length xss))])"

definition sort_return_tuples :: "pyval \<Rightarrow> int option \<Rightarrow> exc + pyval" where
  "sort_return_tuples response groups =
     (case groups of
        None \<Rightarrow> Inr response
      | Some n \<Rightarrow>
          if \<not> truthy response \<or> n = 0 then Inr response
          else if n < 0 then Inr (PList [])
          else bindE (py_iter response) (\<lambda>xs.
            Inr (PList (map PTuple (zip_all (map (\<lambda>i. stride (nat n) i xs) [0..<nat n]))))))"

section \<open>Scans\<close>

definition parse_scan :: "pyval \<Rightarrow> exc + pyval" where
  "parse_scan response = bindE (unpack2 response) (\<lambda>(cursor, r).
     bindE (to_int_val cursor) (\<lambda>c. Inr (PTuple [c, r])))"

definition parse_hscan :: "pyval \<Rightarrow> options \<Rightarrow> exc + pyval" where
  "parse_hscan response o' = bindE (unpack2 response) (\<lambda>(cursor, r).
     bindE (if opt o' ''no_values'' then Inr (if truthy r then r else PList [])
            else bindE (if truthy r then pairs_to_dict r False False else Inr r) (\<lambda>d.
              Inr (if truthy d then d else PDict []))) (\<lambda>payload.
     bindE (to_int_val cursor) (\<lambda>c. Inr (PTuple [c, payload]))))"

definition parse_pubsub_numsub :: "pyval \<Rightarrow> exc + pyval" where
  "parse_pubsub_numsub response = bindE (py_halves response) (\<lambda>(xs, ys).
     Inr (PList (map (\<lambda>(x, y). PTuple [x, y]) (zip xs ys))))"

section \<open>Streams\<close>

definition parse_stream_item :: "pyval \<Rightarrow> exc + pyval" where
  "parse_stream_item r =
     (if r = PNone then Inr (PTuple [PNone, PNone])
      else bindE (py_index r 0) (\<lambda>i. bindE (py_index r 1) (\<lambda>fields.
           bindE (pairs_to_dict fields False False) (\<lambda>d. Inr (PTuple [i, d])))))"

definition parse_stream_list :: "pyval \<Rightarrow> exc + pyval" where
  "parse_stream_list response =
     (if response = PNone then Inr PNone
      else bindE (py_iter response) (\<lambda>rs. bindE (mapE parse_stream_item rs) (\<lambda>xs. Inr (PList xs))))"

definition parse_xclaim :: "pyval \<Rightarrow> options \<Rightarrow> exc + pyval" where
  "parse_xclaim response o' =
     (if opt o' ''parse_justid'' then Inr response else parse_stream_list response)"

definition parse_xautoclaim :: "pyval \<Rightarrow> options \<Rightarrow> exc + pyval" where
  "parse_xautoclaim response o' =
     (if opt o' ''parse_justid'' then py_index response 1
      else bindE (py_index response 1) (\<lambda>x. bindE (parse_stream_list x) (\<lambda>l.
        case response of
          PList xs \<Rightarrow> Inr (PList (xs[1 := l]))
        | PDict d \<Rightarrow> Inr (PDict (pd_set (PInt 1) l d))
        | _ \<Rightarrow> Inl (Exc TypeError ''object does not support item assignment''))))"

definition parse_xread :: "pyval \<Rightarrow> exc + pyval" where
  "parse_xread response =
     (if response = PNone then Inr (PList [])
      else bindE (py_iter response) (\<lambda>rs.
        bindE (mapE (\<lambda>r. bindE (py_index r 0) (\<lambda>name. bindE (py_index r 1) (\<lambda>x.
             bindE (parse_stream_list x) (\<lambda>l. Inr (PList [name, l]))))) rs) (\<lambda>xs. Inr (PList xs))))"

definition parse_xread_resp3 :: "pyval \<Rightarrow> exc + pyval" where
  "parse_xread_resp3 response =
     (case response of
        PNone \<Rightarrow> Inr (PDict [])
      | PDict d \<Rightarrow> bindE (mapE (\<lambda>(k, v). bindE (parse_stream_list v) (\<lambda>l. Inr (k, PList [l]))) d) py_dict_val
      | _ \<Rightarrow> Inl (Exc AttributeError ''items''))"

definition zip_names :: "string list \<Rightarrow> pyval \<Rightarrow> exc + pyval" where
  "zip_names names r = bindE (py_iter r) (\<lambda>xs. py_dict_val (zip (map PStr names) xs))"

definition parse_xpending_range :: "pyval \<Rightarrow> exc + pyval" where
  "parse_xpending_range response = bindE (py_iter response) (\<lambda>rs.
     bindE (mapE (zip_names [''message_id'', ''consumer'', ''time_since_delivered'', ''times_delivered'']) rs)
       (\<lambda>xs. Inr (PList xs)))"

definition parse_xpending :: "pyval \<Rightarrow> options \<Rightarrow> exc + pyval" where
  "parse_xpending response o' =
     (if opt o' ''parse_detail'' then parse_xpending_range response
      else bindE (py_index response 3) (\<lambda>cs.
        bindE (py_iter (if truthy cs then cs else PList [])) (\<lambda>rs.
        bindE (mapE (\<lambda>r. bindE (unpack2 r) (\<lambda>(n, p). bindE (to_int_val p) (\<lambda>p'.
             Inr (PDict [(PStr ''name'', n), (PStr ''pending'', p')])))) rs) (\<lambda>consumers.
        bindE (py_index response 0) (\<lambda>pending.
        bindE (py_index response 1) (\<lambda>lo.
        bindE (py_index response 2) (\<lambda>hi.
          Inr (PDict [(PStr ''pending'', pending), (PStr ''min'', lo), (PStr ''max'', hi),
                      (PStr ''consumers'', PList consumers)]))))))))"

section \<open>Geo\<close>

definition cast_coord :: "pyval \<Rightarrow> exc + pyval" where
  "cast_coord ll = bindE (py_index ll 0) (\<lambda>a. bindE (to_float_val a) (\<lambda>x.
     bindE (py_index ll 1) (\<lambda>b. bindE (to_float_val b) (\<lambda>y. Inr (PTuple [x, y])))))"

definition geo_casts :: "options \<Rightarrow> (pyval \<Rightarrow> exc + pyval) list" where
  "geo_casts o' = [Inr] @ (if opt o' ''withdist'' then [to_float_val] else [])
     @ (if opt o' ''withhash'' then [to_int_val] else [])
     @ (if opt o' ''withcoord'' then [cast_coord] else [])"

text \<open>
  A missing \<open>store\<close> option, or a missing \<open>store_dist\<close> that is looked at, means that
  the command was not sent by its method; the other options are then not looked at.
\<close>

definition parse_geosearch_generic :: "pyval \<Rightarrow> options \<Rightarrow> exc + pyval" where
  "parse_geosearch_generic response o' =
     (let missing = (\<lambda>k. dict_get o' k = None) in
      if missing ''store'' \<or> opt o' ''store'' \<or> missing ''store_dist'' \<or> opt o' ''store_dist'' then Inr response
      else if list_ex missing [''withdist'', ''withcoord'', ''withhash''] then Inl (Exc KeyError [])
      else
        (let response_list = (case response of PList xs \<Rightarrow> xs | _ \<Rightarrow> [response]) in
         if \<not> opt o' ''withdist'' \<and> \<not> opt o' ''withcoord'' \<and> \<not> opt o' ''withhash'' then Inr (PList response_list)
         else bindE (mapE (\<lambda>r. bindE (py_iter r) (\<lambda>xs.
               bindE (mapE (\<lambda>(f, x). f x) (zip (geo_casts o') xs)) (\<lambda>ys. Inr (PList ys)))) response_list)
             (\<lambda>zs. Inr (PList zs))))"


section \<open>Text replies\<close>

text \<open>\<open>str.splitlines()\<close>; a line end at the very end gives no further line.\<close>

definition is_eol :: "char \<Rightarrow> bool" where
  "is_eol c = (let n = (of_char c :: nat) in (10 \<le> n \<and> n \<le> 13) \<or> (28 \<le> n \<and> n \<le> 30))"

fun splitlines :: "string \<Rightarrow> string list" where
  "splitlines [] = []"
| "splitlines [c] = (if is_eol c then [[]] else [[c]])"
| "splitlines (c # d # cs) =
     (if c = CHR 0x0D \<and> d = CHR 0x0A then [] # splitlines cs
      else if is_eol c then [] # splitlines (d # cs)
      else (case splitlines (d # cs) of [] \<Rightarrow> [[c]] | l # ls \<Rightarrow> (c # l) # ls))"

definition as_text :: "pyval \<Rightarrow> exc + string" where
  "as_text v = (case str_if_bytes v of PStr s \<Rightarrow> Inr s | _ \<Rightarrow> Inl (Exc AttributeError ''str''))"

text \<open>A pair of strings from \<open>s.split(sep)\<close>, as \<open>dict\<close> requires it.\<close>

definition split_pair :: "char \<Rightarrow> string \<Rightarrow> exc + (string \<times> string)" where
  "split_pair sep s = (case split_char sep s of
      [k, v] \<Rightarrow> Inr (k, v)
    | _ \<Rightarrow> Inl (Exc ValueError ''dictionary update sequence element has the wrong length''))"

definition str_dict :: "(string \<times> string) list \<Rightarrow> pyval" where
  "str_dict ps = PDict (map (\<lambda>(k, v). (PStr k, PStr v)) (dict_of_pairs ps))"

definition parse_cluster_info :: "pyval \<Rightarrow> exc + pyval" where
  "parse_cluster_info response = bindE (as_text response) (\<lambda>s.
     bindE (mapE (split_pair (CHR '':'')) (filter (\<lambda>l. l \<noteq> []) (splitlines s))) (\<lambda>ps. Inr (str_dict ps)))"

text \<open>Values may contain \<open>=\<close>.\<close>

definition client_field :: "string \<Rightarrow> exc + (string \<times> string)" where
  "client_field pair = (case split1 (CHR ''='') pair of
      Some kv \<Rightarrow> Inr kv
    | None \<Rightarrow> Inl (Exc ValueError ''dictionary update sequence element has the wrong length''))"

definition parse_client_list :: "pyval \<Rightarrow> exc + pyval" where
  "parse_client_list response = bindE (as_text response) (\<lambda>s.
     bindE (mapE (\<lambda>c. bindE (mapE client_field (split_char (CHR '' '') c)) (\<lambda>ps. Inr (str_dict ps))) (splitlines s))
       (\<lambda>cs. Inr (PList cs)))"

definition client_int_fields :: "string list" where
  "client_int_fields = [''id'', ''age'', ''idle'', ''db'', ''sub'', ''psub'', ''multi'', ''qbuf'', ''qbuf-free'',
     ''obl'', ''argv-mem'', ''oll'', ''omem'', ''tot-mem'']"

fun int_fields_loop :: "string list \<Rightarrow> (string, pyval) dict \<Rightarrow> exc + (string, pyval) dict" where
  "int_fields_loop [] d = Inr d"
| "int_fields_loop (f # fs) d = (case dict_get d f of
      None \<Rightarrow> Inl (Exc KeyError f)
    | Some v \<Rightarrow> bindE (to_int_val v) (\<lambda>n. int_fields_loop fs (dict_set f n d)))"

definition val_dict :: "(string, pyval) dict \<Rightarrow> pyval" where
  "val_dict d = PDict (map (\<lambda>(k, v). (PStr k, v)) d)"

definition parse_client_info :: "pyval \<Rightarrow> exc + pyval" where
  "parse_client_info value = bindE (as_text value) (\<lambda>s.
     bindE (mapE (split_pair (CHR ''='')) (split_ws s)) (\<lambda>ps.
     bindE (int_fields_loop client_int_fields (map (\<lambda>(k, v). (k, PStr v)) (dict_of_pairs ps))) (\<lambda>d.
       Inr (val_dict d))))"

subsection \<open>INFO\<close>

text \<open>
  \<open>get_value\<close>. A comma separated value without \<open>=\<close> is split into parts that have
  neither, and the value of an item of a dictionary has no comma, so two levels are enough.
\<close>

definition info_scalar :: "string \<Rightarrow> pyval" where
  "info_scalar v =
     (if CHR ''.'' \<in> set v then (case py_float v of Some f \<Rightarrow> PFloat f | None \<Rightarrow> PStr v)
      else (case py_int v of Some n \<Rightarrow> PInt n | None \<Rightarrow> PStr v))"

definition info_item :: "string \<Rightarrow> (string, pyval) dict \<Rightarrow> (string, pyval) dict" where
  "info_item item d = (case rsplit1 (CHR ''='') item of
      Some (k, v) \<Rightarrow> dict_set k (info_scalar v) d
    | None \<Rightarrow> dict_set item (PBool True) d)"

definition info_value :: "string \<Rightarrow> pyval" where
  "info_value v =
     (let items = filter (\<lambda>i. i \<noteq> []) (split_char (CHR '','') v) in
      if CHR '','' \<notin> set v \<and> CHR ''='' \<notin> set v then info_scalar v
      else if CHR ''='' \<notin> set v then PList (map info_scalar items)
      else val_dict (foldl (\<lambda>d i. info_item i d) [] items))"

definition append_to :: "string \<Rightarrow> pyval \<Rightarrow> (string, pyval) dict \<Rightarrow> exc + (string, pyval) dict" where
  "append_to name v d = (case dict_get d name of
      None \<Rightarrow> Inr (dict_set name (PList [v]) d)
    | Some (PList xs) \<Rightarrow> Inr (dict_set name (PList (xs @ [v])) d)
    | Some _ \<Rightarrow> Inl (Exc AttributeError ''append''))"

definition info_line :: "string \<Rightarrow> (string, pyval) dict \<Rightarrow> exc + (string, pyval) dict" where
  "info_line l d =
     (if l = [] \<or> hd l = CHR ''#'' then Inr d
      else (case split1 (CHR '':'') l of
          None \<Rightarrow> append_to ''__raw__'' (PStr l) d
        | Some (k, v) \<Rightarrow>
            (let (key, value) = (if k = ''cmdstat_host'' then the (rsplit1 (CHR '':'') l) else (k, v)) in
             if key = ''module'' then append_to ''modules'' (info_value value) d
             else Inr (dict_set key (info_value value) d))))"

fun info_lines :: "string list \<Rightarrow> (string, pyval) dict \<Rightarrow> exc + (string, pyval) dict" where
  "info_lines [] d = Inr d"
| "info_lines (l # ls) d = bindE (info_line l d) (info_lines ls)"

definition parse_info :: "pyval \<Rightarrow> exc + pyval" where
  "parse_info response = bindE (as_text response) (\<lambda>s.
     bindE (info_lines (splitlines s) []) (\<lambda>d. Inr (val_dict d)))"

subsection \<open>Cluster nodes\<close>

text \<open>\<open>s[1:-1]\<close>.\<close>

definition strip_ends :: "string \<Rightarrow> string" where
  "strip_ends s = butlast (tl s)"

fun parse_slots_loop :: "string list \<Rightarrow> pyval list \<Rightarrow> pyval list \<Rightarrow> exc + (pyval list \<times> pyval list)" where
  "parse_slots_loop [] slots migrations = Inr (slots, migrations)"
| "parse_slots_loop (s # ss) slots migrations =
     (let entry = (\<lambda>sep state. case split1_sub sep (strip_ends s) of
          None \<Rightarrow> Inl (Exc ValueError ''not enough values to unpack'')
        | Some (slot, node) \<Rightarrow> parse_slots_loop ss slots (migrations @
            [PDict [(PStr ''slot'', PStr slot), (PStr ''node_id'', PStr node), (PStr ''state'', PStr state)]])) in
      if has_sub ''->-'' s then entry ''->-'' ''migrating''
      else if has_sub ''-<-'' s then entry ''-<-'' ''importing''
      else parse_slots_loop ss (slots @ [PList (map PStr (split_char (CHR ''-'') s))]) migrations)"

definition parse_slots :: "string list \<Rightarrow> exc + (pyval list \<times> pyval list)" where
  "parse_slots ranges = parse_slots_loop ranges [] []"

definition node_hostname :: "string \<Rightarrow> exc + string" where
  "node_hostname address =
     (if CHR ''@'' \<in> set address \<and> CHR '','' \<in> set address then
        (case split_char (CHR '','') (split_char (CHR ''@'') address ! 1) of
           _ # h # _ \<Rightarrow> Inr h
         | _ \<Rightarrow> Inl index_error)
      else Inr [])"

definition parse_node_line :: "string \<Rightarrow> exc + (string \<times> pyval)" where
  "parse_node_line line =
     (case split_char (CHR '' '') line of
        node_id # address # flags # master_id # ping # pong # epoch # link # rest \<Rightarrow>
          bindE (node_hostname address) (\<lambda>hostname.
          bindE (parse_slots rest) (\<lambda>(slots, migrations).
            Inr (hd (split_char (CHR ''@'') address),
              val_dict [(''node_id'', PStr node_id), (''hostname'', PStr hostname), (''flags'', PStr flags),
                (''master_id'', PStr master_id), (''last_ping_sent'', PStr ping), (''last_pong_rcvd'', PStr pong),
                (''epoch'', PStr epoch), (''slots'', PList slots), (''migrations'', PList migrations),
                (''connected'', PBool (link = ''connected''))])))
      | _ \<Rightarrow> Inl (Exc ValueError ''not enough values to unpack (expected 8)''))"

definition node_lines :: "pyval \<Rightarrow> exc + string list" where
  "node_lines response = (case response of
      PStr s \<Rightarrow> Inr (splitlines s)
    | PBytes b \<Rightarrow> mapE (\<lambda>l. Inr (utf8_replace l)) (splitlines b)
    | _ \<Rightarrow> bindE (py_iter response) (mapE as_text))"

definition parse_cluster_nodes :: "pyval \<Rightarrow> exc + pyval" where
  "parse_cluster_nodes response = bindE (node_lines response) (\<lambda>ls.
     bindE (mapE parse_node_line ls) (\<lambda>ps. Inr (val_dict (dict_of_pairs ps))))"

subsection \<open>Sentinel\<close>

definition SENTINEL_STATE_TYPES :: "(string, pyval \<Rightarrow> exc + pyval) dict" where
  "SENTINEL_STATE_TYPES = map (\<lambda>n. (n, to_int_val))
     [''can-failover-its-master'', ''config-epoch'', ''down-after-milliseconds'', ''failover-timeout'',
      ''info-refresh'', ''last-hello-message'', ''last-ok-ping-reply'', ''last-ping-reply'',
      ''last-ping-sent'', ''master-link-down-time'', ''master-port'', ''num-other-sentinels'',
      ''num-slaves'', ''o-down-time'', ''pending-commands'', ''parallel-syncs'', ''port'', ''quorum'',
      ''role-reported-time'', ''s-down-time'', ''slave-priority'', ''slave-repl-offset'',
      ''voted-leader-epoch'']"

definition sentinel_flag_names :: "(string \<times> string) list" where
  "sentinel_flag_names = [(''is_master'', ''master''), (''is_slave'', ''slave''), (''is_sdown'', ''s_down''),
     (''is_odown'', ''o_down''), (''is_sentinel'', ''sentinel''), (''is_disconnected'', ''disconnected''),
     (''is_master_down'', ''master_down'')]"

definition parse_sentinel_state :: "pyval list \<Rightarrow> exc + (pyval \<times> pyval) list" where
  "parse_sentinel_state item = bindE (pairs_to_dict_typed item SENTINEL_STATE_TYPES) (\<lambda>result.
     case pd_get (PStr ''flags'') result of
       None \<Rightarrow> Inl (Exc KeyError ''flags'')
     | Some (PStr s) \<Rightarrow>
         (let flags = split_char (CHR '','') s in
          Inr (foldl (\<lambda>d (name, flag). pd_set (PStr name) (PBool (flag \<in> set flags)) d) result sentinel_flag_names))
     | Some _ \<Rightarrow> Inl (Exc AttributeError ''split''))"

definition parse_sentinel_master :: "pyval \<Rightarrow> exc + pyval" where
  "parse_sentinel_master response = bindE (py_iter response) (\<lambda>xs.
     bindE (parse_sentinel_state (map str_if_bytes xs)) (\<lambda>d. Inr (PDict d)))"

fun sentinel_masters_loop :: "pyval list \<Rightarrow> (pyval \<times> pyval) list \<Rightarrow> exc + (pyval \<times> pyval) list" where
  "sentinel_masters_loop [] acc = Inr acc"
| "sentinel_masters_loop (i # is) acc = bindE (py_iter i) (\<lambda>xs.
     bindE (parse_sentinel_state (map str_if_bytes xs)) (\<lambda>d.
       case pd_get (PStr ''name'') d of
         None \<Rightarrow> Inl (Exc KeyError ''name'')
       | Some n \<Rightarrow> (if hashable n then sentinel_masters_loop is (pd_set n (PDict d) acc) else Inl unhashable_error)))"

definition parse_sentinel_masters :: "pyval \<Rightarrow> exc + pyval" where
  "parse_sentinel_masters response = bindE (py_iter response) (\<lambda>is.
     bindE (sentinel_masters_loop is []) (\<lambda>d. Inr (PDict d)))"

definition parse_sentinel_slaves_and_sentinels :: "pyval \<Rightarrow> exc + pyval" where
  "parse_sentinel_slaves_and_sentinels response = bindE (py_iter response) (\<lambda>is.
     bindE (mapE parse_sentinel_master is) (\<lambda>ds. Inr (PList ds)))"

definition parse_sentinel_get_master :: "pyval \<Rightarrow> exc + pyval" where
  "parse_sentinel_get_master response =
     (if \<not> truthy response then Inr PNone
      else bindE (py_index response 0) (\<lambda>h. bindE (py_index response 1) (\<lambda>p.
        bindE (to_int_val p) (\<lambda>n. Inr (PTuple [h, n])))))"

text \<open>
  The RESP3 form of a state. The type table is keyed by strings, and after any failure the
  value is looked up under the decoded key.
\<close>

fun sentinel_resp3_loop :: "(pyval \<times> pyval) list \<Rightarrow> (pyval \<times> pyval) list \<Rightarrow> (pyval \<times> pyval) list \<Rightarrow>
  exc + (pyval \<times> pyval) list" where
  "sentinel_resp3_loop response [] acc = Inr acc"
| "sentinel_resp3_loop response ((k, v) # ps) acc =
     (case (case k of PStr name \<Rightarrow> (case dict_get SENTINEL_STATE_TYPES name of
                Some f \<Rightarrow> (case f (str_if_bytes v) of Inr x \<Rightarrow> Some x | Inl _ \<Rightarrow> None) | None \<Rightarrow> None)
            | _ \<Rightarrow> None) of
        Some x \<Rightarrow> sentinel_resp3_loop response ps (pd_set (str_if_bytes k) x acc)
      | None \<Rightarrow> (case pd_get (str_if_bytes k) response of
            None \<Rightarrow> Inl (Exc KeyError [])
          | Some x \<Rightarrow> sentinel_resp3_loop response ps (pd_set (str_if_bytes k) x acc)))"

definition parse_sentinel_state_resp3 :: "(pyval \<times> pyval) list \<Rightarrow> exc + pyval" where
  "parse_sentinel_state_resp3 response = bindE (sentinel_resp3_loop response response []) (\<lambda>result.
     case pd_get (PStr ''flags'') result of
       None \<Rightarrow> Inl (Exc KeyError ''flags'')
     | Some (PStr s) \<Rightarrow> Inr (PDict (pd_set (PStr ''flags'')
         (PSet (map PStr (remdups (split_char (CHR '','') s)))) result))
     | Some _ \<Rightarrow> Inl (Exc AttributeError ''split''))"


section \<open>Facts on the callbacks\<close>

lemma evens_odds_unpair [simp]: "evens (unpair ps) = map fst ps" "odds (unpair ps) = map snd ps"
  by (induction ps rule: unpair.induct) simp_all

lemma unpair_eq_Nil [simp]: "unpair ps = [] \<longleftrightarrow> ps = []"
  by (cases ps rule: unpair.cases) simp_all

lemma map_str_if_bytes_valid: "list_all utf8_valid ks \<Longrightarrow> map (str_if_bytes \<circ> PBytes) ks = map PStr ks"
  by (induction ks) simp_all

lemma mapE_scores:
  "(\<And>v s. (v, s) \<in> set ps \<Longrightarrow> cast s = Inr (f s)) \<Longrightarrow>
   score_pairs cast (unpair ps) = Inr (PList (map (\<lambda>(v, s). PTuple [v, f s]) ps))"
  by (induction ps rule: unpair.induct) (auto simp: score_pairs_def bindE_eq_Inr)

subsection \<open>Groups\<close>

text \<open>Consecutive full groups of \<open>n\<close> elements.\<close>

definition groups_of :: "nat \<Rightarrow> 'a list \<Rightarrow> 'a list list" where
  "groups_of n xs = map (\<lambda>k. take n (drop (k * n) xs)) [0..<length xs div n]"

lemma length_stride: "0 < n \<Longrightarrow> length (stride n i xs) = (length xs - i + n - 1) div n"
  by (simp add: stride_def)

lemma min_stride:
  fixes L n :: nat
  assumes "0 < n"
  shows "Min (set (map length (map (\<lambda>i. stride n i xs) [0..<n]))) = length xs div n"
proof (rule Min_eqI)
  show "finite (set (map length (map (\<lambda>i. stride n i xs) [0..<n])))" by simp
next
  fix y assume "y \<in> set (map length (map (\<lambda>i. stride n i xs) [0..<n]))"
  then obtain i where i: "i < n" "y = (length xs - i + n - 1) div n"
    using assms by (auto simp: length_stride)
  have "length xs \<le> length xs - i + n - 1" using i(1) by linarith
  then show "length xs div n \<le> y" unfolding i(2) by (rule div_le_mono)
next
  have "(length xs - (n - 1) + n - 1) div n = length xs div n"
  proof (cases "n - 1 \<le> length xs")
    case True
    then have e: "length xs - (n - 1) + n - 1 = length xs" using assms by linarith
    show ?thesis by (simp only: e)
  next
    case False
    then have "length xs - (n - 1) + n - 1 < n" "length xs < n" using assms by linarith+
    then show ?thesis by simp
  qed
  then have "length (stride n (n - 1) xs) = length xs div n"
    using assms by (simp only: length_stride)
  moreover have "n - 1 \<in> set [0..<n]" using assms by simp
  ultimately show "length xs div n \<in> set (map length (map (\<lambda>i. stride n i xs) [0..<n]))"
    by (metis (no_types, lifting) image_eqI list.map_comp list.set_map comp_apply)
qed

lemma zip_strides:
  assumes "0 < n"
  shows "zip_all (map (\<lambda>i. stride n i xs) [0..<n]) = groups_of n xs"
proof -
  have ne: "map (\<lambda>i. stride n i xs) [0..<n] \<noteq> []" using assms by simp
  have row: "map (\<lambda>ys. ys ! k) (map (\<lambda>i. stride n i xs) [0..<n]) = take n (drop (k * n) xs)"
    if k: "k < length xs div n" for k
  proof -
    have "Suc k * n \<le> length xs div n * n" using k by (intro mult_le_mono1) simp
    also have "\<dots> \<le> length xs" by simp
    finally have kn: "k * n + n \<le> length xs" by (simp add: add.commute)
    show ?thesis
    proof (rule nth_equalityI)
      show "length (map (\<lambda>ys. ys ! k) (map (\<lambda>i. stride n i xs) [0..<n])) = length (take n (drop (k * n) xs))"
        using kn by simp
    next
      fix i assume "i < length (map (\<lambda>ys. ys ! k) (map (\<lambda>i. stride n i xs) [0..<n]))"
      then have i: "i < n" by simp
      have "Suc k * n \<le> length xs - i + n - 1" using kn i by simp
      then have "Suc k \<le> (length xs - i + n - 1) div n" using assms by (metis div_le_mono nonzero_mult_div_cancel_right not_less_zero)
      then have "k < (length xs - i + n - 1) div n" by simp
      then show "map (\<lambda>ys. ys ! k) (map (\<lambda>i. stride n i xs) [0..<n]) ! i = take n (drop (k * n) xs) ! i"
        using i kn by (simp add: stride_def add.commute)
    qed
  qed
  show ?thesis
    unfolding zip_all_def groups_of_def min_stride [OF assms] using ne row by simp
qed

lemma concat_groups: "concat (groups_of n xs) = take (length xs div n * n) xs"
proof -
  have "concat (map (\<lambda>k. take n (drop (k * n) xs)) [0..<m]) = take (m * n) xs" for m
  proof (induction m)
    case 0
    show ?case by simp
  next
    case (Suc m)
    have "concat (map (\<lambda>k. take n (drop (k * n) xs)) [0..<Suc m]) = take (m * n) xs @ take n (drop (m * n) xs)"
      using Suc by simp
    also have "\<dots> = take (m * n + n) xs" by (simp only: take_add)
    finally show ?case by (simp add: add.commute)
  qed
  then show ?thesis by (simp add: groups_of_def)
qed

subsection \<open>Slots of a node\<close>

text \<open>What a node line says about slots, and how the server prints it.\<close>

datatype slot_item = SlotRange nat nat | SlotOne nat | SlotMigrating nat string | SlotImporting nat string

fun print_slot :: "slot_item \<Rightarrow> string" where
  "print_slot (SlotRange a b) = dec_nat a @ ''-'' @ dec_nat b"
| "print_slot (SlotOne a) = dec_nat a"
| "print_slot (SlotMigrating a n) = ''['' @ dec_nat a @ ''->-'' @ n @ '']''"
| "print_slot (SlotImporting a n) = ''['' @ dec_nat a @ ''-<-'' @ n @ '']''"

fun slot_ok :: "slot_item \<Rightarrow> bool" where
  "slot_ok (SlotMigrating _ n) = (CHR ''>'' \<notin> set n \<and> CHR ''<'' \<notin> set n)"
| "slot_ok (SlotImporting _ n) = (CHR ''>'' \<notin> set n \<and> CHR ''<'' \<notin> set n)"
| "slot_ok _ = True"

definition slots_part :: "slot_item \<Rightarrow> pyval list" where
  "slots_part i = (case i of
      SlotRange a b \<Rightarrow> [PList [PStr (dec_nat a), PStr (dec_nat b)]]
    | SlotOne a \<Rightarrow> [PList [PStr (dec_nat a)]]
    | _ \<Rightarrow> [])"

definition migrations_part :: "slot_item \<Rightarrow> pyval list" where
  "migrations_part i = (case i of
      SlotMigrating a n \<Rightarrow> [PDict [(PStr ''slot'', PStr (dec_nat a)), (PStr ''node_id'', PStr n), (PStr ''state'', PStr ''migrating'')]]
    | SlotImporting a n \<Rightarrow> [PDict [(PStr ''slot'', PStr (dec_nat a)), (PStr ''node_id'', PStr n), (PStr ''state'', PStr ''importing'')]]
    | _ \<Rightarrow> [])"

lemma no_char_no_sub: "c \<in> set p \<Longrightarrow> c \<notin> set s \<Longrightarrow> \<not> has_sub p s"
proof (induction s)
  case Nil
  then show ?case by auto
next
  case (Cons x xs)
  have "\<not> starts_with p (x # xs)"
  proof
    assume "starts_with p (x # xs)"
    then have "set p \<subseteq> set (x # xs)" unfolding starts_with_def by (metis set_take_subset)
    with Cons.prems show False by auto
  qed
  with Cons show ?case by simp
qed

lemma has_sub_append: "has_sub p (a @ p @ b)"
proof (induction a)
  case Nil
  have "starts_with p (p @ b)" by (simp add: starts_with_def)
  then show ?case by (cases "p @ b") auto
next
  case (Cons x a)
  then show ?case by simp
qed

lemma split1_sub_append:
  assumes "p = c # p'" "c \<notin> set a"
  shows "split1_sub p (a @ p @ b) = Some (a, b)"
  using assms(2)
proof (induction a)
  case Nil
  show ?case using assms(1) by (simp add: starts_with_def)
next
  case (Cons x a)
  have "\<not> starts_with p (x # a @ p @ b)"
    using Cons.prems assms(1) by (auto simp: starts_with_def)
  then show ?case using Cons by simp
qed

lemma dash_dec_nat: "CHR ''-'' \<notin> set (dec_nat n)" "CHR ''>'' \<notin> set (dec_nat n)" "CHR ''<'' \<notin> set (dec_nat n)"
  using dec_nat_digits [of "CHR ''-''" n] dec_nat_digits [of "CHR ''>''" n] dec_nat_digits [of "CHR ''<''" n]
  by (auto simp: is_digit_def)

lemma parse_slots_loop_print:
  "list_all slot_ok items \<Longrightarrow>
   parse_slots_loop (map print_slot items) ss ms =
     Inr (ss @ concat (map slots_part items), ms @ concat (map migrations_part items))"
proof (induction items arbitrary: ss ms)
  case Nil
  then show ?case by simp
next
  case (Cons i items)
  show ?case
  proof (cases i)
    case (SlotRange a b)
    let ?s = "dec_nat a @ ''-'' @ dec_nat b"
    have n: "\<not> has_sub ''->-'' ?s" "\<not> has_sub ''-<-'' ?s"
      by (rule no_char_no_sub [of "CHR ''>''"], simp_all add: dash_dec_nat)
         (rule no_char_no_sub [of "CHR ''<''"], simp_all add: dash_dec_nat)
    have sp: "split_char (CHR ''-'') ?s = [dec_nat a, dec_nat b]"
      by (simp add: split_char_append split_char_no_sep dash_dec_nat)
    show ?thesis using Cons SlotRange n sp
      by (simp add: slots_part_def migrations_part_def Let_def del: append_Cons append_Nil has_sub.simps)
  next
    case (SlotOne a)
    have n: "\<not> has_sub ''->-'' (dec_nat a)" "\<not> has_sub ''-<-'' (dec_nat a)"
      by (rule no_char_no_sub [of "CHR ''>''"], simp_all add: dash_dec_nat)
         (rule no_char_no_sub [of "CHR ''<''"], simp_all add: dash_dec_nat)
    then show ?thesis using Cons SlotOne
      by (simp add: slots_part_def migrations_part_def Let_def split_char_no_sep dash_dec_nat)
  next
    case (SlotMigrating a node)
    let ?s = "''['' @ dec_nat a @ ''->-'' @ node @ '']''"
    have h: "has_sub ''->-'' ?s" using has_sub_append [of "''->-''" "''['' @ dec_nat a" "node @ '']''"] by simp
    have e: "strip_ends ?s = dec_nat a @ ''->-'' @ node" by (simp add: strip_ends_def butlast_append)
    have sp: "split1_sub ''->-'' (dec_nat a @ ''->-'' @ node) = Some (dec_nat a, node)"
      by (rule split1_sub_append [OF refl dash_dec_nat(1)])
    show ?thesis using Cons SlotMigrating h e sp
      by (simp add: slots_part_def migrations_part_def Let_def del: append_Cons append_Nil has_sub.simps)
  next
    case (SlotImporting a node)
    let ?s = "''['' @ dec_nat a @ ''-<-'' @ node @ '']''"
    have n: "\<not> has_sub ''->-'' ?s"
      using Cons.prems SlotImporting by (intro no_char_no_sub [of "CHR ''>''"]) (simp_all add: dash_dec_nat)
    have h: "has_sub ''-<-'' ?s" using has_sub_append [of "''-<-''" "''['' @ dec_nat a" "node @ '']''"] by simp
    have e: "strip_ends ?s = dec_nat a @ ''-<-'' @ node" by (simp add: strip_ends_def butlast_append)
    have sp: "split1_sub ''-<-'' (dec_nat a @ ''-<-'' @ node) = Some (dec_nat a, node)"
      by (rule split1_sub_append [OF refl dash_dec_nat(1)])
    show ?thesis using Cons SlotImporting h n e sp
      by (simp add: slots_part_def migrations_part_def Let_def del: append_Cons append_Nil has_sub.simps)
  qed
qed

subsection \<open>Lines\<close>

lemma splitlines_crlf:
  "list_all (\<lambda>c. \<not> is_eol c) l \<Longrightarrow> splitlines (l @ CHR 0x0D # CHR 0x0A # rest) = l # splitlines rest"
proof (induction l)
  case Nil
  show ?case by simp
next
  case (Cons c l)
  then obtain d cs where dc: "l @ CHR 0x0D # CHR 0x0A # rest = d # cs" by (cases l) auto
  have "c \<noteq> CHR 0x0D" "\<not> is_eol c" using Cons.prems by (auto simp: is_eol_def)
  with Cons dc show ?case by (simp del: splitlines.simps(3)) (simp add: dc)
qed

definition text_lines :: "string list \<Rightarrow> string" where
  "text_lines ls = concat (map (\<lambda>l. l @ [CHR 0x0D, CHR 0x0A]) ls)"

lemma splitlines_text: "list_all (list_all (\<lambda>c. \<not> is_eol c)) ls \<Longrightarrow> splitlines (text_lines ls) = ls"
  by (induction ls) (simp_all add: text_lines_def splitlines_crlf)

definition info_key_ok :: "string \<Rightarrow> bool" where
  "info_key_ok k = (CHR '':'' \<notin> set k \<and> k \<noteq> [] \<and> hd k \<noteq> CHR ''#'' \<and> k \<noteq> ''cmdstat_host'' \<and> k \<noteq> ''module'')"

lemma info_line_field:
  assumes "info_key_ok k"
  shows "info_line (k @ '':'' @ v) d = Inr (dict_set k (info_value v) d)"
proof -
  have "split1 (CHR '':'') (k @ CHR '':'' # v) = Some (k, v)"
    using assms by (intro split1_append) (simp add: info_key_ok_def)
  moreover have "k @ CHR '':'' # v \<noteq> []" "hd (k @ CHR '':'' # v) \<noteq> CHR ''#''"
    using assms by (auto simp: info_key_ok_def hd_append)
  ultimately show ?thesis using assms by (simp add: info_line_def info_key_ok_def)
qed

lemma info_lines_fields:
  "list_all (info_key_ok \<circ> fst) kvs \<Longrightarrow>
   info_lines (map (\<lambda>(k, v). k @ '':'' @ v) kvs) d = Inr (dict_update d (map (\<lambda>(k, v). (k, info_value v)) kvs))"
proof (induction kvs arbitrary: d)
  case Nil
  then show ?case by simp
next
  case (Cons p kvs)
  obtain k v where p: "p = (k, v)" by force
  have "info_line (k @ '':'' @ v) d = Inr (dict_set k (info_value v) d)"
    using Cons.prems by (intro info_line_field) (simp add: p)
  with Cons show ?case by (simp add: p)
qed

section \<open>Properties\<close>

text \<open>a flat reply of keys and values becomes the dictionary that maps each key, decoded to
  text, to its value, in the order of the reply.\<close>

theorem pairs_to_dict_correct:
  assumes "distinct ks" "length ks = length vs" "list_all utf8_valid ks"
  shows "pairs_to_dict (PList (unpair (zip (map PBytes ks) vs))) True False = Inr (PDict (zip (map PStr ks) vs))"
proof -
  have "py_dict [] (zip (map PStr ks) vs) = Inr (zip (map PStr ks) vs)"
    using py_dict_distinct_str [of "[]" ks "[]" vs] assms(1,2) by simp
  then show ?thesis
    using assms(2)
    by (simp add: pairs_to_dict_def py_halves_def py_iter_def py_dict_val_def map_str_if_bytes_valid [OF assms(3)])
qed

theorem pairs_to_dict_correct_witness:
  "pairs_to_dict (PList (unpair (zip (map PBytes [''f1'', ''f2'']) [PInt 1, PInt 2]))) True False
     = Inr (PDict (zip (map PStr [''f1'', ''f2'']) [PInt 1, PInt 2]))"
  by (rule pairs_to_dict_correct) (simp_all add: ascii_def)

text \<open>with \<open>groups = n\<close> a reply is cut into its consecutive full groups of \<open>n\<close>: each
  tuple has \<open>n\<close> elements and together they are the reply up to an incomplete last group.\<close>

theorem sort_return_tuples_groups:
  assumes "0 < n" "xs \<noteq> []"
  shows "\<exists>gs. sort_return_tuples (PList xs) (Some (int n)) = Inr (PList (map PTuple gs)) \<and>
    (\<forall>g \<in> set gs. length g = n) \<and> concat gs = take (length xs div n * n) xs"
proof (intro exI conjI)
  show "sort_return_tuples (PList xs) (Some (int n)) = Inr (PList (map PTuple (groups_of n xs)))"
    using assms by (simp add: sort_return_tuples_def py_iter_def zip_strides)
  show "\<forall>g \<in> set (groups_of n xs). length g = n"
  proof
    fix g assume "g \<in> set (groups_of n xs)"
    then obtain k where k: "k < length xs div n" "g = take n (drop (k * n) xs)" by (auto simp: groups_of_def)
    have "Suc k * n \<le> length xs div n * n" using k(1) by (intro mult_le_mono1) simp
    also have "\<dots> \<le> length xs" by simp
    finally show "length g = n" using k(2) by simp
  qed
  show "concat (groups_of n xs) = take (length xs div n * n) xs" by (rule concat_groups)
qed

theorem sort_return_tuples_groups_witness:
  "\<exists>gs. sort_return_tuples (PList [PInt 1, PInt 2, PInt 3]) (Some (int 2)) = Inr (PList (map PTuple gs)) \<and>
    (\<forall>g \<in> set gs. length g = 2) \<and> concat gs = take (length [PInt 1, PInt 2, PInt 3] div 2 * 2) [PInt 1, PInt 2, PInt 3]"
  by (rule sort_return_tuples_groups) simp_all

text \<open>the slots and migrations of a node line are read back from the text the server prints.\<close>

theorem parse_slots_roundtrip:
  assumes "list_all slot_ok items"
  shows "parse_slots (map print_slot items) =
    Inr (concat (map slots_part items), concat (map migrations_part items))"
  using parse_slots_loop_print [OF assms, of "[]" "[]"] by (simp add: parse_slots_def)

theorem parse_slots_roundtrip_witness:
  "parse_slots (map print_slot [SlotRange 0 5460, SlotMigrating 93 ''292f8b365bb7edb5''])
    = Inr (concat (map slots_part [SlotRange 0 5460, SlotMigrating 93 ''292f8b365bb7edb5'']),
           concat (map migrations_part [SlotRange 0 5460, SlotMigrating 93 ''292f8b365bb7edb5'']))"
  by (rule parse_slots_roundtrip) simp

text \<open>the text of INFO becomes a dictionary with the parsed value of every field, the last
  line of a field counting.\<close>

theorem parse_info_fields:
  assumes "list_all (info_key_ok \<circ> fst) kvs"
    and "list_all (list_all (\<lambda>c. \<not> is_eol c)) (map (\<lambda>(k, v). k @ '':'' @ v) kvs)"
  shows "parse_info (PStr (text_lines (map (\<lambda>(k, v). k @ '':'' @ v) kvs)))
    = Inr (val_dict (dict_of_pairs (map (\<lambda>(k, v). (k, info_value v)) kvs)))"
  using splitlines_text [OF assms(2)] info_lines_fields [OF assms(1), of "[]"]
  by (simp add: parse_info_def as_text_def dict_of_pairs_def)

theorem parse_info_fields_witness:
  "parse_info (PStr (text_lines (map (\<lambda>(k, v). k @ '':'' @ v) [(''role'', ''master''), (''db0'', ''keys=1,expires=0'')])))
    = Inr (val_dict (dict_of_pairs (map (\<lambda>(k, v). (k, info_value v)) [(''role'', ''master''), (''db0'', ''keys=1,expires=0'')])))"
  by (rule parse_info_fields) (simp_all add: info_key_ok_def is_eol_def)

text \<open>the RESP3 form of a sentinel state raises \<open>KeyError\<close> whenever its keys are bytes,
  that is, on every client that does not decode responses.\<close>

theorem sentinel_resp3_bytes_keys_raise:
  assumes "kvs \<noteq> []"
  shows "parse_sentinel_state_resp3 (map (\<lambda>(k, v). (PBytes k, v)) kvs) = Inl (Exc KeyError [])"
proof -
  have none: "pd_get (PStr s) (map (\<lambda>(k, v). (PBytes k, v)) kvs) = None" for s
    by (induction kvs) auto
  obtain k v rest where "kvs = (k, v) # rest" using assms by (cases kvs) auto
  then show ?thesis
    using none [of "utf8_replace k"] by (simp add: parse_sentinel_state_resp3_def)
qed

theorem sentinel_resp3_bytes_keys_raise_witness:
  "parse_sentinel_state_resp3 (map (\<lambda>(k, v). (PBytes k, v)) [(''name'', PBytes ''mymaster'')]) = Inl (Exc KeyError [])"
  by (rule sentinel_resp3_bytes_keys_raise) simp

end
