(* ===== verification/ClusterNodes.thy ===== *)
theory ClusterNodes
  imports KeySlot Utils
begin

text \<open>
  The topology of a cluster as the client keeps it (\<open>redis/cluster.py\<close>): \<open>ClusterNode\<close>,
  \<open>LoadBalancer\<close> and \<open>NodesManager\<close>. Nodes are objects that several tables share, and
  so are the node lists of the slots: both live in a store, a table holds references. What the
  servers answer to \<open>CLUSTER SLOTS\<close>, name resolution and address remapping are arguments.
\<close>

section \<open>State\<close>

datatype server_type = PRIMARY | REPLICA

record cnode =
  cn_host :: string
  cn_port :: int
  cn_type :: "server_type option"
  cn_connected :: bool

definition get_node_name :: "string \<Rightarrow> int \<Rightarrow> string" where
  "get_node_name host port = host @ '':'' @ dec_int port"

definition cn_name :: "cnode \<Rightarrow> string" where
  "cn_name n = get_node_name (cn_host n) (cn_port n)"

text \<open>
  \<open>nm_heap\<close> are the node objects and \<open>nm_lists\<close> the list objects, both referred to by
  their index.
\<close>

record nodes_manager =
  nm_heap :: "cnode list"
  nm_nodes :: "(string, nat) dict"
  nm_lists :: "nat list list"
  nm_slots :: "int \<Rightarrow> nat option"
  nm_startup :: "(string, nat) dict"
  nm_default :: "nat option"
  nm_moved :: "redirect option"
  nm_lb :: "(string, nat) dict"
  nm_require_full_coverage :: bool
  nm_dynamic_startup_nodes :: bool

type_synonym 'a nm_op = "(nodes_manager, exc, 'a) action"

definition resolve_host :: "(string \<Rightarrow> string) \<Rightarrow> string \<Rightarrow> string" where
  "resolve_host gethostbyname host = (if host = ''localhost'' then gethostbyname host else host)"

definition new_cluster_node :: "(string \<Rightarrow> string) \<Rightarrow> string \<Rightarrow> int \<Rightarrow> server_type option \<Rightarrow> cnode" where
  "new_cluster_node gethostbyname host port t =
     \<lparr>cn_host = resolve_host gethostbyname host, cn_port = port, cn_type = t, cn_connected = False\<rparr>"

definition node_at :: "nodes_manager \<Rightarrow> nat \<Rightarrow> cnode" where
  "node_at m i = nm_heap m ! i"

definition name_of :: "nodes_manager \<Rightarrow> nat \<Rightarrow> string" where
  "name_of m i = cn_name (node_at m i)"

text \<open>The nodes of a slot, primary first.\<close>

definition slot_nodes :: "nodes_manager \<Rightarrow> int \<Rightarrow> nat list option" where
  "slot_nodes m slot = map_option (\<lambda>l. nm_lists m ! l) (nm_slots m slot)"

definition set_type :: "nat \<Rightarrow> server_type \<Rightarrow> nodes_manager \<Rightarrow> nodes_manager" where
  "set_type i t m = m\<lparr>nm_heap := (nm_heap m)[i := (node_at m i)\<lparr>cn_type := Some t\<rparr>]\<rparr>"

section \<open>Load balancer\<close>

definition get_server_index :: "string \<Rightarrow> nat \<Rightarrow> (string, nat) dict \<Rightarrow> nat \<times> (string, nat) dict" where
  "get_server_index primary list_size d =
     (let i = (case dict_get d primary of Some k \<Rightarrow> k | None \<Rightarrow> 0)
      in (i, dict_set primary ((i + 1) mod list_size) d))"

section \<open>Looking up nodes\<close>

definition get_node :: "(string \<Rightarrow> string) \<Rightarrow> string \<Rightarrow> int \<Rightarrow> string \<Rightarrow> nodes_manager \<Rightarrow> nat option" where
  "get_node gethostbyname host port node_name m =
     (if host \<noteq> [] \<and> port \<noteq> 0 then dict_get (nm_nodes m) (get_node_name (resolve_host gethostbyname host) port)
      else if node_name \<noteq> [] then dict_get (nm_nodes m) node_name
      else None)"

definition get_nodes_by_server_type :: "server_type \<Rightarrow> nodes_manager \<Rightarrow> nat list" where
  "get_nodes_by_server_type t m = filter (\<lambda>i. cn_type (node_at m i) = Some t) (map snd (nm_nodes m))"

section \<open>MOVED\<close>

definition update_moved_exception :: "redirect \<Rightarrow> unit nm_op" where
  "update_moved_exception e = modS (\<lambda>m. m\<lparr>nm_moved := Some e\<rparr>)"

text \<open>The node of the redirection, as a primary; a new one goes to the nodes cache.\<close>

definition redirected_node :: "(string \<Rightarrow> string) \<Rightarrow> redirect \<Rightarrow> nodes_manager \<Rightarrow> nat \<times> nodes_manager" where
  "redirected_node gethostbyname e m =
     (case get_node gethostbyname (redir_host e) (redir_port e) [] m of
        Some i \<Rightarrow> (i, if cn_type (node_at m i) \<noteq> Some PRIMARY then set_type i PRIMARY m else m)
      | None \<Rightarrow>
          (let n = new_cluster_node gethostbyname (redir_host e) (redir_port e) (Some PRIMARY);
               i = length (nm_heap m)
           in (i, m\<lparr>nm_heap := nm_heap m @ [n], nm_nodes := dict_set (cn_name n) i (nm_nodes m)\<rparr>)))"

text \<open>\<open>list.remove\<close>: the first element with an equal name.\<close>

fun remove_named :: "nodes_manager \<Rightarrow> string \<Rightarrow> nat list \<Rightarrow> nat list" where
  "remove_named m name [] = []"
| "remove_named m name (i # is) = (if name_of m i = name then is else i # remove_named m name is)"

text \<open>
  A failover changes the list object of the slot in place; any other redirection gives the slot
  a new list.
\<close>

definition promote :: "nat \<Rightarrow> nat \<Rightarrow> nodes_manager \<Rightarrow> nodes_manager" where
  "promote l r m =
     (let old_primary = hd (nm_lists m ! l);
          m1 = set_type old_primary REPLICA m;
          ns = remove_named m1 (name_of m1 r) (nm_lists m ! l @ [old_primary]);
          m2 = m1\<lparr>nm_lists := (nm_lists m)[l := ns[0 := r]]\<rparr>
      in if (case nm_default m2 of None \<Rightarrow> False | Some d \<Rightarrow> name_of m2 d = name_of m2 old_primary)
         then m2\<lparr>nm_default := Some r\<rparr> else m2)"

definition update_moved_slots :: "(string \<Rightarrow> string) \<Rightarrow> unit nm_op" where
  "update_moved_slots gethostbyname = (\<lambda>m.
     case nm_moved m of
       None \<Rightarrow> (Inl (Exc AttributeError ''host''), m)
     | Some e \<Rightarrow>
         (case redirected_node gethostbyname e m of (r, m1) \<Rightarrow>
           (case nm_slots m1 (slot_id e) of
              None \<Rightarrow> (Inl (Exc KeyError (dec_int (slot_id e))), m1)
            | Some l \<Rightarrow>
                (let m2 = (if name_of m1 r \<in> name_of m1 ` set (nm_lists m1 ! l) then promote l r m1
                           else m1\<lparr>nm_lists := nm_lists m1 @ [[r]],
                                   nm_slots := (nm_slots m1)(slot_id e \<mapsto> length (nm_lists m1))\<rparr>)
                 in (Inr (), m2\<lparr>nm_moved := None\<rparr>)))))"

section \<open>The node of a slot\<close>

text \<open>\<open>f'{b}'\<close> of a boolean.\<close>

definition py_bool_str :: "bool \<Rightarrow> string" where
  "py_bool_str b = (if b then ''True'' else ''False'')"

definition slot_not_covered :: "int \<Rightarrow> bool \<Rightarrow> exc" where
  "slot_not_covered slot full = Exc SlotNotCoveredError
     (''Slot \"'' @ dec_int slot @ ''\" not covered by the cluster. \"require_full_coverage='' @ py_bool_str full @ ''\"'')"

text \<open>\<open>random.randint(1, n - 1)\<close> is \<open>1 + r mod (n - 1)\<close> for the number \<open>r\<close> drawn.\<close>

definition choose_node ::
  "bool \<Rightarrow> server_type option \<Rightarrow> nat \<Rightarrow> nat list \<Rightarrow> nat nm_op" where
  "choose_node read_from_replicas t rand nodes = (\<lambda>m.
     case (if read_from_replicas then
             (case get_server_index (name_of m (hd nodes)) (length nodes) (nm_lb m) of (i, lb) \<Rightarrow> (i, m\<lparr>nm_lb := lb\<rparr>))
           else if t = None \<or> t = Some PRIMARY \<or> length nodes = 1 then (0, m)
           else (1 + rand mod (length nodes - 1), m)) of
       (i, m1) \<Rightarrow> if i < length nodes then (Inr (nodes ! i), m1)
                 else (Inl (Exc IndexError ''list index out of range''), m1))"

definition get_node_from_slot ::
  "(string \<Rightarrow> string) \<Rightarrow> int \<Rightarrow> bool \<Rightarrow> server_type option \<Rightarrow> nat \<Rightarrow> nat nm_op" where
  "get_node_from_slot gethostbyname slot read_from_replicas t rand =
     bindS (getS nm_moved) (\<lambda>mv.
     thenS (if mv \<noteq> None then update_moved_slots gethostbyname else retS ())
     (bindS (getS (\<lambda>m. slot_nodes m slot)) (\<lambda>ns.
        case ns of
          None \<Rightarrow> bindS (getS nm_require_full_coverage) (\<lambda>b. raiseS (slot_not_covered slot b))
        | Some nodes \<Rightarrow>
            if nodes = [] then bindS (getS nm_require_full_coverage) (\<lambda>b. raiseS (slot_not_covered slot b))
            else choose_node read_from_replicas t rand nodes)))"

section \<open>Discovery\<close>

record slot_entry =
  se_start :: int
  se_end :: int
  se_primary :: "string \<times> int"
  se_replicas :: "(string \<times> int) list"

text \<open>
  \<open>env_slots name\<close> is what connecting to a startup node and asking it for \<open>CLUSTER SLOTS\<close>
  gives; creating the client object of a node, which does not connect, always succeeds.
\<close>

record cluster_env =
  env_resolve :: "string \<Rightarrow> string"
  env_slots :: "string \<Rightarrow> exc + slot_entry list"
  env_remap :: "((string \<times> int) \<Rightarrow> (string \<times> int)) option"

definition remap_host_port :: "cluster_env \<Rightarrow> string \<Rightarrow> int \<Rightarrow> string \<times> int" where
  "remap_host_port env host port = (case env_remap env of Some f \<Rightarrow> f (host, port) | None \<Rightarrow> (host, port))"

text \<open>
  The local variables of \<open>initialize\<close>, with the stores: \<open>ds_slots\<close> is \<open>tmp_slots\<close> and
  \<open>ds_covered\<close> its length.
\<close>

record disc =
  ds_heap :: "cnode list"
  ds_nodes :: "(string, nat) dict"
  ds_lists :: "nat list list"
  ds_slots :: "int \<Rightarrow> nat option"
  ds_covered :: nat
  ds_disagreements :: "string list"

text \<open>\<open>old\<close> is the current nodes cache, whose connected nodes are used again.\<close>

definition get_or_create_cluster_node ::
  "cluster_env \<Rightarrow> (string, nat) dict \<Rightarrow> string \<Rightarrow> int \<Rightarrow> server_type \<Rightarrow> disc \<Rightarrow> nat \<times> disc" where
  "get_or_create_cluster_node env old host port role d =
     (case dict_get (ds_nodes d) (get_node_name host port) of
        Some i \<Rightarrow> (i, d)
      | None \<Rightarrow>
          (let (i, heap) = (case dict_get old (get_node_name host port) of
                  Some i \<Rightarrow> (if cn_connected (ds_heap d ! i) then (i, ds_heap d)
                            else (length (ds_heap d), ds_heap d @ [new_cluster_node (env_resolve env) host port (Some role)]))
                | None \<Rightarrow> (length (ds_heap d), ds_heap d @ [new_cluster_node (env_resolve env) host port (Some role)]));
               heap' = heap[i := (heap ! i)\<lparr>cn_type := Some role\<rparr>]
           in (i, d\<lparr>ds_heap := heap', ds_nodes := dict_set (cn_name (heap' ! i)) i (ds_nodes d)\<rparr>)))"

fun replica_nodes :: "cluster_env \<Rightarrow> (string, nat) dict \<Rightarrow> (string \<times> int) list \<Rightarrow> disc \<Rightarrow> nat list \<times> disc" where
  "replica_nodes env old [] d = ([], d)"
| "replica_nodes env old ((h, p) # rs) d =
     (case remap_host_port env h p of (h', p') \<Rightarrow>
      case get_or_create_cluster_node env old h' p' REPLICA d of (i, d1) \<Rightarrow>
      case replica_nodes env old rs d1 of (ids, d2) \<Rightarrow> (i # ids, d2))"

definition disagree :: "string list \<Rightarrow> exc" where
  "disagree ds = Exc RedisClusterException
     (''startup_nodes could not agree on a valid slots cache: '' @ join_with '', '' ds)"

text \<open>
  The slots of one entry, whose node list is \<open>l\<close>: a free slot gets the list, a taken one must
  agree on its primary; the sixth disagreement raises.
\<close>

definition assign_slot :: "nat \<Rightarrow> nat \<Rightarrow> int \<Rightarrow> (disc, exc, unit) action" where
  "assign_slot l target i = (\<lambda>d.
     case ds_slots d i of
       None \<Rightarrow> (Inr (), d\<lparr>ds_slots := (ds_slots d)(i \<mapsto> l), ds_covered := Suc (ds_covered d)\<rparr>)
     | Some l' \<Rightarrow>
         (let tmp = cn_name (ds_heap d ! hd (ds_lists d ! l'));
              name = cn_name (ds_heap d ! target);
              ds = ds_disagreements d @ [tmp @ '' vs '' @ name @ '' on slot: '' @ dec_int i]
          in if tmp \<noteq> name then
               (if 5 < length ds then (Inl (disagree ds), d\<lparr>ds_disagreements := ds\<rparr>)
                else (Inr (), d\<lparr>ds_disagreements := ds\<rparr>))
             else (Inr (), d)))"

primrec assign_slots :: "nat \<Rightarrow> nat \<Rightarrow> int list \<Rightarrow> (disc, exc, unit) action" where
  "assign_slots l target [] = retS ()"
| "assign_slots l target (i # ks) = thenS (assign_slot l target i) (assign_slots l target ks)"

definition add_entry ::
  "cluster_env \<Rightarrow> (string, nat) dict \<Rightarrow> string \<Rightarrow> slot_entry \<Rightarrow> (disc, exc, unit) action" where
  "add_entry env old startup_host e = (\<lambda>d.
     let host = (if fst (se_primary e) = [] then startup_host else fst (se_primary e)) in
     case remap_host_port env host (snd (se_primary e)) of (h, p) \<Rightarrow>
     case get_or_create_cluster_node env old h p PRIMARY d of (i, d1) \<Rightarrow>
     case replica_nodes env old (se_replicas e) d1 of (ids, d2) \<Rightarrow>
       assign_slots (length (ds_lists d2)) i [se_start e..se_end e]
         (d2\<lparr>ds_lists := ds_lists d2 @ [i # ids]\<rparr>))"

primrec add_entries ::
  "cluster_env \<Rightarrow> (string, nat) dict \<Rightarrow> string \<Rightarrow> slot_entry list \<Rightarrow> (disc, exc, unit) action" where
  "add_entries env old host [] = retS ()"
| "add_entries env old host (e # es) = thenS (add_entry env old host e) (add_entries env old host es)"

definition check_slots_coverage :: "(int \<Rightarrow> nat option) \<Rightarrow> bool" where
  "check_slots_coverage slots = list_all (\<lambda>i. slots (int i) \<noteq> None) [0..<REDIS_CLUSTER_HASH_SLOTS]"

text \<open>
  The loop over the startup nodes. Its value is whether all slots are covered and, when no node
  was reachable, the last exception.
\<close>

definition set_connected :: "nat \<Rightarrow> cnode list \<Rightarrow> cnode list" where
  "set_connected i heap = heap[i := (heap ! i)\<lparr>cn_connected := True\<rparr>]"

definition startup_error :: "exc \<Rightarrow> exc" where
  "startup_error e =
     (if isinstance e ResponseError then Exc RedisClusterException ''Cluster mode is not enabled on this node'' else e)"

fun discover ::
  "cluster_env \<Rightarrow> (string, nat) dict \<Rightarrow> nat list \<Rightarrow> bool \<times> exc option \<Rightarrow> (disc, exc, bool \<times> bool \<times> exc option) action" where
  "discover env old [] (reachable, x) = retS (reachable, False, x)"
| "discover env old (i # ids) (reachable, x) =
     bindS (getS (\<lambda>d. ds_heap d ! i)) (\<lambda>n.
     thenS (modS (\<lambda>d. d\<lparr>ds_heap := set_connected i (ds_heap d)\<rparr>))
       (case env_slots env (cn_name n) of
          Inl e \<Rightarrow> discover env old ids (reachable, Some (startup_error e))
        | Inr entries \<Rightarrow>
            thenS (add_entries env old (cn_host n) entries)
            (bindS (getS (\<lambda>d. check_slots_coverage (ds_slots d))) (\<lambda>covered.
               if covered then retS (True, True, x) else discover env old ids (True, x)))))"

definition exc_str :: "exc option \<Rightarrow> string" where
  "exc_str x = (case x of None \<Rightarrow> ''None'' | Some e \<Rightarrow> exc_msg e)"

definition cannot_connect :: "exc option \<Rightarrow> exc" where
  "cannot_connect x = Exc RedisClusterException
     (''Redis Cluster cannot be connected. Please provide at least one reachable node: '' @ exc_str x)"

definition not_all_covered :: "nat \<Rightarrow> exc" where
  "not_all_covered k = Exc RedisClusterException
     (''All slots are not covered after query all startup_nodes. '' @ dec_nat k @ '' of '' @
      dec_nat REDIS_CLUSTER_HASH_SLOTS @ '' covered...'')"

definition create_redis_connections :: "nat list \<Rightarrow> cnode list \<Rightarrow> cnode list" where
  "create_redis_connections ids heap = foldl (\<lambda>h i. set_connected i h) heap ids"

definition nm_reset :: "nodes_manager \<Rightarrow> nodes_manager" where
  "nm_reset m = m\<lparr>nm_lb := []\<rparr>"

text \<open>The tables are replaced only at the end; the node objects of a failed discovery stay changed.\<close>

definition initialize :: "cluster_env \<Rightarrow> unit nm_op" where
  "initialize env = (\<lambda>m0.
     let m = nm_reset m0;
         d0 = \<lparr>ds_heap = nm_heap m, ds_nodes = [], ds_lists = nm_lists m, ds_slots = (\<lambda>_. None),
               ds_covered = 0, ds_disagreements = []\<rparr> in
     case discover env (nm_nodes m) (map snd (nm_startup m)) (False, None) d0 of
       (Inl e, d) \<Rightarrow> (Inl e, m\<lparr>nm_heap := ds_heap d, nm_lists := ds_lists d\<rparr>)
     | (Inr (reachable, covered, x), d) \<Rightarrow>
         (let m1 = m\<lparr>nm_heap := ds_heap d, nm_lists := ds_lists d\<rparr> in
          if \<not> reachable then (Inl (cannot_connect x), m1)
          else
            (let m2 = m1\<lparr>nm_heap := create_redis_connections (map snd (ds_nodes d)) (ds_heap d)\<rparr> in
             if \<not> covered \<and> nm_require_full_coverage m then (Inl (not_all_covered (ds_covered d)), m2)
             else
               (let m3 = m2\<lparr>nm_nodes := ds_nodes d, nm_slots := ds_slots d\<rparr> in
                case get_nodes_by_server_type PRIMARY m3 of
                  [] \<Rightarrow> (Inl (Exc IndexError ''list index out of range''), m3)
                | p # _ \<Rightarrow>
                    (Inr (), m3\<lparr>nm_default := Some p, nm_moved := None,
                       nm_startup := (if nm_dynamic_startup_nodes m then ds_nodes d else nm_startup m)\<rparr>)))))"

section \<open>Well-formedness\<close>

definition heap_ok :: "cnode list \<Rightarrow> (string, nat) dict \<Rightarrow> bool" where
  "heap_ok heap d = (\<forall>k i. dict_get d k = Some i \<longrightarrow> i < length heap \<and> cn_name (heap ! i) = k)"

definition nm_wf :: "nodes_manager \<Rightarrow> bool" where
  "nm_wf m =
     (heap_ok (nm_heap m) (nm_nodes m) \<and>
      (\<forall>s l. nm_slots m s = Some l \<longrightarrow> l < length (nm_lists m)) \<and>
      (\<forall>is \<in> set (nm_lists m). is \<noteq> [] \<and> (\<forall>i \<in> set is. i < length (nm_heap m))))"

lemma cn_name_type [simp]: "cn_name (n\<lparr>cn_type := t\<rparr>) = cn_name n" "cn_name (n\<lparr>cn_connected := b\<rparr>) = cn_name n"
  by (simp_all add: cn_name_def)

lemma set_type_fields [simp]:
  "nm_nodes (set_type i t m) = nm_nodes m" "nm_lists (set_type i t m) = nm_lists m"
  "nm_slots (set_type i t m) = nm_slots m" "nm_default (set_type i t m) = nm_default m"
  "nm_moved (set_type i t m) = nm_moved m" "nm_lb (set_type i t m) = nm_lb m"
  "length (nm_heap (set_type i t m)) = length (nm_heap m)"
  by (simp_all add: set_type_def)

lemma name_of_set_type [simp]: "j < length (nm_heap m) \<Longrightarrow> name_of (set_type i t m) j = name_of m j"
  by (cases "i = j") (simp_all add: name_of_def node_at_def set_type_def)

lemma heap_ok_set_type: "heap_ok (nm_heap m) d \<Longrightarrow> heap_ok (nm_heap (set_type i t m)) d"
  using name_of_set_type [of _ m i t] by (auto simp: heap_ok_def name_of_def node_at_def)

lemma nm_wf_set_type: "nm_wf m \<Longrightarrow> nm_wf (set_type i t m)"
  by (auto simp: nm_wf_def heap_ok_set_type)

lemma redirected_node_spec:
  assumes wf: "nm_wf m" and r: "redirected_node res e m = (r, m1)"
  shows "nm_wf m1 \<and> r < length (nm_heap m1) \<and>
    name_of m1 r = get_node_name (resolve_host res (redir_host e)) (redir_port e) \<and>
    nm_slots m1 = nm_slots m \<and> nm_lists m1 = nm_lists m \<and> nm_default m1 = nm_default m \<and>
    cn_type (node_at m1 r) = Some PRIMARY \<and>
    (\<forall>i < length (nm_heap m). name_of m1 i = name_of m i) \<and> length (nm_heap m) \<le> length (nm_heap m1)"
proof (cases "get_node res (redir_host e) (redir_port e) [] m")
  case (Some i)
  then have g: "dict_get (nm_nodes m) (get_node_name (resolve_host res (redir_host e)) (redir_port e)) = Some i"
    by (auto simp: get_node_def split: if_splits)
  then have i: "i < length (nm_heap m)" "name_of m i = get_node_name (resolve_host res (redir_host e)) (redir_port e)"
    using wf by (auto simp: nm_wf_def heap_ok_def name_of_def node_at_def)
  have "(r, m1) = (i, if cn_type (node_at m i) \<noteq> Some PRIMARY then set_type i PRIMARY m else m)"
    unfolding r [symmetric] by (simp add: redirected_node_def Some)
  then have rm: "r = i" "m1 = (if cn_type (node_at m i) \<noteq> Some PRIMARY then set_type i PRIMARY m else m)"
    by (rule prod.inject [THEN iffD1, THEN conjunct1], rule prod.inject [THEN iffD1, THEN conjunct2])
  have "cn_type (node_at m1 i) = Some PRIMARY"
    using i(1) by (simp add: rm node_at_def set_type_def)
  with i wf show ?thesis by (simp add: rm nm_wf_set_type)
next
  case None
  let ?n = "new_cluster_node res (redir_host e) (redir_port e) (Some PRIMARY)"
  have rm: "r = length (nm_heap m)"
      "m1 = m\<lparr>nm_heap := nm_heap m @ [?n], nm_nodes := dict_set (cn_name ?n) (length (nm_heap m)) (nm_nodes m)\<rparr>"
    using r None by (auto simp: redirected_node_def Let_def)
  have "heap_ok (nm_heap m1) (nm_nodes m1)"
    using wf by (auto simp: rm nm_wf_def heap_ok_def nth_append less_Suc_eq)
  then have "nm_wf m1" using wf by (auto simp: rm nm_wf_def less_Suc_eq)
  then show ?thesis
    by (simp add: rm name_of_def node_at_def nth_append new_cluster_node_def cn_name_def)
qed

lemma remove_named_nonempty: "2 \<le> length is \<Longrightarrow> remove_named m n is \<noteq> []"
  by (cases "is") auto

lemma remove_named_subset: "set (remove_named m n is) \<subseteq> set is"
  by (induction "is") auto

lemma promote_spec:
  assumes wf: "nm_wf m" and l: "l < length (nm_lists m)" and r: "r < length (nm_heap m)"
  shows "nm_wf (promote l r m) \<and> hd (nm_lists (promote l r m) ! l) = r \<and> nm_slots (promote l r m) = nm_slots m \<and>
    (\<forall>i < length (nm_heap m). name_of (promote l r m) i = name_of m i) \<and>
    length (nm_heap (promote l r m)) = length (nm_heap m) \<and>
    (\<forall>l' < length (nm_lists m). l' \<noteq> l \<longrightarrow> nm_lists (promote l r m) ! l' = nm_lists m ! l')"
proof -
  let ?old = "hd (nm_lists m ! l)"
  let ?m1 = "set_type ?old REPLICA m"
  let ?ns = "remove_named ?m1 (name_of ?m1 r) (nm_lists m ! l @ [?old])"
  let ?m2 = "?m1\<lparr>nm_lists := (nm_lists m)[l := ?ns[0 := r]]\<rparr>"
  have lm: "nm_lists m ! l \<in> set (nm_lists m)" using l by simp
  then have ne: "nm_lists m ! l \<noteq> []" and rng: "\<forall>i \<in> set (nm_lists m ! l). i < length (nm_heap m)"
    using wf by (auto simp: nm_wf_def)
  then have two: "2 \<le> length (nm_lists m ! l @ [?old])" by (cases "nm_lists m ! l") auto
  then have ns: "?ns \<noteq> []" by (rule remove_named_nonempty)
  have sub: "set (?ns[0 := r]) \<subseteq> insert r (set (nm_lists m ! l @ [?old]))"
    using set_update_subset_insert [of ?ns 0 r] remove_named_subset [of ?m1 "name_of ?m1 r" "nm_lists m ! l @ [?old]"]
    by blast
  have wf1: "nm_wf ?m1" using wf by (rule nm_wf_set_type)
  have all: "\<forall>is \<in> set (nm_lists ?m2). is \<noteq> [] \<and> (\<forall>i \<in> set is. i < length (nm_heap m))"
  proof
    fix ids assume "ids \<in> set (nm_lists ?m2)"
    then have "ids = ?ns[0 := r] \<or> ids \<in> set (nm_lists m)"
      using set_update_subset_insert [of "nm_lists m" l "?ns[0 := r]"] by auto
    then show "ids \<noteq> [] \<and> (\<forall>i \<in> set ids. i < length (nm_heap m))"
    proof
      assume "ids = ?ns[0 := r]"
      moreover have "\<forall>i \<in> insert r (set (nm_lists m ! l @ [?old])). i < length (nm_heap m)"
        using r rng ne hd_in_set [OF ne] by auto
      ultimately show ?thesis using ns sub by auto
    next
      assume "ids \<in> set (nm_lists m)"
      then show ?thesis using wf by (simp add: nm_wf_def)
    qed
  qed
  then have wf2: "nm_wf ?m2" using wf1 by (simp add: nm_wf_def)
  have pr: "promote l r m = ?m2 \<or> promote l r m = ?m2\<lparr>nm_default := Some r\<rparr>"
    unfolding promote_def Let_def by (simp split: if_splits)
  have "hd (?ns[0 := r]) = r" using ns by (cases ?ns) auto
  moreover have "nm_wf (?m2\<lparr>nm_default := Some r\<rparr>)" using wf2 by (simp add: nm_wf_def)
  moreover have "name_of (?m2\<lparr>nm_default := d\<rparr>) i = name_of ?m1 i" "name_of ?m2 i = name_of ?m1 i" for d i
    by (simp_all add: name_of_def node_at_def)
  ultimately show ?thesis using pr wf2 l by auto
qed

section \<open>After a redirection\<close>

lemma update_moved_slots_spec:
  assumes wf: "nm_wf m" and mv: "nm_moved m = Some e" and sl: "nm_slots m (slot_id e) \<noteq> None"
  shows "\<exists>m' l r. update_moved_slots res m = (Inr (), m') \<and> nm_wf m' \<and> nm_moved m' = None \<and>
    nm_slots m' (slot_id e) = Some l \<and> hd (nm_lists m' ! l) = r \<and> r = fst (redirected_node res e m) \<and>
    name_of m' r = get_node_name (resolve_host res (redir_host e)) (redir_port e) \<and>
    (\<forall>s l'. nm_slots m s = Some l' \<longrightarrow> nm_slots m (slot_id e) \<noteq> Some l' \<longrightarrow> slot_nodes m' s = slot_nodes m s)"
proof -
  obtain r m1 where rd: "redirected_node res e m = (r, m1)" by force
  note sp = redirected_node_spec [OF wf rd]
  obtain l where l: "nm_slots m (slot_id e) = Some l" using sl by auto
  have ll: "l < length (nm_lists m1)" using wf l sp by (auto simp: nm_wf_def)
  have old: "\<forall>s l'. nm_slots m s = Some l' \<longrightarrow> l' < length (nm_lists m)" using wf by (simp add: nm_wf_def)
  show ?thesis
  proof (cases "name_of m1 r \<in> name_of m1 ` set (nm_lists m1 ! l)")
    case True
    let ?m' = "(promote l r m1)\<lparr>nm_moved := None\<rparr>"
    have u: "update_moved_slots res m = (Inr (), ?m')"
      using mv rd l sp True by (simp add: update_moved_slots_def Let_def)
    have ps: "nm_wf (promote l r m1)" "hd (nm_lists (promote l r m1) ! l) = r"
      "nm_slots (promote l r m1) = nm_slots m1" "name_of (promote l r m1) r = name_of m1 r"
      "\<forall>l' < length (nm_lists m1). l' \<noteq> l \<longrightarrow> nm_lists (promote l r m1) ! l' = nm_lists m1 ! l'"
      using promote_spec [of m1 l r] sp ll by simp_all
    have "nm_wf ?m'" using ps(1) by (simp add: nm_wf_def)
    moreover have "name_of ?m' r = name_of m1 r" using ps(4) by (simp add: name_of_def node_at_def)
    moreover have "slot_nodes ?m' s = slot_nodes m s"
      if "nm_slots m s = Some l'" "nm_slots m (slot_id e) \<noteq> Some l'" for s l'
      using that l ps(3,5) sp old by (auto simp: slot_nodes_def)
    ultimately show ?thesis using u ps(2,3) sp l rd by auto
  next
    case False
    let ?m' = "m1\<lparr>nm_lists := nm_lists m1 @ [[r]], nm_slots := (nm_slots m1)(slot_id e \<mapsto> length (nm_lists m1)), nm_moved := None\<rparr>"
    have u: "update_moved_slots res m = (Inr (), ?m')"
      using mv rd l sp False by (simp add: update_moved_slots_def Let_def)
    have "nm_wf ?m'" using sp by (auto simp: nm_wf_def less_Suc_eq)
    moreover have "name_of ?m' r = name_of m1 r" by (simp add: name_of_def node_at_def)
    moreover have "slot_nodes ?m' s = slot_nodes m s"
      if "nm_slots m s = Some l'" "nm_slots m (slot_id e) \<noteq> Some l'" for s l'
    proof -
      have "s \<noteq> slot_id e" using that by auto
      then show ?thesis using that sp old by (auto simp: slot_nodes_def nth_append)
    qed
    ultimately show ?thesis using u sp rd by auto
  qed
qed

lemma choose_primary:
  "nodes \<noteq> [] \<Longrightarrow> choose_node False None rand nodes m = (Inr (hd nodes), m)"
  by (simp add: choose_node_def hd_conv_nth)

section \<open>The round robin\<close>

fun server_indices :: "string \<Rightarrow> nat \<Rightarrow> nat \<Rightarrow> (string, nat) dict \<Rightarrow> nat list" where
  "server_indices p n 0 d = []"
| "server_indices p n (Suc k) d = (case get_server_index p n d of (i, d') \<Rightarrow> i # server_indices p n k d')"

lemma server_indices_from:
  assumes "0 < n" "dict_get d p = Some i \<or> (dict_get d p = None \<and> i = 0)" "i < n"
  shows "server_indices p n k d = map (\<lambda>j. (i + j) mod n) [0..<k]"
  using assms(2,3)
proof (induction k arbitrary: d i)
  case 0
  then show ?case by simp
next
  case (Suc k)
  let ?d = "dict_set p ((i + 1) mod n) d"
  have g: "get_server_index p n d = (i, ?d)" using Suc.prems by (auto simp: get_server_index_def)
  have "server_indices p n k ?d = map (\<lambda>j. ((i + 1) mod n + j) mod n) [0..<k]"
    using assms(1) by (intro Suc.IH) simp_all
  also have "\<dots> = map (\<lambda>j. (i + Suc j) mod n) [0..<k]"
    by (simp add: mod_add_left_eq)
  finally have "server_indices p n (Suc k) d = i # map (\<lambda>j. (i + Suc j) mod n) [0..<k]" using g by simp
  also have "\<dots> = map (\<lambda>j. (i + j) mod n) [0..<Suc k]"
    using Suc.prems(2) by (simp add: upt_conv_Cons map_Suc_upt [symmetric] del: upt_Suc)
  finally show ?case .
qed

section \<open>What discovery keeps\<close>

text \<open>\<open>disc_ok\<close>: both tables lead to nodes of their names. \<open>disc_le\<close>: nodes keep their names,
  registered nodes their place and type, list objects their content.\<close>

definition disc_ok :: "(string, nat) dict \<Rightarrow> disc \<Rightarrow> bool" where
  "disc_ok old d = (heap_ok (ds_heap d) (ds_nodes d) \<and> heap_ok (ds_heap d) old)"

definition disc_le :: "disc \<Rightarrow> disc \<Rightarrow> bool" where
  "disc_le d d' =
     (length (ds_heap d) \<le> length (ds_heap d') \<and>
      (\<forall>i < length (ds_heap d). cn_name (ds_heap d' ! i) = cn_name (ds_heap d ! i)) \<and>
      (\<forall>k i. dict_get (ds_nodes d) k = Some i \<longrightarrow> dict_get (ds_nodes d') k = Some i \<and>
         cn_type (ds_heap d' ! i) = cn_type (ds_heap d ! i)) \<and>
      (\<exists>xs. ds_lists d' = ds_lists d @ xs))"

lemma disc_le_refl: "disc_le d d"
  by (simp add: disc_le_def)

lemma disc_le_trans:
  assumes "disc_le d1 d2" "disc_le d2 d3"
  shows "disc_le d1 d3"
proof -
  have 12: "length (ds_heap d1) \<le> length (ds_heap d2)"
      "\<And>i. i < length (ds_heap d1) \<Longrightarrow> cn_name (ds_heap d2 ! i) = cn_name (ds_heap d1 ! i)"
      "\<And>k i. dict_get (ds_nodes d1) k = Some i \<Longrightarrow> dict_get (ds_nodes d2) k = Some i \<and> cn_type (ds_heap d2 ! i) = cn_type (ds_heap d1 ! i)"
      "\<exists>xs. ds_lists d2 = ds_lists d1 @ xs"
    using assms(1) by (simp_all add: disc_le_def)
  have 23: "length (ds_heap d2) \<le> length (ds_heap d3)"
      "\<And>i. i < length (ds_heap d2) \<Longrightarrow> cn_name (ds_heap d3 ! i) = cn_name (ds_heap d2 ! i)"
      "\<And>k i. dict_get (ds_nodes d2) k = Some i \<Longrightarrow> dict_get (ds_nodes d3) k = Some i \<and> cn_type (ds_heap d3 ! i) = cn_type (ds_heap d2 ! i)"
      "\<exists>xs. ds_lists d3 = ds_lists d2 @ xs"
    using assms(2) by (simp_all add: disc_le_def)
  have "\<exists>xs. ds_lists d3 = ds_lists d1 @ xs" using 12(4) 23(4) by auto
  moreover have "cn_type (ds_heap d3 ! i) = cn_type (ds_heap d1 ! i) \<and> dict_get (ds_nodes d3) k = Some i"
    if "dict_get (ds_nodes d1) k = Some i" for k i
    using 12(3) [OF that] 23(3) [of k i] by simp
  ultimately show ?thesis using 12(1,2) 23(1,2) by (simp add: disc_le_def)
qed

lemma disc_le_length: "disc_le d d' \<Longrightarrow> length (ds_heap d) \<le> length (ds_heap d')"
  by (simp add: disc_le_def)

lemma disc_le_name: "disc_le d d' \<Longrightarrow> i < length (ds_heap d) \<Longrightarrow> cn_name (ds_heap d' ! i) = cn_name (ds_heap d ! i)"
  by (simp add: disc_le_def)

lemma disc_le_list: "disc_le d d' \<Longrightarrow> l < length (ds_lists d) \<Longrightarrow> ds_lists d' ! l = ds_lists d ! l \<and> l < length (ds_lists d')"
  by (auto simp: disc_le_def nth_append)

lemma new_cluster_node_name:
  "h \<noteq> ''localhost'' \<Longrightarrow> cn_name (new_cluster_node res h p t) = get_node_name h p"
  by (simp add: new_cluster_node_def cn_name_def resolve_host_def)

text \<open>The node object that gets the role: the connected one of the old table or a new one.\<close>

lemma get_or_create_cases:
  assumes none: "dict_get (ds_nodes d) (get_node_name h p) = None" and old: "heap_ok (ds_heap d) old"
  shows "\<exists>i heap. get_or_create_cluster_node env old h p role d =
      (i, d\<lparr>ds_heap := heap[i := (heap ! i)\<lparr>cn_type := Some role\<rparr>],
            ds_nodes := dict_set (cn_name (heap ! i)) i (ds_nodes d)\<rparr>) \<and> i < length heap \<and>
      ((dict_get old (get_node_name h p) = Some i \<and> heap = ds_heap d) \<or>
       (i = length (ds_heap d) \<and> heap = ds_heap d @ [new_cluster_node (env_resolve env) h p (Some role)]))"
proof (cases "\<exists>i. dict_get old (get_node_name h p) = Some i \<and> cn_connected (ds_heap d ! i)")
  case True
  then obtain i where i: "dict_get old (get_node_name h p) = Some i" "cn_connected (ds_heap d ! i)" by blast
  then have "i < length (ds_heap d)" using old by (simp add: heap_ok_def)
  then show ?thesis using none i
    by (intro exI [of _ i] exI [of _ "ds_heap d"]) (simp add: get_or_create_cluster_node_def)
next
  case False
  then show ?thesis using none
    by (intro exI [of _ "length (ds_heap d)"] exI [of _ "ds_heap d @ [new_cluster_node (env_resolve env) h p (Some role)]"])
      (auto simp: get_or_create_cluster_node_def Let_def split: option.split)
qed

lemma get_or_create_spec:
  assumes ok: "disc_ok old d" and h: "h \<noteq> ''localhost''"
    and g: "get_or_create_cluster_node env old h p role d = (i, d')"
  shows "disc_ok old d' \<and> disc_le d d' \<and> i < length (ds_heap d') \<and> cn_name (ds_heap d' ! i) = get_node_name h p \<and>
    dict_get (ds_nodes d') (get_node_name h p) = Some i \<and>
    (dict_get (ds_nodes d) (get_node_name h p) = None \<longrightarrow> cn_type (ds_heap d' ! i) = Some role) \<and>
    ds_lists d' = ds_lists d \<and> ds_slots d' = ds_slots d"
proof (cases "dict_get (ds_nodes d) (get_node_name h p)")
  case (Some j)
  then have "i = j" "d' = d" using g by (simp_all add: get_or_create_cluster_node_def)
  then show ?thesis using Some ok by (auto simp: disc_le_refl disc_ok_def heap_ok_def)
next
  case None
  have old: "heap_ok (ds_heap d) old" and nodes: "heap_ok (ds_heap d) (ds_nodes d)"
    using ok by (simp_all add: disc_ok_def)
  obtain heap where hp: "d' = d\<lparr>ds_heap := heap[i := (heap ! i)\<lparr>cn_type := Some role\<rparr>],
            ds_nodes := dict_set (cn_name (heap ! i)) i (ds_nodes d)\<rparr>" "i < length heap"
      "(dict_get old (get_node_name h p) = Some i \<and> heap = ds_heap d) \<or>
       (i = length (ds_heap d) \<and> heap = ds_heap d @ [new_cluster_node (env_resolve env) h p (Some role)])"
    using get_or_create_cases [OF None old, of env role] unfolding g by auto
  have nm: "cn_name (heap ! i) = get_node_name h p" "length (ds_heap d) \<le> length heap"
      "\<forall>j < length (ds_heap d). heap ! j = ds_heap d ! j"
    using hp(3) old h by (auto simp: heap_ok_def new_cluster_node_name nth_append)
  have same: "cn_name (ds_heap d' ! j) = cn_name (heap ! j)" if "j < length heap" for j
    using that by (cases "i = j") (simp_all add: hp(1))
  have fresh: "dict_get (ds_nodes d) k \<noteq> Some i" for k
  proof
    assume "dict_get (ds_nodes d) k = Some i"
    moreover from this have "i < length (ds_heap d)" "cn_name (ds_heap d ! i) = k" using nodes by (simp_all add: heap_ok_def)
    ultimately show False using None nm by simp
  qed
  have len: "length (ds_heap d') = length heap" by (simp add: hp(1))
  have ext: "heap_ok (ds_heap d') t" if "heap_ok (ds_heap d) t" for t
  proof -
    have "j < length heap \<and> cn_name (ds_heap d' ! j) = k" if "dict_get t k = Some j" for k j
    proof -
      have "j < length (ds_heap d)" "cn_name (ds_heap d ! j) = k"
        using that \<open>heap_ok (ds_heap d) t\<close> by (auto simp: heap_ok_def)
      then show ?thesis using nm(2,3) same [of j] by simp
    qed
    then show ?thesis by (simp add: heap_ok_def len)
  qed
  have "heap_ok (ds_heap d') (ds_nodes d')"
    using ext [OF nodes] hp(2) nm(1) same len by (auto simp: heap_ok_def hp(1))
  then have "disc_ok old d'" using ext [OF old] by (simp add: disc_ok_def)
  moreover have "disc_le d d'"
    unfolding disc_le_def
  proof (intro conjI allI impI)
    show "length (ds_heap d) \<le> length (ds_heap d')" using nm len by simp
    show "cn_name (ds_heap d' ! j) = cn_name (ds_heap d ! j)" if "j < length (ds_heap d)" for j
      using that nm same by simp
    fix k j assume k: "dict_get (ds_nodes d) k = Some j"
    then have "k \<noteq> get_node_name h p" using None by auto
    then show "dict_get (ds_nodes d') k = Some j" using k nm by (simp add: hp(1))
    have "j \<noteq> i" using k fresh by auto
    moreover have "j < length (ds_heap d)" using k nodes by (auto simp: heap_ok_def)
    ultimately show "cn_type (ds_heap d' ! j) = cn_type (ds_heap d ! j)" using nm by (simp add: hp(1))
  next
    show "\<exists>xs. ds_lists d' = ds_lists d @ xs" by (simp add: hp(1))
  qed
  ultimately show ?thesis using hp(2) nm(1) same len None by (simp add: hp(1))
qed

lemma replica_nodes_spec:
  assumes "disc_ok old d" "env_remap env = None" "\<forall>(h, p) \<in> set rs. h \<noteq> ''localhost''"
    and "replica_nodes env old rs d = (ids, d')"
  shows "disc_ok old d' \<and> disc_le d d' \<and> (\<forall>i \<in> set ids. i < length (ds_heap d')) \<and>
    map (\<lambda>i. cn_name (ds_heap d' ! i)) ids = map (\<lambda>(h, p). get_node_name h p) rs \<and>
    ds_lists d' = ds_lists d \<and> ds_slots d' = ds_slots d"
  using assms
proof (induction rs arbitrary: d ids d')
  case Nil
  then show ?case by (simp add: disc_le_refl)
next
  case (Cons hp rs)
  obtain h p where [simp]: "hp = (h, p)" by force
  obtain i d1 where g: "get_or_create_cluster_node env old h p REPLICA d = (i, d1)" by force
  obtain is2 d2 where rest: "replica_nodes env old rs d1 = (is2, d2)" by force
  have eq: "ids = i # is2" "d' = d2"
    using Cons.prems(2,4) g rest by (simp_all add: remap_host_port_def)
  note s1 = get_or_create_spec [OF Cons.prems(1) _ g]
  have s1': "disc_ok old d1" "disc_le d d1" "i < length (ds_heap d1)" "cn_name (ds_heap d1 ! i) = get_node_name h p"
      "ds_lists d1 = ds_lists d" "ds_slots d1 = ds_slots d"
    using s1 Cons.prems(3) by simp_all
  have s2: "disc_ok old d2" "disc_le d1 d2" "\<forall>i \<in> set is2. i < length (ds_heap d2)"
      "map (\<lambda>i. cn_name (ds_heap d2 ! i)) is2 = map (\<lambda>(h, p). get_node_name h p) rs"
      "ds_lists d2 = ds_lists d1" "ds_slots d2 = ds_slots d1"
    using Cons.IH [OF s1'(1) Cons.prems(2) _ rest] Cons.prems(3) by simp_all
  show ?case
    using s1' s2 disc_le_trans [OF s1'(2) s2(2)] disc_le_name [OF s2(2) s1'(3)] disc_le_length [OF s2(2)]
    by (simp add: eq)
qed

text \<open>Free slots all get the list of the entry.\<close>

lemma assign_slots_free:
  assumes "\<forall>s \<in> set ss. ds_slots d s = None" "distinct ss"
  shows "\<exists>d'. assign_slots l t ss d = (Inr (), d') \<and> ds_heap d' = ds_heap d \<and> ds_nodes d' = ds_nodes d \<and>
    ds_lists d' = ds_lists d \<and> ds_slots d' = (\<lambda>s. if s \<in> set ss then Some l else ds_slots d s)"
  using assms
proof (induction ss arbitrary: d)
  case Nil
  then show ?case by simp
next
  case (Cons s ss)
  let ?d = "d\<lparr>ds_slots := (ds_slots d)(s \<mapsto> l), ds_covered := Suc (ds_covered d)\<rparr>"
  have "assign_slot l t s d = (Inr (), ?d)" using Cons.prems by (simp add: assign_slot_def)
  moreover have "\<forall>s \<in> set ss. ds_slots ?d s = None" using Cons.prems by auto
  then obtain d' where d': "assign_slots l t ss ?d = (Inr (), d')" "ds_heap d' = ds_heap ?d" "ds_nodes d' = ds_nodes ?d"
      "ds_lists d' = ds_lists ?d" "ds_slots d' = (\<lambda>s'. if s' \<in> set ss then Some l else ds_slots ?d s')"
    using Cons.IH [of ?d] Cons.prems(2) by fastforce
  ultimately show ?case by (intro exI [of _ d']) (auto simp: thenS_Inr)
qed

definition entry_names :: "slot_entry \<Rightarrow> string list" where
  "entry_names e = map (\<lambda>(h, p). get_node_name h p) (se_primary e # se_replicas e)"

text \<open>Entries whose nodes are named as they are announced.\<close>

definition plain_entry :: "slot_entry \<Rightarrow> bool" where
  "plain_entry e = (fst (se_primary e) \<noteq> [] \<and> (\<forall>(h, p) \<in> set (se_primary e # se_replicas e). h \<noteq> ''localhost''))"

definition in_entry :: "slot_entry \<Rightarrow> int \<Rightarrow> bool" where
  "in_entry e s = (se_start e \<le> s \<and> s \<le> se_end e)"

definition entry_listed :: "disc \<Rightarrow> slot_entry \<Rightarrow> bool" where
  "entry_listed d e = (\<forall>s. in_entry e s \<longrightarrow>
     (\<exists>l. ds_slots d s = Some l \<and> map (\<lambda>i. cn_name (ds_heap d ! i)) (ds_lists d ! l) = entry_names e))"

definition lists_ok :: "disc \<Rightarrow> bool" where
  "lists_ok d = ((\<forall>s l. ds_slots d s = Some l \<longrightarrow> l < length (ds_lists d)) \<and>
     (\<forall>ids \<in> set (ds_lists d). ids \<noteq> [] \<and> (\<forall>i \<in> set ids. i < length (ds_heap d))))"

lemma entry_listed_mono:
  assumes "entry_listed d e" "lists_ok d" "disc_le d d'" "\<And>s. in_entry e s \<Longrightarrow> ds_slots d' s = ds_slots d s"
  shows "entry_listed d' e"
  unfolding entry_listed_def
proof (intro allI impI)
  fix s assume s: "in_entry e s"
  then obtain l where l: "ds_slots d s = Some l" "map (\<lambda>i. cn_name (ds_heap d ! i)) (ds_lists d ! l) = entry_names e"
    using assms(1) by (auto simp: entry_listed_def)
  then have len: "l < length (ds_lists d)" using assms(2) by (simp add: lists_ok_def)
  then have rng: "\<forall>i \<in> set (ds_lists d ! l). i < length (ds_heap d)"
    using assms(2) nth_mem [OF len] unfolding lists_ok_def by blast
  have "map (\<lambda>i. cn_name (ds_heap d' ! i)) (ds_lists d ! l) = map (\<lambda>i. cn_name (ds_heap d ! i)) (ds_lists d ! l)"
    using rng disc_le_name [OF assms(3)] by auto
  then show "\<exists>l. ds_slots d' s = Some l \<and> map (\<lambda>i. cn_name (ds_heap d' ! i)) (ds_lists d' ! l) = entry_names e"
    using l disc_le_list [OF assms(3) len] assms(4) [OF s] by simp
qed

lemma add_entry_spec:
  assumes ok: "disc_ok old d" and lok: "lists_ok d" and env: "env_remap env = None" and pl: "plain_entry e"
    and free: "\<And>s. in_entry e s \<Longrightarrow> ds_slots d s = None"
  shows "\<exists>d'. add_entry env old host e d = (Inr (), d') \<and> disc_ok old d' \<and> lists_ok d' \<and> disc_le d d' \<and>
    entry_listed d' e \<and> (\<forall>s. \<not> in_entry e s \<longrightarrow> ds_slots d' s = ds_slots d s) \<and>
    (ds_nodes d = [] \<longrightarrow> (\<exists>k i. dict_get (ds_nodes d') k = Some i \<and> cn_type (ds_heap d' ! i) = Some PRIMARY))"
proof -
  obtain h p where hp: "se_primary e = (h, p)" by force
  obtain i d1 where g: "get_or_create_cluster_node env old h p PRIMARY d = (i, d1)" by force
  obtain ids d2 where r: "replica_nodes env old (se_replicas e) d1 = (ids, d2)" by force
  have h: "h \<noteq> []" "h \<noteq> ''localhost''" and rs: "\<forall>(h, p) \<in> set (se_replicas e). h \<noteq> ''localhost''"
    using pl by (simp_all add: plain_entry_def hp)
  note s1 = get_or_create_spec [OF ok h(2) g]
  then have ok1: "disc_ok old d1" by simp
  note s2 = replica_nodes_spec [OF ok1 env rs r]
  let ?d3 = "d2\<lparr>ds_lists := ds_lists d2 @ [i # ids]\<rparr>"
  have mem: "s \<in> set [se_start e..se_end e] \<longleftrightarrow> in_entry e s" for s by (simp add: in_entry_def)
  have sl: "ds_slots d2 = ds_slots d" "ds_lists d2 = ds_lists d" using s1 s2 by simp_all
  have "\<forall>s \<in> set [se_start e..se_end e]. ds_slots ?d3 s = None"
    using free sl(1) mem by auto
  then obtain d' where d': "assign_slots (length (ds_lists d2)) i [se_start e..se_end e] ?d3 = (Inr (), d')"
      "ds_heap d' = ds_heap ?d3" "ds_nodes d' = ds_nodes ?d3" "ds_lists d' = ds_lists ?d3"
      "ds_slots d' = (\<lambda>s. if s \<in> set [se_start e..se_end e] then Some (length (ds_lists d2)) else ds_slots ?d3 s)"
    using assign_slots_free [of "[se_start e..se_end e]" ?d3 "length (ds_lists d2)" i] distinct_upto by blast
  have run: "add_entry env old host e d = (Inr (), d')"
    using h g r d'(1) env by (simp add: add_entry_def hp remap_host_port_def)
  have le: "disc_le d d2" using s1 s2 disc_le_trans by blast
  have slots: "ds_slots d' s = (if in_entry e s then Some (length (ds_lists d)) else ds_slots d s)" for s
    using d'(5) sl unfolding mem by simp
  have i2: "i < length (ds_heap d2)" "cn_name (ds_heap d2 ! i) = get_node_name h p"
    using s1 s2 disc_le_name [of d1 d2 i] disc_le_length [of d1 d2] by simp_all
  have "disc_ok old d'" using s2 d' by (simp add: disc_ok_def)
  moreover have "lists_ok d'"
    unfolding lists_ok_def
  proof (intro conjI allI impI ballI)
    have lists: "ds_lists d' = ds_lists d @ [i # ids]" using d'(4) sl by simp
    show "l < length (ds_lists d')" if "ds_slots d' s = Some l" for s l
      using that lok slots [of s] lists by (auto simp: lists_ok_def less_Suc_eq split: if_splits)
    fix js assume js: "js \<in> set (ds_lists d')"
    then show "js \<noteq> []" using lok lists by (auto simp: lists_ok_def)
    have "\<forall>j \<in> set js. j < length (ds_heap d2)"
    proof (cases "js \<in> set (ds_lists d)")
      case True
      then have "\<forall>j \<in> set js. j < length (ds_heap d)" using lok by (simp add: lists_ok_def)
      then show ?thesis using disc_le_length [OF le] by fastforce
    next
      case False
      then show ?thesis using js lists i2(1) s2 by auto
    qed
    then show "j < length (ds_heap d')" if "j \<in> set js" for j using that d'(2) by simp
  qed
  moreover have "disc_le d d'" using le d'(2-4) sl(2) by (simp add: disc_le_def)
  moreover have "entry_listed d' e"
    using s2 i2(2) d' slots sl by (simp add: entry_listed_def entry_names_def hp nth_append)
  moreover have "\<exists>k i. dict_get (ds_nodes d') k = Some i \<and> cn_type (ds_heap d' ! i) = Some PRIMARY" if "ds_nodes d = []"
  proof -
    have "dict_get (ds_nodes d1) (get_node_name h p) = Some i" "cn_type (ds_heap d1 ! i) = Some PRIMARY"
      using s1 that by simp_all
    moreover have "disc_le d1 d2" using s2 by simp
    ultimately have "dict_get (ds_nodes d2) (get_node_name h p) = Some i" "cn_type (ds_heap d2 ! i) = Some PRIMARY"
      by (auto simp: disc_le_def)
    then show ?thesis using d' by auto
  qed
  ultimately show ?thesis using run slots by auto
qed

abbreviation disjoint_entries :: "slot_entry list \<Rightarrow> bool" where
  "disjoint_entries \<equiv> sorted_wrt (\<lambda>e f. \<forall>s. \<not> (in_entry e s \<and> in_entry f s))"

definition some_primary :: "disc \<Rightarrow> bool" where
  "some_primary d = (\<exists>k i. dict_get (ds_nodes d) k = Some i \<and> cn_type (ds_heap d ! i) = Some PRIMARY)"

lemma some_primary_mono: "some_primary d \<Longrightarrow> disc_le d d' \<Longrightarrow> some_primary d'"
  unfolding some_primary_def disc_le_def by metis

lemma add_entries_spec:
  assumes "disc_ok old d" "lists_ok d" "env_remap env = None" "\<forall>e \<in> set es. plain_entry e" "disjoint_entries es"
    and "\<forall>e \<in> set es. \<forall>s. in_entry e s \<longrightarrow> ds_slots d s = None"
  shows "\<exists>d'. add_entries env old host es d = (Inr (), d') \<and> disc_ok old d' \<and> lists_ok d' \<and> disc_le d d' \<and>
    (\<forall>e \<in> set es. entry_listed d' e) \<and> (\<forall>s. (\<forall>e \<in> set es. \<not> in_entry e s) \<longrightarrow> ds_slots d' s = ds_slots d s) \<and>
    (ds_nodes d = [] \<and> es \<noteq> [] \<longrightarrow> some_primary d')"
  using assms
proof (induction es arbitrary: d)
  case Nil
  then show ?case by (simp add: disc_le_refl)
next
  case (Cons e es)
  obtain d1 where d1: "add_entry env old host e d = (Inr (), d1)" "disc_ok old d1" "lists_ok d1" "disc_le d d1"
      "entry_listed d1 e" "\<forall>s. \<not> in_entry e s \<longrightarrow> ds_slots d1 s = ds_slots d s"
      "ds_nodes d = [] \<longrightarrow> some_primary d1"
    using add_entry_spec [OF Cons.prems(1,2,3), of e host] Cons.prems(4,6) unfolding some_primary_def by fastforce
  have free: "\<forall>f \<in> set es. \<forall>s. in_entry f s \<longrightarrow> ds_slots d1 s = None"
  proof (intro ballI allI impI)
    fix f s assume f: "f \<in> set es" "in_entry f s"
    then have "\<not> in_entry e s" using Cons.prems(5) by auto
    then show "ds_slots d1 s = None" using Cons.prems(6) f d1(6) by simp
  qed
  have tl: "\<forall>e \<in> set es. plain_entry e" "disjoint_entries es" using Cons.prems(4,5) by simp_all
  obtain d2 where d2: "add_entries env old host es d1 = (Inr (), d2)" "disc_ok old d2" "lists_ok d2" "disc_le d1 d2"
      "\<forall>e \<in> set es. entry_listed d2 e" "\<forall>s. (\<forall>e \<in> set es. \<not> in_entry e s) \<longrightarrow> ds_slots d2 s = ds_slots d1 s"
    using Cons.IH [OF d1(2,3) Cons.prems(3) tl free] by blast
  have "entry_listed d2 e"
    by (rule entry_listed_mono [OF d1(5,3) d2(4)]) (use d2(6) Cons.prems(5) in auto)
  moreover have "ds_slots d2 s = ds_slots d s" if "\<forall>f \<in> set (e # es). \<not> in_entry f s" for s
    using that d1(6) d2(6) by simp
  moreover have "disc_le d d2" by (rule disc_le_trans [OF d1(4) d2(4)])
  moreover have "ds_nodes d = [] \<longrightarrow> some_primary d2" using d1(7) some_primary_mono [OF _ d2(4)] by blast
  moreover have "add_entries env old host (e # es) d = (Inr (), d2)" using d1(1) d2(1) by (simp add: thenS_Inr)
  ultimately show ?case using d2(2,3,5) by auto
qed

text \<open>Unreachable startup nodes are passed over; the first one that answers completely ends the loop.\<close>

lemma set_connected_names [simp]:
  "i < length heap \<Longrightarrow> cn_name (set_connected j heap ! i) = cn_name (heap ! i)"
  "i < length heap \<Longrightarrow> cn_type (set_connected j heap ! i) = cn_type (heap ! i)"
  "length (set_connected j heap) = length heap"
  by (cases "i = j"; simp add: set_connected_def)+

lemma heap_ok_connected: "heap_ok heap t \<Longrightarrow> heap_ok (set_connected j heap) t"
  by (auto simp: heap_ok_def)

lemma discover_spec:
  assumes "disc_ok old d" "lists_ok d" "ds_nodes d = []" "ds_slots d = (\<lambda>_. None)" "env_remap env = None"
    and "\<forall>e \<in> set es. plain_entry e" "disjoint_entries es"
    and "\<forall>s. 0 \<le> s \<and> s < int REDIS_CLUSTER_HASH_SLOTS \<longrightarrow> (\<exists>e \<in> set es. in_entry e s)"
    and "\<forall>u \<in> set us. u < length (ds_heap d) \<and> (\<exists>x. env_slots env (cn_name (ds_heap d ! u)) = Inl x)"
    and "v < length (ds_heap d)" "env_slots env (cn_name (ds_heap d ! v)) = Inr es"
  shows "\<exists>x' d'. discover env old (us @ v # rest) (b, x) d = (Inr (True, True, x'), d') \<and>
    disc_ok old d' \<and> lists_ok d' \<and> (\<forall>e \<in> set es. entry_listed d' e) \<and> some_primary d'"
  using assms
proof (induction us arbitrary: d x)
  case (Cons u us)
  let ?d = "d\<lparr>ds_heap := set_connected u (ds_heap d)\<rparr>"
  obtain y where y: "env_slots env (cn_name (ds_heap d ! u)) = Inl y" using Cons.prems(9) by auto
  have ok: "disc_ok old ?d" "lists_ok ?d"
    using Cons.prems(1,2) heap_ok_connected by (auto simp: disc_ok_def lists_ok_def)
  have pre: "ds_nodes ?d = []" "ds_slots ?d = (\<lambda>_. None)" "v < length (ds_heap ?d)"
      "env_slots env (cn_name (ds_heap ?d ! v)) = Inr es"
      "\<forall>u \<in> set us. u < length (ds_heap ?d) \<and> (\<exists>x. env_slots env (cn_name (ds_heap ?d ! u)) = Inl x)"
    using Cons.prems(3,4,9-11) by simp_all
  have step: "discover env old ((u # us) @ v # rest) (b, x) d = discover env old (us @ v # rest) (b, Some (startup_error y)) ?d"
    using y by (simp add: bindS_Inr thenS_Inr)
  show ?case
    unfolding step by (rule Cons.IH [OF ok pre(1,2) Cons.prems(5-8) pre(5,3,4)])
next
  case Nil
  let ?d = "d\<lparr>ds_heap := set_connected v (ds_heap d)\<rparr>"
  have ok: "disc_ok old ?d" "lists_ok ?d"
    using Nil.prems(1,2) heap_ok_connected by (auto simp: disc_ok_def lists_ok_def)
  have free: "\<forall>e \<in> set es. \<forall>s. in_entry e s \<longrightarrow> ds_slots ?d s = None" using Nil.prems(4) by simp
  have ne: "es \<noteq> []" using Nil.prems(8) [rule_format, of 0] by (auto simp: REDIS_CLUSTER_HASH_SLOTS_def)
  obtain d1 where d1: "add_entries env old (cn_host (ds_heap d ! v)) es ?d = (Inr (), d1)" "disc_ok old d1" "lists_ok d1"
      "\<forall>e \<in> set es. entry_listed d1 e" "some_primary d1"
    using add_entries_spec [OF ok Nil.prems(5-7) free, of "cn_host (ds_heap d ! v)"] ne Nil.prems(3) by auto
  have cov: "check_slots_coverage (ds_slots d1)"
    unfolding check_slots_coverage_def list_all_iff
  proof
    fix n assume "n \<in> set [0..<REDIS_CLUSTER_HASH_SLOTS]"
    then obtain e where "e \<in> set es" "in_entry e (int n)" using Nil.prems(8) [rule_format, of "int n"] by auto
    then show "ds_slots d1 (int n) \<noteq> None" using d1(4) by (auto simp: entry_listed_def)
  qed
  have "discover env old ([] @ v # rest) (b, x) d = (Inr (True, True, x), d1)"
    using Nil.prems(11) d1(1) cov by (simp add: bindS_Inr thenS_Inr)
  then show ?case using d1 by blast
qed

lemma create_connections_names:
  "length (create_redis_connections ids heap) = length heap \<and>
   (\<forall>i < length heap. cn_name (create_redis_connections ids heap ! i) = cn_name (heap ! i) \<and>
      cn_type (create_redis_connections ids heap ! i) = cn_type (heap ! i))"
  unfolding create_redis_connections_def by (induction ids arbitrary: heap) simp_all

lemma primaries_nonempty:
  assumes "dict_get (nm_nodes m) k = Some i" "cn_type (node_at m i) = Some PRIMARY"
  shows "\<exists>p ps. get_nodes_by_server_type PRIMARY m = p # ps \<and> cn_type (node_at m p) = Some PRIMARY"
proof -
  have "i \<in> set (get_nodes_by_server_type PRIMARY m)"
    using assms map_of_SomeD [OF assms(1)] by (force simp: get_nodes_by_server_type_def)
  moreover have "\<forall>j \<in> set (get_nodes_by_server_type PRIMARY m). cn_type (node_at m j) = Some PRIMARY"
    by (simp add: get_nodes_by_server_type_def)
  ultimately show ?thesis by (cases "get_nodes_by_server_type PRIMARY m") auto
qed

lemma lb_update [simp]:
  "slot_nodes (m\<lparr>nm_lb := d\<rparr>) = slot_nodes m" "name_of (m\<lparr>nm_lb := d\<rparr>) = name_of m"
  by (simp_all add: slot_nodes_def name_of_def node_at_def fun_eq_iff)

section \<open>Properties\<close>

text \<open>C24: Discovery. When some startup nodes are unreachable and the next one announces disjoint
  entries that cover all slots, \<open>initialize\<close> returns; afterwards every slot of an entry is
  served by the nodes the entry announces, primary first, the default node is a primary, a pending
  redirection and the load balancer's positions are cleared, and the tables are well-formed.\<close>

theorem initialize_correct:
  assumes wf: "nm_wf m" and env: "env_remap env = None" and pl: "\<forall>e \<in> set es. plain_entry e"
    and dj: "disjoint_entries es"
    and cov: "\<forall>s. 0 \<le> s \<and> s < int REDIS_CLUSTER_HASH_SLOTS \<longrightarrow> (\<exists>e \<in> set es. in_entry e s)"
    and start: "map snd (nm_startup m) = us @ v # rest"
    and us: "\<forall>u \<in> set us. u < length (nm_heap m) \<and> (\<exists>x. env_slots env (name_of m u) = Inl x)"
    and v: "v < length (nm_heap m)" "env_slots env (name_of m v) = Inr es"
  shows "\<exists>m' p. initialize env m = (Inr (), m') \<and> nm_wf m' \<and> nm_moved m' = None \<and> nm_lb m' = [] \<and>
    nm_default m' = Some p \<and> cn_type (node_at m' p) = Some PRIMARY \<and>
    (\<forall>e \<in> set es. \<forall>s. in_entry e s \<longrightarrow>
       (\<exists>ids. slot_nodes m' s = Some ids \<and> map (name_of m') ids = entry_names e))"
proof -
  let ?d0 = "\<lparr>ds_heap = nm_heap m, ds_nodes = [], ds_lists = nm_lists m, ds_slots = (\<lambda>_. None),
              ds_covered = 0, ds_disagreements = []\<rparr>"
  have ok: "disc_ok (nm_nodes m) ?d0" "lists_ok ?d0"
    using wf by (simp_all add: disc_ok_def heap_ok_def nm_wf_def lists_ok_def)
  obtain x d where d: "discover env (nm_nodes m) (us @ v # rest) (False, None) ?d0 = (Inr (True, True, x), d)"
      "disc_ok (nm_nodes m) d" "lists_ok d" "\<forall>e \<in> set es. entry_listed d e" "some_primary d"
    using discover_spec [OF ok _ _ env pl dj cov, of us v rest False None] us v by (auto simp: name_of_def node_at_def)
  let ?heap = "create_redis_connections (map snd (ds_nodes d)) (ds_heap d)"
  let ?m3 = "(nm_reset m)\<lparr>nm_lists := ds_lists d, nm_heap := ?heap, nm_nodes := ds_nodes d, nm_slots := ds_slots d\<rparr>"
  note cn = create_connections_names [of "map snd (ds_nodes d)" "ds_heap d"]
  obtain k i where ki: "dict_get (ds_nodes d) k = Some i" "cn_type (ds_heap d ! i) = Some PRIMARY"
    using d(5) by (auto simp: some_primary_def)
  then have "i < length (ds_heap d)" using d(2) by (auto simp: disc_ok_def heap_ok_def)
  then obtain p ps where p: "get_nodes_by_server_type PRIMARY ?m3 = p # ps" "cn_type (node_at ?m3 p) = Some PRIMARY"
    using primaries_nonempty [of ?m3 k i] ki cn by (auto simp: node_at_def)
  define m' where "m' = ?m3\<lparr>nm_default := Some p, nm_moved := None,
      nm_startup := (if nm_dynamic_startup_nodes m then ds_nodes d else nm_startup m)\<rparr>"
  have run: "initialize env m = (Inr (), m')"
    using d(1) p(1) start by (simp add: initialize_def m'_def nm_reset_def Let_def)
  have names: "name_of m' j = cn_name (ds_heap d ! j)" if "j < length (ds_heap d)" for j
    using that cn by (simp add: m'_def name_of_def node_at_def)
  have "nm_wf m'"
    using d(2,3) cn by (auto simp: nm_wf_def m'_def disc_ok_def heap_ok_def lists_ok_def)
  moreover have "\<exists>ids. slot_nodes m' s = Some ids \<and> map (name_of m') ids = entry_names e"
    if e: "e \<in> set es" "in_entry e s" for e s
  proof -
    obtain l where l: "ds_slots d s = Some l" "map (\<lambda>i. cn_name (ds_heap d ! i)) (ds_lists d ! l) = entry_names e"
      using d(4) e unfolding entry_listed_def by blast
    then have "ds_lists d ! l \<in> set (ds_lists d)" using d(3) by (simp add: lists_ok_def)
    then have "\<forall>j \<in> set (ds_lists d ! l). j < length (ds_heap d)" using d(3) by (simp add: lists_ok_def)
    then have "map (name_of m') (ds_lists d ! l) = entry_names e" using l(2) names by (metis (no_types, lifting) map_eq_conv)
    then show ?thesis using l(1) by (simp add: slot_nodes_def m'_def)
  qed
  moreover have "nm_moved m' = None" "nm_lb m' = []" "nm_default m' = Some p" "cn_type (node_at m' p) = Some PRIMARY"
    using p(2) by (simp_all add: m'_def nm_reset_def node_at_def)
  ultimately show ?thesis using run by blast
qed

definition demo_entry :: slot_entry where
  "demo_entry = \<lparr>se_start = 0, se_end = 16383, se_primary = (''10.0.0.1'', 7000), se_replicas = [(''10.0.0.2'', 7000)]\<rparr>"

definition demo_env :: cluster_env where
  "demo_env = \<lparr>env_resolve = (\<lambda>h. h),
     env_slots = (\<lambda>n. if n = ''b:1'' then Inr [demo_entry] else Inl (Exc ConnectionError ''refused'')), env_remap = None\<rparr>"

definition demo_start :: nodes_manager where
  "demo_start = \<lparr>nm_heap = [new_cluster_node (\<lambda>h. h) ''a'' 1 None, new_cluster_node (\<lambda>h. h) ''b'' 1 None],
     nm_nodes = [], nm_lists = [], nm_slots = (\<lambda>_. None), nm_startup = [(''a:1'', 0), (''b:1'', 1)],
     nm_default = None, nm_moved = None, nm_lb = [], nm_require_full_coverage = True, nm_dynamic_startup_nodes = True\<rparr>"

lemma initialize_correct_witness:
  "\<exists>m' p. initialize demo_env demo_start = (Inr (), m') \<and> nm_wf m' \<and> nm_moved m' = None \<and> nm_lb m' = [] \<and>
    nm_default m' = Some p \<and> cn_type (node_at m' p) = Some PRIMARY \<and>
    (\<forall>e \<in> set [demo_entry]. \<forall>s. in_entry e s \<longrightarrow>
       (\<exists>ids. slot_nodes m' s = Some ids \<and> map (name_of m') ids = entry_names e))"
proof (rule initialize_correct [where us = "[0]" and v = 1 and rest = "[]"])
  show "\<forall>s. 0 \<le> s \<and> s < int REDIS_CLUSTER_HASH_SLOTS \<longrightarrow> (\<exists>e \<in> set [demo_entry]. in_entry e s)"
    by (simp add: REDIS_CLUSTER_HASH_SLOTS_def in_entry_def demo_entry_def)
  have n: "name_of demo_start 0 = ''a:1''" "name_of demo_start 1 = ''b:1''" by code_simp+
  show "\<forall>u \<in> set [0]. u < length (nm_heap demo_start) \<and> (\<exists>x. env_slots demo_env (name_of demo_start u) = Inl x)"
    "env_slots demo_env (name_of demo_start 1) = Inr [demo_entry]"
    using n by (simp_all add: demo_env_def) (simp add: demo_start_def)
qed (simp_all add: nm_wf_def heap_ok_def demo_start_def demo_env_def demo_entry_def plain_entry_def)

text \<open>The lookup that consumes a redirection.\<close>

lemma get_node_from_slot_moved:
  assumes "nm_wf m" "nm_moved m = Some e" "nm_slots m (slot_id e) \<noteq> None"
  shows "\<exists>r m'. get_node_from_slot res (slot_id e) False None rand m = (Inr r, m') \<and>
    name_of m' r = get_node_name (resolve_host res (redir_host e)) (redir_port e) \<and>
    nm_moved m' = None \<and> nm_wf m' \<and> r < length (nm_heap m') \<and> r = fst (redirected_node res e m) \<and>
    (\<forall>s l. nm_slots m s = Some l \<and> nm_slots m (slot_id e) \<noteq> Some l \<longrightarrow> slot_nodes m' s = slot_nodes m s)"
proof -
  obtain m' l r where u: "update_moved_slots res m = (Inr (), m')" "nm_wf m'" "nm_moved m' = None"
      "nm_slots m' (slot_id e) = Some l" "hd (nm_lists m' ! l) = r" "r = fst (redirected_node res e m)"
      "name_of m' r = get_node_name (resolve_host res (redir_host e)) (redir_port e)"
      "\<forall>s l'. nm_slots m s = Some l' \<longrightarrow> nm_slots m (slot_id e) \<noteq> Some l' \<longrightarrow> slot_nodes m' s = slot_nodes m s"
    using update_moved_slots_spec [OF assms] by blast
  have "l < length (nm_lists m')" using u(2,4) unfolding nm_wf_def by blast
  then have ids: "nm_lists m' ! l \<in> set (nm_lists m')" by simp
  then have ne: "nm_lists m' ! l \<noteq> []" and rng: "\<forall>i \<in> set (nm_lists m' ! l). i < length (nm_heap m')"
    using u(2) unfolding nm_wf_def by blast+
  have "r < length (nm_heap m')" using rng hd_in_set [OF ne] u(5) by simp
  moreover have "get_node_from_slot res (slot_id e) False None rand m = (Inr r, m')"
    using assms(2) u(1,4,5) ne by (simp add: get_node_from_slot_def bindS_Inr thenS_Inr slot_nodes_def choose_primary)
  ultimately show ?thesis using u by blast
qed

text \<open>After a \<open>MOVED\<close> redirection for a known slot, the next lookup of the slot's primary
  returns the node the redirection names, whether it was a replica, a new node or a node of another shard;
  the redirection is consumed, the tables stay well-formed, and no slot with another node list changes.\<close>

theorem moved_slot_served_by_target:
  assumes "nm_wf m" "nm_moved m = Some e" "nm_slots m (slot_id e) \<noteq> None"
  shows "\<exists>r m'. get_node_from_slot res (slot_id e) False None rand m = (Inr r, m') \<and>
    name_of m' r = get_node_name (resolve_host res (redir_host e)) (redir_port e) \<and>
    nm_moved m' = None \<and> nm_wf m' \<and>
    (\<forall>s l. nm_slots m s = Some l \<and> nm_slots m (slot_id e) \<noteq> Some l \<longrightarrow> slot_nodes m' s = slot_nodes m s)"
  using get_node_from_slot_moved [OF assms, of res rand] by blast

text \<open>A primary and a replica that serve one slot.\<close>

definition demo_nodes :: "redirect option \<Rightarrow> nodes_manager" where
  "demo_nodes mv = \<lparr>nm_heap = [new_cluster_node (\<lambda>h. h) ''a'' 1 (Some PRIMARY), new_cluster_node (\<lambda>h. h) ''b'' 1 (Some REPLICA)],
     nm_nodes = [(''a:1'', 0), (''b:1'', 1)], nm_lists = [[0, 1], [0]], nm_slots = [5 \<mapsto> 0, 6 \<mapsto> 1],
     nm_startup = [], nm_default = Some 0, nm_moved = mv, nm_lb = [], nm_require_full_coverage = False,
     nm_dynamic_startup_nodes = True\<rparr>"

lemma demo_nodes_names: "name_of (demo_nodes mv) 0 = ''a:1''" "name_of (demo_nodes mv) (Suc 0) = ''b:1''"
proof -
  have "cn_name (new_cluster_node (\<lambda>h. h) ''a'' 1 (Some PRIMARY)) = ''a:1''"
    "cn_name (new_cluster_node (\<lambda>h. h) ''b'' 1 (Some REPLICA)) = ''b:1''" by code_simp+
  then show "name_of (demo_nodes mv) 0 = ''a:1''" "name_of (demo_nodes mv) (Suc 0) = ''b:1''"
    by (simp_all add: name_of_def node_at_def demo_nodes_def)
qed

lemma demo_nodes_wf: "nm_wf (demo_nodes mv)"
  using demo_nodes_names [of mv]
  by (auto simp: nm_wf_def heap_ok_def name_of_def node_at_def demo_nodes_def split: if_splits)

lemma moved_slot_served_by_target_witness:
  "\<exists>r m'. get_node_from_slot (\<lambda>h. h) 5 False None 0 (demo_nodes (Some \<lparr>slot_id = 5, redir_host = ''b'', redir_port = 1\<rparr>)) = (Inr r, m') \<and>
    name_of m' r = get_node_name (resolve_host (\<lambda>h. h) ''b'') 1 \<and> nm_moved m' = None"
  using moved_slot_served_by_target [OF demo_nodes_wf, of "Some \<lparr>slot_id = 5, redir_host = ''b'', redir_port = 1\<rparr>"
      "\<lparr>slot_id = 5, redir_host = ''b'', redir_port = 1\<rparr>" "\<lambda>h. h" 0]
  by (auto simp: demo_nodes_def)

text \<open>Reading from replicas goes round the nodes of the slot: the lookups of one slot return its
  nodes in order, starting again after the last.\<close>

theorem read_from_replicas_round_robin:
  assumes "nm_moved m = None" "slot_nodes m slot = Some nodes" "nodes \<noteq> []" "nm_lb m = []"
  shows "fst (repeatS k (get_node_from_slot res slot True t rand) m) = Inr (map (\<lambda>j. nodes ! (j mod length nodes)) [0..<k])"
  (is "fst (repeatS k ?get m) = _")
proof -
  let ?p = "name_of m (hd nodes)" and ?n = "length nodes"
  have step: "?get (m\<lparr>nm_lb := d\<rparr>) = (Inr (nodes ! i), m\<lparr>nm_lb := dict_set ?p ((i + 1) mod ?n) d\<rparr>)"
    if "get_server_index ?p ?n d = (i, dict_set ?p ((i + 1) mod ?n) d)" "i < ?n" for d i
    using that assms(1-3)
    by (simp add: get_node_from_slot_def bindS_Inr thenS_Inr choose_node_def)
  have run: "fst (repeatS k ?get (m\<lparr>nm_lb := d\<rparr>)) = Inr (map (\<lambda>j. nodes ! j) (server_indices ?p ?n k d))"
    if "dict_get d ?p = Some i \<or> (dict_get d ?p = None \<and> i = 0)" "i < ?n" for d i
    using that
  proof (induction k arbitrary: d i)
    case (Suc k)
    let ?d = "dict_set ?p ((i + 1) mod ?n) d"
    have g: "get_server_index ?p ?n d = (i, ?d)" using Suc.prems by (auto simp: get_server_index_def)
    have "fst (repeatS k ?get (m\<lparr>nm_lb := ?d\<rparr>)) = Inr (map (\<lambda>j. nodes ! j) (server_indices ?p ?n k ?d))"
      using Suc.prems(2) assms(3) by (intro Suc.IH [of _ "(i + 1) mod ?n"]) simp_all
    then obtain m' where "repeatS k ?get (m\<lparr>nm_lb := ?d\<rparr>) = (Inr (map (\<lambda>j. nodes ! j) (server_indices ?p ?n k ?d)), m')"
      by (cases "repeatS k ?get (m\<lparr>nm_lb := ?d\<rparr>)") simp
    then show ?case using step [OF g Suc.prems(2)] g by (simp add: bindS_Inr)
  qed simp
  have "m\<lparr>nm_lb := []\<rparr> = m" using assms(4) by simp
  then show ?thesis
    using run [of "[]" 0] server_indices_from [of ?n "[]" ?p 0 k] assms(3) by (simp add: comp_def)
qed

lemma read_from_replicas_round_robin_witness:
  "fst (repeatS 3 (get_node_from_slot (\<lambda>h. h) 5 True None 0) (demo_nodes None)) = Inr [0, 1, 0]"
  using read_from_replicas_round_robin [of "demo_nodes None" 5 "[0, 1]" 3 "\<lambda>h. h" None 0]
  by (simp add: demo_nodes_def slot_nodes_def upt_rec)

text \<open>A redirection to the node that already is the primary of a slot with replicas drops the first
  replica from the slot, lists the primary twice and marks it as a replica.\<close>

theorem moved_to_current_primary_loses_replica:
  assumes wf: "nm_wf m" and mv: "nm_moved m = Some e" and sl: "nm_slots m (slot_id e) = Some l"
    and nodes: "nm_lists m ! l = p # q # rest" and p: "cn_type (node_at m p) = Some PRIMARY"
    and name: "get_node res (redir_host e) (redir_port e) [] m = Some p"
  shows "\<exists>m'. update_moved_slots res m = (Inr (), m') \<and> slot_nodes m' (slot_id e) = Some (p # rest @ [p]) \<and>
    cn_type (node_at m' p) = Some REPLICA"
proof -
  have l: "l < length (nm_lists m)" using wf sl unfolding nm_wf_def by blast
  then have "nm_lists m ! l \<in> set (nm_lists m)" by simp
  then have ph: "p < length (nm_heap m)" using wf nodes unfolding nm_wf_def by fastforce
  have rd: "redirected_node res e m = (p, m)" using name p by (simp add: redirected_node_def)
  let ?m1 = "set_type p REPLICA m"
  let ?m2 = "?m1\<lparr>nm_lists := (nm_lists m)[l := p # rest @ [p]]\<rparr>"
  have pr: "promote l p m = ?m2 \<or> promote l p m = ?m2\<lparr>nm_default := Some p\<rparr>"
    unfolding promote_def Let_def nodes by simp
  have u: "update_moved_slots res m = (Inr (), (promote l p m)\<lparr>nm_moved := None\<rparr>)"
    using mv rd sl nodes by (simp add: update_moved_slots_def)
  have "cn_type (node_at ?m1 p) = Some REPLICA" using ph by (simp add: set_type_def node_at_def)
  then show ?thesis unfolding u using pr sl l by (auto simp: slot_nodes_def node_at_def)
qed

lemma moved_to_current_primary_loses_replica_witness:
  "\<exists>m'. update_moved_slots (\<lambda>h. h) (demo_nodes (Some \<lparr>slot_id = 5, redir_host = ''a'', redir_port = 1\<rparr>)) = (Inr (), m') \<and>
    slot_nodes m' 5 = Some [0, 0] \<and> cn_type (node_at m' 0) = Some REPLICA"
proof -
  let ?e = "\<lparr>slot_id = 5, redir_host = ''a'', redir_port = 1\<rparr>"
  have "get_node_name (resolve_host (\<lambda>h. h) ''a'') 1 = ''a:1''" by code_simp
  then have "get_node (\<lambda>h. h) (redir_host ?e) (redir_port ?e) [] (demo_nodes (Some ?e)) = Some 0"
    by (simp add: get_node_def demo_nodes_def)
  then show ?thesis
    using moved_to_current_primary_loses_replica [OF demo_nodes_wf, of "Some ?e" ?e 0 0 1 "[]" "\<lambda>h. h"]
    by (simp add: demo_nodes_def node_at_def new_cluster_node_def)
qed

text \<open>The load balancer keeps one position per primary for slots with node lists of different
  lengths: after one read from a slot with a replica, a read from a slot of the same primary
  without replicas raises \<open>IndexError\<close>.\<close>

theorem load_balancer_index_error:
  assumes "nm_moved m = None" "nm_lb m = []" "slot_nodes m a = Some (p # q # rest)" "slot_nodes m b = Some [p]"
  shows "fst (thenS (get_node_from_slot res a True None r) (get_node_from_slot res b True None r) m) =
    Inl (Exc IndexError ''list index out of range'')"
proof -
  let ?m = "m\<lparr>nm_lb := [(name_of m p, Suc 0)]\<rparr>"
  have "get_node_from_slot res a True None r m = (Inr p, ?m)"
    using assms(1,2,3) by (simp add: get_node_from_slot_def bindS_Inr thenS_Inr choose_node_def get_server_index_def)
  moreover have "fst (get_node_from_slot res b True None r ?m) = Inl (Exc IndexError ''list index out of range'')"
    using assms(1,4)
    by (simp add: get_node_from_slot_def bindS_Inr thenS_Inr choose_node_def get_server_index_def)
  ultimately show ?thesis by (simp add: thenS_Inr)
qed

lemma load_balancer_index_error_witness:
  "fst (thenS (get_node_from_slot (\<lambda>h. h) 5 True None 0) (get_node_from_slot (\<lambda>h. h) 6 True None 0) (demo_nodes None)) =
    Inl (Exc IndexError ''list index out of range'')"
  using load_balancer_index_error [of "demo_nodes None" 5 0 1 "[]" 6 "\<lambda>h. h" 0]
  by (simp add: demo_nodes_def slot_nodes_def)

end
