(* ===== verification/CommandKeys.thy ===== *)
theory CommandKeys
  imports Utils
begin

text \<open>
  Where the keys of a command are (\<open>redis/_parsers/commands.py\<close>): the table that
  \<open>COMMAND\<close> describes, the positions it gives, sub-commands, the PUBSUB family, and the commands
  whose keys the server has to name. What the server answers to \<open>COMMAND\<close> and
  \<open>COMMAND GETKEYS\<close> is an argument.
\<close>

section \<open>The table\<close>

record subcommand =
  sc_name :: string
  sc_flags :: "string list"
  sc_first_key_pos :: int
  sc_last_key_pos :: int
  sc_step_count :: int

record command_info =
  ci_name :: string
  ci_flags :: "string list"
  ci_first_key_pos :: int
  ci_last_key_pos :: int
  ci_step_count :: int
  ci_subcommands :: "subcommand list option"

type_synonym commands = "(string, command_info) dict"

record command_server =
  srv_command :: "exc + commands"
  srv_getkeys :: "pyval list \<Rightarrow> exc + pyval list"

definition parse_subcommand :: "subcommand \<Rightarrow> command_info" where
  "parse_subcommand c = \<lparr>ci_name = sc_name c, ci_flags = sc_flags c, ci_first_key_pos = sc_first_key_pos c,
     ci_last_key_pos = sc_last_key_pos c, ci_step_count = sc_step_count c, ci_subcommands = None\<rparr>"

definition has_upper :: "string \<Rightarrow> bool" where
  "has_upper s = list_ex is_upper_char s"

definition lower_keys :: "commands \<Rightarrow> commands" where
  "lower_keys d = foldl (\<lambda>d k. case dict_get d k of Some c \<Rightarrow> dict_set (lower k) c (dict_del k d) | None \<Rightarrow> d)
     d (filter has_upper (map fst d))"

definition initialize_commands :: "command_server \<Rightarrow> (commands, exc, unit) action" where
  "initialize_commands srv = (\<lambda>d. case srv_command srv of Inl e \<Rightarrow> (Inl e, d) | Inr c \<Rightarrow> (Inr (), lower_keys c))"

section \<open>Positions\<close>

text \<open>\<open>list(range(start, stop, step))\<close>.\<close>

function range_up :: "int \<Rightarrow> int \<Rightarrow> int \<Rightarrow> int list" where
  "range_up i stop step = (if i < stop \<and> 0 < step then i # range_up (i + step) stop step else [])"
  by pat_completeness auto
termination
  by (relation "measure (\<lambda>(i, stop, step). nat (stop - i))") auto

declare range_up.simps [simp del]

definition py_range :: "int \<Rightarrow> int \<Rightarrow> int \<Rightarrow> exc + int list" where
  "py_range start stop step =
     (if step = 0 then Inl (Exc ValueError ''range() arg 3 must not be zero'')
      else if 0 < step then Inr (range_up start stop step)
      else Inr (map uminus (range_up (- start) (- stop) (- step))))"

text \<open>\<open>xs[i]\<close> with Python's negative positions.\<close>

definition py_nth :: "'a list \<Rightarrow> int \<Rightarrow> exc + 'a" where
  "py_nth xs i =
     (let j = (if i < 0 then i + int (length xs) else i)
      in if 0 \<le> j \<and> j < int (length xs) then Inr (xs ! nat j) else Inl (Exc IndexError ''tuple index out of range''))"

definition positional_keys :: "command_info \<Rightarrow> pyval list \<Rightarrow> exc + pyval list" where
  "positional_keys c args =
     (let last_key_pos = (if ci_last_key_pos c < 0 then int (length args) - \<bar>ci_last_key_pos c\<bar> else ci_last_key_pos c)
      in bindE (py_range (ci_first_key_pos c) (last_key_pos + 1) (ci_step_count c)) (mapE (py_nth args)))"

section \<open>PUBSUB\<close>

definition upper_val :: "pyval \<Rightarrow> exc + string" where
  "upper_val v = (case v of PStr s \<Rightarrow> Inr (upper s) | _ \<Rightarrow> Inl (Exc AttributeError ''upper''))"

definition get_pubsub_keys :: "pyval list \<Rightarrow> exc + pyval list option" where
  "get_pubsub_keys args0 =
     (let args = map str_if_bytes args0 in
      case args of
        cmd # sub # rest \<Rightarrow>
          bindE (upper_val cmd) (\<lambda>command.
            if command = ''PUBSUB'' then
              bindE (upper_val sub) (\<lambda>t.
                if t \<in> set [''CHANNELS'', ''NUMSUB'', ''SHARDCHANNELS'', ''SHARDNUMSUB''] then Inr (Some rest) else Inr None)
            else if command \<in> set [''SUBSCRIBE'', ''PSUBSCRIBE'', ''UNSUBSCRIBE'', ''PUNSUBSCRIBE''] then Inr (Some (sub # rest))
            else if command \<in> set [''PUBLISH'', ''SPUBLISH''] then Inr (Some [sub])
            else Inr None)
      | _ \<Rightarrow> Inr None)"

section \<open>The keys of a command\<close>

definition get_moveable_keys :: "command_server \<Rightarrow> string \<Rightarrow> pyval list \<Rightarrow> exc + pyval list option" where
  "get_moveable_keys srv name rest =
     (case srv_getkeys srv (map PStr (split_ws name) @ rest) of
        Inr ks \<Rightarrow> Inr (Some ks)
      | Inl e \<Rightarrow>
          if isinstance e ResponseError \<and>
             (has_sub ''Invalid arguments'' (exc_msg e) \<or> has_sub ''The command has no key arguments'' (exc_msg e))
          then Inr None else Inl e)"

text \<open>The last entry with the name counts.\<close>

definition find_subcommand :: "string \<Rightarrow> subcommand list \<Rightarrow> subcommand option" where
  "find_subcommand n cs = (case filter (\<lambda>c. sc_name c = n) cs of [] \<Rightarrow> None | x # xs \<Rightarrow> Some (last (x # xs)))"

text \<open>The text of a sub-command argument in an f-string; only \<open>str\<close> and \<open>bytes\<close> have \<open>lower\<close>.\<close>

definition lower_text :: "pyval \<Rightarrow> exc + string" where
  "lower_text v = (case v of
      PStr s \<Rightarrow> Inr (lower s)
    | PBytes s \<Rightarrow> Inr (''b'' @ [CHR 0x27] @ lower s @ [CHR 0x27])
    | _ \<Rightarrow> Inl (Exc AttributeError ''lower''))"

definition keys_from_info :: "command_server \<Rightarrow> string \<Rightarrow> command_info \<Rightarrow> string \<Rightarrow> pyval list \<Rightarrow> exc + pyval list option" where
  "keys_from_info srv cmd_name c name rest =
     (if ''movablekeys'' \<in> set (ci_flags c) then get_moveable_keys srv name rest
      else if ''pubsub'' \<in> set (ci_flags c) \<or> ci_name c = ''pubsub'' then get_pubsub_keys (PStr name # rest)
      else if ci_step_count c = 0 \<and> ci_first_key_pos c = 0 \<and> ci_last_key_pos c = 0 then
        (case ci_subcommands c of
           None \<Rightarrow> Inr None
         | Some cs \<Rightarrow>
             bindE (lower_text (hd rest)) (\<lambda>t.
               case find_subcommand (cmd_name @ ''|'' @ t) cs of
                 None \<Rightarrow> Inr None
               | Some sc \<Rightarrow> bindE (positional_keys (parse_subcommand sc) (PStr name # rest)) (\<lambda>ks. Inr (Some ks))))
      else bindE (positional_keys c (PStr name # rest)) (\<lambda>ks. Inr (Some ks)))"

definition unknown_command :: "string \<Rightarrow> exc" where
  "unknown_command n = Exc RedisError (upper n @ '' command doesn'' @ [CHR 0x27] @ ''t exist in Redis commands'')"

text \<open>
  \<open>name\<close> is the first argument. A name of several words is looked up whole, then by its first word,
  whose other words become arguments.
\<close>

definition get_keys :: "command_server \<Rightarrow> string \<Rightarrow> pyval list \<Rightarrow> (commands, exc, pyval list option) action" where
  "get_keys srv name rest = (\<lambda>d.
     if rest = [] then (Inr None, d)
     else
       (case dict_get d (lower name) of
          Some c \<Rightarrow> (keys_from_info srv (lower name) c name rest, d)
        | None \<Rightarrow>
            (case split_ws (lower name) of
               [] \<Rightarrow> (Inl (Exc IndexError ''list index out of range''), d)
             | w # ws \<Rightarrow>
                 (case dict_get d w of
                    Some c \<Rightarrow> (keys_from_info srv w c w (map PStr ws @ rest), d)
                  | None \<Rightarrow>
                      (case initialize_commands srv d of
                         (Inl e, d') \<Rightarrow> (Inl e, d')
                       | (Inr _, d') \<Rightarrow>
                           (case dict_get d' w of
                              None \<Rightarrow> (Inl (unknown_command w), d')
                            | Some c \<Rightarrow> (keys_from_info srv w c name rest, d')))))))"

section \<open>Facts on positions\<close>

lemma range_up_step: "i < stop \<Longrightarrow> 0 < step \<Longrightarrow> range_up i stop step = i # range_up (i + step) stop step"
  by (subst range_up.simps) simp

lemma range_up_empty: "stop \<le> i \<Longrightarrow> range_up i stop step = []"
  by (subst range_up.simps) simp

lemma range_up_bounds: "p \<in> set (range_up i stop step) \<Longrightarrow> i \<le> p \<and> p < stop"
  by (induction i stop step rule: range_up.induct) (subst (asm) (2) range_up.simps, auto split: if_splits)

lemma range_up_sorted: "sorted (range_up i stop step) \<and> distinct (range_up i stop step)"
proof (induction i stop step rule: range_up.induct)
  case (1 i stop step)
  then show ?case
    by (subst (1 2) range_up.simps) (auto dest: range_up_bounds)
qed

lemma set_range_up: "0 < step \<Longrightarrow> set (range_up i stop step) = {p. i \<le> p \<and> p < stop \<and> (p - i) mod step = 0}"
proof (induction i stop step rule: range_up.induct)
  case (1 i stop step)
  show ?case
  proof (cases "i < stop")
    case True
    have "{p. i \<le> p \<and> p < stop \<and> (p - i) mod step = 0} =
        insert i {p. i + step \<le> p \<and> p < stop \<and> (p - (i + step)) mod step = 0}" (is "?l = ?r")
    proof (rule set_eqI)
      fix p
      have m: "(p - (i + step)) mod step = (p - i) mod step"
        by (metis diff_diff_eq minus_mod_self2)
      show "p \<in> ?l \<longleftrightarrow> p \<in> ?r"
      proof (cases "i < p \<and> p < i + step")
        case True
        then have "(p - i) mod step \<noteq> 0" by (simp add: mod_pos_pos_trivial)
        then show ?thesis using True by auto
      next
        case False
        then show ?thesis using m 1(2) \<open>i < stop\<close> by auto
      qed
    qed
    then show ?thesis using 1 True by (simp add: range_up_step)
  next
    case False
    then show ?thesis by (auto simp: range_up_empty)
  qed
qed

text \<open>The positions \<open>first\<close>, \<open>first + step\<close>, ... up to \<open>last\<close>.\<close>

lemma range_up_filter:
  assumes "0 < step"
  shows "range_up i (l + 1) step = filter (\<lambda>p. (p - i) mod step = 0) [i..l]"
proof (rule sorted_distinct_set_unique)
  show "set (range_up i (l + 1) step) = set (filter (\<lambda>p. (p - i) mod step = 0) [i..l])"
    using assms by (auto simp: set_range_up)
qed (use range_up_sorted in \<open>auto simp: sorted_wrt_filter\<close>)

lemma mapE_py_nth:
  "\<forall>p \<in> set ps. 0 \<le> p \<and> p < int (length xs) \<Longrightarrow> mapE (py_nth xs) ps = Inr (map (\<lambda>p. xs ! nat p) ps)"
  by (rule mapE_Inr_map) (auto simp: py_nth_def)

text \<open>The last position counted from the end where it is negative.\<close>

definition last_position :: "command_info \<Rightarrow> nat \<Rightarrow> int" where
  "last_position c n = (if ci_last_key_pos c < 0 then int n + ci_last_key_pos c else ci_last_key_pos c)"

lemma positional_keys_eq:
  assumes "0 < ci_step_count c" "0 \<le> ci_first_key_pos c" "last_position c (length args) < int (length args)"
  shows "positional_keys c args = Inr (map (\<lambda>p. args ! nat p)
    (filter (\<lambda>p. (p - ci_first_key_pos c) mod ci_step_count c = 0) [ci_first_key_pos c..last_position c (length args)]))"
proof -
  have l: "(if ci_last_key_pos c < 0 then int (length args) - \<bar>ci_last_key_pos c\<bar> else ci_last_key_pos c) =
      last_position c (length args)" by (simp add: last_position_def)
  have "mapE (py_nth args) (range_up (ci_first_key_pos c) (last_position c (length args) + 1) (ci_step_count c)) =
      Inr (map (\<lambda>p. args ! nat p) (range_up (ci_first_key_pos c) (last_position c (length args) + 1) (ci_step_count c)))"
    using assms(2,3) by (intro mapE_py_nth ballI) (fastforce dest: range_up_bounds)
  then show ?thesis
    using assms(1) unfolding positional_keys_def Let_def l by (simp add: py_range_def range_up_filter)
qed

section \<open>Properties\<close>

text \<open>The keys of a command that the table describes by positions are exactly the arguments at the first
  position and every step after it up to the last, which is counted from the end when it is negative; the table is
  found for every case of the name, and also by its first word, whose other words count as arguments.\<close>

theorem get_keys_positions:
  assumes "rest \<noteq> []"
    and "(w, args) = (if dict_has d (lower name) then (lower name, PStr name # rest)
       else (hd (split_ws (lower name)), map PStr (split_ws (lower name)) @ rest))"
    and "split_ws (lower name) \<noteq> []" "dict_get d w = Some c"
    and "set (ci_flags c) \<inter> {''movablekeys'', ''pubsub''} = {}" "ci_name c \<noteq> ''pubsub''"
    and "0 < ci_step_count c" "0 < ci_first_key_pos c" "last_position c (length args) < int (length args)"
  shows "get_keys srv name rest d = (Inr (Some (map (\<lambda>p. args ! nat p)
    (filter (\<lambda>p. (p - ci_first_key_pos c) mod ci_step_count c = 0)
      [ci_first_key_pos c..last_position c (length args)]))), d)"
proof -
  have info: "keys_from_info srv n c x ys = (case positional_keys c (PStr x # ys) of Inl e \<Rightarrow> Inl e | Inr ks \<Rightarrow> Inr (Some ks))" for n x ys
    using assms(5-8) by (simp add: keys_from_info_def bindE_def)
  note pk = positional_keys_eq [OF assms(7) _ assms(9)]
  show ?thesis
  proof (cases "dict_has d (lower name)")
    case True
    then have "w = lower name" "args = PStr name # rest" using assms(2) by simp_all
    then show ?thesis using assms(1,4,8) pk by (simp add: get_keys_def info)
  next
    case False
    obtain u us where u: "split_ws (lower name) = u # us" using assms(3) by (cases "split_ws (lower name)") auto
    then have "w = u" "args = PStr u # map PStr us @ rest" "dict_get d (lower name) = None"
      using assms(2) False by (simp_all add: dict_has_def)
    then show ?thesis using assms(1,4,8) pk u by (simp add: get_keys_def info)
  qed
qed

definition demo_commands :: commands where
  "demo_commands = [(''mset'', \<lparr>ci_name = ''mset'', ci_flags = [''write''], ci_first_key_pos = 1,
     ci_last_key_pos = -1, ci_step_count = 2, ci_subcommands = None\<rparr>)]"

lemma get_keys_positions_witness:
  "get_keys \<lparr>srv_command = Inr [], srv_getkeys = (\<lambda>_. Inr [])\<rparr> ''MSET'' [PStr ''a'', PInt 1, PStr ''b'', PInt 2] demo_commands = (Inr (Some [PStr ''a'', PStr ''b'']), demo_commands)"
proof -
  have n: "lower ''MSET'' = ''mset''" "split_ws ''mset'' = [''mset'']" by code_simp+
  show ?thesis
    by (subst get_keys_positions [where d = demo_commands and w = "''mset''" and c = "snd (hd demo_commands)"
          and args = "[PStr ''MSET'', PStr ''a'', PInt 1, PStr ''b'', PInt 2]"])
      (simp_all add: n demo_commands_def dict_has_def last_position_def upto.simps)
qed

end
