(* ===== verification/ClusterRouting.thy ===== *)
theory ClusterRouting
  imports ClusterNodes CommandKeys Callbacks
begin

text \<open>
  How a cluster client routes a command and joins the answers (\<open>redis/cluster.py\<close>): the tables of
  \<open>AbstractRedisCluster\<close>, the callbacks for replies of cluster commands and for the answers of
  several nodes, \<open>cleanup_kwargs\<close>, \<open>replace_default_node\<close>.
\<close>

section \<open>Tables\<close>

datatype node_flag = PRIMARIES | REPLICAS | ALL_NODES | RANDOM | DEFAULT_NODE | SLOT_ID

definition default_node_commands :: "string list" where
  "default_node_commands =
    [''ACL CAT'', ''ACL DELUSER'', ''ACL DRYRUN'', ''ACL GENPASS'', ''ACL GETUSER'', ''ACL HELP'',
     ''ACL LIST'', ''ACL LOG'', ''ACL LOAD'', ''ACL SAVE'', ''ACL SETUSER'', ''ACL USERS'', ''ACL WHOAMI'',
     ''AUTH'', ''CLIENT LIST'', ''CLIENT SETINFO'', ''CLIENT SETNAME'', ''CLIENT GETNAME'', ''CONFIG SET'',
     ''CONFIG REWRITE'', ''CONFIG RESETSTAT'', ''TIME'', ''PUBSUB CHANNELS'', ''PUBSUB NUMPAT'',
     ''PUBSUB NUMSUB'', ''PUBSUB SHARDCHANNELS'', ''PUBSUB SHARDNUMSUB'', ''PING'', ''INFO'', ''SHUTDOWN'',
     ''KEYS'', ''DBSIZE'', ''BGSAVE'', ''SLOWLOG GET'', ''SLOWLOG LEN'', ''SLOWLOG RESET'', ''WAIT'',
     ''WAITAOF'', ''SAVE'', ''MEMORY PURGE'', ''MEMORY MALLOC-STATS'', ''MEMORY STATS'', ''LASTSAVE'',
     ''CLIENT TRACKINGINFO'', ''CLIENT PAUSE'', ''CLIENT UNPAUSE'', ''CLIENT UNBLOCK'', ''CLIENT ID'',
     ''CLIENT REPLY'', ''CLIENT GETREDIR'', ''CLIENT INFO'', ''CLIENT KILL'', ''READONLY'', ''CLUSTER INFO'',
     ''CLUSTER MEET'', ''CLUSTER MYSHARDID'', ''CLUSTER NODES'', ''CLUSTER REPLICAS'', ''CLUSTER RESET'',
     ''CLUSTER SET-CONFIG-EPOCH'', ''CLUSTER SLOTS'', ''CLUSTER SHARDS'', ''CLUSTER COUNT-FAILURE-REPORTS'',
     ''CLUSTER KEYSLOT'', ''COMMAND'', ''COMMAND COUNT'', ''COMMAND LIST'', ''COMMAND GETKEYS'',
     ''CONFIG GET'', ''DEBUG'', ''RANDOMKEY'', ''READONLY'', ''READWRITE'', ''TIME'', ''TFUNCTION LOAD'',
     ''TFUNCTION DELETE'', ''TFUNCTION LIST'', ''TFCALL'', ''TFCALLASYNC'', ''GRAPH.CONFIG'',
     ''LATENCY HISTORY'', ''LATENCY LATEST'', ''LATENCY RESET'', ''MODULE LIST'', ''MODULE LOAD'',
     ''MODULE UNLOAD'', ''MODULE LOADEX'']"

definition primaries_commands :: "string list" where
  "primaries_commands =
    [''FLUSHALL'', ''FLUSHDB'', ''FUNCTION DELETE'', ''FUNCTION FLUSH'', ''FUNCTION LIST'',
     ''FUNCTION LOAD'', ''FUNCTION RESTORE'', ''REDISGEARS_2.REFRESHCLUSTER'', ''SCAN'', ''SCRIPT EXISTS'',
     ''SCRIPT FLUSH'', ''SCRIPT LOAD'']"

definition slot_id_commands :: "string list" where
  "slot_id_commands =
    [''CLUSTER COUNTKEYSINSLOT'', ''CLUSTER DELSLOTS'', ''CLUSTER DELSLOTSRANGE'', ''CLUSTER GETKEYSINSLOT'',
     ''CLUSTER SETSLOT'']"

text \<open>\<open>dict_merge\<close> of the tables of each flag: a later table wins.\<close>

definition COMMAND_FLAGS :: "string \<Rightarrow> node_flag option" where
  "COMMAND_FLAGS c =
     (if c \<in> set slot_id_commands then Some SLOT_ID
      else if c = ''FUNCTION DUMP'' then Some RANDOM
      else if c \<in> set primaries_commands then Some PRIMARIES
      else if c \<in> set default_node_commands then Some DEFAULT_NODE
      else None)"

definition SEARCH_COMMANDS :: "string list" where
  "SEARCH_COMMANDS =
    [''FT.CREATE'', ''FT.SEARCH'', ''FT.AGGREGATE'', ''FT.EXPLAIN'', ''FT.EXPLAINCLI'', ''FT,PROFILE'',
     ''FT.ALTER'', ''FT.DROPINDEX'', ''FT.ALIASADD'', ''FT.ALIASUPDATE'', ''FT.ALIASDEL'', ''FT.TAGVALS'',
     ''FT.SUGADD'', ''FT.SUGGET'', ''FT.SUGDEL'', ''FT.SUGLEN'', ''FT.SYNUPDATE'', ''FT.SYNDUMP'',
     ''FT.SPELLCHECK'', ''FT.DICTADD'', ''FT.DICTDEL'', ''FT.DICTDUMP'', ''FT.INFO'', ''FT._LIST'',
     ''FT.CONFIG'', ''FT.ADD'', ''FT.DEL'', ''FT.DROP'', ''FT.GET'', ''FT.MGET'', ''FT.SYNADD'']"

definition READ_COMMANDS :: "string list" where
  "READ_COMMANDS =
    [''BITCOUNT'', ''BITPOS'', ''EVAL_RO'', ''EVALSHA_RO'', ''EXISTS'', ''GEODIST'', ''GEOHASH'', ''GEOPOS'',
     ''GEORADIUS'', ''GEORADIUSBYMEMBER'', ''GET'', ''GETBIT'', ''GETRANGE'', ''HEXISTS'', ''HGET'',
     ''HGETALL'', ''HKEYS'', ''HLEN'', ''HMGET'', ''HSTRLEN'', ''HVALS'', ''KEYS'', ''LINDEX'', ''LLEN'',
     ''LRANGE'', ''MGET'', ''PTTL'', ''RANDOMKEY'', ''SCARD'', ''SDIFF'', ''SINTER'', ''SISMEMBER'',
     ''SMEMBERS'', ''SRANDMEMBER'', ''STRLEN'', ''SUNION'', ''TTL'', ''ZCARD'', ''ZCOUNT'', ''ZRANGE'',
     ''ZSCORE'']"

definition REDIS_ALLOWED_KEYS :: "string list" where
  "REDIS_ALLOWED_KEYS =
    [''charset'', ''connection_class'', ''connection_pool'', ''connection_pool_class'', ''client_name'',
     ''credential_provider'', ''db'', ''decode_responses'', ''encoding'', ''encoding_errors'', ''errors'',
     ''host'', ''lib_name'', ''lib_version'', ''max_connections'', ''nodes_flag'', ''redis_connect_func'',
     ''password'', ''port'', ''queue_class'', ''retry'', ''retry_on_timeout'', ''protocol'',
     ''socket_connect_timeout'', ''socket_keepalive'', ''socket_keepalive_options'', ''socket_timeout'',
     ''ssl'', ''ssl_ca_certs'', ''ssl_ca_data'', ''ssl_certfile'', ''ssl_cert_reqs'', ''ssl_keyfile'',
     ''ssl_password'', ''unix_socket_path'', ''username'', ''cache'', ''cache_config'']"

definition KWARGS_DISABLED_KEYS :: "string list" where
  "KWARGS_DISABLED_KEYS = [''host'', ''port'']"

definition cleanup_kwargs :: "(string, 'v) dict \<Rightarrow> (string, 'v) dict" where
  "cleanup_kwargs kw = filter (\<lambda>(k, v). k \<in> set REDIS_ALLOWED_KEYS \<and> k \<notin> set KWARGS_DISABLED_KEYS) kw"

section \<open>Replies of cluster commands\<close>

definition py_item :: "pyval \<Rightarrow> nat \<Rightarrow> exc + pyval" where
  "py_item v n = (case v of
      PList xs \<Rightarrow> (if n < length xs then Inr (xs ! n) else Inl (Exc IndexError ''list index out of range''))
    | PTuple xs \<Rightarrow> (if n < length xs then Inr (xs ! n) else Inl (Exc IndexError ''tuple index out of range''))
    | _ \<Rightarrow> Inl (Exc TypeError ''object is not subscriptable''))"

text \<open>\<open>fix_server\<close>: a server without a host is the current one.\<close>

definition fix_server :: "string \<Rightarrow> pyval \<Rightarrow> exc + pyval" where
  "fix_server current_host v =
     bindE (py_item v 0) (\<lambda>h. bindE (py_item v 1) (\<lambda>p.
       Inr (PTuple [if truthy (str_if_bytes h) then str_if_bytes h else PStr current_host, p])))"

fun parse_cluster_slot :: "string \<Rightarrow> pyval \<Rightarrow> exc + (pyval \<times> pyval)" where
  "parse_cluster_slot current_host (PList (start # stop # primary # replicas)) =
     bindE (fix_server current_host primary) (\<lambda>p.
     bindE (mapE (fix_server current_host) replicas) (\<lambda>rs.
       Inr (PTuple [start, stop], PDict [(PStr ''primary'', p), (PStr ''replicas'', PList rs)])))"
| "parse_cluster_slot current_host (PList _) = Inl (Exc ValueError ''not enough values to unpack (expected 3)'')"
| "parse_cluster_slot current_host _ = Inl (Exc TypeError ''object is not subscriptable'')"

definition parse_cluster_slots :: "string \<Rightarrow> pyval \<Rightarrow> exc + pyval" where
  "parse_cluster_slots current_host resp =
     bindE (py_iter resp) (\<lambda>xs. bindE (mapE (parse_cluster_slot current_host) xs) (\<lambda>ps.
       bindE (py_dict [] ps) (\<lambda>d. Inr (PDict d))))"

text \<open>Items \<open>2 i\<close> and \<open>2 i + 1\<close>; an odd length runs past the end.\<close>

definition py_pairs :: "pyval \<Rightarrow> exc + (pyval \<times> pyval) list" where
  "py_pairs v = (case v of
      PList xs \<Rightarrow> (if even (length xs) then Inr (pairs_of xs) else Inl (Exc IndexError ''list index out of range''))
    | _ \<Rightarrow> Inl (Exc TypeError ''object of this type has no len()''))"

definition parse_cluster_shard :: "pyval \<Rightarrow> exc + pyval" where
  "parse_cluster_shard x =
     bindE (bindE (py_item x 1) py_pairs) (\<lambda>slots.
     bindE (bindE (py_item x 3) py_iter) (\<lambda>nodes.
     bindE (mapE (\<lambda>n. bindE (py_pairs n) (\<lambda>ps. bindE (py_dict [] ps) (\<lambda>d. Inr (PDict d)))) nodes) (\<lambda>ds.
       Inr (PDict [(PStr ''slots'', PList (map (\<lambda>(a, b). PTuple [a, b]) slots)), (PStr ''nodes'', PList ds)]))))"

definition parse_cluster_shards :: "pyval \<Rightarrow> exc + pyval" where
  "parse_cluster_shards resp =
     bindE (py_item resp 0) (\<lambda>r.
       case r of PDict _ \<Rightarrow> Inr resp
       | _ \<Rightarrow> bindE (py_iter resp) (\<lambda>xs. bindE (mapE parse_cluster_shard xs) (\<lambda>ss. Inr (PList ss))))"

definition parse_cluster_myshardid :: "pyval \<Rightarrow> exc + pyval" where
  "parse_cluster_myshardid resp = (case resp of
      PBytes b \<Rightarrow> (if utf8_valid b then Inr (PStr b) else Inl (Exc UnicodeDecodeError ''utf-8''))
    | _ \<Rightarrow> Inl (Exc AttributeError ''decode''))"

text \<open>The table is case insensitive.\<close>

definition cluster_response_callback :: "string \<Rightarrow> pyval \<Rightarrow> exc + pyval" where
  "cluster_response_callback command resp =
     (if upper command = ''CLUSTER SLOTS'' then parse_cluster_slots [] resp
      else if upper command = ''CLUSTER SHARDS'' then parse_cluster_shards resp
      else if upper command = ''CLUSTER MYSHARDID'' then parse_cluster_myshardid resp
      else Inr resp)"

section \<open>Answers of several nodes\<close>

type_synonym node_results = "(string, pyval) dict"

text \<open>\<open>a + b\<close> on numbers.\<close>

definition py_add :: "pyval \<Rightarrow> pyval \<Rightarrow> exc + pyval" where
  "py_add a b = (case (num_key a, num_key b) of
      (PInt m, PInt n) \<Rightarrow> Inr (PInt (m + n))
    | _ \<Rightarrow> Inl (Exc TypeError ''unsupported operand type(s) for +''))"

fun py_sum :: "pyval \<Rightarrow> pyval list \<Rightarrow> exc + pyval" where
  "py_sum acc [] = Inr acc"
| "py_sum acc (v # vs) = bindE (py_add acc v) (\<lambda>a. py_sum a vs)"

fun scan_results :: "node_results \<Rightarrow> (pyval \<times> pyval) list \<Rightarrow> pyval list \<Rightarrow> exc + pyval" where
  "scan_results [] cursors ret = Inr (PTuple [PDict cursors, PList ret])"
| "scan_results ((name, response) # res) cursors ret =
     bindE (bindE (parse_scan response) (\<lambda>p. bindE (py_item p 0) (\<lambda>c. bindE (py_item p 1) (\<lambda>r. Inr (c, r))))) (\<lambda>(cursor, r).
     bindE (py_iter r) (\<lambda>ks. scan_results res (pd_set (PStr name) cursor cursors) (ret @ ks)))"

definition parse_scan_result :: "node_results \<Rightarrow> exc + pyval" where
  "parse_scan_result res = scan_results res [] []"

fun add_numsub :: "pyval list \<Rightarrow> (pyval \<times> pyval) list \<Rightarrow> exc + (pyval \<times> pyval) list" where
  "add_numsub [] d = Inr d"
| "add_numsub (t # ts) d =
     bindE (py_item t 0) (\<lambda>channel. bindE (py_item t 1) (\<lambda>numsubbed.
       if \<not> hashable channel then Inl unhashable_error
       else bindE (case pd_get channel d of Some v \<Rightarrow> py_add v numsubbed | None \<Rightarrow> Inr numsubbed) (\<lambda>v.
         add_numsub ts (pd_set channel v d))))"

fun numsub_results :: "pyval list \<Rightarrow> (pyval \<times> pyval) list \<Rightarrow> exc + (pyval \<times> pyval) list" where
  "numsub_results [] d = Inr d"
| "numsub_results (v # vs) d = bindE (py_iter v) (\<lambda>ts. bindE (add_numsub ts d) (numsub_results vs))"

definition parse_pubsub_numsub_result :: "node_results \<Rightarrow> exc + pyval" where
  "parse_pubsub_numsub_result res =
     bindE (numsub_results (map snd res) []) (\<lambda>d. Inr (PList (map (\<lambda>(c, n). PTuple [c, n]) d)))"

text \<open>\<open>[all(k) for k in zip(*values)]\<close>, up to the shortest list.\<close>

fun zip_all :: "pyval list list \<Rightarrow> bool list" where
  "zip_all [] = []"
| "zip_all [xs] = map truthy xs"
| "zip_all (xs # ys # xss) = map (\<lambda>(a, b). a \<and> b) (zip (map truthy xs) (zip_all (ys # xss)))"

definition RESULT_CALLBACKS :: "string \<Rightarrow> (node_results \<Rightarrow> exc + pyval) option" where
  "RESULT_CALLBACKS c =
     (if c \<in> set [''PUBSUB NUMSUB'', ''PUBSUB SHARDNUMSUB''] then Some parse_pubsub_numsub_result
      else if c \<in> set [''PUBSUB NUMPAT'', ''DBSIZE'', ''WAIT''] then Some (\<lambda>res. py_sum (PInt 0) (map snd res))
      else if c \<in> set [''KEYS'', ''PUBSUB CHANNELS'', ''PUBSUB SHARDCHANNELS''] then Some merge_result
      else if c \<in> set [''PING'', ''CONFIG SET'', ''CONFIG REWRITE'', ''CONFIG RESETSTAT'', ''CLIENT SETNAME'', ''BGSAVE'',
           ''SLOWLOG RESET'', ''SAVE'', ''MEMORY PURGE'', ''CLIENT PAUSE'', ''CLIENT UNPAUSE'', ''SCRIPT FLUSH'']
        then Some (\<lambda>res. Inr (PBool (list_all truthy (map snd res))))
      else if c = ''CLIENT UNBLOCK'' then
        Some (\<lambda>res. bindE (bindE (py_sum (PInt 0) (map snd res)) to_int) (\<lambda>n. Inr (PInt (if 0 < n then 1 else 0))))
      else if c = ''SCAN'' then Some parse_scan_result
      else if c = ''SCRIPT LOAD'' then
        Some (\<lambda>res. if res = [] then Inl (Exc IndexError ''pop from empty list'') else Inr (snd (last res)))
      else if c = ''SCRIPT EXISTS'' then
        Some (\<lambda>res. bindE (mapE py_iter (map snd res)) (\<lambda>xss. Inr (PList (map PBool (zip_all xss)))))
      else None)"

text \<open>One node gives its value, several a dictionary, unless the command has a callback.\<close>

definition process_result :: "string \<Rightarrow> node_results \<Rightarrow> exc + pyval" where
  "process_result command res = (case RESULT_CALLBACKS (upper command) of
      Some f \<Rightarrow> f res
    | None \<Rightarrow> (case res of
        [(_, v)] \<Rightarrow> Inr v
      | _ \<Rightarrow> Inr (PDict (map (\<lambda>(n, v). (PStr n, v)) res))))"

section \<open>Replacing the default node\<close>

text \<open>\<open>random.choice(xs)\<close> for the number drawn.\<close>

definition py_choice :: "nat \<Rightarrow> 'a list \<Rightarrow> exc + 'a" where
  "py_choice r xs = (if xs = [] then Inl (Exc IndexError ''Cannot choose from an empty sequence'') else Inr (xs ! (r mod length xs)))"

definition same_as_default :: "nodes_manager \<Rightarrow> nat \<Rightarrow> bool" where
  "same_as_default m i = (case nm_default m of None \<Rightarrow> False | Some d \<Rightarrow> name_of m d = name_of m i)"

definition replace_default_node :: "nat \<Rightarrow> nodes_manager \<Rightarrow> nodes_manager" where
  "replace_default_node rnd m =
     (let primaries = filter (\<lambda>i. \<not> same_as_default m i) (get_nodes_by_server_type PRIMARY m);
          replicas = filter (\<lambda>i. \<not> same_as_default m i) (get_nodes_by_server_type REPLICA m)
      in if primaries \<noteq> [] then m\<lparr>nm_default := Some (primaries ! (rnd mod length primaries))\<rparr>
         else if replicas \<noteq> [] then m\<lparr>nm_default := Some (replicas ! (rnd mod length replicas))\<rparr>
         else m)"

end
