(* ===== verification/ClusterClient.thy ===== *)
theory ClusterClient
  imports ClusterRouting Serializer
begin

text \<open>
  Executing a command on a cluster (\<open>RedisCluster\<close> in \<open>redis/cluster.py\<close>): the nodes of a
  command, the redirection loop of one node and the retry loop around it. What each attempt meets (the
  connection the node's pool gives, the answer to ASKING and to the command, the topology a server would
  announce) is a script; a log keeps what was sent, slept, disconnected and released.
\<close>

section \<open>State\<close>

text \<open>The answer to a command: redirections carry what the exception's constructor parsed.\<close>

datatype node_exc = Raised exc | Moved redirect | Ask redirect

record attempt =
  at_conn :: "exc + nat"
  at_asking :: "node_exc + pyval"
  at_reply :: "node_exc + pyval"
  at_env :: cluster_env

datatype event =
    Sent nat nat bool
  | Released nat nat
  | Disconnected nat
  | Slept

record cluster_client =
  cl_nm :: nodes_manager
  cl_retry_attempts :: int
  cl_read_from_replicas :: bool
  cl_reinitialize_counter :: int
  cl_reinitialize_steps :: int
  cl_commands :: commands
  cl_encoder :: encoder
  cl_server :: command_server
  cl_env :: cluster_env
  cl_script :: "attempt list"
  cl_rand :: "nat list"
  cl_log :: "event list"

type_synonym 'a cl_op = "(cluster_client, exc, 'a) action"

definition on_nm :: "'a nm_op \<Rightarrow> 'a cl_op" where
  "on_nm f = (\<lambda>c. case f (cl_nm c) of (r, m) \<Rightarrow> (r, c\<lparr>cl_nm := m\<rparr>))"

definition draw :: "nat cl_op" where
  "draw = (\<lambda>c. case cl_rand c of [] \<Rightarrow> (Inr 0, c) | r # rs \<Rightarrow> (Inr r, c\<lparr>cl_rand := rs\<rparr>))"

definition log_event :: "event \<Rightarrow> unit cl_op" where
  "log_event e = modS (\<lambda>c. c\<lparr>cl_log := cl_log c @ [e]\<rparr>)"

section \<open>The nodes of a command\<close>

text \<open>\<open>name\<close> is the first argument and \<open>rest\<close> the others.\<close>

definition keyslot :: "encoder \<Rightarrow> pyval \<Rightarrow> exc + nat" where
  "keyslot enc key = bindE (encode enc key) (\<lambda>k. Inr (key_slot (raw k)))"

definition command_keys :: "string \<Rightarrow> pyval list \<Rightarrow> pyval list option cl_op" where
  "command_keys name rest = (\<lambda>c.
     case nm_default (cl_nm c) of
       None \<Rightarrow> (Inl (Exc AttributeError ''redis_connection''), c)
     | Some _ \<Rightarrow> (case get_keys (cl_server c) name rest (cl_commands c) of (r, d) \<Rightarrow> (r, c\<lparr>cl_commands := d\<rparr>)))"

definition random_slot :: "pyval cl_op" where
  "random_slot = bindS draw (\<lambda>r. retS (PInt (int (r mod REDIS_CLUSTER_HASH_SLOTS))))"

text \<open>The texts of exceptions that show the arguments end before them.\<close>

definition missing_key :: exc where
  "missing_key = Exc RedisClusterException
     (''No way to dispatch this command to Redis Cluster. Missing key.'' @ [CHR 0x0A] @
      ''You can execute the command by specifying target nodes.'' @ [CHR 0x0A] @ ''Command: '')"

definition invalid_args :: exc where
  "invalid_args = Exc RedisClusterException ''Invalid args in command: ''"

definition cross_slot :: "string \<Rightarrow> exc" where
  "cross_slot command = Exc RedisClusterException (command @ '' - all keys must map to the same key slot'')"

definition slot_of_keys :: "string \<Rightarrow> pyval list \<Rightarrow> pyval cl_op" where
  "slot_of_keys command keys =
     bindS (getS cl_encoder) (\<lambda>enc.
       liftS (bindE (mapE (keyslot enc) keys) (\<lambda>slots.
         if length (remdups slots) = 1 then Inr (PInt (int (hd slots))) else Inl (cross_slot command))))"

text \<open>\<open>xs[3 : 3 + n]\<close> of the whole argument list, whose negative end counts from the end.\<close>

definition eval_keys :: "pyval list \<Rightarrow> int \<Rightarrow> pyval list" where
  "eval_keys rest n =
     (let stop = (if 3 + n < 0 then 3 + n + int (length rest) + 1 else 3 + n)
      in take (nat (stop - 3)) (drop 2 rest))"

definition determine_slot :: "string \<Rightarrow> pyval list \<Rightarrow> pyval cl_op" where
  "determine_slot name rest =
     (if COMMAND_FLAGS name = Some SLOT_ID then
        (case rest of [] \<Rightarrow> raiseS (Exc IndexError ''tuple index out of range'') | v # _ \<Rightarrow> retS v)
      else if upper name \<in> {''EVAL'', ''EVALSHA''} then
        (if length rest \<le> 1 then raiseS invalid_args
         else bindS (liftS (to_int (rest ! 1))) (\<lambda>n.
           let keys = eval_keys rest n
           in if keys = [] then random_slot else slot_of_keys name keys))
      else bindS (command_keys name rest) (\<lambda>ks.
        case ks of
          Some (k # keys) \<Rightarrow> slot_of_keys name (k # keys)
        | _ \<Rightarrow> if upper name \<in> {''FCALL'', ''FCALL_RO''} then random_slot else raiseS missing_key))"

text \<open>A slot that is not a number is in no table.\<close>

definition node_of_slot :: "pyval \<Rightarrow> bool \<Rightarrow> nat cl_op" where
  "node_of_slot slot read =
     bindS (getS cl_env) (\<lambda>env.
     (case num_key slot of
        PInt s \<Rightarrow> bindS draw (\<lambda>r. on_nm (get_node_from_slot (env_resolve env) s read None r))
      | _ \<Rightarrow>
          bindS (getS (\<lambda>c. nm_moved (cl_nm c))) (\<lambda>mv.
          thenS (if mv \<noteq> None then on_nm (update_moved_slots (env_resolve env)) else retS ())
            (raiseS (Exc SlotNotCoveredError ''Slot not covered by the cluster.'')))))"

definition command_node :: "string \<Rightarrow> string \<Rightarrow> pyval list \<Rightarrow> nat cl_op" where
  "command_node command name rest =
     bindS (determine_slot name rest) (\<lambda>slot.
     bindS (getS cl_read_from_replicas) (\<lambda>rr.
       node_of_slot slot (rr \<and> command \<in> set READ_COMMANDS)))"

definition full_command :: "string \<Rightarrow> pyval list \<Rightarrow> string" where
  "full_command name rest =
     (case rest of
        PStr s # _ \<Rightarrow> (if COMMAND_FLAGS (upper (name @ '' '' @ s)) \<noteq> None then upper (name @ '' '' @ s) else upper name)
      | PInt n # _ \<Rightarrow> (if COMMAND_FLAGS (upper (name @ '' '' @ dec_int n)) \<noteq> None then upper (name @ '' '' @ dec_int n) else upper name)
      | _ \<Rightarrow> upper name)"

text \<open>A node is \<open>None\<close> when the default node is missing.\<close>

definition determine_nodes :: "node_flag option \<Rightarrow> string \<Rightarrow> pyval list \<Rightarrow> nat option list cl_op" where
  "determine_nodes nodes_flag name rest =
     (let command = full_command name rest;
          flag = (case nodes_flag of Some f \<Rightarrow> Some f | None \<Rightarrow> COMMAND_FLAGS command)
      in bindS (getS cl_nm) (\<lambda>m.
         case flag of
           Some RANDOM \<Rightarrow> bindS draw (\<lambda>r. bindS (liftS (py_choice r (map snd (nm_nodes m)))) (\<lambda>i. retS [Some i]))
         | Some PRIMARIES \<Rightarrow> retS (map Some (get_nodes_by_server_type PRIMARY m))
         | Some REPLICAS \<Rightarrow> retS (map Some (get_nodes_by_server_type REPLICA m))
         | Some ALL_NODES \<Rightarrow> retS (map (Some \<circ> snd) (nm_nodes m))
         | Some DEFAULT_NODE \<Rightarrow> retS [nm_default m]
         | _ \<Rightarrow>
             if command \<in> set SEARCH_COMMANDS then retS [nm_default m]
             else bindS (command_node command name rest) (\<lambda>i. retS [Some i])))"

section \<open>One node: the redirection loop\<close>

text \<open>The local variables of \<open>_execute_command\<close>, which its handlers read.\<close>

record locals =
  lv_target :: "nat option"
  lv_redis_node :: "nat option"
  lv_connection :: "nat option"
  lv_redirect_addr :: string
  lv_asking :: bool
  lv_moved :: bool

type_synonym 'a ex_op = "(cluster_client \<times> locals, node_exc, 'a) action"

definition on_client :: "'a cl_op \<Rightarrow> 'a ex_op" where
  "on_client f = (\<lambda>(c, v). case f c of (Inl e, c') \<Rightarrow> (Inl (Raised e), (c', v)) | (Inr a, c') \<Rightarrow> (Inr a, (c', v)))"

definition set_local :: "(locals \<Rightarrow> locals) \<Rightarrow> unit ex_op" where
  "set_local f = modS (\<lambda>(c, v). (c, f v))"

definition no_attempt :: "cluster_client \<Rightarrow> attempt" where
  "no_attempt c = \<lparr>at_conn = Inl (Exc ConnectionError ''refused''), at_asking = Inr PNone, at_reply = Inr PNone, at_env = cl_env c\<rparr>"

definition next_attempt :: "attempt cl_op" where
  "next_attempt = (\<lambda>c. case cl_script c of
      [] \<Rightarrow> (Inr (no_attempt c), c)
    | a # as \<Rightarrow> (Inr a, c\<lparr>cl_script := as, cl_env := at_env a\<rparr>))"

text \<open>The node to ask: the one of an ASK, the new owner after a MOVED, or the same as before.\<close>

definition choose_target :: "string \<Rightarrow> pyval list \<Rightarrow> unit ex_op" where
  "choose_target name rest = (\<lambda>(c, v).
     if lv_asking v then
       (Inr (), (c, v\<lparr>lv_target := get_node (env_resolve (cl_env c)) [] 0 (lv_redirect_addr v) (cl_nm c)\<rparr>))
     else if lv_moved v then
       bindS (on_client (command_node name name rest)) (\<lambda>i.
         set_local (\<lambda>v. v\<lparr>lv_target := Some i, lv_moved := False\<rparr>)) (c, v)
     else (Inr (), (c, v)))"

definition get_redis_connection :: "unit ex_op" where
  "get_redis_connection = (\<lambda>(c, v). case lv_target v of
      None \<Rightarrow> (Inl (Raised (Exc AttributeError ''redis_connection'')), (c, v))
    | Some i \<Rightarrow> (Inr (), (c\<lparr>cl_nm := (cl_nm c)\<lparr>nm_heap := set_connected i (nm_heap (cl_nm c))\<rparr>\<rparr>, v\<lparr>lv_redis_node := Some i\<rparr>)))"

text \<open>\<open>try\<close>: connect, send ASKING when asked to, send the command, read and convert the reply.\<close>

definition send_attempt :: "string \<Rightarrow> attempt \<Rightarrow> nat \<Rightarrow> pyval ex_op" where
  "send_attempt name a i =
     (case at_conn a of
        Inl e \<Rightarrow> raiseS (Raised e)
      | Inr conn \<Rightarrow>
          thenS (set_local (\<lambda>v. v\<lparr>lv_connection := Some conn\<rparr>))
          (bindS (getS (\<lambda>(c, v). lv_asking v)) (\<lambda>asking.
           thenS (if asking then thenS (bindS (liftS (at_asking a)) (\<lambda>_. retS ())) (set_local (\<lambda>v. v\<lparr>lv_asking := False\<rparr>)) else retS ())
           (thenS (on_client (log_event (Sent i conn asking)))
            (bindS (liftS (at_reply a)) (\<lambda>r.
               on_client (liftS (cluster_response_callback name r))))))))"

definition try_once :: "string \<Rightarrow> pyval list \<Rightarrow> pyval ex_op" where
  "try_once name rest =
     thenS (choose_target name rest)
     (thenS get_redis_connection
     (bindS (getS (\<lambda>(c, v). lv_redis_node v)) (\<lambda>rn.
     (bindS (on_client next_attempt) (\<lambda>a. case rn of Some i \<Rightarrow> send_attempt name a i | None \<Rightarrow> retS PNone)))))"

definition disconnect_connection :: "unit ex_op" where
  "disconnect_connection = (\<lambda>(c, v). case lv_connection v of
      None \<Rightarrow> (Inr (), (c, v)) | Some conn \<Rightarrow> on_client (log_event (Disconnected conn)) (c, v))"

definition reinitialize :: "unit cl_op" where
  "reinitialize = bindS (getS cl_env) (\<lambda>env. on_nm (initialize env))"

definition should_reinitialized :: "cluster_client \<Rightarrow> bool" where
  "should_reinitialized c =
     (if cl_reinitialize_steps c = 0 then False else cl_reinitialize_counter c mod cl_reinitialize_steps c = 0)"

text \<open>The failed node leaves the startup nodes and loses its client.\<close>

definition forget_node :: "unit ex_op" where
  "forget_node = (\<lambda>(c, v). case lv_target v of
      None \<Rightarrow> (Inl (Raised (Exc AttributeError ''name'')), (c, v))
    | Some i \<Rightarrow>
        (let m = cl_nm c
         in (Inr (), (c\<lparr>cl_nm := m\<lparr>nm_startup := dict_del (name_of m i) (nm_startup m),
               nm_heap := (nm_heap m)[i := (node_at m i)\<lparr>cn_connected := False\<rparr>]\<rparr>\<rparr>, v))))"

definition moved_error :: "redirect \<Rightarrow> unit ex_op" where
  "moved_error e =
     thenS (on_client (modS (\<lambda>c. c\<lparr>cl_reinitialize_counter := cl_reinitialize_counter c + 1\<rparr>)))
     (bindS (getS (\<lambda>(c, v). should_reinitialized c)) (\<lambda>b.
     thenS (if b then thenS (on_client reinitialize) (on_client (modS (\<lambda>c. c\<lparr>cl_reinitialize_counter := 0\<rparr>)))
            else on_client (on_nm (update_moved_exception e)))
       (set_local (\<lambda>v. v\<lparr>lv_moved := True\<rparr>))))"

definition RedisClusterRequestTTL :: nat where
  "RedisClusterRequestTTL = 16"

text \<open>The handlers: they raise, or return to go round again; \<open>ttl\<close> is what is left.\<close>

definition handle_error :: "nat \<Rightarrow> node_exc \<Rightarrow> unit ex_op" where
  "handle_error ttl x = (case x of
      Raised e \<Rightarrow>
        if isinstance e AuthenticationError then raiseS x
        else if isinstance e ConnectionError \<or> isinstance e TimeoutError then
          thenS disconnect_connection (thenS forget_node (thenS (on_client reinitialize) (raiseS x)))
        else if isinstance e TryAgainError then
          on_client (if 2 * ttl < RedisClusterRequestTTL then log_event Slept else retS ())
        else if isinstance e ClusterDownError then
          thenS (on_client (log_event Slept)) (thenS (on_client reinitialize) (raiseS x))
        else if isinstance e ResponseError then raiseS x
        else thenS disconnect_connection (raiseS x)
    | Moved e \<Rightarrow> moved_error e
    | Ask e \<Rightarrow> set_local (\<lambda>v. v\<lparr>lv_redirect_addr := get_node_name (redir_host e) (redir_port e), lv_asking := True\<rparr>))"

text \<open>\<open>finally\<close>.\<close>

definition release_connection :: "unit ex_op" where
  "release_connection = (\<lambda>(c, v). case (lv_connection v, lv_redis_node v) of
      (Some conn, Some i) \<Rightarrow> on_client (log_event (Released i conn)) (c, v)
    | _ \<Rightarrow> (Inr (), (c, v)))"

definition one_round :: "nat \<Rightarrow> string \<Rightarrow> pyval list \<Rightarrow> pyval option ex_op" where
  "one_round ttl name rest =
     finallyS
       (catchS (bindS (try_once name rest) (\<lambda>r. retS (Some r)))
               (\<lambda>x. thenS (handle_error ttl x) (retS None)))
       release_connection"

definition ttl_exhausted :: exc where
  "ttl_exhausted = Exc ClusterError ''TTL exhausted.''"

fun execute_loop :: "nat \<Rightarrow> string \<Rightarrow> pyval list \<Rightarrow> pyval ex_op" where
  "execute_loop 0 name rest = raiseS (Raised ttl_exhausted)"
| "execute_loop (Suc ttl) name rest =
     bindS (one_round ttl name rest) (\<lambda>r. case r of Some v \<Rightarrow> retS v | None \<Rightarrow> execute_loop ttl name rest)"

definition new_locals :: "nat option \<Rightarrow> locals" where
  "new_locals target = \<lparr>lv_target = target, lv_redis_node = None, lv_connection = None, lv_redirect_addr = [],
     lv_asking = False, lv_moved = False\<rparr>"

definition plain_exc :: "node_exc \<Rightarrow> exc" where
  "plain_exc x = (case x of Raised e \<Rightarrow> e | Moved e \<Rightarrow> Exc MovedError (ask_message e) | Ask e \<Rightarrow> Exc AskError (ask_message e))"

definition execute_on_node :: "nat option \<Rightarrow> string \<Rightarrow> pyval list \<Rightarrow> pyval cl_op" where
  "execute_on_node target name rest = (\<lambda>c.
     case execute_loop RedisClusterRequestTTL name rest (c, new_locals target) of
       (Inl x, (c', _)) \<Rightarrow> (Inl (plain_exc x), c') | (Inr r, (c', _)) \<Rightarrow> (Inr r, c'))"

section \<open>The retry loop\<close>

text \<open>\<open>target_nodes\<close> as the caller passes it.\<close>

datatype targets = NoTargets | Flag node_flag | Nodes "nat list" | BadTargets

definition parse_target_nodes :: "targets \<Rightarrow> exc + nat list" where
  "parse_target_nodes t = (case t of
      Nodes ns \<Rightarrow> Inr ns
    | _ \<Rightarrow> Inl (Exc TypeError ''target_nodes type can be one of the following: ''))"

definition no_targets :: exc where
  "no_targets = Exc RedisClusterException ''No targets were found to execute ''"

fun run_on_nodes :: "nat option list \<Rightarrow> string \<Rightarrow> pyval list \<Rightarrow> node_results \<Rightarrow> node_results cl_op" where
  "run_on_nodes [] name rest res = retS res"
| "run_on_nodes (t # ts) name rest res =
     bindS (execute_on_node t name rest) (\<lambda>v.
     bindS (getS (\<lambda>c. case t of Some i \<Rightarrow> name_of (cl_nm c) i | None \<Rightarrow> [])) (\<lambda>n.
       run_on_nodes ts name rest (dict_set n v res)))"

definition ERRORS_ALLOW_RETRY :: "exc_class list" where
  "ERRORS_ALLOW_RETRY = [ConnectionError, TimeoutError, ClusterDownError]"

text \<open>The nodes of this round, and whether they are just the default node.\<close>

definition round_targets ::
  "node_flag option \<Rightarrow> string \<Rightarrow> pyval list \<Rightarrow> (nat option list \<times> bool) cl_op" where
  "round_targets flag name rest =
     bindS (determine_nodes flag name rest) (\<lambda>ts.
       if ts = [] then raiseS no_targets
       else bindS (getS cl_nm) (\<lambda>m.
         retS (ts, case ts of [t] \<Rightarrow> map_option (name_of m) t = map_option (name_of m) (nm_default m) | _ \<Rightarrow> False)))"

definition run_round :: "nat option list \<Rightarrow> string \<Rightarrow> pyval list \<Rightarrow> pyval cl_op" where
  "run_round ts name rest = bindS (run_on_nodes ts name rest []) (\<lambda>res. liftS (process_result name res))"

definition may_retry :: "int \<Rightarrow> exc \<Rightarrow> bool" where
  "may_retry retry_attempts e = (0 < retry_attempts \<and> exc_cls e \<in> set ERRORS_ALLOW_RETRY)"

definition replace_default :: "bool \<Rightarrow> unit cl_op" where
  "replace_default is_default =
     (if is_default then bindS draw (\<lambda>r. modS (\<lambda>c. c\<lparr>cl_nm := replace_default_node r (cl_nm c)\<rparr>)) else retS ())"

text \<open>\<open>for _ in range(n)\<close>: the nodes are determined again in every round; without a round
  the method returns \<open>None\<close>.\<close>

fun retry_rounds :: "nat \<Rightarrow> int \<Rightarrow> bool \<Rightarrow> node_flag option \<Rightarrow> string \<Rightarrow> pyval list \<Rightarrow> pyval cl_op" where
  "retry_rounds 0 left is_default flag name rest = retS PNone"
| "retry_rounds (Suc n) left is_default flag name rest = (\<lambda>c.
     case round_targets flag name rest c of
       (Inl e, c1) \<Rightarrow>
         if may_retry left e then thenS (replace_default is_default) (retry_rounds n (left - 1) is_default flag name rest) c1
         else (Inl e, c1)
     | (Inr (ts, d), c1) \<Rightarrow>
         (case run_round ts name rest c1 of
            (Inr v, c2) \<Rightarrow> (Inr v, c2)
          | (Inl e, c2) \<Rightarrow>
              if may_retry left e then
                thenS (replace_default (is_default \<or> d)) (retry_rounds n (left - 1) (is_default \<or> d) flag name rest) c2
              else (Inl e, c2)))"

text \<open>Nodes that were passed are tried once; otherwise one round more than the retries.\<close>

definition execute_command :: "targets \<Rightarrow> string \<Rightarrow> pyval list \<Rightarrow> pyval cl_op" where
  "execute_command passed name rest = (case passed of
      NoTargets \<Rightarrow> bindS (getS cl_retry_attempts) (\<lambda>k. retry_rounds (nat (1 + k)) k False None name rest)
    | Flag f \<Rightarrow>
        if f = SLOT_ID then raiseS (Exc TypeError ''target_nodes type can be one of the following: '')
        else bindS (getS cl_retry_attempts) (\<lambda>k. retry_rounds (nat (1 + k)) k False (Some f) name rest)
    | _ \<Rightarrow> bindS (liftS (parse_target_nodes passed)) (\<lambda>ns. run_round (map Some ns) name rest))"

end
