(* ===== verification/ClusterRedirect.thy ===== *)
theory ClusterRedirect
  imports ClusterClient
begin

text \<open>
  What the redirection loop and the retry loop of a cluster client do: MOVED and ASK are followed, a command is sent
  a bounded number of times, keys decide the slot together, and the two ways in which the loops go wrong.
\<close>

section \<open>Facts on one round\<close>

text \<open>The client after an attempt of node \<open>i\<close> sent the command on connection \<open>k\<close>.\<close>

definition after_send :: "nat \<Rightarrow> nat \<Rightarrow> bool \<Rightarrow> attempt \<Rightarrow> attempt list \<Rightarrow> cluster_client \<Rightarrow> cluster_client" where
  "after_send i k b a as c = c\<lparr>cl_nm := (cl_nm c)\<lparr>nm_heap := set_connected i (nm_heap (cl_nm c))\<rparr>,
     cl_script := as, cl_env := at_env a, cl_log := cl_log c @ [Sent i k b]\<rparr>"

lemma try_once_send:
  assumes "choose_target name rest (c, v) = (Inr (), (c1, v1))" "lv_target v1 = Some i"
    and "cl_script c1 = a # as" "at_conn a = Inr k" "\<not> lv_asking v1"
  shows "try_once name rest (c, v) =
    (case at_reply a of Inl x \<Rightarrow> Inl x
      | Inr r \<Rightarrow> (case cluster_response_callback name r of Inl e \<Rightarrow> Inl (Raised e) | Inr w \<Rightarrow> Inr w),
     (after_send i k False a as c1, v1\<lparr>lv_redis_node := Some i, lv_connection := Some k\<rparr>))"
  using assms
  by (cases "at_reply a"; cases "cluster_response_callback name (projr (at_reply a))")
    (simp_all add: try_once_def thenS_Inr bindS_Inr bindS_Inl thenS_Inl get_redis_connection_def on_client_def next_attempt_def
      send_attempt_def set_local_def log_event_def after_send_def)

lemma try_once_asking:
  assumes "choose_target name rest (c, v) = (Inr (), (c1, v1))" "lv_target v1 = Some i"
    and "cl_script c1 = a # as" "at_conn a = Inr k" "lv_asking v1" "at_asking a = Inr u"
  shows "try_once name rest (c, v) =
    (case at_reply a of Inl x \<Rightarrow> Inl x
      | Inr r \<Rightarrow> (case cluster_response_callback name r of Inl e \<Rightarrow> Inl (Raised e) | Inr w \<Rightarrow> Inr w),
     (after_send i k True a as c1, v1\<lparr>lv_redis_node := Some i, lv_connection := Some k, lv_asking := False\<rparr>))"
  using assms
  by (cases "at_reply a"; cases "cluster_response_callback name (projr (at_reply a))")
    (simp_all add: try_once_def thenS_Inr bindS_Inr bindS_Inl thenS_Inl get_redis_connection_def on_client_def next_attempt_def
      send_attempt_def set_local_def log_event_def after_send_def)

lemma try_once_no_connection:
  assumes "choose_target name rest (c, v) = (Inr (), (c1, v1))" "lv_target v1 = Some i"
    and "cl_script c1 = a # as" "at_conn a = Inl e"
  shows "try_once name rest (c, v) =
    (Inl (Raised e), (c1\<lparr>cl_nm := (cl_nm c1)\<lparr>nm_heap := set_connected i (nm_heap (cl_nm c1))\<rparr>, cl_script := as, cl_env := at_env a\<rparr>,
      v1\<lparr>lv_redis_node := Some i\<rparr>))"
  using assms
  by (simp add: try_once_def thenS_Inr bindS_Inr bindS_Inl get_redis_connection_def on_client_def next_attempt_def send_attempt_def)

definition log_release :: "nat \<Rightarrow> nat \<Rightarrow> cluster_client \<Rightarrow> cluster_client" where
  "log_release i k c = c\<lparr>cl_log := cl_log c @ [Released i k]\<rparr>"

lemma release_connection_eq:
  "lv_connection v = Some k \<Longrightarrow> lv_redis_node v = Some i \<Longrightarrow> release_connection (c, v) = (Inr (), (log_release i k c, v))"
  by (simp add: release_connection_def on_client_def log_event_def log_release_def)

lemma one_round_value:
  assumes "try_once name rest (c, v) = (Inr w, (c1, v1))" "lv_connection v1 = Some k" "lv_redis_node v1 = Some i"
  shows "one_round ttl name rest (c, v) = (Inr (Some w), (log_release i k c1, v1))"
  using assms by (simp add: one_round_def finallyS_def catchS_def bindS_Inr release_connection_eq)

lemma one_round_handled:
  assumes "try_once name rest (c, v) = (Inl x, (c1, v1))" "handle_error ttl x (c1, v1) = (r, (c2, v2))"
    and "lv_connection v2 = Some k" "lv_redis_node v2 = Some i"
  shows "one_round ttl name rest (c, v) =
    (case r of Inl y \<Rightarrow> Inl y | Inr _ \<Rightarrow> Inr None, (log_release i k c2, v2))"
  using assms by (cases r) (simp_all add: one_round_def finallyS_def catchS_def bindS_Inl thenS_Inr thenS_Inl release_connection_eq)

lemma choose_target_same: "\<not> lv_asking v \<Longrightarrow> \<not> lv_moved v \<Longrightarrow> choose_target name rest (c, v) = (Inr (), (c, v))"
  by (simp add: choose_target_def)

section \<open>Routing by keys\<close>

lemma mapE_singleton_set:
  assumes "mapE f xs = Inr ys" "set ys = {y}"
  shows "\<forall>x \<in> set xs. f x = Inr y"
proof
  fix x assume "x \<in> set xs"
  then obtain i where i: "i < length xs" "xs ! i = x" by (auto simp: in_set_conv_nth)
  then have "f x = Inr (ys ! i)" using mapE_Inr_nth [OF assms(1)] by auto
  moreover have "ys ! i \<in> set ys" using i mapE_length [OF assms(1)] by auto
  ultimately show "f x = Inr y" using assms(2) by simp
qed

lemma slot_of_keys_iff:
  "slot_of_keys command keys c = (Inr s, c) \<longleftrightarrow>
     keys \<noteq> [] \<and> (\<exists>n. s = PInt (int n) \<and> (\<forall>k \<in> set keys. keyslot (cl_encoder c) k = Inr n))"
  (is "?l \<longleftrightarrow> ?r")
proof
  assume ?l
  then obtain slots where m: "mapE (keyslot (cl_encoder c)) keys = Inr slots" and one: "length (remdups slots) = 1"
      and s: "s = PInt (int (hd slots))"
    by (auto simp: slot_of_keys_def bindS_Inr bindE_eq_Inr split: if_splits)
  then obtain n where n: "set slots = {n}" by (auto simp: length_remdups_card_conv card_1_singleton_iff)
  then have ne: "slots \<noteq> []" by auto
  then have "hd slots = n" using hd_in_set [OF ne] n by simp
  then show ?r using mapE_singleton_set [OF m n] s mapE_length [OF m] ne by auto
next
  assume r: ?r
  then obtain n where n: "s = PInt (int n)" "\<forall>k \<in> set keys. keyslot (cl_encoder c) k = Inr n" by blast
  then have "mapE (keyslot (cl_encoder c)) keys = Inr (map (\<lambda>_. n) keys)" by (intro mapE_Inr_map) simp
  moreover have "set (map (\<lambda>_. n) keys) = {n}" "hd (map (\<lambda>_. n) keys) = n" using r by (auto simp: image_constant_conv hd_map)
  ultimately show ?l using n(1) by (simp add: slot_of_keys_def bindS_Inr length_remdups_card_conv)
qed

text \<open>A command with keys that all have the slot \<open>s\<close>.\<close>

definition routes_to :: "cluster_client \<Rightarrow> string \<Rightarrow> pyval list \<Rightarrow> nat \<Rightarrow> bool" where
  "routes_to c name rest s =
     (COMMAND_FLAGS name \<noteq> Some SLOT_ID \<and> upper name \<notin> {''EVAL'', ''EVALSHA''} \<and> nm_default (cl_nm c) \<noteq> None \<and>
      (\<exists>keys. keys \<noteq> [] \<and> get_keys (cl_server c) name rest (cl_commands c) = (Inr (Some keys), cl_commands c) \<and>
         (\<forall>k \<in> set keys. keyslot (cl_encoder c) k = Inr s)))"

lemma determine_slot_routes:
  assumes "routes_to c name rest s"
  shows "determine_slot name rest c = (Inr (PInt (int s)), c)"
proof -
  obtain k keys where keys: "get_keys (cl_server c) name rest (cl_commands c) = (Inr (Some (k # keys)), cl_commands c)"
      "\<forall>k \<in> set (k # keys). keyslot (cl_encoder c) k = Inr s"
    using assms unfolding routes_to_def by (metis neq_Nil_conv)
  then have "slot_of_keys name (k # keys) c = (Inr (PInt (int s)), c)"
    using slot_of_keys_iff [of name "k # keys" c "PInt (int s)"] by auto
  moreover have "command_keys name rest c = (Inr (Some (k # keys)), c)"
    using assms keys(1) by (auto simp: command_keys_def routes_to_def)
  ultimately show ?thesis
    using assms by (simp add: determine_slot_def routes_to_def bindS_Inr)
qed

lemma draw_eq: "\<exists>r rs. draw c = (Inr r, c\<lparr>cl_rand := rs\<rparr>)"
  by (cases "cl_rand c") (auto simp: draw_def intro: exI [of _ "[]"])

lemma nm_wf_connected: "nm_wf m \<Longrightarrow> nm_wf (m\<lparr>nm_heap := set_connected i (nm_heap m)\<rparr>)"
  using heap_ok_connected by (simp add: nm_wf_def)

lemma nm_wf_moved: "nm_wf (m\<lparr>nm_moved := x\<rparr>) = nm_wf m"
  by (simp add: nm_wf_def)

text \<open>After a MOVED the next round goes to the node the redirection names.\<close>

lemma choose_target_moved:
  assumes v: "\<not> lv_asking v" "lv_moved v"
    and routes: "routes_to c name rest (nat (slot_id e))" "0 \<le> slot_id e"
    and plain: "\<not> (cl_read_from_replicas c \<and> name \<in> set READ_COMMANDS)"
    and nm: "nm_wf (cl_nm c)" "nm_moved (cl_nm c) = Some e" "nm_slots (cl_nm c) (slot_id e) \<noteq> None"
  shows "\<exists>j m rs. choose_target name rest (c, v) =
      (Inr (), (c\<lparr>cl_rand := rs, cl_nm := m\<rparr>, v\<lparr>lv_target := Some j, lv_moved := False\<rparr>)) \<and>
    nm_wf m \<and> nm_moved m = None \<and> j < length (nm_heap m) \<and> j = fst (redirected_node (env_resolve (cl_env c)) e (cl_nm c)) \<and>
    name_of m j = get_node_name (resolve_host (env_resolve (cl_env c)) (redir_host e)) (redir_port e)"
proof -
  obtain r rs where dr: "draw c = (Inr r, c\<lparr>cl_rand := rs\<rparr>)" using draw_eq by blast
  obtain m j where u: "get_node_from_slot (env_resolve (cl_env c)) (slot_id e) False None r (cl_nm c) = (Inr j, m)"
      "name_of m j = get_node_name (resolve_host (env_resolve (cl_env c)) (redir_host e)) (redir_port e)"
      "nm_moved m = None" "nm_wf m" "j < length (nm_heap m)" "j = fst (redirected_node (env_resolve (cl_env c)) e (cl_nm c))"
    using get_node_from_slot_moved [OF nm, of "env_resolve (cl_env c)" r] by blast
  have pf: "(cl_read_from_replicas c \<and> name \<in> set READ_COMMANDS) = False" using plain by simp
  have "command_node name name rest c = (Inr j, c\<lparr>cl_rand := rs, cl_nm := m\<rparr>)"
    using determine_slot_routes [OF routes(1)] routes(2) pf dr u(1)
    by (cases "cl_read_from_replicas c") (simp_all add: command_node_def bindS_Inr node_of_slot_def on_nm_def)
  then have "choose_target name rest (c, v) = (Inr (), (c\<lparr>cl_rand := rs, cl_nm := m\<rparr>, v\<lparr>lv_target := Some j, lv_moved := False\<rparr>))"
    using v by (simp add: choose_target_def on_client_def bindS_Inr set_local_def)
  then show ?thesis using u by blast
qed

section \<open>Redirections\<close>

lemma execute_loop_value:
  "one_round ttl name rest s = (Inr (Some w), s') \<Longrightarrow> execute_loop (Suc ttl) name rest s = (Inr w, s')"
  by (simp add: bindS_Inr)

lemma execute_loop_next:
  "one_round ttl name rest s = (Inr None, s') \<Longrightarrow> execute_loop (Suc ttl) name rest s = execute_loop ttl name rest s'"
  by (simp add: bindS_Inr)

lemma execute_loop_raise:
  "one_round ttl name rest s = (Inl x, s') \<Longrightarrow> execute_loop (Suc ttl) name rest s = (Inl x, s')"
  by (simp add: bindS_Inl)

definition never_reinitializes :: "cluster_client \<Rightarrow> bool" where
  "never_reinitializes c = (cl_reinitialize_steps c = 0 \<or> (cl_reinitialize_counter c + 1) mod cl_reinitialize_steps c \<noteq> 0)"

text \<open>The client after a first attempt was answered by MOVED.\<close>

definition after_moved :: "nat \<Rightarrow> nat \<Rightarrow> redirect \<Rightarrow> attempt \<Rightarrow> attempt list \<Rightarrow> cluster_client \<Rightarrow> cluster_client" where
  "after_moved i k e a as c =
     (let c1 = after_send i k False a as c
      in log_release i k (c1\<lparr>cl_reinitialize_counter := cl_reinitialize_counter c + 1, cl_nm := (cl_nm c1)\<lparr>nm_moved := Some e\<rparr>\<rparr>))"

lemma first_round_moved:
  assumes "cl_script c = a # as" "at_conn a = Inr k" "at_reply a = Inl (Moved e)" "never_reinitializes c"
  shows "one_round ttl name rest (c, new_locals (Some i)) =
    (Inr None, (after_moved i k e a as c, (new_locals (Some i))\<lparr>lv_redis_node := Some i, lv_connection := Some k, lv_moved := True\<rparr>))"
proof -
  let ?v = "(new_locals (Some i))\<lparr>lv_redis_node := Some i, lv_connection := Some k\<rparr>"
  let ?c = "after_send i k False a as c"
  have t: "try_once name rest (c, new_locals (Some i)) = (Inl (Moved e), (?c, ?v))"
    by (subst try_once_send [OF choose_target_same, where i = i and a = a and as = as and k = k])
      (simp_all add: assms new_locals_def)
  have h: "handle_error ttl (Moved e) (?c, ?v) = (Inr (), (?c\<lparr>cl_reinitialize_counter := cl_reinitialize_counter c + 1,
      cl_nm := (cl_nm ?c)\<lparr>nm_moved := Some e\<rparr>\<rparr>, ?v\<lparr>lv_moved := True\<rparr>))"
    using assms(4)
    by (auto simp: handle_error_def moved_error_def on_client_def thenS_Inr bindS_Inr should_reinitialized_def never_reinitializes_def
        after_send_def on_nm_def update_moved_exception_def set_local_def)
  show ?thesis
    by (subst one_round_handled [OF t h]) (simp_all add: after_moved_def Let_def)
qed

text \<open>What the second round finds.\<close>

lemma after_moved_target:
  assumes wf: "nm_wf (cl_nm c)" and routes: "routes_to c name rest (nat (slot_id e))" "0 \<le> slot_id e"
    and plain: "\<not> (cl_read_from_replicas c \<and> name \<in> set READ_COMMANDS)"
    and sl: "nm_slots (cl_nm c) (slot_id e) \<noteq> None" and v: "\<not> lv_asking v" "lv_moved v"
  shows "\<exists>j m rs. choose_target name rest (after_moved i k e a as c, v) =
      (Inr (), ((after_moved i k e a as c)\<lparr>cl_rand := rs, cl_nm := m\<rparr>, v\<lparr>lv_target := Some j, lv_moved := False\<rparr>)) \<and>
    nm_wf m \<and> nm_moved m = None \<and> j < length (nm_heap m) \<and>
    (\<forall>j'. get_node (env_resolve (at_env a)) (redir_host e) (redir_port e) [] (cl_nm c) = Some j' \<longrightarrow> j = j') \<and>
    name_of m j = get_node_name (resolve_host (env_resolve (at_env a)) (redir_host e)) (redir_port e)"
proof -
  let ?c = "after_moved i k e a as c"
  have f: "cl_nm ?c = (cl_nm c)\<lparr>nm_heap := set_connected i (nm_heap (cl_nm c)), nm_moved := Some e\<rparr>"
      "cl_env ?c = at_env a" "cl_read_from_replicas ?c = cl_read_from_replicas c"
      "cl_server ?c = cl_server c" "cl_commands ?c = cl_commands c" "cl_encoder ?c = cl_encoder c"
    by (simp_all add: after_moved_def Let_def after_send_def log_release_def)
  have "nm_wf ((cl_nm c)\<lparr>nm_heap := set_connected i (nm_heap (cl_nm c)), nm_moved := Some e\<rparr>)"
    using nm_wf_connected [OF wf] by (simp add: nm_wf_def)
  then obtain j m rs where r: "choose_target name rest (?c, v) =
        (Inr (), (?c\<lparr>cl_rand := rs, cl_nm := m\<rparr>, v\<lparr>lv_target := Some j, lv_moved := False\<rparr>))"
      "nm_wf m" "nm_moved m = None" "j < length (nm_heap m)" "j = fst (redirected_node (env_resolve (cl_env ?c)) e (cl_nm ?c))"
      "name_of m j = get_node_name (resolve_host (env_resolve (cl_env ?c)) (redir_host e)) (redir_port e)"
    using choose_target_moved [OF v, of ?c name rest e] routes plain sl f by (auto simp: routes_to_def)
  have "get_node res (redir_host e) (redir_port e) [] (cl_nm ?c) = get_node res (redir_host e) (redir_port e) [] (cl_nm c)" for res
    unfolding f by (simp add: get_node_def)
  then have "\<forall>j'. get_node (env_resolve (at_env a)) (redir_host e) (redir_port e) [] (cl_nm c) = Some j' \<longrightarrow> j = j'"
    using r(5) f(2) by (simp add: redirected_node_def)
  then show ?thesis using r(1-4,6) f(2) by auto
qed

section \<open>Counting what is sent\<close>

fun is_sent :: "event \<Rightarrow> bool" where
  "is_sent (Sent _ _ _) = True"
| "is_sent _ = False"

definition sends :: "cluster_client \<Rightarrow> nat" where
  "sends c = length (filter is_sent (cl_log c))"

definition sends_le :: "nat \<Rightarrow> 'a ex_op \<Rightarrow> bool" where
  "sends_le n f = (\<forall>c v. sends (fst (snd (f (c, v)))) \<le> sends c + n)"

definition keeps_log :: "'a cl_op \<Rightarrow> bool" where
  "keeps_log f = (\<forall>c. cl_log (snd (f c)) = cl_log c)"

lemma keeps_log_bind: "keeps_log f \<Longrightarrow> (\<And>a. keeps_log (g a)) \<Longrightarrow> keeps_log (bindS f g)"
  by (auto simp: keeps_log_def bindS_def split: prod.splits sum.splits) (metis snd_conv)+

lemma keeps_log_then: "keeps_log f \<Longrightarrow> keeps_log g \<Longrightarrow> keeps_log (thenS f g)"
  by (simp add: thenS_def keeps_log_bind)

lemma keeps_log_basic:
  "keeps_log (retS a)" "keeps_log (raiseS e)" "keeps_log (liftS r)" "keeps_log (getS h)" "keeps_log draw" "keeps_log (on_nm f)"
  "keeps_log (command_keys name rest)" "keeps_log next_attempt"
  by (auto simp: keeps_log_def draw_def on_nm_def command_keys_def next_attempt_def split: list.splits prod.splits option.splits)

lemmas keeps_log_intros = keeps_log_bind keeps_log_then keeps_log_basic

lemma keeps_determine_slot: "keeps_log (determine_slot name rest)"
  unfolding determine_slot_def random_slot_def slot_of_keys_def Let_def
  by (auto split: list.splits option.splits intro!: keeps_log_intros)

lemma keeps_command_node: "keeps_log (command_node command name rest)"
  unfolding command_node_def node_of_slot_def
  by (auto split: pyval.splits intro!: keeps_log_intros keeps_determine_slot)

lemma keeps_reinitialize: "keeps_log reinitialize"
  unfolding reinitialize_def by (intro keeps_log_intros)

lemma sends_bind: "sends_le m f \<Longrightarrow> (\<And>a. sends_le n (g a)) \<Longrightarrow> sends_le (m + n) (bindS f g)"
  unfolding sends_le_def
proof (intro allI)
  fix c v
  assume f: "\<forall>c v. sends (fst (snd (f (c, v)))) \<le> sends c + m" and g: "\<And>a. \<forall>c v. sends (fst (snd (g a (c, v)))) \<le> sends c + n"
  obtain r c' v' where fc: "f (c, v) = (r, (c', v'))" by (metis prod.exhaust)
  then have "sends c' \<le> sends c + m" using f by (metis fst_conv snd_conv)
  moreover have "sends (fst (snd (g a (c', v')))) \<le> sends c' + n" for a using g by blast
  ultimately show "sends (fst (snd (bindS f g (c, v)))) \<le> sends c + (m + n)"
    using fc by (cases r) (auto simp: bindS_def intro: order_trans, fastforce intro: order_trans)
qed

lemma sends_then: "sends_le m f \<Longrightarrow> sends_le n g \<Longrightarrow> sends_le (m + n) (thenS f g)"
  by (simp add: thenS_def sends_bind)

lemma sends_zero:
  "sends_le 0 (retS a)" "sends_le 0 (raiseS e)" "sends_le 0 (liftS r)" "sends_le 0 (getS h)" "sends_le 0 (set_local k)"
  "sends_le 0 get_redis_connection" "sends_le 0 disconnect_connection" "sends_le 0 forget_node" "sends_le 0 release_connection"
  "sends_le 0 (on_client (modS (\<lambda>c. c\<lparr>cl_reinitialize_counter := u\<rparr>)))"
  "sends_le 0 (on_client (modS (\<lambda>c. c\<lparr>cl_reinitialize_counter := cl_reinitialize_counter c + 1\<rparr>)))"
  "sends_le 0 (on_client (log_event Slept))"
  by (auto simp: sends_le_def set_local_def get_redis_connection_def disconnect_connection_def forget_node_def release_connection_def
      on_client_def log_event_def sends_def keeps_log_def Let_def split: option.splits prod.splits sum.splits)

lemma sends_on_client: "keeps_log f \<Longrightarrow> sends_le 0 (on_client f)"
  unfolding sends_le_def
proof (intro allI)
  fix c v
  assume "keeps_log f"
  then have "cl_log (snd (f c)) = cl_log c" by (simp add: keeps_log_def)
  then show "sends (fst (snd (on_client f (c, v)))) \<le> sends c + 0"
    by (cases "f c"; cases "fst (f c)") (simp_all add: on_client_def sends_def)
qed

lemma sends_one: "sends_le 1 (on_client (log_event (Sent i k b)))"
  by (simp add: sends_le_def on_client_def log_event_def sends_def)

lemma sends_then0: "sends_le 0 f \<Longrightarrow> sends_le n g \<Longrightarrow> sends_le n (thenS f g)"
  using sends_then [of 0 f n g] by simp

lemma sends_bind0: "sends_le 0 f \<Longrightarrow> (\<And>a. sends_le n (g a)) \<Longrightarrow> sends_le n (bindS f g)"
  using sends_bind [of 0 f n g] by simp

lemmas sends_intros = sends_then0 sends_bind0 sends_zero sends_on_client keeps_reinitialize keeps_command_node keeps_log_basic

lemma sends_choose_target: "sends_le 0 (choose_target name rest)"
proof -
  have "sends_le 0 (bindS (on_client (command_node name name rest)) (\<lambda>i. set_local (\<lambda>v. v\<lparr>lv_target := Some i, lv_moved := False\<rparr>)))"
    by (intro sends_intros)
  then show ?thesis by (auto simp: sends_le_def choose_target_def)
qed

lemma sends_le_mono: "sends_le m f \<Longrightarrow> m \<le> n \<Longrightarrow> sends_le n f"
  unfolding sends_le_def by (meson add_left_mono order_trans)

lemma sends_send_attempt: "sends_le 1 (send_attempt name a i)"
proof (cases "at_conn a")
  case (Inl e)
  then show ?thesis using sends_le_mono [OF sends_zero(2)] by (simp add: send_attempt_def)
next
  case (Inr k)
  have tail: "sends_le 1 (thenS (on_client (log_event (Sent i k b))) (bindS (liftS (at_reply a)) (\<lambda>r. on_client (liftS (cluster_response_callback name r)))))" for b
  proof -
    have "sends_le 0 (bindS (liftS (at_reply a)) (\<lambda>r. on_client (liftS (cluster_response_callback name r))))"
      by (intro sends_intros)
    from sends_then [OF sends_one this, of i k b] show ?thesis by simp
  qed
  have ask: "sends_le 0 (if asking then thenS (bindS (liftS (at_asking a)) (\<lambda>_. retS ())) (set_local (\<lambda>v. v\<lparr>lv_asking := False\<rparr>)) else retS ())" for asking
    by (simp add: sends_intros)
  show ?thesis unfolding send_attempt_def Inr sum.case
    by (intro tail ask sends_zero sends_then0 sends_bind0)
qed

lemma sends_try_once: "sends_le 1 (try_once name rest)"
proof -
  have "sends_le 1 (case rn of Some i \<Rightarrow> send_attempt name a i | None \<Rightarrow> retS PNone)" for rn a
    using sends_send_attempt sends_le_mono [OF sends_zero(1)] by (cases rn) simp_all
  then show ?thesis unfolding try_once_def by (intro sends_then0 sends_bind0 sends_choose_target sends_zero sends_on_client keeps_log_basic)
qed

lemma sends_handle_error: "sends_le 0 (handle_error ttl x)"
proof (cases x)
  case (Raised e)
  then show ?thesis unfolding handle_error_def by (auto intro!: sends_intros)
next
  case (Moved e)
  then show ?thesis unfolding handle_error_def moved_error_def by (auto intro!: sends_intros)
next
  case (Ask e)
  then show ?thesis unfolding handle_error_def by (auto intro!: sends_intros)
qed

lemma sends_one_round: "sends_le 1 (one_round ttl name rest)"
proof -
  let ?body = "bindS (try_once name rest) (\<lambda>r. retS (Some r))"
  let ?h = "\<lambda>x. thenS (handle_error ttl x) (retS (None :: pyval option))"
  have t: "sends_le 1 ?body" using sends_bind [OF sends_try_once sends_zero(1), of name rest Some] by simp
  have h: "sends_le 0 (?h x)" for x by (intro sends_then0 sends_handle_error sends_zero)
  have c: "sends_le 1 (catchS ?body ?h)"
    unfolding sends_le_def
  proof (intro allI)
    fix c v
    obtain r c' v' where tc: "?body (c, v) = (r, (c', v'))" by (metis prod.exhaust)
    then have "sends c' \<le> sends c + 1" using t unfolding sends_le_def by (metis fst_conv snd_conv)
    moreover have "sends (fst (snd (?h x (c', v')))) \<le> sends c'" for x using h [of x] unfolding sends_le_def by simp
    ultimately show "sends (fst (snd (catchS ?body ?h (c, v)))) \<le> sends c + 1"
      using tc by (cases r) (auto simp: catchS_def intro: order_trans)
  qed
  show ?thesis
    unfolding sends_le_def
  proof (intro allI)
    fix c v
    obtain r c' v' where tc: "catchS ?body ?h (c, v) = (r, (c', v'))" by (metis prod.exhaust)
    then have "sends c' \<le> sends c + 1" using c unfolding sends_le_def by (metis fst_conv snd_conv)
    moreover have "sends (fst (snd (release_connection (c', v')))) \<le> sends c'" using sends_zero(9) unfolding sends_le_def by simp
    ultimately show "sends (fst (snd (one_round ttl name rest (c, v)))) \<le> sends c + 1"
      unfolding one_round_def finallyS_def using tc by (auto split: prod.splits sum.splits)
  qed
qed

lemma sends_execute_loop: "sends_le n (execute_loop n name rest)"
proof (induction n)
  case 0
  then show ?case unfolding execute_loop.simps by (rule sends_zero)
next
  case (Suc n)
  have "sends_le n (case r of Some v \<Rightarrow> retS v | None \<Rightarrow> execute_loop n name rest)" for r
    using Suc sends_le_mono [OF sends_zero(1)] by (cases r) simp_all
  from sends_bind [OF sends_one_round this] show ?case by simp
qed

section \<open>Properties\<close>

text \<open>C6: A MOVED answer is followed: the command is sent again to the node the redirection names, the value it gives
  is the result, each connection goes back to the pool of its own node exactly once, and the redirection is consumed.\<close>

theorem moved_is_followed:
  assumes wf: "nm_wf (cl_nm c)" and routes: "routes_to c name rest (nat (slot_id e))" "0 \<le> slot_id e"
    and plain: "\<not> (cl_read_from_replicas c \<and> name \<in> set READ_COMMANDS)"
    and sl: "nm_slots (cl_nm c) (slot_id e) \<noteq> None" and steps: "never_reinitializes c"
    and script: "cl_script c = a # b # as" "at_conn a = Inr k" "at_reply a = Inl (Moved e)"
      "at_conn b = Inr k'" "at_reply b = Inr r" "cluster_response_callback name r = Inr w"
  shows "\<exists>j c'. execute_on_node (Some i) name rest c = (Inr w, c') \<and>
    cl_log c' = cl_log c @ [Sent i k False, Released i k, Sent j k' False, Released j k'] \<and>
    name_of (cl_nm c') j = get_node_name (resolve_host (env_resolve (at_env a)) (redir_host e)) (redir_port e) \<and>
    nm_wf (cl_nm c') \<and> nm_moved (cl_nm c') = None"
proof -
  let ?v = "(new_locals (Some i))\<lparr>lv_redis_node := Some i, lv_connection := Some k, lv_moved := True\<rparr>"
  let ?c = "after_moved i k e a (b # as) c"
  obtain j m rs where ct: "choose_target name rest (?c, ?v) =
      (Inr (), (?c\<lparr>cl_rand := rs, cl_nm := m\<rparr>, ?v\<lparr>lv_target := Some j, lv_moved := False\<rparr>))"
      and m: "nm_wf m" "nm_moved m = None" "j < length (nm_heap m)"
      "name_of m j = get_node_name (resolve_host (env_resolve (at_env a)) (redir_host e)) (redir_port e)"
    using after_moved_target [OF wf routes plain sl, of ?v i k a "b # as"] by (auto simp: new_locals_def)
  let ?c1 = "after_send j k' False b as (?c\<lparr>cl_rand := rs, cl_nm := m\<rparr>)"
  let ?v1 = "?v\<lparr>lv_target := Some j, lv_moved := False, lv_redis_node := Some j, lv_connection := Some k'\<rparr>"
  have "try_once name rest (?c, ?v) = (Inr w, (?c1, ?v1))"
    by (subst try_once_send [OF ct, where i = j and a = b and as = as and k = k'])
      (simp_all add: script after_moved_def Let_def after_send_def log_release_def new_locals_def)
  then have r2: "one_round 14 name rest (?c, ?v) = (Inr (Some w), (log_release j k' ?c1, ?v1))"
    by (rule one_round_value) simp_all
  note r1 = first_round_moved [OF script(1-3) steps, of 15 name rest i]
  have "execute_on_node (Some i) name rest c = (Inr w, log_release j k' ?c1)"
    using execute_loop_next [OF r1] execute_loop_value [OF r2] by (simp add: execute_on_node_def RedisClusterRequestTTL_def eval_nat_numeral)
  moreover have "cl_log (log_release j k' ?c1) = cl_log c @ [Sent i k False, Released i k, Sent j k' False, Released j k']"
    by (simp add: log_release_def after_send_def after_moved_def Let_def)
  moreover have "cl_nm (log_release j k' ?c1) = m\<lparr>nm_heap := set_connected j (nm_heap m)\<rparr>"
    by (simp add: log_release_def after_send_def)
  ultimately show ?thesis
    using m nm_wf_connected [OF m(1), of j] by (auto simp: name_of_def node_at_def)
qed

text \<open>After a connection error the connection is closed, the tables are discovered again and an exception is raised.\<close>

lemma handle_connection_error:
  assumes "isinstance x ConnectionError" "\<not> isinstance x AuthenticationError" "lv_connection v = Some k" "lv_target v = Some j"
  shows "\<exists>y m'. handle_error ttl (Raised x) (c, v) = (Inl y, (c\<lparr>cl_log := cl_log c @ [Disconnected k], cl_nm := m'\<rparr>, v))"
proof -
  let ?m = "(cl_nm c)\<lparr>nm_startup := dict_del (name_of (cl_nm c) j) (nm_startup (cl_nm c)),
      nm_heap := (nm_heap (cl_nm c))[j := (node_at (cl_nm c) j)\<lparr>cn_connected := False\<rparr>]\<rparr>"
  obtain r m' where i: "initialize (cl_env c) ?m = (r, m')" by force
  show ?thesis
    using assms i
    by (cases r) (auto simp: handle_error_def thenS_def bindS_def disconnect_connection_def on_client_def log_event_def
        forget_node_def reinitialize_def on_nm_def Let_def)
qed

text \<open>C7: An ASK answer is followed once: ASKING and the command go to the node it names, the value that gives is the
  result, each connection goes back to its own pool exactly once, and no table of the topology changes.\<close>

theorem ask_is_followed:
  assumes node: "dict_get (nm_nodes (cl_nm c)) (get_node_name (redir_host e) (redir_port e)) = Some j"
    and script: "cl_script c = a # b # as" "at_conn a = Inr k" "at_reply a = Inl (Ask e)"
      "at_conn b = Inr k'" "at_asking b = Inr u" "at_reply b = Inr r" "cluster_response_callback name r = Inr w"
  shows "\<exists>c'. execute_on_node (Some i) name rest c = (Inr w, c') \<and>
    cl_log c' = cl_log c @ [Sent i k False, Released i k, Sent j k' True, Released j k'] \<and>
    nm_slots (cl_nm c') = nm_slots (cl_nm c) \<and> nm_lists (cl_nm c') = nm_lists (cl_nm c) \<and>
    nm_nodes (cl_nm c') = nm_nodes (cl_nm c) \<and> nm_moved (cl_nm c') = nm_moved (cl_nm c)"
proof -
  let ?addr = "get_node_name (redir_host e) (redir_port e)"
  let ?v = "(new_locals (Some i))\<lparr>lv_redis_node := Some i, lv_connection := Some k\<rparr>"
  let ?w = "?v\<lparr>lv_redirect_addr := ?addr, lv_asking := True\<rparr>"
  let ?c = "after_send i k False a (b # as) c"
  have t1: "try_once name rest (c, new_locals (Some i)) = (Inl (Ask e), (?c, ?v))"
    by (subst try_once_send [OF choose_target_same, where i = i and a = a and as = "b # as" and k = k])
      (simp_all add: script new_locals_def)
  have h1: "handle_error 15 (Ask e) (?c, ?v) = (Inr (), (?c, ?w))"
    by (simp add: handle_error_def set_local_def)
  have r1: "one_round 15 name rest (c, new_locals (Some i)) = (Inr None, (log_release i k ?c, ?w))"
    by (subst one_round_handled [OF t1 h1]) simp_all
  let ?c1 = "log_release i k ?c"
  have ne: "?addr \<noteq> []" by (simp add: get_node_name_def)
  have ct: "choose_target name rest (?c1, ?w) = (Inr (), (?c1, ?w\<lparr>lv_target := Some j\<rparr>))"
    using node ne by (simp add: choose_target_def get_node_def log_release_def after_send_def)
  let ?c2 = "after_send j k' True b as ?c1"
  have "try_once name rest (?c1, ?w) = (Inr w, (?c2, ?w\<lparr>lv_target := Some j, lv_redis_node := Some j, lv_connection := Some k', lv_asking := False\<rparr>))"
    by (subst try_once_asking [OF ct, where i = j and a = b and as = as and k = k' and u = u])
      (simp_all add: script log_release_def after_send_def)
  then have r2: "one_round 14 name rest (?c1, ?w) = (Inr (Some w), (log_release j k' ?c2, ?w\<lparr>lv_target := Some j, lv_redis_node := Some j, lv_connection := Some k', lv_asking := False\<rparr>))"
    by (rule one_round_value) simp_all
  have "execute_on_node (Some i) name rest c = (Inr w, log_release j k' ?c2)"
    using execute_loop_next [OF r1] execute_loop_value [OF r2] by (simp add: execute_on_node_def RedisClusterRequestTTL_def eval_nat_numeral)
  then show ?thesis by (simp add: log_release_def after_send_def)
qed

text \<open>C28: The redirection loop sends a command at most sixteen times, whatever the servers answer, before it returns
  or raises.\<close>

theorem at_most_sixteen_sends:
  "sends (snd (execute_on_node target name rest c)) \<le> sends c + RedisClusterRequestTTL"
proof -
  let ?loop = "execute_loop RedisClusterRequestTTL name rest (c, new_locals target)"
  have "sends (fst (snd ?loop)) \<le> sends c + RedisClusterRequestTTL"
    using sends_execute_loop [of RedisClusterRequestTTL name rest] unfolding sends_le_def by blast
  then show ?thesis
    by (cases ?loop; cases "fst ?loop") (auto simp: execute_on_node_def)
qed

text \<open>The handlers read the connection of an earlier round: when a MOVED answer leads to a node to which no
  connection can be made, the connection to the first node, already back in its pool, is disconnected and then
  released into the pool of the second node.\<close>

theorem stale_connection_crosses_pools:
  assumes wf: "nm_wf (cl_nm c)" and routes: "routes_to c name rest (nat (slot_id e))" "0 \<le> slot_id e"
    and plain: "\<not> (cl_read_from_replicas c \<and> name \<in> set READ_COMMANDS)"
    and sl: "nm_slots (cl_nm c) (slot_id e) \<noteq> None" and steps: "never_reinitializes c"
    and node: "get_node (env_resolve (at_env a)) (redir_host e) (redir_port e) [] (cl_nm c) = Some j"
    and script: "cl_script c = a # b # as" "at_conn a = Inr k" "at_reply a = Inl (Moved e)"
      "at_conn b = Inl x" "isinstance x ConnectionError" "\<not> isinstance x AuthenticationError"
  shows "\<exists>c' y. execute_on_node (Some i) name rest c = (Inl y, c') \<and>
    cl_log c' = cl_log c @ [Sent i k False, Released i k, Disconnected k, Released j k]"
proof -
  let ?v = "(new_locals (Some i))\<lparr>lv_redis_node := Some i, lv_connection := Some k, lv_moved := True\<rparr>"
  let ?c = "after_moved i k e a (b # as) c"
  obtain m rs where ct: "choose_target name rest (?c, ?v) =
      (Inr (), (?c\<lparr>cl_rand := rs, cl_nm := m\<rparr>, ?v\<lparr>lv_target := Some j, lv_moved := False\<rparr>))"
    using after_moved_target [OF wf routes plain sl, of ?v i k a "b # as"] node by (auto simp: new_locals_def)
  let ?q = "?c\<lparr>cl_rand := rs, cl_nm := m\<rparr>"
  let ?c1 = "?q\<lparr>cl_nm := m\<lparr>nm_heap := set_connected j (nm_heap m)\<rparr>, cl_script := as, cl_env := at_env b\<rparr>"
  let ?v1 = "?v\<lparr>lv_target := Some j, lv_moved := False, lv_redis_node := Some j\<rparr>"
  have t2: "try_once name rest (?c, ?v) = (Inl (Raised x), (?c1, ?v1))"
    by (subst try_once_no_connection [OF ct, where i = j and a = b and as = as and e = x])
      (simp_all add: script after_moved_def Let_def after_send_def log_release_def new_locals_def)
  let ?d = "?c1\<lparr>cl_log := cl_log ?c1 @ [Disconnected k]\<rparr>"
  obtain y m' where h2: "handle_error 14 (Raised x) (?c1, ?v1) = (Inl y, (?d\<lparr>cl_nm := m'\<rparr>, ?v1))"
    using handle_connection_error [of x ?v1 k j 14 ?c1] script(5,6) by auto
  have r2: "one_round 14 name rest (?c, ?v) = (Inl y, (log_release j k (?d\<lparr>cl_nm := m'\<rparr>), ?v1))"
    by (subst one_round_handled [OF t2 h2]) simp_all
  note r1 = first_round_moved [OF script(1-3) steps, of 15 name rest i]
  have "execute_on_node (Some i) name rest c = (Inl (plain_exc y), log_release j k (?d\<lparr>cl_nm := m'\<rparr>))"
    using execute_loop_next [OF r1] execute_loop_raise [OF r2] by (simp add: execute_on_node_def RedisClusterRequestTTL_def eval_nat_numeral)
  then show ?thesis by (simp add: log_release_def after_send_def after_moved_def Let_def)
qed

text \<open>A command is routed by all of its keys: it gets a slot exactly when every key has this slot, and otherwise
  raises.\<close>

theorem keys_share_a_slot:
  "slot_of_keys command keys c = (Inr s, c) \<longleftrightarrow>
     keys \<noteq> [] \<and> (\<exists>n. s = PInt (int n) \<and> (\<forall>k \<in> set keys. keyslot (cl_encoder c) k = Inr n))"
  by (rule slot_of_keys_iff)

text \<open>With a negative number of retries no round is made: nothing is sent and the result is \<open>None\<close>.\<close>

theorem negative_retries_do_nothing:
  assumes "cl_retry_attempts c < 0"
  shows "execute_command NoTargets name rest c = (Inr PNone, c)"
  using assms by (simp add: execute_command_def bindS_Inr)


section \<open>Witnesses\<close>

text \<open>A client whose node \<open>a:1\<close>, with a replica \<open>b:1\<close>, serves the slot of the key \<open>foo\<close>.\<close>

definition demo_client :: "attempt list \<Rightarrow> int \<Rightarrow> cluster_client" where
  "demo_client script k =
     \<lparr>cl_nm = (demo_nodes None)\<lparr>nm_slots := [12182 \<mapsto> 0]\<rparr>, cl_retry_attempts = k, cl_read_from_replicas = False,
      cl_reinitialize_counter = 0, cl_reinitialize_steps = 5,
      cl_commands = [(''get'', \<lparr>ci_name = ''get'', ci_flags = [''readonly''], ci_first_key_pos = 1, ci_last_key_pos = 1,
        ci_step_count = 1, ci_subcommands = None\<rparr>)],
      cl_encoder = strict_encoder, cl_server = \<lparr>srv_command = Inr [], srv_getkeys = (\<lambda>_. Inr [])\<rparr>, cl_env = demo_env,
      cl_script = script, cl_rand = [], cl_log = []\<rparr>"

definition demo_attempt :: "exc + nat \<Rightarrow> node_exc + pyval \<Rightarrow> attempt" where
  "demo_attempt conn reply = \<lparr>at_conn = conn, at_asking = Inr (PStr ''OK''), at_reply = reply, at_env = demo_env\<rparr>"

definition to_b :: redirect where
  "to_b = \<lparr>slot_id = 12182, redir_host = ''b'', redir_port = 1\<rparr>"

lemma demo_client_wf: "nm_wf (cl_nm (demo_client script k))"
  using demo_nodes_wf [of None] by (auto simp: demo_client_def nm_wf_def demo_nodes_def)

lemma demo_routes: "routes_to (demo_client script k) ''GET'' [PStr ''foo''] 12182"
proof -
  have g: "get_keys srv ''GET'' [PStr ''foo''] (cl_commands (demo_client script k)) =
      (Inr (Some [PStr ''foo'']), cl_commands (demo_client script k))" for srv
  proof -
    have "lower ''GET'' = ''get''" by code_simp
    then show ?thesis
      by (simp add: demo_client_def get_keys_def keys_from_info_def positional_keys_def py_range_def range_up_step range_up_empty
          py_nth_def)
  qed
  have u: "upper ''GET'' = ''GET''" by code_simp
  have f: "COMMAND_FLAGS ''GET'' \<noteq> Some SLOT_ID" by code_simp
  have "keyslot (cl_encoder (demo_client script k)) (PStr ''foo'') = Inr 12182"
    by (simp add: demo_client_def keyslot_def key_slot_foo)
  then have "\<forall>x \<in> set [PStr ''foo'']. keyslot (cl_encoder (demo_client script k)) x = Inr 12182" by simp
  moreover have "nm_default (cl_nm (demo_client script k)) \<noteq> None" by (simp add: demo_client_def demo_nodes_def)
  ultimately show ?thesis unfolding routes_to_def using g f u by fastforce
qed

lemma demo_callback: "cluster_response_callback ''GET'' r = Inr r"
proof -
  have "upper ''GET'' = ''GET''" by code_simp
  then show ?thesis by (simp add: cluster_response_callback_def)
qed

lemma demo_client_fields [simp]:
  "cl_script (demo_client script k) = script" "cl_log (demo_client script k) = []" "cl_read_from_replicas (demo_client script k) = False"
  "nm_slots (cl_nm (demo_client script k)) = [12182 \<mapsto> 0]" "nm_nodes (cl_nm (demo_client script k)) = [(''a:1'', 0), (''b:1'', 1)]"
  "cl_retry_attempts (demo_client script k) = k" "never_reinitializes (demo_client script k)"
  by (simp_all add: demo_client_def demo_nodes_def never_reinitializes_def)

lemma demo_attempt_fields [simp]:
  "at_conn (demo_attempt x y) = x" "at_reply (demo_attempt x y) = y" "at_asking (demo_attempt x y) = Inr (PStr ''OK'')"
  "at_env (demo_attempt x y) = demo_env" "slot_id to_b = 12182"
  by (simp_all add: demo_attempt_def to_b_def)

lemma to_b_name: "get_node_name (redir_host to_b) (redir_port to_b) = ''b:1''"
    "get_node_name (resolve_host (env_resolve demo_env) (redir_host to_b)) (redir_port to_b) = ''b:1''"
  by code_simp+

lemma moved_is_followed_witness:
  "\<exists>j c'. execute_on_node (Some 0) ''GET'' [PStr ''foo'']
      (demo_client [demo_attempt (Inr 7) (Inl (Moved to_b)), demo_attempt (Inr 8) (Inr (PStr ''bar''))] 3) = (Inr (PStr ''bar''), c') \<and>
    cl_log c' = [Sent 0 7 False, Released 0 7, Sent j 8 False, Released j 8] \<and> name_of (cl_nm c') j = ''b:1''"
  using moved_is_followed [OF demo_client_wf, of "[demo_attempt (Inr 7) (Inl (Moved to_b)), demo_attempt (Inr 8) (Inr (PStr ''bar''))]" 3
      "''GET''" "[PStr ''foo'']" to_b _ _ "[]" 7 8 "PStr ''bar''" "PStr ''bar''" 0]
  by (auto simp: demo_routes demo_callback to_b_name)

lemma ask_is_followed_witness:
  "\<exists>c'. execute_on_node (Some 0) ''GET'' [PStr ''foo'']
      (demo_client [demo_attempt (Inr 7) (Inl (Ask to_b)), demo_attempt (Inr 8) (Inr (PStr ''bar''))] 3) = (Inr (PStr ''bar''), c') \<and>
    cl_log c' = [Sent 0 7 False, Released 0 7, Sent 1 8 True, Released 1 8]"
  using ask_is_followed [of "demo_client [demo_attempt (Inr 7) (Inl (Ask to_b)), demo_attempt (Inr 8) (Inr (PStr ''bar''))] 3" to_b 1
      "demo_attempt (Inr 7) (Inl (Ask to_b))" "demo_attempt (Inr 8) (Inr (PStr ''bar''))" "[]" 7 8 "PStr ''OK''" "PStr ''bar''" "''GET''" "PStr ''bar''" 0 "[PStr ''foo'']"]
  by (auto simp: demo_callback to_b_name)

lemma stale_connection_crosses_pools_witness:
  "\<exists>c' y. execute_on_node (Some 0) ''GET'' [PStr ''foo'']
      (demo_client [demo_attempt (Inr 7) (Inl (Moved to_b)), demo_attempt (Inl (Exc ConnectionError ''refused'')) (Inr PNone)] 3) = (Inl y, c') \<and>
    cl_log c' = [Sent 0 7 False, Released 0 7, Disconnected 7, Released 1 7]"
proof -
  let ?c = "demo_client [demo_attempt (Inr 7) (Inl (Moved to_b)), demo_attempt (Inl (Exc ConnectionError ''refused'')) (Inr PNone)] 3"
  have "redir_host to_b \<noteq> []" "redir_port to_b \<noteq> 0" by (simp_all add: to_b_def)
  then have "get_node (env_resolve demo_env) (redir_host to_b) (redir_port to_b) [] (cl_nm ?c) = Some 1"
    by (simp add: get_node_def to_b_name)
  then show ?thesis
    using stale_connection_crosses_pools [OF demo_client_wf, of "[demo_attempt (Inr 7) (Inl (Moved to_b)),
        demo_attempt (Inl (Exc ConnectionError ''refused'')) (Inr PNone)]" 3 "''GET''" "[PStr ''foo'']" to_b _ 1 _ "[]" 7 "Exc ConnectionError ''refused''" 0]
    by (auto simp: demo_routes)
qed

lemma negative_retries_do_nothing_witness:
  "execute_command NoTargets ''GET'' [PStr ''foo''] (demo_client [demo_attempt (Inr 7) (Inr (PStr ''bar''))] (- 1)) =
    (Inr PNone, demo_client [demo_attempt (Inr 7) (Inr (PStr ''bar''))] (- 1))"
  by (rule negative_retries_do_nothing) simp

lemma keys_share_a_slot_witness:
  "slot_of_keys ''GET'' [PStr ''foo''] (demo_client [] 3) = (Inr (PInt 12182), demo_client [] 3)"
proof -
  have "keyslot (cl_encoder (demo_client [] 3)) (PStr ''foo'') = Inr 12182"
    by (simp add: demo_client_def keyslot_def key_slot_foo)
  then show ?thesis
    using keys_share_a_slot [of "''GET''" "[PStr ''foo'']" "demo_client [] 3" "PInt 12182"] by auto
qed

end
