(* ===== verification/Lock.thy ===== *)
theory Lock
  imports Serializer Floats
begin

text \<open>
  The distributed lock (\<open>redis/lock.py\<close>): the three Lua scripts, the token of each thread and the
  operations of \<open>Lock\<close>. The server that runs the scripts, the clock and what happens while a thread sleeps
  are an argument; \<open>store_laws\<close> is what the lock relies on.
\<close>

section \<open>The server\<close>

text \<open>
  The calls the lock makes on the world \<open>'w\<close>, which holds the server, the other clients and the clock:
  \<open>GET\<close>, \<open>SET key token NX [PX ms]\<close>, and the calls of the scripts; times are in seconds.
\<close>

record 'w lock_world =
  lw_get :: "string \<Rightarrow> 'w \<Rightarrow> string option"
  lw_set_nx :: "string \<Rightarrow> string \<Rightarrow> int option \<Rightarrow> 'w \<Rightarrow> (exc + bool) \<times> 'w"
  lw_del :: "string \<Rightarrow> 'w \<Rightarrow> 'w"
  lw_pttl :: "string \<Rightarrow> 'w \<Rightarrow> int"
  lw_pexpire :: "string \<Rightarrow> int \<Rightarrow> 'w \<Rightarrow> 'w"
  lw_now :: "'w \<Rightarrow> rat"
  lw_sleep :: "rat \<Rightarrow> 'w \<Rightarrow> 'w"

section \<open>Scripts\<close>

text \<open>A script runs atomically; it returns 1 when the token was the stored one and it took effect.\<close>

definition LUA_RELEASE_SCRIPT :: "'w lock_world \<Rightarrow> string \<Rightarrow> string \<Rightarrow> 'w \<Rightarrow> int \<times> 'w" where
  "LUA_RELEASE_SCRIPT S key token w =
     (if lw_get S key w \<noteq> Some token then (0, w) else (1, lw_del S key w))"

definition LUA_EXTEND_SCRIPT :: "'w lock_world \<Rightarrow> string \<Rightarrow> string \<Rightarrow> int \<Rightarrow> bool \<Rightarrow> 'w \<Rightarrow> int \<times> 'w" where
  "LUA_EXTEND_SCRIPT S key token ms replace_ttl w =
     (if lw_get S key w \<noteq> Some token then (0, w)
      else
        (let expiration = lw_pttl S key w
         in if expiration < 0 then (0, w)
            else (1, lw_pexpire S key (if replace_ttl then ms else ms + expiration) w)))"

definition LUA_REACQUIRE_SCRIPT :: "'w lock_world \<Rightarrow> string \<Rightarrow> string \<Rightarrow> int \<Rightarrow> 'w \<Rightarrow> int \<times> 'w" where
  "LUA_REACQUIRE_SCRIPT S key token ms w =
     (if lw_get S key w \<noteq> Some token then (0, w) else (1, lw_pexpire S key ms w))"

section \<open>The lock object\<close>

text \<open>
  \<open>lk_local t\<close> is the attribute \<open>token\<close> of thread \<open>t\<close>: \<open>None\<close> when the thread has no such
  attribute. Without thread local storage all threads use entry 0.
\<close>

record lock =
  lk_name :: string
  lk_timeout :: "rat option"
  lk_sleep :: rat
  lk_blocking :: bool
  lk_blocking_timeout :: "rat option"
  lk_thread_local :: bool
  lk_encoder :: encoder
  lk_local :: "nat \<Rightarrow> string option option"

definition new_lock ::
  "encoder \<Rightarrow> string \<Rightarrow> rat option \<Rightarrow> rat \<Rightarrow> bool \<Rightarrow> rat option \<Rightarrow> bool \<Rightarrow> nat \<Rightarrow> lock" where
  "new_lock enc name timeout sleep blocking blocking_timeout thread_local t =
     \<lparr>lk_name = name, lk_timeout = timeout, lk_sleep = sleep, lk_blocking = blocking,
      lk_blocking_timeout = blocking_timeout, lk_thread_local = thread_local, lk_encoder = enc,
      lk_local = (\<lambda>_. None)((if thread_local then t else 0) := Some None)\<rparr>"

definition local_slot :: "lock \<Rightarrow> nat \<Rightarrow> nat" where
  "local_slot lk t = (if lk_thread_local lk then t else 0)"

definition set_token :: "nat \<Rightarrow> string option \<Rightarrow> lock \<Rightarrow> lock" where
  "set_token t tok lk = lk\<lparr>lk_local := (lk_local lk)(local_slot lk t := Some tok)\<rparr>"

type_synonym ('w, 'a) lock_op = "(lock \<times> 'w, exc, 'a) action"

definition no_token_attribute :: exc where
  "no_token_attribute = Exc AttributeError ''token''"

definition get_token :: "nat \<Rightarrow> ('w, string option) lock_op" where
  "get_token t = (\<lambda>(lk, w). case lk_local lk (local_slot lk t) of
      None \<Rightarrow> (Inl no_token_attribute, (lk, w)) | Some tok \<Rightarrow> (Inr tok, (lk, w)))"

text \<open>\<open>int(seconds * 1000)\<close>, the product that of a float; for whole seconds below \<open>2^43\<close> it is exact.\<close>

definition millis :: "rat \<Rightarrow> int" where
  "millis s = trunc (float64 (s * 1000))"

definition lock_error :: "string \<Rightarrow> exc" where
  "lock_error m = Exc LockError m"

definition not_owned :: "string \<Rightarrow> exc" where
  "not_owned verb = Exc LockNotOwnedError (''Cannot '' @ verb @ '' a lock that'' @ [CHR 0x27] @ ''s no longer owned'')"

section \<open>Acquire\<close>

definition do_acquire :: "'w lock_world \<Rightarrow> string \<Rightarrow> ('w, bool) lock_op" where
  "do_acquire S token = (\<lambda>(lk, w).
     let timeout = (case lk_timeout lk of None \<Rightarrow> None | Some s \<Rightarrow> if s = 0 then None else Some (millis s))
     in case lw_set_nx S (lk_name lk) token timeout w of (r, w') \<Rightarrow> (r, (lk, w')))"

text \<open>The loop, at most \<open>n\<close> attempts; \<open>None\<close> when they did not end it.\<close>

fun acquire_loop ::
  "nat \<Rightarrow> 'w lock_world \<Rightarrow> nat \<Rightarrow> string \<Rightarrow> rat \<Rightarrow> bool \<Rightarrow> rat option \<Rightarrow> lock \<times> 'w \<Rightarrow> ((exc + bool) \<times> (lock \<times> 'w)) option" where
  "acquire_loop 0 S t token sleep blocking stop_trying_at s = None"
| "acquire_loop (Suc n) S t token sleep blocking stop_trying_at s =
     (case do_acquire S token s of
        (Inl e, s1) \<Rightarrow> Some (Inl e, s1)
      | (Inr True, (lk, w)) \<Rightarrow> Some (Inr True, (set_token t (Some token) lk, w))
      | (Inr False, (lk, w)) \<Rightarrow>
          if \<not> blocking then Some (Inr False, (lk, w))
          else if (case stop_trying_at of None \<Rightarrow> False | Some e \<Rightarrow> e < lw_now S w + sleep) then Some (Inr False, (lk, w))
          else acquire_loop n S t token sleep blocking stop_trying_at (lk, lw_sleep S sleep w))"

text \<open>\<open>uuid\<close> is the token generated when none is passed; absent arguments are those of the lock.\<close>

definition acquire ::
  "nat \<Rightarrow> 'w lock_world \<Rightarrow> nat \<Rightarrow> string \<Rightarrow> rat option \<Rightarrow> bool option \<Rightarrow> rat option \<Rightarrow> pyval option \<Rightarrow>
   lock \<times> 'w \<Rightarrow> ((exc + bool) \<times> (lock \<times> 'w)) option" where
  "acquire n S t uuid sleep blocking blocking_timeout token s = (case s of (lk, w) \<Rightarrow>
     case (case token of None \<Rightarrow> Inr (PBytes uuid) | Some v \<Rightarrow> encode (lk_encoder lk) v) of
       Inl e \<Rightarrow> Some (Inl e, s)
     | Inr tok \<Rightarrow>
         acquire_loop n S t (raw tok)
           (case sleep of Some x \<Rightarrow> x | None \<Rightarrow> lk_sleep lk)
           (case blocking of Some b \<Rightarrow> b | None \<Rightarrow> lk_blocking lk)
           (map_option (\<lambda>b. lw_now S w + b) (case blocking_timeout of Some b \<Rightarrow> Some b | None \<Rightarrow> lk_blocking_timeout lk))
           (lk, w))"

section \<open>The other operations\<close>

definition locked :: "'w lock_world \<Rightarrow> ('w, bool) lock_op" where
  "locked S = (\<lambda>(lk, w). (Inr (lw_get S (lk_name lk) w \<noteq> None), (lk, w)))"

text \<open>The stored token as \<open>get\<close> returns it, and back to bytes.\<close>

definition stored_token :: "'w lock_world \<Rightarrow> ('w, pyval) lock_op" where
  "stored_token S = (\<lambda>(lk, w).
     (case lw_get S (lk_name lk) w of
        None \<Rightarrow> Inr PNone
      | Some b \<Rightarrow> bindE (decode (lk_encoder lk) (PBytes b) False) (\<lambda>v.
          case v of PBytes _ \<Rightarrow> Inr v | _ \<Rightarrow> if truthy v then encode (lk_encoder lk) v else Inr v), (lk, w)))"

definition owned :: "'w lock_world \<Rightarrow> nat \<Rightarrow> ('w, bool) lock_op" where
  "owned S t = bindS (stored_token S) (\<lambda>v. bindS (get_token t) (\<lambda>tok.
     retS (case tok of None \<Rightarrow> False | Some b \<Rightarrow> v = PBytes b)))"

definition do_release :: "'w lock_world \<Rightarrow> string \<Rightarrow> ('w, unit) lock_op" where
  "do_release S expected = (\<lambda>(lk, w).
     case LUA_RELEASE_SCRIPT S (lk_name lk) expected w of
       (n, w') \<Rightarrow> (if n = 0 then Inl (not_owned ''release'') else Inr (), (lk, w')))"

definition release_lock :: "'w lock_world \<Rightarrow> nat \<Rightarrow> ('w, unit) lock_op" where
  "release_lock S t =
     bindS (get_token t) (\<lambda>expected.
       case expected of
         None \<Rightarrow> raiseS (lock_error ''Cannot release an unlocked lock'')
       | Some tok \<Rightarrow> thenS (modS (\<lambda>(lk, w). (set_token t None lk, w))) (do_release S tok))"

definition held_token :: "string \<Rightarrow> nat \<Rightarrow> ('w, string) lock_op" where
  "held_token verb t =
     bindS (get_token t) (\<lambda>tok.
       case tok of
         None \<Rightarrow> raiseS (lock_error (''Cannot '' @ verb @ '' an unlocked lock''))
       | Some b \<Rightarrow>
           bindS (getS (\<lambda>(lk, w). lk_timeout lk)) (\<lambda>timeout.
             if timeout = None then raiseS (lock_error (''Cannot '' @ verb @ '' a lock with no timeout'')) else retS b))"

definition extend :: "'w lock_world \<Rightarrow> nat \<Rightarrow> rat \<Rightarrow> bool \<Rightarrow> ('w, bool) lock_op" where
  "extend S t additional_time replace_ttl =
     bindS (held_token ''extend'' t) (\<lambda>tok. \<lambda>(lk, w).
       case LUA_EXTEND_SCRIPT S (lk_name lk) tok (millis additional_time) replace_ttl w of
         (n, w') \<Rightarrow> (if n = 0 then Inl (not_owned ''extend'') else Inr True, (lk, w')))"

lemmas lock_extend_def = extend_def

definition reacquire :: "'w lock_world \<Rightarrow> nat \<Rightarrow> ('w, bool) lock_op" where
  "reacquire S t =
     bindS (held_token ''reacquire'' t) (\<lambda>tok. \<lambda>(lk, w).
       case LUA_REACQUIRE_SCRIPT S (lk_name lk) tok (millis (the (lk_timeout lk))) w of
         (n, w') \<Rightarrow> (if n = 0 then Inl (not_owned ''reacquire'') else Inr True, (lk, w')))"

definition enter :: "nat \<Rightarrow> 'w lock_world \<Rightarrow> nat \<Rightarrow> string \<Rightarrow> lock \<times> 'w \<Rightarrow> ((exc + unit) \<times> (lock \<times> 'w)) option" where
  "enter n S t uuid s = (case acquire n S t uuid None None None None s of
      None \<Rightarrow> None
    | Some (Inl e, s') \<Rightarrow> Some (Inl e, s')
    | Some (Inr b, s') \<Rightarrow> Some (if b then Inr () else Inl (lock_error ''Unable to acquire lock within the time specified''), s'))"

section \<open>What the lock relies on\<close>

text \<open>
  The documented behaviour of the server for a key: \<open>SET NX\<close> takes effect exactly when the key is free; with an expiry
  that is not positive it is refused with an error;
  \<open>DEL\<close> frees it, \<open>PEXPIRE\<close> leaves its value or, with a time that is not positive, frees it;
  the clock does not go back, and advances while a thread sleeps.
\<close>

definition store_laws :: "'w lock_world \<Rightarrow> bool" where
  "store_laws S =
     ((\<forall>k t ms w. lw_get S k w \<noteq> None \<longrightarrow> (\<forall>n. ms = Some n \<longrightarrow> 0 < n) \<longrightarrow> lw_set_nx S k t ms w = (Inr False, w)) \<and>
      (\<forall>k t n w. n \<le> 0 \<longrightarrow> (\<exists>e. lw_set_nx S k t (Some n) w = (Inl e, w))) \<and>
      (\<forall>k t ms w. lw_get S k w = None \<longrightarrow> (\<forall>n. ms = Some n \<longrightarrow> 0 < n) \<longrightarrow>
         fst (lw_set_nx S k t ms w) = Inr True \<and> lw_get S k (snd (lw_set_nx S k t ms w)) = Some t) \<and>
      (\<forall>k w. lw_get S k (lw_del S k w) = None) \<and>
      (\<forall>k ms w. lw_get S k (lw_pexpire S k ms w) = (if 0 < ms then lw_get S k w else None)) \<and>
      (\<forall>k t ms w. lw_now S w \<le> lw_now S (snd (lw_set_nx S k t ms w))) \<and>
      (\<forall>d w. lw_now S w + d \<le> lw_now S (lw_sleep S d w)))"

lemma store_lawsD:
  assumes "store_laws S"
  shows "lw_get S k w \<noteq> None \<Longrightarrow> (\<And>n. ms = Some n \<Longrightarrow> 0 < n) \<Longrightarrow> lw_set_nx S k t ms w = (Inr False, w)"
    "lw_get S k w = None \<Longrightarrow> (\<And>n. ms = Some n \<Longrightarrow> 0 < n) \<Longrightarrow>
       fst (lw_set_nx S k t ms w) = Inr True \<and> lw_get S k (snd (lw_set_nx S k t ms w)) = Some t"
    "lw_get S k (lw_del S k w) = None"
    "lw_get S k (lw_pexpire S k m w) = (if 0 < m then lw_get S k w else None)"
    "lw_now S w + d \<le> lw_now S (lw_sleep S d w)"
    "lw_now S w \<le> lw_now S (snd (lw_set_nx S k t ms w))"
    "n \<le> 0 \<Longrightarrow> \<exists>e. lw_set_nx S k t (Some n) w = (Inl e, w)"
proof -
  note laws = assms [unfolded store_laws_def]
  show "lw_get S k w \<noteq> None \<Longrightarrow> (\<And>n. ms = Some n \<Longrightarrow> 0 < n) \<Longrightarrow> lw_set_nx S k t ms w = (Inr False, w)" using laws by simp
  show "lw_get S k w = None \<Longrightarrow> (\<And>n. ms = Some n \<Longrightarrow> 0 < n) \<Longrightarrow>
       fst (lw_set_nx S k t ms w) = Inr True \<and> lw_get S k (snd (lw_set_nx S k t ms w)) = Some t" using laws by simp
  show "n \<le> 0 \<Longrightarrow> \<exists>e. lw_set_nx S k t (Some n) w = (Inl e, w)" using laws by blast
qed (use assms [unfolded store_laws_def] in simp_all)

text \<open>The expiry \<open>do_acquire\<close> sends, and whether the server accepts it.\<close>

definition expiry :: "lock \<Rightarrow> int option" where
  "expiry lk = (case lk_timeout lk of None \<Rightarrow> None | Some s \<Rightarrow> if s = 0 then None else Some (millis s))"

definition expiry_ok :: "lock \<Rightarrow> bool" where
  "expiry_ok lk = (case expiry lk of None \<Rightarrow> True | Some n \<Rightarrow> 0 < n)"

lemma do_acquire_expiry: "do_acquire S token (lk, w) = (case lw_set_nx S (lk_name lk) token (expiry lk) w of (r, w') \<Rightarrow> (r, (lk, w')))"
  by (simp add: do_acquire_def expiry_def)

text \<open>An attempt on a taken key changes nothing.\<close>

lemma set_taken:
  assumes "store_laws S" "lw_get S k w \<noteq> None"
  shows "\<exists>r. lw_set_nx S k t (expiry lk) w = (r, w) \<and> (if expiry_ok lk then r = Inr False else \<exists>e. r = Inl e)"
proof (cases "expiry_ok lk")
  case True
  then have "lw_set_nx S k t (expiry lk) w = (Inr False, w)"
    by (intro store_lawsD(1) [OF assms]) (simp add: expiry_ok_def)
  then show ?thesis using True by simp
next
  case False
  then obtain n where n: "expiry lk = Some n" "n \<le> 0" by (auto simp: expiry_ok_def split: option.splits)
  then show ?thesis using store_lawsD(7) [OF assms(1) n(2), of k t w] False by auto
qed

section \<open>Clients that share a key\<close>

text \<open>What another client does with its lock object, without waiting: try to take the lock, or use it.\<close>

datatype lock_call = Try string | Release | Extend rat bool | Reacquire | Owned | Locked

fun lock_call_run :: "'w lock_world \<Rightarrow> nat \<Rightarrow> lock_call \<Rightarrow> lock \<times> 'w \<Rightarrow> (exc + bool) \<times> (lock \<times> 'w)" where
  "lock_call_run S t (Try token) s = (case acquire_loop 1 S t token 0 False None s of Some r \<Rightarrow> r | None \<Rightarrow> (Inr False, s))"
| "lock_call_run S t Release s = bindS (release_lock S t) (\<lambda>_. retS True) s"
| "lock_call_run S t (Extend d b) s = extend S t d b s"
| "lock_call_run S t Reacquire s = reacquire S t s"
| "lock_call_run S t Owned s = owned S t s"
| "lock_call_run S t Locked s = locked S s"

text \<open>Calls of several clients, each with its own lock object, in the order they reach the server.\<close>

fun run_clients ::
  "'w lock_world \<Rightarrow> (nat \<times> nat \<times> lock_call) list \<Rightarrow> (nat \<Rightarrow> lock) \<times> 'w \<Rightarrow> (exc + bool) list \<times> ((nat \<Rightarrow> lock) \<times> 'w)" where
  "run_clients S [] (locks, w) = ([], (locks, w))"
| "run_clients S ((c, t, call) # cs) (locks, w) =
     (case lock_call_run S t call (locks c, w) of (r, (lk, w')) \<Rightarrow>
        (case run_clients S cs (locks(c := lk), w') of (rs, s) \<Rightarrow> (r # rs, s)))"

definition holds_token :: "string \<Rightarrow> lock \<Rightarrow> bool" where
  "holds_token tok lk = (\<exists>t. lk_local lk t = Some (Some tok))"

fun call_token :: "lock_call \<Rightarrow> string option" where
  "call_token (Try token) = Some token"
| "call_token _ = None"

lemma get_token_cases:
  "get_token t (lk, w) = (r, s) \<Longrightarrow> s = (lk, w) \<and> (case r of Inl e \<Rightarrow> True | Inr tok \<Rightarrow> lk_local lk (local_slot lk t) = Some tok)"
  by (auto simp: get_token_def split: option.splits)

lemma set_token_holds: "\<not> holds_token tok lk \<Longrightarrow> v \<noteq> Some tok \<Longrightarrow> \<not> holds_token tok (set_token t v lk)"
  by (auto simp: holds_token_def set_token_def split: if_splits)

lemma set_token_fields [simp]:
  "lk_name (set_token t v lk) = lk_name lk" "lk_encoder (set_token t v lk) = lk_encoder lk"
  "lk_timeout (set_token t v lk) = lk_timeout lk" "lk_thread_local (set_token t v lk) = lk_thread_local lk"
  by (simp_all add: set_token_def)

text \<open>A call of a client that does not have the stored token changes nothing on the server.\<close>

lemma foreign_call:
  assumes laws: "store_laws S" and key: "lw_get S (lk_name lk) w = Some tok"
    and foreign: "\<not> holds_token tok lk" "call_token call \<noteq> Some tok"
    and run: "lock_call_run S t call (lk, w) = (r, (lk', w'))"
  shows "w' = w \<and> lk_name lk' = lk_name lk \<and> lk_timeout lk' = lk_timeout lk \<and> \<not> holds_token tok lk' \<and>
    (\<forall>token. call = Try token \<longrightarrow> (if expiry_ok lk then r = Inr False else \<exists>e. r = Inl e)) \<and> (call \<in> {Release, Reacquire} \<union> range (\<lambda>(d, b). Extend d b) \<longrightarrow> (\<exists>e. r = Inl e))"
proof -
  have local: "lk_local lk i \<noteq> Some (Some tok)" for i using foreign(1) by (simp add: holds_token_def)
  have held: "held_token verb t (lk, w) = (q, s) \<Longrightarrow> s = (lk, w) \<and> q \<noteq> Inr tok" for verb q s
    using local [of "local_slot lk t"]
    by (auto simp: held_token_def get_token_def bindS_def split: option.splits if_splits)
  show ?thesis
  proof (cases call)
    case (Try token)
    obtain q where q: "lw_set_nx S (lk_name lk) token (expiry lk) w = (q, w)" "if expiry_ok lk then q = Inr False else \<exists>e. q = Inl e"
      using set_taken [OF laws, of "lk_name lk" w token lk] key by auto
    then have "(r, (lk', w')) = (q, (lk, w))"
      using run Try by (auto simp: do_acquire_expiry split: if_splits sum.splits)
    then show ?thesis using Try foreign(1) q(2) by auto
  next
    case Release
    show ?thesis
    proof (cases "lk_local lk (local_slot lk t)")
      case None
      then show ?thesis using run Release foreign(1) by (auto simp: release_lock_def get_token_def bindS_Inl)
    next
      case (Some v)
      then show ?thesis
        using run Release foreign(1) local [of "local_slot lk t"] set_token_holds [OF foreign(1), of None t] key
        by (cases v) (auto simp: release_lock_def get_token_def bindS_Inr bindS_Inl thenS_Inr do_release_def LUA_RELEASE_SCRIPT_def)
    qed
  next
    case (Extend d b)
    obtain q s where h: "held_token ''extend'' t (lk, w) = (q, s)" by (metis prod.exhaust)
    note h' = held [OF h]
    show ?thesis using run Extend h h' foreign(1) key
      by (cases q) (auto simp: extend_def bindS_Inr bindS_Inl LUA_EXTEND_SCRIPT_def)
  next
    case Reacquire
    obtain q s where h: "held_token ''reacquire'' t (lk, w) = (q, s)" by (metis prod.exhaust)
    note h' = held [OF h]
    show ?thesis using run Reacquire h h' foreign(1) key
      by (cases q) (auto simp: reacquire_def bindS_Inr bindS_Inl LUA_REACQUIRE_SCRIPT_def)
  next
    case Owned
    have "snd (owned S t (lk, w)) = (lk, w)"
      by (auto simp: owned_def bindS_def stored_token_def get_token_def split: prod.splits sum.splits option.splits)
    then show ?thesis using run Owned foreign(1) by auto
  next
    case Locked
    then show ?thesis using run foreign(1) by (auto simp: locked_def)
  qed
qed

lemma acquire_loop_ends:
  assumes laws: "store_laws S" and "0 < sleep" "stop < lw_now S w + of_nat n * sleep" "0 < n"
  shows "acquire_loop n S t token sleep blocking (Some stop) (lk, w) \<noteq> None"
  using assms(3,4)
proof (induction n arbitrary: lk w)
  case (Suc n)
  obtain r lk1 w1 where d: "do_acquire S token (lk, w) = (r, (lk1, w1))" by (metis prod.exhaust)
  have now: "lw_now S w \<le> lw_now S w1"
    using d store_lawsD(6) [OF laws] by (auto simp: do_acquire_def Let_def split: prod.splits)
      (metis snd_conv)+
  show ?case
  proof (cases "r = Inr False \<and> blocking \<and> \<not> stop < lw_now S w1 + sleep")
    case True
    have "n \<noteq> 0"
    proof
      assume "n = 0"
      then have "stop < lw_now S w1 + sleep" using Suc.prems(1) now by simp
      then show False using True by simp
    qed
    have "lw_now S w1 + sleep \<le> lw_now S (lw_sleep S sleep w1)" by (rule store_lawsD(5) [OF laws])
    then have "stop < lw_now S (lw_sleep S sleep w1) + of_nat n * sleep"
      using Suc.prems(1) now by (simp add: algebra_simps)
    then show ?thesis using Suc.IH \<open>n \<noteq> 0\<close> True d by simp
  next
    case False
    then show ?thesis using d by (auto split: sum.splits bool.splits)
  qed
qed simp

lemma acquire_loop_result:
  assumes "acquire_loop n S t token sleep True stop (lk, w) = Some (Inr b, (lk', w'))"
  shows "(b \<longrightarrow> lk_local lk' (local_slot lk t) = Some (Some token)) \<and>
    (\<not> b \<longrightarrow> lk' = lk \<and> (\<exists>e. stop = Some e \<and> e < lw_now S w' + sleep))"
  using assms
proof (induction n arbitrary: w)
  case (Suc n)
  obtain r w1 where d: "do_acquire S token (lk, w) = (r, (lk, w1))"
    by (cases "lw_set_nx S (lk_name lk) token (case lk_timeout lk of None \<Rightarrow> None | Some s \<Rightarrow> if s = 0 then None else Some (millis s)) w")
      (simp add: do_acquire_def)
  show ?case
  proof (cases r)
    case (Inl e)
    then show ?thesis using Suc.prems d by simp
  next
    case (Inr c)
    then show ?thesis using Suc.prems Suc.IH d
      by (cases c) (auto simp: set_token_def split: if_splits option.splits)
  qed
qed simp

section \<open>A concrete server\<close>

text \<open>One key without expiry and a clock, to show that the laws can hold.\<close>

record toy =
  toy_key :: "string \<Rightarrow> string option"
  toy_clock :: rat

definition toy_world :: "toy lock_world" where
  "toy_world = \<lparr>lw_get = (\<lambda>k w. toy_key w k),
     lw_set_nx = (\<lambda>k t ms w. if (case ms of None \<Rightarrow> False | Some n \<Rightarrow> n \<le> 0) then (Inl (Exc ResponseError ''invalid expire time''), w)
       else if toy_key w k = None then (Inr True, w\<lparr>toy_key := (toy_key w)(k \<mapsto> t)\<rparr>) else (Inr False, w)),
     lw_del = (\<lambda>k w. w\<lparr>toy_key := (toy_key w)(k := None)\<rparr>),
     lw_pttl = (\<lambda>_ _. - 1),
     lw_pexpire = (\<lambda>k ms w. if 0 < ms then w else w\<lparr>toy_key := (toy_key w)(k := None)\<rparr>),
     lw_now = toy_clock, lw_sleep = (\<lambda>d w. w\<lparr>toy_clock := toy_clock w + d\<rparr>)\<rparr>"

lemma toy_laws: "store_laws toy_world"
  by (auto simp: store_laws_def toy_world_def split: option.splits)

definition demo_lock :: "string option \<Rightarrow> lock" where
  "demo_lock tok = (new_lock strict_encoder ''l'' None 1 True (Some 3) True 0)\<lparr>lk_local := (\<lambda>_. None)(0 := Some tok)\<rparr>"

lemma demo_lock_fields [simp]:
  "lk_name (demo_lock tok) = ''l''" "lk_local (demo_lock tok) = (\<lambda>_. None)(0 := Some tok)" "lk_timeout (demo_lock tok) = None"
  "local_slot (demo_lock tok) t = t" "lk_sleep (demo_lock tok) = 1" "lk_blocking (demo_lock tok)" "lk_blocking_timeout (demo_lock tok) = Some 3"
  by (simp_all add: demo_lock_def new_lock_def local_slot_def)

section \<open>Properties\<close>

text \<open>C17: While a token is stored under the key, clients without this token cannot take, keep, prolong or free the lock: in any
  sequence of their calls every attempt to acquire fails (with \<open>False\<close>, or with the server's error when the client's timeout is no valid expiry), every release,
  extension and reacquisition raises, and the server is unchanged.\<close>

theorem lock_is_exclusive:
  assumes "store_laws S" "lw_get S k w = Some tok"
    and "\<forall>(c, t, call) \<in> set cs. lk_name (locks c) = k \<and> \<not> holds_token tok (locks c) \<and> call_token call \<noteq> Some tok"
    and "run_clients S cs (locks, w) = (rs, (locks', w'))"
  shows "w' = w \<and> length rs = length cs \<and>
    (\<forall>i < length cs. (\<forall>token. snd (snd (cs ! i)) = Try token \<longrightarrow> (if expiry_ok (locks (fst (cs ! i))) then rs ! i = Inr False else \<exists>e. rs ! i = Inl e)) \<and>
       (snd (snd (cs ! i)) \<in> {Release, Reacquire} \<union> range (\<lambda>(d, b). Extend d b) \<longrightarrow> (\<exists>e. rs ! i = Inl e)))"
  using assms(3,4)
proof (induction cs arbitrary: locks rs)
  case Nil
  then show ?case by simp
next
  case (Cons x cs)
  obtain c t call where x: "x = (c, t, call)" by (metis prod.exhaust)
  obtain r lk1 w1 where r: "lock_call_run S t call (locks c, w) = (r, (lk1, w1))" by (metis prod.exhaust)
  obtain rs2 s2 where rs: "run_clients S cs (locks(c := lk1), w1) = (rs2, s2)" by (metis prod.exhaust)
  have c: "lk_name (locks c) = k" "\<not> holds_token tok (locks c)" "call_token call \<noteq> Some tok" using Cons.prems(1) x by auto
  then have "lw_get S (lk_name (locks c)) w = Some tok" using assms(2) by simp
  note f = foreign_call [OF assms(1) this c(2,3) r]
  have new: "lk_name lk1 = k" "\<not> holds_token tok lk1" using f c(1) by simp_all
  have tl: "\<forall>y \<in> set cs. case y of (d, t, call) \<Rightarrow> lk_name (locks d) = k \<and> \<not> holds_token tok (locks d) \<and> call_token call \<noteq> Some tok"
    using Cons.prems(1) by simp
  have inv: "\<forall>(d, t, call) \<in> set cs. lk_name ((locks(c := lk1)) d) = k \<and> \<not> holds_token tok ((locks(c := lk1)) d) \<and> call_token call \<noteq> Some tok"
    using tl new by (auto split: prod.splits)
  have eq: "rs = r # rs2" "s2 = (locks', w')" using Cons.prems(2) x r rs by simp_all
  then have run: "run_clients S cs (locks(c := lk1), w) = (rs2, (locks', w'))" using rs f by simp
  have step: "w' = w \<and> length rs2 = length cs \<and>
    (\<forall>i < length cs. (\<forall>token. snd (snd (cs ! i)) = Try token \<longrightarrow>
          (if expiry_ok ((locks(c := lk1)) (fst (cs ! i))) then rs2 ! i = Inr False else \<exists>e. rs2 ! i = Inl e)) \<and>
       (snd (snd (cs ! i)) \<in> {Release, Reacquire} \<union> range (\<lambda>(d, b). Extend d b) \<longrightarrow> (\<exists>e. rs2 ! i = Inl e)))"
    by (rule Cons.IH [OF inv run])
  have same: "expiry_ok ((locks(c := lk1)) d) = expiry_ok (locks d)" for d
    using f by (auto simp: expiry_ok_def expiry_def)
  have ih: "w' = w \<and> length rs2 = length cs \<and>
    (\<forall>i < length cs. (\<forall>token. snd (snd (cs ! i)) = Try token \<longrightarrow>
          (if expiry_ok (locks (fst (cs ! i))) then rs2 ! i = Inr False else \<exists>e. rs2 ! i = Inl e)) \<and>
       (snd (snd (cs ! i)) \<in> {Release, Reacquire} \<union> range (\<lambda>(d, b). Extend d b) \<longrightarrow> (\<exists>e. rs2 ! i = Inl e)))"
    using step unfolding same .
  show ?case
    using ih f x eq(1) by (auto simp: nth_Cons split: nat.split)
qed

lemma lock_is_exclusive_witness:
  "\<exists>rs locks'. run_clients toy_world [(1, 0, Try ''b''), (2, 0, Release)] (\<lambda>_. demo_lock None, \<lparr>toy_key = [''l'' \<mapsto> ''a''], toy_clock = 0\<rparr>) =
     (rs, (locks', \<lparr>toy_key = [''l'' \<mapsto> ''a''], toy_clock = 0\<rparr>)) \<and> rs ! 0 = Inr False \<and> (\<exists>e. rs ! 1 = Inl e)"
proof -
  let ?w = "\<lparr>toy_key = [''l'' \<mapsto> ''a''], toy_clock = 0\<rparr>"
  let ?cs = "[(1, 0, Try ''b''), (2, 0, Release)]"
  obtain rs locks' w' where r: "run_clients toy_world ?cs (\<lambda>_. demo_lock None, ?w) = (rs, (locks', w'))" by (metis prod.exhaust)
  have "lw_get toy_world ''l'' ?w = Some ''a''" by (simp add: toy_world_def)
  moreover have "\<forall>(c, t, call) \<in> set ?cs. lk_name (demo_lock None) = ''l'' \<and> \<not> holds_token ''a'' (demo_lock None) \<and> call_token call \<noteq> Some ''a''"
    by (auto simp: holds_token_def split: if_splits)
  ultimately show ?thesis
    using lock_is_exclusive [OF toy_laws _ _ r, of "''l''" "''a''"] r by (auto simp: nth_Cons' expiry_ok_def expiry_def)
qed

text \<open>C18: Acquiring and releasing: a lock whose key is free is taken at the first attempt with the token stored, a release by the
  same thread frees the key and forgets the token, and a release after the key went to another token raises and leaves that token.\<close>

theorem acquire_release_roundtrip:
  assumes laws: "store_laws S" and free: "lw_get S (lk_name lk) w = None"
    and timeout: "\<And>s. lk_timeout lk = Some s \<Longrightarrow> s = 0 \<or> 0 < millis s"
  shows "\<exists>lk1 w1 lk2 w2. acquire (Suc n) S t uuid sleep blocking bt None (lk, w) = Some (Inr True, (lk1, w1)) \<and>
    lw_get S (lk_name lk) w1 = Some uuid \<and>
    release_lock S t (lk1, w1) = (Inr (), (lk2, w2)) \<and> lw_get S (lk_name lk) w2 = None \<and>
    lk_local lk2 (local_slot lk t) = Some None \<and>
    (\<forall>v other. lw_get S (lk_name lk) v = other \<and> other \<noteq> Some uuid \<longrightarrow>
       release_lock S t (lk1, v) = (Inl (not_owned ''release''), (lk2, v)))"
proof -
  let ?ms = "case lk_timeout lk of None \<Rightarrow> None | Some s \<Rightarrow> if s = 0 then None else Some (millis s)"
  obtain r w1 where set: "lw_set_nx S (lk_name lk) uuid ?ms w = (r, w1)" by force
  have "\<And>n. ?ms = Some n \<Longrightarrow> 0 < n" using timeout by (auto split: option.splits if_splits)
  then have ok: "r = Inr True" "lw_get S (lk_name lk) w1 = Some uuid"
    using store_lawsD(2) [OF laws free, of ?ms uuid] set by simp_all
  let ?lk1 = "set_token t (Some uuid) lk"
  have "acquire (Suc n) S t uuid sleep blocking bt None (lk, w) = Some (Inr True, (?lk1, w1))"
    using set ok(1) by (simp add: acquire_def do_acquire_def)
  moreover have rel: "release_lock S t (?lk1, v) = do_release S uuid (set_token t None ?lk1, v)" for v
    by (simp add: release_lock_def get_token_def bindS_Inr thenS_Inr set_token_def local_slot_def)
  ultimately show ?thesis
    using ok store_lawsD(3) [OF laws]
    by (intro exI [of _ ?lk1] exI [of _ w1] exI [of _ "set_token t None ?lk1"] exI [of _ "lw_del S (lk_name lk) w1"])
      (auto simp: do_release_def LUA_RELEASE_SCRIPT_def set_token_def local_slot_def)
qed

lemma acquire_release_roundtrip_witness:
  "\<exists>lk1 w1 lk2 w2. acquire 1 toy_world 0 ''a'' None None None None (demo_lock None, \<lparr>toy_key = (\<lambda>_. None), toy_clock = 0\<rparr>) =
      Some (Inr True, (lk1, w1)) \<and> toy_key w1 ''l'' = Some ''a'' \<and>
    release_lock toy_world 0 (lk1, w1) = (Inr (), (lk2, w2)) \<and> toy_key w2 ''l'' = None"
  using acquire_release_roundtrip [OF toy_laws, of "demo_lock None" "\<lparr>toy_key = (\<lambda>_. None), toy_clock = 0\<rparr>" 0 0 "''a''" None None None]
  by (auto simp: toy_world_def)

text \<open>A blocking acquire with a deadline ends: once the attempts made cover the time to wait it has returned or raised; it
  returns \<open>True\<close> only with its token set, and \<open>False\<close> only when the next attempt would come after the deadline.\<close>

theorem acquire_ends_at_deadline:
  assumes laws: "store_laws S" and sleep: "0 < lk_sleep lk" and bt: "lk_blocking_timeout lk = Some b" "lk_blocking lk"
    and n: "b < of_nat n * lk_sleep lk" "0 < n"
  shows "\<exists>r lk' w'. acquire n S t uuid None None None None (lk, w) = Some (r, (lk', w')) \<and>
    (r = Inr True \<longrightarrow> lk_local lk' (local_slot lk t) = Some (Some uuid)) \<and>
    (r = Inr False \<longrightarrow> lk' = lk \<and> lw_now S w + b < lw_now S w' + lk_sleep lk)"
proof -
  have eq: "acquire n S t uuid None None None None (lk, w) =
      acquire_loop n S t uuid (lk_sleep lk) True (Some (lw_now S w + b)) (lk, w)"
    using bt by (simp add: acquire_def)
  have "acquire_loop n S t uuid (lk_sleep lk) True (Some (lw_now S w + b)) (lk, w) \<noteq> None"
    by (rule acquire_loop_ends [OF laws sleep]) (use n in simp_all)
  then obtain r lk' w' where run: "acquire_loop n S t uuid (lk_sleep lk) True (Some (lw_now S w + b)) (lk, w) = Some (r, (lk', w'))"
    by (metis not_None_eq prod.exhaust)
  note res = acquire_loop_result [of n S t uuid "lk_sleep lk" "Some (lw_now S w + b)" lk w _ lk' w']
  have "r = Inr True \<longrightarrow> lk_local lk' (local_slot lk t) = Some (Some uuid)"
    using res [of True] run by simp
  moreover have "r = Inr False \<longrightarrow> lk' = lk \<and> lw_now S w + b < lw_now S w' + lk_sleep lk"
    using res [of False] run by auto
  ultimately show ?thesis using eq run by simp
qed

lemma acquire_ends_at_deadline_witness:
  "\<exists>r lk' w'. acquire 4 toy_world 0 ''b'' None None None None (demo_lock None, \<lparr>toy_key = [''l'' \<mapsto> ''a''], toy_clock = 0\<rparr>) = Some (r, (lk', w'))"
  using acquire_ends_at_deadline [OF toy_laws, of "demo_lock None" 3 4 0 "''b''" "\<lparr>toy_key = [''l'' \<mapsto> ''a''], toy_clock = 0\<rparr>"] by auto

text \<open>The token attribute exists only in the thread that created the lock: in another thread a release raises
  \<open>AttributeError\<close> instead of the documented \<open>LockError\<close>.\<close>

theorem release_in_other_thread_raises:
  assumes "t \<noteq> t0"
  shows "release_lock S t (new_lock enc name timeout sleep blocking bt True t0, w) =
    (Inl (Exc AttributeError ''token''), (new_lock enc name timeout sleep blocking bt True t0, w))"
  using assms by (simp add: release_lock_def get_token_def new_lock_def local_slot_def bindS_Inl no_token_attribute_def)

lemma release_in_other_thread_raises_witness:
  "release_lock toy_world 1 (new_lock strict_encoder ''l'' None 1 True None True 0, \<lparr>toy_key = (\<lambda>_. None), toy_clock = 0\<rparr>) =
    (Inl (Exc AttributeError ''token''), (new_lock strict_encoder ''l'' None 1 True None True 0, \<lparr>toy_key = (\<lambda>_. None), toy_clock = 0\<rparr>))"
  by (rule release_in_other_thread_raises) simp

end
