(* ===== verification/Client.thy ===== *)
theory Client
  imports PyVal Retry
begin

text \<open>
  The client's execution of commands (\<open>redis/client.py\<close>): \<open>Redis.parse_response\<close> and
  \<open>execute_command\<close>, and \<open>Pipeline\<close> with WATCH, MULTI/EXEC, staged commands, scripts and the
  handlers of connection errors. A connection's own operations are an argument, computations on a world.
\<close>

section \<open>Connections and commands\<close>

text \<open>
  What the client uses of its pool and connection: \<open>ln_send\<close> packs and sends commands together,
  \<open>ln_read d\<close> is \<open>read_response(disable_decoding = d)\<close>, \<open>ln_text\<close> is \<open>safe_str\<close>,
  \<open>ln_callbacks\<close> the response callbacks by upper case name.
\<close>

record 'w link =
  ln_get :: "string \<Rightarrow> ('w, exc, unit) action"
  ln_release :: "('w, exc, unit) action"
  ln_send :: "pyval list list \<Rightarrow> ('w, exc, unit) action"
  ln_read :: "bool \<Rightarrow> ('w, exc, pyval) action"
  ln_disconnect :: "('w, exc, unit) action"
  ln_retry :: retry
  ln_rnd :: "nat \<Rightarrow> rat"
  ln_sleep :: "rat \<Rightarrow> 'w \<Rightarrow> 'w"
  ln_retry_on_error :: "exc_class list option"
  ln_text :: "pyval \<Rightarrow> string"
  ln_callbacks :: "string \<Rightarrow> (pyval \<Rightarrow> exc + pyval) option"

text \<open>A command: its name, the other arguments, and the options the client reads itself.\<close>

record command =
  cm_name :: string
  cm_rest :: "pyval list"
  cm_never_decode :: bool
  cm_empty_response :: "pyval option"

definition cm_args :: "command \<Rightarrow> pyval list" where
  "cm_args c = PStr (cm_name c) # cm_rest c"

definition cmd :: "string \<Rightarrow> pyval list \<Rightarrow> command" where
  "cmd name rest = \<lparr>cm_name = name, cm_rest = rest, cm_never_decode = False, cm_empty_response = None\<rparr>"

definition response_callback :: "'w link \<Rightarrow> string \<Rightarrow> pyval \<Rightarrow> exc + pyval" where
  "response_callback L name r = (case ln_callbacks L (upper name) of Some f \<Rightarrow> f r | None \<Rightarrow> Inr r)"

definition parse_response :: "'w link \<Rightarrow> command \<Rightarrow> ('w, exc, pyval) action" where
  "parse_response L c = (\<lambda>w.
     case ln_read L (cm_never_decode c) w of
       (Inl e, w') \<Rightarrow>
         (case cm_empty_response c of
            Some v \<Rightarrow> (if isinstance e ResponseError then Inr v else Inl e, w')
          | None \<Rightarrow> (Inl e, w'))
     | (Inr r, w') \<Rightarrow> (response_callback L (cm_name c) r, w'))"

definition retry_on_error :: "'w link \<Rightarrow> exc \<Rightarrow> bool" where
  "retry_on_error L e = (case ln_retry_on_error L of None \<Rightarrow> False | Some cs \<Rightarrow> isinstance_any e cs)"

text \<open>\<open>conn.retry.call_with_retry\<close>; \<open>None\<close> when it retries for ever.\<close>

definition with_retry ::
  "'w link \<Rightarrow> (rat \<Rightarrow> 's \<Rightarrow> 's) \<Rightarrow> ('s, exc, 'a) action \<Rightarrow> (exc \<Rightarrow> ('s, exc, unit) action) \<Rightarrow> 's \<Rightarrow> ((exc + 'a) \<times> 's) option" where
  "with_retry L slp m fail s = map_option fst (call_with_retry (ln_retry L) (ln_rnd L) slp m fail s)"

section \<open>Redis.execute_command\<close>

definition send_command_parse_response :: "'w link \<Rightarrow> command \<Rightarrow> ('w, exc, pyval) action" where
  "send_command_parse_response L c = thenS (ln_send L [cm_args c]) (parse_response L c)"

definition disconnect_raise :: "'w link \<Rightarrow> exc \<Rightarrow> ('w, exc, unit) action" where
  "disconnect_raise L e = thenS (ln_disconnect L) (if retry_on_error L e then retS () else raiseS e)"

text \<open>A client made with \<open>single_connection_client\<close> keeps its own connection and does not use the pool.\<close>

definition redis_execute_command :: "'w link \<Rightarrow> bool \<Rightarrow> command \<Rightarrow> 'w \<Rightarrow> ((exc + pyval) \<times> 'w) option" where
  "redis_execute_command L single c w =
     (case (if single then retS () else ln_get L (cm_name c)) w of
        (Inl e, w1) \<Rightarrow> Some (Inl e, w1)
      | (Inr _, w1) \<Rightarrow>
          (case with_retry L (ln_sleep L) (send_command_parse_response L c) (disconnect_raise L) w1 of
             None \<Rightarrow> None
           | Some (r, w2) \<Rightarrow> Some (if single then (r, w2) else finallyS (\<lambda>_. (r, w2)) (ln_release L) w2)))"

section \<open>Pipeline\<close>

record script =
  sc_text :: string
  sc_sha :: pyval

record 'w pipeline =
  pp_connection :: bool
  pp_stack :: "command list"
  pp_scripts :: "script list"
  pp_watching :: bool
  pp_explicit :: bool
  pp_transaction :: bool
  pp_world :: 'w

type_synonym ('w, 'a) pipe_op = "('w pipeline, exc, 'a) action"

definition on_link :: "('w, exc, 'a) action \<Rightarrow> ('w, 'a) pipe_op" where
  "on_link m = (\<lambda>p. case m (pp_world p) of (r, w) \<Rightarrow> (r, p\<lparr>pp_world := w\<rparr>))"

definition new_pipeline :: "bool \<Rightarrow> 'w \<Rightarrow> 'w pipeline" where
  "new_pipeline transaction w = \<lparr>pp_connection = False, pp_stack = [], pp_scripts = [], pp_watching = False, pp_explicit = False,
     pp_transaction = transaction, pp_world = w\<rparr>"

text \<open>A watching pipeline sends UNWATCH first; a connection that fails is closed.\<close>

definition pipe_reset :: "'w link \<Rightarrow> ('w, unit) pipe_op" where
  "pipe_reset L =
     thenS (modS (\<lambda>p. p\<lparr>pp_stack := [], pp_scripts := []\<rparr>))
     (thenS (bindS (getS (\<lambda>p. pp_watching p \<and> pp_connection p)) (\<lambda>b.
        if b then
          catchS (bindS (thenS (on_link (ln_send L [[PStr ''UNWATCH'']])) (on_link (ln_read L False))) (\<lambda>_. retS ()))
            (\<lambda>e. if isinstance e ConnectionError then on_link (ln_disconnect L) else raiseS e)
        else retS ()))
     (thenS (modS (\<lambda>p. p\<lparr>pp_watching := False, pp_explicit := False\<rparr>))
     (bindS (getS pp_connection) (\<lambda>b.
        if b then thenS (on_link (ln_release L)) (modS (\<lambda>p. p\<lparr>pp_connection := False\<rparr>)) else retS ()))))"

definition multi :: "('w, unit) pipe_op" where
  "multi = (\<lambda>p.
     if pp_explicit p then (Inl (Exc RedisError ''Cannot issue nested calls to MULTI''), p)
     else if pp_stack p \<noteq> [] then
       (Inl (Exc RedisError ''Commands without an initial WATCH have already been issued''), p)
     else (Inr (), p\<lparr>pp_explicit := True\<rparr>))"

definition UNWATCH_COMMANDS :: "string list" where
  "UNWATCH_COMMANDS = [''DISCARD'', ''EXEC'', ''UNWATCH'']"

definition pipe_parse_response :: "'w link \<Rightarrow> command \<Rightarrow> ('w, pyval) pipe_op" where
  "pipe_parse_response L c =
     bindS (on_link (parse_response L c)) (\<lambda>r.
     thenS (modS (\<lambda>p. if cm_name c \<in> set UNWATCH_COMMANDS then p\<lparr>pp_watching := False\<rparr>
                       else if cm_name c = ''WATCH'' then p\<lparr>pp_watching := True\<rparr> else p))
       (retS r))"

definition watch_error :: exc where
  "watch_error = Exc WatchError ''A ConnectionError occurred on while watching one or more keys''"

definition disconnect_reset_raise :: "'w link \<Rightarrow> exc \<Rightarrow> ('w, unit) pipe_op" where
  "disconnect_reset_raise L e =
     thenS (on_link (ln_disconnect L))
     (bindS (getS pp_watching) (\<lambda>watching.
        if watching then thenS (pipe_reset L) (raiseS watch_error)
        else if retry_on_error L e then retS ()
        else thenS (pipe_reset L) (raiseS e)))"

definition pipe_sleep :: "'w link \<Rightarrow> rat \<Rightarrow> 'w pipeline \<Rightarrow> 'w pipeline" where
  "pipe_sleep L t p = p\<lparr>pp_world := ln_sleep L t (pp_world p)\<rparr>"

text \<open>The connection of the pipeline, or one from the pool, which it keeps.\<close>

definition need_connection :: "'w link \<Rightarrow> string \<Rightarrow> ('w, unit) pipe_op" where
  "need_connection L name = bindS (getS pp_connection) (\<lambda>b.
     if b then retS () else thenS (on_link (ln_get L name)) (modS (\<lambda>p. p\<lparr>pp_connection := True\<rparr>)))"

definition immediate_execute_command :: "'w link \<Rightarrow> command \<Rightarrow> 'w pipeline \<Rightarrow> ((exc + pyval) \<times> 'w pipeline) option" where
  "immediate_execute_command L c p =
     (case need_connection L (cm_name c) p of
        (Inl e, p1) \<Rightarrow> Some (Inl e, p1)
      | (Inr _, p1) \<Rightarrow>
          with_retry L (pipe_sleep L) (thenS (on_link (ln_send L [cm_args c])) (pipe_parse_response L c))
            (disconnect_reset_raise L) p1)"

definition pipeline_execute_command :: "command \<Rightarrow> ('w, unit) pipe_op" where
  "pipeline_execute_command c = modS (\<lambda>p. p\<lparr>pp_stack := pp_stack p @ [c]\<rparr>)"

text \<open>A staged command gives the pipeline itself, here \<open>None\<close>.\<close>

definition pipe_execute_command :: "'w link \<Rightarrow> command \<Rightarrow> 'w pipeline \<Rightarrow> ((exc + pyval option) \<times> 'w pipeline) option" where
  "pipe_execute_command L c p =
     (if (pp_watching p \<or> cm_name c = ''WATCH'') \<and> \<not> pp_explicit p then
        map_option (\<lambda>(r, p'). (case r of Inl e \<Rightarrow> Inl e | Inr v \<Rightarrow> Inr (Some v), p')) (immediate_execute_command L c p)
      else (case pipeline_execute_command c p of (r, p') \<Rightarrow> Some (case r of Inl e \<Rightarrow> Inl e | Inr _ \<Rightarrow> Inr None, p')))"

section \<open>Running the staged commands\<close>

definition annotate_exception :: "'w link \<Rightarrow> exc \<Rightarrow> nat \<Rightarrow> command \<Rightarrow> exc" where
  "annotate_exception L e number c = Exc (exc_cls e)
     (''Command # '' @ dec_nat number @ '' ('' @ join_with '' '' (map (ln_text L) (cm_args c)) @ '') of pipeline caused error: '' @ exc_msg e)"

text \<open>The first error of the response, with its command; an error value beyond the commands cannot occur.\<close>

fun raise_first_error :: "'w link \<Rightarrow> nat \<Rightarrow> command list \<Rightarrow> pyval list \<Rightarrow> exc + unit" where
  "raise_first_error L i (c # cs) (PExc e # rs) =
     (if isinstance e ResponseError then Inl (annotate_exception L e (Suc i) c) else raise_first_error L (Suc i) cs rs)"
| "raise_first_error L i (c # cs) (r # rs) = raise_first_error L (Suc i) cs rs"
| "raise_first_error L i _ _ = Inr ()"

definition catch_response_error :: "('w, 'a) pipe_op \<Rightarrow> ('w, exc + 'a) pipe_op" where
  "catch_response_error m = catchS (bindS m (\<lambda>r. retS (Inr r)))
     (\<lambda>e. if isinstance e ResponseError then retS (Inl e) else raiseS e)"

text \<open>The answers to the commands between MULTI and EXEC; a command with an empty response was not sent.\<close>

fun read_queued :: "'w link \<Rightarrow> nat \<Rightarrow> command list \<Rightarrow> (nat \<times> pyval) list \<Rightarrow> ('w, (nat \<times> pyval) list) pipe_op" where
  "read_queued L i [] errors = retS errors"
| "read_queued L i (c # cs) errors =
     (case cm_empty_response c of
        Some v \<Rightarrow> read_queued L (Suc i) cs (errors @ [(i, v)])
      | None \<Rightarrow>
          bindS (catch_response_error (pipe_parse_response L (cmd ''_'' []))) (\<lambda>r.
            case r of
              Inr _ \<Rightarrow> read_queued L (Suc i) cs errors
            | Inl e \<Rightarrow> read_queued L (Suc i) cs (errors @ [(i, PExc (annotate_exception L e (Suc i) c))])))"

text \<open>\<open>response.insert(i, e)\<close>.\<close>

definition insert_at :: "nat \<Rightarrow> 'a \<Rightarrow> 'a list \<Rightarrow> 'a list" where
  "insert_at i x xs = take i xs @ x # drop i xs"

definition insert_errors :: "(nat \<times> pyval) list \<Rightarrow> pyval list \<Rightarrow> pyval list" where
  "insert_errors errors rs = foldl (\<lambda>rs (i, e). insert_at i e rs) rs errors"

text \<open>An exception instance of the response is left alone.\<close>

definition run_callback :: "'w link \<Rightarrow> pyval \<times> command \<Rightarrow> exc + pyval" where
  "run_callback L = (\<lambda>(r, c). case r of PExc _ \<Rightarrow> Inr r | _ \<Rightarrow> response_callback L (cm_name c) r)"

definition wrong_number :: exc where
  "wrong_number = Exc ResponseError ''Wrong number of response items from pipeline execution''"

definition watched_changed :: exc where
  "watched_changed = Exc WatchError ''Watched variable changed.''"

text \<open>What EXEC gave, an array or nil, with the errors put in their places.\<close>

definition exec_results :: "'w link \<Rightarrow> command list \<Rightarrow> bool \<Rightarrow> (nat \<times> pyval) list \<Rightarrow> pyval \<Rightarrow> ('w, pyval list) pipe_op" where
  "exec_results L cs raise_on_error errors response = (case response of
      PNone \<Rightarrow> raiseS watched_changed
    | PList rs0 \<Rightarrow>
        (let rs = insert_errors errors rs0 in
         if length rs \<noteq> length cs then thenS (on_link (ln_disconnect L)) (raiseS wrong_number)
         else thenS (liftS (if raise_on_error then raise_first_error L 0 cs rs else Inr ()))
           (liftS (mapE (run_callback L) (zip rs cs))))
    | _ \<Rightarrow> raiseS (Exc AttributeError ''insert''))"

definition raise_value :: "pyval \<Rightarrow> exc" where
  "raise_value v = (case v of PExc e \<Rightarrow> e | _ \<Rightarrow> Exc TypeError ''exceptions must derive from BaseException'')"

definition execute_transaction :: "'w link \<Rightarrow> command list \<Rightarrow> bool \<Rightarrow> ('w, pyval list) pipe_op" where
  "execute_transaction L cs raise_on_error =
     (let sent = map cm_args (filter (\<lambda>c. cm_empty_response c = None) (cmd ''MULTI'' [] # cs @ [cmd ''EXEC'' []])) in
      thenS (on_link (ln_send L sent))
      (bindS (catch_response_error (pipe_parse_response L (cmd ''_'' []))) (\<lambda>m.
       bindS (read_queued L 0 cs (case m of Inl e \<Rightarrow> [(0, PExc e)] | Inr _ \<Rightarrow> [])) (\<lambda>errors.
       bindS (catchS (pipe_parse_response L (cmd ''_'' []))
         (\<lambda>e. if isinstance e ExecAbortError \<and> errors \<noteq> [] then raiseS (raise_value (snd (hd errors))) else raiseS e)) (\<lambda>response.
       thenS (modS (\<lambda>p. p\<lparr>pp_watching := False\<rparr>))
         (exec_results L cs raise_on_error errors response))))))"

fun read_pipeline :: "'w link \<Rightarrow> command list \<Rightarrow> ('w, pyval list) pipe_op" where
  "read_pipeline L [] = retS []"
| "read_pipeline L (c # cs) =
     bindS (catch_response_error (pipe_parse_response L c)) (\<lambda>r.
     bindS (read_pipeline L cs) (\<lambda>rs. retS ((case r of Inr v \<Rightarrow> v | Inl e \<Rightarrow> PExc e) # rs)))"

definition execute_pipeline :: "'w link \<Rightarrow> command list \<Rightarrow> bool \<Rightarrow> ('w, pyval list) pipe_op" where
  "execute_pipeline L cs raise_on_error =
     thenS (on_link (ln_send L (map cm_args cs)))
     (bindS (read_pipeline L cs) (\<lambda>rs.
        thenS (liftS (if raise_on_error then raise_first_error L 0 cs rs else Inr ())) (retS rs)))"

definition disconnect_raise_reset :: "'w link \<Rightarrow> exc \<Rightarrow> ('w, unit) pipe_op" where
  "disconnect_raise_reset L e =
     thenS (on_link (ln_disconnect L))
     (bindS (getS pp_watching) (\<lambda>watching.
        if watching then raiseS watch_error
        else if retry_on_error L e then retS ()
        else thenS (pipe_reset L) (raiseS e)))"

section \<open>Scripts\<close>

text \<open>\<open>for s, exist in zip(scripts, exists): if not exist: s.sha = SCRIPT LOAD\<close>.\<close>

fun load_missing :: "'w link \<Rightarrow> script list \<Rightarrow> pyval list \<Rightarrow> script list \<Rightarrow> 'w pipeline \<Rightarrow> ((exc + script list) \<times> 'w pipeline) option" where
  "load_missing L (s # ss) (b # bs) acc p =
     (if truthy b then load_missing L ss bs (acc @ [s]) p
      else (case immediate_execute_command L (cmd ''SCRIPT LOAD'' [PStr (sc_text s)]) p of
              None \<Rightarrow> None
            | Some (Inl e, p') \<Rightarrow> Some (Inl e, p')
            | Some (Inr sha, p') \<Rightarrow> load_missing L ss bs (acc @ [s\<lparr>sc_sha := sha\<rparr>]) p'))"
| "load_missing L ss _ acc p = Some (Inr (acc @ ss), p)"

definition load_scripts :: "'w link \<Rightarrow> 'w pipeline \<Rightarrow> ((exc + unit) \<times> 'w pipeline) option" where
  "load_scripts L p =
     (case immediate_execute_command L (cmd ''SCRIPT EXISTS'' (map sc_sha (pp_scripts p))) p of
        None \<Rightarrow> None
      | Some (Inl e, p1) \<Rightarrow> Some (Inl e, p1)
      | Some (Inr exists, p1) \<Rightarrow>
          (case exists of
             PList bs \<Rightarrow>
               if list_all truthy bs then Some (Inr (), p1)
               else (case load_missing L (pp_scripts p) bs [] p1 of
                       None \<Rightarrow> None
                     | Some (Inl e, p2) \<Rightarrow> Some (Inl e, p2)
                     | Some (Inr ss, p2) \<Rightarrow> Some (Inr (), p2\<lparr>pp_scripts := ss\<rparr>))
           | _ \<Rightarrow> Some (Inl (Exc TypeError ''object is not iterable''), p1)))"

section \<open>Pipeline.execute\<close>

definition run_stack :: "'w link \<Rightarrow> bool \<Rightarrow> command list \<Rightarrow> 'w pipeline \<Rightarrow> ((exc + pyval list) \<times> 'w pipeline) option" where
  "run_stack L raise_on_error stack p =
     (let run = (if pp_transaction p \<or> pp_explicit p then execute_transaction L stack raise_on_error
                 else execute_pipeline L stack raise_on_error)
      in case need_connection L ''MULTI'' p of
           (Inl e, p1) \<Rightarrow> Some (Inl e, p1)
         | (Inr _, p1) \<Rightarrow>
             (case with_retry L (pipe_sleep L) run (disconnect_raise_reset L) p1 of
                None \<Rightarrow> None
              | Some (r, p2) \<Rightarrow> Some (finallyS (\<lambda>_. (r, p2)) (pipe_reset L) p2)))"

definition execute :: "'w link \<Rightarrow> bool \<Rightarrow> 'w pipeline \<Rightarrow> ((exc + pyval list) \<times> 'w pipeline) option" where
  "execute L raise_on_error p =
     (if pp_stack p = [] \<and> \<not> pp_watching p then Some (Inr [], p)
      else if pp_scripts p \<noteq> [] then
        (case load_scripts L p of
           None \<Rightarrow> None
         | Some (Inl e, p1) \<Rightarrow> Some (Inl e, p1)
         | Some (Inr _, p1) \<Rightarrow> run_stack L raise_on_error (pp_stack p) p1)
      else run_stack L raise_on_error (pp_stack p) p)"

definition discard :: "'w link \<Rightarrow> 'w pipeline \<Rightarrow> ((exc + pyval option) \<times> 'w pipeline) option" where
  "discard L p = pipe_execute_command L (cmd ''DISCARD'' []) p"

definition watch :: "'w link \<Rightarrow> pyval list \<Rightarrow> 'w pipeline \<Rightarrow> ((exc + pyval option) \<times> 'w pipeline) option" where
  "watch L names p =
     (if pp_explicit p then Some (Inl (Exc RedisError ''Cannot issue a WATCH after a MULTI''), p)
      else pipe_execute_command L (cmd ''WATCH'' names) p)"

text \<open>\<open>watching and execute_command(...) or True\<close>.\<close>

definition unwatch :: "'w link \<Rightarrow> 'w pipeline \<Rightarrow> ((exc + pyval option) \<times> 'w pipeline) option" where
  "unwatch L p =
     (if \<not> pp_watching p then Some (Inr (Some (PBool True)), p)
      else map_option (\<lambda>(r, p'). (case r of
          Inl e \<Rightarrow> Inl e
        | Inr None \<Rightarrow> Inr None
        | Inr (Some v) \<Rightarrow> Inr (Some (if truthy v then v else PBool True)), p')) (pipe_execute_command L (cmd ''UNWATCH'' []) p))"

end
