(* ===== verification/ClientCorrect.thy ===== *)
theory ClientCorrect
  imports Client
begin

text \<open>
  The pipeline of \<open>redis/client.py\<close>: results stand at the places of their commands, with and without
  a transaction, a lost WATCH is reported and never retried, and after a run the pipeline is empty and
  has given its connection back.
\<close>

section \<open>Steps on the connection\<close>

named_theorems pipe_simps

lemma on_link_eq [pipe_simps]: "m (pp_world p) = (r, w) \<Longrightarrow> on_link m p = (r, p\<lparr>pp_world := w\<rparr>)"
  by (simp add: on_link_def)

lemma pipe_ack:
  assumes "ln_callbacks L ''_'' = None"
  shows "pipe_parse_response L (cmd ''_'' []) = on_link (ln_read L False)"
proof
  fix p :: "'a pipeline"
  have "upper ''_'' = ''_''" by code_simp
  then have "parse_response L (cmd ''_'' []) (pp_world p) = ln_read L False (pp_world p)"
    using assms by (auto simp: parse_response_def cmd_def response_callback_def split: prod.splits sum.splits)
  then show "pipe_parse_response L (cmd ''_'' []) p = on_link (ln_read L False) p"
    by (auto simp: pipe_parse_response_def on_link_def bindS_def thenS_def modS_def retS_def cmd_def UNWATCH_COMMANDS_def
        split: prod.splits sum.splits)
qed

lemma pipe_parse_unwatched:
  assumes "\<not> pp_watching p" "cm_name c \<noteq> ''WATCH''"
  shows "pipe_parse_response L c p = on_link (parse_response L c) p"
  using assms
  by (auto simp: pipe_parse_response_def on_link_def bindS_def thenS_def modS_def retS_def split: prod.splits sum.splits)

text \<open>\<open>replies L ds rs w w'\<close>: reading one response after the other, with \<open>disable_decoding\<close> as in \<open>ds\<close>,
  gives the outcomes \<open>rs\<close> and takes the connection from \<open>w\<close> to \<open>w'\<close>.\<close>

fun replies :: "'w link \<Rightarrow> bool list \<Rightarrow> (exc + pyval) list \<Rightarrow> 'w \<Rightarrow> 'w \<Rightarrow> bool" where
  "replies L [] [] w w' = (w' = w)"
| "replies L (d # ds) (r # rs) w w' = (case ln_read L d w of (r', w1) \<Rightarrow> r' = r \<and> replies L ds rs w1 w')"
| "replies L _ _ w w' = False"

lemma replies_length: "replies L ds rs w w' \<Longrightarrow> length rs = length ds"
  by (induction L ds rs w w' rule: replies.induct) (auto split: prod.splits)

text \<open>A pipeline after its connection went back to the pool.\<close>

definition cleared :: "'w pipeline \<Rightarrow> 'w \<Rightarrow> 'w pipeline" where
  "cleared p w = p\<lparr>pp_connection := False, pp_stack := [], pp_scripts := [], pp_watching := False, pp_explicit := False, pp_world := w\<rparr>"

lemma pipe_reset_unwatched:
  assumes "\<not> pp_watching p" "pp_connection p" "ln_release L (pp_world p) = (Inr (), w)"
  shows "pipe_reset L p = (Inr (), cleared p w)"
  using assms
  by (simp add: pipe_reset_def thenS_def bindS_def modS_def getS_def retS_def on_link_def cleared_def)

text \<open>A sequence of connection steps is one connection step, and only the connection changes.\<close>

lemma on_link_bind: "bindS (on_link m) (\<lambda>a. on_link (f a)) = on_link (bindS m f)"
  by (rule ext) (auto simp: on_link_def bindS_def split: prod.splits sum.splits)

lemma on_link_catch: "catchS (on_link m) (\<lambda>e. on_link (h e)) = on_link (catchS m h)"
  by (rule ext) (auto simp: on_link_def catchS_def split: prod.splits sum.splits)

lemma on_link_ret: "retS x = on_link (retS x)" and on_link_raise: "raiseS e = on_link (raiseS e)"
  by (rule ext, simp add: on_link_def retS_def raiseS_def)+

lemma on_link_thenS: "thenS (on_link m) (on_link n) = on_link (thenS m n)"
  by (simp add: thenS_def on_link_bind)

lemma on_link_frame: "on_link m p = (r, p') \<Longrightarrow> \<exists>w. m (pp_world p) = (r, w) \<and> p' = p\<lparr>pp_world := w\<rparr>"
  by (auto simp: on_link_def split: prod.splits)

definition send_unwatch :: "'w link \<Rightarrow> ('w, exc, unit) action" where
  "send_unwatch L = catchS (bindS (thenS (ln_send L [[PStr ''UNWATCH'']]) (ln_read L False)) (\<lambda>_. retS ()))
     (\<lambda>e. if isinstance e ConnectionError then ln_disconnect L else raiseS e)"

lemma send_unwatch_on_link:
  "catchS (bindS (thenS (on_link (ln_send L [[PStr ''UNWATCH'']])) (on_link (ln_read L False))) (\<lambda>_. retS ()))
     (\<lambda>e. if isinstance e ConnectionError then on_link (ln_disconnect L) else raiseS e) = on_link (send_unwatch L)"
proof -
  have h: "(\<lambda>e. if isinstance e ConnectionError then on_link (ln_disconnect L) else raiseS e)
      = (\<lambda>e. on_link (if isinstance e ConnectionError then ln_disconnect L else raiseS e))"
    by (rule ext) (simp add: on_link_raise [symmetric])
  show ?thesis
    unfolding send_unwatch_def h by (simp add: on_link_thenS on_link_catch on_link_bind on_link_ret [of "()"])
qed

definition unwatch_first :: "'w link \<Rightarrow> ('w, unit) pipe_op" where
  "unwatch_first L p = (if pp_watching p \<and> pp_connection p then on_link (send_unwatch L) p else (Inr (), p))"

definition give_back :: "'w link \<Rightarrow> ('w, unit) pipe_op" where
  "give_back L p = (if pp_connection p then (case ln_release L (pp_world p) of
       (Inl e, w) \<Rightarrow> (Inl e, p\<lparr>pp_world := w\<rparr>)
     | (Inr _, w) \<Rightarrow> (Inr (), p\<lparr>pp_connection := False, pp_world := w\<rparr>)) else (Inr (), p))"

lemma pipe_reset_eq:
  "pipe_reset L p = (case unwatch_first L (p\<lparr>pp_stack := [], pp_scripts := []\<rparr>) of
     (Inl e, p') \<Rightarrow> (Inl e, p') | (Inr _, p') \<Rightarrow> give_back L (p'\<lparr>pp_watching := False, pp_explicit := False\<rparr>))"
  unfolding pipe_reset_def send_unwatch_on_link
  by (auto simp: thenS_def bindS_def modS_def getS_def retS_def unwatch_first_def give_back_def on_link_def
      split: prod.splits sum.splits)

lemma unwatch_first_frame: "unwatch_first L p = (r, p') \<Longrightarrow> \<exists>w. p' = p\<lparr>pp_world := w\<rparr>"
  unfolding unwatch_first_def by (metis on_link_frame pipeline.surjective pipeline.update_convs(7) prod.inject)

text \<open>Whatever happens to the connection, the staged commands are gone; if nothing is raised, all of the state is.\<close>

lemma pipe_reset_state:
  assumes "pipe_reset L p = (r, p')"
  shows "pp_stack p' = [] \<and> pp_scripts p' = [] \<and> pp_transaction p' = pp_transaction p \<and>
    (r = Inr () \<longrightarrow> \<not> pp_watching p' \<and> \<not> pp_explicit p' \<and> \<not> pp_connection p')"
proof -
  obtain r1 p1 where u: "unwatch_first L (p\<lparr>pp_stack := [], pp_scripts := []\<rparr>) = (r1, p1)" by (metis prod.exhaust)
  from unwatch_first_frame [OF u] obtain w where "p1 = p\<lparr>pp_stack := [], pp_scripts := [], pp_world := w\<rparr>" by auto
  with assms u show ?thesis
    by (cases r1) (auto simp: pipe_reset_eq give_back_def split: if_splits prod.splits sum.splits)
qed

section \<open>The retries\<close>

lemma with_retry_Inr:
  "m s = (Inr a, s1) \<Longrightarrow> with_retry L slp m fail s = Some (Inr a, s1)"
  by (simp add: with_retry_def call_with_retry_def retry_loop.simps)

lemma with_retry_unsupported:
  "m s = (Inl e, s1) \<Longrightarrow> \<not> isinstance_any e (rt_supported (ln_retry L)) \<Longrightarrow> with_retry L slp m fail s = Some (Inl e, s1)"
  by (simp add: with_retry_def call_with_retry_def retry_loop.simps)

lemma with_retry_fail:
  "m s = (Inl e, s1) \<Longrightarrow> isinstance_any e (rt_supported (ln_retry L)) \<Longrightarrow> fail e s1 = (Inl e', s2) \<Longrightarrow>
   with_retry L slp m fail s = Some (Inl e', s2)"
  by (simp add: with_retry_def call_with_retry_def retry_loop.simps)

lemma with_retry_total:
  "0 \<le> rt_retries (ln_retry L) \<Longrightarrow> \<exists>r s'. with_retry L slp m fail s = Some (r, s')"
  using retry_loop_total [of "ln_retry L"] unfolding with_retry_def call_with_retry_def
  by (metis option.simps(9) prod.exhaust)

section \<open>A run of the staged commands\<close>

text \<open>The staged commands are run once the pipeline has a connection; then the pipeline is reset.\<close>

lemma execute_runs:
  assumes "pp_stack p \<noteq> [] \<or> pp_watching p" "pp_scripts p = []" "need_connection L ''MULTI'' p = (Inr (), p1)"
    and "with_retry L (pipe_sleep L) (if pp_transaction p \<or> pp_explicit p then execute_transaction L (pp_stack p) b
           else execute_pipeline L (pp_stack p) b) (disconnect_raise_reset L) p1 = Some (r, p2)"
  shows "execute L b p = Some (finallyS (\<lambda>_. (r, p2)) (pipe_reset L) p2)"
  using assms by (auto simp: execute_def run_stack_def)

lemma finally_cleared:
  assumes "\<not> pp_watching p" "pp_connection p" "ln_release L (pp_world p) = (Inr (), w)"
  shows "finallyS (\<lambda>_. (r, p)) (pipe_reset L) p = (r, cleared p w)"
  using pipe_reset_unwatched [OF assms] by (simp add: finallyS_def)

text \<open>What one reply means for its command: its error is a value of the results, other errors are raised.\<close>

definition pipeline_reply :: "'w link \<Rightarrow> command \<Rightarrow> exc + pyval \<Rightarrow> exc + pyval" where
  "pipeline_reply L c r =
     (case (case r of Inl e \<Rightarrow> (case cm_empty_response c of Some v \<Rightarrow> if isinstance e ResponseError then Inr v else Inl e | None \<Rightarrow> Inl e)
                    | Inr v \<Rightarrow> response_callback L (cm_name c) v) of
        Inl e \<Rightarrow> if isinstance e ResponseError then Inr (PExc e) else Inl e
      | Inr v \<Rightarrow> Inr v)"

lemma read_pipeline_replies:
  assumes "replies L (map cm_never_decode cs) rs (pp_world p) w" "\<not> pp_watching p" "''WATCH'' \<notin> cm_name ` set cs"
    and "mapE (\<lambda>(c, r). pipeline_reply L c r) (zip cs rs) = Inr vs"
  shows "read_pipeline L cs p = (Inr vs, p\<lparr>pp_world := w\<rparr>)"
  using assms
proof (induction cs arbitrary: rs vs p)
  case Nil
  then show ?case by (cases rs) auto
next
  case (Cons c cs)
  from Cons.prems(1) obtain r rs' where rs: "rs = r # rs'" by (cases rs) auto
  obtain w1 where rd: "ln_read L (cm_never_decode c) (pp_world p) = (r, w1)"
    and rest: "replies L (map cm_never_decode cs) rs' w1 w"
    using Cons.prems(1) by (auto simp: rs split: prod.splits)
  from Cons.prems(4) obtain v vs' where v: "pipeline_reply L c r = Inr v"
    and vs': "mapE (\<lambda>(c, r). pipeline_reply L c r) (zip cs rs') = Inr vs'" and vs: "vs = v # vs'"
    by (auto simp: rs bindE_eq_Inr)
  let ?p1 = "p\<lparr>pp_world := w1\<rparr>"
  have "catch_response_error (pipe_parse_response L c) p = (Inr (case v of PExc e \<Rightarrow> Inl e | _ \<Rightarrow> Inr v), ?p1)
      \<or> catch_response_error (pipe_parse_response L c) p = (Inr (Inr v), ?p1)"
    using v Cons.prems(2,3) rd
    by (auto simp: catch_response_error_def catchS_def bindS_def pipe_parse_unwatched on_link_def parse_response_def pipeline_reply_def
        split: sum.splits option.splits if_splits)
  then obtain x where x: "catch_response_error (pipe_parse_response L c) p = (Inr x, ?p1)"
    and xv: "(case x of Inr v \<Rightarrow> v | Inl e \<Rightarrow> PExc e) = v"
    by (auto split: pyval.splits)
  have "read_pipeline L cs ?p1 = (Inr vs', p\<lparr>pp_world := w\<rparr>)"
    using Cons.IH [of rs' ?p1 vs'] rest Cons.prems(2,3) vs' by simp
  then show ?case using x xv by (simp add: vs)
qed

text \<open>C4: without a transaction, a pipeline sends all of its commands in one batch, reads one reply
  per command, gives at the place of each command the outcome of its own reply (through the
  command's callback, or the error of the server as a value), and then is empty with its
  connection back in the pool.\<close>

theorem pipeline_results_aligned:
  assumes "pp_stack p \<noteq> []" "pp_scripts p = []" "\<not> pp_watching p" "\<not> pp_connection p"
    and "\<not> pp_transaction p" "\<not> pp_explicit p" "''WATCH'' \<notin> cm_name ` set (pp_stack p)"
    and "ln_get L ''MULTI'' (pp_world p) = (Inr (), w1)"
    and "ln_send L (map cm_args (pp_stack p)) w1 = (Inr (), w2)"
    and "replies L (map cm_never_decode (pp_stack p)) rs w2 w3"
    and "mapE (\<lambda>(c, r). pipeline_reply L c r) (zip (pp_stack p) rs) = Inr vs"
    and "b \<longrightarrow> raise_first_error L 0 (pp_stack p) vs = Inr ()"
    and "ln_release L w3 = (Inr (), w4)"
  shows "length vs = length (pp_stack p) \<and> execute L b p = Some (Inr vs, cleared p w4)"
proof
  let ?p1 = "p\<lparr>pp_world := w1, pp_connection := True\<rparr>" and ?cs = "pp_stack p"
  have "length rs = length ?cs" using replies_length [OF assms(10)] by simp
  then show "length vs = length ?cs" using mapE_length [OF assms(11)] by simp
  have c: "need_connection L ''MULTI'' p = (Inr (), ?p1)"
    using assms(4,8) by (simp add: need_connection_def pipe_simps)
  have "read_pipeline L ?cs (?p1\<lparr>pp_world := w2\<rparr>) = (Inr vs, ?p1\<lparr>pp_world := w3\<rparr>)"
    using read_pipeline_replies [of L ?cs rs "?p1\<lparr>pp_world := w2\<rparr>" w3 vs] assms(3,7,10,11) by simp
  then have "execute_pipeline L ?cs b ?p1 = (Inr vs, ?p1\<lparr>pp_world := w3\<rparr>)"
    using assms(9,12) by (cases b) (simp_all add: execute_pipeline_def pipe_simps)
  then have "with_retry L (pipe_sleep L) (execute_pipeline L ?cs b) (disconnect_raise_reset L) ?p1 = Some (Inr vs, ?p1\<lparr>pp_world := w3\<rparr>)"
    by (rule with_retry_Inr)
  with execute_runs [OF _ assms(2) c] have "execute L b p
      = Some (finallyS (\<lambda>_. (Inr vs, ?p1\<lparr>pp_world := w3\<rparr>)) (pipe_reset L) (?p1\<lparr>pp_world := w3\<rparr>))"
    using assms(1,5,6) by simp
  then show "execute L b p = Some (Inr vs, cleared p w4)"
    using finally_cleared [of "?p1\<lparr>pp_world := w3\<rparr>" L w4 "Inr vs"] assms(3,13) by (simp add: cleared_def)
qed

text \<open>A link over a script of replies that records what is sent and counts the releases, for the examples.\<close>

record scripted_world =
  sw_replies :: "(exc + pyval) list"
  sw_sent :: "pyval list list list"
  sw_released :: nat

definition scripted_link :: "scripted_world link" where
  "scripted_link = \<lparr>
     ln_get = \<lambda>_. retS (),
     ln_release = modS (\<lambda>w. w\<lparr>sw_released := Suc (sw_released w)\<rparr>),
     ln_send = \<lambda>cs. modS (\<lambda>w. w\<lparr>sw_sent := sw_sent w @ [cs]\<rparr>),
     ln_read = \<lambda>d w. (case sw_replies w of [] \<Rightarrow> (Inl (Exc ConnectionError ''closed''), w) | r # rs \<Rightarrow> (r, w\<lparr>sw_replies := rs\<rparr>)),
     ln_disconnect = retS (), ln_retry = new_retry NoBackoff 0, ln_rnd = (\<lambda>_. 0), ln_sleep = (\<lambda>_ w. w),
     ln_retry_on_error = None, ln_text = (\<lambda>v. case v of PStr s \<Rightarrow> s | _ \<Rightarrow> []),
     ln_callbacks = (\<lambda>n. if n = ''PING'' then Some (\<lambda>r. Inr (PBool (r = PStr ''PONG''))) else None)\<rparr>"

definition scripted_replies :: "(exc + pyval) list \<Rightarrow> scripted_world" where
  "scripted_replies rs = \<lparr>sw_replies = rs, sw_sent = [], sw_released = 0\<rparr>"

theorem pipeline_results_aligned_witness:
  "let p = (new_pipeline False (scripted_replies [Inr (PStr ''PONG''), Inl (Exc ResponseError ''wrong type''), Inr (PInt 3)]))
         \<lparr>pp_stack := [cmd ''PING'' [], cmd ''LPUSH'' [PStr ''k'', PStr ''v''], cmd ''INCR'' [PStr ''n'']]\<rparr>;
       vs = [PBool True, PExc (Exc ResponseError ''wrong type''), PInt 3]
   in length vs = length (pp_stack p) \<and>
      execute scripted_link False p = Some (Inr vs, cleared p \<lparr>sw_replies = [], sw_sent = [map cm_args (pp_stack p)], sw_released = 1\<rparr>)"
  unfolding Let_def
  by (rule pipeline_results_aligned
        [where rs = "[Inr (PStr ''PONG''), Inl (Exc ResponseError ''wrong type''), Inr (PInt 3)]"
           and ?w1.0 = "scripted_replies [Inr (PStr ''PONG''), Inl (Exc ResponseError ''wrong type''), Inr (PInt 3)]"
           and ?w2.0 = "(scripted_replies [Inr (PStr ''PONG''), Inl (Exc ResponseError ''wrong type''), Inr (PInt 3)])
                 \<lparr>sw_sent := [map cm_args [cmd ''PING'' [], cmd ''LPUSH'' [PStr ''k'', PStr ''v''], cmd ''INCR'' [PStr ''n'']]]\<rparr>"
           and ?w3.0 = "\<lparr>sw_replies = [], sw_sent = [map cm_args [cmd ''PING'' [], cmd ''LPUSH'' [PStr ''k'', PStr ''v''], cmd ''INCR'' [PStr ''n'']]], sw_released = 0\<rparr>"])
     code_simp+

section \<open>Transactions\<close>

text \<open>One slot per command: the value known before EXEC answers (a placeholder or the error of queueing),
  or nothing; \<open>placed\<close> gives the open slots the elements of the answer in order.\<close>

fun placed :: "pyval option list \<Rightarrow> pyval list \<Rightarrow> pyval list" where
  "placed [] rs = rs"
| "placed (Some v # xs) rs = v # placed xs rs"
| "placed (None # xs) (r # rs) = r # placed xs rs"
| "placed (None # xs) [] = placed xs []"

fun slot_errors :: "nat \<Rightarrow> pyval option list \<Rightarrow> (nat \<times> pyval) list" where
  "slot_errors i [] = []"
| "slot_errors i (Some v # xs) = (i, v) # slot_errors (Suc i) xs"
| "slot_errors i (None # xs) = slot_errors (Suc i) xs"

lemma insert_errors_simps [simp]:
  "insert_errors [] rs = rs" "insert_errors ((i, v) # es) rs = insert_errors es (insert_at i v rs)"
  by (simp_all add: insert_errors_def)

lemma insert_errors_behind:
  "length rs \<le> i \<Longrightarrow> insert_errors (slot_errors i xs) rs = rs @ placed xs []"
  by (induction i xs arbitrary: rs rule: slot_errors.induct) (simp_all add: insert_at_def)

text \<open>Inserting the errors at their positions, first to last, puts every element at the place of its command.\<close>

lemma insert_errors_placed:
  "insert_errors (slot_errors (length acc) xs) (acc @ rs) = acc @ placed xs rs"
proof (induction xs rs arbitrary: acc rule: placed.induct)
  case (2 v xs rs)
  then show ?case using "2.IH" [of "acc @ [v]"] by (simp add: insert_at_def)
next
  case (3 xs r rs)
  then show ?case using "3.IH" [of "acc @ [r]"] by simp
qed (simp_all add: insert_errors_behind)

lemma placed_length:
  "length (filter (\<lambda>s. s = None) xs) = length rs \<Longrightarrow> length (placed xs rs) = length xs"
  by (induction xs rs rule: placed.induct) auto

fun queued_slots :: "'w link \<Rightarrow> nat \<Rightarrow> command list \<Rightarrow> (exc + pyval) list \<Rightarrow> pyval option list" where
  "queued_slots L i [] qs = []"
| "queued_slots L i (c # cs) qs = (case cm_empty_response c of
     Some v \<Rightarrow> Some v # queued_slots L (Suc i) cs qs
   | None \<Rightarrow> (case qs of
        [] \<Rightarrow> []
      | q # qs' \<Rightarrow> (case q of Inl e \<Rightarrow> Some (PExc (annotate_exception L e (Suc i) c)) | Inr _ \<Rightarrow> None) # queued_slots L (Suc i) cs qs'))"

definition sent_commands :: "command list \<Rightarrow> command list" where
  "sent_commands cs = filter (\<lambda>c. cm_empty_response c = None) cs"

lemma queued_slots_length:
  "length qs = length (sent_commands cs) \<Longrightarrow> length (queued_slots L i cs qs) = length cs"
  by (induction L i cs qs rule: queued_slots.induct) (auto simp: sent_commands_def split: option.splits list.splits if_splits)

definition queue_reply_ok :: "exc + pyval \<Rightarrow> bool" where
  "queue_reply_ok q = (case q of Inl e \<Rightarrow> isinstance e ResponseError | Inr _ \<Rightarrow> True)"

lemma read_queued_replies:
  assumes "ln_callbacks L ''_'' = None"
    and "replies L (map (\<lambda>_. False) (sent_commands cs)) qs (pp_world p) w" "list_all queue_reply_ok qs"
  shows "read_queued L i cs errors p = (Inr (errors @ slot_errors i (queued_slots L i cs qs)), p\<lparr>pp_world := w\<rparr>)"
  using assms(2,3)
proof (induction cs arbitrary: i qs errors p)
  case Nil
  then show ?case by (cases qs) (auto simp: sent_commands_def)
next
  case (Cons c cs)
  show ?case
  proof (cases "cm_empty_response c")
    case (Some v)
    then show ?thesis using Cons.IH [of qs p "Suc i" "errors @ [(i, v)]"] Cons.prems by (simp add: sent_commands_def)
  next
    case None
    then obtain q qs' where qs: "qs = q # qs'" using Cons.prems(1) by (cases qs) (auto simp: sent_commands_def)
    obtain w1 where rd: "ln_read L False (pp_world p) = (q, w1)"
      and rest: "replies L (map (\<lambda>_. False) (sent_commands cs)) qs' w1 w"
      using Cons.prems(1) None by (auto simp: qs sent_commands_def split: prod.splits)
    let ?p1 = "p\<lparr>pp_world := w1\<rparr>"
    have x: "catch_response_error (pipe_parse_response L (cmd ''_'' [])) p = (Inr q, ?p1)"
      using rd Cons.prems(2)
      by (cases q) (auto simp: qs catch_response_error_def catchS_def pipe_ack [OF assms(1)] on_link_def bindS_def queue_reply_ok_def)
    have IH: "read_queued L (Suc i) cs es ?p1
        = (Inr (es @ slot_errors (Suc i) (queued_slots L (Suc i) cs qs')), p\<lparr>pp_world := w\<rparr>)" for es
      using Cons.IH [of qs' ?p1 "Suc i" es] rest Cons.prems(2) by (simp add: qs)
    show ?thesis using x IH None by (cases q) (simp_all add: qs)
  qed
qed

lemma transaction_reply:
  assumes "ln_callbacks L ''_'' = None"
    and "ln_send L (map cm_args (cmd ''MULTI'' [] # sent_commands cs @ [cmd ''EXEC'' []])) (pp_world p) = (Inr (), w1)"
    and "ln_read L False w1 = (Inr m, w2)"
    and "replies L (map (\<lambda>_. False) (sent_commands cs)) qs w2 w3" "list_all queue_reply_ok qs"
    and "ln_read L False w3 = (Inr v, w4)"
  shows "execute_transaction L cs b p
     = exec_results L cs b (slot_errors 0 (queued_slots L 0 cs qs)) v (p\<lparr>pp_world := w4, pp_watching := False\<rparr>)"
proof -
  have sent: "map cm_args (filter (\<lambda>c. cm_empty_response c = None) (cmd ''MULTI'' [] # cs @ [cmd ''EXEC'' []]))
      = map cm_args (cmd ''MULTI'' [] # sent_commands cs @ [cmd ''EXEC'' []])"
    by (simp add: sent_commands_def cmd_def)
  have a: "on_link (ln_send L (map cm_args (cmd ''MULTI'' [] # sent_commands cs @ [cmd ''EXEC'' []]))) p = (Inr (), p\<lparr>pp_world := w1\<rparr>)"
    using assms(2) by (rule on_link_eq)
  have m: "catch_response_error (pipe_parse_response L (cmd ''_'' [])) (p\<lparr>pp_world := w1\<rparr>) = (Inr (Inr m), p\<lparr>pp_world := w2\<rparr>)"
    using assms(3) by (simp add: catch_response_error_def catchS_def pipe_ack [OF assms(1)] on_link_def)
  have q: "read_queued L 0 cs [] (p\<lparr>pp_world := w2\<rparr>) = (Inr (slot_errors 0 (queued_slots L 0 cs qs)), p\<lparr>pp_world := w3\<rparr>)"
    using read_queued_replies [OF assms(1), of cs qs "p\<lparr>pp_world := w2\<rparr>" w3 0 "[]"] assms(4,5) by simp
  have e: "catchS (pipe_parse_response L (cmd ''_'' [])) h (p\<lparr>pp_world := w3\<rparr>) = (Inr v, p\<lparr>pp_world := w4\<rparr>)" for h
    using assms(6) by (simp add: catchS_def pipe_ack [OF assms(1)] on_link_def)
  show ?thesis
    unfolding execute_transaction_def Let_def sent
    using a m q e by simp
qed

text \<open>The pipeline once it has its connection, and after the transaction.\<close>

lemma need_connection_Inr:
  assumes "need_connection L n p = (Inr (), p1)"
  shows "\<exists>w. p1 = p\<lparr>pp_world := w, pp_connection := True\<rparr>"
proof (cases "pp_connection p")
  case True
  then have "p1 = p\<lparr>pp_world := pp_world p, pp_connection := True\<rparr>" using assms by (simp add: need_connection_def)
  then show ?thesis by blast
next
  case False
  then show ?thesis using assms by (auto simp: need_connection_def thenS_def bindS_def on_link_def split: prod.splits sum.splits)
qed

lemma transaction_execute:
  assumes "pp_stack p \<noteq> [] \<or> pp_watching p" "pp_scripts p = []" "pp_transaction p \<or> pp_explicit p"
    and "need_connection L ''MULTI'' p = (Inr (), p1)"
    and "execute_transaction L (pp_stack p) b p1 = (r, p1\<lparr>pp_world := w, pp_watching := False\<rparr>)"
    and "\<And>e. r = Inl e \<Longrightarrow> \<not> isinstance_any e (rt_supported (ln_retry L))"
    and "ln_release L w = (Inr (), w')"
  shows "execute L b p = Some (r, cleared p w')"
proof -
  obtain w0 where p1: "p1 = p\<lparr>pp_world := w0, pp_connection := True\<rparr>" using need_connection_Inr [OF assms(4)] by blast
  let ?p2 = "p1\<lparr>pp_world := w, pp_watching := False\<rparr>"
  have "with_retry L (pipe_sleep L) (execute_transaction L (pp_stack p) b) (disconnect_raise_reset L) p1 = Some (r, ?p2)"
    using assms(5,6) with_retry_Inr with_retry_unsupported by (metis (no_types, lifting) sum.exhaust)
  with assms(1-4) have "execute L b p = Some (finallyS (\<lambda>_. (r, ?p2)) (pipe_reset L) ?p2)"
    by (intro execute_runs) auto
  then show ?thesis using finally_cleared [of ?p2 L w' r] assms(7) by (simp add: p1 cleared_def)
qed

text \<open>C5: a transaction sends MULTI, the commands that have no given response, and EXEC in one batch,
  and when EXEC answers an array gives one result per command: the given response where there is
  one, the error where the server refused to queue the command, else the next element of the array
  through the command's callback. The connection goes back and the pipeline is empty.\<close>

theorem transaction_results_aligned:
  assumes "pp_stack p \<noteq> []" "pp_scripts p = []" "pp_transaction p \<or> pp_explicit p" "ln_callbacks L ''_'' = None"
    and "need_connection L ''MULTI'' p = (Inr (), p1)"
    and "ln_send L (map cm_args (cmd ''MULTI'' [] # sent_commands (pp_stack p) @ [cmd ''EXEC'' []])) (pp_world p1) = (Inr (), w1)"
    and "ln_read L False w1 = (Inr m, w2)"
    and "replies L (map (\<lambda>_. False) (sent_commands (pp_stack p))) qs w2 w3" "list_all queue_reply_ok qs"
    and "ln_read L False w3 = (Inr (PList rs), w4)"
    and "slots = queued_slots L 0 (pp_stack p) qs" "length (filter (\<lambda>s. s = None) slots) = length rs"
    and "b \<longrightarrow> raise_first_error L 0 (pp_stack p) (placed slots rs) = Inr ()"
    and "mapE (run_callback L) (zip (placed slots rs) (pp_stack p)) = Inr vs"
    and "ln_release L w4 = (Inr (), w5)"
  shows "length vs = length (pp_stack p) \<and> execute L b p = Some (Inr vs, cleared p w5)"
proof
  let ?p2 = "p1\<lparr>pp_world := w4, pp_watching := False\<rparr>"
  have "length slots = length (pp_stack p)"
    using queued_slots_length replies_length [OF assms(8)] by (simp add: assms(11))
  with placed_length [OF assms(12)] have len: "length (placed slots rs) = length (pp_stack p)" by simp
  then show "length vs = length (pp_stack p)" using mapE_length [OF assms(14)] by simp
  have "insert_errors (slot_errors 0 slots) rs = placed slots rs"
    using insert_errors_placed [of "[]" slots rs] by simp
  then have "exec_results L (pp_stack p) b (slot_errors 0 slots) (PList rs) ?p2 = (Inr vs, ?p2)"
    using len assms(13,14) by (cases b) (simp_all add: exec_results_def)
  then have "execute_transaction L (pp_stack p) b p1 = (Inr vs, ?p2)"
    using transaction_reply [OF assms(4,6-10)] assms(11) by simp
  then show "execute L b p = Some (Inr vs, cleared p w5)"
    using assms(1) by (intro transaction_execute [OF _ assms(2,3,5) _ _ assms(15)]) simp_all
qed

text \<open>when EXEC answers nil because a watched key changed, nothing is retried or returned:
  WatchError is raised, with the connection given back and the pipeline empty.\<close>

theorem transaction_watched_changed:
  assumes "pp_stack p \<noteq> []" "pp_scripts p = []" "pp_transaction p \<or> pp_explicit p" "ln_callbacks L ''_'' = None"
    and "need_connection L ''MULTI'' p = (Inr (), p1)"
    and "ln_send L (map cm_args (cmd ''MULTI'' [] # sent_commands (pp_stack p) @ [cmd ''EXEC'' []])) (pp_world p1) = (Inr (), w1)"
    and "ln_read L False w1 = (Inr m, w2)"
    and "replies L (map (\<lambda>_. False) (sent_commands (pp_stack p))) qs w2 w3" "list_all queue_reply_ok qs"
    and "ln_read L False w3 = (Inr PNone, w4)"
    and "\<not> isinstance_any watched_changed (rt_supported (ln_retry L))"
    and "ln_release L w4 = (Inr (), w5)"
  shows "execute L b p = Some (Inl watched_changed, cleared p w5)"
proof -
  have "execute_transaction L (pp_stack p) b p1 = (Inl watched_changed, p1\<lparr>pp_world := w4, pp_watching := False\<rparr>)"
    using transaction_reply [OF assms(4,6-10)] by (simp add: exec_results_def)
  then show ?thesis using assms(1,11) by (intro transaction_execute [OF _ assms(2,3,5) _ _ assms(12)]) simp_all
qed

text \<open>a pipeline that watches keys and loses its connection while it runs raises WatchError, whatever
  the retry policy: the transaction is not sent again on a connection that does not watch.\<close>

theorem lost_watch_is_not_retried:
  assumes "pp_watching p" "pp_connection p" "pp_scripts p = []"
    and "(if pp_transaction p \<or> pp_explicit p then execute_transaction L (pp_stack p) b
           else execute_pipeline L (pp_stack p) b) p = (Inl e, p1)" "pp_watching p1"
    and "isinstance_any e (rt_supported (ln_retry L))"
    and "ln_disconnect L (pp_world p1) = (Inr (), w2)"
    and "pipe_reset L (p1\<lparr>pp_world := w2\<rparr>) = (Inr (), p2)"
  shows "execute L b p = Some (Inl watch_error, p2)"
proof -
  let ?m = "if pp_transaction p \<or> pp_explicit p then execute_transaction L (pp_stack p) b else execute_pipeline L (pp_stack p) b"
  have f: "disconnect_raise_reset L e p1 = (Inl watch_error, p1\<lparr>pp_world := w2\<rparr>)"
    using assms(5,7) by (simp add: disconnect_raise_reset_def pipe_simps)
  have c: "need_connection L ''MULTI'' p = (Inr (), p)" using assms(2) by (simp add: need_connection_def)
  have "with_retry L (pipe_sleep L) ?m (disconnect_raise_reset L) p = Some (Inl watch_error, p1\<lparr>pp_world := w2\<rparr>)"
    using assms(4,6) f by (rule with_retry_fail [of ?m])
  from execute_runs [OF _ assms(3) c this] show ?thesis using assms(1,8) by (simp add: finallyS_def)
qed

section \<open>The state after a run\<close>

text \<open>once the staged commands were run, with results or an error, nothing is staged any more; and
  if \<open>execute\<close> returned, the pipeline neither watches nor is in a transaction nor holds a connection.\<close>

theorem execute_leaves_pipeline_empty:
  assumes "execute L b p = Some (r, p')" "pp_stack p \<noteq> [] \<or> pp_watching p"
    and "pp_scripts p = []" "need_connection L ''MULTI'' p = (Inr (), p1)"
  shows "pp_stack p' = [] \<and> pp_scripts p' = [] \<and>
    ((\<exists>vs. r = Inr vs) \<longrightarrow> \<not> pp_watching p' \<and> \<not> pp_explicit p' \<and> \<not> pp_connection p')"
proof -
  from assms obtain r2 p2 where fin: "finallyS (\<lambda>_. (r2, p2)) (pipe_reset L) p2 = (r, p')"
    by (auto simp: execute_def run_stack_def Let_def split: option.splits)
  obtain r3 p3 where reset: "pipe_reset L p2 = (r3, p3)" by (metis prod.exhaust)
  from fin reset have "p3 = p'" "(\<exists>vs. r = Inr vs) \<longrightarrow> r3 = Inr ()"
    by (auto simp: finallyS_def split: sum.splits)
  with pipe_reset_state [OF reset] show ?thesis by auto
qed

text \<open>an empty transaction is not ended by \<open>execute\<close>: after \<open>multi\<close> with nothing staged and nothing
  watched, \<open>execute\<close> returns no results and leaves the transaction open, so that the next
  \<open>multi\<close> is refused as nested.\<close>

theorem empty_transaction_stays_open:
  assumes "multi p = (Inr (), p1)" "\<not> pp_watching p"
  shows "execute L b p1 = Some (Inr [], p1) \<and>
    multi p1 = (Inl (Exc RedisError ''Cannot issue nested calls to MULTI''), p1)"
  using assms by (auto simp: multi_def execute_def split: if_splits)

theorem empty_transaction_stays_open_witness:
  "execute scripted_link True ((new_pipeline True (scripted_replies []))\<lparr>pp_explicit := True\<rparr>)
     = Some (Inr [], (new_pipeline True (scripted_replies []))\<lparr>pp_explicit := True\<rparr>) \<and>
   multi ((new_pipeline True (scripted_replies []))\<lparr>pp_explicit := True\<rparr>)
     = (Inl (Exc RedisError ''Cannot issue nested calls to MULTI''), (new_pipeline True (scripted_replies []))\<lparr>pp_explicit := True\<rparr>)"
  by (rule empty_transaction_stays_open [of "new_pipeline True (scripted_replies [])"]) (simp_all add: multi_def new_pipeline_def)

section \<open>Examples\<close>

text \<open>A transaction of a PING, a command with a given response, and one the server does not queue.\<close>

definition example_commands :: "command list" where
  "example_commands = [cmd ''PING'' [], (cmd ''SELECT'' [PInt 1])\<lparr>cm_empty_response := Some PNone\<rparr>, cmd ''GET'' []]"

definition example_error :: exc where
  "example_error = Exc ResponseError ''wrong number of arguments''"

definition example_pipeline :: "(exc + pyval) list \<Rightarrow> scripted_world pipeline" where
  "example_pipeline rs = (new_pipeline True (scripted_replies rs))\<lparr>pp_stack := example_commands\<rparr>"

abbreviation example_batch :: "pyval list list list" where
  "example_batch \<equiv> [map cm_args (cmd ''MULTI'' [] # sent_commands example_commands @ [cmd ''EXEC'' []])]"

abbreviation example_world :: "(exc + pyval) list \<Rightarrow> scripted_world" where
  "example_world rs \<equiv> \<lparr>sw_replies = rs, sw_sent = example_batch, sw_released = 0\<rparr>"

theorem transaction_results_aligned_witness:
  "let q = [Inr (PStr ''QUEUED''), Inl example_error];
       a = [Inr (PList [PStr ''PONG''])];
       p = example_pipeline (Inr (PStr ''OK'') # q @ a);
       vs = [PBool True, PNone, PExc (annotate_exception scripted_link example_error 3 (cmd ''GET'' []))]
   in length vs = length (pp_stack p) \<and>
      execute scripted_link False p = Some (Inr vs, cleared p ((example_world [])\<lparr>sw_released := 1\<rparr>))"
  unfolding Let_def
  by (rule transaction_results_aligned
      [where ?w1.0 = "example_world (Inr (PStr ''OK'') # [Inr (PStr ''QUEUED''), Inl example_error] @ [Inr (PList [PStr ''PONG''])])"
         and ?w2.0 = "example_world ([Inr (PStr ''QUEUED''), Inl example_error] @ [Inr (PList [PStr ''PONG''])])"
         and ?w3.0 = "example_world [Inr (PList [PStr ''PONG''])]" and ?w4.0 = "example_world []"
         and qs = "[Inr (PStr ''QUEUED''), Inl example_error]" and rs = "[PStr ''PONG'']"
         and slots = "[None, Some PNone, Some (PExc (annotate_exception scripted_link example_error 3 (cmd ''GET'' [])))]"
         and ?p1.0 = "(example_pipeline (Inr (PStr ''OK'') # [Inr (PStr ''QUEUED''), Inl example_error] @ [Inr (PList [PStr ''PONG''])]))\<lparr>pp_connection := True\<rparr>"])
     code_simp+

theorem transaction_watched_changed_witness:
  "let p = example_pipeline [Inr (PStr ''OK''), Inr (PStr ''QUEUED''), Inr (PStr ''QUEUED''), Inr PNone]
   in execute scripted_link True p = Some (Inl watched_changed, cleared p ((example_world [])\<lparr>sw_released := 1\<rparr>))"
  unfolding Let_def
  by (rule transaction_watched_changed
      [where ?w1.0 = "example_world [Inr (PStr ''OK''), Inr (PStr ''QUEUED''), Inr (PStr ''QUEUED''), Inr PNone]"
         and ?w2.0 = "example_world [Inr (PStr ''QUEUED''), Inr (PStr ''QUEUED''), Inr PNone]"
         and ?w3.0 = "example_world [Inr PNone]" and ?w4.0 = "example_world []"
         and qs = "[Inr (PStr ''QUEUED''), Inr (PStr ''QUEUED'')]"
         and ?p1.0 = "(example_pipeline [Inr (PStr ''OK''), Inr (PStr ''QUEUED''), Inr (PStr ''QUEUED''), Inr PNone])\<lparr>pp_connection := True\<rparr>"])
     code_simp+

theorem lost_watch_is_not_retried_witness:
  "execute scripted_link True ((example_pipeline [])\<lparr>pp_connection := True, pp_watching := True\<rparr>)
     = Some (Inl watch_error, cleared (example_pipeline []) \<lparr>sw_replies = [], sw_sent = example_batch @ [[[PStr ''UNWATCH'']]], sw_released = 1\<rparr>)"
  by (rule lost_watch_is_not_retried
      [where e = "Exc ConnectionError ''closed''" and ?w2.0 = "example_world []"
         and ?p1.0 = "(example_pipeline [])\<lparr>pp_connection := True, pp_watching := True, pp_world := example_world []\<rparr>"])
     code_simp+

theorem execute_leaves_pipeline_empty_witness:
  "let p' = cleared (example_pipeline []) ((example_world [])\<lparr>sw_released := 1\<rparr>) in
   pp_stack p' = [] \<and> pp_scripts p' = [] \<and>
   ((\<exists>vs. (Inl (Exc ConnectionError ''closed'') :: exc + pyval list) = Inr vs) \<longrightarrow>
      \<not> pp_watching p' \<and> \<not> pp_explicit p' \<and> \<not> pp_connection p')"
  unfolding Let_def
  by (rule execute_leaves_pipeline_empty
      [where L = "scripted_link\<lparr>ln_retry := \<lparr>rt_backoff = new_backoff NoBackoff, rt_retries = 0, rt_supported = []\<rparr>\<rparr>"
         and p = "example_pipeline []" and b = True and ?p1.0 = "(example_pipeline [])\<lparr>pp_connection := True\<rparr>"])
     code_simp+

end
