(* ===== verification/Partial.thy ===== *)
theory Partial
  imports Retry
begin

text \<open>
  Computations that may not return: a run gives \<open>None\<close> when the code loops for ever or connects
  inside itself deeper than the model's fuel. The sequencing, handlers and \<open>Retry.call_with_retry\<close>
  for such computations; on total ones they agree with those of \<open>Prelude\<close> and \<open>Retry\<close>.
\<close>

type_synonym ('s, 'a) run = "'s \<Rightarrow> ((exc + 'a) \<times> 's) option"

definition total :: "('s, exc, 'a) action \<Rightarrow> ('s, 'a) run" where
  "total m s = Some (m s)"

definition bindP :: "('s, 'a) run \<Rightarrow> ('a \<Rightarrow> ('s, 'b) run) \<Rightarrow> ('s, 'b) run" where
  "bindP m f s = (case m s of
     None \<Rightarrow> None
   | Some (Inl e, s') \<Rightarrow> Some (Inl e, s')
   | Some (Inr a, s') \<Rightarrow> f a s')"

definition thenP :: "('s, 'a) run \<Rightarrow> ('s, 'b) run \<Rightarrow> ('s, 'b) run" where
  "thenP m k = bindP m (\<lambda>_. k)"

definition catchP :: "('s, 'a) run \<Rightarrow> (exc \<Rightarrow> ('s, 'a) run) \<Rightarrow> ('s, 'a) run" where
  "catchP m h s = (case m s of
     None \<Rightarrow> None
   | Some (Inl e, s') \<Rightarrow> h e s'
   | Some (Inr a, s') \<Rightarrow> Some (Inr a, s'))"

definition finallyP :: "('s, 'a) run \<Rightarrow> ('s, unit) run \<Rightarrow> ('s, 'a) run" where
  "finallyP m k s = (case m s of
     None \<Rightarrow> None
   | Some (r, s') \<Rightarrow> (case k s' of
        None \<Rightarrow> None
      | Some (Inl e, s'') \<Rightarrow> Some (Inl e, s'')
      | Some (Inr _, s'') \<Rightarrow> Some (r, s'')))"

definition retP :: "'a \<Rightarrow> ('s, 'a) run" where "retP a = total (retS a)"

definition raiseP :: "exc \<Rightarrow> ('s, 'a) run" where "raiseP e = total (raiseS e)"

definition whenP :: "bool \<Rightarrow> ('s, unit) run \<Rightarrow> ('s, unit) run" where
  "whenP b m = (if b then m else retP ())"

text \<open>\<open>for x in xs: f(x)\<close>.\<close>

primrec eachP :: "('a \<Rightarrow> ('s, unit) run) \<Rightarrow> 'a list \<Rightarrow> ('s, unit) run" where
  "eachP f [] = retP ()"
| "eachP f (x # xs) = thenP (f x) (eachP f xs)"

section \<open>Rewriting\<close>

named_theorems run_simps

lemma retP_app [simp, run_simps]: "retP a s = Some (Inr a, s)"
  by (simp add: retP_def total_def)

lemma raiseP_app [simp, run_simps]: "raiseP e s = Some (Inl e, s)"
  by (simp add: raiseP_def total_def)

lemma total_app [run_simps]: "m s = (r, s') \<Longrightarrow> total m s = Some (r, s')"
  by (simp add: total_def)

lemma bindP_Inr [simp, run_simps]: "m s = Some (Inr a, s') \<Longrightarrow> bindP m f s = f a s'"
  and bindP_Inl [simp, run_simps]: "m s = Some (Inl e, s') \<Longrightarrow> bindP m f s = Some (Inl e, s')"
  and bindP_None [simp, run_simps]: "m s = None \<Longrightarrow> bindP m f s = None"
  by (simp_all add: bindP_def)

lemma thenP_Inr [simp, run_simps]: "m s = Some (Inr a, s') \<Longrightarrow> thenP m k s = k s'"
  and thenP_Inl [simp, run_simps]: "m s = Some (Inl e, s') \<Longrightarrow> thenP m k s = Some (Inl e, s')"
  and thenP_None [simp, run_simps]: "m s = None \<Longrightarrow> thenP m k s = None"
  by (simp_all add: thenP_def)

lemma catchP_Inr [simp, run_simps]: "m s = Some (Inr a, s') \<Longrightarrow> catchP m h s = Some (Inr a, s')"
  and catchP_Inl [simp, run_simps]: "m s = Some (Inl e, s') \<Longrightarrow> catchP m h s = h e s'"
  and catchP_None [simp, run_simps]: "m s = None \<Longrightarrow> catchP m h s = None"
  by (simp_all add: catchP_def)

lemma finallyP_Inr [simp, run_simps]: "m s = Some (r, s1) \<Longrightarrow> k s1 = Some (Inr u, s2) \<Longrightarrow> finallyP m k s = Some (r, s2)"
  and finallyP_Inl [simp, run_simps]: "m s = Some (r, s1) \<Longrightarrow> k s1 = Some (Inl e, s2) \<Longrightarrow> finallyP m k s = Some (Inl e, s2)"
  by (simp_all add: finallyP_def)

lemma whenP_simps [simp, run_simps]: "whenP True m = m" "whenP False m = retP ()"
  by (simp_all add: whenP_def)

lemma bindP_eq_Inr:
  "bindP m f s = Some (Inr b, t) \<longleftrightarrow> (\<exists>a s'. m s = Some (Inr a, s') \<and> f a s' = Some (Inr b, t))"
  by (auto simp: bindP_def split: option.splits sum.splits)

lemma bindP_eq_Inl:
  "bindP m f s = Some (Inl e, t) \<longleftrightarrow>
     m s = Some (Inl e, t) \<or> (\<exists>a s'. m s = Some (Inr a, s') \<and> f a s' = Some (Inl e, t))"
  by (auto simp: bindP_def split: option.splits sum.splits)

lemma thenP_eq_Inr:
  "thenP m k s = Some (Inr b, t) \<longleftrightarrow> (\<exists>a s'. m s = Some (Inr a, s') \<and> k s' = Some (Inr b, t))"
  by (simp add: thenP_def bindP_eq_Inr)

lemma thenP_eq_Inl:
  "thenP m k s = Some (Inl e, t) \<longleftrightarrow>
     m s = Some (Inl e, t) \<or> (\<exists>a s'. m s = Some (Inr a, s') \<and> k s' = Some (Inl e, t))"
  by (simp add: thenP_def bindP_eq_Inl)

lemma bindP_total: "bindP (total m) (\<lambda>a. total (f a)) = total (bindS m f)"
  by (rule ext) (auto simp: bindP_def total_def bindS_def split: prod.splits sum.splits)

section \<open>Retries\<close>

partial_function (option) retry_run ::
  "retry \<Rightarrow> (nat \<Rightarrow> rat) \<Rightarrow> (rat \<Rightarrow> 's \<Rightarrow> 's) \<Rightarrow> ('s, 'a) run \<Rightarrow> (exc \<Rightarrow> ('s, unit) run) \<Rightarrow> nat \<Rightarrow> backoff \<Rightarrow> ('s, 'a) run"
where
  "retry_run r rnd slp op fail failures bk s =
     (case op s of
        None \<Rightarrow> None
      | Some (Inr a, s1) \<Rightarrow> Some (Inr a, s1)
      | Some (Inl e, s1) \<Rightarrow>
          (if \<not> isinstance_any e (rt_supported r) then Some (Inl e, s1)
           else (case fail e s1 of
               None \<Rightarrow> None
             | Some (Inl e', s2) \<Rightarrow> Some (Inl e', s2)
             | Some (Inr _, s2) \<Rightarrow>
                 (if 0 \<le> rt_retries r \<and> rt_retries r < int (Suc failures) then Some (Inl e, s2)
                  else (let (t, bk') = backoff_compute bk (Suc failures) (rnd (Suc failures))
                        in retry_run r rnd slp op fail (Suc failures) bk'
                             (if 0 < t then slp t s2 else s2))))))"

declare retry_run.simps [code]

definition call_with_retryP ::
  "retry \<Rightarrow> (nat \<Rightarrow> rat) \<Rightarrow> (rat \<Rightarrow> 's \<Rightarrow> 's) \<Rightarrow> ('s, 'a) run \<Rightarrow> (exc \<Rightarrow> ('s, unit) run) \<Rightarrow> ('s, 'a) run"
where
  "call_with_retryP r rnd slp op fail s = retry_run r rnd slp op fail 0 (backoff_reset (rt_backoff r)) s"

lemma call_with_retryP_Inr [run_simps]:
  "op s = Some (Inr a, s1) \<Longrightarrow> call_with_retryP r rnd slp op fail s = Some (Inr a, s1)"
  by (simp add: call_with_retryP_def retry_run.simps)

lemma call_with_retryP_unsupported [run_simps]:
  "op s = Some (Inl e, s1) \<Longrightarrow> \<not> isinstance_any e (rt_supported r) \<Longrightarrow>
   call_with_retryP r rnd slp op fail s = Some (Inl e, s1)"
  by (simp add: call_with_retryP_def retry_run.simps)

lemma call_with_retryP_once [run_simps]:
  "op s = Some (Inl e, s1) \<Longrightarrow> isinstance_any e (rt_supported r) \<Longrightarrow> rt_retries r = 0 \<Longrightarrow>
   fail e s1 = Some (Inr (), s2) \<Longrightarrow> call_with_retryP r rnd slp op fail s = Some (Inl e, s2)"
  by (simp add: call_with_retryP_def retry_run.simps)

text \<open>What holds of the state after every attempt and every failure handler holds when the loop returns.\<close>

lemma retry_run_inv:
  assumes "retry_run r rnd slp op fail failures bk s = Some y"
    and "\<And>s r s'. I s \<Longrightarrow> op s = Some (r, s') \<Longrightarrow> J s'"
    and "\<And>e s r s'. J s \<Longrightarrow> fail e s = Some (r, s') \<Longrightarrow> I s' \<and> J s'"
    and "\<And>t s. I s \<Longrightarrow> I (slp t s)" and "I s"
  shows "J (snd y)"
  using assms
proof (induction rule: retry_run.raw_induct [rotated, consumes 1, case_names Step])
  case (Step f r rnd slp op fail failures bk s y)
  note step = Step.hyps Step.prems and IH = Step.IH
  show ?case
  proof (cases "op s")
    case None
    then show ?thesis using step(1) by simp
  next
    case (Some x)
    obtain r1 s1 where x: "x = (r1, s1)" by force
    have J1: "J s1" using step(2) [OF step(5)] Some x by blast
    show ?thesis
    proof (cases r1)
      case (Inr a)
      then show ?thesis using step(1) Some x J1 by auto
    next
      case (Inl e)
      show ?thesis
      proof (cases "isinstance_any e (rt_supported r)")
        case False
        then show ?thesis using step(1) Some x Inl J1 by auto
      next
        case True
        then obtain r2 s2 where f2: "fail e s1 = Some (r2, s2)" using step(1) Some x Inl by (cases "fail e s1") auto
        have IJ: "I s2" "J s2" using step(3) [OF J1 f2] by simp_all
        show ?thesis
        proof (cases "(\<exists>e. r2 = Inl e) \<or> 0 \<le> rt_retries r \<and> rt_retries r < int (Suc failures)")
          case True
          then show ?thesis using step(1) Some x Inl f2 IJ \<open>isinstance_any e (rt_supported r)\<close>
            by (cases r2) auto
        next
          case False
          obtain t bk' where b: "backoff_compute bk (Suc failures) (rnd (Suc failures)) = (t, bk')" by force
          have "f r rnd slp op fail (Suc failures) bk' (if 0 < t then slp t s2 else s2) = Some y"
            using step(1) Some x Inl f2 b False \<open>isinstance_any e (rt_supported r)\<close>
            by (cases r2) (auto split: if_splits)
          then show ?thesis
          proof (rule IH)
            show "J s'" if "I s" "op s = Some (r, s')" for s r s' using that by (rule step(2))
            show "I s' \<and> J s'" if "J s" "fail e s = Some (r, s')" for e s r s' using that by (rule step(3))
            show "I (slp t s)" if "I s" for t s using that by (rule step(4))
            show "I (if 0 < t then slp t s2 else s2)" using step(4) IJ by simp
          qed
        qed
      qed
    qed
  qed
qed

end
