(* ===== verification/Connection.thy ===== *)
theory Connection
  imports PyVal Utils Partial
begin

text \<open>
  \<open>AbstractConnection\<close> with its TCP and Unix socket subclasses (\<open>redis/connection.py\<close>): opening,
  the handshake (HELLO, AUTH, CLIENT SETNAME and SETINFO, SELECT), health checks, sending, reading
  and closing. The socket, the parser, the command packer and the clock are an argument; sending on a
  closed connection connects, also from inside the handshake, so \<open>connect\<close> has fuel for its nesting.
\<close>

section \<open>State and environment\<close>

record 'w connection =
  cx_sock :: bool
  cx_parser3 :: bool
  cx_next_check :: rat
  cx_metadata :: pyval
  cx_callbacks :: "nat list"
  cx_world :: 'w

text \<open>
  \<open>nt_read p3 d push\<close> reads with the RESP3 or the RESP2 parser, \<open>d\<close> disables decoding; the outcome of
  \<open>self._connect\<close> is \<open>nt_connect\<close>; \<open>nt_callback n\<close> is the \<open>n\<close>-th registered callback unless it was collected.
\<close>

record 'w net =
  nt_connect :: "('w, exc, unit) action"
  nt_parser_start :: "('w, exc, unit) action"
  nt_parser_stop :: "('w, exc, unit) action"
  nt_shutdown :: "('w, exc, unit) action"
  nt_close :: "('w, exc, unit) action"
  nt_sendall :: "pyval \<Rightarrow> ('w, exc, unit) action"
  nt_read :: "bool \<Rightarrow> bool \<Rightarrow> bool option \<Rightarrow> ('w, exc, pyval) action"
  nt_can_read :: "rat \<Rightarrow> ('w, exc, bool) action"
  nt_pack :: "pyval list \<Rightarrow> exc + pyval list"
  nt_now :: "'w \<Rightarrow> rat"
  nt_pid :: "'w \<Rightarrow> int"
  nt_rnd :: "nat \<Rightarrow> rat"
  nt_sleep :: "rat \<Rightarrow> 'w \<Rightarrow> 'w"
  nt_callback :: "nat \<Rightarrow> ('w connection, unit) run option"

text \<open>What the constructor keeps; a credential provider is a computation that gives the credentials.\<close>

record 'w conn_config =
  cf_pid :: int
  cf_db :: int
  cf_client_name :: "string option"
  cf_lib_name :: "string option"
  cf_lib_version :: "string option"
  cf_provider :: "('w, exc, string list) action option"
  cf_username :: "string option"
  cf_password :: "string option"
  cf_retry_on_error :: "exc_class list"
  cf_retry :: retry
  cf_health_check_interval :: rat
  cf_connect_func :: "('w connection, unit) run option"
  cf_protocol :: int
  cf_host_error :: string

section \<open>Construction\<close>

definition DEFAULT_RESP_VERSION :: int where
  "DEFAULT_RESP_VERSION = 2"

definition filled :: "string option \<Rightarrow> bool" where
  "filled s = (s \<noteq> None \<and> s \<noteq> Some [])"

definition both_credentials :: exc where
  "both_credentials = Exc DataError
     (CHR 39 # ''username' and 'password' cannot be passed along with 'credential_provider'. Please provide only one of the following arguments: ''
      @ [CHR 10] @ ''1. 'password' and (optional) 'username'' @ [CHR 39] @ [CHR 10] @ ''2. 'credential_provider'' @ [CHR 39])"

text \<open>The retry object of a connection, from \<open>retry\<close>, \<open>retry_on_error\<close> and \<open>retry_on_timeout\<close>.\<close>

definition connection_retry :: "retry option \<Rightarrow> exc_class list option \<Rightarrow> bool \<Rightarrow> retry \<times> exc_class list" where
  "connection_retry retry on_error on_timeout =
     (let es = (case on_error of None \<Rightarrow> [] | Some es \<Rightarrow> es) @ (if on_timeout then [TimeoutError] else []) in
      if retry \<noteq> None \<or> es \<noteq> [] then
        (update_supported_errors (case retry of None \<Rightarrow> new_retry NoBackoff 1 | Some r \<Rightarrow> r) es, es)
      else (new_retry NoBackoff 0, es))"

text \<open>
  \<open>p = int(protocol)\<close> with its handlers and the \<open>finally\<close> clause, which reads \<open>p\<close> also
  when \<open>int\<close> raised and \<open>p\<close> has no value.
\<close>

definition protocol_arg :: "pyval \<Rightarrow> exc + int" where
  "protocol_arg v =
     (let checked = (\<lambda>p. if p < 2 \<or> p > 3 then Inl (Exc ConnectionError ''protocol must be either 2 or 3'') else Inr p)
      in case to_int v of
           Inr p \<Rightarrow> checked p
         | Inl e \<Rightarrow>
             if isinstance e TypeError then checked DEFAULT_RESP_VERSION
             else Inl (Exc UnboundLocalError ''local variable 'p' referenced before assignment''))"

definition new_config ::
  "int \<Rightarrow> int \<Rightarrow> string option \<Rightarrow> string option \<Rightarrow> string option \<Rightarrow> ('w, exc, string list) action option \<Rightarrow>
   string option \<Rightarrow> string option \<Rightarrow> retry option \<Rightarrow> exc_class list option \<Rightarrow> bool \<Rightarrow> rat \<Rightarrow>
   ('w connection, unit) run option \<Rightarrow> pyval \<Rightarrow> string \<Rightarrow> exc + 'w conn_config" where
  "new_config pid db client_name lib_name lib_version provider username password retry on_error on_timeout interval func protocol host =
     (if (filled username \<or> filled password) \<and> provider \<noteq> None then Inl both_credentials
      else bindE (protocol_arg protocol) (\<lambda>p. Inr
        \<lparr>cf_pid = pid, cf_db = db, cf_client_name = client_name, cf_lib_name = lib_name, cf_lib_version = lib_version,
         cf_provider = provider, cf_username = username, cf_password = password,
         cf_retry_on_error = snd (connection_retry retry on_error on_timeout),
         cf_retry = fst (connection_retry retry on_error on_timeout), cf_health_check_interval = interval,
         cf_connect_func = func, cf_protocol = p, cf_host_error = host\<rparr>))"

definition new_connection :: "'w \<Rightarrow> 'w connection" where
  "new_connection w = \<lparr>cx_sock = False, cx_parser3 = False, cx_next_check = 0, cx_metadata = PNone, cx_callbacks = [], cx_world = w\<rparr>"

definition register_connect_callback :: "nat \<Rightarrow> 'w connection \<Rightarrow> 'w connection" where
  "register_connect_callback n s = (if n \<in> set (cx_callbacks s) then s else s\<lparr>cx_callbacks := cx_callbacks s @ [n]\<rparr>)"

definition deregister_connect_callback :: "nat \<Rightarrow> 'w connection \<Rightarrow> 'w connection" where
  "deregister_connect_callback n s = s\<lparr>cx_callbacks := remove1 n (cx_callbacks s)\<rparr>"

section \<open>Closing and reading\<close>

type_synonym ('w, 'a) conn_op = "('w connection, exc, 'a) action"

definition on_net :: "('w, exc, 'a) action \<Rightarrow> ('w, 'a) conn_op" where
  "on_net m = (\<lambda>s. case m (cx_world s) of (r, w) \<Rightarrow> (r, s\<lparr>cx_world := w\<rparr>))"

text \<open>\<open>except cs: pass\<close>.\<close>

definition swallow :: "exc_class list \<Rightarrow> ('s, exc, unit) action \<Rightarrow> ('s, exc, unit) action" where
  "swallow cs m = catchS m (\<lambda>e. if isinstance_any e cs then retS () else raiseS e)"

definition conn_disconnect :: "'w net \<Rightarrow> 'w conn_config \<Rightarrow> ('w, unit) conn_op" where
  "conn_disconnect N c =
     thenS (on_net (nt_parser_stop N))
     (bindS (getS cx_sock) (\<lambda>sock.
      thenS (modS (\<lambda>s. s\<lparr>cx_sock := False\<rparr>))
      (if \<not> sock then retS ()
       else thenS (bindS (getS (\<lambda>s. nt_pid N (cx_world s) = cf_pid c)) (\<lambda>own.
                     whenS own (swallow [OSError, TypeError] (on_net (nt_shutdown N)))))
                  (swallow [OSError] (on_net (nt_close N))))))"

text \<open>\<open>host_error\<close> and the arguments of the error in one message; the model keeps one argument.\<close>

definition reading_error :: "'w conn_config \<Rightarrow> exc \<Rightarrow> exc" where
  "reading_error c e = Exc ConnectionError (''Error while reading from '' @ cf_host_error c @ '' : '' @ exc_msg e)"

definition disconnect_if :: "'w net \<Rightarrow> 'w conn_config \<Rightarrow> bool \<Rightarrow> exc \<Rightarrow> ('w, 'a) conn_op" where
  "disconnect_if N c b e = thenS (whenS b (conn_disconnect N c)) (raiseS e)"

definition conn_read_response :: "'w net \<Rightarrow> 'w conn_config \<Rightarrow> bool \<Rightarrow> bool \<Rightarrow> bool \<Rightarrow> ('w, pyval) conn_op" where
  "conn_read_response N c disable_decoding disconnect_on_error push_request =
     bindS (catchS
       (bindS (getS cx_parser3) (\<lambda>p3.
          on_net (nt_read N p3 disable_decoding (if cf_protocol c = 3 then Some push_request else None))))
       (\<lambda>e. disconnect_if N c disconnect_on_error
          (if isinstance e SocketTimeout then Exc TimeoutError (''Timeout reading from '' @ cf_host_error c)
           else if isinstance e OSError then reading_error c e
           else e))) (\<lambda>response.
     thenS (modS (\<lambda>s. if cf_health_check_interval c = 0 then s
                       else s\<lparr>cx_next_check := nt_now N (cx_world s) + cf_health_check_interval c\<rparr>))
     (case response of
        PExc e \<Rightarrow> if isinstance e ResponseError then raiseS e else retS response
      | _ \<Rightarrow> retS response))"

definition read :: "'w net \<Rightarrow> 'w conn_config \<Rightarrow> ('w connection, pyval) run" where
  "read N c = total (conn_read_response N c False True False)"

section \<open>Sending\<close>

definition writing_error :: "exc \<Rightarrow> exc" where
  "writing_error e = Exc ConnectionError (''Error UNKNOWN while writing to socket. '' @ exc_msg e @ ''.'')"

text \<open>\<open>for item in command: self._sock.sendall(item)\<close>, the connection closed when it fails.\<close>

definition send_items :: "'w net \<Rightarrow> 'w conn_config \<Rightarrow> pyval list \<Rightarrow> ('w, unit) conn_op" where
  "send_items N c items =
     catchS (bindS (mapS (\<lambda>i. bindS (getS cx_sock) (\<lambda>b.
         if b then on_net (nt_sendall N i) else raiseS (Exc AttributeError ''sendall''))) items) (\<lambda>_. retS ()))
       (\<lambda>e. thenS (conn_disconnect N c)
          (raiseS (if isinstance e SocketTimeout then Exc TimeoutError ''Timeout writing to socket''
                   else if isinstance e OSError then writing_error e
                   else e)))"

text \<open>
  The nested \<open>self.connect()\<close> is the argument \<open>cn\<close>. Sending without and with the check of the
  connection's health; PING goes out without.
\<close>

definition send_unchecked :: "'w net \<Rightarrow> 'w conn_config \<Rightarrow> ('w connection, unit) run \<Rightarrow> pyval list \<Rightarrow> ('w connection, unit) run" where
  "send_unchecked N c cn items =
     bindP (total (getS cx_sock)) (\<lambda>b. thenP (whenP (\<not> b) cn) (total (send_items N c items)))"

definition pack_send :: "'w net \<Rightarrow> (pyval list \<Rightarrow> ('w connection, unit) run) \<Rightarrow> pyval list \<Rightarrow> ('w connection, unit) run" where
  "pack_send N send args = bindP (total (liftS (nt_pack N args))) send"

definition send_ping :: "'w net \<Rightarrow> 'w conn_config \<Rightarrow> ('w connection, unit) run \<Rightarrow> ('w connection, unit) run" where
  "send_ping N c cn =
     thenP (pack_send N (send_unchecked N c cn) [PStr ''PING''])
     (bindP (read N c) (\<lambda>r.
        if str_if_bytes r \<noteq> PStr ''PONG'' then raiseP (Exc ConnectionError ''Bad response from PING health check'') else retP ()))"

definition cx_sleep :: "'w net \<Rightarrow> rat \<Rightarrow> 'w connection \<Rightarrow> 'w connection" where
  "cx_sleep N t s = s\<lparr>cx_world := nt_sleep N t (cx_world s)\<rparr>"

definition check_health :: "'w net \<Rightarrow> 'w conn_config \<Rightarrow> ('w connection, unit) run \<Rightarrow> ('w connection, unit) run" where
  "check_health N c cn =
     bindP (total (getS (\<lambda>s. cf_health_check_interval c \<noteq> 0 \<and> nt_now N (cx_world s) > cx_next_check s))) (\<lambda>due.
       whenP due (call_with_retryP (cf_retry c) (nt_rnd N) (cx_sleep N) (send_ping N c cn) (\<lambda>_. total (conn_disconnect N c))))"

definition send_checked :: "'w net \<Rightarrow> 'w conn_config \<Rightarrow> ('w connection, unit) run \<Rightarrow> pyval list \<Rightarrow> ('w connection, unit) run" where
  "send_checked N c cn items =
     bindP (total (getS cx_sock)) (\<lambda>b.
     thenP (whenP (\<not> b) cn)
     (thenP (check_health N c cn) (total (send_items N c items))))"

definition send_with :: "'w net \<Rightarrow> 'w conn_config \<Rightarrow> ('w connection, unit) run \<Rightarrow> bool \<Rightarrow> pyval list \<Rightarrow> ('w connection, unit) run" where
  "send_with N c cn check args = pack_send N (if check then send_checked N c cn else send_unchecked N c cn) args"

section \<open>The handshake\<close>

definition strs :: "string list \<Rightarrow> pyval list" where
  "strs = map PStr"

text \<open>Send a command and read its answer.\<close>

definition ask :: "'w net \<Rightarrow> 'w conn_config \<Rightarrow> ('w connection, unit) run \<Rightarrow> bool \<Rightarrow> pyval list \<Rightarrow> ('w connection, pyval) run" where
  "ask N c cn check args = thenP (send_with N c cn check args) (read N c)"

text \<open>The answer must be OK.\<close>

definition expect_ok :: "exc \<Rightarrow> pyval \<Rightarrow> ('w connection, unit) run" where
  "expect_ok e r = (if str_if_bytes r \<noteq> PStr ''OK'' then raiseP e else retP ())"

definition auth_args :: "'w conn_config \<Rightarrow> ('w, string list) conn_op" where
  "auth_args c = (case cf_provider c of
     Some m \<Rightarrow> on_net m
   | None \<Rightarrow>
       if filled (cf_username c) \<or> filled (cf_password c) then
         retS (get_credentials (UsernamePasswordCredentialProvider (cf_username c) (cf_password c)))
       else retS [])"

text \<open>A RESP2 parser is replaced and started.\<close>

definition use_resp3_parser :: "'w net \<Rightarrow> ('w, unit) conn_op" where
  "use_resp3_parser N = bindS (getS cx_parser3) (\<lambda>p3.
     if p3 then retS () else thenS (modS (\<lambda>s. s\<lparr>cx_parser3 := True\<rparr>)) (on_net (nt_parser_start N)))"

definition set_metadata :: "pyval \<Rightarrow> ('w connection, unit) run" where
  "set_metadata v = total (modS (\<lambda>s. s\<lparr>cx_metadata := v\<rparr>))"

text \<open>\<open>metadata.get(b"proto") != p and metadata.get("proto") != p\<close>.\<close>

definition check_proto :: "int \<Rightarrow> pyval \<Rightarrow> exc + unit" where
  "check_proto p v = (case v of
     PDict d \<Rightarrow>
       (let differs = (\<lambda>k. case pd_get k d of None \<Rightarrow> True | Some x \<Rightarrow> \<not> py_key_eq x (PInt p)) in
        if differs (PBytes ''proto'') \<and> differs (PStr ''proto'') then Inl (Exc ConnectionError ''Invalid RESP version'')
        else Inr ())
   | _ \<Rightarrow> Inl (Exc AttributeError ''get''))"

definition authenticate :: "'w net \<Rightarrow> 'w conn_config \<Rightarrow> ('w connection, unit) run \<Rightarrow> string list \<Rightarrow> ('w connection, unit) run" where
  "authenticate N c cn auth =
     (if auth \<noteq> [] \<and> cf_protocol c \<noteq> 2 then
        thenP (total (use_resp3_parser N))
        (bindP (ask N c cn True
           (strs [''HELLO''] @ [PInt (cf_protocol c)] @ strs (''AUTH'' # (if length auth = 1 then ''default'' # auth else auth))))
           set_metadata)
      else if auth \<noteq> [] then
        bindP (thenP (send_with N c cn False (strs (''AUTH'' # auth)))
                 (catchP (read N c)
                    (\<lambda>e. if isinstance e AuthenticationWrongNumberOfArgsError
                         then ask N c cn False (strs [''AUTH'', last auth]) else raiseP e)))
          (expect_ok (Exc AuthenticationError ''Invalid Username or Password''))
      else if cf_protocol c \<noteq> 2 then
        thenP (total (use_resp3_parser N))
        (bindP (ask N c cn True [PStr ''HELLO'', PInt (cf_protocol c)]) (\<lambda>m.
           thenP (set_metadata m) (total (liftS (check_proto (cf_protocol c) m)))))
      else retP ())"

text \<open>\<open>try: ... except ResponseError: pass\<close> around CLIENT SETINFO.\<close>

definition set_info :: "'w net \<Rightarrow> 'w conn_config \<Rightarrow> ('w connection, unit) run \<Rightarrow> string \<Rightarrow> string option \<Rightarrow> ('w connection, unit) run" where
  "set_info N c cn attribute v =
     (case v of
        None \<Rightarrow> retP ()
      | Some x \<Rightarrow>
          if x = [] then retP ()
          else catchP (thenP (ask N c cn True (strs [''CLIENT'', ''SETINFO'', attribute, x])) (retP ()))
            (\<lambda>e. if isinstance e ResponseError then retP () else raiseP e))"

definition set_name :: "'w net \<Rightarrow> 'w conn_config \<Rightarrow> ('w connection, unit) run \<Rightarrow> ('w connection, unit) run" where
  "set_name N c cn =
     (case cf_client_name c of
        None \<Rightarrow> retP ()
      | Some x \<Rightarrow>
          if x = [] then retP ()
          else bindP (ask N c cn True (strs [''CLIENT'', ''SETNAME'', x])) (expect_ok (Exc ConnectionError ''Error setting client name'')))"

definition select_db :: "'w net \<Rightarrow> 'w conn_config \<Rightarrow> ('w connection, unit) run \<Rightarrow> ('w connection, unit) run" where
  "select_db N c cn =
     (if cf_db c = 0 then retP ()
      else bindP (ask N c cn True [PStr ''SELECT'', PInt (cf_db c)]) (expect_ok (Exc ConnectionError ''Invalid Database'')))"

definition conn_on_connect :: "'w net \<Rightarrow> 'w conn_config \<Rightarrow> ('w connection, unit) run \<Rightarrow> ('w connection, unit) run" where
  "conn_on_connect N c cn =
     thenP (total (on_net (nt_parser_start N)))
     (bindP (total (auth_args c)) (\<lambda>auth.
      thenP (authenticate N c cn auth)
      (thenP (set_name N c cn)
      (thenP (set_info N c cn ''LIB-NAME'' (cf_lib_name c))
      (thenP (set_info N c cn ''LIB-VER'' (cf_lib_version c))
      (select_db N c cn))))))"

section \<open>Connecting\<close>

text \<open>\<open>self.retry.call_with_retry(self._connect, self.disconnect)\<close> and the translation of its errors.\<close>

definition open_socket :: "'w net \<Rightarrow> 'w conn_config \<Rightarrow> ('w connection, unit) run" where
  "open_socket N c =
     catchP (call_with_retryP (cf_retry c) (nt_rnd N) (cx_sleep N) (total (on_net (nt_connect N))) (\<lambda>_. total (conn_disconnect N c)))
       (\<lambda>e. raiseP (if isinstance e SocketTimeout then Exc TimeoutError ''Timeout connecting to server''
            else if isinstance e OSError then Exc ConnectionError (format_error_message (cf_host_error c) [exc_msg e])
            else e))"

definition run_callbacks :: "'w net \<Rightarrow> ('w connection, unit) run" where
  "run_callbacks N =
     thenP (total (modS (\<lambda>s. s\<lparr>cx_callbacks := filter (\<lambda>n. nt_callback N n \<noteq> None) (cx_callbacks s)\<rparr>)))
     (bindP (total (getS cx_callbacks)) (eachP (\<lambda>n. case nt_callback N n of Some f \<Rightarrow> f | None \<Rightarrow> retP ())))"

definition connect_with :: "'w net \<Rightarrow> 'w conn_config \<Rightarrow> ('w connection, unit) run \<Rightarrow> ('w connection, unit) run" where
  "connect_with N c cn =
     bindP (total (getS cx_sock)) (\<lambda>sock.
       if sock then retP ()
       else
         thenP (open_socket N c)
         (thenP (total (modS (\<lambda>s. s\<lparr>cx_sock := True\<rparr>)))
         (thenP (catchP (case cf_connect_func c of None \<Rightarrow> conn_on_connect N c cn | Some f \<Rightarrow> f)
                   (\<lambda>e. if isinstance e RedisError then thenP (total (conn_disconnect N c)) (raiseP e) else raiseP e))
            (run_callbacks N))))"

text \<open>Connecting with at most \<open>n\<close> connects inside one another.\<close>

primrec connect :: "'w net \<Rightarrow> 'w conn_config \<Rightarrow> nat \<Rightarrow> ('w connection, unit) run" where
  "connect N c 0 = (\<lambda>s. None)"
| "connect N c (Suc n) = connect_with N c (connect N c n)"

definition conn_send_packed_command :: "'w net \<Rightarrow> 'w conn_config \<Rightarrow> nat \<Rightarrow> pyval list \<Rightarrow> bool \<Rightarrow> ('w connection, unit) run" where
  "conn_send_packed_command N c n items check =
     (if check then send_checked N c (connect N c n) items else send_unchecked N c (connect N c n) items)"

definition conn_send_command :: "'w net \<Rightarrow> 'w conn_config \<Rightarrow> nat \<Rightarrow> pyval list \<Rightarrow> bool \<Rightarrow> ('w connection, unit) run" where
  "conn_send_command N c n args check = send_with N c (connect N c n) check args"

definition conn_can_read :: "'w net \<Rightarrow> 'w conn_config \<Rightarrow> nat \<Rightarrow> rat \<Rightarrow> ('w connection, bool) run" where
  "conn_can_read N c n timeout =
     bindP (total (getS cx_sock)) (\<lambda>b.
     thenP (whenP (\<not> b) (connect N c n))
     (total (catchS (on_net (nt_can_read N timeout))
        (\<lambda>e. if isinstance e OSError then thenS (conn_disconnect N c)
               (raiseS (Exc ConnectionError (''Error while reading from '' @ cf_host_error c @ '': '' @ exc_msg e)))
             else raiseS e))))"

section \<open>Opening the socket\<close>

text \<open>The socket module: addresses of the host, and the steps on a socket under construction.\<close>

record ('w, 'a) sockets =
  so_getaddrinfo :: "('w, exc, 'a list) action"
  so_socket :: "'a \<Rightarrow> ('w, exc, unit) action"
  so_setsockopt :: "string \<Rightarrow> int \<Rightarrow> ('w, exc, unit) action"
  so_settimeout :: "rat option \<Rightarrow> ('w, exc, unit) action"
  so_connect :: "'a \<Rightarrow> ('w, exc, unit) action"
  so_close_failed :: "('w, exc, unit) action"

record tcp_config =
  tc_keepalive :: bool
  tc_keepalive_options :: "(string \<times> int) list"
  tc_connect_timeout :: "rat option"
  tc_timeout :: "rat option"

text \<open>The steps after \<open>socket.socket\<close> succeeded.\<close>

definition setup_socket :: "('w, 'a) sockets \<Rightarrow> tcp_config \<Rightarrow> 'a \<Rightarrow> ('w, exc, unit) action" where
  "setup_socket S t a =
     thenS (so_setsockopt S ''TCP_NODELAY'' 1)
     (thenS (whenS (tc_keepalive t)
        (thenS (so_setsockopt S ''SO_KEEPALIVE'' 1)
           (bindS (mapS (\<lambda>(k, v). so_setsockopt S k v) (tc_keepalive_options t)) (\<lambda>_. retS ()))))
     (thenS (so_settimeout S (tc_connect_timeout t))
     (thenS (so_connect S a) (so_settimeout S (tc_timeout t)))))"

text \<open>The loop over the addresses: an \<open>OSError\<close> is kept and the next address tried.\<close>

fun try_addresses :: "('w, 'a) sockets \<Rightarrow> tcp_config \<Rightarrow> 'a list \<Rightarrow> exc option \<Rightarrow> ('w, exc, unit) action" where
  "try_addresses S t [] err =
     raiseS (case err of Some e \<Rightarrow> e | None \<Rightarrow> Exc OSError ''socket.getaddrinfo returned an empty list'')"
| "try_addresses S t (a # as) err = (\<lambda>w.
     case so_socket S a w of
       (Inl e, w1) \<Rightarrow> if isinstance e OSError then try_addresses S t as (Some e) w1 else (Inl e, w1)
     | (Inr _, w1) \<Rightarrow>
         (case setup_socket S t a w1 of
            (Inr _, w2) \<Rightarrow> (Inr (), w2)
          | (Inl e, w2) \<Rightarrow>
              if isinstance e OSError then thenS (so_close_failed S) (try_addresses S t as (Some e)) w2
              else (Inl e, w2)))"

definition tcp_connect :: "('w, 'a) sockets \<Rightarrow> tcp_config \<Rightarrow> ('w, exc, unit) action" where
  "tcp_connect S t = bindS (so_getaddrinfo S) (\<lambda>as. try_addresses S t as None)"

definition unix_connect :: "('w, 'a) sockets \<Rightarrow> tcp_config \<Rightarrow> 'a \<Rightarrow> ('w, exc, unit) action" where
  "unix_connect S t path =
     thenS (so_socket S path)
     (thenS (so_settimeout S (tc_connect_timeout t))
     (thenS (catchS (so_connect S path)
               (\<lambda>e. if isinstance e OSError then thenS (so_close_failed S) (raiseS e) else raiseS e))
        (so_settimeout S (tc_timeout t))))"

end
