(* ===== verification/ConnectionCorrect.thy ===== *)
theory ConnectionCorrect
  imports Connection Serializer
begin

text \<open>
  What connecting promises: the commands of the handshake and their order, that a refused handshake
  leaves no open connection, and how reading treats errors; and where the handshake does otherwise.
\<close>

section \<open>One command and its answer\<close>

lemma on_net_eq [run_simps]: "m (cx_world s) = (r, w) \<Longrightarrow> on_net m s = (r, s\<lparr>cx_world := w\<rparr>)"
  by (simp add: on_net_def)

text \<open>
  A conversation: each command, packed and sent, is answered with an accepted response. A command that is sent with the health check on
  comes after a PING, answered with PONG, when a check is due; every answer puts the next check off. \<open>t\<close> is the
  time after which a check is due.
\<close>

type_synonym plan = "(bool \<times> pyval list \<times> (pyval \<Rightarrow> bool)) list"

definition push_arg :: "'w conn_config \<Rightarrow> bool option" where
  "push_arg c = (if cf_protocol c = 3 then Some False else None)"

definition exchange :: "'w net \<Rightarrow> 'w conn_config \<Rightarrow> bool \<Rightarrow> pyval list \<Rightarrow> 'w \<Rightarrow> (pyval \<times> 'w) option" where
  "exchange N c p3 args w = (case nt_pack N args of
     Inl _ \<Rightarrow> None
   | Inr items \<Rightarrow> (case mapS (nt_sendall N) items w of
        (Inl _, _) \<Rightarrow> None
      | (Inr _, w1) \<Rightarrow> (case nt_read N p3 False (push_arg c) w1 of (Inl _, _) \<Rightarrow> None | (Inr r, w2) \<Rightarrow> Some (r, w2))))"

definition check_after :: "'w net \<Rightarrow> 'w conn_config \<Rightarrow> rat \<Rightarrow> 'w \<Rightarrow> rat" where
  "check_after N c t w = (if cf_health_check_interval c = 0 then t else nt_now N w + cf_health_check_interval c)"

definition check_due :: "'w net \<Rightarrow> 'w conn_config \<Rightarrow> rat \<Rightarrow> 'w \<Rightarrow> bool" where
  "check_due N c t w = (cf_health_check_interval c \<noteq> 0 \<and> t < nt_now N w)"

definition pinged :: "'w net \<Rightarrow> 'w conn_config \<Rightarrow> bool \<Rightarrow> bool \<Rightarrow> rat \<times> 'w \<Rightarrow> (rat \<times> 'w) option" where
  "pinged N c p3 check = (\<lambda>(t, w).
     if check \<and> check_due N c t w then
       (case exchange N c p3 [PStr ''PING''] w of
          None \<Rightarrow> None
        | Some (r, w1) \<Rightarrow> if str_if_bytes r = PStr ''PONG'' then Some (check_after N c t w1, w1) else None)
     else Some (t, w))"

fun talks :: "'w net \<Rightarrow> 'w conn_config \<Rightarrow> bool \<Rightarrow> plan \<Rightarrow> rat \<times> 'w \<Rightarrow> rat \<times> 'w \<Rightarrow> bool" where
  "talks N c p3 [] v v' = (v' = v)"
| "talks N c p3 ((check, args, accept) # steps) v v' = (case pinged N c p3 check v of
     None \<Rightarrow> False
   | Some (t, w) \<Rightarrow> (case exchange N c p3 args w of
        None \<Rightarrow> False
      | Some (r, w1) \<Rightarrow> accept r \<and> talks N c p3 steps (check_after N c t w1, w1) v'))"

lemma talks_Cons:
  "talks N c p3 ((check, args, accept) # steps) v v' \<longleftrightarrow>
     (\<exists>t w r w1. pinged N c p3 check v = Some (t, w) \<and> exchange N c p3 args w = Some (r, w1) \<and> accept r \<and>
        talks N c p3 steps (check_after N c t w1, w1) v')"
  by (auto split: option.splits prod.splits)

declare talks.simps(2) [simp del]

lemma talks_append:
  "talks N c p3 (xs @ ys) v v' \<longleftrightarrow> (\<exists>u. talks N c p3 xs v u \<and> talks N c p3 ys u v')"
proof (induction xs arbitrary: v)
  case (Cons x xs)
  obtain check args accept where x: "x = (check, args, accept)" by (cases x)
  show ?case unfolding x append_Cons talks_Cons Cons.IH by blast
qed simp

lemma exchange_Some:
  "exchange N c p3 args w = Some (r, w2) \<longleftrightarrow>
     (\<exists>items us w1. nt_pack N args = Inr items \<and> mapS (nt_sendall N) items w = (Inr us, w1) \<and> nt_read N p3 False (push_arg c) w1 = (Inr r, w2))"
  by (auto simp: exchange_def split: sum.splits prod.splits)

definition error_reply :: "pyval \<Rightarrow> bool" where
  "error_reply r = (case r of PExc e \<Rightarrow> isinstance e ResponseError | _ \<Rightarrow> False)"

lemma send_items_ok:
  assumes "mapS (nt_sendall N) items w = (Inr us, w')" "cx_sock s" "cx_world s = w"
  shows "send_items N c items s = (Inr (), s\<lparr>cx_world := w'\<rparr>)"
proof -
  have "mapS (\<lambda>i. bindS (getS cx_sock) (\<lambda>b. if b then on_net (nt_sendall N i) else raiseS (Exc AttributeError ''sendall''))) items s
      = (Inr us, s\<lparr>cx_world := w'\<rparr>)"
    using assms
  proof (induction items arbitrary: s w us)
    case Nil
    then show ?case by auto
  next
    case (Cons i items)
    then obtain u us' w1 where i: "nt_sendall N i w = (Inr u, w1)" and rest: "mapS (nt_sendall N) items w1 = (Inr us', w')"
      and us: "us = u # us'" by (auto simp: bindS_eq_Inr)
    have "bindS (getS cx_sock) (\<lambda>b. if b then on_net (nt_sendall N i) else raiseS (Exc AttributeError ''sendall'')) s
        = (Inr u, s\<lparr>cx_world := w1\<rparr>)"
      using i Cons.prems(2,3) by (simp add: on_net_def)
    then show ?case using Cons.IH [OF rest, of "s\<lparr>cx_world := w1\<rparr>"] Cons.prems(2) by (simp add: us)
  qed
  then show ?thesis by (simp add: send_items_def catchS_def)
qed

text \<open>The connection after a part of a conversation.\<close>

definition after_talk :: "'w connection \<Rightarrow> rat \<times> 'w \<Rightarrow> 'w connection" where
  "after_talk s v = s\<lparr>cx_next_check := fst v, cx_world := snd v\<rparr>"

definition clock_world :: "'w connection \<Rightarrow> rat \<times> 'w" where
  "clock_world s = (cx_next_check s, cx_world s)"

lemma after_talk_simps [simp]:
  "cx_sock (after_talk s v) = cx_sock s" "cx_parser3 (after_talk s v) = cx_parser3 s" "cx_callbacks (after_talk s v) = cx_callbacks s"
  "cx_world (after_talk s v) = snd v" "cx_next_check (after_talk s v) = fst v" "clock_world (after_talk s v) = v" "after_talk (after_talk s u) v = after_talk s v"
  "after_talk s (clock_world s) = s"
  by (simp_all add: after_talk_def clock_world_def)

definition raised_reply :: "pyval \<Rightarrow> exc + pyval" where
  "raised_reply r = (if error_reply r then Inl (case r of PExc e \<Rightarrow> e) else Inr r)"

lemma read_response_ok:
  assumes "nt_read N (cx_parser3 s) d (if cf_protocol c = 3 then Some push else None) (cx_world s) = (Inr r, w')"
  shows "conn_read_response N c d b push s = (raised_reply r, after_talk s (check_after N c (cx_next_check s) w', w'))"
  using assms
  by (auto simp: conn_read_response_def catchS_def bindS_def on_net_def error_reply_def raised_reply_def thenS_def after_talk_def check_after_def split: pyval.splits)

text \<open>Sending without the check and reading the answer.\<close>

lemma exchanged:
  assumes "exchange N c (cx_parser3 s) args (cx_world s) = Some (r, w')" "cx_sock s"
  obtains items w1 where "nt_pack N args = Inr items" "send_items N c items s = (Inr (), s\<lparr>cx_world := w1\<rparr>)"
    "read N c (s\<lparr>cx_world := w1\<rparr>) = Some (raised_reply r, after_talk s (check_after N c (cx_next_check s) w', w'))"
proof -
  from assms(1) obtain items us w1 where i: "nt_pack N args = Inr items" "mapS (nt_sendall N) items (cx_world s) = (Inr us, w1)"
      "nt_read N (cx_parser3 s) False (push_arg c) w1 = (Inr r, w')" by (auto simp: exchange_Some)
  have "read N c (s\<lparr>cx_world := w1\<rparr>) = Some (raised_reply r, after_talk (s\<lparr>cx_world := w1\<rparr>) (check_after N c (cx_next_check s) w', w'))"
    using read_response_ok [of N "s\<lparr>cx_world := w1\<rparr>" False c False r w' True] i(3) by (simp add: read_def total_def push_arg_def)
  then show ?thesis using that i(1) send_items_ok [OF i(2) assms(2)] by (simp add: after_talk_def)
qed

text \<open>A health check that is due, or not.\<close>

lemma check_health_talks:
  assumes "pinged N c (cx_parser3 s) True (clock_world s) = Some v" "cx_sock s"
  shows "check_health N c cn s = Some (Inr (), after_talk s v)"
proof (cases "check_due N c (cx_next_check s) (cx_world s)")
  case False
  then show ?thesis
    using assms by (auto simp: pinged_def check_health_def bindP_def total_def whenP_def clock_world_def check_due_def after_talk_def)
next
  case True
  then obtain r w1 where e: "exchange N c (cx_parser3 s) [PStr ''PING''] (cx_world s) = Some (r, w1)"
    and pong: "str_if_bytes r = PStr ''PONG''" and v: "v = (check_after N c (cx_next_check s) w1, w1)"
    using assms(1) by (auto simp: pinged_def clock_world_def split: option.splits if_splits)
  obtain items w2 where i: "nt_pack N [PStr ''PING''] = Inr items" "send_items N c items s = (Inr (), s\<lparr>cx_world := w2\<rparr>)"
    "read N c (s\<lparr>cx_world := w2\<rparr>) = Some (raised_reply r, after_talk s v)"
    using exchanged [OF e assms(2)] v by metis
  have "raised_reply r = Inr r" using pong by (cases r) (auto simp: raised_reply_def error_reply_def)
  then have "send_ping N c cn s = Some (Inr (), after_talk s v)"
    using i pong assms(2) by (simp add: send_ping_def pack_send_def send_unchecked_def bindP_def thenP_def total_def)
  then show ?thesis
    using True by (simp add: check_health_def check_due_def bindP_def total_def call_with_retryP_Inr)
qed

text \<open>Sending a command and reading its answer is one step of the conversation.\<close>

lemma ask_talks:
  assumes "talks N c (cx_parser3 s) [(check, args, accept)] (clock_world s) v" "cx_sock s"
  obtains r where "accept r" "ask N c cn check args s = Some (raised_reply r, after_talk s v)"
    "\<And>h. \<not> error_reply r \<Longrightarrow> thenP (send_with N c cn check args) (catchP (read N c) h) s = Some (Inr r, after_talk s v)"
proof -
  from assms(1) obtain t w r w1 where p: "pinged N c (cx_parser3 s) check (clock_world s) = Some (t, w)"
    and e: "exchange N c (cx_parser3 s) args w = Some (r, w1)" and acc: "accept r" and v: "v = (check_after N c t w1, w1)"
    by (auto simp: talks_Cons)
  let ?s = "after_talk s (t, w)"
  obtain items w2 where i: "nt_pack N args = Inr items" "send_items N c items ?s = (Inr (), ?s\<lparr>cx_world := w2\<rparr>)"
    "read N c (?s\<lparr>cx_world := w2\<rparr>) = Some (raised_reply r, after_talk s v)"
  proof -
    have "exchange N c (cx_parser3 ?s) args (cx_world ?s) = Some (r, w1)" "cx_sock ?s" using e assms(2) by simp_all
    from exchanged [OF this] obtain items w2 where "nt_pack N args = Inr items" "send_items N c items ?s = (Inr (), ?s\<lparr>cx_world := w2\<rparr>)"
      "read N c (?s\<lparr>cx_world := w2\<rparr>) = Some (raised_reply r, after_talk ?s (check_after N c t w1, w1))" by auto
    then show ?thesis using that v by simp
  qed
  have send: "send_with N c cn check args s = Some (Inr (), ?s\<lparr>cx_world := w2\<rparr>)"
  proof (cases check)
    case True
    then show ?thesis
      using check_health_talks [of N c s "(t, w)" cn] p i(1,2) assms(2)
      by (simp add: send_with_def pack_send_def send_checked_def bindP_def thenP_def total_def)
  next
    case False
    then have "?s = s" using p by (auto simp: pinged_def clock_world_def after_talk_def)
    then show ?thesis
      using False i(1,2) assms(2) by (simp add: send_with_def pack_send_def send_unchecked_def bindP_def thenP_def total_def)
  qed
  show ?thesis
    by (rule that [OF acc]) (use send i(3) in \<open>simp_all add: ask_def raised_reply_def\<close>)
qed

section \<open>The handshake\<close>

definition ok_reply :: "pyval \<Rightarrow> bool" where
  "ok_reply r = (str_if_bytes r = PStr ''OK'')"

lemma ok_reply_no_error: "ok_reply r \<Longrightarrow> \<not> error_reply r"
  by (cases r) (auto simp: ok_reply_def error_reply_def)

lemma check_proto_no_error: "check_proto p r = Inr () \<Longrightarrow> \<not> error_reply r"
  by (cases r) (auto simp: check_proto_def error_reply_def)

text \<open>The commands a handshake consists of, each with the answers it goes on after; \<open>auth\<close> are the credentials.\<close>

definition static_auth :: "'w conn_config \<Rightarrow> string list" where
  "static_auth c = (if filled (cf_username c) \<or> filled (cf_password c)
     then get_credentials (UsernamePasswordCredentialProvider (cf_username c) (cf_password c)) else [])"

definition given_credentials :: "'w conn_config \<Rightarrow> ('w, exc, string list) action" where
  "given_credentials c = (case cf_provider c of Some m \<Rightarrow> m | None \<Rightarrow> retS (static_auth c))"

definition auth_plan :: "'w conn_config \<Rightarrow> string list \<Rightarrow> plan" where
  "auth_plan c auth =
     (if cf_protocol c = 3 then
       (if auth \<noteq> [] then
          [(True, PStr ''HELLO'' # PInt 3 # PStr ''AUTH'' # strs (if length auth = 1 then ''default'' # auth else auth), \<lambda>r. \<not> error_reply r)]
        else [(True, [PStr ''HELLO'', PInt 3], \<lambda>r. check_proto 3 r = Inr ())])
     else if auth \<noteq> [] then [(False, strs (''AUTH'' # auth), ok_reply)] else [])"

definition name_plan :: "'w conn_config \<Rightarrow> plan" where
  "name_plan c = (case cf_client_name c of
     Some (x # xs) \<Rightarrow> [(True, strs [''CLIENT'', ''SETNAME'', x # xs], ok_reply)] | _ \<Rightarrow> [])"

definition info_plan :: "string \<Rightarrow> string option \<Rightarrow> plan" where
  "info_plan attribute v = (case v of
     Some (x # xs) \<Rightarrow> [(True, strs [''CLIENT'', ''SETINFO'', attribute, x # xs], \<lambda>_. True)] | _ \<Rightarrow> [])"

definition db_plan :: "'w conn_config \<Rightarrow> plan" where
  "db_plan c = (if cf_db c \<noteq> 0 then [(True, [PStr ''SELECT'', PInt (cf_db c)], ok_reply)] else [])"

definition handshake :: "'w conn_config \<Rightarrow> string list \<Rightarrow> plan" where
  "handshake c auth =
     auth_plan c auth @ name_plan c @ info_plan ''LIB-NAME'' (cf_lib_name c) @ info_plan ''LIB-VER'' (cf_lib_version c) @ db_plan c"

lemma use_resp3_parser_ok:
  assumes "\<And>w. nt_parser_start N w = (Inr (), w)"
  shows "use_resp3_parser N s = (Inr (), s\<lparr>cx_parser3 := True\<rparr>)"
  using assms by (cases "cx_parser3 s") (simp_all add: use_resp3_parser_def on_net_def)

lemma expect_ok_app: "ok_reply r \<Longrightarrow> expect_ok e r s = Some (Inr (), s)"
  by (simp add: expect_ok_def ok_reply_def)

lemma raised_ok: "\<not> error_reply r \<Longrightarrow> raised_reply r = Inr r"
  by (simp add: raised_reply_def)

text \<open>The parser of the protocol and the metadata are set.\<close>

definition with_parser :: "'w conn_config \<Rightarrow> pyval \<Rightarrow> 'w connection \<Rightarrow> 'w connection" where
  "with_parser c m s = s\<lparr>cx_parser3 := cf_protocol c = 3, cx_metadata := m\<rparr>"

lemma with_parser_simps [simp]:
  "cx_sock (with_parser c m s) = cx_sock s" "cx_parser3 (with_parser c m s) = (cf_protocol c = 3)" "cx_callbacks (with_parser c m s) = cx_callbacks s"
  "clock_world (with_parser c m s) = clock_world s" "after_talk (with_parser c m s) v = with_parser c m (after_talk s v)"
  by (simp_all add: with_parser_def clock_world_def after_talk_def)

text \<open>Each part of the handshake carries out its part of the plan.\<close>

lemma authenticate_plan:
  assumes start: "\<And>w. nt_parser_start N w = (Inr (), w)" and protocol: "cf_protocol c = 2 \<or> cf_protocol c = 3" "cx_parser3 s \<longrightarrow> cf_protocol c = 3"
    and talk: "talks N c (cf_protocol c = 3) (auth_plan c auth) (clock_world s) v" and sock: "cx_sock s"
  obtains m where "authenticate N c cn auth s = Some (Inr (), with_parser c m (after_talk s v))"
proof (cases "cf_protocol c = 3")
  case True
  let ?s = "s\<lparr>cx_parser3 := True\<rparr>"
  have p3: "total (use_resp3_parser N) s = Some (Inr (), ?s)" using use_resp3_parser_ok [OF start] by (simp add: total_def)
  have s: "clock_world ?s = clock_world s" by (simp add: clock_world_def)
  have to: "(after_talk ?s v)\<lparr>cx_metadata := m\<rparr> = with_parser c m (after_talk s v)" for m using True by (simp add: after_talk_def with_parser_def)
  show ?thesis
  proof (cases "auth = []")
    case empty: True
    then have "talks N c (cx_parser3 ?s) [(True, [PStr ''HELLO'', PInt 3], \<lambda>r. check_proto 3 r = Inr ())] (clock_world ?s) v"
      using talk True s by (simp add: auth_plan_def)
    then obtain r where ok: "check_proto 3 r = Inr ()"
      and a: "ask N c cn True [PStr ''HELLO'', PInt 3] ?s = Some (raised_reply r, after_talk ?s v)"
      using sock by (elim ask_talks [where cn = cn]) auto
    show ?thesis
      using p3 a raised_ok [OF check_proto_no_error [OF ok]] True empty ok to [of r]
      by (intro that [of r]) (simp add: authenticate_def set_metadata_def total_def)
  next
    case False
    let ?args = "PStr ''HELLO'' # PInt 3 # PStr ''AUTH'' # strs (if length auth = 1 then ''default'' # auth else auth)"
    have "talks N c (cx_parser3 ?s) [(True, ?args, \<lambda>r. \<not> error_reply r)] (clock_world ?s) v"
      using talk True False s by (simp add: auth_plan_def)
    then obtain r where ok: "\<not> error_reply r" and a: "ask N c cn True ?args ?s = Some (raised_reply r, after_talk ?s v)"
      using sock by (elim ask_talks [where cn = cn]) auto
    then show ?thesis
      using p3 True False to [of r] raised_ok [OF ok]
      by (intro that [of r]) (simp add: authenticate_def set_metadata_def total_def strs_def)
  qed
next
  case False
  then have p: "cf_protocol c = 2" "\<not> cx_parser3 s" using protocol by auto
  then have to: "with_parser c (cx_metadata s) (after_talk s v) = after_talk s v" by (simp add: with_parser_def after_talk_def)
  show ?thesis
  proof (cases "auth = []")
    case True
    then have "v = clock_world s" using talk p by (simp add: auth_plan_def)
    then show ?thesis using True p to by (intro that [of "cx_metadata s"]) (simp add: authenticate_def)
  next
    case no: False
    have "talks N c (cx_parser3 s) [(False, strs (''AUTH'' # auth), ok_reply)] (clock_world s) v"
      using talk p no by (simp add: auth_plan_def)
    then obtain r where ok: "ok_reply r"
      and a: "\<And>h. \<not> error_reply r \<Longrightarrow> thenP (send_with N c cn False (strs (''AUTH'' # auth))) (catchP (read N c) h) s = Some (Inr r, after_talk s v)"
      using sock by (elim ask_talks [where cn = cn]) auto
    show ?thesis
      using a [OF ok_reply_no_error [OF ok]] p no to
      by (intro that [of "cx_metadata s"]) (simp add: authenticate_def expect_ok_app [OF ok])
  qed
qed

lemma set_name_plan:
  assumes "talks N c (cx_parser3 s) (name_plan c) (clock_world s) v" "cx_sock s"
  shows "set_name N c cn s = Some (Inr (), after_talk s v)"
proof (cases "filled (cf_client_name c)")
  case False
  then show ?thesis using assms(1) by (auto simp: set_name_def name_plan_def filled_def split: option.splits)
next
  case True
  then obtain x xs where n: "cf_client_name c = Some (x # xs)" by (auto simp: filled_def neq_Nil_conv)
  from assms obtain r where "ok_reply r" "ask N c cn True (strs [''CLIENT'', ''SETNAME'', x # xs]) s = Some (raised_reply r, after_talk s v)"
    by (elim ask_talks [where cn = cn and accept = ok_reply and args = "strs [''CLIENT'', ''SETNAME'', x # xs]", rotated])
      (auto simp: n name_plan_def)
  then show ?thesis using raised_ok [OF ok_reply_no_error] expect_ok_app by (simp add: set_name_def n)
qed

lemma set_info_plan:
  assumes "talks N c (cx_parser3 s) (info_plan a x) (clock_world s) v" "cx_sock s"
  shows "set_info N c cn a x s = Some (Inr (), after_talk s v)"
proof (cases "filled x")
  case False
  then show ?thesis using assms(1) by (auto simp: set_info_def info_plan_def filled_def split: option.splits)
next
  case True
  then obtain y ys where n: "x = Some (y # ys)" unfolding filled_def by (metis list.exhaust option.exhaust)
  from assms obtain r where "ask N c cn True (strs [''CLIENT'', ''SETINFO'', a, y # ys]) s = Some (raised_reply r, after_talk s v)"
    by (elim ask_talks [where cn = cn and accept = "\<lambda>_. True" and args = "strs [''CLIENT'', ''SETINFO'', a, y # ys]", rotated])
      (auto simp: n info_plan_def)
  then show ?thesis
    by (cases "error_reply r") (auto simp: set_info_def n raised_reply_def error_reply_def split: pyval.splits if_splits)
qed

lemma select_db_plan:
  assumes "talks N c (cx_parser3 s) (db_plan c) (clock_world s) v" "cx_sock s"
  shows "select_db N c cn s = Some (Inr (), after_talk s v)"
proof (cases "cf_db c = 0")
  case True
  then show ?thesis using assms(1) by (simp add: select_db_def db_plan_def)
next
  case False
  from assms obtain r where "ok_reply r" "ask N c cn True [PStr ''SELECT'', PInt (cf_db c)] s = Some (raised_reply r, after_talk s v)"
    by (elim ask_talks [where cn = cn and accept = ok_reply and args = "[PStr ''SELECT'', PInt (cf_db c)]", rotated])
      (auto simp: False db_plan_def)
  then show ?thesis using raised_ok [OF ok_reply_no_error] expect_ok_app False by (simp add: select_db_def)
qed

lemma auth_args_credentials: "auth_args c = on_net (given_credentials c)"
  by (rule ext) (auto simp: auth_args_def given_credentials_def static_auth_def on_net_def split: option.split)

lemma auth_args_static: "cf_provider c = None \<Longrightarrow> auth_args c s = (Inr (static_auth c), s)"
  by (simp add: auth_args_def static_auth_def)

lemma on_connect_plan:
  assumes start: "\<And>w. nt_parser_start N w = (Inr (), w)" and protocol: "cf_protocol c = 2 \<or> cf_protocol c = 3" "cx_parser3 s \<longrightarrow> cf_protocol c = 3"
    and cred: "given_credentials c (cx_world s) = (Inr auth, w)" and sock: "cx_sock s"
    and talk: "talks N c (cf_protocol c = 3) (handshake c auth) (cx_next_check s, w) v"
  obtains m where "conn_on_connect N c cn s = Some (Inr (), with_parser c m (after_talk s v))"
proof -
  let ?t = "talks N c (cf_protocol c = 3)" and ?s = "s\<lparr>cx_world := w\<rparr>"
  from talk obtain v1 v2 v3 v4 where t: "?t (auth_plan c auth) (cx_next_check s, w) v1" "?t (name_plan c) v1 v2"
      "?t (info_plan ''LIB-NAME'' (cf_lib_name c)) v2 v3" "?t (info_plan ''LIB-VER'' (cf_lib_version c)) v3 v4" "?t (db_plan c) v4 v"
    unfolding handshake_def talks_append by blast
  have after_talk: "after_talk ?s u = after_talk s u" for u by (simp add: after_talk_def)
  obtain m where a: "authenticate N c cn auth ?s = Some (Inr (), with_parser c m (after_talk s v1))"
    using authenticate_plan [OF start protocol(1), of ?s auth v1 cn thesis] protocol(2) t(1) sock by (auto simp: clock_world_def after_talk)
  let ?p = "\<lambda>u. with_parser c m (after_talk s u)"
  have n: "set_name N c cn (?p v1) = Some (Inr (), ?p v2)"
    using set_name_plan [of N c "?p v1" v2] t(2) sock by simp
  have i: "set_info N c cn ''LIB-NAME'' (cf_lib_name c) (?p v2) = Some (Inr (), ?p v3)"
    using set_info_plan [of N c "?p v2" "''LIB-NAME''" _ v3] t(3) sock by simp
  have l: "set_info N c cn ''LIB-VER'' (cf_lib_version c) (?p v3) = Some (Inr (), ?p v4)"
    using set_info_plan [of N c "?p v3" "''LIB-VER''" _ v4] t(4) sock by simp
  have d: "select_db N c cn (?p v4) = Some (Inr (), ?p v)"
    using select_db_plan [of N c "?p v4" v] t(5) sock by simp
  have p: "total (on_net (nt_parser_start N)) s = Some (Inr (), s)" using start by (simp add: total_def on_net_def)
  have au: "total (auth_args c) s = Some (Inr auth, ?s)"
    using cred by (simp add: total_def auth_args_credentials on_net_def)
  show ?thesis using p au a n i l d by (intro that [of m]) (simp add: conn_on_connect_def)
qed

text \<open>C20: connecting without a connect function of the caller opens the socket and then conducts exactly the handshake the settings ask
  for, in this order: HELLO or AUTH with the credentials of the provider or of the username and the password, CLIENT SETNAME, the library's name
  and version (whose refusal is ignored) and SELECT. Before each of these commands but AUTH comes a PING, answered with PONG, when health checks
  are on and one is due. When the credentials are given and every answer is accepted, no more than one connect is made, the
  connection is open with the parser of its protocol, and the callbacks for a new connection run; without callbacks connecting returns.\<close>

theorem connect_performs_handshake:
  assumes "\<not> cx_sock s" "cx_parser3 s \<longrightarrow> cf_protocol c = 3" "cf_connect_func c = None" "cf_protocol c = 2 \<or> cf_protocol c = 3"
    and "\<And>w. nt_parser_start N w = (Inr (), w)"
    and "nt_connect N (cx_world s) = (Inr (), w1)" "given_credentials c w1 = (Inr auth, w2)"
    and "talks N c (cf_protocol c = 3) (handshake c auth) (cx_next_check s, w2) (t, w3)"
  shows "\<exists>m. let s' = s\<lparr>cx_sock := True, cx_parser3 := cf_protocol c = 3, cx_metadata := m, cx_next_check := t, cx_world := w3\<rparr> in
     connect N c (Suc n) s = run_callbacks N s' \<and> (cx_callbacks s = [] \<longrightarrow> connect N c (Suc n) s = Some (Inr (), s'))"
proof -
  let ?s = "s\<lparr>cx_world := w1, cx_sock := True\<rparr>"
  have o1: "open_socket N c s = Some (Inr (), s\<lparr>cx_world := w1\<rparr>)"
    using assms(6) by (simp add: open_socket_def call_with_retryP_Inr total_def on_net_def)
  obtain m where oc: "conn_on_connect N c (connect N c n) ?s = Some (Inr (), with_parser c m (after_talk ?s (t, w3)))"
    using on_connect_plan [OF assms(5,4), of ?s auth w2 "(t, w3)" "connect N c n" thesis] assms(2,7,8) by auto
  have s': "with_parser c m (after_talk ?s (t, w3)) = s\<lparr>cx_sock := True, cx_parser3 := cf_protocol c = 3, cx_metadata := m, cx_next_check := t, cx_world := w3\<rparr>"
    by (simp add: with_parser_def after_talk_def)
  have "connect N c (Suc n) s = run_callbacks N (with_parser c m (after_talk ?s (t, w3)))"
    using o1 oc assms(1,3) by (simp add: connect_with_def total_def)
  moreover have "run_callbacks N u = Some (Inr (), u)" if "cx_callbacks u = []" for u :: "'a connection"
    using that by (simp add: run_callbacks_def thenP_def bindP_def total_def)
  ultimately show ?thesis unfolding Let_def s' by (intro exI [of _ m]) simp
qed

section \<open>Failures\<close>

definition quiet_stop :: "'w net \<Rightarrow> bool" where
  "quiet_stop N \<longleftrightarrow> (\<forall>w. fst (nt_parser_stop N w) = Inr ())"

lemma disconnect_closes:
  assumes "quiet_stop N" "conn_disconnect N c s = (r, s')"
  shows "\<not> cx_sock s'"
proof -
  obtain w where p: "nt_parser_stop N (cx_world s) = (Inr (), w)"
    using assms(1) unfolding quiet_stop_def by (metis prod.collapse)
  show ?thesis
    using assms(2) p
    by (auto simp: conn_disconnect_def on_net_def thenS_def bindS_def whenS_def swallow_def catchS_def
        split: if_splits prod.splits sum.splits)
qed

lemma open_socket_closed:
  assumes "quiet_stop N" "\<not> cx_sock s" "open_socket N c s = Some (r, s')"
  shows "\<not> cx_sock s'"
proof -
  let ?op = "total (on_net (nt_connect N))" and ?fail = "\<lambda>_ :: exc. total (conn_disconnect N c)"
  have loop: "\<not> cx_sock (snd y)" if "call_with_retryP (cf_retry c) (nt_rnd N) (cx_sleep N) ?op ?fail s = Some y" for y
    using that [unfolded call_with_retryP_def]
  proof (rule retry_run_inv [where I = "\<lambda>s. \<not> cx_sock s"])
    show "\<not> cx_sock t'" if "\<not> cx_sock t" "?op t = Some (x, t')" for t x t'
      using that by (auto simp: total_def on_net_def split: prod.splits)
    show "\<not> cx_sock t' \<and> \<not> cx_sock t'" if "\<not> cx_sock t" "?fail e t = Some (x, t')" for e t x t'
      using disconnect_closes [OF assms(1)] that by (auto simp: total_def)
    show "\<not> cx_sock (cx_sleep N t u)" if "\<not> cx_sock u" for t u using that by (simp add: cx_sleep_def)
  qed (rule assms(2))
  show ?thesis
    using assms(3) loop by (auto simp: open_socket_def catchP_def split: option.splits sum.splits)
qed

lemma callbacks_return:
  assumes "\<And>n f s r s'. nt_callback N n = Some f \<Longrightarrow> f s = Some (r, s') \<Longrightarrow> r = Inr ()"
    and "run_callbacks N s = Some (r, s')"
  shows "r = Inr ()"
proof -
  have "x = Inr ()" if "eachP (\<lambda>n. case nt_callback N n of Some f \<Rightarrow> f | None \<Rightarrow> retP ()) ns t = Some (x, t')" for ns t x t'
    using that
  proof (induction ns arbitrary: t)
    case (Cons n ns)
    obtain y t1 where y: "(case nt_callback N n of Some f \<Rightarrow> f | None \<Rightarrow> retP ()) t = Some (y, t1)"
      using Cons.prems by (cases "(case nt_callback N n of Some f \<Rightarrow> f | None \<Rightarrow> retP ()) t") auto
    moreover have "y = Inr ()" using y assms(1) by (auto split: option.splits)
    ultimately show ?case using Cons by simp
  qed simp
  then show ?thesis using assms(2) by (auto simp: run_callbacks_def thenP_def bindP_def total_def)
qed

text \<open>an error of the library while the connection is set up (the socket could not be opened, the server
  refused a step of the handshake, a health check failed) leaves it disconnected, so that
  the next use starts over; a half-initialised connection is not used.\<close>

theorem failed_connect_leaves_closed:
  assumes "connect N c n s = Some (Inl e, s')" "isinstance e RedisError" "\<not> cx_sock s"
    and "\<And>w. fst (nt_parser_stop N w) = Inr ()"
    and "\<And>n f s r s'. nt_callback N n = Some f \<Longrightarrow> f s = Some (r, s') \<Longrightarrow> r = Inr ()"
  shows "\<not> cx_sock s'"
proof (cases n)
  case 0
  then show ?thesis using assms(1) by simp
next
  case (Suc m)
  have q: "quiet_stop N" using assms(4) by (simp add: quiet_stop_def)
  let ?hs = "case cf_connect_func c of None \<Rightarrow> conn_on_connect N c (connect N c m) | Some f \<Rightarrow> f"
  from assms(1,3) Suc have c: "thenP (open_socket N c) (thenP (total (modS (\<lambda>s. s\<lparr>cx_sock := True\<rparr>)))
      (thenP (catchP ?hs (\<lambda>e. if isinstance e RedisError then thenP (total (conn_disconnect N c)) (raiseP e) else raiseP e))
         (run_callbacks N))) s = Some (Inl e, s')"
    by (simp add: connect_with_def bindP_def total_def)
  obtain r1 s1 where o1: "open_socket N c s = Some (r1, s1)" using c by (cases "open_socket N c s") auto
  have closed: "\<not> cx_sock s1" using open_socket_closed [OF q assms(3) o1] .
  show ?thesis
  proof (cases r1)
    case (Inl e1)
    then show ?thesis using c o1 closed by simp
  next
    case (Inr u)
    let ?s = "s1\<lparr>cx_sock := True\<rparr>"
    let ?h = "catchP ?hs (\<lambda>e. if isinstance e RedisError then thenP (total (conn_disconnect N c)) (raiseP e) else raiseP e)"
    from c o1 Inr have c2: "thenP ?h (run_callbacks N) ?s = Some (Inl e, s')" by (simp add: total_def)
    have "x = Inr ()" if "run_callbacks N t = Some (x, t')" for x t t'
      using assms(5) that by (rule callbacks_return)
    with c2 have h: "?h ?s = Some (Inl e, s')" unfolding thenP_eq_Inl by blast
    then obtain e2 s2 where e2: "?hs ?s = Some (Inl e2, s2)"
      by (auto simp: catchP_def split: option.splits sum.splits)
    show ?thesis
    proof (cases "isinstance e2 RedisError")
      case True
      with h e2 have "thenP (total (conn_disconnect N c)) (raiseP e2 :: (_, unit) run) s2 = Some (Inl e, s')" by simp
      then show ?thesis
        using disconnect_closes [OF q] by (auto simp: thenP_eq_Inl total_def)
    next
      case False
      with h e2 have "e = e2" by simp
      with False assms(2) show ?thesis by simp
    qed
  qed
qed

text \<open>only errors of the library are handled so: when the credential provider raises anything else, the
  socket stays open although nothing was authenticated, and the next connect returns at once.\<close>

theorem provider_error_leaves_half_open:
  assumes "\<not> cx_sock s" "cf_connect_func c = None" "cf_provider c = Some m"
    and "nt_connect N (cx_world s) = (Inr (), w1)" "nt_parser_start N w1 = (Inr (), w2)"
    and "m w2 = (Inl e, w3)" "\<not> isinstance e RedisError"
  shows "\<exists>s'. connect N c (Suc n) s = Some (Inl e, s') \<and> cx_sock s' \<and> connect N c (Suc n) s' = Some (Inr (), s')"
proof -
  have "connect N c (Suc n) s = Some (Inl e, s\<lparr>cx_sock := True, cx_world := w3\<rparr>)"
    using assms
    by (simp add: connect_with_def open_socket_def conn_on_connect_def call_with_retryP_Inr auth_args_def total_def on_net_def)
  then show ?thesis by (simp add: connect_with_def total_def)
qed

section \<open>Reading\<close>

text \<open>a failed read closes the connection when it is told to and raises the library's errors for those of the
  socket, while an error reply of the server is raised and keeps the connection open.\<close>

theorem read_errors:
  assumes "nt_read N (cx_parser3 s) d (if cf_protocol c = 3 then Some push else None) (cx_world s) = (r, w)"
    and "quiet_stop N" "conn_read_response N c d b push s = (res, s')"
    and "\<And>t. \<exists>u t'. conn_disconnect N c t = (Inr u, t')"
  shows "(\<forall>e. r = Inl e \<longrightarrow> cx_sock s' = (cx_sock s \<and> \<not> b) \<and>
           res = Inl (if isinstance e SocketTimeout then Exc TimeoutError (''Timeout reading from '' @ cf_host_error c)
                      else if isinstance e OSError then reading_error c e else e)) \<and>
         (\<forall>v. r = Inr v \<longrightarrow> cx_sock s' = cx_sock s \<and> (\<forall>e. v = PExc e \<and> isinstance e ResponseError \<longrightarrow> res = Inl e) \<and>
            (\<not> error_reply v \<longrightarrow> res = Inr v))"
proof (cases r)
  case (Inr v)
  then show ?thesis
    using assms(1,3)
    by (auto simp: conn_read_response_def catchS_def bindS_def on_net_def thenS_def error_reply_def
        split: pyval.splits if_splits prod.splits sum.splits)
next
  case (Inl e)
  let ?s = "s\<lparr>cx_world := w\<rparr>"
  obtain u t' where d: "conn_disconnect N c ?s = (Inr u, t')" using assms(4) by blast
  then have "\<not> cx_sock t'" using disconnect_closes [OF assms(2)] by blast
  with Inl d show ?thesis
    using assms(1,3)
    by (cases b) (auto simp: conn_read_response_def catchS_def bindS_def on_net_def thenS_def disconnect_if_def split: if_splits)
qed

section \<open>A health check before authentication\<close>

lemma disconnect_calm:
  assumes "\<And>w. nt_parser_stop N w = (Inr (), w)" "\<And>w. nt_shutdown N w = (Inr (), w)" "\<And>w. nt_close N w = (Inr (), w)"
  shows "conn_disconnect N c s = (Inr (), s\<lparr>cx_sock := False\<rparr>)"
  using assms by (simp add: conn_disconnect_def on_net_def thenS_def bindS_def whenS_def swallow_def catchS_def)

text \<open>over RESP3 the HELLO that carries the credentials is sent with a health check: on a new connection
  with health checks and a password the first command is PING, before anything is authenticated, and the
  server's refusal of it (NOAUTH) makes connecting fail without HELLO being sent.\<close>

theorem resp3_ping_before_auth:
  assumes "\<not> cx_sock s" "\<not> cx_parser3 s" "cf_connect_func c = None" "cf_provider c = None"
    and "static_auth c \<noteq> []" "cf_protocol c = 3" "cf_health_check_interval c \<noteq> 0"
    and "nt_connect N (cx_world s) = (Inr (), w1)" "cx_next_check s < nt_now N w1"
    and "nt_pack N (PStr ''HELLO'' # PInt 3 # PStr ''AUTH'' #
           strs (if length (static_auth c) = 1 then ''default'' # static_auth c else static_auth c)) = Inr hello"
    and "nt_pack N [PStr ''PING''] = Inr ping" "mapS (nt_sendall N) ping w1 = (Inr us, w2)"
    and "nt_read N True False (Some False) w2 = (Inl (Exc AuthenticationError msg), w3)"
    and "cf_retry c = new_retry NoBackoff 0"
    and "\<And>w. nt_parser_start N w = (Inr (), w)" "\<And>w. nt_parser_stop N w = (Inr (), w)"
    and "\<And>w. nt_shutdown N w = (Inr (), w)" "\<And>w. nt_close N w = (Inr (), w)"
  shows "connect N c (Suc n) s = Some (Inl (Exc AuthenticationError msg), s\<lparr>cx_parser3 := True, cx_world := w3, cx_sock := False\<rparr>)"
proof -
  let ?cn = "connect N c n" and ?s = "s\<lparr>cx_world := w1, cx_sock := True, cx_parser3 := True\<rparr>" and ?e = "Exc AuthenticationError msg"
  let ?t = "s\<lparr>cx_world := w3, cx_sock := False, cx_parser3 := True\<rparr>"
  note calm = disconnect_calm [OF assms(16-18)]
  have sent: "send_items N c ping ?s = (Inr (), ?s\<lparr>cx_world := w2\<rparr>)"
    by (rule send_items_ok [OF assms(12)]) simp_all
  have rd: "read N c (?s\<lparr>cx_world := w2\<rparr>) = Some (Inl ?e, ?t)"
    using assms(6,13) calm
    by (simp add: read_def conn_read_response_def total_def catchS_def bindS_def on_net_def disconnect_if_def thenS_def)
  have p: "send_ping N c ?cn ?s = Some (Inl ?e, ?t)"
    using assms(11) sent rd
    by (simp add: send_ping_def pack_send_def send_unchecked_def bindP_def thenP_def total_def)
  have fail: "total (conn_disconnect N c) ?t = Some (Inr (), ?t)"
    using calm by (simp add: total_def)
  have health: "check_health N c ?cn ?s = Some (Inl ?e, ?t)"
    using assms(7,9,14) p fail
    by (simp add: check_health_def bindP_def total_def call_with_retryP_once new_retry_def default_supported_errors_def isinstance_any_def)
  have "send_with N c ?cn True (PStr ''HELLO'' # PInt 3 # PStr ''AUTH'' #
           strs (if length (static_auth c) = 1 then ''default'' # static_auth c else static_auth c)) ?s = Some (Inl ?e, ?t)"
    using assms(10) health
    by (simp add: send_with_def pack_send_def send_checked_def bindP_def thenP_def total_def)
  then have "authenticate N c ?cn (static_auth c) (s\<lparr>cx_world := w1, cx_sock := True\<rparr>) = Some (Inl ?e, ?t)"
    using assms(2,5,6,15)
    by (simp add: authenticate_def ask_def use_resp3_parser_def on_net_def bindP_def thenP_def total_def strs_def)
  then have "conn_on_connect N c ?cn (s\<lparr>cx_world := w1, cx_sock := True\<rparr>) = Some (Inl ?e, ?t)"
    using assms(4,15)
    by (simp add: conn_on_connect_def on_net_def bindP_def thenP_def total_def auth_args_static)
  then show ?thesis
    using assms(1,3,8) fail
    by (simp add: connect_with_def open_socket_def call_with_retryP_Inr total_def on_net_def)
qed

section \<open>The protocol argument\<close>

text \<open>a protocol that is no number does not raise the ConnectionError of its handler: the \<open>finally\<close>
  clause reads the variable the failed conversion did not set.\<close>

theorem bad_protocol_raises_unbound:
  assumes "to_int v = Inl e" "\<not> isinstance e TypeError" "\<not> ((filled username \<or> filled password) \<and> provider \<noteq> None)"
  shows "\<exists>m. new_config pid db client_name lib_name lib_version provider username password retry on_error on_timeout interval func v host
     = Inl (Exc UnboundLocalError m)"
  using assms by (auto simp: new_config_def protocol_arg_def)

theorem bad_protocol_raises_unbound_witness:
  "\<exists>m. new_config 1 0 None None None None None None None None False 0 None (PStr ''abc'') ''localhost:6379''
     = (Inl (Exc UnboundLocalError m) :: exc + unit conn_config)"
  by (rule bad_protocol_raises_unbound [where e = "Exc ValueError ''invalid literal for int()''"]) code_simp+

section \<open>Examples\<close>

text \<open>A server given by its answers; what is sent to it is recorded.\<close>

record net_world =
  nw_answers :: "(exc + pyval) list"
  nw_sent :: "pyval list"

definition scripted_net :: "net_world net" where
  "scripted_net = \<lparr>
     nt_connect = retS (), nt_parser_start = retS (), nt_parser_stop = retS (), nt_shutdown = retS (), nt_close = retS (),
     nt_sendall = (\<lambda>i. modS (\<lambda>w. w\<lparr>nw_sent := nw_sent w @ [i]\<rparr>)),
     nt_read = (\<lambda>_ _ _ w. case nw_answers w of [] \<Rightarrow> (Inl (Exc OSError ''closed''), w) | r # rs \<Rightarrow> (r, w\<lparr>nw_answers := rs\<rparr>)),
     nt_can_read = (\<lambda>_. retS True), nt_pack = pack strict_encoder 6000, nt_now = (\<lambda>_. 1), nt_pid = (\<lambda>_. 7),
     nt_rnd = (\<lambda>_. 0), nt_sleep = (\<lambda>_ w. w), nt_callback = (\<lambda>_. None)\<rparr>"

definition example_config :: "int \<Rightarrow> rat \<Rightarrow> net_world conn_config" where
  "example_config protocol interval = \<lparr>cf_pid = 7, cf_db = 2, cf_client_name = None, cf_lib_name = Some ''redis-py'', cf_lib_version = None,
     cf_provider = None, cf_username = None, cf_password = Some ''secret'', cf_retry_on_error = [], cf_retry = new_retry NoBackoff 0,
     cf_health_check_interval = interval, cf_connect_func = None, cf_protocol = protocol, cf_host_error = ''localhost:6379''\<rparr>"

abbreviation crlf_lines :: "string list \<Rightarrow> pyval" where
  "crlf_lines ls \<equiv> PBytes (concat (map (\<lambda>l. l @ CRLF) ls))"

definition example_sent :: "pyval list" where
  "example_sent = [crlf_lines [''*1'', ''$4'', ''PING''],
     crlf_lines [''*5'', ''$5'', ''HELLO'', ''$1'', ''3'', ''$4'', ''AUTH'', ''$7'', ''default'', ''$5'', ''token''],
     crlf_lines [''*4'', ''$6'', ''CLIENT'', ''$7'', ''SETINFO'', ''$8'', ''LIB-NAME'', ''$8'', ''redis-py''],
     crlf_lines [''*2'', ''$6'', ''SELECT'', ''$1'', ''2'']]"

definition example_answers :: "(exc + pyval) list" where
  "example_answers = [Inr (PBytes ''PONG''), Inr (PDict [(PBytes ''proto'', PInt 3)]),
     Inr (PExc (Exc ResponseError ''unknown subcommand'')), Inr (PBytes ''OK'')]"

text \<open>RESP3 with health checks and a provider of a token: PING, HELLO with the token, the name, which is refused, and the database.\<close>

theorem connect_performs_handshake_witness:
  "let s = new_connection \<lparr>nw_answers = example_answers, nw_sent = []\<rparr>;
       c = (example_config 3 30)\<lparr>cf_password := None, cf_provider := Some (retS [''token''])\<rparr>
   in \<exists>m. connect scripted_net c (Suc 0) s
     = Some (Inr (), s\<lparr>cx_sock := True, cx_parser3 := True, cx_metadata := m, cx_next_check := 31,
         cx_world := \<lparr>nw_answers = [], nw_sent = example_sent\<rparr>\<rparr>)"
proof -
  let ?w = "\<lparr>nw_answers = example_answers, nw_sent = []\<rparr>"
  let ?s = "new_connection ?w"
  let ?c = "(example_config 3 30)\<lparr>cf_password := None, cf_provider := Some (retS [''token''])\<rparr>"
  have c: "cf_connect_func ?c = None" "cf_protocol ?c = 3" "given_credentials ?c ?w = (Inr [''token''], ?w)"
    by (simp_all add: example_config_def given_credentials_def)
  have "talks scripted_net ?c True (handshake ?c [''token'']) (0, ?w) (31, \<lparr>nw_answers = [], nw_sent = example_sent\<rparr>)" by code_simp
  moreover have "nt_connect scripted_net ?w = (Inr (), ?w)" "\<And>w. nt_parser_start scripted_net w = (Inr (), w)" by (simp_all add: scripted_net_def)
  moreover have new: "\<not> cx_sock ?s" "\<not> cx_parser3 ?s" "cx_callbacks ?s = []" "cx_world ?s = ?w" "cx_next_check ?s = 0" by (simp_all add: new_connection_def)
  ultimately obtain m where "connect scripted_net ?c (Suc 0) ?s = Some (Inr (), ?s\<lparr>cx_sock := True, cx_parser3 := cf_protocol ?c = 3,
      cx_metadata := m, cx_next_check := 31, cx_world := \<lparr>nw_answers = [], nw_sent = example_sent\<rparr>\<rparr>)"
    using connect_performs_handshake [of ?s ?c scripted_net ?w "[''token'']" ?w 31 "\<lparr>nw_answers = [], nw_sent = example_sent\<rparr>" 0] c
    unfolding Let_def by auto
  then show ?thesis unfolding Let_def c(2) by (intro exI [of _ m]) simp
qed

lemma connect_refused:
  assumes "\<not> cx_sock s" "nt_connect N (cx_world s) = (Inl e, w)" "\<not> isinstance_any e (rt_supported (cf_retry c))"
    and "isinstance e OSError" "\<not> isinstance e SocketTimeout"
  shows "connect N c (Suc n) s = Some (Inl (Exc ConnectionError (format_error_message (cf_host_error c) [exc_msg e])), s\<lparr>cx_world := w\<rparr>)"
  using assms by (simp add: connect_with_def open_socket_def call_with_retryP_unsupported total_def on_net_def)

theorem failed_connect_leaves_closed_witness:
  "\<not> cx_sock ((new_connection \<lparr>nw_answers = [], nw_sent = []\<rparr>)\<lparr>cx_world := \<lparr>nw_answers = [], nw_sent = []\<rparr>\<rparr>)"
  by (rule failed_connect_leaves_closed [OF connect_refused [where N = "scripted_net\<lparr>nt_connect := raiseS (Exc OSError ''refused'')\<rparr>"
        and c = "example_config 2 0" and e = "Exc OSError ''refused''" and n = 0]])
    (simp_all add: scripted_net_def example_config_def new_connection_def new_retry_def default_supported_errors_def isinstance_any_def
       exc_le.simps subclass_RedisError_iff)

theorem provider_error_leaves_half_open_witness:
  "\<exists>s'. connect scripted_net ((example_config 2 0)\<lparr>cf_provider := Some (raiseS (Exc ValueError ''no token''))\<rparr>) (Suc 0)
      (new_connection \<lparr>nw_answers = [], nw_sent = []\<rparr>) = Some (Inl (Exc ValueError ''no token''), s') \<and> cx_sock s' \<and>
    connect scripted_net ((example_config 2 0)\<lparr>cf_provider := Some (raiseS (Exc ValueError ''no token''))\<rparr>) (Suc 0) s' = Some (Inr (), s')"
  by (rule provider_error_leaves_half_open [where ?w1.0 = "\<lparr>nw_answers = [], nw_sent = []\<rparr>" and ?w2.0 = "\<lparr>nw_answers = [], nw_sent = []\<rparr>"
        and ?w3.0 = "\<lparr>nw_answers = [], nw_sent = []\<rparr>" and m = "raiseS (Exc ValueError ''no token'')"])
    (simp_all add: scripted_net_def example_config_def new_connection_def subclass_RedisError_iff)

theorem resp3_ping_before_auth_witness:
  "let s = new_connection \<lparr>nw_answers = [Inl (Exc AuthenticationError ''NOAUTH'')], nw_sent = []\<rparr>
   in connect scripted_net (example_config 3 30) (Suc 0) s = Some (Inl (Exc AuthenticationError ''NOAUTH''),
        s\<lparr>cx_parser3 := True, cx_world := \<lparr>nw_answers = [], nw_sent = [crlf_lines [''*1'', ''$4'', ''PING'']]\<rparr>, cx_sock := False\<rparr>)"
  unfolding Let_def
  by (rule resp3_ping_before_auth
      [where ?w1.0 = "\<lparr>nw_answers = [Inl (Exc AuthenticationError ''NOAUTH'')], nw_sent = []\<rparr>"
         and ?w2.0 = "\<lparr>nw_answers = [Inl (Exc AuthenticationError ''NOAUTH'')], nw_sent = [crlf_lines [''*1'', ''$4'', ''PING'']]\<rparr>"
         and hello = "[crlf_lines [''*5'', ''$5'', ''HELLO'', ''$1'', ''3'', ''$4'', ''AUTH'', ''$7'', ''default'', ''$6'', ''secret'']]"
         and ping = "[crlf_lines [''*1'', ''$4'', ''PING'']]" and us = "[()]"])
    ((simp add: scripted_net_def example_config_def new_connection_def; fail) | code_simp)+

theorem read_errors_witness:
  "let s = (new_connection \<lparr>nw_answers = [], nw_sent = []\<rparr>)\<lparr>cx_sock := True\<rparr> in
   (\<forall>e. (Inl (Exc OSError ''closed'') :: exc + pyval) = Inl e \<longrightarrow> cx_sock (s\<lparr>cx_sock := False\<rparr>) = (cx_sock s \<and> \<not> True) \<and>
      Inl (reading_error (example_config 2 0) (Exc OSError ''closed'')) =
        (Inl (if isinstance e SocketTimeout then Exc TimeoutError (''Timeout reading from '' @ cf_host_error (example_config 2 0))
              else if isinstance e OSError then reading_error (example_config 2 0) e else e) :: exc + pyval)) \<and>
   (\<forall>v. (Inl (Exc OSError ''closed'') :: exc + pyval) = Inr v \<longrightarrow> cx_sock (s\<lparr>cx_sock := False\<rparr>) = cx_sock s \<and>
      (\<forall>e. v = PExc e \<and> isinstance e ResponseError \<longrightarrow> Inl (reading_error (example_config 2 0) (Exc OSError ''closed'')) = (Inl e :: exc + pyval)) \<and>
      (\<not> error_reply v \<longrightarrow> Inl (reading_error (example_config 2 0) (Exc OSError ''closed'')) = Inr v))"
  unfolding Let_def
  by (rule read_errors [where N = scripted_net and d = False and push = False and w = "\<lparr>nw_answers = [], nw_sent = []\<rparr>"])
    ((simp add: scripted_net_def quiet_stop_def conn_disconnect_def on_net_def thenS_def bindS_def whenS_def swallow_def catchS_def; fail) | code_simp)+

end
