(* ===== verification/Url.thy ===== *)
theory Url
  imports PyVal
begin

text \<open>
  \<open>parse_url\<close> and \<open>to_bool\<close> (\<open>redis/connection.py\<close>) with what they use of \<open>urllib.parse\<close>: splitting
  a URL into its parts, percent decoding and query strings. URLs are ASCII text; bracketed hosts are read,
  the Unicode checks of the library on other hosts are not modelled.
\<close>

section \<open>Percent encoding\<close>

definition hex_val :: "char \<Rightarrow> nat option" where
  "hex_val c = (let n = of_char c in
     if 48 \<le> n \<and> n \<le> 57 then Some (n - 48)
     else if 65 \<le> n \<and> n \<le> 70 then Some (n - 55)
     else if 97 \<le> n \<and> n \<le> 102 then Some (n - 87)
     else None)"

definition hex_char :: "nat \<Rightarrow> char" where
  "hex_char n = char_of (if n < 10 then n + 48 else n + 55)"

fun unquote_bytes :: "string \<Rightarrow> string" where
  "unquote_bytes (c # a # b # cs) =
     (if c = CHR ''%'' then
        (case (hex_val a, hex_val b) of
           (Some x, Some y) \<Rightarrow> char_of (16 * x + y) # unquote_bytes cs
         | _ \<Rightarrow> c # unquote_bytes (a # b # cs))
      else c # unquote_bytes (a # b # cs))"
| "unquote_bytes cs = cs"

definition percent_unquote :: "string \<Rightarrow> string" where
  "percent_unquote s = utf8_replace (unquote_bytes s)"

text \<open>Encoding every byte, as a caller may.\<close>

fun percent_quote :: "string \<Rightarrow> string" where
  "percent_quote [] = []"
| "percent_quote (c # cs) = CHR ''%'' # hex_char (of_char c div 16) # hex_char (of_char c mod 16) # percent_quote cs"

section \<open>Splitting\<close>

text \<open>\<open>s.partition(c)\<close> without the separator, \<open>None\<close> for the part behind it when there is none.\<close>

definition partition1 :: "char \<Rightarrow> string \<Rightarrow> string \<times> string option" where
  "partition1 c s = (case split1 c s of None \<Rightarrow> (s, None) | Some (a, b) \<Rightarrow> (a, Some b))"

record split_url =
  ur_scheme :: string
  ur_username :: "string option"
  ur_password :: "string option"
  ur_hostname :: "string option"
  ur_port :: "string option"
  ur_path :: string
  ur_query :: string

text \<open>The network location: user information before the last \<open>@\<close>, then host and port.\<close>

definition host_info :: "string \<Rightarrow> string \<times> string option" where
  "host_info s = (case split1 (CHR ''['') s of
     Some (_, t) \<Rightarrow>
       (case partition1 (CHR '']'') t of (h, r) \<Rightarrow>
          (h, case r of None \<Rightarrow> None | Some r \<Rightarrow> snd (partition1 (CHR '':'') r)))
   | None \<Rightarrow> partition1 (CHR '':'') s)"

definition lower_host :: "string \<Rightarrow> string option" where
  "lower_host h = (if h = [] then None else Some (case partition1 (CHR ''%'') h of
     (a, None) \<Rightarrow> lower a | (a, Some z) \<Rightarrow> lower a @ CHR ''%'' # z))"

definition nonempty :: "string option \<Rightarrow> string option" where
  "nonempty s = (if s = Some [] then None else s)"

definition urlparse :: "string \<Rightarrow> string \<Rightarrow> exc + split_url" where
  "urlparse scheme rest =
     (let (netloc, tail) = (takeWhile (\<lambda>c. c \<notin> set ''/?#'') rest, dropWhile (\<lambda>c. c \<notin> set ''/?#'') rest);
          (body, _) = partition1 (CHR ''#'') tail;
          (path, query) = partition1 (CHR ''?'') body;
          (user, info) = (case rsplit1 (CHR ''@'') netloc of None \<Rightarrow> (None, netloc) | Some (u, i) \<Rightarrow> (Some (partition1 (CHR '':'') u), i));
          (host, port) = host_info info
      in if (CHR ''['' \<in> set netloc) \<noteq> (CHR '']'' \<in> set netloc) then Inl (Exc ValueError ''Invalid IPv6 URL'')
         else Inr \<lparr>ur_scheme = scheme, ur_username = map_option fst user, ur_password = Option.bind user snd,
            ur_hostname = lower_host host, ur_port = nonempty port, ur_path = path,
            ur_query = (case query of None \<Rightarrow> [] | Some q \<Rightarrow> q)\<rparr>)"

definition url_port :: "split_url \<Rightarrow> exc + int option" where
  "url_port u = (case ur_port u of
     None \<Rightarrow> Inr None
   | Some p \<Rightarrow>
       (case digits_val p of
          Some n \<Rightarrow> if list_all is_digit p then (if n \<le> 65535 then Inr (Some (int n)) else Inl (Exc ValueError ''Port out of range 0-65535''))
                    else Inl (Exc ValueError ''Port could not be cast to integer value'')
        | None \<Rightarrow> Inl (Exc ValueError ''Port could not be cast to integer value'')))"

text \<open>\<open>parse_qs\<close>: blank values are dropped, repeated names collect their values.\<close>

definition plus_to_space :: "string \<Rightarrow> string" where
  "plus_to_space s = map (\<lambda>c. if c = CHR ''+'' then CHR '' '' else c) s"

definition parse_qs :: "string \<Rightarrow> (string, string list) dict" where
  "parse_qs q =
     foldl (\<lambda>d nv. case split1 (CHR ''='') nv of
         None \<Rightarrow> d
       | Some (n, v) \<Rightarrow>
           if v = [] then d
           else (let k = percent_unquote (plus_to_space n); x = percent_unquote (plus_to_space v) in
                 dict_set k (case dict_get d k of None \<Rightarrow> [x] | Some xs \<Rightarrow> xs @ [x]) d))
       [] (if q = [] then [] else split_char (CHR ''&'') q)"

section \<open>parse_url\<close>

definition FALSE_STRINGS :: "string list" where
  "FALSE_STRINGS = [''0'', ''F'', ''FALSE'', ''N'', ''NO'']"

definition to_bool :: "pyval \<Rightarrow> pyval" where
  "to_bool value = (case value of
     PNone \<Rightarrow> PNone
   | PStr s \<Rightarrow> if s = [] then PNone else if upper s \<in> set FALSE_STRINGS then PBool False else PBool (truthy value)
   | _ \<Rightarrow> PBool (truthy value))"

datatype url_value = UVal pyval | UClass string

definition URL_QUERY_ARGUMENT_PARSERS :: "(string, string \<Rightarrow> exc + pyval) dict" where
  "URL_QUERY_ARGUMENT_PARSERS =
     (let as_int = (\<lambda>s. bindE (to_int (PStr s)) (\<lambda>n. Inr (PInt n)));
          as_float = (\<lambda>s. bindE (to_float (PStr s)) (\<lambda>f. Inr (PFloat f)));
          as_bool = (\<lambda>s. Inr (to_bool (PStr s)));
          as_list = (\<lambda>s. Inr (PList (map (\<lambda>c. PStr [c]) s)))
      in [(''db'', as_int), (''socket_timeout'', as_float), (''socket_connect_timeout'', as_float), (''socket_keepalive'', as_bool),
          (''retry_on_timeout'', as_bool), (''retry_on_error'', as_list), (''max_connections'', as_int),
          (''health_check_interval'', as_int), (''ssl_check_hostname'', as_bool), (''timeout'', as_float)])"

definition bad_scheme :: exc where
  "bad_scheme = Exc ValueError ''Redis URL must specify one of the following schemes (redis://, rediss://, unix://)''"

text \<open>One item of the query; only the first value of a name counts, and it is decoded once more.\<close>

definition query_item :: "string \<times> string list \<Rightarrow> (string, url_value) dict \<Rightarrow> exc + (string, url_value) dict" where
  "query_item = (\<lambda>(name, value) kwargs.
     if value = [] then Inr kwargs
     else (let v = percent_unquote (hd value) in
       case dict_get URL_QUERY_ARGUMENT_PARSERS name of
         None \<Rightarrow> Inr (dict_set name (UVal (PStr v)) kwargs)
       | Some parser \<Rightarrow>
           (case parser v of
              Inr x \<Rightarrow> Inr (dict_set name (UVal x) kwargs)
            | Inl e \<Rightarrow> if isinstance e TypeError \<or> isinstance e ValueError
                then Inl (Exc ValueError (''Invalid value for '' @ [CHR 39] @ name @ [CHR 39] @ '' in connection URL.''))
                else Inl e)))"

fun query_items :: "(string \<times> string list) list \<Rightarrow> (string, url_value) dict \<Rightarrow> exc + (string, url_value) dict" where
  "query_items [] kwargs = Inr kwargs"
| "query_items (i # is) kwargs = bindE (query_item i kwargs) (query_items is)"

definition put_str :: "string \<Rightarrow> string option \<Rightarrow> (string, url_value) dict \<Rightarrow> (string, url_value) dict" where
  "put_str k v d = (case v of Some (c # cs) \<Rightarrow> dict_set k (UVal (PStr (percent_unquote (c # cs)))) d | _ \<Rightarrow> d)"

definition path_db :: "string \<Rightarrow> (string, url_value) dict \<Rightarrow> (string, url_value) dict" where
  "path_db path d =
     (if path \<noteq> [] \<and> \<not> dict_has d ''db'' then
        (case py_int (filter (\<lambda>c. c \<noteq> CHR ''/'') (percent_unquote path)) of
           Some n \<Rightarrow> dict_set ''db'' (UVal (PInt n)) d
         | None \<Rightarrow> d)
      else d)"

definition url_options :: "split_url \<Rightarrow> exc + (string, url_value) dict" where
  "url_options u =
     bindE (query_items (parse_qs (ur_query u)) []) (\<lambda>kwargs.
     let d = put_str ''password'' (ur_password u) (put_str ''username'' (ur_username u) kwargs) in
     if ur_scheme u = ''unix'' then
       Inr (dict_set ''connection_class'' (UClass ''UnixDomainSocketConnection'') (put_str ''path'' (nonempty (Some (ur_path u))) d))
     else
       bindE (url_port u) (\<lambda>port.
       let d = put_str ''host'' (ur_hostname u) d;
           d = (case port of Some p \<Rightarrow> if p = 0 then d else dict_set ''port'' (UVal (PInt p)) d | None \<Rightarrow> d);
           d = path_db (ur_path u) d
       in Inr (if ur_scheme u = ''rediss'' then dict_set ''connection_class'' (UClass ''SSLConnection'') d else d)))"

definition parse_url :: "string \<Rightarrow> exc + (string, url_value) dict" where
  "parse_url url =
     (let go = (\<lambda>scheme. bindE (urlparse scheme (drop (length scheme + 3) url)) url_options) in
      if starts_with ''redis://'' url then go ''redis''
      else if starts_with ''rediss://'' url then go ''rediss''
      else if starts_with ''unix://'' url then go ''unix''
      else Inl bad_scheme)"

section \<open>Encoding and decoding\<close>

lemma hex_val_char: "n < 16 \<Longrightarrow> hex_val (hex_char n) = Some n"
  by (auto simp: hex_val_def hex_char_def Let_def)

lemma unquote_bytes_quote: "unquote_bytes (percent_quote s @ t) = s @ unquote_bytes t"
proof (induction s)
  case (Cons c s)
  have "(of_char c :: nat) < 256" by simp
  then have "(of_char c :: nat) div 16 < 16" "(of_char c :: nat) mod 16 < 16" by linarith+
  then show ?case using Cons by (simp add: hex_val_char)
qed simp

lemma percent_unquote_quote: "utf8_valid s \<Longrightarrow> percent_unquote (percent_quote s) = s"
  using unquote_bytes_quote [of s "[]"] by (simp add: percent_unquote_def)

lemma unquote_bytes_plain: "CHR ''%'' \<notin> set s \<Longrightarrow> unquote_bytes s = s"
  by (induction s rule: unquote_bytes.induct) auto

lemma percent_unquote_plain: "CHR ''%'' \<notin> set s \<Longrightarrow> utf8_valid s \<Longrightarrow> percent_unquote s = s"
  by (simp add: percent_unquote_def unquote_bytes_plain)

definition hex_digit :: "char \<Rightarrow> bool" where
  "hex_digit c = (hex_val c \<noteq> None)"

lemma quoted_chars: "c \<in> set (percent_quote s) \<Longrightarrow> c = CHR ''%'' \<or> hex_digit c"
proof (induction s)
  case (Cons d s)
  have "(of_char d :: nat) < 256" by simp
  then have "(of_char d :: nat) div 16 < 16" "(of_char d :: nat) mod 16 < 16" by linarith+
  then show ?case using Cons hex_val_char by (auto simp: hex_digit_def)
qed simp

lemma hex_digit_special [simp]:
  "\<not> hex_digit (CHR '':'')" "\<not> hex_digit (CHR ''@'')" "\<not> hex_digit (CHR ''/'')" "\<not> hex_digit (CHR ''?'')"
  "\<not> hex_digit (CHR ''#'')" "\<not> hex_digit (CHR ''['')" "\<not> hex_digit (CHR '']'')" "\<not> hex_digit (CHR ''&'')"
  "\<not> hex_digit (CHR ''='')" "\<not> hex_digit (CHR ''+'')"
  by (simp_all add: hex_digit_def hex_val_def)

lemma quoted_no_special:
  assumes "c \<in> set '':@/?#[]&=+''"
  shows "c \<notin> set (percent_quote s)"
proof
  assume "c \<in> set (percent_quote s)"
  with quoted_chars have "c = CHR ''%'' \<or> hex_digit c" .
  with assms show False by auto
qed

lemma quote_nonempty [simp]: "percent_quote s = [] \<longleftrightarrow> s = []"
  by (cases s) simp_all

section \<open>Round trip\<close>

definition host_char :: "char \<Rightarrow> bool" where
  "host_char c = (c \<notin> set '':@/?#[]%'')"

definition render_url :: "string \<Rightarrow> string \<Rightarrow> string \<Rightarrow> nat \<Rightarrow> nat \<Rightarrow> string" where
  "render_url user password host port db =
     ''redis://'' @ percent_quote user @ '':'' @ percent_quote password @ ''@'' @ host @ '':'' @ dec_nat port @ ''/'' @ dec_nat db"

lemma dec_nat_no_special: "c \<in> set '':@/?#[]%'' \<Longrightarrow> c \<notin> set (dec_nat n)"
proof
  assume "c \<in> set (dec_nat n)" and c: "c \<in> set '':@/?#[]%''"
  then have "is_digit c" by (simp add: dec_nat_digits)
  with c show False by (auto simp: is_digit_def)
qed

lemma takeWhile_netloc:
  assumes "\<And>c. c \<in> set xs \<Longrightarrow> P c" "\<not> P y"
  shows "takeWhile P (xs @ y # ys) = xs" "dropWhile P (xs @ y # ys) = y # ys"
  using assms by (simp_all add: takeWhile_append dropWhile_append)

lemma urlparse_render:
  assumes "host \<noteq> []" "list_all host_char host" "lower host = host"
  shows "urlparse ''redis'' (drop 8 (render_url user password host port db))
     = Inr \<lparr>ur_scheme = ''redis'', ur_username = Some (percent_quote user), ur_password = Some (percent_quote password),
         ur_hostname = Some host, ur_port = Some (dec_nat port), ur_path = CHR ''/'' # dec_nat db, ur_query = []\<rparr>"
proof -
  let ?u = "percent_quote user" and ?p = "percent_quote password" and ?d = "dec_nat port"
  let ?info = "?u @ CHR '':'' # ?p" and ?hp = "host @ CHR '':'' # ?d"
  let ?net = "?info @ CHR ''@'' # ?hp"
  have h: "c \<notin> set host" if "c \<in> set '':@/?#[]%''" for c
    using assms(2) that by (auto simp: list_all_iff host_char_def)
  have special: "c \<notin> set ?net" if "c \<in> set ''/?#[]''" for c
  proof -
    have c: "c \<in> set '':@/?#[]%''" "c \<in> set '':@/?#[]&=+''" "c \<noteq> CHR '':''" "c \<noteq> CHR ''@''" using that by auto
    show ?thesis using c(3,4) h [OF c(1)] quoted_no_special [OF c(2)] dec_nat_no_special [OF c(1)] by simp
  qed
  have n: "c \<notin> set ''/?#''" if "c \<in> set ?net" for c
  proof
    assume "c \<in> set ''/?#''"
    then have "c \<in> set ''/?#[]''" by auto
    with special that show False by blast
  qed
  have br: "CHR ''['' \<notin> set ?net" "CHR '']'' \<notin> set ?net"
    by (rule special, simp)+
  have split: "takeWhile (\<lambda>c. c \<notin> set ''/?#'') (?net @ CHR ''/'' # dec_nat db) = ?net"
      "dropWhile (\<lambda>c. c \<notin> set ''/?#'') (?net @ CHR ''/'' # dec_nat db) = CHR ''/'' # dec_nat db"
    using n by (intro takeWhile_netloc; simp)+
  have at: "rsplit1 (CHR ''@'') ?net = Some (?info, ?hp)"
    using h [of "CHR ''@''"] dec_nat_no_special [of "CHR ''@''"] by (intro rsplit1_append) auto
  have ui: "partition1 (CHR '':'') ?info = (?u, Some ?p)"
    using quoted_no_special [of "CHR '':''" user] by (simp add: partition1_def split1_append)
  have hi: "host_info ?hp = (host, Some ?d)"
    using h [of "CHR '':''"] br by (simp add: host_info_def partition1_def split1_append split1_None_iff [THEN iffD2])
  have lh: "lower_host host = Some host"
    using assms(1,3) h [of "CHR ''%''"] by (simp add: lower_host_def partition1_def split1_None_iff [THEN iffD2])
  have tl: "partition1 (CHR ''#'') (CHR ''/'' # dec_nat db) = (CHR ''/'' # dec_nat db, None)"
      "partition1 (CHR ''?'') (CHR ''/'' # dec_nat db) = (CHR ''/'' # dec_nat db, None)"
    using dec_nat_no_special [of "CHR ''#''" db] dec_nat_no_special [of "CHR ''?''" db]
    by (simp_all add: partition1_def split1_None_iff [THEN iffD2])
  have "drop 8 (render_url user password host port db) = ?net @ CHR ''/'' # dec_nat db"
    by (simp add: render_url_def)
  then show ?thesis
    using split at ui hi lh tl br by (simp add: urlparse_def nonempty_def)
qed

lemma digit_ascii: "is_digit c \<Longrightarrow> (of_char c :: nat) < 128"
  unfolding is_digit_def by linarith

text \<open>a URL written with percent-encoded credentials is read back: the options are exactly the
  user name, the password, the host, the port and the database it was made from.\<close>

theorem parse_url_roundtrip:
  assumes "user \<noteq> []" "utf8_valid user" "password \<noteq> []" "utf8_valid password"
    and "host \<noteq> []" "list_all host_char host" "lower host = host" "utf8_valid host" "0 < port" "port \<le> 65535"
  shows "parse_url (render_url user password host port db) =
     Inr [(''username'', UVal (PStr user)), (''password'', UVal (PStr password)), (''host'', UVal (PStr host)),
          (''port'', UVal (PInt (int port))), (''db'', UVal (PInt (int db)))]"
proof -
  let ?u = "\<lparr>ur_scheme = ''redis'', ur_username = Some (percent_quote user), ur_password = Some (percent_quote password),
         ur_hostname = Some host, ur_port = Some (dec_nat port), ur_path = CHR ''/'' # dec_nat db, ur_query = []\<rparr>"
  have sc: "starts_with ''redis://'' (render_url user password host port db)" by (simp add: starts_with_def render_url_def)
  have ps: "put_str k (Some s) d = dict_set k (UVal (PStr (percent_unquote s))) d" if "s \<noteq> []" for k s d
    using that by (cases s) (simp_all add: put_str_def)
  have port: "url_port ?u = Inr (Some (int port))"
    using assms(10) dec_nat_digits by (auto simp: url_port_def list_all_iff)
  have h: "percent_unquote host = host"
    using assms(6,8) by (intro percent_unquote_plain) (auto simp: list_all_iff host_char_def)
  have "CHR ''%'' \<notin> set (CHR ''/'' # dec_nat db)" using dec_nat_no_special [of "CHR ''%''" db] by auto
  then have p: "unquote_bytes (CHR ''/'' # dec_nat db) = CHR ''/'' # dec_nat db" by (rule unquote_bytes_plain)
  have "ascii (CHR ''/'' # dec_nat db)"
    using digit_ascii dec_nat_digits by (auto simp: ascii_def list_all_iff)
  then have "percent_unquote (CHR ''/'' # dec_nat db) = CHR ''/'' # dec_nat db" by (simp add: percent_unquote_def p)
  moreover have "filter (\<lambda>c. c \<noteq> CHR ''/'') (dec_nat db) = dec_nat db"
    using dec_nat_no_special [of "CHR ''/''" db] by (intro filter_True) auto
  ultimately have db: "path_db (CHR ''/'' # dec_nat db) d = dict_set ''db'' (UVal (PInt (int db))) d" if "\<not> dict_has d ''db''" for d
    using that by (simp add: path_db_def)
  show ?thesis
    using sc urlparse_render [OF assms(5-7), of user password port db] port assms(1-5,9)
    by (simp add: parse_url_def url_options_def parse_qs_def ps percent_unquote_quote h db dict_has_def)
qed

theorem parse_url_roundtrip_witness:
  "parse_url (render_url ''app'' ''p:w@d'' ''cache-1'' 6390 2) =
     Inr [(''username'', UVal (PStr ''app'')), (''password'', UVal (PStr ''p:w@d'')), (''host'', UVal (PStr ''cache-1'')),
          (''port'', UVal (PInt (int 6390))), (''db'', UVal (PInt (int 2)))]"
  by (rule parse_url_roundtrip) (simp_all add: ascii_def host_char_def lower_def lower_char_def)

text \<open>A query value is decoded by the query parser and then once more, so what it carries is not what was encoded.\<close>

lemma query_value_decoded_twice:
  assumes "v \<noteq> []" "utf8_valid v" "k \<noteq> []" "utf8_valid k" "dict_get URL_QUERY_ARGUMENT_PARSERS k = None"
  shows "query_items (parse_qs (percent_quote k @ CHR ''='' # percent_quote v)) [] = Inr [(k, UVal (PStr (percent_unquote v)))]"
proof -
  let ?q = "percent_quote k @ CHR ''='' # percent_quote v"
  have plus: "plus_to_space (percent_quote s) = percent_quote s" for s
    using quoted_no_special [of "CHR ''+''" s] by (auto simp: plus_to_space_def intro!: map_idI)
  have "CHR ''&'' \<notin> set ?q" using quoted_no_special [of "CHR ''&''"] by simp
  then have "split_char (CHR ''&'') ?q = [?q]" by (rule split_char_no_sep)
  moreover have "split1 (CHR ''='') ?q = Some (percent_quote k, percent_quote v)"
    using quoted_no_special [of "CHR ''=''" k] by (intro split1_append) simp
  ultimately have "parse_qs ?q = [(k, [v])]"
    using assms(1-4) by (simp add: parse_qs_def plus percent_unquote_quote Let_def)
  then show ?thesis using assms(5) by (simp add: query_item_def)
qed

text \<open>query values are percent-decoded twice: a password given as a query option that contains an encoded
  character sequence arrives as another password, however it is encoded in the URL.\<close>

theorem query_password_decoded_twice:
  assumes "v \<noteq> []" "utf8_valid v" "percent_unquote v \<noteq> v"
  shows "\<exists>p. p \<noteq> v \<and> query_items (parse_qs (percent_quote ''password'' @ CHR ''='' # percent_quote v)) []
     = Inr [(''password'', UVal (PStr p))]"
proof -
  have "dict_get URL_QUERY_ARGUMENT_PARSERS ''password'' = None" "utf8_valid ''password''"
    by (simp_all add: URL_QUERY_ARGUMENT_PARSERS_def Let_def ascii_def)
  then show ?thesis using query_value_decoded_twice [OF assms(1,2), of "''password''"] assms(3) by auto
qed

theorem query_password_decoded_twice_witness:
  "\<exists>p. p \<noteq> ''50%25'' \<and> query_items (parse_qs (percent_quote ''password'' @ CHR ''='' # percent_quote ''50%25'')) []
     = Inr [(''password'', UVal (PStr p))]"
  by (rule query_password_decoded_twice) (simp_all add: ascii_def percent_unquote_def hex_val_def)

end
