(* ===== verification/PubSub.thy ===== *)
theory PubSub
  imports Serializer Utils Partial
begin

text \<open>
  \<open>PubSub\<close> and its worker thread (\<open>redis/client.py\<close>): subscribing and unsubscribing, the connect callback that
  subscribes again, reading, health checks, and handling messages. The connection is an argument; a connect
  that opens it runs the callback, which sends and may so connect again, hence the fuel of \<open>on_connect\<close>.
\<close>

section \<open>State\<close>

datatype kind = Channel | Pattern | Shard

text \<open>Keys are channel names; the value is the number of the handler, or \<open>None\<close>.\<close>

type_synonym subs = "(pyval \<times> nat option) list"

record 'w pubsub =
  ps_connection :: bool
  ps_counter :: int
  ps_subs :: "kind \<Rightarrow> subs"
  ps_pending :: "kind \<Rightarrow> pyval list"
  ps_subscribed :: bool
  ps_world :: 'w

text \<open>
  The pool and the connection. \<open>sk_get\<close> gets a connection and registers the callback; \<open>sk_open\<close> is \<open>connect\<close>
  up to its callbacks and tells whether it opened the connection; \<open>sk_send\<close> is sending on an open connection;
  \<open>sk_read\<close> is \<open>read_response\<close>, its argument whether it runs for \<open>parse_response\<close>;
  \<open>sk_due\<close> whether a health check is due.
\<close>

record 'w sub_link =
  sk_get :: "('w, exc, unit) action"
  sk_release :: "('w, exc, unit) action"
  sk_open :: "('w, exc, bool) action"
  sk_send :: "bool \<Rightarrow> pyval list \<Rightarrow> ('w, exc, unit) action"
  sk_can_read :: "rat option \<Rightarrow> ('w, exc, bool) action"
  sk_read :: "bool \<Rightarrow> ('w, exc, pyval) action"
  sk_disconnect :: "('w, exc, unit) action"
  sk_due :: "'w \<Rightarrow> bool"
  sk_timeout :: "rat option"
  sk_retry :: retry
  sk_rnd :: "nat \<Rightarrow> rat"
  sk_sleep :: "rat \<Rightarrow> 'w \<Rightarrow> 'w"
  sk_retry_on_error :: "exc_class list option"
  sk_encoder :: encoder
  sk_ignore_subscribe :: bool
  sk_handler :: "nat \<Rightarrow> pyval \<Rightarrow> ('w, exc, unit) action"

type_synonym ('w, 'a) sub_run = "('w pubsub, 'a) run"

definition on_conn :: "('w, exc, 'a) action \<Rightarrow> ('w, 'a) sub_run" where
  "on_conn m = (\<lambda>p. case m (ps_world p) of (r, w) \<Rightarrow> Some (r, p\<lparr>ps_world := w\<rparr>))"

definition getP :: "('s \<Rightarrow> 'a) \<Rightarrow> ('s, 'a) run" where "getP f = total (getS f)"

definition modP :: "('s \<Rightarrow> 's) \<Rightarrow> ('s, unit) run" where "modP f = total (modS f)"

definition PUBLISH_MESSAGE_TYPES :: "string list" where
  "PUBLISH_MESSAGE_TYPES = [''message'', ''pmessage'', ''smessage'']"

definition UNSUBSCRIBE_MESSAGE_TYPES :: "string list" where
  "UNSUBSCRIBE_MESSAGE_TYPES = [''unsubscribe'', ''punsubscribe'', ''sunsubscribe'']"

definition HEALTH_CHECK_MESSAGE :: string where
  "HEALTH_CHECK_MESSAGE = ''redis-py-health-check''"

definition health_check_response_b :: pyval where
  "health_check_response_b = PBytes HEALTH_CHECK_MESSAGE"

definition health_check_response :: "'w sub_link \<Rightarrow> pyval" where
  "health_check_response K = (if decode_responses (sk_encoder K) then PList [PStr ''pong'', PStr HEALTH_CHECK_MESSAGE]
     else PList [PBytes ''pong'', health_check_response_b])"

definition is_health_check_response :: "'w sub_link \<Rightarrow> pyval \<Rightarrow> bool" where
  "is_health_check_response K r = (r = health_check_response K \<or> r = health_check_response_b)"

definition ps_cleared :: "'w pubsub \<Rightarrow> 'w pubsub" where
  "ps_cleared p = p\<lparr>ps_counter := 0, ps_subs := (\<lambda>_. []), ps_pending := (\<lambda>_. []), ps_subscribed := False\<rparr>"

definition new_pubsub :: "'w \<Rightarrow> 'w pubsub" where
  "new_pubsub w = \<lparr>ps_connection = False, ps_counter = 0, ps_subs = (\<lambda>_. []), ps_pending = (\<lambda>_. []), ps_subscribed = False, ps_world = w\<rparr>"

text \<open>\<open>sk_release\<close> is disconnecting, removing the callback and releasing to the pool.\<close>

definition ps_reset :: "'w sub_link \<Rightarrow> ('w, unit) sub_run" where
  "ps_reset K =
     bindP (getP ps_connection) (\<lambda>b.
     thenP (if b then thenP (on_conn (sk_release K)) (modP (\<lambda>p. p\<lparr>ps_connection := False\<rparr>)) else retP ())
     (modP ps_cleared))"

section \<open>Sending\<close>

text \<open>The callback of the connection is the argument \<open>cb\<close>.\<close>

definition open_conn :: "'w sub_link \<Rightarrow> ('w, unit) sub_run \<Rightarrow> ('w, unit) sub_run" where
  "open_conn K cb = bindP (on_conn (sk_open K)) (\<lambda>new. whenP new cb)"

definition ps_disconnect_raise_connect :: "'w sub_link \<Rightarrow> ('w, unit) sub_run \<Rightarrow> exc \<Rightarrow> ('w, unit) sub_run" where
  "ps_disconnect_raise_connect K cb e =
     thenP (on_conn (sk_disconnect K))
     (if (case sk_retry_on_error K of None \<Rightarrow> False | Some cs \<Rightarrow> isinstance_any e cs) then open_conn K cb else raiseP e)"

definition ps_sleep :: "'w sub_link \<Rightarrow> rat \<Rightarrow> 'w pubsub \<Rightarrow> 'w pubsub" where
  "ps_sleep K t p = p\<lparr>ps_world := sk_sleep K t (ps_world p)\<rparr>"

definition ps_execute :: "'w sub_link \<Rightarrow> ('w, unit) sub_run \<Rightarrow> ('w, 'a) sub_run \<Rightarrow> ('w, 'a) sub_run" where
  "ps_execute K cb m = call_with_retryP (sk_retry K) (sk_rnd K) (ps_sleep K) m (ps_disconnect_raise_connect K cb)"

definition ps_send :: "'w sub_link \<Rightarrow> ('w, unit) sub_run \<Rightarrow> bool \<Rightarrow> pyval list \<Rightarrow> ('w, unit) sub_run" where
  "ps_send K cb check args = thenP (open_conn K cb) (on_conn (sk_send K check args))"

definition ps_can_read :: "'w sub_link \<Rightarrow> ('w, unit) sub_run \<Rightarrow> rat option \<Rightarrow> ('w, bool) sub_run" where
  "ps_can_read K cb timeout = thenP (open_conn K cb) (on_conn (sk_can_read K timeout))"

text \<open>The loop of \<open>clean_health_check_responses\<close>; \<open>ttl\<close> starts at 10.\<close>

primrec clean_health_loop :: "'w sub_link \<Rightarrow> ('w, unit) sub_run \<Rightarrow> nat \<Rightarrow> ('w, unit) sub_run" where
  "clean_health_loop K cb 0 = retP ()"
| "clean_health_loop K cb (Suc ttl) =
     bindP (getP (\<lambda>p. ps_counter p > 0)) (\<lambda>more.
       if \<not> more then retP ()
       else
         bindP (ps_execute K cb (ps_can_read K cb (sk_timeout K))) (\<lambda>ready.
         thenP (if \<not> ready then retP ()
                else bindP (ps_execute K cb (on_conn (sk_read K False))) (\<lambda>r.
                  if is_health_check_response K r then modP (\<lambda>p. p\<lparr>ps_counter := ps_counter p - 1\<rparr>)
                  else raiseP (Exc PubSubError ''A non health check response was cleaned by execute_command'')))
           (clean_health_loop K cb ttl)))"

definition clean_health_check_responses :: "'w sub_link \<Rightarrow> ('w, unit) sub_run \<Rightarrow> ('w, unit) sub_run" where
  "clean_health_check_responses K cb = clean_health_loop K cb 10"

definition ps_execute_command :: "'w sub_link \<Rightarrow> ('w, unit) sub_run \<Rightarrow> pyval list \<Rightarrow> ('w, unit) sub_run" where
  "ps_execute_command K cb args =
     bindP (getP ps_connection) (\<lambda>have.
     thenP (if have then retP () else thenP (on_conn (sk_get K)) (modP (\<lambda>p. p\<lparr>ps_connection := True\<rparr>)))
     (bindP (getP ps_subscribed) (\<lambda>sub.
      thenP (whenP (\<not> sub) (clean_health_check_responses K cb))
      (ps_execute K cb (ps_send K cb (\<not> sub) args)))))"

section \<open>Subscribing\<close>

text \<open>\<open>dict.fromkeys(args)\<close> and \<open>update(kwargs)\<close>; equal keys as Python compares them.\<close>

fun nd_set :: "pyval \<Rightarrow> 'a \<Rightarrow> (pyval \<times> 'a) list \<Rightarrow> (pyval \<times> 'a) list" where
  "nd_set k v [] = [(k, v)]"
| "nd_set k v ((k', v') # d) = (if py_key_eq k k' then (k', v) # d else (k', v') # nd_set k v d)"

fun fromkeys :: "pyval list \<Rightarrow> subs \<Rightarrow> exc + subs" where
  "fromkeys [] d = Inr d"
| "fromkeys (k # ks) d = (if hashable k then fromkeys ks (nd_set k None d) else Inl unhashable_error)"

definition update_kwargs :: "(string \<times> nat option) list \<Rightarrow> subs \<Rightarrow> subs" where
  "update_kwargs kwargs d = foldl (\<lambda>d (k, v). nd_set (PStr k) v d) d kwargs"

definition name_args :: "pyval list \<Rightarrow> pyval list" where
  "name_args args = (case args of [] \<Rightarrow> [] | a # rest \<Rightarrow> list_or_args a rest)"

definition new_subs :: "pyval list \<Rightarrow> (string \<times> nat option) list \<Rightarrow> exc + subs" where
  "new_subs args kwargs = bindE (fromkeys (name_args args) []) (\<lambda>d. Inr (update_kwargs kwargs d))"

fun normalize_loop :: "encoder \<Rightarrow> subs \<Rightarrow> subs \<Rightarrow> exc + subs" where
  "normalize_loop enc [] d = Inr d"
| "normalize_loop enc ((k, v) # ks) d =
     bindE (encode enc k) (\<lambda>b. bindE (decode enc b False) (\<lambda>k'. normalize_loop enc ks (nd_set k' v d)))"

definition normalize_keys :: "encoder \<Rightarrow> subs \<Rightarrow> exc + subs" where
  "normalize_keys enc d = normalize_loop enc d []"

definition command_of :: "kind \<Rightarrow> string" where
  "command_of k = (case k of Channel \<Rightarrow> ''SUBSCRIBE'' | Pattern \<Rightarrow> ''PSUBSCRIBE'' | Shard \<Rightarrow> ''SSUBSCRIBE'')"

definition un_command_of :: "kind \<Rightarrow> string" where
  "un_command_of k = (case k of Channel \<Rightarrow> ''UNSUBSCRIBE'' | Pattern \<Rightarrow> ''PUNSUBSCRIBE'' | Shard \<Rightarrow> ''SUNSUBSCRIBE'')"

definition subs_update :: "subs \<Rightarrow> subs \<Rightarrow> subs" where
  "subs_update d e = foldl (\<lambda>d (k, v). nd_set k v d) d e"

text \<open>The tables after the command was sent.\<close>

definition subscribed_to :: "kind \<Rightarrow> subs \<Rightarrow> 'w pubsub \<Rightarrow> 'w pubsub" where
  "subscribed_to k new p =
     p\<lparr>ps_subs := (ps_subs p)(k := subs_update (ps_subs p k) new),
       ps_counter := (if ps_subscribed p then ps_counter p else 0), ps_subscribed := True,
       ps_pending := (ps_pending p)(k := filter (\<lambda>x. \<not> py_in x (map fst new)) (ps_pending p k))\<rparr>"

definition subscribe_dict :: "'w sub_link \<Rightarrow> ('w, unit) sub_run \<Rightarrow> kind \<Rightarrow> subs \<Rightarrow> ('w, unit) sub_run" where
  "subscribe_dict K cb k new =
     thenP (ps_execute_command K cb (PStr (command_of k) # map fst new))
     (bindP (total (liftS (normalize_keys (sk_encoder K) new))) (\<lambda>n. modP (subscribed_to k n)))"

definition subscribe :: "'w sub_link \<Rightarrow> ('w, unit) sub_run \<Rightarrow> kind \<Rightarrow> pyval list \<Rightarrow> (string \<times> nat option) list \<Rightarrow> ('w, unit) sub_run" where
  "subscribe K cb k args kwargs = bindP (total (liftS (new_subs args kwargs))) (subscribe_dict K cb k)"

text \<open>A set has no order; new names go to the end.\<close>

definition set_union :: "pyval list \<Rightarrow> pyval list \<Rightarrow> pyval list" where
  "set_union xs ys = foldl (\<lambda>s x. if py_in x s then s else s @ [x]) xs ys"

definition unsubscribe :: "'w sub_link \<Rightarrow> ('w, unit) sub_run \<Rightarrow> kind \<Rightarrow> pyval list \<Rightarrow> ('w, unit) sub_run" where
  "unsubscribe K cb k args =
     bindP (if args = [] then getP (\<lambda>p. ps_subs p k)
            else total (liftS (bindE (fromkeys (name_args args) []) (normalize_keys (sk_encoder K))))) (\<lambda>names.
     thenP (modP (\<lambda>p. p\<lparr>ps_pending := (ps_pending p)(k := set_union (ps_pending p k) (map fst names))\<rparr>))
     (ps_execute_command K cb (PStr (un_command_of k) # name_args args)))"

section \<open>Subscribing again\<close>

text \<open>
  The names, decoded, are passed as keyword arguments: \<open>self\<close> is taken, and for shard channels the parameter
  \<open>target_node\<close> takes the name and drops it.
\<close>

fun decoded_names :: "encoder \<Rightarrow> subs \<Rightarrow> (string \<times> nat option) list \<Rightarrow> exc + (string \<times> nat option) list" where
  "decoded_names enc [] acc = Inr acc"
| "decoded_names enc ((k, v) # ks) acc =
     bindE (decode enc k True) (\<lambda>k'. case k' of
        PStr s \<Rightarrow> decoded_names enc ks (dict_set s v acc)
      | _ \<Rightarrow> Inl (Exc TypeError ''keywords must be strings''))"

definition keyword_call :: "kind \<Rightarrow> (string \<times> nat option) list \<Rightarrow> exc + (string \<times> nat option) list" where
  "keyword_call k names =
     (if ''self'' \<in> set (map fst names) then Inl (Exc TypeError ''got multiple values for argument self'')
      else Inr (if k = Shard then filter (\<lambda>(n, _). n \<noteq> ''target_node'') names else names))"

definition resubscribe :: "'w sub_link \<Rightarrow> ('w, unit) sub_run \<Rightarrow> kind \<Rightarrow> ('w, unit) sub_run" where
  "resubscribe K cb k =
     bindP (getP (\<lambda>p. ps_subs p k)) (\<lambda>d.
       if d = [] then retP ()
       else bindP (total (liftS (bindE (decoded_names (sk_encoder K) d []) (keyword_call k)))) (\<lambda>names. subscribe K cb k [] names))"

definition on_connect_with :: "'w sub_link \<Rightarrow> ('w, unit) sub_run \<Rightarrow> ('w, unit) sub_run" where
  "on_connect_with K cb =
     thenP (modP (\<lambda>p. p\<lparr>ps_pending := (\<lambda>_. [])\<rparr>))
     (thenP (resubscribe K cb Channel) (thenP (resubscribe K cb Pattern) (resubscribe K cb Shard)))"

primrec on_connect :: "'w sub_link \<Rightarrow> nat \<Rightarrow> ('w, unit) sub_run" where
  "on_connect K 0 = (\<lambda>p. None)"
| "on_connect K (Suc n) = on_connect_with K (on_connect K n)"

section \<open>Reading\<close>

definition no_connection_set :: exc where
  "no_connection_set = Exc RuntimeError ''pubsub connection not set: did you forget to call subscribe() or psubscribe()?''"

definition ps_check_health :: "'w sub_link \<Rightarrow> ('w, unit) sub_run \<Rightarrow> ('w, unit) sub_run" where
  "ps_check_health K cb =
     bindP (getP ps_connection) (\<lambda>b.
       if \<not> b then raiseP no_connection_set
       else bindP (getP (\<lambda>p. sk_due K (ps_world p))) (\<lambda>due.
         if due then thenP (ps_send K cb False [PStr ''PING'', PStr HEALTH_CHECK_MESSAGE])
                       (modP (\<lambda>p. p\<lparr>ps_counter := ps_counter p + 1\<rparr>))
         else retP ()))"

definition try_read :: "'w sub_link \<Rightarrow> ('w, unit) sub_run \<Rightarrow> bool \<Rightarrow> rat option \<Rightarrow> ('w, pyval) sub_run" where
  "try_read K cb block timeout =
     (if block then thenP (open_conn K cb) (on_conn (sk_read K True))
      else bindP (ps_can_read K cb timeout) (\<lambda>ready. if ready then on_conn (sk_read K True) else retP PNone))"

definition ps_parse_response :: "'w sub_link \<Rightarrow> ('w, unit) sub_run \<Rightarrow> bool \<Rightarrow> rat option \<Rightarrow> ('w, pyval) sub_run" where
  "ps_parse_response K cb block timeout =
     bindP (getP ps_connection) (\<lambda>b.
       if \<not> b then raiseP no_connection_set
       else thenP (ps_check_health K cb)
         (bindP (ps_execute K cb (try_read K cb block timeout)) (\<lambda>r.
            if is_health_check_response K r then thenP (modP (\<lambda>p. p\<lparr>ps_counter := ps_counter p - 1\<rparr>)) (retP PNone)
            else retP r)))"

section \<open>Messages\<close>

text \<open>\<open>response[i]\<close>.\<close>

definition item_at :: "pyval \<Rightarrow> nat \<Rightarrow> exc + pyval" where
  "item_at r i = (case r of
     PList xs \<Rightarrow> if i < length xs then Inr (xs ! i) else Inl (Exc IndexError ''list index out of range'')
   | PTuple xs \<Rightarrow> if i < length xs then Inr (xs ! i) else Inl (Exc IndexError ''tuple index out of range'')
   | PStr s \<Rightarrow> if i < length s then Inr (PStr [s ! i]) else Inl (Exc IndexError ''string index out of range'')
   | _ \<Rightarrow> Inl (Exc TypeError ''object is not subscriptable''))"

definition message_dict :: "pyval \<Rightarrow> pyval \<Rightarrow> pyval \<Rightarrow> pyval \<Rightarrow> pyval" where
  "message_dict t pattern channel data =
     PDict [(PStr ''type'', t), (PStr ''pattern'', pattern), (PStr ''channel'', channel), (PStr ''data'', data)]"

text \<open>The type, pattern, channel and data of a response.\<close>

definition parse_message :: "pyval \<Rightarrow> exc + pyval \<times> pyval \<times> pyval \<times> pyval" where
  "parse_message response =
     (let response = (case response of
          PBytes b \<Rightarrow> if b \<noteq> ''PONG'' then PList [PBytes ''pong'', PBytes b] else PList [PBytes ''pong'', PBytes []]
        | _ \<Rightarrow> response) in
      bindE (item_at response 0) (\<lambda>t.
      let t = str_if_bytes t in
      if t = PStr ''pmessage'' then
        bindE (item_at response 1) (\<lambda>p. bindE (item_at response 2) (\<lambda>c. bindE (item_at response 3) (\<lambda>d. Inr (t, p, c, d))))
      else if t = PStr ''pong'' then bindE (item_at response 1) (\<lambda>d. Inr (t, PNone, PNone, d))
      else bindE (item_at response 1) (\<lambda>c. bindE (item_at response 2) (\<lambda>d. Inr (t, PNone, c, d)))))"

definition kind_of_unsubscribe :: "pyval \<Rightarrow> kind" where
  "kind_of_unsubscribe t = (if t = PStr ''punsubscribe'' then Pattern else if t = PStr ''sunsubscribe'' then Shard else Channel)"

definition kind_of_message :: "pyval \<Rightarrow> kind" where
  "kind_of_message t = (if t = PStr ''pmessage'' then Pattern else if t = PStr ''smessage'' then Shard else Channel)"

definition is_type :: "string list \<Rightarrow> pyval \<Rightarrow> bool" where
  "is_type ts t = (t \<in> PStr ` set ts)"

text \<open>An unsubscribe message: only a pending name is forgotten; when nothing is left, the event is cleared.\<close>

definition forget :: "kind \<Rightarrow> pyval \<Rightarrow> 'w pubsub \<Rightarrow> 'w pubsub" where
  "forget k name p =
     (if py_in name (ps_pending p k) then
        p\<lparr>ps_pending := (ps_pending p)(k := filter (\<lambda>x. \<not> py_key_eq name x) (ps_pending p k)),
          ps_subs := (ps_subs p)(k := filter (\<lambda>(x, _). \<not> py_key_eq name x) (ps_subs p k))\<rparr>
      else p)"

definition clear_if_none :: "'w pubsub \<Rightarrow> 'w pubsub" where
  "clear_if_none p = (if ps_subs p Channel = [] \<and> ps_subs p Pattern = [] \<and> ps_subs p Shard = [] then p\<lparr>ps_subscribed := False\<rparr> else p)"

fun nd_get :: "pyval \<Rightarrow> (pyval \<times> 'a) list \<Rightarrow> 'a option" where
  "nd_get k [] = None"
| "nd_get k ((k', v) # d) = (if py_key_eq k k' then Some v else nd_get k d)"

definition handle_message :: "'w sub_link \<Rightarrow> pyval \<Rightarrow> bool \<Rightarrow> ('w, pyval) sub_run" where
  "handle_message K response ignore =
     (if response = PNone then retP PNone
      else bindP (total (liftS (parse_message response))) (\<lambda>(t, pattern, channel, data).
        let message = message_dict t pattern channel data in
        thenP (if is_type UNSUBSCRIBE_MESSAGE_TYPES t then
                 (if hashable channel then modP (\<lambda>p. clear_if_none (forget (kind_of_unsubscribe t) channel p)) else raiseP unhashable_error)
               else retP ())
        (if is_type PUBLISH_MESSAGE_TYPES t then
           (let name = (if t = PStr ''pmessage'' then pattern else channel) in
            if \<not> hashable name then raiseP unhashable_error
            else bindP (getP (\<lambda>p. nd_get name (ps_subs p (kind_of_message t)))) (\<lambda>h.
              case h of
                Some (Some n) \<Rightarrow> thenP (on_conn (sk_handler K n message)) (retP PNone)
              | _ \<Rightarrow> retP message))
         else if t \<noteq> PStr ''pong'' \<and> (ignore \<or> sk_ignore_subscribe K) then retP PNone
         else retP message)))"

text \<open>Without a subscription nothing comes: the wait for one ends at its timeout, or never without one.\<close>

definition get_message :: "'w sub_link \<Rightarrow> ('w, unit) sub_run \<Rightarrow> bool \<Rightarrow> rat option \<Rightarrow> ('w, pyval) sub_run" where
  "get_message K cb ignore timeout =
     bindP (getP ps_subscribed) (\<lambda>sub.
       if \<not> sub then (case timeout of None \<Rightarrow> (\<lambda>p. None) | Some t \<Rightarrow> retP PNone)
       else bindP (ps_parse_response K cb (timeout = None) timeout) (\<lambda>r.
         if truthy r then handle_message K r ignore else retP PNone))"

text \<open>One step of the generator: the next message, or the end.\<close>

partial_function (option) listen_next :: "'w sub_link \<Rightarrow> ('w, unit) sub_run \<Rightarrow> ('w, pyval option) sub_run" where
  "listen_next K cb p =
     (if \<not> ps_subscribed p then Some (Inr None, p)
      else (case bindP (ps_parse_response K cb True (Some 0)) (\<lambda>r. handle_message K r False) p of
              None \<Rightarrow> None
            | Some (Inl e, p') \<Rightarrow> Some (Inl e, p')
            | Some (Inr m, p') \<Rightarrow> if m \<noteq> PNone then Some (Inr (Some m), p') else listen_next K cb p'))"

definition ps_ping :: "'w sub_link \<Rightarrow> ('w, unit) sub_run \<Rightarrow> string option \<Rightarrow> ('w, unit) sub_run" where
  "ps_ping K cb message = ps_execute_command K cb (PStr ''PING'' # (case message of Some m \<Rightarrow> [PStr m] | None \<Rightarrow> []))"

section \<open>The worker thread\<close>

fun missing_handler :: "subs \<Rightarrow> pyval option" where
  "missing_handler [] = None"
| "missing_handler ((k, v) # d) = (if v = None then Some k else missing_handler d)"

definition run_in_thread_check :: "'w pubsub \<Rightarrow> exc + unit" where
  "run_in_thread_check p =
     (if missing_handler (ps_subs p Channel) \<noteq> None then Inl (Exc PubSubError ''Channel has no handler registered'')
      else if missing_handler (ps_subs p Pattern) \<noteq> None then Inl (Exc PubSubError ''Pattern has no handler registered'')
      else if missing_handler (ps_subs p Shard) \<noteq> None then Inl (Exc PubSubError ''Shard Channel has no handler registered'')
      else Inr ())"

text \<open>The loop of the thread; \<open>running\<close> is the flag, cleared by \<open>stop\<close>; \<open>handler\<close> the exception handler.\<close>

partial_function (option) worker_loop ::
  "'w sub_link \<Rightarrow> ('w, unit) sub_run \<Rightarrow> ('w \<Rightarrow> bool) \<Rightarrow> rat option \<Rightarrow> (exc \<Rightarrow> ('w, unit) sub_run) option \<Rightarrow> ('w, unit) sub_run" where
  "worker_loop K cb running sleep_time handler p =
     (if \<not> running (ps_world p) then ps_reset K p
      else (case get_message K cb True sleep_time p of
              None \<Rightarrow> None
            | Some (Inr _, p') \<Rightarrow> worker_loop K cb running sleep_time handler p'
            | Some (Inl e, p') \<Rightarrow>
                (case handler of
                   None \<Rightarrow> Some (Inl e, p')
                 | Some h \<Rightarrow>
                     (case h e p' of
                        None \<Rightarrow> None
                      | Some (Inl e', p'') \<Rightarrow> Some (Inl e', p'')
                      | Some (Inr _, p'') \<Rightarrow> worker_loop K cb running sleep_time handler p''))))"

end
