(* ===== verification/PubSubCorrect.thy ===== *)
theory PubSubCorrect
  imports PubSub
begin

text \<open>
  Properties of \<open>PubSub\<close>: the tables agree with the flag and the connection, names are subscribed again after
  a reconnect, messages reach their handlers, health checks stay hidden; and a name whose unsubscription was
  not confirmed comes back.
\<close>

section \<open>Invariants of runs\<close>

definition keeps :: "('s \<Rightarrow> bool) \<Rightarrow> ('s, 'a) run \<Rightarrow> bool" where
  "keeps I m \<longleftrightarrow> (\<forall>p r p'. I p \<longrightarrow> m p = Some (r, p') \<longrightarrow> I p')"

named_theorems keeps_intros

lemma run_invI: "(\<And>p r p'. I p \<Longrightarrow> m p = Some (r, p') \<Longrightarrow> I p') \<Longrightarrow> keeps I m"
  by (simp add: keeps_def)

lemma run_invD: "keeps I m \<Longrightarrow> I p \<Longrightarrow> m p = Some (r, p') \<Longrightarrow> I p'"
  by (simp add: keeps_def)

lemma run_inv_bind [keeps_intros]:
  assumes "keeps I m" "\<And>a. keeps I (f a)"
  shows "keeps I (bindP m f)"
proof (rule run_invI)
  fix p r p' assume p: "I p" and run: "bindP m f p = Some (r, p')"
  then obtain x p1 where m: "m p = Some (x, p1)" by (cases "m p") auto
  have p1: "I p1" using run_invD [OF assms(1) p m] .
  show "I p'"
  proof (cases x)
    case (Inl e)
    then show ?thesis using run m p1 by simp
  next
    case (Inr a)
    then have "f a p1 = Some (r, p')" using run m by simp
    then show ?thesis using run_invD [OF assms(2) p1] by blast
  qed
qed

lemma keeps_then [keeps_intros]: "keeps I m \<Longrightarrow> keeps I k \<Longrightarrow> keeps I (thenP m k)"
  unfolding thenP_def by (rule run_inv_bind)

lemma keeps_when [keeps_intros]: "(b \<Longrightarrow> keeps I m) \<Longrightarrow> keeps I (whenP b m)"
  by (cases b) (simp_all add: keeps_def)

lemma run_inv_pure [keeps_intros]:
  "keeps I (retP a)" "keeps I (raiseP e)" "keeps I (getP f)" "keeps I (total (liftS x))" "keeps I (\<lambda>p. None)"
  by (simp_all add: keeps_def getP_def total_def)

lemma keeps_mod: "(\<And>p. I p \<Longrightarrow> I (f p)) \<Longrightarrow> keeps I (modP f)"
  by (simp add: keeps_def modP_def total_def)

lemma keeps_if [keeps_intros]: "(b \<Longrightarrow> keeps I m) \<Longrightarrow> (\<not> b \<Longrightarrow> keeps I n) \<Longrightarrow> keeps I (if b then m else n)"
  by simp

lemma keeps_retry [keeps_intros]:
  assumes "keeps I m" "\<And>e. keeps I (fail e)" "\<And>t p. I p \<Longrightarrow> I (slp t p)"
  shows "keeps I (call_with_retryP r rnd slp m fail)"
proof (rule run_invI)
  fix p res p' assume p: "I p" and run: "call_with_retryP r rnd slp m fail p = Some (res, p')"
  have "I (snd (res, p'))"
    using run [unfolded call_with_retryP_def]
  proof (rule retry_run_inv [where I = I])
    show "I p'" if "I p" "m p = Some (x, p')" for p x p' using run_invD [OF assms(1)] that .
    show "I p' \<and> I p'" if "I p" "fail e p = Some (x, p')" for e p x p' using run_invD [OF assms(2)] that by blast
    show "I (slp t p)" if "I p" for t p using assms(3) that .
  qed (rule p)
  then show "I p'" by simp
qed

section \<open>The tables, the flag and the connection\<close>

definition subs_inv :: "'w pubsub \<Rightarrow> bool" where
  "subs_inv p \<longleftrightarrow> ((\<exists>k. ps_subs p k \<noteq> []) \<longrightarrow> ps_subscribed p) \<and> (ps_subscribed p \<longrightarrow> ps_connection p)"

text \<open>An invariant that does not look at the connection's world or the count of health checks.\<close>

definition frame :: "('w pubsub \<Rightarrow> bool) \<Rightarrow> bool" where
  "frame I \<longleftrightarrow> (\<forall>p w c. I p \<longrightarrow> I (p\<lparr>ps_world := w\<rparr>) \<and> I (p\<lparr>ps_counter := c\<rparr>))"

lemma frame_subs_inv: "frame subs_inv"
  by (simp add: frame_def subs_inv_def)

lemma frame_connection: "frame ps_connection"
  by (simp add: frame_def)

lemma keeps_conn [keeps_intros]: "frame I \<Longrightarrow> keeps I (on_conn m)"
  by (auto simp: keeps_def on_conn_def frame_def split: prod.splits)

lemma keeps_counter [keeps_intros]: "frame I \<Longrightarrow> keeps I (modP (\<lambda>p. p\<lparr>ps_counter := f p\<rparr>))"
  by (rule keeps_mod) (simp add: frame_def)

lemma keeps_open [keeps_intros]: "frame I \<Longrightarrow> keeps I cb \<Longrightarrow> keeps I (open_conn K cb)"
  unfolding open_conn_def by (intro keeps_intros)

lemma keeps_send [keeps_intros]: "frame I \<Longrightarrow> keeps I cb \<Longrightarrow> keeps I (ps_send K cb check args)"
  unfolding ps_send_def by (intro keeps_intros)

lemma keeps_can_read [keeps_intros]: "frame I \<Longrightarrow> keeps I cb \<Longrightarrow> keeps I (ps_can_read K cb t)"
  unfolding ps_can_read_def by (intro keeps_intros)

lemma keeps_execute [keeps_intros]:
  assumes "frame I" "keeps I cb" "keeps I m"
  shows "keeps I (ps_execute K cb m)"
proof -
  have "keeps I (ps_disconnect_raise_connect K cb e)" for e
    unfolding ps_disconnect_raise_connect_def by (intro keeps_intros assms)
  moreover have "I (ps_sleep K t p)" if "I p" for t p using assms(1) that by (simp add: frame_def ps_sleep_def)
  ultimately show ?thesis unfolding ps_execute_def using assms(3) by (intro keeps_retry) auto
qed

lemma keeps_clean [keeps_intros]:
  assumes "frame I" "keeps I cb"
  shows "keeps I (clean_health_check_responses K cb)"
proof -
  have "keeps I (clean_health_loop K cb n)" for n
  proof (induction n)
    case 0
    show ?case by (simp add: keeps_def)
  next
    case (Suc n)
    show ?case unfolding clean_health_loop.simps by (intro keeps_intros assms Suc)
  qed
  then show ?thesis by (simp add: clean_health_check_responses_def)
qed

lemma keeps_command [keeps_intros]:
  assumes "frame I" "keeps I cb" "\<And>p. I p \<Longrightarrow> I (p\<lparr>ps_connection := True\<rparr>)"
  shows "keeps I (ps_execute_command K cb args)"
proof -
  have "keeps I (modP (\<lambda>p. p\<lparr>ps_connection := True\<rparr>))" by (rule keeps_mod) (rule assms(3))
  then show ?thesis unfolding ps_execute_command_def by (intro keeps_intros assms(1,2))
qed

text \<open>A command that was sent leaves the object with a connection.\<close>

lemma command_connects:
  assumes "keeps ps_connection cb" "ps_execute_command K cb args p = Some (Inr (), p')"
  shows "ps_connection p'"
proof -
  let ?rest = "bindP (getP ps_subscribed) (\<lambda>sub.
      thenP (whenP (\<not> sub) (clean_health_check_responses K cb)) (ps_execute K cb (ps_send K cb (\<not> sub) args)))"
  have rest: "keeps ps_connection ?rest" by (intro keeps_intros frame_connection assms(1))
  let ?first = "\<lambda>b. if b then retP () else thenP (on_conn (sk_get K)) (modP (\<lambda>p. p\<lparr>ps_connection := True\<rparr>))"
  have "thenP (?first (ps_connection p)) ?rest p = Some (Inr (), p')"
    using assms(2) by (simp add: ps_execute_command_def getP_def total_def bindP_def [of "\<lambda>s. Some (getS ps_connection s)"])
  then obtain u p1 where f: "?first (ps_connection p) p = Some (Inr u, p1)" and r: "?rest p1 = Some (Inr (), p')"
    unfolding thenP_eq_Inr [where k = ?rest] by blast
  have "ps_connection p1"
    using f by (auto simp: thenP_eq_Inr modP_def total_def split: if_splits)
  then show ?thesis using run_invD [OF rest _ r] by blast
qed

lemma keeps_subscribe_dict:
  assumes "keeps ps_connection cb" "keeps subs_inv cb"
  shows "keeps subs_inv (subscribe_dict K cb k new)" "keeps ps_connection (subscribe_dict K cb k new)"
proof -
  have c: "keeps subs_inv (ps_execute_command K cb args)" "keeps ps_connection (ps_execute_command K cb args)" for args
    by (intro keeps_command frame_subs_inv frame_connection assms; simp add: subs_inv_def)+
  have m: "keeps ps_connection (modP (subscribed_to k n))" for n by (rule keeps_mod) (simp add: subscribed_to_def)
  then show "keeps ps_connection (subscribe_dict K cb k new)"
    unfolding subscribe_dict_def by (intro keeps_intros c)
  show "keeps subs_inv (subscribe_dict K cb k new)"
  proof (rule run_invI)
    fix p r p' assume p: "subs_inv p" and run: "subscribe_dict K cb k new p = Some (r, p')"
    obtain x p1 where x: "ps_execute_command K cb (PStr (command_of k) # map fst new) p = Some (x, p1)"
      using run by (cases "ps_execute_command K cb (PStr (command_of k) # map fst new) p") (auto simp: subscribe_dict_def)
    have p1: "subs_inv p1" using run_invD [OF c(1) p x] .
    show "subs_inv p'"
    proof (cases x)
      case (Inl e)
      then show ?thesis using run x p1 by (simp add: subscribe_dict_def)
    next
      case (Inr u)
      then have "ps_connection p1" using command_connects [OF assms(1)] x by simp
      then show ?thesis
        using run x Inr p1
        by (cases "normalize_keys (sk_encoder K) new")
          (auto simp: subscribe_dict_def total_def modP_def subs_inv_def subscribed_to_def)
    qed
  qed
qed

lemma keeps_subscribe:
  assumes "keeps ps_connection cb" "keeps subs_inv cb"
  shows "keeps subs_inv (subscribe K cb k args kw)" "keeps ps_connection (subscribe K cb k args kw)"
  unfolding subscribe_def by (intro keeps_intros keeps_subscribe_dict assms)+

lemma keeps_on_connect: "keeps subs_inv (on_connect K n)" "keeps ps_connection (on_connect K n)"
proof (induction n)
  case 0
  show "keeps subs_inv (on_connect K 0)" "keeps ps_connection (on_connect K 0)" by (simp_all add: keeps_def)
next
  case (Suc n)
  have "keeps subs_inv (modP (\<lambda>p. p\<lparr>ps_pending := (\<lambda>_. [])\<rparr>))" "keeps ps_connection (modP (\<lambda>p. p\<lparr>ps_pending := (\<lambda>_. [])\<rparr>))"
    by (rule keeps_mod, simp add: subs_inv_def)+
  note m = this
  show "keeps subs_inv (on_connect K (Suc n))"
    unfolding on_connect.simps on_connect_with_def resubscribe_def by (intro keeps_intros keeps_subscribe Suc m)
  show "keeps ps_connection (on_connect K (Suc n))"
    unfolding on_connect.simps on_connect_with_def resubscribe_def by (intro keeps_intros keeps_subscribe Suc m)
qed

lemma keeps_unsubscribe: "keeps subs_inv (unsubscribe K (on_connect K n) k args)"
proof -
  have m: "keeps subs_inv (modP (\<lambda>p. p\<lparr>ps_pending := f p\<rparr>))" for f :: "'a pubsub \<Rightarrow> kind \<Rightarrow> pyval list"
    by (rule keeps_mod) (simp add: subs_inv_def)
  have c: "keeps subs_inv (ps_execute_command K (on_connect K n) a)" for a
    by (intro keeps_command frame_subs_inv keeps_on_connect) (simp add: subs_inv_def)
  show ?thesis unfolding unsubscribe_def by (intro run_inv_bind keeps_then keeps_if run_inv_pure m c)
qed

lemma keeps_parse: "keeps subs_inv (ps_parse_response K (on_connect K n) block t)"
  unfolding ps_parse_response_def ps_check_health_def try_read_def
  by (intro keeps_intros frame_subs_inv keeps_on_connect)

lemma forget_inv: "subs_inv p \<Longrightarrow> subs_inv (clear_if_none (forget k name p))"
proof -
  assume p: "subs_inv p"
  have "subs_inv (forget k name p)"
    using p by (auto simp: subs_inv_def forget_def split: if_splits)
  moreover have "ps_subs q k = []" if "ps_subs q Channel = []" "ps_subs q Pattern = []" "ps_subs q Shard = []" for q :: "'a pubsub" and k
    using that by (cases k) auto
  ultimately show ?thesis by (auto simp: subs_inv_def clear_if_none_def)
qed

lemma keeps_handle: "keeps subs_inv (handle_message K r ignore)"
proof -
  have "keeps subs_inv (modP (\<lambda>p. clear_if_none (forget k name p)))" for k name
    by (rule keeps_mod) (rule forget_inv)
  then show ?thesis
    unfolding handle_message_def Let_def case_prod_beta option.case_eq_if
    by (intro keeps_intros frame_subs_inv)
qed

lemma keeps_get_message: "keeps subs_inv (get_message K (on_connect K n) ignore t)"
proof -
  have "keeps subs_inv (case t of None \<Rightarrow> \<lambda>p. None | Some t \<Rightarrow> retP PNone)"
    by (cases t) (simp_all add: keeps_intros keeps_def)
  then show ?thesis
    unfolding get_message_def by (intro keeps_intros keeps_parse keeps_handle)
qed

lemma keeps_reset: "keeps subs_inv (ps_reset K)"
proof (rule run_invI)
  fix p r p' assume p: "subs_inv p" and run: "ps_reset K p = Some (r, p')"
  have c: "subs_inv (ps_cleared q)" for q :: "'a pubsub" by (simp add: subs_inv_def ps_cleared_def)
  obtain x w where r: "sk_release K (ps_world p) = (x, w)" by force
  show "subs_inv p'"
  proof (cases "ps_connection p")
    case False
    then have "ps_reset K p = Some (Inr (), ps_cleared p)" by (simp add: ps_reset_def getP_def modP_def total_def)
    then show ?thesis using run c by simp
  next
    case True
    show ?thesis
    proof (cases x)
      case (Inl e)
      then have "ps_reset K p = Some (Inl e, p\<lparr>ps_world := w\<rparr>)"
        using True r by (simp add: ps_reset_def getP_def modP_def total_def on_conn_def)
      then show ?thesis using run p by (auto simp: subs_inv_def)
    next
      case (Inr u)
      then have "ps_reset K p = Some (Inr (), ps_cleared (p\<lparr>ps_world := w, ps_connection := False\<rparr>))"
        using True r by (simp add: ps_reset_def getP_def modP_def total_def on_conn_def)
      then show ?thesis using run c by simp
    qed
  qed
qed

text \<open>The operations of a client, in any order, whatever the connection does and whether they raise.\<close>

inductive sub_step :: "'w sub_link \<Rightarrow> nat \<Rightarrow> 'w pubsub \<Rightarrow> 'w pubsub \<Rightarrow> bool" for K n where
  Subscribe: "subscribe K (on_connect K n) k args kw p = Some (r, p') \<Longrightarrow> sub_step K n p p'"
| Unsubscribe: "unsubscribe K (on_connect K n) k args p = Some (r, p') \<Longrightarrow> sub_step K n p p'"
| Message: "get_message K (on_connect K n) ignore t p = Some (m, p') \<Longrightarrow> sub_step K n p p'"
| Ping: "ps_ping K (on_connect K n) msg p = Some (r, p') \<Longrightarrow> sub_step K n p p'"
| Reset: "ps_reset K p = Some (r, p') \<Longrightarrow> sub_step K n p p'"

lemma sub_step_inv: "sub_step K n p p' \<Longrightarrow> subs_inv p \<Longrightarrow> subs_inv p'"
proof (induction rule: sub_step.induct)
  case (Subscribe k args kw p r p')
  show ?case by (rule run_invD [OF keeps_subscribe(1) [OF keeps_on_connect(2,1)] Subscribe.prems Subscribe.hyps])
next
  case (Unsubscribe k args p r p')
  show ?case by (rule run_invD [OF keeps_unsubscribe Unsubscribe.prems Unsubscribe.hyps])
next
  case (Message ignore t p m p')
  show ?case by (rule run_invD [OF keeps_get_message Message.prems Message.hyps])
next
  case (Ping msg p r p')
  have "keeps subs_inv (ps_ping K (on_connect K n) msg)"
    unfolding ps_ping_def by (intro keeps_command frame_subs_inv keeps_on_connect) (simp add: subs_inv_def)
  then show ?case by (rule run_invD [of subs_inv "ps_ping K (on_connect K n) msg", OF _ Ping.prems Ping.hyps])
next
  case (Reset p r p')
  show ?case by (rule run_invD [OF keeps_reset Reset.prems Reset.hyps])
qed

text \<open>C23: whatever operations a client makes and however its connection fails, as long as any channel, pattern or
  shard channel is registered the object is subscribed, and while it is subscribed it has a
  connection: messages of a registered name are not waited out, and reading does not miss its connection.\<close>

theorem registered_means_subscribed:
  assumes "(sub_step K n)\<^sup>*\<^sup>* (new_pubsub w) p"
  shows "((\<exists>k. ps_subs p k \<noteq> []) \<longrightarrow> ps_subscribed p) \<and> (ps_subscribed p \<longrightarrow> ps_connection p)"
proof -
  have "subs_inv (new_pubsub w)" by (simp add: subs_inv_def new_pubsub_def)
  with assms have "subs_inv p"
    by (induction rule: rtranclp_induct) (auto intro: sub_step_inv)
  then show ?thesis by (simp add: subs_inv_def)
qed

section \<open>Subscribing again\<close>

text \<open>The names and handlers of a kind, and the keys they have in the tables.\<close>

definition name_key :: "encoder \<Rightarrow> string \<Rightarrow> pyval" where
  "name_key enc s = (if decode_responses enc then PStr s else PBytes s)"

definition keyed :: "encoder \<Rightarrow> (string \<times> nat option) list \<Rightarrow> subs" where
  "keyed enc names = map (\<lambda>(s, h). (name_key enc s, h)) names"

text \<open>\<open>sends K cmds w w'\<close>: the commands are sent one after the other.\<close>

fun sends :: "'w sub_link \<Rightarrow> pyval list list \<Rightarrow> 'w \<Rightarrow> 'w \<Rightarrow> bool" where
  "sends K [] w w' = (w' = w)"
| "sends K (c # cs) w w' = (case sk_send K False c w of (Inl _, _) \<Rightarrow> False | (Inr _, w1) \<Rightarrow> sends K cs w1 w')"

lemma sends_append: "sends K (xs @ ys) w w' \<longleftrightarrow> (\<exists>w1. sends K xs w w1 \<and> sends K ys w1 w')"
proof (induction xs arbitrary: w)
  case (Cons c cs)
  obtain x w1 where "sk_send K False c w = (x, w1)" by force
  with Cons show ?case by (cases x) auto
qed simp

definition resub_command :: "kind \<Rightarrow> (string \<times> nat option) list \<Rightarrow> pyval list list" where
  "resub_command k names = (if names = [] then [] else [PStr (command_of k) # map (PStr \<circ> fst) names])"

lemma py_key_eq_name [simp]: "py_key_eq (name_key enc s) (name_key enc t) \<longleftrightarrow> s = t" "name_key enc s = name_key enc t \<longleftrightarrow> s = t"
  by (simp_all add: name_key_def)

lemma nd_set_new: "(\<And>k'. k' \<in> set (map fst d) \<Longrightarrow> \<not> py_key_eq k k') \<Longrightarrow> nd_set k v d = d @ [(k, v)]"
  by (induction d) auto

lemma nd_set_same: "(k, v) \<in> set d \<Longrightarrow> inj_on fst (set d) \<Longrightarrow> (\<And>k'. k' \<in> set (map fst d) \<Longrightarrow> py_key_eq k k' \<longleftrightarrow> k' = k) \<Longrightarrow> nd_set k v d = d"
proof (induction d)
  case (Cons x d)
  obtain k' v' where x: "x = (k', v')" by force
  show ?case
  proof (cases "k' = k")
    case True
    then have "v' = v" using Cons.prems(1,2) by (auto simp: x inj_on_def)
    then show ?thesis using True by (simp add: x)
  next
    case False
    then have "nd_set k v d = d" using Cons by (auto simp: x inj_on_def)
    then show ?thesis using False Cons.prems(3) by (simp add: x)
  qed
qed simp

lemma decoded_names_keyed:
  assumes "\<And>s. s \<in> set (map fst names) \<Longrightarrow> utf8_valid s" "distinct (map fst (acc @ names))"
  shows "decoded_names enc (keyed enc names) acc = Inr (acc @ names)"
  using assms
proof (induction names arbitrary: acc)
  case (Cons x names)
  obtain s h where x: "x = (s, h)" by force
  have "decode enc (name_key enc s) True = Inr (PStr s)"
    using Cons.prems(1) by (auto simp: decode_def name_key_def decode_bytes_def x split: errors_mode.splits)
  moreover have "dict_set s h acc = acc @ [(s, h)]" using Cons.prems(2) by (intro dict_set_new) (auto simp: x)
  ultimately show ?case using Cons.IH [of "acc @ [(s, h)]"] Cons.prems by (simp add: keyed_def x)
qed (simp add: keyed_def)

lemma update_kwargs_distinct:
  assumes "distinct (map fst (acc @ names))"
  shows "update_kwargs names (map (\<lambda>(s, h). (PStr s, h)) acc) = map (\<lambda>(s, h). (PStr s, h)) (acc @ names)"
  using assms
proof (induction names arbitrary: acc)
  case (Cons x names)
  obtain s h where x: "x = (s, h)" by force
  have "nd_set (PStr s) h (map (\<lambda>(s, h). (PStr s, h)) acc) = map (\<lambda>(s, h). (PStr s, h)) acc @ [(PStr s, h)]"
    using Cons.prems by (intro nd_set_new) (force simp: x)
  then show ?case using Cons.IH [of "acc @ [(s, h)]"] Cons.prems by (simp add: update_kwargs_def x)
qed (simp add: update_kwargs_def)

lemma normalize_names:
  assumes "\<And>s. s \<in> set (map fst names) \<Longrightarrow> utf8_valid s" "distinct (map fst (acc @ names))"
  shows "normalize_loop enc (map (\<lambda>(s, h). (PStr s, h)) names) (keyed enc acc) = Inr (keyed enc (acc @ names))"
  using assms
proof (induction names arbitrary: acc)
  case (Cons x names)
  obtain s h where x: "x = (s, h)" by force
  have "decode enc (PBytes s) False = Inr (name_key enc s)"
    using Cons.prems(1) by (auto simp: decode_def name_key_def decode_bytes_def x split: errors_mode.splits)
  moreover have "nd_set (name_key enc s) h (keyed enc acc) = keyed enc acc @ [(name_key enc s, h)]"
    using Cons.prems(2) by (intro nd_set_new) (force simp: x keyed_def)
  ultimately show ?case using Cons.IH [of "acc @ [(s, h)]"] Cons.prems by (simp add: x keyed_def)
qed simp

lemma subs_update_same:
  assumes "distinct (map fst names)" "set e \<subseteq> set (keyed enc names)"
  shows "subs_update (keyed enc names) e = keyed enc names"
  using assms(2)
proof (induction e)
  case (Cons x e)
  obtain k v where x: "x = (k, v)" by force
  have "nd_set k v (keyed enc names) = keyed enc names"
  proof (rule nd_set_same)
    show "inj_on fst (set (keyed enc names))"
      using assms(1) by (auto simp: keyed_def inj_on_def name_key_def dest: eq_key_imp_eq_value split: if_splits)
    show "(k, v) \<in> set (keyed enc names)" using Cons.prems by (simp add: x)
    then show "py_key_eq k k' \<longleftrightarrow> k' = k" if "k' \<in> set (map fst (keyed enc names))" for k'
      using that by (auto simp: keyed_def)
  qed
  then show ?case using Cons by (simp add: subs_update_def x)
qed (simp add: subs_update_def)

lemma command_sent:
  assumes "ps_connection p" "ps_subscribed p" "\<And>w. sk_open K w = (Inr False, w)" "sk_send K False args (ps_world p) = (Inr u, w)"
  shows "ps_execute_command K cb args p = Some (Inr (), p\<lparr>ps_world := w\<rparr>)"
  using assms
  by (simp add: ps_execute_command_def getP_def total_def bindP_def [of "\<lambda>s. Some (f s)" for f] ps_execute_def call_with_retryP_Inr
      ps_send_def open_conn_def on_conn_def)

text \<open>A table as the object keeps it: its keys are distinct names that can be given as keywords.\<close>

definition callable_names :: "kind \<Rightarrow> (string \<times> nat option) list \<Rightarrow> bool" where
  "callable_names k names \<longleftrightarrow> distinct (map fst names) \<and> list_all (\<lambda>(s, _). utf8_valid s \<and> s \<noteq> ''self'') names \<and>
     (k = Shard \<longrightarrow> ''target_node'' \<notin> set (map fst names))"

lemma resubscribe_names:
  assumes "ps_connection p" "ps_subscribed p" "\<And>w. sk_open K w = (Inr False, w)"
    and "ps_subs p k = keyed (sk_encoder K) names" "callable_names k names" "ps_pending p k = []"
    and "sends K (resub_command k names) (ps_world p) w"
  shows "resubscribe K cb k p = Some (Inr (), p\<lparr>ps_world := w\<rparr>)"
proof (cases "names = []")
  case True
  then show ?thesis
    using assms(4,7) by (simp add: resubscribe_def keyed_def getP_def total_def resub_command_def)
next
  case False
  let ?enc = "sk_encoder K" and ?new = "map (\<lambda>(s, h). (PStr s, h)) names"
  have u: "utf8_valid s \<and> s \<noteq> ''self''" if "s \<in> set (map fst names)" for s
    using assms(5) that by (auto simp: callable_names_def list_all_iff)
  have d: "distinct (map fst names)" using assms(5) by (simp add: callable_names_def)
  have dn: "decoded_names ?enc (keyed ?enc names) [] = Inr names"
    using decoded_names_keyed [of names "[]" ?enc] u d by simp
  have kw: "keyword_call k names = Inr names"
  proof -
    have "filter (\<lambda>(n, _). n \<noteq> ''target_node'') names = names" if "k = Shard"
      using assms(5) that by (intro filter_True) (force simp: callable_names_def)
    then show ?thesis using u by (auto simp: keyword_call_def)
  qed
  have ns: "new_subs [] names = Inr ?new"
    using update_kwargs_distinct [of "[]" names] d by (simp add: new_subs_def name_args_def)
  have nk: "normalize_keys ?enc ?new = Inr (keyed ?enc names)"
    using normalize_names [of names "[]" ?enc] u d by (simp add: normalize_keys_def keyed_def)
  have keys: "map fst ?new = map (PStr \<circ> fst) names" by auto
  obtain x w' where x: "sk_send K False (PStr (command_of k) # map fst ?new) (ps_world p) = (x, w')" by force
  then obtain v where "sk_send K False (PStr (command_of k) # map fst ?new) (ps_world p) = (Inr v, w)"
    using assms(7) False unfolding keys by (cases x) (auto simp: resub_command_def)
  from command_sent [OF assms(1-3) this]
  have sent: "ps_execute_command K cb (PStr (command_of k) # map fst ?new) p = Some (Inr (), p\<lparr>ps_world := w\<rparr>)" .
  have "subs_update (keyed ?enc names) (keyed ?enc names) = keyed ?enc names"
    using subs_update_same [OF d, of "keyed ?enc names" ?enc] by simp
  then have "subscribed_to k (keyed ?enc names) (p\<lparr>ps_world := w\<rparr>) = p\<lparr>ps_world := w\<rparr>"
    using assms(2,4,6) by (simp add: subscribed_to_def fun_upd_idem)
  then have "subscribe K cb k [] names p = Some (Inr (), p\<lparr>ps_world := w\<rparr>)"
    using ns sent nk by (simp add: subscribe_def subscribe_dict_def total_def modP_def)
  moreover have "ps_subs p k \<noteq> []" using False assms(4) by (simp add: keyed_def)
  ultimately show ?thesis
    using assms(4) dn kw by (simp add: resubscribe_def getP_def total_def)
qed

definition resub_plan :: "(kind \<Rightarrow> (string \<times> nat option) list) \<Rightarrow> pyval list list" where
  "resub_plan names = resub_command Channel (names Channel) @ resub_command Pattern (names Pattern) @ resub_command Shard (names Shard)"

lemma on_connect_names:
  assumes "ps_connection p" "ps_subscribed p" "\<And>w. sk_open K w = (Inr False, w)"
    and "\<And>k. ps_subs p k = keyed (sk_encoder K) (names k)" "\<And>k. callable_names k (names k)"
    and "sends K (resub_plan names) (ps_world p) w"
  shows "on_connect K (Suc n) p = Some (Inr (), p\<lparr>ps_pending := (\<lambda>_. []), ps_world := w\<rparr>)"
proof -
  let ?p = "\<lambda>w. p\<lparr>ps_pending := (\<lambda>_. []), ps_world := w\<rparr>"
  from assms(6) obtain w1 w2 where s: "sends K (resub_command Channel (names Channel)) (ps_world p) w1"
      "sends K (resub_command Pattern (names Pattern)) w1 w2" "sends K (resub_command Shard (names Shard)) w2 w"
    by (auto simp: resub_plan_def sends_append)
  have r: "resubscribe K (on_connect K n) k (?p v) = Some (Inr (), ?p v')" if "sends K (resub_command k (names k)) v v'" for k v v'
    using resubscribe_names [of "?p v" K k "names k" v'] assms that by simp
  have "modP (\<lambda>p. p\<lparr>ps_pending := (\<lambda>_. [])\<rparr>) p = Some (Inr (), ?p (ps_world p))" by (simp add: modP_def total_def)
  then show ?thesis using r [OF s(1)] r [OF s(2)] r [OF s(3)] by (simp add: on_connect_with_def)
qed

text \<open>C22: when the connection of a subscribed object is opened again and every registered name can be passed as a keyword argument
  (it is valid UTF-8, is not \<open>self\<close>, and is not \<open>target_node\<close> for a shard channel), the callback sends one SUBSCRIBE, PSUBSCRIBE
  and SSUBSCRIBE with exactly the registered channels, patterns and shard channels, and the tables with
  their handlers stay as they were. The condition is needed: \<open>channel_named_self_breaks_reconnect\<close> shows what a
  channel with the name \<open>self\<close> does.\<close>

theorem reconnect_subscribes_again:
  assumes "ps_connection p" "ps_subscribed p" "\<And>w. sk_open K w = (Inr False, w)"
    and "\<And>k. ps_subs p k = keyed (sk_encoder K) (names k)" "\<And>k. callable_names k (names k)"
    and "sends K (resub_plan names) (ps_world p) w"
  shows "on_connect K (Suc n) p = Some (Inr (), p\<lparr>ps_pending := (\<lambda>_. []), ps_world := w\<rparr>)"
  using assms by (rule on_connect_names)

text \<open>an unsubscription that was not yet confirmed is undone by a reconnect: the callback forgets what was pending
  and subscribes to the name again, and a late confirmation of the unsubscription does not remove it any more.\<close>

theorem reconnect_undoes_unsubscribe:
  assumes "ps_connection p" "ps_subscribed p" "\<And>w. sk_open K w = (Inr False, w)"
    and "\<And>k. ps_subs p k = keyed (sk_encoder K) (names k)" "\<And>k. callable_names k (names k)"
    and "(s, h) \<in> set (names k)"
    and "sk_send K False [PStr (un_command_of k), PStr s] (ps_world p) = (Inr (), w1)"
    and "sends K (resub_plan names) w1 w2"
  shows "\<exists>p1 p2. unsubscribe K cb k [PStr s] p = Some (Inr (), p1) \<and> on_connect K (Suc n) p1 = Some (Inr (), p2) \<and>
    (name_key (sk_encoder K) s, h) \<in> set (ps_subs p2 k) \<and> forget k (name_key (sk_encoder K) s) p2 = p2"
proof -
  let ?enc = "sk_encoder K" and ?key = "name_key (sk_encoder K) s"
  have "utf8_valid s" using assms(5) [of k] assms(6) by (auto simp: callable_names_def list_all_iff)
  then have dec: "decode ?enc (PBytes s) False = Inr ?key"
    by (auto simp: decode_def name_key_def decode_bytes_def split: errors_mode.splits)
  have names: "bindE (fromkeys (name_args [PStr s]) []) (normalize_keys ?enc) = Inr [(?key, None)]"
    using dec by (simp add: name_args_def list_or_args_def normalize_keys_def)
  let ?p = "p\<lparr>ps_pending := (ps_pending p)(k := set_union (ps_pending p k) [?key])\<rparr>"
  have "ps_execute_command K cb [PStr (un_command_of k), PStr s] ?p = Some (Inr (), ?p\<lparr>ps_world := w1\<rparr>)"
    using command_sent [of ?p K _ "()" w1 cb] assms(1-3,7) by simp
  then have un: "unsubscribe K cb k [PStr s] p = Some (Inr (), ?p\<lparr>ps_world := w1\<rparr>)"
    using names by (simp add: unsubscribe_def total_def modP_def name_args_def list_or_args_def)
  have re: "on_connect K (Suc n) (?p\<lparr>ps_world := w1\<rparr>) = Some (Inr (), ?p\<lparr>ps_world := w1, ps_pending := (\<lambda>_. []), ps_world := w2\<rparr>)"
    using on_connect_names [of "?p\<lparr>ps_world := w1\<rparr>" K names w2 n] assms(1-5,8) by simp
  have "(?key, h) \<in> set (keyed ?enc (names k))" using assms(6) by (force simp: keyed_def)
  then show ?thesis using un re assms(4) by (auto simp: forget_def py_in_def)
qed

text \<open>a channel with the name \<open>self\<close> breaks the callback: names are passed as keyword arguments, and the call
  raises TypeError instead of subscribing again to anything.\<close>

theorem channel_named_self_breaks_reconnect:
  assumes "ps_subs p Channel = keyed (sk_encoder K) names" "distinct (map fst names)"
    and "list_all (\<lambda>(s, _). utf8_valid s) names" "''self'' \<in> set (map fst names)"
  shows "\<exists>p'. on_connect K (Suc n) p = Some (Inl (Exc TypeError ''got multiple values for argument self''), p') \<and>
    ps_world p' = ps_world p"
proof -
  have "utf8_valid s" if "s \<in> set (map fst names)" for s using assms(3) that by (auto simp: list_all_iff)
  then have "decoded_names (sk_encoder K) (keyed (sk_encoder K) names) [] = Inr names"
    using decoded_names_keyed [of names "[]" "sk_encoder K"] assms(2) by simp
  moreover have "keyed (sk_encoder K) names \<noteq> []" using assms(4) by (auto simp: keyed_def)
  ultimately have "resubscribe K (on_connect K n) Channel (p\<lparr>ps_pending := (\<lambda>_. [])\<rparr>)
      = Some (Inl (Exc TypeError ''got multiple values for argument self''), p\<lparr>ps_pending := (\<lambda>_. [])\<rparr>)"
    using assms(1,4) by (simp add: resubscribe_def getP_def total_def keyword_call_def)
  then show ?thesis by (simp add: on_connect_with_def modP_def total_def)
qed

section \<open>Messages\<close>

text \<open>A published message as the server sends it to a subscriber of a kind.\<close>

fun wire :: "kind \<Rightarrow> pyval \<Rightarrow> pyval \<Rightarrow> pyval \<Rightarrow> pyval" where
  "wire Channel name ch d = PList [PBytes ''message'', name, d]"
| "wire Pattern name ch d = PList [PBytes ''pmessage'', name, ch, d]"
| "wire Shard name ch d = PList [PBytes ''smessage'', name, d]"

fun parsed :: "kind \<Rightarrow> pyval \<Rightarrow> pyval \<Rightarrow> pyval \<Rightarrow> pyval" where
  "parsed Channel name ch d = message_dict (PStr ''message'') PNone name d"
| "parsed Pattern name ch d = message_dict (PStr ''pmessage'') name ch d"
| "parsed Shard name ch d = message_dict (PStr ''smessage'') PNone name d"

lemma utf8_types [simp]:
  "utf8_replace ''message'' = ''message''" "utf8_replace ''pmessage'' = ''pmessage''" "utf8_replace ''smessage'' = ''smessage''"
  "utf8_replace ''unsubscribe'' = ''unsubscribe''" "utf8_replace ''punsubscribe'' = ''punsubscribe''" "utf8_replace ''sunsubscribe'' = ''sunsubscribe''"
  by (simp_all add: ascii_def)

text \<open>a published message goes to the handler of its channel, pattern or shard channel, which is called once with
  the parsed message, and nothing is returned; without a handler the parsed message is returned. No
  subscription changes.\<close>

theorem message_dispatch:
  assumes "hashable name"
  shows "handle_message K (wire k name ch d) ignore p =
    (case nd_get name (ps_subs p k) of
       Some (Some n) \<Rightarrow>
         (case sk_handler K n (parsed k name ch d) (ps_world p) of
            (Inr _, w) \<Rightarrow> Some (Inr PNone, p\<lparr>ps_world := w\<rparr>)
          | (Inl e, w) \<Rightarrow> Some (Inl e, p\<lparr>ps_world := w\<rparr>))
     | _ \<Rightarrow> Some (Inr (parsed k name ch d), p))"
proof -
  have h: "thenP (on_conn m) (retP PNone) p = (case m (ps_world p) of
      (Inr _, w) \<Rightarrow> Some (Inr PNone, p\<lparr>ps_world := w\<rparr>) | (Inl e, w) \<Rightarrow> Some (Inl e, p\<lparr>ps_world := w\<rparr>))" for m :: "('a, exc, unit) action"
    by (auto simp: thenP_def bindP_def on_conn_def split: prod.splits sum.splits)
  show ?thesis
    using assms
    by (cases k; cases "nd_get name (ps_subs p k)")
      (auto simp: handle_message_def parse_message_def item_at_def total_def is_type_def PUBLISH_MESSAGE_TYPES_def Let_def
        UNSUBSCRIBE_MESSAGE_TYPES_def kind_of_message_def getP_def h split: option.splits)
qed

text \<open>a confirmed unsubscription removes its name, and only when that name was pending; when no name of
  any kind is left the object is no longer subscribed.\<close>

theorem unsubscribe_confirmed:
  assumes "hashable name" "t = (case k of Channel \<Rightarrow> ''unsubscribe'' | Pattern \<Rightarrow> ''punsubscribe'' | Shard \<Rightarrow> ''sunsubscribe'')"
  shows "\<exists>m p'. handle_message K (PList [PBytes t, name, d]) ignore p = Some (Inr m, p') \<and>
    (\<forall>x v. (x, v) \<in> set (ps_subs p' k) \<longleftrightarrow> (x, v) \<in> set (ps_subs p k) \<and> \<not> (py_in name (ps_pending p k) \<and> py_key_eq name x)) \<and>
    (\<forall>j. j \<noteq> k \<longrightarrow> ps_subs p' j = ps_subs p j) \<and>
    ps_subscribed p' = (ps_subscribed p \<and> (\<exists>j. ps_subs p' j \<noteq> []))"
proof -
  have kinds: "(\<exists>j. ps_subs q j \<noteq> []) \<longleftrightarrow> \<not> (ps_subs q Channel = [] \<and> ps_subs q Pattern = [] \<and> ps_subs q Shard = [])"
    for q :: "'a pubsub"
  proof -
    have "ps_subs q j = []" if "ps_subs q Channel = []" "ps_subs q Pattern = []" "ps_subs q Shard = []" for j
      using that by (cases j) simp_all
    then show ?thesis by blast
  qed
  have "\<exists>m. handle_message K (PList [PBytes t, name, d]) ignore p = Some (Inr m, clear_if_none (forget k name p))"
    using assms
    by (cases k) (auto simp: handle_message_def parse_message_def item_at_def total_def is_type_def PUBLISH_MESSAGE_TYPES_def Let_def
        UNSUBSCRIBE_MESSAGE_TYPES_def kind_of_unsubscribe_def modP_def)
  then obtain m where m: "handle_message K (PList [PBytes t, name, d]) ignore p = Some (Inr m, clear_if_none (forget k name p))" ..
  have subs: "ps_subs (clear_if_none q) = ps_subs q" for q :: "'a pubsub" by (simp add: clear_if_none_def)
  have "ps_subscribed (forget k name p) = ps_subscribed p" by (simp add: forget_def)
  then have "ps_subscribed (clear_if_none (forget k name p)) = (ps_subscribed p \<and> (\<exists>j. ps_subs (forget k name p) j \<noteq> []))"
    unfolding kinds by (simp add: clear_if_none_def)
  then show ?thesis
    unfolding m by (intro exI [of _ m] exI [of _ "clear_if_none (forget k name p)"]) (auto simp: subs forget_def)
qed

text \<open>with decoded responses the answer to a PING sent without subscriptions is read letter by letter, as a
  message of type P.\<close>

theorem pong_text_becomes_message:
  "handle_message K (PStr ''PONG'') False p
     = (if sk_ignore_subscribe K then Some (Inr PNone, p)
        else Some (Inr (message_dict (PStr ''P'') PNone (PStr ''O'') (PStr ''N'')), p))"
  by (simp add: handle_message_def parse_message_def item_at_def total_def is_type_def PUBLISH_MESSAGE_TYPES_def UNSUBSCRIBE_MESSAGE_TYPES_def Let_def)

section \<open>Examples\<close>

text \<open>A connection that stays open and records what is sent and what handlers get.\<close>

definition logging_link :: "pyval list list sub_link" where
  "logging_link = \<lparr>sk_get = retS (), sk_release = retS (), sk_open = retS False, sk_send = (\<lambda>_ c. modS (\<lambda>w. w @ [c])),
     sk_can_read = (\<lambda>_. retS False), sk_read = (\<lambda>_. raiseS (Exc ConnectionError ''closed'')), sk_disconnect = retS (),
     sk_due = (\<lambda>_. False), sk_timeout = None, sk_retry = new_retry NoBackoff 0, sk_rnd = (\<lambda>_. 0), sk_sleep = (\<lambda>_ w. w),
     sk_retry_on_error = None, sk_encoder = strict_encoder, sk_ignore_subscribe = False,
     sk_handler = (\<lambda>n m. modS (\<lambda>w. w @ [[PInt (int n), m]]))\<rparr>"

definition example_names :: "kind \<Rightarrow> (string \<times> nat option) list" where
  "example_names k = (case k of Channel \<Rightarrow> [(''news'', None), (''jobs'', Some 7)] | Pattern \<Rightarrow> [(''user:*'', Some 1)] | Shard \<Rightarrow> [])"

definition example_pubsub :: "pyval list list \<Rightarrow> pyval list list pubsub" where
  "example_pubsub w = (new_pubsub w)\<lparr>ps_connection := True, ps_subscribed := True,
     ps_subs := (\<lambda>k. keyed strict_encoder (example_names k))\<rparr>"

abbreviation example_plan :: "pyval list list" where
  "example_plan \<equiv> [[PStr ''SUBSCRIBE'', PStr ''news'', PStr ''jobs''], [PStr ''PSUBSCRIBE'', PStr ''user:*'']]"

lemma example_callable: "callable_names k (example_names k)"
  by (cases k) (simp_all add: callable_names_def example_names_def ascii_def)

lemma example_sends: "sends logging_link (resub_plan example_names) w (w @ example_plan)"
  by (simp add: resub_plan_def resub_command_def example_names_def logging_link_def command_of_def)

lemma clean_none: "ps_counter p \<le> 0 \<Longrightarrow> clean_health_check_responses K cb p = Some (Inr (), p)"
  by (simp add: clean_health_check_responses_def eval_nat_numeral getP_def total_def bindP_def)

lemma first_command:
  assumes "\<not> ps_connection p" "\<not> ps_subscribed p" "ps_counter p \<le> 0" "sk_get K (ps_world p) = (Inr (), w0)"
    and "\<And>w. sk_open K w = (Inr False, w)" "sk_send K True args w0 = (Inr u, w)"
  shows "ps_execute_command K cb args p = Some (Inr (), p\<lparr>ps_world := w, ps_connection := True\<rparr>)"
proof -
  let ?p = "p\<lparr>ps_world := w0, ps_connection := True\<rparr>"
  have "ps_send K cb True args ?p = Some (Inr (), p\<lparr>ps_world := w, ps_connection := True\<rparr>)"
    using assms(5,6) by (simp add: ps_send_def open_conn_def on_conn_def thenP_def bindP_def)
  then have "ps_execute K cb (ps_send K cb True args) ?p = Some (Inr (), p\<lparr>ps_world := w, ps_connection := True\<rparr>)"
    by (simp add: ps_execute_def call_with_retryP_Inr)
  then show ?thesis
    using assms(1-4) clean_none [of ?p K cb]
    by (simp add: ps_execute_command_def getP_def modP_def total_def bindP_def thenP_def on_conn_def)
qed

theorem registered_means_subscribed_witness:
  "let p = (new_pubsub [[PStr ''SUBSCRIBE'', PStr ''news'']])\<lparr>ps_connection := True, ps_subscribed := True,
        ps_subs := (\<lambda>_. [])(Channel := [(PBytes ''news'', None)]), ps_pending := (\<lambda>_. [])(Channel := [])\<rparr>
   in ((\<exists>k. ps_subs p k \<noteq> []) \<longrightarrow> ps_subscribed p) \<and> (ps_subscribed p \<longrightarrow> ps_connection p)"
  unfolding Let_def
proof (rule registered_means_subscribed [of logging_link 1])
  have "ps_execute_command logging_link cb [PStr ''SUBSCRIBE'', PStr ''news''] (new_pubsub [])
      = Some (Inr (), (new_pubsub [])\<lparr>ps_world := [[PStr ''SUBSCRIBE'', PStr ''news'']], ps_connection := True\<rparr>)" for cb
    by (rule first_command) (simp_all add: logging_link_def new_pubsub_def)
  then have "subscribe logging_link (on_connect logging_link 1) Channel [PStr ''news''] [] (new_pubsub [])
      = Some (Inr (), (new_pubsub [[PStr ''SUBSCRIBE'', PStr ''news'']])\<lparr>ps_connection := True, ps_subscribed := True,
        ps_subs := (\<lambda>_. [])(Channel := [(PBytes ''news'', None)]), ps_pending := (\<lambda>_. [])(Channel := [])\<rparr>)"
    by (simp add: subscribe_def subscribe_dict_def new_subs_def name_args_def list_or_args_def update_kwargs_def total_def modP_def
        new_pubsub_def normalize_keys_def logging_link_def strict_encoder_def decode_def subscribed_to_def subs_update_def command_of_def)
  then show "(sub_step logging_link 1)\<^sup>*\<^sup>* (new_pubsub []) ((new_pubsub [[PStr ''SUBSCRIBE'', PStr ''news'']])\<lparr>ps_connection := True,
        ps_subscribed := True, ps_subs := (\<lambda>_. [])(Channel := [(PBytes ''news'', None)]), ps_pending := (\<lambda>_. [])(Channel := [])\<rparr>)"
    by (intro r_into_rtranclp sub_step.Subscribe)
qed

theorem reconnect_subscribes_again_witness:
  "on_connect logging_link (Suc 0) (example_pubsub []) = Some (Inr (), (example_pubsub [])\<lparr>ps_pending := (\<lambda>_. []), ps_world := example_plan\<rparr>)"
  by (rule reconnect_subscribes_again [where names = example_names])
    (use example_sends [of "[]"] in \<open>simp_all add: example_pubsub_def new_pubsub_def logging_link_def example_callable\<close>)

theorem reconnect_undoes_unsubscribe_witness:
  "\<exists>p1 p2. unsubscribe logging_link (on_connect logging_link 0) Channel [PStr ''news''] (example_pubsub []) = Some (Inr (), p1) \<and>
    on_connect logging_link (Suc 0) p1 = Some (Inr (), p2) \<and>
    (name_key (sk_encoder logging_link) ''news'', None) \<in> set (ps_subs p2 Channel) \<and>
    forget Channel (name_key (sk_encoder logging_link) ''news'') p2 = p2"
  by (rule reconnect_undoes_unsubscribe [where names = example_names and ?w1.0 = "[[PStr ''UNSUBSCRIBE'', PStr ''news'']]",
        OF _ _ _ _ example_callable _ _ example_sends])
    (simp_all add: example_pubsub_def new_pubsub_def logging_link_def example_names_def un_command_of_def)

theorem channel_named_self_breaks_reconnect_witness:
  "\<exists>p'. on_connect logging_link (Suc 0) ((example_pubsub [])\<lparr>ps_subs := (\<lambda>_. [(PBytes ''self'', None)])\<rparr>)
      = Some (Inl (Exc TypeError ''got multiple values for argument self''), p') \<and>
    ps_world p' = ps_world ((example_pubsub [])\<lparr>ps_subs := (\<lambda>_. [(PBytes ''self'', None)])\<rparr>)"
  by (rule channel_named_self_breaks_reconnect [where names = "[(''self'', None)]"])
    (simp_all add: keyed_def name_key_def logging_link_def strict_encoder_def ascii_def)

theorem message_dispatch_witness:
  "handle_message logging_link (wire Channel (PBytes ''jobs'') PNone (PBytes ''hi'')) False (example_pubsub []) =
    (case nd_get (PBytes ''jobs'') (ps_subs (example_pubsub []) Channel) of
       Some (Some n) \<Rightarrow>
         (case sk_handler logging_link n (parsed Channel (PBytes ''jobs'') PNone (PBytes ''hi'')) (ps_world (example_pubsub [])) of
            (Inr _, w) \<Rightarrow> Some (Inr PNone, (example_pubsub [])\<lparr>ps_world := w\<rparr>)
          | (Inl e, w) \<Rightarrow> Some (Inl e, (example_pubsub [])\<lparr>ps_world := w\<rparr>))
     | _ \<Rightarrow> Some (Inr (parsed Channel (PBytes ''jobs'') PNone (PBytes ''hi'')), example_pubsub []))"
  by (rule message_dispatch) simp

theorem unsubscribe_confirmed_witness:
  "\<exists>m p'. handle_message logging_link (PList [PBytes ''unsubscribe'', PBytes ''jobs'', PInt 1]) False (example_pubsub []) = Some (Inr m, p') \<and>
    (\<forall>x v. (x, v) \<in> set (ps_subs p' Channel) \<longleftrightarrow> (x, v) \<in> set (ps_subs (example_pubsub []) Channel) \<and>
       \<not> (py_in (PBytes ''jobs'') (ps_pending (example_pubsub []) Channel) \<and> py_key_eq (PBytes ''jobs'') x)) \<and>
    (\<forall>j. j \<noteq> Channel \<longrightarrow> ps_subs p' j = ps_subs (example_pubsub []) j) \<and>
    ps_subscribed p' = (ps_subscribed (example_pubsub []) \<and> (\<exists>j. ps_subs p' j \<noteq> []))"
  by (rule unsubscribe_confirmed) simp_all

end
