(* ===== verification/Sentinel.thy ===== *)
theory Sentinel
  imports PyVal Retry
begin

text \<open>
  Sentinel-backed clients (\<open>redis/sentinel.py\<close>): finding the master and the replicas of a service, the
  managed connection with its check, the rotation over replicas, and the proxy of the pool. What the
  sentinels answer and what opening a socket and pinging do is an argument.
\<close>

section \<open>State\<close>

type_synonym address = "string \<times> int"

text \<open>The fields of a SENTINEL reply that are read; the replies are parsed by \<open>Callbacks\<close>.\<close>

record master_state =
  ms_is_master :: bool
  ms_is_sdown :: bool
  ms_is_odown :: bool
  ms_num_other_sentinels :: int
  ms_address :: address

record 'w sentinel_env =
  se_masters :: "nat \<Rightarrow> ('w, exc, (string \<times> master_state) list) action"
  se_slaves :: "nat \<Rightarrow> string \<Rightarrow> ('w, exc, master_state list) action"
  se_command :: "nat \<Rightarrow> pyval list \<Rightarrow> ('w, exc, pyval) action"
  se_open :: "address \<Rightarrow> ('w, exc, unit) action"
  se_send_ping :: "address \<Rightarrow> ('w, exc, unit) action"
  se_read :: "address \<Rightarrow> bool \<Rightarrow> ('w, exc, pyval) action"
  se_disconnect_idle :: "('w, exc, unit) action"
  se_choice :: "nat \<Rightarrow> 'w \<Rightarrow> nat"
  se_rnd :: "nat \<Rightarrow> rat"
  se_sleep :: "rat \<Rightarrow> 'w \<Rightarrow> 'w"

text \<open>
  The manager, the proxy of the pool and one managed connection: \<open>sn_host\<close> is \<open>(self.host, self.port)\<close>,
  \<open>sn_sock\<close> the address the open socket really leads to.
\<close>

record 'w sentinel =
  sn_sentinels :: "nat list"
  sn_master :: "address option"
  sn_counter :: "nat option"
  sn_host :: "address option"
  sn_sock :: "address option"
  sn_world :: 'w

record sentinel_config =
  sc_service :: string
  sc_is_master :: bool
  sc_check_connection :: bool
  sc_min_other :: int
  sc_force_ip :: "string option"
  sc_retry :: retry

type_synonym ('w, 'a) sentinel_op = "('w sentinel, exc, 'a) action"

definition on_sentinel :: "('w, exc, 'a) action \<Rightarrow> ('w, 'a) sentinel_op" where
  "on_sentinel m = (\<lambda>s. case m (sn_world s) of (r, w) \<Rightarrow> (r, s\<lparr>sn_world := w\<rparr>))"

definition new_sentinel :: "nat list \<Rightarrow> 'w \<Rightarrow> 'w sentinel" where
  "new_sentinel sentinels w = \<lparr>sn_sentinels = sentinels, sn_master = None, sn_counter = None, sn_host = None, sn_sock = None, sn_world = w\<rparr>"

text \<open>\<open>SentinelConnectionPoolProxy.reset\<close>.\<close>

definition proxy_reset :: "('w, unit) sentinel_op" where
  "proxy_reset = modS (\<lambda>s. s\<lparr>sn_master := None, sn_counter := None\<rparr>)"

section \<open>Sentinel\<close>

text \<open>A command goes to every sentinel, or with \<open>once\<close> to one of them; the result is \<open>True\<close> in any case.\<close>

definition sentinel_execute_command :: "'w sentinel_env \<Rightarrow> bool \<Rightarrow> pyval list \<Rightarrow> ('w, pyval) sentinel_op" where
  "sentinel_execute_command E once args =
     bindS (getS (\<lambda>s. (sn_sentinels s, sn_world s))) (\<lambda>(ss, w).
       thenS (if once then
                (if ss = [] then raiseS (Exc IndexError ''Cannot choose from an empty sequence'')
                 else bindS (on_sentinel (se_command E (ss ! (se_choice E (length ss) w mod length ss)) args)) (\<lambda>_. retS ()))
              else bindS (mapS (\<lambda>n. on_sentinel (se_command E n args)) ss) (\<lambda>_. retS ()))
         (retS (PBool True)))"

definition check_master_state :: "sentinel_config \<Rightarrow> master_state \<Rightarrow> bool" where
  "check_master_state c st =
     (if \<not> ms_is_master st \<or> ms_is_sdown st \<or> ms_is_odown st then False
      else if ms_num_other_sentinels st < sc_min_other c then False
      else True)"

text \<open>
  The message of the error. The model abbreviates the texts Python makes of objects: the name in quotation marks as it is (\<open>repr\<close> escapes), a
  sentinel by its number, an error by its message.
\<close>

definition master_not_found :: "sentinel_config \<Rightarrow> string list \<Rightarrow> exc" where
  "master_not_found c errors = Exc MasterNotFoundError
     (''No master found for '' @ [CHR 39] @ sc_service c @ [CHR 39]
      @ (if errors = [] then [] else '' : '' @ join_with '', '' errors))"

text \<open>The sentinel that answered goes to the front, in exchange with the first.\<close>

definition swap_first :: "nat \<Rightarrow> 'a list \<Rightarrow> 'a list" where
  "swap_first i xs = (let x = xs ! i in xs[0 := x, i := xs ! 0])"

text \<open>The loop from the \<open>i\<close>-th sentinel on; the last argument collects the errors.\<close>

fun discover_master_from :: "'w sentinel_env \<Rightarrow> sentinel_config \<Rightarrow> nat \<Rightarrow> nat list \<Rightarrow> string list \<Rightarrow> ('w, address) sentinel_op" where
  "discover_master_from E c i [] errors = raiseS (master_not_found c errors)"
| "discover_master_from E c i (n # ns) errors = (\<lambda>s.
     case on_sentinel (se_masters E n) s of
       (Inl e, s1) \<Rightarrow>
         if isinstance_any e [ConnectionError, TimeoutError]
         then discover_master_from E c (Suc i) ns (errors @ [dec_nat n @ '' - '' @ exc_msg e]) s1
         else (Inl e, s1)
     | (Inr masters, s1) \<Rightarrow>
         (case dict_get masters (sc_service c) of
            Some st \<Rightarrow>
              if check_master_state c st then
                (Inr (case sc_force_ip c of Some ip \<Rightarrow> ip | None \<Rightarrow> fst (ms_address st), snd (ms_address st)),
                 s1\<lparr>sn_sentinels := swap_first i (sn_sentinels s1)\<rparr>)
              else discover_master_from E c (Suc i) ns errors s1
          | None \<Rightarrow> discover_master_from E c (Suc i) ns errors s1))"

definition discover_master :: "'w sentinel_env \<Rightarrow> sentinel_config \<Rightarrow> ('w, address) sentinel_op" where
  "discover_master E c = bindS (getS sn_sentinels) (\<lambda>ns. discover_master_from E c 0 ns [])"

definition filter_slaves :: "master_state list \<Rightarrow> address list" where
  "filter_slaves ss = map ms_address (filter (\<lambda>st. \<not> (ms_is_odown st \<or> ms_is_sdown st)) ss)"

fun discover_slaves_from :: "'w sentinel_env \<Rightarrow> sentinel_config \<Rightarrow> nat list \<Rightarrow> ('w, address list) sentinel_op" where
  "discover_slaves_from E c [] = retS []"
| "discover_slaves_from E c (n # ns) = (\<lambda>s.
     case on_sentinel (se_slaves E n (sc_service c)) s of
       (Inl e, s1) \<Rightarrow>
         if isinstance_any e [ConnectionError, ResponseError, TimeoutError] then discover_slaves_from E c ns s1 else (Inl e, s1)
     | (Inr ss, s1) \<Rightarrow> if filter_slaves ss \<noteq> [] then (Inr (filter_slaves ss), s1) else discover_slaves_from E c ns s1)"

definition discover_slaves :: "'w sentinel_env \<Rightarrow> sentinel_config \<Rightarrow> ('w, address list) sentinel_op" where
  "discover_slaves E c = bindS (getS sn_sentinels) (discover_slaves_from E c)"

section \<open>The proxy of the pool\<close>

definition get_master_address :: "'w sentinel_env \<Rightarrow> sentinel_config \<Rightarrow> ('w, address) sentinel_op" where
  "get_master_address E c =
     bindS (discover_master E c) (\<lambda>a.
     bindS (getS (\<lambda>s. sc_is_master c \<and> sn_master s \<noteq> Some a)) (\<lambda>changed.
     thenS (if changed then thenS (modS (\<lambda>s. s\<lparr>sn_master := Some a\<rparr>)) (on_sentinel (se_disconnect_idle E)) else retS ())
       (retS a)))"

definition slave_not_found :: "sentinel_config \<Rightarrow> exc" where
  "slave_not_found c = Exc SlaveNotFoundError (''No slave found for '' @ [CHR 39] @ sc_service c @ [CHR 39])"

section \<open>The managed connection\<close>

text \<open>\<open>super().connect()\<close>: an open connection stays what it is.\<close>

definition base_connect :: "'w sentinel_env \<Rightarrow> ('w, unit) sentinel_op" where
  "base_connect E =
     bindS (getS sn_sock) (\<lambda>sock. bindS (getS sn_host) (\<lambda>host.
       case (sock, host) of
         (None, Some a) \<Rightarrow> thenS (on_sentinel (se_open E a)) (modS (\<lambda>s. s\<lparr>sn_sock := Some a\<rparr>))
       | _ \<Rightarrow> retS ()))"

text \<open>\<open>se_read\<close> is the read of the base class on the socket; its flag is \<open>disconnect_on_error\<close>.\<close>

definition sentinel_read_response :: "'w sentinel_env \<Rightarrow> sentinel_config \<Rightarrow> address \<Rightarrow> bool \<Rightarrow> ('w, pyval) sentinel_op" where
  "sentinel_read_response E c a disconnect_on_error =
     catchS (catchS (on_sentinel (se_read E a disconnect_on_error))
         (\<lambda>e. thenS (modS (\<lambda>s. if disconnect_on_error \<and> \<not> isinstance e ResponseError then s\<lparr>sn_sock := None\<rparr> else s)) (raiseS e)))
       (\<lambda>e. if isinstance e ReadOnlyError \<and> sc_is_master c then
              thenS (modS (\<lambda>s. s\<lparr>sn_sock := None\<rparr>)) (raiseS (Exc ConnectionError ''The previous master is now a slave''))
            else raiseS e)"

text \<open>PING goes to where the socket leads; sending that fails closes it, reading that fails does not.\<close>

definition check_ping :: "'w sentinel_env \<Rightarrow> sentinel_config \<Rightarrow> ('w, unit) sentinel_op" where
  "check_ping E c =
     bindS (getS sn_sock) (\<lambda>sock. case sock of
         None \<Rightarrow> retS ()
       | Some a \<Rightarrow>
           thenS (catchS (on_sentinel (se_send_ping E a)) (\<lambda>e. thenS (modS (\<lambda>s. s\<lparr>sn_sock := None\<rparr>)) (raiseS e)))
           (bindS (sentinel_read_response E c a False) (\<lambda>r.
              if str_if_bytes r \<noteq> PStr ''PONG'' then raiseS (Exc ConnectionError ''PING failed'') else retS ())))"

definition connect_to :: "'w sentinel_env \<Rightarrow> sentinel_config \<Rightarrow> address \<Rightarrow> ('w, unit) sentinel_op" where
  "connect_to E c a =
     thenS (modS (\<lambda>s. s\<lparr>sn_host := Some a\<rparr>))
     (thenS (base_connect E) (whenS (sc_check_connection c) (check_ping E c)))"

text \<open>
  The loop over \<open>rotate_slaves\<close>, a generator: each replica moves the counter when it is reached; behind the
  replicas comes the master's address, and then SlaveNotFoundError.
\<close>

definition fallback_to_master :: "'w sentinel_env \<Rightarrow> sentinel_config \<Rightarrow> ('w, unit) sentinel_op" where
  "fallback_to_master E c = (\<lambda>s.
     case get_master_address E c s of
       (Inl e, s1) \<Rightarrow> (Inl (if isinstance e MasterNotFoundError then slave_not_found c else e), s1)
     | (Inr a, s1) \<Rightarrow>
         (case connect_to E c a s1 of
            (Inl e, s2) \<Rightarrow> (Inl (if isinstance e ConnectionError then slave_not_found c else e), s2)
          | (Inr _, s2) \<Rightarrow> (Inr (), s2)))"

fun try_slaves :: "'w sentinel_env \<Rightarrow> sentinel_config \<Rightarrow> address list \<Rightarrow> nat \<Rightarrow> ('w, unit) sentinel_op" where
  "try_slaves E c slaves 0 = fallback_to_master E c"
| "try_slaves E c slaves (Suc n) = (\<lambda>s.
     let k = ((case sn_counter s of Some k \<Rightarrow> k | None \<Rightarrow> 0) + 1) mod length slaves in
     case connect_to E c (slaves ! k) (s\<lparr>sn_counter := Some k\<rparr>) of
       (Inl e, s1) \<Rightarrow> if isinstance e ConnectionError then try_slaves E c slaves n s1 else (Inl e, s1)
     | (Inr _, s1) \<Rightarrow> (Inr (), s1))"

text \<open>\<open>random.randint(0, len(slaves) - 1)\<close> for a counter that is not set.\<close>

definition start_counter :: "'w sentinel_env \<Rightarrow> nat \<Rightarrow> ('w, unit) sentinel_op" where
  "start_counter E n = modS (\<lambda>s. case sn_counter s of
     Some _ \<Rightarrow> s | None \<Rightarrow> s\<lparr>sn_counter := Some (se_choice E n (sn_world s) mod n)\<rparr>)"

definition connect_slave :: "'w sentinel_env \<Rightarrow> sentinel_config \<Rightarrow> ('w, unit) sentinel_op" where
  "connect_slave E c =
     bindS (discover_slaves E c) (\<lambda>slaves.
       thenS (if slaves = [] then retS () else start_counter E (length slaves)) (try_slaves E c slaves (length slaves)))"

definition connect_retry :: "'w sentinel_env \<Rightarrow> sentinel_config \<Rightarrow> ('w, unit) sentinel_op" where
  "connect_retry E c =
     bindS (getS sn_sock) (\<lambda>sock.
       if sock \<noteq> None then retS ()
       else if sc_is_master c then bindS (get_master_address E c) (connect_to E c)
       else connect_slave E c)"

definition sentinel_connect :: "'w sentinel_env \<Rightarrow> sentinel_config \<Rightarrow> 'w sentinel \<Rightarrow> ((exc + unit) \<times> 'w sentinel) option" where
  "sentinel_connect E c s = map_option fst
     (call_with_retry (sc_retry c) (se_rnd E) (\<lambda>t s. s\<lparr>sn_world := se_sleep E t (sn_world s)\<rparr>) (connect_retry E c) (\<lambda>_. retS ()) s)"

text \<open>\<open>SentinelConnectionPool.owns_connection\<close>; the last argument is the answer of \<open>ConnectionPool\<close>.\<close>

definition owns_connection :: "sentinel_config \<Rightarrow> address \<Rightarrow> bool \<Rightarrow> 'w sentinel \<Rightarrow> bool" where
  "owns_connection c a base s = ((\<not> sc_is_master c \<or> sn_master s = Some a) \<and> base)"

end
