(* ===== verification/SentinelCorrect.thy ===== *)
theory SentinelCorrect
  imports Sentinel "HOL-Library.Multiset"
begin

text \<open>
  What Sentinel-backed clients do: which master is found, that a failing connect goes round all replicas, how a
  demoted master is left; and that the check of a connection does not change the socket it failed on.
\<close>

section \<open>Finding the master\<close>

lemma on_sentinel_eq: "m (sn_world s) = (r, w) \<Longrightarrow> on_sentinel m s = (r, s\<lparr>sn_world := w\<rparr>)"
  by (simp add: on_sentinel_def)

text \<open>An answer that makes the search go on: no connection, or no good state of the service.\<close>

definition passed_over :: "sentinel_config \<Rightarrow> exc + (string \<times> master_state) list \<Rightarrow> bool" where
  "passed_over c r = (case r of
     Inl e \<Rightarrow> isinstance_any e [ConnectionError, TimeoutError]
   | Inr masters \<Rightarrow> (case dict_get masters (sc_service c) of None \<Rightarrow> True | Some st \<Rightarrow> \<not> check_master_state c st))"

text \<open>\<open>all_passed E c ns w w'\<close>: the sentinels are asked in this order and every answer is passed over.\<close>

fun all_passed :: "'w sentinel_env \<Rightarrow> sentinel_config \<Rightarrow> nat list \<Rightarrow> 'w \<Rightarrow> 'w \<Rightarrow> bool" where
  "all_passed E c [] w w' = (w' = w)"
| "all_passed E c (n # ns) w w' = (case se_masters E n w of (r, w1) \<Rightarrow> passed_over c r \<and> all_passed E c ns w1 w')"

lemma discover_passed:
  assumes "all_passed E c ns (sn_world s) w"
  shows "\<exists>errors'. discover_master_from E c i (ns @ rest) errors s
     = discover_master_from E c (i + length ns) rest errors' (s\<lparr>sn_world := w\<rparr>)"
  using assms
proof (induction ns arbitrary: i errors s)
  case Nil
  then show ?case by auto
next
  case (Cons n ns)
  obtain r w1 where m: "se_masters E n (sn_world s) = (r, w1)" by force
  with Cons.prems have p: "passed_over c r" and rest: "all_passed E c ns w1 w" by simp_all
  obtain errors' where "discover_master_from E c i ((n # ns) @ rest) errors s
      = discover_master_from E c (Suc i) (ns @ rest) errors' (s\<lparr>sn_world := w1\<rparr>)"
    using m p by (cases r) (auto simp: on_sentinel_def passed_over_def split: option.splits)
  moreover obtain errors'' where "discover_master_from E c (Suc i) (ns @ rest) errors' (s\<lparr>sn_world := w1\<rparr>)
      = discover_master_from E c (Suc i + length ns) rest errors'' (s\<lparr>sn_world := w\<rparr>)"
    using Cons.IH [of "s\<lparr>sn_world := w1\<rparr>" "Suc i" errors'] rest by auto
  ultimately show ?case by auto
qed

lemma swap_first_prefix: "swap_first (length xs) (xs @ x # ys) = (case xs of [] \<Rightarrow> x # ys | y # zs \<Rightarrow> x # zs @ y # ys)"
  by (cases xs) (simp_all add: swap_first_def)

text \<open>C40: the master of a service is the one the first sentinel names that can be reached and reports a healthy
  master with enough other sentinels; this sentinel is asked first the next time, and no
  sentinel is lost. When all are passed over, MasterNotFoundError is raised.\<close>

theorem discover_master_correct:
  assumes "all_passed E c ns1 (sn_world s) w1"
  shows "(sn_sentinels s = ns1 \<longrightarrow> (\<exists>m. discover_master E c s = (Inl (Exc MasterNotFoundError m), s\<lparr>sn_world := w1\<rparr>))) \<and>
    (sn_sentinels s = ns1 @ n # ns2 \<and> se_masters E n w1 = (Inr masters, w2) \<and>
       dict_get masters (sc_service c) = Some st \<and> check_master_state c st \<longrightarrow>
     (\<exists>s'. discover_master E c s = (Inr (case sc_force_ip c of Some ip \<Rightarrow> ip | None \<Rightarrow> fst (ms_address st), snd (ms_address st)), s') \<and>
        hd (sn_sentinels s') = n \<and> mset (sn_sentinels s') = mset (sn_sentinels s)))"
proof -
  obtain errors where none: "discover_master_from E c 0 ns1 [] s = raiseS (master_not_found c errors) (s\<lparr>sn_world := w1\<rparr>)"
    using discover_passed [OF assms, of 0 "[]" "[]"] by auto
  obtain errors' where some: "discover_master_from E c 0 (ns1 @ n # ns2) [] s
      = discover_master_from E c (length ns1) (n # ns2) errors' (s\<lparr>sn_world := w1\<rparr>)"
    using discover_passed [OF assms, of 0 "n # ns2" "[]"] by auto
  show ?thesis
    using none some
    by (auto simp: discover_master_def master_not_found_def on_sentinel_def swap_first_prefix split: list.splits)
qed

section \<open>Round robin over replicas\<close>

text \<open>a connect to the replicas that none of them accepts tries every replica exactly once, beginning behind the
  one reached last, and only then the master.\<close>

theorem failing_connect_goes_round:
  assumes "\<And>a w. se_open E a w = (Inl (Exc ConnectionError m), w @ [a])"
    and "sn_sock s = None" "sn_counter s = Some k" "slaves \<noteq> []"
  shows "\<exists>s'. try_slaves E c slaves (length slaves) s = fallback_to_master E c s' \<and>
     sn_world s' = sn_world s @ rotate (Suc k) slaves \<and> mset (rotate (Suc k) slaves) = mset slaves \<and>
     sn_counter s' = Some ((k + length slaves) mod length slaves) \<and> sn_sock s' = None"
proof -
  let ?n = "length slaves"
  have step: "connect_to E c a t = (Inl (Exc ConnectionError m), t\<lparr>sn_host := Some a, sn_world := sn_world t @ [a]\<rparr>)"
    if "sn_sock t = None" for a t
    using that assms(1) by (simp add: connect_to_def base_connect_def on_sentinel_def)
  have loop: "\<exists>s'. try_slaves E c slaves j s = fallback_to_master E c s' \<and> sn_sock s' = None \<and>
      sn_world s' = sn_world s @ map (\<lambda>i. slaves ! ((k + 1 + i) mod ?n)) [0..<j] \<and>
      sn_counter s' = (if j = 0 then Some k else Some ((k + j) mod ?n))"
    if "sn_sock s = None" "sn_counter s = Some k" for j s k
    using that
  proof (induction j arbitrary: s k)
    case 0
    then show ?case by auto
  next
    case (Suc j)
    let ?k = "(k + 1) mod ?n"
    let ?t = "s\<lparr>sn_counter := Some ?k, sn_host := Some (slaves ! ?k), sn_world := sn_world s @ [slaves ! ?k]\<rparr>"
    have "try_slaves E c slaves (Suc j) s = try_slaves E c slaves j ?t"
      using step [of "s\<lparr>sn_counter := Some ?k\<rparr>" "slaves ! ?k"] Suc.prems by (simp add: Let_def)
    moreover from Suc.IH [of ?t ?k] Suc.prems(1) obtain s' where s': "try_slaves E c slaves j ?t = fallback_to_master E c s'"
        "sn_sock s' = None" "sn_world s' = sn_world ?t @ map (\<lambda>i. slaves ! ((?k + 1 + i) mod ?n)) [0..<j]"
        "sn_counter s' = (if j = 0 then Some ?k else Some ((?k + j) mod ?n))" by auto
    moreover have "sn_world s' = sn_world s @ map (\<lambda>i. slaves ! ((k + 1 + i) mod ?n)) [0..<Suc j]"
    proof -
      have "map (\<lambda>i. slaves ! ((k + 1 + i) mod ?n)) [0..<Suc j]
          = slaves ! ?k # map (\<lambda>i. slaves ! ((k + 1 + Suc i) mod ?n)) [0..<j]"
        by (simp add: upt_conv_Cons map_Suc_upt [symmetric] del: upt_Suc)
      moreover have "(?k + 1 + i) mod ?n = (k + 1 + Suc i) mod ?n" for i
        by (metis add.assoc add_Suc_right mod_add_left_eq plus_1_eq_Suc add_Suc)
      ultimately show ?thesis using s'(3) by simp
    qed
    moreover have "(?k + j) mod ?n = (k + Suc j) mod ?n"
      by (metis Suc_eq_plus1_left add.assoc mod_add_left_eq)
    ultimately show ?case by (intro exI [of _ s']) (auto split: if_splits)
  qed
  from loop [OF assms(2,3), of ?n] assms(4) obtain s' where s': "try_slaves E c slaves ?n s = fallback_to_master E c s'" "sn_sock s' = None"
      "sn_world s' = sn_world s @ map (\<lambda>i. slaves ! ((k + 1 + i) mod ?n)) [0..<?n]"
      "sn_counter s' = Some ((k + ?n) mod ?n)"
    by (auto split: if_splits)
  moreover have "map (\<lambda>i. slaves ! ((k + 1 + i) mod ?n)) [0..<?n] = rotate (Suc k) slaves"
    by (rule nth_equalityI) (simp_all add: nth_rotate del: rotate_Suc)
  moreover have "mset (rotate (Suc k) slaves) = mset slaves"
    unfolding rotate_drop_take by (metis append_take_drop_id mset_append union_commute)
  ultimately show ?thesis by auto
qed

section \<open>The master is replaced\<close>

text \<open>when a connection to the master reads READONLY, its master was demoted: the read raises ConnectionError, the
  connection is closed, and connecting again asks the sentinels for the new master.\<close>

theorem demoted_master_is_left:
  assumes "sc_is_master c" "se_read E a d (sn_world s) = (Inl (Exc ReadOnlyError m), w)"
  shows "\<exists>s'. sentinel_read_response E c a d s = (Inl (Exc ConnectionError ''The previous master is now a slave''), s') \<and>
    sn_sock s' = None \<and> connect_retry E c s' = bindS (get_master_address E c) (connect_to E c) s'"
proof -
  have "sentinel_read_response E c a d s
      = (Inl (Exc ConnectionError ''The previous master is now a slave''), s\<lparr>sn_world := w, sn_sock := None\<rparr>)"
    using assms by (auto simp: sentinel_read_response_def on_sentinel_def catchS_def thenS_def bindS_def)
  then show ?thesis using assms(1) by (simp add: connect_retry_def)
qed

section \<open>The check of a connection\<close>

text \<open>with \<open>check_connection\<close>, a replica that accepts the connection but fails the check keeps the socket: the
  loop goes on to the next replica on the old socket, and when that answers the next PING the connection
  names the second replica while it is connected to the first.\<close>

theorem checked_connect_mixes_replicas:
  assumes "sc_check_connection c" "\<not> sc_is_master c" "sn_sock s = None" "sn_counter s = Some 1"
    and "discover_slaves E c s = (Inr [a, b], s)"
    and "se_open E a (sn_world s) = (Inr (), w1)"
    and "se_send_ping E a w1 = (Inr (), w2)" "se_read E a False w2 = (Inl (Exc BusyLoadingError m), w3)"
    and "se_send_ping E a w3 = (Inr (), w4)" "se_read E a False w4 = (Inr r, w5)" "str_if_bytes r = PStr ''PONG''"
  shows "\<exists>s'. sentinel_connect E c s = Some (Inr (), s') \<and> sn_host s' = Some b \<and> sn_sock s' = Some a"
proof -
  let ?s1 = "s\<lparr>sn_counter := Some 0, sn_host := Some a, sn_world := w3, sn_sock := Some a\<rparr>"
  have first: "connect_to E c a (s\<lparr>sn_counter := Some 0\<rparr>) = (Inl (Exc BusyLoadingError m), ?s1)"
    using assms(1-3,6-8)
    by (simp add: connect_to_def base_connect_def check_ping_def sentinel_read_response_def on_sentinel_def catchS_def)
  have second: "connect_to E c b (?s1\<lparr>sn_counter := Some 1\<rparr>)
      = (Inr (), ?s1\<lparr>sn_counter := Some 1, sn_host := Some b, sn_world := w5\<rparr>)"
    using assms(1,2,9-11)
    by (simp add: connect_to_def base_connect_def check_ping_def sentinel_read_response_def on_sentinel_def catchS_def)
  have "try_slaves E c [a, b] (Suc (Suc 0)) s = (Inr (), ?s1\<lparr>sn_counter := Some 1, sn_host := Some b, sn_world := w5\<rparr>)"
    using first second assms(4) by (simp add: Let_def)
  then have "connect_retry E c s = (Inr (), ?s1\<lparr>sn_counter := Some 1, sn_host := Some b, sn_world := w5\<rparr>)"
    using assms(2-5) by (simp add: connect_retry_def connect_slave_def start_counter_def)
  then show ?thesis by (simp add: sentinel_connect_def call_with_retry_def retry_loop.simps)
qed

section \<open>Examples\<close>

text \<open>Sentinel 0 is down, sentinel 1 knows a master that is down, sentinel 2 a healthy one; opened addresses are logged.\<close>

definition example_config :: "bool \<Rightarrow> sentinel_config" where
  "example_config master = \<lparr>sc_service = ''mymaster'', sc_is_master = master, sc_check_connection = True, sc_min_other = 0,
     sc_force_ip = None, sc_retry = new_retry NoBackoff 0\<rparr>"

definition example_state :: "bool \<Rightarrow> address \<Rightarrow> master_state" where
  "example_state down a = \<lparr>ms_is_master = True, ms_is_sdown = down, ms_is_odown = False, ms_num_other_sentinels = 2, ms_address = a\<rparr>"

definition example_env :: "address list sentinel_env" where
  "example_env = \<lparr>
     se_masters = (\<lambda>n. if n = 0 then raiseS (Exc ConnectionError ''refused'')
        else retS [(''mymaster'', example_state (n = 1) (''10.0.0.1'', 6379))]),
     se_slaves = (\<lambda>_ _. retS [example_state False (''10.0.0.2'', 6379), example_state False (''10.0.0.3'', 6379)]),
     se_command = (\<lambda>_ _. retS PNone),
     se_open = (\<lambda>a w. (Inl (Exc ConnectionError ''refused''), w @ [a])),
     se_send_ping = (\<lambda>_. retS ()),
     se_read = (\<lambda>_ _ w. if length w = 1 then (Inl (Exc BusyLoadingError ''loading''), w @ w) else (Inr (PBytes ''PONG''), w)),
     se_disconnect_idle = retS (), se_choice = (\<lambda>_ _. 1), se_rnd = (\<lambda>_. 0), se_sleep = (\<lambda>_ w. w)\<rparr>"

theorem discover_master_correct_witness:
  "let s = new_sentinel [0, 1, 2] [] in
   (sn_sentinels s = [0, 1] \<longrightarrow> (\<exists>m. discover_master example_env (example_config True) s = (Inl (Exc MasterNotFoundError m), s\<lparr>sn_world := []\<rparr>))) \<and>
   (sn_sentinels s = [0, 1] @ 2 # [] \<and>
      se_masters example_env 2 [] = (Inr [(''mymaster'', example_state False (''10.0.0.1'', 6379))], []) \<and>
      dict_get [(''mymaster'', example_state False (''10.0.0.1'', 6379))] (sc_service (example_config True)) = Some (example_state False (''10.0.0.1'', 6379)) \<and>
      check_master_state (example_config True) (example_state False (''10.0.0.1'', 6379)) \<longrightarrow>
    (\<exists>s'. discover_master example_env (example_config True) s
        = (Inr (case sc_force_ip (example_config True) of Some ip \<Rightarrow> ip | None \<Rightarrow> fst (ms_address (example_state False (''10.0.0.1'', 6379))),
             snd (ms_address (example_state False (''10.0.0.1'', 6379)))), s') \<and>
       hd (sn_sentinels s') = 2 \<and> mset (sn_sentinels s') = mset (sn_sentinels s)))"
  unfolding Let_def
  by (rule discover_master_correct)
    (simp add: new_sentinel_def example_env_def example_config_def example_state_def passed_over_def check_master_state_def isinstance_any_def)

theorem failing_connect_goes_round_witness:
  "let s = (new_sentinel [0] [])\<lparr>sn_counter := Some 0\<rparr>; slaves = [(''10.0.0.2'', 6379), (''10.0.0.3'', 6379), (''10.0.0.4'', 6379)] in
   \<exists>s'. try_slaves example_env (example_config False) slaves (length slaves) s = fallback_to_master example_env (example_config False) s' \<and>
     sn_world s' = sn_world s @ rotate (Suc 0) slaves \<and> mset (rotate (Suc 0) slaves) = mset slaves \<and>
     sn_counter s' = Some ((0 + length slaves) mod length slaves) \<and> sn_sock s' = None"
  unfolding Let_def by (rule failing_connect_goes_round) (simp_all add: new_sentinel_def example_env_def)

theorem demoted_master_is_left_witness:
  "\<exists>s'. sentinel_read_response (example_env\<lparr>se_read := \<lambda>_ _. raiseS (Exc ReadOnlyError ''READONLY'')\<rparr>) (example_config True) (''10.0.0.1'', 6379) False
       (new_sentinel [0] []) = (Inl (Exc ConnectionError ''The previous master is now a slave''), s') \<and> sn_sock s' = None \<and>
     connect_retry (example_env\<lparr>se_read := \<lambda>_ _. raiseS (Exc ReadOnlyError ''READONLY'')\<rparr>) (example_config True) s'
       = bindS (get_master_address (example_env\<lparr>se_read := \<lambda>_ _. raiseS (Exc ReadOnlyError ''READONLY'')\<rparr>) (example_config True))
           (connect_to (example_env\<lparr>se_read := \<lambda>_ _. raiseS (Exc ReadOnlyError ''READONLY'')\<rparr>) (example_config True)) s'"
  by (rule demoted_master_is_left) (simp_all add: example_config_def)

theorem checked_connect_mixes_replicas_witness:
  "\<exists>s'. sentinel_connect (example_env\<lparr>se_open := \<lambda>a. modS (\<lambda>w. w @ [a])\<rparr>) (example_config False) ((new_sentinel [0] [])\<lparr>sn_counter := Some 1\<rparr>)
      = Some (Inr (), s') \<and> sn_host s' = Some (''10.0.0.3'', 6379) \<and> sn_sock s' = Some (''10.0.0.2'', 6379)"
  by (rule checked_connect_mixes_replicas [where ?w1.0 = "[(''10.0.0.2'', 6379)]" and ?w2.0 = "[(''10.0.0.2'', 6379)]" and r = "PBytes ''PONG''"
        and ?w3.0 = "[(''10.0.0.2'', 6379), (''10.0.0.2'', 6379)]" and ?w4.0 = "[(''10.0.0.2'', 6379), (''10.0.0.2'', 6379)]"
        and ?w5.0 = "[(''10.0.0.2'', 6379), (''10.0.0.2'', 6379)]" and m = "''loading''"])
    (simp_all add: new_sentinel_def example_env_def example_config_def discover_slaves_def on_sentinel_def filter_slaves_def example_state_def ascii_def)

end
