(* ===== verification/Frames.thy ===== *)
theory Frames
  imports Prelude
begin

text \<open>
  What a method leaves as it was: a relation between the state before and after that is reflexive and transitive
  passes from the steps of a computation to the whole, whatever is returned or raised.
\<close>

definition always :: "('s \<Rightarrow> 's \<Rightarrow> bool) \<Rightarrow> ('s, 'e, 'a) action \<Rightarrow> bool" where
  "always R m = (\<forall>s. R s (snd (m s)))"

named_theorems frame_intros \<open>steps of a computation that keep a frame\<close>

lemma alwaysI: "(\<And>s r s'. m s = (r, s') \<Longrightarrow> R s s') \<Longrightarrow> always R m"
  unfolding always_def by (metis prod.collapse)

lemma alwaysD: "always R m \<Longrightarrow> m s = (r, s') \<Longrightarrow> R s s'"
  unfolding always_def by (metis snd_conv)

locale frame =
  fixes R :: "'s \<Rightarrow> 's \<Rightarrow> bool"
  assumes frame_refl: "R s s" and frame_trans: "R s t \<Longrightarrow> R t u \<Longrightarrow> R s u"
begin

lemma always_pure [frame_intros]: "always R (retS a)" "always R (raiseS e)" "always R (liftS v)" "always R (getS f)"
  by (simp_all add: always_def frame_refl)

lemma always_bind [frame_intros]:
  assumes "always R m" "\<And>a. always R (f a)"
  shows "always R (bindS m f)"
proof (rule alwaysI)
  fix s r s' assume b: "bindS m f s = (r, s')"
  obtain x t where m: "m s = (x, t)" by force
  have "R s t" using alwaysD [OF assms(1) m] .
  moreover have "R t s'" using b m frame_refl alwaysD [OF assms(2)] by (cases x) (auto simp: bindS_def)
  ultimately show "R s s'" by (rule frame_trans)
qed

lemma always_then [frame_intros]: "always R m \<Longrightarrow> always R k \<Longrightarrow> always R (thenS m k)"
  unfolding thenS_def by (rule always_bind)

lemma always_catch [frame_intros]:
  assumes "always R m" "\<And>e. always R (h e)"
  shows "always R (catchS m h)"
proof (rule alwaysI)
  fix s r s' assume b: "catchS m h s = (r, s')"
  obtain x t where m: "m s = (x, t)" by force
  have "R s t" using alwaysD [OF assms(1) m] .
  moreover have "R t s'" using b m frame_refl alwaysD [OF assms(2)] by (cases x) (auto simp: catchS_def)
  ultimately show "R s s'" by (rule frame_trans)
qed

lemma always_finally [frame_intros]:
  assumes "always R m" "always R c"
  shows "always R (finallyS m c)"
proof (rule alwaysI)
  fix s r s' assume b: "finallyS m c s = (r, s')"
  obtain x t where m: "m s = (x, t)" by force
  obtain y u where c: "c t = (y, u)" by force
  have "s' = u" using b m c by (auto simp: finallyS_def split: sum.splits)
  then show "R s s'" using frame_trans [OF alwaysD [OF assms(1) m] alwaysD [OF assms(2) c]] by simp
qed

lemma always_map [frame_intros]: "(\<And>x. always R (f x)) \<Longrightarrow> always R (mapS f xs)"
  by (induction xs) (auto intro!: always_bind always_pure)

lemma always_if [frame_intros]: "always R m \<Longrightarrow> always R k \<Longrightarrow> always R (if b then m else k)"
  by simp

end

end
