(* ===== verification/ClusterPipeline.thy ===== *)
theory ClusterPipeline
  imports ClusterClient
begin

text \<open>
  \<open>ClusterPipeline\<close> (\<open>redis/cluster.py\<close>): staging commands, grouping them by node, writing to all nodes before
  reading from any, sending what failed one by one through \<open>RedisCluster.execute_command\<close>, and the retry of the
  whole. What each node's pool and connection do is a script, one entry per node and attempt.
\<close>

section \<open>State\<close>

record pipeline_command =
  pc_name :: string
  pc_rest :: "pyval list"
  pc_target :: targets
  pc_position :: nat
  pc_result :: pyval

text \<open>The connection the pool gives, an error of writing, and what parsing each reply gives.\<close>

record node_io =
  io_conn :: "exc + nat"
  io_write :: "exc option"
  io_replies :: "(exc + pyval) list"

record node_commands =
  nc_node :: string
  nc_conn :: nat
  nc_io :: node_io
  nc_commands :: "nat list"

text \<open>What is taken from and given back to the pools, and the positions that are written or executed alone.\<close>

datatype pipe_event = Acquired string nat | Returned string nat | Wrote string "nat list" | Single nat

record cluster_pipeline =
  cp_client :: cluster_client
  cp_stack :: "pipeline_command list"
  cp_io :: "node_io list"
  cp_log :: "pipe_event list"

type_synonym 'a cp_op = "(cluster_pipeline, exc, 'a) action"

definition on_cluster :: "'a cl_op \<Rightarrow> 'a cp_op" where
  "on_cluster f = (\<lambda>p. case f (cp_client p) of (r, c) \<Rightarrow> (r, p\<lparr>cp_client := c\<rparr>))"

definition cp_event :: "pipe_event \<Rightarrow> unit cp_op" where
  "cp_event e = modS (\<lambda>p. p\<lparr>cp_log := cp_log p @ [e]\<rparr>)"

section \<open>Staging\<close>

definition cluster_pipeline_execute_command :: "string \<Rightarrow> pyval list \<Rightarrow> targets \<Rightarrow> cluster_pipeline \<Rightarrow> cluster_pipeline" where
  "cluster_pipeline_execute_command name rest target p =
     p\<lparr>cp_stack := cp_stack p @ [\<lparr>pc_name = name, pc_rest = rest, pc_target = target, pc_position = length (cp_stack p), pc_result = PNone\<rparr>]\<rparr>"

definition not_implemented :: "string \<Rightarrow> exc" where
  "not_implemented m = Exc RedisClusterException (''method '' @ m @ ''() is not implemented'')"

text \<open>\<open>delete\<close> and \<open>unlink\<close> take one key; \<open>multi\<close>, \<open>watch\<close> and others always raise.\<close>

definition cluster_pipeline_delete :: "string \<Rightarrow> string \<Rightarrow> pyval list \<Rightarrow> cluster_pipeline \<Rightarrow> exc + cluster_pipeline" where
  "cluster_pipeline_delete command doing names p =
     (case names of
        [n] \<Rightarrow> Inr (cluster_pipeline_execute_command command [n] NoTargets p)
      | _ \<Rightarrow> Inl (Exc RedisClusterException (doing @ '' multiple keys is not implemented in pipeline command'')))"

definition cluster_pipeline_reset :: "cluster_pipeline \<Rightarrow> cluster_pipeline" where
  "cluster_pipeline_reset p = p\<lparr>cp_stack := []\<rparr>"

definition PIPELINE_BLOCKED_COMMANDS :: "string list" where
  "PIPELINE_BLOCKED_COMMANDS = [''BGREWRITEAOF'', ''BGSAVE'', ''BITOP'', ''BRPOPLPUSH'', ''CLIENT GETNAME'', ''CLIENT KILL'',
     ''CLIENT LIST'', ''CLIENT SETNAME'', ''CLIENT'', ''CONFIG GET'', ''CONFIG RESETSTAT'', ''CONFIG REWRITE'', ''CONFIG SET'',
     ''CONFIG'', ''DBSIZE'', ''ECHO'', ''EVALSHA'', ''FLUSHALL'', ''FLUSHDB'', ''INFO'', ''KEYS'', ''LASTSAVE'', ''MGET'',
     ''MGET NONATOMIC'', ''MOVE'', ''MSET'', ''MSET NONATOMIC'', ''MSETNX'', ''PFCOUNT'', ''PFMERGE'', ''PING'', ''PUBLISH'',
     ''RANDOMKEY'', ''READONLY'', ''READWRITE'', ''RENAME'', ''RENAMENX'', ''RPOPLPUSH'', ''SAVE'', ''SCAN'', ''SCRIPT EXISTS'',
     ''SCRIPT FLUSH'', ''SCRIPT KILL'', ''SCRIPT LOAD'', ''SCRIPT'', ''SDIFF'', ''SDIFFSTORE'', ''SENTINEL GET MASTER ADDR BY NAME'',
     ''SENTINEL MASTER'', ''SENTINEL MASTERS'', ''SENTINEL MONITOR'', ''SENTINEL REMOVE'', ''SENTINEL SENTINELS'', ''SENTINEL SET'',
     ''SENTINEL SLAVES'', ''SENTINEL'', ''SHUTDOWN'', ''SINTER'', ''SINTERSTORE'', ''SLAVEOF'', ''SLOWLOG GET'', ''SLOWLOG LEN'',
     ''SLOWLOG RESET'', ''SLOWLOG'', ''SMOVE'', ''SORT'', ''SUNION'', ''SUNIONSTORE'', ''TIME'']"

text \<open>The attribute that is replaced: the name in lower case with underscores.\<close>

definition blocked_attribute :: "string \<Rightarrow> string" where
  "blocked_attribute command = lower (map (\<lambda>c. if c = CHR '' '' then CHR ''_'' else c) command)"

definition block_pipeline_command :: "string \<Rightarrow> exc" where
  "block_pipeline_command name = Exc RedisClusterException
     (''ERROR: Calling pipelined function '' @ name @ '' is blocked when running redis in cluster mode...'')"

section \<open>Grouping by node\<close>

definition set_result :: "nat \<Rightarrow> pyval \<Rightarrow> cluster_pipeline \<Rightarrow> cluster_pipeline" where
  "set_result i v p = p\<lparr>cp_stack := (cp_stack p)[i := (cp_stack p ! i)\<lparr>pc_result := v\<rparr>]\<rparr>"

text \<open>\<open>c.options.pop("target_nodes", None)\<close>.\<close>

definition pop_target :: "nat \<Rightarrow> targets cp_op" where
  "pop_target i = (\<lambda>p. (Inr (pc_target (cp_stack p ! i)), p\<lparr>cp_stack := (cp_stack p)[i := (cp_stack p ! i)\<lparr>pc_target := NoTargets\<rparr>]\<rparr>))"

definition too_many_targets :: exc where
  "too_many_targets = Exc RedisClusterException ''Too many targets for command ''"

text \<open>A flag is handed on under a name that \<open>_determine_nodes\<close> does not read.\<close>

definition pipeline_targets :: "nat \<Rightarrow> nat option list cp_op" where
  "pipeline_targets i =
     bindS (pop_target i) (\<lambda>t.
     bindS (getS (\<lambda>p. cp_stack p ! i)) (\<lambda>c.
       if (case t of Nodes ns \<Rightarrow> ns \<noteq> [] | BadTargets \<Rightarrow> True | Flag f \<Rightarrow> f = SLOT_ID | NoTargets \<Rightarrow> False)
       then bindS (liftS (parse_target_nodes t)) (\<lambda>ns. retS (map Some ns))
       else bindS (on_cluster (determine_nodes None (pc_name c) (pc_rest c))) (\<lambda>ns.
              if ns = [] then raiseS no_targets else retS ns)))"

definition pipeline_node :: "nat \<Rightarrow> nat cp_op" where
  "pipeline_node i =
     bindS (pipeline_targets i) (\<lambda>ns.
       case ns of
         [Some n] \<Rightarrow> retS n
       | [None] \<Rightarrow> raiseS (Exc AttributeError ''name'')
       | _ \<Rightarrow> raiseS too_many_targets)"

definition next_io :: "node_io cp_op" where
  "next_io = (\<lambda>p. case cp_io p of
     [] \<Rightarrow> (Inr \<lparr>io_conn = Inl (Exc ConnectionError ''refused''), io_write = None, io_replies = []\<rparr>, p)
   | x # xs \<Rightarrow> (Inr x, p\<lparr>cp_io := xs\<rparr>))"

definition release_nodes :: "node_commands list \<Rightarrow> unit cp_op" where
  "release_nodes nodes = bindS (mapS (\<lambda>n. cp_event (Returned (nc_node n) (nc_conn n))) nodes) (\<lambda>_. retS ())"

definition replace_if_default :: "bool \<Rightarrow> unit cp_op" where
  "replace_if_default b = on_cluster (replace_default b)"

text \<open>A connection for a node that has none yet; when it fails, those taken before are given back.\<close>

definition acquire_node :: "bool \<Rightarrow> string \<Rightarrow> nat \<Rightarrow> node_commands list \<Rightarrow> node_commands cp_op" where
  "acquire_node is_default name i nodes =
     thenS (on_cluster (modS (\<lambda>c. c\<lparr>cl_nm := (cl_nm c)\<lparr>nm_heap := set_connected i (nm_heap (cl_nm c))\<rparr>\<rparr>)))
     (bindS next_io (\<lambda>io.
        case io_conn io of
          Inr conn \<Rightarrow> thenS (cp_event (Acquired name conn)) (retS \<lparr>nc_node = name, nc_conn = conn, nc_io = io, nc_commands = []\<rparr>)
        | Inl e \<Rightarrow>
            if isinstance e ConnectionError then
              thenS (release_nodes nodes)
              (thenS (on_cluster reinitialize)
              (thenS (replace_if_default is_default) (raiseS e)))
            else raiseS e))"

fun add_command :: "nat \<Rightarrow> string \<Rightarrow> node_commands list \<Rightarrow> node_commands list" where
  "add_command i name [] = []"
| "add_command i name (n # ns) =
     (if nc_node n = name then n\<lparr>nc_commands := nc_commands n @ [i]\<rparr> # ns else n # add_command i name ns)"

text \<open>The loop over the commands: the nodes so far and whether one of them is the default node.\<close>

fun group_commands :: "nat list \<Rightarrow> node_commands list \<Rightarrow> bool \<Rightarrow> (node_commands list \<times> bool) cp_op" where
  "group_commands [] nodes is_default = retS (nodes, is_default)"
| "group_commands (i # is) nodes is_default =
     bindS (pipeline_node i) (\<lambda>n.
     bindS (getS (\<lambda>p. (name_of (cl_nm (cp_client p)) n,
        map_option (name_of (cl_nm (cp_client p))) (nm_default (cl_nm (cp_client p)))))) (\<lambda>(name, default).
     let is_default = (is_default \<or> Some name = default) in
     if name \<in> nc_node ` set nodes then group_commands is (add_command i name nodes) is_default
     else bindS (acquire_node is_default name n nodes) (\<lambda>new.
       group_commands is (add_command i name (nodes @ [new])) is_default)))"

section \<open>Writing and reading\<close>

definition set_results :: "nat list \<Rightarrow> pyval \<Rightarrow> unit cp_op" where
  "set_results is v = modS (\<lambda>p. foldl (\<lambda>p i. set_result i v p) p is)"

definition node_write :: "node_commands \<Rightarrow> unit cp_op" where
  "node_write n =
     thenS (set_results (nc_commands n) PNone)
     (thenS (cp_event (Wrote (nc_node n) (nc_commands n)))
     (case io_write (nc_io n) of
        None \<Rightarrow> retS ()
      | Some e \<Rightarrow> if isinstance_any e [ConnectionError, TimeoutError] then set_results (nc_commands n) (PExc e) else raiseS e))"

text \<open>A connection error while reading becomes the result of every command of the node.\<close>

fun node_read :: "nat list \<Rightarrow> nat list \<Rightarrow> (exc + pyval) list \<Rightarrow> unit cp_op" where
  "node_read all [] rs = retS ()"
| "node_read all (i # is) rs =
     bindS (getS (\<lambda>p. pc_result (cp_stack p ! i))) (\<lambda>v.
       if v \<noteq> PNone then node_read all is rs
       else (case (case rs of [] \<Rightarrow> Inl (Exc ConnectionError ''closed'') | r # _ \<Rightarrow> r) of
          Inr x \<Rightarrow> thenS (modS (set_result i x)) (node_read all is (tl rs))
        | Inl e \<Rightarrow>
            if isinstance_any e [ConnectionError, TimeoutError] then set_results all (PExc e)
            else if isinstance e RedisError then thenS (modS (set_result i (PExc e))) (node_read all is (tl rs))
            else raiseS e))"

definition read_node :: "node_commands \<Rightarrow> unit cp_op" where
  "read_node n = node_read (nc_commands n) (nc_commands n) (io_replies (nc_io n))"

definition write_and_read :: "node_commands list \<Rightarrow> unit cp_op" where
  "write_and_read nodes =
     finallyS (thenS (bindS (mapS node_write nodes) (\<lambda>_. retS ())) (bindS (mapS read_node nodes) (\<lambda>_. retS ())))
       (release_nodes nodes)"

section \<open>The rest of an attempt\<close>

definition PIPELINE_ERRORS_ALLOW_RETRY :: "exc_class list" where
  "PIPELINE_ERRORS_ALLOW_RETRY = [ConnectionError, TimeoutError, MovedError, AskError, TryAgainError]"

definition may_redo :: "pyval \<Rightarrow> bool" where
  "may_redo v = (case v of PExc e \<Rightarrow> isinstance_any e PIPELINE_ERRORS_ALLOW_RETRY | _ \<Rightarrow> False)"

text \<open>Each failed command again, alone; its target was popped before.\<close>

fun redo_commands :: "nat list \<Rightarrow> unit cp_op" where
  "redo_commands [] = retS ()"
| "redo_commands (i # is) =
     bindS (getS (\<lambda>p. cp_stack p ! i)) (\<lambda>c.
     thenS (cp_event (Single i))
     (bindS (catchS (on_cluster (execute_command (pc_target c) (pc_name c) (pc_rest c)))
         (\<lambda>e. if isinstance e RedisError then retS (PExc e) else raiseS e)) (\<lambda>v.
      thenS (modS (set_result i v)) (redo_commands is))))"

definition redo_failed :: "nat list \<Rightarrow> bool \<Rightarrow> unit cp_op" where
  "redo_failed failed is_default =
     thenS (on_cluster (modS (\<lambda>c. c\<lparr>cl_reinitialize_counter := cl_reinitialize_counter c + 1\<rparr>)))
     (bindS (getS (\<lambda>p. should_reinitialized (cp_client p))) (\<lambda>b.
     thenS (if b then thenS (on_cluster reinitialize) (replace_if_default is_default) else retS ())
       (redo_commands failed)))"

text \<open>The callbacks of the cluster, also over a result that is an exception.\<close>

fun finish_results :: "nat list \<Rightarrow> pyval list cp_op" where
  "finish_results [] = retS []"
| "finish_results (i # is) =
     bindS (getS (\<lambda>p. cp_stack p ! i)) (\<lambda>c.
     bindS (liftS (cluster_response_callback (pc_name c) (pc_result c))) (\<lambda>v.
     thenS (modS (set_result i v))
     (bindS (finish_results is) (\<lambda>vs. retS (v # vs)))))"

definition cluster_annotate :: "exc \<Rightarrow> nat \<Rightarrow> string \<Rightarrow> exc" where
  "cluster_annotate e number name = Exc (exc_cls e) (''Command # '' @ dec_nat number @ '' ('' @ name @ '') of pipeline caused error: '' @ exc_msg e)"

fun first_exception :: "pipeline_command list \<Rightarrow> exc option" where
  "first_exception [] = None"
| "first_exception (c # cs) = (case pc_result c of
     PExc e \<Rightarrow> Some (cluster_annotate e (Suc (pc_position c)) (pc_name c)) | _ \<Rightarrow> first_exception cs)"

definition send_attempt_commands :: "bool \<Rightarrow> bool \<Rightarrow> pyval list cp_op" where
  "send_attempt_commands raise_on_error allow_redirections =
     bindS (getS (\<lambda>p. [0..<length (cp_stack p)])) (\<lambda>attempt.
     bindS (group_commands attempt [] False) (\<lambda>(nodes, is_default).
     thenS (write_and_read nodes)
     (bindS (getS (\<lambda>p. filter (\<lambda>i. may_redo (pc_result (cp_stack p ! i))) attempt)) (\<lambda>failed.
     thenS (if failed \<noteq> [] \<and> allow_redirections then redo_failed failed is_default else retS ())
     (bindS (finish_results attempt) (\<lambda>response.
     bindS (getS (\<lambda>p. if raise_on_error then first_exception (cp_stack p) else None)) (\<lambda>err.
       case err of Some e \<Rightarrow> raiseS e | None \<Rightarrow> retS response)))))))"

text \<open>\<open>send_cluster_commands\<close>: the whole stack again after ClusterDownError or ConnectionError.\<close>

fun send_loop :: "nat \<Rightarrow> bool \<Rightarrow> bool \<Rightarrow> pyval list cp_op" where
  "send_loop 0 b a = send_attempt_commands b a"
| "send_loop (Suc retries) b a =
     catchS (send_attempt_commands b a)
       (\<lambda>e. if isinstance_any e [ClusterDownError, ConnectionError] then send_loop retries b a else raiseS e)"

definition send_cluster_commands :: "bool \<Rightarrow> bool \<Rightarrow> pyval list cp_op" where
  "send_cluster_commands raise_on_error allow_redirections =
     bindS (getS (\<lambda>p. (cp_stack p = [], nat (cl_retry_attempts (cp_client p))))) (\<lambda>(none, retries).
       if none then retS [] else send_loop retries raise_on_error allow_redirections)"

definition cluster_pipeline_execute :: "bool \<Rightarrow> pyval list cp_op" where
  "cluster_pipeline_execute raise_on_error =
     finallyS (send_cluster_commands raise_on_error True) (modS cluster_pipeline_reset)"

end
