(* ===== verification/ClusterPipelineCorrect.thy ===== *)
theory ClusterPipelineCorrect
  imports ClusterPipeline ClusterRedirect Frames "HOL-Library.Multiset"
begin

text \<open>
  What a pipeline of a cluster does: every node is written to before any is read, the answers come back in the order
  of the commands, connections go back to their pools, and the ways in which commands are executed twice or
  connections are lost.
\<close>

section \<open>What routing leaves as it was\<close>

text \<open>The log and everything of the commands but their targets.\<close>

definition staged :: "pipeline_command \<Rightarrow> string \<times> pyval list \<times> nat \<times> pyval" where
  "staged c = (pc_name c, pc_rest c, pc_position c, pc_result c)"

definition same_results :: "cluster_pipeline \<Rightarrow> cluster_pipeline \<Rightarrow> bool" where
  "same_results p q = (map staged (cp_stack q) = map staged (cp_stack p))"

definition same_log :: "cluster_pipeline \<Rightarrow> cluster_pipeline \<Rightarrow> bool" where
  "same_log p q = (same_results p q \<and> cp_log q = cp_log p)"

interpretation results: frame same_results
  by unfold_locales (auto simp: same_results_def)

interpretation quiet: frame same_log
  by unfold_locales (auto simp: same_log_def same_results_def)

lemma quiet_on_cluster [frame_intros]: "always same_log (on_cluster f)"
  by (rule alwaysI) (auto simp: on_cluster_def same_log_def same_results_def split: prod.splits)

lemma map_list_update_same: "f y = f (xs ! i) \<Longrightarrow> map f (xs[i := y]) = map f xs"
  by (cases "i < length xs") (auto simp: map_update list_update_same_conv list_update_beyond)

lemma quiet_pop_target [frame_intros]: "always same_log (pop_target i)"
  by (rule alwaysI) (auto simp: pop_target_def same_log_def same_results_def map_list_update_same staged_def)

lemma quiet_pipeline_node: "always same_log (pipeline_node i)"
  unfolding pipeline_node_def pipeline_targets_def
  by (intro frame_intros quiet.always_bind) (auto split: list.splits option.splits intro!: frame_intros)

lemma same_results_length: "same_results p q \<Longrightarrow> length (cp_stack q) = length (cp_stack p)"
  unfolding same_results_def by (rule map_eq_imp_length_eq)

lemma same_results_nth:
  assumes "same_results p q" "i < length (cp_stack p)"
  shows "pc_name (cp_stack q ! i) = pc_name (cp_stack p ! i)" "pc_result (cp_stack q ! i) = pc_result (cp_stack p ! i)"
    "pc_position (cp_stack q ! i) = pc_position (cp_stack p ! i)"
proof -
  have "staged (cp_stack q ! i) = staged (cp_stack p ! i)"
    using assms same_results_length [OF assms(1)] nth_map unfolding same_results_def by metis
  then show "pc_name (cp_stack q ! i) = pc_name (cp_stack p ! i)" "pc_result (cp_stack q ! i) = pc_result (cp_stack p ! i)"
    "pc_position (cp_stack q ! i) = pc_position (cp_stack p ! i)"
    by (simp_all add: staged_def)
qed

section \<open>Grouping\<close>

abbreviation node_conns :: "node_commands list \<Rightarrow> (string \<times> nat) list" where
  "node_conns nodes \<equiv> map (\<lambda>n. (nc_node n, nc_conn n)) nodes"

abbreviation acquired :: "node_commands list \<Rightarrow> pipe_event list" where
  "acquired nodes \<equiv> map (\<lambda>n. Acquired (nc_node n) (nc_conn n)) nodes"

abbreviation returned :: "node_commands list \<Rightarrow> pipe_event list" where
  "returned nodes \<equiv> map (\<lambda>n. Returned (nc_node n) (nc_conn n)) nodes"

abbreviation grouped :: "node_commands list \<Rightarrow> nat multiset" where
  "grouped nodes \<equiv> mset (concat (map nc_commands nodes))"

lemma add_command_conns: "node_conns (add_command i name ns) = node_conns ns"
  by (induction ns) auto

lemma add_command_acquired: "acquired (add_command i name ns) = acquired ns" "length (add_command i name ns) = length ns"
  by (induction ns) auto

lemma add_command_grouped: "name \<in> nc_node ` set ns \<Longrightarrow> grouped (add_command i name ns) = add_mset i (grouped ns)"
  by (induction ns) auto

lemma cp_event_app [simp]: "cp_event e p = (Inr (), p\<lparr>cp_log := cp_log p @ [e]\<rparr>)"
  by (simp add: cp_event_def)

lemma release_nodes_app: "release_nodes nodes p = (Inr (), p\<lparr>cp_log := cp_log p @ returned nodes\<rparr>)"
proof -
  have "mapS (\<lambda>n. cp_event (Returned (nc_node n) (nc_conn n))) nodes p =
      (Inr (map (\<lambda>_. ()) nodes), p\<lparr>cp_log := cp_log p @ returned nodes\<rparr>)" for p
    by (induction nodes arbitrary: p) simp_all
  then show ?thesis by (simp add: release_nodes_def)
qed

lemma next_io_same: "always same_log next_io"
  by (rule alwaysI) (auto simp: next_io_def same_log_def same_results_def split: list.splits)

text \<open>A new node brings a connection that was acquired just now, or an error after which the others are given back.\<close>

lemma acquire_node_cases:
  assumes "acquire_node d name i nodes p = (r, q)"
  shows "(\<exists>new. r = Inr new \<and> nc_node new = name \<and> nc_commands new = [] \<and> cp_log q = cp_log p @ [Acquired name (nc_conn new)] \<and> same_results p q)
    \<or> (\<exists>e. r = Inl e \<and> same_results p q \<and> (cp_log q = cp_log p \<or> cp_log q = cp_log p @ returned nodes))"
proof -
  let ?f = "on_cluster (modS (\<lambda>c. c\<lparr>cl_nm := (cl_nm c)\<lparr>nm_heap := set_connected i (nm_heap (cl_nm c))\<rparr>\<rparr>))"
  obtain p1 where p1: "?f p = (Inr (), p1)" by (simp add: on_cluster_def)
  obtain io p2 where p2: "next_io p1 = (Inr io, p2)" by (cases "cp_io p1") (auto simp: next_io_def)
  have s12: "same_log p p2" using quiet.frame_trans [OF alwaysD [OF quiet_on_cluster p1] alwaysD [OF next_io_same p2]] .
  show ?thesis
  proof (cases "io_conn io")
    case (Inr conn)
    then show ?thesis using assms p1 p2 s12 by (auto simp: acquire_node_def same_log_def same_results_def)
  next
    case (Inl e)
    show ?thesis
    proof (cases "isinstance e ConnectionError")
      case False
      then show ?thesis using assms p1 p2 s12 Inl by (auto simp: acquire_node_def same_log_def)
    next
      case True
      let ?p3 = "p2\<lparr>cp_log := cp_log p2 @ returned nodes\<rparr>"
      let ?g = "thenS (on_cluster reinitialize) (thenS (replace_if_default d) (raiseS e :: node_commands cp_op))"
      have q: "?g ?p3 = (r, q)" using assms p1 p2 Inl True by (simp add: acquire_node_def release_nodes_app)
      have "always same_log ?g" unfolding replace_if_default_def by (intro quiet.always_then frame_intros)
      then have s3: "same_log ?p3 q" using q by (rule alwaysD)
      have "\<exists>e'. r = Inl e'" using q by (cases r) (auto simp: thenS_def bindS_def split: prod.splits sum.splits)
      then show ?thesis using s12 s3 by (auto simp: same_log_def same_results_def)
    qed
  qed
qed

lemma group_commands_ok:
  assumes "group_commands is nodes d p = (Inr (nodes', d'), q)"
  shows "same_results p q \<and> grouped nodes' = grouped nodes + mset is \<and>
    (\<exists>new. acquired nodes' = acquired nodes @ new \<and> cp_log q = cp_log p @ new)"
  using assms
proof (induction "is" arbitrary: nodes d p)
  case Nil
  then show ?case by (auto simp: same_results_def)
next
  case (Cons i "is")
  obtain n p1 where p1: "pipeline_node i p = (Inr n, p1)"
    using Cons.prems by (auto simp: bindS_eq_Inr)
  have s1: "same_log p p1" using alwaysD [OF quiet_pipeline_node p1] .
  define name where "name = name_of (cl_nm (cp_client p1)) n"
  define d1 where "d1 = (d \<or> Some name = map_option (name_of (cl_nm (cp_client p1))) (nm_default (cl_nm (cp_client p1))))"
  show ?case
  proof (cases "name \<in> nc_node ` set nodes")
    case True
    then have g: "group_commands is (add_command i name nodes) d1 p1 = (Inr (nodes', d'), q)"
      using Cons.prems p1 by (simp add: name_def d1_def Let_def)
    show ?thesis using Cons.IH [OF g] s1 add_command_grouped [OF True, of i] unfolding add_command_acquired same_log_def
      by (auto simp: same_results_def)
  next
    case False
    then have "bindS (acquire_node d1 name n nodes) (\<lambda>new. group_commands is (add_command i name (nodes @ [new])) d1) p1 = (Inr (nodes', d'), q)"
      using Cons.prems p1 by (simp add: name_def d1_def Let_def)
    then obtain new p2 where a: "acquire_node d1 name n nodes p1 = (Inr new, p2)"
      and g: "group_commands is (add_command i name (nodes @ [new])) d1 p2 = (Inr (nodes', d'), q)"
      by (auto simp: bindS_eq_Inr)
    have new: "nc_node new = name" "nc_commands new = []" "cp_log p2 = cp_log p1 @ [Acquired name (nc_conn new)]" "same_results p1 p2"
      using acquire_node_cases [OF a] by auto
    have "grouped (add_command i name (nodes @ [new])) = add_mset i (grouped nodes)"
      by (subst add_command_grouped) (simp_all add: new)
    then show ?thesis using Cons.IH [OF g] s1 new unfolding add_command_acquired same_log_def
      by (auto simp: same_results_def)
  qed
qed

lemma group_commands_append:
  assumes "group_commands is nodes d p = (Inr (nodes', d'), q)"
  shows "group_commands (is @ js) nodes d p = group_commands js nodes' d' q"
  using assms
proof (induction "is" arbitrary: nodes d p)
  case Nil
  then show ?case by simp
next
  case (Cons i "is")
  obtain n p1 where p1: "pipeline_node i p = (Inr n, p1)"
    using Cons.prems by (auto simp: bindS_eq_Inr)
  define name where "name = name_of (cl_nm (cp_client p1)) n"
  define d1 where "d1 = (d \<or> Some name = map_option (name_of (cl_nm (cp_client p1))) (nm_default (cl_nm (cp_client p1))))"
  show ?case
  proof (cases "name \<in> nc_node ` set nodes")
    case True
    then show ?thesis using Cons p1 by (simp add: Let_def flip: name_def)
  next
    case False
    then have "bindS (acquire_node d1 name n nodes) (\<lambda>new. group_commands is (add_command i name (nodes @ [new])) d1) p1 = (Inr (nodes', d'), q)"
      using Cons.prems p1 by (simp add: name_def d1_def Let_def)
    then obtain new p2 where a: "acquire_node d1 name n nodes p1 = (Inr new, p2)"
      and g: "group_commands is (add_command i name (nodes @ [new])) d1 p2 = (Inr (nodes', d'), q)"
      by (auto simp: bindS_eq_Inr)
    show ?thesis using Cons.IH [OF g] False a p1 by (simp add: name_def d1_def Let_def)
  qed
qed

section \<open>Writing and reading\<close>

text \<open>The commands at some positions get results.\<close>

definition put :: "(nat \<Rightarrow> pyval) \<Rightarrow> nat list \<Rightarrow> cluster_pipeline \<Rightarrow> cluster_pipeline" where
  "put f is p = foldl (\<lambda>p i. set_result i (f i) p) p is"

lemma put_simps [simp]: "put f [] p = p" "put f (i # is) p = put f is (set_result i (f i) p)"
  by (simp_all add: put_def)

lemma put_append: "put f (is @ js) p = put f js (put f is p)"
  by (simp add: put_def)

lemma set_result_frame [simp]: "cp_log (set_result i v p) = cp_log p" "cp_client (set_result i v p) = cp_client p"
    "cp_io (set_result i v p) = cp_io p" "length (cp_stack (set_result i v p)) = length (cp_stack p)"
  by (simp_all add: set_result_def)

lemma put_frame [simp]: "cp_log (put f is p) = cp_log p" "cp_client (put f is p) = cp_client p"
    "length (cp_stack (put f is p)) = length (cp_stack p)"
  by (induction "is" arbitrary: p) simp_all

lemma set_result_nth:
  "j < length (cp_stack p) \<Longrightarrow> cp_stack (set_result i v p) ! j = (if i = j then (cp_stack p ! j)\<lparr>pc_result := v\<rparr> else cp_stack p ! j)"
  by (simp add: set_result_def nth_list_update)

lemma put_nth:
  "j < length (cp_stack p) \<Longrightarrow> cp_stack (put f is p) ! j = (if j \<in> set is then (cp_stack p ! j)\<lparr>pc_result := f j\<rparr> else cp_stack p ! j)"
  by (induction "is" arbitrary: p) (auto simp: set_result_nth)

lemma set_result_log: "set_result i v (p\<lparr>cp_log := l\<rparr>) = (set_result i v p)\<lparr>cp_log := l\<rparr>"
  by (simp add: set_result_def)

lemma put_log: "put f is (p\<lparr>cp_log := l\<rparr>) = (put f is p)\<lparr>cp_log := l\<rparr>"
  by (induction "is" arbitrary: p) (simp_all add: set_result_log)

lemma set_results_app: "set_results is v p = (Inr (), put (\<lambda>_. v) is p)"
  by (simp add: set_results_def put_def)

text \<open>What a reply leaves as the result of its command.\<close>

definition result_of :: "exc + pyval \<Rightarrow> pyval" where
  "result_of r = (case r of Inl e \<Rightarrow> PExc e | Inr v \<Rightarrow> v)"

lemma result_of_simps [simp]: "result_of (Inl e) = PExc e" "result_of (Inr v) = v"
  by (simp_all add: result_of_def)

definition own_reply :: "exc + pyval \<Rightarrow> bool" where
  "own_reply r = (case r of Inl e \<Rightarrow> isinstance e RedisError \<and> \<not> isinstance_any e [ConnectionError, TimeoutError] | Inr _ \<Rightarrow> True)"

lemma node_read_own:
  assumes "distinct is" "\<And>i. i \<in> set is \<Longrightarrow> own_reply (f i)" "\<And>i. i \<in> set is \<Longrightarrow> i < length (cp_stack p) \<and> pc_result (cp_stack p ! i) = PNone"
  shows "node_read all is (map f is) p = (Inr (), put (\<lambda>a. result_of (f a)) is p)"
  using assms
proof (induction "is" arbitrary: p)
  case Nil
  then show ?case by simp
next
  case (Cons i "is")
  have IH: "node_read all is (map f is) (set_result i v p) = (Inr (), put (\<lambda>a. result_of (f a)) is (set_result i v p))" for v
  proof (rule Cons.IH)
    show "j < length (cp_stack (set_result i v p)) \<and> pc_result (cp_stack (set_result i v p) ! j) = PNone" if "j \<in> set is" for j
      using that Cons.prems(1) Cons.prems(3) [of j] set_result_nth [of j p i v] by auto
  qed (use Cons.prems in auto)
  have own: "own_reply (f i)" and none: "pc_result (cp_stack p ! i) = PNone" using Cons.prems(2,3) [of i] by auto
  show ?case
  proof (cases "f i")
    case (Inr v)
    then show ?thesis using IH none by simp
  next
    case (Inl e)
    then have "isinstance e RedisError" "\<not> isinstance_any e [ConnectionError, TimeoutError]" using own by (simp_all add: own_reply_def)
    then show ?thesis using IH none Inl by simp
  qed
qed

text \<open>A connection error takes the answers of the node that came before it.\<close>

lemma node_read_lost:
  assumes "distinct (is @ i # js)" "\<And>j. j \<in> set is \<Longrightarrow> own_reply (f j)"
    and "\<And>j. j \<in> set (is @ i # js) \<Longrightarrow> j < length (cp_stack p) \<and> pc_result (cp_stack p ! j) = PNone"
    and "isinstance_any e [ConnectionError, TimeoutError]"
  shows "node_read all (is @ i # js) (map f is @ Inl e # rs) p = (Inr (), put (\<lambda>_. PExc e) all (put (\<lambda>a. result_of (f a)) is p))"
  using assms(1-3)
proof (induction "is" arbitrary: p)
  case Nil
  then show ?case using assms(4) by (simp add: set_results_app)
next
  case (Cons k "is")
  have IH: "node_read all (is @ i # js) (map f is @ Inl e # rs) (set_result k v p) =
      (Inr (), put (\<lambda>_. PExc e) all (put (\<lambda>a. result_of (f a)) is (set_result k v p)))" for v
  proof (rule Cons.IH)
    show "j < length (cp_stack (set_result k v p)) \<and> pc_result (cp_stack (set_result k v p) ! j) = PNone" if "j \<in> set (is @ i # js)" for j
      using that Cons.prems(1) Cons.prems(3) [of j] set_result_nth [of j p k v] by auto
  qed (use Cons.prems in auto)
  have own: "own_reply (f k)" and none: "pc_result (cp_stack p ! k) = PNone" using Cons.prems(2,3) [of k] by auto
  show ?case
  proof (cases "f k")
    case (Inr v)
    then show ?thesis using IH none by simp
  next
    case (Inl x)
    then have "isinstance x RedisError" "\<not> isinstance_any x [ConnectionError, TimeoutError]" using own by (simp_all add: own_reply_def)
    then show ?thesis using IH none Inl by simp
  qed
qed

abbreviation positions :: "node_commands list \<Rightarrow> nat list" where
  "positions nodes \<equiv> concat (map nc_commands nodes)"

abbreviation wrote :: "node_commands list \<Rightarrow> pipe_event list" where
  "wrote nodes \<equiv> map (\<lambda>n. Wrote (nc_node n) (nc_commands n)) nodes"

lemma node_write_app:
  "io_write (nc_io n) = None \<Longrightarrow>
     node_write n p = (Inr (), (put (\<lambda>_. PNone) (nc_commands n) p)\<lparr>cp_log := cp_log p @ [Wrote (nc_node n) (nc_commands n)]\<rparr>)"
  by (simp add: node_write_def set_results_app thenS_Inr)

lemma write_nodes:
  assumes "\<And>n. n \<in> set nodes \<Longrightarrow> io_write (nc_io n) = None"
  shows "mapS node_write nodes p = (Inr (map (\<lambda>_. ()) nodes), (put (\<lambda>_. PNone) (positions nodes) p)\<lparr>cp_log := cp_log p @ wrote nodes\<rparr>)"
  using assms
proof (induction nodes arbitrary: p)
  case Nil
  then show ?case by simp
next
  case (Cons n nodes)
  then show ?case by (simp add: bindS_Inr node_write_app put_append put_log)
qed

lemma read_nodes:
  assumes "\<And>n. n \<in> set nodes \<Longrightarrow> io_replies (nc_io n) = map f (nc_commands n)" "distinct (positions nodes)"
    and "\<And>i. i \<in> set (positions nodes) \<Longrightarrow> own_reply (f i) \<and> i < length (cp_stack p) \<and> pc_result (cp_stack p ! i) = PNone"
  shows "mapS read_node nodes p = (Inr (map (\<lambda>_. ()) nodes), put (\<lambda>a. result_of (f a)) (positions nodes) p)"
  using assms
proof (induction nodes arbitrary: p)
  case Nil
  then show ?case by simp
next
  case (Cons n nodes)
  let ?p = "put (\<lambda>a. result_of (f a)) (nc_commands n) p"
  have r: "read_node n p = (Inr (), ?p)"
    unfolding read_node_def Cons.prems(1) [of n, simplified]
    by (rule node_read_own) (use Cons.prems(2,3) in auto)
  have "mapS read_node nodes ?p = (Inr (map (\<lambda>_. ()) nodes), put (\<lambda>a. result_of (f a)) (positions nodes) ?p)"
  proof (rule Cons.IH)
    show "own_reply (f i) \<and> i < length (cp_stack ?p) \<and> pc_result (cp_stack ?p ! i) = PNone" if "i \<in> set (positions nodes)" for i
    proof -
      have "i \<notin> set (nc_commands n)" using that Cons.prems(2) by auto
      then show ?thesis using that Cons.prems(3) [of i] by (simp add: put_nth)
    qed
  qed (use Cons.prems in auto)
  then show ?case using r by (simp add: bindS_Inr put_append)
qed

lemma write_and_read_own:
  assumes "\<And>n. n \<in> set nodes \<Longrightarrow> io_write (nc_io n) = None \<and> io_replies (nc_io n) = map f (nc_commands n)" "distinct (positions nodes)"
    and "\<And>i. i \<in> set (positions nodes) \<Longrightarrow> own_reply (f i) \<and> i < length (cp_stack p)"
  shows "write_and_read nodes p = (Inr (), (put (\<lambda>a. result_of (f a)) (positions nodes) (put (\<lambda>_. PNone) (positions nodes) p))
    \<lparr>cp_log := cp_log p @ wrote nodes @ returned nodes\<rparr>)"
proof -
  let ?w = "(put (\<lambda>_. PNone) (positions nodes) p)\<lparr>cp_log := cp_log p @ wrote nodes\<rparr>"
  have w: "mapS node_write nodes p = (Inr (map (\<lambda>_. ()) nodes), ?w)" by (rule write_nodes) (use assms(1) in blast)
  have r: "mapS read_node nodes ?w = (Inr (map (\<lambda>_. ()) nodes), put (\<lambda>a. result_of (f a)) (positions nodes) ?w)"
    by (rule read_nodes) (use assms in \<open>simp_all add: put_nth\<close>)
  have "bindS (mapS node_write nodes) (\<lambda>_. retS ()) p = (Inr (), ?w)" using w by simp
  moreover have "bindS (mapS read_node nodes) (\<lambda>_. retS ()) ?w = (Inr (), put (\<lambda>a. result_of (f a)) (positions nodes) ?w)" using r by simp
  ultimately show ?thesis by (simp add: write_and_read_def finallyS_def release_nodes_app put_log)
qed

section \<open>One attempt\<close>

lemma finish_results_ok:
  assumes "distinct is" "\<And>i. i \<in> set is \<Longrightarrow> i < length (cp_stack p) \<and>
    cluster_response_callback (pc_name (cp_stack p ! i)) (pc_result (cp_stack p ! i)) = Inr (h i)"
  shows "finish_results is p = (Inr (map h is), put h is p)"
  using assms
proof (induction "is" arbitrary: p)
  case Nil
  then show ?case by simp
next
  case (Cons i "is")
  have "finish_results is (set_result i (h i) p) = (Inr (map h is), put h is (set_result i (h i) p))"
  proof (rule Cons.IH)
    show "j < length (cp_stack (set_result i (h i) p)) \<and>
        cluster_response_callback (pc_name (cp_stack (set_result i (h i) p) ! j)) (pc_result (cp_stack (set_result i (h i) p) ! j)) = Inr (h j)"
      if "j \<in> set is" for j
      using that Cons.prems(1) Cons.prems(2) [of j] set_result_nth [of j p i "h i"] by auto
  qed (use Cons.prems in auto)
  then show ?case using Cons.prems(2) [of i] by (simp add: bindS_Inr thenS_Inr)
qed

lemma attempt_answers:
  assumes g: "group_commands [0..<length (cp_stack p)] [] False p = (Inr (nodes, d), q)"
    and io: "\<And>n. n \<in> set nodes \<Longrightarrow> io_write (nc_io n) = None \<and> io_replies (nc_io n) = map f (nc_commands n)"
    and own: "\<And>i. i < length (cp_stack p) \<Longrightarrow> own_reply (f i) \<and> \<not> may_redo (result_of (f i))"
    and h: "\<And>i. i < length (cp_stack p) \<Longrightarrow> cluster_response_callback (pc_name (cp_stack p ! i)) (result_of (f i)) = Inr (h i)"
  obtains p' where "send_attempt_commands b a p =
      (case if b then first_exception (cp_stack p') else None of Some e \<Rightarrow> Inl e | None \<Rightarrow> Inr (map h [0..<length (cp_stack p)]), p')"
    "cp_log p' = cp_log p @ acquired nodes @ wrote nodes @ returned nodes" "length (cp_stack p') = length (cp_stack p)"
    "\<And>i. i < length (cp_stack p) \<Longrightarrow> pc_result (cp_stack p' ! i) = h i \<and> pc_name (cp_stack p' ! i) = pc_name (cp_stack p ! i) \<and>
       pc_position (cp_stack p' ! i) = pc_position (cp_stack p ! i)"
proof -
  let ?n = "length (cp_stack p)"
  let ?is = "positions nodes"
  have gc: "same_results p q" "mset ?is = mset [0..<?n]" "cp_log q = cp_log p @ acquired nodes" using group_commands_ok [OF g] by auto
  have d: "distinct ?is" "set ?is = {0..<?n}" using mset_eq_imp_distinct_iff [OF gc(2)] mset_eq_setD [OF gc(2)] by (simp_all add: atLeast0LessThan)
  have within: "i < ?n" if "i \<in> set ?is" for i using that unfolding d(2) by simp
  have lq: "length (cp_stack q) = ?n" using same_results_length [OF gc(1)] .
  define p2 where "p2 = (put (\<lambda>a. result_of (f a)) ?is (put (\<lambda>_. PNone) ?is q))\<lparr>cp_log := cp_log q @ wrote nodes @ returned nodes\<rparr>"
  have w: "write_and_read nodes q = (Inr (), p2)"
    unfolding p2_def by (rule write_and_read_own [OF io d(1)]) (use own lq within in auto)
  have nth: "cp_stack p2 ! i = (cp_stack q ! i)\<lparr>pc_result := result_of (f i)\<rparr>" if "i < ?n" for i
    using that d lq by (simp add: p2_def put_nth)
  have l2: "length (cp_stack p2) = ?n" by (simp add: p2_def lq)
  have none: "filter (\<lambda>i. may_redo (pc_result (cp_stack p2 ! i))) [0..<?n] = []" using own nth by (auto simp: filter_empty_conv)
  define p3 where "p3 = put h [0..<?n] p2"
  have fin: "finish_results [0..<?n] p2 = (Inr (map h [0..<?n]), p3)" unfolding p3_def
    by (rule finish_results_ok) (use l2 nth h same_results_nth(1) [OF gc(1)] in auto)
  show ?thesis
  proof (rule that [of p3])
    show "send_attempt_commands b a p =
      (case if b then first_exception (cp_stack p3) else None of Some e \<Rightarrow> Inl e | None \<Rightarrow> Inr (map h [0..<?n]), p3)"
      using none by (simp add: send_attempt_commands_def bindS_Inr thenS_Inr g w fin split: option.splits)
    show "cp_log p3 = cp_log p @ acquired nodes @ wrote nodes @ returned nodes" by (simp add: p3_def p2_def gc(3))
    show "length (cp_stack p3) = ?n" by (simp add: p3_def l2)
    show "pc_result (cp_stack p3 ! i) = h i \<and> pc_name (cp_stack p3 ! i) = pc_name (cp_stack p ! i) \<and>
       pc_position (cp_stack p3 ! i) = pc_position (cp_stack p ! i)" if "i < ?n" for i
      using that nth [OF that] l2 same_results_nth [OF gc(1) that] by (simp add: p3_def put_nth)
  qed
qed

section \<open>Answers in order\<close>

definition not_exc :: "pyval \<Rightarrow> bool" where
  "not_exc v = (case v of PExc _ \<Rightarrow> False | _ \<Rightarrow> True)"

lemma first_exception_none:
  "(\<And>i. i < length cs \<Longrightarrow> not_exc (pc_result (cs ! i))) \<Longrightarrow> first_exception cs = None"
proof (induction cs)
  case (Cons c cs)
  have "first_exception cs = None" by (rule Cons.IH) (use Cons.prems [of "Suc _"] in simp)
  then show ?case using Cons.prems [of 0] by (auto simp: not_exc_def split: pyval.splits)
qed simp

lemma first_exception_at:
  assumes "k < length cs" "pc_result (cs ! k) = PExc e" "\<And>i. i < k \<Longrightarrow> not_exc (pc_result (cs ! i))"
  shows "first_exception cs = Some (cluster_annotate e (Suc (pc_position (cs ! k))) (pc_name (cs ! k)))"
  using assms
proof (induction cs arbitrary: k)
  case (Cons c cs)
  show ?case
  proof (cases k)
    case 0
    then show ?thesis using Cons.prems by simp
  next
    case (Suc j)
    have "first_exception cs = Some (cluster_annotate e (Suc (pc_position (cs ! j))) (pc_name (cs ! j)))"
    proof (rule Cons.IH)
      show "not_exc (pc_result (cs ! i))" if "i < j" for i using that Cons.prems(3) [of "Suc i"] Suc by simp
    qed (use Cons.prems(1,2) Suc in simp_all)
    then show ?thesis using Cons.prems(3) [of 0] Suc by (auto simp: not_exc_def split: pyval.splits)
  qed
qed simp

lemma plain_reply: "own_reply (Inr v)" "not_exc v \<Longrightarrow> \<not> may_redo v"
  by (auto simp: own_reply_def not_exc_def may_redo_def split: pyval.splits)

lemma send_loop_Inr: "send_attempt_commands b a p = (Inr v, q) \<Longrightarrow> send_loop k b a p = (Inr v, q)"
  by (cases k) (simp_all add: catchS_def)

lemma cluster_pipeline_answers:
  assumes "cp_stack p \<noteq> []"
    and "group_commands [0..<length (cp_stack p)] [] False p = (Inr (nodes, d), q)"
    and "\<And>n. n \<in> set nodes \<Longrightarrow> io_write (nc_io n) = None \<and> io_replies (nc_io n) = map (\<lambda>i. Inr (v i)) (nc_commands n)"
    and "\<And>i. i < length (cp_stack p) \<Longrightarrow> not_exc (v i) \<and> not_exc (h i) \<and> cluster_response_callback (pc_name (cp_stack p ! i)) (v i) = Inr (h i)"
  shows "\<exists>p'. cluster_pipeline_execute True p = (Inr (map h [0..<length (cp_stack p)]), p') \<and> cp_stack p' = [] \<and>
    cp_log p' = cp_log p @ acquired nodes @ wrote nodes @ returned nodes"
proof -
  obtain p1 where a: "send_attempt_commands True True p =
      (case if True then first_exception (cp_stack p1) else None of Some e \<Rightarrow> Inl e | None \<Rightarrow> Inr (map h [0..<length (cp_stack p)]), p1)"
    and l: "cp_log p1 = cp_log p @ acquired nodes @ wrote nodes @ returned nodes" "length (cp_stack p1) = length (cp_stack p)"
    and r: "\<And>i. i < length (cp_stack p) \<Longrightarrow> pc_result (cp_stack p1 ! i) = h i \<and> pc_name (cp_stack p1 ! i) = pc_name (cp_stack p ! i) \<and>
       pc_position (cp_stack p1 ! i) = pc_position (cp_stack p ! i)"
    using attempt_answers [OF assms(2,3), where h = h and b = True and a = True] assms(4) plain_reply by auto
  have "first_exception (cp_stack p1) = None" by (rule first_exception_none) (use l r assms(4) in auto)
  then have "send_attempt_commands True True p = (Inr (map h [0..<length (cp_stack p)]), p1)" using a by simp
  then have "send_cluster_commands True True p = (Inr (map h [0..<length (cp_stack p)]), p1)"
    using assms(1) by (simp add: send_cluster_commands_def send_loop_Inr)
  then show ?thesis using l by (simp add: cluster_pipeline_execute_def finallyS_def cluster_pipeline_reset_def)
qed

text \<open>C8: when the pool of every node gives a connection, writing succeeds and every command gets an answer that is no
  error, executing the pipeline returns the answers in the order of the commands, however the commands are spread over
  the nodes. Every node is written to before any is read, every connection goes back to its pool, and the pipeline
  is empty.\<close>

theorem cluster_pipeline_in_order:
  assumes "cp_stack p \<noteq> []"
    and "group_commands [0..<length (cp_stack p)] [] False p = (Inr (nodes, d), q)"
    and "\<And>n. n \<in> set nodes \<Longrightarrow> io_write (nc_io n) = None \<and> io_replies (nc_io n) = map (\<lambda>i. Inr (v i)) (nc_commands n)"
    and "\<And>i. i < length (cp_stack p) \<Longrightarrow> not_exc (v i) \<and> not_exc (h i) \<and> cluster_response_callback (pc_name (cp_stack p ! i)) (v i) = Inr (h i)"
  shows "\<exists>p'. cluster_pipeline_execute True p = (Inr (map h [0..<length (cp_stack p)]), p') \<and> cp_stack p' = [] \<and>
    cp_log p' = cp_log p @ acquired nodes @ wrote nodes @ returned nodes"
  by (rule cluster_pipeline_answers [OF assms])

text \<open>after a ClusterDownError of one command the whole stack starts again, also the commands that were answered:
  with retries left the loop goes on from a state in which every node has been written to once, every answer was
  read, and all the commands are still staged.\<close>

theorem cluster_down_runs_answered_again:
  assumes "group_commands [0..<length (cp_stack p)] [] False p = (Inr (nodes, d), q)"
    and "\<And>n. n \<in> set nodes \<Longrightarrow> io_write (nc_io n) = None \<and> io_replies (nc_io n) = map f (nc_commands n)"
    and "\<And>i. i < length (cp_stack p) \<Longrightarrow> own_reply (f i) \<and> \<not> may_redo (result_of (f i)) \<and>
      cluster_response_callback (pc_name (cp_stack p ! i)) (result_of (f i)) = Inr (result_of (f i))"
    and "k < length (cp_stack p)" "f k = Inl (Exc ClusterDownError m)" "\<And>i. i < k \<Longrightarrow> not_exc (result_of (f i))"
  shows "\<exists>p'. send_loop (Suc n) True a p = send_loop n True a p' \<and> cp_log p' = cp_log p @ acquired nodes @ wrote nodes @ returned nodes \<and>
    map pc_result (cp_stack p') = map (\<lambda>i. result_of (f i)) [0..<length (cp_stack p)] \<and>
    map pc_name (cp_stack p') = map pc_name (cp_stack p)"
proof -
  obtain p1 where a: "send_attempt_commands True a p =
      (case if True then first_exception (cp_stack p1) else None of Some e \<Rightarrow> Inl e
        | None \<Rightarrow> Inr (map (\<lambda>i. result_of (f i)) [0..<length (cp_stack p)]), p1)"
    and l: "cp_log p1 = cp_log p @ acquired nodes @ wrote nodes @ returned nodes" "length (cp_stack p1) = length (cp_stack p)"
    and r: "\<And>i. i < length (cp_stack p) \<Longrightarrow> pc_result (cp_stack p1 ! i) = result_of (f i) \<and> pc_name (cp_stack p1 ! i) = pc_name (cp_stack p ! i) \<and>
       pc_position (cp_stack p1 ! i) = pc_position (cp_stack p ! i)"
    using attempt_answers [OF assms(1,2), where h = "\<lambda>i. result_of (f i)" and b = True and a = a] assms(3) by auto
  obtain c where "first_exception (cp_stack p1) = Some (cluster_annotate (Exc ClusterDownError m) c (pc_name (cp_stack p1 ! k)))"
    using first_exception_at [of k "cp_stack p1" "Exc ClusterDownError m"] l r assms(4-6) by auto
  then obtain x where x: "send_attempt_commands True a p = (Inl (Exc ClusterDownError x), p1)" using a by (auto simp: cluster_annotate_def)
  have "isinstance_any (Exc ClusterDownError x) [ClusterDownError, ConnectionError]" by (simp add: isinstance_any_def isinstance_def)
  then have "send_loop (Suc n) True a p = send_loop n True a p1" using x by (simp add: catchS_def)
  moreover have "map pc_result (cp_stack p1) = map (\<lambda>i. result_of (f i)) [0..<length (cp_stack p)]" "map pc_name (cp_stack p1) = map pc_name (cp_stack p)"
    using l r by (auto intro!: nth_equalityI)
  ultimately show ?thesis using l by blast
qed

text \<open>when reading breaks off with a connection error or a timeout, every command of the node gets the error as its
  result, also those whose answer had come: all of them are then sent again one by one.\<close>

theorem read_error_loses_answers:
  assumes "nc_commands n = is @ i # js" "io_write (nc_io n) = None" "io_replies (nc_io n) = map f is @ Inl e # rs"
    and "distinct (nc_commands n)" "\<And>j. j \<in> set (nc_commands n) \<Longrightarrow> j < length (cp_stack p)" "\<And>j. j \<in> set is \<Longrightarrow> own_reply (f j)"
    and "isinstance_any e [ConnectionError, TimeoutError]"
  shows "\<exists>p'. thenS (node_write n) (read_node n) p = (Inr (), p') \<and>
    (\<forall>j \<in> set (nc_commands n). pc_result (cp_stack p' ! j) = PExc e \<and> may_redo (PExc e))"
proof -
  let ?w = "(put (\<lambda>_. PNone) (nc_commands n) p)\<lparr>cp_log := cp_log p @ [Wrote (nc_node n) (nc_commands n)]\<rparr>"
  let ?r = "put (\<lambda>_. PExc e) (nc_commands n) (put (\<lambda>a. result_of (f a)) is ?w)"
  have "read_node n ?w = (Inr (), ?r)"
    unfolding read_node_def assms(1,3)
    by (rule node_read_lost) (use assms(1,4-7) in \<open>auto simp: put_nth\<close>)
  then have run: "thenS (node_write n) (read_node n) p = (Inr (), ?r)" by (simp add: node_write_app assms(2))
  have "may_redo (PExc e)" using assms(7) by (auto simp: may_redo_def PIPELINE_ERRORS_ALLOW_RETRY_def isinstance_any_def)
  then show ?thesis using run assms(5) by (intro exI [of _ ?r]) (simp add: put_nth)
qed

text \<open>when the last command cannot be routed, executing the pipeline raises, and the connections taken for the
  commands before it are never given back.\<close>

theorem routing_error_keeps_connections:
  assumes "length (cp_stack p) = Suc m" "group_commands [0..<m] [] False p = (Inr (nodes, d), q)" "pipeline_node m q = (Inl e, q')"
    and "\<not> isinstance_any e [ClusterDownError, ConnectionError]"
  shows "\<exists>p'. cluster_pipeline_execute True p = (Inl e, p') \<and> cp_log p' = cp_log p @ acquired nodes"
proof -
  have "group_commands ([0..<m] @ [m]) [] False p = (Inl e, q')"
    using group_commands_append [OF assms(2)] assms(3) by simp
  then have "send_attempt_commands True True p = (Inl e, q')" using assms(1) by (simp add: send_attempt_commands_def)
  then have "send_loop k True True p = (Inl e, q')" for k using assms(4) by (cases k) (simp_all add: catchS_def)
  moreover have "cp_stack p \<noteq> []" using assms(1) by auto
  ultimately have "send_cluster_commands True True p = (Inl e, q')" by (simp add: send_cluster_commands_def)
  moreover have "cp_log q' = cp_log p @ acquired nodes"
    using group_commands_ok [OF assms(2)] alwaysD [OF quiet_pipeline_node assms(3)] by (simp add: same_log_def)
  ultimately show ?thesis by (simp add: cluster_pipeline_execute_def finallyS_def cluster_pipeline_reset_def)
qed

section \<open>Connections\<close>

definition held :: "string \<times> nat \<Rightarrow> pipe_event list \<Rightarrow> int" where
  "held x l = int (count_list l (Acquired (fst x) (snd x))) - int (count_list l (Returned (fst x) (snd x)))"

definition balanced :: "cluster_pipeline \<Rightarrow> cluster_pipeline \<Rightarrow> bool" where
  "balanced p q = (\<forall>x. held x (cp_log q) = held x (cp_log p))"

interpretation balance: frame balanced
  by unfold_locales (auto simp: balanced_def)

lemma held_append [simp]: "held x (l @ m) = held x l + held x m"
  by (simp add: held_def)

lemma held_conns: "held x (acquired nodes) = int (count_list (node_conns nodes) x)" "held x (returned nodes) = - int (count_list (node_conns nodes) x)"
  by (induction nodes) (auto simp: held_def)

lemma balanced_quiet: "cp_log q = cp_log p \<Longrightarrow> balanced p q"
  by (simp add: balanced_def)

lemma balanced_steps [frame_intros]: "always balanced (on_cluster f)" "always balanced (set_results is v)"
  "always balanced (modS (set_result i v))" "always balanced (cp_event (Wrote n is))" "always balanced (cp_event (Single i))"
  by (rule alwaysI, auto simp: on_cluster_def set_results_app balanced_def held_def split: prod.splits)+

lemma balanced_node_write: "always balanced (node_write n)"
  unfolding node_write_def by (auto split: option.splits intro!: balance.always_then balance.always_pure balanced_steps)

lemma balanced_node_read: "always balanced (node_read all is rs)"
  by (induction "is" arbitrary: rs)
    (auto split: sum.splits list.splits intro!: balance.always_bind balance.always_then balance.always_pure balanced_steps)

lemma balanced_read_node: "always balanced (read_node n)"
  unfolding read_node_def by (rule balanced_node_read)

lemma balanced_redo: "always balanced (redo_commands is)"
proof (induction "is")
  case (Cons i "is")
  show ?case unfolding redo_commands.simps
    by (intro balance.always_bind balance.always_then balance.always_catch balance.always_if balance.always_pure balanced_steps Cons.IH)
qed (simp only: redo_commands.simps balance.always_pure)

lemma balanced_finish: "always balanced (finish_results is)"
proof (induction "is")
  case (Cons i "is")
  show ?case unfolding finish_results.simps
    by (intro balance.always_bind balance.always_then balance.always_pure balanced_steps Cons.IH)
qed (simp only: finish_results.simps balance.always_pure)

lemma balanced_redo_failed: "always balanced (redo_failed is d)"
  unfolding redo_failed_def replace_if_default_def
  by (auto intro!: balance.always_bind balance.always_then balance.always_pure balanced_steps balanced_redo)

text \<open>whatever writing, reading and the single retries give or raise, once every command is routed and every node
  has a connection, an attempt gives back each connection as often as it took it.\<close>

theorem attempt_returns_connections:
  assumes "group_commands [0..<length (cp_stack p)] [] False p = (Inr (nodes, d), q)"
    and "send_attempt_commands b a p = (r, p')"
  shows "held x (cp_log p') = held x (cp_log p)"
proof -
  let ?body = "thenS (bindS (mapS node_write nodes) (\<lambda>_. retS ())) (bindS (mapS read_node nodes) (\<lambda>_. retS ()))"
  obtain v q1 where body: "?body q = (v, q1)" by force
  have "always balanced ?body"
    by (intro balance.always_then balance.always_bind balance.always_map balance.always_pure balanced_node_write balanced_read_node)
  then have "balanced q (snd (?body q))" unfolding always_def by (rule spec)
  then have b1: "held x (cp_log q1) = held x (cp_log q)" unfolding body balanced_def by (cases x) simp
  have w: "write_and_read nodes q = (v, q1\<lparr>cp_log := cp_log q1 @ returned nodes\<rparr>)"
    using body by (simp add: write_and_read_def finallyS_def release_nodes_app)
  have q: "held x (cp_log q) = held x (cp_log p) + int (count_list (node_conns nodes) x)"
    using group_commands_ok [OF assms(1)] by (simp add: held_conns)
  define rest where "rest = bindS (getS (\<lambda>s. filter (\<lambda>i. may_redo (pc_result (cp_stack s ! i))) [0..<length (cp_stack p)])) (\<lambda>failed.
     thenS (if failed \<noteq> [] \<and> a then redo_failed failed d else retS ())
     (bindS (finish_results [0..<length (cp_stack p)]) (\<lambda>response.
     bindS (getS (\<lambda>p. if b then first_exception (cp_stack p) else None)) (\<lambda>err.
       case err of Some e \<Rightarrow> raiseS e | None \<Rightarrow> retS response))))"
  have l: "length (cp_stack q) = length (cp_stack p)" using group_commands_ok [OF assms(1)] same_results_length by blast
  have "always balanced rest" unfolding rest_def
    by (intro balance.always_bind balance.always_then balance.always_if balance.always_pure balanced_redo_failed balanced_finish)
      (auto split: option.splits intro: balance.always_pure)
  then have b2: "held x (cp_log (snd (rest q2))) = held x (cp_log q2)" for q2 unfolding always_def balanced_def by (cases x) simp
  have "send_attempt_commands b a p = (case v of Inl e \<Rightarrow> (Inl e, q1\<lparr>cp_log := cp_log q1 @ returned nodes\<rparr>)
      | Inr _ \<Rightarrow> rest (q1\<lparr>cp_log := cp_log q1 @ returned nodes\<rparr>))"
    using assms(1) w by (cases v) (simp_all add: send_attempt_commands_def rest_def)
  then have "held x (cp_log (snd (send_attempt_commands b a p))) = held x (cp_log (q1\<lparr>cp_log := cp_log q1 @ returned nodes\<rparr>))"
    using b2 [of "q1\<lparr>cp_log := cp_log q1 @ returned nodes\<rparr>"] by (cases v) simp_all
  then show ?thesis using b1 q assms(2) by (simp add: held_conns)
qed

section \<open>Witnesses\<close>

text \<open>Commands for given nodes, and what the pool and connection of each node do.\<close>

definition demo_pipeline :: "nat list list \<Rightarrow> node_io list \<Rightarrow> cluster_pipeline" where
  "demo_pipeline targets ios =
     \<lparr>cp_client = demo_client [] 3,
      cp_stack = map (\<lambda>(i, ns). \<lparr>pc_name = ''GET'', pc_rest = [PStr ''foo''], pc_target = Nodes ns, pc_position = i, pc_result = PNone\<rparr>)
        (enumerate 0 targets),
      cp_io = ios, cp_log = []\<rparr>"

definition demo_io :: "nat \<Rightarrow> (exc + pyval) list \<Rightarrow> node_io" where
  "demo_io conn replies = \<lparr>io_conn = Inr conn, io_write = None, io_replies = replies\<rparr>"

definition demo_commands :: "string \<Rightarrow> nat \<Rightarrow> (exc + pyval) list \<Rightarrow> nat list \<Rightarrow> node_commands" where
  "demo_commands node conn replies is = \<lparr>nc_node = node, nc_conn = conn, nc_io = demo_io conn replies, nc_commands = is\<rparr>"

lemma demo_commands_simps [simp]: "nc_node (demo_commands n c r is) = n" "nc_conn (demo_commands n c r is) = c"
    "nc_commands (demo_commands n c r is) = is" "io_write (nc_io (demo_commands n c r is)) = None"
    "io_replies (nc_io (demo_commands n c r is)) = r"
  by (simp_all add: demo_commands_def demo_io_def)

lemma demo_pipeline_simps [simp]: "length (cp_stack (demo_pipeline ts ios)) = length ts" "cp_log (demo_pipeline ts ios) = []"
    "i < length ts \<Longrightarrow> pc_name (cp_stack (demo_pipeline ts ios) ! i) = ''GET''"
  by (simp_all add: demo_pipeline_def nth_enumerate_eq)

abbreviation three_commands :: "(exc + pyval) list \<Rightarrow> (exc + pyval) list \<Rightarrow> cluster_pipeline" where
  "three_commands r s \<equiv> demo_pipeline [[0], [1], [0]] [demo_io 7 r, demo_io 8 s]"

abbreviation two_nodes :: "(exc + pyval) list \<Rightarrow> (exc + pyval) list \<Rightarrow> node_commands list" where
  "two_nodes r s \<equiv> [demo_commands ''a:1'' 7 r [0, 2], demo_commands ''b:1'' 8 s [1]]"

lemma three_commands_grouped: "\<exists>q. group_commands [0..<3] [] False (three_commands r s) = (Inr (two_nodes r s, True), q)"
proof -
  have "fst (group_commands [0..<3] [] False (three_commands r s)) = Inr (two_nodes r s, True)"
    by code_simp
  then show ?thesis by (metis prod.collapse)
qed

theorem cluster_pipeline_in_order_witness:
  "\<exists>p'. cluster_pipeline_execute True (three_commands [Inr (PInt 10), Inr (PInt 12)] [Inr (PInt 11)]) =
      (Inr [PInt 10, PInt 11, PInt 12], p') \<and> cp_stack p' = [] \<and>
    cp_log p' = [Acquired ''a:1'' 7, Acquired ''b:1'' 8, Wrote ''a:1'' [0, 2], Wrote ''b:1'' [1], Returned ''a:1'' 7, Returned ''b:1'' 8]"
proof -
  let ?r = "[Inr (PInt 10), Inr (PInt 12)] :: (exc + pyval) list" and ?s = "[Inr (PInt 11)] :: (exc + pyval) list"
  let ?v = "\<lambda>i. PInt (10 + int i)"
  obtain q where g: "group_commands [0..<3] [] False (three_commands ?r ?s) = (Inr (two_nodes ?r ?s, True), q)"
    using three_commands_grouped by blast
  have "cp_stack (three_commands ?r ?s) \<noteq> []" by (simp add: demo_pipeline_def enumerate_eq_zip)
  then have "\<exists>p'. cluster_pipeline_execute True (three_commands ?r ?s) = (Inr (map ?v [0..<length (cp_stack (three_commands ?r ?s))]), p') \<and>
      cp_stack p' = [] \<and> cp_log p' = cp_log (three_commands ?r ?s) @ acquired (two_nodes ?r ?s) @ wrote (two_nodes ?r ?s) @ returned (two_nodes ?r ?s)"
    by (rule cluster_pipeline_in_order [where q = q and d = True and v = ?v]) (use g in \<open>auto simp: not_exc_def demo_callback eval_nat_numeral\<close>)
  then show ?thesis by (simp add: eval_nat_numeral upt_rec)
qed

theorem cluster_down_runs_answered_again_witness:
  "\<exists>p'. send_loop 3 True True (three_commands [Inr (PInt 10), Inr (PInt 12)] [Inl (Exc ClusterDownError ''down'')]) = send_loop 2 True True p' \<and>
    cp_log p' = [Acquired ''a:1'' 7, Acquired ''b:1'' 8, Wrote ''a:1'' [0, 2], Wrote ''b:1'' [1], Returned ''a:1'' 7, Returned ''b:1'' 8] \<and>
    map pc_result (cp_stack p') = [PInt 10, PExc (Exc ClusterDownError ''down''), PInt 12] \<and> map pc_name (cp_stack p') = [''GET'', ''GET'', ''GET'']"
proof -
  let ?e = "Exc ClusterDownError ''down''"
  let ?r = "[Inr (PInt 10), Inr (PInt 12)] :: (exc + pyval) list" and ?s = "[Inl ?e] :: (exc + pyval) list"
  let ?f = "\<lambda>i. if i = 1 then Inl ?e else Inr (PInt (10 + int i))"
  obtain q where g: "group_commands [0..<3] [] False (three_commands ?r ?s) = (Inr (two_nodes ?r ?s, True), q)"
    using three_commands_grouped by blast
  have e: "isinstance ?e RedisError" "\<not> isinstance_any ?e [ConnectionError, TimeoutError]" "\<not> isinstance_any ?e PIPELINE_ERRORS_ALLOW_RETRY"
    by code_simp+
  have "\<exists>p'. send_loop (Suc 2) True True (three_commands ?r ?s) = send_loop 2 True True p' \<and>
      cp_log p' = cp_log (three_commands ?r ?s) @ acquired (two_nodes ?r ?s) @ wrote (two_nodes ?r ?s) @ returned (two_nodes ?r ?s) \<and>
      map pc_result (cp_stack p') = map (\<lambda>i. result_of (?f i)) [0..<length (cp_stack (three_commands ?r ?s))] \<and>
      map pc_name (cp_stack p') = map pc_name (cp_stack (three_commands ?r ?s))"
    by (rule cluster_down_runs_answered_again [where q = q and d = True and f = ?f and k = 1 and m = "''down''"])
      (use g e in \<open>auto simp: not_exc_def demo_callback eval_nat_numeral own_reply_def may_redo_def\<close>)
  then show ?thesis by (simp add: eval_nat_numeral upt_rec demo_pipeline_def)
qed

theorem read_error_loses_answers_witness:
  "\<exists>p'. thenS (node_write (demo_commands ''a:1'' 7 [Inr (PInt 10), Inl (Exc ConnectionError ''closed'')] [0, 2]))
      (read_node (demo_commands ''a:1'' 7 [Inr (PInt 10), Inl (Exc ConnectionError ''closed'')] [0, 2])) (three_commands [] []) = (Inr (), p') \<and>
    pc_result (cp_stack p' ! 0) = PExc (Exc ConnectionError ''closed'') \<and> pc_result (cp_stack p' ! 2) = PExc (Exc ConnectionError ''closed'')"
proof -
  let ?e = "Exc ConnectionError ''closed''"
  have e: "isinstance_any ?e [ConnectionError, TimeoutError]" by code_simp
  show ?thesis
    using read_error_loses_answers [of "demo_commands ''a:1'' 7 [Inr (PInt 10), Inl ?e] [0, 2]" "[0]" 2 "[]" "\<lambda>_. Inr (PInt 10)" ?e "[]"
        "three_commands [] []"] e
    by (auto simp: own_reply_def less_Suc_eq numeral_2_eq_2)
qed

theorem routing_error_keeps_connections_witness:
  "\<exists>p'. cluster_pipeline_execute True (demo_pipeline [[0], [0, 1]] [demo_io 7 []]) = (Inl too_many_targets, p') \<and> cp_log p' = [Acquired ''a:1'' 7]"
proof -
  let ?p = "demo_pipeline [[0], [0, 1]] [demo_io 7 []]" and ?ns = "[demo_commands ''a:1'' 7 [] [0]]"
  have "fst (group_commands [0..<1] [] False ?p) = Inr (?ns, True)" by code_simp
  then obtain q where g: "group_commands [0..<1] [] False ?p = (Inr (?ns, True), q)" by (metis prod.collapse)
  have "fst (pipeline_node 1 (snd (group_commands [0..<1] [] False ?p))) = Inl too_many_targets" by code_simp
  then obtain q' where n: "pipeline_node 1 q = (Inl too_many_targets, q')" using g by (metis prod.collapse snd_conv)
  have "\<not> isinstance_any too_many_targets [ClusterDownError, ConnectionError]" by code_simp
  from routing_error_keeps_connections [OF _ g n this] show ?thesis by simp
qed

theorem attempt_returns_connections_witness:
  "\<exists>p'. snd (send_attempt_commands True True (three_commands [Inr (PInt 10)] [])) = p' \<and> held (''a:1'', 7) (cp_log p') = 0"
proof -
  obtain q where g: "group_commands [0..<3] [] False (three_commands [Inr (PInt 10)] []) = (Inr (two_nodes [Inr (PInt 10)] [], True), q)"
    using three_commands_grouped by blast
  obtain r p' where "send_attempt_commands True True (three_commands [Inr (PInt 10)] []) = (r, p')" by force
  then show ?thesis
    using attempt_returns_connections [of "three_commands [Inr (PInt 10)] []" _ True q True True r p' "(''a:1'', 7)"] g
    by (simp add: eval_nat_numeral held_def)
qed

end
