(* ===== verification/CommandCall.thy ===== *)
theory CommandCall
  imports Utils Serializer Floats
begin

text \<open>
  What the command methods of \<open>redis/commands\<close> share: a call of \<open>execute_command\<close> with its arguments and keyword
  options, the conversion of \<open>timedelta\<close> and \<open>datetime\<close> arguments through binary floats, and the predicates
  under which arguments can be encoded.
\<close>

section \<open>Calls\<close>

type_synonym kwargs = "(string \<times> pyval) list"

text \<open>\<open>self.execute_command(*args, **options)\<close>; the first argument is the command's name.\<close>

record call =
  ca_args :: "pyval list"
  ca_options :: kwargs

definition call :: "pyval list \<Rightarrow> kwargs \<Rightarrow> call" where
  "call args options = \<lparr>ca_args = args, ca_options = options\<rparr>"

definition call_name :: "call \<Rightarrow> string" where
  "call_name c = (case ca_args c of PStr s # _ \<Rightarrow> s | _ \<Rightarrow> [])"

definition call_keys :: "call \<Rightarrow> pyval option" where
  "call_keys c = dict_get (ca_options c) ''keys''"

text \<open>\<open>for pair in mapping.items(): items.extend(pair)\<close>.\<close>

definition flat_pairs :: "(pyval \<times> pyval) list \<Rightarrow> pyval list" where
  "flat_pairs d = concat (map (\<lambda>(k, v). [k, v]) d)"

definition is_int :: "pyval \<Rightarrow> bool" where
  "is_int v = (case v of PInt _ \<Rightarrow> True | PBool _ \<Rightarrow> True | _ \<Rightarrow> False)"

definition int_of_val :: "pyval \<Rightarrow> int" where
  "int_of_val v = (case v of PInt n \<Rightarrow> n | PBool b \<Rightarrow> if b then 1 else 0 | _ \<Rightarrow> 0)"

text \<open>\<open>str(v)\<close> for what \<open>isinstance(v, int)\<close> accepts.\<close>

definition str_of_int :: "pyval \<Rightarrow> string" where
  "str_of_int v = (case v of PInt n \<Rightarrow> dec_int n | PBool b \<Rightarrow> if b then ''True'' else ''False'' | _ \<Rightarrow> [])"

definition is_text :: "pyval \<Rightarrow> bool" where
  "is_text v = (case v of PStr _ \<Rightarrow> True | PBytes _ \<Rightarrow> True | _ \<Rightarrow> False)"

definition data_error :: "string \<Rightarrow> exc" where
  "data_error m = Exc DataError m"

text \<open>An option that must be an integer of at least some size: a word and the number as text.\<close>

definition int_piece :: "string \<Rightarrow> int \<Rightarrow> string \<Rightarrow> pyval \<Rightarrow> exc + pyval list" where
  "int_piece word least msg v =
     (if v = PNone then Inr []
      else if \<not> is_int v \<or> int_of_val v < least then Inl (data_error msg)
      else Inr [PBytes word, PStr (str_of_int v)])"

section \<open>Times\<close>

text \<open>Microseconds of a \<open>timedelta\<close>, and since the epoch of an aware \<open>datetime\<close>; anything else is passed on.\<close>

datatype delta_arg = Plain pyval | Delta int
datatype stamp_arg = PlainAt pyval | Stamp int

definition total_seconds :: "int \<Rightarrow> rat" where
  "total_seconds us = float64 (of_int us / 1000000)"

definition seconds_of :: "int \<Rightarrow> int" where
  "seconds_of us = trunc (total_seconds us)"

definition millis_of :: "int \<Rightarrow> int" where
  "millis_of us = trunc (float64 (total_seconds us * 1000))"

definition delta_seconds :: "delta_arg \<Rightarrow> pyval" where
  "delta_seconds t = (case t of Plain v \<Rightarrow> v | Delta us \<Rightarrow> PInt (seconds_of us))"

definition delta_millis :: "delta_arg \<Rightarrow> pyval" where
  "delta_millis t = (case t of Plain v \<Rightarrow> v | Delta us \<Rightarrow> PInt (millis_of us))"

definition stamp_seconds :: "stamp_arg \<Rightarrow> pyval" where
  "stamp_seconds t = (case t of PlainAt v \<Rightarrow> v | Stamp us \<Rightarrow> PInt (seconds_of us))"

definition stamp_millis :: "stamp_arg \<Rightarrow> pyval" where
  "stamp_millis t = (case t of PlainAt v \<Rightarrow> v | Stamp us \<Rightarrow> PInt (millis_of us))"

section \<open>Arguments that can be encoded\<close>

definition optional :: "pyval \<Rightarrow> bool" where
  "optional v = (v = PNone \<or> encodable v)"

definition delta_ok :: "delta_arg \<Rightarrow> bool" where
  "delta_ok t = (case t of Plain v \<Rightarrow> encodable v | Delta _ \<Rightarrow> True)"

definition stamp_ok :: "stamp_arg \<Rightarrow> bool" where
  "stamp_ok t = (case t of PlainAt v \<Rightarrow> encodable v | Stamp _ \<Rightarrow> True)"

definition given_delta :: "delta_arg \<Rightarrow> bool" where
  "given_delta t = (t = Plain PNone \<or> delta_ok t)"

definition given_stamp :: "stamp_arg \<Rightarrow> bool" where
  "given_stamp t = (t = PlainAt PNone \<or> stamp_ok t)"

definition dict_ok :: "pyval \<Rightarrow> bool" where
  "dict_ok v = (\<forall>d. v = PDict d \<longrightarrow> list_all encodable (flat_pairs d))"

named_theorems call_simps \<open>the arguments and options of calls\<close>

lemma call_fields [simp, call_simps]: "ca_args (call a k) = a" "ca_options (call a k) = k" "call_name (call (PStr s # a) k) = s"
    "call_keys (call a k) = dict_get k ''keys''"
  by (simp_all add: call_def call_name_def call_keys_def)

lemma time_ok [simp, call_simps]: "delta_ok t \<Longrightarrow> encodable (delta_seconds t)" "delta_ok t \<Longrightarrow> encodable (delta_millis t)"
    "stamp_ok u \<Longrightarrow> encodable (stamp_seconds u)" "stamp_ok u \<Longrightarrow> encodable (stamp_millis u)"
  by (cases t; simp add: delta_ok_def delta_seconds_def delta_millis_def)+
    (cases u; simp add: stamp_ok_def stamp_seconds_def stamp_millis_def)+

lemma given_time_ok [simp, call_simps]: "given_delta t \<Longrightarrow> t \<noteq> Plain PNone \<Longrightarrow> encodable (delta_seconds t)"
    "given_delta t \<Longrightarrow> t \<noteq> Plain PNone \<Longrightarrow> encodable (delta_millis t)"
    "given_stamp u \<Longrightarrow> u \<noteq> PlainAt PNone \<Longrightarrow> encodable (stamp_seconds u)"
    "given_stamp u \<Longrightarrow> u \<noteq> PlainAt PNone \<Longrightarrow> encodable (stamp_millis u)"
  by (simp_all add: given_delta_def given_stamp_def)

lemma optional_given [simp, call_simps]: "optional v \<Longrightarrow> v \<noteq> PNone \<Longrightarrow> encodable v"
  by (simp add: optional_def)

lemma optional_truthy [call_simps]: "optional v \<Longrightarrow> truthy v \<Longrightarrow> encodable v"
  by (auto simp: optional_def)

text \<open>The keys that a single key or an iterable of keys stands for.\<close>

definition keys_list :: "pyval \<Rightarrow> pyval list" where
  "keys_list k = list_or_args k []"

lemma list_or_args_split [call_simps]: "list_or_args k args = keys_list k @ args"
  by (simp add: keys_list_def list_or_args_def split: pyval.splits)

lemma int_piece_ok: "int_piece w n m v = Inr ps \<Longrightarrow> list_all encodable ps"
  by (auto simp: int_piece_def split: if_splits)

section \<open>How far a float is from the number\<close>

lemma bit_length_bounds:
  assumes "0 < n"
  shows "2 ^ (bit_length n - 1) \<le> n \<and> n < 2 ^ bit_length n \<and> 0 < bit_length n"
  using assms
proof (induction n rule: bit_length.induct)
  case (1 n)
  show ?case
  proof (cases "n = 1")
    case True
    then show ?thesis by (simp add: bit_length.simps)
  next
    case False
    define m k where "m = n div 2" and "k = bit_length (n div 2)"
    have pos: "0 < n div 2" using 1(2) False by auto
    then have IH: "2 ^ (k - 1) \<le> m" "m < 2 ^ k" "0 < k"
      using 1 unfolding m_def k_def by auto
    have b: "bit_length n = Suc k" using 1(2) by (subst bit_length.simps) (simp add: k_def)
    have "2 * m \<le> n" "n < 2 * m + 2" unfolding m_def by auto
    moreover have "(2::int) ^ k = 2 * 2 ^ (k - 1)" using IH(3) by (cases k) auto
    ultimately show ?thesis using IH unfolding b by simp
  qed
qed

lemma pow2_pos [simp]: "0 < pow2 e"
  by (simp add: pow2_def)

lemma pow2_add: "pow2 (a + b) = pow2 a * pow2 b"
  by (auto simp: pow2_def nat_add_distrib power_add field_simps simp flip: power_add nat_add_distrib)


lemma pow2_nonneg [simp]: "0 \<le> pow2 e"
  using pow2_pos [of e] by linarith

lemma pow2_not_0 [simp]: "pow2 e \<noteq> 0"
  using pow2_pos [of e] by linarith

lemma pow2_nat: "pow2 (int n) = 2 ^ n"
  by (simp add: pow2_def)

lemma pow2_minus: "pow2 (- e) = 1 / pow2 e"
  by (auto simp: pow2_def)

lemma pow2_diff: "pow2 (a - b) = pow2 a / pow2 b"
  using pow2_add [of a "- b"] by (simp add: pow2_minus)

lemma round_half_even_error: "\<bar>of_int (round_half_even q) - q\<bar> \<le> 1 / 2"
proof -
  have "of_int \<lfloor>q\<rfloor> \<le> q" "q < of_int \<lfloor>q\<rfloor> + 1" by linarith+
  then show ?thesis by (auto simp: round_half_even_def Let_def)
qed

lemma round_half_even_int [simp]: "round_half_even (of_int n) = n"
  by (simp add: round_half_even_def Let_def)

lemma float_exponent_lower:
  assumes "0 < q"
  shows "2 ^ 52 \<le> q / pow2 (float_exponent q)"
proof -
  obtain n d where nd: "quotient_of q = (n, d)" by force
  have d: "0 < d" using quotient_of_denom_pos [OF nd] .
  have q: "q = of_int n / of_int d" using quotient_of_div [OF nd] .
  have n: "0 < n" using assms d unfolding q by (simp add: zero_less_divide_iff)
  let ?a = "bit_length n" and ?b = "bit_length d"
  let ?e = "int ?a - int ?b - 53"
  have bn: "2 ^ (?a - 1) \<le> n" "0 < ?a" using bit_length_bounds [OF n] by auto
  have bd: "d < 2 ^ ?b" using bit_length_bounds [OF d] by auto
  have "(of_int (2 ^ (?a - 1)) :: rat) \<le> of_int n" using bn(1) by (simp only: of_int_le_iff)
  then have n1: "pow2 (int ?a - 1) \<le> of_int n" using bn(2) pow2_nat [of "?a - 1"] by (simp add: of_nat_diff)
  have "(of_int d :: rat) \<le> of_int (2 ^ ?b)" using bd by (simp only: of_int_le_iff)
  then have d1: "of_int d \<le> pow2 (int ?b)" by (simp add: pow2_nat)
  have "pow2 (int ?a - 1 - int ?b) \<le> q"
    unfolding q pow2_diff [of "int ?a - 1"] using n n1 d1 d by (intro frac_le) auto
  moreover have "pow2 (int ?a - 1 - int ?b) = 2 ^ 52 * pow2 ?e"
  proof -
    have "int ?a - 1 - int ?b = 52 + ?e" by simp
    then show ?thesis by (simp only: pow2_add) (simp add: pow2_def [of 52])
  qed
  ultimately have lo: "2 ^ 52 * pow2 ?e \<le> q" by simp
  show ?thesis
  proof (cases "q < pow2 (?e + 53)")
    case True
    then have e: "float_exponent q = ?e" by (simp add: float_exponent_def nd Let_def)
    show ?thesis unfolding e pos_le_divide_eq [OF pow2_pos] by (rule lo)
  next
    case False
    then have e: "float_exponent q = ?e + 1" by (simp add: float_exponent_def nd Let_def)
    have "pow2 (?e + 53) = 2 ^ 52 * pow2 (?e + 1)" using pow2_add [of 52 "?e + 1"] by (simp add: pow2_def [of 52] algebra_simps)
    then show ?thesis using False unfolding e pos_le_divide_eq [OF pow2_pos] by linarith
  qed
qed

text \<open>A float differs from the number by at most one part in \<open>2^53\<close>; small integers are exact.\<close>

lemma float64_error: "\<bar>float64 q - q\<bar> \<le> \<bar>q\<bar> / 2 ^ 53"
proof (cases "q = 0")
  case True
  then show ?thesis by (simp add: float64_def)
next
  case False
  let ?p = "pow2 (float_exponent \<bar>q\<bar>)"
  let ?x = "\<bar>q\<bar> / ?p"
  have x: "2 ^ 52 \<le> ?x" using float_exponent_lower [of "\<bar>q\<bar>"] False by simp
  have "\<bar>float64 q - q\<bar> = \<bar>of_int (round_half_even ?x) * ?p - \<bar>q\<bar>\<bar>"
    using False by (cases "q < 0") (auto simp: float64_def Let_def)
  also have "\<dots> = \<bar>of_int (round_half_even ?x) - ?x\<bar> * ?p" by (simp add: abs_mult_pos flip: left_diff_distrib) (simp add: left_diff_distrib)
  also have "\<dots> \<le> 1 / 2 * ?p" using round_half_even_error [of ?x] by (intro mult_right_mono) auto
  also have "\<dots> \<le> \<bar>q\<bar> / 2 ^ 53" using x by (simp add: field_simps)
  finally show ?thesis .
qed

lemma float64_int:
  assumes "\<bar>n\<bar> < 2 ^ 53"
  shows "float64 (of_int n) = of_int n"
proof (cases "n = 0")
  case True
  then show ?thesis by (simp add: float64_def)
next
  case False
  define e where "e = float_exponent \<bar>of_int n\<bar>"
  have x: "2 ^ 52 \<le> \<bar>of_int n\<bar> / pow2 e" using float_exponent_lower [of "\<bar>of_int n\<bar>"] False unfolding e_def by simp
  have "e \<le> 0"
  proof (rule ccontr)
    assume "\<not> e \<le> 0"
    then have "2 ^ 1 \<le> (2 :: rat) ^ nat e" by (intro power_increasing) auto
    then have "2 \<le> pow2 e" using \<open>\<not> e \<le> 0\<close> by (simp add: pow2_def)
    then have "2 ^ 52 * 2 \<le> (2 ^ 52 :: rat) * pow2 e" by simp
    also have "\<dots> \<le> \<bar>of_int n\<bar>" using x by (simp add: field_simps)
    finally have "of_int (2 ^ 53) \<le> (of_int \<bar>n\<bar> :: rat)" by simp
    then show False using assms by (simp only: of_int_le_iff)
  qed
  then have "\<bar>of_int n :: rat\<bar> / pow2 e = of_int (\<bar>n\<bar> * 2 ^ nat (- e))" by (auto simp: pow2_def)
  then have "of_int (round_half_even (\<bar>of_int n\<bar> / pow2 e)) * pow2 e = \<bar>of_int n\<bar>"
    by (simp only: round_half_even_int) (use \<open>e \<le> 0\<close> in \<open>auto simp: pow2_def\<close>)
  then show ?thesis using False unfolding float64_def Let_def e_def by (simp add: sgn_mult_abs)
qed

section \<open>Times that are sent\<close>

lemma total_seconds_error: "0 \<le> us \<Longrightarrow> \<bar>total_seconds us - of_int us / 1000000\<bar> \<le> of_int us / 1000000 / 2 ^ 53"
  using float64_error [of "of_int us / 1000000"] by (simp add: total_seconds_def)

lemma div_bounds:
  assumes "0 < (k::int)"
  shows "of_int (us div k) \<le> (of_int us / of_int k :: rat)" "(of_int us / of_int k :: rat) + 1 / of_int k \<le> of_int (us div k) + 1"
proof -
  have a: "k * (us div k) \<le> us" using mult_div_mod_eq [of k us] pos_mod_sign [OF assms, of us] by linarith
  have b: "us + 1 \<le> k * (us div k) + k"
    using pos_mod_bound [OF assms, of us] mult_div_mod_eq [of k us] by linarith
  have "of_int (k * (us div k)) \<le> (of_int us :: rat)" using a by (simp only: of_int_le_iff)
  then show "of_int (us div k) \<le> (of_int us / of_int k :: rat)" using assms by (simp add: field_simps)
  have "of_int (us + 1) \<le> (of_int (k * (us div k) + k) :: rat)" using b by (simp only: of_int_le_iff)
  then show "(of_int us / of_int k :: rat) + 1 / of_int k \<le> of_int (us div k) + 1" using assms by (simp add: field_simps)
qed

lemma trunc_within:
  assumes "of_int m - 1 \<le> q" "0 \<le> q" "q < of_int m + 1"
  shows "m - 1 \<le> trunc q \<and> trunc q \<le> m"
  using assms by (auto simp: trunc_def floor_le_iff le_floor_iff)

lemma trunc_exact: "of_int m \<le> q \<Longrightarrow> q < of_int m + 1 \<Longrightarrow> 0 \<le> m \<Longrightarrow> trunc q = m"
  by (auto simp: trunc_def floor_eq_iff)

lemma trunc_int [simp]: "trunc (of_int n) = n"
  by (simp add: trunc_def)

lemma seconds_of_whole:
  assumes "\<bar>s\<bar> < 2 ^ 53"
  shows "total_seconds (1000000 * s) = of_int s" "seconds_of (1000000 * s) = s"
proof -
  show t: "total_seconds (1000000 * s) = of_int s" using float64_int [OF assms] by (simp add: total_seconds_def)
  show "seconds_of (1000000 * s) = s" by (simp add: seconds_of_def t trunc_def)
qed

lemma millis_of_whole:
  assumes "\<bar>1000 * s\<bar> < 2 ^ 53"
  shows "millis_of (1000000 * s) = 1000 * s"
proof -
  have "total_seconds (1000000 * s) * 1000 = of_int (1000 * s)" using seconds_of_whole(1) [of s] assms by simp
  then show ?thesis unfolding millis_of_def by (simp only: float64_int [OF assms] trunc_int)
qed

text \<open>the number of milliseconds that a \<open>timedelta\<close> is sent as is its number of whole milliseconds, or one less
  (below \<open>2^40\<close> milliseconds); of whole seconds nothing is lost.\<close>

theorem timedelta_millis:
  assumes "0 \<le> us" "us < 2 ^ 40 * 1000"
  shows "us div 1000 - 1 \<le> millis_of us \<and> millis_of us \<le> us div 1000 \<and> (us mod 1000000 = 0 \<longrightarrow> millis_of us = us div 1000)"
proof -
  define x where "x = (of_int us :: rat) / 1000000"
  define y where "y = total_seconds us * 1000"
  have x0: "0 \<le> x" "x * 1000 < 2 ^ 40" using assms by (simp_all add: x_def)
  have e1: "\<bar>total_seconds us - x\<bar> \<le> x / 2 ^ 53" using total_seconds_error [OF assms(1)] by (simp add: x_def)
  have "x / 2 ^ 53 \<le> x" using x0(1) by (simp add: divide_le_eq)
  then have t: "0 \<le> total_seconds us" using abs_le_D2 [OF e1] by linarith
  have e2: "\<bar>float64 y - y\<bar> \<le> y / 2 ^ 53" using float64_error [of y] t by (simp add: y_def)
  have "y - x * 1000 = (total_seconds us - x) * 1000" by (simp add: y_def left_diff_distrib)
  then have "\<bar>y - x * 1000\<bar> = \<bar>total_seconds us - x\<bar> * 1000" by (simp only: abs_mult abs_numeral)
  then have "\<bar>y - x * 1000\<bar> \<le> x * 1000 / 2 ^ 53" using mult_right_mono [OF e1, of 1000] by simp
  moreover have "x * 1000 / 2 ^ 53 < 1 / 4000" using x0(2) by simp
  ultimately have y1: "\<bar>y - x * 1000\<bar> < 1 / 4000" by linarith
  have "y - x * 1000 < 1" using y1 by linarith
  then have "y < 2 ^ 41" using x0(2) by simp
  moreover have "0 \<le> y" using t by (simp add: y_def)
  ultimately have y: "0 \<le> y" "y < 2 ^ 41" by simp_all
  have "y / 2 ^ 53 < 1 / 4000" using y(2) by simp
  then have "\<bar>float64 y - y\<bar> < 1 / 4000" using e2 by linarith
  then have d: "\<bar>float64 y - x * 1000\<bar> < 1 / 2000" using y1 by linarith
  have "y / 2 ^ 53 \<le> y" using y(1) by (simp add: divide_le_eq)
  then have f0: "0 \<le> float64 y" using abs_le_D2 [OF e2] by linarith
  have "x * 1000 = of_int us / of_int 1000" by (simp add: x_def)
  then have "of_int (us div 1000) \<le> x * 1000" "x * 1000 + 1 / 1000 \<le> of_int (us div 1000) + 1" using div_bounds [of 1000 us] by simp_all
  then have "of_int (us div 1000) - 1 \<le> float64 y" "float64 y < of_int (us div 1000) + 1" using d by linarith+
  from trunc_within [OF this(1) f0 this(2)] have r: "us div 1000 - 1 \<le> millis_of us \<and> millis_of us \<le> us div 1000"
    by (simp add: millis_of_def y_def)
  have "millis_of us = us div 1000" if m: "us mod 1000000 = 0"
  proof -
    obtain s where s: "us = 1000000 * s" using m by auto
    then have "\<bar>1000 * s\<bar> < 2 ^ 53" using assms by simp
    then show ?thesis using millis_of_whole [of s] s by simp
  qed
  then show ?thesis using r by blast
qed

theorem timedelta_millis_witness: "millis_of 1500000 \<in> {1499, 1500} \<and> millis_of 7000000 = 7000"
  using timedelta_millis [of 1500000] timedelta_millis [of 7000000] by auto

text \<open>a \<open>timedelta\<close> of 1001 milliseconds is sent as 1000: the product of the float is below the number.\<close>

theorem timedelta_loses_millisecond: "millis_of 1001000 = 1000"
  by code_simp

text \<open>the number of seconds that a \<open>timedelta\<close> is sent as is its number of whole seconds.\<close>

theorem timedelta_seconds:
  assumes "0 \<le> us" "us < 2 ^ 32 * 1000000"
  shows "seconds_of us = us div 1000000"
proof -
  define x where "x = (of_int us :: rat) / 1000000"
  have x0: "0 \<le> x" "x < 2 ^ 32" using assms by (simp_all add: x_def)
  have e1: "\<bar>total_seconds us - x\<bar> \<le> x / 2 ^ 53" using total_seconds_error [OF assms(1)] by (simp add: x_def)
  show ?thesis
  proof (cases "us mod 1000000 = 0")
    case True
    then obtain s where s: "us = 1000000 * s" by auto
    then have "\<bar>s\<bar> < 2 ^ 53" using assms by simp
    then show ?thesis using seconds_of_whole(2) [of s] s by simp
  next
    case False
    let ?d = "us div 1000000"
    have "us \<ge> 1000000 * ?d + 1" using False mult_div_mod_eq [of 1000000 us] pos_mod_sign [of 1000000 us] by linarith
    then have "of_int (1000000 * ?d + 1) \<le> (of_int us :: rat)" by (simp only: of_int_le_iff)
    then have lo: "of_int ?d + 1 / 1000000 \<le> x" by (simp add: x_def)
    have hi: "x + 1 / 1000000 \<le> of_int ?d + 1" using div_bounds(2) [of 1000000 us] by (simp add: x_def)
    have "\<bar>total_seconds us - x\<bar> < 1 / 1000000" using e1 x0 by (simp add: abs_le_iff)
    then have "of_int ?d \<le> total_seconds us" "total_seconds us < of_int ?d + 1" using lo hi by linarith+
    then show ?thesis using assms(1) by (simp add: seconds_of_def trunc_exact)
  qed
qed

theorem timedelta_seconds_witness: "seconds_of 2999999 = 2"
  using timedelta_seconds [of 2999999] by simp

end
