(* ===== verification/KeyCommands.thy ===== *)
theory KeyCommands
  imports CommandCall
begin

text \<open>
  The commands on keys and strings, on bits, and HyperLogLog: the calls that the methods of \<open>redis/commands/core.py\<close> make.
\<close>

section \<open>\<open>BasicKeyCommands\<close>\<close>

definition append_call :: "pyval \<Rightarrow> pyval \<Rightarrow> call" where
  "append_call key value =
     call [PStr ''APPEND'', key, value] []"

definition bitcount_call :: "pyval \<Rightarrow> pyval \<Rightarrow> pyval \<Rightarrow> pyval \<Rightarrow> exc + call" where
  "bitcount_call key start stop mode =
     bindE (if start \<noteq> PNone \<and> stop \<noteq> PNone then Inr [start, stop]
            else if (start \<noteq> PNone \<and> stop = PNone) \<or> (stop \<noteq> PNone \<and> start = PNone)
              then Inl (Exc DataError ''Both start and end must be specified'')
            else Inr [])
       (\<lambda>range. Inr (call ([PStr ''BITCOUNT'', key] @ range @ (if mode \<noteq> PNone then [mode] else [])) [(''keys'', PList [key])]))"

text \<open>\<open>BitFieldOperation\<close>: operations are collected, OVERFLOW only where it changes.\<close>

record bitfield =
  bf_key :: pyval
  bf_default_overflow :: string
  bf_operations :: "pyval list list"
  bf_last_overflow :: string

definition bf_overflow :: "string \<Rightarrow> bitfield \<Rightarrow> bitfield" where
  "bf_overflow overflow b =
     (if upper overflow \<noteq> bf_last_overflow b
      then b\<lparr>bf_last_overflow := upper overflow, bf_operations := bf_operations b @ [[PStr ''OVERFLOW'', PStr (upper overflow)]]\<rparr>
      else b)"

text \<open>No default is the empty string, which is false like \<open>None\<close>.\<close>

definition bf_reset :: "bitfield \<Rightarrow> bitfield" where
  "bf_reset b =
     bf_overflow (if bf_default_overflow b \<noteq> [] then bf_default_overflow b else ''WRAP'')
       (b\<lparr>bf_operations := [], bf_last_overflow := ''WRAP''\<rparr>)"

definition bitfield_operation :: "pyval \<Rightarrow> string \<Rightarrow> bitfield" where
  "bitfield_operation key default_overflow =
     bf_reset \<lparr>bf_key = key, bf_default_overflow = default_overflow, bf_operations = [], bf_last_overflow = ''WRAP''\<rparr>"

definition bf_add :: "pyval list \<Rightarrow> bitfield \<Rightarrow> bitfield" where
  "bf_add op b = b\<lparr>bf_operations := bf_operations b @ [op]\<rparr>"

definition bf_incrby :: "pyval \<Rightarrow> pyval \<Rightarrow> pyval \<Rightarrow> string option \<Rightarrow> bitfield \<Rightarrow> bitfield" where
  "bf_incrby fmt offset increment overflow b =
     bf_add [PStr ''INCRBY'', fmt, offset, increment] (case overflow of None \<Rightarrow> b | Some f \<Rightarrow> bf_overflow f b)"

definition bf_get :: "pyval \<Rightarrow> pyval \<Rightarrow> bitfield \<Rightarrow> bitfield" where
  "bf_get fmt offset = bf_add [PStr ''GET'', fmt, offset]"

definition bf_set :: "pyval \<Rightarrow> pyval \<Rightarrow> pyval \<Rightarrow> bitfield \<Rightarrow> bitfield" where
  "bf_set fmt offset value = bf_add [PStr ''SET'', fmt, offset, value]"

definition bf_command :: "bitfield \<Rightarrow> pyval list" where
  "bf_command b = [PStr ''BITFIELD'', bf_key b] @ concat (bf_operations b)"

definition bf_execute :: "bitfield \<Rightarrow> call \<times> bitfield" where
  "bf_execute b = (call (bf_command b) [], bf_reset b)"

definition bitfield_ro_call :: "pyval \<Rightarrow> pyval \<Rightarrow> pyval \<Rightarrow> (pyval \<times> pyval) list \<Rightarrow> call" where
  "bitfield_ro_call key encoding offset items =
     call ([PStr ''BITFIELD_RO'', key, PStr ''GET'', encoding, offset] @ concat (map (\<lambda>(e, f). [PStr ''GET'', e, f]) items))
       [(''keys'', PList [key])]"

definition bitop_call :: "pyval \<Rightarrow> pyval \<Rightarrow> pyval list \<Rightarrow> call" where
  "bitop_call operation dest keys =
     call ([PStr ''BITOP'', operation, dest] @ keys) []"

definition bitpos_call :: "pyval \<Rightarrow> pyval \<Rightarrow> pyval \<Rightarrow> pyval \<Rightarrow> pyval \<Rightarrow> exc + call" where
  "bitpos_call key bit_arg start stop mode =
     (if \<not> py_key_eq bit_arg (PInt 0) \<and> \<not> py_key_eq bit_arg (PInt 1) then Inl (Exc DataError ''bit must be 0 or 1'')
      else bindE (if start \<noteq> PNone \<and> stop \<noteq> PNone then Inr [stop]
                  else if start = PNone \<and> stop \<noteq> PNone then Inl (Exc DataError ''start argument is not set, when end is specified'')
                  else Inr [])
        (\<lambda>last. Inr (call ([PStr ''BITPOS'', key, bit_arg] @ (if start \<noteq> PNone then [start] else []) @ last @
           (if mode \<noteq> PNone then [mode] else [])) [(''keys'', PList [key])])))"

definition copy_call :: "pyval \<Rightarrow> pyval \<Rightarrow> pyval \<Rightarrow> bool \<Rightarrow> call" where
  "copy_call source destination destination_db replace_flag =
     call ([PStr ''COPY''] @ [source, destination] @ (if destination_db \<noteq> PNone then [PStr ''DB'', destination_db] else []) @
        (if replace_flag then [PStr ''REPLACE''] else [])) []"

definition decrby_call :: "pyval \<Rightarrow> pyval \<Rightarrow> call" where
  "decrby_call name amount =
     call [PStr ''DECRBY'', name, amount] []"

definition delete_call :: "pyval list \<Rightarrow> call" where
  "delete_call names =
     call ([PStr ''DEL''] @ names) []"

definition dump_call :: "pyval \<Rightarrow> call" where
  "dump_call name =
     call [PStr ''DUMP'', name] [(''NEVER_DECODE'', PList [])]"

definition exists_call :: "pyval list \<Rightarrow> call" where
  "exists_call names =
     call ([PStr ''EXISTS''] @ names) [(''keys'', PTuple names)]"

definition expire_call :: "pyval \<Rightarrow> delta_arg \<Rightarrow> bool \<Rightarrow> bool \<Rightarrow> bool \<Rightarrow> bool \<Rightarrow> call" where
  "expire_call name time_arg nx xx gt lt =
     call ([PStr ''EXPIRE'', name, delta_seconds time_arg] @ (if nx then [PStr ''NX''] else []) @ (if xx then [PStr ''XX''] else []) @
        (if gt then [PStr ''GT''] else []) @ (if lt then [PStr ''LT''] else [])) []"

definition expireat_call :: "pyval \<Rightarrow> stamp_arg \<Rightarrow> bool \<Rightarrow> bool \<Rightarrow> bool \<Rightarrow> bool \<Rightarrow> call" where
  "expireat_call name when nx xx gt lt =
     call ([PStr ''EXPIREAT'', name, stamp_seconds when] @ (if nx then [PStr ''NX''] else []) @ (if xx then [PStr ''XX''] else []) @
        (if gt then [PStr ''GT''] else []) @ (if lt then [PStr ''LT''] else [])) []"

definition expiretime_call :: "pyval \<Rightarrow> call" where
  "expiretime_call key =
     call [PStr ''EXPIRETIME'', key] []"

definition get_call :: "pyval \<Rightarrow> call" where
  "get_call name =
     call [PStr ''GET'', name] [(''keys'', PList [name])]"

definition getdel_call :: "pyval \<Rightarrow> call" where
  "getdel_call name =
     call [PStr ''GETDEL'', name] []"

text \<open>The set of the four time arguments: equal ones are one element.\<close>

datatype time_value = TPlain pyval | TDelta int | TStamp int

definition delta_value :: "delta_arg \<Rightarrow> time_value" where
  "delta_value t = (case t of Plain v \<Rightarrow> TPlain (num_key v) | Delta us \<Rightarrow> TDelta us)"

definition stamp_value :: "stamp_arg \<Rightarrow> time_value" where
  "stamp_value t = (case t of PlainAt v \<Rightarrow> TPlain (num_key v) | Stamp us \<Rightarrow> TStamp us)"

definition getex_call :: "pyval \<Rightarrow> delta_arg \<Rightarrow> delta_arg \<Rightarrow> stamp_arg \<Rightarrow> stamp_arg \<Rightarrow> bool \<Rightarrow> exc + call" where
  "getex_call name ex px exat pxat persist =
     (let opset = remdups [delta_value ex, delta_value px, stamp_value exat, stamp_value pxat]
      in if length opset > 2 \<or> (length opset > 1 \<and> persist)
         then Inl (Exc DataError ''``ex``, ``px``, ``exat``, ``pxat``, and ``persist`` are mutually exclusive.'')
         else Inr (call ([PStr ''GETEX'', name] @ (if ex \<noteq> Plain PNone then [PStr ''EX'', delta_seconds ex] else []) @
           (if px \<noteq> Plain PNone then [PStr ''PX'', delta_millis px] else []) @
           (if exat \<noteq> PlainAt PNone then [PStr ''EXAT'', stamp_seconds exat] else []) @
           (if pxat \<noteq> PlainAt PNone then [PStr ''PXAT'', stamp_millis pxat] else []) @
           (if persist then [PStr ''PERSIST''] else [])) []))"

definition getbit_call :: "pyval \<Rightarrow> pyval \<Rightarrow> call" where
  "getbit_call name offset =
     call [PStr ''GETBIT'', name, offset] [(''keys'', PList [name])]"

definition getrange_call :: "pyval \<Rightarrow> pyval \<Rightarrow> pyval \<Rightarrow> call" where
  "getrange_call key start stop =
     call [PStr ''GETRANGE'', key, start, stop] [(''keys'', PList [key])]"

definition getset_call :: "pyval \<Rightarrow> pyval \<Rightarrow> call" where
  "getset_call name value =
     call [PStr ''GETSET'', name, value] []"

definition incrby_call :: "pyval \<Rightarrow> pyval \<Rightarrow> call" where
  "incrby_call name amount =
     call [PStr ''INCRBY'', name, amount] []"

definition incrbyfloat_call :: "pyval \<Rightarrow> pyval \<Rightarrow> call" where
  "incrbyfloat_call name amount =
     call [PStr ''INCRBYFLOAT'', name, amount] []"

definition keys_call :: "pyval \<Rightarrow> kwargs \<Rightarrow> call" where
  "keys_call pattern kw =
     call [PStr ''KEYS'', pattern] kw"

definition lmove_call :: "pyval \<Rightarrow> pyval \<Rightarrow> pyval \<Rightarrow> pyval \<Rightarrow> call" where
  "lmove_call first_list second_list src dest =
     call ([PStr ''LMOVE''] @ [first_list, second_list, src, dest]) []"

definition blmove_call :: "pyval \<Rightarrow> pyval \<Rightarrow> pyval \<Rightarrow> pyval \<Rightarrow> pyval \<Rightarrow> call" where
  "blmove_call first_list second_list timeout src dest =
     call ([PStr ''BLMOVE''] @ [first_list, second_list, src, dest, timeout]) []"

definition mget_call :: "pyval \<Rightarrow> pyval list \<Rightarrow> call" where
  "mget_call keys args =
     (let args = list_or_args keys args
      in call ([PStr ''MGET''] @ args) ((if args = [] then [(''EMPTY_RESPONSE'', PList [])] else []) @ [(''keys'', PList args)]))"

definition mset_call :: "(pyval \<times> pyval) list \<Rightarrow> call" where
  "mset_call mapping =
     call ([PStr ''MSET''] @ flat_pairs mapping) []"

definition msetnx_call :: "(pyval \<times> pyval) list \<Rightarrow> call" where
  "msetnx_call mapping =
     call ([PStr ''MSETNX''] @ flat_pairs mapping) []"

definition move_call :: "pyval \<Rightarrow> pyval \<Rightarrow> call" where
  "move_call name db =
     call [PStr ''MOVE'', name, db] []"

definition persist_call :: "pyval \<Rightarrow> call" where
  "persist_call name =
     call [PStr ''PERSIST'', name] []"

definition pexpire_call :: "pyval \<Rightarrow> delta_arg \<Rightarrow> bool \<Rightarrow> bool \<Rightarrow> bool \<Rightarrow> bool \<Rightarrow> call" where
  "pexpire_call name time_arg nx xx gt lt =
     call ([PStr ''PEXPIRE'', name, delta_millis time_arg] @ (if nx then [PStr ''NX''] else []) @ (if xx then [PStr ''XX''] else []) @
        (if gt then [PStr ''GT''] else []) @ (if lt then [PStr ''LT''] else [])) []"

definition pexpireat_call :: "pyval \<Rightarrow> stamp_arg \<Rightarrow> bool \<Rightarrow> bool \<Rightarrow> bool \<Rightarrow> bool \<Rightarrow> call" where
  "pexpireat_call name when nx xx gt lt =
     call ([PStr ''PEXPIREAT'', name, stamp_millis when] @ (if nx then [PStr ''NX''] else []) @ (if xx then [PStr ''XX''] else []) @
        (if gt then [PStr ''GT''] else []) @ (if lt then [PStr ''LT''] else [])) []"

definition pexpiretime_call :: "pyval \<Rightarrow> call" where
  "pexpiretime_call key =
     call [PStr ''PEXPIRETIME'', key] []"

definition psetex_call :: "pyval \<Rightarrow> delta_arg \<Rightarrow> pyval \<Rightarrow> call" where
  "psetex_call name time_ms value =
     call [PStr ''PSETEX'', name, delta_millis time_ms, value] []"

definition pttl_call :: "pyval \<Rightarrow> call" where
  "pttl_call name =
     call [PStr ''PTTL'', name] []"

definition hrandfield_call :: "pyval \<Rightarrow> pyval \<Rightarrow> bool \<Rightarrow> call" where
  "hrandfield_call key count_arg withvalues =
     call ([PStr ''HRANDFIELD'', key] @ (if count_arg \<noteq> PNone then [count_arg] else []) @ (if withvalues then [PStr ''WITHVALUES''] else [])) []"

definition randomkey_call :: "kwargs \<Rightarrow> call" where
  "randomkey_call kw =
     call [PStr ''RANDOMKEY''] kw"

definition rename_call :: "pyval \<Rightarrow> pyval \<Rightarrow> call" where
  "rename_call src dst =
     call [PStr ''RENAME'', src, dst] []"

definition renamenx_call :: "pyval \<Rightarrow> pyval \<Rightarrow> call" where
  "renamenx_call src dst =
     call [PStr ''RENAMENX'', src, dst] []"

text \<open>\<open>int(v)\<close> whose ValueError becomes a DataError.\<close>

definition int_or_data_error :: "string \<Rightarrow> pyval \<Rightarrow> exc + int" where
  "int_or_data_error msg v =
     (case to_int v of Inr n \<Rightarrow> Inr n | Inl e \<Rightarrow> Inl (if isinstance e ValueError then data_error msg else e))"

definition restore_call :: "pyval \<Rightarrow> pyval \<Rightarrow> pyval \<Rightarrow> bool \<Rightarrow> bool \<Rightarrow> pyval \<Rightarrow> pyval \<Rightarrow> exc + call" where
  "restore_call name ttl value replace_flag absttl idletime frequency =
     bindE (if idletime \<noteq> PNone then bindE (int_or_data_error ''idletimemust be an integer'' idletime) (\<lambda>n. Inr [PStr ''IDLETIME'', PInt n])
            else Inr []) (\<lambda>idle.
     bindE (if frequency \<noteq> PNone then bindE (int_or_data_error ''frequency must be an integer'' frequency) (\<lambda>n. Inr [PStr ''FREQ'', PInt n])
            else Inr []) (\<lambda>freq.
       Inr (call ([PStr ''RESTORE'', name, ttl, value] @ (if replace_flag then [PStr ''REPLACE''] else []) @
         (if absttl then [PStr ''ABSTTL''] else []) @ idle @ freq) [])))"

text \<open>\<open>ex\<close> may be the text of a number, \<open>px\<close> may not.\<close>

definition ex_piece :: "delta_arg \<Rightarrow> exc + pyval list" where
  "ex_piece ex =
     (case ex of
        Plain PNone \<Rightarrow> Inr []
      | Delta us \<Rightarrow> Inr [PStr ''EX'', PInt (seconds_of us)]
      | Plain v \<Rightarrow>
          if is_int v then Inr [PStr ''EX'', v]
          else (case v of
             PStr s \<Rightarrow> if s \<noteq> [] \<and> list_all is_digit s then Inr [PStr ''EX'', PInt (int (the (digits_val s)))]
                else Inl (Exc DataError ''ex must be datetime.timedelta or int'')
           | _ \<Rightarrow> Inl (Exc DataError ''ex must be datetime.timedelta or int'')))"

definition px_piece :: "delta_arg \<Rightarrow> exc + pyval list" where
  "px_piece px =
     (case px of
        Plain PNone \<Rightarrow> Inr []
      | Delta us \<Rightarrow> Inr [PStr ''PX'', PInt (millis_of us)]
      | Plain v \<Rightarrow> if is_int v then Inr [PStr ''PX'', v] else Inl (Exc DataError ''px must be datetime.timedelta or int''))"

definition set_call :: "pyval \<Rightarrow> pyval \<Rightarrow> delta_arg \<Rightarrow> delta_arg \<Rightarrow> bool \<Rightarrow> bool \<Rightarrow> bool \<Rightarrow> bool \<Rightarrow> stamp_arg \<Rightarrow> stamp_arg \<Rightarrow> exc + call" where
  "set_call name value ex px nx xx keepttl get_flag exat pxat =
     bindE (ex_piece ex) (\<lambda>ex_args. bindE (px_piece px) (\<lambda>px_args.
       Inr (call ([PStr ''SET'', name, value] @ ex_args @ px_args @
         (if exat \<noteq> PlainAt PNone then [PStr ''EXAT'', stamp_seconds exat] else []) @
         (if pxat \<noteq> PlainAt PNone then [PStr ''PXAT'', stamp_millis pxat] else []) @
         (if keepttl then [PStr ''KEEPTTL''] else []) @ (if nx then [PStr ''NX''] else []) @ (if xx then [PStr ''XX''] else []) @
         (if get_flag then [PStr ''GET''] else [])) (if get_flag then [(''get'', PBool True)] else []))))"

definition setbit_call :: "pyval \<Rightarrow> pyval \<Rightarrow> pyval \<Rightarrow> call" where
  "setbit_call name offset value = call [PStr ''SETBIT'', name, offset, PInt (if truthy value then 1 else 0)] []"

definition setex_call :: "pyval \<Rightarrow> delta_arg \<Rightarrow> pyval \<Rightarrow> call" where
  "setex_call name time_arg value =
     call [PStr ''SETEX'', name, delta_seconds time_arg, value] []"

definition setnx_call :: "pyval \<Rightarrow> pyval \<Rightarrow> call" where
  "setnx_call name value =
     call [PStr ''SETNX'', name, value] []"

definition setrange_call :: "pyval \<Rightarrow> pyval \<Rightarrow> pyval \<Rightarrow> call" where
  "setrange_call name offset value =
     call [PStr ''SETRANGE'', name, offset, value] []"

definition stralgo_call :: "pyval \<Rightarrow> pyval \<Rightarrow> pyval \<Rightarrow> string \<Rightarrow> bool \<Rightarrow> bool \<Rightarrow> pyval \<Rightarrow> bool \<Rightarrow> kwargs \<Rightarrow> exc + call" where
  "stralgo_call algo value1 value2 specific_argument len_flag idx minmatchlen withmatchlen kw =
     (if algo \<noteq> PStr ''LCS'' then Inl (Exc DataError ''The supported algorithms are: LCS'')
      else if specific_argument \<notin> {''keys'', ''strings''} then Inl (Exc DataError ''specific_argument can be only keys or strings'')
      else if len_flag \<and> idx then Inl (Exc DataError ''len and idx cannot be provided together.'')
      else bindE (case to_int minmatchlen of Inr _ \<Rightarrow> Inr [PBytes ''MINMATCHLEN'', minmatchlen]
                  | Inl e \<Rightarrow> if isinstance e TypeError then Inr [] else Inl e) (\<lambda>minmatch.
        Inr (call ([PStr ''STRALGO'', algo, PStr (upper specific_argument), value1, value2] @ (if len_flag then [PBytes ''LEN''] else []) @
          (if idx then [PBytes ''IDX''] else []) @ minmatch @ (if withmatchlen then [PBytes ''WITHMATCHLEN''] else []))
          ([(''len'', PBool len_flag), (''idx'', PBool idx), (''minmatchlen'', minmatchlen), (''withmatchlen'', PBool withmatchlen)] @ kw))))"

definition strlen_call :: "pyval \<Rightarrow> call" where
  "strlen_call name =
     call [PStr ''STRLEN'', name] [(''keys'', PList [name])]"

definition substr_call :: "pyval \<Rightarrow> pyval \<Rightarrow> pyval \<Rightarrow> call" where
  "substr_call name start stop =
     call [PStr ''SUBSTR'', name, start, stop] [(''keys'', PList [name])]"

definition touch_call :: "pyval list \<Rightarrow> call" where
  "touch_call args =
     call ([PStr ''TOUCH''] @ args) []"

definition ttl_call :: "pyval \<Rightarrow> call" where
  "ttl_call name =
     call [PStr ''TTL'', name] []"

definition type_call :: "pyval \<Rightarrow> call" where
  "type_call name =
     call [PStr ''TYPE'', name] [(''keys'', PList [name])]"

definition unlink_call :: "pyval list \<Rightarrow> call" where
  "unlink_call names =
     call ([PStr ''UNLINK''] @ names) []"

definition lcs_call :: "pyval \<Rightarrow> pyval \<Rightarrow> bool \<Rightarrow> bool \<Rightarrow> pyval \<Rightarrow> bool \<Rightarrow> call" where
  "lcs_call key1 key2 len_flag idx minmatchlen withmatchlen =
     call ([PStr ''LCS''] @ [key1, key2] @ (if len_flag then [PStr ''LEN''] else []) @ (if idx then [PStr ''IDX''] else []) @
        (if \<not> py_key_eq minmatchlen (PInt 0) then [PStr ''MINMATCHLEN'', minmatchlen] else []) @
        (if withmatchlen then [PStr ''WITHMATCHLEN''] else [])) [(''keys'', PList [key1, key2])]"

section \<open>\<open>HyperlogCommands\<close>\<close>

definition pfadd_call :: "pyval \<Rightarrow> pyval list \<Rightarrow> call" where
  "pfadd_call name values =
     call ([PStr ''PFADD'', name] @ values) []"

definition pfcount_call :: "pyval list \<Rightarrow> call" where
  "pfcount_call sources =
     call ([PStr ''PFCOUNT''] @ sources) []"

definition pfmerge_call :: "pyval \<Rightarrow> pyval list \<Rightarrow> call" where
  "pfmerge_call dest sources =
     call ([PStr ''PFMERGE'', dest] @ sources) []"

section \<open>The calls that can be built\<close>

text \<open>Every method with arguments that can be encoded.\<close>

inductive key_call :: "call \<Rightarrow> bool" where
  "encodable key \<Longrightarrow> encodable value \<Longrightarrow> key_call (append_call key value)"
| "encodable key \<Longrightarrow> optional start \<Longrightarrow> optional stop \<Longrightarrow> optional mode \<Longrightarrow>
     bitcount_call key start stop mode = Inr c \<Longrightarrow> key_call c"
| "encodable key \<Longrightarrow> encodable encoding \<Longrightarrow> encodable offset \<Longrightarrow>
     list_all encodable (flat_pairs items) \<Longrightarrow> key_call (bitfield_ro_call key encoding offset items)"
| "encodable operation \<Longrightarrow> encodable dest \<Longrightarrow> list_all encodable keys \<Longrightarrow>
     key_call (bitop_call operation dest keys)"
| "encodable key \<Longrightarrow> encodable bit_arg \<Longrightarrow> optional start \<Longrightarrow> optional stop \<Longrightarrow>
     optional mode \<Longrightarrow> bitpos_call key bit_arg start stop mode = Inr c \<Longrightarrow> key_call c"
| "encodable source \<Longrightarrow> encodable destination \<Longrightarrow> optional destination_db \<Longrightarrow>
     key_call (copy_call source destination destination_db replace_flag)"
| "encodable name \<Longrightarrow> encodable amount \<Longrightarrow> key_call (decrby_call name amount)"
| "list_all encodable names \<Longrightarrow> key_call (delete_call names)"
| "encodable name \<Longrightarrow> key_call (dump_call name)"
| "list_all encodable names \<Longrightarrow> key_call (exists_call names)"
| "encodable name \<Longrightarrow> delta_ok time_arg \<Longrightarrow> key_call (expire_call name time_arg nx xx gt lt)"
| "encodable name \<Longrightarrow> stamp_ok when \<Longrightarrow> key_call (expireat_call name when nx xx gt lt)"
| "encodable key \<Longrightarrow> key_call (expiretime_call key)"
| "encodable name \<Longrightarrow> key_call (get_call name)"
| "encodable name \<Longrightarrow> key_call (getdel_call name)"
| "encodable name \<Longrightarrow> given_delta ex \<Longrightarrow> given_delta px \<Longrightarrow> given_stamp exat \<Longrightarrow>
     given_stamp pxat \<Longrightarrow> getex_call name ex px exat pxat persist = Inr c \<Longrightarrow> key_call c"
| "encodable name \<Longrightarrow> encodable offset \<Longrightarrow> key_call (getbit_call name offset)"
| "encodable key \<Longrightarrow> encodable start \<Longrightarrow> encodable stop \<Longrightarrow> key_call (getrange_call key start stop)"
| "encodable name \<Longrightarrow> encodable value \<Longrightarrow> key_call (getset_call name value)"
| "encodable name \<Longrightarrow> encodable amount \<Longrightarrow> key_call (incrby_call name amount)"
| "encodable name \<Longrightarrow> encodable amount \<Longrightarrow> key_call (incrbyfloat_call name amount)"
| "encodable pattern \<Longrightarrow> key_call (keys_call pattern kw)"
| "encodable first_list \<Longrightarrow> encodable second_list \<Longrightarrow> encodable src \<Longrightarrow> encodable dest \<Longrightarrow>
     key_call (lmove_call first_list second_list src dest)"
| "encodable first_list \<Longrightarrow> encodable second_list \<Longrightarrow> encodable timeout \<Longrightarrow> encodable src \<Longrightarrow>
     encodable dest \<Longrightarrow> key_call (blmove_call first_list second_list timeout src dest)"
| "list_all encodable (list_or_args keys args) \<Longrightarrow> key_call (mget_call keys args)"
| "list_all encodable (flat_pairs mapping) \<Longrightarrow> key_call (mset_call mapping)"
| "list_all encodable (flat_pairs mapping) \<Longrightarrow> key_call (msetnx_call mapping)"
| "encodable name \<Longrightarrow> encodable db \<Longrightarrow> key_call (move_call name db)"
| "encodable name \<Longrightarrow> key_call (persist_call name)"
| "encodable name \<Longrightarrow> delta_ok time_arg \<Longrightarrow> key_call (pexpire_call name time_arg nx xx gt lt)"
| "encodable name \<Longrightarrow> stamp_ok when \<Longrightarrow> key_call (pexpireat_call name when nx xx gt lt)"
| "encodable key \<Longrightarrow> key_call (pexpiretime_call key)"
| "encodable name \<Longrightarrow> delta_ok time_ms \<Longrightarrow> encodable value \<Longrightarrow> key_call (psetex_call name time_ms value)"
| "encodable name \<Longrightarrow> key_call (pttl_call name)"
| "encodable key \<Longrightarrow> optional count_arg \<Longrightarrow> key_call (hrandfield_call key count_arg withvalues)"
| "key_call (randomkey_call kw)"
| "encodable src \<Longrightarrow> encodable dst \<Longrightarrow> key_call (rename_call src dst)"
| "encodable src \<Longrightarrow> encodable dst \<Longrightarrow> key_call (renamenx_call src dst)"
| "encodable name \<Longrightarrow> encodable ttl \<Longrightarrow> encodable value \<Longrightarrow>
     restore_call name ttl value replace_flag absttl idletime frequency = Inr c \<Longrightarrow> key_call c"
| "encodable name \<Longrightarrow> encodable value \<Longrightarrow> given_delta ex \<Longrightarrow> given_delta px \<Longrightarrow>
     given_stamp exat \<Longrightarrow> given_stamp pxat \<Longrightarrow>
     set_call name value ex px nx xx keepttl get_flag exat pxat = Inr c \<Longrightarrow> key_call c"
| "encodable name \<Longrightarrow> encodable offset \<Longrightarrow> key_call (setbit_call name offset value)"
| "encodable name \<Longrightarrow> delta_ok time_arg \<Longrightarrow> encodable value \<Longrightarrow> key_call (setex_call name time_arg value)"
| "encodable name \<Longrightarrow> encodable value \<Longrightarrow> key_call (setnx_call name value)"
| "encodable name \<Longrightarrow> encodable offset \<Longrightarrow> encodable value \<Longrightarrow> key_call (setrange_call name offset value)"
| "encodable algo \<Longrightarrow> encodable value1 \<Longrightarrow> encodable value2 \<Longrightarrow> optional minmatchlen \<Longrightarrow>
     stralgo_call algo value1 value2 specific_argument len_flag idx minmatchlen withmatchlen kw = Inr c \<Longrightarrow> key_call c"
| "encodable name \<Longrightarrow> key_call (strlen_call name)"
| "encodable name \<Longrightarrow> encodable start \<Longrightarrow> encodable stop \<Longrightarrow> key_call (substr_call name start stop)"
| "list_all encodable args \<Longrightarrow> key_call (touch_call args)"
| "encodable name \<Longrightarrow> key_call (ttl_call name)"
| "encodable name \<Longrightarrow> key_call (type_call name)"
| "list_all encodable names \<Longrightarrow> key_call (unlink_call names)"
| "encodable key1 \<Longrightarrow> encodable key2 \<Longrightarrow> encodable minmatchlen \<Longrightarrow>
     key_call (lcs_call key1 key2 len_flag idx minmatchlen withmatchlen)"
| "encodable name \<Longrightarrow> list_all encodable values \<Longrightarrow> key_call (pfadd_call name values)"
| "list_all encodable sources \<Longrightarrow> key_call (pfcount_call sources)"
| "encodable dest \<Longrightarrow> list_all encodable sources \<Longrightarrow> key_call (pfmerge_call dest sources)"

lemmas key_call_defs = append_call_def bitcount_call_def bitfield_ro_call_def bitop_call_def bitpos_call_def copy_call_def decrby_call_def
  delete_call_def dump_call_def exists_call_def expire_call_def expireat_call_def expiretime_call_def get_call_def getdel_call_def
  getex_call_def getbit_call_def getrange_call_def getset_call_def incrby_call_def incrbyfloat_call_def keys_call_def lmove_call_def
  blmove_call_def mget_call_def mset_call_def msetnx_call_def move_call_def persist_call_def pexpire_call_def pexpireat_call_def
  pexpiretime_call_def psetex_call_def pttl_call_def hrandfield_call_def randomkey_call_def rename_call_def renamenx_call_def
  restore_call_def set_call_def setbit_call_def setex_call_def setnx_call_def setrange_call_def stralgo_call_def strlen_call_def
  substr_call_def touch_call_def ttl_call_def type_call_def unlink_call_def lcs_call_def pfadd_call_def pfcount_call_def pfmerge_call_def

end
