(* ===== verification/CollectionCommands.thy ===== *)
theory CollectionCommands
  imports CommandCall
begin

text \<open>
  The commands on lists, sets and hashes, and the scan commands with their iterators (\<open>redis/commands/core.py\<close>).
\<close>

section \<open>\<open>ListCommands\<close>\<close>

definition blpop_call :: "pyval \<Rightarrow> pyval \<Rightarrow> call" where
  "blpop_call keys timeout =
     call ([PStr ''BLPOP''] @ list_or_args keys [] @ [(if timeout = PNone then PInt 0 else timeout)]) []"

definition brpop_call :: "pyval \<Rightarrow> pyval \<Rightarrow> call" where
  "brpop_call keys timeout =
     call ([PStr ''BRPOP''] @ list_or_args keys [] @ [(if timeout = PNone then PInt 0 else timeout)]) []"

definition brpoplpush_call :: "pyval \<Rightarrow> pyval \<Rightarrow> pyval \<Rightarrow> call" where
  "brpoplpush_call src dst timeout =
     call [PStr ''BRPOPLPUSH'', src, dst, (if timeout = PNone then PInt 0 else timeout)] []"

definition blmpop_call :: "pyval \<Rightarrow> pyval \<Rightarrow> pyval list \<Rightarrow> pyval \<Rightarrow> pyval \<Rightarrow> call" where
  "blmpop_call timeout numkeys args direction count_arg =
     call ([PStr ''BLMPOP''] @ [timeout, numkeys] @ args @ [direction, PStr ''COUNT'', count_arg]) []"

definition lmpop_call :: "pyval \<Rightarrow> pyval list \<Rightarrow> pyval \<Rightarrow> pyval \<Rightarrow> call" where
  "lmpop_call num_keys args direction count_arg =
     call ([PStr ''LMPOP''] @ [num_keys] @ args @ [direction] @ (if \<not> py_key_eq count_arg (PInt 1) then [PStr ''COUNT'', count_arg] else [])) []"

definition lindex_call :: "pyval \<Rightarrow> pyval \<Rightarrow> call" where
  "lindex_call name index_arg =
     call [PStr ''LINDEX'', name, index_arg] [(''keys'', PList [name])]"

definition linsert_call :: "pyval \<Rightarrow> pyval \<Rightarrow> pyval \<Rightarrow> pyval \<Rightarrow> call" where
  "linsert_call name where_arg refvalue value =
     call [PStr ''LINSERT'', name, where_arg, refvalue, value] []"

definition llen_call :: "pyval \<Rightarrow> call" where
  "llen_call name =
     call [PStr ''LLEN'', name] [(''keys'', PList [name])]"

definition lpop_call :: "pyval \<Rightarrow> pyval \<Rightarrow> call" where
  "lpop_call name count_arg =
     (if count_arg \<noteq> PNone then call [PStr ''LPOP'', name, count_arg] []
     else call [PStr ''LPOP'', name] [])"

definition lpush_call :: "pyval \<Rightarrow> pyval list \<Rightarrow> call" where
  "lpush_call name values =
     call ([PStr ''LPUSH'', name] @ values) []"

definition lpushx_call :: "pyval \<Rightarrow> pyval list \<Rightarrow> call" where
  "lpushx_call name values =
     call ([PStr ''LPUSHX'', name] @ values) []"

definition lrange_call :: "pyval \<Rightarrow> pyval \<Rightarrow> pyval \<Rightarrow> call" where
  "lrange_call name start stop =
     call [PStr ''LRANGE'', name, start, stop] [(''keys'', PList [name])]"

definition lrem_call :: "pyval \<Rightarrow> pyval \<Rightarrow> pyval \<Rightarrow> call" where
  "lrem_call name count_arg value =
     call [PStr ''LREM'', name, count_arg, value] []"

definition lset_call :: "pyval \<Rightarrow> pyval \<Rightarrow> pyval \<Rightarrow> call" where
  "lset_call name index_arg value =
     call [PStr ''LSET'', name, index_arg, value] []"

definition ltrim_call :: "pyval \<Rightarrow> pyval \<Rightarrow> pyval \<Rightarrow> call" where
  "ltrim_call name start stop =
     call [PStr ''LTRIM'', name, start, stop] []"

definition rpop_call :: "pyval \<Rightarrow> pyval \<Rightarrow> call" where
  "rpop_call name count_arg =
     (if count_arg \<noteq> PNone then call [PStr ''RPOP'', name, count_arg] []
     else call [PStr ''RPOP'', name] [])"

definition rpoplpush_call :: "pyval \<Rightarrow> pyval \<Rightarrow> call" where
  "rpoplpush_call src dst =
     call [PStr ''RPOPLPUSH'', src, dst] []"

definition rpush_call :: "pyval \<Rightarrow> pyval list \<Rightarrow> call" where
  "rpush_call name values =
     call ([PStr ''RPUSH'', name] @ values) []"

definition rpushx_call :: "pyval \<Rightarrow> pyval list \<Rightarrow> call" where
  "rpushx_call name values =
     call ([PStr ''RPUSHX'', name] @ values) []"

definition lpos_call :: "pyval \<Rightarrow> pyval \<Rightarrow> pyval \<Rightarrow> pyval \<Rightarrow> pyval \<Rightarrow> call" where
  "lpos_call name value rank count_arg maxlen =
     call ([PStr ''LPOS''] @ [name, value] @ (if rank \<noteq> PNone then [PStr ''RANK'', rank] else []) @
        (if count_arg \<noteq> PNone then [PStr ''COUNT'', count_arg] else []) @
        (if maxlen \<noteq> PNone then [PStr ''MAXLEN'', maxlen] else [])) [(''keys'', PList [name])]"

definition sort_call ::
  "pyval \<Rightarrow> pyval \<Rightarrow> pyval \<Rightarrow> pyval \<Rightarrow> pyval \<Rightarrow> bool \<Rightarrow> bool \<Rightarrow> pyval \<Rightarrow> bool \<Rightarrow> exc + call" where
  "sort_call name start num by_arg get_arg desc alpha store groups =
     (if (start \<noteq> PNone \<and> num = PNone) \<or> (num \<noteq> PNone \<and> start = PNone)
      then Inl (Exc DataError ''``start`` and ``num`` must both be specified'')
      else bindE (if get_arg = PNone then Inr [] else if is_text get_arg then Inr [get_arg] else py_iter get_arg) (\<lambda>gets.
        if groups \<and> (\<not> truthy get_arg \<or> is_text get_arg \<or> length gets < 2)
        then Inl (Exc DataError (''when using '' @ [CHR 34] @ ''groups'' @ [CHR 34] @ '' the '' @ [CHR 34] @ ''get'' @ [CHR 34] @
          '' argument must be specified and contain at least two keys''))
        else Inr (call ([PStr ''SORT'', name] @ (if by_arg \<noteq> PNone then [PBytes ''BY'', by_arg] else []) @
          (if start \<noteq> PNone \<and> num \<noteq> PNone then [PBytes ''LIMIT'', start, num] else []) @
          concat (map (\<lambda>g. [PBytes ''GET'', g]) gets) @ (if desc then [PBytes ''DESC''] else []) @ (if alpha then [PBytes ''ALPHA''] else []) @
          (if store \<noteq> PNone then [PBytes ''STORE'', store] else []))
          [(''groups'', if groups then PInt (int (length gets)) else PNone), (''keys'', PList [name])])))"

definition sort_ro_call :: "pyval \<Rightarrow> pyval \<Rightarrow> pyval \<Rightarrow> pyval \<Rightarrow> pyval \<Rightarrow> bool \<Rightarrow> bool \<Rightarrow> exc + call" where
  "sort_ro_call key start num by_arg get_arg desc alpha = sort_call key start num by_arg get_arg desc alpha PNone False"

section \<open>\<open>SetCommands\<close>\<close>

definition sadd_call :: "pyval \<Rightarrow> pyval list \<Rightarrow> call" where
  "sadd_call name values =
     call ([PStr ''SADD'', name] @ values) []"

definition scard_call :: "pyval \<Rightarrow> call" where
  "scard_call name =
     call [PStr ''SCARD'', name] [(''keys'', PList [name])]"

definition sdiff_call :: "pyval \<Rightarrow> pyval list \<Rightarrow> call" where
  "sdiff_call keys args =
     call ([PStr ''SDIFF''] @ list_or_args keys args) [(''keys'', PList (list_or_args keys args))]"

definition sdiffstore_call :: "pyval \<Rightarrow> pyval \<Rightarrow> pyval list \<Rightarrow> call" where
  "sdiffstore_call dest keys args =
     call ([PStr ''SDIFFSTORE'', dest] @ list_or_args keys args) []"

definition sinter_call :: "pyval \<Rightarrow> pyval list \<Rightarrow> call" where
  "sinter_call keys args =
     call ([PStr ''SINTER''] @ list_or_args keys args) [(''keys'', PList (list_or_args keys args))]"

definition sintercard_call :: "pyval \<Rightarrow> pyval list \<Rightarrow> pyval \<Rightarrow> call" where
  "sintercard_call numkeys keys limit =
     call ([PStr ''SINTERCARD''] @ [numkeys] @ keys @ [PStr ''LIMIT'', limit]) [(''keys'', PList keys)]"

definition sinterstore_call :: "pyval \<Rightarrow> pyval \<Rightarrow> pyval list \<Rightarrow> call" where
  "sinterstore_call dest keys args =
     call ([PStr ''SINTERSTORE'', dest] @ list_or_args keys args) []"

definition sismember_call :: "pyval \<Rightarrow> pyval \<Rightarrow> call" where
  "sismember_call name value =
     call [PStr ''SISMEMBER'', name, value] [(''keys'', PList [name])]"

definition smembers_call :: "pyval \<Rightarrow> call" where
  "smembers_call name =
     call [PStr ''SMEMBERS'', name] [(''keys'', PList [name])]"

definition smismember_call :: "pyval \<Rightarrow> pyval \<Rightarrow> pyval list \<Rightarrow> call" where
  "smismember_call name values args =
     call ([PStr ''SMISMEMBER'', name] @ list_or_args values args) [(''keys'', PList [name])]"

definition smove_call :: "pyval \<Rightarrow> pyval \<Rightarrow> pyval \<Rightarrow> call" where
  "smove_call src dst value =
     call [PStr ''SMOVE'', src, dst, value] []"

definition spop_call :: "pyval \<Rightarrow> pyval \<Rightarrow> call" where
  "spop_call name count_arg =
     call ([PStr ''SPOP'', name] @ (if count_arg \<noteq> PNone then [count_arg] else [])) []"

definition srandmember_call :: "pyval \<Rightarrow> pyval \<Rightarrow> call" where
  "srandmember_call name number =
     call ([PStr ''SRANDMEMBER'', name] @ (if number \<noteq> PNone then [number] else [])) []"

definition srem_call :: "pyval \<Rightarrow> pyval list \<Rightarrow> call" where
  "srem_call name values =
     call ([PStr ''SREM'', name] @ values) []"

definition sunion_call :: "pyval \<Rightarrow> pyval list \<Rightarrow> call" where
  "sunion_call keys args =
     call ([PStr ''SUNION''] @ list_or_args keys args) [(''keys'', PList (list_or_args keys args))]"

definition sunionstore_call :: "pyval \<Rightarrow> pyval \<Rightarrow> pyval list \<Rightarrow> call" where
  "sunionstore_call dest keys args =
     call ([PStr ''SUNIONSTORE'', dest] @ list_or_args keys args) []"

section \<open>\<open>HashCommands\<close>\<close>

definition hdel_call :: "pyval \<Rightarrow> pyval list \<Rightarrow> call" where
  "hdel_call name keys =
     call ([PStr ''HDEL'', name] @ keys) []"

definition hexists_call :: "pyval \<Rightarrow> pyval \<Rightarrow> call" where
  "hexists_call name key =
     call [PStr ''HEXISTS'', name, key] [(''keys'', PList [name])]"

definition hget_call :: "pyval \<Rightarrow> pyval \<Rightarrow> call" where
  "hget_call name key =
     call [PStr ''HGET'', name, key] [(''keys'', PList [name])]"

definition hgetall_call :: "pyval \<Rightarrow> call" where
  "hgetall_call name =
     call [PStr ''HGETALL'', name] [(''keys'', PList [name])]"

definition hincrby_call :: "pyval \<Rightarrow> pyval \<Rightarrow> pyval \<Rightarrow> call" where
  "hincrby_call name key amount =
     call [PStr ''HINCRBY'', name, key, amount] []"

definition hincrbyfloat_call :: "pyval \<Rightarrow> pyval \<Rightarrow> pyval \<Rightarrow> call" where
  "hincrbyfloat_call name key amount =
     call [PStr ''HINCRBYFLOAT'', name, key, amount] []"

definition hkeys_call :: "pyval \<Rightarrow> call" where
  "hkeys_call name =
     call [PStr ''HKEYS'', name] [(''keys'', PList [name])]"

definition hlen_call :: "pyval \<Rightarrow> call" where
  "hlen_call name =
     call [PStr ''HLEN'', name] [(''keys'', PList [name])]"

definition hset_call :: "pyval \<Rightarrow> pyval \<Rightarrow> pyval \<Rightarrow> (pyval \<times> pyval) list \<Rightarrow> pyval list \<Rightarrow> exc + call" where
  "hset_call name key value mapping items =
     (if (key = PNone) \<and> (mapping = []) \<and> (items = []) then Inl (Exc DataError ([CHR 39] @ ''hset' with no key value pairs''))
     else Inr (call ([PStr ''HSET'', name] @ (if items \<noteq> [] then items else []) @ (if key \<noteq> PNone then [key, value] else []) @
             (if mapping \<noteq> [] then flat_pairs mapping else [])) []))"

definition hsetnx_call :: "pyval \<Rightarrow> pyval \<Rightarrow> pyval \<Rightarrow> call" where
  "hsetnx_call name key value =
     call [PStr ''HSETNX'', name, key, value] []"

definition hmset_call :: "pyval \<Rightarrow> (pyval \<times> pyval) list \<Rightarrow> exc + call" where
  "hmset_call name mapping =
     (if mapping = [] then Inl (Exc DataError ([CHR 39] @ ''hmset' with 'mapping' of length 0''))
     else Inr (call ([PStr ''HMSET'', name] @ flat_pairs mapping) []))"

definition hmget_call :: "pyval \<Rightarrow> pyval \<Rightarrow> pyval list \<Rightarrow> call" where
  "hmget_call name keys args =
     call ([PStr ''HMGET'', name] @ list_or_args keys args) [(''keys'', PList [name])]"

definition hvals_call :: "pyval \<Rightarrow> call" where
  "hvals_call name =
     call [PStr ''HVALS'', name] [(''keys'', PList [name])]"

definition hstrlen_call :: "pyval \<Rightarrow> pyval \<Rightarrow> call" where
  "hstrlen_call name key =
     call [PStr ''HSTRLEN'', name, key] [(''keys'', PList [name])]"

text \<open>At most one of the four conditions.\<close>

definition one_condition :: "bool \<Rightarrow> bool \<Rightarrow> bool \<Rightarrow> bool \<Rightarrow> exc + pyval list" where
  "one_condition nx xx gt lt =
     (if length (filter (\<lambda>b. b) [nx, xx, gt, lt]) > 1
      then Inl (Exc ValueError (''Only one of 'nx', 'xx', 'gt', 'lt' can be specified.''))
      else Inr ((if nx then [PStr ''NX''] else []) @ (if xx then [PStr ''XX''] else []) @ (if gt then [PStr ''GT''] else []) @
        (if lt then [PStr ''LT''] else [])))"

definition hexpire_call :: "pyval \<Rightarrow> delta_arg \<Rightarrow> pyval list \<Rightarrow> bool \<Rightarrow> bool \<Rightarrow> bool \<Rightarrow> bool \<Rightarrow> exc + call" where
  "hexpire_call name seconds fields_arg nx xx gt lt =
     bindE (one_condition nx xx gt lt) (\<lambda>options.
       Inr (call ([PStr ''HEXPIRE'', name, delta_seconds seconds] @ options @ [PStr ''FIELDS'', PInt (int (length fields_arg))] @ fields_arg) []))"

definition hpexpire_call :: "pyval \<Rightarrow> delta_arg \<Rightarrow> pyval list \<Rightarrow> bool \<Rightarrow> bool \<Rightarrow> bool \<Rightarrow> bool \<Rightarrow> exc + call" where
  "hpexpire_call name milliseconds fields_arg nx xx gt lt =
     bindE (one_condition nx xx gt lt) (\<lambda>options.
       Inr (call ([PStr ''HPEXPIRE'', name, delta_millis milliseconds] @ options @ [PStr ''FIELDS'', PInt (int (length fields_arg))] @ fields_arg) []))"

definition hexpireat_call :: "pyval \<Rightarrow> stamp_arg \<Rightarrow> pyval list \<Rightarrow> bool \<Rightarrow> bool \<Rightarrow> bool \<Rightarrow> bool \<Rightarrow> exc + call" where
  "hexpireat_call name unix_time_seconds fields_arg nx xx gt lt =
     bindE (one_condition nx xx gt lt) (\<lambda>options.
       Inr (call ([PStr ''HEXPIREAT'', name, stamp_seconds unix_time_seconds] @ options @ [PStr ''FIELDS'', PInt (int (length fields_arg))] @ fields_arg) []))"

definition hpexpireat_call :: "pyval \<Rightarrow> stamp_arg \<Rightarrow> pyval list \<Rightarrow> bool \<Rightarrow> bool \<Rightarrow> bool \<Rightarrow> bool \<Rightarrow> exc + call" where
  "hpexpireat_call name unix_time_milliseconds fields_arg nx xx gt lt =
     bindE (one_condition nx xx gt lt) (\<lambda>options.
       Inr (call ([PStr ''HPEXPIREAT'', name, stamp_millis unix_time_milliseconds] @ options @ [PStr ''FIELDS'', PInt (int (length fields_arg))] @ fields_arg) []))"

definition hpersist_call :: "pyval \<Rightarrow> pyval list \<Rightarrow> call" where
  "hpersist_call name fields_arg =
     call ([PStr ''HPERSIST'', name, PStr ''FIELDS'', PInt (int (length fields_arg))] @ fields_arg) []"

definition hexpiretime_call :: "pyval \<Rightarrow> pyval list \<Rightarrow> call" where
  "hexpiretime_call key fields_arg =
     call ([PStr ''HEXPIRETIME'', key, PStr ''FIELDS'', PInt (int (length fields_arg))] @ fields_arg) [(''keys'', PList [key])]"

definition hpexpiretime_call :: "pyval \<Rightarrow> pyval list \<Rightarrow> call" where
  "hpexpiretime_call key fields_arg =
     call ([PStr ''HPEXPIRETIME'', key, PStr ''FIELDS'', PInt (int (length fields_arg))] @ fields_arg) [(''keys'', PList [key])]"

definition httl_call :: "pyval \<Rightarrow> pyval list \<Rightarrow> call" where
  "httl_call key fields_arg =
     call ([PStr ''HTTL'', key, PStr ''FIELDS'', PInt (int (length fields_arg))] @ fields_arg) [(''keys'', PList [key])]"

definition hpttl_call :: "pyval \<Rightarrow> pyval list \<Rightarrow> call" where
  "hpttl_call key fields_arg =
     call ([PStr ''HPTTL'', key, PStr ''FIELDS'', PInt (int (length fields_arg))] @ fields_arg) [(''keys'', PList [key])]"

section \<open>\<open>ScanCommands\<close>\<close>

definition scan_call :: "pyval \<Rightarrow> pyval \<Rightarrow> pyval \<Rightarrow> pyval \<Rightarrow> kwargs \<Rightarrow> call" where
  "scan_call cursor match_arg count_arg type_arg kw =
     call ([PStr ''SCAN''] @ [cursor] @ (if match_arg \<noteq> PNone then [PBytes ''MATCH'', match_arg] else []) @
        (if count_arg \<noteq> PNone then [PBytes ''COUNT'', count_arg] else []) @
        (if type_arg \<noteq> PNone then [PBytes ''TYPE'', type_arg] else [])) kw"

text \<open>
  The iterators: pages are fetched until the cursor is 0. A page is what one call gives, its cursor and its elements;
  the whole list is what consuming the generator to its end gives.
\<close>

partial_function (option) scan_loop ::
  "(pyval \<Rightarrow> ('w, exc, pyval \<times> pyval list) action) \<Rightarrow> pyval \<Rightarrow> pyval list \<Rightarrow> 'w \<Rightarrow> ((exc + pyval list) \<times> 'w) option" where
  "scan_loop page cursor acc w =
     (if py_key_eq cursor (PInt 0) then Some (Inr acc, w)
      else (case page cursor w of
         (Inl e, w') \<Rightarrow> Some (Inl e, w')
       | (Inr (cursor', data), w') \<Rightarrow> scan_loop page cursor' (acc @ data) w'))"

definition scan_page :: "(call \<Rightarrow> ('w, exc, pyval \<times> pyval list) action) \<Rightarrow> (pyval \<Rightarrow> call) \<Rightarrow> pyval \<Rightarrow> ('w, exc, pyval \<times> pyval list) action" where
  "scan_page exec build cursor = exec (build cursor)"

definition scan_iter ::
  "(call \<Rightarrow> ('w, exc, pyval \<times> pyval list) action) \<Rightarrow> pyval \<Rightarrow> pyval \<Rightarrow> pyval \<Rightarrow> kwargs \<Rightarrow> 'w \<Rightarrow> ((exc + pyval list) \<times> 'w) option" where
  "scan_iter exec match_arg count_arg type_arg kw = scan_loop (scan_page exec (\<lambda>cursor. scan_call cursor match_arg count_arg type_arg kw)) (PStr ''0'') []"

definition sscan_call :: "pyval \<Rightarrow> pyval \<Rightarrow> pyval \<Rightarrow> pyval \<Rightarrow> call" where
  "sscan_call name cursor match_arg count_arg =
     call ([PStr ''SSCAN''] @ [name, cursor] @ (if match_arg \<noteq> PNone then [PBytes ''MATCH'', match_arg] else []) @
        (if count_arg \<noteq> PNone then [PBytes ''COUNT'', count_arg] else [])) []"

definition sscan_iter ::
  "(call \<Rightarrow> ('w, exc, pyval \<times> pyval list) action) \<Rightarrow> pyval \<Rightarrow> pyval \<Rightarrow> pyval \<Rightarrow> 'w \<Rightarrow> ((exc + pyval list) \<times> 'w) option" where
  "sscan_iter exec name match_arg count_arg = scan_loop (scan_page exec (\<lambda>cursor. sscan_call name cursor match_arg count_arg)) (PStr ''0'') []"

definition hscan_call :: "pyval \<Rightarrow> pyval \<Rightarrow> pyval \<Rightarrow> pyval \<Rightarrow> pyval \<Rightarrow> call" where
  "hscan_call name cursor match_arg count_arg no_values =
     call ([PStr ''HSCAN''] @ [name, cursor] @ (if match_arg \<noteq> PNone then [PBytes ''MATCH'', match_arg] else []) @
        (if count_arg \<noteq> PNone then [PBytes ''COUNT'', count_arg] else []) @
        (if no_values \<noteq> PNone then [PBytes ''NOVALUES''] else [])) [(''no_values'', no_values)]"

text \<open>The page is the fields, or with values the items, of the reply.\<close>

definition hscan_iter ::
  "(call \<Rightarrow> ('w, exc, pyval \<times> pyval list) action) \<Rightarrow> pyval \<Rightarrow> pyval \<Rightarrow> pyval \<Rightarrow> pyval \<Rightarrow> 'w \<Rightarrow> ((exc + pyval list) \<times> 'w) option" where
  "hscan_iter exec name match_arg count_arg no_values =
     scan_loop (scan_page exec (\<lambda>cursor. hscan_call name cursor match_arg count_arg no_values)) (PStr ''0'') []"

definition zscan_call :: "pyval \<Rightarrow> pyval \<Rightarrow> pyval \<Rightarrow> pyval \<Rightarrow> pyval \<Rightarrow> call" where
  "zscan_call name cursor match_arg count_arg score_cast_func =
     call ([PStr ''ZSCAN''] @ [name, cursor] @ (if match_arg \<noteq> PNone then [PBytes ''MATCH'', match_arg] else []) @
        (if count_arg \<noteq> PNone then [PBytes ''COUNT'', count_arg] else [])) [(''score_cast_func'', score_cast_func)]"

definition zscan_iter ::
  "(call \<Rightarrow> ('w, exc, pyval \<times> pyval list) action) \<Rightarrow> pyval \<Rightarrow> pyval \<Rightarrow> pyval \<Rightarrow> pyval \<Rightarrow> 'w \<Rightarrow> ((exc + pyval list) \<times> 'w) option" where
  "zscan_iter exec name match_arg count_arg score_cast_func =
     scan_loop (scan_page exec (\<lambda>cursor. zscan_call name cursor match_arg count_arg score_cast_func)) (PStr ''0'') []"

section \<open>The calls that can be built\<close>

text \<open>Every method with arguments that can be encoded.\<close>

inductive collection_call :: "call \<Rightarrow> bool" where
  "list_all encodable (list_or_args keys []) \<Longrightarrow> encodable timeout \<Longrightarrow> collection_call (blpop_call keys timeout)"
| "list_all encodable (list_or_args keys []) \<Longrightarrow> encodable timeout \<Longrightarrow> collection_call (brpop_call keys timeout)"
| "encodable src \<Longrightarrow> encodable dst \<Longrightarrow> encodable timeout \<Longrightarrow>
     collection_call (brpoplpush_call src dst timeout)"
| "encodable timeout \<Longrightarrow> encodable numkeys \<Longrightarrow> list_all encodable args \<Longrightarrow>
     encodable direction \<Longrightarrow> encodable count_arg \<Longrightarrow>
     collection_call (blmpop_call timeout numkeys args direction count_arg)"
| "encodable num_keys \<Longrightarrow> list_all encodable args \<Longrightarrow> encodable direction \<Longrightarrow>
     encodable count_arg \<Longrightarrow> collection_call (lmpop_call num_keys args direction count_arg)"
| "encodable name \<Longrightarrow> encodable index_arg \<Longrightarrow> collection_call (lindex_call name index_arg)"
| "encodable name \<Longrightarrow> encodable where_arg \<Longrightarrow> encodable refvalue \<Longrightarrow> encodable value \<Longrightarrow>
     collection_call (linsert_call name where_arg refvalue value)"
| "encodable name \<Longrightarrow> collection_call (llen_call name)"
| "encodable name \<Longrightarrow> optional count_arg \<Longrightarrow> collection_call (lpop_call name count_arg)"
| "encodable name \<Longrightarrow> list_all encodable values \<Longrightarrow> collection_call (lpush_call name values)"
| "encodable name \<Longrightarrow> list_all encodable values \<Longrightarrow> collection_call (lpushx_call name values)"
| "encodable name \<Longrightarrow> encodable start \<Longrightarrow> encodable stop \<Longrightarrow> collection_call (lrange_call name start stop)"
| "encodable name \<Longrightarrow> encodable count_arg \<Longrightarrow> encodable value \<Longrightarrow>
     collection_call (lrem_call name count_arg value)"
| "encodable name \<Longrightarrow> encodable index_arg \<Longrightarrow> encodable value \<Longrightarrow>
     collection_call (lset_call name index_arg value)"
| "encodable name \<Longrightarrow> encodable start \<Longrightarrow> encodable stop \<Longrightarrow> collection_call (ltrim_call name start stop)"
| "encodable name \<Longrightarrow> optional count_arg \<Longrightarrow> collection_call (rpop_call name count_arg)"
| "encodable src \<Longrightarrow> encodable dst \<Longrightarrow> collection_call (rpoplpush_call src dst)"
| "encodable name \<Longrightarrow> list_all encodable values \<Longrightarrow> collection_call (rpush_call name values)"
| "encodable name \<Longrightarrow> list_all encodable values \<Longrightarrow> collection_call (rpushx_call name values)"
| "encodable name \<Longrightarrow> encodable value \<Longrightarrow> optional rank \<Longrightarrow> optional count_arg \<Longrightarrow>
     optional maxlen \<Longrightarrow> collection_call (lpos_call name value rank count_arg maxlen)"
| "encodable name \<Longrightarrow> optional start \<Longrightarrow> optional num \<Longrightarrow> optional by_arg \<Longrightarrow>
     (optional get_arg \<or> (\<exists>gs. get_arg = PList gs \<and> list_all encodable gs)) \<Longrightarrow> optional store \<Longrightarrow>
     sort_call name start num by_arg get_arg desc alpha store groups = Inr c \<Longrightarrow> collection_call c"
| "sort_ro_call key start num by_arg get_arg desc alpha = Inr c \<Longrightarrow> encodable key \<Longrightarrow> optional start \<Longrightarrow>
     optional num \<Longrightarrow> optional by_arg \<Longrightarrow>
     (optional get_arg \<or> (\<exists>gs. get_arg = PList gs \<and> list_all encodable gs)) \<Longrightarrow> collection_call c"
| "encodable name \<Longrightarrow> list_all encodable values \<Longrightarrow> collection_call (sadd_call name values)"
| "encodable name \<Longrightarrow> collection_call (scard_call name)"
| "list_all encodable (list_or_args keys []) \<Longrightarrow> list_all encodable args \<Longrightarrow> collection_call (sdiff_call keys args)"
| "encodable dest \<Longrightarrow> list_all encodable (list_or_args keys []) \<Longrightarrow> list_all encodable args \<Longrightarrow>
     collection_call (sdiffstore_call dest keys args)"
| "list_all encodable (list_or_args keys []) \<Longrightarrow> list_all encodable args \<Longrightarrow> collection_call (sinter_call keys args)"
| "encodable numkeys \<Longrightarrow> list_all encodable keys \<Longrightarrow> encodable limit \<Longrightarrow>
     collection_call (sintercard_call numkeys keys limit)"
| "encodable dest \<Longrightarrow> list_all encodable (list_or_args keys []) \<Longrightarrow> list_all encodable args \<Longrightarrow>
     collection_call (sinterstore_call dest keys args)"
| "encodable name \<Longrightarrow> encodable value \<Longrightarrow> collection_call (sismember_call name value)"
| "encodable name \<Longrightarrow> collection_call (smembers_call name)"
| "encodable name \<Longrightarrow> list_all encodable (list_or_args values []) \<Longrightarrow> list_all encodable args \<Longrightarrow>
     collection_call (smismember_call name values args)"
| "encodable src \<Longrightarrow> encodable dst \<Longrightarrow> encodable value \<Longrightarrow> collection_call (smove_call src dst value)"
| "encodable name \<Longrightarrow> optional count_arg \<Longrightarrow> collection_call (spop_call name count_arg)"
| "encodable name \<Longrightarrow> optional number \<Longrightarrow> collection_call (srandmember_call name number)"
| "encodable name \<Longrightarrow> list_all encodable values \<Longrightarrow> collection_call (srem_call name values)"
| "list_all encodable (list_or_args keys []) \<Longrightarrow> list_all encodable args \<Longrightarrow> collection_call (sunion_call keys args)"
| "encodable dest \<Longrightarrow> list_all encodable (list_or_args keys []) \<Longrightarrow> list_all encodable args \<Longrightarrow>
     collection_call (sunionstore_call dest keys args)"
| "encodable name \<Longrightarrow> list_all encodable keys \<Longrightarrow> collection_call (hdel_call name keys)"
| "encodable name \<Longrightarrow> encodable key \<Longrightarrow> collection_call (hexists_call name key)"
| "encodable name \<Longrightarrow> encodable key \<Longrightarrow> collection_call (hget_call name key)"
| "encodable name \<Longrightarrow> collection_call (hgetall_call name)"
| "encodable name \<Longrightarrow> encodable key \<Longrightarrow> encodable amount \<Longrightarrow> collection_call (hincrby_call name key amount)"
| "encodable name \<Longrightarrow> encodable key \<Longrightarrow> encodable amount \<Longrightarrow>
     collection_call (hincrbyfloat_call name key amount)"
| "encodable name \<Longrightarrow> collection_call (hkeys_call name)"
| "encodable name \<Longrightarrow> collection_call (hlen_call name)"
| "encodable name \<Longrightarrow> optional key \<Longrightarrow> (key \<noteq> PNone \<longrightarrow> encodable value) \<Longrightarrow>
     list_all encodable (flat_pairs mapping) \<Longrightarrow> list_all encodable items \<Longrightarrow>
     hset_call name key value mapping items = Inr c \<Longrightarrow> collection_call c"
| "encodable name \<Longrightarrow> encodable key \<Longrightarrow> encodable value \<Longrightarrow> collection_call (hsetnx_call name key value)"
| "encodable name \<Longrightarrow> list_all encodable (flat_pairs mapping) \<Longrightarrow> hmset_call name mapping = Inr c \<Longrightarrow>
     collection_call c"
| "encodable name \<Longrightarrow> list_all encodable (list_or_args keys []) \<Longrightarrow> list_all encodable args \<Longrightarrow>
     collection_call (hmget_call name keys args)"
| "encodable name \<Longrightarrow> collection_call (hvals_call name)"
| "encodable name \<Longrightarrow> encodable key \<Longrightarrow> collection_call (hstrlen_call name key)"
| "encodable name \<Longrightarrow> delta_ok seconds \<Longrightarrow> list_all encodable fields_arg \<Longrightarrow>
     hexpire_call name seconds fields_arg nx xx gt lt = Inr c \<Longrightarrow> collection_call c"
| "encodable name \<Longrightarrow> delta_ok milliseconds \<Longrightarrow> list_all encodable fields_arg \<Longrightarrow>
     hpexpire_call name milliseconds fields_arg nx xx gt lt = Inr c \<Longrightarrow> collection_call c"
| "encodable name \<Longrightarrow> stamp_ok unix_time_seconds \<Longrightarrow> list_all encodable fields_arg \<Longrightarrow>
     hexpireat_call name unix_time_seconds fields_arg nx xx gt lt = Inr c \<Longrightarrow> collection_call c"
| "encodable name \<Longrightarrow> stamp_ok unix_time_milliseconds \<Longrightarrow> list_all encodable fields_arg \<Longrightarrow>
     hpexpireat_call name unix_time_milliseconds fields_arg nx xx gt lt = Inr c \<Longrightarrow> collection_call c"
| "encodable name \<Longrightarrow> list_all encodable fields_arg \<Longrightarrow> collection_call (hpersist_call name fields_arg)"
| "encodable key \<Longrightarrow> list_all encodable fields_arg \<Longrightarrow> collection_call (hexpiretime_call key fields_arg)"
| "encodable key \<Longrightarrow> list_all encodable fields_arg \<Longrightarrow> collection_call (hpexpiretime_call key fields_arg)"
| "encodable key \<Longrightarrow> list_all encodable fields_arg \<Longrightarrow> collection_call (httl_call key fields_arg)"
| "encodable key \<Longrightarrow> list_all encodable fields_arg \<Longrightarrow> collection_call (hpttl_call key fields_arg)"
| "encodable cursor \<Longrightarrow> optional match_arg \<Longrightarrow> optional count_arg \<Longrightarrow> optional type_arg \<Longrightarrow>
     collection_call (scan_call cursor match_arg count_arg type_arg kw)"
| "encodable name \<Longrightarrow> encodable cursor \<Longrightarrow> optional match_arg \<Longrightarrow> optional count_arg \<Longrightarrow>
     collection_call (sscan_call name cursor match_arg count_arg)"
| "encodable name \<Longrightarrow> encodable cursor \<Longrightarrow> optional match_arg \<Longrightarrow> optional count_arg \<Longrightarrow>
     optional no_values \<Longrightarrow> collection_call (hscan_call name cursor match_arg count_arg no_values)"
| "encodable name \<Longrightarrow> encodable cursor \<Longrightarrow> optional match_arg \<Longrightarrow> optional count_arg \<Longrightarrow>
     collection_call (zscan_call name cursor match_arg count_arg score_cast_func)"

lemmas collection_call_defs = blpop_call_def brpop_call_def brpoplpush_call_def blmpop_call_def lmpop_call_def lindex_call_def
  linsert_call_def llen_call_def lpop_call_def lpush_call_def lpushx_call_def lrange_call_def lrem_call_def lset_call_def ltrim_call_def
  rpop_call_def rpoplpush_call_def rpush_call_def rpushx_call_def lpos_call_def sadd_call_def scard_call_def sdiff_call_def
  sdiffstore_call_def sinter_call_def sintercard_call_def sinterstore_call_def sismember_call_def smembers_call_def smismember_call_def
  smove_call_def spop_call_def srandmember_call_def srem_call_def sunion_call_def sunionstore_call_def hdel_call_def hexists_call_def
  hget_call_def hgetall_call_def hincrby_call_def hincrbyfloat_call_def hkeys_call_def hlen_call_def hset_call_def hsetnx_call_def
  hmset_call_def hmget_call_def hvals_call_def hstrlen_call_def hexpire_call_def hpexpire_call_def hexpireat_call_def hpexpireat_call_def
  hpersist_call_def hexpiretime_call_def hpexpiretime_call_def httl_call_def hpttl_call_def scan_call_def sscan_call_def hscan_call_def
  zscan_call_def

end
