(* ===== verification/SortedSetCommands.thy ===== *)
theory SortedSetCommands
  imports CommandCall
begin

text \<open>
  The commands on sorted sets and on places (\<open>redis/commands/core.py\<close>).
\<close>

section \<open>\<open>SortedSetCommands\<close>\<close>

definition zadd_call :: "pyval \<Rightarrow> (pyval \<times> pyval) list \<Rightarrow> bool \<Rightarrow> bool \<Rightarrow> bool \<Rightarrow> bool \<Rightarrow> bool \<Rightarrow> bool \<Rightarrow> exc + call" where
  "zadd_call name mapping nx xx ch incr gt lt =
     (if mapping = [] then Inl (Exc DataError ''ZADD requires at least one element/score pair'')
     else (if nx \<and> xx then Inl (Exc DataError ''ZADD allows either 'nx' or 'xx', not both'')
     else (if gt \<and> lt then Inl (Exc DataError ''ZADD allows either 'gt' or 'lt', not both'')
     else (if incr \<and> (length mapping \<noteq> 1) then Inl (Exc DataError
             ''ZADD option 'incr' only works when passing a single element/score pair'')
     else (if nx \<and> (gt \<or> lt) then Inl (Exc DataError ''Only one of 'nx', 'lt', or 'gr' may be defined.'')
     else Inr (call ([PStr ''ZADD'', name] @ (if nx then [PBytes ''NX''] else []) @ (if xx then [PBytes ''XX''] else []) @
             (if ch then [PBytes ''CH''] else []) @ (if incr then [PBytes ''INCR''] else []) @ (if gt then [PBytes ''GT''] else []) @
             (if lt then [PBytes ''LT''] else []) @
             concat (map (\<lambda>(k, v). [v, k]) mapping)) (if incr then [(''as_score'', PBool True)] else [])))))))"

definition zcard_call :: "pyval \<Rightarrow> call" where
  "zcard_call name =
     call [PStr ''ZCARD'', name] [(''keys'', PList [name])]"

definition zcount_call :: "pyval \<Rightarrow> pyval \<Rightarrow> pyval \<Rightarrow> call" where
  "zcount_call name lo hi =
     call [PStr ''ZCOUNT'', name, lo, hi] [(''keys'', PList [name])]"

definition zdiff_call :: "pyval list \<Rightarrow> bool \<Rightarrow> call" where
  "zdiff_call keys withscores =
     call ([PStr ''ZDIFF''] @ [PInt (int (length keys))] @ keys @ (if withscores then [PStr ''WITHSCORES''] else [])) [(''keys'', PList keys)]"

definition zdiffstore_call :: "pyval \<Rightarrow> pyval list \<Rightarrow> call" where
  "zdiffstore_call dest keys =
     call ([PStr ''ZDIFFSTORE'', dest] @ [PInt (int (length keys))] @ keys) []"

definition zincrby_call :: "pyval \<Rightarrow> pyval \<Rightarrow> pyval \<Rightarrow> call" where
  "zincrby_call name amount value =
     call [PStr ''ZINCRBY'', name, amount, value] []"

text \<open>The keys, or a dict of their weights.\<close>

datatype zkeys = Keys "pyval list" | Weighted "(pyval \<times> pyval) list"

fun zkeys_list :: "zkeys \<Rightarrow> pyval list" where
  "zkeys_list (Keys ks) = ks"
| "zkeys_list (Weighted d) = map fst d"

fun zkeys_weights :: "zkeys \<Rightarrow> pyval list" where
  "zkeys_weights (Keys ks) = []"
| "zkeys_weights (Weighted d) = map snd d"

definition aggregate_piece :: "pyval \<Rightarrow> exc + pyval list" where
  "aggregate_piece aggregate =
     (if \<not> truthy aggregate then Inr []
      else (case aggregate of
         PStr s \<Rightarrow> if upper s \<in> {''SUM'', ''MIN'', ''MAX''} then Inr [PBytes ''AGGREGATE'', aggregate]
                   else Inl (Exc DataError ''aggregate can be sum, min or max.'')
       | PBytes _ \<Rightarrow> Inl (Exc DataError ''aggregate can be sum, min or max.'')
       | _ \<Rightarrow> Inl (Exc AttributeError ''upper'')))"

definition zaggregate :: "string \<Rightarrow> pyval \<Rightarrow> zkeys \<Rightarrow> pyval \<Rightarrow> bool option \<Rightarrow> exc + call" where
  "zaggregate command_arg dest keys aggregate withscores =
     bindE (aggregate_piece aggregate) (\<lambda>aggregate_args.
       Inr (call ([PStr command_arg] @ (if dest \<noteq> PNone then [dest] else []) @ [PInt (int (length (zkeys_list keys)))] @ zkeys_list keys @
         (if zkeys_weights keys \<noteq> [] then [PBytes ''WEIGHTS''] @ zkeys_weights keys else []) @ aggregate_args @
         (if withscores = Some True then [PBytes ''WITHSCORES''] else []))
         ((case withscores of None \<Rightarrow> [] | Some b \<Rightarrow> [(''withscores'', PBool b)]) @ [(''keys'', PList (zkeys_list keys))])))"

definition zkeys_ok :: "zkeys \<Rightarrow> bool" where
  "zkeys_ok keys = (list_all encodable (zkeys_list keys) \<and> list_all encodable (zkeys_weights keys))"

definition zinter_call :: "zkeys \<Rightarrow> pyval \<Rightarrow> bool \<Rightarrow> exc + call" where
  "zinter_call keys aggregate withscores = zaggregate ''ZINTER'' PNone keys aggregate (Some withscores)"

definition zinterstore_call :: "pyval \<Rightarrow> zkeys \<Rightarrow> pyval \<Rightarrow> exc + call" where
  "zinterstore_call dest keys aggregate = zaggregate ''ZINTERSTORE'' dest keys aggregate None"

definition zintercard_call :: "pyval \<Rightarrow> pyval list \<Rightarrow> pyval \<Rightarrow> call" where
  "zintercard_call numkeys keys limit =
     call ([PStr ''ZINTERCARD''] @ [numkeys] @ keys @ [PStr ''LIMIT'', limit]) [(''keys'', PList keys)]"

definition zlexcount_call :: "pyval \<Rightarrow> pyval \<Rightarrow> pyval \<Rightarrow> call" where
  "zlexcount_call name lo hi =
     call [PStr ''ZLEXCOUNT'', name, lo, hi] [(''keys'', PList [name])]"

definition zpopmax_call :: "pyval \<Rightarrow> pyval \<Rightarrow> call" where
  "zpopmax_call name count_arg =
     call ([PStr ''ZPOPMAX'', name] @ (if count_arg \<noteq> PNone then [count_arg] else [])) [(''withscores'', PBool True)]"

definition zpopmin_call :: "pyval \<Rightarrow> pyval \<Rightarrow> call" where
  "zpopmin_call name count_arg =
     call ([PStr ''ZPOPMIN'', name] @ (if count_arg \<noteq> PNone then [count_arg] else [])) [(''withscores'', PBool True)]"

definition zrandmember_call :: "pyval \<Rightarrow> pyval \<Rightarrow> bool \<Rightarrow> call" where
  "zrandmember_call key count_arg withscores =
     call ([PStr ''ZRANDMEMBER'', key] @ (if count_arg \<noteq> PNone then [count_arg] else []) @ (if withscores then [PStr ''WITHSCORES''] else [])) []"

definition bzpopmax_call :: "pyval \<Rightarrow> pyval \<Rightarrow> call" where
  "bzpopmax_call keys timeout =
     call ([PStr ''BZPOPMAX''] @ list_or_args keys [] @ [(if timeout = PNone then PInt 0 else timeout)]) []"

definition bzpopmin_call :: "pyval \<Rightarrow> pyval \<Rightarrow> call" where
  "bzpopmin_call keys timeout =
     call ([PStr ''BZPOPMIN''] @ list_or_args keys [] @ [(if timeout = PNone then PInt 0 else timeout)]) []"

definition zmpop_call :: "pyval \<Rightarrow> pyval list \<Rightarrow> bool \<Rightarrow> bool \<Rightarrow> pyval \<Rightarrow> exc + call" where
  "zmpop_call num_keys keys min_flag max_flag count_arg =
     (if (min_flag \<and> max_flag) \<or> (\<not> min_flag \<and> \<not> max_flag) then Inl (Exc DataError [])
      else Inr (call ([PStr ''ZMPOP'', num_keys] @ keys @ [PStr (if min_flag then ''MIN'' else ''MAX'')] @
        (if \<not> py_key_eq count_arg (PInt 1) then [PStr ''COUNT'', count_arg] else [])) []))"

definition bzmpop_call :: "pyval \<Rightarrow> pyval \<Rightarrow> pyval list \<Rightarrow> bool \<Rightarrow> bool \<Rightarrow> pyval \<Rightarrow> exc + call" where
  "bzmpop_call timeout numkeys keys min_flag max_flag count_arg =
     (if (min_flag \<and> max_flag) \<or> (\<not> min_flag \<and> \<not> max_flag) then Inl (Exc DataError ''Either min or max, but not both must be set'')
      else Inr (call ([PStr ''BZMPOP'', timeout, numkeys] @ keys @ [PStr (if min_flag then ''MIN'' else ''MAX'')] @ [PStr ''COUNT'', count_arg]) []))"

definition zrange_generic ::
  "string \<Rightarrow> pyval \<Rightarrow> pyval \<Rightarrow> pyval \<Rightarrow> pyval \<Rightarrow> bool \<Rightarrow> bool \<Rightarrow> bool \<Rightarrow> bool \<Rightarrow> pyval \<Rightarrow> pyval \<Rightarrow> pyval \<Rightarrow> exc + call" where
  "zrange_generic command_arg dest name start stop desc byscore bylex withscores score_cast_func offset num =
     (if byscore \<and> bylex then Inl (Exc DataError ''``byscore`` and ``bylex`` can not be specified together.'')
      else if (offset \<noteq> PNone \<and> num = PNone) \<or> (num \<noteq> PNone \<and> offset = PNone)
      then Inl (Exc DataError ''``offset`` and ``num`` must both be specified.'')
      else if bylex \<and> withscores then Inl (Exc DataError ''``withscores`` not supported in combination with ``bylex``.'')
      else Inr (call ([PStr command_arg] @ (if truthy dest then [dest] else []) @ [name, start, stop] @ (if byscore then [PStr ''BYSCORE''] else []) @
        (if bylex then [PStr ''BYLEX''] else []) @ (if desc then [PStr ''REV''] else []) @
        (if offset \<noteq> PNone \<and> num \<noteq> PNone then [PStr ''LIMIT'', offset, num] else []) @ (if withscores then [PStr ''WITHSCORES''] else []))
        [(''withscores'', PBool withscores), (''score_cast_func'', score_cast_func), (''keys'', PList [name])]))"

text \<open>Here the keys of the call are the name itself, not a list of it.\<close>

definition zrevrange_call :: "pyval \<Rightarrow> pyval \<Rightarrow> pyval \<Rightarrow> bool \<Rightarrow> pyval \<Rightarrow> call" where
  "zrevrange_call name start stop withscores score_cast_func =
     call ([PStr ''ZREVRANGE'', name, start, stop] @ (if withscores then [PBytes ''WITHSCORES''] else []))
       [(''withscores'', PBool withscores), (''score_cast_func'', score_cast_func), (''keys'', name)]"

definition zrange_call ::
  "pyval \<Rightarrow> pyval \<Rightarrow> pyval \<Rightarrow> bool \<Rightarrow> bool \<Rightarrow> pyval \<Rightarrow> bool \<Rightarrow> bool \<Rightarrow> pyval \<Rightarrow> pyval \<Rightarrow> exc + call" where
  "zrange_call name start stop desc withscores score_cast_func byscore bylex offset num =
     (if \<not> byscore \<and> \<not> bylex \<and> offset = PNone \<and> num = PNone \<and> desc then Inr (zrevrange_call name start stop withscores score_cast_func)
      else zrange_generic ''ZRANGE'' PNone name start stop desc byscore bylex withscores score_cast_func offset num)"

definition zrangestore_call ::
  "pyval \<Rightarrow> pyval \<Rightarrow> pyval \<Rightarrow> pyval \<Rightarrow> bool \<Rightarrow> bool \<Rightarrow> bool \<Rightarrow> pyval \<Rightarrow> pyval \<Rightarrow> exc + call" where
  "zrangestore_call dest name start stop byscore bylex desc offset num =
     zrange_generic ''ZRANGESTORE'' dest name start stop desc byscore bylex False PNone offset num"

definition zrangebylex_call :: "pyval \<Rightarrow> pyval \<Rightarrow> pyval \<Rightarrow> pyval \<Rightarrow> pyval \<Rightarrow> exc + call" where
  "zrangebylex_call name lo hi start num =
     (if ((start \<noteq> PNone) \<and> (num = PNone)) \<or> ((num \<noteq> PNone) \<and> (start = PNone)) then Inl (Exc DataError
        ''``start`` and ``num`` must both be specified'')
     else Inr (call ([PStr ''ZRANGEBYLEX'', name, lo, hi] @
             (if (start \<noteq> PNone) \<and> (num \<noteq> PNone) then [PBytes ''LIMIT'', start, num] else [])) [(''keys'', PList [name])]))"

definition zrevrangebylex_call :: "pyval \<Rightarrow> pyval \<Rightarrow> pyval \<Rightarrow> pyval \<Rightarrow> pyval \<Rightarrow> exc + call" where
  "zrevrangebylex_call name hi lo start num =
     (if ((start \<noteq> PNone) \<and> (num = PNone)) \<or> ((num \<noteq> PNone) \<and> (start = PNone)) then Inl (Exc DataError
        ''``start`` and ``num`` must both be specified'')
     else Inr (call ([PStr ''ZREVRANGEBYLEX'', name, hi, lo] @
             (if (start \<noteq> PNone) \<and> (num \<noteq> PNone) then [PStr ''LIMIT'', start, num] else [])) [(''keys'', PList [name])]))"

definition zrangebyscore_call :: "pyval \<Rightarrow> pyval \<Rightarrow> pyval \<Rightarrow> pyval \<Rightarrow> pyval \<Rightarrow> bool \<Rightarrow> pyval \<Rightarrow> exc + call" where
  "zrangebyscore_call name lo hi start num withscores score_cast_func =
     (if ((start \<noteq> PNone) \<and> (num = PNone)) \<or> ((num \<noteq> PNone) \<and> (start = PNone)) then Inl (Exc DataError
        ''``start`` and ``num`` must both be specified'')
     else Inr (call ([PStr ''ZRANGEBYSCORE'', name, lo, hi] @
             (if (start \<noteq> PNone) \<and> (num \<noteq> PNone) then [PStr ''LIMIT'', start, num] else []) @
             (if withscores then [PStr ''WITHSCORES''] else [])) [(''withscores'', PBool withscores), (''score_cast_func'', score_cast_func),
             (''keys'', PList [name])]))"

definition zrevrangebyscore_call :: "pyval \<Rightarrow> pyval \<Rightarrow> pyval \<Rightarrow> pyval \<Rightarrow> pyval \<Rightarrow> bool \<Rightarrow> pyval \<Rightarrow> exc + call" where
  "zrevrangebyscore_call name hi lo start num withscores score_cast_func =
     (if ((start \<noteq> PNone) \<and> (num = PNone)) \<or> ((num \<noteq> PNone) \<and> (start = PNone)) then Inl (Exc DataError
        ''``start`` and ``num`` must both be specified'')
     else Inr (call ([PStr ''ZREVRANGEBYSCORE'', name, hi, lo] @
             (if (start \<noteq> PNone) \<and> (num \<noteq> PNone) then [PStr ''LIMIT'', start, num] else []) @
             (if withscores then [PStr ''WITHSCORES''] else [])) [(''withscores'', PBool withscores), (''score_cast_func'', score_cast_func),
             (''keys'', PList [name])]))"

definition zrank_call :: "pyval \<Rightarrow> pyval \<Rightarrow> bool \<Rightarrow> call" where
  "zrank_call name value withscore =
     (if withscore then call [PStr ''ZRANK'', name, value, PStr ''WITHSCORE''] [(''keys'', PList [name])]
     else call [PStr ''ZRANK'', name, value] [(''keys'', PList [name])])"

definition zrem_call :: "pyval \<Rightarrow> pyval list \<Rightarrow> call" where
  "zrem_call name values =
     call ([PStr ''ZREM'', name] @ values) []"

definition zremrangebylex_call :: "pyval \<Rightarrow> pyval \<Rightarrow> pyval \<Rightarrow> call" where
  "zremrangebylex_call name lo hi =
     call [PStr ''ZREMRANGEBYLEX'', name, lo, hi] []"

definition zremrangebyrank_call :: "pyval \<Rightarrow> pyval \<Rightarrow> pyval \<Rightarrow> call" where
  "zremrangebyrank_call name lo hi =
     call [PStr ''ZREMRANGEBYRANK'', name, lo, hi] []"

definition zremrangebyscore_call :: "pyval \<Rightarrow> pyval \<Rightarrow> pyval \<Rightarrow> call" where
  "zremrangebyscore_call name lo hi =
     call [PStr ''ZREMRANGEBYSCORE'', name, lo, hi] []"

definition zrevrank_call :: "pyval \<Rightarrow> pyval \<Rightarrow> bool \<Rightarrow> call" where
  "zrevrank_call name value withscore =
     (if withscore then call [PStr ''ZREVRANK'', name, value, PStr ''WITHSCORE''] [(''keys'', PList [name])]
     else call [PStr ''ZREVRANK'', name, value] [(''keys'', PList [name])])"

definition zscore_call :: "pyval \<Rightarrow> pyval \<Rightarrow> call" where
  "zscore_call name value =
     call [PStr ''ZSCORE'', name, value] [(''keys'', PList [name])]"

definition zunion_call :: "zkeys \<Rightarrow> pyval \<Rightarrow> bool \<Rightarrow> exc + call" where
  "zunion_call keys aggregate withscores = zaggregate ''ZUNION'' PNone keys aggregate (Some withscores)"

definition zunionstore_call :: "pyval \<Rightarrow> zkeys \<Rightarrow> pyval \<Rightarrow> exc + call" where
  "zunionstore_call dest keys aggregate = zaggregate ''ZUNIONSTORE'' dest keys aggregate None"

definition zmscore_call :: "pyval \<Rightarrow> pyval list \<Rightarrow> exc + call" where
  "zmscore_call key members =
     (if members = [] then Inl (Exc DataError ''ZMSCORE members must be a non-empty list'')
      else Inr (call ([PStr ''ZMSCORE'', key] @ members) [(''keys'', PList [key])]))"

section \<open>\<open>GeoCommands\<close>\<close>

definition geoadd_call :: "pyval \<Rightarrow> pyval list \<Rightarrow> bool \<Rightarrow> bool \<Rightarrow> bool \<Rightarrow> exc + call" where
  "geoadd_call name values nx xx ch =
     (if nx \<and> xx then Inl (Exc DataError (''GEOADD allows either 'nx' or 'xx', not both''))
      else if length values mod 3 \<noteq> 0 then Inl (Exc DataError ''GEOADD requires places with lon, lat and name values'')
      else Inr (call ([PStr ''GEOADD'', name] @ (if nx then [PStr ''NX''] else []) @ (if xx then [PStr ''XX''] else []) @
        (if ch then [PStr ''CH''] else []) @ values) []))"

definition geo_units :: "pyval set" where
  "geo_units = {PStr ''m'', PStr ''km'', PStr ''mi'', PStr ''ft''}"

definition geodist_call :: "pyval \<Rightarrow> pyval \<Rightarrow> pyval \<Rightarrow> pyval \<Rightarrow> exc + call" where
  "geodist_call name place1 place2 unit_arg =
     (if truthy unit_arg \<and> unit_arg \<notin> geo_units then Inl (Exc DataError ''GEODIST invalid unit'')
      else Inr (call ([PStr ''GEODIST'', name, place1, place2] @ (if truthy unit_arg then [unit_arg] else [])) [(''keys'', PList [name])]))"

definition geohash_call :: "pyval \<Rightarrow> pyval list \<Rightarrow> call" where
  "geohash_call name values =
     call ([PStr ''GEOHASH'', name] @ values) [(''keys'', PList [name])]"

definition geopos_call :: "pyval \<Rightarrow> pyval list \<Rightarrow> call" where
  "geopos_call name values =
     call ([PStr ''GEOPOS'', name] @ values) [(''keys'', PList [name])]"

text \<open>The options of GEORADIUS, all of which are also handed on to the response callback.\<close>

record radius_options =
  ro_unit :: pyval
  ro_withdist :: bool
  ro_withcoord :: bool
  ro_withhash :: bool
  ro_count :: pyval
  ro_sort :: pyval
  ro_store :: pyval
  ro_store_dist :: pyval
  ro_any :: bool

definition radius_kwargs :: "radius_options \<Rightarrow> kwargs" where
  "radius_kwargs k =
     [(''unit'', ro_unit k), (''withdist'', PBool (ro_withdist k)), (''withcoord'', PBool (ro_withcoord k)), (''withhash'', PBool (ro_withhash k)),
      (''count'', ro_count k), (''sort'', ro_sort k), (''store'', ro_store k), (''store_dist'', ro_store_dist k), (''any'', PBool (ro_any k))]"

definition georadius_generic :: "string \<Rightarrow> pyval list \<Rightarrow> radius_options \<Rightarrow> exc + call" where
  "georadius_generic command_arg args k =
     (if truthy (ro_unit k) \<and> ro_unit k \<notin> geo_units then Inl (Exc DataError ''GEORADIUS invalid unit'')
      else if ro_any k \<and> ro_count k = PNone then Inl (Exc DataError (''``any`` can't be provided without ``count``''))
      else if truthy (ro_sort k) \<and> ro_sort k \<noteq> PStr ''ASC'' \<and> ro_sort k \<noteq> PStr ''DESC'' then Inl (Exc DataError ''GEORADIUS invalid sort'')
      else if truthy (ro_store k) \<and> truthy (ro_store_dist k) then Inl (Exc DataError ''GEORADIUS store and store_dist cant be set together'')
      else Inr (call ([PStr command_arg] @ args @ [if truthy (ro_unit k) then ro_unit k else PStr ''m''] @
        (if ro_withdist k then [PStr ''WITHDIST''] else []) @ (if ro_withcoord k then [PStr ''WITHCOORD''] else []) @
        (if ro_withhash k then [PStr ''WITHHASH''] else []) @
        (if ro_count k \<noteq> PNone then [PStr ''COUNT'', ro_count k] @ (if ro_any k then [PStr ''ANY''] else []) else []) @
        (if truthy (ro_sort k) then [ro_sort k] else []) @ (if truthy (ro_store k) then [PBytes ''STORE'', ro_store k] else []) @
        (if truthy (ro_store_dist k) then [PBytes ''STOREDIST'', ro_store_dist k] else [])) (radius_kwargs k)))"

definition georadius_call :: "pyval \<Rightarrow> pyval \<Rightarrow> pyval \<Rightarrow> pyval \<Rightarrow> radius_options \<Rightarrow> exc + call" where
  "georadius_call name longitude latitude radius k = georadius_generic ''GEORADIUS'' [name, longitude, latitude, radius] k"

definition radius_ok :: "radius_options \<Rightarrow> bool" where
  "radius_ok k = list_all optional [ro_unit k, ro_count k, ro_sort k, ro_store k, ro_store_dist k]"

definition georadiusbymember_call :: "pyval \<Rightarrow> pyval \<Rightarrow> pyval \<Rightarrow> radius_options \<Rightarrow> exc + call" where
  "georadiusbymember_call name member radius k = georadius_generic ''GEORADIUSBYMEMBER'' [name, member, radius] k"

text \<open>The options of GEOSEARCH; those of the store variant are absent or false in the other.\<close>

record search_options =
  so_member :: pyval
  so_longitude :: pyval
  so_latitude :: pyval
  so_unit :: pyval
  so_radius :: pyval
  so_width :: pyval
  so_height :: pyval
  so_sort :: pyval
  so_count :: pyval
  so_any :: bool
  so_withcoord :: pyval
  so_withdist :: pyval
  so_withhash :: pyval
  so_store_dist :: pyval

definition search_kwargs :: "search_options \<Rightarrow> kwargs" where
  "search_kwargs k =
     [(''member'', so_member k), (''longitude'', so_longitude k), (''latitude'', so_latitude k), (''unit'', so_unit k), (''radius'', so_radius k),
      (''width'', so_width k), (''height'', so_height k), (''sort'', so_sort k), (''count'', so_count k), (''any'', PBool (so_any k)),
      (''withcoord'', so_withcoord k), (''withdist'', so_withdist k), (''withhash'', so_withhash k), (''store'', PNone),
      (''store_dist'', so_store_dist k)]"

definition search_center :: "search_options \<Rightarrow> exc + pyval list" where
  "search_center k =
     (if so_member k = PNone \<and> (so_longitude k = PNone \<or> so_latitude k = PNone)
      then Inl (Exc DataError ''GEOSEARCH must have member or longitude and latitude'')
      else if truthy (so_member k) \<and> (truthy (so_longitude k) \<or> truthy (so_latitude k))
      then Inl (Exc DataError ''GEOSEARCH member and longitude or latitude cant be set together'')
      else Inr ((if truthy (so_member k) then [PBytes ''FROMMEMBER'', so_member k] else []) @
        (if so_longitude k \<noteq> PNone \<and> so_latitude k \<noteq> PNone then [PBytes ''FROMLONLAT'', so_longitude k, so_latitude k] else [])))"

definition search_unit :: "search_options \<Rightarrow> exc + unit" where
  "search_unit k =
     (case so_unit k of
        PNone \<Rightarrow> Inl (Exc DataError ''GEOSEARCH must have unit'')
      | PStr s \<Rightarrow> if lower s \<in> {''m'', ''km'', ''mi'', ''ft''} then Inr () else Inl (Exc DataError ''GEOSEARCH invalid unit'')
      | PBytes _ \<Rightarrow> Inl (Exc DataError ''GEOSEARCH invalid unit'')
      | _ \<Rightarrow> Inl (Exc AttributeError ''lower''))"

definition search_shape :: "search_options \<Rightarrow> exc + pyval list" where
  "search_shape k =
     (if so_radius k = PNone \<and> (so_width k = PNone \<or> so_height k = PNone)
      then Inl (Exc DataError ''GEOSEARCH must have radius or width and height'')
      else bindE (search_unit k) (\<lambda>_.
        if truthy (so_radius k) \<and> (truthy (so_width k) \<or> truthy (so_height k))
        then Inl (Exc DataError ''GEOSEARCH radius and width or height cant be set together'')
        else Inr ((if truthy (so_radius k) then [PBytes ''BYRADIUS'', so_radius k, so_unit k] else []) @
          (if truthy (so_width k) \<and> truthy (so_height k) then [PBytes ''BYBOX'', so_width k, so_height k, so_unit k] else []))))"

definition search_sort :: "search_options \<Rightarrow> exc + pyval list" where
  "search_sort k =
     (if \<not> truthy (so_sort k) then Inr []
      else (case so_sort k of
         PStr s \<Rightarrow> if upper s = ''ASC'' then Inr [PBytes ''ASC''] else if upper s = ''DESC'' then Inr [PBytes ''DESC'']
                   else Inl (Exc DataError ''GEOSEARCH invalid sort'')
       | PBytes _ \<Rightarrow> Inl (Exc DataError ''GEOSEARCH invalid sort'')
       | _ \<Rightarrow> Inl (Exc AttributeError ''upper'')))"

definition search_count :: "search_options \<Rightarrow> exc + pyval list" where
  "search_count k =
     (if truthy (so_count k) then Inr ([PBytes ''COUNT'', so_count k] @ (if so_any k then [PBytes ''ANY''] else []))
      else if so_any k then Inl (Exc DataError (''GEOSEARCH ``any`` can't be provided without count''))
      else Inr [])"

text \<open>The key of the call is the first argument, of the store variant the second.\<close>

definition geosearch_generic :: "string \<Rightarrow> pyval list \<Rightarrow> search_options \<Rightarrow> exc + call" where
  "geosearch_generic command_arg args k =
     bindE (search_center k) (\<lambda>center.
     bindE (search_shape k) (\<lambda>shape.
     bindE (search_sort k) (\<lambda>sort_piece.
     bindE (search_count k) (\<lambda>count_piece.
       Inr (call ([PStr command_arg] @ args @ center @ shape @ sort_piece @ count_piece @
         (if truthy (so_withdist k) then [PBytes ''WITHDIST''] else []) @ (if truthy (so_withcoord k) then [PBytes ''WITHCOORD''] else []) @
         (if truthy (so_withhash k) then [PBytes ''WITHHASH''] else []) @ (if truthy (so_store_dist k) then [PBytes ''STOREDIST''] else []))
         (search_kwargs k @ [(''keys'', PList [if command_arg = ''GEOSEARCH'' then args ! 0 else args ! 1])]))))))"

definition geosearch_call :: "pyval \<Rightarrow> search_options \<Rightarrow> exc + call" where
  "geosearch_call name k = geosearch_generic ''GEOSEARCH'' [name] (k\<lparr>so_store_dist := PNone\<rparr>)"

definition search_ok :: "search_options \<Rightarrow> bool" where
  "search_ok k = list_all optional [so_member k, so_longitude k, so_latitude k, so_unit k, so_radius k, so_width k, so_height k, so_count k]"

definition geosearchstore_call :: "pyval \<Rightarrow> pyval \<Rightarrow> search_options \<Rightarrow> exc + call" where
  "geosearchstore_call dest name k =
     geosearch_generic ''GEOSEARCHSTORE'' [dest, name] (k\<lparr>so_withcoord := PNone, so_withdist := PNone, so_withhash := PNone\<rparr>)"

section \<open>The calls that can be built\<close>

text \<open>Every method with arguments that can be encoded.\<close>

inductive sorted_call :: "call \<Rightarrow> bool" where
  "encodable name \<Longrightarrow> list_all encodable (flat_pairs mapping) \<Longrightarrow>
     zadd_call name mapping nx xx ch incr gt lt = Inr c \<Longrightarrow> sorted_call c"
| "encodable name \<Longrightarrow> sorted_call (zcard_call name)"
| "encodable name \<Longrightarrow> encodable lo \<Longrightarrow> encodable hi \<Longrightarrow> sorted_call (zcount_call name lo hi)"
| "list_all encodable keys \<Longrightarrow> sorted_call (zdiff_call keys withscores)"
| "encodable dest \<Longrightarrow> list_all encodable keys \<Longrightarrow> sorted_call (zdiffstore_call dest keys)"
| "encodable name \<Longrightarrow> encodable amount \<Longrightarrow> encodable value \<Longrightarrow> sorted_call (zincrby_call name amount value)"
| "zkeys_ok keys \<Longrightarrow> optional aggregate \<Longrightarrow> zinter_call keys aggregate withscores = Inr c \<Longrightarrow> sorted_call c"
| "encodable dest \<Longrightarrow> zkeys_ok keys \<Longrightarrow> optional aggregate \<Longrightarrow>
     zinterstore_call dest keys aggregate = Inr c \<Longrightarrow> sorted_call c"
| "encodable numkeys \<Longrightarrow> list_all encodable keys \<Longrightarrow> encodable limit \<Longrightarrow>
     sorted_call (zintercard_call numkeys keys limit)"
| "encodable name \<Longrightarrow> encodable lo \<Longrightarrow> encodable hi \<Longrightarrow> sorted_call (zlexcount_call name lo hi)"
| "encodable name \<Longrightarrow> optional count_arg \<Longrightarrow> sorted_call (zpopmax_call name count_arg)"
| "encodable name \<Longrightarrow> optional count_arg \<Longrightarrow> sorted_call (zpopmin_call name count_arg)"
| "encodable key \<Longrightarrow> optional count_arg \<Longrightarrow> sorted_call (zrandmember_call key count_arg withscores)"
| "list_all encodable (list_or_args keys []) \<Longrightarrow> encodable timeout \<Longrightarrow> sorted_call (bzpopmax_call keys timeout)"
| "list_all encodable (list_or_args keys []) \<Longrightarrow> encodable timeout \<Longrightarrow> sorted_call (bzpopmin_call keys timeout)"
| "encodable num_keys \<Longrightarrow> list_all encodable keys \<Longrightarrow> encodable count_arg \<Longrightarrow>
     zmpop_call num_keys keys min_flag max_flag count_arg = Inr c \<Longrightarrow> sorted_call c"
| "encodable timeout \<Longrightarrow> encodable numkeys \<Longrightarrow> list_all encodable keys \<Longrightarrow>
     encodable count_arg \<Longrightarrow> bzmpop_call timeout numkeys keys min_flag max_flag count_arg = Inr c \<Longrightarrow> sorted_call c"
| "encodable name \<Longrightarrow> encodable start \<Longrightarrow> encodable stop \<Longrightarrow>
     sorted_call (zrevrange_call name start stop withscores score_cast_func)"
| "encodable name \<Longrightarrow> encodable start \<Longrightarrow> encodable stop \<Longrightarrow> optional offset \<Longrightarrow>
     optional num \<Longrightarrow> zrange_call name start stop desc withscores score_cast_func byscore bylex offset num = Inr c \<Longrightarrow>
     sorted_call c"
| "encodable dest \<Longrightarrow> encodable name \<Longrightarrow> encodable start \<Longrightarrow> encodable stop \<Longrightarrow>
     optional offset \<Longrightarrow> optional num \<Longrightarrow>
     zrangestore_call dest name start stop byscore bylex desc offset num = Inr c \<Longrightarrow> sorted_call c"
| "encodable name \<Longrightarrow> encodable lo \<Longrightarrow> encodable hi \<Longrightarrow> optional start \<Longrightarrow>
     optional num \<Longrightarrow> zrangebylex_call name lo hi start num = Inr c \<Longrightarrow> sorted_call c"
| "encodable name \<Longrightarrow> encodable hi \<Longrightarrow> encodable lo \<Longrightarrow> optional start \<Longrightarrow>
     optional num \<Longrightarrow> zrevrangebylex_call name hi lo start num = Inr c \<Longrightarrow> sorted_call c"
| "encodable name \<Longrightarrow> encodable lo \<Longrightarrow> encodable hi \<Longrightarrow> optional start \<Longrightarrow>
     optional num \<Longrightarrow> zrangebyscore_call name lo hi start num withscores score_cast_func = Inr c \<Longrightarrow> sorted_call c"
| "encodable name \<Longrightarrow> encodable hi \<Longrightarrow> encodable lo \<Longrightarrow> optional start \<Longrightarrow>
     optional num \<Longrightarrow> zrevrangebyscore_call name hi lo start num withscores score_cast_func = Inr c \<Longrightarrow> sorted_call c"
| "encodable name \<Longrightarrow> encodable value \<Longrightarrow> sorted_call (zrank_call name value withscore)"
| "encodable name \<Longrightarrow> list_all encodable values \<Longrightarrow> sorted_call (zrem_call name values)"
| "encodable name \<Longrightarrow> encodable lo \<Longrightarrow> encodable hi \<Longrightarrow> sorted_call (zremrangebylex_call name lo hi)"
| "encodable name \<Longrightarrow> encodable lo \<Longrightarrow> encodable hi \<Longrightarrow> sorted_call (zremrangebyrank_call name lo hi)"
| "encodable name \<Longrightarrow> encodable lo \<Longrightarrow> encodable hi \<Longrightarrow> sorted_call (zremrangebyscore_call name lo hi)"
| "encodable name \<Longrightarrow> encodable value \<Longrightarrow> sorted_call (zrevrank_call name value withscore)"
| "encodable name \<Longrightarrow> encodable value \<Longrightarrow> sorted_call (zscore_call name value)"
| "zkeys_ok keys \<Longrightarrow> optional aggregate \<Longrightarrow> zunion_call keys aggregate withscores = Inr c \<Longrightarrow> sorted_call c"
| "encodable dest \<Longrightarrow> zkeys_ok keys \<Longrightarrow> optional aggregate \<Longrightarrow>
     zunionstore_call dest keys aggregate = Inr c \<Longrightarrow> sorted_call c"
| "encodable key \<Longrightarrow> list_all encodable members \<Longrightarrow> zmscore_call key members = Inr c \<Longrightarrow> sorted_call c"
| "encodable name \<Longrightarrow> list_all encodable values \<Longrightarrow> geoadd_call name values nx xx ch = Inr c \<Longrightarrow>
     sorted_call c"
| "encodable name \<Longrightarrow> encodable place1 \<Longrightarrow> encodable place2 \<Longrightarrow> optional unit_arg \<Longrightarrow>
     geodist_call name place1 place2 unit_arg = Inr c \<Longrightarrow> sorted_call c"
| "encodable name \<Longrightarrow> list_all encodable values \<Longrightarrow> sorted_call (geohash_call name values)"
| "encodable name \<Longrightarrow> list_all encodable values \<Longrightarrow> sorted_call (geopos_call name values)"
| "encodable name \<Longrightarrow> encodable longitude \<Longrightarrow> encodable latitude \<Longrightarrow> encodable radius \<Longrightarrow>
     radius_ok k \<Longrightarrow> georadius_call name longitude latitude radius k = Inr c \<Longrightarrow> sorted_call c"
| "encodable name \<Longrightarrow> encodable member \<Longrightarrow> encodable radius \<Longrightarrow> radius_ok k \<Longrightarrow>
     georadiusbymember_call name member radius k = Inr c \<Longrightarrow> sorted_call c"
| "encodable name \<Longrightarrow> search_ok k \<Longrightarrow> geosearch_call name k = Inr c \<Longrightarrow> sorted_call c"
| "encodable dest \<Longrightarrow> encodable name \<Longrightarrow> search_ok k \<Longrightarrow>
     geosearchstore_call dest name k = Inr c \<Longrightarrow> sorted_call c"

lemmas sorted_call_defs = zadd_call_def zcard_call_def zcount_call_def zdiff_call_def zdiffstore_call_def zincrby_call_def zaggregate_def
  zinter_call_def zinterstore_call_def zintercard_call_def zlexcount_call_def zpopmax_call_def zpopmin_call_def zrandmember_call_def
  bzpopmax_call_def bzpopmin_call_def zmpop_call_def bzmpop_call_def zrange_generic_def zrevrange_call_def zrange_call_def
  zrevrange_call_def zrangestore_call_def zrangebylex_call_def zrevrangebylex_call_def zrangebyscore_call_def zrevrangebyscore_call_def
  zrank_call_def zrem_call_def zremrangebylex_call_def zremrangebyrank_call_def zremrangebyscore_call_def zrevrank_call_def zscore_call_def
  zunion_call_def zunionstore_call_def zmscore_call_def geoadd_call_def geodist_call_def geohash_call_def geopos_call_def georadius_call_def
  georadiusbymember_call_def geosearch_call_def geosearchstore_call_def

end
