(* ===== verification/StreamCommands.thy ===== *)
theory StreamCommands
  imports CommandCall
begin

text \<open>
  The commands on streams (\<open>redis/commands/core.py\<close>).
\<close>

section \<open>\<open>StreamCommands\<close>\<close>

definition xack_call :: "pyval \<Rightarrow> pyval \<Rightarrow> pyval list \<Rightarrow> call" where
  "xack_call name groupname ids =
     call ([PStr ''XACK'', name, groupname] @ ids) []"

definition xadd_call :: "pyval \<Rightarrow> pyval \<Rightarrow> pyval \<Rightarrow> pyval \<Rightarrow> bool \<Rightarrow> bool \<Rightarrow> pyval \<Rightarrow> pyval \<Rightarrow> exc + call" where
  "xadd_call name fields_arg ident maxlen approximate nomkstream minid limit =
     (if maxlen \<noteq> PNone \<and> minid \<noteq> PNone then Inl (Exc DataError ''Only one of ```maxlen``` or ```minid``` may be specified'')
      else if maxlen \<noteq> PNone \<and> (\<not> is_int maxlen \<or> int_of_val maxlen < 0) then Inl (Exc DataError ''XADD maxlen must be non-negative integer'')
      else (case fields_arg of
         PDict (p # ps) \<Rightarrow> Inr (call ([PStr ''XADD'', name] @
           (if maxlen \<noteq> PNone then [PBytes ''MAXLEN''] @ (if approximate then [PBytes ''~''] else []) @ [PStr (str_of_int maxlen)] else []) @
           (if minid \<noteq> PNone then [PBytes ''MINID''] @ (if approximate then [PBytes ''~''] else []) @ [minid] else []) @
           (if limit \<noteq> PNone then [PBytes ''LIMIT'', limit] else []) @ (if nomkstream then [PBytes ''NOMKSTREAM''] else []) @ [ident] @
           flat_pairs (p # ps)) [])
       | _ \<Rightarrow> Inl (Exc DataError ''XADD fields must be a non-empty dict'')))"

text \<open>\<open>try: if int(v) < 0: raise ... except TypeError: pass\<close>; \<open>None\<close> is such a TypeError.\<close>

definition not_negative :: "string \<Rightarrow> pyval \<Rightarrow> pyval list \<Rightarrow> exc + pyval list" where
  "not_negative msg v pieces =
     (case to_int v of
        Inr n \<Rightarrow> if n < 0 then Inl (data_error msg) else Inr pieces
      | Inl e \<Rightarrow> if isinstance e TypeError then Inr [] else Inl e)"

definition xautoclaim_call :: "pyval \<Rightarrow> pyval \<Rightarrow> pyval \<Rightarrow> pyval \<Rightarrow> pyval \<Rightarrow> pyval \<Rightarrow> bool \<Rightarrow> exc + call" where
  "xautoclaim_call name groupname consumername min_idle_time start_id count_arg justid =
     bindE (not_negative ''XAUTOCLAIM min_idle_time must be a nonnegative integer'' min_idle_time []) (\<lambda>_.
     bindE (not_negative ''XPENDING count must be a integer >= 0'' count_arg [PBytes ''COUNT'', count_arg]) (\<lambda>count_piece.
       Inr (call ([PStr ''XAUTOCLAIM'', name, groupname, consumername, min_idle_time, start_id] @ count_piece @
         (if justid then [PBytes ''JUSTID''] else [])) (if justid then [(''parse_justid'', PBool True)] else []))))"

text \<open>An option that must be an integer, sent as text.\<close>

definition xclaim_piece :: "string \<Rightarrow> string \<Rightarrow> pyval \<Rightarrow> exc + pyval list" where
  "xclaim_piece word what v =
     (if v = PNone then Inr []
      else if \<not> is_int v then Inl (Exc DataError (''XCLAIM '' @ what @ '' must be an integer''))
      else Inr [PBytes word, PStr (str_of_int v)])"

definition xclaim_ids :: "pyval \<Rightarrow> exc + pyval list" where
  "xclaim_ids message_ids =
     (case message_ids of
        PList (m # ms) \<Rightarrow> Inr (m # ms)
      | PTuple (m # ms) \<Rightarrow> Inr (m # ms)
      | _ \<Rightarrow> Inl (Exc DataError ''XCLAIM message_ids must be a non empty list or tuple of message IDs to claim''))"

definition ids_ok :: "pyval \<Rightarrow> bool" where
  "ids_ok ids = (\<forall>xs. ids = PList xs \<or> ids = PTuple xs \<longrightarrow> list_all encodable xs)"

definition xclaim_call ::
  "pyval \<Rightarrow> pyval \<Rightarrow> pyval \<Rightarrow> pyval \<Rightarrow> pyval \<Rightarrow> pyval \<Rightarrow> pyval \<Rightarrow> pyval \<Rightarrow> pyval \<Rightarrow> pyval \<Rightarrow> exc + call" where
  "xclaim_call name groupname consumername min_idle_time message_ids idle time_arg retrycount force justid =
     (if \<not> is_int min_idle_time \<or> int_of_val min_idle_time < 0 then Inl (Exc DataError ''XCLAIM min_idle_time must be a non negative integer'')
      else bindE (xclaim_ids message_ids) (\<lambda>ids.
        bindE (xclaim_piece ''IDLE'' ''idle'' idle) (\<lambda>idle_piece.
        bindE (xclaim_piece ''TIME'' ''time'' time_arg) (\<lambda>time_piece.
        bindE (xclaim_piece ''RETRYCOUNT'' ''retrycount'' retrycount) (\<lambda>retry_piece.
        if truthy force \<and> force \<noteq> PBool True then Inl (Exc DataError ''XCLAIM force must be a boolean'')
        else if truthy justid \<and> justid \<noteq> PBool True then Inl (Exc DataError ''XCLAIM justid must be a boolean'')
        else Inr (call ([PStr ''XCLAIM'', name, groupname, consumername, PStr (str_of_int min_idle_time)] @ ids @ idle_piece @ time_piece @
          retry_piece @ (if truthy force then [PBytes ''FORCE''] else []) @ (if truthy justid then [PBytes ''JUSTID''] else []))
          (if truthy justid then [(''parse_justid'', PBool True)] else [])))))))"

definition xdel_call :: "pyval \<Rightarrow> pyval list \<Rightarrow> call" where
  "xdel_call name ids =
     call ([PStr ''XDEL'', name] @ ids) []"

definition xgroup_create_call :: "pyval \<Rightarrow> pyval \<Rightarrow> pyval \<Rightarrow> bool \<Rightarrow> pyval \<Rightarrow> call" where
  "xgroup_create_call name groupname ident mkstream entries_read =
     call ([PStr ''XGROUP CREATE'', name, groupname, ident] @ (if mkstream then [PBytes ''MKSTREAM''] else []) @
        (if entries_read \<noteq> PNone then [PStr ''ENTRIESREAD'', entries_read] else [])) []"

definition xgroup_delconsumer_call :: "pyval \<Rightarrow> pyval \<Rightarrow> pyval \<Rightarrow> call" where
  "xgroup_delconsumer_call name groupname consumername =
     call [PStr ''XGROUP DELCONSUMER'', name, groupname, consumername] []"

definition xgroup_destroy_call :: "pyval \<Rightarrow> pyval \<Rightarrow> call" where
  "xgroup_destroy_call name groupname =
     call [PStr ''XGROUP DESTROY'', name, groupname] []"

definition xgroup_createconsumer_call :: "pyval \<Rightarrow> pyval \<Rightarrow> pyval \<Rightarrow> call" where
  "xgroup_createconsumer_call name groupname consumername =
     call [PStr ''XGROUP CREATECONSUMER'', name, groupname, consumername] []"

definition xgroup_setid_call :: "pyval \<Rightarrow> pyval \<Rightarrow> pyval \<Rightarrow> pyval \<Rightarrow> call" where
  "xgroup_setid_call name groupname ident entries_read =
     call ([PStr ''XGROUP SETID''] @ [name, groupname, ident] @ (if entries_read \<noteq> PNone then [PStr ''ENTRIESREAD'', entries_read] else [])) []"

definition xinfo_consumers_call :: "pyval \<Rightarrow> pyval \<Rightarrow> call" where
  "xinfo_consumers_call name groupname =
     call [PStr ''XINFO CONSUMERS'', name, groupname] []"

definition xinfo_groups_call :: "pyval \<Rightarrow> call" where
  "xinfo_groups_call name =
     call [PStr ''XINFO GROUPS'', name] []"

definition xinfo_stream_call :: "pyval \<Rightarrow> bool \<Rightarrow> call" where
  "xinfo_stream_call name full =
     call ([PStr ''XINFO STREAM'', name] @ (if full then [PBytes ''FULL''] else [])) (if full then [(''full'', PBool full)] else [])"

definition xlen_call :: "pyval \<Rightarrow> call" where
  "xlen_call name =
     call [PStr ''XLEN'', name] [(''keys'', PList [name])]"

definition xpending_call :: "pyval \<Rightarrow> pyval \<Rightarrow> call" where
  "xpending_call name groupname =
     call [PStr ''XPENDING'', name, groupname] [(''keys'', PList [name])]"

definition xpending_range_call :: "pyval \<Rightarrow> pyval \<Rightarrow> pyval \<Rightarrow> pyval \<Rightarrow> pyval \<Rightarrow> pyval \<Rightarrow> pyval \<Rightarrow> exc + call" where
  "xpending_range_call name groupname lo hi count_arg consumername idle =
     (if lo = PNone \<and> hi = PNone \<and> count_arg = PNone then
        (if idle \<noteq> PNone \<or> consumername \<noteq> PNone
         then Inl (Exc DataError ''if XPENDING is provided with idle time or consumername, it must be provided with min, max and count parameters'')
         else Inr (xpending_call name groupname))
      else if lo = PNone \<or> hi = PNone \<or> count_arg = PNone
      then Inl (Exc DataError ''XPENDING must be provided with min, max and count parameters, or none of them.'')
      else bindE (not_negative ''XPENDING idle must be a integer >= 0'' idle [PStr ''IDLE'', idle]) (\<lambda>idle_piece.
        bindE (not_negative ''XPENDING count must be a integer >= 0'' count_arg [lo, hi, count_arg]) (\<lambda>range.
          Inr (call ([PStr ''XPENDING'', name, groupname] @ idle_piece @ range @ (if truthy consumername then [consumername] else []))
            [(''parse_detail'', PBool True)]))))"

definition xrange_call :: "pyval \<Rightarrow> pyval \<Rightarrow> pyval \<Rightarrow> pyval \<Rightarrow> exc + call" where
  "xrange_call name lo hi count_arg =
     bindE (int_piece ''COUNT'' 1 ''XRANGE count must be a positive integer'' count_arg) (\<lambda>count_piece.
       Inr (call ([PStr ''XRANGE'', name, lo, hi] @ count_piece) [(''keys'', PList [name])]))"

text \<open>The streams must be a dict with an element.\<close>

definition streams_of :: "string \<Rightarrow> pyval \<Rightarrow> exc + (pyval \<times> pyval) list" where
  "streams_of msg streams = (case streams of PDict (p # ps) \<Rightarrow> Inr (p # ps) | _ \<Rightarrow> Inl (data_error msg))"

definition xread_call :: "pyval \<Rightarrow> pyval \<Rightarrow> pyval \<Rightarrow> exc + call" where
  "xread_call streams count_arg block =
     bindE (int_piece ''BLOCK'' 0 ''XREAD block must be a non-negative integer'' block) (\<lambda>block_piece.
     bindE (int_piece ''COUNT'' 1 ''XREAD count must be a positive integer'' count_arg) (\<lambda>count_piece.
     bindE (streams_of ''XREAD streams must be a non empty dict'' streams) (\<lambda>d.
       Inr (call ([PStr ''XREAD''] @ block_piece @ count_piece @ [PBytes ''STREAMS''] @ map fst d @ map snd d) [(''keys'', PTuple (map fst d))]))))"

definition xreadgroup_call :: "pyval \<Rightarrow> pyval \<Rightarrow> pyval \<Rightarrow> pyval \<Rightarrow> pyval \<Rightarrow> bool \<Rightarrow> exc + call" where
  "xreadgroup_call groupname consumername streams count_arg block noack =
     bindE (int_piece ''COUNT'' 1 ''XREADGROUP count must be a positive integer'' count_arg) (\<lambda>count_piece.
     bindE (int_piece ''BLOCK'' 0 ''XREADGROUP block must be a non-negative integer'' block) (\<lambda>block_piece.
     bindE (streams_of ''XREADGROUP streams must be a non empty dict'' streams) (\<lambda>d.
       Inr (call ([PStr ''XREADGROUP'', PBytes ''GROUP'', groupname, consumername] @ count_piece @ block_piece @
         (if noack then [PBytes ''NOACK''] else []) @ [PBytes ''STREAMS''] @ map fst d @ map snd d) []))))"

definition xrevrange_call :: "pyval \<Rightarrow> pyval \<Rightarrow> pyval \<Rightarrow> pyval \<Rightarrow> exc + call" where
  "xrevrange_call name hi lo count_arg =
     bindE (int_piece ''COUNT'' 1 ''XREVRANGE count must be a positive integer'' count_arg) (\<lambda>count_piece.
       Inr (call ([PStr ''XREVRANGE'', name, hi, lo] @ count_piece) [(''keys'', PList [name])]))"

definition xtrim_call :: "pyval \<Rightarrow> pyval \<Rightarrow> bool \<Rightarrow> pyval \<Rightarrow> pyval \<Rightarrow> exc + call" where
  "xtrim_call name maxlen approximate minid limit =
     (if (maxlen \<noteq> PNone) \<and> (minid \<noteq> PNone) then Inl (Exc DataError ''Only one of ``maxlen`` or ``minid`` may be specified'')
     else (if (maxlen = PNone) \<and> (minid = PNone) then Inl (Exc DataError ''One of ``maxlen`` or ``minid`` must be specified'')
     else Inr (call ([PStr ''XTRIM'', name] @ (if maxlen \<noteq> PNone then [PBytes ''MAXLEN''] else []) @
             (if minid \<noteq> PNone then [PBytes ''MINID''] else []) @ (if approximate then [PBytes ''~''] else []) @
             (if maxlen \<noteq> PNone then [maxlen] else []) @ (if minid \<noteq> PNone then [minid] else []) @
             (if limit \<noteq> PNone then [PBytes ''LIMIT'', limit] else [])) [])))"

section \<open>The calls that can be built\<close>

text \<open>Every method with arguments that can be encoded.\<close>

inductive stream_call :: "call \<Rightarrow> bool" where
  "encodable name \<Longrightarrow> encodable groupname \<Longrightarrow> list_all encodable ids \<Longrightarrow>
     stream_call (xack_call name groupname ids)"
| "encodable name \<Longrightarrow> dict_ok fields_arg \<Longrightarrow> encodable ident \<Longrightarrow> optional minid \<Longrightarrow>
     optional limit \<Longrightarrow> xadd_call name fields_arg ident maxlen approximate nomkstream minid limit = Inr c \<Longrightarrow>
     stream_call c"
| "encodable name \<Longrightarrow> encodable groupname \<Longrightarrow> encodable consumername \<Longrightarrow>
     encodable min_idle_time \<Longrightarrow> encodable start_id \<Longrightarrow> optional count_arg \<Longrightarrow>
     xautoclaim_call name groupname consumername min_idle_time start_id count_arg justid = Inr c \<Longrightarrow> stream_call c"
| "encodable name \<Longrightarrow> encodable groupname \<Longrightarrow> encodable consumername \<Longrightarrow> ids_ok message_ids \<Longrightarrow>
     xclaim_call name groupname consumername min_idle_time message_ids idle time_arg retrycount force justid = Inr c \<Longrightarrow> stream_call c"
| "encodable name \<Longrightarrow> list_all encodable ids \<Longrightarrow> stream_call (xdel_call name ids)"
| "encodable name \<Longrightarrow> encodable groupname \<Longrightarrow> encodable ident \<Longrightarrow> optional entries_read \<Longrightarrow>
     stream_call (xgroup_create_call name groupname ident mkstream entries_read)"
| "encodable name \<Longrightarrow> encodable groupname \<Longrightarrow> encodable consumername \<Longrightarrow>
     stream_call (xgroup_delconsumer_call name groupname consumername)"
| "encodable name \<Longrightarrow> encodable groupname \<Longrightarrow> stream_call (xgroup_destroy_call name groupname)"
| "encodable name \<Longrightarrow> encodable groupname \<Longrightarrow> encodable consumername \<Longrightarrow>
     stream_call (xgroup_createconsumer_call name groupname consumername)"
| "encodable name \<Longrightarrow> encodable groupname \<Longrightarrow> encodable ident \<Longrightarrow> optional entries_read \<Longrightarrow>
     stream_call (xgroup_setid_call name groupname ident entries_read)"
| "encodable name \<Longrightarrow> encodable groupname \<Longrightarrow> stream_call (xinfo_consumers_call name groupname)"
| "encodable name \<Longrightarrow> stream_call (xinfo_groups_call name)"
| "encodable name \<Longrightarrow> stream_call (xinfo_stream_call name full)"
| "encodable name \<Longrightarrow> stream_call (xlen_call name)"
| "encodable name \<Longrightarrow> encodable groupname \<Longrightarrow> stream_call (xpending_call name groupname)"
| "encodable name \<Longrightarrow> encodable groupname \<Longrightarrow> optional lo \<Longrightarrow> optional hi \<Longrightarrow>
     optional count_arg \<Longrightarrow> optional consumername \<Longrightarrow> optional idle \<Longrightarrow>
     xpending_range_call name groupname lo hi count_arg consumername idle = Inr c \<Longrightarrow> stream_call c"
| "encodable name \<Longrightarrow> encodable lo \<Longrightarrow> encodable hi \<Longrightarrow>
     xrange_call name lo hi count_arg = Inr c \<Longrightarrow> stream_call c"
| "dict_ok streams \<Longrightarrow> xread_call streams count_arg block = Inr c \<Longrightarrow> stream_call c"
| "encodable groupname \<Longrightarrow> encodable consumername \<Longrightarrow> dict_ok streams \<Longrightarrow>
     xreadgroup_call groupname consumername streams count_arg block noack = Inr c \<Longrightarrow> stream_call c"
| "encodable name \<Longrightarrow> encodable hi \<Longrightarrow> encodable lo \<Longrightarrow>
     xrevrange_call name hi lo count_arg = Inr c \<Longrightarrow> stream_call c"
| "encodable name \<Longrightarrow> optional maxlen \<Longrightarrow> optional minid \<Longrightarrow> optional limit \<Longrightarrow>
     xtrim_call name maxlen approximate minid limit = Inr c \<Longrightarrow> stream_call c"

lemmas stream_call_defs = xack_call_def xadd_call_def xautoclaim_call_def xclaim_call_def xdel_call_def xgroup_create_call_def
  xgroup_delconsumer_call_def xgroup_destroy_call_def xgroup_createconsumer_call_def xgroup_setid_call_def xinfo_consumers_call_def
  xinfo_groups_call_def xinfo_stream_call_def xlen_call_def xpending_call_def xpending_range_call_def xrange_call_def xread_call_def
  xreadgroup_call_def xrevrange_call_def xtrim_call_def

end
