(* ===== verification/ServerCommands.thy ===== *)
theory ServerCommands
  imports CommandCall
begin

text \<open>
  The commands on the server, its users, clients, scripts, functions and modules (\<open>redis/commands/core.py\<close>).
\<close>

section \<open>\<open>ACLCommands\<close>\<close>

definition acl_cat_call :: "pyval \<Rightarrow> kwargs \<Rightarrow> call" where
  "acl_cat_call category kw =
     call ([PStr ''ACL CAT''] @ (if truthy category then [category] else [])) kw"

definition acl_dryrun_call :: "pyval \<Rightarrow> pyval list \<Rightarrow> kwargs \<Rightarrow> call" where
  "acl_dryrun_call username args kw =
     call ([PStr ''ACL DRYRUN'', username] @ args) kw"

definition acl_deluser_call :: "pyval list \<Rightarrow> kwargs \<Rightarrow> call" where
  "acl_deluser_call username kw =
     call ([PStr ''ACL DELUSER''] @ username) kw"

definition acl_genpass_call :: "pyval \<Rightarrow> kwargs \<Rightarrow> exc + call" where
  "acl_genpass_call bits kw =
     (let bad = Exc DataError ''genpass optionally accepts a bits argument, between 0 and 4096.''
      in if bits = PNone then Inr (call [PStr ''ACL GENPASS''] kw)
         else (case to_int bits of
            Inr b \<Rightarrow> if b < 0 \<or> b > 4096 then Inl bad else Inr (call [PStr ''ACL GENPASS'', PInt b] kw)
          | Inl e \<Rightarrow> Inl (if isinstance e ValueError then bad else e)))"

definition acl_getuser_call :: "pyval \<Rightarrow> kwargs \<Rightarrow> call" where
  "acl_getuser_call username kw =
     call [PStr ''ACL GETUSER'', username] kw"

definition acl_help_call :: "kwargs \<Rightarrow> call" where
  "acl_help_call kw =
     call [PStr ''ACL HELP''] kw"

definition acl_list_call :: "kwargs \<Rightarrow> call" where
  "acl_list_call kw =
     call [PStr ''ACL LIST''] kw"

definition acl_log_call :: "pyval \<Rightarrow> kwargs \<Rightarrow> exc + call" where
  "acl_log_call count_arg kw =
     (if count_arg \<noteq> PNone \<and> \<not> is_int count_arg then Inl (Exc DataError ''ACL LOG count must be an integer'')
      else Inr (call ([PStr ''ACL LOG''] @ (if count_arg \<noteq> PNone then [count_arg] else [])) kw))"

definition acl_log_reset_call :: "kwargs \<Rightarrow> call" where
  "acl_log_reset_call kw =
     call ([PStr ''ACL LOG''] @ [PBytes ''RESET'']) kw"

definition acl_load_call :: "kwargs \<Rightarrow> call" where
  "acl_load_call kw =
     call [PStr ''ACL LOAD''] kw"

definition acl_save_call :: "kwargs \<Rightarrow> call" where
  "acl_save_call kw =
     call [PStr ''ACL SAVE''] kw"

text \<open>The rules of a user; each is encoded and checked for its prefix.\<close>

record acl_rules =
  ar_enabled :: bool
  ar_nopass :: bool
  ar_passwords :: pyval
  ar_hashed_passwords :: pyval
  ar_categories :: "pyval list"
  ar_commands :: "pyval list"
  ar_keys :: "pyval list"
  ar_channels :: "pyval list"
  ar_selectors :: "(pyval \<times> pyval) list"
  ar_reset :: bool
  ar_reset_keys :: bool
  ar_reset_channels :: bool
  ar_reset_passwords :: bool

definition acl_bytes :: "encoder \<Rightarrow> pyval \<Rightarrow> exc + string" where
  "acl_bytes enc v =
     bindE (encode enc v) (\<lambda>b. case b of PBytes s \<Rightarrow> Inr s | _ \<Rightarrow> Inl (Exc AttributeError ''startswith''))"

definition acl_password :: "encoder \<Rightarrow> string \<Rightarrow> string \<Rightarrow> string \<Rightarrow> pyval \<Rightarrow> exc + pyval" where
  "acl_password enc add remove what v =
     bindE (acl_bytes enc v) (\<lambda>s.
       if starts_with ''+'' s then Inr (PBytes (add @ tl s))
       else if starts_with ''-'' s then Inr (PBytes (remove @ tl s))
       else Inl (data_error what))"

definition acl_category :: "encoder \<Rightarrow> pyval \<Rightarrow> exc + pyval" where
  "acl_category enc v =
     bindE (acl_bytes enc v) (\<lambda>s.
       if starts_with ''+@'' s then Inr (PBytes s)
       else if starts_with ''+'' s then Inr (PBytes (''+@'' @ tl s))
       else if starts_with ''-@'' s then Inr (PBytes s)
       else if starts_with ''-'' s then Inr (PBytes (''-@'' @ tl s))
       else Inl (Exc DataError (''Category '' @ [CHR 34])))"

definition acl_command :: "encoder \<Rightarrow> pyval \<Rightarrow> exc + string" where
  "acl_command enc v =
     bindE (acl_bytes enc v) (\<lambda>s.
       if \<not> starts_with ''+'' s \<and> \<not> starts_with ''-'' s then Inl (Exc DataError (''Command '' @ [CHR 34])) else Inr s)"

definition acl_key :: "encoder \<Rightarrow> pyval \<Rightarrow> exc + string" where
  "acl_key enc v =
     bindE (acl_bytes enc v) (\<lambda>s. Inr (if \<not> starts_with ''%'' s \<and> \<not> starts_with ''~'' s then ''~'' @ s else s))"

definition acl_selector :: "encoder \<Rightarrow> pyval \<times> pyval \<Rightarrow> exc + pyval" where
  "acl_selector enc p =
     (case p of (cmd, key) \<Rightarrow>
        bindE (acl_command enc cmd) (\<lambda>c. bindE (acl_key enc key) (\<lambda>k. Inr (PBytes (''('' @ c @ '' '' @ k @ '')'')))))"

definition acl_setuser_call :: "encoder \<Rightarrow> pyval \<Rightarrow> acl_rules \<Rightarrow> kwargs \<Rightarrow> exc + call" where
  "acl_setuser_call enc username r kw =
     (if (truthy (ar_passwords r) \<or> truthy (ar_hashed_passwords r)) \<and> ar_nopass r
      then Inl (Exc DataError (''Cannot set 'nopass' and supply 'passwords' or 'hashed_passwords'' @ [CHR 39]))
      else
        bindE (if truthy (ar_passwords r) then mapE (acl_password enc ''>'' ''<'' ''Password '') (list_or_args (ar_passwords r) []) else Inr []) (\<lambda>passwords.
        bindE (if truthy (ar_hashed_passwords r) then mapE (acl_password enc ''#'' ''!'' ''Hashed password '') (list_or_args (ar_hashed_passwords r) [])
               else Inr []) (\<lambda>hashed.
        bindE (mapE (acl_category enc) (ar_categories r)) (\<lambda>categories.
        bindE (mapE (acl_command enc) (ar_commands r)) (\<lambda>commands.
        bindE (mapE (acl_key enc) (ar_keys r)) (\<lambda>keys.
        bindE (mapE (\<lambda>v. bindE (encode enc v) (\<lambda>b. Inr (PBytes (''&'' @ raw b)))) (ar_channels r)) (\<lambda>channels.
        bindE (mapE (acl_selector enc) (ar_selectors r)) (\<lambda>selectors.
          Inr (call ([PStr ''ACL SETUSER'', username] @ (if ar_reset r then [PBytes ''reset''] else []) @
            (if ar_reset_keys r then [PBytes ''resetkeys''] else []) @ (if ar_reset_channels r then [PBytes ''resetchannels''] else []) @
            (if ar_reset_passwords r then [PBytes ''resetpass''] else []) @ [PBytes (if ar_enabled r then ''on'' else ''off'')] @
            passwords @ hashed @ (if ar_nopass r then [PBytes ''nopass''] else []) @ categories @ map PBytes commands @ map PBytes keys @
            channels @ selectors) kw)))))))))"

definition acl_users_call :: "kwargs \<Rightarrow> call" where
  "acl_users_call kw =
     call [PStr ''ACL USERS''] kw"

definition acl_whoami_call :: "kwargs \<Rightarrow> call" where
  "acl_whoami_call kw =
     call [PStr ''ACL WHOAMI''] kw"

section \<open>\<open>ManagementCommands\<close>\<close>

definition auth_call :: "pyval \<Rightarrow> pyval \<Rightarrow> kwargs \<Rightarrow> call" where
  "auth_call password username kw =
     call ([PStr ''AUTH''] @ (if username \<noteq> PNone then [username] else []) @ [password]) kw"

definition bgrewriteaof_call :: "kwargs \<Rightarrow> call" where
  "bgrewriteaof_call kw =
     call [PStr ''BGREWRITEAOF''] kw"

definition bgsave_call :: "bool \<Rightarrow> kwargs \<Rightarrow> call" where
  "bgsave_call schedule kw =
     call ([PStr ''BGSAVE''] @ (if schedule then [PStr ''SCHEDULE''] else [])) kw"

definition role_call :: "call" where
  "role_call =
     call [PStr ''ROLE''] []"

definition client_kill_call :: "pyval \<Rightarrow> kwargs \<Rightarrow> call" where
  "client_kill_call address kw =
     call [PStr ''CLIENT KILL'', address] kw"

text \<open>\<open>str(v).lower() in types\<close>.\<close>

definition type_among :: "string list \<Rightarrow> pyval \<Rightarrow> bool" where
  "type_among types v = (case v of PStr s \<Rightarrow> lower s \<in> set types | _ \<Rightarrow> False)"

definition client_kill_filter_call ::
  "pyval \<Rightarrow> pyval \<Rightarrow> pyval \<Rightarrow> pyval \<Rightarrow> pyval \<Rightarrow> pyval \<Rightarrow> pyval \<Rightarrow> kwargs \<Rightarrow> exc + call" where
  "client_kill_filter_call id_arg type_arg addr skipme laddr user maxage kw =
     (if type_arg \<noteq> PNone \<and> \<not> type_among [''normal'', ''master'', ''slave'', ''pubsub''] type_arg
      then Inl (Exc DataError ''CLIENT KILL type must be one of '')
      else if skipme \<noteq> PNone \<and> skipme \<noteq> PBool True \<and> skipme \<noteq> PBool False then Inl (Exc DataError ''CLIENT KILL skipme must be a bool'')
      else let args = (if type_arg \<noteq> PNone then [PBytes ''TYPE'', type_arg] else []) @
             (if skipme \<noteq> PNone then [PBytes ''SKIPME'', PBytes (if skipme = PBool True then ''YES'' else ''NO'')] else []) @
             (if id_arg \<noteq> PNone then [PBytes ''ID'', id_arg] else []) @ (if addr \<noteq> PNone then [PBytes ''ADDR'', addr] else []) @
             (if laddr \<noteq> PNone then [PBytes ''LADDR'', laddr] else []) @ (if user \<noteq> PNone then [PBytes ''USER'', user] else []) @
             (if maxage \<noteq> PNone then [PBytes ''MAXAGE'', maxage] else [])
           in if args = [] then Inl (Exc DataError ''CLIENT KILL <filter> <value> ... ... <filter> <value> must specify at least one filter'')
              else Inr (call ([PStr ''CLIENT KILL''] @ args) kw))"

definition client_info_call :: "kwargs \<Rightarrow> call" where
  "client_info_call kw =
     call [PStr ''CLIENT INFO''] kw"

text \<open>The ids are joined by spaces into one argument, which must be texts.\<close>

definition joined_ids :: "pyval list \<Rightarrow> exc + string" where
  "joined_ids ids =
     bindE (mapE (\<lambda>v. case v of PStr s \<Rightarrow> Inr s | _ \<Rightarrow> Inl (Exc TypeError ''sequence item: expected str instance'')) ids)
       (\<lambda>ss. Inr (join_with '' '' ss))"

definition client_list_call :: "pyval \<Rightarrow> pyval \<Rightarrow> kwargs \<Rightarrow> exc + call" where
  "client_list_call type_arg client_id kw =
     (if type_arg \<noteq> PNone \<and> \<not> type_among [''normal'', ''master'', ''replica'', ''pubsub''] type_arg
      then Inl (Exc DataError ''CLIENT LIST _type must be one of '')
      else (case client_id of
         PList ids \<Rightarrow>
           bindE (if ids \<noteq> [] then bindE (joined_ids ids) (\<lambda>s. Inr [PBytes ''ID'', PStr s]) else Inr []) (\<lambda>id_piece.
             Inr (call ([PStr ''CLIENT LIST''] @ (if type_arg \<noteq> PNone then [PBytes ''TYPE'', type_arg] else []) @ id_piece) kw))
       | _ \<Rightarrow> Inl (Exc DataError ''client_id must be a list'')))"

definition client_getname_call :: "kwargs \<Rightarrow> call" where
  "client_getname_call kw =
     call [PStr ''CLIENT GETNAME''] kw"

definition client_getredir_call :: "kwargs \<Rightarrow> call" where
  "client_getredir_call kw =
     call [PStr ''CLIENT GETREDIR''] kw"

definition client_reply_call :: "pyval \<Rightarrow> kwargs \<Rightarrow> exc + call" where
  "client_reply_call reply kw =
     (if reply \<notin> {PStr ''ON'', PStr ''OFF'', PStr ''SKIP''} then Inl (Exc DataError ''CLIENT REPLY must be one of '')
      else Inr (call [PStr ''CLIENT REPLY'', reply] kw))"

definition client_id_call :: "kwargs \<Rightarrow> call" where
  "client_id_call kw =
     call [PStr ''CLIENT ID''] kw"

definition client_tracking_call :: "bool \<Rightarrow> pyval \<Rightarrow> pyval list \<Rightarrow> bool \<Rightarrow> bool \<Rightarrow> bool \<Rightarrow> bool \<Rightarrow> kwargs \<Rightarrow> exc + call" where
  "client_tracking_call on_flag clientid prefix bcast optin optout noloop kw =
     (if (length prefix \<noteq> 0) \<and> (\<not> bcast) then Inl (Exc DataError ''Prefix can only be used with bcast'')
     else Inr (call ([PStr ''CLIENT TRACKING''] @ (if on_flag then [PStr ''ON''] else [PStr ''OFF'']) @
             (if clientid \<noteq> PNone then [PStr ''REDIRECT'', clientid] else []) @ concat (map (\<lambda>p. [PStr ''PREFIX'', p]) prefix) @
             (if bcast then [PStr ''BCAST''] else []) @ (if optin then [PStr ''OPTIN''] else []) @ (if optout then [PStr ''OPTOUT''] else []) @
             (if noloop then [PStr ''NOLOOP''] else [])) []))"

definition client_trackinginfo_call :: "kwargs \<Rightarrow> call" where
  "client_trackinginfo_call kw =
     call [PStr ''CLIENT TRACKINGINFO''] kw"

definition client_setname_call :: "pyval \<Rightarrow> kwargs \<Rightarrow> call" where
  "client_setname_call name kw =
     call [PStr ''CLIENT SETNAME'', name] kw"

definition client_setinfo_call :: "pyval \<Rightarrow> pyval \<Rightarrow> kwargs \<Rightarrow> call" where
  "client_setinfo_call attr value kw =
     call [PStr ''CLIENT SETINFO'', attr, value] kw"

definition client_tracking_on_call :: "pyval \<Rightarrow> pyval list \<Rightarrow> bool \<Rightarrow> bool \<Rightarrow> bool \<Rightarrow> bool \<Rightarrow> exc + call" where
  "client_tracking_on_call clientid prefix bcast optin optout noloop = client_tracking_call True clientid prefix bcast optin optout noloop []"

definition client_tracking_off_call :: "pyval \<Rightarrow> pyval list \<Rightarrow> bool \<Rightarrow> bool \<Rightarrow> bool \<Rightarrow> bool \<Rightarrow> exc + call" where
  "client_tracking_off_call clientid prefix bcast optin optout noloop = client_tracking_call False clientid prefix bcast optin optout noloop []"

definition client_unblock_call :: "pyval \<Rightarrow> bool \<Rightarrow> kwargs \<Rightarrow> exc + call" where
  "client_unblock_call client_id error_flag kw =
     bindE (to_int client_id) (\<lambda>n. Inr (call ([PStr ''CLIENT UNBLOCK'', PInt n] @ (if error_flag then [PBytes ''ERROR''] else [])) kw))"

definition client_pause_call :: "pyval \<Rightarrow> bool \<Rightarrow> kwargs \<Rightarrow> exc + call" where
  "client_pause_call timeout all_flag kw =
     (if \<not> is_int timeout then Inl (Exc DataError ''CLIENT PAUSE timeout must be an integer'')
      else Inr (call ([PStr ''CLIENT PAUSE'', PStr (str_of_int timeout)] @ (if \<not> all_flag then [PStr ''WRITE''] else [])) kw))"

definition client_unpause_call :: "kwargs \<Rightarrow> call" where
  "client_unpause_call kw =
     call [PStr ''CLIENT UNPAUSE''] kw"

definition client_no_evict_call :: "pyval \<Rightarrow> call" where
  "client_no_evict_call mode =
     call [PStr ''CLIENT NO-EVICT'', mode] []"

definition client_no_touch_call :: "pyval \<Rightarrow> call" where
  "client_no_touch_call mode =
     call [PStr ''CLIENT NO-TOUCH'', mode] []"

definition command_call :: "kwargs \<Rightarrow> call" where
  "command_call kw =
     call [PStr ''COMMAND''] kw"

definition command_info_call :: "kwargs \<Rightarrow> exc + call" where
  "command_info_call kw =
     Inl (Exc NotImplementedError ''COMMAND INFO is intentionally not implemented in the client.'')"

definition command_count_call :: "kwargs \<Rightarrow> call" where
  "command_count_call kw =
     call [PStr ''COMMAND COUNT''] kw"

definition command_list_call :: "pyval \<Rightarrow> pyval \<Rightarrow> pyval \<Rightarrow> call" where
  "command_list_call module_arg category pattern =
     (let pieces = (if module_arg \<noteq> PNone then [PStr ''MODULE'', module_arg] else []) @ (if category \<noteq> PNone then [PStr ''ACLCAT'', category] else []) @
            (if pattern \<noteq> PNone then [PStr ''PATTERN'', pattern] else [])
      in call ([PStr ''COMMAND LIST''] @ (if pieces \<noteq> [] then [PStr ''FILTERBY''] else []) @ pieces) [])"

definition command_getkeysandflags_call :: "pyval list \<Rightarrow> call" where
  "command_getkeysandflags_call args =
     call ([PStr ''COMMAND GETKEYSANDFLAGS''] @ args) []"

definition command_docs_call :: "pyval list \<Rightarrow> exc + call" where
  "command_docs_call args =
     Inl (Exc NotImplementedError ''COMMAND DOCS is intentionally not implemented in the client.'')"

definition config_get_call :: "pyval \<Rightarrow> pyval list \<Rightarrow> kwargs \<Rightarrow> call" where
  "config_get_call pattern args kw =
     call ([PStr ''CONFIG GET'', pattern] @ args) kw"

definition config_set_call :: "pyval \<Rightarrow> pyval \<Rightarrow> pyval list \<Rightarrow> kwargs \<Rightarrow> call" where
  "config_set_call name value args kw =
     call ([PStr ''CONFIG SET'', name, value] @ args) kw"

definition config_resetstat_call :: "kwargs \<Rightarrow> call" where
  "config_resetstat_call kw =
     call [PStr ''CONFIG RESETSTAT''] kw"

definition config_rewrite_call :: "kwargs \<Rightarrow> call" where
  "config_rewrite_call kw =
     call [PStr ''CONFIG REWRITE''] kw"

definition dbsize_call :: "kwargs \<Rightarrow> call" where
  "dbsize_call kw =
     call [PStr ''DBSIZE''] kw"

definition debug_object_call :: "pyval \<Rightarrow> kwargs \<Rightarrow> call" where
  "debug_object_call key kw =
     call [PStr ''DEBUG OBJECT'', key] kw"

definition debug_segfault_call :: "kwargs \<Rightarrow> exc + call" where
  "debug_segfault_call kw =
     Inl (Exc NotImplementedError ([CHR 10] @ ''            DEBUG SEGFAULT is intentionally not implemented in the client.'' @ [CHR 10] @ [CHR 10] @
        ''            For more information see https://redis.io/commands/debug-segfault'' @ [CHR 10] @ ''            ''))"

definition echo_call :: "pyval \<Rightarrow> kwargs \<Rightarrow> call" where
  "echo_call value kw =
     call [PStr ''ECHO'', value] kw"

definition flushall_call :: "bool \<Rightarrow> kwargs \<Rightarrow> call" where
  "flushall_call asynchronous kw =
     call ([PStr ''FLUSHALL''] @ (if asynchronous then [PBytes ''ASYNC''] else [])) kw"

definition flushdb_call :: "bool \<Rightarrow> kwargs \<Rightarrow> call" where
  "flushdb_call asynchronous kw =
     call ([PStr ''FLUSHDB''] @ (if asynchronous then [PBytes ''ASYNC''] else [])) kw"

definition sync_call :: "call" where
  "sync_call =
     call [PStr ''SYNC''] [(''NEVER_DECODE'', PList [])]"

definition psync_call :: "pyval \<Rightarrow> pyval \<Rightarrow> call" where
  "psync_call replicationid offset =
     call [PStr ''PSYNC'', replicationid, offset] [(''NEVER_DECODE'', PList [])]"

definition swapdb_call :: "pyval \<Rightarrow> pyval \<Rightarrow> kwargs \<Rightarrow> call" where
  "swapdb_call first second kw =
     call [PStr ''SWAPDB'', first, second] kw"

definition select_call :: "pyval \<Rightarrow> kwargs \<Rightarrow> call" where
  "select_call index_arg kw =
     call [PStr ''SELECT'', index_arg] kw"

definition info_call :: "pyval \<Rightarrow> pyval list \<Rightarrow> kwargs \<Rightarrow> call" where
  "info_call section_arg args kw =
     (if section_arg = PNone then call [PStr ''INFO''] kw
     else call ([PStr ''INFO'', section_arg] @ args) kw)"

definition lastsave_call :: "kwargs \<Rightarrow> call" where
  "lastsave_call kw =
     call [PStr ''LASTSAVE''] kw"

definition latency_doctor_call :: "exc + call" where
  "latency_doctor_call =
     Inl (Exc NotImplementedError ([CHR 10] @ ''            LATENCY DOCTOR is intentionally not implemented in the client.'' @ [CHR 10] @ [CHR 10] @
        ''            For more information see https://redis.io/commands/latency-doctor'' @ [CHR 10] @ ''            ''))"

definition latency_graph_call :: "exc + call" where
  "latency_graph_call =
     Inl (Exc NotImplementedError ([CHR 10] @ ''            LATENCY GRAPH is intentionally not implemented in the client.'' @ [CHR 10] @ [CHR 10] @
        ''            For more information see https://redis.io/commands/latency-graph'' @ [CHR 10] @ ''            ''))"

definition lolwut_call :: "pyval list \<Rightarrow> kwargs \<Rightarrow> call" where
  "lolwut_call versions kw =
     (if versions \<noteq> [] then call ([PStr ''LOLWUT VERSION''] @ versions) kw
     else call [PStr ''LOLWUT''] kw)"

definition reset_call :: "call" where
  "reset_call =
     call [PStr ''RESET''] []"

definition migrate_call :: "pyval \<Rightarrow> pyval \<Rightarrow> pyval \<Rightarrow> pyval \<Rightarrow> pyval \<Rightarrow> bool \<Rightarrow> bool \<Rightarrow> pyval \<Rightarrow> kwargs \<Rightarrow> exc + call" where
  "migrate_call host port keys destination_db timeout copy_flag replace_flag auth_arg kw =
     (if list_or_args keys [] = [] then Inl (Exc DataError ''MIGRATE requires at least one key'')
     else Inr (call ([PStr ''MIGRATE'', host, port, PStr '''', destination_db, timeout] @ (if copy_flag then [PBytes ''COPY''] else []) @
             (if replace_flag then [PBytes ''REPLACE''] else []) @ (if truthy auth_arg then [PBytes ''AUTH'', auth_arg] else []) @ [PBytes ''KEYS''] @
             list_or_args keys []) kw))"

definition object_call :: "pyval \<Rightarrow> pyval \<Rightarrow> kwargs \<Rightarrow> call" where
  "object_call infotype key kw =
     call [PStr ''OBJECT'', infotype, key] ([(''infotype'', infotype)] @ kw)"

definition memory_doctor_call :: "kwargs \<Rightarrow> exc + call" where
  "memory_doctor_call kw =
     Inl (Exc NotImplementedError ([CHR 10] @ ''            MEMORY DOCTOR is intentionally not implemented in the client.'' @ [CHR 10] @ [CHR 10] @
        ''            For more information see https://redis.io/commands/memory-doctor'' @ [CHR 10] @ ''            ''))"

definition memory_help_call :: "kwargs \<Rightarrow> exc + call" where
  "memory_help_call kw =
     Inl (Exc NotImplementedError ([CHR 10] @ ''            MEMORY HELP is intentionally not implemented in the client.'' @ [CHR 10] @ [CHR 10] @
        ''            For more information see https://redis.io/commands/memory-help'' @ [CHR 10] @ ''            ''))"

definition memory_stats_call :: "kwargs \<Rightarrow> call" where
  "memory_stats_call kw =
     call [PStr ''MEMORY STATS''] kw"

definition memory_malloc_stats_call :: "kwargs \<Rightarrow> call" where
  "memory_malloc_stats_call kw =
     call [PStr ''MEMORY MALLOC-STATS''] kw"

definition memory_usage_call :: "pyval \<Rightarrow> pyval \<Rightarrow> kwargs \<Rightarrow> call" where
  "memory_usage_call key samples kw =
     call ([PStr ''MEMORY USAGE'', key] @ (if is_int samples then [PBytes ''SAMPLES'', samples] else [])) kw"

definition memory_purge_call :: "kwargs \<Rightarrow> call" where
  "memory_purge_call kw =
     call [PStr ''MEMORY PURGE''] kw"

definition latency_histogram_call :: "pyval list \<Rightarrow> exc + call" where
  "latency_histogram_call args =
     Inl (Exc NotImplementedError ''LATENCY HISTOGRAM is intentionally not implemented in the client.'')"

definition latency_history_call :: "pyval \<Rightarrow> call" where
  "latency_history_call event =
     call [PStr ''LATENCY HISTORY'', event] []"

definition latency_latest_call :: "call" where
  "latency_latest_call =
     call [PStr ''LATENCY LATEST''] []"

definition latency_reset_call :: "pyval list \<Rightarrow> call" where
  "latency_reset_call events =
     call ([PStr ''LATENCY RESET''] @ events) []"

definition ping_call :: "kwargs \<Rightarrow> call" where
  "ping_call kw =
     call [PStr ''PING''] kw"

definition quit_call :: "kwargs \<Rightarrow> call" where
  "quit_call kw =
     call [PStr ''QUIT''] kw"

definition replicaof_call :: "pyval list \<Rightarrow> kwargs \<Rightarrow> call" where
  "replicaof_call args kw =
     call ([PStr ''REPLICAOF''] @ args) kw"

definition save_call :: "kwargs \<Rightarrow> call" where
  "save_call kw =
     call [PStr ''SAVE''] kw"

text \<open>SHUTDOWN: the connection going away is success, an answer is an error.\<close>

definition shutdown_args :: "bool \<Rightarrow> bool \<Rightarrow> bool \<Rightarrow> bool \<Rightarrow> bool \<Rightarrow> kwargs \<Rightarrow> exc + call" where
  "shutdown_args save nosave now force abort_flag kw =
     (if save \<and> nosave then Inl (Exc DataError ''SHUTDOWN save and nosave cannot both be set'')
      else Inr (call ([PStr ''SHUTDOWN''] @ (if save then [PStr ''SAVE''] else []) @ (if nosave then [PStr ''NOSAVE''] else []) @
        (if now then [PStr ''NOW''] else []) @ (if force then [PStr ''FORCE''] else []) @ (if abort_flag then [PStr ''ABORT''] else [])) kw))"

definition shutdown :: "(call \<Rightarrow> ('w, exc, pyval) action) \<Rightarrow> exc + call \<Rightarrow> ('w, exc, unit) action" where
  "shutdown exec args =
     bindS (liftS args) (\<lambda>c.
       catchS (bindS (exec c) (\<lambda>_. raiseS (Exc RedisError ''SHUTDOWN seems to have failed.'')))
         (\<lambda>e. if isinstance e ConnectionError then retS () else raiseS e))"

definition slaveof_call :: "pyval \<Rightarrow> pyval \<Rightarrow> kwargs \<Rightarrow> call" where
  "slaveof_call host port kw =
     (if (host = PNone) \<and> (port = PNone) then call [PStr ''SLAVEOF'', PBytes ''NO'', PBytes ''ONE''] kw
     else call [PStr ''SLAVEOF'', host, port] kw)"

definition slowlog_get_call :: "bool \<Rightarrow> pyval \<Rightarrow> kwargs \<Rightarrow> call" where
  "slowlog_get_call decode_flag num kw =
     call ([PStr ''SLOWLOG GET''] @ (if num \<noteq> PNone then [num] else [])) (kw @ (if decode_flag then [(''NEVER_DECODE'', PList [])] else []))"

definition slowlog_len_call :: "kwargs \<Rightarrow> call" where
  "slowlog_len_call kw =
     call [PStr ''SLOWLOG LEN''] kw"

definition slowlog_reset_call :: "kwargs \<Rightarrow> call" where
  "slowlog_reset_call kw =
     call [PStr ''SLOWLOG RESET''] kw"

definition time_call :: "kwargs \<Rightarrow> call" where
  "time_call kw =
     call [PStr ''TIME''] kw"

definition wait_call :: "pyval \<Rightarrow> pyval \<Rightarrow> kwargs \<Rightarrow> call" where
  "wait_call num_replicas timeout kw =
     call [PStr ''WAIT'', num_replicas, timeout] kw"

definition waitaof_call :: "pyval \<Rightarrow> pyval \<Rightarrow> pyval \<Rightarrow> kwargs \<Rightarrow> call" where
  "waitaof_call num_local num_replicas timeout kw =
     call [PStr ''WAITAOF'', num_local, num_replicas, timeout] kw"

definition hello_call :: "exc + call" where
  "hello_call =
     Inl (Exc NotImplementedError ''HELLO is intentionally not implemented in the client.'')"

definition failover_call :: "exc + call" where
  "failover_call =
     Inl (Exc NotImplementedError ''FAILOVER is intentionally not implemented in the client.'')"

section \<open>\<open>PubSubCommands\<close>\<close>

definition publish_call :: "pyval \<Rightarrow> pyval \<Rightarrow> kwargs \<Rightarrow> call" where
  "publish_call channel message kw =
     call [PStr ''PUBLISH'', channel, message] kw"

definition spublish_call :: "pyval \<Rightarrow> pyval \<Rightarrow> call" where
  "spublish_call shard_channel message =
     call [PStr ''SPUBLISH'', shard_channel, message] []"

definition pubsub_channels_call :: "pyval \<Rightarrow> kwargs \<Rightarrow> call" where
  "pubsub_channels_call pattern kw =
     call [PStr ''PUBSUB CHANNELS'', pattern] kw"

definition pubsub_shardchannels_call :: "pyval \<Rightarrow> kwargs \<Rightarrow> call" where
  "pubsub_shardchannels_call pattern kw =
     call [PStr ''PUBSUB SHARDCHANNELS'', pattern] kw"

definition pubsub_numpat_call :: "kwargs \<Rightarrow> call" where
  "pubsub_numpat_call kw =
     call [PStr ''PUBSUB NUMPAT''] kw"

definition pubsub_numsub_call :: "pyval list \<Rightarrow> kwargs \<Rightarrow> call" where
  "pubsub_numsub_call args kw =
     call ([PStr ''PUBSUB NUMSUB''] @ args) kw"

definition pubsub_shardnumsub_call :: "pyval list \<Rightarrow> kwargs \<Rightarrow> call" where
  "pubsub_shardnumsub_call args kw =
     call ([PStr ''PUBSUB SHARDNUMSUB''] @ args) kw"

section \<open>\<open>ScriptCommands\<close>\<close>

definition eval_generic :: "string \<Rightarrow> pyval \<Rightarrow> pyval \<Rightarrow> pyval list \<Rightarrow> call" where
  "eval_generic command_arg script numkeys keys_and_args = call ([PStr command_arg, script, numkeys] @ keys_and_args) []"

definition eval_call :: "pyval \<Rightarrow> pyval \<Rightarrow> pyval list \<Rightarrow> call" where
  "eval_call script numkeys keys_and_args = eval_generic ''EVAL'' script numkeys keys_and_args"

definition eval_ro_call :: "pyval \<Rightarrow> pyval \<Rightarrow> pyval list \<Rightarrow> call" where
  "eval_ro_call script numkeys keys_and_args = eval_generic ''EVAL_RO'' script numkeys keys_and_args"

definition evalsha_generic :: "string \<Rightarrow> pyval \<Rightarrow> pyval \<Rightarrow> pyval list \<Rightarrow> call" where
  "evalsha_generic command_arg sha numkeys keys_and_args = call ([PStr command_arg, sha, numkeys] @ keys_and_args) []"

definition evalsha_call :: "pyval \<Rightarrow> pyval \<Rightarrow> pyval list \<Rightarrow> call" where
  "evalsha_call sha numkeys keys_and_args = evalsha_generic ''EVALSHA'' sha numkeys keys_and_args"

definition evalsha_ro_call :: "pyval \<Rightarrow> pyval \<Rightarrow> pyval list \<Rightarrow> call" where
  "evalsha_ro_call sha numkeys keys_and_args = evalsha_generic ''EVALSHA_RO'' sha numkeys keys_and_args"

definition script_exists_call :: "pyval list \<Rightarrow> call" where
  "script_exists_call args =
     call ([PStr ''SCRIPT EXISTS''] @ args) []"

definition script_debug_call :: "pyval list \<Rightarrow> exc + call" where
  "script_debug_call args =
     Inl (Exc NotImplementedError ''SCRIPT DEBUG is intentionally not implemented in the client.'')"

definition script_flush_call :: "pyval \<Rightarrow> exc + call" where
  "script_flush_call sync_type =
     (if sync_type \<notin> {PStr ''SYNC'', PStr ''ASYNC'', PNone}
      then Inl (Exc DataError ''SCRIPT FLUSH defaults to SYNC in redis > 6.2, or accepts SYNC/ASYNC. For older versions, of redis leave as None.'')
      else Inr (call ([PStr ''SCRIPT FLUSH''] @ (if sync_type = PNone then [] else [sync_type])) []))"

definition script_kill_call :: "call" where
  "script_kill_call =
     call [PStr ''SCRIPT KILL''] []"

definition script_load_call :: "pyval \<Rightarrow> call" where
  "script_load_call script =
     call [PStr ''SCRIPT LOAD'', script] []"

text \<open>\<open>Script\<close>: EVALSHA, and after NOSCRIPT loading the script and EVALSHA again; the client is a function of the call.\<close>

record lua_script =
  ls_script :: pyval
  ls_sha :: pyval

definition script_run ::
  "(call \<Rightarrow> ('w, exc, pyval) action) \<Rightarrow> pyval list \<Rightarrow> pyval list \<Rightarrow> ('w \<times> lua_script, exc, pyval) action" where
  "script_run exec keys args = (\<lambda>(w, s).
     let run = (\<lambda>sha. exec (evalsha_call sha (PInt (int (length keys))) (keys @ args)))
     in case run (ls_sha s) w of
          (Inr v, w1) \<Rightarrow> (Inr v, (w1, s))
        | (Inl e, w1) \<Rightarrow>
            if isinstance e NoScriptError then
              (case exec (script_load_call (ls_script s)) w1 of
                 (Inl e', w2) \<Rightarrow> (Inl e', (w2, s))
               | (Inr sha, w2) \<Rightarrow> (case run sha w2 of (r, w3) \<Rightarrow> (r, (w3, s\<lparr>ls_sha := sha\<rparr>))))
            else (Inl e, (w1, s)))"

section \<open>\<open>ModuleCommands\<close>\<close>

definition module_load_call :: "pyval \<Rightarrow> pyval list \<Rightarrow> call" where
  "module_load_call path args =
     call ([PStr ''MODULE LOAD'', path] @ args) []"

definition module_loadex_call :: "pyval \<Rightarrow> pyval list option \<Rightarrow> pyval list option \<Rightarrow> call" where
  "module_loadex_call path options_arg args =
     call ([PStr ''MODULE LOADEX'', path] @ (case options_arg of None \<Rightarrow> [] | Some xs \<Rightarrow> [PStr ''CONFIG''] @ xs) @
       (case args of None \<Rightarrow> [] | Some xs \<Rightarrow> [PStr ''ARGS''] @ xs)) []"

definition module_unload_call :: "pyval \<Rightarrow> call" where
  "module_unload_call name =
     call [PStr ''MODULE UNLOAD'', name] []"

definition module_list_call :: "call" where
  "module_list_call =
     call [PStr ''MODULE LIST''] []"

definition command_getkeys_call :: "pyval list \<Rightarrow> call" where
  "command_getkeys_call args =
     call ([PStr ''COMMAND GETKEYS''] @ args) []"

section \<open>\<open>ClusterCommands\<close>\<close>

definition cluster_call :: "string \<Rightarrow> pyval list \<Rightarrow> kwargs \<Rightarrow> call" where
  "cluster_call cluster_arg args kw = call ([PStr (''CLUSTER '' @ upper cluster_arg)] @ args) kw"

definition readwrite_call :: "kwargs \<Rightarrow> call" where
  "readwrite_call kw =
     call [PStr ''READWRITE''] kw"

definition readonly_call :: "kwargs \<Rightarrow> call" where
  "readonly_call kw =
     call [PStr ''READONLY''] kw"

section \<open>\<open>FunctionCommands\<close>\<close>

definition function_load_call :: "pyval \<Rightarrow> bool \<Rightarrow> call" where
  "function_load_call code replace_flag =
     call ([PStr ''FUNCTION LOAD''] @ (if replace_flag then [PStr ''REPLACE''] else []) @ [code]) []"

definition function_delete_call :: "pyval \<Rightarrow> call" where
  "function_delete_call library =
     call [PStr ''FUNCTION DELETE'', library] []"

definition function_flush_call :: "pyval \<Rightarrow> call" where
  "function_flush_call mode =
     call [PStr ''FUNCTION FLUSH'', mode] []"

definition function_list_call :: "pyval \<Rightarrow> bool \<Rightarrow> call" where
  "function_list_call library withcode =
     call ([PStr ''FUNCTION LIST''] @ [PStr ''LIBRARYNAME'', library] @ (if withcode then [PStr ''WITHCODE''] else [])) []"

definition fcall_generic :: "string \<Rightarrow> pyval \<Rightarrow> pyval \<Rightarrow> pyval list \<Rightarrow> call" where
  "fcall_generic command_arg function_arg numkeys keys_and_args = call ([PStr command_arg, function_arg, numkeys] @ keys_and_args) []"

definition fcall_call :: "pyval \<Rightarrow> pyval \<Rightarrow> pyval list \<Rightarrow> call" where
  "fcall_call function_arg numkeys keys_and_args = fcall_generic ''FCALL'' function_arg numkeys keys_and_args"

definition fcall_ro_call :: "pyval \<Rightarrow> pyval \<Rightarrow> pyval list \<Rightarrow> call" where
  "fcall_ro_call function_arg numkeys keys_and_args = fcall_generic ''FCALL_RO'' function_arg numkeys keys_and_args"

definition function_dump_call :: "call" where
  "function_dump_call =
     call [PStr ''FUNCTION DUMP''] [(''NEVER_DECODE'', PList [])]"

definition function_restore_call :: "pyval \<Rightarrow> pyval \<Rightarrow> call" where
  "function_restore_call payload policy =
     call [PStr ''FUNCTION RESTORE'', payload, policy] []"

definition function_kill_call :: "call" where
  "function_kill_call =
     call [PStr ''FUNCTION KILL''] []"

definition function_stats_call :: "call" where
  "function_stats_call =
     call [PStr ''FUNCTION STATS''] []"

section \<open>\<open>GearsCommands\<close>\<close>

definition tfunction_load_call :: "pyval \<Rightarrow> bool \<Rightarrow> pyval \<Rightarrow> call" where
  "tfunction_load_call lib_code replace_flag config =
     call ([PStr ''TFUNCTION LOAD''] @ (if replace_flag then [PStr ''REPLACE''] else []) @
        (if config \<noteq> PNone then [PStr ''CONFIG'', config] else []) @ [lib_code]) []"

definition tfunction_delete_call :: "pyval \<Rightarrow> call" where
  "tfunction_delete_call lib_name =
     call [PStr ''TFUNCTION DELETE'', lib_name] []"

definition tfunction_list_call :: "bool \<Rightarrow> int \<Rightarrow> pyval \<Rightarrow> exc + call" where
  "tfunction_list_call with_code verbose lib_name =
     (if verbose \<ge> 1 \<and> verbose \<le> 3 then
        Inr (call ([PStr ''TFUNCTION LIST''] @ (if with_code then [PStr ''WITHCODE''] else []) @ [PStr (replicate (nat verbose) (CHR ''v''))] @
          (if lib_name \<noteq> PNone then [PStr ''LIBRARY'', lib_name] else [])) [])
      else Inl (Exc DataError ''verbose can be 1, 2 or 3''))"

definition tfcall_generic :: "string \<Rightarrow> string \<Rightarrow> pyval list option \<Rightarrow> bool \<Rightarrow> pyval list \<Rightarrow> call" where
  "tfcall_generic lib_name func_name keys async_flag args =
     call ([PStr (if async_flag then ''TFCALLASYNC'' else ''TFCALL''), PStr (lib_name @ ''.'' @ func_name)] @
       (case keys of None \<Rightarrow> [PInt 0] | Some ks \<Rightarrow> [PInt (int (length ks))] @ ks) @ args) []"

definition tfcall_call :: "string \<Rightarrow> string \<Rightarrow> pyval list option \<Rightarrow> pyval list \<Rightarrow> call" where
  "tfcall_call lib_name func_name keys args = tfcall_generic lib_name func_name keys False args"

definition tfcall_async_call :: "string \<Rightarrow> string \<Rightarrow> pyval list option \<Rightarrow> pyval list \<Rightarrow> call" where
  "tfcall_async_call lib_name func_name keys args = tfcall_generic lib_name func_name keys True args"

section \<open>The calls that can be built\<close>

text \<open>Every method with arguments that can be encoded.\<close>

inductive server_call :: "call \<Rightarrow> bool" where
  "optional category \<Longrightarrow> server_call (acl_cat_call category kw)"
| "encodable username \<Longrightarrow> list_all encodable args \<Longrightarrow> server_call (acl_dryrun_call username args kw)"
| "list_all encodable username \<Longrightarrow> server_call (acl_deluser_call username kw)"
| "acl_genpass_call bits kw = Inr c \<Longrightarrow> server_call c"
| "encodable username \<Longrightarrow> server_call (acl_getuser_call username kw)"
| "server_call (acl_help_call kw)"
| "server_call (acl_list_call kw)"
| "optional count_arg \<Longrightarrow> acl_log_call count_arg kw = Inr c \<Longrightarrow> server_call c"
| "server_call (acl_log_reset_call kw)"
| "server_call (acl_load_call kw)"
| "server_call (acl_save_call kw)"
| "server_call (acl_users_call kw)"
| "server_call (acl_whoami_call kw)"
| "encodable password \<Longrightarrow> optional username \<Longrightarrow> server_call (auth_call password username kw)"
| "server_call (bgrewriteaof_call kw)"
| "server_call (bgsave_call schedule kw)"
| "server_call (role_call)"
| "encodable address \<Longrightarrow> server_call (client_kill_call address kw)"
| "optional id_arg \<Longrightarrow> optional type_arg \<Longrightarrow> optional addr \<Longrightarrow> optional laddr \<Longrightarrow>
     optional user \<Longrightarrow> optional maxage \<Longrightarrow>
     client_kill_filter_call id_arg type_arg addr skipme laddr user maxage kw = Inr c \<Longrightarrow> server_call c"
| "server_call (client_info_call kw)"
| "optional type_arg \<Longrightarrow> client_list_call type_arg client_id kw = Inr c \<Longrightarrow> server_call c"
| "server_call (client_getname_call kw)"
| "server_call (client_getredir_call kw)"
| "encodable reply \<Longrightarrow> client_reply_call reply kw = Inr c \<Longrightarrow> server_call c"
| "server_call (client_id_call kw)"
| "optional clientid \<Longrightarrow> list_all encodable prefix \<Longrightarrow>
     client_tracking_call on_flag clientid prefix bcast optin optout noloop kw = Inr c \<Longrightarrow> server_call c"
| "server_call (client_trackinginfo_call kw)"
| "encodable name \<Longrightarrow> server_call (client_setname_call name kw)"
| "encodable attr \<Longrightarrow> encodable value \<Longrightarrow> server_call (client_setinfo_call attr value kw)"
| "client_unblock_call client_id error_flag kw = Inr c \<Longrightarrow> server_call c"
| "client_pause_call timeout all_flag kw = Inr c \<Longrightarrow> server_call c"
| "server_call (client_unpause_call kw)"
| "encodable mode \<Longrightarrow> server_call (client_no_evict_call mode)"
| "encodable mode \<Longrightarrow> server_call (client_no_touch_call mode)"
| "server_call (command_call kw)"
| "server_call (command_count_call kw)"
| "optional module_arg \<Longrightarrow> optional category \<Longrightarrow> optional pattern \<Longrightarrow>
     server_call (command_list_call module_arg category pattern)"
| "list_all encodable args \<Longrightarrow> server_call (command_getkeysandflags_call args)"
| "encodable pattern \<Longrightarrow> list_all encodable args \<Longrightarrow> server_call (config_get_call pattern args kw)"
| "encodable name \<Longrightarrow> encodable value \<Longrightarrow> list_all encodable args \<Longrightarrow>
     server_call (config_set_call name value args kw)"
| "server_call (config_resetstat_call kw)"
| "server_call (config_rewrite_call kw)"
| "server_call (dbsize_call kw)"
| "encodable key \<Longrightarrow> server_call (debug_object_call key kw)"
| "encodable value \<Longrightarrow> server_call (echo_call value kw)"
| "server_call (flushall_call asynchronous kw)"
| "server_call (flushdb_call asynchronous kw)"
| "server_call (sync_call)"
| "encodable replicationid \<Longrightarrow> encodable offset \<Longrightarrow> server_call (psync_call replicationid offset)"
| "encodable first \<Longrightarrow> encodable second \<Longrightarrow> server_call (swapdb_call first second kw)"
| "encodable index_arg \<Longrightarrow> server_call (select_call index_arg kw)"
| "optional section_arg \<Longrightarrow> list_all encodable args \<Longrightarrow> server_call (info_call section_arg args kw)"
| "server_call (lastsave_call kw)"
| "list_all encodable versions \<Longrightarrow> server_call (lolwut_call versions kw)"
| "server_call (reset_call)"
| "encodable host \<Longrightarrow> encodable port \<Longrightarrow> list_all encodable (list_or_args keys []) \<Longrightarrow>
     encodable destination_db \<Longrightarrow> encodable timeout \<Longrightarrow> optional auth_arg \<Longrightarrow>
     migrate_call host port keys destination_db timeout copy_flag replace_flag auth_arg kw = Inr c \<Longrightarrow> server_call c"
| "encodable infotype \<Longrightarrow> encodable key \<Longrightarrow> server_call (object_call infotype key kw)"
| "server_call (memory_stats_call kw)"
| "server_call (memory_malloc_stats_call kw)"
| "encodable key \<Longrightarrow> optional samples \<Longrightarrow> server_call (memory_usage_call key samples kw)"
| "server_call (memory_purge_call kw)"
| "encodable event \<Longrightarrow> server_call (latency_history_call event)"
| "server_call (latency_latest_call)"
| "list_all encodable events \<Longrightarrow> server_call (latency_reset_call events)"
| "server_call (ping_call kw)"
| "server_call (quit_call kw)"
| "list_all encodable args \<Longrightarrow> server_call (replicaof_call args kw)"
| "server_call (save_call kw)"
| "shutdown_args save nosave now force abort_flag kw = Inr c \<Longrightarrow> server_call c"
| "((host = PNone \<and> port = PNone \<or> encodable host \<and> encodable port)) \<Longrightarrow> server_call (slaveof_call host port kw)"
| "optional num \<Longrightarrow> server_call (slowlog_get_call decode_flag num kw)"
| "server_call (slowlog_len_call kw)"
| "server_call (slowlog_reset_call kw)"
| "server_call (time_call kw)"
| "encodable num_replicas \<Longrightarrow> encodable timeout \<Longrightarrow> server_call (wait_call num_replicas timeout kw)"
| "encodable num_local \<Longrightarrow> encodable num_replicas \<Longrightarrow> encodable timeout \<Longrightarrow>
     server_call (waitaof_call num_local num_replicas timeout kw)"
| "encodable channel \<Longrightarrow> encodable message \<Longrightarrow> server_call (publish_call channel message kw)"
| "encodable shard_channel \<Longrightarrow> encodable message \<Longrightarrow> server_call (spublish_call shard_channel message)"
| "encodable pattern \<Longrightarrow> server_call (pubsub_channels_call pattern kw)"
| "encodable pattern \<Longrightarrow> server_call (pubsub_shardchannels_call pattern kw)"
| "server_call (pubsub_numpat_call kw)"
| "list_all encodable args \<Longrightarrow> server_call (pubsub_numsub_call args kw)"
| "list_all encodable args \<Longrightarrow> server_call (pubsub_shardnumsub_call args kw)"
| "encodable script \<Longrightarrow> encodable numkeys \<Longrightarrow> list_all encodable keys_and_args \<Longrightarrow>
     server_call (eval_call script numkeys keys_and_args)"
| "encodable script \<Longrightarrow> encodable numkeys \<Longrightarrow> list_all encodable keys_and_args \<Longrightarrow>
     server_call (eval_ro_call script numkeys keys_and_args)"
| "encodable sha \<Longrightarrow> encodable numkeys \<Longrightarrow> list_all encodable keys_and_args \<Longrightarrow>
     server_call (evalsha_call sha numkeys keys_and_args)"
| "encodable sha \<Longrightarrow> encodable numkeys \<Longrightarrow> list_all encodable keys_and_args \<Longrightarrow>
     server_call (evalsha_ro_call sha numkeys keys_and_args)"
| "list_all encodable args \<Longrightarrow> server_call (script_exists_call args)"
| "optional sync_type \<Longrightarrow> script_flush_call sync_type = Inr c \<Longrightarrow> server_call c"
| "server_call (script_kill_call)"
| "encodable script \<Longrightarrow> server_call (script_load_call script)"
| "encodable path \<Longrightarrow> list_all encodable args \<Longrightarrow> server_call (module_load_call path args)"
| "encodable path \<Longrightarrow> pred_option (list_all encodable) options_arg \<Longrightarrow>
     pred_option (list_all encodable) args \<Longrightarrow> server_call (module_loadex_call path options_arg args)"
| "encodable name \<Longrightarrow> server_call (module_unload_call name)"
| "server_call (module_list_call)"
| "list_all encodable args \<Longrightarrow> server_call (command_getkeys_call args)"
| "list_all encodable args \<Longrightarrow> server_call (cluster_call cluster_arg args kw)"
| "server_call (readwrite_call kw)"
| "server_call (readonly_call kw)"
| "encodable code \<Longrightarrow> server_call (function_load_call code replace_flag)"
| "encodable library \<Longrightarrow> server_call (function_delete_call library)"
| "encodable mode \<Longrightarrow> server_call (function_flush_call mode)"
| "encodable library \<Longrightarrow> server_call (function_list_call library withcode)"
| "encodable function_arg \<Longrightarrow> encodable numkeys \<Longrightarrow> list_all encodable keys_and_args \<Longrightarrow>
     server_call (fcall_call function_arg numkeys keys_and_args)"
| "encodable function_arg \<Longrightarrow> encodable numkeys \<Longrightarrow> list_all encodable keys_and_args \<Longrightarrow>
     server_call (fcall_ro_call function_arg numkeys keys_and_args)"
| "server_call (function_dump_call)"
| "encodable payload \<Longrightarrow> encodable policy \<Longrightarrow> server_call (function_restore_call payload policy)"
| "server_call (function_kill_call)"
| "server_call (function_stats_call)"
| "encodable lib_code \<Longrightarrow> optional config \<Longrightarrow> server_call (tfunction_load_call lib_code replace_flag config)"
| "encodable lib_name \<Longrightarrow> server_call (tfunction_delete_call lib_name)"
| "optional lib_name \<Longrightarrow> tfunction_list_call with_code verbose lib_name = Inr c \<Longrightarrow> server_call c"
| "pred_option (list_all encodable) keys \<Longrightarrow> list_all encodable args \<Longrightarrow>
     server_call (tfcall_call lib_name func_name keys args)"
| "pred_option (list_all encodable) keys \<Longrightarrow> list_all encodable args \<Longrightarrow>
     server_call (tfcall_async_call lib_name func_name keys args)"

lemmas server_call_defs = acl_cat_call_def acl_dryrun_call_def acl_deluser_call_def acl_genpass_call_def acl_getuser_call_def
  acl_help_call_def acl_list_call_def acl_log_call_def acl_log_reset_call_def acl_load_call_def acl_save_call_def acl_setuser_call_def
  acl_users_call_def acl_whoami_call_def auth_call_def bgrewriteaof_call_def bgsave_call_def role_call_def client_kill_call_def
  client_kill_filter_call_def client_info_call_def client_list_call_def client_getname_call_def client_getredir_call_def
  client_reply_call_def client_id_call_def client_tracking_on_call_def client_tracking_off_call_def client_tracking_call_def
  client_trackinginfo_call_def client_setname_call_def client_setinfo_call_def client_tracking_on_call_def client_tracking_off_call_def
  client_unblock_call_def client_pause_call_def client_unpause_call_def client_no_evict_call_def client_no_touch_call_def command_call_def
  command_info_call_def command_count_call_def command_list_call_def command_getkeysandflags_call_def command_docs_call_def
  config_get_call_def config_set_call_def config_resetstat_call_def config_rewrite_call_def dbsize_call_def debug_object_call_def
  debug_segfault_call_def echo_call_def flushall_call_def flushdb_call_def sync_call_def psync_call_def swapdb_call_def select_call_def
  info_call_def lastsave_call_def latency_doctor_call_def latency_graph_call_def lolwut_call_def reset_call_def migrate_call_def
  object_call_def memory_doctor_call_def memory_help_call_def memory_stats_call_def memory_malloc_stats_call_def memory_usage_call_def
  memory_purge_call_def latency_histogram_call_def latency_history_call_def latency_latest_call_def latency_reset_call_def ping_call_def
  quit_call_def replicaof_call_def save_call_def shutdown_args_def slaveof_call_def slowlog_get_call_def slowlog_len_call_def
  slowlog_reset_call_def time_call_def wait_call_def waitaof_call_def hello_call_def failover_call_def publish_call_def spublish_call_def
  pubsub_channels_call_def pubsub_shardchannels_call_def pubsub_numpat_call_def pubsub_numsub_call_def pubsub_shardnumsub_call_def
  eval_generic_def eval_call_def eval_ro_call_def evalsha_generic_def evalsha_call_def evalsha_ro_call_def script_exists_call_def
  script_debug_call_def script_flush_call_def script_kill_call_def script_load_call_def module_load_call_def module_loadex_call_def
  module_unload_call_def module_list_call_def command_info_call_def command_count_call_def command_getkeys_call_def command_call_def
  cluster_call_def readwrite_call_def readonly_call_def function_load_call_def function_delete_call_def function_flush_call_def
  function_list_call_def fcall_generic_def fcall_call_def fcall_ro_call_def function_dump_call_def function_restore_call_def
  function_kill_call_def function_stats_call_def tfunction_load_call_def tfunction_delete_call_def tfunction_list_call_def
  tfcall_generic_def tfcall_call_def tfcall_async_call_def

end
