(* ===== verification/ModuleCommands.thy ===== *)
theory ModuleCommands
  imports CommandCall
begin

text \<open>
  The commands of the modules for time series, probabilistic structures and JSON: the calls that the methods of
  \<open>redis/commands/timeseries\<close>, \<open>redis/commands/bf\<close> and \<open>redis/commands/json\<close> make.
\<close>

section \<open>Time series\<close>

text \<open>The pieces that several commands share, one for each helper that appends to the parameters.\<close>

definition append_uncompressed :: "bool \<Rightarrow> pyval list" where
  "append_uncompressed uncompressed =
     (if uncompressed then [PStr ''ENCODING'', PStr ''UNCOMPRESSED''] else [])"

definition append_with_labels :: "bool \<Rightarrow> pyval list \<Rightarrow> exc + pyval list" where
  "append_with_labels with_labels select_labels =
     (if with_labels \<and> select_labels \<noteq> [] then Inl (Exc DataError ''with_labels and select_labels cannot be provided together.'')
      else Inr ((if with_labels then [PStr ''WITHLABELS''] else []) @
             (if select_labels \<noteq> [] then PStr ''SELECTED_LABELS'' # select_labels else [])))"

text \<open>\<open>reduce.upper()\<close>.\<close>

definition append_groupby_reduce :: "pyval \<Rightarrow> string option \<Rightarrow> pyval list" where
  "append_groupby_reduce groupby reduce =
     (case reduce of Some r \<Rightarrow> if groupby \<noteq> PNone then [PStr ''GROUPBY'', groupby, PStr ''REDUCE'', PStr (upper r)] else [] | None \<Rightarrow> [])"

definition append_retention :: "pyval \<Rightarrow> pyval list" where
  "append_retention retention =
     (if retention \<noteq> PNone then [PStr ''RETENTION'', retention] else [])"

definition append_count :: "pyval \<Rightarrow> pyval list" where
  "append_count count_arg =
     (if count_arg \<noteq> PNone then [PStr ''COUNT'', count_arg] else [])"

definition append_timestamp :: "pyval \<Rightarrow> pyval list" where
  "append_timestamp timestamp =
     (if timestamp \<noteq> PNone then [PStr ''TIMESTAMP'', timestamp] else [])"

definition append_align :: "pyval \<Rightarrow> pyval list" where
  "append_align align =
     (if align \<noteq> PNone then [PStr ''ALIGN'', align] else [])"

definition append_chunk_size :: "pyval \<Rightarrow> pyval list" where
  "append_chunk_size chunk_size =
     (if chunk_size \<noteq> PNone then [PStr ''CHUNK_SIZE'', chunk_size] else [])"

definition append_duplicate_policy :: "pyval \<Rightarrow> pyval list" where
  "append_duplicate_policy duplicate_policy =
     (if duplicate_policy \<noteq> PNone then [PStr ''DUPLICATE_POLICY'', duplicate_policy] else [])"

definition append_on_duplicate :: "pyval \<Rightarrow> pyval list" where
  "append_on_duplicate on_duplicate =
     (if on_duplicate \<noteq> PNone then [PStr ''ON_DUPLICATE'', on_duplicate] else [])"

definition append_bucket_timestamp :: "pyval \<Rightarrow> pyval list" where
  "append_bucket_timestamp bucket_timestamp =
     (if bucket_timestamp \<noteq> PNone then [PStr ''BUCKETTIMESTAMP'', bucket_timestamp] else [])"

definition append_labels :: "(pyval \<times> pyval) list \<Rightarrow> pyval list" where
  "append_labels labels =
     (if labels \<noteq> [] then PStr ''LABELS'' # flat_pairs labels else [])"

definition append_aggregation :: "pyval \<Rightarrow> pyval \<Rightarrow> pyval list" where
  "append_aggregation aggregation_type bucket_size_msec =
     (if aggregation_type \<noteq> PNone then [PStr ''AGGREGATION'', aggregation_type, bucket_size_msec] else [])"

definition append_filer_by_ts :: "pyval list option \<Rightarrow> pyval list" where
  "append_filer_by_ts ts_list =
     (case ts_list of Some ts \<Rightarrow> PStr ''FILTER_BY_TS'' # ts | None \<Rightarrow> [])"

definition append_filer_by_value :: "pyval \<Rightarrow> pyval \<Rightarrow> pyval list" where
  "append_filer_by_value min_value max_value =
     (if min_value \<noteq> PNone \<and> max_value \<noteq> PNone then [PStr ''FILTER_BY_VALUE'', min_value, max_value] else [])"

definition append_latest :: "bool \<Rightarrow> pyval list" where
  "append_latest latest =
     (if latest then [PStr ''LATEST''] else [])"

definition append_empty :: "bool \<Rightarrow> pyval list" where
  "append_empty empty_flag =
     (if empty_flag then [PStr ''EMPTY''] else [])"

text \<open>The two limits are what \<open>str\<close> gives for them.\<close>

definition append_insertion_filters :: "string option \<Rightarrow> string option \<Rightarrow> exc + pyval list" where
  "append_insertion_filters max_time_diff max_val_diff =
     (if (max_time_diff = None) \<noteq> (max_val_diff = None) then Inl (Exc ValueError ''Both ignore_max_time_diff and ignore_max_val_diff must be set.'')
      else Inr (case (max_time_diff, max_val_diff) of (Some t, Some v) \<Rightarrow> [PStr ''IGNORE'', PStr t, PStr v] | _ \<Rightarrow> []))"

definition ts_create_call :: "pyval \<Rightarrow> pyval \<Rightarrow> bool \<Rightarrow> (pyval \<times> pyval) list \<Rightarrow> pyval \<Rightarrow> pyval \<Rightarrow> string option \<Rightarrow> string option \<Rightarrow> exc + call" where
  "ts_create_call key retention uncompressed labels chunk_size duplicate_policy max_time_diff max_val_diff =
     bindE (append_insertion_filters max_time_diff max_val_diff) (\<lambda>igs.
       Inr (call ([PStr ''TS.CREATE'', key] @ append_retention retention @ append_uncompressed uncompressed @ append_chunk_size chunk_size @
       append_duplicate_policy duplicate_policy @ append_labels labels @ igs) []))"

definition ts_alter_call :: "pyval \<Rightarrow> pyval \<Rightarrow> (pyval \<times> pyval) list \<Rightarrow> pyval \<Rightarrow> pyval \<Rightarrow> string option \<Rightarrow> string option \<Rightarrow> exc + call" where
  "ts_alter_call key retention labels chunk_size duplicate_policy max_time_diff max_val_diff =
     bindE (append_insertion_filters max_time_diff max_val_diff) (\<lambda>igs.
       Inr (call ([PStr ''TS.ALTER'', key] @ append_retention retention @ append_chunk_size chunk_size @ append_duplicate_policy duplicate_policy @
       append_labels labels @ igs) []))"

definition ts_add_call :: "pyval \<Rightarrow> pyval \<Rightarrow> pyval \<Rightarrow> pyval \<Rightarrow> bool \<Rightarrow> (pyval \<times> pyval) list \<Rightarrow> pyval \<Rightarrow> pyval \<Rightarrow> string option \<Rightarrow> string option \<Rightarrow> pyval \<Rightarrow> exc + call" where
  "ts_add_call key timestamp value retention uncompressed labels chunk_size duplicate_policy max_time_diff max_val_diff on_duplicate =
     bindE (append_insertion_filters max_time_diff max_val_diff) (\<lambda>igs.
       Inr (call ([PStr ''TS.ADD'', key, timestamp, value] @ append_retention retention @ append_uncompressed uncompressed @
       append_chunk_size chunk_size @ append_duplicate_policy duplicate_policy @ append_labels labels @ igs @ append_on_duplicate on_duplicate) []))"

text \<open>Each element of \<open>ktv_tuples\<close> is the list of its parts.\<close>

definition ts_madd_call :: "pyval list list \<Rightarrow> call" where
  "ts_madd_call ktv_tuples = call (PStr ''TS.MADD'' # concat ktv_tuples) []"

definition ts_incrby_call :: "pyval \<Rightarrow> pyval \<Rightarrow> pyval \<Rightarrow> pyval \<Rightarrow> bool \<Rightarrow> (pyval \<times> pyval) list \<Rightarrow> pyval \<Rightarrow> pyval \<Rightarrow> string option \<Rightarrow> string option \<Rightarrow> exc + call" where
  "ts_incrby_call key value timestamp retention uncompressed labels chunk_size duplicate_policy max_time_diff max_val_diff =
     bindE (append_insertion_filters max_time_diff max_val_diff) (\<lambda>igs.
       Inr (call ([PStr ''TS.INCRBY'', key, value] @ append_timestamp timestamp @ append_retention retention @ append_uncompressed uncompressed @
       append_chunk_size chunk_size @ append_duplicate_policy duplicate_policy @ append_labels labels @ igs) []))"

definition ts_decrby_call :: "pyval \<Rightarrow> pyval \<Rightarrow> pyval \<Rightarrow> pyval \<Rightarrow> bool \<Rightarrow> (pyval \<times> pyval) list \<Rightarrow> pyval \<Rightarrow> pyval \<Rightarrow> string option \<Rightarrow> string option \<Rightarrow> exc + call" where
  "ts_decrby_call key value timestamp retention uncompressed labels chunk_size duplicate_policy max_time_diff max_val_diff =
     bindE (append_insertion_filters max_time_diff max_val_diff) (\<lambda>igs.
       Inr (call ([PStr ''TS.DECRBY'', key, value] @ append_timestamp timestamp @ append_retention retention @ append_uncompressed uncompressed @
       append_chunk_size chunk_size @ append_duplicate_policy duplicate_policy @ append_labels labels @ igs) []))"

definition ts_delete_call :: "pyval \<Rightarrow> pyval \<Rightarrow> pyval \<Rightarrow> call" where
  "ts_delete_call key from_time to_time =
     call [PStr ''TS.DEL'', key, from_time, to_time] []"

definition ts_createrule_call :: "pyval \<Rightarrow> pyval \<Rightarrow> pyval \<Rightarrow> pyval \<Rightarrow> pyval \<Rightarrow> call" where
  "ts_createrule_call source_key dest_key aggregation_type bucket_size_msec align_timestamp =
     call ([PStr ''TS.CREATERULE'', source_key, dest_key] @ append_aggregation aggregation_type bucket_size_msec @
       (if align_timestamp \<noteq> PNone then [align_timestamp] else [])) []"

definition ts_deleterule_call :: "pyval \<Rightarrow> pyval \<Rightarrow> call" where
  "ts_deleterule_call source_key dest_key =
     call [PStr ''TS.DELETERULE'', source_key, dest_key] []"

text \<open>The options that the range commands share.\<close>

record range_options =
  rg_count :: pyval
  rg_aggregation_type :: pyval
  rg_bucket_size_msec :: pyval
  rg_filter_by_ts :: "pyval list option"
  rg_filter_by_min_value :: pyval
  rg_filter_by_max_value :: pyval
  rg_align :: pyval
  rg_latest :: bool
  rg_bucket_timestamp :: pyval
  rg_empty :: bool

definition range_ok :: "range_options \<Rightarrow> bool" where
  "range_ok r = (list_all optional [rg_count r, rg_aggregation_type r, rg_filter_by_min_value r, rg_filter_by_max_value r, rg_align r, rg_bucket_timestamp r] \<and>
     encodable (rg_bucket_size_msec r) \<and> list_all encodable (append_filer_by_ts (rg_filter_by_ts r)))"

definition range_tail :: "range_options \<Rightarrow> pyval list" where
  "range_tail r = append_count (rg_count r) @ append_align (rg_align r) @ append_aggregation (rg_aggregation_type r) (rg_bucket_size_msec r) @
     append_bucket_timestamp (rg_bucket_timestamp r) @ append_empty (rg_empty r)"

definition range_filters :: "range_options \<Rightarrow> pyval list" where
  "range_filters r = append_latest (rg_latest r) @ append_filer_by_ts (rg_filter_by_ts r) @
     append_filer_by_value (rg_filter_by_min_value r) (rg_filter_by_max_value r)"

definition range_params :: "pyval \<Rightarrow> pyval \<Rightarrow> pyval \<Rightarrow> range_options \<Rightarrow> pyval list" where
  "range_params key from_time to_time r = [key, from_time, to_time] @ range_filters r @ range_tail r"

definition ts_range_call :: "pyval \<Rightarrow> pyval \<Rightarrow> pyval \<Rightarrow> range_options \<Rightarrow> call" where
  "ts_range_call key from_time to_time r = call (PStr ''TS.RANGE'' # range_params key from_time to_time r) [(''keys'', PList [key])]"

definition ts_revrange_call :: "pyval \<Rightarrow> pyval \<Rightarrow> pyval \<Rightarrow> range_options \<Rightarrow> call" where
  "ts_revrange_call key from_time to_time r = call (PStr ''TS.REVRANGE'' # range_params key from_time to_time r) [(''keys'', PList [key])]"

definition mrange_params ::
  "pyval \<Rightarrow> pyval \<Rightarrow> pyval list \<Rightarrow> bool \<Rightarrow> pyval \<Rightarrow> string option \<Rightarrow> pyval list \<Rightarrow> range_options \<Rightarrow> exc + pyval list" where
  "mrange_params from_time to_time filters with_labels groupby reduce select_labels r =
     bindE (append_with_labels with_labels select_labels) (\<lambda>labels.
       Inr ([from_time, to_time] @ range_filters r @ labels @ range_tail r @ [PStr ''FILTER''] @ filters @ append_groupby_reduce groupby reduce))"

definition ts_mrange_call ::
  "pyval \<Rightarrow> pyval \<Rightarrow> pyval list \<Rightarrow> bool \<Rightarrow> pyval \<Rightarrow> string option \<Rightarrow> pyval list \<Rightarrow> range_options \<Rightarrow> exc + call" where
  "ts_mrange_call from_time to_time filters with_labels groupby reduce select_labels r =
     bindE (mrange_params from_time to_time filters with_labels groupby reduce select_labels r) (\<lambda>params. Inr (call (PStr ''TS.MRANGE'' # params) []))"

definition ts_mrevrange_call ::
  "pyval \<Rightarrow> pyval \<Rightarrow> pyval list \<Rightarrow> bool \<Rightarrow> pyval \<Rightarrow> string option \<Rightarrow> pyval list \<Rightarrow> range_options \<Rightarrow> exc + call" where
  "ts_mrevrange_call from_time to_time filters with_labels groupby reduce select_labels r =
     bindE (mrange_params from_time to_time filters with_labels groupby reduce select_labels r) (\<lambda>params. Inr (call (PStr ''TS.MREVRANGE'' # params) []))"

definition ts_get_call :: "pyval \<Rightarrow> bool \<Rightarrow> call" where
  "ts_get_call key latest =
     call ([PStr ''TS.GET'', key] @ append_latest latest) [(''keys'', PList [key])]"

definition ts_mget_call :: "pyval list \<Rightarrow> bool \<Rightarrow> pyval list \<Rightarrow> bool \<Rightarrow> exc + call" where
  "ts_mget_call filters with_labels select_labels latest =
     bindE (append_with_labels with_labels select_labels) (\<lambda>labels.
       Inr (call ([PStr ''TS.MGET''] @ append_latest latest @ labels @ [PStr ''FILTER''] @ filters) []))"

definition ts_info_call :: "pyval \<Rightarrow> call" where
  "ts_info_call key =
     call [PStr ''TS.INFO'', key] [(''keys'', PList [key])]"

definition ts_queryindex_call :: "pyval list \<Rightarrow> call" where
  "ts_queryindex_call filters =
     call (PStr ''TS.QUERYINDEX'' # filters) []"

section \<open>Bloom and cuckoo filters, sketches, top-k, t-digest\<close>

definition append_items :: "pyval list \<Rightarrow> pyval list" where
  "append_items items =
     PStr ''ITEMS'' # items"

definition append_error :: "pyval \<Rightarrow> pyval list" where
  "append_error error_arg =
     (if error_arg \<noteq> PNone then [PStr ''ERROR'', error_arg] else [])"

definition append_capacity :: "pyval \<Rightarrow> pyval list" where
  "append_capacity capacity =
     (if capacity \<noteq> PNone then [PStr ''CAPACITY'', capacity] else [])"

definition append_expansion :: "pyval \<Rightarrow> pyval list" where
  "append_expansion expansion =
     (if expansion \<noteq> PNone then [PStr ''EXPANSION'', expansion] else [])"

definition append_max_iterations :: "pyval \<Rightarrow> pyval list" where
  "append_max_iterations max_iterations =
     (if max_iterations \<noteq> PNone then [PStr ''MAXITERATIONS'', max_iterations] else [])"

definition append_bucket_size :: "pyval \<Rightarrow> pyval list" where
  "append_bucket_size bucket_size =
     (if bucket_size \<noteq> PNone then [PStr ''BUCKETSIZE'', bucket_size] else [])"

definition append_no_scale :: "pyval \<Rightarrow> pyval list" where
  "append_no_scale no_scale =
     (if no_scale \<noteq> PNone then [PStr ''NONSCALING''] else [])"

definition append_no_create :: "pyval \<Rightarrow> pyval list" where
  "append_no_create no_create =
     (if no_create \<noteq> PNone then [PStr ''NOCREATE''] else [])"

definition append_weights :: "pyval list \<Rightarrow> pyval list" where
  "append_weights weights =
     (if weights \<noteq> [] then PStr ''WEIGHTS'' # weights else [])"

definition append_items_and_increments :: "pyval list \<Rightarrow> pyval list \<Rightarrow> exc + pyval list" where
  "append_items_and_increments items increments =
     (if length increments < length items then Inl (Exc IndexError ''list index out of range'')
      else Inr (flat_pairs (zip items increments)))"

definition bf_create_call :: "pyval \<Rightarrow> pyval \<Rightarrow> pyval \<Rightarrow> pyval \<Rightarrow> pyval \<Rightarrow> call" where
  "bf_create_call key error_rate capacity expansion no_scale =
     call ([PStr ''BF.RESERVE'', key, error_rate, capacity] @ append_expansion expansion @ append_no_scale no_scale) []"

definition bf_add_call :: "pyval \<Rightarrow> pyval \<Rightarrow> call" where
  "bf_add_call key item =
     call [PStr ''BF.ADD'', key, item] []"

definition bf_madd_call :: "pyval \<Rightarrow> pyval list \<Rightarrow> call" where
  "bf_madd_call key items =
     call ([PStr ''BF.MADD'', key] @ items) []"

definition bf_insert_call :: "pyval \<Rightarrow> pyval list \<Rightarrow> pyval \<Rightarrow> pyval \<Rightarrow> pyval \<Rightarrow> pyval \<Rightarrow> pyval \<Rightarrow> call" where
  "bf_insert_call key items capacity error_arg no_create expansion no_scale =
     call ([PStr ''BF.INSERT'', key] @ append_capacity capacity @ append_error error_arg @ append_expansion expansion @
       append_no_create no_create @ append_no_scale no_scale @ append_items items) []"

definition bf_exists_call :: "pyval \<Rightarrow> pyval \<Rightarrow> call" where
  "bf_exists_call key item =
     call [PStr ''BF.EXISTS'', key, item] []"

definition bf_mexists_call :: "pyval \<Rightarrow> pyval list \<Rightarrow> call" where
  "bf_mexists_call key items =
     call ([PStr ''BF.MEXISTS'', key] @ items) []"

definition bf_scandump_call :: "pyval \<Rightarrow> pyval \<Rightarrow> call" where
  "bf_scandump_call key iter =
     call [PStr ''BF.SCANDUMP'', key, iter] [(''NEVER_DECODE'', PList [])]"

definition bf_loadchunk_call :: "pyval \<Rightarrow> pyval \<Rightarrow> pyval \<Rightarrow> call" where
  "bf_loadchunk_call key iter data =
     call [PStr ''BF.LOADCHUNK'', key, iter, data] []"

definition bf_info_call :: "pyval \<Rightarrow> call" where
  "bf_info_call key =
     call [PStr ''BF.INFO'', key] []"

definition bf_card_call :: "pyval \<Rightarrow> call" where
  "bf_card_call key =
     call [PStr ''BF.CARD'', key] []"

definition cf_create_call :: "pyval \<Rightarrow> pyval \<Rightarrow> pyval \<Rightarrow> pyval \<Rightarrow> pyval \<Rightarrow> call" where
  "cf_create_call key capacity expansion bucket_size max_iterations =
     call ([PStr ''CF.RESERVE'', key, capacity] @ append_expansion expansion @ append_bucket_size bucket_size @ append_max_iterations max_iterations) []"

definition cf_add_call :: "pyval \<Rightarrow> pyval \<Rightarrow> call" where
  "cf_add_call key item =
     call [PStr ''CF.ADD'', key, item] []"

definition cf_addnx_call :: "pyval \<Rightarrow> pyval \<Rightarrow> call" where
  "cf_addnx_call key item =
     call [PStr ''CF.ADDNX'', key, item] []"

definition cf_insert_call :: "pyval \<Rightarrow> pyval list \<Rightarrow> pyval \<Rightarrow> pyval \<Rightarrow> call" where
  "cf_insert_call key items capacity no_create =
     call ([PStr ''CF.INSERT'', key] @ append_capacity capacity @ append_no_create no_create @ append_items items) []"

definition cf_insertnx_call :: "pyval \<Rightarrow> pyval list \<Rightarrow> pyval \<Rightarrow> pyval \<Rightarrow> call" where
  "cf_insertnx_call key items capacity no_create =
     call ([PStr ''CF.INSERTNX'', key] @ append_capacity capacity @ append_no_create no_create @ append_items items) []"

definition cf_exists_call :: "pyval \<Rightarrow> pyval \<Rightarrow> call" where
  "cf_exists_call key item =
     call [PStr ''CF.EXISTS'', key, item] []"

definition cf_mexists_call :: "pyval \<Rightarrow> pyval list \<Rightarrow> call" where
  "cf_mexists_call key items =
     call ([PStr ''CF.MEXISTS'', key] @ items) []"

definition cf_delete_call :: "pyval \<Rightarrow> pyval \<Rightarrow> call" where
  "cf_delete_call key item =
     call [PStr ''CF.DEL'', key, item] []"

definition cf_count_call :: "pyval \<Rightarrow> pyval \<Rightarrow> call" where
  "cf_count_call key item =
     call [PStr ''CF.COUNT'', key, item] []"

definition cf_scandump_call :: "pyval \<Rightarrow> pyval \<Rightarrow> call" where
  "cf_scandump_call key iter =
     call [PStr ''CF.SCANDUMP'', key, iter] []"

definition cf_loadchunk_call :: "pyval \<Rightarrow> pyval \<Rightarrow> pyval \<Rightarrow> call" where
  "cf_loadchunk_call key iter data =
     call [PStr ''CF.LOADCHUNK'', key, iter, data] []"

definition cf_info_call :: "pyval \<Rightarrow> call" where
  "cf_info_call key =
     call [PStr ''CF.INFO'', key] []"

definition topk_reserve_call :: "pyval \<Rightarrow> pyval \<Rightarrow> pyval \<Rightarrow> pyval \<Rightarrow> pyval \<Rightarrow> call" where
  "topk_reserve_call key k width depth decay =
     call [PStr ''TOPK.RESERVE'', key, k, width, depth, decay] []"

definition topk_add_call :: "pyval \<Rightarrow> pyval list \<Rightarrow> call" where
  "topk_add_call key items =
     call ([PStr ''TOPK.ADD'', key] @ items) []"

definition topk_incrby_call :: "pyval \<Rightarrow> pyval list \<Rightarrow> pyval list \<Rightarrow> exc + call" where
  "topk_incrby_call key items increments =
     bindE (append_items_and_increments items increments) (\<lambda>ps. Inr (call ([PStr ''TOPK.INCRBY'', key] @ ps) []))"

definition topk_query_call :: "pyval \<Rightarrow> pyval list \<Rightarrow> call" where
  "topk_query_call key items =
     call ([PStr ''TOPK.QUERY'', key] @ items) []"

definition topk_count_call :: "pyval \<Rightarrow> pyval list \<Rightarrow> call" where
  "topk_count_call key items =
     call ([PStr ''TOPK.COUNT'', key] @ items) []"

definition topk_list_call :: "pyval \<Rightarrow> bool \<Rightarrow> call" where
  "topk_list_call key withcount =
     call ([PStr ''TOPK.LIST'', key] @ (if withcount then [PStr ''WITHCOUNT''] else [])) []"

definition topk_info_call :: "pyval \<Rightarrow> call" where
  "topk_info_call key =
     call [PStr ''TOPK.INFO'', key] []"

definition tdigest_create_call :: "pyval \<Rightarrow> pyval \<Rightarrow> call" where
  "tdigest_create_call key compression =
     call [PStr ''TDIGEST.CREATE'', key, PStr ''COMPRESSION'', compression] []"

definition tdigest_reset_call :: "pyval \<Rightarrow> call" where
  "tdigest_reset_call key =
     call [PStr ''TDIGEST.RESET'', key] []"

definition tdigest_add_call :: "pyval \<Rightarrow> pyval list \<Rightarrow> call" where
  "tdigest_add_call key values =
     call ([PStr ''TDIGEST.ADD'', key] @ values) []"

definition tdigest_merge_call :: "pyval \<Rightarrow> pyval \<Rightarrow> pyval list \<Rightarrow> pyval \<Rightarrow> bool \<Rightarrow> call" where
  "tdigest_merge_call destination_key num_keys keys compression override =
     call ([PStr ''TDIGEST.MERGE'', destination_key, num_keys] @ keys @
       (if compression \<noteq> PNone then [PStr ''COMPRESSION'', compression] else []) @ (if override then [PStr ''OVERRIDE''] else [])) []"

definition tdigest_min_call :: "pyval \<Rightarrow> call" where
  "tdigest_min_call key =
     call [PStr ''TDIGEST.MIN'', key] []"

definition tdigest_max_call :: "pyval \<Rightarrow> call" where
  "tdigest_max_call key =
     call [PStr ''TDIGEST.MAX'', key] []"

definition tdigest_quantile_call :: "pyval \<Rightarrow> pyval \<Rightarrow> pyval list \<Rightarrow> call" where
  "tdigest_quantile_call key quantile quantiles =
     call ([PStr ''TDIGEST.QUANTILE'', key, quantile] @ quantiles) []"

definition tdigest_cdf_call :: "pyval \<Rightarrow> pyval \<Rightarrow> pyval list \<Rightarrow> call" where
  "tdigest_cdf_call key value values =
     call ([PStr ''TDIGEST.CDF'', key, value] @ values) []"

definition tdigest_info_call :: "pyval \<Rightarrow> call" where
  "tdigest_info_call key =
     call [PStr ''TDIGEST.INFO'', key] []"

definition tdigest_trimmed_mean_call :: "pyval \<Rightarrow> pyval \<Rightarrow> pyval \<Rightarrow> call" where
  "tdigest_trimmed_mean_call key low_cut_quantile high_cut_quantile =
     call [PStr ''TDIGEST.TRIMMED_MEAN'', key, low_cut_quantile, high_cut_quantile] []"

definition tdigest_rank_call :: "pyval \<Rightarrow> pyval \<Rightarrow> pyval list \<Rightarrow> call" where
  "tdigest_rank_call key value values =
     call ([PStr ''TDIGEST.RANK'', key, value] @ values) []"

definition tdigest_revrank_call :: "pyval \<Rightarrow> pyval \<Rightarrow> pyval list \<Rightarrow> call" where
  "tdigest_revrank_call key value values =
     call ([PStr ''TDIGEST.REVRANK'', key, value] @ values) []"

definition tdigest_byrank_call :: "pyval \<Rightarrow> pyval \<Rightarrow> pyval list \<Rightarrow> call" where
  "tdigest_byrank_call key rank ranks =
     call ([PStr ''TDIGEST.BYRANK'', key, rank] @ ranks) []"

definition tdigest_byrevrank_call :: "pyval \<Rightarrow> pyval \<Rightarrow> pyval list \<Rightarrow> call" where
  "tdigest_byrevrank_call key rank ranks =
     call ([PStr ''TDIGEST.BYREVRANK'', key, rank] @ ranks) []"

definition cms_initbydim_call :: "pyval \<Rightarrow> pyval \<Rightarrow> pyval \<Rightarrow> call" where
  "cms_initbydim_call key width depth =
     call [PStr ''CMS.INITBYDIM'', key, width, depth] []"

definition cms_initbyprob_call :: "pyval \<Rightarrow> pyval \<Rightarrow> pyval \<Rightarrow> call" where
  "cms_initbyprob_call key error_arg probability =
     call [PStr ''CMS.INITBYPROB'', key, error_arg, probability] []"

definition cms_incrby_call :: "pyval \<Rightarrow> pyval list \<Rightarrow> pyval list \<Rightarrow> exc + call" where
  "cms_incrby_call key items increments =
     bindE (append_items_and_increments items increments) (\<lambda>ps. Inr (call ([PStr ''CMS.INCRBY'', key] @ ps) []))"

definition cms_query_call :: "pyval \<Rightarrow> pyval list \<Rightarrow> call" where
  "cms_query_call key items =
     call ([PStr ''CMS.QUERY'', key] @ items) []"

definition cms_merge_call :: "pyval \<Rightarrow> pyval \<Rightarrow> pyval list \<Rightarrow> pyval list \<Rightarrow> call" where
  "cms_merge_call dest_key num_keys src_keys weights =
     call ([PStr ''CMS.MERGE'', dest_key, num_keys] @ src_keys @ append_weights weights) []"

definition cms_info_call :: "pyval \<Rightarrow> call" where
  "cms_info_call key =
     call [PStr ''CMS.INFO'', key] []"

section \<open>JSON\<close>

text \<open>A path is what \<open>str(path)\<close> gives, the root by default; \<open>json\<close> is the encoder of the client.\<close>

type_synonym json_encoder = "pyval \<Rightarrow> exc + string"

definition root_path :: string where
  "root_path = ''.''"

definition json_texts :: "json_encoder \<Rightarrow> pyval list \<Rightarrow> exc + pyval list" where
  "json_texts json xs = bindE (mapE json xs) (\<lambda>ss. Inr (map PStr ss))"

definition json_arrappend_call :: "json_encoder \<Rightarrow> pyval \<Rightarrow> string \<Rightarrow> pyval list \<Rightarrow> exc + call" where
  "json_arrappend_call json name path args =
     bindE (json_texts json args) (\<lambda>texts. Inr (call ([PStr ''JSON.ARRAPPEND'', name, PStr path] @ texts) []))"

definition json_arrindex_call :: "json_encoder \<Rightarrow> pyval \<Rightarrow> string \<Rightarrow> pyval \<Rightarrow> pyval \<Rightarrow> pyval \<Rightarrow> exc + call" where
  "json_arrindex_call json name path scalar start stop =
     bindE (json scalar) (\<lambda>text.
       Inr (call ([PStr ''JSON.ARRINDEX'', name, PStr path, PStr text] @
         (if start \<noteq> PNone then [start] @ (if stop \<noteq> PNone then [stop] else []) else [])) [(''keys'', PList [name])]))"

definition json_arrinsert_call :: "json_encoder \<Rightarrow> pyval \<Rightarrow> string \<Rightarrow> pyval \<Rightarrow> pyval list \<Rightarrow> exc + call" where
  "json_arrinsert_call json name path index_arg args =
     bindE (json_texts json args) (\<lambda>texts. Inr (call ([PStr ''JSON.ARRINSERT'', name, PStr path, index_arg] @ texts) []))"

definition json_arrlen_call :: "pyval \<Rightarrow> string \<Rightarrow> call" where
  "json_arrlen_call name path =
     call [PStr ''JSON.ARRLEN'', name, PStr path] [(''keys'', PList [name])]"

definition json_arrpop_call :: "pyval \<Rightarrow> string \<Rightarrow> pyval \<Rightarrow> call" where
  "json_arrpop_call name path index_arg =
     call [PStr ''JSON.ARRPOP'', name, PStr path, index_arg] []"

definition json_arrtrim_call :: "pyval \<Rightarrow> string \<Rightarrow> pyval \<Rightarrow> pyval \<Rightarrow> call" where
  "json_arrtrim_call name path start stop =
     call [PStr ''JSON.ARRTRIM'', name, PStr path, start, stop] []"

definition json_type_call :: "pyval \<Rightarrow> string \<Rightarrow> call" where
  "json_type_call name path =
     call [PStr ''JSON.TYPE'', name, PStr path] [(''keys'', PList [name])]"

definition json_resp_call :: "pyval \<Rightarrow> string \<Rightarrow> call" where
  "json_resp_call name path =
     call [PStr ''JSON.RESP'', name, PStr path] [(''keys'', PList [name])]"

definition json_objkeys_call :: "pyval \<Rightarrow> string \<Rightarrow> call" where
  "json_objkeys_call name path =
     call [PStr ''JSON.OBJKEYS'', name, PStr path] [(''keys'', PList [name])]"

definition json_objlen_call :: "pyval \<Rightarrow> string \<Rightarrow> call" where
  "json_objlen_call name path =
     call [PStr ''JSON.OBJLEN'', name, PStr path] [(''keys'', PList [name])]"

definition json_numincrby_call :: "json_encoder \<Rightarrow> pyval \<Rightarrow> string \<Rightarrow> pyval \<Rightarrow> exc + call" where
  "json_numincrby_call json name path number =
     bindE (json number) (\<lambda>text.
       Inr (call [PStr ''JSON.NUMINCRBY'', name, PStr path, PStr text] []))"

definition json_nummultby_call :: "json_encoder \<Rightarrow> pyval \<Rightarrow> string \<Rightarrow> pyval \<Rightarrow> exc + call" where
  "json_nummultby_call json name path number =
     bindE (json number) (\<lambda>text.
       Inr (call [PStr ''JSON.NUMMULTBY'', name, PStr path, PStr text] []))"

definition json_clear_call :: "pyval \<Rightarrow> string \<Rightarrow> call" where
  "json_clear_call name path =
     call [PStr ''JSON.CLEAR'', name, PStr path] []"

definition json_delete_call :: "pyval \<Rightarrow> string \<Rightarrow> call" where
  "json_delete_call key path =
     call [PStr ''JSON.DEL'', key, PStr path] []"

text \<open>A TypeError of \<open>execute_command\<close> gives None there; the call itself is the same.\<close>

definition json_get_call :: "pyval \<Rightarrow> string list \<Rightarrow> bool \<Rightarrow> call" where
  "json_get_call name args no_escape =
     call ([PStr ''JSON.GET'', name] @ (if no_escape then [PStr ''noescape''] else []) @
       (if args = [] then [PStr root_path] else map PStr args)) [(''keys'', PList [name])]"

definition json_mget_call :: "pyval list \<Rightarrow> string \<Rightarrow> call" where
  "json_mget_call keys path =
     call ([PStr ''JSON.MGET''] @ keys @ [PStr path]) [(''keys'', PList keys)]"

text \<open>\<open>decode_dict_keys\<close>: keys that are bytes are moved to the end as text.\<close>

fun decode_keys_loop :: "pyval list \<Rightarrow> (pyval \<times> pyval) list \<Rightarrow> exc + (pyval \<times> pyval) list" where
  "decode_keys_loop [] d = Inr d"
| "decode_keys_loop (k # ks) d =
     (case k of
        PBytes b \<Rightarrow>
          if \<not>  utf8_valid b then Inl (Exc UnicodeDecodeError ''utf-8'')
          else (case pd_get k d of
              Some v \<Rightarrow> decode_keys_loop ks (filter (\<lambda>(k', _). \<not>  py_key_eq k k') (pd_set (PStr b) v d))
            | None \<Rightarrow> Inl (Exc KeyError b))
      | _ \<Rightarrow> decode_keys_loop ks d)"

definition decode_dict_keys :: "pyval \<Rightarrow> exc + pyval" where
  "decode_dict_keys obj =
     (case obj of
        PDict d \<Rightarrow> bindE (decode_keys_loop (map fst d) d) (\<lambda>d'. Inr (PDict d'))
      | _ \<Rightarrow> Inl (Exc AttributeError ''keys''))"

definition decoded_keys :: "bool \<Rightarrow> pyval \<Rightarrow> exc + pyval" where
  "decoded_keys decode_flag obj = (if decode_flag then decode_dict_keys obj else Inr obj)"

definition json_set_call :: "json_encoder \<Rightarrow> pyval \<Rightarrow> string \<Rightarrow> pyval \<Rightarrow> bool \<Rightarrow> bool \<Rightarrow> bool \<Rightarrow> exc + call" where
  "json_set_call json name path obj nx xx decode_flag =
     bindE (decoded_keys decode_flag obj) (\<lambda>obj'. bindE (json obj') (\<lambda>text.
       if nx \<and> xx then Inl (Exc PyException ''nx and xx are mutually exclusive: use one, the other or neither - but not both'')
       else Inr (call ([PStr ''JSON.SET'', name, PStr path, PStr text] @ (if nx then [PStr ''NX''] else if xx then [PStr ''XX''] else [])) [])))"

fun json_triplets :: "json_encoder \<Rightarrow> (pyval \<times> string \<times> pyval) list \<Rightarrow> exc + pyval list" where
  "json_triplets json [] = Inr []"
| "json_triplets json ((name, path, obj) # ts) =
     bindE (json obj) (\<lambda>text. bindE (json_triplets json ts) (\<lambda>ps. Inr ([name, PStr path, PStr text] @ ps)))"

definition json_mset_call :: "json_encoder \<Rightarrow> (pyval \<times> string \<times> pyval) list \<Rightarrow> exc + call" where
  "json_mset_call json triplets = bindE (json_triplets json triplets) (\<lambda>ps. Inr (call (PStr ''JSON.MSET'' # ps) []))"

definition json_merge_call :: "json_encoder \<Rightarrow> pyval \<Rightarrow> string \<Rightarrow> pyval \<Rightarrow> bool \<Rightarrow> exc + call" where
  "json_merge_call json name path obj decode_flag =
     bindE (decoded_keys decode_flag obj) (\<lambda>obj'. bindE (json obj') (\<lambda>text.
       Inr (call [PStr ''JSON.MERGE'', name, PStr path, PStr text] [])))"

definition json_strlen_call :: "pyval \<Rightarrow> string option \<Rightarrow> call" where
  "json_strlen_call name path =
     call ([PStr ''JSON.STRLEN'', name] @ (case path of Some p \<Rightarrow> [PStr p] | None \<Rightarrow> [])) [(''keys'', PList [name])]"

definition json_toggle_call :: "pyval \<Rightarrow> string \<Rightarrow> call" where
  "json_toggle_call name path =
     call [PStr ''JSON.TOGGLE'', name, PStr path] []"

definition json_strappend_call :: "json_encoder \<Rightarrow> pyval \<Rightarrow> pyval \<Rightarrow> string \<Rightarrow> exc + call" where
  "json_strappend_call json name value path =
     bindE (json value) (\<lambda>text.
       Inr (call [PStr ''JSON.STRAPPEND'', name, PStr path, PStr text] []))"

definition json_debug_call :: "string \<Rightarrow> pyval \<Rightarrow> string \<Rightarrow> exc + call" where
  "json_debug_call subcommand key path =
     (if subcommand \<noteq> ''MEMORY'' \<and> subcommand \<noteq> ''HELP'' then Inl (Exc DataError ''The only valid subcommands are '')
      else if subcommand = ''MEMORY'' then
        (if key = PNone then Inl (Exc DataError ''No key specified'') else Inr (call [PStr ''JSON.DEBUG'', PStr subcommand, key, PStr path] []))
      else Inr (call [PStr ''JSON.DEBUG'', PStr subcommand] []))"

section \<open>The calls that can be built\<close>

text \<open>Every method with arguments that can be encoded.\<close>

inductive module_call :: "call \<Rightarrow> bool" where
  "encodable key \<Longrightarrow> optional retention \<Longrightarrow> list_all encodable (flat_pairs labels) \<Longrightarrow>
     optional chunk_size \<Longrightarrow> optional duplicate_policy \<Longrightarrow>
     ts_create_call key retention uncompressed labels chunk_size duplicate_policy max_time_diff max_val_diff = Inr c \<Longrightarrow> module_call c"
| "encodable key \<Longrightarrow> optional retention \<Longrightarrow> list_all encodable (flat_pairs labels) \<Longrightarrow>
     optional chunk_size \<Longrightarrow> optional duplicate_policy \<Longrightarrow>
     ts_alter_call key retention labels chunk_size duplicate_policy max_time_diff max_val_diff = Inr c \<Longrightarrow> module_call c"
| "encodable key \<Longrightarrow> encodable timestamp \<Longrightarrow> encodable value \<Longrightarrow> optional retention \<Longrightarrow>
     list_all encodable (flat_pairs labels) \<Longrightarrow> optional chunk_size \<Longrightarrow> optional duplicate_policy \<Longrightarrow>
     optional on_duplicate \<Longrightarrow>
     ts_add_call key timestamp value retention uncompressed labels chunk_size duplicate_policy max_time_diff max_val_diff on_duplicate = Inr c \<Longrightarrow>
     module_call c"
| "list_all (list_all encodable) ktv_tuples \<Longrightarrow> module_call (ts_madd_call ktv_tuples)"
| "encodable key \<Longrightarrow> encodable value \<Longrightarrow> optional timestamp \<Longrightarrow> optional retention \<Longrightarrow>
     list_all encodable (flat_pairs labels) \<Longrightarrow> optional chunk_size \<Longrightarrow> optional duplicate_policy \<Longrightarrow>
     ts_incrby_call key value timestamp retention uncompressed labels chunk_size duplicate_policy max_time_diff max_val_diff = Inr c \<Longrightarrow>
     module_call c"
| "encodable key \<Longrightarrow> encodable value \<Longrightarrow> optional timestamp \<Longrightarrow> optional retention \<Longrightarrow>
     list_all encodable (flat_pairs labels) \<Longrightarrow> optional chunk_size \<Longrightarrow> optional duplicate_policy \<Longrightarrow>
     ts_decrby_call key value timestamp retention uncompressed labels chunk_size duplicate_policy max_time_diff max_val_diff = Inr c \<Longrightarrow>
     module_call c"
| "encodable key \<Longrightarrow> encodable from_time \<Longrightarrow> encodable to_time \<Longrightarrow>
     module_call (ts_delete_call key from_time to_time)"
| "encodable source_key \<Longrightarrow> encodable dest_key \<Longrightarrow> optional aggregation_type \<Longrightarrow>
     encodable bucket_size_msec \<Longrightarrow> optional align_timestamp \<Longrightarrow>
     module_call (ts_createrule_call source_key dest_key aggregation_type bucket_size_msec align_timestamp)"
| "encodable source_key \<Longrightarrow> encodable dest_key \<Longrightarrow> module_call (ts_deleterule_call source_key dest_key)"
| "encodable key \<Longrightarrow> encodable from_time \<Longrightarrow> encodable to_time \<Longrightarrow> range_ok r \<Longrightarrow>
     module_call (ts_range_call key from_time to_time r)"
| "encodable key \<Longrightarrow> encodable from_time \<Longrightarrow> encodable to_time \<Longrightarrow> range_ok r \<Longrightarrow>
     module_call (ts_revrange_call key from_time to_time r)"
| "encodable from_time \<Longrightarrow> encodable to_time \<Longrightarrow> list_all encodable filters \<Longrightarrow>
     optional groupby \<Longrightarrow> list_all encodable select_labels \<Longrightarrow> range_ok r \<Longrightarrow>
     ts_mrange_call from_time to_time filters with_labels groupby reduce select_labels r = Inr c \<Longrightarrow> module_call c"
| "encodable from_time \<Longrightarrow> encodable to_time \<Longrightarrow> list_all encodable filters \<Longrightarrow>
     optional groupby \<Longrightarrow> list_all encodable select_labels \<Longrightarrow> range_ok r \<Longrightarrow>
     ts_mrevrange_call from_time to_time filters with_labels groupby reduce select_labels r = Inr c \<Longrightarrow> module_call c"
| "encodable key \<Longrightarrow> module_call (ts_get_call key latest)"
| "list_all encodable filters \<Longrightarrow> list_all encodable select_labels \<Longrightarrow>
     ts_mget_call filters with_labels select_labels latest = Inr c \<Longrightarrow> module_call c"
| "encodable key \<Longrightarrow> module_call (ts_info_call key)"
| "list_all encodable filters \<Longrightarrow> module_call (ts_queryindex_call filters)"
| "encodable key \<Longrightarrow> encodable error_rate \<Longrightarrow> encodable capacity \<Longrightarrow> optional expansion \<Longrightarrow>
     module_call (bf_create_call key error_rate capacity expansion no_scale)"
| "encodable key \<Longrightarrow> encodable item \<Longrightarrow> module_call (bf_add_call key item)"
| "encodable key \<Longrightarrow> list_all encodable items \<Longrightarrow> module_call (bf_madd_call key items)"
| "encodable key \<Longrightarrow> list_all encodable items \<Longrightarrow> optional capacity \<Longrightarrow> optional error_arg \<Longrightarrow>
     optional expansion \<Longrightarrow> module_call (bf_insert_call key items capacity error_arg no_create expansion no_scale)"
| "encodable key \<Longrightarrow> encodable item \<Longrightarrow> module_call (bf_exists_call key item)"
| "encodable key \<Longrightarrow> list_all encodable items \<Longrightarrow> module_call (bf_mexists_call key items)"
| "encodable key \<Longrightarrow> encodable iter \<Longrightarrow> module_call (bf_scandump_call key iter)"
| "encodable key \<Longrightarrow> encodable iter \<Longrightarrow> encodable data \<Longrightarrow> module_call (bf_loadchunk_call key iter data)"
| "encodable key \<Longrightarrow> module_call (bf_info_call key)"
| "encodable key \<Longrightarrow> module_call (bf_card_call key)"
| "encodable key \<Longrightarrow> encodable capacity \<Longrightarrow> optional expansion \<Longrightarrow> optional bucket_size \<Longrightarrow>
     optional max_iterations \<Longrightarrow> module_call (cf_create_call key capacity expansion bucket_size max_iterations)"
| "encodable key \<Longrightarrow> encodable item \<Longrightarrow> module_call (cf_add_call key item)"
| "encodable key \<Longrightarrow> encodable item \<Longrightarrow> module_call (cf_addnx_call key item)"
| "encodable key \<Longrightarrow> list_all encodable items \<Longrightarrow> optional capacity \<Longrightarrow>
     module_call (cf_insert_call key items capacity no_create)"
| "encodable key \<Longrightarrow> list_all encodable items \<Longrightarrow> optional capacity \<Longrightarrow>
     module_call (cf_insertnx_call key items capacity no_create)"
| "encodable key \<Longrightarrow> encodable item \<Longrightarrow> module_call (cf_exists_call key item)"
| "encodable key \<Longrightarrow> list_all encodable items \<Longrightarrow> module_call (cf_mexists_call key items)"
| "encodable key \<Longrightarrow> encodable item \<Longrightarrow> module_call (cf_delete_call key item)"
| "encodable key \<Longrightarrow> encodable item \<Longrightarrow> module_call (cf_count_call key item)"
| "encodable key \<Longrightarrow> encodable iter \<Longrightarrow> module_call (cf_scandump_call key iter)"
| "encodable key \<Longrightarrow> encodable iter \<Longrightarrow> encodable data \<Longrightarrow> module_call (cf_loadchunk_call key iter data)"
| "encodable key \<Longrightarrow> module_call (cf_info_call key)"
| "encodable key \<Longrightarrow> encodable k \<Longrightarrow> encodable width \<Longrightarrow> encodable depth \<Longrightarrow>
     encodable decay \<Longrightarrow> module_call (topk_reserve_call key k width depth decay)"
| "encodable key \<Longrightarrow> list_all encodable items \<Longrightarrow> module_call (topk_add_call key items)"
| "encodable key \<Longrightarrow> list_all encodable items \<Longrightarrow> list_all encodable increments \<Longrightarrow>
     topk_incrby_call key items increments = Inr c \<Longrightarrow> module_call c"
| "encodable key \<Longrightarrow> list_all encodable items \<Longrightarrow> module_call (topk_query_call key items)"
| "encodable key \<Longrightarrow> list_all encodable items \<Longrightarrow> module_call (topk_count_call key items)"
| "encodable key \<Longrightarrow> module_call (topk_list_call key withcount)"
| "encodable key \<Longrightarrow> module_call (topk_info_call key)"
| "encodable key \<Longrightarrow> encodable compression \<Longrightarrow> module_call (tdigest_create_call key compression)"
| "encodable key \<Longrightarrow> module_call (tdigest_reset_call key)"
| "encodable key \<Longrightarrow> list_all encodable values \<Longrightarrow> module_call (tdigest_add_call key values)"
| "encodable destination_key \<Longrightarrow> encodable num_keys \<Longrightarrow> list_all encodable keys \<Longrightarrow>
     optional compression \<Longrightarrow> module_call (tdigest_merge_call destination_key num_keys keys compression override)"
| "encodable key \<Longrightarrow> module_call (tdigest_min_call key)"
| "encodable key \<Longrightarrow> module_call (tdigest_max_call key)"
| "encodable key \<Longrightarrow> encodable quantile \<Longrightarrow> list_all encodable quantiles \<Longrightarrow>
     module_call (tdigest_quantile_call key quantile quantiles)"
| "encodable key \<Longrightarrow> encodable value \<Longrightarrow> list_all encodable values \<Longrightarrow>
     module_call (tdigest_cdf_call key value values)"
| "encodable key \<Longrightarrow> module_call (tdigest_info_call key)"
| "encodable key \<Longrightarrow> encodable low_cut_quantile \<Longrightarrow> encodable high_cut_quantile \<Longrightarrow>
     module_call (tdigest_trimmed_mean_call key low_cut_quantile high_cut_quantile)"
| "encodable key \<Longrightarrow> encodable value \<Longrightarrow> list_all encodable values \<Longrightarrow>
     module_call (tdigest_rank_call key value values)"
| "encodable key \<Longrightarrow> encodable value \<Longrightarrow> list_all encodable values \<Longrightarrow>
     module_call (tdigest_revrank_call key value values)"
| "encodable key \<Longrightarrow> encodable rank \<Longrightarrow> list_all encodable ranks \<Longrightarrow>
     module_call (tdigest_byrank_call key rank ranks)"
| "encodable key \<Longrightarrow> encodable rank \<Longrightarrow> list_all encodable ranks \<Longrightarrow>
     module_call (tdigest_byrevrank_call key rank ranks)"
| "encodable key \<Longrightarrow> encodable width \<Longrightarrow> encodable depth \<Longrightarrow> module_call (cms_initbydim_call key width depth)"
| "encodable key \<Longrightarrow> encodable error_arg \<Longrightarrow> encodable probability \<Longrightarrow>
     module_call (cms_initbyprob_call key error_arg probability)"
| "encodable key \<Longrightarrow> list_all encodable items \<Longrightarrow> list_all encodable increments \<Longrightarrow>
     cms_incrby_call key items increments = Inr c \<Longrightarrow> module_call c"
| "encodable key \<Longrightarrow> list_all encodable items \<Longrightarrow> module_call (cms_query_call key items)"
| "encodable dest_key \<Longrightarrow> encodable num_keys \<Longrightarrow> list_all encodable src_keys \<Longrightarrow>
     list_all encodable weights \<Longrightarrow> module_call (cms_merge_call dest_key num_keys src_keys weights)"
| "encodable key \<Longrightarrow> module_call (cms_info_call key)"
| "encodable name \<Longrightarrow> json_arrappend_call json name path args = Inr c \<Longrightarrow> module_call c"
| "encodable name \<Longrightarrow> optional start \<Longrightarrow> optional stop \<Longrightarrow>
     json_arrindex_call json name path scalar start stop = Inr c \<Longrightarrow> module_call c"
| "encodable name \<Longrightarrow> encodable index_arg \<Longrightarrow> json_arrinsert_call json name path index_arg args = Inr c \<Longrightarrow>
     module_call c"
| "encodable name \<Longrightarrow> module_call (json_arrlen_call name path)"
| "encodable name \<Longrightarrow> encodable index_arg \<Longrightarrow> module_call (json_arrpop_call name path index_arg)"
| "encodable name \<Longrightarrow> encodable start \<Longrightarrow> encodable stop \<Longrightarrow>
     module_call (json_arrtrim_call name path start stop)"
| "encodable name \<Longrightarrow> module_call (json_type_call name path)"
| "encodable name \<Longrightarrow> module_call (json_resp_call name path)"
| "encodable name \<Longrightarrow> module_call (json_objkeys_call name path)"
| "encodable name \<Longrightarrow> module_call (json_objlen_call name path)"
| "encodable name \<Longrightarrow> json_numincrby_call json name path number = Inr c \<Longrightarrow> module_call c"
| "encodable name \<Longrightarrow> json_nummultby_call json name path number = Inr c \<Longrightarrow> module_call c"
| "encodable name \<Longrightarrow> module_call (json_clear_call name path)"
| "encodable key \<Longrightarrow> module_call (json_delete_call key path)"
| "encodable name \<Longrightarrow> module_call (json_get_call name args no_escape)"
| "list_all encodable keys \<Longrightarrow> module_call (json_mget_call keys path)"
| "encodable name \<Longrightarrow> json_set_call json name path obj nx xx decode_flag = Inr c \<Longrightarrow> module_call c"
| "list_all encodable (map fst triplets) \<Longrightarrow> json_mset_call json triplets = Inr c \<Longrightarrow> module_call c"
| "encodable name \<Longrightarrow> json_merge_call json name path obj decode_flag = Inr c \<Longrightarrow> module_call c"
| "encodable name \<Longrightarrow> module_call (json_strlen_call name path)"
| "encodable name \<Longrightarrow> module_call (json_toggle_call name path)"
| "encodable name \<Longrightarrow> json_strappend_call json name value path = Inr c \<Longrightarrow> module_call c"
| "optional key \<Longrightarrow> json_debug_call subcommand key path = Inr c \<Longrightarrow> module_call c"

lemmas module_call_defs = ts_create_call_def ts_alter_call_def ts_add_call_def ts_madd_call_def ts_incrby_call_def ts_decrby_call_def
  ts_delete_call_def ts_createrule_call_def ts_deleterule_call_def ts_range_call_def ts_revrange_call_def ts_mrange_call_def
  ts_mrevrange_call_def ts_get_call_def ts_mget_call_def ts_info_call_def ts_queryindex_call_def bf_create_call_def bf_add_call_def
  bf_madd_call_def bf_insert_call_def bf_exists_call_def bf_mexists_call_def bf_scandump_call_def bf_loadchunk_call_def bf_info_call_def
  bf_card_call_def cf_create_call_def cf_add_call_def cf_addnx_call_def cf_insert_call_def cf_insertnx_call_def cf_exists_call_def
  cf_mexists_call_def cf_delete_call_def cf_count_call_def cf_scandump_call_def cf_loadchunk_call_def cf_info_call_def topk_reserve_call_def
  topk_add_call_def topk_incrby_call_def topk_query_call_def topk_count_call_def topk_list_call_def topk_info_call_def
  tdigest_create_call_def tdigest_reset_call_def tdigest_add_call_def tdigest_merge_call_def tdigest_min_call_def tdigest_max_call_def
  tdigest_quantile_call_def tdigest_cdf_call_def tdigest_info_call_def tdigest_trimmed_mean_call_def tdigest_rank_call_def
  tdigest_revrank_call_def tdigest_byrank_call_def tdigest_byrevrank_call_def cms_initbydim_call_def cms_initbyprob_call_def
  cms_incrby_call_def cms_query_call_def cms_merge_call_def cms_info_call_def json_arrappend_call_def json_arrindex_call_def
  json_arrinsert_call_def json_arrlen_call_def json_arrpop_call_def json_arrtrim_call_def json_type_call_def json_resp_call_def
  json_objkeys_call_def json_objlen_call_def json_numincrby_call_def json_nummultby_call_def json_clear_call_def json_delete_call_def
  json_get_call_def json_mget_call_def json_set_call_def json_mset_call_def json_merge_call_def json_strlen_call_def json_toggle_call_def
  json_strappend_call_def json_debug_call_def

end
