(* ===== verification/CommandBuilders.thy ===== *)
theory CommandBuilders
  imports KeyCommands CollectionCommands SortedSetCommands StreamCommands ServerCommands ModuleCommands
begin

text \<open>
  What holds of every call that the command methods build: it can be encoded, and the keys it names for the cache are
  keys it sends.
\<close>

section \<open>Calls that can be sent\<close>

text \<open>The first argument is a text, the command's name; every argument can be encoded.\<close>

definition well_formed_call :: "call \<Rightarrow> bool" where
  "well_formed_call c = (list_all encodable (ca_args c) \<and> (case ca_args c of PStr _ # _ \<Rightarrow> True | _ \<Rightarrow> False))"

lemma well_formed_cons: "well_formed_call (call (PStr s # args) k) = list_all encodable args"
  by (simp add: well_formed_call_def)

lemma list_all_if: "list_all P (if b then xs else ys) = ((b \<longrightarrow> list_all P xs) \<and> (\<not> b \<longrightarrow> list_all P ys))"
  by simp

lemma if_error: "((if b then Inl e else r) = Inr c) = (\<not> b \<and> r = Inr c)"
  by simp

lemma if_value: "((if b then Inr x else r) = Inr c) = (b \<and> c = x \<or> \<not> b \<and> r = Inr c)"
  by auto

lemmas built_simps = well_formed_cons list_all_if if_error bindE_eq_Inr list_or_args_split list_all_append append.append_Cons append_Nil

lemma flat_pairs_list: "list_all P (flat_pairs d) = (list_all P (map fst d) \<and> list_all P (map snd d))"
  by (induction d) (auto simp: flat_pairs_def)

lemma optional_number: "optional v \<Longrightarrow> to_int v = Inr n \<Longrightarrow> encodable v"
  by (auto simp: optional_def)

section \<open>Pieces\<close>

lemma not_negative_ok: "not_negative m v ps = Inr qs \<Longrightarrow> qs = [] \<or> v \<noteq> PNone \<and> qs = ps"
  by (auto simp: not_negative_def split: sum.splits if_splits)

lemma optional_int: "is_int v \<Longrightarrow> optional v \<Longrightarrow> encodable v"
  by (auto simp: optional_def is_int_def)

lemma int_or_type_error_ok:
  "(case to_int v of Inl e \<Rightarrow> if isinstance e TypeError then Inr [] else Inl e | Inr n \<Rightarrow> Inr [PBytes w, v]) = Inr ps \<Longrightarrow>
     ps = [] \<or> v \<noteq> PNone \<and> ps = [PBytes w, v]"
  by (auto split: sum.splits if_splits)

lemma joined_ids_ok: "(if xs \<noteq> [] then bindE (joined_ids xs) (\<lambda>s. Inr [PBytes w, PStr s]) else Inr []) = Inr ps \<Longrightarrow> list_all encodable ps"
  by (auto simp: bindE_eq_Inr split: if_splits)

lemma prefixed_ok: "list_all encodable xs \<Longrightarrow> list_all encodable (concat (map (\<lambda>x. [PStr w, x]) xs))"
  by (auto simp: list_all_iff)

lemma streams_of_ok: "streams_of m s = Inr d \<Longrightarrow> dict_ok s \<Longrightarrow> list_all encodable (map fst d) \<and> list_all encodable (map snd d)"
  by (auto simp: streams_of_def dict_ok_def flat_pairs_list split: pyval.splits list.splits)

lemma xclaim_ids_ok: "xclaim_ids v = Inr ids \<Longrightarrow> ids_ok v \<Longrightarrow> list_all encodable ids"
  by (auto simp: xclaim_ids_def ids_ok_def split: pyval.splits list.splits)

lemma int_option_ok:
  "(if v \<noteq> PNone then bindE (int_or_data_error m v) (\<lambda>n. Inr [PStr w, PInt n]) else Inr []) = Inr ps \<Longrightarrow> list_all encodable ps"
  by (auto simp: bindE_eq_Inr split: if_splits)

lemma xclaim_piece_ok: "xclaim_piece w m v = Inr ps \<Longrightarrow> list_all encodable ps"
  by (auto simp: xclaim_piece_def split: if_splits)

lemma ex_piece_ok: "ex_piece ex = Inr ps \<Longrightarrow> given_delta ex \<Longrightarrow> list_all encodable ps"
  by (auto simp: ex_piece_def given_delta_def delta_ok_def is_int_def split: delta_arg.splits pyval.splits if_splits)

lemma px_piece_ok: "px_piece px = Inr ps \<Longrightarrow> given_delta px \<Longrightarrow> list_all encodable ps"
  by (auto simp: px_piece_def given_delta_def delta_ok_def is_int_def split: delta_arg.splits pyval.splits if_splits)

lemma one_condition_ok: "one_condition nx xx gt lt = Inr ps \<Longrightarrow> list_all encodable ps"
  by (auto simp: one_condition_def split: if_splits)

lemma aggregate_piece_ok: "aggregate_piece a = Inr ps \<Longrightarrow> list_all encodable ps"
  by (auto simp: aggregate_piece_def split: pyval.splits if_splits)

lemma get_patterns_ok:
  "(if g = PNone then Inr [] else if is_text g then Inr [g] else py_iter g) = Inr gs \<Longrightarrow>
     optional g \<or> (\<exists>xs. g = PList xs \<and> list_all encodable xs) \<Longrightarrow>
     list_all encodable (concat (map (\<lambda>x. [PBytes w, x]) gs))"
  by (cases g) (auto simp: optional_def is_text_def py_iter_def list_all_iff split: if_splits)

lemma both_or_none_ok:
  "(if a \<noteq> PNone \<and> b \<noteq> PNone then Inr [a, b]
    else if a \<noteq> PNone \<and> b = PNone \<or> b \<noteq> PNone \<and> a = PNone then Inl e else Inr []) = Inr ps \<Longrightarrow>
     optional a \<Longrightarrow> optional b \<Longrightarrow> list_all encodable ps"
  by (auto split: if_splits)

lemma second_needs_first_ok:
  "(if a \<noteq> PNone \<and> b \<noteq> PNone then Inr [b] else if a = PNone \<and> b \<noteq> PNone then Inl e else Inr []) = Inr ps \<Longrightarrow>
     optional b \<Longrightarrow> list_all encodable ps"
  by (auto split: if_splits)

lemma bitfield_items_ok: "list_all encodable (flat_pairs xs) \<Longrightarrow> list_all encodable (concat (map (\<lambda>(e, f). [PStr w, e, f]) xs))"
  by (auto simp: flat_pairs_def list_all_iff)

section \<open>Each group\<close>

lemmas built_more = built_simps Let_def if_value optional_truthy optional_int prefixed_ok bitfield_items_ok
lemmas piece_facts = one_condition_ok aggregate_piece_ok int_piece_ok xclaim_piece_ok int_option_ok joined_ids_ok not_negative_ok int_or_type_error_ok
lemmas given_facts = both_or_none_ok second_needs_first_ok ex_piece_ok px_piece_ok xclaim_ids_ok optional_number streams_of_ok

lemma key_call_ok: "key_call c \<Longrightarrow> well_formed_call c"
  by (induction rule: key_call.induct, simp_all only: key_call_defs built_simps, simp_all add: built_more)
    ((auto simp: built_more dest!: piece_facts dest: given_facts)[1])+

lemma sort_ok:
  assumes "sort_call name start num by_arg get_arg desc alpha store groups = Inr c" "encodable name" "optional start" "optional num" "optional by_arg"
    "optional store" "optional get_arg \<or> (\<exists>gs. get_arg = PList gs \<and> list_all encodable gs)"
  shows "well_formed_call c"
proof -
  from assms(1) obtain gets where
    "(if get_arg = PNone then Inr [] else if is_text get_arg then Inr [get_arg] else py_iter get_arg) = Inr gets"
    and c: "call ([PStr ''SORT'', name] @ (if by_arg \<noteq> PNone then [PBytes ''BY'', by_arg] else []) @
          (if start \<noteq> PNone \<and> num \<noteq> PNone then [PBytes ''LIMIT'', start, num] else []) @
          concat (map (\<lambda>g. [PBytes ''GET'', g]) gets) @ (if desc then [PBytes ''DESC''] else []) @ (if alpha then [PBytes ''ALPHA''] else []) @
          (if store \<noteq> PNone then [PBytes ''STORE'', store] else []))
          [(''groups'', if groups then PInt (int (length gets)) else PNone), (''keys'', PList [name])] = c"
    unfolding sort_call_def built_simps by (elim exE conjE sum.inject(2) [THEN iffD1, elim_format]) iprover
  then have "list_all encodable (concat (map (\<lambda>g. [PBytes ''GET'', g]) gets))"
    using get_patterns_ok [OF _ assms(7)] by iprover
  then show ?thesis using assms(2-6) by (simp add: c [symmetric] built_more)
qed

lemma collection_call_ok: "collection_call c \<Longrightarrow> well_formed_call c"
  by (induction rule: collection_call.induct, simp_all only: collection_call_defs sort_ro_call_def built_simps, simp_all add: built_more)
    ((erule sort_ok; simp add: optional_def) | (auto simp: built_more dest!: piece_facts)[1])+

lemma georadius_ok:
  "georadius_generic s args k = Inr c \<Longrightarrow> list_all encodable args \<Longrightarrow> radius_ok k \<Longrightarrow> well_formed_call c"
  by (simp add: georadius_generic_def built_more, elim conjE, hypsubst, simp add: built_more radius_ok_def)

lemma search_center_ok: "search_center k = Inr ps \<Longrightarrow> search_ok k \<Longrightarrow> list_all encodable ps"
  by (auto simp: search_center_def built_simps search_ok_def optional_truthy)

lemma search_shape_ok: "search_shape k = Inr ps \<Longrightarrow> search_ok k \<Longrightarrow> list_all encodable ps"
  by (cases "so_unit k") (auto simp: search_shape_def search_unit_def built_simps search_ok_def optional_truthy)

lemma search_sort_ok: "search_sort k = Inr ps \<Longrightarrow> list_all encodable ps"
  by (auto simp: search_sort_def split: if_splits pyval.splits)

lemma search_count_ok: "search_count k = Inr ps \<Longrightarrow> search_ok k \<Longrightarrow> list_all encodable ps"
  by (auto simp: search_count_def search_ok_def optional_truthy split: if_splits)

lemma geosearch_ok:
  assumes "geosearch_generic s args k = Inr c" "list_all encodable args" "search_ok k"
  shows "well_formed_call c"
  using assms(1,2) search_center_ok [OF _ assms(3)] search_shape_ok [OF _ assms(3)] search_count_ok [OF _ assms(3)] search_sort_ok
  by (auto simp: geosearch_generic_def built_simps)

lemma search_ok_update: "search_ok (k\<lparr>so_store_dist := v\<rparr>) = search_ok k"
    "search_ok (k\<lparr>so_withcoord := u, so_withdist := v, so_withhash := w\<rparr>) = search_ok k"
  by (simp_all add: search_ok_def)

lemma sorted_call_ok: "sorted_call c \<Longrightarrow> well_formed_call c"
  by (induction rule: sorted_call.induct, simp_all only: sorted_call_defs built_simps, simp_all add: built_more)
    ((auto simp: built_more zkeys_ok_def search_ok_update flat_pairs_def list_all_iff dest!: piece_facts dest: georadius_ok geosearch_ok)[1])+

lemma stream_call_ok: "stream_call c \<Longrightarrow> well_formed_call c"
  by (induction rule: stream_call.induct, simp_all only: stream_call_defs built_simps, simp_all add: built_more)
    ((auto simp: built_more dict_ok_def dest!: piece_facts dest: given_facts split: pyval.splits list.splits if_splits)[1])+

lemma server_call_ok: "server_call c \<Longrightarrow> well_formed_call c"
  by (induction rule: server_call.induct, simp_all only: server_call_defs built_simps, simp_all add: built_more)
    ((auto simp: built_more dest!: piece_facts split: sum.splits option.splits pyval.splits)[1])+

lemma range_params_ok: "range_ok r \<Longrightarrow> list_all encodable (range_filters r @ range_tail r)"
  by (simp add: range_ok_def range_filters_def range_tail_def append_latest_def append_filer_by_value_def append_count_def append_align_def
      append_aggregation_def append_bucket_timestamp_def append_empty_def list_all_if)

lemma groupby_ok: "optional groupby \<Longrightarrow> list_all encodable (append_groupby_reduce groupby reduce)"
  by (simp add: append_groupby_reduce_def split: option.split)

lemma with_labels_ok: "append_with_labels b ls = Inr ps \<Longrightarrow> list_all encodable ls \<Longrightarrow> list_all encodable ps"
  by (auto simp: append_with_labels_def split: if_splits)

lemma insertion_filters_ok: "append_insertion_filters t v = Inr ps \<Longrightarrow> list_all encodable ps"
  by (auto simp: append_insertion_filters_def split: if_splits option.splits)

lemma zip_pairs_ok: "list_all P xs \<Longrightarrow> list_all P ys \<Longrightarrow> list_all P (flat_pairs (zip xs ys))"
  by (induction xs ys rule: list_induct2') (simp_all add: flat_pairs_def)

lemma items_and_increments_ok:
  "append_items_and_increments xs ys = Inr ps \<Longrightarrow> list_all encodable xs \<Longrightarrow> list_all encodable ys \<Longrightarrow> list_all encodable ps"
  by (auto simp: append_items_and_increments_def zip_pairs_ok split: if_splits)

lemma json_texts_ok: "json_texts json xs = Inr ps \<Longrightarrow> list_all encodable ps"
  by (auto simp: json_texts_def bindE_eq_Inr list_all_iff)

lemma json_triplets_ok: "json_triplets json ts = Inr ps \<Longrightarrow> list_all encodable (map fst ts) \<Longrightarrow> list_all encodable ps"
  by (induction json ts arbitrary: ps rule: json_triplets.induct) (auto simp: bindE_eq_Inr)

lemma concat_ok: "list_all (list_all P) xss \<Longrightarrow> list_all P (concat xss)"
  by (induction xss) simp_all

lemma path_texts_ok: "list_all encodable (map PStr ss)"
  by (simp add: list_all_iff)

lemmas append_defs = append_uncompressed_def append_retention_def append_count_def append_timestamp_def append_align_def append_chunk_size_def
  append_duplicate_policy_def append_on_duplicate_def append_bucket_timestamp_def append_labels_def append_aggregation_def
  append_latest_def append_empty_def append_items_def append_error_def append_capacity_def append_expansion_def append_max_iterations_def
  append_bucket_size_def append_no_scale_def append_no_create_def append_weights_def
lemmas module_facts = with_labels_ok insertion_filters_ok items_and_increments_ok json_texts_ok json_triplets_ok

lemma module_call_ok: "module_call c \<Longrightarrow> well_formed_call c"
  by (induction rule: module_call.induct, simp_all only: module_call_defs built_simps,
      simp_all add: built_more append_defs concat_ok path_texts_ok range_params_def mrange_params_def range_params_ok [simplified])
    ((auto simp: built_more append_defs path_texts_ok range_params_ok [simplified] groupby_ok dest: module_facts split: option.splits)[1])+

section \<open>All calls\<close>

definition built_call :: "call \<Rightarrow> bool" where
  "built_call c = (key_call c \<or> collection_call c \<or> sorted_call c \<or> stream_call c \<or> server_call c \<or> module_call c)"

lemma built_call_ok: "built_call c \<Longrightarrow> well_formed_call c"
  unfolding built_call_def by (elim disjE key_call_ok collection_call_ok sorted_call_ok stream_call_ok server_call_ok module_call_ok)

end
