(* ===== verification/CommandCacheKeys.thy ===== *)
theory CommandCacheKeys
  imports CommandBuilders CacheProxy
begin

text \<open>
  The command methods and what they are handed to: the serializer, and the client-side cache, whose keys are built from
  the \<open>keys\<close> option of a call.
\<close>

section \<open>The keys a call names\<close>

text \<open>Of the commands that may be cached, all but two name keys, and these are among their arguments.\<close>

definition keys_sent :: "pyval list \<Rightarrow> kwargs \<Rightarrow> bool" where
  "keys_sent args k = (case dict_get k ''keys'' of Some (PList ks) \<Rightarrow> set ks \<subseteq> set args | Some (PTuple ks) \<Rightarrow> set ks \<subseteq> set args | _ \<Rightarrow> False)"

definition cacheable_names_keys :: "call \<Rightarrow> bool" where
  "cacheable_names_keys c =
     (call_name c \<in> set DEFAULT_ALLOW_LIST \<longrightarrow> call_name c \<in> {''XPENDING'', ''ZREVRANGE''} \<or> keys_sent (ca_args c) (ca_options c))"

lemma not_allowed [simp]: "s \<notin> set DEFAULT_ALLOW_LIST \<Longrightarrow> cacheable_names_keys (call (PStr s # args) k)"
  by (simp add: cacheable_names_keys_def)

lemma with_keys [simp]: "keys_sent (PStr s # args) k \<Longrightarrow> cacheable_names_keys (call (PStr s # args) k)"
  by (simp add: cacheable_names_keys_def)

lemma keys_sent_simps [simp]: "keys_sent args [(''keys'', PList ks)] = (set ks \<subseteq> set args)" "keys_sent args [(''keys'', PTuple ks)] = (set ks \<subseteq> set args)"
  "keys_sent args [] = False"
  "x \<noteq> ''keys'' \<Longrightarrow> keys_sent args ((x, v) # k) = keys_sent args k"
  by (simp_all add: keys_sent_def)

lemma excepted [simp]: "cacheable_names_keys (call (PStr ''XPENDING'' # args) k)" "cacheable_names_keys (call (PStr ''ZREVRANGE'' # args) k)"
  by (simp_all add: cacheable_names_keys_def)












section \<open>Calls are packed\<close>

lemma well_formed_sent: "well_formed_call c \<Longrightarrow> \<exists>args. split_first (ca_args c) = Inr args \<and> list_all encodable args"
proof -
  assume "well_formed_call c"
  then obtain s rest where c: "ca_args c = PStr s # rest" and rest: "list_all encodable rest"
    by (auto simp: well_formed_call_def split: list.splits pyval.splits)
  then show ?thesis by (auto simp: split_first_def list_all_iff)
qed

lemma encodable_all: "list_all encodable args \<Longrightarrow> \<exists>es. mapE (encode enc) args = Inr es"
proof (induction args)
  case (Cons a as)
  then obtain es where "mapE (encode enc) as = Inr es" by auto
  moreover obtain b where "encode enc a = Inr b" using Cons.prems encode_ok_iff [of enc a] by auto
  ultimately show ?case by simp
qed simp

section \<open>Properties\<close>

definition demo_encoder :: encoder where
  "demo_encoder = \<lparr>encoding_errors = Strict, decode_responses = False, float_repr = (\<lambda>_. [])\<rparr>"

definition idle_proxies :: proxies where
  "idle_proxies = start (\<lambda>_. idle_conn []) []"

definition zrevrange_key :: cache_key where
  "zrevrange_key = \<lparr>ck_command = ''ZREVRANGE'', ck_redis_keys = [PStr ''a'', PStr ''b'']\<rparr>"

definition zrevrange_entry :: cache_entry where
  "zrevrange_entry = \<lparr>ce_key = zrevrange_key, ce_value = PList [], ce_status = VALID, ce_conn = 0\<rparr>"

text \<open>C11: whatever command method is called with arguments that can be encoded, if it sends anything at all then its call
  is packed without an error, as the array of its encoded arguments.\<close>

theorem built_calls_are_sent:
  assumes "built_call c"
  shows "\<exists>args es out. split_first (ca_args c) = Inr args \<and> mapE (encode enc) args = Inr es \<and>
    pack enc cutoff (ca_args c) = Inr out \<and> chunks_bytes out = resp_command (map raw es)"
proof -
  from well_formed_sent [OF built_call_ok [OF assms]] obtain args where args: "split_first (ca_args c) = Inr args" "list_all encodable args"
    by blast
  from encodable_all [OF args(2)] obtain es where es: "mapE (encode enc) args = Inr es" by blast
  then have "pack enc cutoff (ca_args c) = Inr (pack_loop cutoff es (array_header (length args)) [])"
    using args(1) by (simp add: pack_def)
  with pack_eq_command [OF this] args es show ?thesis by auto
qed

theorem built_calls_are_sent_witness:
  "\<exists>args es out. split_first (ca_args (get_call (PStr ''k''))) = Inr args \<and> mapE (encode demo_encoder) args = Inr es \<and>
    pack demo_encoder 6000 (ca_args (get_call (PStr ''k''))) = Inr out \<and> chunks_bytes out = resp_command (map raw es)"
  by (rule built_calls_are_sent) (simp add: built_call_def key_call.intros)



text \<open>with a client-side cache, \<open>xpending_range\<close> never reaches the server: its call names no key, and the proxy
  refuses it.\<close>

theorem xpending_range_is_refused:
  assumes "xpending_range_call name groupname lo hi count consumer idle = Inr c" "lo \<noteq> PNone"
    and "is_cachable cfg \<lparr>ck_command = ''XPENDING'', ck_redis_keys = []\<rparr>" "ic_ready (px_conns s i) = 0"
  shows "proxy_send_command cfg i (call_name c) (tl (ca_args c)) None s = (Inl no_cache_key, s) \<and> call_keys c = None"
proof -
  have "call_name c = ''XPENDING'' \<and> call_keys c = None"
    using assms(1,2) by (auto simp: xpending_range_call_def bindE_eq_Inr split: if_splits)
  then show ?thesis using assms(3,4)
    by (simp add: proxy_send_command_def drain_idle thenS_def bindS_def raiseS_def)
qed

theorem xpending_range_is_refused_witness:
  "let c = call [PStr ''XPENDING'', PStr ''s'', PStr ''g'', PStr ''-'', PStr ''+'', PInt 5] [(''parse_detail'', PBool True)]
   in proxy_send_command (lru_config 10) 0 (call_name c) (tl (ca_args c)) None idle_proxies = (Inl no_cache_key, idle_proxies) \<and> call_keys c = None"
  unfolding Let_def
  by (rule xpending_range_is_refused [where name = "PStr ''s''" and groupname = "PStr ''g''" and lo = "PStr ''-''" and hi = "PStr ''+''"
        and count = "PInt 5" and consumer = PNone and idle = PNone])
    (simp_all add: xpending_range_call_def not_negative_def lru_config_def is_cachable_def is_allowed_to_cache_def DEFAULT_ALLOW_LIST_def idle_proxies_def start_def idle_conn_def)

text \<open>the keys that \<open>zrevrange\<close> names for the cache are the characters of the key, so an entry stored under them
  survives the invalidation of the key.\<close>

theorem zrevrange_is_not_invalidated:
  assumes "call_keys (zrevrange_call (PStr name) lo hi scores f) = Some keys" "py_iter keys = Inr ks"
    and "dict_wf d" "utf8_valid name" "length name \<noteq> 1"
  shows "\<exists>bs d'. delete_by_redis_keys [PBytes name] d = (Inr bs, d') \<and>
    dict_get d' \<lparr>ck_command = ''ZREVRANGE'', ck_redis_keys = ks\<rparr> = dict_get d \<lparr>ck_command = ''ZREVRANGE'', ck_redis_keys = ks\<rparr>"
proof -
  have ks: "ks = map (\<lambda>c. PStr [c]) name"
    using assms(1,2) by (auto simp: zrevrange_call_def py_iter_def)
  have "\<not> mentions (PStr name) \<lparr>ck_command = ''ZREVRANGE'', ck_redis_keys = ks\<rparr>"
    using assms(5) by (auto simp: mentions_def ks list_ex_iff)
  moreover have "mapE decode_redis_key [PBytes name] = Inr [PStr name]" using assms(4) by (simp add: decode_redis_key_def)
  ultimately show ?thesis using delete_by_redis_keys_spec [OF assms(3), of "[PBytes name]" "[PStr name]"] by auto
qed

theorem zrevrange_is_not_invalidated_witness:
  "\<exists>bs d'. delete_by_redis_keys [PBytes ''ab''] [(zrevrange_key, zrevrange_entry)] = (Inr bs, d') \<and>
    dict_get d' \<lparr>ck_command = ''ZREVRANGE'', ck_redis_keys = [PStr ''a'', PStr ''b'']\<rparr> =
      dict_get [(zrevrange_key, zrevrange_entry)] \<lparr>ck_command = ''ZREVRANGE'', ck_redis_keys = [PStr ''a'', PStr ''b'']\<rparr>"
  by (rule zrevrange_is_not_invalidated [where lo = "PInt 0" and hi = "PInt 1" and scores = False and f = PNone and keys = "PStr ''ab''"])
    (simp_all add: zrevrange_call_def py_iter_def dict_wf_def ascii_def)

end
