(* ===== verification/ClusterCommands.thy ===== *)
theory ClusterCommands
  imports ClusterPipeline CommandCall
begin

text \<open>
  The commands of a cluster client (\<open>redis/commands/cluster.py\<close>): those on several keys, which are split by slot and
  sent through a pipeline, the scan over several nodes, and the management commands with their target nodes.
\<close>

section \<open>Splitting by slot\<close>

text \<open>\<open>slots_to_keys.setdefault(slot, []).append(key)\<close>, and \<open>extend(pair)\<close> for pairs.\<close>

fun add_to_slot :: "nat \<Rightarrow> pyval list \<Rightarrow> (nat \<times> pyval list) list \<Rightarrow> (nat \<times> pyval list) list" where
  "add_to_slot s xs [] = [(s, xs)]"
| "add_to_slot s xs ((t, ys) # d) = (if t = s then (t, ys @ xs) # d else (t, ys) # add_to_slot s xs d)"

fun partition_keys_by_slot :: "encoder \<Rightarrow> pyval list \<Rightarrow> (nat \<times> pyval list) list \<Rightarrow> exc + (nat \<times> pyval list) list" where
  "partition_keys_by_slot enc [] d = Inr d"
| "partition_keys_by_slot enc (k # ks) d =
     bindE (keyslot enc k) (\<lambda>s. partition_keys_by_slot enc ks (add_to_slot s [k] d))"

fun partition_pairs_by_slot :: "encoder \<Rightarrow> (pyval \<times> pyval) list \<Rightarrow> (nat \<times> pyval list) list \<Rightarrow> exc + (nat \<times> pyval list) list" where
  "partition_pairs_by_slot enc [] d = Inr d"
| "partition_pairs_by_slot enc ((k, v) # ps) d =
     bindE (keyslot enc k) (\<lambda>s. partition_pairs_by_slot enc ps (add_to_slot s [k, v] d))"

section \<open>One pipeline for all slots\<close>

text \<open>\<open>RedisCluster.pipeline()\<close>: it shares the table of nodes and starts its own counter.\<close>

definition make_pipeline :: "cluster_client \<Rightarrow> node_io list \<Rightarrow> cluster_pipeline" where
  "make_pipeline c io = \<lparr>cp_client = c\<lparr>cl_reinitialize_counter := 0\<rparr>, cp_stack = [], cp_io = io, cp_log = []\<rparr>"

definition stage_for_slot :: "string \<Rightarrow> bool \<Rightarrow> nat \<times> pyval list \<Rightarrow> unit cp_op" where
  "stage_for_slot command read = (\<lambda>(slot, args).
     bindS (on_cluster (node_of_slot (PInt (int slot)) read)) (\<lambda>n.
       modS (cluster_pipeline_execute_command command args (Nodes [n]))))"

fun stage_all :: "string \<Rightarrow> bool \<Rightarrow> (nat \<times> pyval list) list \<Rightarrow> unit cp_op" where
  "stage_all command read [] = retS ()"
| "stage_all command read (x # xs) = thenS (stage_for_slot command read x) (stage_all command read xs)"

definition execute_pipeline_by_slot :: "string \<Rightarrow> (nat \<times> pyval list) list \<Rightarrow> pyval list cp_op" where
  "execute_pipeline_by_slot command slots_to_args =
     bindS (getS (\<lambda>p. cl_read_from_replicas (cp_client p) \<and> command \<in> set READ_COMMANDS)) (\<lambda>read.
     thenS (stage_all command read slots_to_args) (cluster_pipeline_execute True))"

section \<open>Commands on several keys\<close>

text \<open>A dictionary from keys to values, built from pairs; \<open>zip\<close> stops at the shorter list.\<close>

fun collect_values :: "(nat \<times> pyval list) list \<Rightarrow> pyval list \<Rightarrow> (pyval \<times> pyval) list \<Rightarrow> exc + (pyval \<times> pyval) list" where
  "collect_values ((s, ks) # slots) (r # rs) d =
     bindE (py_iter r) (\<lambda>vs.
       if list_all hashable (map fst (zip ks vs)) then collect_values slots rs (foldl (\<lambda>d (k, v). pd_set k v d) d (zip ks vs))
       else Inl (Exc TypeError ''unhashable type''))"
| "collect_values _ _ d = Inr d"

definition look_up :: "(pyval \<times> pyval) list \<Rightarrow> pyval \<Rightarrow> exc + pyval" where
  "look_up d k = (case pd_get k d of Some v \<Rightarrow> Inr v | None \<Rightarrow> Inl (Exc KeyError ''key''))"

definition reorder_keys_by_command :: "pyval list \<Rightarrow> (nat \<times> pyval list) list \<Rightarrow> pyval list \<Rightarrow> exc + pyval list" where
  "reorder_keys_by_command keys slots_to_args responses =
     bindE (collect_values slots_to_args responses []) (\<lambda>results. mapE (look_up results) keys)"

definition mget_nonatomic :: "pyval \<Rightarrow> pyval list \<Rightarrow> pyval list cp_op" where
  "mget_nonatomic keys args =
     bindS (getS (\<lambda>p. cl_encoder (cp_client p))) (\<lambda>enc.
     let keys = list_or_args keys args in
     bindS (liftS (partition_keys_by_slot enc keys [])) (\<lambda>slots_to_keys.
     bindS (execute_pipeline_by_slot ''MGET'' slots_to_keys) (\<lambda>res.
       liftS (reorder_keys_by_command keys slots_to_keys res))))"

definition mset_nonatomic :: "(pyval \<times> pyval) list \<Rightarrow> pyval list cp_op" where
  "mset_nonatomic mapping =
     bindS (getS (\<lambda>p. cl_encoder (cp_client p))) (\<lambda>enc.
     bindS (liftS (partition_pairs_by_slot enc mapping [])) (\<lambda>slots_to_pairs.
       execute_pipeline_by_slot ''MSET'' slots_to_pairs))"

text \<open>\<open>sum\<close> of replies that are integers.\<close>

fun sum_replies :: "pyval list \<Rightarrow> exc + int" where
  "sum_replies [] = Inr 0"
| "sum_replies (v # vs) =
     (if is_int v then bindE (sum_replies vs) (\<lambda>n. Inr (int_of_val v + n)) else Inl (Exc TypeError ''unsupported operand''))"

definition split_command_across_slots :: "string \<Rightarrow> pyval list \<Rightarrow> int cp_op" where
  "split_command_across_slots command keys =
     bindS (getS (\<lambda>p. cl_encoder (cp_client p))) (\<lambda>enc.
     bindS (liftS (partition_keys_by_slot enc keys [])) (\<lambda>slots_to_keys.
     bindS (execute_pipeline_by_slot command slots_to_keys) (\<lambda>rs. liftS (sum_replies rs))))"

definition cluster_exists :: "pyval list \<Rightarrow> int cp_op" where
  "cluster_exists keys = split_command_across_slots ''EXISTS'' keys"

definition cluster_delete :: "pyval list \<Rightarrow> int cp_op" where
  "cluster_delete keys = split_command_across_slots ''DEL'' keys"

definition cluster_touch :: "pyval list \<Rightarrow> int cp_op" where
  "cluster_touch keys = split_command_across_slots ''TOUCH'' keys"

definition cluster_unlink :: "pyval list \<Rightarrow> int cp_op" where
  "cluster_unlink keys = split_command_across_slots ''UNLINK'' keys"

section \<open>Scanning all nodes\<close>

text \<open>
  \<open>scan_iter\<close>: a first scan of all target nodes gives a cursor for each, then the nodes whose cursor is not 0 are
  scanned in turn, each at its own cursor. \<open>page name cursor\<close> is one \<open>scan\<close> at one node; the lists are what the
  generator yields.
\<close>

type_synonym 'w node_scan = "string \<Rightarrow> int \<Rightarrow> ('w, exc, (string \<times> int) list \<times> pyval list) action"

definition live_cursors :: "(string \<times> int) list \<Rightarrow> (string \<times> int) list" where
  "live_cursors cursors = filter (\<lambda>(_, cursor). cursor \<noteq> 0) cursors"

fun scan_round :: "'w node_scan \<Rightarrow> (string \<times> int) list \<Rightarrow> ('w, exc, (string \<times> int) list \<times> pyval list) action" where
  "scan_round page [] = retS ([], [])"
| "scan_round page ((name, cursor) # cursors) =
     bindS (page name cursor) (\<lambda>(cur, data).
       case dict_get cur name of
         None \<Rightarrow> raiseS (Exc KeyError name)
       | Some c \<Rightarrow> bindS (scan_round page cursors) (\<lambda>(cs, more). retS ((name, c) # cs, data @ more)))"

partial_function (option) cluster_scan_loop ::
  "'w node_scan \<Rightarrow> (string \<times> int) list \<Rightarrow> pyval list \<Rightarrow> 'w \<Rightarrow> ((exc + pyval list) \<times> 'w) option" where
  "cluster_scan_loop page cursors acc w =
     (if cursors = [] then Some (Inr acc, w)
      else (case scan_round page cursors w of
         (Inl e, w') \<Rightarrow> Some (Inl e, w')
       | (Inr (cs, data), w') \<Rightarrow> cluster_scan_loop page (live_cursors cs) (acc @ data) w'))"

definition cluster_scan_iter ::
  "('w, exc, (string \<times> int) list \<times> pyval list) action \<Rightarrow> 'w node_scan \<Rightarrow> 'w \<Rightarrow> ((exc + pyval list) \<times> 'w) option" where
  "cluster_scan_iter first page w =
     (case first w of
        (Inl e, w') \<Rightarrow> Some (Inl e, w')
      | (Inr (cursors, data), w') \<Rightarrow> cluster_scan_loop page (live_cursors cursors) data w')"

section \<open>STRALGO, READONLY, READWRITE\<close>

text \<open>The default target of STRALGO on strings is the default node.\<close>

definition stralgo_targets :: "string \<Rightarrow> pyval \<Rightarrow> pyval" where
  "stralgo_targets specific_argument target_nodes =
     (if specific_argument = ''strings'' \<and> target_nodes = PNone then PStr ''default-node'' else target_nodes)"

definition cluster_readonly :: "pyval \<Rightarrow> cluster_client \<Rightarrow> call \<times> cluster_client" where
  "cluster_readonly target_nodes c =
     (call [PStr ''READONLY''] [(''target_nodes'', target_nodes)],
      if target_nodes = PStr ''replicas'' \<or> target_nodes = PStr ''all'' then c\<lparr>cl_read_from_replicas := True\<rparr> else c)"

definition cluster_readwrite :: "pyval \<Rightarrow> cluster_client \<Rightarrow> call \<times> cluster_client" where
  "cluster_readwrite target_nodes c = (call [PStr ''READWRITE''] [(''target_nodes'', target_nodes)], c\<lparr>cl_read_from_replicas := False\<rparr>)"


section \<open>\<open>ClusterManagementCommands\<close>\<close>

definition cluster_slaveof_call :: "pyval list \<Rightarrow> kwargs \<Rightarrow> exc + call" where
  "cluster_slaveof_call args kw =
     Inl (Exc RedisClusterException ''SLAVEOF is not supported in cluster mode'')"

definition cluster_replicaof_call :: "pyval list \<Rightarrow> kwargs \<Rightarrow> exc + call" where
  "cluster_replicaof_call args kw =
     Inl (Exc RedisClusterException ''REPLICAOF is not supported in cluster mode'')"

definition cluster_swapdb_call :: "pyval list \<Rightarrow> kwargs \<Rightarrow> exc + call" where
  "cluster_swapdb_call args kw =
     Inl (Exc RedisClusterException ''SWAPDB is not supported in cluster mode'')"

definition cluster_myid_call :: "pyval \<Rightarrow> call" where
  "cluster_myid_call target_node =
     call [PStr ''CLUSTER MYID''] [(''target_nodes'', target_node)]"

definition cluster_addslots_call :: "pyval \<Rightarrow> pyval list \<Rightarrow> call" where
  "cluster_addslots_call target_node slots =
     call ([PStr ''CLUSTER ADDSLOTS''] @ slots) [(''target_nodes'', target_node)]"

definition cluster_addslotsrange_call :: "pyval \<Rightarrow> pyval list \<Rightarrow> call" where
  "cluster_addslotsrange_call target_node slots =
     call ([PStr ''CLUSTER ADDSLOTSRANGE''] @ slots) [(''target_nodes'', target_node)]"

definition cluster_countkeysinslot_call :: "pyval \<Rightarrow> call" where
  "cluster_countkeysinslot_call slot_arg =
     call [PStr ''CLUSTER COUNTKEYSINSLOT'', slot_arg] []"

definition cluster_count_failure_report_call :: "pyval \<Rightarrow> call" where
  "cluster_count_failure_report_call node_id =
     call [PStr ''CLUSTER COUNT-FAILURE-REPORTS'', node_id] []"

definition cluster_delslots_calls :: "pyval list \<Rightarrow> call list" where
  "cluster_delslots_calls slots = map (\<lambda>slot. call [PStr ''CLUSTER DELSLOTS'', slot] []) slots"

definition cluster_delslotsrange_call :: "pyval list \<Rightarrow> call" where
  "cluster_delslotsrange_call slots =
     call ([PStr ''CLUSTER DELSLOTSRANGE''] @ slots) []"

definition cluster_failover_call :: "pyval \<Rightarrow> string option \<Rightarrow> exc + call" where
  "cluster_failover_call target_node option_arg =
     (case option_arg of
        Some s \<Rightarrow>
          if s = [] then Inr (call [PStr ''CLUSTER FAILOVER''] [(''target_nodes'', target_node)])
          else if upper s \<notin> {''FORCE'', ''TAKEOVER''} then Inl (Exc RedisError (''Invalid option for CLUSTER FAILOVER command: '' @ s))
          else Inr (call [PStr ''CLUSTER FAILOVER'', PStr s] [(''target_nodes'', target_node)])
      | None \<Rightarrow> Inr (call [PStr ''CLUSTER FAILOVER''] [(''target_nodes'', target_node)]))"

definition cluster_info_call :: "pyval \<Rightarrow> call" where
  "cluster_info_call target_nodes =
     call [PStr ''CLUSTER INFO''] [(''target_nodes'', target_nodes)]"

definition cluster_keyslot_call :: "pyval \<Rightarrow> call" where
  "cluster_keyslot_call key =
     call [PStr ''CLUSTER KEYSLOT'', key] []"

definition cluster_meet_call :: "pyval \<Rightarrow> pyval \<Rightarrow> pyval \<Rightarrow> call" where
  "cluster_meet_call host port target_nodes =
     call [PStr ''CLUSTER MEET'', host, port] [(''target_nodes'', target_nodes)]"

definition cluster_nodes_call :: "call" where
  "cluster_nodes_call =
     call [PStr ''CLUSTER NODES''] []"

definition cluster_replicate_call :: "pyval \<Rightarrow> pyval \<Rightarrow> call" where
  "cluster_replicate_call target_nodes node_id =
     call [PStr ''CLUSTER REPLICATE'', node_id] [(''target_nodes'', target_nodes)]"

definition cluster_reset_call :: "bool \<Rightarrow> pyval \<Rightarrow> call" where
  "cluster_reset_call soft target_nodes =
     call [PStr ''CLUSTER RESET'', PBytes (if soft then ''SOFT'' else ''HARD'')] [(''target_nodes'', target_nodes)]"

definition cluster_save_config_call :: "pyval \<Rightarrow> call" where
  "cluster_save_config_call target_nodes =
     call [PStr ''CLUSTER SAVECONFIG''] [(''target_nodes'', target_nodes)]"

definition cluster_get_keys_in_slot_call :: "pyval \<Rightarrow> pyval \<Rightarrow> call" where
  "cluster_get_keys_in_slot_call slot num_keys =
     call [PStr ''CLUSTER GETKEYSINSLOT'', slot, num_keys] []"

definition cluster_set_config_epoch_call :: "pyval \<Rightarrow> pyval \<Rightarrow> call" where
  "cluster_set_config_epoch_call epoch target_nodes =
     call [PStr ''CLUSTER SET-CONFIG-EPOCH'', epoch] [(''target_nodes'', target_nodes)]"

definition cluster_setslot_call :: "pyval \<Rightarrow> pyval \<Rightarrow> pyval \<Rightarrow> string \<Rightarrow> exc + call" where
  "cluster_setslot_call target_node node_id slot_arg state =
     (if upper state \<in> {''IMPORTING'', ''NODE'', ''MIGRATING''}
      then Inr (call [PStr ''CLUSTER SETSLOT'', slot_arg, PStr state, node_id] [(''target_nodes'', target_node)])
      else if upper state = ''STABLE''
      then Inl (Exc RedisError (''For '' @ [CHR 34] @ ''stable'' @ [CHR 34] @ '' state please use cluster_setslot_stable''))
      else Inl (Exc RedisError (''Invalid slot state: '' @ state)))"

definition cluster_setslot_stable_call :: "pyval \<Rightarrow> call" where
  "cluster_setslot_stable_call slot_arg =
     call [PStr ''CLUSTER SETSLOT'', slot_arg, PStr ''STABLE''] []"

definition cluster_replicas_call :: "pyval \<Rightarrow> pyval \<Rightarrow> call" where
  "cluster_replicas_call node_id target_nodes =
     call [PStr ''CLUSTER REPLICAS'', node_id] [(''target_nodes'', target_nodes)]"

definition cluster_slots_call :: "pyval \<Rightarrow> call" where
  "cluster_slots_call target_nodes =
     call [PStr ''CLUSTER SLOTS''] [(''target_nodes'', target_nodes)]"

definition cluster_shards_call :: "pyval \<Rightarrow> call" where
  "cluster_shards_call target_nodes =
     call [PStr ''CLUSTER SHARDS''] [(''target_nodes'', target_nodes)]"

definition cluster_myshardid_call :: "pyval \<Rightarrow> call" where
  "cluster_myshardid_call target_nodes =
     call [PStr ''CLUSTER MYSHARDID''] [(''target_nodes'', target_nodes)]"

definition cluster_links_call :: "pyval \<Rightarrow> call" where
  "cluster_links_call target_node =
     call [PStr ''CLUSTER LINKS''] [(''target_nodes'', target_node)]"

definition cluster_flushslots_call :: "pyval \<Rightarrow> exc + call" where
  "cluster_flushslots_call target_nodes =
     Inl (Exc NotImplementedError ''CLUSTER FLUSHSLOTS is intentionally not implemented in the client.'')"

definition cluster_bumpepoch_call :: "pyval \<Rightarrow> exc + call" where
  "cluster_bumpepoch_call target_nodes =
     Inl (Exc NotImplementedError ''CLUSTER BUMPEPOCH is intentionally not implemented in the client.'')"

definition gears_refresh_cluster_call :: "kwargs \<Rightarrow> call" where
  "gears_refresh_cluster_call kw =
     call [PStr ''REDISGEARS_2.REFRESHCLUSTER''] kw"

section \<open>The calls that can be built\<close>

text \<open>Every method with arguments that can be encoded.\<close>

inductive cluster_admin_call :: "call \<Rightarrow> bool" where
  "cluster_admin_call (cluster_myid_call target_node)"
| "list_all encodable slots \<Longrightarrow> cluster_admin_call (cluster_addslots_call target_node slots)"
| "list_all encodable slots \<Longrightarrow> cluster_admin_call (cluster_addslotsrange_call target_node slots)"
| "encodable slot_arg \<Longrightarrow> cluster_admin_call (cluster_countkeysinslot_call slot_arg)"
| "encodable node_id \<Longrightarrow> cluster_admin_call (cluster_count_failure_report_call node_id)"
| "list_all encodable slots \<Longrightarrow> cluster_admin_call (cluster_delslotsrange_call slots)"
| "cluster_failover_call target_node option_arg = Inr c \<Longrightarrow> cluster_admin_call c"
| "cluster_admin_call (cluster_info_call target_nodes)"
| "encodable key \<Longrightarrow> cluster_admin_call (cluster_keyslot_call key)"
| "encodable host \<Longrightarrow> encodable port \<Longrightarrow> cluster_admin_call (cluster_meet_call host port target_nodes)"
| "cluster_admin_call (cluster_nodes_call)"
| "encodable node_id \<Longrightarrow> cluster_admin_call (cluster_replicate_call target_nodes node_id)"
| "cluster_admin_call (cluster_reset_call soft target_nodes)"
| "cluster_admin_call (cluster_save_config_call target_nodes)"
| "encodable slot \<Longrightarrow> encodable num_keys \<Longrightarrow> cluster_admin_call (cluster_get_keys_in_slot_call slot num_keys)"
| "encodable epoch \<Longrightarrow> cluster_admin_call (cluster_set_config_epoch_call epoch target_nodes)"
| "encodable slot_arg \<Longrightarrow> encodable node_id \<Longrightarrow>
     cluster_setslot_call target_node node_id slot_arg state = Inr c \<Longrightarrow> cluster_admin_call c"
| "encodable slot_arg \<Longrightarrow> cluster_admin_call (cluster_setslot_stable_call slot_arg)"
| "encodable node_id \<Longrightarrow> cluster_admin_call (cluster_replicas_call node_id target_nodes)"
| "cluster_admin_call (cluster_slots_call target_nodes)"
| "cluster_admin_call (cluster_shards_call target_nodes)"
| "cluster_admin_call (cluster_myshardid_call target_nodes)"
| "cluster_admin_call (cluster_links_call target_node)"
| "cluster_admin_call (gears_refresh_cluster_call kw)"

lemmas cluster_admin_call_defs = cluster_slaveof_call_def cluster_replicaof_call_def cluster_swapdb_call_def cluster_myid_call_def cluster_addslots_call_def
  cluster_addslotsrange_call_def cluster_countkeysinslot_call_def cluster_count_failure_report_call_def cluster_delslotsrange_call_def
  cluster_failover_call_def cluster_info_call_def cluster_keyslot_call_def cluster_meet_call_def cluster_nodes_call_def
  cluster_replicate_call_def cluster_reset_call_def cluster_save_config_call_def cluster_get_keys_in_slot_call_def
  cluster_set_config_epoch_call_def cluster_setslot_call_def cluster_setslot_stable_call_def cluster_replicas_call_def
  cluster_slots_call_def cluster_shards_call_def cluster_myshardid_call_def cluster_links_call_def cluster_flushslots_call_def
  cluster_bumpepoch_call_def gears_refresh_cluster_call_def



end
