(* ===== verification/ClusterCommandsCorrect.thy ===== *)
theory ClusterCommandsCorrect
  imports ClusterCommands ClusterPipelineCorrect
begin

text \<open>
  The commands on several keys of a cluster: every key goes to its slot exactly once, values come back in the order
  of the keys, counts add up, and a scan over several nodes ends with every element of every node.
\<close>

section \<open>Splitting by slot\<close>

definition slot_args :: "(nat \<times> pyval list) list \<Rightarrow> nat \<Rightarrow> pyval list" where
  "slot_args d s = (case map_of d s of Some xs \<Rightarrow> xs | None \<Rightarrow> [])"

lemma add_to_slot_args: "slot_args (add_to_slot s xs d) t = (if t = s then slot_args d s @ xs else slot_args d t)"
  by (induction s xs d rule: add_to_slot.induct) (auto simp: slot_args_def)

lemma add_to_slot_slots: "set (map fst (add_to_slot s xs d)) = insert s (set (map fst d))"
  by (induction s xs d rule: add_to_slot.induct) auto

lemma add_to_slot_distinct: "distinct (map fst d) \<Longrightarrow> distinct (map fst (add_to_slot s xs d))"
  by (induction s xs d rule: add_to_slot.induct) (use add_to_slot_slots in auto)

lemma add_to_slot_mset: "mset (concat (map snd (add_to_slot s xs d))) = mset (concat (map snd d)) + mset xs"
  by (induction s xs d rule: add_to_slot.induct) auto

lemma partition_keys:
  assumes "partition_keys_by_slot enc ks d = Inr d'" "distinct (map fst d)"
  shows "distinct (map fst d')" "slot_args d' s = slot_args d s @ filter (\<lambda>k. keyslot enc k = Inr s) ks"
    "mset (concat (map snd d')) = mset (concat (map snd d)) + mset ks"
    "set (map fst d') = set (map fst d) \<union> {s. \<exists>k \<in> set ks. keyslot enc k = Inr s}"
  using assms
proof (induction ks arbitrary: d)
  case (Cons k ks)
  {
    case 1
    then show ?case using Cons.IH(1) [OF _ add_to_slot_distinct] by (auto simp: bindE_eq_Inr)
  next
    case 2
    then show ?case using Cons.IH(2) [OF _ add_to_slot_distinct] by (auto simp: bindE_eq_Inr add_to_slot_args)
  next
    case 3
    then show ?case using Cons.IH(3) [OF _ add_to_slot_distinct] by (auto simp: bindE_eq_Inr add_to_slot_mset)
  next
    case 4
    then obtain t where "keyslot enc k = Inr t" "partition_keys_by_slot enc ks (add_to_slot t [k] d) = Inr d'"
      by (auto simp: bindE_eq_Inr)
    then show ?case using Cons.IH(4) [OF _ add_to_slot_distinct, of t "[k]" d] 4(2) add_to_slot_slots by auto
  }
qed simp_all

lemma slot_args_in: "distinct (map fst d) \<Longrightarrow> (s, xs) \<in> set d \<Longrightarrow> slot_args d s = xs"
  by (simp add: slot_args_def)

lemma partition_entry:
  assumes "partition_keys_by_slot enc ks [] = Inr d" "(s, xs) \<in> set d"
  shows "xs = filter (\<lambda>k. keyslot enc k = Inr s) ks" "xs \<noteq> []"
proof -
  note p = partition_keys [OF assms(1)]
  show x: "xs = filter (\<lambda>k. keyslot enc k = Inr s) ks"
    using p(2) [of s] slot_args_in [OF p(1) assms(2)] by (simp add: slot_args_def)
  have "s \<in> set (map fst d)" using assms(2) by (force intro: image_eqI)
  then have "\<exists>k \<in> set ks. keyslot enc k = Inr s" using p(4) by simp
  then show "xs \<noteq> []" using x by (auto simp: filter_empty_conv)
qed

section \<open>Values in the order of the keys\<close>

lemma pd_get_pd_set: "pd_get k (pd_set k' v d) = (if py_key_eq k k' then Some v else pd_get k d)"
  by (induction k' v d rule: pd_set.induct) (auto simp: py_key_eq_def)

text \<open>A value for each key, the same for keys that a dictionary takes for equal.\<close>

definition value_per_key :: "pyval set \<Rightarrow> (pyval \<Rightarrow> pyval) \<Rightarrow> bool" where
  "value_per_key K store = (\<forall>a \<in> K. \<forall>b \<in> K. py_key_eq a b \<longrightarrow> store a = store b)"

definition holds :: "pyval set \<Rightarrow> (pyval \<Rightarrow> pyval) \<Rightarrow> (pyval \<times> pyval) list \<Rightarrow> bool" where
  "holds K store d = (\<forall>k \<in> K. pd_get k d = Some (store k))"

lemma holds_set: "value_per_key (insert x K) store \<Longrightarrow> holds K store d \<Longrightarrow> holds (insert x K) store (pd_set x (store x) d)"
  unfolding holds_def value_per_key_def pd_get_pd_set by (metis insert_iff py_key_eq_def)

lemma holds_foldl:
  "value_per_key (K \<union> set ks) store \<Longrightarrow> holds K store d \<Longrightarrow>
     holds (K \<union> set ks) store (foldl (\<lambda>d (k, v). pd_set k v d) d (zip ks (map store ks)))"
proof (induction ks arbitrary: d K)
  case (Cons x ks)
  have "holds (insert x K) store (pd_set x (store x) d)"
    by (rule holds_set) (use Cons.prems in \<open>auto simp: value_per_key_def\<close>)
  from Cons.IH [OF _ this] Cons.prems(1) show ?case by simp
qed simp

lemma collect_values_hold:
  "value_per_key (K \<union> set (concat (map snd slots))) store \<Longrightarrow> holds K store d \<Longrightarrow> list_all hashable (concat (map snd slots)) \<Longrightarrow>
     \<exists>d'. collect_values slots (map (\<lambda>(s, ks). PList (map store ks)) slots) d = Inr d' \<and> holds (K \<union> set (concat (map snd slots))) store d'"
proof (induction slots arbitrary: d K)
  case (Cons slot slots)
  obtain s ks where slot: "slot = (s, ks)" by force
  let ?d = "foldl (\<lambda>d (k, v). pd_set k v d) d (zip ks (map store ks))"
  have "holds (K \<union> set ks) store ?d"
    by (rule holds_foldl) (use Cons.prems slot in \<open>auto simp: value_per_key_def\<close>)
  moreover have z: "map fst (zip ks (map store ks)) = ks" by simp
  ultimately show ?case using Cons.IH [of "K \<union> set ks" ?d] Cons.prems slot
    by (auto simp: py_iter_def z Un_assoc)
qed simp

lemma look_up_all: "holds K store d \<Longrightarrow> set ks \<subseteq> K \<Longrightarrow> mapE (look_up d) ks = Inr (map store ks)"
  by (induction ks) (auto simp: holds_def look_up_def)

lemma reorder_keys:
  assumes "partition_keys_by_slot enc ks [] = Inr parts" "value_per_key (set ks) store" "list_all hashable ks"
  shows "reorder_keys_by_command ks parts (map (\<lambda>(s, ks). PList (map store ks)) parts) = Inr (map store ks)"
proof -
  have "mset (concat (map snd parts)) = mset ks" using partition_keys(3) [OF assms(1)] by simp
  then have u: "set (concat (map snd parts)) = set ks" by (metis set_mset_mset)
  then have "list_all hashable (concat (map snd parts))" using assms(3) by (simp only: list_all_iff)
  then obtain d where d: "collect_values parts (map (\<lambda>(s, ks). PList (map store ks)) parts) [] = Inr d" "holds (set ks) store d"
    using collect_values_hold [of "{}" parts store "[]"] assms(2) u by (auto simp: holds_def)
  then show ?thesis using look_up_all [OF d(2) subset_refl] by (simp add: reorder_keys_by_command_def)
qed

section \<open>Staging and sending\<close>

definition same_stack :: "cluster_pipeline \<Rightarrow> cluster_pipeline \<Rightarrow> bool" where
  "same_stack p q = (cp_stack q = cp_stack p)"

lemma stack_of_on_cluster: "on_cluster f p = (r, q) \<Longrightarrow> cp_stack q = cp_stack p \<and> cp_io q = cp_io p \<and> cp_log q = cp_log p"
  by (auto simp: on_cluster_def split: prod.splits)

lemma stage_all_names:
  "stage_all command read parts p = (Inr (), q) \<Longrightarrow>
     length (cp_stack q) = length (cp_stack p) + length parts \<and> take (length (cp_stack p)) (cp_stack q) = cp_stack p \<and>
     (\<forall>i < length parts. pc_name (cp_stack q ! (length (cp_stack p) + i)) = command \<and>
        pc_rest (cp_stack q ! (length (cp_stack p) + i)) = snd (parts ! i))"
proof (induction parts arbitrary: p)
  case (Cons part parts)
  obtain slot args where part: "part = (slot, args)" by force
  obtain r p1 where n: "on_cluster (node_of_slot (PInt (int slot)) read) p = (r, p1)" by force
  then have st: "cp_stack p1 = cp_stack p" using stack_of_on_cluster by blast
  obtain n where r: "r = Inr n" using Cons.prems n part by (cases r) (auto simp: stage_for_slot_def)
  let ?p2 = "cluster_pipeline_execute_command command args (Nodes [n]) p1"
  have q: "stage_all command read parts ?p2 = (Inr (), q)" using Cons.prems n part r by (simp add: stage_for_slot_def modS_def)
  have l: "length (cp_stack ?p2) = Suc (length (cp_stack p))" and t: "take (length (cp_stack p)) (cp_stack ?p2) = cp_stack p"
    and c: "pc_name (cp_stack ?p2 ! length (cp_stack p)) = command" "pc_rest (cp_stack ?p2 ! length (cp_stack p)) = args"
    by (simp_all add: cluster_pipeline_execute_command_def st)
  from Cons.IH [OF q] have ih: "length (cp_stack q) = Suc (length (cp_stack p)) + length parts" "take (Suc (length (cp_stack p))) (cp_stack q) = cp_stack ?p2"
      "\<And>i. i < length parts \<Longrightarrow> pc_name (cp_stack q ! (Suc (length (cp_stack p)) + i)) = command \<and>
        pc_rest (cp_stack q ! (Suc (length (cp_stack p)) + i)) = snd (parts ! i)"
    by (simp_all only: l)
  have "cp_stack q ! length (cp_stack p) = cp_stack ?p2 ! length (cp_stack p)"
    by (metis ih(2) lessI nth_take)
  moreover have "take (length (cp_stack p)) (cp_stack q) = cp_stack p"
    using t ih(2) by (metis le_add2 min.absorb1 plus_1_eq_Suc take_take)
  ultimately show ?case using ih c part by (auto simp: less_Suc_eq_0_disj)
qed simp

text \<open>Every command can be staged, routed and written, and every node answers its commands by a function of their arguments.\<close>

definition answers_by :: "string \<Rightarrow> (nat \<times> pyval list) list \<Rightarrow> (pyval list \<Rightarrow> pyval) \<Rightarrow> cluster_pipeline \<Rightarrow> bool" where
  "answers_by command parts f p =
     (\<exists>p1 nodes d q. stage_all command (cl_read_from_replicas (cp_client p) \<and> command \<in> set READ_COMMANDS) parts p = (Inr (), p1) \<and>
        group_commands [0..<length parts] [] False p1 = (Inr (nodes, d), q) \<and>
        (\<forall>n \<in> set nodes. io_write (nc_io n) = None \<and> io_replies (nc_io n) = map (\<lambda>i. Inr (f (snd (parts ! i)))) (nc_commands n)))"

lemma pipeline_by_slot:
  assumes "cp_stack p = []" "answers_by command parts f p" "\<And>ks. not_exc (f ks)" "\<And>v. cluster_response_callback command v = Inr v"
  shows "\<exists>p'. execute_pipeline_by_slot command parts p = (Inr (map (\<lambda>(s, ks). f ks) parts), p')"
proof -
  from assms(2) obtain p1 nodes d q where
    st: "stage_all command (cl_read_from_replicas (cp_client p) \<and> command \<in> set READ_COMMANDS) parts p = (Inr (), p1)"
    and g: "group_commands [0..<length parts] [] False p1 = (Inr (nodes, d), q)"
    and a: "\<And>n. n \<in> set nodes \<Longrightarrow> io_write (nc_io n) = None \<and> io_replies (nc_io n) = map (\<lambda>i. Inr (f (snd (parts ! i)))) (nc_commands n)"
    unfolding answers_by_def by blast
  from stage_all_names [OF st] assms(1) have names: "length (cp_stack p1) = length parts"
      "\<And>i. i < length parts \<Longrightarrow> pc_name (cp_stack p1 ! i) = command" by simp_all
  have run: "execute_pipeline_by_slot command parts p = cluster_pipeline_execute True p1"
    using st by (simp add: execute_pipeline_by_slot_def)
  have eq: "map (\<lambda>(s, ks). f ks) parts = map (\<lambda>i. f (snd (parts ! i))) [0..<length parts]"
    by (rule nth_equalityI) (simp_all add: case_prod_beta)
  show ?thesis
  proof (cases "parts = []")
    case True
    then show ?thesis using names run
      by (simp add: cluster_pipeline_execute_def send_cluster_commands_def finallyS_def)
  next
    case False
    then have "cp_stack p1 \<noteq> []" using names by auto
    moreover have "group_commands [0..<length (cp_stack p1)] [] False p1 = (Inr (nodes, d), q)" using g names by simp
    ultimately show ?thesis
      using cluster_pipeline_answers [of p1 nodes d q "\<lambda>i. f (snd (parts ! i))" "\<lambda>i. f (snd (parts ! i))"] a assms(3,4) names run eq by auto
  qed
qed

section \<open>Scanning all nodes\<close>

text \<open>The pages of one node from a cursor on: the cursor of the last page is 0.\<close>

inductive node_pages :: "(string \<Rightarrow> int \<Rightarrow> int \<times> pyval list) \<Rightarrow> string \<Rightarrow> int \<Rightarrow> pyval list list \<Rightarrow> bool" for srv where
  Finished: "node_pages srv name 0 []"
| Page: "cursor \<noteq> 0 \<Longrightarrow> srv name cursor = (cursor', data) \<Longrightarrow> node_pages srv name cursor' pages \<Longrightarrow> node_pages srv name cursor (data # pages)"

inductive_cases pages_zero: "node_pages srv name 0 pages"
inductive_cases pages_more: "node_pages srv name cursor pages"

text \<open>A scan of a node that the server answers.\<close>

definition serves :: "'w node_scan \<Rightarrow> (string \<Rightarrow> int \<Rightarrow> int \<times> pyval list) \<Rightarrow> bool" where
  "serves page srv = (\<forall>name cursor w. \<exists>w'. page name cursor w = (Inr ([(name, fst (srv name cursor))], snd (srv name cursor)), w'))"

lemma scan_round_serves:
  assumes "serves page srv"
  shows "\<exists>w'. scan_round page cursors w =
    (Inr (map (\<lambda>(n, c). (n, fst (srv n c))) cursors, concat (map (\<lambda>(n, c). snd (srv n c)) cursors)), w')"
proof (induction cursors arbitrary: w)
  case (Cons x cursors)
  obtain n c where x: "x = (n, c)" by force
  from assms obtain w1 where p: "page n c w = (Inr ([(n, fst (srv n c))], snd (srv n c)), w1)" unfolding serves_def by blast
  from Cons.IH [of w1] obtain w2 where "scan_round page cursors w1 =
    (Inr (map (\<lambda>(n, c). (n, fst (srv n c))) cursors, concat (map (\<lambda>(n, c). snd (srv n c)) cursors)), w2)" by blast
  then show ?case using p by (simp add: x)
qed simp

text \<open>The pages that are left for each live node.\<close>

definition pages_left :: "(string \<Rightarrow> int \<Rightarrow> int \<times> pyval list) \<Rightarrow> (string \<times> int) list \<Rightarrow> pyval list list list \<Rightarrow> bool" where
  "pages_left srv cursors left = list_all2 (\<lambda>(n, c) pages. c \<noteq> 0 \<and> node_pages srv n c pages) cursors left"

lemma pages_step:
  assumes "pages_left srv cursors left"
  shows "\<exists>left'. pages_left srv (live_cursors (map (\<lambda>(n, c). (n, fst (srv n c))) cursors)) left' \<and>
    mset (concat (concat left)) = mset (concat (map (\<lambda>(n, c). snd (srv n c)) cursors)) + mset (concat (concat left')) \<and>
    length (concat left) = length cursors + length (concat left')"
  using assms unfolding pages_left_def
proof (induction cursors left rule: list_all2_induct)
  case Nil
  then show ?case by (intro exI [of _ "[]"]) (simp add: live_cursors_def)
next
  case (Cons x xs pages left)
  obtain n c where x: "x = (n, c)" by force
  from Cons.hyps(1) x have "c \<noteq> 0" "node_pages srv n c pages" by simp_all
  then obtain c' data rest where page: "srv n c = (c', data)" "pages = data # rest" "node_pages srv n c' rest"
    by (auto elim: node_pages.cases)
  from Cons.IH obtain left' where left': "list_all2 (\<lambda>(n, c) pages. c \<noteq> 0 \<and> node_pages srv n c pages)
        (live_cursors (map (\<lambda>(n, c). (n, fst (srv n c))) xs)) left'"
      "mset (concat (concat left)) = mset (concat (map (\<lambda>(n, c). snd (srv n c)) xs)) + mset (concat (concat left'))"
      "length (concat left) = length xs + length (concat left')" by blast
  show ?case
  proof (cases "c' = 0")
    case True
    then have "rest = []" using page(3) by (auto elim: pages_zero)
    then show ?thesis using left' x page True by (intro exI [of _ left']) (simp add: live_cursors_def)
  next
    case False
    then show ?thesis using left' x page by (intro exI [of _ "rest # left'"]) (simp add: live_cursors_def)
  qed
qed

lemma scan_loop_complete:
  assumes "serves page srv" "pages_left srv cursors left"
  shows "\<exists>vs w'. cluster_scan_loop page cursors acc w = Some (Inr (acc @ vs), w') \<and> mset vs = mset (concat (concat left))"
  using assms(2)
proof (induction "length (concat left)" arbitrary: cursors left acc w rule: less_induct)
  case less
  show ?case
  proof (cases "cursors = []")
    case True
    then show ?thesis using less.prems by (simp add: cluster_scan_loop.simps pages_left_def)
  next
    case False
    obtain w1 where r: "scan_round page cursors w =
        (Inr (map (\<lambda>(n, c). (n, fst (srv n c))) cursors, concat (map (\<lambda>(n, c). snd (srv n c)) cursors)), w1)"
      using scan_round_serves [OF assms(1)] by blast
    from pages_step [OF less.prems] obtain left' where l:
      "pages_left srv (live_cursors (map (\<lambda>(n, c). (n, fst (srv n c))) cursors)) left'"
      "mset (concat (concat left)) = mset (concat (map (\<lambda>(n, c). snd (srv n c)) cursors)) + mset (concat (concat left'))"
      "length (concat left) = length cursors + length (concat left')" by blast
    have "length (concat left') < length (concat left)" using l(3) False by simp
    from less.hyps [OF this l(1)] obtain vs w' where
      "cluster_scan_loop page (live_cursors (map (\<lambda>(n, c). (n, fst (srv n c))) cursors)) (acc @ concat (map (\<lambda>(n, c). snd (srv n c)) cursors)) w1 =
         Some (Inr ((acc @ concat (map (\<lambda>(n, c). snd (srv n c)) cursors)) @ vs), w')" "mset vs = mset (concat (concat left'))" by blast
    then show ?thesis using False r l(2)
      by (intro exI [of _ "concat (map (\<lambda>(n, c). snd (srv n c)) cursors) @ vs"] exI [of _ w']) (simp add: cluster_scan_loop.simps [of page cursors])
  qed
qed

section \<open>Properties\<close>

text \<open>a list of keys is split so that every key goes exactly once, to the command of its slot; each slot has one
  command, with its keys in the order they were given.\<close>

theorem keys_are_partitioned:
  assumes "partition_keys_by_slot enc keys [] = Inr parts"
  shows "distinct (map fst parts) \<and> mset (concat (map snd parts)) = mset keys \<and>
    (\<forall>(s, ks) \<in> set parts. ks \<noteq> [] \<and> ks = filter (\<lambda>k. keyslot enc k = Inr s) keys)"
proof -
  have "ks \<noteq> [] \<and> ks = filter (\<lambda>k. keyslot enc k = Inr s) keys" if "(s, ks) \<in> set parts" for s ks
    using partition_entry [OF assms that] by simp
  then show ?thesis using partition_keys(1,3) [OF assms] by auto
qed

text \<open>C26: when every node answers its MGET by the values of its keys, \<open>mget_nonatomic\<close> returns the values in the order of
  the keys it was given, however they are spread over slots and nodes, repeated keys included.\<close>

theorem mget_nonatomic_in_order:
  assumes "cp_stack p = []" "partition_keys_by_slot (cl_encoder (cp_client p)) (list_or_args keys args) [] = Inr parts"
    and "answers_by ''MGET'' parts (\<lambda>ks. PList (map store ks)) p"
    and "value_per_key (set (list_or_args keys args)) store" "list_all hashable (list_or_args keys args)"
  shows "\<exists>p'. mget_nonatomic keys args p = (Inr (map store (list_or_args keys args)), p')"
proof -
  have "cluster_response_callback ''MGET'' v = Inr v" for v by (simp add: cluster_response_callback_def upper_def)
  from pipeline_by_slot [OF assms(1,3) _ this] obtain p' where
    "execute_pipeline_by_slot ''MGET'' parts p = (Inr (map (\<lambda>(s, ks). PList (map store ks)) parts), p')"
    by (auto simp: not_exc_def)
  then show ?thesis using assms(2) reorder_keys [OF assms(2,4,5)] by (simp add: mget_nonatomic_def Let_def)
qed

text \<open>when every node answers with the count over its keys, EXISTS, DEL, TOUCH and UNLINK on a cluster return the count
  over all keys.\<close>

theorem counts_add_up:
  assumes "cp_stack p = []" "partition_keys_by_slot (cl_encoder (cp_client p)) keys [] = Inr parts" "command \<in> {''EXISTS'', ''DEL'', ''TOUCH'', ''UNLINK''}"
    and "answers_by command parts (\<lambda>ks. PInt (sum_list (map n ks))) p"
  shows "\<exists>p'. split_command_across_slots command keys p = (Inr (sum_list (map n keys)), p')"
proof -
  have "cluster_response_callback command v = Inr v" for v using assms(3) by (auto simp: cluster_response_callback_def upper_def)
  from pipeline_by_slot [OF assms(1,4) _ this] obtain p' where
    run: "execute_pipeline_by_slot command parts p = (Inr (map (\<lambda>(s, ks). PInt (sum_list (map n ks))) parts), p')"
    by (auto simp: not_exc_def)
  have sums: "sum_replies (map (\<lambda>(s, ks). PInt (sum_list (map n ks))) ps) = Inr (sum_list (map n (concat (map snd ps))))" for ps
    by (induction ps) (auto simp: is_int_def int_of_val_def)
  have "mset (map n (concat (map snd parts))) = mset (map n keys)"
    using partition_keys(3) [OF assms(2)] by simp
  then have "sum_list (map n (concat (map snd parts))) = sum_list (map n keys)" by (metis sum_mset_sum_list)
  then have "sum_replies (map (\<lambda>(s, ks). PInt (sum_list (map n ks))) parts) = Inr (sum_list (map n keys))" by (simp only: sums)
  then show ?thesis using run assms(2) by (simp add: split_command_across_slots_def)
qed

text \<open>C27: when from its cursor on every node has finitely many pages, the scan of a cluster ends, and gives exactly the
  elements of the first answers and of all the pages of all nodes.\<close>

theorem cluster_scan_complete:
  assumes "serves page srv" "first w = (Inr (cursors, data), w1)" "pages_left srv (live_cursors cursors) left"
  shows "\<exists>vs w'. cluster_scan_iter first page w = Some (Inr (data @ vs), w') \<and> mset vs = mset (concat (concat left))"
  using scan_loop_complete [OF assms(1,3)] assms(2) by (auto simp: cluster_scan_iter_def)

section \<open>Witnesses\<close>

text \<open>Two nodes: the slot of \<open>foo\<close> is at the first, the slot of \<open>bar\<close> at the second.\<close>

definition two_slot_pipeline :: "(exc + pyval) list \<Rightarrow> (exc + pyval) list \<Rightarrow> cluster_pipeline" where
  "two_slot_pipeline r s =
     make_pipeline ((demo_client [] 3)\<lparr>cl_nm := (cl_nm (demo_client [] 3))\<lparr>nm_slots := [12182 \<mapsto> 0, 5061 \<mapsto> 1], nm_lists := [[0], [1]]\<rparr>\<rparr>)
       [demo_io 7 r, demo_io 8 s]"

abbreviation foo_bar_parts :: "(nat \<times> pyval list) list" where
  "foo_bar_parts \<equiv> [(12182, [PStr ''foo'', PStr ''foo'']), (5061, [PStr ''bar''])]"

abbreviation foo_bar_foo :: "pyval list" where
  "foo_bar_foo \<equiv> [PStr ''foo'', PStr ''bar'', PStr ''foo'']"

abbreviation two_nodes_one_each :: "(exc + pyval) list \<Rightarrow> (exc + pyval) list \<Rightarrow> node_commands list" where
  "two_nodes_one_each r s \<equiv> [demo_commands ''a:1'' 7 r [0], demo_commands ''b:1'' 8 s [1]]"

lemma key_slot_bar: "key_slot ''bar'' = 5061"
proof -
  have "hashed_part ''bar'' = ''bar''" by (rule hashed_part_no_open) simp
  then show ?thesis
    by (simp add: key_slot_def key_slot_in_def REDIS_CLUSTER_HASH_SLOTS_def crc_hqx_def crc_byte_def crc_shift_def funpow_8)
qed

lemma foo_bar_partition: "partition_keys_by_slot strict_encoder foo_bar_foo [] = Inr foo_bar_parts"
  by (simp add: partition_keys_by_slot.simps keyslot_def key_slot_foo key_slot_bar)

declare partition_keys_by_slot.simps [simp del]

lemma two_slot_simps [simp]: "cp_stack (two_slot_pipeline r s) = []" "cl_encoder (cp_client (two_slot_pipeline r s)) = strict_encoder"
    "cl_read_from_replicas (cp_client (two_slot_pipeline r s)) = False"
  by (simp_all add: two_slot_pipeline_def make_pipeline_def demo_client_def)

lemma foo_bar_answers:
  assumes "command \<in> {''MGET'', ''DEL''}"
  shows "answers_by command foo_bar_parts f (two_slot_pipeline [Inr (f [PStr ''foo'', PStr ''foo''])] [Inr (f [PStr ''bar''])])"
proof -
  let ?r = "[Inr (f [PStr ''foo'', PStr ''foo''])]" and ?s = "[Inr (f [PStr ''bar''])]"
  let ?p = "two_slot_pipeline ?r ?s" and ?ns = "two_nodes_one_each ?r ?s"
  have "fst (stage_all ''MGET'' False foo_bar_parts (two_slot_pipeline r s)) = Inr ()"
    "fst (stage_all ''DEL'' False foo_bar_parts (two_slot_pipeline r s)) = Inr ()" for r s by code_simp+
  then obtain p1 where p1: "stage_all command False foo_bar_parts ?p = (Inr (), p1)" using assms by (metis insertE prod.collapse singletonD)
  have "fst (group_commands [0..<2] [] False (snd (stage_all ''MGET'' False foo_bar_parts (two_slot_pipeline r s)))) = Inr (two_nodes_one_each r s, True)"
    "fst (group_commands [0..<2] [] False (snd (stage_all ''DEL'' False foo_bar_parts (two_slot_pipeline r s)))) = Inr (two_nodes_one_each r s, True)" for r s
    by code_simp+
  then have "fst (group_commands [0..<2] [] False (snd (stage_all command False foo_bar_parts ?p))) = Inr (?ns, True)" using assms by auto
  then obtain q where "group_commands [0..<2] [] False p1 = (Inr (?ns, True), q)" using p1 by (metis prod.collapse snd_conv)
  then show ?thesis unfolding answers_by_def using p1 by (auto simp: numeral_2_eq_2 intro!: exI [of _ p1])
qed

lemma list_all_foo_bar: "list_all hashable foo_bar_foo"
  by simp

theorem keys_are_partitioned_witness:
  "distinct (map fst foo_bar_parts) \<and> mset (concat (map snd foo_bar_parts)) = mset foo_bar_foo \<and>
    (\<forall>(s, ks) \<in> set foo_bar_parts. ks \<noteq> [] \<and> ks = filter (\<lambda>k. keyslot strict_encoder k = Inr s) foo_bar_foo)"
  by (rule keys_are_partitioned [OF foo_bar_partition])

theorem mget_nonatomic_in_order_witness:
  "\<exists>p'. mget_nonatomic (PList foo_bar_foo) [] (two_slot_pipeline [Inr (PList [PInt 1, PInt 1])] [Inr (PList [PInt 2])]) =
    (Inr [PInt 1, PInt 2, PInt 1], p')"
proof -
  let ?store = "\<lambda>k. if k = PStr ''foo'' then PInt 1 else PInt 2"
  have "answers_by ''MGET'' foo_bar_parts (\<lambda>ks. PList (map ?store ks)) (two_slot_pipeline [Inr (PList [PInt 1, PInt 1])] [Inr (PList [PInt 2])])"
    using foo_bar_answers [of "''MGET''" "\<lambda>ks. PList (map ?store ks)"] by simp
  moreover have keys: "list_or_args (PList foo_bar_foo) [] = foo_bar_foo" by (simp add: list_or_args_def py_iter_def)
  moreover have "value_per_key (set foo_bar_foo) ?store" by (simp add: value_per_key_def py_key_eq_def)
  moreover have "map ?store foo_bar_foo = [PInt 1, PInt 2, PInt 1]" by simp
  ultimately show ?thesis
    using mget_nonatomic_in_order [of _ "PList foo_bar_foo" "[]" foo_bar_parts ?store] foo_bar_partition by (metis list_all_foo_bar two_slot_simps(1,2))
qed

theorem counts_add_up_witness:
  "\<exists>p'. split_command_across_slots ''DEL'' foo_bar_foo (two_slot_pipeline [Inr (PInt 2)] [Inr (PInt 1)]) = (Inr 3, p')"
proof -
  have "answers_by ''DEL'' foo_bar_parts (\<lambda>ks. PInt (sum_list (map (\<lambda>_. 1) ks))) (two_slot_pipeline [Inr (PInt 2)] [Inr (PInt 1)])"
    using foo_bar_answers [of "''DEL''" "\<lambda>ks. PInt (sum_list (map (\<lambda>_. 1) ks))"] by simp
  from counts_add_up [OF _ _ _ this, of foo_bar_foo] show ?thesis using foo_bar_partition by simp
qed

text \<open>Two nodes, the first with one more page.\<close>

definition demo_scan :: "string \<Rightarrow> int \<Rightarrow> int \<times> pyval list" where
  "demo_scan name cursor = (if cursor = 5 then (6 :: int, [PStr ''x'']) else (0, [PStr ''y'']))"

theorem cluster_scan_complete_witness:
  "\<exists>vs w'. cluster_scan_iter (retS ([(''a:1'', 5), (''b:1'', 0)], [PStr ''z'']))
      (\<lambda>name cursor. retS ([(name, fst (demo_scan name cursor))], snd (demo_scan name cursor))) () = Some (Inr ([PStr ''z''] @ vs), w') \<and>
    mset vs = {#PStr ''x'', PStr ''y''#}"
proof -
  have "node_pages demo_scan ''a:1'' 6 [[PStr ''y'']]" by (rule Page [OF _ _ Finished]) (simp_all add: demo_scan_def)
  then have "node_pages demo_scan ''a:1'' 5 [[PStr ''x''], [PStr ''y'']]" by (rule Page [rotated 2]) (simp_all add: demo_scan_def)
  then have "pages_left demo_scan (live_cursors [(''a:1'', 5), (''b:1'', 0)]) [[[PStr ''x''], [PStr ''y'']]]"
    by (simp add: pages_left_def live_cursors_def)
  from cluster_scan_complete [OF _ _ this, of "\<lambda>name cursor. retS ([(name, fst (demo_scan name cursor))], snd (demo_scan name cursor))"
      "retS ([(''a:1'', 5), (''b:1'', 0)], [PStr ''z''])" "()" "[PStr ''z'']" "()"]
  show ?thesis by (simp add: serves_def retS_def)
qed

end
