(* ===== verification/ModuleReplies.thy ===== *)
theory ModuleReplies
  imports Callbacks "HOL-Library.Multiset" "HOL-Library.Char_ord" "HOL-Library.List_Lexorder"
begin

text \<open>
  The replies of the modules: the info objects of \<open>redis/commands/bf/info.py\<close> and \<open>timeseries/info.py\<close>, the ranges of
  \<open>timeseries/utils.py\<close>, and the decoding of JSON (\<open>json/__init__.py\<close>, \<open>json/decoders.py\<close>), whose decoder is an
  argument of the client.
\<close>

section \<open>Info objects\<close>

text \<open>\<open>dict(zip(map(nativestr, args[::2]), args[1::2]))\<close>, and the attributes read from it.\<close>

definition info_dict :: "pyval \<Rightarrow> exc + (pyval \<times> pyval) list" where
  "info_dict args = bindE (py_halves args) (\<lambda>(ks, vs). py_dict [] (zip (map nativestr ks) vs))"

definition info_attributes :: "(string \<times> string) list \<Rightarrow> pyval \<Rightarrow> exc + (string, pyval) dict" where
  "info_attributes spec args =
     bindE (info_dict args) (\<lambda>d. mapE (\<lambda>(attr, name). bindE (py_item (PDict d) name) (\<lambda>v. Inr (attr, v))) spec)"

definition BFInfo_fields :: "(string \<times> string) list" where
  "BFInfo_fields = [(''capacity'', ''Capacity''), (''size'', ''Size''), (''filterNum'', ''Number of filters''),
     (''insertedNum'', ''Number of items inserted''), (''expansionRate'', ''Expansion rate'')]"

definition CFInfo_fields :: "(string \<times> string) list" where
  "CFInfo_fields = [(''size'', ''Size''), (''bucketNum'', ''Number of buckets''), (''filterNum'', ''Number of filters''),
     (''insertedNum'', ''Number of items inserted''), (''deletedNum'', ''Number of items deleted''), (''bucketSize'', ''Bucket size''),
     (''expansionRate'', ''Expansion rate''), (''maxIteration'', ''Max iterations'')]"

definition CMSInfo_fields :: "(string \<times> string) list" where
  "CMSInfo_fields = [(''width'', ''width''), (''depth'', ''depth''), (''count'', ''count'')]"

definition TopKInfo_fields :: "(string \<times> string) list" where
  "TopKInfo_fields = [(''k'', ''k''), (''width'', ''width''), (''depth'', ''depth''), (''decay'', ''decay'')]"

definition TDigestInfo_fields :: "(string \<times> string) list" where
  "TDigestInfo_fields = [(''compression'', ''Compression''), (''capacity'', ''Capacity''), (''merged_nodes'', ''Merged nodes''),
     (''unmerged_nodes'', ''Unmerged nodes''), (''merged_weight'', ''Merged weight''), (''unmerged_weight'', ''Unmerged weight''),
     (''total_compressions'', ''Total compressions''), (''memory_usage'', ''Memory usage'')]"

section \<open>Time series\<close>

text \<open>\<open>{nativestr(x[0]): nativestr(x[1]) for x in aList}\<close>, by index.\<close>

definition list_pair :: "pyval \<Rightarrow> exc + (pyval \<times> pyval)" where
  "list_pair x = bindE (py_index x 0) (\<lambda>k. bindE (py_index x 1) (\<lambda>v. Inr (nativestr k, nativestr v)))"

definition list_to_dict :: "pyval \<Rightarrow> exc + pyval" where
  "list_to_dict aList =
     (case aList of
        PDict d \<Rightarrow> if d = [] then Inr (PDict []) else Inl (Exc KeyError ''0'')
      | PSet xs \<Rightarrow> if xs = [] then Inr (PDict []) else Inl not_subscriptable
      | _ \<Rightarrow> bindE (py_iter aList) (\<lambda>xs. bindE (mapE list_pair xs) py_dict_val))"

definition ts_sample :: "pyval \<Rightarrow> exc + pyval" where
  "ts_sample r = bindE (py_index r 0) (\<lambda>t. bindE (py_index r 1) (\<lambda>x. bindE (to_float_val x) (\<lambda>f. Inr (PTuple [t, f]))))"

definition ts_parse_range :: "pyval \<Rightarrow> exc + pyval" where
  "ts_parse_range response = bindE (py_iter response) (\<lambda>xs. bindE (mapE ts_sample xs) (\<lambda>rs. Inr (PList rs)))"

text \<open>One dictionary with one key for each series, sorted by the list of its keys. A name is a bulk string, hence text or None
  (\<open>nativestr\<close> makes None of the text null); None and text cannot be compared.\<close>

definition series_key :: "pyval \<times> pyval \<Rightarrow> string" where
  "series_key = (\<lambda>(k, _). case k of PStr s \<Rightarrow> s | _ \<Rightarrow> [])"

definition text_key :: "pyval \<Rightarrow> bool" where
  "text_key k = (case k of PStr _ \<Rightarrow> True | _ \<Rightarrow> False)"

definition sort_series :: "(pyval \<times> pyval) list \<Rightarrow> exc + (pyval \<times> pyval) list" where
  "sort_series xs =
     (if list_all (\<lambda>(k, _). text_key k) xs then Inr (sort_key series_key xs)
      else if length xs \<le> 1 \<or> list_all (\<lambda>(k, _). k = PNone) xs then Inr xs
      else Inl (Exc TypeError ''not supported between instances''))"

definition dict_entry :: "pyval \<Rightarrow> pyval list \<Rightarrow> exc + (pyval \<times> pyval)" where
  "dict_entry k vs = (if hashable k then Inr (k, PList vs) else Inl unhashable_error)"

definition series_of :: "pyval \<Rightarrow> exc + (pyval \<times> pyval)" where
  "series_of item =
     bindE (py_index item 0) (\<lambda>name. bindE (py_index item 1) (\<lambda>labels. bindE (list_to_dict labels) (\<lambda>d.
     bindE (py_index item 2) (\<lambda>samples. bindE (ts_parse_range samples) (\<lambda>r. dict_entry (nativestr name) [d, r])))))"

definition dicts_of :: "(pyval \<times> pyval) list \<Rightarrow> pyval" where
  "dicts_of xs = PList (map (\<lambda>kv. PDict [kv]) xs)"

definition parse_m_range :: "pyval \<Rightarrow> exc + pyval" where
  "parse_m_range response =
     bindE (py_iter response) (\<lambda>items. bindE (mapE series_of items) (\<lambda>res.
     bindE (sort_series res) (\<lambda>sorted. Inr (dicts_of sorted))))"

definition ts_parse_get :: "pyval \<Rightarrow> exc + pyval" where
  "ts_parse_get response =
     (if \<not> truthy response then Inr PNone
      else bindE (py_index response 0) (\<lambda>t. bindE (to_int_val t) (\<lambda>n. bindE (py_index response 1) (\<lambda>x. bindE (to_float_val x) (\<lambda>f.
             Inr (PTuple [n, f]))))))"

definition last_sample_of :: "pyval \<Rightarrow> exc + (pyval \<times> pyval)" where
  "last_sample_of item =
     bindE (py_index item 2) (\<lambda>sample. bindE (py_index item 0) (\<lambda>name. bindE (py_index item 1) (\<lambda>labels. bindE (list_to_dict labels) (\<lambda>d.
       if \<not> truthy sample then dict_entry (nativestr name) [d, PNone, PNone]
       else bindE (py_index sample 0) (\<lambda>t. bindE (to_int_val t) (\<lambda>n. bindE (py_index sample 1) (\<lambda>x. bindE (to_float_val x) (\<lambda>f.
              dict_entry (nativestr name) [d, n, f]))))))))"

definition parse_m_get :: "pyval \<Rightarrow> exc + pyval" where
  "parse_m_get response =
     bindE (py_iter response) (\<lambda>items. bindE (mapE last_sample_of items) (\<lambda>res.
     bindE (sort_series res) (\<lambda>sorted. Inr (dicts_of sorted))))"

text \<open>\<open>TSInfo\<close>: attributes that are absent are None; a chunk has 16 bytes for each sample.\<close>

definition get_field :: "(pyval \<times> pyval) list \<Rightarrow> string \<Rightarrow> pyval" where
  "get_field d name = (case pd_get (PStr name) d of Some v \<Rightarrow> v | None \<Rightarrow> PNone)"

definition times_16 :: "pyval \<Rightarrow> exc + pyval" where
  "times_16 v = (case v of
      PInt n \<Rightarrow> Inr (PInt (n * 16)) | PBool b \<Rightarrow> Inr (PInt (if b then 16 else 0)) | PFloat (Fin q) \<Rightarrow> Inr (PFloat (Fin (q * 16)))
    | PFloat f \<Rightarrow> Inr (PFloat f)
    | PStr s \<Rightarrow> Inr (PStr (concat (replicate 16 s))) | PBytes s \<Rightarrow> Inr (PBytes (concat (replicate 16 s)))
    | PList xs \<Rightarrow> Inr (PList (concat (replicate 16 xs))) | PTuple xs \<Rightarrow> Inr (PTuple (concat (replicate 16 xs)))
    | _ \<Rightarrow> Inl (Exc TypeError ''unsupported operand''))"

definition decode_policy :: "pyval \<Rightarrow> exc + pyval" where
  "decode_policy v = (case v of PBytes b \<Rightarrow> if utf8_valid b then Inr (PStr b) else Inl (Exc UnicodeDecodeError ''utf-8'') | _ \<Rightarrow> Inr v)"

definition TSInfo :: "pyval \<Rightarrow> exc + (string, pyval) dict" where
  "TSInfo args =
     bindE (info_dict args) (\<lambda>d.
     bindE (list_to_dict (get_field d ''labels'')) (\<lambda>labels.
     bindE (case pd_get (PStr ''maxSamplesPerChunk'') d of None \<Rightarrow> Inr (PNone, PNone)
            | Some m \<Rightarrow> bindE (times_16 m) (\<lambda>size. Inr (m, size))) (\<lambda>(max_samples, size).
     bindE (decode_policy (get_field d ''duplicatePolicy'')) (\<lambda>policy.
       Inr [(''rules'', get_field d ''rules''), (''source_key'', get_field d ''sourceKey''), (''chunk_count'', get_field d ''chunkCount''),
            (''memory_usage'', get_field d ''memoryUsage''), (''total_samples'', get_field d ''totalSamples''), (''labels'', labels),
            (''retention_msecs'', get_field d ''retentionTime''), (''last_timestamp'', get_field d ''lastTimestamp''),
            (''first_timestamp'', get_field d ''firstTimestamp''), (''max_samples_per_chunk'', max_samples),
            (''chunk_size'', case pd_get (PStr ''chunkSize'') d of Some v \<Rightarrow> v | None \<Rightarrow> size), (''duplicate_policy'', policy)]))))"

section \<open>JSON\<close>

text \<open>What the decoder gives for a value: bytes and other objects that are no text raise a TypeError in the standard one.\<close>

datatype json_result = Decoded pyval | NotJson | Fails exc

text \<open>\<open>re.findall("^\d+.\d+$", obj)\<close> with ASCII digits: the dot stands for any character but a newline, and the match may
  end before a last newline.\<close>

definition before_newline :: "string \<Rightarrow> string" where
  "before_newline s = (if s \<noteq> [] \<and> last s = CHR 0x0A then butlast s else s)"

definition float_match :: "string \<Rightarrow> bool" where
  "float_match s = list_ex (\<lambda>i. list_all is_digit (take i s) \<and> s ! i \<noteq> CHR 0x0A \<and> list_all is_digit (drop (Suc i) s)) [1..<length s - 1]"

definition int_match :: "string \<Rightarrow> bool" where
  "int_match s = (s \<noteq> [] \<and> list_all is_digit s)"

definition unstring :: "string \<Rightarrow> exc + pyval" where
  "unstring obj =
     (let t = before_newline obj
      in if float_match t then to_float_val (PStr t)
         else if int_match t then to_int_val (PStr t)
         else Inr (PStr obj))"

definition decode_list :: "pyval \<Rightarrow> exc + pyval" where
  "decode_list b =
     (case b of
        PList xs \<Rightarrow> Inr (PList (map nativestr xs))
      | PBytes s \<Rightarrow> (case nativestr b of PStr t \<Rightarrow> unstring t | _ \<Rightarrow> Inl (Exc TypeError ''expected string or bytes-like object''))
      | PStr s \<Rightarrow> unstring s
      | _ \<Rightarrow> Inr b)"

text \<open>\<open>JSON._decode\<close>. The second attempt is made on the decoded bytes; only bytes have \<open>decode\<close>.\<close>

definition decode_again :: "(pyval \<Rightarrow> json_result) \<Rightarrow> pyval \<Rightarrow> exc + pyval" where
  "decode_again decoder obj =
     (case obj of
        PBytes b \<Rightarrow>
          if \<not> utf8_valid b then Inl (Exc UnicodeDecodeError ''utf-8'')
          else (case decoder (PStr b) of
             Decoded x \<Rightarrow> Inr x
           | NotJson \<Rightarrow> Inl (Exc ValueError ''JSONDecodeError'')
           | Fails e \<Rightarrow> if isinstance e AttributeError then decode_list obj else Inl e)
      | _ \<Rightarrow> decode_list obj)"

definition json_decode :: "(pyval \<Rightarrow> json_result) \<Rightarrow> pyval \<Rightarrow> exc + pyval" where
  "json_decode decoder obj =
     (if obj = PNone then Inr PNone
      else case decoder obj of
        Decoded x \<Rightarrow> if x = PNone then decode_again decoder obj else Inr x
      | NotJson \<Rightarrow> decode_list obj
      | Fails e \<Rightarrow>
          if isinstance e TypeError then decode_again decoder obj
          else if isinstance e AttributeError then decode_list obj
          else Inl e)"

definition bulk_of_jsons :: "(pyval \<Rightarrow> exc + pyval) \<Rightarrow> pyval list \<Rightarrow> exc + pyval list" where
  "bulk_of_jsons d b = mapE (\<lambda>item. if item \<noteq> PNone then d item else Inr item) b"

text \<open>\<open>lambda r: r and nativestr(r) == "OK"\<close>.\<close>

definition json_ok :: "pyval \<Rightarrow> pyval" where
  "json_ok r = (if truthy r then PBool (nativestr r = PStr ''OK'') else r)"

section \<open>The tables of callbacks\<close>

text \<open>The callbacks a module's client sets on its connection's client, by command and protocol: those of both protocols and, below
  RESP3, those that bring the older replies into the same shape.\<close>

definition module_result :: "(pyval \<Rightarrow> exc + (string, pyval) dict) \<Rightarrow> pyval \<Rightarrow> exc + pyval" where
  "module_result f r = bindE (f r) (\<lambda>d. Inr (val_dict d))"

definition list_result :: "pyval \<Rightarrow> exc + pyval" where
  "list_result r =
     (if r = PNone then Inr (PList [])
      else bindE (py_iter r) (\<lambda>xs. bindE (parse_to_list (Some xs)) (\<lambda>ys. Inr (PList ys))))"

definition total_callback :: "(pyval \<Rightarrow> pyval) \<Rightarrow> pyval \<Rightarrow> exc + pyval" where
  "total_callback f r = Inr (f r)"

type_synonym callback_table = "(string, pyval \<Rightarrow> exc + pyval) dict"

definition module_callbacks :: "callback_table \<Rightarrow> callback_table \<Rightarrow> bool \<Rightarrow> callback_table" where
  "module_callbacks both resp2 resp3 = (if resp3 then both else dict_merge [both, resp2])"

definition TimeSeries_callbacks :: "bool \<Rightarrow> callback_table" where
  "TimeSeries_callbacks = module_callbacks
     [(''TS.ALTER'', total_callback bool_ok), (''TS.CREATE'', total_callback bool_ok), (''TS.CREATERULE'', total_callback bool_ok),
      (''TS.DELETERULE'', total_callback bool_ok)]
     [(''TS.DEL'', to_int_val), (''TS.GET'', ts_parse_get), (''TS.INFO'', module_result TSInfo), (''TS.MGET'', parse_m_get),
      (''TS.MRANGE'', parse_m_range), (''TS.MREVRANGE'', parse_m_range), (''TS.RANGE'', ts_parse_range),
      (''TS.REVRANGE'', ts_parse_range), (''TS.QUERYINDEX'', list_result)]"

definition CMSBloom_callbacks :: "bool \<Rightarrow> callback_table" where
  "CMSBloom_callbacks = module_callbacks
     [(''CMS.INITBYDIM'', total_callback bool_ok), (''CMS.INITBYPROB'', total_callback bool_ok), (''CMS.MERGE'', total_callback bool_ok)]
     [(''CMS.INFO'', module_result (info_attributes CMSInfo_fields))]"

definition TOPKBloom_callbacks :: "bool \<Rightarrow> callback_table" where
  "TOPKBloom_callbacks = module_callbacks [(''TOPK.RESERVE'', total_callback bool_ok)]
     [(''TOPK.ADD'', list_result), (''TOPK.INCRBY'', list_result), (''TOPK.INFO'', module_result (info_attributes TopKInfo_fields)),
      (''TOPK.LIST'', list_result)]"

definition CFBloom_callbacks :: "bool \<Rightarrow> callback_table" where
  "CFBloom_callbacks = module_callbacks [(''CF.RESERVE'', total_callback bool_ok)]
     [(''CF.INFO'', module_result (info_attributes CFInfo_fields))]"

definition TDigestBloom_callbacks :: "bool \<Rightarrow> callback_table" where
  "TDigestBloom_callbacks = module_callbacks [(''TDIGEST.CREATE'', total_callback bool_ok)]
     [(''TDIGEST.BYRANK'', list_result), (''TDIGEST.BYREVRANK'', list_result), (''TDIGEST.CDF'', list_result),
      (''TDIGEST.INFO'', module_result (info_attributes TDigestInfo_fields)), (''TDIGEST.MIN'', to_float_val),
      (''TDIGEST.MAX'', to_float_val), (''TDIGEST.TRIMMED_MEAN'', to_float_val), (''TDIGEST.QUANTILE'', list_result)]"

definition BFBloom_callbacks :: "bool \<Rightarrow> callback_table" where
  "BFBloom_callbacks = module_callbacks [(''BF.RESERVE'', total_callback bool_ok)]
     [(''BF.INFO'', module_result (info_attributes BFInfo_fields))]"

definition jsons_result :: "(pyval \<Rightarrow> exc + pyval) \<Rightarrow> pyval \<Rightarrow> exc + pyval" where
  "jsons_result d r = bindE (py_iter r) (\<lambda>xs. bindE (bulk_of_jsons d xs) (\<lambda>ys. Inr (PList ys)))"

definition JSON_callbacks :: "(pyval \<Rightarrow> json_result) \<Rightarrow> bool \<Rightarrow> callback_table" where
  "JSON_callbacks decoder = module_callbacks
     ([(''JSON.ARRPOP'', json_decode decoder), (''JSON.DEBUG'', json_decode decoder), (''JSON.GET'', json_decode decoder),
       (''JSON.MERGE'', total_callback json_ok), (''JSON.MGET'', jsons_result (json_decode decoder)),
       (''JSON.MSET'', total_callback json_ok), (''JSON.RESP'', json_decode decoder), (''JSON.SET'', total_callback json_ok),
       (''JSON.TOGGLE'', json_decode decoder)])
     ([(''JSON.ARRAPPEND'', json_decode decoder), (''JSON.ARRINDEX'', json_decode decoder), (''JSON.ARRINSERT'', json_decode decoder),
       (''JSON.ARRLEN'', json_decode decoder), (''JSON.ARRTRIM'', json_decode decoder), (''JSON.CLEAR'', to_int_val),
       (''JSON.DEL'', to_int_val), (''JSON.FORGET'', to_int_val), (''JSON.GET'', json_decode decoder),
       (''JSON.NUMINCRBY'', json_decode decoder), (''JSON.NUMMULTBY'', json_decode decoder), (''JSON.OBJKEYS'', json_decode decoder),
       (''JSON.STRAPPEND'', json_decode decoder), (''JSON.OBJLEN'', json_decode decoder), (''JSON.STRLEN'', json_decode decoder),
       (''JSON.TOGGLE'', json_decode decoder)])"

section \<open>Properties\<close>

lemma sort_series_correct:
  assumes "sort_series xs = Inr ys"
  shows "mset ys = mset xs \<and> (list_all (\<lambda>(k, _). k \<noteq> PNone) xs \<longrightarrow> 1 < length xs \<longrightarrow> sorted (map series_key ys))"
proof (cases "list_all (\<lambda>(k, _). text_key k) xs")
  case True
  then show ?thesis using assms by (auto simp: sort_series_def)
next
  case False
  then have "ys = xs" "length xs \<le> 1 \<or> list_all (\<lambda>(k, _). k = PNone) xs" using assms by (auto simp: sort_series_def split: if_splits)
  then show ?thesis by (cases xs) (auto simp: list_all_iff)
qed

text \<open>the reply of TS.MRANGE becomes one dictionary for each series, with its labels and its samples, sorted by the
  name of the series; no series is lost or doubled.\<close>

theorem m_range_sorted:
  assumes "parse_m_range response = Inr v" "py_iter response = Inr items" "mapE series_of items = Inr res"
    and "list_all (\<lambda>(k, _). k \<noteq> PNone) res"
  shows "\<exists>out. v = dicts_of out \<and> mset out = mset res \<and> sorted (map series_key out)"
proof -
  from assms(1-3) obtain out where out: "sort_series res = Inr out" "v = dicts_of out"
    by (auto simp: parse_m_range_def bindE_eq_Inr split: if_splits)
  from sort_series_correct [OF out(1)] assms(4) have m: "mset out = mset res" "1 < length res \<Longrightarrow> sorted (map series_key out)" by auto
  moreover have "length res \<le> 1 \<Longrightarrow> sorted (map series_key out)"
    using m(1) by (metis length_map linorder_not_less mset_eq_length sorted01)
  ultimately show ?thesis using out(2) by (metis linorder_not_less)
qed

theorem m_range_sorted_witness:
  "\<exists>out. mset out = mset [(PStr ''b'', PList [PDict [], PList []]), (PStr ''a'', PList [PDict [], PList []])]
     \<and> sorted (map series_key out)
     \<and> parse_m_range (PList [PList [PStr ''b'', PList [], PList []], PList [PStr ''a'', PList [], PList []]]) = Inr (dicts_of out)"
proof -
  let ?items = "[PList [PStr ''b'', PList [], PList []], PList [PStr ''a'', PList [], PList []]]"
  let ?res = "[(PStr ''b'', PList [PDict [], PList []]), (PStr ''a'', PList [PDict [], PList []])]"
  have i: "py_iter (PList ?items) = Inr ?items" by (simp add: py_iter_def)
  have r: "mapE series_of ?items = Inr ?res" by code_simp
  have p: "parse_m_range (PList ?items) = Inr (dicts_of (sort_key series_key ?res))"
    by (simp only: parse_m_range_def i r bindE_Inr) (simp add: sort_series_def text_key_def)
  from m_range_sorted [OF p i r] show ?thesis unfolding p by auto
qed

text \<open>a JSON null comes back as None when replies are bytes, and as the text null when replies are decoded.\<close>

theorem json_null_depends_on_decoding:
  assumes "decoder (PStr ''null'') = Decoded PNone" "decoder (PBytes ''null'') = Fails (Exc TypeError m)"
  shows "json_decode decoder (PBytes ''null'') = Inr PNone \<and> json_decode decoder (PStr ''null'') = Inr (PStr ''null'')"
proof -
  have "float_match ''null'' = False" "int_match ''null'' = False" "before_newline ''null'' = ''null''" by code_simp+
  then have u: "unstring ''null'' = Inr (PStr ''null'')" by (simp add: unstring_def)
  have v: "utf8_valid ''null''" by (simp add: ascii_def)
  have "isinstance (Exc TypeError m) TypeError" by (simp add: isinstance_def)
  then show ?thesis using assms u v by (simp add: json_decode_def decode_again_def decode_list_def)
qed

theorem json_null_depends_on_decoding_witness:
  "\<exists>decoder. decoder (PStr ''null'') = Decoded PNone
     \<and> json_decode decoder (PBytes ''null'') = Inr PNone \<and> json_decode decoder (PStr ''null'') = Inr (PStr ''null'')"
proof -
  define decoder where "decoder = (\<lambda>v. if v = PStr ''null'' then Decoded PNone else Fails (Exc TypeError ''bytes''))"
  show ?thesis using json_null_depends_on_decoding [of decoder "''bytes''"] by (intro exI [of _ decoder]) (simp add: decoder_def)
qed

text \<open>a reply that is no JSON and consists of digits around one other character is taken for a float, so that a text
  like a month raises an error.\<close>

theorem json_month_raises:
  assumes "decoder (PStr ''2020-01'') = NotJson"
  shows "\<exists>m. json_decode decoder (PStr ''2020-01'') = Inl (Exc ValueError m)"
proof -
  have "float_match ''2020-01''" "before_newline ''2020-01'' = ''2020-01''" "py_float ''2020-01'' = None" by code_simp+
  then show ?thesis using assms by (simp add: json_decode_def decode_list_def unstring_def to_float_val_def)
qed


theorem json_month_raises_witness: "\<exists>m. json_decode (\<lambda>_. NotJson) (PStr ''2020-01'') = Inl (Exc ValueError m)"
  using json_month_raises [of "\<lambda>_. NotJson"] by simp

text \<open>\<open>decoders.unstring\<close> makes a float of every text of three digits or more, although its comment keeps integers and floats
  apart: the dot of its pattern is not escaped.\<close>

theorem long_integers_become_floats:
  assumes "list_all is_digit obj" "2 < length obj"
  shows "unstring obj = to_float_val (PStr obj)"
proof -
  have "last obj \<noteq> CHR 0x0A" using assms by (cases obj rule: rev_cases) (auto simp: is_digit_def)
  then have t: "before_newline obj = obj" by (simp add: before_newline_def)
  have all: "\<And>i. i < length obj \<Longrightarrow> is_digit (obj ! i)" using assms(1) by (simp add: list_all_length)
  have "1 \<in> set [1..<length obj - 1]" using assms(2) by simp
  moreover have "obj ! 1 \<noteq> CHR 0x0A" using all [of 1] assms(2) by (auto simp: is_digit_def)
  moreover have "list_all is_digit (take 1 obj)" "list_all is_digit (drop (Suc 1) obj)"
    using assms(1) by (auto simp: list_all_iff dest: in_set_takeD in_set_dropD)
  ultimately have "float_match obj" unfolding float_match_def list_ex_iff by blast
  then show ?thesis by (simp add: unstring_def t)
qed

theorem long_integers_become_floats_witness: "unstring ''150'' = Inr (PFloat (Fin 150))"
proof -
  have "to_float_val (PStr ''150'') = Inr (PFloat (Fin 150))" by code_simp
  then show ?thesis using long_integers_become_floats [of "''150''"] by (simp add: is_digit_def)
qed

end
