(* ===== verification/AsyncNode.thy ===== *)
theory AsyncNode
  imports ClusterClient Client
begin

text \<open>
  A node of an asynchronous cluster client (\<open>ClusterNode\<close> in \<open>redis/asyncio/cluster.py\<close>): the
  connections it owns, one command or a batch of them on a connection of its own, and the interleaving
  of the tasks that use the node. Between two \<open>await\<close>s a task is not interrupted; what sending and
  reading meet is a script.
\<close>

section \<open>State\<close>

text \<open>
  Connections are numbered in the order of their creation. \<open>an_sent\<close> is a log: the connection and the
  name of every command that was sent.
\<close>

record aio_node =
  an_host :: string
  an_port :: int
  an_type :: "server_type option"
  an_max :: nat
  an_connections :: "nat list"
  an_free :: "nat list"
  an_sent :: "(nat \<times> string) list"

type_synonym 'a node_op = "(aio_node, node_exc, 'a) action"

definition an_name :: "aio_node \<Rightarrow> string" where
  "an_name n = get_node_name (an_host n) (an_port n)"

definition new_aio_node :: "(string \<Rightarrow> string) \<Rightarrow> nat \<Rightarrow> string \<Rightarrow> int \<Rightarrow> server_type option \<Rightarrow> aio_node" where
  "new_aio_node gethostbyname max_conns host port t =
     \<lparr>an_host = resolve_host gethostbyname host, an_port = port, an_type = t, an_max = max_conns,
      an_connections = [], an_free = [], an_sent = []\<rparr>"

definition acquire_connection :: "nat node_op" where
  "acquire_connection = (\<lambda>n.
     case an_free n of
       c # cs \<Rightarrow> (Inr c, n\<lparr>an_free := cs\<rparr>)
     | [] \<Rightarrow>
         if length (an_connections n) < an_max n then
           (Inr (length (an_connections n)), n\<lparr>an_connections := an_connections n @ [length (an_connections n)]\<rparr>)
         else (Inl (Raised (Exc MaxConnectionsError [])), n))"

text \<open>\<open>append\<close> to a deque with a maximal length drops the oldest element of a full one.\<close>

definition free_connection :: "nat \<Rightarrow> unit node_op" where
  "free_connection c = modS (\<lambda>n. n\<lparr>an_free := (let cs = an_free n @ [c] in drop (length cs - an_max n) cs)\<rparr>)"

definition node_isinstance :: "node_exc \<Rightarrow> exc_class \<Rightarrow> bool" where
  "node_isinstance x c = (case x of Raised e \<Rightarrow> isinstance e c | Moved _ \<Rightarrow> exc_le MovedError c | Ask _ \<Rightarrow> exc_le AskError c)"

type_synonym callbacks = "string \<Rightarrow> (pyval \<Rightarrow> exc + pyval) option"

text \<open>\<open>read\<close> is what \<open>read_response\<close> gives, with the decoding the command asks for. The callbacks are looked up by the
  name as it is.\<close>

definition aio_parse_response :: "callbacks \<Rightarrow> command \<Rightarrow> node_exc + pyval \<Rightarrow> node_exc + pyval" where
  "aio_parse_response callbacks c read =
     (case read of
        Inl x \<Rightarrow> (case cm_empty_response c of
            Some v \<Rightarrow> if node_isinstance x ResponseError then Inr v else Inl x
          | None \<Rightarrow> Inl x)
      | Inr r \<Rightarrow> (case callbacks (cm_name c) of
            None \<Rightarrow> Inr r
          | Some f \<Rightarrow> (case f r of Inl e \<Rightarrow> Inl (Raised e) | Inr v \<Rightarrow> Inr v)))"

text \<open>What a task meets: an exception of sending, and the answers.\<close>

record aio_io =
  io_send :: "exc option"
  io_reads :: "(node_exc + pyval) list"

definition connection_lost :: node_exc where
  "connection_lost = Raised (Exc ConnectionError ''Connection closed by server.'')"

definition next_read :: "(node_exc + pyval) list \<Rightarrow> node_exc + pyval" where
  "next_read rs = (case rs of [] \<Rightarrow> Inl connection_lost | r # _ \<Rightarrow> r)"

definition send_on :: "nat \<Rightarrow> string list \<Rightarrow> exc option \<Rightarrow> unit node_op" where
  "send_on c names failure = (\<lambda>n. case failure of
      Some e \<Rightarrow> (Inl (Raised e), n)
    | None \<Rightarrow> (Inr (), n\<lparr>an_sent := an_sent n @ map (Pair c) names\<rparr>))"

section \<open>One command, one batch\<close>

text \<open>The connection goes back in the \<open>finally\<close> of reading; sending is before it.\<close>

definition aio_node_execute_command :: "callbacks \<Rightarrow> command \<Rightarrow> aio_io \<Rightarrow> pyval node_op" where
  "aio_node_execute_command callbacks c io =
     bindS acquire_connection (\<lambda>conn.
     thenS (send_on conn [cm_name c] (io_send io))
       (finallyS (liftS (aio_parse_response callbacks c (next_read (io_reads io)))) (free_connection conn)))"

text \<open>
  The answers of a batch: an \<open>Exception\<close> is the result of its command, anything else (the
  cancellation of the task) leaves the loop with the results so far.
\<close>

fun aio_read_batch :: "callbacks \<Rightarrow> command list \<Rightarrow> (node_exc + pyval) list \<Rightarrow> (node_exc + pyval) list \<times> node_exc option" where
  "aio_read_batch callbacks [] rs = ([], None)"
| "aio_read_batch callbacks (c # cs) rs =
     (let r = aio_parse_response callbacks c (next_read rs)
      in case r of
           Inl x \<Rightarrow>
             if node_isinstance x PyException then (case aio_read_batch callbacks cs (tl rs) of (vs, e) \<Rightarrow> (r # vs, e))
             else ([], Some x)
         | Inr v \<Rightarrow> (case aio_read_batch callbacks cs (tl rs) of (vs, e) \<Rightarrow> (r # vs, e)))"

definition is_failure :: "node_exc + pyval \<Rightarrow> bool" where
  "is_failure r = (case r of Inl _ \<Rightarrow> True | Inr _ \<Rightarrow> False)"

text \<open>Whether a command failed, or the exception that leaves the method, and the results the commands got.\<close>

definition aio_node_execute_pipeline ::
  "callbacks \<Rightarrow> command list \<Rightarrow> aio_io \<Rightarrow> aio_node \<Rightarrow> (node_exc + bool) \<times> (node_exc + pyval) list \<times> aio_node" where
  "aio_node_execute_pipeline callbacks cs io n =
     (case acquire_connection n of
        (Inl x, n1) \<Rightarrow> (Inl x, [], n1)
      | (Inr conn, n1) \<Rightarrow>
          (case send_on conn (map cm_name cs) (io_send io) n1 of
             (Inl x, n2) \<Rightarrow> (Inl x, [], n2)
           | (Inr _, n2) \<Rightarrow>
               (case aio_read_batch callbacks cs (io_reads io) of
                  (results, Some x) \<Rightarrow> (Inl x, results, n2)
                | (results, None) \<Rightarrow> (Inr (list_ex is_failure results), results, snd (free_connection conn n2)))))"

section \<open>Interleaved tasks\<close>

text \<open>
  Each task stops at its \<open>await\<close>s: before it starts, while it sends and before each answer it
  reads. \<open>Single\<close> is \<open>execute_command\<close>, \<open>Batch\<close> is \<open>execute_pipeline\<close>; the loop of a batch has the
  number of answers that are missing.
\<close>

datatype job = Single | Batch

datatype outcome = Good | Fails | Cancelled

datatype task = Starts job nat | Sends job nat nat | Reads job nat nat | Ended bool

definition task_step :: "outcome \<Rightarrow> task \<Rightarrow> aio_node \<Rightarrow> task \<times> aio_node" where
  "task_step out t n =
     (case t of
        Starts j k \<Rightarrow>
          (case acquire_connection n of
             (Inl _, n') \<Rightarrow> (Ended False, n')
           | (Inr c, n') \<Rightarrow> (Sends j c k, n'))
      | Sends j c k \<Rightarrow>
          if out = Good then (if j = Batch \<and> k = 0 then (Ended True, snd (free_connection c n)) else (Reads j c k, n))
          else (Ended False, n)
      | Reads j c k \<Rightarrow>
          (case j of
             Single \<Rightarrow> (Ended (out = Good), snd (free_connection c n))
           | Batch \<Rightarrow>
               if out = Cancelled then (Ended False, n)
               else if k \<le> 1 then (Ended True, snd (free_connection c n))
               else (Reads j c (k - 1), n))
      | Ended b \<Rightarrow> (Ended b, n))"

type_synonym node_state = "aio_node \<times> task list"

inductive node_step :: "node_state \<Rightarrow> node_state \<Rightarrow> bool" where
  task: "i < length ts \<Longrightarrow> task_step out (ts ! i) n = (t', n') \<Longrightarrow> node_step (n, ts) (n', ts[i := t'])"
| spawn: "node_step (n, ts) (n, ts @ [Starts j k])"

inductive node_reach :: "aio_node \<Rightarrow> node_state \<Rightarrow> bool" for n0 where
  start: "node_reach n0 (n0, [])"
| step: "node_reach n0 s \<Longrightarrow> node_step s s' \<Longrightarrow> node_reach n0 s'"

inductive_cases node_stepE: "node_step (n, ts) s'"

text \<open>The connection a task holds.\<close>

definition held_by :: "task \<Rightarrow> nat list" where
  "held_by t = (case t of Sends j c k \<Rightarrow> [c] | Reads j c k \<Rightarrow> [c] | _ \<Rightarrow> [])"

definition held :: "task list \<Rightarrow> nat list" where
  "held ts = concat (map held_by ts)"

end
