(* ===== verification/AsyncNodeCorrect.thy ===== *)
theory AsyncNodeCorrect
  imports AsyncNode "HOL-Library.Multiset"
begin

text \<open>
  What the tasks that share a node of an asynchronous cluster may rely on: a connection is used by one task
  at a time, the limit holds, and connections come back, unless a task ends while it sends.
\<close>

section \<open>Tasks and connections\<close>

lemma task_step_run:
  "fst (aio_node_execute_command callbacks c io n) = r \<Longrightarrow>
   snd (aio_node_execute_command callbacks c io n) =
     (let (t1, n1) = task_step Good (Starts Single 1) n;
          (t2, n2) = (case io_send io of None \<Rightarrow> (case t1 of Sends j k m \<Rightarrow> task_step Good t1 (snd (send_on k [cm_name c] None n1)) | _ \<Rightarrow> (t1, n1))
                      | Some e \<Rightarrow> task_step Fails t1 n1)
      in snd (task_step (case r of Inl _ \<Rightarrow> Fails | Inr _ \<Rightarrow> Good) t2 n2))"
  by (auto simp: aio_node_execute_command_def task_step_def acquire_connection_def send_on_def free_connection_def
      bindS_def thenS_def finallyS_def split: list.splits option.splits sum.splits)

text \<open>What a step may do without losing a connection.\<close>

definition harmless :: "task \<Rightarrow> outcome \<Rightarrow> bool" where
  "harmless t out = (case t of
      Sends j c k \<Rightarrow> out = Good
    | Reads j c k \<Rightarrow> j = Single \<or> out \<noteq> Cancelled
    | _ \<Rightarrow> True)"

inductive quiet_step :: "node_state \<Rightarrow> node_state \<Rightarrow> bool" where
  task: "i < length ts \<Longrightarrow> harmless (ts ! i) out \<Longrightarrow> task_step out (ts ! i) n = (t', n') \<Longrightarrow> quiet_step (n, ts) (n', ts[i := t'])"
| spawn: "quiet_step (n, ts) (n, ts @ [Starts j k])"

inductive quiet_reach :: "aio_node \<Rightarrow> node_state \<Rightarrow> bool" for n0 where
  start: "quiet_reach n0 (n0, [])"
| step: "quiet_reach n0 s \<Longrightarrow> quiet_step s s' \<Longrightarrow> quiet_reach n0 s'"

lemma quiet_step_step: "quiet_step s s' \<Longrightarrow> node_step s s'"
  by (induction rule: quiet_step.induct) (auto intro: node_step.intros)

text \<open>Only connections of the node are free or held, none twice.\<close>

definition node_ok :: "aio_node \<Rightarrow> bool" where
  "node_ok n = (an_connections n = [0..<length (an_connections n)] \<and> length (an_connections n) \<le> an_max n)"

definition state_ok :: "node_state \<Rightarrow> bool" where
  "state_ok s = (case s of (n, ts) \<Rightarrow> node_ok n \<and> mset (an_free n) + mset (held ts) \<subseteq># mset (an_connections n))"

definition state_full :: "node_state \<Rightarrow> bool" where
  "state_full s = (case s of (n, ts) \<Rightarrow> node_ok n \<and> mset (an_free n) + mset (held ts) = mset (an_connections n))"

lemma held_update:
  assumes "i < length ts"
  shows "mset (held (ts[i := t'])) + mset (held_by (ts ! i)) = mset (held ts) + mset (held_by t')"
  using assms
proof (induction ts arbitrary: i)
  case (Cons t ts)
  then show ?case by (cases i) (simp_all add: held_def add.assoc add.left_commute)
qed simp

lemma held_append_tasks [simp]: "held (ts @ us) = held ts @ held us"
  by (simp add: held_def)

lemma held_Starts [simp]: "held [Starts j k] = []"
  by (simp add: held_def held_by_def)

text \<open>The connections of a step: those free and held by the task are the same before and after it, but for a new
  connection and for those that are lost.\<close>

definition holdings :: "aio_node \<Rightarrow> task \<Rightarrow> nat multiset" where
  "holdings n t = mset (an_free n) + mset (held_by t)"

lemma free_connection_mset:
  assumes "node_ok n" "add_mset c (mset (an_free n)) \<subseteq># mset (an_connections n)"
  shows "snd (free_connection c n) = n\<lparr>an_free := an_free n @ [c]\<rparr>"
proof -
  have "Suc (length (an_free n)) \<le> length (an_connections n)"
    using size_mset_mono [OF assms(2)] by simp
  then show ?thesis using assms(1) by (simp add: free_connection_def node_ok_def)
qed

lemma acquire_connection_step:
  assumes "node_ok n" "acquire_connection n = (r, n')"
  shows "node_ok n' \<and> (case r of
      Inl _ \<Rightarrow> n' = n
    | Inr c \<Rightarrow> \<exists>new. mset (an_connections n') = mset (an_connections n) + new \<and>
        add_mset c (mset (an_free n')) = mset (an_free n) + new)"
  using assms
  by (auto simp: acquire_connection_def node_ok_def split: list.splits if_splits)

lemma task_step_owned:
  assumes "node_ok n" "holdings n t \<subseteq># mset (an_connections n)" "task_step out t n = (t', n')"
  shows "node_ok n' \<and> (\<exists>new. mset (an_connections n') = mset (an_connections n) + new \<and>
    holdings n' t' \<subseteq># holdings n t + new \<and> (harmless t out \<longrightarrow> holdings n' t' = holdings n t + new))"
proof (cases t)
  case (Starts j k)
  obtain r m where a: "acquire_connection n = (r, m)" by force
  show ?thesis
    using acquire_connection_step [OF assms(1) a] assms(3) a
    by (cases r) (auto simp: Starts task_step_def holdings_def held_by_def harmless_def)
next
  case (Sends j c k)
  then have c: "add_mset c (mset (an_free n)) \<subseteq># mset (an_connections n)"
    using assms(2) by (simp add: holdings_def held_by_def)
  show ?thesis
    using assms(1,3)
    by (auto simp: free_connection_mset [OF assms(1) c] Sends task_step_def holdings_def held_by_def harmless_def node_ok_def split: if_splits)
next
  case (Reads j c k)
  then have c: "add_mset c (mset (an_free n)) \<subseteq># mset (an_connections n)"
    using assms(2) by (simp add: holdings_def held_by_def)
  show ?thesis
    using assms(1,3)
    by (cases j) (auto simp: free_connection_mset [OF assms(1) c] Reads task_step_def holdings_def held_by_def harmless_def node_ok_def split: if_splits)
next
  case (Ended b)
  then show ?thesis using assms(1,3) by (auto simp: task_step_def holdings_def held_by_def)
qed

lemma task_step_accounts:
  assumes i: "i < length ts" and ok: "state_ok (n, ts)" and st: "task_step out (ts ! i) n = (t', n')"
  shows "state_ok (n', ts[i := t']) \<and> (state_full (n, ts) \<longrightarrow> harmless (ts ! i) out \<longrightarrow> state_full (n', ts[i := t']))"
proof -
  have n: "node_ok n" and sub: "mset (an_free n) + mset (held ts) \<subseteq># mset (an_connections n)"
    using ok by (simp_all add: state_ok_def)
  have h: "mset (held (ts[i := t'])) + mset (held_by (ts ! i)) = mset (held ts) + mset (held_by t')"
    by (rule held_update) (rule i)
  obtain us vs where uv: "ts = us @ ts ! i # vs" using split_list [OF nth_mem [OF i]] by blast
  have "held ts = held us @ held_by (ts ! i) @ held vs" using arg_cong [OF uv, of held] by (simp add: held_def)
  then obtain other where o: "mset (held ts) = mset (held_by (ts ! i)) + other" by (metis mset_append union_assoc union_commute)
  then have h': "mset (held (ts[i := t'])) = other + mset (held_by t')" using h by (simp add: add.commute add.left_commute)
  from o sub have all: "holdings n (ts ! i) + other \<subseteq># mset (an_connections n)" by (simp add: holdings_def add.assoc)
  then have "holdings n (ts ! i) \<subseteq># mset (an_connections n)" by (meson mset_subset_eq_add_left subset_mset.order_trans)
  from task_step_owned [OF n this st] obtain new where new: "node_ok n'" "mset (an_connections n') = mset (an_connections n) + new"
      "holdings n' t' \<subseteq># holdings n (ts ! i) + new" "harmless (ts ! i) out \<longrightarrow> holdings n' t' = holdings n (ts ! i) + new"
    by blast
  have "holdings n' t' + other \<subseteq># holdings n (ts ! i) + new + other" by (rule subset_mset.add_right_mono) (rule new(3))
  also have "\<dots> = holdings n (ts ! i) + other + new" by (simp add: ac_simps)
  also have "\<dots> \<subseteq># mset (an_connections n) + new" by (rule subset_mset.add_right_mono) (rule all)
  finally have sub': "holdings n' t' + other \<subseteq># mset (an_connections n')" by (simp add: new(2))
  have eq: "mset (an_free n') + mset (held (ts[i := t'])) = holdings n' t' + other" by (simp add: h' holdings_def ac_simps)
  have "state_ok (n', ts[i := t'])" using new(1) sub' by (simp add: state_ok_def eq)
  moreover have "state_full (n', ts[i := t'])" if "state_full (n, ts)" "harmless (ts ! i) out"
  proof -
    have "holdings n (ts ! i) + other = mset (an_connections n)" using that(1) o by (simp add: state_full_def holdings_def add.assoc)
    then have "holdings n' t' + other = mset (an_connections n')" using new(2,4) that(2) by (simp add: ac_simps)
    then show ?thesis using new(1) by (simp add: state_full_def eq)
  qed
  ultimately show ?thesis by blast
qed


lemma node_step_ok: "node_step s s' \<Longrightarrow> state_ok s \<Longrightarrow> state_ok s'"
proof (induction rule: node_step.induct)
  case (task i ts out n t' n')
  then show ?case using task_step_accounts by blast
next
  case (spawn n ts j k)
  then show ?case by (simp add: state_ok_def)
qed

lemma quiet_step_full: "quiet_step s s' \<Longrightarrow> state_ok s \<Longrightarrow> state_full s \<Longrightarrow> state_full s'"
proof (induction rule: quiet_step.induct)
  case (task i ts out n t' n')
  then show ?case using task_step_accounts by blast
next
  case (spawn n ts j k)
  then show ?case by (simp add: state_full_def)
qed

text \<open>A new node, or one whose connections are all free.\<close>

definition idle_node :: "aio_node \<Rightarrow> bool" where
  "idle_node n = (node_ok n \<and> mset (an_free n) = mset (an_connections n))"

lemma idle_new_node: "idle_node (new_aio_node res k host port t)"
  by (simp add: idle_node_def node_ok_def new_aio_node_def)

lemma node_reach_ok: "node_reach n0 s \<Longrightarrow> idle_node n0 \<Longrightarrow> state_ok s"
proof (induction rule: node_reach.induct)
  case start
  then show ?case by (simp add: state_ok_def idle_node_def held_def)
next
  case (step s s')
  then show ?case using node_step_ok by blast
qed

lemma quiet_reach_full: "quiet_reach n0 s \<Longrightarrow> idle_node n0 \<Longrightarrow> state_ok s \<and> state_full s"
proof (induction rule: quiet_reach.induct)
  case start
  then show ?case by (simp add: state_ok_def state_full_def idle_node_def held_def)
next
  case (step s s')
  then show ?case using node_step_ok [OF quiet_step_step] quiet_step_full by blast
qed

lemma distinct_mset_sub:
  assumes "distinct ys" "mset xs \<subseteq># mset ys"
  shows "distinct xs"
proof -
  obtain zs where "mset ys = mset (xs @ zs)"
    using assms(2) by (metis ex_mset mset_append mset_subset_eq_exists_conv)
  then have "distinct (xs @ zs)" using assms(1) mset_eq_imp_distinct_iff by blast
  then show ?thesis by simp
qed

section \<open>Properties\<close>

text \<open>C14: However the tasks of a node interleave, fail and are cancelled, no connection is used by two tasks or free
  while a task uses it, and the node never has more than its maximum.\<close>

theorem connections_are_exclusive:
  assumes "node_reach n0 (n, ts)" "idle_node n0"
  shows "distinct (an_free n @ held ts) \<and> length (an_connections n) \<le> an_max n"
proof -
  from node_reach_ok [OF assms] have ok: "node_ok n" "mset (an_free n @ held ts) \<subseteq># mset (an_connections n)"
    by (simp_all add: state_ok_def)
  have "distinct (an_connections n)" using ok(1) unfolding node_ok_def by (metis distinct_upt)
  then have "distinct (an_free n @ held ts)" using ok(2) by (rule distinct_mset_sub)
  then show ?thesis using ok(1) by (simp add: node_ok_def)
qed

text \<open>Two tasks that both send, each on its own connection.\<close>

definition demo_aio_node :: aio_node where
  "demo_aio_node = new_aio_node (\<lambda>h. h) 2 ''127.0.0.1'' 7000 (Some PRIMARY)"

lemma two_tasks_reach:
  "quiet_reach demo_aio_node (demo_aio_node\<lparr>an_connections := [0, 1]\<rparr>, [Sends Single 0 1, Sends Batch 1 2])"
proof -
  have a: "quiet_reach demo_aio_node (demo_aio_node, [Starts Single 1, Starts Batch 2])"
    using quiet_reach.step [OF quiet_reach.step [OF quiet_reach.start quiet_step.spawn] quiet_step.spawn, of demo_aio_node Single 1 Batch 2]
    by simp
  have "quiet_step (demo_aio_node, [Starts Single 1, Starts Batch 2])
      (demo_aio_node\<lparr>an_connections := [0]\<rparr>, [Starts Single 1, Starts Batch 2][0 := Sends Single 0 1])"
    by (rule quiet_step.task [where out = Good])
      (simp_all add: harmless_def task_step_def acquire_connection_def demo_aio_node_def new_aio_node_def)
  then have b: "quiet_reach demo_aio_node (demo_aio_node\<lparr>an_connections := [0]\<rparr>, [Sends Single 0 1, Starts Batch 2])"
    using quiet_reach.step [OF a] by simp
  have "quiet_step (demo_aio_node\<lparr>an_connections := [0]\<rparr>, [Sends Single 0 1, Starts Batch 2])
      (demo_aio_node\<lparr>an_connections := [0, 1]\<rparr>, [Sends Single 0 1, Starts Batch 2][1 := Sends Batch 1 2])"
    by (rule quiet_step.task [where out = Good])
      (simp_all add: harmless_def task_step_def acquire_connection_def demo_aio_node_def new_aio_node_def)
  then show ?thesis using quiet_reach.step [OF b] by simp
qed

lemma quiet_reach_reach: "quiet_reach n0 s \<Longrightarrow> node_reach n0 s"
  by (induction rule: quiet_reach.induct) (auto intro: node_reach.intros quiet_step_step)

theorem connections_are_exclusive_witness:
  "distinct (an_free demo_aio_node @ held [Sends Single 0 1, Sends Batch 1 2]) \<and> length [0, 1::nat] \<le> an_max demo_aio_node"
  using connections_are_exclusive [OF quiet_reach_reach [OF two_tasks_reach]] idle_new_node
  by (simp add: demo_aio_node_def new_aio_node_def)

text \<open>C15: When no task failed while it sent and no batch was cancelled, all connections of a node are free again as soon as no
  task is under way.\<close>

theorem connections_come_back:
  assumes "quiet_reach n0 (n, ts)" "idle_node n0" "held ts = []"
  shows "mset (an_free n) = mset (an_connections n)"
  using quiet_reach_full [OF assms(1,2)] assms(3) by (simp add: state_full_def)

text \<open>The two tasks go on: the answer of the command cannot be read, both answers of the batch are read.\<close>

definition finished_aio_node :: aio_node where
  "finished_aio_node = demo_aio_node\<lparr>an_connections := [0, 1], an_free := [0, 1]\<rparr>"

lemma quiet_task:
  "quiet_reach n0 (n, ts) \<Longrightarrow> i < length ts \<Longrightarrow> harmless (ts ! i) out \<Longrightarrow> task_step out (ts ! i) n = (t', n') \<Longrightarrow> quiet_reach n0 (n', ts[i := t'])"
  by (rule quiet_reach.step [OF _ quiet_step.task])

lemma two_tasks_end: "quiet_reach demo_aio_node (finished_aio_node, [Ended False, Ended True])"
proof -
  let ?n = "demo_aio_node\<lparr>an_connections := [0, 1]\<rparr>" and ?n1 = "demo_aio_node\<lparr>an_connections := [0, 1], an_free := [0]\<rparr>"
  note sim = harmless_def task_step_def free_connection_def demo_aio_node_def new_aio_node_def finished_aio_node_def modS_def retS_def
  have "quiet_reach demo_aio_node (?n, [Reads Single 0 1, Sends Batch 1 2])"
    using quiet_task [OF two_tasks_reach, of 0 Good] by (simp add: sim)
  then have "quiet_reach demo_aio_node (?n1, [Ended False, Sends Batch 1 2])"
    using quiet_task [of demo_aio_node ?n "[Reads Single 0 1, Sends Batch 1 2]" 0 Fails] by (simp add: sim)
  then have "quiet_reach demo_aio_node (?n1, [Ended False, Reads Batch 1 2])"
    using quiet_task [of demo_aio_node ?n1 "[Ended False, Sends Batch 1 2]" 1 Good] by (simp add: sim)
  then have "quiet_reach demo_aio_node (?n1, [Ended False, Reads Batch 1 1])"
    using quiet_task [of demo_aio_node ?n1 "[Ended False, Reads Batch 1 2]" 1 Good] by (simp add: sim)
  then show ?thesis
    using quiet_task [of demo_aio_node ?n1 "[Ended False, Reads Batch 1 1]" 1 Good] by (simp add: sim)
qed

theorem connections_come_back_witness:
  "mset (an_free finished_aio_node) = mset (an_connections finished_aio_node) \<and> an_connections finished_aio_node = [0, 1]"
  using connections_come_back [OF two_tasks_end] idle_new_node [of "\<lambda>h. h" 2 "''127.0.0.1''" 7000 "Some PRIMARY"]
  by (simp add: demo_aio_node_def held_def held_by_def finished_aio_node_def)

text \<open>Running a command \<open>k\<close> times, each time with a failure of the send.\<close>

definition failing_send :: "callbacks \<Rightarrow> command \<Rightarrow> exc \<Rightarrow> aio_node \<Rightarrow> aio_node" where
  "failing_send callbacks c e n = snd (aio_node_execute_command callbacks c \<lparr>io_send = Some e, io_reads = []\<rparr> n)"

lemma failing_sends:
  assumes "an_free n = []" "length (an_connections n) + k \<le> an_max n"
  shows "an_free ((failing_send callbacks c e ^^ k) n) = [] \<and>
    length (an_connections ((failing_send callbacks c e ^^ k) n)) = length (an_connections n) + k \<and>
    an_max ((failing_send callbacks c e ^^ k) n) = an_max n"
  using assms
proof (induction k)
  case (Suc k)
  then show ?case
    by (simp add: failing_send_def aio_node_execute_command_def acquire_connection_def send_on_def bindS_def thenS_def)
qed simp

text \<open>A command that fails while it is sent never gives its connection back: after as many such failures as the node
  may have connections, every later command fails with MaxConnectionsError and nothing is sent.\<close>

theorem failed_sends_exhaust_node:
  assumes "n = (failing_send callbacks c e ^^ k) (new_aio_node res k host port t)"
  shows "aio_node_execute_command callbacks c' io n = (Inl (Raised (Exc MaxConnectionsError [])), n)"
proof -
  have "an_free n = []" "\<not> length (an_connections n) < an_max n"
    using failing_sends [of "new_aio_node res k host port t" k callbacks c e] by (simp_all add: assms new_aio_node_def)
  then show ?thesis by (simp add: aio_node_execute_command_def acquire_connection_def bindS_def)
qed

theorem failed_sends_exhaust_node_witness:
  "\<exists>n. n = (failing_send (\<lambda>_. None) (cmd ''GET'' [PStr ''k'']) (Exc ConnectionError ''reset'') ^^ 2)
          (new_aio_node (\<lambda>h. h) 2 ''h'' 7000 None) \<and>
     aio_node_execute_command (\<lambda>_. None) (cmd ''PING'' []) \<lparr>io_send = None, io_reads = [Inr (PStr ''PONG'')]\<rparr> n =
       (Inl (Raised (Exc MaxConnectionsError [])), n)"
  by (intro exI conjI, rule refl, rule failed_sends_exhaust_node, rule refl)

end
