(* ===== verification/AsyncClusterNodes.thy ===== *)
theory AsyncClusterNodes
  imports AsyncNode
begin

text \<open>
  The topology of an asynchronous cluster client (\<open>NodesManager\<close> in \<open>redis/asyncio/cluster.py\<close>). As in
  the synchronous one, nodes and the node lists of the slots are objects that several tables share. A
  discovery makes new node objects; those they replace are closed.
\<close>

section \<open>State\<close>

text \<open>\<open>am_closed\<close> is a log of the nodes whose connections were closed.\<close>

record aio_nm =
  am_heap :: "aio_node list"
  am_nodes :: "(string, nat) dict"
  am_lists :: "nat list list"
  am_slots :: "int \<Rightarrow> nat option"
  am_startup :: "(string, nat) dict"
  am_default :: "nat option"
  am_moved :: "redirect option"
  am_lb :: "(string, nat) dict"
  am_require_full_coverage :: bool
  am_max_connections :: nat
  am_closed :: "nat list"

type_synonym 'a am_op = "(aio_nm, exc, 'a) action"

definition aio_at :: "aio_nm \<Rightarrow> nat \<Rightarrow> aio_node" where
  "aio_at m i = am_heap m ! i"

definition aio_name_of :: "aio_nm \<Rightarrow> nat \<Rightarrow> string" where
  "aio_name_of m i = an_name (aio_at m i)"

definition aio_set_type :: "nat \<Rightarrow> server_type \<Rightarrow> aio_nm \<Rightarrow> aio_nm" where
  "aio_set_type i t m = m\<lparr>am_heap := (am_heap m)[i := (aio_at m i)\<lparr>an_type := Some t\<rparr>]\<rparr>"

definition close_nodes :: "nat list \<Rightarrow> aio_nm \<Rightarrow> aio_nm" where
  "close_nodes is m = m\<lparr>am_closed := am_closed m @ is\<rparr>"

section \<open>Looking up nodes\<close>

definition aio_get_node :: "(string \<Rightarrow> string) \<Rightarrow> string \<Rightarrow> int \<Rightarrow> string \<Rightarrow> aio_nm \<Rightarrow> exc + nat option" where
  "aio_get_node gethostbyname host port node_name m =
     (if host \<noteq> [] \<and> port \<noteq> 0 then Inr (dict_get (am_nodes m) (get_node_name (resolve_host gethostbyname host) port))
      else if node_name \<noteq> [] then Inr (dict_get (am_nodes m) node_name)
      else Inl (Exc DataError ''get_node requires one of the following: 1. node name 2. host and port''))"

definition aio_nodes_by_type :: "server_type \<Rightarrow> aio_nm \<Rightarrow> nat list" where
  "aio_nodes_by_type t m = filter (\<lambda>i. an_type (aio_at m i) = Some t) (map snd (am_nodes m))"

text \<open>\<open>set_nodes\<close> changes \<open>old\<close> and gives the nodes to close: those not in \<open>new\<close>, when they are to be removed, and those
  replaced by another object.\<close>

fun put_nodes :: "(string, nat) dict \<Rightarrow> (string \<times> nat) list \<Rightarrow> (string, nat) dict \<times> nat list" where
  "put_nodes old [] = (old, [])"
| "put_nodes old ((name, i) # new) =
     (case dict_get old name of
        None \<Rightarrow> put_nodes (dict_set name i old) new
      | Some j \<Rightarrow>
          if j = i then put_nodes old new
          else (case put_nodes (dict_set name i old) new of (d, old_nodes) \<Rightarrow> (d, j # old_nodes)))"

definition set_nodes :: "(string, nat) dict \<Rightarrow> (string, nat) dict \<Rightarrow> bool \<Rightarrow> (string, nat) dict \<times> nat list" where
  "set_nodes old new remove_old =
     (let gone = (if remove_old then filter (\<lambda>(name, _). \<not> dict_has new name) old else []);
          kept = (if remove_old then filter (\<lambda>(name, _). dict_has new name) old else old)
      in case put_nodes kept new of (d, old_nodes) \<Rightarrow> (d, map snd gone @ old_nodes))"

section \<open>MOVED\<close>

definition aio_redirected_node :: "(string \<Rightarrow> string) \<Rightarrow> redirect \<Rightarrow> nat am_op" where
  "aio_redirected_node gethostbyname e = (\<lambda>m.
     case aio_get_node gethostbyname (redir_host e) (redir_port e) [] m of
       Inl x \<Rightarrow> (Inl x, m)
     | Inr (Some i) \<Rightarrow> (Inr i, if an_type (aio_at m i) \<noteq> Some PRIMARY then aio_set_type i PRIMARY m else m)
     | Inr None \<Rightarrow>
         (let n = new_aio_node gethostbyname (am_max_connections m) (redir_host e) (redir_port e) (Some PRIMARY);
              i = length (am_heap m)
          in case set_nodes (am_nodes m) [(an_name n, i)] False of (d, old_nodes) \<Rightarrow>
             (Inr i, close_nodes old_nodes (m\<lparr>am_heap := am_heap m @ [n], am_nodes := d\<rparr>))))"

fun aio_remove_named :: "aio_nm \<Rightarrow> string \<Rightarrow> nat list \<Rightarrow> nat list" where
  "aio_remove_named m name [] = []"
| "aio_remove_named m name (i # is) = (if aio_name_of m i = name then is else i # aio_remove_named m name is)"

definition aio_promote :: "nat \<Rightarrow> nat \<Rightarrow> aio_nm \<Rightarrow> aio_nm" where
  "aio_promote l r m =
     (let old_primary = hd (am_lists m ! l);
          m1 = aio_set_type old_primary REPLICA m;
          ns = aio_remove_named m1 (aio_name_of m1 r) (am_lists m ! l @ [old_primary]);
          m2 = m1\<lparr>am_lists := (am_lists m)[l := ns[0 := r]]\<rparr>
      in if (case am_default m2 of None \<Rightarrow> False | Some d \<Rightarrow> aio_name_of m2 d = aio_name_of m2 old_primary)
         then m2\<lparr>am_default := Some r\<rparr> else m2)"

definition aio_update_moved_slots :: "(string \<Rightarrow> string) \<Rightarrow> unit am_op" where
  "aio_update_moved_slots gethostbyname = (\<lambda>m.
     case am_moved m of
       None \<Rightarrow> (Inl (Exc AttributeError ''host''), m)
     | Some e \<Rightarrow>
         (case aio_redirected_node gethostbyname e m of
            (Inl x, m1) \<Rightarrow> (Inl x, m1)
          | (Inr r, m1) \<Rightarrow>
              (case am_slots m1 (slot_id e) of
                 None \<Rightarrow> (Inl (Exc KeyError (dec_int (slot_id e))), m1)
               | Some l \<Rightarrow>
                   (let m2 = (if aio_name_of m1 r \<in> aio_name_of m1 ` set (am_lists m1 ! l) then aio_promote l r m1
                              else m1\<lparr>am_lists := am_lists m1 @ [[r]],
                                      am_slots := (am_slots m1)(slot_id e \<mapsto> length (am_lists m1))\<rparr>)
                    in (Inr (), m2\<lparr>am_moved := None\<rparr>)))))"

section \<open>The node of a slot\<close>

text \<open>The table is a \<open>dict\<close>: a slot it does not have raises \<open>KeyError\<close>, which the handler does not catch.\<close>

definition aio_get_node_from_slot :: "(string \<Rightarrow> string) \<Rightarrow> int \<Rightarrow> bool \<Rightarrow> nat am_op" where
  "aio_get_node_from_slot gethostbyname slot read_from_replicas =
     bindS (getS am_moved) (\<lambda>mv.
     thenS (if mv \<noteq> None then aio_update_moved_slots gethostbyname else retS ()) (\<lambda>m.
       case am_slots m slot of
         None \<Rightarrow> (Inl (Exc KeyError (dec_int slot)), m)
       | Some l \<Rightarrow>
           (case am_lists m ! l of
              [] \<Rightarrow> (Inl (slot_not_covered slot (am_require_full_coverage m)), m)
            | p # ps \<Rightarrow>
                if read_from_replicas then
                  (case get_server_index (aio_name_of m p) (length (p # ps)) (am_lb m) of
                     (k, lb) \<Rightarrow>
                       (if k < length (p # ps) then Inr ((p # ps) ! k)
                        else Inl (slot_not_covered slot (am_require_full_coverage m)), m\<lparr>am_lb := lb\<rparr>))
                else (Inr p, m))))"

section \<open>Discovery\<close>

record adisc =
  ad_heap :: "aio_node list"
  ad_nodes :: "(string, nat) dict"
  ad_lists :: "nat list list"
  ad_slots :: "int \<Rightarrow> nat option"
  ad_covered :: nat
  ad_disagreements :: "string list"

text \<open>A node of the discovery: found by its name, or new with the role.\<close>

definition discovered_node ::
  "cluster_env \<Rightarrow> nat \<Rightarrow> string \<Rightarrow> int \<Rightarrow> server_type \<Rightarrow> adisc \<Rightarrow> nat \<times> adisc" where
  "discovered_node env max_conns host port role d =
     (let (i, heap) = (case dict_get (ad_nodes d) (get_node_name host port) of
            Some i \<Rightarrow> (i, ad_heap d)
          | None \<Rightarrow> (length (ad_heap d), ad_heap d @ [new_aio_node (env_resolve env) max_conns host port (Some role)]))
      in (i, d\<lparr>ad_heap := heap, ad_nodes := dict_set (an_name (heap ! i)) i (ad_nodes d)\<rparr>))"

fun discovered_replicas :: "cluster_env \<Rightarrow> nat \<Rightarrow> (string \<times> int) list \<Rightarrow> adisc \<Rightarrow> nat list \<times> adisc" where
  "discovered_replicas env max_conns [] d = ([], d)"
| "discovered_replicas env max_conns ((h, p) # rs) d =
     (case remap_host_port env h p of (h', p') \<Rightarrow>
      case discovered_node env max_conns h' p' REPLICA d of (i, d1) \<Rightarrow>
      case discovered_replicas env max_conns rs d1 of (ids, d2) \<Rightarrow> (i # ids, d2))"

definition aio_assign_slot :: "nat \<Rightarrow> nat \<Rightarrow> int \<Rightarrow> (adisc, exc, unit) action" where
  "aio_assign_slot l target i = (\<lambda>d.
     case ad_slots d i of
       None \<Rightarrow> (Inr (), d\<lparr>ad_slots := (ad_slots d)(i \<mapsto> l), ad_covered := Suc (ad_covered d)\<rparr>)
     | Some l' \<Rightarrow>
         (let tmp = an_name (ad_heap d ! hd (ad_lists d ! l'));
              name = an_name (ad_heap d ! target);
              ds = ad_disagreements d @ [tmp @ '' vs '' @ name @ '' on slot: '' @ dec_int i]
          in if tmp \<noteq> name then
               (if 5 < length ds then (Inl (disagree ds), d\<lparr>ad_disagreements := ds\<rparr>)
                else (Inr (), d\<lparr>ad_disagreements := ds\<rparr>))
             else (Inr (), d)))"

primrec aio_assign_slots :: "nat \<Rightarrow> nat \<Rightarrow> int list \<Rightarrow> (adisc, exc, unit) action" where
  "aio_assign_slots l target [] = retS ()"
| "aio_assign_slots l target (i # ks) = thenS (aio_assign_slot l target i) (aio_assign_slots l target ks)"

definition aio_add_entry :: "cluster_env \<Rightarrow> nat \<Rightarrow> string \<Rightarrow> slot_entry \<Rightarrow> (adisc, exc, unit) action" where
  "aio_add_entry env max_conns startup_host e = (\<lambda>d.
     let host = (if fst (se_primary e) = [] then startup_host else fst (se_primary e)) in
     case remap_host_port env host (snd (se_primary e)) of (h, p) \<Rightarrow>
     case discovered_node env max_conns h p PRIMARY d of (i, d1) \<Rightarrow>
     case discovered_replicas env max_conns (se_replicas e) d1 of (ids, d2) \<Rightarrow>
       aio_assign_slots (length (ad_lists d2)) i [se_start e..se_end e]
         (d2\<lparr>ad_lists := ad_lists d2 @ [i # ids]\<rparr>))"

primrec aio_add_entries :: "cluster_env \<Rightarrow> nat \<Rightarrow> string \<Rightarrow> slot_entry list \<Rightarrow> (adisc, exc, unit) action" where
  "aio_add_entries env max_conns host [] = retS ()"
| "aio_add_entries env max_conns host (e # es) = thenS (aio_add_entry env max_conns host e) (aio_add_entries env max_conns host es)"

text \<open>The startup nodes in turn: what asking one for \<open>CLUSTER SLOTS\<close> gives is \<open>env_slots\<close> of its name.\<close>

fun aio_discover ::
  "cluster_env \<Rightarrow> nat \<Rightarrow> nat list \<Rightarrow> bool \<times> exc option \<Rightarrow> (adisc, exc, bool \<times> bool \<times> exc option) action" where
  "aio_discover env max_conns [] (reachable, x) = retS (reachable, False, x)"
| "aio_discover env max_conns (i # ids) (reachable, x) =
     bindS (getS (\<lambda>d. ad_heap d ! i)) (\<lambda>n.
       case env_slots env (an_name n) of
         Inl e \<Rightarrow>
           if isinstance (startup_error e) PyException then aio_discover env max_conns ids (reachable, Some (startup_error e))
           else raiseS e
       | Inr entries \<Rightarrow>
           thenS (aio_add_entries env max_conns (an_host n) entries)
           (bindS (getS (\<lambda>d. check_slots_coverage (ad_slots d))) (\<lambda>covered.
              if covered then retS (True, True, x) else aio_discover env max_conns ids (True, x))))"

text \<open>The tables are replaced at the end, the startup nodes by all nodes; the nodes that go are closed.\<close>

definition aio_initialize :: "cluster_env \<Rightarrow> unit am_op" where
  "aio_initialize env = (\<lambda>m0.
     let m = m0\<lparr>am_lb := []\<rparr>;
         d0 = \<lparr>ad_heap = am_heap m, ad_nodes = [], ad_lists = am_lists m, ad_slots = (\<lambda>_. None),
               ad_covered = 0, ad_disagreements = []\<rparr> in
     case aio_discover env (am_max_connections m) (map snd (am_startup m)) (False, None) d0 of
       (Inl e, d) \<Rightarrow> (Inl e, m\<lparr>am_heap := ad_heap d, am_lists := ad_lists d\<rparr>)
     | (Inr (reachable, covered, x), d) \<Rightarrow>
         (let m1 = m\<lparr>am_heap := ad_heap d, am_lists := ad_lists d\<rparr> in
          if \<not> reachable then (Inl (cannot_connect x), m1)
          else if \<not> covered \<and> am_require_full_coverage m then (Inl (not_all_covered (ad_covered d)), m1)
          else
            (case set_nodes (am_nodes m) (ad_nodes d) True of (nodes, closed1) \<Rightarrow>
             case set_nodes (am_startup m) nodes True of (startup, closed2) \<Rightarrow>
               (let m2 = close_nodes (closed1 @ closed2) (m1\<lparr>am_slots := ad_slots d, am_nodes := nodes, am_startup := startup\<rparr>) in
                case aio_nodes_by_type PRIMARY m2 of
                  [] \<Rightarrow> (Inl (Exc IndexError ''list index out of range''), m2)
                | p # _ \<Rightarrow> (Inr (), m2\<lparr>am_default := Some p, am_moved := None\<rparr>)))))"

definition aclose_nodes :: "aio_nm \<Rightarrow> aio_nm" where
  "aclose_nodes m = close_nodes (map snd (am_nodes m)) (m\<lparr>am_default := None\<rparr>)"

definition aclose_startup :: "aio_nm \<Rightarrow> aio_nm" where
  "aclose_startup m = close_nodes (map snd (am_startup m)) (m\<lparr>am_default := None\<rparr>)"

end
