(* ===== verification/AsyncCluster.thy ===== *)
theory AsyncCluster
  imports AsyncClusterNodes
begin

text \<open>
  Executing a command on an asynchronous cluster (\<open>RedisCluster\<close> in \<open>redis/asyncio/cluster.py\<close>): the
  initialisation that follows a failure, the nodes of a command, the redirection loop of one node and the
  retry loop around it. What the calls of a node meet is a script, in the order of the calls; when several
  nodes are asked at once, the task of one node runs to its end before the next one starts.
\<close>

section \<open>State\<close>

text \<open>\<open>ac_envs\<close> is what the successive discoveries find; the last one stays. \<open>ac_log\<close> has the calls of nodes.\<close>

datatype aio_event = Called nat string | ASlept

record aio_cluster =
  ac_nm :: aio_nm
  ac_initialize :: bool
  ac_retry_attempts :: int
  ac_read_from_replicas :: bool
  ac_reinitialize_counter :: int
  ac_reinitialize_steps :: int
  ac_commands :: commands
  ac_parser_node :: "nat option"
  ac_encoder :: encoder
  ac_server :: command_server
  ac_callbacks :: callbacks
  ac_envs :: "cluster_env list"
  ac_script :: "aio_io list"
  ac_rand :: "nat list"
  ac_log :: "aio_event list"

type_synonym 'a ac_op = "(aio_cluster, exc, 'a) action"

definition on_am :: "'a am_op \<Rightarrow> 'a ac_op" where
  "on_am f = (\<lambda>c. case f (ac_nm c) of (r, m) \<Rightarrow> (r, c\<lparr>ac_nm := m\<rparr>))"

definition aio_draw :: "nat ac_op" where
  "aio_draw = (\<lambda>c. case ac_rand c of [] \<Rightarrow> (Inr 0, c) | r # rs \<Rightarrow> (Inr r, c\<lparr>ac_rand := rs\<rparr>))"

definition no_env :: cluster_env where
  "no_env = \<lparr>env_resolve = (\<lambda>h. h), env_slots = (\<lambda>_. Inl (Exc ConnectionError ''refused'')), env_remap = None\<rparr>"

definition env_now :: "aio_cluster \<Rightarrow> cluster_env" where
  "env_now c = (case ac_envs c of [] \<Rightarrow> no_env | env # _ \<Rightarrow> env)"

definition next_env :: "cluster_env ac_op" where
  "next_env = (\<lambda>c. (Inr (env_now c), c\<lparr>ac_envs := (case ac_envs c of env # env' # envs \<Rightarrow> env' # envs | es \<Rightarrow> es)\<rparr>))"

section \<open>Initialisation\<close>

definition aio_aclose :: "unit ac_op" where
  "aio_aclose = modS (\<lambda>c. if ac_initialize c then c
     else c\<lparr>ac_initialize := True, ac_nm := aclose_startup (aclose_nodes (ac_nm c))\<rparr>)"

text \<open>The table of commands: the names in lower case. The parser keeps the node it was given.\<close>

definition aio_commands_initialize :: "nat option \<Rightarrow> unit ac_op" where
  "aio_commands_initialize node = (\<lambda>c0.
     let c = (if node \<noteq> None then c0\<lparr>ac_parser_node := node\<rparr> else c0) in
     if ac_parser_node c = None then (Inl (Exc AttributeError ''node''), c)
     else (case srv_command (ac_server c) of
        Inl e \<Rightarrow> (Inl e, c)
      | Inr cmds \<Rightarrow> (Inr (), c\<lparr>ac_commands := dict_of_pairs (map (\<lambda>(n, i). (lower n, i)) cmds)\<rparr>)))"

definition aio_cluster_initialize :: "unit ac_op" where
  "aio_cluster_initialize = (\<lambda>c.
     if \<not> ac_initialize c then (Inr (), c)
     else
       catchS
         (bindS next_env (\<lambda>env.
          thenS (on_am (aio_initialize env))
          (bindS (getS (\<lambda>c. am_default (ac_nm c))) (\<lambda>d.
          thenS (aio_commands_initialize d)
            (modS (\<lambda>c. c\<lparr>ac_initialize := False\<rparr>))))))
         (\<lambda>e. thenS (modS (\<lambda>c. c\<lparr>ac_nm := aclose_startup (aclose_nodes (ac_nm c))\<rparr>)) (raiseS e)) c)"

section \<open>The nodes of a command\<close>

definition aio_moveable_keys :: "string \<Rightarrow> pyval list \<Rightarrow> pyval list option ac_op" where
  "aio_moveable_keys name rest = (\<lambda>c.
     case ac_parser_node c of
       None \<Rightarrow> (Inl (Exc AttributeError ''node''), c)
     | Some _ \<Rightarrow>
         (case srv_getkeys (ac_server c) (PStr name # rest) of
            Inr ks \<Rightarrow> (Inr (Some ks), c)
          | Inl e \<Rightarrow>
              (if isinstance e ResponseError \<and>
                  (has_sub ''Invalid arguments'' (exc_msg e) \<or> has_sub ''The command has no key arguments'' (exc_msg e))
               then Inr None else Inl e, c)))"

definition aio_keys_from_info :: "string \<Rightarrow> command_info \<Rightarrow> string \<Rightarrow> pyval list \<Rightarrow> pyval list option ac_op" where
  "aio_keys_from_info cmd_name i name rest =
     (if ''movablekeys'' \<in> set (ci_flags i) then aio_moveable_keys name rest
      else (\<lambda>c. (keys_from_info (ac_server c) cmd_name i name rest, c)))"

definition aio_get_keys :: "string \<Rightarrow> pyval list \<Rightarrow> pyval list option ac_op" where
  "aio_get_keys name rest =
     (if rest = [] then retS None
      else bindS (getS ac_commands) (\<lambda>d.
        case dict_get d (lower name) of
          Some i \<Rightarrow> aio_keys_from_info (lower name) i name rest
        | None \<Rightarrow>
            (case split_ws (lower name) of
               [] \<Rightarrow> raiseS (Exc IndexError ''list index out of range'')
             | w # ws \<Rightarrow>
                 (case dict_get d w of
                    Some i \<Rightarrow> aio_keys_from_info w i w (map PStr ws @ rest)
                  | None \<Rightarrow>
                      thenS (aio_commands_initialize None)
                      (bindS (getS ac_commands) (\<lambda>d'.
                         case dict_get d' w of
                           None \<Rightarrow> raiseS (unknown_command w)
                         | Some i \<Rightarrow> aio_keys_from_info w i name rest))))))"

definition aio_random_slot :: "int ac_op" where
  "aio_random_slot = bindS aio_draw (\<lambda>r. retS (int (r mod REDIS_CLUSTER_HASH_SLOTS)))"

definition aio_slot_of_keys :: "string \<Rightarrow> pyval list \<Rightarrow> int ac_op" where
  "aio_slot_of_keys command keys =
     bindS (getS ac_encoder) (\<lambda>enc.
       liftS (bindE (mapE (keyslot enc) keys) (\<lambda>slots.
         if length (remdups slots) = 1 then Inr (int (hd slots)) else Inl (cross_slot command))))"

text \<open>\<open>args[2 : 2 + n]\<close>, whose negative end counts from the end.\<close>

definition aio_eval_keys :: "pyval list \<Rightarrow> int \<Rightarrow> pyval list" where
  "aio_eval_keys rest n =
     (let stop = (if 2 + n < 0 then 2 + n + int (length rest) else 2 + n)
      in take (nat (stop - 2)) (drop 2 rest))"

definition aio_determine_slot :: "string \<Rightarrow> pyval list \<Rightarrow> int ac_op" where
  "aio_determine_slot command rest =
     (if COMMAND_FLAGS command = Some SLOT_ID then
        (case rest of [] \<Rightarrow> raiseS (Exc IndexError ''tuple index out of range'') | v # _ \<Rightarrow> liftS (to_int v))
      else if upper command \<in> {''EVAL'', ''EVALSHA''} then
        (if length rest < 2 then raiseS invalid_args
         else bindS (liftS (to_int (rest ! 1))) (\<lambda>n.
           let keys = aio_eval_keys rest n
           in if keys = [] then aio_random_slot else aio_slot_of_keys command keys))
      else bindS (aio_get_keys command rest) (\<lambda>ks.
        case ks of
          Some (k # keys) \<Rightarrow> aio_slot_of_keys command (k # keys)
        | _ \<Rightarrow> if upper command \<in> {''FCALL'', ''FCALL_RO''} then aio_random_slot else raiseS missing_key))"

definition aio_command_node :: "string \<Rightarrow> pyval list \<Rightarrow> nat ac_op" where
  "aio_command_node command rest =
     bindS (aio_determine_slot command rest) (\<lambda>slot.
     bindS (getS ac_read_from_replicas) (\<lambda>rr.
     bindS (getS env_now) (\<lambda>env.
       on_am (aio_get_node_from_slot (env_resolve env) slot (rr \<and> command \<in> set READ_COMMANDS)))))"

definition aio_determine_nodes :: "node_flag option \<Rightarrow> string \<Rightarrow> pyval list \<Rightarrow> nat option list ac_op" where
  "aio_determine_nodes node_flag command rest =
     (let flag = (case node_flag of Some f \<Rightarrow> Some f | None \<Rightarrow> COMMAND_FLAGS command)
      in bindS (getS ac_nm) (\<lambda>m.
         case flag of
           Some DEFAULT_NODE \<Rightarrow> retS [am_default m]
         | Some PRIMARIES \<Rightarrow> retS (map Some (aio_nodes_by_type PRIMARY m))
         | Some REPLICAS \<Rightarrow> retS (map Some (aio_nodes_by_type REPLICA m))
         | Some ALL_NODES \<Rightarrow> retS (map (Some \<circ> snd) (am_nodes m))
         | Some RANDOM \<Rightarrow> bindS aio_draw (\<lambda>r. bindS (liftS (py_choice r (map snd (am_nodes m)))) (\<lambda>i. retS [Some i]))
         | _ \<Rightarrow> bindS (aio_command_node command rest) (\<lambda>i. retS [Some i])))"

section \<open>One node: the redirection loop\<close>

record aio_locals =
  al_target :: "nat option"
  al_redirect_addr :: string
  al_asking :: bool
  al_moved :: bool

type_synonym 'a ax_op = "(aio_cluster \<times> aio_locals, node_exc, 'a) action"

definition on_ac :: "'a ac_op \<Rightarrow> 'a ax_op" where
  "on_ac f = (\<lambda>(c, v). case f c of (Inl e, c') \<Rightarrow> (Inl (Raised e), (c', v)) | (Inr a, c') \<Rightarrow> (Inr a, (c', v)))"

definition set_al :: "(aio_locals \<Rightarrow> aio_locals) \<Rightarrow> unit ax_op" where
  "set_al f = modS (\<lambda>(c, v). (c, f v))"

definition no_io :: aio_io where
  "no_io = \<lparr>io_send = Some (Exc ConnectionError ''refused''), io_reads = []\<rparr>"

text \<open>A call of a node takes the next entry of the script.\<close>

definition call_node :: "nat \<Rightarrow> command \<Rightarrow> (aio_cluster, node_exc, pyval) action" where
  "call_node i c = (\<lambda>s.
     let (io, rest) = (case ac_script s of [] \<Rightarrow> (no_io, []) | io # ios \<Rightarrow> (io, ios));
         m = ac_nm s
     in case aio_node_execute_command (ac_callbacks s) c io (aio_at m i) of
          (r, n) \<Rightarrow> (r, s\<lparr>ac_nm := m\<lparr>am_heap := (am_heap m)[i := n]\<rparr>, ac_script := rest, ac_log := ac_log s @ [Called i (cm_name c)]\<rparr>))"

definition call_target :: "command \<Rightarrow> pyval ax_op" where
  "call_target c = (\<lambda>(s, v). case al_target v of
      None \<Rightarrow> (Inl (Raised (Exc AttributeError ''execute_command'')), (s, v))
    | Some i \<Rightarrow> (case call_node i c s of (r, s') \<Rightarrow> (r, (s', v))))"

text \<open>\<open>try\<close>: ASKING goes to the node of the redirection; after a MOVED the node is the one of the slot.\<close>

definition aio_prepare :: "string \<Rightarrow> pyval list \<Rightarrow> unit ax_op" where
  "aio_prepare name rest = (\<lambda>(c, v).
     if al_asking v then
       thenS (bindS (on_ac (\<lambda>c. (aio_get_node (env_resolve (env_now c)) [] 0 (al_redirect_addr v) (ac_nm c), c))) (\<lambda>t.
                set_al (\<lambda>v. v\<lparr>al_target := t\<rparr>)))
       (thenS (bindS (call_target (cmd ''ASKING'' [])) (\<lambda>_. retS ()))
         (set_al (\<lambda>v. v\<lparr>al_asking := False\<rparr>))) (c, v)
     else if al_moved v then
       bindS (on_ac (aio_command_node name rest)) (\<lambda>i.
         set_al (\<lambda>v. v\<lparr>al_target := Some i, al_moved := False\<rparr>)) (c, v)
     else (Inr (), (c, v)))"

definition aio_try_once :: "command \<Rightarrow> pyval ax_op" where
  "aio_try_once c = thenS (aio_prepare (cm_name c) (cm_rest c)) (call_target c)"

definition aio_log_slept :: "unit ac_op" where
  "aio_log_slept = modS (\<lambda>c. c\<lparr>ac_log := ac_log c @ [ASlept]\<rparr>)"

definition forget_startup :: "unit ax_op" where
  "forget_startup = (\<lambda>(c, v). case al_target v of
      None \<Rightarrow> (Inl (Raised (Exc AttributeError ''name'')), (c, v))
    | Some i \<Rightarrow>
        (let m = ac_nm c
         in (Inr (), (c\<lparr>ac_nm := m\<lparr>am_startup := dict_del (aio_name_of m i) (am_startup m)\<rparr>\<rparr>, v))))"

text \<open>Every few redirections the client closes itself, so that the next command discovers the cluster again;
  the others are kept for the next lookup of a slot.\<close>

definition aio_moved :: "redirect \<Rightarrow> unit ax_op" where
  "aio_moved e =
     thenS (on_ac (modS (\<lambda>c. c\<lparr>ac_reinitialize_counter := ac_reinitialize_counter c + 1\<rparr>)))
     (bindS (getS (\<lambda>(c, v). ac_reinitialize_steps c \<noteq> 0 \<and> ac_reinitialize_counter c mod ac_reinitialize_steps c = 0)) (\<lambda>b.
     thenS (on_ac (if b then thenS aio_aclose (modS (\<lambda>c. c\<lparr>ac_reinitialize_counter := 0\<rparr>))
                   else modS (\<lambda>c. c\<lparr>ac_nm := (ac_nm c)\<lparr>am_moved := Some e\<rparr>\<rparr>)))
       (set_al (\<lambda>v. v\<lparr>al_moved := True\<rparr>))))"

definition aio_handle :: "nat \<Rightarrow> node_exc \<Rightarrow> unit ax_op" where
  "aio_handle ttl x = (case x of
      Raised e \<Rightarrow>
        if isinstance e BusyLoadingError \<or> isinstance e MaxConnectionsError then raiseS x
        else if isinstance e ConnectionError \<or> isinstance e TimeoutError then
          thenS forget_startup (thenS (on_ac aio_aclose) (raiseS x))
        else if isinstance e ClusterDownError then
          thenS (on_ac aio_aclose) (thenS (on_ac aio_log_slept) (raiseS x))
        else if isinstance e TryAgainError then
          on_ac (if 2 * ttl < RedisClusterRequestTTL then aio_log_slept else retS ())
        else raiseS x
    | Moved e \<Rightarrow> aio_moved e
    | Ask e \<Rightarrow> set_al (\<lambda>v. v\<lparr>al_redirect_addr := get_node_name (redir_host e) (redir_port e), al_asking := True\<rparr>))"

definition aio_round :: "nat \<Rightarrow> command \<Rightarrow> pyval option ax_op" where
  "aio_round ttl c =
     catchS (bindS (aio_try_once c) (\<lambda>r. retS (Some r))) (\<lambda>x. thenS (aio_handle ttl x) (retS None))"

fun aio_execute_loop :: "nat \<Rightarrow> command \<Rightarrow> pyval ax_op" where
  "aio_execute_loop 0 c = raiseS (Raised ttl_exhausted)"
| "aio_execute_loop (Suc ttl) c =
     bindS (aio_round ttl c) (\<lambda>r. case r of Some v \<Rightarrow> retS v | None \<Rightarrow> aio_execute_loop ttl c)"

definition new_al :: "nat option \<Rightarrow> aio_locals" where
  "new_al t = \<lparr>al_target = t, al_redirect_addr = [], al_asking = False, al_moved = False\<rparr>"

definition aio_execute_on_node :: "nat option \<Rightarrow> command \<Rightarrow> (aio_cluster, node_exc, pyval) action" where
  "aio_execute_on_node t c = (\<lambda>s. case aio_execute_loop RedisClusterRequestTTL c (s, new_al t) of (r, (s', _)) \<Rightarrow> (r, s'))"

section \<open>The retry loop\<close>

text \<open>\<open>asyncio.gather\<close>: every task runs, and the first exception is raised.\<close>

fun aio_gather :: "command \<Rightarrow> nat option list \<Rightarrow> aio_cluster \<Rightarrow> (node_exc + pyval) list \<times> aio_cluster" where
  "aio_gather c [] s = ([], s)"
| "aio_gather c (t # ts) s =
     (case aio_execute_on_node t c s of (r, s1) \<Rightarrow> case aio_gather c ts s1 of (rs, s2) \<Rightarrow> (r # rs, s2))"

fun first_failure :: "(node_exc + 'a) list \<Rightarrow> exc + 'a list" where
  "first_failure [] = Inr []"
| "first_failure (Inl x # rs) = Inl (plain_exc x)"
| "first_failure (Inr v # rs) = (case first_failure rs of Inl e \<Rightarrow> Inl e | Inr vs \<Rightarrow> Inr (v # vs))"

text \<open>The callbacks for the answers of several nodes, by the name as it is.\<close>

definition aio_result_callback :: "string \<Rightarrow> (node_results \<Rightarrow> exc + pyval) option" where
  "aio_result_callback command =
     (if command = ''CLUSTER SLOTS'' then
        Some (\<lambda>res. case res of [] \<Rightarrow> Inl (Exc IndexError ''list index out of range'') | (_, v) # _ \<Rightarrow> parse_cluster_slots [] v)
      else RESULT_CALLBACKS command)"

definition aio_results :: "string \<Rightarrow> node_results \<Rightarrow> exc + pyval" where
  "aio_results command res =
     (case aio_result_callback command of
        Some f \<Rightarrow> f res
      | None \<Rightarrow> (case res of [(_, v)] \<Rightarrow> Inr v | _ \<Rightarrow> Inr (PDict (map (\<lambda>(n, v). (PStr n, v)) res))))"

definition node_names :: "aio_cluster \<Rightarrow> nat option list \<Rightarrow> string list" where
  "node_names c ts = map (\<lambda>t. case t of Some i \<Rightarrow> aio_name_of (ac_nm c) i | None \<Rightarrow> []) ts"

definition aio_run :: "nat option list \<Rightarrow> command \<Rightarrow> pyval ac_op" where
  "aio_run ts c = (\<lambda>s.
     case aio_gather c ts s of (rs, s') \<Rightarrow>
       (bindE (first_failure rs) (\<lambda>vs. aio_results (cm_name c) (dict_of_pairs (zip (node_names s ts) vs))), s'))"

definition aio_replace_default_node :: "nat \<Rightarrow> aio_nm \<Rightarrow> aio_nm" where
  "aio_replace_default_node rnd m =
     (let other = (\<lambda>i. case am_default m of None \<Rightarrow> True | Some d \<Rightarrow> aio_name_of m d \<noteq> aio_name_of m i);
          primaries = filter other (aio_nodes_by_type PRIMARY m);
          replicas = filter other (aio_nodes_by_type REPLICA m)
      in if primaries \<noteq> [] then m\<lparr>am_default := Some (primaries ! (rnd mod length primaries))\<rparr>
         else if replicas \<noteq> [] then m\<lparr>am_default := Some (replicas ! (rnd mod length replicas))\<rparr>
         else m)"

text \<open>A client that has to initialise does so before a round; then, when the last round used just the default node, it takes
  another one.\<close>

definition aio_refresh :: "nat option list \<Rightarrow> unit ac_op" where
  "aio_refresh ts = (\<lambda>c.
     if \<not> ac_initialize c then (Inr (), c)
     else
       thenS aio_cluster_initialize
       (bindS (getS ac_nm) (\<lambda>m.
          if (case ts of [t] \<Rightarrow> map_option (aio_name_of m) t = map_option (aio_name_of m) (am_default m) | _ \<Rightarrow> False)
          then bindS aio_draw (\<lambda>r. modS (\<lambda>c. c\<lparr>ac_nm := aio_replace_default_node r (ac_nm c)\<rparr>)) else retS ())) c)"

text \<open>One round: the nodes, when they are not given, and the command on each. The first value are the nodes.\<close>

definition aio_try_round :: "nat list option \<Rightarrow> node_flag option \<Rightarrow> nat option list \<Rightarrow> command \<Rightarrow> aio_cluster \<Rightarrow> nat option list \<times> (exc + pyval) \<times> aio_cluster" where
  "aio_try_round given flag ts c s =
     (case given of
        Some ns \<Rightarrow> (case aio_run (map Some ns) c s of (r, s') \<Rightarrow> (map Some ns, r, s'))
      | None \<Rightarrow>
          (case aio_determine_nodes flag (cm_name c) (cm_rest c) s of
             (Inl e, s1) \<Rightarrow> (ts, Inl e, s1)
           | (Inr [], s1) \<Rightarrow> ([], Inl no_targets, s1)
           | (Inr ts', s1) \<Rightarrow> (case aio_run ts' c s1 of (r, s') \<Rightarrow> (ts', r, s'))))"

fun aio_retry_rounds :: "nat \<Rightarrow> int \<Rightarrow> nat list option \<Rightarrow> node_flag option \<Rightarrow> nat option list \<Rightarrow> command \<Rightarrow> pyval ac_op" where
  "aio_retry_rounds 0 left given flag ts c = retS PNone"
| "aio_retry_rounds (Suc n) left given flag ts c =
     thenS (aio_refresh ts) (\<lambda>s.
       case aio_try_round given flag ts c s of
         (ts', Inr v, s') \<Rightarrow> (Inr v, s')
       | (ts', Inl e, s') \<Rightarrow>
           if may_retry left e then aio_retry_rounds n (left - 1) given flag ts' c s' else (Inl e, s'))"

definition aio_execute_command :: "targets \<Rightarrow> command \<Rightarrow> pyval ac_op" where
  "aio_execute_command passed c =
     (let routed = (\<lambda>flag. bindS (getS ac_retry_attempts) (\<lambda>k. aio_retry_rounds (nat (1 + k)) k None flag [] c))
      in case passed of
           NoTargets \<Rightarrow> routed None
         | Nodes [] \<Rightarrow> routed None
         | Flag SLOT_ID \<Rightarrow> raiseS (Exc TypeError ''target_nodes type can be one of the following: '')
         | Flag f \<Rightarrow> routed (Some f)
         | _ \<Rightarrow> bindS (liftS (parse_target_nodes passed)) (\<lambda>ns. aio_retry_rounds 1 0 (Some ns) None (map Some ns) c))"

end
