(* ===== verification/AsyncClusterCorrect.thy ===== *)
theory AsyncClusterCorrect
  imports AsyncCluster ClusterRedirect
begin

text \<open>
  The asynchronous cluster client against the synchronous one: MOVED changes the tables in the same way and a
  covered slot gives the same node, a slot that is not covered raises another exception; and the ways in which
  its redirection loop differs, ASKING and reinitialisation.
\<close>

section \<open>Refinement of the tables\<close>

definition abs_node :: "aio_node \<Rightarrow> cnode" where
  "abs_node n = \<lparr>cn_host = an_host n, cn_port = an_port n, cn_type = an_type n, cn_connected = False\<rparr>"

definition abs_nm :: "aio_nm \<Rightarrow> nodes_manager" where
  "abs_nm m = \<lparr>nm_heap = map abs_node (am_heap m), nm_nodes = am_nodes m, nm_lists = am_lists m, nm_slots = am_slots m,
     nm_startup = am_startup m, nm_default = am_default m, nm_moved = am_moved m, nm_lb = am_lb m,
     nm_require_full_coverage = am_require_full_coverage m, nm_dynamic_startup_nodes = True\<rparr>"

lemma abs_nm_fields [simp]:
  "nm_heap (abs_nm m) = map abs_node (am_heap m)" "nm_nodes (abs_nm m) = am_nodes m" "nm_lists (abs_nm m) = am_lists m"
  "nm_slots (abs_nm m) = am_slots m" "nm_default (abs_nm m) = am_default m" "nm_moved (abs_nm m) = am_moved m"
  "nm_lb (abs_nm m) = am_lb m" "nm_require_full_coverage (abs_nm m) = am_require_full_coverage m"
  by (simp_all add: abs_nm_def)

lemma abs_updates:
  "abs_nm (m\<lparr>am_lists := xs\<rparr>) = (abs_nm m)\<lparr>nm_lists := xs\<rparr>" "abs_nm (m\<lparr>am_default := d\<rparr>) = (abs_nm m)\<lparr>nm_default := d\<rparr>"
  "abs_nm (m\<lparr>am_moved := e\<rparr>) = (abs_nm m)\<lparr>nm_moved := e\<rparr>" "abs_nm (m\<lparr>am_slots := f\<rparr>) = (abs_nm m)\<lparr>nm_slots := f\<rparr>"
  "abs_nm (m\<lparr>am_lb := lb\<rparr>) = (abs_nm m)\<lparr>nm_lb := lb\<rparr>"
  by (simp_all add: abs_nm_def)

lemma name_of_updates [simp]:
  "name_of (m\<lparr>nm_lists := xs\<rparr>) = name_of m" "aio_name_of (n\<lparr>am_lists := xs\<rparr>) = aio_name_of n"
  by (simp_all add: fun_eq_iff name_of_def node_at_def aio_name_of_def aio_at_def)

text \<open>The indices of the tables are nodes and lists.\<close>

definition am_wf :: "aio_nm \<Rightarrow> bool" where
  "am_wf m = nm_wf (abs_nm m)"

lemma abs_node_name [simp]: "cn_name (abs_node n) = an_name n"
  by (simp add: cn_name_def abs_node_def an_name_def)

lemma abs_name_of: "i < length (am_heap m) \<Longrightarrow> name_of (abs_nm m) i = aio_name_of m i"
  by (simp add: name_of_def node_at_def aio_name_of_def aio_at_def)

lemma abs_type: "i < length (am_heap m) \<Longrightarrow> cn_type (node_at (abs_nm m) i) = an_type (aio_at m i)"
  by (simp add: node_at_def aio_at_def abs_node_def)

lemma abs_set_type: "i < length (am_heap m) \<Longrightarrow> abs_nm (aio_set_type i t m) = set_type i t (abs_nm m)"
  by (simp add: abs_nm_def set_type_def aio_set_type_def map_update node_at_def aio_at_def abs_node_def)

lemma set_type_name: "aio_name_of (aio_set_type i t m) j = aio_name_of m j"
proof -
  have "an_name (n\<lparr>an_type := x\<rparr>) = an_name n" for n x by (simp add: an_name_def)
  then show ?thesis
    by (cases "i < length (am_heap m)")
      (simp_all add: aio_name_of_def aio_at_def aio_set_type_def nth_list_update list_update_beyond)
qed

lemma set_type_am_fields [simp]:
  "am_nodes (aio_set_type i t m) = am_nodes m" "am_lists (aio_set_type i t m) = am_lists m" "am_slots (aio_set_type i t m) = am_slots m"
  "am_default (aio_set_type i t m) = am_default m" "am_moved (aio_set_type i t m) = am_moved m"
  "length (am_heap (aio_set_type i t m)) = length (am_heap m)"
  by (simp_all add: aio_set_type_def)

lemma abs_remove_named:
  "\<forall>i \<in> set is. i < length (am_heap m) \<Longrightarrow> remove_named (abs_nm m) name is = aio_remove_named m name is"
  by (induction "is") (simp_all add: abs_name_of)

lemma am_wfD:
  assumes "am_wf m"
  shows "dict_get (am_nodes m) k = Some i \<Longrightarrow> i < length (am_heap m)"
    and "am_slots m s = Some l \<Longrightarrow> l < length (am_lists m)"
    and "am_slots m s = Some l \<Longrightarrow> am_lists m ! l \<noteq> [] \<and> (\<forall>i \<in> set (am_lists m ! l). i < length (am_heap m))"
  using assms nth_mem by (fastforce simp: am_wf_def nm_wf_def heap_ok_def)+

lemma abs_redirected_node:
  assumes wf: "am_wf m" and e: "redir_host e \<noteq> []" "redir_port e \<noteq> 0"
    and r: "redirected_node res e (abs_nm m) = (i, m')"
  shows "\<exists>m1. aio_redirected_node res e m = (Inr i, m1) \<and> abs_nm m1 = m' \<and> i < length (am_heap m1) \<and> length (am_heap m) \<le> length (am_heap m1)"
proof (cases "dict_get (am_nodes m) (get_node_name (resolve_host res (redir_host e)) (redir_port e))")
  case None
  let ?n = "new_aio_node res (am_max_connections m) (redir_host e) (redir_port e) (Some PRIMARY)"
  have name: "an_name ?n = get_node_name (resolve_host res (redir_host e)) (redir_port e)"
    by (simp add: an_name_def new_aio_node_def)
  have new: "abs_node ?n = new_cluster_node res (redir_host e) (redir_port e) (Some PRIMARY)"
    by (simp add: abs_node_def new_aio_node_def new_cluster_node_def)
  have "set_nodes (am_nodes m) [(an_name ?n, length (am_heap m))] False = (dict_set (an_name ?n) (length (am_heap m)) (am_nodes m), [])"
    using None by (simp add: set_nodes_def name)
  then show ?thesis
    using None e r by (simp add: aio_redirected_node_def aio_get_node_def redirected_node_def get_node_def Let_def new [symmetric] close_nodes_def)
      (auto simp: abs_nm_def)
next
  case (Some j)
  then have j: "j < length (am_heap m)" using am_wfD(1) [OF wf] by blast
  show ?thesis
    using Some e r j abs_set_type [OF j, of PRIMARY] abs_type [OF j]
    by (auto simp: aio_redirected_node_def aio_get_node_def redirected_node_def get_node_def split: if_splits)
qed

lemma abs_promote:
  assumes "r < length (am_heap m)" "am_lists m ! l \<noteq> []" "\<forall>i \<in> set (am_lists m ! l). i < length (am_heap m)"
    and "\<forall>d. am_default m = Some d \<longrightarrow> d < length (am_heap m)"
  shows "abs_nm (aio_promote l r m) = promote l r (abs_nm m)"
proof -
  let ?o = "hd (am_lists m ! l)"
  let ?m1 = "aio_set_type ?o REPLICA m"
  have o: "?o < length (am_heap m)" using assms(2,3) by simp
  have rm: "remove_named (abs_nm ?m1) n (am_lists m ! l @ [?o]) = aio_remove_named ?m1 n (am_lists m ! l @ [?o])" for n
    by (rule abs_remove_named) (use assms(3) o in simp)
  have nm: "name_of (abs_nm ?m1) i = aio_name_of ?m1 i" if "i < length (am_heap m)" for i
    using that by (simp add: abs_name_of)
  show ?thesis
    unfolding promote_def aio_promote_def Let_def abs_nm_fields abs_set_type [OF o, symmetric] rm nm [OF assms(1)]
    using assms(4) nm o by (auto simp: abs_updates split: option.splits)
qed

text \<open>After a MOVED the asynchronous client has the same tables as the synchronous one: the owner becomes a primary, a
  failover swaps it with the old primary in the list of the slot, another owner gets the slot for itself.\<close>

lemma update_moved_slots_refines:
  assumes wf: "am_wf m" and mv: "am_moved m = Some e" and e: "redir_host e \<noteq> []" "redir_port e \<noteq> 0"
    and d: "\<forall>d. am_default m = Some d \<longrightarrow> d < length (am_heap m)"
  shows "update_moved_slots res (abs_nm m) = (case aio_update_moved_slots res m of (r, m') \<Rightarrow> (r, abs_nm m'))"
proof -
  obtain i m' where r: "redirected_node res e (abs_nm m) = (i, m')" by force
  from abs_redirected_node [OF wf e r] obtain m1 where
    m1: "aio_redirected_node res e m = (Inr i, m1)" "abs_nm m1 = m'" "i < length (am_heap m1)" "length (am_heap m) \<le> length (am_heap m1)"
    by blast
  have r': "redirected_node res e (abs_nm m) = (i, abs_nm m1)" using r m1(2) by simp
  from redirected_node_spec [OF wf [unfolded am_wf_def] r']
  have "nm_wf (abs_nm m1)" "nm_slots (abs_nm m1) = nm_slots (abs_nm m)" "nm_lists (abs_nm m1) = nm_lists (abs_nm m)"
      "nm_default (abs_nm m1) = nm_default (abs_nm m)" by blast+
  then have wf1: "am_wf m1" and same: "am_slots m1 = am_slots m" "am_lists m1 = am_lists m" "am_default m1 = am_default m"
    by (simp_all add: am_wf_def)
  show ?thesis
  proof (cases "am_slots m1 (slot_id e)")
    case None
    then show ?thesis using mv m1(1) by (simp add: update_moved_slots_def aio_update_moved_slots_def r')
  next
    case (Some l)
    from am_wfD(2,3) [OF wf1] Some have l: "am_lists m1 ! l \<noteq> []" "\<forall>i \<in> set (am_lists m1 ! l). i < length (am_heap m1)" by blast+
    have p: "abs_nm (aio_promote l i m1) = promote l i (abs_nm m1)"
      by (rule abs_promote) (use m1 l same d in auto)
    have n: "name_of (abs_nm m1) ` set (am_lists m1 ! l) = aio_name_of m1 ` set (am_lists m1 ! l)"
      by (rule image_cong) (use l(2) in \<open>simp_all add: abs_name_of\<close>)
    show ?thesis
      using mv m1(1,3) Some
      by (simp add: update_moved_slots_def aio_update_moved_slots_def r' p n abs_name_of abs_updates Let_def)
  qed
qed

text \<open>The tables are in order, and a redirection that waits names a host.\<close>

definition aio_ready :: "aio_nm \<Rightarrow> bool" where
  "aio_ready m = (am_wf m \<and> (\<forall>d. am_default m = Some d \<longrightarrow> d < length (am_heap m)) \<and>
     (\<forall>e. am_moved m = Some e \<longrightarrow> redir_host e \<noteq> [] \<and> redir_port e \<noteq> 0))"

text \<open>The lookup once no redirection waits.\<close>

definition aio_lookup :: "int \<Rightarrow> bool \<Rightarrow> nat am_op" where
  "aio_lookup slot read = (\<lambda>m.
     case am_slots m slot of
       None \<Rightarrow> (Inl (Exc KeyError (dec_int slot)), m)
     | Some l \<Rightarrow>
         (case am_lists m ! l of
            [] \<Rightarrow> (Inl (slot_not_covered slot (am_require_full_coverage m)), m)
          | p # ps \<Rightarrow>
              if read then
                (case get_server_index (aio_name_of m p) (length (p # ps)) (am_lb m) of
                   (k, lb) \<Rightarrow>
                     (if k < length (p # ps) then Inr ((p # ps) ! k)
                      else Inl (slot_not_covered slot (am_require_full_coverage m)), m\<lparr>am_lb := lb\<rparr>))
              else (Inr p, m)))"

lemma aio_get_node_from_slot_eq:
  "aio_get_node_from_slot res slot read m =
     (case am_moved m of
        None \<Rightarrow> aio_lookup slot read m
      | Some _ \<Rightarrow> (case aio_update_moved_slots res m of (Inl x, m') \<Rightarrow> (Inl x, m') | (Inr _, m') \<Rightarrow> aio_lookup slot read m'))"
  by (auto simp: aio_get_node_from_slot_def aio_lookup_def bindS_def thenS_def split: prod.splits sum.splits option.splits)

lemma aio_lookup_refines:
  assumes wf: "am_wf m" and mv: "am_moved m = None" and r: "aio_lookup slot read m = (Inr i, m')"
  shows "get_node_from_slot res slot read None rnd (abs_nm m) = (Inr i, abs_nm m')"
proof -
  obtain l where l: "am_slots m slot = Some l" using r by (auto simp: aio_lookup_def split: option.splits)
  from am_wfD(3) [OF wf l] obtain p ps where ps: "am_lists m ! l = p # ps" "p < length (am_heap m)"
    by (cases "am_lists m ! l") auto
  have "slot_nodes (abs_nm m) slot = Some (p # ps)" by (simp add: slot_nodes_def l ps)
  then show ?thesis
    using r l ps mv
    by (auto simp: aio_lookup_def get_node_from_slot_def choose_node_def abs_name_of abs_updates bindS_def thenS_def
        split: prod.splits if_splits)
qed

lemma update_keeps_wf:
  assumes "aio_ready m" "am_moved m = Some e" "aio_update_moved_slots res m = (Inr (), m')"
  shows "am_wf m' \<and> am_moved m' = None"
proof -
  have u: "update_moved_slots res (abs_nm m) = (Inr (), abs_nm m')"
    using update_moved_slots_refines [of m e res] assms by (simp add: aio_ready_def)
  have "nm_slots (abs_nm m) (slot_id e) \<noteq> None"
  proof
    assume n: "nm_slots (abs_nm m) (slot_id e) = None"
    obtain i m1 where r: "redirected_node res e (abs_nm m) = (i, m1)" by force
    have "nm_slots m1 = nm_slots (abs_nm m)" using redirected_node_spec [OF _ r] assms(1) by (simp add: aio_ready_def am_wf_def)
    then show False using u r n assms(2) by (simp add: update_moved_slots_def)
  qed
  then show ?thesis
    using update_moved_slots_spec [of "abs_nm m" e res] assms(1,2) u by (auto simp: aio_ready_def am_wf_def)
qed

text \<open>C10: The asynchronous lookup of a slot refines the synchronous one: a node it gives, and the tables it leaves, are
  those of the synchronous client, with MOVED applied first and replicas taken in turn.\<close>

theorem aio_slot_refines:
  assumes "aio_ready m" "aio_get_node_from_slot res slot read m = (Inr i, m')"
  shows "get_node_from_slot res slot read None rnd (abs_nm m) = (Inr i, abs_nm m')"
proof (cases "am_moved m")
  case None
  then show ?thesis using assms aio_lookup_refines by (simp add: aio_ready_def aio_get_node_from_slot_eq)
next
  case (Some e)
  from assms(2) Some obtain m1 where m1: "aio_update_moved_slots res m = (Inr (), m1)" "aio_lookup slot read m1 = (Inr i, m')"
    by (auto simp: aio_get_node_from_slot_eq split: prod.splits sum.splits)
  from update_keeps_wf [OF assms(1) Some m1(1)] have wf1: "am_wf m1" "am_moved m1 = None" by simp_all
  have u: "update_moved_slots res (abs_nm m) = (Inr (), abs_nm m1)"
    using update_moved_slots_refines [of m e res] assms(1) Some m1(1) by (simp add: aio_ready_def)
  have "get_node_from_slot res slot read None rnd (abs_nm m) = get_node_from_slot res slot read None rnd (abs_nm m1)"
    using u Some wf1(2) by (simp add: get_node_from_slot_def bindS_def thenS_def)
  then show ?thesis using aio_lookup_refines [OF wf1 m1(2)] by simp
qed

text \<open>For a slot that no node covers the synchronous client raises SlotNotCoveredError, and the asynchronous one the
  KeyError of its table.\<close>

theorem uncovered_slot_key_error:
  assumes "am_slots m slot = None" "am_moved m = None"
  shows "fst (aio_get_node_from_slot res slot read m) = Inl (Exc KeyError (dec_int slot)) \<and>
    fst (get_node_from_slot res slot read None rnd (abs_nm m)) = Inl (slot_not_covered slot (am_require_full_coverage m))"
  using assms
  by (simp add: aio_get_node_from_slot_eq aio_lookup_def get_node_from_slot_def slot_nodes_def bindS_def thenS_def)

end
