(* ===== verification/AsyncRedirectCorrect.thy ===== *)
theory AsyncRedirectCorrect
  imports AsyncClusterCorrect
begin

text \<open>
  The redirection loop of the asynchronous cluster client: a redirection it keeps is followed, ASKING may go out on
  another connection than the command, and a client that is to reinitialise on every MOVED asks the old node
  until its attempts are used up.
\<close>

section \<open>Calls\<close>

text \<open>The node has a connection for the next task.\<close>

definition usable :: "aio_node \<Rightarrow> bool" where
  "usable n = ((an_free n \<noteq> [] \<or> length (an_connections n) < an_max n) \<and> 0 < an_max n)"

lemma aio_node_call:
  assumes "usable n" "io_send io = None"
  shows "\<exists>n'. aio_node_execute_command callbacks c io n = (aio_parse_response callbacks c (next_read (io_reads io)), n') \<and> usable n'"
  using assms
  by (cases "an_free n")
    (simp_all add: aio_node_execute_command_def acquire_connection_def send_on_def free_connection_def usable_def finallyS_def
      bindS_def thenS_def)

lemma call_node_eq:
  assumes "usable (aio_at (ac_nm c) i)" "i < length (am_heap (ac_nm c))" "ac_script c = io # ios" "io_send io = None"
  shows "\<exists>n'. usable n' \<and> call_node i cm c = (aio_parse_response (ac_callbacks c) cm (next_read (io_reads io)),
    c\<lparr>ac_nm := (ac_nm c)\<lparr>am_heap := (am_heap (ac_nm c))[i := n']\<rparr>, ac_script := ios, ac_log := ac_log c @ [Called i (cm_name cm)]\<rparr>)"
  using aio_node_call [OF assms(1,4), of "ac_callbacks c" cm] assms(3) by (auto simp: call_node_def Let_def)

section \<open>The slot of a command\<close>

definition aio_routes :: "aio_cluster \<Rightarrow> command \<Rightarrow> nat \<Rightarrow> bool" where
  "aio_routes c cm s =
     (COMMAND_FLAGS (cm_name cm) \<noteq> Some SLOT_ID \<and> upper (cm_name cm) \<notin> {''EVAL'', ''EVALSHA''} \<and> cm_rest cm \<noteq> [] \<and>
      (\<exists>i keys. dict_get (ac_commands c) (lower (cm_name cm)) = Some i \<and> ''movablekeys'' \<notin> set (ci_flags i) \<and> keys \<noteq> [] \<and>
         keys_from_info (ac_server c) (lower (cm_name cm)) i (cm_name cm) (cm_rest cm) = Inr (Some keys) \<and>
         (\<forall>k \<in> set keys. keyslot (ac_encoder c) k = Inr s)))"

lemma aio_slot_of_keys_same:
  assumes "keys \<noteq> []" "\<forall>k \<in> set keys. keyslot (ac_encoder c) k = Inr s"
  shows "aio_slot_of_keys name keys c = (Inr (int s), c)"
proof -
  have "mapE (keyslot (ac_encoder c)) keys = Inr (map (\<lambda>_. s) keys)" using assms(2) by (intro mapE_Inr_map) simp
  moreover have "set (map (\<lambda>_. s) keys) = {s}" "hd (map (\<lambda>_. s) keys) = s" using assms(1) by (auto simp: image_constant_conv hd_map)
  ultimately show ?thesis by (simp add: aio_slot_of_keys_def bindS_Inr length_remdups_card_conv)
qed

lemma aio_determine_slot_routes:
  assumes "aio_routes c cm s"
  shows "aio_determine_slot (cm_name cm) (cm_rest cm) c = (Inr (int s), c)"
proof -
  from assms obtain i k keys where i: "dict_get (ac_commands c) (lower (cm_name cm)) = Some i" "''movablekeys'' \<notin> set (ci_flags i)"
      "keys_from_info (ac_server c) (lower (cm_name cm)) i (cm_name cm) (cm_rest cm) = Inr (Some (k # keys))"
      "\<forall>k \<in> set (k # keys). keyslot (ac_encoder c) k = Inr s"
    unfolding aio_routes_def by (metis neq_Nil_conv)
  have "aio_get_keys (cm_name cm) (cm_rest cm) c = (Inr (Some (k # keys)), c)"
    using assms i(1-3) by (simp add: aio_get_keys_def aio_keys_from_info_def aio_routes_def bindS_Inr)
  then show ?thesis
    using assms aio_slot_of_keys_same [of "k # keys" c s] i(4)
    by (simp add: aio_determine_slot_def aio_routes_def bindS_Inr)
qed

section \<open>ASKING\<close>

text \<open>When the node of an ASK has two connections free, ASKING is sent on the first and the command on the second, which
  the server then refuses again: the permission of ASKING belongs to its connection.\<close>

theorem asking_on_another_connection:
  assumes "al_asking v" "aio_get_node (env_resolve (env_now c)) [] 0 (al_redirect_addr v) (ac_nm c) = Inr (Some i)"
    and "i < length (am_heap (ac_nm c))" "an_free (aio_at (ac_nm c) i) = k1 # k2 # ks" "k1 \<noteq> k2"
    and "length (an_free (aio_at (ac_nm c) i)) \<le> an_max (aio_at (ac_nm c) i)"
    and "ac_script c = io1 # io2 # ios" "io_send io1 = None" "io_reads io1 = [Inr u]" "ac_callbacks c ''ASKING'' = None"
    and "io_send io2 = None" "snd (aio_try_once cm (c, v)) = (c', v')"
  shows "\<exists>k k'. k \<noteq> k' \<and> an_sent (aio_at (ac_nm c') i) = an_sent (aio_at (ac_nm c) i) @ [(k, ''ASKING''), (k', cm_name cm)]"
proof -
  have "snd (aio_try_once cm (c, v)) = (c', v')" by (rule assms(12))
  then have "an_sent (aio_at (ac_nm c') i) = an_sent (aio_at (ac_nm c) i) @ [(k1, ''ASKING''), (k2, cm_name cm)]"
    using assms(1-4,6-11)
    by (auto simp: aio_try_once_def aio_prepare_def on_ac_def set_al_def call_target_def call_node_def aio_node_execute_command_def
        acquire_connection_def send_on_def free_connection_def finallyS_def aio_parse_response_def next_read_def cmd_def aio_at_def
        bindS_def thenS_def Let_def split: prod.splits sum.splits)
  then show ?thesis using assms(5) by blast
qed

section \<open>Reinitialising on every MOVED\<close>

text \<open>The table has node \<open>i\<close> for the slot of the command, whose keys are not read from replicas.\<close>

definition served_by :: "nat \<Rightarrow> command \<Rightarrow> aio_cluster \<Rightarrow> bool" where
  "served_by i cm c =
     (\<exists>slot l ps. aio_routes c cm slot \<and> am_slots (ac_nm c) (int slot) = Some l \<and> am_lists (ac_nm c) ! l = i # ps \<and>
        \<not> (ac_read_from_replicas c \<and> cm_name cm \<in> set READ_COMMANDS) \<and> am_moved (ac_nm c) = None \<and>
        i < length (am_heap (ac_nm c)) \<and> usable (aio_at (ac_nm c) i) \<and> cm_empty_response cm = None)"

text \<open>A node that answers MOVED.\<close>

definition says_moved :: "redirect \<Rightarrow> aio_io \<Rightarrow> bool" where
  "says_moved e io = (io_send io = None \<and> io_reads io = [Inl (Moved e)])"

lemma aio_command_node_served:
  assumes "served_by i cm c"
  shows "aio_command_node (cm_name cm) (cm_rest cm) c = (Inr i, c)"
proof -
  from assms obtain slot l ps where s: "aio_routes c cm slot" "am_slots (ac_nm c) (int slot) = Some l" "am_lists (ac_nm c) ! l = i # ps"
      "\<not> (ac_read_from_replicas c \<and> cm_name cm \<in> set READ_COMMANDS)" "am_moved (ac_nm c) = None"
    by (auto simp: served_by_def)
  have "aio_get_node_from_slot r (int slot) (ac_read_from_replicas c \<and> cm_name cm \<in> set READ_COMMANDS) (ac_nm c) = (Inr i, ac_nm c)" for r
    using s by (cases "ac_read_from_replicas c \<and> cm_name cm \<in> set READ_COMMANDS") (auto simp: aio_get_node_from_slot_eq aio_lookup_def)
  then show ?thesis
    using aio_determine_slot_routes [OF s(1)]
    by (simp add: aio_command_node_def bindS_Inr on_am_def)
qed

text \<open>What a MOVED changes when every one reinitialises.\<close>

definition after_moved :: "nat \<Rightarrow> command \<Rightarrow> aio_node \<Rightarrow> aio_io list \<Rightarrow> aio_cluster \<Rightarrow> aio_cluster" where
  "after_moved i cm n ios c =
     (snd (aio_aclose (c\<lparr>ac_nm := (ac_nm c)\<lparr>am_heap := (am_heap (ac_nm c))[i := n]\<rparr>, ac_script := ios,
        ac_log := ac_log c @ [Called i (cm_name cm)], ac_reinitialize_counter := ac_reinitialize_counter c + 1\<rparr>)))
       \<lparr>ac_reinitialize_counter := 0\<rparr>"

lemma after_moved_served:
  assumes "served_by i cm c" "usable n"
  shows "served_by i cm (after_moved i cm n ios c)" "ac_script (after_moved i cm n ios c) = ios"
    "ac_log (after_moved i cm n ios c) = ac_log c @ [Called i (cm_name cm)]"
    "ac_reinitialize_steps (after_moved i cm n ios c) = ac_reinitialize_steps c"
  using assms
  by (auto simp: after_moved_def served_by_def aio_routes_def aio_aclose_def aclose_startup_def aclose_nodes_def close_nodes_def aio_at_def)

lemma moved_round:
  assumes st: "served_by i cm c" "ac_reinitialize_steps c = 1" and sc: "ac_script c = io # ios" "says_moved e io"
    and v: "al_target v = Some i" "\<not> al_asking v"
  shows "\<exists>n. usable n \<and> aio_round ttl cm (c, v) = (Inr None, (after_moved i cm n ios c, v\<lparr>al_moved := True\<rparr>))"
proof -
  have u: "usable (aio_at (ac_nm c) i)" "i < length (am_heap (ac_nm c))" "cm_empty_response cm = None" using st(1) by (auto simp: served_by_def)
  from sc(2) have "io_send io = None" by (simp add: says_moved_def)
  from call_node_eq [OF u(1,2) sc(1) this, of cm] sc(2) obtain n where n: "usable n"
    "call_node i cm c = (Inl (Moved e), c\<lparr>ac_nm := (ac_nm c)\<lparr>am_heap := (am_heap (ac_nm c))[i := n]\<rparr>, ac_script := ios,
       ac_log := ac_log c @ [Called i (cm_name cm)]\<rparr>)"
    using u(3) by (fastforce simp: says_moved_def next_read_def aio_parse_response_def)
  have p: "aio_prepare (cm_name cm) (cm_rest cm) (c, v) = (Inr (), (c, v\<lparr>al_moved := False\<rparr>))"
    using v aio_command_node_served [OF st(1)]
    by (cases "al_moved v") (simp_all add: aio_prepare_def on_ac_def set_al_def bindS_Inr)
  have t: "aio_try_once cm (c, v) = (Inl (Moved e), (c\<lparr>ac_nm := (ac_nm c)\<lparr>am_heap := (am_heap (ac_nm c))[i := n]\<rparr>, ac_script := ios,
       ac_log := ac_log c @ [Called i (cm_name cm)]\<rparr>, v\<lparr>al_moved := False\<rparr>))"
    using v n(2) p by (simp add: aio_try_once_def thenS_def bindS_def call_target_def)
  have "aio_round ttl cm (c, v) = (Inr None, (after_moved i cm n ios c, v\<lparr>al_moved := True\<rparr>))"
    using st(2) t by (simp add: aio_round_def catchS_def aio_handle_def aio_moved_def on_ac_def set_al_def thenS_def bindS_def
        after_moved_def aio_aclose_def)
  with n(1) show ?thesis by blast
qed

lemma moved_rounds:
  assumes "served_by i cm c" "ac_reinitialize_steps c = 1" "length (ac_script c) \<ge> ttl" "\<forall>io \<in> set (take ttl (ac_script c)). says_moved e io"
    and "al_target v = Some i" "\<not> al_asking v"
  shows "\<exists>c' v'. aio_execute_loop ttl cm (c, v) = (Inl (Raised ttl_exhausted), (c', v')) \<and>
    ac_log c' = ac_log c @ replicate ttl (Called i (cm_name cm))"
  using assms
proof (induction ttl arbitrary: c v)
  case (Suc ttl)
  from Suc.prems(3) obtain io ios where sc: "ac_script c = io # ios" by (cases "ac_script c") auto
  then have io: "says_moved e io" using Suc.prems(4) by simp
  from moved_round [OF Suc.prems(1,2) sc io Suc.prems(5,6), of ttl] obtain n where n: "usable n"
    "aio_round ttl cm (c, v) = (Inr None, (after_moved i cm n ios c, v\<lparr>al_moved := True\<rparr>))" by blast
  note am = after_moved_served [OF Suc.prems(1) n(1), of ios]
  have "\<exists>c' v'. aio_execute_loop ttl cm (after_moved i cm n ios c, v\<lparr>al_moved := True\<rparr>) = (Inl (Raised ttl_exhausted), (c', v')) \<and>
      ac_log c' = ac_log (after_moved i cm n ios c) @ replicate ttl (Called i (cm_name cm))"
    by (rule Suc.IH) (use am Suc.prems sc in auto)
  then show ?case using am(3) n(2) by (auto simp: bindS_Inr)
qed simp

text \<open>With \<open>reinitialize_steps\<close> of 1 a MOVED only closes the client: no round discovers the cluster or keeps the
  redirection, so the command goes to the old node sixteen times and fails as exhausted.\<close>

theorem reinitialize_every_moved_exhausts:
  assumes "served_by i cm c" "ac_reinitialize_steps c = 1" "16 \<le> length (ac_script c)"
    and "\<forall>io \<in> set (take 16 (ac_script c)). says_moved e io"
  shows "\<exists>c'. aio_execute_on_node (Some i) cm c = (Inl (Raised ttl_exhausted), c') \<and>
    ac_log c' = ac_log c @ replicate 16 (Called i (cm_name cm))"
  using moved_rounds [OF assms(1,2), of RedisClusterRequestTTL e "new_al (Some i)"] assms(3,4)
  by (auto simp: RedisClusterRequestTTL_def aio_execute_on_node_def new_al_def split: prod.splits)

section \<open>A redirection that is kept\<close>

text \<open>Otherwise a MOVED is followed: the next round asks the node of the redirection.\<close>

theorem aio_moved_is_followed:
  assumes "al_moved v" "\<not> al_asking v" "aio_routes c cm (nat (slot_id e))" "0 \<le> slot_id e"
    and "am_moved (ac_nm c) = Some e" "aio_ready (ac_nm c)" "am_slots (ac_nm c) (slot_id e) \<noteq> None"
    and "\<not> (ac_read_from_replicas c \<and> cm_name cm \<in> set READ_COMMANDS)"
  shows "\<exists>i m'. aio_prepare (cm_name cm) (cm_rest cm) (c, v) =
      (Inr (), (c\<lparr>ac_nm := m'\<rparr>, v\<lparr>al_target := Some i, al_moved := False\<rparr>)) \<and>
    aio_name_of m' i = get_node_name (resolve_host (env_resolve (env_now c)) (redir_host e)) (redir_port e)"
proof -
  let ?res = "env_resolve (env_now c)" and ?m = "ac_nm c"
  have wf: "nm_wf (abs_nm ?m)" using assms(6) by (simp add: aio_ready_def am_wf_def)
  obtain r m1 where u0: "aio_update_moved_slots ?res ?m = (r, m1)" by force
  from update_moved_slots_refines [of ?m e ?res] assms(5,6) u0 have ref: "update_moved_slots ?res (abs_nm ?m) = (r, abs_nm m1)"
    by (simp add: aio_ready_def)
  from update_moved_slots_spec [OF wf, of e ?res] assms(5,7) ref obtain l where
    s: "r = Inr ()" "nm_wf (abs_nm m1)" "am_moved m1 = None" "am_slots m1 (slot_id e) = Some l"
      "name_of (abs_nm m1) (hd (am_lists m1 ! l)) = get_node_name (resolve_host ?res (redir_host e)) (redir_port e)"
    by auto
  from am_wfD(3) [of m1] s(2,4) obtain p ps where ps: "am_lists m1 ! l = p # ps" "p < length (am_heap m1)"
    unfolding am_wf_def by (cases "am_lists m1 ! l") auto
  have "aio_get_node_from_slot ?res (slot_id e) (ac_read_from_replicas c \<and> cm_name cm \<in> set READ_COMMANDS) ?m = (Inr p, m1)"
    using u0 s(1,3,4) assms(5,8) ps(1) by (cases "ac_read_from_replicas c \<and> cm_name cm \<in> set READ_COMMANDS") (auto simp: aio_get_node_from_slot_eq aio_lookup_def)
  then have "aio_command_node (cm_name cm) (cm_rest cm) c = (Inr p, c\<lparr>ac_nm := m1\<rparr>)"
    using aio_determine_slot_routes [OF assms(3)] assms(4) by (simp add: aio_command_node_def bindS_Inr on_am_def)
  then have "aio_prepare (cm_name cm) (cm_rest cm) (c, v) = (Inr (), (c\<lparr>ac_nm := m1\<rparr>, v\<lparr>al_target := Some p, al_moved := False\<rparr>))"
    using assms(1,2) by (simp add: aio_prepare_def on_ac_def set_al_def bindS_Inr)
  moreover have "aio_name_of m1 p = get_node_name (resolve_host ?res (redir_host e)) (redir_port e)"
    using s(5) ps by (simp add: abs_name_of)
  ultimately show ?thesis by blast
qed

section \<open>Witnesses\<close>

text \<open>Two nodes, the first with slot 12182.\<close>

definition demo_aio_nm :: "nat list \<Rightarrow> redirect option \<Rightarrow> aio_nm" where
  "demo_aio_nm free mv =
     \<lparr>am_heap = [\<lparr>an_host = ''a'', an_port = 1, an_type = Some PRIMARY, an_max = 5, an_connections = [], an_free = [], an_sent = []\<rparr>,
        \<lparr>an_host = ''b'', an_port = 1, an_type = Some PRIMARY, an_max = 5, an_connections = [0, 1], an_free = free, an_sent = []\<rparr>],
      am_nodes = [(''a:1'', 0), (''b:1'', 1)], am_lists = [[0]], am_slots = [12182 \<mapsto> 0], am_startup = [(''a:1'', 0)],
      am_default = Some 0, am_moved = mv, am_lb = [], am_require_full_coverage = False, am_max_connections = 5, am_closed = []\<rparr>"

definition demo_aio :: "nat list \<Rightarrow> redirect option \<Rightarrow> aio_io list \<Rightarrow> int \<Rightarrow> aio_cluster" where
  "demo_aio free mv script steps =
     \<lparr>ac_nm = demo_aio_nm free mv, ac_initialize = False, ac_retry_attempts = 3, ac_read_from_replicas = False,
      ac_reinitialize_counter = 0, ac_reinitialize_steps = steps,
      ac_commands = [(''get'', \<lparr>ci_name = ''get'', ci_flags = [''readonly''], ci_first_key_pos = 1, ci_last_key_pos = 1, ci_step_count = 1,
        ci_subcommands = None\<rparr>)],
      ac_parser_node = Some 0, ac_encoder = strict_encoder, ac_server = \<lparr>srv_command = Inr [], srv_getkeys = (\<lambda>_. Inr [])\<rparr>,
      ac_callbacks = (\<lambda>_. None), ac_envs = [demo_env], ac_script = script, ac_rand = [], ac_log = []\<rparr>"

definition get_foo :: command where
  "get_foo = cmd ''GET'' [PStr ''foo'']"

lemma get_foo_fields [simp]: "cm_name get_foo = ''GET''" "cm_rest get_foo = [PStr ''foo'']" "cm_empty_response get_foo = None"
  by (simp_all add: get_foo_def cmd_def)

lemma demo_aio_routes: "aio_routes (demo_aio free mv script steps) get_foo 12182"
proof -
  have "upper ''GET'' = ''GET''" "lower ''GET'' = ''get''" "COMMAND_FLAGS ''GET'' \<noteq> Some SLOT_ID" by code_simp+
  then show ?thesis
    by (simp add: aio_routes_def demo_aio_def keys_from_info_def positional_keys_def py_range_def range_up_step range_up_empty py_nth_def
        keyslot_def key_slot_foo)
qed

lemma demo_aio_names: "an_name \<lparr>an_host = ''a'', an_port = 1, an_type = t, an_max = k, an_connections = cs, an_free = fs, an_sent = ss\<rparr> = ''a:1''"
    "an_name \<lparr>an_host = ''b'', an_port = 1, an_type = t, an_max = k, an_connections = cs, an_free = fs, an_sent = ss\<rparr> = ''b:1''"
  by (simp_all add: an_name_def get_node_name_def) (code_simp+)

lemma demo_aio_ready: "mv = None \<or> mv = Some to_b \<Longrightarrow> aio_ready (demo_aio_nm free mv)"
  by (auto simp: aio_ready_def am_wf_def nm_wf_def heap_ok_def demo_aio_nm_def demo_aio_names to_b_def split: if_splits)

theorem aio_slot_refines_witness:
  "get_node_from_slot (\<lambda>h. h) 12182 False None 0 (abs_nm (demo_aio_nm [] None)) = (Inr 0, abs_nm (demo_aio_nm [] None))"
  by (rule aio_slot_refines [OF demo_aio_ready]) (simp_all add: aio_get_node_from_slot_eq aio_lookup_def demo_aio_nm_def)

theorem uncovered_slot_key_error_witness:
  "fst (aio_get_node_from_slot (\<lambda>h. h) 7 False (demo_aio_nm [] None)) = Inl (Exc KeyError (dec_int 7))"
  using uncovered_slot_key_error [of "demo_aio_nm [] None" 7] by (simp add: demo_aio_nm_def)

theorem asking_on_another_connection_witness:
  "\<exists>c' v' k k'. snd (aio_try_once get_foo
      (demo_aio [0, 1] None [\<lparr>io_send = None, io_reads = [Inr (PStr ''OK'')]\<rparr>, \<lparr>io_send = None, io_reads = [Inr (PStr ''bar'')]\<rparr>] 5,
       (new_al (Some 0))\<lparr>al_redirect_addr := ''b:1'', al_asking := True\<rparr>)) = (c', v') \<and>
     k \<noteq> k' \<and> an_sent (aio_at (ac_nm c') 1) = [(k, ''ASKING''), (k', ''GET'')]"
proof -
  let ?v = "(new_al (Some 0))\<lparr>al_redirect_addr := ''b:1'', al_asking := True\<rparr>"
  let ?io1 = "\<lparr>io_send = None, io_reads = [Inr (PStr ''OK'')]\<rparr>" and ?io2 = "\<lparr>io_send = None, io_reads = [Inr (PStr ''bar'')]\<rparr>"
  let ?c = "demo_aio [0, 1] None [?io1, ?io2] 5"
  obtain c' v' where r: "snd (aio_try_once get_foo (?c, ?v)) = (c', v')" by force
  have "\<exists>k k'. k \<noteq> k' \<and> an_sent (aio_at (ac_nm c') 1) = an_sent (aio_at (ac_nm ?c) 1) @ [(k, ''ASKING''), (k', cm_name get_foo)]"
    by (rule asking_on_another_connection [of ?v ?c 1 0 1 "[]" ?io1 ?io2 "[]" "PStr ''OK''", OF _ _ _ _ _ _ _ _ _ _ _ r])
      (simp_all add: demo_aio_def demo_aio_nm_def aio_get_node_def aio_at_def)
  then show ?thesis using r by (simp add: demo_aio_def demo_aio_nm_def aio_at_def)
qed

theorem reinitialize_every_moved_exhausts_witness:
  "\<exists>c'. aio_execute_on_node (Some 0) get_foo (demo_aio [] None (replicate 16 \<lparr>io_send = None, io_reads = [Inl (Moved to_b)]\<rparr>) 1) =
      (Inl (Raised ttl_exhausted), c') \<and> ac_log c' = replicate 16 (Called 0 ''GET'')"
proof -
  let ?c = "demo_aio [] None (replicate 16 \<lparr>io_send = None, io_reads = [Inl (Moved to_b)]\<rparr>) 1"
  have "served_by 0 get_foo ?c"
    unfolding served_by_def
    by (rule exI [of _ 12182], rule exI [of _ 0], rule exI [of _ "[]"], intro conjI demo_aio_routes)
      (simp_all add: demo_aio_def demo_aio_nm_def usable_def aio_at_def)
  then show ?thesis
    using reinitialize_every_moved_exhausts [of 0 get_foo ?c to_b] by (simp add: demo_aio_def says_moved_def)
qed

theorem aio_moved_is_followed_witness:
  "\<exists>i m'. aio_prepare ''GET'' [PStr ''foo''] (demo_aio [] (Some to_b) [] 5, (new_al (Some 0))\<lparr>al_moved := True\<rparr>) =
      (Inr (), ((demo_aio [] (Some to_b) [] 5)\<lparr>ac_nm := m'\<rparr>, new_al (Some i))) \<and> aio_name_of m' i = ''b:1''"
proof -
  let ?c = "demo_aio [] (Some to_b) [] 5"
  have "slot_id to_b = 12182" by (simp add: to_b_def)
  moreover have "env_now ?c = demo_env" "ac_nm ?c = demo_aio_nm [] (Some to_b)" "\<not> ac_read_from_replicas ?c"
    by (simp_all add: env_now_def demo_aio_def)
  ultimately show ?thesis
    using aio_moved_is_followed [of "(new_al (Some 0))\<lparr>al_moved := True\<rparr>" ?c get_foo to_b] demo_aio_routes demo_aio_ready [of "Some to_b" "[]"] to_b_name(2)
    by (auto simp: new_al_def demo_aio_nm_def)
qed

end
