(* ===== verification/AsyncClusterPipeline.thy ===== *)
theory AsyncClusterPipeline
  imports AsyncCluster ClusterCommands
begin

text \<open>
  The pipeline of an asynchronous cluster client (\<open>ClusterPipeline\<close> in \<open>redis/asyncio/cluster.py\<close>): the
  commands, each with the result it got so far, one batch for each node, the redirections one by one, and the
  retry of what is still without a result.
\<close>

section \<open>State\<close>

record aio_pcommand =
  aq_command :: command
  aq_targets :: targets
  aq_result :: "(node_exc + pyval) option"

type_synonym pipe_state = "aio_cluster \<times> aio_pcommand list"

type_synonym 'a ap_op = "(pipe_state, exc, 'a) action"

definition on_cluster_of :: "'a ac_op \<Rightarrow> 'a ap_op" where
  "on_cluster_of f = (\<lambda>(c, st). case f c of (r, c') \<Rightarrow> (r, (c', st)))"

definition aio_pipe_command :: "targets \<Rightarrow> command \<Rightarrow> aio_pcommand list \<Rightarrow> aio_pcommand list" where
  "aio_pipe_command ts c st = st @ [\<lparr>aq_command = c, aq_targets = ts, aq_result = None\<rparr>]"

text \<open>\<open>not cmd.result or isinstance(cmd.result, Exception)\<close>.\<close>

definition aq_pending :: "aio_pcommand \<Rightarrow> bool" where
  "aq_pending p = (case aq_result p of None \<Rightarrow> True | Some (Inl _) \<Rightarrow> True | Some (Inr v) \<Rightarrow> \<not> truthy v)"

definition aio_todo :: "aio_pcommand list \<Rightarrow> nat list" where
  "aio_todo st = filter (\<lambda>i. aq_pending (st ! i)) [0..<length st]"

section \<open>Grouping by node\<close>

definition aio_too_many :: exc where
  "aio_too_many = Exc RedisClusterException ''Too many targets for command ''"

text \<open>The targets are taken out of the command's options.\<close>

definition take_targets :: "nat \<Rightarrow> targets ap_op" where
  "take_targets i = (\<lambda>(c, st). (Inr (aq_targets (st ! i)), (c, st[i := (st ! i)\<lparr>aq_targets := NoTargets\<rparr>])))"

definition aq_nodes :: "targets \<Rightarrow> command \<Rightarrow> nat option list ac_op" where
  "aq_nodes ts c =
     (let routed = (\<lambda>flag. bindS (aio_determine_nodes flag (cm_name c) (cm_rest c)) (\<lambda>ns. if ns = [] then raiseS no_targets else retS ns))
      in case ts of
           NoTargets \<Rightarrow> routed None
         | Nodes [] \<Rightarrow> routed None
         | Flag SLOT_ID \<Rightarrow> raiseS (Exc TypeError ''target_nodes type can be one of the following: '')
         | Flag f \<Rightarrow> routed (Some f)
         | _ \<Rightarrow> bindS (liftS (parse_target_nodes ts)) (\<lambda>ns. retS (map Some ns)))"

definition aq_node :: "targets \<Rightarrow> command \<Rightarrow> nat ac_op" where
  "aq_node ts c =
     bindS (aq_nodes ts c) (\<lambda>ns.
       if 1 < length ns then raiseS aio_too_many
       else (case ns of Some i # _ \<Rightarrow> retS i | _ \<Rightarrow> raiseS (Exc AttributeError ''name'')))"

type_synonym aio_groups = "(string, nat \<times> nat list) dict"

definition add_to_group :: "string \<Rightarrow> nat \<Rightarrow> nat \<Rightarrow> aio_groups \<Rightarrow> aio_groups" where
  "add_to_group name node i gs =
     (case dict_get gs name of
        None \<Rightarrow> gs @ [(name, (node, [i]))]
      | Some (n, is) \<Rightarrow> dict_set name (n, is @ [i]) gs)"

fun aio_group :: "nat list \<Rightarrow> aio_groups \<Rightarrow> aio_groups ap_op" where
  "aio_group [] gs = retS gs"
| "aio_group (i # is) gs =
     bindS (take_targets i) (\<lambda>ts.
     bindS (getS (\<lambda>(c, st). aq_command (st ! i))) (\<lambda>cm.
     bindS (on_cluster_of (aq_node ts cm)) (\<lambda>node.
     bindS (getS (\<lambda>(c, st). aio_name_of (ac_nm c) node)) (\<lambda>name.
       aio_group is (add_to_group name node i gs)))))"

section \<open>One attempt\<close>

definition aio_set_result :: "nat \<Rightarrow> node_exc + pyval \<Rightarrow> aio_pcommand list \<Rightarrow> aio_pcommand list" where
  "aio_set_result i r st = st[i := (st ! i)\<lparr>aq_result := Some r\<rparr>]"

definition aio_set_batch :: "nat list \<Rightarrow> (node_exc + pyval) list \<Rightarrow> aio_pcommand list \<Rightarrow> aio_pcommand list" where
  "aio_set_batch is rs st = foldl (\<lambda>st (i, r). aio_set_result i r st) st (zip is rs)"

text \<open>The batch of a node, with the next entry of the script.\<close>

definition call_batch :: "nat \<times> nat list \<Rightarrow> pipe_state \<Rightarrow> (node_exc + bool) \<times> pipe_state" where
  "call_batch g = (\<lambda>(c, st).
     let (io, rest) = (case ac_script c of [] \<Rightarrow> (no_io, []) | io # ios \<Rightarrow> (io, ios));
         m = ac_nm c; i = fst g; cs = map (\<lambda>j. aq_command (st ! j)) (snd g)
     in case aio_node_execute_pipeline (ac_callbacks c) cs io (aio_at m i) of
          (r, results, n) \<Rightarrow>
            (r, (c\<lparr>ac_nm := m\<lparr>am_heap := (am_heap m)[i := n]\<rparr>, ac_script := rest,
                   ac_log := ac_log c @ map (\<lambda>cm. Called i (cm_name cm)) cs\<rparr>, aio_set_batch (snd g) results st)))"

fun gather_batches :: "(nat \<times> nat list) list \<Rightarrow> pipe_state \<Rightarrow> (node_exc + bool) list \<times> pipe_state" where
  "gather_batches [] s = ([], s)"
| "gather_batches (g # gs) s = (case call_batch g s of (r, s1) \<Rightarrow> case gather_batches gs s1 of (rs, s2) \<Rightarrow> (r # rs, s2))"

definition is_redirection :: "(node_exc + pyval) option \<Rightarrow> bool" where
  "is_redirection r = (case r of Some (Inl x) \<Rightarrow> node_isinstance x TryAgainError \<or> node_isinstance x AskError | _ \<Rightarrow> False)"

text \<open>The redirections one by one, as commands of the client.\<close>

fun aio_redirections :: "nat list \<Rightarrow> unit ap_op" where
  "aio_redirections [] = retS ()"
| "aio_redirections (i # is) = (\<lambda>(c, st).
     if is_redirection (aq_result (st ! i)) then
       (case aio_execute_command NoTargets (aq_command (st ! i)) c of
          (Inr v, c') \<Rightarrow> aio_redirections is (c', aio_set_result i (Inr v) st)
        | (Inl e, c') \<Rightarrow>
            if isinstance e PyException then aio_redirections is (c', aio_set_result i (Inl (Raised e)) st) else (Inl e, (c', st)))
     else aio_redirections is (c, st))"

fun aio_first_error :: "nat list \<Rightarrow> aio_pcommand list \<Rightarrow> (nat \<times> exc) option" where
  "aio_first_error [] st = None"
| "aio_first_error (i # is) st =
     (case aq_result (st ! i) of Some (Inl x) \<Rightarrow> Some (i, plain_exc x) | _ \<Rightarrow> aio_first_error is st)"

text \<open>The text shows the command and the arguments of the exception; it ends here before them.\<close>

definition aio_annotate :: "nat \<Rightarrow> exc \<Rightarrow> exc" where
  "aio_annotate i e = Exc (exc_cls e) (''Command # '' @ dec_nat (Suc i) @ '' ('')"

definition allows_retry :: "(node_exc + pyval) option \<Rightarrow> bool" where
  "allows_retry r = (case r of Some (Inl x) \<Rightarrow> exc_cls (plain_exc x) \<in> set ERRORS_ALLOW_RETRY | _ \<Rightarrow> False)"

definition check_default :: "aio_groups \<Rightarrow> unit ap_op" where
  "check_default gs = (\<lambda>(c, st).
     case am_default (ac_nm c) of
       None \<Rightarrow> (Inl (Exc AttributeError ''name''), (c, st))
     | Some d \<Rightarrow>
         (case dict_get gs (aio_name_of (ac_nm c) d) of
            Some (_, is) \<Rightarrow>
              if list_ex (\<lambda>i. allows_retry (aq_result (st ! i))) is then
                on_cluster_of (bindS aio_draw (\<lambda>r. modS (\<lambda>c. c\<lparr>ac_nm := aio_replace_default_node r (ac_nm c)\<rparr>))) (c, st)
              else (Inr (), (c, st))
          | None \<Rightarrow> (Inr (), (c, st))))"

definition aq_value :: "aio_pcommand \<Rightarrow> pyval" where
  "aq_value p = (case aq_result p of None \<Rightarrow> PNone | Some (Inr v) \<Rightarrow> v | Some (Inl x) \<Rightarrow> PExc (plain_exc x))"

definition aio_handle_errors :: "bool \<Rightarrow> bool \<Rightarrow> nat list \<Rightarrow> aio_groups \<Rightarrow> unit ap_op" where
  "aio_handle_errors raise_on_error allow_redirections todo gs =
     thenS (if allow_redirections then aio_redirections todo else retS ())
     (bindS (getS (\<lambda>(c, st). aio_first_error todo st)) (\<lambda>failed.
        case failed of
          Some (i, e) \<Rightarrow> if raise_on_error then raiseS (aio_annotate i e) else check_default gs
        | None \<Rightarrow> check_default gs))"

definition aio_attempt :: "bool \<Rightarrow> bool \<Rightarrow> pyval list ap_op" where
  "aio_attempt raise_on_error allow_redirections =
     bindS (getS (\<lambda>(c, st). aio_todo st)) (\<lambda>todo.
     bindS (aio_group todo []) (\<lambda>gs.
     bindS (\<lambda>s. case gather_batches (map snd gs) s of (rs, s') \<Rightarrow> (first_failure rs, s')) (\<lambda>errors.
     thenS (if True \<in> set errors then aio_handle_errors raise_on_error allow_redirections todo gs else retS ())
       (getS (\<lambda>(c, st). map aq_value st)))))"

section \<open>Execution\<close>

text \<open>Without an attempt the variable that is raised at the end was never set.\<close>

definition unbound_exception :: exc where
  "unbound_exception = Exc UnboundLocalError ''exception''"

fun aio_attempts :: "nat \<Rightarrow> exc \<Rightarrow> bool \<Rightarrow> bool \<Rightarrow> pyval list ap_op" where
  "aio_attempts 0 failed raise_on_error allow_redirections = raiseS failed"
| "aio_attempts (Suc n) failed raise_on_error allow_redirections =
     thenS (on_cluster_of aio_cluster_initialize) (\<lambda>s.
       case aio_attempt raise_on_error allow_redirections s of
         (Inr vs, s') \<Rightarrow> (Inr vs, s')
       | (Inl e, s') \<Rightarrow>
           if exc_cls e \<in> set ERRORS_ALLOW_RETRY then
             thenS (on_cluster_of (thenS aio_aclose aio_log_slept)) (aio_attempts n e raise_on_error allow_redirections) s'
           else (Inl e, s'))"

definition aio_pipeline_execute :: "bool \<Rightarrow> bool \<Rightarrow> pyval list ap_op" where
  "aio_pipeline_execute raise_on_error allow_redirections = (\<lambda>(c, st).
     if st = [] then (Inr [], (c, st))
     else (case aio_attempts (nat (ac_retry_attempts c)) unbound_exception raise_on_error allow_redirections (c, st) of
             (r, (c', _)) \<Rightarrow> (r, (c', []))))"

text \<open>\<open>initialize\<close> of the pipeline.\<close>

definition aio_pipeline_initialize :: "unit ap_op" where
  "aio_pipeline_initialize = thenS (on_cluster_of aio_cluster_initialize) (modS (\<lambda>(c, st). (c, [])))"

section \<open>Commands on several keys\<close>

text \<open>One command for each slot; each gets its own result.\<close>

definition aio_split_command_across_slots :: "string \<Rightarrow> pyval list \<Rightarrow> unit ap_op" where
  "aio_split_command_across_slots command keys = (\<lambda>(c, st).
     case partition_keys_by_slot (ac_encoder c) keys [] of
       Inl e \<Rightarrow> (Inl e, (c, st))
     | Inr slots \<Rightarrow> (Inr (), (c, foldl (\<lambda>st (s, ks). aio_pipe_command NoTargets (cmd command ks) st) st slots)))"

definition aio_mset_nonatomic :: "(pyval \<times> pyval) list \<Rightarrow> unit ap_op" where
  "aio_mset_nonatomic mapping = (\<lambda>(c, st).
     case partition_pairs_by_slot (ac_encoder c) mapping [] of
       Inl e \<Rightarrow> (Inl e, (c, st))
     | Inr slots \<Rightarrow> (Inr (), (c, foldl (\<lambda>st (s, kvs). aio_pipe_command NoTargets (cmd ''MSET'' kvs) st) st slots)))"

end
