(* ===== verification/AsyncPipelineCorrect.thy ===== *)
theory AsyncPipelineCorrect
  imports AsyncClusterPipeline AsyncRedirectCorrect "HOL-Library.Multiset"
begin

text \<open>
  What the pipeline of an asynchronous cluster client gives: the answers in the order of the commands, each sent
  once, when all nodes answer; and what a retry repeats.
\<close>

section \<open>Grouping\<close>

definition cleared :: "nat list \<Rightarrow> aio_pcommand list \<Rightarrow> aio_pcommand list" where
  "cleared is st = foldl (\<lambda>st i. st[i := (st ! i)\<lparr>aq_targets := NoTargets\<rparr>]) st is"

lemma cleared_simps [simp]: "cleared [] st = st" "cleared (i # is) st = cleared is (st[i := (st ! i)\<lparr>aq_targets := NoTargets\<rparr>])"
  by (simp_all add: cleared_def)

lemma length_cleared [simp]: "length (cleared is st) = length st"
  by (induction "is" arbitrary: st) simp_all

lemma cleared_fields [simp]:
  assumes "j < length st"
  shows "aq_command (cleared is st ! j) = aq_command (st ! j) \<and> aq_result (cleared is st ! j) = aq_result (st ! j)"
  using assms
proof (induction "is" arbitrary: st)
  case (Cons i "is")
  have "aq_command (st[i := (st ! i)\<lparr>aq_targets := NoTargets\<rparr>] ! j) = aq_command (st ! j) \<and>
      aq_result (st[i := (st ! i)\<lparr>aq_targets := NoTargets\<rparr>] ! j) = aq_result (st ! j)"
    using Cons.prems by (cases "i = j") simp_all
  then show ?case using Cons by simp
qed simp

definition group_all :: "(nat \<Rightarrow> string) \<Rightarrow> (nat \<Rightarrow> nat) \<Rightarrow> nat list \<Rightarrow> aio_groups \<Rightarrow> aio_groups" where
  "group_all name nd is gs = foldl (\<lambda>gs i. add_to_group (name (nd i)) (nd i) i gs) gs is"

lemma aio_group_pure:
  assumes "distinct is" "\<forall>i \<in> set is. i < length st"
    and "\<forall>i \<in> set is. aq_node (aq_targets (st ! i)) (aq_command (st ! i)) c = (Inr (nd i), c)"
  shows "aio_group is gs (c, st) = (Inr (group_all (aio_name_of (ac_nm c)) nd is gs), (c, cleared is st))"
  using assms
proof (induction "is" arbitrary: gs st)
  case (Cons i "is")
  let ?st = "st[i := (st ! i)\<lparr>aq_targets := NoTargets\<rparr>]"
  have "aio_group is (add_to_group (aio_name_of (ac_nm c) (nd i)) (nd i) i gs) (c, ?st) =
      (Inr (group_all (aio_name_of (ac_nm c)) nd is (add_to_group (aio_name_of (ac_nm c) (nd i)) (nd i) i gs)), (c, cleared is ?st))"
    by (rule Cons.IH) (use Cons.prems in \<open>auto simp: nth_list_update\<close>)
  moreover have "aq_node (aq_targets (st ! i)) (aq_command (?st ! i)) c = (Inr (nd i), c)" using Cons.prems by simp
  ultimately show ?case
    by (simp add: take_targets_def bindS_def on_cluster_of_def group_all_def)
qed (simp add: group_all_def)

text \<open>The groups have every command once, with its node, and a node once.\<close>

definition group_members :: "aio_groups \<Rightarrow> nat list" where
  "group_members gs = concat (map (\<lambda>(_, _, is). is) gs)"

definition groups_ok :: "(nat \<Rightarrow> string) \<Rightarrow> (nat \<Rightarrow> nat) \<Rightarrow> aio_groups \<Rightarrow> bool" where
  "groups_ok name nd gs =
     (distinct (map fst gs) \<and> (\<forall>(n, node, is) \<in> set gs. is \<noteq> [] \<and> name node = n \<and> (\<forall>i \<in> set is. nd i = node)))"

lemma dict_set_group:
  "dict_get gs n = Some (node, is) \<Longrightarrow> mset (group_members (dict_set n (node, is @ [i]) gs)) = add_mset i (mset (group_members gs))"
  by (induction gs) (auto simp: group_members_def split: if_splits)

lemma set_dict_set: "set (dict_set k v d) \<subseteq> insert (k, v) (set d)"
  by (induction d) auto

lemma add_to_group_ok:
  assumes ok: "groups_ok name nd gs" and inj: "\<forall>i j. name (nd i) = name (nd j) \<longrightarrow> nd i = nd j"
  shows "groups_ok name nd (add_to_group (name (nd i)) (nd i) i gs) \<and>
    mset (group_members (add_to_group (name (nd i)) (nd i) i gs)) = add_mset i (mset (group_members gs))"
proof (cases "dict_get gs (name (nd i))")
  case None
  then have "name (nd i) \<notin> fst ` set gs" by (simp add: map_of_eq_None_iff)
  then show ?thesis using ok None by (auto simp: add_to_group_def groups_ok_def group_members_def)
next
  case (Some g)
  obtain node "is" where g: "g = (node, is)" by force
  with Some have mem: "(name (nd i), node, is) \<in> set gs" by (auto dest: map_of_SomeD)
  with ok have grp: "is \<noteq> []" "name node = name (nd i)" "\<forall>j \<in> set is. nd j = node" by (auto simp: groups_ok_def)
  then obtain j where "nd j = node" by (cases "is") auto
  then have node: "node = nd i" using grp(2) inj by metis
  have "set (dict_set (name (nd i)) (node, is @ [i]) gs) \<subseteq> insert (name (nd i), node, is @ [i]) (set gs)" by (rule set_dict_set)
  moreover have "distinct (map fst (dict_set (name (nd i)) (node, is @ [i]) gs))" using ok by (simp add: groups_ok_def distinct_update)
  ultimately have "groups_ok name nd (dict_set (name (nd i)) (node, is @ [i]) gs)"
    using ok grp node unfolding groups_ok_def by fastforce
  then show ?thesis using Some g dict_set_group [of gs "name (nd i)" node "is" i] by (simp add: add_to_group_def)
qed

lemma group_all_ok:
  assumes "groups_ok name nd gs" "\<forall>i j. name (nd i) = name (nd j) \<longrightarrow> nd i = nd j"
  shows "groups_ok name nd (group_all name nd is gs) \<and> mset (group_members (group_all name nd is gs)) = mset is + mset (group_members gs)"
  using assms(1)
proof (induction "is" arbitrary: gs)
  case (Cons i "is")
  from add_to_group_ok [OF Cons.prems assms(2), of i] Cons.IH [of "add_to_group (name (nd i)) (nd i) i gs"]
  show ?case by (simp add: group_all_def)
qed (simp add: group_all_def)

section \<open>Batches\<close>

text \<open>The node answers every command of the batch; \<open>ans\<close> is what the callbacks make of it.\<close>

definition answers_batch :: "callbacks \<Rightarrow> (nat \<Rightarrow> command) \<Rightarrow> (nat \<Rightarrow> pyval) \<Rightarrow> nat list \<Rightarrow> aio_io \<Rightarrow> bool" where
  "answers_batch callbacks com ans is io =
     (io_send io = None \<and> length (io_reads io) = length is \<and>
      (\<forall>k < length is. aio_parse_response callbacks (com (is ! k)) (io_reads io ! k) = Inr (ans (is ! k))))"

lemma read_batch_all:
  assumes "length rs = length is" "\<forall>k < length is. aio_parse_response callbacks (com (is ! k)) (rs ! k) = Inr (ans (is ! k))"
  shows "aio_read_batch callbacks (map com is) rs = (map (Inr \<circ> ans) is, None)"
  using assms
proof (induction "is" arbitrary: rs)
  case (Cons i "is")
  then obtain r rs' where rs: "rs = r # rs'" by (cases rs) auto
  have "aio_parse_response callbacks (com i) r = Inr (ans i)" using Cons.prems(2) rs by force
  moreover have "aio_read_batch callbacks (map com is) rs' = (map (Inr \<circ> ans) is, None)"
    by (rule Cons.IH) (use Cons.prems rs in force)+
  ultimately show ?case by (simp add: rs next_read_def)
qed simp

lemma batch_node:
  assumes "usable n" "answers_batch callbacks com ans is io"
  shows "\<exists>n'. aio_node_execute_pipeline callbacks (map com is) io n = (Inr False, map (Inr \<circ> ans) is, n') \<and> usable n' \<and> an_name n' = an_name n"
proof -
  have "aio_read_batch callbacks (map com is) (io_reads io) = (map (Inr \<circ> ans) is, None)" "io_send io = None"
    using assms(2) read_batch_all by (auto simp: answers_batch_def)
  moreover have "\<not> list_ex is_failure (map (Inr \<circ> ans) is)" by (simp add: list_ex_iff is_failure_def)
  ultimately show ?thesis
    using assms(1)
    by (cases "an_free n")
      (simp_all add: aio_node_execute_pipeline_def acquire_connection_def send_on_def free_connection_def usable_def an_name_def)
qed

lemma aio_set_batch_nth:
  assumes "distinct is" "\<forall>i \<in> set is. i < length st" "j < length st"
  shows "aio_set_batch is (map f is) st ! j = (if j \<in> set is then (st ! j)\<lparr>aq_result := Some (f j)\<rparr> else st ! j)"
  using assms
proof (induction "is" arbitrary: st)
  case (Cons i "is")
  have "aio_set_batch is (map f is) (aio_set_result i (f i) st) ! j =
      (if j \<in> set is then (aio_set_result i (f i) st ! j)\<lparr>aq_result := Some (f j)\<rparr> else aio_set_result i (f i) st ! j)"
    by (rule Cons.IH) (use Cons.prems in \<open>auto simp: aio_set_result_def\<close>)
  moreover have "aio_set_batch (i # is) (map f (i # is)) st = aio_set_batch is (map f is) (aio_set_result i (f i) st)"
    by (simp add: aio_set_batch_def)
  ultimately show ?case using Cons.prems by (cases "i = j") (auto simp: aio_set_result_def)
qed (simp add: aio_set_batch_def)

lemma length_aio_set_batch [simp]: "length (aio_set_batch is rs st) = length st"
proof -
  have "length (foldl (\<lambda>st (i, r). aio_set_result i r st) st ps) = length st" for ps
    by (induction ps arbitrary: st) (auto simp: aio_set_result_def)
  then show ?thesis by (simp add: aio_set_batch_def)
qed

definition all_usable :: "aio_cluster \<Rightarrow> bool" where
  "all_usable c = (\<forall>n \<in> set (am_heap (ac_nm c)). usable n)"

definition calls_of :: "(nat \<Rightarrow> command) \<Rightarrow> aio_groups \<Rightarrow> aio_event list" where
  "calls_of com gs = concat (map (\<lambda>(_, node, is). map (\<lambda>i. Called node (cm_name (com i))) is) gs)"

lemma call_batch_all:
  assumes "all_usable c" "node < length (am_heap (ac_nm c))" "ac_script c = io # ios" "answers_batch (ac_callbacks c) com ans is io"
    and "\<forall>i \<in> set is. i < length st \<and> aq_command (st ! i) = com i"
  shows "\<exists>c'. call_batch (node, is) (c, st) = (Inr False, (c', aio_set_batch is (map (Inr \<circ> ans) is) st)) \<and>
    all_usable c' \<and> ac_script c' = ios \<and> ac_callbacks c' = ac_callbacks c \<and> length (am_heap (ac_nm c')) = length (am_heap (ac_nm c)) \<and>
    ac_log c' = ac_log c @ map (\<lambda>i. Called node (cm_name (com i))) is"
proof -
  have u: "usable (aio_at (ac_nm c) node)" using assms(1,2) by (simp add: all_usable_def aio_at_def)
  have com: "map (\<lambda>j. aq_command (st ! j)) is = map com is" using assms(5) by (intro map_cong) auto
  from batch_node [OF u assms(4)] obtain n' where n: "usable n'"
    "aio_node_execute_pipeline (ac_callbacks c) (map com is) io (aio_at (ac_nm c) node) = (Inr False, map (Inr \<circ> ans) is, n')" by blast
  have "\<forall>n \<in> set ((am_heap (ac_nm c))[node := n']). usable n"
    using assms(1) n(1) set_update_subset_insert [of "am_heap (ac_nm c)" node n'] by (auto simp: all_usable_def)
  then show ?thesis using n(2) assms(3,5) by (simp add: call_batch_def Let_def com all_usable_def)
qed

lemma gather_all:
  assumes "all_usable c" "list_all2 (\<lambda>(_, _, is) io. answers_batch (ac_callbacks c) com ans is io) gs ios" "ac_script c = ios @ rest"
    and "\<forall>(_, node, is) \<in> set gs. node < length (am_heap (ac_nm c))" "distinct (group_members gs)"
    and "\<forall>i \<in> set (group_members gs). i < length st" "\<forall>i < length st. aq_command (st ! i) = com i"
  shows "\<exists>c' st'. gather_batches (map snd gs) (c, st) = (map (\<lambda>_. Inr False) gs, (c', st')) \<and> length st' = length st \<and>
    (\<forall>j < length st. st' ! j = (if j \<in> set (group_members gs) then (st ! j)\<lparr>aq_result := Some (Inr (ans j))\<rparr> else st ! j)) \<and>
    ac_log c' = ac_log c @ calls_of com gs"
  using assms
proof (induction gs arbitrary: c st ios)
  case Nil
  then show ?case by (simp add: group_members_def calls_of_def)
next
  case (Cons g gs)
  obtain n node "is" where g: "g = (n, node, is)" by (cases g) auto
  from Cons.prems(2) g obtain io ios' where io: "ios = io # ios'" "answers_batch (ac_callbacks c) com ans is io"
      "list_all2 (\<lambda>(_, _, is) io. answers_batch (ac_callbacks c) com ans is io) gs ios'"
    by (auto simp: list_all2_Cons1)
  have members: "group_members (g # gs) = is @ group_members gs" by (simp add: g group_members_def)
  have "\<forall>i \<in> set is. i < length st \<and> aq_command (st ! i) = com i" using Cons.prems(6,7) members by auto
  from call_batch_all [OF Cons.prems(1) _ _ io(2) this, of node "ios' @ rest"] Cons.prems(3,4) io(1) g obtain c1 where
    c1: "call_batch (node, is) (c, st) = (Inr False, (c1, aio_set_batch is (map (Inr \<circ> ans) is) st))" "all_usable c1"
      "ac_script c1 = ios' @ rest" "ac_callbacks c1 = ac_callbacks c" "length (am_heap (ac_nm c1)) = length (am_heap (ac_nm c))"
      "ac_log c1 = ac_log c @ map (\<lambda>i. Called node (cm_name (com i))) is" by auto
  let ?st = "aio_set_batch is (map (Inr \<circ> ans) is) st"
  have nth: "?st ! j = (if j \<in> set is then (st ! j)\<lparr>aq_result := Some (Inr (ans j))\<rparr> else st ! j)" if "j < length st" for j
    using aio_set_batch_nth [of "is" st j "Inr \<circ> ans"] Cons.prems(5,6) members that by simp
  from Cons.IH [of c1 ios' ?st] c1 io(3) Cons.prems members nth obtain c' st' where
    s: "gather_batches (map snd gs) (c1, ?st) = (map (\<lambda>_. Inr False) gs, (c', st'))" "length st' = length st"
      "\<forall>j < length st. st' ! j = (if j \<in> set (group_members gs) then (?st ! j)\<lparr>aq_result := Some (Inr (ans j))\<rparr> else ?st ! j)"
      "ac_log c' = ac_log c1 @ calls_of com gs"
    by (auto simp: g)
  have "st' ! j = (if j \<in> set (group_members (g # gs)) then (st ! j)\<lparr>aq_result := Some (Inr (ans j))\<rparr> else st ! j)" if "j < length st" for j
    using s(3) nth that Cons.prems(5) members by auto
  then show ?case using c1(1,6) s(1,2,4) by (auto simp: g calls_of_def)
qed

section \<open>The pipeline\<close>

lemma calls_of_groups:
  assumes "groups_ok name nd gs"
  shows "calls_of com gs = map (\<lambda>i. Called (nd i) (cm_name (com i))) (group_members gs)"
proof -
  have "map (\<lambda>i. Called node (cm_name (com i))) is = map (\<lambda>i. Called (nd i) (cm_name (com i))) is" if "(n, node, is) \<in> set gs" for n node "is"
    using assms that unfolding groups_ok_def by (intro map_cong) auto
  then have e: "map (\<lambda>(_, node, is). map (\<lambda>i. Called node (cm_name (com i))) is) gs = map (\<lambda>(_, _, is). map (\<lambda>i. Called (nd i) (cm_name (com i))) is) gs"
    by (intro map_cong) auto
  show ?thesis unfolding calls_of_def e group_members_def by (simp add: map_concat comp_def split_def)
qed

text \<open>A new pipeline: no command has a result, and each is for one node.\<close>

definition fresh_stack :: "aio_cluster \<Rightarrow> aio_pcommand list \<Rightarrow> (nat \<Rightarrow> nat) \<Rightarrow> bool" where
  "fresh_stack c st nd =
     (\<forall>i < length st. aq_result (st ! i) = None \<and> nd i < length (am_heap (ac_nm c)) \<and>
        aq_node (aq_targets (st ! i)) (aq_command (st ! i)) c = (Inr (nd i), c))"

text \<open>C29: When every node answers its batch without an error, the results are those of the commands in the order they were queued,
  whatever nodes they went to, and every command was sent exactly once, to its node.\<close>

theorem aio_pipeline_in_order:
  assumes "st \<noteq> []" "0 < ac_retry_attempts c" "\<not> ac_initialize c" "all_usable c" "fresh_stack c st nd"
    and "\<forall>i j. aio_name_of (ac_nm c) (nd i) = aio_name_of (ac_nm c) (nd j) \<longrightarrow> nd i = nd j"
    and "gs = group_all (aio_name_of (ac_nm c)) nd [0..<length st] []"
    and "list_all2 (\<lambda>(_, _, is) io. answers_batch (ac_callbacks c) (\<lambda>i. aq_command (st ! i)) ans is io) gs ios" "ac_script c = ios @ rest"
  shows "\<exists>c' sent. aio_pipeline_execute raise_on_error allow_redirections (c, st) = (Inr (map ans [0..<length st]), (c', [])) \<and>
    ac_log c' = ac_log c @ sent \<and> mset sent = mset (map (\<lambda>i. Called (nd i) (cm_name (aq_command (st ! i)))) [0..<length st])"
proof -
  let ?is = "[0..<length st]" and ?com = "\<lambda>i. aq_command (st ! i)"
  have ok: "groups_ok (aio_name_of (ac_nm c)) nd gs" "mset (group_members gs) = mset ?is"
    using group_all_ok [of "aio_name_of (ac_nm c)" nd "[]" ?is] assms(6,7) by (simp_all add: groups_ok_def group_members_def)
  have todo: "aio_todo st = ?is" using assms(5) by (auto simp: aio_todo_def fresh_stack_def aq_pending_def intro!: filter_id_if)
  have grp: "aio_group ?is [] (c, st) = (Inr gs, (c, cleared ?is st))"
    using aio_group_pure [of ?is st c nd "[]"] assms(5,7) by (simp add: fresh_stack_def)
  have dis: "distinct (group_members gs)" "set (group_members gs) = {0..<length st}"
    using ok(2) mset_eq_imp_distinct_iff [OF ok(2)] mset_eq_setD [OF ok(2)] by simp_all
  have nodes: "\<forall>(_, node, is) \<in> set gs. node < length (am_heap (ac_nm c))"
  proof (clarify)
    fix n node "is" assume m: "(n, node, is) \<in> set gs"
    then obtain i where i: "i \<in> set is" "nd i = node" using ok(1) unfolding groups_ok_def by (cases "is") fastforce+
    then have "i \<in> set (group_members gs)" using m by (force simp: group_members_def)
    then show "node < length (am_heap (ac_nm c))" using dis(2) i(2) assms(5) by (auto simp: fresh_stack_def)
  qed
  from gather_all [OF assms(4,8,9) nodes dis(1), of "cleared ?is st"] dis(2) obtain c' st' where
    s: "gather_batches (map snd gs) (c, cleared ?is st) = (map (\<lambda>_. Inr False) gs, (c', st'))" "length st' = length st"
      "\<forall>j < length st. aq_result (st' ! j) = Some (Inr (ans j))" "ac_log c' = ac_log c @ calls_of ?com gs"
    by auto
  have ff: "first_failure (map (\<lambda>_. Inr False) gs) = Inr (map (\<lambda>_. False) gs)" for gs :: aio_groups
    by (induction gs) simp_all
  have vals: "map aq_value st' = map ans ?is"
    by (rule nth_equalityI) (use s(2,3) in \<open>auto simp: aq_value_def\<close>)
  have att: "aio_attempt r a (c, st) = (Inr (map ans ?is), (c', st'))" for r a
    by (simp add: aio_attempt_def bindS_def todo grp s(1) ff thenS_def image_constant_conv vals)
  have "aio_pipeline_execute raise_on_error allow_redirections (c, st) = (Inr (map ans ?is), (c', []))"
  proof -
    obtain k where k: "nat (ac_retry_attempts c) = Suc k" using assms(2) by (metis gr0_implies_Suc zero_less_nat_eq)
    have "aio_cluster_initialize c = (Inr (), c)" using assms(3) by (simp add: aio_cluster_initialize_def)
    then show ?thesis using assms(1) by (simp add: aio_pipeline_execute_def k thenS_def bindS_def on_cluster_of_def att)
  qed
  moreover have "mset (calls_of ?com gs) = mset (map (\<lambda>i. Called (nd i) (cm_name (?com i))) ?is)"
    unfolding calls_of_groups [OF ok(1)] mset_map ok(2) ..
  ultimately show ?thesis using s(4) by blast
qed

section \<open>Retries\<close>

text \<open>A client that is set to make no retries sends nothing of a pipeline: the loop makes no attempt at all, and what it then
  raises was never assigned.\<close>

theorem no_retries_no_attempt:
  assumes "st \<noteq> []" "ac_retry_attempts c \<le> 0"
  shows "aio_pipeline_execute raise_on_error allow_redirections (c, st) = (Inl unbound_exception, (c, []))"
  using assms by (simp add: aio_pipeline_execute_def)

text \<open>A command for the default node that is new in the pipeline.\<close>

definition default_command :: "command \<Rightarrow> aio_pcommand" where
  "default_command cm = \<lparr>aq_command = cm, aq_targets = NoTargets, aq_result = None\<rparr>"

lemma default_node_route:
  assumes "COMMAND_FLAGS (cm_name cm) = Some DEFAULT_NODE" "am_default (ac_nm c) = Some d"
  shows "aq_node NoTargets cm c = (Inr d, c)"
  using assms by (simp add: aq_node_def aq_nodes_def aio_determine_nodes_def bindS_def thenS_def)

lemma add_to_group_simps [simp]:
  "add_to_group n node i [] = [(n, (node, [i]))]" "add_to_group n node i [(n, (node', is))] = [(n, (node', is @ [i]))]"
  by (simp_all add: add_to_group_def)

text \<open>When one command of a pipeline is answered by CLUSTERDOWN, the retry sends again those whose answer was false in Python: a
  counter that came back as 0 is counted once more, one that came back as 5 is not.\<close>

theorem false_answers_are_sent_again:
  assumes f: "COMMAND_FLAGS (cm_name cm1) = Some DEFAULT_NODE" "COMMAND_FLAGS (cm_name cm2) = Some DEFAULT_NODE"
    and e: "cm_empty_response cm1 = None" "cm_empty_response cm2 = None"
    and c: "am_default (ac_nm c) = Some d" "usable (aio_at (ac_nm c) d)" "ac_callbacks c = (\<lambda>_. None)"
      "ac_script c = \<lparr>io_send = None, io_reads = [Inr v, Inl (Raised (Exc ClusterDownError m))]\<rparr> # rest"
    and c2: "am_default (ac_nm c2) = Some d2" "usable (aio_at (ac_nm c2) d2)" "ac_callbacks c2 = (\<lambda>_. None)"
      "ac_script c2 = \<lparr>io_send = None, io_reads = (if truthy v then [] else [Inr v2]) @ [Inr w]\<rparr> # rest2"
  shows "\<exists>x c1 st1 c3 st3. aio_attempt True allow_redirections (c, [default_command cm1, default_command cm2]) = (Inl x, (c1, st1)) \<and>
      exc_cls x = ClusterDownError \<and>
      aio_attempt True allow_redirections (c2, st1) = (Inr [if truthy v then v else v2, w], (c3, st3)) \<and>
      ac_log c3 = ac_log c2 @ (if truthy v then [] else [Called d2 (cm_name cm1)]) @ [Called d2 (cm_name cm2)]"
proof -
  have r: "aq_node NoTargets cm1 c = (Inr d, c)" "aq_node NoTargets cm2 c = (Inr d, c)"
      "aq_node NoTargets cm1 c2 = (Inr d2, c2)" "aq_node NoTargets cm2 c2 = (Inr d2, c2)"
    using f c(1) c2(1) default_node_route by blast+
  let ?st1 = "[(default_command cm1)\<lparr>aq_result := Some (Inr v)\<rparr>, (default_command cm2)\<lparr>aq_result := Some (Inl (Raised (Exc ClusterDownError m)))\<rparr>]"
  have todo: "aio_todo [default_command cm1, default_command cm2] = [0, Suc 0]"
    by (simp add: aio_todo_def aq_pending_def default_command_def numeral_2_eq_2)
  have g: "aio_group [0, Suc 0] [] (c, [default_command cm1, default_command cm2]) =
      (Inr [(aio_name_of (ac_nm c) d, (d, [0, Suc 0]))], (c, [default_command cm1, default_command cm2]))"
    by (simp add: take_targets_def bindS_def on_cluster_of_def r default_command_def)
  have "\<exists>c1. gather_batches [(d, [0, Suc 0])] (c, [default_command cm1, default_command cm2]) = ([Inr True], (c1, ?st1))"
    using c(2-4) e
    by (cases "an_free (aio_at (ac_nm c) d)")
      (simp_all add: call_batch_def aio_node_execute_pipeline_def acquire_connection_def send_on_def free_connection_def Let_def
        aio_parse_response_def next_read_def node_isinstance_def aio_set_batch_def aio_set_result_def default_command_def usable_def
        is_failure_def)
  then obtain c1 where b: "gather_batches [(d, [0, Suc 0])] (c, [default_command cm1, default_command cm2]) = ([Inr True], (c1, ?st1))" by blast
  have red: "aio_redirections [0, Suc 0] (c1, ?st1) = (Inr (), (c1, ?st1))"
    by (simp add: is_redirection_def node_isinstance_def)
  have a1: "aio_attempt True allow_redirections (c, [default_command cm1, default_command cm2]) =
      (Inl (aio_annotate (Suc 0) (Exc ClusterDownError m)), (c1, ?st1))"
    unfolding aio_attempt_def
    by (simp add: bindS_def todo g b thenS_def aio_handle_errors_def red plain_exc_def del: aio_group.simps aio_redirections.simps gather_batches.simps)
  have a2: "\<exists>c3 st3. aio_attempt True allow_redirections (c2, ?st1) = (Inr [if truthy v then v else v2, w], (c3, st3)) \<and>
      ac_log c3 = ac_log c2 @ (if truthy v then [] else [Called d2 (cm_name cm1)]) @ [Called d2 (cm_name cm2)]"
  proof (cases "truthy v")
    case True
    then have todo2: "aio_todo ?st1 = [Suc 0]" by (simp add: aio_todo_def aq_pending_def numeral_2_eq_2)
    have g2: "aio_group [Suc 0] [] (c2, ?st1) = (Inr [(aio_name_of (ac_nm c2) d2, (d2, [Suc 0]))], (c2, ?st1))"
      by (simp add: take_targets_def bindS_def on_cluster_of_def r default_command_def)
    have "\<exists>c3. gather_batches [(d2, [Suc 0])] (c2, ?st1) = ([Inr False], (c3, [(default_command cm1)\<lparr>aq_result := Some (Inr v)\<rparr>, (default_command cm2)\<lparr>aq_result := Some (Inr w)\<rparr>])) \<and> ac_log c3 = ac_log c2 @ [Called d2 (cm_name cm2)]"
      using c2(2-4) e True
      by (cases "an_free (aio_at (ac_nm c2) d2)")
        (simp_all add: call_batch_def aio_node_execute_pipeline_def acquire_connection_def send_on_def free_connection_def Let_def
          aio_parse_response_def next_read_def aio_set_batch_def aio_set_result_def default_command_def usable_def is_failure_def)
    then obtain c3 where b2: "gather_batches [(d2, [Suc 0])] (c2, ?st1) = ([Inr False], (c3, [(default_command cm1)\<lparr>aq_result := Some (Inr v)\<rparr>, (default_command cm2)\<lparr>aq_result := Some (Inr w)\<rparr>]))" "ac_log c3 = ac_log c2 @ [Called d2 (cm_name cm2)]"
      by blast
    have "aio_attempt True allow_redirections (c2, ?st1) = (Inr [if truthy v then v else v2, w], (c3, [(default_command cm1)\<lparr>aq_result := Some (Inr v)\<rparr>, (default_command cm2)\<lparr>aq_result := Some (Inr w)\<rparr>]))"
      unfolding aio_attempt_def
      by (simp add: bindS_def todo2 g2 b2(1) thenS_def aq_value_def True del: aio_group.simps aio_redirections.simps gather_batches.simps)
    then show ?thesis using b2(2) True by simp
  next
    case False
    then have todo2: "aio_todo ?st1 = [0, Suc 0]" by (simp add: aio_todo_def aq_pending_def numeral_2_eq_2)
    have g2: "aio_group [0, Suc 0] [] (c2, ?st1) = (Inr [(aio_name_of (ac_nm c2) d2, (d2, [0, Suc 0]))], (c2, ?st1))"
      by (simp add: take_targets_def bindS_def on_cluster_of_def r default_command_def)
    have "\<exists>c3. gather_batches [(d2, [0, Suc 0])] (c2, ?st1) = ([Inr False], (c3, [(default_command cm1)\<lparr>aq_result := Some (Inr v2)\<rparr>, (default_command cm2)\<lparr>aq_result := Some (Inr w)\<rparr>])) \<and> ac_log c3 = ac_log c2 @ [Called d2 (cm_name cm1), Called d2 (cm_name cm2)]"
      using c2(2-4) e False
      by (cases "an_free (aio_at (ac_nm c2) d2)")
        (simp_all add: call_batch_def aio_node_execute_pipeline_def acquire_connection_def send_on_def free_connection_def Let_def
          aio_parse_response_def next_read_def aio_set_batch_def aio_set_result_def default_command_def usable_def is_failure_def)
    then obtain c3 where b2: "gather_batches [(d2, [0, Suc 0])] (c2, ?st1) = ([Inr False], (c3, [(default_command cm1)\<lparr>aq_result := Some (Inr v2)\<rparr>, (default_command cm2)\<lparr>aq_result := Some (Inr w)\<rparr>]))" "ac_log c3 = ac_log c2 @ [Called d2 (cm_name cm1), Called d2 (cm_name cm2)]"
      by blast
    have "aio_attempt True allow_redirections (c2, ?st1) = (Inr [if truthy v then v else v2, w], (c3, [(default_command cm1)\<lparr>aq_result := Some (Inr v2)\<rparr>, (default_command cm2)\<lparr>aq_result := Some (Inr w)\<rparr>]))"
      unfolding aio_attempt_def
      by (simp add: bindS_def todo2 g2 b2(1) thenS_def aq_value_def False del: aio_group.simps aio_redirections.simps gather_batches.simps)
    then show ?thesis using b2(2) False by simp
  qed
  then show ?thesis using a1 by (metis aio_annotate_def exc.sel(1))
qed

section \<open>Witnesses\<close>

definition demo_stack :: "aio_pcommand list" where
  "demo_stack = [\<lparr>aq_command = get_foo, aq_targets = NoTargets, aq_result = None\<rparr>,
     \<lparr>aq_command = cmd ''PING'' [], aq_targets = Nodes [1], aq_result = None\<rparr>]"

lemma demo_node_names [simp]:
  "aio_name_of (ac_nm (demo_aio free mv script steps)) 0 = ''a:1''" "aio_name_of (ac_nm (demo_aio free mv script steps)) (Suc 0) = ''b:1''"
  by (simp_all add: aio_name_of_def aio_at_def demo_aio_def demo_aio_nm_def demo_aio_names)

lemma get_foo_node: "aq_node NoTargets get_foo (demo_aio free None script steps) = (Inr 0, demo_aio free None script steps)"
proof -
  let ?c = "demo_aio free None script steps"
  have f: "COMMAND_FLAGS ''GET'' = None" by code_simp
  have "served_by 0 get_foo ?c"
    unfolding served_by_def
    by (rule exI [of _ 12182], rule exI [of _ 0], rule exI [of _ "[]"], intro conjI demo_aio_routes)
      (simp_all add: demo_aio_def demo_aio_nm_def usable_def aio_at_def)
  from aio_command_node_served [OF this] f show ?thesis
    by (simp add: aq_node_def aq_nodes_def aio_determine_nodes_def bindS_def thenS_def)
qed

theorem aio_pipeline_in_order_witness:
  "\<exists>c' sent. aio_pipeline_execute True True
      (demo_aio [0, 1] None [\<lparr>io_send = None, io_reads = [Inr (PStr ''bar'')]\<rparr>, \<lparr>io_send = None, io_reads = [Inr (PBool True)]\<rparr>] 5, demo_stack) =
        (Inr [PStr ''bar'', PBool True], (c', [])) \<and>
      ac_log c' = sent \<and> mset sent = {#Called 0 ''GET'', Called 1 ''PING''#}"
proof -
  let ?ios = "[\<lparr>io_send = None, io_reads = [Inr (PStr ''bar'')]\<rparr>, \<lparr>io_send = None, io_reads = [Inr (PBool True)]\<rparr>]"
  let ?c = "demo_aio [0, 1] None ?ios 5"
  let ?nd = "\<lambda>i::nat. if i = 0 then 0 else 1::nat"
  let ?ans = "\<lambda>i::nat. if i = 0 then PStr ''bar'' else PBool True"
  have two: "[0..<length demo_stack] = [0, Suc 0]" by (simp add: demo_stack_def numeral_2_eq_2)
  have gs: "group_all (aio_name_of (ac_nm ?c)) ?nd [0, Suc 0] [] = [(''a:1'', (0, [0])), (''b:1'', (1, [1]))]"
    by (simp add: group_all_def add_to_group_def)
  have "fresh_stack ?c demo_stack ?nd"
  proof -
    have "aq_node (Nodes [1]) (cmd ''PING'' []) ?c = (Inr 1, ?c)"
      by (simp add: aq_node_def aq_nodes_def parse_target_nodes_def bindS_def)
    then show ?thesis using get_foo_node [of "[0, 1]" ?ios 5]
      by (auto simp: fresh_stack_def demo_stack_def less_Suc_eq) (simp_all add: demo_aio_def demo_aio_nm_def)
  qed
  note fresh = this
  have usable: "all_usable ?c" by (simp add: all_usable_def demo_aio_def demo_aio_nm_def usable_def)
  have inj: "\<forall>i j. aio_name_of (ac_nm ?c) (?nd i) = aio_name_of (ac_nm ?c) (?nd j) \<longrightarrow> ?nd i = ?nd j" by simp
  have batches: "list_all2 (\<lambda>(_, _, is) io. answers_batch (ac_callbacks ?c) (\<lambda>i. aq_command (demo_stack ! i)) ?ans is io)
      (group_all (aio_name_of (ac_nm ?c)) ?nd [0..<length demo_stack] []) ?ios"
    unfolding two gs by (simp add: answers_batch_def demo_stack_def aio_parse_response_def demo_aio_def cmd_def)
  have c: "demo_stack \<noteq> []" "0 < ac_retry_attempts ?c" "\<not> ac_initialize ?c" "ac_script ?c = ?ios @ []" "ac_log ?c = []"
    by (simp_all add: demo_stack_def demo_aio_def)
  from aio_pipeline_in_order [OF c(1-3) usable fresh inj refl batches c(4), of True True] obtain c' sent where
    r: "aio_pipeline_execute True True (?c, demo_stack) = (Inr (map ?ans [0..<length demo_stack]), (c', []))" "ac_log c' = sent"
      "mset sent = mset (map (\<lambda>i. Called (?nd i) (cm_name (aq_command (demo_stack ! i)))) [0..<length demo_stack])"
    using c(5) by auto
  have "map ?ans [0..<length demo_stack] = [PStr ''bar'', PBool True]"
      "map (\<lambda>i. Called (?nd i) (cm_name (aq_command (demo_stack ! i)))) [0..<length demo_stack] = [Called 0 ''GET'', Called 1 ''PING'']"
    unfolding two by (simp_all add: demo_stack_def cmd_def)
  then show ?thesis using r by auto
qed

theorem no_retries_no_attempt_witness:
  "aio_pipeline_execute True True ((demo_aio [] None [] 5)\<lparr>ac_retry_attempts := 0\<rparr>, demo_stack) =
    (Inl unbound_exception, ((demo_aio [] None [] 5)\<lparr>ac_retry_attempts := 0\<rparr>, []))"
  by (rule no_retries_no_attempt) (simp_all add: demo_stack_def)

theorem false_answers_are_sent_again_witness:
  "\<exists>x c1 st1 c3 st3.
      aio_attempt True True (demo_aio [] None [\<lparr>io_send = None, io_reads = [Inr (PInt 0), Inl (Raised (Exc ClusterDownError []))]\<rparr>] 5,
        [default_command (cmd ''DBSIZE'' []), default_command (cmd ''PING'' [])]) = (Inl x, (c1, st1)) \<and>
      aio_attempt True True (demo_aio [] None [\<lparr>io_send = None, io_reads = [Inr (PInt 5), Inr (PBool True)]\<rparr>] 5, st1) =
        (Inr [PInt 5, PBool True], (c3, st3)) \<and> ac_log c3 = [Called 0 ''DBSIZE'', Called 0 ''PING'']"
proof -
  have "COMMAND_FLAGS ''DBSIZE'' = Some DEFAULT_NODE" "COMMAND_FLAGS ''PING'' = Some DEFAULT_NODE" by code_simp+
  then show ?thesis
    using false_answers_are_sent_again [of "cmd ''DBSIZE'' []" "cmd ''PING'' []"
        "demo_aio [] None [\<lparr>io_send = None, io_reads = [Inr (PInt 0), Inl (Raised (Exc ClusterDownError []))]\<rparr>] 5" 0 "PInt 0" "[]" "[]"
        "demo_aio [] None [\<lparr>io_send = None, io_reads = [Inr (PInt 5), Inr (PBool True)]\<rparr>] 5" 0 "PInt 5" "PBool True" "[]" True]
    by (simp add: cmd_def demo_aio_def demo_aio_nm_def usable_def aio_at_def) blast
qed

end
