(* ===== verification/AsyncLock.thy ===== *)
theory AsyncLock
  imports Lock
begin

text \<open>
  The lock of the asynchronous client (\<open>redis/asyncio/lock.py\<close>). The tasks of one event loop run in one
  thread, so they share the attribute \<open>token\<close> of the lock, with and without thread local storage. A task is
  the point at which its coroutine waits; a piece of a coroutine runs from one wait to the next, and the
  pieces of several tasks follow each other in any order. The server and the clock are those of \<open>Lock\<close>.
\<close>

section \<open>The coroutines\<close>

datatype alock_task =
    Attempting string bool "rat option"
  | Attempted "exc + bool" string bool "rat option"
  | Waiting string bool "rat option"
  | Releasing string
  | Extending rat bool
  | Reacquiring
  | AskOwned
  | AskLocked
  | Ended "exc + bool"

type_synonym 'w alock_state = "lock \<times> 'w"

text \<open>
  \<open>acquire\<close> up to its first wait. The event loop runs in thread \<open>t\<close>, \<open>uuid\<close> is the generated token; there is no
  argument \<open>sleep\<close>.
\<close>

definition aio_acquire ::
  "'w lock_world \<Rightarrow> string \<Rightarrow> bool option \<Rightarrow> rat option \<Rightarrow> pyval option \<Rightarrow> 'w alock_state \<Rightarrow> alock_task" where
  "aio_acquire S uuid blocking blocking_timeout token = (\<lambda>(lk, w).
     case (case token of None \<Rightarrow> Inr (PBytes uuid) | Some v \<Rightarrow> encode (lk_encoder lk) v) of
       Inl e \<Rightarrow> Ended (Inl e)
     | Inr tok \<Rightarrow> Attempting (raw tok) (case blocking of Some b \<Rightarrow> b | None \<Rightarrow> lk_blocking lk)
         (map_option (\<lambda>b. lw_now S w + b) (case blocking_timeout of Some b \<Rightarrow> Some b | None \<Rightarrow> lk_blocking_timeout lk)))"

text \<open>\<open>do_acquire\<close>: the server executes the \<open>SET\<close>.\<close>

definition aio_do_acquire ::
  "'w lock_world \<Rightarrow> string \<Rightarrow> bool \<Rightarrow> rat option \<Rightarrow> 'w alock_state \<Rightarrow> alock_task \<times> 'w alock_state" where
  "aio_do_acquire S token blocking stop = (\<lambda>(lk, w).
     let timeout = (case lk_timeout lk of None \<Rightarrow> None | Some s \<Rightarrow> if s = 0 then None else Some (millis s))
     in case lw_set_nx S (lk_name lk) token timeout w of (r, w') \<Rightarrow> (Attempted r token blocking stop, (lk, w')))"

text \<open>The rest of the turn of the loop, when the reply is there.\<close>

definition aio_attempted ::
  "'w lock_world \<Rightarrow> nat \<Rightarrow> exc + bool \<Rightarrow> string \<Rightarrow> bool \<Rightarrow> rat option \<Rightarrow> 'w alock_state \<Rightarrow> alock_task \<times> 'w alock_state" where
  "aio_attempted S t r token blocking stop = (\<lambda>(lk, w).
     case r of
       Inl e \<Rightarrow> (Ended (Inl e), (lk, w))
     | Inr True \<Rightarrow> (Ended (Inr True), (set_token t (Some token) lk, w))
     | Inr False \<Rightarrow>
         if \<not> blocking then (Ended (Inr False), (lk, w))
         else if (case stop of None \<Rightarrow> False | Some e \<Rightarrow> e < lw_now S w + lk_sleep lk) then (Ended (Inr False), (lk, w))
         else (Waiting token blocking stop, (lk, w)))"

text \<open>\<open>release\<close>, \<open>extend\<close> and \<open>reacquire\<close> are functions: they check and, for \<open>release\<close>, forget the token when
  they are called; the coroutine they return asks the server when it is awaited.\<close>

definition aio_release :: "nat \<Rightarrow> 'w alock_state \<Rightarrow> alock_task \<times> 'w alock_state" where
  "aio_release t = (\<lambda>(lk, w). case lk_local lk (local_slot lk t) of
       None \<Rightarrow> (Ended (Inl no_token_attribute), (lk, w))
     | Some None \<Rightarrow> (Ended (Inl (lock_error ''Cannot release an unlocked lock'')), (lk, w))
     | Some (Some tok) \<Rightarrow> (Releasing tok, (set_token t None lk, w)))"

definition aio_held :: "string \<Rightarrow> nat \<Rightarrow> alock_task \<Rightarrow> 'w alock_state \<Rightarrow> alock_task \<times> 'w alock_state" where
  "aio_held verb t next_task = (\<lambda>(lk, w). case lk_local lk (local_slot lk t) of
       None \<Rightarrow> (Ended (Inl no_token_attribute), (lk, w))
     | Some None \<Rightarrow> (Ended (Inl (lock_error (''Cannot '' @ verb @ '' an unlocked lock''))), (lk, w))
     | Some (Some _) \<Rightarrow>
         if lk_timeout lk = None then (Ended (Inl (lock_error (''Cannot '' @ verb @ '' a lock with no timeout''))), (lk, w))
         else (next_task, (lk, w)))"

definition aio_extend :: "nat \<Rightarrow> rat \<Rightarrow> bool \<Rightarrow> 'w alock_state \<Rightarrow> alock_task \<times> 'w alock_state" where
  "aio_extend t additional_time replace_ttl = aio_held ''extend'' t (Extending additional_time replace_ttl)"

definition aio_reacquire :: "nat \<Rightarrow> 'w alock_state \<Rightarrow> alock_task \<times> 'w alock_state" where
  "aio_reacquire t = aio_held ''reacquire'' t Reacquiring"

definition aio_do_release :: "'w lock_world \<Rightarrow> string \<Rightarrow> 'w alock_state \<Rightarrow> alock_task \<times> 'w alock_state" where
  "aio_do_release S expected = (\<lambda>(lk, w).
     case LUA_RELEASE_SCRIPT S (lk_name lk) expected w of
       (n, w') \<Rightarrow> (Ended (if n = 0 then Inl (not_owned ''release'') else Inr True), (lk, w')))"

text \<open>
  The token is read when the coroutine runs; another task may have removed it since \<open>extend\<close> was called. The
  encoder refuses \<open>None\<close> then.
\<close>

definition with_token :: "nat \<Rightarrow> (string \<Rightarrow> 'w alock_state \<Rightarrow> alock_task \<times> 'w alock_state) \<Rightarrow>
    'w alock_state \<Rightarrow> alock_task \<times> 'w alock_state" where
  "with_token t f s = (case lk_local (fst s) (local_slot (fst s) t) of
       None \<Rightarrow> (Ended (Inl no_token_attribute), s)
     | Some None \<Rightarrow> (Ended (Inl (case encode (lk_encoder (fst s)) PNone of Inl e \<Rightarrow> e | Inr _ \<Rightarrow> no_token_attribute)), s)
     | Some (Some tok) \<Rightarrow> f tok s)"

definition aio_do_extend ::
  "'w lock_world \<Rightarrow> nat \<Rightarrow> rat \<Rightarrow> bool \<Rightarrow> 'w alock_state \<Rightarrow> alock_task \<times> 'w alock_state" where
  "aio_do_extend S t additional_time replace_ttl = with_token t (\<lambda>tok (lk, w).
     case LUA_EXTEND_SCRIPT S (lk_name lk) tok (millis additional_time) replace_ttl w of
       (n, w') \<Rightarrow> (Ended (if n = 0 then Inl (not_owned ''extend'') else Inr True), (lk, w')))"

definition aio_do_reacquire :: "'w lock_world \<Rightarrow> nat \<Rightarrow> 'w alock_state \<Rightarrow> alock_task \<times> 'w alock_state" where
  "aio_do_reacquire S t = with_token t (\<lambda>tok (lk, w).
     case LUA_REACQUIRE_SCRIPT S (lk_name lk) tok (millis (the (lk_timeout lk))) w of
       (n, w') \<Rightarrow> (Ended (if n = 0 then Inl (not_owned ''reacquire'') else Inr True), (lk, w')))"

definition aio_owned :: "'w lock_world \<Rightarrow> nat \<Rightarrow> 'w alock_state \<Rightarrow> alock_task \<times> 'w alock_state" where
  "aio_owned S t s = (case stored_token S s of
       (Inl e, s') \<Rightarrow> (Ended (Inl e), s')
     | (Inr v, s') \<Rightarrow> (Ended (case lk_local (fst s') (local_slot (fst s') t) of
          None \<Rightarrow> Inl no_token_attribute
        | Some None \<Rightarrow> Inr False
        | Some (Some b) \<Rightarrow> Inr (v = PBytes b)), s'))"

definition aio_locked :: "'w lock_world \<Rightarrow> 'w alock_state \<Rightarrow> alock_task \<times> 'w alock_state" where
  "aio_locked S = (\<lambda>(lk, w). (Ended (Inr (lw_get S (lk_name lk) w \<noteq> None)), (lk, w)))"

text \<open>The next piece of a coroutine.\<close>

fun alock_resume :: "'w lock_world \<Rightarrow> nat \<Rightarrow> alock_task \<Rightarrow> 'w alock_state \<Rightarrow> alock_task \<times> 'w alock_state" where
  "alock_resume S t (Attempting token blocking stop) s = aio_do_acquire S token blocking stop s"
| "alock_resume S t (Attempted r token blocking stop) s = aio_attempted S t r token blocking stop s"
| "alock_resume S t (Waiting token blocking stop) s = (Attempting token blocking stop, (fst s, lw_sleep S (lk_sleep (fst s)) (snd s)))"
| "alock_resume S t (Releasing tok) s = aio_do_release S tok s"
| "alock_resume S t (Extending d b) s = aio_do_extend S t d b s"
| "alock_resume S t Reacquiring s = aio_do_reacquire S t s"
| "alock_resume S t AskOwned s = aio_owned S t s"
| "alock_resume S t AskLocked s = aio_locked S s"
| "alock_resume S t (Ended r) s = (Ended r, s)"

text \<open>\<open>async with lock\<close>: entering turns \<open>False\<close> into an error.\<close>

definition aio_enter :: "exc + bool \<Rightarrow> exc + unit" where
  "aio_enter r = (case r of Inl e \<Rightarrow> Inl e
     | Inr b \<Rightarrow> if b then Inr () else Inl (lock_error ''Unable to acquire lock within the time specified''))"

section \<open>Tasks\<close>

text \<open>A task alone in the event loop, at most \<open>n\<close> pieces.\<close>

fun run_alone :: "nat \<Rightarrow> 'w lock_world \<Rightarrow> nat \<Rightarrow> alock_task \<Rightarrow> 'w alock_state \<Rightarrow> ((exc + bool) \<times> 'w alock_state) option" where
  "run_alone n S t (Ended r) s = Some (r, s)"
| "run_alone 0 S t p s = None"
| "run_alone (Suc n) S t p s = (case alock_resume S t p s of (p', s') \<Rightarrow> run_alone n S t p' s')"

text \<open>What a task calls on the lock next, when its last call has ended.\<close>

datatype alock_call = CallAcquire string "bool option" "rat option" | CallRelease | CallExtend rat bool
  | CallReacquire | CallOwned | CallLocked

fun alock_begin :: "'w lock_world \<Rightarrow> nat \<Rightarrow> alock_call \<Rightarrow> 'w alock_state \<Rightarrow> alock_task \<times> 'w alock_state" where
  "alock_begin S t (CallAcquire uuid blocking bt) s = (aio_acquire S uuid blocking bt None s, s)"
| "alock_begin S t CallRelease s = aio_release t s"
| "alock_begin S t (CallExtend d b) s = aio_extend t d b s"
| "alock_begin S t CallReacquire s = aio_reacquire t s"
| "alock_begin S t CallOwned s = (AskOwned, s)"
| "alock_begin S t CallLocked s = (AskLocked, s)"

text \<open>
  The tasks of a loop that share one lock object.
\<close>

record 'w alock_sys =
  as_lock :: lock
  as_world :: 'w
  as_task :: "nat \<Rightarrow> alock_task"

section \<open>A task alone\<close>

lemma run_alone_round:
  "run_alone (3 * n) S t (Attempting token blocking stop) (lk, w) =
     acquire_loop n S t token (lk_sleep lk) blocking stop (lk, w)"
proof (induction n arbitrary: w blocking)
  case (Suc n)
  have fuel: "3 * Suc n = Suc (Suc (Suc (3 * n)))" by simp
  obtain r w1 where set: "lw_set_nx S (lk_name lk) token
      (case lk_timeout lk of None \<Rightarrow> None | Some s \<Rightarrow> if s = 0 then None else Some (millis s)) w = (r, w1)"
    by (metis prod.exhaust)
  then have "aio_do_acquire S token blocking stop (lk, w) = (Attempted r token blocking stop, (lk, w1))"
    "do_acquire S token (lk, w) = (r, (lk, w1))"
    by (simp_all add: aio_do_acquire_def do_acquire_def)
  then show ?case
    unfolding fuel
    by (cases r) (auto simp: aio_attempted_def Suc.IH split: bool.splits)
qed simp

lemma run_alone_Ended [simp]: "run_alone n S t (Ended r) s = Some (r, s)"
  by (cases n) simp_all

definition run_call :: "nat \<Rightarrow> 'w lock_world \<Rightarrow> nat \<Rightarrow> alock_call \<Rightarrow> 'w alock_state \<Rightarrow> ((exc + bool) \<times> 'w alock_state) option" where
  "run_call n S t call s = (case alock_begin S t call s of (p, s') \<Rightarrow> run_alone n S t p s')"

lemma set_token_slot [simp]: "local_slot (set_token t v lk) t' = local_slot lk t'"
  by (simp add: local_slot_def)

lemma run_release: "run_call 2 S t CallRelease s = Some (lock_call_run S t Release s)"
  by (cases s) (auto simp: run_call_def aio_release_def release_lock_def get_token_def bindS_def thenS_def do_release_def
      aio_do_release_def numeral_2_eq_2 split: option.splits prod.splits)

lemma run_extend: "run_call 2 S t (CallExtend d b) s = Some (lock_call_run S t (Extend d b) s)"
  by (cases s) (auto simp: run_call_def aio_extend_def aio_held_def lock_extend_def held_token_def get_token_def bindS_def
      aio_do_extend_def with_token_def numeral_2_eq_2 split: option.splits prod.splits)

lemma run_reacquire: "run_call 2 S t CallReacquire s = Some (lock_call_run S t Reacquire s)"
  by (cases s) (auto simp: run_call_def aio_reacquire_def aio_held_def reacquire_def held_token_def get_token_def bindS_def
      aio_do_reacquire_def with_token_def numeral_2_eq_2 split: option.splits prod.splits)

lemma run_owned: "run_call 2 S t CallOwned s = Some (lock_call_run S t Owned s)"
  by (cases s) (auto simp: run_call_def aio_owned_def owned_def stored_token_def get_token_def bindS_def
      numeral_2_eq_2 split: option.splits prod.splits sum.splits)

lemma run_locked: "run_call 2 S t CallLocked s = Some (lock_call_run S t Locked s)"
  by (cases s) (simp add: run_call_def aio_locked_def locked_def numeral_2_eq_2)

text \<open>A task alone in its event loop has the lock of the synchronous client: \<open>acquire\<close>, attempt by attempt and to the
  same deadline, and each other operation give the same result, leave the same token and do the same to the server.\<close>

theorem aio_lock_alone_is_lock:
  "run_alone (3 * n) S t (aio_acquire S uuid blocking bt token (lk, w)) (lk, w) = acquire n S t uuid None blocking bt token (lk, w) \<and>
   run_call 2 S t CallRelease (lk, w) = Some (lock_call_run S t Release (lk, w)) \<and>
   run_call 2 S t (CallExtend d b) (lk, w) = Some (lock_call_run S t (Extend d b) (lk, w)) \<and>
   run_call 2 S t CallReacquire (lk, w) = Some (lock_call_run S t Reacquire (lk, w)) \<and>
   run_call 2 S t CallOwned (lk, w) = Some (lock_call_run S t Owned (lk, w)) \<and>
   run_call 2 S t CallLocked (lk, w) = Some (lock_call_run S t Locked (lk, w))"
proof -
  have "run_alone (3 * n) S t (aio_acquire S uuid blocking bt token (lk, w)) (lk, w) = acquire n S t uuid None blocking bt token (lk, w)"
    by (auto simp: aio_acquire_def acquire_def run_alone_round split: sum.split option.split)
  then show ?thesis by (simp only: run_release run_extend run_reacquire run_owned run_locked simp_thms)
qed

section \<open>Tasks that share a lock\<close>

text \<open>The token is in no task and not in the lock.\<close>

fun task_token :: "alock_task \<Rightarrow> string option" where
  "task_token (Attempting token b stop) = Some token"
| "task_token (Attempted r token b stop) = Some token"
| "task_token (Waiting token b stop) = Some token"
| "task_token (Releasing token) = Some token"
| "task_token _ = None"

fun alock_call_token :: "alock_call \<Rightarrow> string option" where
  "alock_call_token (CallAcquire uuid b bt) = Some uuid"
| "alock_call_token _ = None"

lemma aio_do_acquire_expiry:
  "aio_do_acquire S token b stop (lk, w) =
     (case lw_set_nx S (lk_name lk) token (expiry lk) w of (r, w') \<Rightarrow> (Attempted r token b stop, (lk, w')))"
  by (simp add: aio_do_acquire_def expiry_def)

definition granted :: "alock_task \<Rightarrow> bool" where
  "granted p = (\<exists>token b stop. p = Attempted (Inr True) token b stop)"

definition foreign_to :: "string \<Rightarrow> 'w alock_sys \<Rightarrow> bool" where
  "foreign_to tok s = (\<not> holds_token tok (as_lock s) \<and> (\<forall>i. task_token (as_task s i) \<noteq> Some tok \<and> \<not> granted (as_task s i)))"

definition not_held_piece :: "'w lock_world \<Rightarrow> string \<Rightarrow> 'w alock_state \<Rightarrow> alock_task \<times> 'w alock_state \<Rightarrow> bool" where
  "not_held_piece S tok s r = (case r of (p, (lk', w')) \<Rightarrow>
     lk_name lk' = lk_name (fst s) \<and> \<not> holds_token tok lk' \<and> task_token p \<noteq> Some tok \<and> \<not> granted p \<and>
     lw_get S (lk_name lk') w' = Some tok)"

lemma holds_tokenD: "\<not> holds_token tok lk \<Longrightarrow> lk_local lk i \<noteq> Some (Some tok)"
  by (simp add: holds_token_def)

lemma begin_foreign:
  assumes key: "lw_get S (lk_name lk) w = Some tok" and new: "\<not> holds_token tok lk" and call: "alock_call_token call \<noteq> Some tok"
  shows "not_held_piece S tok (lk, w) (alock_begin S t call (lk, w))"
  using assms holds_tokenD [OF new, of "local_slot lk t"]
  by (cases call) (auto simp: not_held_piece_def granted_def aio_acquire_def aio_release_def aio_extend_def aio_reacquire_def aio_held_def
      set_token_holds split: option.splits)

lemma resume_foreign:
  assumes laws: "store_laws S" and sleeping: "\<And>d. lw_get S (lk_name lk) (lw_sleep S d w) = lw_get S (lk_name lk) w"
    and key: "lw_get S (lk_name lk) w = Some tok" and new: "\<not> holds_token tok lk"
    and p: "task_token p \<noteq> Some tok" "\<not> granted p"
  shows "not_held_piece S tok (lk, w) (alock_resume S t p (lk, w))"
proof (cases p)
  case (Attempting token b stop)
  obtain r where r: "lw_set_nx S (lk_name lk) token (expiry lk) w = (r, w)" "if expiry_ok lk then r = Inr False else \<exists>e. r = Inl e"
    using set_taken [OF laws, of "lk_name lk" w token lk] key by auto
  then show ?thesis using Attempting assms
    by (auto simp: not_held_piece_def aio_do_acquire_expiry granted_def split: if_splits)
next
  case (Attempted r token b stop)
  then show ?thesis
    using assms by (cases r) (auto simp: not_held_piece_def aio_attempted_def granted_def split: option.splits bool.splits)
next
  case (Releasing token)
  then show ?thesis
    using assms by (auto simp: not_held_piece_def aio_do_release_def LUA_RELEASE_SCRIPT_def granted_def)
next
  case (Extending d b)
  then show ?thesis
    using assms holds_tokenD [OF new, of "local_slot lk t"]
    by (auto simp: not_held_piece_def aio_do_extend_def with_token_def LUA_EXTEND_SCRIPT_def granted_def split: option.splits)
next
  case Reacquiring
  then show ?thesis
    using assms holds_tokenD [OF new, of "local_slot lk t"]
    by (auto simp: not_held_piece_def aio_do_reacquire_def with_token_def LUA_REACQUIRE_SCRIPT_def granted_def split: option.splits)
next
  case AskOwned
  then show ?thesis
    using assms by (auto simp: not_held_piece_def aio_owned_def stored_token_def granted_def split: prod.splits sum.splits)
qed (use assms in \<open>auto simp: not_held_piece_def aio_locked_def granted_def\<close>)

text \<open>A task begins a call, a task runs its next piece, or the world changes; the calls do not bring the token and the
  other clients keep the key.\<close>

inductive alock_step :: "'w lock_world \<Rightarrow> nat \<Rightarrow> string \<Rightarrow> 'w alock_sys \<Rightarrow> 'w alock_sys \<Rightarrow> bool" for S t tok where
  begins: "as_task s i = Ended r \<Longrightarrow> alock_call_token call \<noteq> Some tok \<Longrightarrow>
    alock_begin S t call (as_lock s, as_world s) = (p, (lk, w)) \<Longrightarrow>
    alock_step S t tok s (s\<lparr>as_lock := lk, as_world := w, as_task := (as_task s)(i := p)\<rparr>)"
| resumes: "alock_resume S t (as_task s i) (as_lock s, as_world s) = (p, (lk, w)) \<Longrightarrow>
    alock_step S t tok s (s\<lparr>as_lock := lk, as_world := w, as_task := (as_task s)(i := p)\<rparr>)"
| environment: "lw_get S (lk_name (as_lock s)) w = lw_get S (lk_name (as_lock s)) (as_world s) \<Longrightarrow>
    alock_step S t tok s (s\<lparr>as_world := w\<rparr>)"

definition kept_out :: "'w lock_world \<Rightarrow> string \<Rightarrow> 'w alock_sys \<Rightarrow> bool" where
  "kept_out S tok s = (lw_get S (lk_name (as_lock s)) (as_world s) = Some tok \<and> foreign_to tok s)"

lemma kept_out_piece:
  assumes "kept_out S tok s" "not_held_piece S tok (as_lock s, as_world s) (p, (lk, w))"
  shows "kept_out S tok (s\<lparr>as_lock := lk, as_world := w, as_task := (as_task s)(i := p)\<rparr>)"
  using assms by (auto simp: kept_out_def foreign_to_def not_held_piece_def)

lemma kept_out_step:
  assumes "alock_step S t tok s s'" "store_laws S" "\<forall>k d w. lw_get S k (lw_sleep S d w) = lw_get S k w" "kept_out S tok s"
  shows "kept_out S tok s'"
  using assms
proof (induction rule: alock_step.induct)
  case (begins s i r call p lk w)
  have "not_held_piece S tok (as_lock s, as_world s) (alock_begin S t call (as_lock s, as_world s))"
    by (rule begin_foreign) (use begins in \<open>auto simp: kept_out_def foreign_to_def\<close>)
  then show ?case using begins by (intro kept_out_piece) simp_all
next
  case (resumes s i p lk w)
  have "not_held_piece S tok (as_lock s, as_world s) (alock_resume S t (as_task s i) (as_lock s, as_world s))"
    by (rule resume_foreign) (use resumes in \<open>auto simp: kept_out_def foreign_to_def\<close>)
  then show ?case using resumes by (intro kept_out_piece) simp_all
next
  case (environment s w)
  then show ?case by (simp add: kept_out_def foreign_to_def)
qed

text \<open>C19: While another client's token is stored, the tasks of an event loop stay out, however their pieces interleave and whatever
  they call: the token stays, no task is granted the lock and the lock object never holds that token.\<close>

theorem aio_lock_is_exclusive:
  assumes "(alock_step S t tok)\<^sup>*\<^sup>* s s'" "store_laws S" "\<forall>k d w. lw_get S k (lw_sleep S d w) = lw_get S k w"
    and "lw_get S (lk_name (as_lock s)) (as_world s) = Some tok" "foreign_to tok s"
  shows "lw_get S (lk_name (as_lock s')) (as_world s') = Some tok \<and> (\<forall>i. \<not> granted (as_task s' i)) \<and> \<not> holds_token tok (as_lock s')"
proof -
  have "kept_out S tok s'"
    using assms(1)
  proof (induction rule: rtranclp_induct)
    case base
    show ?case using assms by (simp add: kept_out_def)
  next
    case (step y z)
    then show ?case using kept_out_step assms by blast
  qed
  then show ?thesis by (simp add: kept_out_def foreign_to_def)
qed

definition demo_sys :: "string option \<Rightarrow> toy \<Rightarrow> toy alock_sys" where
  "demo_sys tok w = \<lparr>as_lock = demo_lock tok, as_world = w, as_task = (\<lambda>_. Ended (Inr False))\<rparr>"

lemma demo_sys_fields [simp]:
  "as_lock (demo_sys tok w) = demo_lock tok" "as_world (demo_sys tok w) = w" "as_task (demo_sys tok w) i = Ended (Inr False)"
  by (simp_all add: demo_sys_def)

lemma aio_lock_is_exclusive_witness:
  "\<exists>s'. (alock_step toy_world 0 ''a'')\<^sup>*\<^sup>* (demo_sys None \<lparr>toy_key = [''l'' \<mapsto> ''a''], toy_clock = 0\<rparr>) s' \<and>
    as_task s' 1 = Attempting ''b'' False (Some 3) \<and> toy_key (as_world s') ''l'' = Some ''a''"
proof -
  let ?s = "demo_sys None \<lparr>toy_key = [''l'' \<mapsto> ''a''], toy_clock = 0\<rparr>"
  let ?s' = "?s\<lparr>as_lock := demo_lock None, as_world := \<lparr>toy_key = [''l'' \<mapsto> ''a''], toy_clock = 0\<rparr>,
      as_task := (as_task ?s)(1 := Attempting ''b'' False (Some 3))\<rparr>"
  have "alock_step toy_world 0 ''a'' ?s ?s'"
    by (rule alock_step.begins [where call = "CallAcquire ''b'' (Some False) None"]) (simp_all add: aio_acquire_def toy_world_def)
  then have steps: "(alock_step toy_world 0 ''a'')\<^sup>*\<^sup>* ?s ?s'" by simp
  have "lw_get toy_world (lk_name (as_lock ?s')) (as_world ?s') = Some ''a''"
    using aio_lock_is_exclusive [OF steps toy_laws]
    by (simp add: toy_world_def foreign_to_def granted_def holds_token_def)
  then show ?thesis using steps by (intro exI [of _ ?s']) (simp add: toy_world_def)
qed

text \<open>The token belongs to the event loop: a task that releases the lock frees it although another task acquired it last (say after the
  lock of the first task expired). Between threads the token of the lock is that of the thread, and the release raises and frees nothing.\<close>

theorem tasks_share_the_token:
  assumes laws: "store_laws S" and key: "lw_get S (lk_name lk) w = Some tok"
    and token: "lk_local lk (local_slot lk t) = Some (Some tok)"
    and threads: "lk_thread_local lk" "lk_local lk t' = Some (Some old)" "old \<noteq> tok"
  shows "(\<exists>lk1 w1. run_call 2 S t CallRelease (lk, w) = Some (Inr True, (lk1, w1)) \<and> lw_get S (lk_name lk) w1 = None) \<and>
    (\<exists>lk2. lock_call_run S t' Release (lk, w) = (Inl (not_owned ''release''), (lk2, w)))"
  using assms store_lawsD(3) [OF laws]
  by (auto simp: run_release release_lock_def get_token_def bindS_def thenS_def do_release_def LUA_RELEASE_SCRIPT_def
      local_slot_def)

text \<open>The lock of task 1 has expired and task 2, here the token \<open>b\<close>, holds it; thread 1 has the old token \<open>a\<close>.\<close>

lemma tasks_share_the_token_witness:
  "let lk = (demo_lock (Some ''b''))\<lparr>lk_local := (\<lambda>_. None)(0 := Some (Some ''b''), 1 := Some (Some ''a''))\<rparr>;
       w = \<lparr>toy_key = [''l'' \<mapsto> ''b''], toy_clock = 0\<rparr>
   in (\<exists>lk1 w1. run_call 2 toy_world 0 CallRelease (lk, w) = Some (Inr True, (lk1, w1)) \<and> lw_get toy_world ''l'' w1 = None) \<and>
      (\<exists>lk2. lock_call_run toy_world 1 Release (lk, w) = (Inl (not_owned ''release''), (lk2, w)))"
  using tasks_share_the_token [OF toy_laws, of
      "(demo_lock (Some ''b''))\<lparr>lk_local := (\<lambda>_. None)(0 := Some (Some ''b''), 1 := Some (Some ''a''))\<rparr>"
      "\<lparr>toy_key = [''l'' \<mapsto> ''b''], toy_clock = 0\<rparr>" "''b''" 0 1 "''a''"]
  by (simp add: toy_world_def local_slot_def demo_lock_def new_lock_def Let_def)

end
