(* ===== verification/AsyncPool.thy ===== *)
theory AsyncPool
  imports Pool
begin

text \<open>
  \<open>ConnectionPool\<close> and \<open>BlockingConnectionPool\<close> of the asynchronous client (\<open>redis/asyncio/connection.py\<close>). The
  bookkeeping of a call runs without a wait; the connection is checked afterwards, while other tasks run. The tasks of
  the blocking pool, their queue in the condition variable and its notifications are a step relation. What a pool
  promises to those that take and give back connections is the locale \<open>handout\<close>, which both clients' pools provide.
\<close>

section \<open>ConnectionPool\<close>

text \<open>There is no count of connections made: the limit bounds the connections in use.\<close>

record apool =
  ap_available :: "nat list"
  ap_in_use :: "nat list"
  ap_max :: int
  ap_next :: nat

definition new_apool :: "int option \<Rightarrow> exc + apool" where
  "new_apool m = bindE (max_connections_arg m) (\<lambda>n. Inr \<lparr>ap_available = [], ap_in_use = [], ap_max = n, ap_next = 0\<rparr>)"

definition apool_reset :: "apool \<Rightarrow> apool" where
  "apool_reset p = p\<lparr>ap_available := [], ap_in_use := []\<rparr>"

definition can_get_connection :: "apool \<Rightarrow> bool" where
  "can_get_connection p = (ap_available p \<noteq> [] \<or> int (length (ap_in_use p)) < ap_max p)"

definition aio_make_connection :: "(apool, exc, nat) action" where
  "aio_make_connection = (\<lambda>p. (Inr (ap_next p), p\<lparr>ap_next := Suc (ap_next p)\<rparr>))"

definition add_in_use :: "nat \<Rightarrow> apool \<Rightarrow> apool" where
  "add_in_use c p = p\<lparr>ap_in_use := (if c \<in> set (ap_in_use p) then ap_in_use p else ap_in_use p @ [c])\<rparr>"

definition get_available_connection :: "(apool, exc, nat) action" where
  "get_available_connection =
     bindS (\<lambda>p. if ap_available p \<noteq> [] then (Inr (last (ap_available p)), p\<lparr>ap_available := butlast (ap_available p)\<rparr>)
                else if ap_max p \<le> int (length (ap_in_use p)) then (Inl too_many, p)
                else aio_make_connection p)
       (\<lambda>c. thenS (modS (add_in_use c)) (retS c))"

text \<open>\<open>set.remove\<close> raises for a connection of another pool or one given back before.\<close>

definition apool_release :: "nat \<Rightarrow> (apool, exc, unit) action" where
  "apool_release c = (\<lambda>p.
     if c \<notin> set (ap_in_use p) then (Inl (Exc KeyError ''connection''), p)
     else (Inr (), p\<lparr>ap_in_use := remove1 c (ap_in_use p), ap_available := ap_available p @ [c]\<rparr>))"

definition ensure_connection :: "'w conn_ops \<Rightarrow> nat \<Rightarrow> ('w, exc, unit) action" where
  "ensure_connection env c =
     thenS (op_connect env c)
       (catchS
          (bindS (op_can_read env c) (\<lambda>b. if b then raiseS (Exc ConnectionError ''Connection has data'') else retS ()))
          (\<lambda>e. if isinstance_any e [ConnectionError, OSError] then
                 thenS (op_disconnect env c)
                 (thenS (op_connect env c)
                 (bindS (op_can_read env c) (\<lambda>b.
                    if b then raiseS (Exc ConnectionError ''Connection not ready'') else retS ())))
               else raiseS e))"

text \<open>The pool and the world of the connections.\<close>

definition on_apool :: "(apool, exc, 'a) action \<Rightarrow> (apool \<times> 'w, exc, 'a) action" where
  "on_apool m = (\<lambda>(p, w). case m p of (r, p') \<Rightarrow> (r, (p', w)))"

definition on_conns :: "('w, exc, 'a) action \<Rightarrow> (apool \<times> 'w, exc, 'a) action" where
  "on_conns m = (\<lambda>(p, w). case m w of (r, w') \<Rightarrow> (r, (p, w')))"

definition apool_get_connection :: "'w conn_ops \<Rightarrow> (apool \<times> 'w, exc, nat) action" where
  "apool_get_connection env =
     bindS (on_apool get_available_connection) (\<lambda>c.
       catchS (thenS (on_conns (ensure_connection env c)) (retS c))
         (\<lambda>e. thenS (on_apool (apool_release c)) (raiseS e)))"

text \<open>\<open>gather\<close> with \<open>return_exceptions\<close>: every connection is disconnected, then the first error raised.\<close>

fun gather_disconnects :: "'w conn_ops \<Rightarrow> nat list \<Rightarrow> 'w \<Rightarrow> exc option list \<times> 'w" where
  "gather_disconnects env [] w = ([], w)"
| "gather_disconnects env (c # cs) w = (case op_disconnect env c w of
     (r, w1) \<Rightarrow> (case gather_disconnects env cs w1 of
       (rs, w2) \<Rightarrow> ((case r of Inl e \<Rightarrow> Some e | Inr _ \<Rightarrow> None) # rs, w2)))"

definition apool_disconnect :: "'w conn_ops \<Rightarrow> bool \<Rightarrow> (apool \<times> 'w, exc, unit) action" where
  "apool_disconnect env inuse_connections = (\<lambda>(p, w).
     case gather_disconnects env (if inuse_connections then ap_available p @ ap_in_use p else ap_available p) w of
       (rs, w') \<Rightarrow> (case filter (\<lambda>r. r \<noteq> None) rs of
          Some e # _ \<Rightarrow> (Inl e, (p, w'))
        | _ \<Rightarrow> (Inr (), (p, w'))))"

definition apool_aclose :: "'w conn_ops \<Rightarrow> (apool \<times> 'w, exc, unit) action" where
  "apool_aclose env = apool_disconnect env True"

section \<open>BlockingConnectionPool\<close>

text \<open>
  A task asks for a connection, waits in the condition variable (\<open>Waiting\<close>, in the queue or already notified), checks
  the connection it was given, uses it, or has failed. The lock of the condition is only held between waits, so what
  happens under it is one step.
\<close>

datatype ptask = Idle | Waiting | Checking nat | Using nat | Failed exc

record abpool =
  ab_pool :: apool
  ab_queue :: "nat list"
  ab_woken :: "nat list"
  ab_task :: "nat \<Rightarrow> ptask"

definition no_connection_available :: exc where
  "no_connection_available = Exc ConnectionError ''No connection available.''"

definition set_ptask :: "nat \<Rightarrow> ptask \<Rightarrow> abpool \<Rightarrow> abpool" where
  "set_ptask i t b = b\<lparr>ab_task := (ab_task b)(i := t)\<rparr>"

text \<open>\<open>wait_for\<close> looks whether a connection can be had, and waits at the end of the queue if not.\<close>

definition wait_or_take :: "nat \<Rightarrow> abpool \<Rightarrow> abpool" where
  "wait_or_take i b =
     (if \<not> can_get_connection (ab_pool b) then set_ptask i Waiting (b\<lparr>ab_queue := ab_queue b @ [i]\<rparr>)
      else (case get_available_connection (ab_pool b) of
          (Inl e, p) \<Rightarrow> set_ptask i (Failed e) (b\<lparr>ab_pool := p\<rparr>)
        | (Inr c, p) \<Rightarrow> set_ptask i (Checking c) (b\<lparr>ab_pool := p\<rparr>)))"

definition notify :: "abpool \<Rightarrow> abpool" where
  "notify b = (case ab_queue b of [] \<Rightarrow> b | i # q \<Rightarrow> b\<lparr>ab_queue := q, ab_woken := ab_woken b @ [i]\<rparr>)"

definition abpool_release :: "nat \<Rightarrow> ptask \<Rightarrow> nat \<Rightarrow> abpool \<Rightarrow> abpool" where
  "abpool_release i after c b = (case apool_release c (ab_pool b) of
       (Inl e, p) \<Rightarrow> set_ptask i (Failed e) (b\<lparr>ab_pool := p\<rparr>)
     | (Inr _, p) \<Rightarrow> set_ptask i after (notify (b\<lparr>ab_pool := p\<rparr>)))"

definition expire :: "nat \<Rightarrow> abpool \<Rightarrow> abpool" where
  "expire i b = set_ptask i (Failed no_connection_available) (b\<lparr>ab_queue := remove1 i (ab_queue b)\<rparr>)"

text \<open>
  The steps of the tasks. A waiter's time runs out, or its task is cancelled, while it is in the queue; a waiter
  that was already notified goes on.
\<close>

inductive abpool_step :: "abpool \<Rightarrow> abpool \<Rightarrow> bool" where
  asks: "ab_task b i = Idle \<or> ab_task b i = Failed e \<Longrightarrow> abpool_step b (wait_or_take i b)"
| resumes: "i \<in> set (ab_woken b) \<Longrightarrow> abpool_step b (wait_or_take i (b\<lparr>ab_woken := remove1 i (ab_woken b)\<rparr>))"
| expires: "i \<in> set (ab_queue b) \<Longrightarrow> abpool_step b (expire i b)"
| checks: "ab_task b i = Checking c \<Longrightarrow> abpool_step b (set_ptask i (Using c) b)"
| check_fails: "ab_task b i = Checking c \<Longrightarrow> abpool_step b (abpool_release i (Failed e) c b)"
| gives_back: "ab_task b i = Using c \<Longrightarrow> abpool_step b (abpool_release i Idle c b)"

inductive_cases abpool_stepE: "abpool_step b b'"

definition start_abpool :: "apool \<Rightarrow> abpool" where
  "start_abpool p = \<lparr>ab_pool = p, ab_queue = [], ab_woken = [], ab_task = (\<lambda>_. Idle)\<rparr>"

section \<open>What a pool promises\<close>

text \<open>
  \<open>take\<close> hands out a connection that is not in use, or fails and changes nothing; \<open>give\<close> makes one that is in
  use free. A client is a set of holders; it hands back what it holds.
\<close>

locale handout =
  fixes ok :: "'p \<Rightarrow> bool" and used :: "'p \<Rightarrow> 'c list"
    and take_one :: "'p \<Rightarrow> (exc + 'c) \<times> 'p" and give :: "'c \<Rightarrow> 'p \<Rightarrow> (exc + unit) \<times> 'p"
  assumes take_new: "ok p \<Longrightarrow> take_one p = (Inr c, p') \<Longrightarrow> ok p' \<and> c \<notin> set (used p) \<and> used p' = used p @ [c]"
    and take_fails: "ok p \<Longrightarrow> take_one p = (Inl e, p') \<Longrightarrow> p' = p"
    and give_back: "ok p \<Longrightarrow> c \<in> set (used p) \<Longrightarrow> \<exists>p'. give c p = (Inr (), p') \<and> ok p' \<and> used p' = remove1 c (used p)"
    and used_distinct: "ok p \<Longrightarrow> distinct (used p)"
begin

text \<open>The holders hold different connections, and exactly those in use.\<close>

definition shares :: "'p \<Rightarrow> (nat \<Rightarrow> 'c option) \<Rightarrow> bool" where
  "shares p h \<longleftrightarrow> ok p \<and> (\<forall>i j c. h i = Some c \<longrightarrow> h j = Some c \<longrightarrow> i = j) \<and> set (used p) = {c. \<exists>i. h i = Some c}"

lemma shares_take:
  assumes "shares p h" "h i = None" "take_one p = (Inr c, p')"
  shows "shares p' (h(i := Some c))"
proof -
  have new: "ok p'" "c \<notin> set (used p)" "used p' = used p @ [c]" using take_new assms unfolding shares_def by blast+
  have "{d. \<exists>j. (h(i := Some c)) j = Some d} = insert c {d. \<exists>j. h j = Some d}"
    using assms(2) by (auto split: if_splits) (metis option.distinct(1))
  then show ?thesis using assms(1,2) new unfolding shares_def by (auto split: if_splits)
qed

lemma shares_give:
  assumes "shares p h" "h i = Some c"
  shows "\<exists>p'. give c p = (Inr (), p') \<and> shares p' (h(i := None)) \<and> used p' = remove1 c (used p)"
proof -
  have used: "ok p" "c \<in> set (used p)" using assms unfolding shares_def by auto
  then obtain p' where p': "give c p = (Inr (), p')" "ok p'" "used p' = remove1 c (used p)" using give_back by blast
  have "set (used p') = set (used p) - {c}" using p'(3) used_distinct [OF used(1)] by simp
  moreover have "{d. \<exists>j. (h(i := None)) j = Some d} = {d. \<exists>j. h j = Some d} - {c}"
  proof (rule set_eqI)
    fix d
    have "\<And>j. h j = Some c \<Longrightarrow> j = i" using assms unfolding shares_def by blast
    then have "(\<exists>j. j \<noteq> i \<and> h j = Some d) \<longleftrightarrow> (\<exists>j. h j = Some d) \<and> d \<noteq> c"
      using assms(2) by (metis option.inject)
    moreover have "(h(i := None)) j = Some d \<longleftrightarrow> j \<noteq> i \<and> h j = Some d" for j by simp
    ultimately show "d \<in> {d. \<exists>j. (h(i := None)) j = Some d} \<longleftrightarrow> d \<in> {d. \<exists>j. h j = Some d} - {c}"
      by simp
  qed
  ultimately have "shares p' (h(i := None))" using assms p'(2) unfolding shares_def by (auto split: if_splits)
  with p' show ?thesis by blast
qed

end

subsection \<open>The synchronous pool\<close>

interpretation sync_pool: handout "pool_inv pid" pl_in_use "take_connection pid" "release env pid"
proof
  show "pool_inv pid p' \<and> c \<notin> set (pl_in_use p) \<and> pl_in_use p' = pl_in_use p @ [c]"
    if "pool_inv pid p" "take_connection pid p = (Inr c, p')" for p c p'
    using take_connection_spec [OF that] by simp
  show "p' = p" if "pool_inv pid p" "take_connection pid p = (Inl e, p')" for p e p'
    using take_connection_spec [OF that] by simp
  show "\<exists>p'. release env pid c p = (Inr (), p') \<and> pool_inv pid p' \<and> pl_in_use p' = remove1 c (pl_in_use p)"
    if "pool_inv pid p" "c \<in> set (pl_in_use p)" for p c
    using release_inv [OF that, of env] by blast
  show "distinct (pl_in_use p)" if "pool_inv pid p" for p
    using that by (simp add: pool_inv_def)
qed

subsection \<open>The asynchronous pool\<close>

definition apool_inv :: "apool \<Rightarrow> bool" where
  "apool_inv p \<longleftrightarrow> distinct (ap_available p @ ap_in_use p) \<and> (\<forall>c \<in> set (ap_available p @ ap_in_use p). c < ap_next p) \<and>
     int (length (ap_available p) + length (ap_in_use p)) \<le> ap_max p"

lemma apool_take:
  assumes "apool_inv p"
  shows "if can_get_connection p then
      (\<exists>c p'. get_available_connection p = (Inr c, p') \<and> apool_inv p' \<and> c \<notin> set (ap_in_use p) \<and> ap_in_use p' = ap_in_use p @ [c] \<and> ap_max p' = ap_max p)
    else get_available_connection p = (Inl too_many, p) \<and> int (length (ap_in_use p)) = ap_max p"
proof (cases "ap_available p = []")
  case True
  have "ap_next p \<notin> set (ap_in_use p)" using assms by (auto simp: apool_inv_def)
  then show ?thesis
    using True assms
    by (auto simp: get_available_connection_def can_get_connection_def aio_make_connection_def bindS_def thenS_def add_in_use_def apool_inv_def less_Suc_eq)
next
  case False
  then obtain xs x where x: "ap_available p = xs @ [x]" by (meson rev_exhaust)
  then show ?thesis
    using assms by (auto simp: get_available_connection_def can_get_connection_def bindS_def thenS_def add_in_use_def apool_inv_def)
qed

lemma apool_give:
  assumes "apool_inv p" "c \<in> set (ap_in_use p)"
  shows "\<exists>p'. apool_release c p = (Inr (), p') \<and> apool_inv p' \<and> ap_in_use p' = remove1 c (ap_in_use p) \<and> ap_max p' = ap_max p"
proof -
  have "Suc (length (remove1 c (ap_in_use p))) = length (ap_in_use p)"
    using assms(2) by (simp add: length_remove1) (metis Suc_pred length_pos_if_in_set)
  then show ?thesis
    using assms by (auto simp: apool_release_def apool_inv_def dest: notin_set_remove1)
qed

interpretation aio_pool: handout apool_inv ap_in_use get_available_connection apool_release
proof
  show "apool_inv p' \<and> c \<notin> set (ap_in_use p) \<and> ap_in_use p' = ap_in_use p @ [c]"
    if "apool_inv p" "get_available_connection p = (Inr c, p')" for p c p'
    using apool_take [OF that(1)] that(2) by (auto split: if_splits)
  show "p' = p" if "apool_inv p" "get_available_connection p = (Inl e, p')" for p e p'
    using apool_take [OF that(1)] that(2) by (auto split: if_splits)
  show "\<exists>p'. apool_release c p = (Inr (), p') \<and> apool_inv p' \<and> ap_in_use p' = remove1 c (ap_in_use p)"
    if "apool_inv p" "c \<in> set (ap_in_use p)" for p c
    using apool_give [OF that] by blast
  show "distinct (ap_in_use p)" if "apool_inv p" for p
    using that by (simp add: apool_inv_def)
qed

lemma new_apool_inv: "new_apool m = Inr p \<Longrightarrow> apool_inv p"
  by (auto simp: new_apool_def bindE_eq_Inr max_connections_arg_def apool_inv_def Let_def split: option.splits if_splits)

section \<open>The tasks of the blocking pool\<close>

fun ptask_conn :: "ptask \<Rightarrow> nat option" where
  "ptask_conn (Checking c) = Some c"
| "ptask_conn (Using c) = Some c"
| "ptask_conn _ = None"

definition ab_held :: "abpool \<Rightarrow> nat \<Rightarrow> nat option" where
  "ab_held b i = ptask_conn (ab_task b i)"

text \<open>
  The tasks share the pool; who waits is in the queue or notified, once; and while somebody is in the queue, at
  least as many tasks are notified as connections can be had.
\<close>

definition ab_inv :: "abpool \<Rightarrow> bool" where
  "ab_inv b \<longleftrightarrow> aio_pool.shares (ab_pool b) (ab_held b) \<and> distinct (ab_queue b @ ab_woken b) \<and>
     (\<forall>i. ab_task b i = Waiting \<longleftrightarrow> i \<in> set (ab_queue b @ ab_woken b)) \<and>
     (ab_queue b \<noteq> [] \<longrightarrow> ap_max (ab_pool b) - int (length (ap_in_use (ab_pool b))) \<le> int (length (ab_woken b)))"

lemma shares_inv: "aio_pool.shares p h \<Longrightarrow> apool_inv p"
  by (simp add: aio_pool.shares_def)

lemma length_remove1_in: "x \<in> set xs \<Longrightarrow> Suc (length (remove1 x xs)) = length xs"
  by (simp add: length_remove1) (metis Suc_pred length_pos_if_in_set)

lemma ab_held_upd: "ab_held (b\<lparr>ab_task := (ab_task b')(i := t)\<rparr>) = (ab_held b')(i := ptask_conn t)"
  by (rule ext) (simp add: ab_held_def)

lemma ab_held_cong [simp]: "ab_held (b\<lparr>ab_queue := q\<rparr>) = ab_held b" "ab_held (b\<lparr>ab_woken := ws\<rparr>) = ab_held b" "ab_held (b\<lparr>ab_pool := p\<rparr>) = ab_held b"
  by (simp_all add: ab_held_def fun_eq_iff)

lemma not_waiting: "ab_inv b \<Longrightarrow> ab_task b i \<noteq> Waiting \<Longrightarrow> i \<notin> set (ab_queue b @ ab_woken b)"
  by (simp add: ab_inv_def)

text \<open>Waiting or taking keeps the invariant, for a task that is nowhere in the condition.\<close>

lemma wait_or_take_inv:
  assumes shares: "aio_pool.shares (ab_pool b) (ab_held b)" and queue: "distinct (ab_queue b @ ab_woken b)"
    and others: "\<forall>j. j \<noteq> i \<longrightarrow> (ab_task b j = Waiting \<longleftrightarrow> j \<in> set (ab_queue b @ ab_woken b))"
    and new: "i \<notin> set (ab_queue b @ ab_woken b)" "ab_held b i = None"
    and woken: "can_get_connection (ab_pool b) \<Longrightarrow> ab_queue b \<noteq> [] \<Longrightarrow>
        ap_max (ab_pool b) - int (length (ap_in_use (ab_pool b))) \<le> int (length (ab_woken b)) + 1"
  shows "ab_inv (wait_or_take i b)"
proof -
  let ?p = "ab_pool b"
  note ap = apool_take [OF shares_inv [OF shares]]
  have same: "(ab_held b)(i := None) = ab_held b" using new(2) by auto
  show ?thesis
  proof (cases "can_get_connection ?p")
    case False
    then have "int (length (ap_in_use ?p)) = ap_max ?p" using ap by simp
    then show ?thesis
      using False assms same
      by (auto simp: wait_or_take_def set_ptask_def ab_inv_def ab_held_upd)
  next
    case True
    then obtain c p' where c: "get_available_connection ?p = (Inr c, p')" "ap_in_use p' = ap_in_use ?p @ [c]" "ap_max p' = ap_max ?p"
      using ap by auto
    have "aio_pool.shares p' ((ab_held b)(i := Some c))"
      by (rule aio_pool.shares_take [OF shares new(2) c(1)])
    then show ?thesis
      using True c assms by (auto simp: wait_or_take_def set_ptask_def ab_inv_def ab_held_upd)
  qed
qed

lemma abpool_release_inv:
  assumes inv: "ab_inv b" and c: "ab_held b i = Some c" and after: "ptask_conn after = None" "after \<noteq> Waiting"
  shows "ab_inv (abpool_release i after c b)"
proof -
  have shares: "aio_pool.shares (ab_pool b) (ab_held b)" using inv by (simp add: ab_inv_def)
  then obtain p' where p': "apool_release c (ab_pool b) = (Inr (), p')" "aio_pool.shares p' ((ab_held b)(i := None))"
    and used: "ap_in_use p' = remove1 c (ap_in_use (ab_pool b))"
    using aio_pool.shares_give [of "ab_pool b" "ab_held b" i c] c by blast
  have "c \<in> set (ap_in_use (ab_pool b))" using shares c unfolding aio_pool.shares_def by auto
  then have n: "int (length (ap_in_use (ab_pool b))) = int (length (ap_in_use p')) + 1"
    using length_remove1_in used by fastforce
  have max': "ap_max p' = ap_max (ab_pool b)" using p'(1) by (auto simp: apool_release_def split: if_splits)
  have i: "i \<notin> set (ab_queue b @ ab_woken b)" by (rule not_waiting [OF inv]) (use c in \<open>auto simp: ab_held_def\<close>)
  show ?thesis
  proof (cases "ab_queue b")
    case Nil
    then show ?thesis
      using p' inv i after by (auto simp: abpool_release_def set_ptask_def notify_def ab_inv_def ab_held_upd)
  next
    case (Cons j q)
    then show ?thesis
      using p' inv i after n max' by (auto simp: abpool_release_def set_ptask_def notify_def ab_inv_def ab_held_upd)
  qed
qed

lemma expire_inv:
  assumes "ab_inv b" "i \<in> set (ab_queue b)"
  shows "ab_inv (expire i b)"
proof -
  have i: "ab_task b i = Waiting" using assms by (auto simp: ab_inv_def)
  then have "(ab_held b)(i := None) = ab_held b" by (auto simp: ab_held_def)
  then show ?thesis
    using assms i by (auto simp: expire_def set_ptask_def ab_inv_def ab_held_upd dest: notin_set_remove1)
qed

lemma checks_inv:
  assumes "ab_inv b" "ab_task b i = Checking c"
  shows "ab_inv (set_ptask i (Using c) b)"
proof -
  have "(ab_held b)(i := Some c) = ab_held b" using assms(2) by (auto simp: ab_held_def)
  moreover have "i \<notin> set (ab_queue b @ ab_woken b)" by (rule not_waiting) (use assms in simp_all)
  ultimately show ?thesis using assms by (auto simp: set_ptask_def ab_inv_def ab_held_upd)
qed

lemma abpool_step_inv:
  assumes "abpool_step b b'" "ab_inv b"
  shows "ab_inv b' \<and> ap_max (ab_pool b') = ap_max (ab_pool b)"
proof
  show "ab_inv b'"
    using assms
  proof (induction rule: abpool_step.induct)
    case (asks b i e)
    then have "ab_held b i = None" by (auto simp: ab_held_def)
    moreover have "i \<notin> set (ab_queue b @ ab_woken b)" by (rule not_waiting) (use asks in auto)
    ultimately show ?case using asks.prems by (intro wait_or_take_inv) (auto simp: ab_inv_def)
  next
    case (resumes i b)
    then have t: "ab_task b i = Waiting" by (auto simp: ab_inv_def)
    show ?case
      using resumes t length_remove1_in [OF resumes.hyps]
      by (intro wait_or_take_inv) (auto simp: ab_inv_def ab_held_def distinct_remove1 dest: notin_set_remove1 in_set_remove1)
  next
    case (check_fails b i c e)
    then show ?case by (intro abpool_release_inv) (auto simp: ab_held_def)
  next
    case (gives_back b i c)
    then show ?case by (intro abpool_release_inv) (auto simp: ab_held_def)
  qed (use expire_inv checks_inv in auto)
  show "ap_max (ab_pool b') = ap_max (ab_pool b)"
    using assms(1)
    by (induction rule: abpool_step.induct)
      (auto simp: wait_or_take_def set_ptask_def get_available_connection_def bindS_def thenS_def add_in_use_def aio_make_connection_def
        expire_def abpool_release_def apool_release_def notify_def split: prod.splits sum.splits if_splits list.splits)
qed

lemma abpool_steps_inv:
  assumes "abpool_step\<^sup>*\<^sup>* b b'" "ab_inv b"
  shows "ab_inv b' \<and> ap_max (ab_pool b') = ap_max (ab_pool b)"
  using assms by (induction rule: rtranclp_induct) (auto dest: abpool_step_inv)

lemma start_abpool_inv: "new_apool m = Inr p \<Longrightarrow> ab_inv (start_abpool p)"
  using new_apool_inv
  by (auto simp: start_abpool_def ab_inv_def aio_pool.shares_def ab_held_def new_apool_def bindE_eq_Inr)

text \<open>C16: However the tasks of a \<open>BlockingConnectionPool\<close> interleave, wait, time out and fail: two tasks never have the same
  connection, what a task has is in use, and no more than \<open>max_connections\<close> exist.\<close>

theorem tasks_never_share_connections:
  assumes "new_apool m = Inr p" "abpool_step\<^sup>*\<^sup>* (start_abpool p) b" "ab_held b i = Some c"
  shows "(\<forall>j. ab_held b j = Some c \<longrightarrow> j = i) \<and> c \<in> set (ap_in_use (ab_pool b)) \<and> c \<notin> set (ap_available (ab_pool b)) \<and>
    int (length (ap_available (ab_pool b)) + length (ap_in_use (ab_pool b))) \<le> ap_max p"
proof -
  have inv: "ab_inv b" "ap_max (ab_pool b) = ap_max p"
    using abpool_steps_inv [OF assms(2) start_abpool_inv [OF assms(1)]] by (simp_all add: start_abpool_def)
  then have "aio_pool.shares (ab_pool b) (ab_held b)" by (simp add: ab_inv_def)
  then show ?thesis using assms(3) inv(2) unfolding aio_pool.shares_def apool_inv_def by auto
qed

text \<open>A wakeup is not lost: when a task waits in the queue of a \<open>BlockingConnectionPool\<close> and no notified task is about to run, all
  \<open>max_connections\<close> connections are with tasks, each of which gives back what it has and then notifies.\<close>

theorem waiting_means_full:
  assumes "new_apool m = Inr p" "abpool_step\<^sup>*\<^sup>* (start_abpool p) b" "ab_queue b \<noteq> []" "ab_woken b = []"
  shows "int (length (ap_in_use (ab_pool b))) = ap_max p \<and> (\<forall>c \<in> set (ap_in_use (ab_pool b)). \<exists>i. ab_held b i = Some c) \<and>
    (\<forall>i c. ab_task b i = Using c \<longrightarrow> hd (ab_queue b) \<in> set (ab_woken (abpool_release i Idle c b)))"
proof -
  have inv: "ab_inv b" "ap_max (ab_pool b) = ap_max p"
    using abpool_steps_inv [OF assms(2) start_abpool_inv [OF assms(1)]] by (simp_all add: start_abpool_def)
  then have s: "aio_pool.shares (ab_pool b) (ab_held b)" by (simp add: ab_inv_def)
  have full: "int (length (ap_in_use (ab_pool b))) = ap_max p"
    using inv assms(3,4) shares_inv [OF s] by (auto simp: ab_inv_def apool_inv_def)
  have gives: "hd (ab_queue b) \<in> set (ab_woken (abpool_release i Idle c b))" if "ab_task b i = Using c" for i c
  proof -
    have "ab_held b i = Some c" using that by (simp add: ab_held_def)
    then obtain p' where "apool_release c (ab_pool b) = (Inr (), p')" using aio_pool.shares_give [OF s] by blast
    then show ?thesis using assms(3) by (auto simp: abpool_release_def set_ptask_def notify_def neq_Nil_conv)
  qed
  have held: "\<forall>c \<in> set (ap_in_use (ab_pool b)). \<exists>i. ab_held b i = Some c" using s unfolding aio_pool.shares_def by auto
  show ?thesis using full gives held by blast
qed

text \<open>Two tasks and one connection: the second waits.\<close>

definition one_pool :: apool where
  "one_pool = \<lparr>ap_available = [], ap_in_use = [], ap_max = 1, ap_next = 0\<rparr>"

definition demo_waiting :: abpool where
  "demo_waiting = wait_or_take 1 (set_ptask 0 (Using 0) (wait_or_take 0 (start_abpool one_pool)))"

lemma one_pool_new: "new_apool (Some 1) = Inr one_pool"
  by (simp add: new_apool_def max_connections_arg_def one_pool_def)

lemma one_pool_take: "wait_or_take 0 (start_abpool one_pool) =
    \<lparr>ab_pool = \<lparr>ap_available = [], ap_in_use = [0], ap_max = 1, ap_next = 1\<rparr>, ab_queue = [], ab_woken = [], ab_task = (\<lambda>_. Idle)(0 := Checking 0)\<rparr>"
  by (simp add: wait_or_take_def start_abpool_def one_pool_def can_get_connection_def get_available_connection_def
      aio_make_connection_def bindS_def thenS_def add_in_use_def set_ptask_def)

lemma demo_waiting_eq: "demo_waiting =
    \<lparr>ab_pool = \<lparr>ap_available = [], ap_in_use = [0], ap_max = 1, ap_next = 1\<rparr>, ab_queue = [1], ab_woken = [], ab_task = (\<lambda>_. Idle)(0 := Using 0, 1 := Waiting)\<rparr>"
  unfolding demo_waiting_def one_pool_take by (simp add: wait_or_take_def can_get_connection_def set_ptask_def)

lemma demo_waiting_reached: "abpool_step\<^sup>*\<^sup>* (start_abpool one_pool) demo_waiting"
proof -
  let ?b1 = "wait_or_take 0 (start_abpool one_pool)"
  have "abpool_step (start_abpool one_pool) ?b1" by (rule abpool_step.asks) (simp add: start_abpool_def)
  moreover have "abpool_step ?b1 (set_ptask 0 (Using 0) ?b1)" by (rule abpool_step.checks) (simp add: one_pool_take)
  moreover have "abpool_step (set_ptask 0 (Using 0) ?b1) demo_waiting"
    unfolding demo_waiting_def by (rule abpool_step.asks) (simp add: one_pool_take set_ptask_def)
  ultimately show ?thesis
    by (rule converse_rtranclp_into_rtranclp [OF _ converse_rtranclp_into_rtranclp [OF _ r_into_rtranclp]])
qed

lemma tasks_never_share_connections_witness:
  "ab_held demo_waiting 1 \<noteq> Some 0 \<and> 0 \<notin> set (ap_available (ab_pool demo_waiting))"
  using tasks_never_share_connections [OF one_pool_new demo_waiting_reached, of 0 0] by (simp add: ab_held_def demo_waiting_eq)

lemma waiting_means_full_witness:
  "int (length (ap_in_use (ab_pool demo_waiting))) = 1 \<and> 1 \<in> set (ab_woken (abpool_release 0 Idle 0 demo_waiting))"
  using waiting_means_full [OF one_pool_new demo_waiting_reached] by (simp add: demo_waiting_eq one_pool_def)

section \<open>Closing\<close>

text \<open>Closing an asynchronous pool disconnects every connection also when some fail, and raises the first error; the synchronous
  pool stops at the first connection that fails.\<close>

theorem aio_disconnects_all:
  assumes "\<And>c w. op_disconnect env c w = (if c \<in> bad then Inl (Exc OSError ''bad'') else Inr (), w @ [c])"
  shows "apool_disconnect env True (p, w) =
    (if set (ap_available p @ ap_in_use p) \<inter> bad = {} then Inr () else Inl (Exc OSError ''bad''), (p, w @ ap_available p @ ap_in_use p))"
proof -
  have g: "gather_disconnects env cs w = (map (\<lambda>c. if c \<in> bad then Some (Exc OSError ''bad'') else None) cs, w @ cs)" for cs w
    by (induction cs arbitrary: w) (simp_all add: assms)
  have f: "filter (\<lambda>r. r \<noteq> None) (map (\<lambda>c. if c \<in> bad then Some (Exc OSError ''bad'') else None) cs)
      = replicate (length (filter (\<lambda>c. c \<in> bad) cs)) (Some (Exc OSError ''bad''))" for cs
    by (induction cs) auto
  have "(case filter (\<lambda>r. r \<noteq> None) (map (\<lambda>c. if c \<in> bad then Some (Exc OSError ''bad'') else None) cs) of
       Some e # _ \<Rightarrow> (Inl e, x) | _ \<Rightarrow> (Inr (), x)) = (if set cs \<inter> bad = {} then Inr () else Inl (Exc OSError ''bad''), x)" for cs and x :: "apool \<times> 'a list"
  proof (cases "filter (\<lambda>c. c \<in> bad) cs")
    case Nil
    then have "set cs \<inter> bad = {}" by (auto simp: filter_empty_conv)
    with Nil show ?thesis unfolding f by simp
  next
    case (Cons y ys)
    then have "y \<in> set cs \<inter> bad" by (metis (no_types, lifting) IntI list.set_intros(1) mem_Collect_eq set_filter)
    then have "set cs \<inter> bad \<noteq> {}" by blast
    with Cons show ?thesis unfolding f by simp
  qed
  then show ?thesis by (simp only: apool_disconnect_def g if_True prod.case)
qed

lemma aio_disconnects_all_witness:
  "apool_disconnect \<lparr>op_connect = \<lambda>_. retS (), op_can_read = \<lambda>_. retS False,
       op_disconnect = \<lambda>c w. (if c \<in> {0} then Inl (Exc OSError ''bad'') else Inr (), w @ [c])\<rparr> True
     (\<lparr>ap_available = [0, 1], ap_in_use = [2], ap_max = 5, ap_next = 3\<rparr>, []) =
   (Inl (Exc OSError ''bad''), (\<lparr>ap_available = [0, 1], ap_in_use = [2], ap_max = 5, ap_next = 3\<rparr>, [0, 1, 2]))"
  using aio_disconnects_all [of "\<lparr>op_connect = \<lambda>_. retS (), op_can_read = \<lambda>_. retS False,
       op_disconnect = \<lambda>c w. (if c \<in> {0} then Inl (Exc OSError ''bad'') else Inr (), w @ [c])\<rparr>" "{0}"
     "\<lparr>ap_available = [0, 1], ap_in_use = [2], ap_max = 5, ap_next = 3\<rparr>" "[]"] by simp

end
