(* ===== verification/AsyncConnection.thy ===== *)
theory AsyncConnection
  imports Connection
begin

text \<open>
  The connection of the asynchronous client (\<open>redis/asyncio/connection.py\<close>, \<open>redis/asyncio/retry.py\<close>):
  opening over TCP or a Unix socket, the handshake with its pipelined last part, health checks, sending, reading with
  a time limit and closing. The streams of \<open>asyncio\<close>, the parser, the packer and the clock are an argument. An
  expired \<open>async_timeout\<close> is \<open>SocketTimeout\<close>. The state is that of \<open>Connection\<close>; \<open>cx_sock\<close> tells that the
  reader and the writer are set.
\<close>

section \<open>Retries\<close>

definition aio_new_retry :: "backoff_policy \<Rightarrow> int \<Rightarrow> retry" where
  "aio_new_retry p n = \<lparr>rt_backoff = new_backoff p, rt_retries = n, rt_supported = [ConnectionError, TimeoutError]\<rparr>"

text \<open>The loop is the one of \<open>redis/retry.py\<close> with the operation, its handler and the sleep awaited.\<close>

definition aio_call_with_retry ::
  "retry \<Rightarrow> (nat \<Rightarrow> rat) \<Rightarrow> (rat \<Rightarrow> 's \<Rightarrow> 's) \<Rightarrow> ('s, 'a) run \<Rightarrow> (exc \<Rightarrow> ('s, unit) run) \<Rightarrow> ('s, 'a) run" where
  "aio_call_with_retry r rnd slp op fail = call_with_retryP r rnd slp op fail"

text \<open>The retry object of a connection; with \<open>retry_on_timeout\<close> three classes of timeouts are added, two of which are one.\<close>

definition aio_connection_retry :: "retry option \<Rightarrow> exc_class list option \<Rightarrow> bool \<Rightarrow> retry" where
  "aio_connection_retry retry on_error on_timeout =
     (let es = (case on_error of None \<Rightarrow> [] | Some es \<Rightarrow> es) @ (if on_timeout then [TimeoutError, SocketTimeout, SocketTimeout] else []) in
      if retry \<noteq> None \<or> es \<noteq> [] then
        update_supported_errors (case retry of None \<Rightarrow> aio_new_retry NoBackoff 1 | Some r \<Rightarrow> r) es
      else aio_new_retry NoBackoff 0)"

section \<open>State and environment\<close>

text \<open>\<open>ay_write\<close> is \<open>writelines\<close> and \<open>drain\<close>; \<open>ay_read limit p3 d push\<close> reads a response within a limit of seconds.\<close>

record 'w anet =
  ay_open :: "('w, exc, unit) action"
  ay_nodelay :: "('w, exc, unit) action"
  ay_keepalive :: "('w, exc, unit) action"
  ay_parser_start :: "('w, exc, unit) action"
  ay_parser_stop :: "('w, exc, unit) action"
  ay_close :: "('w, exc, unit) action"
  ay_wait_closed :: "('w, exc, unit) action"
  ay_write :: "pyval list \<Rightarrow> ('w, exc, unit) action"
  ay_read :: "rat option \<Rightarrow> bool \<Rightarrow> bool \<Rightarrow> bool option \<Rightarrow> ('w, exc, pyval) action"
  ay_can_read :: "('w, exc, bool) action"
  ay_pack :: "pyval list \<Rightarrow> exc + pyval list"
  ay_now :: "'w \<Rightarrow> rat"
  ay_rnd :: "nat \<Rightarrow> rat"
  ay_sleep :: "rat \<Rightarrow> 'w \<Rightarrow> 'w"
  ay_callback :: "nat \<Rightarrow> ('w connection, unit) run option"

text \<open>\<open>self.protocol\<close> is the argument itself, not the number it was converted to.\<close>

record 'w aio_config =
  ac_db :: pyval
  ac_client_name :: "string option"
  ac_lib_name :: "string option"
  ac_lib_version :: "string option"
  ac_provider :: "('w, exc, string list) action option"
  ac_username :: "string option"
  ac_password :: "string option"
  ac_socket_timeout :: "rat option"
  ac_connect_timeout :: "rat option"
  ac_retry :: retry
  ac_health_check_interval :: rat
  ac_connect_func :: "('w connection, unit) run option"
  ac_protocol :: pyval
  ac_unix :: bool
  ac_host_error :: string

definition new_aio_config ::
  "pyval \<Rightarrow> string option \<Rightarrow> string option \<Rightarrow> string option \<Rightarrow> ('w, exc, string list) action option \<Rightarrow>
   string option \<Rightarrow> string option \<Rightarrow> rat option \<Rightarrow> rat option \<Rightarrow> retry option \<Rightarrow> exc_class list option \<Rightarrow> bool \<Rightarrow> rat \<Rightarrow>
   ('w connection, unit) run option \<Rightarrow> pyval \<Rightarrow> bool \<Rightarrow> string \<Rightarrow> exc + 'w aio_config" where
  "new_aio_config db client_name lib_name lib_version provider username password socket_timeout connect_timeout
       retry on_error on_timeout interval func protocol unix host =
     (if (filled username \<or> filled password) \<and> provider \<noteq> None then Inl both_credentials
      else bindE (protocol_arg protocol) (\<lambda>_. Inr
        \<lparr>ac_db = db, ac_client_name = client_name, ac_lib_name = lib_name, ac_lib_version = lib_version,
         ac_provider = provider, ac_username = username, ac_password = password, ac_socket_timeout = socket_timeout,
         ac_connect_timeout = (case connect_timeout of None \<Rightarrow> socket_timeout | Some t \<Rightarrow> Some t),
         ac_retry = aio_connection_retry retry on_error on_timeout, ac_health_check_interval = interval,
         ac_connect_func = func, ac_protocol = protocol, ac_unix = unix, ac_host_error = host\<rparr>))"

definition new_aio_connection :: "'w \<Rightarrow> 'w connection" where
  "new_aio_connection w =
     \<lparr>cx_sock = False, cx_parser3 = False, cx_next_check = - 1, cx_metadata = PNone, cx_callbacks = [], cx_world = w\<rparr>"

text \<open>\<open>self.protocol not in [2, "2"]\<close> and \<open>self.protocol in ["3", 3]\<close>.\<close>

definition speaks2 :: "'w aio_config \<Rightarrow> bool" where
  "speaks2 c = (py_key_eq (ac_protocol c) (PInt 2) \<or> py_key_eq (ac_protocol c) (PStr ''2''))"

definition speaks3 :: "'w aio_config \<Rightarrow> bool" where
  "speaks3 c = (py_key_eq (ac_protocol c) (PStr ''3'') \<or> py_key_eq (ac_protocol c) (PInt 3))"

section \<open>Closing and reading\<close>

definition unset_streams :: "('w, unit) conn_op" where
  "unset_streams = modS (\<lambda>s. s\<lparr>cx_sock := False\<rparr>)"

text \<open>The message of the timeout carries the limit as well; the model leaves the number out.\<close>

definition closing_timeout :: exc where
  "closing_timeout = Exc TimeoutError ''Timed out closing connection after''"

definition is_timeout :: "exc \<Rightarrow> bool" where
  "is_timeout e = isinstance e SocketTimeout"

definition aio_disconnect :: "'w anet \<Rightarrow> bool \<Rightarrow> ('w, unit) conn_op" where
  "aio_disconnect N nowait =
     catchS
       (thenS (on_net (ay_parser_stop N))
       (bindS (getS cx_sock) (\<lambda>sock.
        if \<not> sock then retS ()
        else finallyS
          (catchS (thenS (on_net (ay_close N)) (whenS (\<not> nowait) (on_net (ay_wait_closed N))))
             (\<lambda>e. if isinstance e OSError \<and> \<not> is_timeout e then retS () else raiseS e))
          unset_streams)))
       (\<lambda>e. raiseS (if is_timeout e then closing_timeout else e))"

text \<open>\<open>_close\<close>, when the object is collected.\<close>

definition aio_silent_close :: "'w anet \<Rightarrow> ('w, unit) conn_op" where
  "aio_silent_close N = bindS (getS cx_sock) (\<lambda>sock. whenS sock (thenS (on_net (ay_close N)) unset_streams))"

definition aio_reading_error :: "'w aio_config \<Rightarrow> exc \<Rightarrow> exc" where
  "aio_reading_error c e = Exc ConnectionError (''Error while reading from '' @ ac_host_error c @ '' : '' @ exc_msg e)"

text \<open>\<open>None\<close> when the caller's own limit passed.\<close>

definition aio_conn_read_response ::
  "'w anet \<Rightarrow> 'w aio_config \<Rightarrow> bool \<Rightarrow> rat option \<Rightarrow> bool \<Rightarrow> bool \<Rightarrow> ('w, pyval) conn_op" where
  "aio_conn_read_response N c disable_decoding timeout disconnect_on_error push_request =
     bindS (catchS
       (bindS (getS cx_parser3) (\<lambda>p3. bindS
          (on_net (ay_read N (case timeout of None \<Rightarrow> ac_socket_timeout c | Some t \<Rightarrow> Some t) p3 disable_decoding
             (if speaks3 c then Some push_request else None))) (\<lambda>r. retS (Some r))))
       (\<lambda>e. if is_timeout e \<and> timeout \<noteq> None then retS None
            else thenS (whenS disconnect_on_error (aio_disconnect N True))
              (raiseS (if is_timeout e then Exc TimeoutError (''Timeout reading from '' @ ac_host_error c)
                       else if isinstance e OSError then aio_reading_error c e
                       else e)))) (\<lambda>answer.
     case answer of
       None \<Rightarrow> retS PNone
     | Some response \<Rightarrow>
         thenS (modS (\<lambda>s. if ac_health_check_interval c = 0 then s
                           else s\<lparr>cx_next_check := ay_now N (cx_world s) + ac_health_check_interval c\<rparr>))
         (case response of
            PExc e \<Rightarrow> if isinstance e ResponseError then raiseS e else retS response
          | _ \<Rightarrow> retS response))"

definition aio_read :: "'w anet \<Rightarrow> 'w aio_config \<Rightarrow> ('w connection, pyval) run" where
  "aio_read N c = total (aio_conn_read_response N c False None True False)"

definition aio_can_read_destructive :: "'w anet \<Rightarrow> 'w aio_config \<Rightarrow> ('w, bool) conn_op" where
  "aio_can_read_destructive N c = catchS (on_net (ay_can_read N))
     (\<lambda>e. if isinstance e OSError then thenS (aio_disconnect N True)
            (raiseS (Exc ConnectionError (''Error while reading from '' @ ac_host_error c @ '': '' @ exc_msg e)))
          else raiseS e)"

section \<open>Sending\<close>

text \<open>Every failure of a write closes the connection without waiting.\<close>

definition aio_write_items :: "'w anet \<Rightarrow> pyval list \<Rightarrow> ('w, unit) conn_op" where
  "aio_write_items N items =
     catchS (bindS (getS cx_sock) (\<lambda>b. if b then on_net (ay_write N items) else raiseS (Exc AttributeError ''writelines'')))
       (\<lambda>e. thenS (aio_disconnect N True)
          (raiseS (if is_timeout e then Exc TimeoutError ''Timeout writing to socket''
                   else if isinstance e OSError then writing_error e
                   else e)))"

text \<open>The nested \<open>self.connect()\<close> is the argument \<open>cn\<close>. The health of a connection is checked only when it was open.\<close>

definition aio_send_unchecked :: "'w anet \<Rightarrow> ('w connection, unit) run \<Rightarrow> pyval list \<Rightarrow> ('w connection, unit) run" where
  "aio_send_unchecked N cn items =
     bindP (total (getS cx_sock)) (\<lambda>b. thenP (whenP (\<not> b) cn) (total (aio_write_items N items)))"

definition aio_pack_send :: "'w anet \<Rightarrow> (pyval list \<Rightarrow> ('w connection, unit) run) \<Rightarrow> pyval list \<Rightarrow> ('w connection, unit) run" where
  "aio_pack_send N send args = bindP (total (liftS (ay_pack N args))) send"

definition aio_send_ping :: "'w anet \<Rightarrow> 'w aio_config \<Rightarrow> ('w connection, unit) run \<Rightarrow> ('w connection, unit) run" where
  "aio_send_ping N c cn =
     thenP (aio_pack_send N (aio_send_unchecked N cn) [PStr ''PING''])
     (bindP (aio_read N c) (\<lambda>r.
        if str_if_bytes r \<noteq> PStr ''PONG'' then raiseP (Exc ConnectionError ''Bad response from PING health check'') else retP ()))"

definition aio_cx_sleep :: "'w anet \<Rightarrow> rat \<Rightarrow> 'w connection \<Rightarrow> 'w connection" where
  "aio_cx_sleep N t s = s\<lparr>cx_world := ay_sleep N t (cx_world s)\<rparr>"

definition aio_check_health :: "'w anet \<Rightarrow> 'w aio_config \<Rightarrow> ('w connection, unit) run \<Rightarrow> ('w connection, unit) run" where
  "aio_check_health N c cn =
     bindP (total (getS (\<lambda>s. ac_health_check_interval c \<noteq> 0 \<and> ay_now N (cx_world s) > cx_next_check s))) (\<lambda>due.
       whenP due (aio_call_with_retry (ac_retry c) (ay_rnd N) (aio_cx_sleep N) (aio_send_ping N c cn)
         (\<lambda>_. total (aio_disconnect N False))))"

definition aio_send_checked :: "'w anet \<Rightarrow> 'w aio_config \<Rightarrow> ('w connection, unit) run \<Rightarrow> pyval list \<Rightarrow> ('w connection, unit) run" where
  "aio_send_checked N c cn items =
     bindP (total (getS cx_sock)) (\<lambda>b.
     thenP (if b then aio_check_health N c cn else cn) (total (aio_write_items N items)))"

definition aio_send :: "'w anet \<Rightarrow> 'w aio_config \<Rightarrow> ('w connection, unit) run \<Rightarrow> bool \<Rightarrow> pyval list \<Rightarrow> ('w connection, unit) run" where
  "aio_send N c cn check args = aio_pack_send N (if check then aio_send_checked N c cn else aio_send_unchecked N cn) args"

section \<open>The handshake\<close>

definition aio_ask :: "'w anet \<Rightarrow> 'w aio_config \<Rightarrow> ('w connection, unit) run \<Rightarrow> bool \<Rightarrow> pyval list \<Rightarrow> ('w connection, pyval) run" where
  "aio_ask N c cn check args = thenP (aio_send N c cn check args) (aio_read N c)"

definition aio_auth_args :: "'w aio_config \<Rightarrow> ('w, string list) conn_op" where
  "aio_auth_args c = (case ac_provider c of
     Some m \<Rightarrow> on_net m
   | None \<Rightarrow>
       if filled (ac_username c) \<or> filled (ac_password c) then
         retS (get_credentials (UsernamePasswordCredentialProvider (ac_username c) (ac_password c)))
       else retS [])"

definition aio_use_resp3_parser :: "'w anet \<Rightarrow> ('w, unit) conn_op" where
  "aio_use_resp3_parser N = bindS (getS cx_parser3) (\<lambda>p3.
     if p3 then retS () else thenS (modS (\<lambda>s. s\<lparr>cx_parser3 := True\<rparr>)) (on_net (ay_parser_start N)))"

text \<open>The version a HELLO with credentials reports must be \<open>int(self.protocol)\<close>; without credentials it is not looked at.\<close>

definition aio_check_proto :: "'w aio_config \<Rightarrow> pyval \<Rightarrow> exc + unit" where
  "aio_check_proto c v = (case v of
     PDict _ \<Rightarrow> bindE (to_int (ac_protocol c)) (\<lambda>p. check_proto p v)
   | _ \<Rightarrow> check_proto 0 v)"

definition aio_authenticate :: "'w anet \<Rightarrow> 'w aio_config \<Rightarrow> ('w connection, unit) run \<Rightarrow> string list \<Rightarrow> ('w connection, unit) run" where
  "aio_authenticate N c cn auth =
     (if auth \<noteq> [] \<and> \<not> speaks2 c then
        thenP (total (aio_use_resp3_parser N))
        (bindP (aio_ask N c cn True
           (strs [''HELLO''] @ [ac_protocol c] @ strs (''AUTH'' # (if length auth = 1 then ''default'' # auth else auth))))
           (\<lambda>m. total (liftS (aio_check_proto c m))))
      else if auth \<noteq> [] then
        bindP (thenP (aio_send N c cn False (strs (''AUTH'' # auth)))
                 (catchP (aio_read N c)
                    (\<lambda>e. if isinstance e AuthenticationWrongNumberOfArgsError
                         then aio_ask N c cn False (strs [''AUTH'', last auth]) else raiseP e)))
          (expect_ok (Exc AuthenticationError ''Invalid Username or Password''))
      else if \<not> speaks2 c then
        thenP (total (aio_use_resp3_parser N))
        (thenP (aio_ask N c cn True [PStr ''HELLO'', ac_protocol c]) (retP ()))
      else retP ())"

definition aio_set_name :: "'w anet \<Rightarrow> 'w aio_config \<Rightarrow> ('w connection, unit) run \<Rightarrow> ('w connection, unit) run" where
  "aio_set_name N c cn =
     (case ac_client_name c of
        None \<Rightarrow> retP ()
      | Some x \<Rightarrow>
          if x = [] then retP ()
          else bindP (aio_ask N c cn True (strs [''CLIENT'', ''SETNAME'', x])) (expect_ok (Exc ConnectionError ''Error setting client name'')))"

text \<open>SETINFO and SELECT are sent one after the other before any answer is read.\<close>

definition aio_infos :: "'w aio_config \<Rightarrow> pyval list list" where
  "aio_infos c =
     (case ac_lib_name c of Some (x # xs) \<Rightarrow> [strs [''CLIENT'', ''SETINFO'', ''LIB-NAME'', x # xs]] | _ \<Rightarrow> []) @
     (case ac_lib_version c of Some (x # xs) \<Rightarrow> [strs [''CLIENT'', ''SETINFO'', ''LIB-VER'', x # xs]] | _ \<Rightarrow> [])"

definition aio_select :: "'w aio_config \<Rightarrow> pyval list list" where
  "aio_select c = (if truthy (ac_db c) then [[PStr ''SELECT'', ac_db c]] else [])"

definition skip_answer :: "'w anet \<Rightarrow> 'w aio_config \<Rightarrow> ('w connection, unit) run" where
  "skip_answer N c = catchP (thenP (aio_read N c) (retP ())) (\<lambda>e. if isinstance e ResponseError then retP () else raiseP e)"

definition aio_finish_handshake :: "'w anet \<Rightarrow> 'w aio_config \<Rightarrow> ('w connection, unit) run \<Rightarrow> ('w connection, unit) run" where
  "aio_finish_handshake N c cn =
     thenP (eachP (aio_send N c cn True) (aio_infos c @ aio_select c))
     (thenP (eachP (\<lambda>_. skip_answer N c) (aio_infos c))
        (eachP (\<lambda>_. bindP (aio_read N c) (expect_ok (Exc ConnectionError ''Invalid Database''))) (aio_select c)))"

definition aio_on_connect :: "'w anet \<Rightarrow> 'w aio_config \<Rightarrow> ('w connection, unit) run \<Rightarrow> ('w connection, unit) run" where
  "aio_on_connect N c cn =
     thenP (total (on_net (ay_parser_start N)))
     (bindP (total (aio_auth_args c)) (\<lambda>auth.
      thenP (aio_authenticate N c cn auth)
      (thenP (aio_set_name N c cn) (aio_finish_handshake N c cn))))"

section \<open>Connecting\<close>

text \<open>
  The streams are set before the options of the socket; an option that is refused closes the writer and
  leaves the streams set. Over a Unix socket opening includes the handshake.
\<close>

definition aio_tcp_open :: "'w anet \<Rightarrow> ('w, unit) conn_op" where
  "aio_tcp_open N =
     thenS (on_net (ay_open N))
     (thenS (modS (\<lambda>s. s\<lparr>cx_sock := True\<rparr>))
     (thenS (on_net (ay_nodelay N))
        (catchS (on_net (ay_keepalive N))
           (\<lambda>e. if isinstance_any e [OSError, TypeError] then thenS (on_net (ay_close N)) (raiseS e) else raiseS e))))"

definition aio_unix_open :: "'w anet \<Rightarrow> 'w aio_config \<Rightarrow> ('w connection, unit) run \<Rightarrow> ('w connection, unit) run" where
  "aio_unix_open N c cn =
     thenP (total (thenS (on_net (ay_open N)) (modS (\<lambda>s. s\<lparr>cx_sock := True\<rparr>)))) (aio_on_connect N c cn)"

text \<open>\<open>_connect\<close> under the retries, and the classes its errors become: all but a cancellation are errors of the connection.\<close>

definition opening_error :: "'w aio_config \<Rightarrow> exc \<Rightarrow> exc" where
  "opening_error c e =
     (if isinstance e CancelledError then e
      else if is_timeout e then Exc TimeoutError ''Timeout connecting to server''
      else if isinstance e OSError then Exc ConnectionError (format_error_message (ac_host_error c) [exc_msg e])
      else if isinstance e PyException then Exc ConnectionError (exc_msg e)
      else e)"

definition aio_open :: "'w anet \<Rightarrow> 'w aio_config \<Rightarrow> ('w connection, unit) run \<Rightarrow> ('w connection, unit) run" where
  "aio_open N c cn =
     catchP (aio_call_with_retry (ac_retry c) (ay_rnd N) (aio_cx_sleep N)
         (if ac_unix c then aio_unix_open N c cn else total (aio_tcp_open N)) (\<lambda>_. total (aio_disconnect N False)))
       (\<lambda>e. raiseP (opening_error c e))"

definition aio_run_callbacks :: "'w anet \<Rightarrow> ('w connection, unit) run" where
  "aio_run_callbacks N =
     thenP (total (modS (\<lambda>s. s\<lparr>cx_callbacks := filter (\<lambda>n. ay_callback N n \<noteq> None) (cx_callbacks s)\<rparr>)))
     (bindP (total (getS cx_callbacks)) (eachP (\<lambda>n. case ay_callback N n of Some f \<Rightarrow> f | None \<Rightarrow> retP ())))"

definition aio_connect_with :: "'w anet \<Rightarrow> 'w aio_config \<Rightarrow> ('w connection, unit) run \<Rightarrow> ('w connection, unit) run" where
  "aio_connect_with N c cn =
     bindP (total (getS cx_sock)) (\<lambda>sock.
       if sock then retP ()
       else
         thenP (aio_open N c cn)
         (thenP (catchP (case ac_connect_func c of None \<Rightarrow> aio_on_connect N c cn | Some f \<Rightarrow> f)
                   (\<lambda>e. if isinstance e RedisError then thenP (total (aio_disconnect N False)) (raiseP e) else raiseP e))
            (aio_run_callbacks N)))"

text \<open>Connecting with at most \<open>n\<close> connects inside one another.\<close>

primrec aio_connect :: "'w anet \<Rightarrow> 'w aio_config \<Rightarrow> nat \<Rightarrow> ('w connection, unit) run" where
  "aio_connect N c 0 = (\<lambda>s. None)"
| "aio_connect N c (Suc n) = aio_connect_with N c (aio_connect N c n)"

definition aio_send_packed_command :: "'w anet \<Rightarrow> 'w aio_config \<Rightarrow> nat \<Rightarrow> pyval list \<Rightarrow> bool \<Rightarrow> ('w connection, unit) run" where
  "aio_send_packed_command N c n items check =
     (if check then aio_send_checked N c (aio_connect N c n) items else aio_send_unchecked N (aio_connect N c n) items)"

definition aio_send_command :: "'w anet \<Rightarrow> 'w aio_config \<Rightarrow> nat \<Rightarrow> pyval list \<Rightarrow> bool \<Rightarrow> ('w connection, unit) run" where
  "aio_send_command N c n args check = aio_send N c (aio_connect N c n) check args"

end
