(* ===== verification/AsyncConnectionCorrect.thy ===== *)
theory AsyncConnectionCorrect
  imports AsyncConnection ConnectionCorrect
begin

text \<open>
  What connecting promises in the asynchronous client: the handshake, command by command, once over TCP and twice
  over a Unix socket; and the settings with which it does otherwise.
\<close>

section \<open>Conversations\<close>

text \<open>A command is written, or an accepted response is read; the answers of SETINFO and SELECT are read after all of them were sent.\<close>

datatype event = Say "pyval list" | Hear "pyval \<Rightarrow> bool"

fun converse :: "'w anet \<Rightarrow> 'w aio_config \<Rightarrow> bool \<Rightarrow> event list \<Rightarrow> 'w \<Rightarrow> 'w \<Rightarrow> bool" where
  "converse N c p3 [] w w' = (w' = w)"
| "converse N c p3 (Say args # es) w w' = (case ay_pack N args of
     Inl _ \<Rightarrow> False
   | Inr items \<Rightarrow> (case ay_write N items w of (Inl _, _) \<Rightarrow> False | (Inr _, w1) \<Rightarrow> converse N c p3 es w1 w'))"
| "converse N c p3 (Hear accept # es) w w' =
     (case ay_read N (ac_socket_timeout c) p3 False (if speaks3 c then Some False else None) w of
        (Inl _, _) \<Rightarrow> False | (Inr r, w1) \<Rightarrow> accept r \<and> converse N c p3 es w1 w')"

lemma converse_Say: "converse N c p3 (Say args # es) w w' \<longleftrightarrow>
    (\<exists>items u w1. ay_pack N args = Inr items \<and> ay_write N items w = (Inr u, w1) \<and> converse N c p3 es w1 w')"
  by (cases "ay_pack N args") (auto split: prod.splits sum.splits)

lemma converse_Hear: "converse N c p3 (Hear accept # es) w w' \<longleftrightarrow>
    (\<exists>r w1. ay_read N (ac_socket_timeout c) p3 False (if speaks3 c then Some False else None) w = (Inr r, w1) \<and>
       accept r \<and> converse N c p3 es w1 w')"
  by (auto split: prod.splits sum.splits)

declare converse.simps(2,3) [simp del]

lemma converse_append:
  "converse N c p3 (xs @ ys) w w' \<longleftrightarrow> (\<exists>w1. converse N c p3 xs w w1 \<and> converse N c p3 ys w1 w')"
proof (induction xs arbitrary: w)
  case (Cons x xs)
  then show ?case by (cases x) (auto simp: converse_Say converse_Hear)
qed simp

definition told :: "'w connection \<Rightarrow> 'w \<Rightarrow> 'w connection" where
  "told s w = s\<lparr>cx_world := w\<rparr>"

lemma told_fields [simp]:
  "cx_sock (told s w) = cx_sock s" "cx_parser3 (told s w) = cx_parser3 s" "cx_world (told s w) = w" "told (told s w) w' = told s w'"
  "cx_callbacks (told s w) = cx_callbacks s" "told (s\<lparr>cx_world := w\<rparr>) w' = told s w'" "told s (cx_world s) = s"
  by (simp_all add: told_def)

lemma aio_write_ok: "ay_write N items (cx_world s) = (Inr u, w) \<Longrightarrow> cx_sock s \<Longrightarrow> aio_write_items N items s = (Inr (), told s w)"
  by (simp add: aio_write_items_def catchS_def on_net_def told_def)

lemma aio_health_off: "ac_health_check_interval c = 0 \<Longrightarrow> aio_check_health N c cn s = Some (Inr (), s)"
  by (simp add: aio_check_health_def bindP_def total_def)

lemma aio_send_ok:
  assumes "ay_pack N args = Inr items" "ay_write N items (cx_world s) = (Inr u, w)" "cx_sock s" "ac_health_check_interval c = 0"
  shows "aio_send N c cn check args s = Some (Inr (), told s w)"
  using assms aio_write_ok [OF assms(2,3)]
  by (simp add: aio_send_def aio_pack_send_def aio_send_checked_def aio_send_unchecked_def total_def aio_health_off)

lemma aio_read_ok:
  assumes "ay_read N (ac_socket_timeout c) (cx_parser3 s) False (if speaks3 c then Some False else None) (cx_world s) = (Inr r, w)"
    and "ac_health_check_interval c = 0"
  shows "aio_read N c s = Some (if error_reply r then Inl (case r of PExc e \<Rightarrow> e) else Inr r, told s w)"
proof -
  have "bindS (getS cx_parser3) (\<lambda>p3. bindS (on_net (ay_read N (case None of None \<Rightarrow> ac_socket_timeout c | Some t \<Rightarrow> Some t) p3 False
      (if speaks3 c then Some False else None))) (\<lambda>r. retS (Some r))) s = (Inr (Some r), told s w)"
    using assms(1) by (simp add: bindS_def on_net_def told_def)
  then show ?thesis
    using assms(2)
    by (auto simp: aio_read_def total_def aio_conn_read_response_def catchS_def bindS_def thenS_def error_reply_def split: pyval.splits)
qed

text \<open>A command and its answer.\<close>

lemma aio_ask_ok:
  assumes "converse N c (cx_parser3 s) [Say args, Hear accept] (cx_world s) w'" "cx_sock s" "ac_health_check_interval c = 0"
  obtains r where "accept r"
    "aio_ask N c cn check args s = Some (if error_reply r then Inl (case r of PExc e \<Rightarrow> e) else Inr r, told s w')"
    "\<And>h. \<not> error_reply r \<Longrightarrow> thenP (aio_send N c cn check args) (catchP (aio_read N c) h) s = Some (Inr r, told s w')"
proof -
  from assms(1) obtain items u w1 r where p: "ay_pack N args = Inr items" "ay_write N items (cx_world s) = (Inr u, w1)"
    and rd: "ay_read N (ac_socket_timeout c) (cx_parser3 s) False (if speaks3 c then Some False else None) w1 = (Inr r, w')"
    and acc: "accept r"
    by (auto simp: converse_Say converse_Hear)
  have "aio_read N c (told s w1) = Some (if error_reply r then Inl (case r of PExc e \<Rightarrow> e) else Inr r, told s w')"
    using aio_read_ok [of N c "told s w1" r w'] rd assms(3) by simp
  with aio_send_ok [OF p assms(2,3)] acc show ?thesis
    by (intro that [of r]) (simp_all add: aio_ask_def)
qed

section \<open>The handshake\<close>

definition aio_static_auth :: "'w aio_config \<Rightarrow> string list" where
  "aio_static_auth c = (if filled (ac_username c) \<or> filled (ac_password c)
     then get_credentials (UsernamePasswordCredentialProvider (ac_username c) (ac_password c)) else [])"

lemma aio_auth_static: "ac_provider c = None \<Longrightarrow> total (aio_auth_args c) s = Some (Inr (aio_static_auth c), s)"
  by (simp add: total_def aio_auth_args_def aio_static_auth_def)

definition auth_events :: "'w aio_config \<Rightarrow> event list" where
  "auth_events c = (let auth = aio_static_auth c in
     if auth \<noteq> [] \<and> \<not> speaks2 c then
       [Say (strs [''HELLO''] @ [ac_protocol c] @ strs (''AUTH'' # (if length auth = 1 then ''default'' # auth else auth))),
        Hear (\<lambda>r. \<not> error_reply r \<and> aio_check_proto c r = Inr ())]
     else if auth \<noteq> [] then [Say (strs (''AUTH'' # auth)), Hear ok_reply]
     else if \<not> speaks2 c then [Say [PStr ''HELLO'', ac_protocol c], Hear (\<lambda>r. \<not> error_reply r)]
     else [])"

definition name_events :: "'w aio_config \<Rightarrow> event list" where
  "name_events c = (case ac_client_name c of
     Some (x # xs) \<Rightarrow> [Say (strs [''CLIENT'', ''SETNAME'', x # xs]), Hear ok_reply] | _ \<Rightarrow> [])"

definition last_events :: "'w aio_config \<Rightarrow> event list" where
  "last_events c = map Say (aio_infos c @ aio_select c) @ map (\<lambda>_. Hear (\<lambda>_. True)) (aio_infos c) @ map (\<lambda>_. Hear ok_reply) (aio_select c)"

definition aio_handshake :: "'w aio_config \<Rightarrow> event list" where
  "aio_handshake c = auth_events c @ name_events c @ last_events c"

lemma sends_ok:
  assumes "converse N c (cx_parser3 s) (map Say cs) (cx_world s) w'" "cx_sock s" "ac_health_check_interval c = 0"
  shows "eachP (aio_send N c cn True) cs s = Some (Inr (), told s w')"
  using assms
proof (induction cs arbitrary: s)
  case (Cons x cs)
  from Cons.prems(1) obtain items u w1 where p: "ay_pack N x = Inr items" "ay_write N items (cx_world s) = (Inr u, w1)"
    and rest: "converse N c (cx_parser3 s) (map Say cs) w1 w'" by (auto simp: converse_Say)
  have "eachP (aio_send N c cn True) cs (told s w1) = Some (Inr (), told (told s w1) w')"
    by (rule Cons.IH) (use rest Cons.prems in simp_all)
  then show ?case using aio_send_ok [OF p Cons.prems(2,3)] by simp
qed simp

lemma reads_ok:
  assumes "converse N c (cx_parser3 s) (map (\<lambda>_. Hear accept) xs) (cx_world s) w'"
    and "\<And>s r w. accept r \<Longrightarrow> aio_read N c s = Some (if error_reply r then Inl (case r of PExc e \<Rightarrow> e) else Inr r, told s w) \<Longrightarrow>
      f s = Some (Inr (), told s w)"
    and "ac_health_check_interval c = 0"
  shows "eachP (\<lambda>_. f) xs s = Some (Inr (), told s w')"
  using assms(1)
proof (induction xs arbitrary: s)
  case (Cons x xs)
  from Cons.prems obtain r w1 where r: "accept r"
      "ay_read N (ac_socket_timeout c) (cx_parser3 s) False (if speaks3 c then Some False else None) (cx_world s) = (Inr r, w1)"
    and rest: "converse N c (cx_parser3 s) (map (\<lambda>_. Hear accept) xs) w1 w'" by (auto simp: converse_Hear)
  have "eachP (\<lambda>_. f) xs (told s w1) = Some (Inr (), told (told s w1) w')"
    by (rule Cons.IH) (use rest in simp)
  then show ?case using assms(2) [OF r(1) aio_read_ok [OF r(2) assms(3)]] by simp
qed simp

lemma skip_answer_ok:
  "aio_read N c s = Some (if error_reply r then Inl (case r of PExc e \<Rightarrow> e) else Inr r, told s w) \<Longrightarrow>
   skip_answer N c s = Some (Inr (), told s w)"
  by (cases "error_reply r") (auto simp: skip_answer_def error_reply_def split: pyval.splits if_splits)

lemma finish_ok:
  assumes "converse N c (cx_parser3 s) (last_events c) (cx_world s) w'" "cx_sock s" "ac_health_check_interval c = 0"
  shows "aio_finish_handshake N c cn s = Some (Inr (), told s w')"
proof -
  from assms(1) obtain w1 w2 where t: "converse N c (cx_parser3 s) (map Say (aio_infos c @ aio_select c)) (cx_world s) w1"
      "converse N c (cx_parser3 s) (map (\<lambda>_. Hear (\<lambda>_. True)) (aio_infos c)) w1 w2"
      "converse N c (cx_parser3 s) (map (\<lambda>_. Hear ok_reply) (aio_select c)) w2 w'"
    by (auto simp: last_events_def converse_append)
  have "eachP (\<lambda>_. skip_answer N c) (aio_infos c) (told s w1) = Some (Inr (), told (told s w1) w2)"
    by (rule reads_ok [where accept = "\<lambda>_. True"]) (use t(2) assms(3) skip_answer_ok in auto)
  moreover have "eachP (\<lambda>_. bindP (aio_read N c) (expect_ok (Exc ConnectionError ''Invalid Database''))) (aio_select c) (told s w2)
      = Some (Inr (), told (told s w2) w')"
    by (rule reads_ok [where accept = ok_reply])
      (use t(3) assms(3) ok_reply_no_error in \<open>auto simp: expect_ok_app\<close>)
  ultimately show ?thesis
    using sends_ok [OF t(1) assms(2,3)] by (simp add: aio_finish_handshake_def)
qed

lemma aio_set_name_ok:
  assumes "converse N c (cx_parser3 s) (name_events c) (cx_world s) w'" "cx_sock s" "ac_health_check_interval c = 0"
  shows "aio_set_name N c cn s = Some (Inr (), told s w')"
proof (cases "filled (ac_client_name c)")
  case False
  then show ?thesis using assms(1) by (auto simp: aio_set_name_def name_events_def filled_def split: option.splits)
next
  case True
  then obtain x xs where n: "ac_client_name c = Some (x # xs)" by (auto simp: filled_def neq_Nil_conv)
  then have "converse N c (cx_parser3 s) [Say (strs [''CLIENT'', ''SETNAME'', x # xs]), Hear ok_reply] (cx_world s) w'"
    using assms(1) by (simp add: name_events_def)
  then obtain r where "ok_reply r" "aio_ask N c cn True (strs [''CLIENT'', ''SETNAME'', x # xs]) s
      = Some (if error_reply r then Inl (case r of PExc e \<Rightarrow> e) else Inr r, told s w')"
    using assms(2,3) by (elim aio_ask_ok [where cn = cn and check = True]) auto
  then show ?thesis using ok_reply_no_error expect_ok_app by (simp add: aio_set_name_def n)
qed

definition parsing :: "'w aio_config \<Rightarrow> 'w connection \<Rightarrow> 'w connection" where
  "parsing c s = s\<lparr>cx_parser3 := \<not> speaks2 c\<rparr>"

lemma parsing_fields [simp]:
  "cx_sock (parsing c s) = cx_sock s" "cx_parser3 (parsing c s) = (\<not> speaks2 c)" "cx_world (parsing c s) = cx_world s"
  "cx_callbacks (parsing c s) = cx_callbacks s" "told (parsing c s) w = parsing c (told s w)" "parsing c (parsing c s) = parsing c s"
  by (simp_all add: parsing_def told_def)

lemma aio_use_resp3_ok:
  "(\<And>w. ay_parser_start N w = (Inr (), w)) \<Longrightarrow> \<not> speaks2 c \<Longrightarrow> aio_use_resp3_parser N s = (Inr (), parsing c s)"
  by (cases "cx_parser3 s") (simp_all add: aio_use_resp3_parser_def on_net_def parsing_def)

lemma aio_authenticate_ok:
  assumes start: "\<And>w. ay_parser_start N w = (Inr (), w)" and p3: "cx_parser3 s \<longrightarrow> \<not> speaks2 c"
    and talk: "converse N c (\<not> speaks2 c) (auth_events c) (cx_world s) w'" and open': "cx_sock s" "ac_health_check_interval c = 0"
  shows "aio_authenticate N c cn (aio_static_auth c) s = Some (Inr (), parsing c (told s w'))"
proof (cases "speaks2 c")
  case False
  let ?s = "parsing c s"
  have use3: "total (aio_use_resp3_parser N) s = Some (Inr (), ?s)"
    using aio_use_resp3_ok [OF start False] by (simp add: total_def)
  show ?thesis
  proof (cases "aio_static_auth c = []")
    case True
    then have "converse N c (cx_parser3 ?s) [Say [PStr ''HELLO'', ac_protocol c], Hear (\<lambda>r. \<not> error_reply r)] (cx_world ?s) w'"
      using talk False by (simp add: auth_events_def)
    then obtain r where "\<not> error_reply r" "aio_ask N c cn True [PStr ''HELLO'', ac_protocol c] ?s
        = Some (if error_reply r then Inl (case r of PExc e \<Rightarrow> e) else Inr r, told ?s w')"
      using open' by (elim aio_ask_ok [where cn = cn and check = True]) auto
    then show ?thesis using use3 True False by (simp add: aio_authenticate_def)
  next
    case auth: False
    let ?args = "strs [''HELLO''] @ [ac_protocol c] @ strs (''AUTH'' # (if length (aio_static_auth c) = 1 then ''default'' # aio_static_auth c else aio_static_auth c))"
    have "converse N c (cx_parser3 ?s) [Say ?args, Hear (\<lambda>r. \<not> error_reply r \<and> aio_check_proto c r = Inr ())] (cx_world ?s) w'"
      using talk False auth by (simp add: auth_events_def Let_def)
    then obtain r where r: "\<not> error_reply r" "aio_check_proto c r = Inr ()" "aio_ask N c cn True ?args ?s
        = Some (if error_reply r then Inl (case r of PExc e \<Rightarrow> e) else Inr r, told ?s w')"
      using open' by (elim aio_ask_ok [where cn = cn and check = True]) auto
    have "aio_authenticate N c cn (aio_static_auth c) s = thenP (total (aio_use_resp3_parser N)) (bindP (aio_ask N c cn True ?args)
        (\<lambda>m. total (liftS (aio_check_proto c m)))) s"
      using auth False by (simp add: aio_authenticate_def)
    then show ?thesis using use3 r by (simp add: total_def)
  qed
next
  case True
  then have s: "parsing c (told s w) = told s w" for w using p3 by (simp add: parsing_def told_def)
  show ?thesis
  proof (cases "aio_static_auth c = []")
    case empty: True
    then show ?thesis using talk True s [of "cx_world s"] by (simp add: aio_authenticate_def auth_events_def)
  next
    case False
    then have "converse N c (cx_parser3 s) [Say (strs (''AUTH'' # aio_static_auth c)), Hear ok_reply] (cx_world s) w'"
      using talk True p3 by (simp add: auth_events_def)
    then obtain r where ok: "ok_reply r" and a: "\<And>h. \<not> error_reply r \<Longrightarrow>
        thenP (aio_send N c cn False (strs (''AUTH'' # aio_static_auth c))) (catchP (aio_read N c) h) s = Some (Inr r, told s w')"
      using open' by (elim aio_ask_ok [where cn = cn and check = False]) auto
    show ?thesis
      using a [OF ok_reply_no_error [OF ok]] True False s by (simp add: aio_authenticate_def expect_ok_app [OF ok])
  qed
qed

text \<open>The whole of \<open>on_connect\<close>.\<close>

lemma aio_on_connect_ok:
  assumes start: "\<And>w. ay_parser_start N w = (Inr (), w)" and p3: "cx_parser3 s \<longrightarrow> \<not> speaks2 c" and static: "ac_provider c = None"
    and talk: "converse N c (\<not> speaks2 c) (aio_handshake c) (cx_world s) w'" and open': "cx_sock s" "ac_health_check_interval c = 0"
  shows "aio_on_connect N c cn s = Some (Inr (), parsing c (told s w'))"
proof -
  from talk obtain w1 w2 where t: "converse N c (\<not> speaks2 c) (auth_events c) (cx_world s) w1"
      "converse N c (\<not> speaks2 c) (name_events c) w1 w2" "converse N c (\<not> speaks2 c) (last_events c) w2 w'"
    by (auto simp: aio_handshake_def converse_append)
  have p: "total (on_net (ay_parser_start N)) s = Some (Inr (), s)" using start by (simp add: total_def on_net_def)
  have a: "total (aio_auth_args c) s = Some (Inr (aio_static_auth c), s)"
    by (rule aio_auth_static [OF static])
  have n: "aio_set_name N c cn (parsing c (told s w1)) = Some (Inr (), parsing c (told s w2))"
    using aio_set_name_ok [of N c "parsing c (told s w1)" w2 cn] t(2) open' by simp
  have f: "aio_finish_handshake N c cn (parsing c (told s w2)) = Some (Inr (), parsing c (told s w'))"
    using finish_ok [of N c "parsing c (told s w2)" w' cn] t(3) open' by simp
  show ?thesis
    using p a aio_authenticate_ok [OF start p3 t(1) open'] n f by (simp add: aio_on_connect_def)
qed

definition opened :: "'w connection \<Rightarrow> 'w connection" where
  "opened s = s\<lparr>cx_sock := True\<rparr>"

lemma opened_fields [simp]:
  "cx_sock (opened s)" "cx_parser3 (opened s) = cx_parser3 s" "cx_world (opened s) = cx_world s" "cx_callbacks (opened s) = cx_callbacks s"
  "told (opened s) w = opened (told s w)"
  by (simp_all add: opened_def told_def)

lemma no_callbacks: "cx_callbacks s = [] \<Longrightarrow> aio_run_callbacks N s = Some (Inr (), s)"
  by (simp add: aio_run_callbacks_def thenP_def bindP_def total_def)

lemma connect_after_open:
  assumes "\<not> cx_sock s" "aio_open N c (aio_connect N c n) s = Some (Inr (), s1)" "ac_connect_func c = None"
    and "aio_on_connect N c (aio_connect N c n) s1 = Some (Inr (), s2)" "cx_callbacks s2 = []"
  shows "aio_connect N c (Suc n) s = Some (Inr (), s2)"
  using assms by (simp add: aio_connect_with_def total_def no_callbacks)

text \<open>Connecting over TCP opens the streams and conducts exactly the handshake of the settings: HELLO or AUTH, the name of the
  client, then SETINFO and SELECT in one go with their answers read afterwards, refusals of SETINFO ignored. When the answers are
  accepted it returns, and the connection is open with the parser of its protocol.\<close>

theorem aio_connect_performs_handshake:
  assumes closed: "\<not> cx_sock s" "\<not> cx_parser3 s" "cx_callbacks s = []"
    and conf: "\<not> ac_unix c" "ac_connect_func c = None" "ac_provider c = None" "ac_health_check_interval c = 0"
    and start: "\<And>w. ay_parser_start N w = (Inr (), w)"
    and streams: "ay_open N (cx_world s) = (Inr (), w1)" "\<And>w. ay_nodelay N w = (Inr (), w)" "\<And>w. ay_keepalive N w = (Inr (), w)"
    and talk: "converse N c (\<not> speaks2 c) (aio_handshake c) w1 w2"
  shows "aio_connect N c (Suc n) s = Some (Inr (), s\<lparr>cx_sock := True, cx_parser3 := \<not> speaks2 c, cx_world := w2\<rparr>)"
proof -
  have "aio_tcp_open N s = (Inr (), opened (told s w1))"
    using streams by (simp add: aio_tcp_open_def thenS_def bindS_def on_net_def catchS_def opened_def told_def)
  then have "aio_open N c (aio_connect N c n) s = Some (Inr (), opened (told s w1))"
    using conf by (simp add: aio_open_def aio_call_with_retry_def total_def run_simps)
  moreover have "aio_on_connect N c (aio_connect N c n) (opened (told s w1)) = Some (Inr (), parsing c (told (opened (told s w1)) w2))"
    by (rule aio_on_connect_ok) (use assms in simp_all)
  ultimately have "aio_connect N c (Suc n) s = Some (Inr (), parsing c (told (opened (told s w1)) w2))"
    using closed conf by (intro connect_after_open) simp_all
  then show ?thesis by (simp add: parsing_def opened_def told_def)
qed

text \<open>Over a Unix socket opening conducts the handshake and connecting conducts it again: the server is sent every
  command of it, credentials included, twice.\<close>

theorem unix_handshake_runs_twice:
  assumes closed: "\<not> cx_sock s" "\<not> cx_parser3 s" "cx_callbacks s = []"
    and conf: "ac_unix c" "ac_connect_func c = None" "ac_provider c = None" "ac_health_check_interval c = 0"
    and start: "\<And>w. ay_parser_start N w = (Inr (), w)"
    and streams: "ay_open N (cx_world s) = (Inr (), w1)"
    and talk: "converse N c (\<not> speaks2 c) (aio_handshake c @ aio_handshake c) w1 w2"
  shows "aio_connect N c (Suc n) s = Some (Inr (), s\<lparr>cx_sock := True, cx_parser3 := \<not> speaks2 c, cx_world := w2\<rparr>)"
proof -
  from talk obtain v where t: "converse N c (\<not> speaks2 c) (aio_handshake c) w1 v" "converse N c (\<not> speaks2 c) (aio_handshake c) v w2"
    by (auto simp: converse_append)
  let ?s = "parsing c (told (opened (told s w1)) v)"
  have "aio_on_connect N c (aio_connect N c n) (opened (told s w1)) = Some (Inr (), ?s)"
    by (rule aio_on_connect_ok) (use assms t in simp_all)
  then have "aio_unix_open N c (aio_connect N c n) s = Some (Inr (), ?s)"
    using streams by (simp add: aio_unix_open_def total_def thenS_def bindS_def on_net_def opened_def told_def)
  then have "aio_open N c (aio_connect N c n) s = Some (Inr (), ?s)"
    using conf by (simp add: aio_open_def aio_call_with_retry_def run_simps)
  moreover have "aio_on_connect N c (aio_connect N c n) ?s = Some (Inr (), parsing c (told ?s w2))"
    by (rule aio_on_connect_ok) (use assms t in simp_all)
  ultimately have "aio_connect N c (Suc n) s = Some (Inr (), parsing c (told ?s w2))"
    using closed conf by (intro connect_after_open) simp_all
  then show ?thesis by (simp add: parsing_def opened_def told_def)
qed

section \<open>Failures\<close>

text \<open>What a Unix socket's handshake is refused with loses its class: a wrong password raises \<open>AuthenticationError\<close> over
  TCP, after closing, and a plain \<open>ConnectionError\<close> with the same message over a Unix socket.\<close>

theorem unix_refusal_loses_class:
  assumes "\<not> cx_sock s" "ac_connect_func c = None" "rt_retries (ac_retry c) = 0"
    and "ay_open N (cx_world s) = (Inr (), w1)" "\<And>w. ay_nodelay N w = (Inr (), w)" "\<And>w. ay_keepalive N w = (Inr (), w)"
    and refused: "aio_on_connect N c (aio_connect N c n) (s\<lparr>cx_world := w1, cx_sock := True\<rparr>) = Some (Inl (Exc AuthenticationError m), s2)"
    and closing: "aio_disconnect N False s2 = (Inr (), s3)"
    and unsupported: "\<not> isinstance_any (Exc AuthenticationError m) (rt_supported (ac_retry c)) \<Longrightarrow> s3 = s2"
  shows "aio_connect N c (Suc n) s =
    Some (Inl (if ac_unix c then Exc ConnectionError m else Exc AuthenticationError m), s3)"
proof (cases "ac_unix c")
  case True
  have u: "aio_unix_open N c (aio_connect N c n) s = Some (Inl (Exc AuthenticationError m), s2)"
    using assms(4) refused by (simp add: aio_unix_open_def total_def thenS_def bindS_def on_net_def)
  have "aio_call_with_retry (ac_retry c) (ay_rnd N) (aio_cx_sleep N) (aio_unix_open N c (aio_connect N c n)) (\<lambda>_. total (aio_disconnect N False)) s
      = Some (Inl (Exc AuthenticationError m), s3)"
  proof (cases "isinstance_any (Exc AuthenticationError m) (rt_supported (ac_retry c))")
    case True
    then show ?thesis
      unfolding aio_call_with_retry_def using u assms(3) closing by (intro call_with_retryP_once) (simp_all add: total_def)
  next
    case False
    then show ?thesis
      unfolding aio_call_with_retry_def using u unsupported [OF False] by (simp add: call_with_retryP_unsupported)
  qed
  then have "aio_open N c (aio_connect N c n) s = Some (Inl (Exc ConnectionError m), s3)"
    using True by (simp add: aio_open_def opening_error_def is_timeout_def isinstance_def exc_le.simps)
  then show ?thesis using assms(1) True by (simp add: aio_connect_with_def total_def)
next
  case False
  let ?s1 = "s\<lparr>cx_world := w1, cx_sock := True\<rparr>"
  have "aio_tcp_open N s = (Inr (), ?s1)"
    using assms(4-6) by (simp add: aio_tcp_open_def thenS_def bindS_def on_net_def catchS_def)
  then have "aio_open N c (aio_connect N c n) s = Some (Inr (), ?s1)"
    using False by (simp add: aio_open_def aio_call_with_retry_def total_def run_simps)
  then show ?thesis
    using assms(1,2) refused closing False
    by (simp add: aio_connect_with_def total_def isinstance_def exc_le.simps)
qed

text \<open>When the socket refuses an option of \<open>socket_keepalive_options\<close>, connecting raises but leaves the streams of the closed
  writer in place: the connection counts as open, and connecting again returns at once without a handshake.\<close>

theorem refused_option_looks_connected:
  assumes "\<not> cx_sock s" "\<not> ac_unix c"
    and "ay_open N (cx_world s) = (Inr (), w1)" "\<And>w. ay_nodelay N w = (Inr (), w)" "ay_keepalive N w1 = (Inl (Exc OSError m), w2)"
    and "ay_close N w2 = (Inr (), w3)" and "\<not> isinstance_any (Exc OSError m) (rt_supported (ac_retry c))"
  shows "\<exists>s'. aio_connect N c (Suc n) s = Some (Inl (Exc ConnectionError (format_error_message (ac_host_error c) [m])), s') \<and>
    cx_sock s' \<and> cx_world s' = w3 \<and> aio_connect N c (Suc n) s' = Some (Inr (), s')"
proof -
  let ?s = "s\<lparr>cx_world := w3, cx_sock := True\<rparr>"
  have "aio_tcp_open N s = (Inl (Exc OSError m), ?s)"
    using assms(3-6) by (simp add: aio_tcp_open_def thenS_def bindS_def on_net_def catchS_def isinstance_any_def isinstance_def exc_le.simps)
  then have "aio_open N c (aio_connect N c n) s = Some (Inl (opening_error c (Exc OSError m)), ?s)"
    using assms(2,7) by (simp add: aio_open_def aio_call_with_retry_def total_def call_with_retryP_unsupported)
  then show ?thesis
    using assms(1) by (intro exI [of _ ?s])
      (simp add: aio_connect_with_def total_def opening_error_def is_timeout_def isinstance_def exc_le.simps)
qed

text \<open>\<open>protocol=None\<close> is checked as version 2, but the asynchronous connection keeps the \<open>None\<close>, does not take it for version
  2 and sends \<open>HELLO None\<close>, which cannot be packed.\<close>

theorem no_protocol_sends_hello_none:
  assumes "new_aio_config db client lib ver None None None st ct retry oe ot i f PNone unix host = Inr c"
    and "ay_pack N [PStr ''HELLO'', PNone] = Inl e" "\<And>w. ay_parser_start N w = (Inr (), w)"
  shows "\<exists>s'. aio_on_connect N c cn s = Some (Inl e, s') \<and> (\<exists>d. new_config 0 0 client lib ver None None None retry oe ot i g PNone host = Inr d \<and> cf_protocol d = 2)"
proof -
  have c: "\<not> speaks2 c" "ac_protocol c = PNone" "ac_provider c = None" "aio_static_auth c = []"
    using assms(1) by (auto simp: new_aio_config_def filled_def protocol_arg_def Let_def isinstance_def DEFAULT_RESP_VERSION_def speaks2_def
        py_key_eq_def aio_static_auth_def split: if_splits sum.splits)
  have "new_config 0 0 client lib ver None None None retry oe ot i g PNone host = Inr (case new_config 0 0 client lib ver None None None retry oe ot i g PNone host of Inr d \<Rightarrow> d)"
    "cf_protocol (case new_config 0 0 client lib ver None None None retry oe ot i g PNone host of Inr d \<Rightarrow> d) = 2"
    by (simp_all add: new_config_def filled_def protocol_arg_def Let_def isinstance_def DEFAULT_RESP_VERSION_def)
  moreover have "\<exists>s'. aio_on_connect N c cn s = Some (Inl e, s')"
  proof -
    have start: "total (on_net (ay_parser_start N)) s = Some (Inr (), s)" by (simp add: total_def on_net_def assms(3))
    have use3: "total (aio_use_resp3_parser N) s = Some (Inr (), parsing c s)" using aio_use_resp3_ok [OF assms(3) c(1)] by (simp add: total_def)
    have "aio_ask N c cn True [PStr ''HELLO'', PNone] (parsing c s) = Some (Inl e, parsing c s)"
      using assms(2) by (simp add: aio_ask_def aio_send_def aio_pack_send_def total_def)
    then have "aio_authenticate N c cn [] s = Some (Inl e, parsing c s)"
      using c use3 by (simp add: aio_authenticate_def)
    then show ?thesis using start aio_auth_static [OF c(3)] c(4) by (simp add: aio_on_connect_def)
  qed
  ultimately show ?thesis by blast
qed


section \<open>Concrete connections\<close>

text \<open>A server that writes down the commands and answers OK.\<close>

definition demo_anet :: "pyval list list anet" where
  "demo_anet = \<lparr>ay_open = retS (), ay_nodelay = retS (), ay_keepalive = retS (), ay_parser_start = retS (), ay_parser_stop = retS (),
     ay_close = retS (), ay_wait_closed = retS (), ay_write = (\<lambda>c w. (Inr (), w @ [c])), ay_read = (\<lambda>_ _ _ _. retS (PStr ''OK'')),
     ay_can_read = retS False, ay_pack = (\<lambda>c. if PNone \<in> set c then Inl (Exc DataError ''Invalid input of type'') else Inr c),
     ay_now = (\<lambda>_. 0), ay_rnd = (\<lambda>_. 0), ay_sleep = (\<lambda>_ w. w), ay_callback = (\<lambda>_. None)\<rparr>"

definition demo_aio_config :: "bool \<Rightarrow> pyval list list aio_config" where
  "demo_aio_config unix = \<lparr>ac_db = PInt 1, ac_client_name = None, ac_lib_name = Some ''redis-py'', ac_lib_version = None, ac_provider = None,
     ac_username = None, ac_password = Some ''p'', ac_socket_timeout = None, ac_connect_timeout = None, ac_retry = aio_new_retry NoBackoff 0,
     ac_health_check_interval = 0, ac_connect_func = None, ac_protocol = PInt 2, ac_unix = unix, ac_host_error = ''h''\<rparr>"

lemma demo_anet_fields [simp]:
  "ay_open demo_anet w = (Inr (), w)" "ay_nodelay demo_anet w = (Inr (), w)" "ay_keepalive demo_anet w = (Inr (), w)"
  "ay_parser_start demo_anet w = (Inr (), w)" "ay_parser_stop demo_anet w = (Inr (), w)" "ay_close demo_anet w = (Inr (), w)"
  "ay_wait_closed demo_anet w = (Inr (), w)" "ay_write demo_anet c w = (Inr (), w @ [c])"
  "ay_read demo_anet l p d q w = (Inr (PStr ''OK''), w)"
  "ay_pack demo_anet c = (if PNone \<in> set c then Inl (Exc DataError ''Invalid input of type'') else Inr c)"
  by (simp_all add: demo_anet_def)

lemma demo_aio_fields [simp]:
  "ac_unix (demo_aio_config u) = u" "ac_connect_func (demo_aio_config u) = None" "ac_provider (demo_aio_config u) = None"
  "ac_health_check_interval (demo_aio_config u) = 0" "ac_retry (demo_aio_config u) = aio_new_retry NoBackoff 0"
  "ac_host_error (demo_aio_config u) = ''h''" "speaks2 (demo_aio_config u)" "ac_username (demo_aio_config u) = None"
  "ac_password (demo_aio_config u) = Some ''p''"
  by (simp_all add: demo_aio_config_def speaks2_def py_key_eq_def)

definition demo_commands :: "pyval list list" where
  "demo_commands = [strs [''AUTH'', ''p''], strs [''CLIENT'', ''SETINFO'', ''LIB-NAME'', ''redis-py''], [PStr ''SELECT'', PInt 1]]"

lemma demo_auth: "aio_static_auth (demo_aio_config u) = [''p'']"
  by (simp add: aio_static_auth_def filled_def get_credentials_def UsernamePasswordCredentialProvider_def)

lemma demo_handshake: "converse demo_anet (demo_aio_config u) False (aio_handshake (demo_aio_config u)) w (w @ demo_commands)"
proof -
  have "auth_events (demo_aio_config u) = [Say (strs [''AUTH'', ''p'']), Hear ok_reply]" by (simp add: auth_events_def demo_auth)
  moreover have "name_events (demo_aio_config u) = []" by (simp add: name_events_def demo_aio_config_def)
  moreover have "aio_infos (demo_aio_config u) = [strs [''CLIENT'', ''SETINFO'', ''LIB-NAME'', ''redis-py'']]"
    "aio_select (demo_aio_config u) = [[PStr ''SELECT'', PInt 1]]" by (simp_all add: aio_infos_def aio_select_def demo_aio_config_def)
  ultimately show ?thesis
    by (simp add: aio_handshake_def last_events_def converse_Say converse_Hear ok_reply_def demo_commands_def strs_def)
qed

lemma aio_connect_performs_handshake_witness:
  "aio_connect demo_anet (demo_aio_config False) 1 (new_aio_connection []) =
     Some (Inr (), (new_aio_connection [])\<lparr>cx_sock := True, cx_parser3 := False, cx_world := demo_commands\<rparr>)"
  using aio_connect_performs_handshake [of "new_aio_connection []" "demo_aio_config False" demo_anet "[]" demo_commands 0]
    demo_handshake [of False "[]"] by (simp add: new_aio_connection_def)

lemma unix_handshake_runs_twice_witness:
  "aio_connect demo_anet (demo_aio_config True) 1 (new_aio_connection []) =
     Some (Inr (), (new_aio_connection [])\<lparr>cx_sock := True, cx_parser3 := False, cx_world := demo_commands @ demo_commands\<rparr>)"
proof -
  have "converse demo_anet (demo_aio_config True) False (aio_handshake (demo_aio_config True) @ aio_handshake (demo_aio_config True))
      [] (demo_commands @ demo_commands)"
    using demo_handshake [of True "[]"] demo_handshake [of True demo_commands] by (auto simp: converse_append)
  then show ?thesis
    using unix_handshake_runs_twice [of "new_aio_connection []" "demo_aio_config True" demo_anet "[]" "demo_commands @ demo_commands" 0]
    by (simp add: new_aio_connection_def)
qed

text \<open>A server that refuses the password, and a socket that refuses an option.\<close>

definition refusing_anet :: "pyval list list anet" where
  "refusing_anet = demo_anet\<lparr>ay_read := (\<lambda>_ _ _ _. raiseS (Exc AuthenticationError ''WRONGPASS''))\<rparr>"

lemma unix_refusal_loses_class_witness:
  "\<exists>s1 s2. aio_connect refusing_anet (demo_aio_config True) 1 (new_aio_connection []) = Some (Inl (Exc ConnectionError ''WRONGPASS''), s1) \<and>
     aio_connect refusing_anet (demo_aio_config False) 1 (new_aio_connection []) = Some (Inl (Exc AuthenticationError ''WRONGPASS''), s2)"
proof -
  let ?s2 = "(new_aio_connection [])\<lparr>cx_world := [strs [''AUTH'', ''p'']], cx_sock := False\<rparr>"
  have r [simp]: "ay_open refusing_anet w = (Inr (), w)" "ay_nodelay refusing_anet w = (Inr (), w)" "ay_keepalive refusing_anet w = (Inr (), w)"
    "ay_parser_start refusing_anet w = (Inr (), w)" "ay_parser_stop refusing_anet w = (Inr (), w)" "ay_close refusing_anet w = (Inr (), w)"
    "ay_write refusing_anet c w = (Inr (), w @ [c])" "ay_read refusing_anet l p d q w = (Inl (Exc AuthenticationError ''WRONGPASS''), w)"
    "ay_pack refusing_anet [PStr a, PStr b] = Inr [PStr a, PStr b]" for w c l p d q a b
    by (simp_all add: refusing_anet_def demo_anet_def)
  have refused: "aio_on_connect refusing_anet (demo_aio_config u) cn ((new_aio_connection [])\<lparr>cx_world := [], cx_sock := True\<rparr>)
      = Some (Inl (Exc AuthenticationError ''WRONGPASS''), ?s2)" for u cn
  proof -
    let ?s = "(new_aio_connection [])\<lparr>cx_world := [], cx_sock := True\<rparr> :: pyval list list connection"
    have send: "aio_send refusing_anet (demo_aio_config u) cn False [PStr ''AUTH'', PStr ''p''] ?s
        = Some (Inr (), ?s\<lparr>cx_world := [strs [''AUTH'', ''p'']]\<rparr>)"
      by (simp add: aio_send_def aio_pack_send_def aio_send_unchecked_def aio_write_items_def catchS_def total_def bindP_def thenP_def
          bindS_def on_net_def strs_def)
    have read: "aio_read refusing_anet (demo_aio_config u) (?s\<lparr>cx_world := [strs [''AUTH'', ''p'']]\<rparr>)
        = Some (Inl (Exc AuthenticationError ''WRONGPASS''), ?s2)"
      by (simp add: aio_read_def total_def aio_conn_read_response_def catchS_def bindS_def on_net_def is_timeout_def isinstance_def
          thenS_def aio_disconnect_def finallyS_def unset_streams_def new_aio_connection_def)
    show ?thesis
      using send read aio_auth_static [of "demo_aio_config u" ?s]
      by (simp add: aio_on_connect_def demo_auth aio_authenticate_def total_def on_net_def strs_def isinstance_def exc_le.simps)
  qed
  have closing: "aio_disconnect refusing_anet False ?s2 = (Inr (), ?s2)"
    by (simp add: aio_disconnect_def catchS_def thenS_def bindS_def on_net_def new_aio_connection_def)
  have "aio_connect refusing_anet (demo_aio_config u) (Suc 0) (new_aio_connection [])
      = Some (Inl (if ac_unix (demo_aio_config u) then Exc ConnectionError ''WRONGPASS'' else Exc AuthenticationError ''WRONGPASS''), ?s2)" for u
    by (rule unix_refusal_loses_class [of _ _ _ "[]" _ _ ?s2])
      (use refused closing in \<open>simp_all add: new_aio_connection_def aio_new_retry_def\<close>)
  from this [of True] this [of False] show ?thesis by simp
qed

lemma refused_option_looks_connected_witness:
  "\<exists>s'. aio_connect (demo_anet\<lparr>ay_keepalive := raiseS (Exc OSError ''option'')\<rparr>) (demo_aio_config False) 1 (new_aio_connection []) =
      Some (Inl (Exc ConnectionError (format_error_message ''h'' [''option''])), s') \<and> cx_sock s'"
  using refused_option_looks_connected [of "new_aio_connection []" "demo_aio_config False" "demo_anet\<lparr>ay_keepalive := raiseS (Exc OSError ''option'')\<rparr>"
      "[]" "''option''" "[]" "[]" 0]
  by (auto simp: new_aio_connection_def aio_new_retry_def isinstance_any_def isinstance_def)

lemma no_protocol_sends_hello_none_witness:
  "\<exists>c s'. new_aio_config (PInt 0) None None None None None None None None None None False 0 None PNone False ''h'' = Inr c \<and>
     aio_on_connect demo_anet c (\<lambda>s. None) (new_aio_connection []) = Some (Inl (Exc DataError ''Invalid input of type''), s')"
proof -
  obtain c :: "pyval list list aio_config"
    where c: "new_aio_config (PInt 0) None None None None None None None None None None False 0 None PNone False ''h'' = Inr c"
    by (simp add: new_aio_config_def filled_def protocol_arg_def Let_def isinstance_def DEFAULT_RESP_VERSION_def)
  have "ay_pack demo_anet [PStr ''HELLO'', PNone] = Inl (Exc DataError ''Invalid input of type'')" by simp
  from no_protocol_sends_hello_none [OF c this, of "\<lambda>s. None" "new_aio_connection []"] c show ?thesis by auto
qed

end
