(* ===== verification/AsyncPubSub.thy ===== *)
theory AsyncPubSub
  imports PubSub PubSubCorrect
begin

text \<open>
  \<open>PubSub\<close> of the asynchronous client (\<open>redis/asyncio/client.py\<close>), which has channels and patterns but no shard
  channels: subscribing, the connect callback, reading with a time limit, handling messages and the worker \<open>run\<close>.
  The connection and its reconnects are an argument, as in \<open>PubSub\<close>, whose handling of names and messages it shares.
\<close>

section \<open>State\<close>

record 'w apubsub =
  aps_connection :: bool
  aps_subs :: "kind \<Rightarrow> subs"
  aps_pending :: "kind \<Rightarrow> pyval list"
  aps_world :: 'w

text \<open>\<open>ak_get\<close> gets a connection from the pool and registers the callback; \<open>ak_open\<close> tells whether it opened the connection;
  \<open>ak_read\<close> has a limit, \<open>None\<close> for none; \<open>ak_checks\<close> whether a health check interval is set.\<close>

record 'w alink =
  ak_get :: "('w, exc, unit) action"
  ak_release :: "('w, exc, unit) action"
  ak_open :: "('w, exc, bool) action"
  ak_send :: "bool \<Rightarrow> pyval list \<Rightarrow> ('w, exc, unit) action"
  ak_read :: "rat option \<Rightarrow> ('w, exc, pyval) action"
  ak_disconnect :: "('w, exc, unit) action"
  ak_due :: "'w \<Rightarrow> bool"
  ak_checks :: bool
  ak_retry :: retry
  ak_rnd :: "nat \<Rightarrow> rat"
  ak_sleep :: "rat \<Rightarrow> 'w \<Rightarrow> 'w"
  ak_retry_on_error :: "exc_class list option"
  ak_encoder :: encoder
  ak_ignore_subscribe :: bool
  ak_handler :: "nat \<Rightarrow> pyval \<Rightarrow> ('w, exc, unit) action"

type_synonym ('w, 'a) asub_run = "('w apubsub, 'a) run"

definition on_alink :: "('w, exc, 'a) action \<Rightarrow> ('w, 'a) asub_run" where
  "on_alink m = (\<lambda>p. case m (aps_world p) of (r, w) \<Rightarrow> Some (r, p\<lparr>aps_world := w\<rparr>))"

definition AIO_PUBLISH_MESSAGE_TYPES :: "string list" where
  "AIO_PUBLISH_MESSAGE_TYPES = [''message'', ''pmessage'']"

definition AIO_UNSUBSCRIBE_MESSAGE_TYPES :: "string list" where
  "AIO_UNSUBSCRIBE_MESSAGE_TYPES = [''unsubscribe'', ''punsubscribe'']"

definition aio_health_check_response :: "'w alink \<Rightarrow> pyval list" where
  "aio_health_check_response K =
     (if decode_responses (ak_encoder K)
      then [PList [PStr ''pong'', PStr HEALTH_CHECK_MESSAGE], PStr HEALTH_CHECK_MESSAGE]
      else [PList [PBytes ''pong'', PBytes HEALTH_CHECK_MESSAGE], PBytes HEALTH_CHECK_MESSAGE])"

definition new_apubsub :: "'w \<Rightarrow> 'w apubsub" where
  "new_apubsub w = \<lparr>aps_connection = False, aps_subs = (\<lambda>_. []), aps_pending = (\<lambda>_. []), aps_world = w\<rparr>"

definition aio_subscribed :: "'w apubsub \<Rightarrow> bool" where
  "aio_subscribed p = (aps_subs p Channel \<noteq> [] \<or> aps_subs p Pattern \<noteq> [])"

text \<open>\<open>aclose\<close>; \<open>ak_release\<close> is disconnecting, removing the callback and releasing to the pool.\<close>

definition aps_aclose :: "'w alink \<Rightarrow> ('w, unit) asub_run" where
  "aps_aclose K =
     bindP (getP aps_connection) (\<lambda>b.
     thenP (if b then thenP (on_alink (ak_release K)) (modP (\<lambda>p. p\<lparr>aps_connection := False\<rparr>)) else retP ())
     (modP (\<lambda>p. p\<lparr>aps_subs := (\<lambda>_. []), aps_pending := (\<lambda>_. [])\<rparr>)))"

section \<open>Sending\<close>

text \<open>The callback of the connection is the argument \<open>cb\<close>.\<close>

definition aps_open :: "'w alink \<Rightarrow> ('w, unit) asub_run \<Rightarrow> ('w, unit) asub_run" where
  "aps_open K cb = bindP (on_alink (ak_open K)) (\<lambda>new. whenP new cb)"

definition aps_connect :: "'w alink \<Rightarrow> ('w, unit) asub_run \<Rightarrow> ('w, unit) asub_run" where
  "aps_connect K cb = bindP (getP aps_connection) (\<lambda>have.
     if have then aps_open K cb else thenP (on_alink (ak_get K)) (modP (\<lambda>p. p\<lparr>aps_connection := True\<rparr>)))"

definition aps_disconnect_raise_connect :: "'w alink \<Rightarrow> ('w, unit) asub_run \<Rightarrow> exc \<Rightarrow> ('w, unit) asub_run" where
  "aps_disconnect_raise_connect K cb e =
     thenP (on_alink (ak_disconnect K))
     (if (case ak_retry_on_error K of None \<Rightarrow> False | Some cs \<Rightarrow> isinstance_any e cs) then aps_open K cb else raiseP e)"

definition aps_sleep :: "'w alink \<Rightarrow> rat \<Rightarrow> 'w apubsub \<Rightarrow> 'w apubsub" where
  "aps_sleep K t p = p\<lparr>aps_world := ak_sleep K t (aps_world p)\<rparr>"

definition aps_execute :: "'w alink \<Rightarrow> ('w, unit) asub_run \<Rightarrow> ('w, 'a) asub_run \<Rightarrow> ('w, 'a) asub_run" where
  "aps_execute K cb m = call_with_retryP (ak_retry K) (ak_rnd K) (aps_sleep K) m (aps_disconnect_raise_connect K cb)"

definition aps_send :: "'w alink \<Rightarrow> ('w, unit) asub_run \<Rightarrow> bool \<Rightarrow> pyval list \<Rightarrow> ('w, unit) asub_run" where
  "aps_send K cb check args = thenP (aps_open K cb) (on_alink (ak_send K check args))"

definition aps_execute_command :: "'w alink \<Rightarrow> ('w, unit) asub_run \<Rightarrow> pyval list \<Rightarrow> ('w, unit) asub_run" where
  "aps_execute_command K cb args =
     thenP (aps_connect K cb)
     (bindP (getP aio_subscribed) (\<lambda>sub. aps_execute K cb (aps_send K cb (\<not> sub) args)))"

section \<open>Subscribing\<close>

text \<open>The first argument is wrapped before \<open>list_or_args\<close> sees it, except in \<open>unsubscribe\<close>.\<close>

definition wrapped_args :: "pyval list \<Rightarrow> pyval list" where
  "wrapped_args args = (case args of [] \<Rightarrow> [] | a # rest \<Rightarrow> list_or_args (PTuple [a]) rest)"

definition aio_new_subs :: "pyval list \<Rightarrow> (string \<times> nat option) list \<Rightarrow> exc + subs" where
  "aio_new_subs args kwargs = bindE (fromkeys (wrapped_args args) []) (\<lambda>d. Inr (update_kwargs kwargs d))"

definition aio_subscribed_to :: "kind \<Rightarrow> subs \<Rightarrow> 'w apubsub \<Rightarrow> 'w apubsub" where
  "aio_subscribed_to k new p =
     p\<lparr>aps_subs := (aps_subs p)(k := subs_update (aps_subs p k) new),
       aps_pending := (aps_pending p)(k := filter (\<lambda>x. \<not> py_in x (map fst new)) (aps_pending p k))\<rparr>"

definition aio_subscribe_dict :: "'w alink \<Rightarrow> ('w, unit) asub_run \<Rightarrow> kind \<Rightarrow> subs \<Rightarrow> ('w, unit) asub_run" where
  "aio_subscribe_dict K cb k new =
     thenP (aps_execute_command K cb (PStr (command_of k) # map fst new))
     (bindP (total (liftS (normalize_keys (ak_encoder K) new))) (\<lambda>n. modP (aio_subscribed_to k n)))"

definition aio_subscribe :: "'w alink \<Rightarrow> ('w, unit) asub_run \<Rightarrow> pyval list \<Rightarrow> (string \<times> nat option) list \<Rightarrow> ('w, unit) asub_run" where
  "aio_subscribe K cb args kwargs = bindP (total (liftS (aio_new_subs args kwargs))) (aio_subscribe_dict K cb Channel)"

definition aio_psubscribe :: "'w alink \<Rightarrow> ('w, unit) asub_run \<Rightarrow> pyval list \<Rightarrow> (string \<times> nat option) list \<Rightarrow> ('w, unit) asub_run" where
  "aio_psubscribe K cb args kwargs = bindP (total (liftS (aio_new_subs args kwargs))) (aio_subscribe_dict K cb Pattern)"

text \<open>The names given, or all of the table; \<open>args\<close> are the names as sent.\<close>

definition aio_unsubscribe_names :: "'w alink \<Rightarrow> ('w, unit) asub_run \<Rightarrow> kind \<Rightarrow> pyval list \<Rightarrow> ('w, unit) asub_run" where
  "aio_unsubscribe_names K cb k args =
     bindP (if args = [] then getP (\<lambda>p. aps_subs p k)
            else total (liftS (bindE (fromkeys args []) (normalize_keys (ak_encoder K))))) (\<lambda>names.
     thenP (modP (\<lambda>p. p\<lparr>aps_pending := (aps_pending p)(k := set_union (aps_pending p k) (map fst names))\<rparr>))
     (aps_execute_command K cb (PStr (un_command_of k) # args)))"

definition aio_unsubscribe :: "'w alink \<Rightarrow> ('w, unit) asub_run \<Rightarrow> pyval list \<Rightarrow> ('w, unit) asub_run" where
  "aio_unsubscribe K cb args = aio_unsubscribe_names K cb Channel (name_args args)"

definition aio_punsubscribe :: "'w alink \<Rightarrow> ('w, unit) asub_run \<Rightarrow> pyval list \<Rightarrow> ('w, unit) asub_run" where
  "aio_punsubscribe K cb args = aio_unsubscribe_names K cb Pattern (wrapped_args args)"

section \<open>Subscribing again\<close>

definition aio_resubscribe :: "'w alink \<Rightarrow> ('w, unit) asub_run \<Rightarrow> kind \<Rightarrow> ('w, unit) asub_run" where
  "aio_resubscribe K cb k =
     bindP (getP (\<lambda>p. aps_subs p k)) (\<lambda>d.
       if d = [] then retP ()
       else bindP (total (liftS (bindE (decoded_names (ak_encoder K) d []) (keyword_call k)))) (\<lambda>names.
         bindP (total (liftS (aio_new_subs [] names))) (aio_subscribe_dict K cb k)))"

definition aps_on_connect_with :: "'w alink \<Rightarrow> ('w, unit) asub_run \<Rightarrow> ('w, unit) asub_run" where
  "aps_on_connect_with K cb =
     thenP (modP (\<lambda>p. p\<lparr>aps_pending := (\<lambda>_. [])\<rparr>))
     (thenP (aio_resubscribe K cb Channel) (aio_resubscribe K cb Pattern))"

primrec aps_on_connect :: "'w alink \<Rightarrow> nat \<Rightarrow> ('w, unit) asub_run" where
  "aps_on_connect K 0 = (\<lambda>p. None)"
| "aps_on_connect K (Suc n) = aps_on_connect_with K (aps_on_connect K n)"

section \<open>Reading\<close>

definition aps_check_health :: "'w alink \<Rightarrow> ('w, unit) asub_run \<Rightarrow> ('w, unit) asub_run" where
  "aps_check_health K cb =
     bindP (getP aps_connection) (\<lambda>b.
       if \<not> b then raiseP no_connection_set
       else bindP (getP (\<lambda>p. ak_due K (aps_world p))) (\<lambda>due.
         whenP due (aps_send K cb False [PStr ''PING'', PStr HEALTH_CHECK_MESSAGE])))"

definition aps_parse_response :: "'w alink \<Rightarrow> ('w, unit) asub_run \<Rightarrow> bool \<Rightarrow> rat \<Rightarrow> ('w, pyval) asub_run" where
  "aps_parse_response K cb block timeout =
     bindP (getP aps_connection) (\<lambda>b.
       if \<not> b then raiseP no_connection_set
       else thenP (aps_check_health K cb)
         (thenP (aps_open K cb)
         (bindP (aps_execute K cb (on_alink (ak_read K (if block then None else Some timeout)))) (\<lambda>r.
            retP (if ak_checks K \<and> r \<in> set (aio_health_check_response K) then PNone else r)))))"

section \<open>Messages\<close>

definition aio_forget :: "kind \<Rightarrow> pyval \<Rightarrow> 'w apubsub \<Rightarrow> 'w apubsub" where
  "aio_forget k name p =
     (if py_in name (aps_pending p k) then
        p\<lparr>aps_pending := (aps_pending p)(k := filter (\<lambda>x. \<not> py_key_eq name x) (aps_pending p k)),
          aps_subs := (aps_subs p)(k := filter (\<lambda>(x, _). \<not> py_key_eq name x) (aps_subs p k))\<rparr>
      else p)"

text \<open>A handler that is a coroutine function is awaited.\<close>

definition aio_handle_message :: "'w alink \<Rightarrow> pyval \<Rightarrow> bool \<Rightarrow> ('w, pyval) asub_run" where
  "aio_handle_message K response ignore =
     (if response = PNone then retP PNone
      else bindP (total (liftS (parse_message response))) (\<lambda>(t, pattern, channel, data).
        let message = message_dict t pattern channel data in
        thenP (if is_type AIO_UNSUBSCRIBE_MESSAGE_TYPES t then
                 (if hashable channel then modP (aio_forget (if t = PStr ''punsubscribe'' then Pattern else Channel) channel)
                  else raiseP unhashable_error)
               else retP ())
        (if is_type AIO_PUBLISH_MESSAGE_TYPES t then
           (let name = (if t = PStr ''pmessage'' then pattern else channel) in
            if \<not> hashable name then raiseP unhashable_error
            else bindP (getP (\<lambda>p. nd_get name (aps_subs p (if t = PStr ''pmessage'' then Pattern else Channel)))) (\<lambda>h.
              case h of
                Some (Some n) \<Rightarrow> thenP (on_alink (ak_handler K n message)) (retP PNone)
              | _ \<Rightarrow> retP message))
         else if t \<noteq> PStr ''pong'' \<and> (ignore \<or> ak_ignore_subscribe K) then retP PNone
         else retP message)))"

definition aio_get_message :: "'w alink \<Rightarrow> ('w, unit) asub_run \<Rightarrow> bool \<Rightarrow> rat option \<Rightarrow> ('w, pyval) asub_run" where
  "aio_get_message K cb ignore timeout =
     bindP (aps_parse_response K cb (timeout = None) (case timeout of Some t \<Rightarrow> t | None \<Rightarrow> 0)) (\<lambda>r.
       if truthy r then aio_handle_message K r ignore else retP PNone)"

text \<open>One step of the generator: the next message, or the end.\<close>

partial_function (option) aio_listen_next :: "'w alink \<Rightarrow> ('w, unit) asub_run \<Rightarrow> ('w, pyval option) asub_run" where
  "aio_listen_next K cb p =
     (if \<not> aio_subscribed p then Some (Inr None, p)
      else (case bindP (aps_parse_response K cb True 0) (\<lambda>r. aio_handle_message K r False) p of
              None \<Rightarrow> None
            | Some (Inl e, p') \<Rightarrow> Some (Inl e, p')
            | Some (Inr m, p') \<Rightarrow> if m \<noteq> PNone then Some (Inr (Some m), p') else aio_listen_next K cb p'))"

definition aps_ping :: "'w alink \<Rightarrow> ('w, unit) asub_run \<Rightarrow> pyval option \<Rightarrow> ('w, unit) asub_run" where
  "aps_ping K cb message = aps_execute_command K cb (PStr ''PING'' # (case message of Some m \<Rightarrow> [m] | None \<Rightarrow> []))"

section \<open>The worker\<close>

text \<open>The name of the channel in the message is left out.\<close>

definition aio_run_check :: "'w apubsub \<Rightarrow> exc + unit" where
  "aio_run_check p =
     (if missing_handler (aps_subs p Channel) \<noteq> None then Inl (Exc PubSubError ''Channel has no handler registered'')
      else if missing_handler (aps_subs p Pattern) \<noteq> None then Inl (Exc PubSubError ''Pattern has no handler registered'')
      else Inr ())"

text \<open>The loop ends only with an exception, a cancellation among them, that no handler takes.\<close>

partial_function (option) aio_run_loop ::
  "'w alink \<Rightarrow> ('w, unit) asub_run \<Rightarrow> rat option \<Rightarrow> (exc \<Rightarrow> ('w, unit) asub_run) option \<Rightarrow> ('w, unit) asub_run" where
  "aio_run_loop K cb poll_timeout handler p =
     (case aio_get_message K cb True poll_timeout p of
        None \<Rightarrow> None
      | Some (Inr _, p') \<Rightarrow> aio_run_loop K cb poll_timeout handler p'
      | Some (Inl e, p') \<Rightarrow>
          (if isinstance e CancelledError then Some (Inl e, p')
           else (case handler of
             None \<Rightarrow> Some (Inl e, p')
           | Some h \<Rightarrow>
               (case h e p' of
                  None \<Rightarrow> None
                | Some (Inl e', p'') \<Rightarrow> Some (Inl e', p'')
                | Some (Inr _, p'') \<Rightarrow> aio_run_loop K cb poll_timeout handler p''))))"

definition aio_run ::
  "'w alink \<Rightarrow> ('w, unit) asub_run \<Rightarrow> rat option \<Rightarrow> (exc \<Rightarrow> ('w, unit) asub_run) option \<Rightarrow> ('w, unit) asub_run" where
  "aio_run K cb poll_timeout handler =
     bindP (getP aio_run_check) (\<lambda>r. case r of
        Inl e \<Rightarrow> raiseP e
      | Inr _ \<Rightarrow> thenP (aps_connect K cb) (aio_run_loop K cb poll_timeout handler))"

section \<open>Messages as in the synchronous client\<close>

text \<open>The object of the synchronous client with the same tables, and what its handling of messages uses of the connection.\<close>

definition sync_pubsub :: "'w apubsub \<Rightarrow> 'w pubsub" where
  "sync_pubsub p = \<lparr>ps_connection = aps_connection p, ps_counter = 0, ps_subs = (aps_subs p)(Shard := []),
     ps_pending = (aps_pending p)(Shard := []), ps_subscribed = aio_subscribed p, ps_world = aps_world p\<rparr>"

definition handles_like :: "'w alink \<Rightarrow> 'w sub_link \<Rightarrow> bool" where
  "handles_like K L \<longleftrightarrow> sk_handler L = ak_handler K \<and> sk_ignore_subscribe L = ak_ignore_subscribe K"

lemma forget_sync:
  "k \<noteq> Shard \<Longrightarrow> clear_if_none (forget k name (sync_pubsub p)) = sync_pubsub (aio_forget k name p)"
  by (cases k; cases "py_in name (aps_pending p k)")
    (simp_all add: clear_if_none_def forget_def aio_forget_def sync_pubsub_def aio_subscribed_def fun_upd_twist [of Shard Channel]
      fun_upd_twist [of Shard Pattern], metis filter.simps(1))

text \<open>Handling a message that is not one of a shard channel, the asynchronous object forgets, calls and returns what the
  synchronous one with the same tables does, errors included.\<close>

theorem aio_handle_message_refines:
  assumes "handles_like K L" "\<And>t q c d. parse_message r = Inr (t, q, c, d) \<Longrightarrow> t \<notin> {PStr ''smessage'', PStr ''sunsubscribe''}"
  shows "handle_message L r ignore (sync_pubsub p) = map_option (\<lambda>(x, p'). (x, sync_pubsub p')) (aio_handle_message K r ignore p)"
proof (cases "r = PNone")
  case True
  then show ?thesis by (simp add: handle_message_def aio_handle_message_def)
next
  case False
  show ?thesis
  proof (cases "parse_message r")
    case (Inl e)
    then show ?thesis using False by (simp add: handle_message_def aio_handle_message_def total_def)
  next
    case (Inr m)
    obtain t q c d where m: "parse_message r = Inr (t, q, c, d)" using Inr by (cases m) auto
    then have t: "t \<noteq> PStr ''smessage''" "t \<noteq> PStr ''sunsubscribe''" using assms(2) by auto
    have K: "sk_handler L = ak_handler K" "sk_ignore_subscribe L = ak_ignore_subscribe K" using assms(1) by (simp_all add: handles_like_def)
    have types: "is_type UNSUBSCRIBE_MESSAGE_TYPES t = is_type AIO_UNSUBSCRIBE_MESSAGE_TYPES t"
      "is_type PUBLISH_MESSAGE_TYPES t = is_type AIO_PUBLISH_MESSAGE_TYPES t"
      using t by (auto simp: is_type_def UNSUBSCRIBE_MESSAGE_TYPES_def AIO_UNSUBSCRIBE_MESSAGE_TYPES_def PUBLISH_MESSAGE_TYPES_def AIO_PUBLISH_MESSAGE_TYPES_def)
    have kinds: "kind_of_unsubscribe t = (if t = PStr ''punsubscribe'' then Pattern else Channel)"
      "kind_of_message t = (if t = PStr ''pmessage'' then Pattern else Channel)"
      using t by (simp_all add: kind_of_unsubscribe_def kind_of_message_def)
    have subs: "ps_subs (sync_pubsub p) k = aps_subs p k" if "k \<noteq> Shard" for k p using that by (simp add: sync_pubsub_def)
    have world: "ps_world (sync_pubsub p) = aps_world p" "sync_pubsub p\<lparr>ps_world := w\<rparr> = sync_pubsub (p\<lparr>aps_world := w\<rparr>)" for p w
      by (simp_all add: sync_pubsub_def aio_subscribed_def)
    have both: "\<not> (is_type AIO_UNSUBSCRIBE_MESSAGE_TYPES t \<and> is_type AIO_PUBLISH_MESSAGE_TYPES t)"
      by (auto simp: is_type_def AIO_UNSUBSCRIBE_MESSAGE_TYPES_def AIO_PUBLISH_MESSAGE_TYPES_def)
    show ?thesis
    proof (cases "is_type AIO_UNSUBSCRIBE_MESSAGE_TYPES t")
      case un: True
      then have "t \<noteq> PStr ''pong''" by (auto simp: is_type_def AIO_UNSUBSCRIBE_MESSAGE_TYPES_def)
      with un show ?thesis
        using False m both K
        by (simp add: handle_message_def aio_handle_message_def types kinds total_def Let_def modP_def forget_sync)
    next
      case no: False
      let ?k = "if t = PStr ''pmessage'' then Pattern else Channel" and ?name = "if t = PStr ''pmessage'' then q else c"
      note defs = handle_message_def aio_handle_message_def types kinds total_def Let_def getP_def
      show ?thesis
      proof (cases "is_type AIO_PUBLISH_MESSAGE_TYPES t \<and> hashable ?name")
        case True
        have lookup: "nd_get ?name (ps_subs (sync_pubsub p) ?k) = nd_get ?name (aps_subs p ?k)"
          using subs [of Channel p] subs [of Pattern p] by simp
        have same: "thenP (on_conn (sk_handler L n x)) (retP PNone) (sync_pubsub p) =
            map_option (\<lambda>(x, p'). (x, sync_pubsub p')) (thenP (on_alink (ak_handler K n x)) (retP PNone) p)" for n x
          by (cases "ak_handler K n x (aps_world p)")
            (auto simp: K thenP_def bindP_def on_conn_def on_alink_def world split: sum.splits)
        show ?thesis
        proof (cases "nd_get ?name (aps_subs p ?k)")
          case None
          then show ?thesis using False m no True lookup by (simp add: defs)
        next
          case (Some h)
          then show ?thesis using False m no True lookup same by (cases h) (simp_all add: defs)
        qed
      next
        case unpublished: False
        then show ?thesis using False m no K by (cases "is_type AIO_PUBLISH_MESSAGE_TYPES t") (simp_all add: defs)
      qed
    qed
  qed
qed

section \<open>Subscribing again, and subscribing to a list\<close>

lemma aps_command_sent:
  assumes "aps_connection p" "aio_subscribed p" "\<And>w. ak_open K w = (Inr False, w)" "ak_send K False args (aps_world p) = (Inr u, w)"
  shows "aps_execute_command K cb args p = Some (Inr (), p\<lparr>aps_world := w\<rparr>)"
proof -
  have opens: "aps_open K cb p = Some (Inr (), p)" for p :: "'a apubsub"
    using assms(3) by (simp add: aps_open_def on_alink_def bindP_def)
  have "aps_send K cb False args p = Some (Inr (), p\<lparr>aps_world := w\<rparr>)"
    using assms(4) by (simp add: aps_send_def opens on_alink_def)
  then have "aps_execute K cb (aps_send K cb False args) p = Some (Inr (), p\<lparr>aps_world := w\<rparr>)"
    by (simp add: aps_execute_def call_with_retryP_Inr)
  then show ?thesis
    using assms(1,2) opens by (simp add: aps_execute_command_def aps_connect_def getP_def total_def)
qed

fun aio_sends :: "'w alink \<Rightarrow> pyval list list \<Rightarrow> 'w \<Rightarrow> 'w \<Rightarrow> bool" where
  "aio_sends K [] w w' = (w' = w)"
| "aio_sends K (c # cs) w w' = (case ak_send K False c w of (Inl _, _) \<Rightarrow> False | (Inr _, w1) \<Rightarrow> aio_sends K cs w1 w')"

lemma aio_sends_append: "aio_sends K (xs @ ys) w w' \<longleftrightarrow> (\<exists>w1. aio_sends K xs w w1 \<and> aio_sends K ys w1 w')"
proof (induction xs arbitrary: w)
  case (Cons c cs)
  obtain x w1 where "ak_send K False c w = (x, w1)" by force
  with Cons show ?case by (cases x) auto
qed simp

lemma aio_resubscribe_names:
  assumes "aps_connection p" "aio_subscribed p" "\<And>w. ak_open K w = (Inr False, w)" "k \<noteq> Shard"
    and "aps_subs p k = keyed (ak_encoder K) names" "callable_names k names" "aps_pending p k = []"
    and "aio_sends K (resub_command k names) (aps_world p) w"
  shows "aio_resubscribe K cb k p = Some (Inr (), p\<lparr>aps_world := w\<rparr>)"
proof (cases "names = []")
  case True
  then show ?thesis
    using assms(5,8) by (simp add: aio_resubscribe_def keyed_def getP_def total_def resub_command_def)
next
  case False
  let ?enc = "ak_encoder K" and ?new = "map (\<lambda>(s, h). (PStr s, h)) names"
  have u: "utf8_valid s \<and> s \<noteq> ''self''" if "s \<in> set (map fst names)" for s
    using assms(6) that by (auto simp: callable_names_def list_all_iff)
  have d: "distinct (map fst names)" using assms(6) by (simp add: callable_names_def)
  have dn: "decoded_names ?enc (keyed ?enc names) [] = Inr names"
    using decoded_names_keyed [of names "[]" ?enc] u d by simp
  have kw: "keyword_call k names = Inr names" using u assms(4) by (auto simp: keyword_call_def)
  have ns: "aio_new_subs [] names = Inr ?new"
    using update_kwargs_distinct [of "[]" names] d by (simp add: aio_new_subs_def wrapped_args_def)
  have nk: "normalize_keys ?enc ?new = Inr (keyed ?enc names)"
    using normalize_names [of names "[]" ?enc] u d by (simp add: normalize_keys_def keyed_def)
  have keys: "map fst ?new = map (PStr \<circ> fst) names" by auto
  obtain x w' where x: "ak_send K False (PStr (command_of k) # map fst ?new) (aps_world p) = (x, w')" by force
  then obtain v where "ak_send K False (PStr (command_of k) # map fst ?new) (aps_world p) = (Inr v, w)"
    using assms(8) False unfolding keys by (cases x) (auto simp: resub_command_def)
  from aps_command_sent [OF assms(1-3) this]
  have sent: "aps_execute_command K cb (PStr (command_of k) # map fst ?new) p = Some (Inr (), p\<lparr>aps_world := w\<rparr>)" .
  have "subs_update (keyed ?enc names) (keyed ?enc names) = keyed ?enc names"
    using subs_update_same [OF d, of "keyed ?enc names" ?enc] by simp
  then have "aio_subscribed_to k (keyed ?enc names) (p\<lparr>aps_world := w\<rparr>) = p\<lparr>aps_world := w\<rparr>"
    using assms(5,7) by (simp add: aio_subscribed_to_def fun_upd_idem)
  then have "aio_subscribe_dict K cb k ?new p = Some (Inr (), p\<lparr>aps_world := w\<rparr>)"
    using sent nk by (simp add: aio_subscribe_dict_def total_def modP_def)
  moreover have "aps_subs p k \<noteq> []" using False assms(5) by (simp add: keyed_def)
  ultimately show ?thesis
    using assms(5) dn kw ns by (simp add: aio_resubscribe_def getP_def total_def)
qed

text \<open>When the connection of a subscribed asynchronous object is opened again, its callback sends one SUBSCRIBE and one PSUBSCRIBE
  with exactly the registered channels and patterns, and the tables with their handlers stay as they were.\<close>

theorem aio_reconnect_subscribes_again:
  assumes "aps_connection p" "aio_subscribed p" "\<And>w. ak_open K w = (Inr False, w)"
    and "\<And>k. aps_subs p k = keyed (ak_encoder K) (names k)" "\<And>k. callable_names k (names k)"
    and "aio_sends K (resub_command Channel (names Channel) @ resub_command Pattern (names Pattern)) (aps_world p) w"
  shows "aps_on_connect K (Suc n) p = Some (Inr (), p\<lparr>aps_pending := (\<lambda>_. []), aps_world := w\<rparr>)"
proof -
  let ?p = "\<lambda>w. p\<lparr>aps_pending := (\<lambda>_. []), aps_world := w\<rparr>"
  from assms(6) obtain w1 where s: "aio_sends K (resub_command Channel (names Channel)) (aps_world p) w1"
      "aio_sends K (resub_command Pattern (names Pattern)) w1 w"
    by (auto simp: aio_sends_append)
  have r: "aio_resubscribe K (aps_on_connect K n) k (?p v) = Some (Inr (), ?p v')"
    if "k \<noteq> Shard" "aio_sends K (resub_command k (names k)) v v'" for k v v'
    using aio_resubscribe_names [of "?p v" K k "names k" v'] assms that by (simp add: aio_subscribed_def)
  have "modP (\<lambda>p. p\<lparr>aps_pending := (\<lambda>_. [])\<rparr>) p = Some (Inr (), ?p (aps_world p))" by (simp add: modP_def total_def)
  then show ?thesis using r [OF _ s(1)] r [OF _ s(2)] by (simp add: aps_on_connect_with_def)
qed

text \<open>A list of channels, which \<open>unsubscribe\<close> and the synchronous \<open>subscribe\<close> take apart, makes the asynchronous
  \<open>subscribe\<close> raise TypeError before anything is sent.\<close>

theorem aio_subscribe_list_raises:
  assumes "list_all hashable xs"
  shows "aio_subscribe K cb [PList xs] [] p = Some (Inl unhashable_error, p) \<and>
    (\<exists>d. new_subs [PList xs] [] = Inr d \<and> (\<forall>x \<in> set xs. py_in x (map fst d))) \<and> name_args [PList xs] = xs"
proof -
  have in_set: "py_in x (map fst (nd_set k v d)) \<longleftrightarrow> py_key_eq x k \<or> py_in x (map fst d)" for x k v and d :: subs
    by (induction d) (auto simp: py_in_def py_key_eq_def split: if_splits)
  have keys: "\<exists>d'. fromkeys ys d = Inr d' \<and> (\<forall>x. py_in x (map fst d) \<or> x \<in> set ys \<longrightarrow> py_in x (map fst d'))"
    if "list_all hashable ys" for ys d
    using that
  proof (induction ys arbitrary: d)
    case (Cons y ys)
    then obtain d' where "fromkeys ys (nd_set y None d) = Inr d'"
      "\<forall>x. py_in x (map fst (nd_set y None d)) \<or> x \<in> set ys \<longrightarrow> py_in x (map fst d')" by fastforce
    then show ?case using Cons.prems by (auto simp: in_set)
  qed simp
  have args: "name_args [PList xs] = xs" by (simp add: name_args_def list_or_args_def py_iter_def)
  moreover obtain d where "fromkeys xs [] = Inr d" "\<forall>x \<in> set xs. py_in x (map fst d)" using keys [OF assms, of "[]"] by blast
  ultimately have "\<exists>d. new_subs [PList xs] [] = Inr d \<and> (\<forall>x \<in> set xs. py_in x (map fst d))"
    by (simp add: new_subs_def update_kwargs_def)
  moreover have "aio_new_subs [PList xs] [] = Inl unhashable_error"
    by (simp add: aio_new_subs_def wrapped_args_def list_or_args_def py_iter_def)
  ultimately show ?thesis using args by (simp add: aio_subscribe_def total_def)
qed

section \<open>Concrete objects\<close>

definition logging_alink :: "pyval list list alink" where
  "logging_alink = \<lparr>ak_get = retS (), ak_release = retS (), ak_open = retS False, ak_send = (\<lambda>_ c. modS (\<lambda>w. w @ [c])),
     ak_read = (\<lambda>_. raiseS (Exc ConnectionError ''closed'')), ak_disconnect = retS (), ak_due = (\<lambda>_. False), ak_checks = False,
     ak_retry = new_retry NoBackoff 0, ak_rnd = (\<lambda>_. 0), ak_sleep = (\<lambda>_ w. w), ak_retry_on_error = None,
     ak_encoder = strict_encoder, ak_ignore_subscribe = False, ak_handler = (\<lambda>n m. modS (\<lambda>w. w @ [[PInt (int n), m]]))\<rparr>"

definition example_apubsub :: "pyval list list apubsub" where
  "example_apubsub = (new_apubsub [])\<lparr>aps_connection := True, aps_subs := (\<lambda>k. keyed strict_encoder (example_names k))\<rparr>"

lemma aio_reconnect_subscribes_again_witness:
  "aps_on_connect logging_alink (Suc 0) example_apubsub = Some (Inr (), example_apubsub\<lparr>aps_pending := (\<lambda>_. []), aps_world := example_plan\<rparr>)"
  by (rule aio_reconnect_subscribes_again [where names = example_names, OF _ _ _ _ example_callable])
    (simp_all add: example_apubsub_def new_apubsub_def logging_alink_def aio_subscribed_def keyed_def
      example_names_def resub_command_def command_of_def)

lemma aio_handle_message_refines_witness:
  "handle_message logging_link (PList [PBytes ''message'', PBytes ''jobs'', PBytes ''hi'']) False (sync_pubsub example_apubsub) =
     map_option (\<lambda>(x, p'). (x, sync_pubsub p')) (aio_handle_message logging_alink (PList [PBytes ''message'', PBytes ''jobs'', PBytes ''hi'']) False example_apubsub)"
  by (rule aio_handle_message_refines)
    (auto simp: handles_like_def logging_link_def logging_alink_def parse_message_def item_at_def Let_def)

lemma aio_subscribe_list_raises_witness:
  "aio_subscribe logging_alink (aps_on_connect logging_alink 1) [PList [PStr ''a'', PStr ''b'']] [] (new_apubsub []) =
     Some (Inl unhashable_error, new_apubsub [])"
  using aio_subscribe_list_raises [of "[PStr ''a'', PStr ''b'']" logging_alink "aps_on_connect logging_alink 1" "new_apubsub []"] by simp

end
