(* ===== verification/AsyncClient.thy ===== *)
theory AsyncClient
  imports Client AsyncPool
begin

text \<open>
  The asynchronous client and its pipeline (\<open>redis/asyncio/client.py\<close>), and \<open>transaction\<close>, which both clients have
  (\<open>redis/client.py\<close>): a command as one computation on a connection, with retries and callbacks. The steps of tasks
  that share a client are in \<open>AsyncClientTasks\<close>. A connection's own operations are an argument, as in \<open>Client\<close>.
\<close>

section \<open>Redis.execute_command\<close>

text \<open>
  Reading and retrying are those of \<open>Client\<close> with every call awaited. \<open>conn\<close> tells whether the client has taken its single
  connection; \<open>initialize\<close> takes it once.
\<close>

definition aio_client_parse_response :: "'w link \<Rightarrow> command \<Rightarrow> ('w, exc, pyval) action" where
  "aio_client_parse_response L c = parse_response L c"

definition aio_send_command_parse_response :: "'w link \<Rightarrow> command \<Rightarrow> ('w, exc, pyval) action" where
  "aio_send_command_parse_response L c = thenS (ln_send L [cm_args c]) (aio_client_parse_response L c)"

definition aio_disconnect_raise :: "'w link \<Rightarrow> exc \<Rightarrow> ('w, exc, unit) action" where
  "aio_disconnect_raise L e = thenS (ln_disconnect L) (if retry_on_error L e then retS () else raiseS e)"

definition aio_client_initialize :: "'w link \<Rightarrow> bool \<Rightarrow> bool \<Rightarrow> 'w \<Rightarrow> (exc + bool) \<times> 'w" where
  "aio_client_initialize L single conn w =
     (if single \<and> \<not> conn then (case ln_get L ''_'' w of (Inl e, w') \<Rightarrow> (Inl e, w') | (Inr _, w') \<Rightarrow> (Inr True, w'))
      else (Inr conn, w))"

definition aio_redis_execute_command :: "'w link \<Rightarrow> bool \<Rightarrow> bool \<Rightarrow> command \<Rightarrow> 'w \<Rightarrow> ((exc + pyval) \<times> bool \<times> 'w) option" where
  "aio_redis_execute_command L single conn c w =
     (case aio_client_initialize L single conn w of
        (Inl e, w1) \<Rightarrow> Some (Inl e, conn, w1)
      | (Inr conn, w1) \<Rightarrow>
          (case (if conn then retS () else ln_get L (cm_name c)) w1 of
             (Inl e, w2) \<Rightarrow> Some (Inl e, conn, w2)
           | (Inr _, w2) \<Rightarrow>
               (case with_retry L (ln_sleep L) (aio_send_command_parse_response L c) (aio_disconnect_raise L) w2 of
                  None \<Rightarrow> None
                | Some (r, w3) \<Rightarrow>
                    (case (if conn then (r, w3) else finallyS (\<lambda>_. (r, w3)) (ln_release L) w3) of
                       (r', w4) \<Rightarrow> Some (r', conn, w4)))))"

text \<open>\<open>aclose\<close>: the single connection goes back to the pool, and the pool is closed when the client owns it.\<close>

definition aio_client_aclose :: "'w link \<Rightarrow> ('w, exc, unit) action \<Rightarrow> bool option \<Rightarrow> bool \<Rightarrow> bool \<Rightarrow> 'w \<Rightarrow> (exc + unit) \<times> bool \<times> 'w" where
  "aio_client_aclose L close_all close_pool auto conn w =
     (case (whenS conn (ln_release L)) w of
        (Inl e, w1) \<Rightarrow> (Inl e, False, w1)
      | (Inr _, w1) \<Rightarrow>
          (case (whenS (close_pool = Some True \<or> (close_pool = None \<and> auto)) close_all) w1 of (r, w2) \<Rightarrow> (r, False, w2)))"

section \<open>Pipeline\<close>

text \<open>The methods of the pipeline are those of the synchronous one with every call on the connection awaited.\<close>

definition aio_pipe_reset :: "'w link \<Rightarrow> ('w, unit) pipe_op" where
  "aio_pipe_reset L = pipe_reset L"

definition aio_multi :: "('w, unit) pipe_op" where
  "aio_multi = multi"

definition aio_disconnect_reset_raise :: "'w link \<Rightarrow> exc \<Rightarrow> ('w, unit) pipe_op" where
  "aio_disconnect_reset_raise L e = disconnect_reset_raise L e"

definition aio_immediate_execute_command :: "'w link \<Rightarrow> command \<Rightarrow> 'w pipeline \<Rightarrow> ((exc + pyval) \<times> 'w pipeline) option" where
  "aio_immediate_execute_command L c p = immediate_execute_command L c p"

definition aio_pipeline_execute_command :: "command \<Rightarrow> ('w, unit) pipe_op" where
  "aio_pipeline_execute_command c = pipeline_execute_command c"

definition aio_execute_transaction :: "'w link \<Rightarrow> command list \<Rightarrow> bool \<Rightarrow> ('w, pyval list) pipe_op" where
  "aio_execute_transaction L cs raise_on_error = execute_transaction L cs raise_on_error"

definition aio_execute_pipeline :: "'w link \<Rightarrow> command list \<Rightarrow> bool \<Rightarrow> ('w, pyval list) pipe_op" where
  "aio_execute_pipeline L cs raise_on_error = execute_pipeline L cs raise_on_error"

definition aio_raise_first_error :: "'w link \<Rightarrow> nat \<Rightarrow> command list \<Rightarrow> pyval list \<Rightarrow> exc + unit" where
  "aio_raise_first_error L i cs rs = raise_first_error L i cs rs"

definition aio_annotate_exception :: "'w link \<Rightarrow> exc \<Rightarrow> nat \<Rightarrow> command \<Rightarrow> exc" where
  "aio_annotate_exception L e n c = annotate_exception L e n c"

definition aio_pipe_parse_response :: "'w link \<Rightarrow> command \<Rightarrow> ('w, pyval) pipe_op" where
  "aio_pipe_parse_response L c = pipe_parse_response L c"

definition aio_load_scripts :: "'w link \<Rightarrow> 'w pipeline \<Rightarrow> ((exc + unit) \<times> 'w pipeline) option" where
  "aio_load_scripts L p = load_scripts L p"

definition aio_disconnect_raise_reset :: "'w link \<Rightarrow> exc \<Rightarrow> ('w, unit) pipe_op" where
  "aio_disconnect_raise_reset L e = disconnect_raise_reset L e"

definition aio_execute :: "'w link \<Rightarrow> bool \<Rightarrow> 'w pipeline \<Rightarrow> ((exc + pyval list) \<times> 'w pipeline) option" where
  "aio_execute L raise_on_error p = execute L raise_on_error p"

text \<open>\<open>discard\<close> awaits the command and returns nothing.\<close>

definition aio_discard :: "'w link \<Rightarrow> 'w pipeline \<Rightarrow> ((exc + unit) \<times> 'w pipeline) option" where
  "aio_discard L p = map_option (\<lambda>(r, p'). (case r of Inl e \<Rightarrow> Inl e | Inr _ \<Rightarrow> Inr (), p')) (pipe_execute_command L (cmd ''DISCARD'' []) p)"

definition aio_watch :: "'w link \<Rightarrow> pyval list \<Rightarrow> 'w pipeline \<Rightarrow> ((exc + pyval option) \<times> 'w pipeline) option" where
  "aio_watch L names p =
     (if pp_explicit p then Some (Inl (Exc RedisError ''Cannot issue a WATCH after a MULTI''), p)
      else pipe_execute_command L (cmd ''WATCH'' names) p)"

definition aio_unwatch :: "'w link \<Rightarrow> 'w pipeline \<Rightarrow> ((exc + pyval option) \<times> 'w pipeline) option" where
  "aio_unwatch L p = unwatch L p"

section \<open>Transactions\<close>

text \<open>
  The loop of \<open>transaction\<close>: watch, call, execute, and again after a \<open>WatchError\<close>. The callable may use the pipeline;
  \<open>None\<close> when the watched keys change for ever.
\<close>

definition transaction_turn ::
  "'w link \<Rightarrow> pyval list \<Rightarrow> ('w pipeline \<Rightarrow> ((exc + pyval) \<times> 'w pipeline) option) \<Rightarrow> bool \<Rightarrow>
   'w pipeline \<Rightarrow> ((exc + pyval) \<times> 'w pipeline) option" where
  "transaction_turn L watches func value_from_callable p =
     (case (if watches = [] then Some (Inr None, p) else watch L watches p) of
        None \<Rightarrow> None
      | Some (Inl e, p1) \<Rightarrow> Some (Inl e, p1)
      | Some (Inr _, p1) \<Rightarrow>
          (case func p1 of
             None \<Rightarrow> None
           | Some (Inl e, p2) \<Rightarrow> Some (Inl e, p2)
           | Some (Inr v, p2) \<Rightarrow>
               (case execute L True p2 of
                  None \<Rightarrow> None
                | Some (Inl e, p3) \<Rightarrow> Some (Inl e, p3)
                | Some (Inr rs, p3) \<Rightarrow> Some (Inr (if value_from_callable then v else PList rs), p3))))"

definition transaction_pause :: "'w link \<Rightarrow> rat option \<Rightarrow> 'w pipeline \<Rightarrow> 'w pipeline" where
  "transaction_pause L watch_delay p = (case watch_delay of Some t \<Rightarrow> if 0 < t then pipe_sleep L t p else p | None \<Rightarrow> p)"

partial_function (option) transaction_loop ::
  "'w link \<Rightarrow> pyval list \<Rightarrow> ('w pipeline \<Rightarrow> ((exc + pyval) \<times> 'w pipeline) option) \<Rightarrow> bool \<Rightarrow> rat option \<Rightarrow>
   'w pipeline \<Rightarrow> ((exc + pyval) \<times> 'w pipeline) option" where
  "transaction_loop L watches func value_from_callable watch_delay p =
     (case transaction_turn L watches func value_from_callable p of
        None \<Rightarrow> None
      | Some (Inr v, p') \<Rightarrow> Some (Inr v, p')
      | Some (Inl e, p') \<Rightarrow>
          if isinstance e WatchError then transaction_loop L watches func value_from_callable watch_delay (transaction_pause L watch_delay p')
          else Some (Inl e, p'))"

declare transaction_loop.simps [code]

text \<open>\<open>with self.pipeline(True) as pipe\<close>: leaving the block resets the pipeline.\<close>

definition transaction ::
  "'w link \<Rightarrow> pyval list \<Rightarrow> ('w pipeline \<Rightarrow> ((exc + pyval) \<times> 'w pipeline) option) \<Rightarrow> bool \<Rightarrow> rat option \<Rightarrow>
   'w \<Rightarrow> ((exc + pyval) \<times> 'w pipeline) option" where
  "transaction L watches func value_from_callable watch_delay w =
     (case transaction_loop L watches func value_from_callable watch_delay (new_pipeline True w) of
        None \<Rightarrow> None
      | Some (r, p) \<Rightarrow> Some (finallyS (\<lambda>_. (r, p)) (pipe_reset L) p))"

definition aio_transaction ::
  "'w link \<Rightarrow> pyval list \<Rightarrow> ('w pipeline \<Rightarrow> ((exc + pyval) \<times> 'w pipeline) option) \<Rightarrow> bool \<Rightarrow> rat option \<Rightarrow>
   'w \<Rightarrow> ((exc + pyval) \<times> 'w pipeline) option" where
  "aio_transaction L watches func value_from_callable watch_delay w = transaction L watches func value_from_callable watch_delay w"

text \<open>What the loop returns is what its last turn gave, and no \<open>WatchError\<close>.\<close>

lemma transaction_loop_last:
  assumes "transaction_loop L watches func vfc delay p = Some (r, p')"
  shows "\<exists>q. transaction_turn L watches func vfc q = Some (r, p') \<and> (\<forall>e. r = Inl e \<longrightarrow> \<not> isinstance e WatchError)"
proof -
  have last_turn: "\<And>y. transaction_loop L watches func vfc delay p = Some y \<Longrightarrow>
    \<forall>r p'. y = (r, p') \<longrightarrow> (\<exists>q. transaction_turn L watches func vfc q = Some (r, p') \<and> (\<forall>e. r = Inl e \<longrightarrow> \<not> isinstance e WatchError))"
  proof -
    fix y
    assume "transaction_loop L watches func vfc delay p = Some y"
    then show "\<forall>r p'. y = (r, p') \<longrightarrow> (\<exists>q. transaction_turn L watches func vfc q = Some (r, p') \<and> (\<forall>e. r = Inl e \<longrightarrow> \<not> isinstance e WatchError))"
  proof (induction rule: transaction_loop.raw_induct [rotated, consumes 1, case_names Step])
    case (Step f L watches func vfc delay p y)
    show ?case
    proof (cases "transaction_turn L watches func vfc p")
      case None
      then show ?thesis using Step.hyps by simp
    next
      case (Some x)
      obtain r1 p1 where x: "x = (r1, p1)" by force
      show ?thesis
      proof (cases "\<exists>e. r1 = Inl e \<and> isinstance e WatchError")
        case True
        then have "f L watches func vfc delay (transaction_pause L delay p1) = Some y" using Step.hyps Some x by auto
        then show ?thesis by (rule Step.IH)
      next
        case False
        then have "y = (r1, p1)" using Step.hyps Some x by (cases r1) auto
        then show ?thesis using Some x False by auto
      qed
    qed
    qed
  qed
  from last_turn [OF assms] show ?thesis by simp
qed

section \<open>What a transaction returns\<close>

text \<open>\<open>transaction\<close> returns the value or the error of its last turn, after leaving the block: a \<open>WatchError\<close> is
  never among its results, because it starts another turn.\<close>

theorem transaction_hides_watch_errors:
  assumes "transaction L watches func vfc delay w = Some (Inl e, p)" "\<And>q. fst (pipe_reset L q) = Inr ()"
  shows "\<not> isinstance e WatchError \<and> (\<exists>q p'. transaction_turn L watches func vfc q = Some (Inl e, p'))"
proof -
  obtain r p1 where l: "transaction_loop L watches func vfc delay (new_pipeline True w) = Some (r, p1)"
    using assms(1) by (auto simp: transaction_def split: option.splits)
  obtain u p2 where "pipe_reset L p1 = (Inr u, p2)" using assms(2) [of p1] by (metis prod.collapse)
  then have "r = Inl e" using assms(1) l by (simp add: transaction_def finallyS_def)
  then show ?thesis using transaction_loop_last [OF l] by blast
qed

text \<open>A transaction whose callable fails.\<close>

definition quiet_link :: "unit link" where
  "quiet_link = \<lparr>ln_get = \<lambda>_. retS (), ln_release = retS (), ln_send = \<lambda>_. retS (), ln_read = \<lambda>_. retS PNone, ln_disconnect = retS (),
     ln_retry = new_retry NoBackoff 0, ln_rnd = \<lambda>_. 0, ln_sleep = \<lambda>_ w. w, ln_retry_on_error = None, ln_text = \<lambda>_. [], ln_callbacks = \<lambda>_. None\<rparr>"

lemma quiet_reset: "fst (pipe_reset quiet_link q) = Inr ()"
  by (simp add: pipe_reset_def quiet_link_def thenS_def bindS_def catchS_def on_link_def)

lemma transaction_hides_watch_errors_witness:
  "\<exists>p. transaction quiet_link [] (\<lambda>p. Some (Inl (Exc ValueError ''no''), p)) False None () = Some (Inl (Exc ValueError ''no''), p) \<and>
     \<not> isinstance (Exc ValueError ''no'') WatchError"
proof -
  let ?f = "\<lambda>p :: unit pipeline. Some (Inl (Exc ValueError ''no''), p) :: ((exc + pyval) \<times> unit pipeline) option"
  have "transaction_loop quiet_link [] ?f False None (new_pipeline True ()) = Some (Inl (Exc ValueError ''no''), new_pipeline True ())"
    by (subst transaction_loop.simps) (simp add: transaction_turn_def isinstance_def)
  moreover obtain p where "pipe_reset quiet_link (new_pipeline True ()) = (Inr (), p)"
    using quiet_reset [of "new_pipeline True ()"] by (metis prod.collapse)
  ultimately have t: "transaction quiet_link [] ?f False None () = Some (Inl (Exc ValueError ''no''), p)"
    by (simp add: transaction_def finallyS_def)
  then show ?thesis using transaction_hides_watch_errors [OF t quiet_reset] by blast
qed

end
