(* ===== verification/AsyncClientTasks.thy ===== *)
theory AsyncClientTasks
  imports AsyncClient
begin

text \<open>
  Tasks that share an asynchronous client (\<open>execute_command\<close>, \<open>initialize\<close> and \<open>aclose\<close> of
  \<open>redis/asyncio/client.py\<close>, over a \<open>ConnectionPool\<close> of \<open>redis/asyncio/connection.py\<close>): the pieces of a command between
  which other tasks run, with failures, cancellation and retries, and why no task reads an answer that is not its own.
\<close>

section \<open>Tasks that share a client\<close>

text \<open>
  The connections of the pool and the tasks that execute commands, piece by piece. A connection is closed (\<open>None\<close>) or
  carries the requests whose answers are still to be read, in the order they were sent: a PING of the health check or
  the command of a task. A task may fail or be cancelled wherever it waits.

  A task verifies the connection it took from the pool (\<open>Opening\<close>), has chosen its connection and waits for the lock of
  the client (\<open>Chosen\<close>), begins an attempt (\<open>Attempting\<close>), checks the connection's health (\<open>Probing\<close>, \<open>Pinged\<close>,
  \<open>Checked\<close>), has sent the command, has read an answer, is in the failure handler of \<open>call_with_retry\<close>
  (\<open>Failing\<close>), or in the \<open>finally\<close> clause with an error (\<open>Leaving\<close>). It ends with an answer or raises.
\<close>

datatype owed = Health nat | Call nat

datatype ctask = Ready | Opening nat | Chosen nat | Attempting nat | Probing nat | Pinged nat | Checked nat | Sent nat
  | Answered nat owed | Failing nat exc | Leaving nat exc | Done owed | Raised exc

record aclient =
  rc_single :: bool
  rc_connection :: "nat option"
  rc_pool :: apool
  rc_lock :: "nat option"
  rc_wire :: "nat \<Rightarrow> owed list option"
  rc_task :: "nat \<Rightarrow> ctask"

text \<open>A new client, over a pool whose connections \<open>opened\<close> are open and have nothing to read.\<close>

definition new_aclient :: "bool \<Rightarrow> apool \<Rightarrow> (nat \<Rightarrow> bool) \<Rightarrow> aclient" where
  "new_aclient single p opened = \<lparr>rc_single = single, rc_connection = None, rc_pool = p, rc_lock = None,
     rc_wire = (\<lambda>c. if opened c then Some [] else None), rc_task = (\<lambda>_. Ready)\<rparr>"

definition put_ctask :: "nat \<Rightarrow> ctask \<Rightarrow> aclient \<Rightarrow> aclient" where
  "put_ctask i t s = s\<lparr>rc_task := (rc_task s)(i := t)\<rparr>"

definition put_wire :: "nat \<Rightarrow> owed list option \<Rightarrow> aclient \<Rightarrow> aclient" where
  "put_wire c w s = s\<lparr>rc_wire := (rc_wire s)(c := w)\<rparr>"

text \<open>
  \<open>initialize\<close> and the choice of the connection. A client with a single connection takes it from the pool under its
  lock, which it keeps while the connection is verified; the others take one for each command.
\<close>

definition client_begin :: "nat \<Rightarrow> aclient \<Rightarrow> aclient" where
  "client_begin i s = (case rc_connection s of
     Some c \<Rightarrow> put_ctask i (Chosen c) s
   | None \<Rightarrow>
       (case get_available_connection (rc_pool s) of
          (Inl e, p) \<Rightarrow> put_ctask i (Raised e) (s\<lparr>rc_pool := p\<rparr>)
        | (Inr c, p) \<Rightarrow> put_ctask i (Opening c) (s\<lparr>rc_pool := p, rc_lock := (if rc_single s then Some i else rc_lock s)\<rparr>)))"

text \<open>
  \<open>ensure_connection\<close>: a closed connection is opened, one that can be read is opened anew, any other is left as it
  is. When it fails, the connection goes back to the pool.
\<close>

definition ensured :: "owed list option \<Rightarrow> owed list option \<Rightarrow> bool" where
  "ensured w w' = (w' = Some [] \<or> (w' = w \<and> w \<noteq> None))"

definition client_opened :: "nat \<Rightarrow> nat \<Rightarrow> owed list option \<Rightarrow> aclient \<Rightarrow> aclient" where
  "client_opened i c w s = put_ctask i (Chosen c) (put_wire c w
     (if rc_single s then s\<lparr>rc_connection := Some c, rc_lock := None\<rparr> else s))"

definition back_to_pool :: "nat \<Rightarrow> nat \<Rightarrow> ctask \<Rightarrow> aclient \<Rightarrow> aclient" where
  "back_to_pool i c t s = (case apool_release c (rc_pool s) of
     (Inl e, p) \<Rightarrow> put_ctask i (Raised e) (s\<lparr>rc_pool := p\<rparr>)
   | (Inr _, p) \<Rightarrow> put_ctask i t (s\<lparr>rc_pool := p\<rparr>))"

definition unlock_client :: "aclient \<Rightarrow> aclient" where
  "unlock_client s = (if rc_single s then s\<lparr>rc_lock := None\<rparr> else s)"

definition client_open_failed :: "nat \<Rightarrow> nat \<Rightarrow> exc \<Rightarrow> owed list option \<Rightarrow> aclient \<Rightarrow> aclient" where
  "client_open_failed i c e w s = back_to_pool i c (Raised e) (unlock_client (put_wire c w s))"

definition client_enter :: "nat \<Rightarrow> nat \<Rightarrow> aclient \<Rightarrow> aclient" where
  "client_enter i c s = put_ctask i (Attempting c) (if rc_single s then s\<lparr>rc_lock := Some i\<rparr> else s)"

text \<open>Sending a command connects a closed connection, or pings an open one whose health check is due.\<close>

definition client_connected :: "nat \<Rightarrow> nat \<Rightarrow> ctask \<Rightarrow> aclient \<Rightarrow> aclient" where
  "client_connected i c t s = put_ctask i t (put_wire c (Some []) s)"

definition client_ping :: "nat \<Rightarrow> nat \<Rightarrow> aclient \<Rightarrow> aclient" where
  "client_ping i c s = (case rc_wire s c of
     Some q \<Rightarrow> put_ctask i (Pinged c) (put_wire c (Some (q @ [Health i])) s) | None \<Rightarrow> s)"

definition client_pong :: "nat \<Rightarrow> nat \<Rightarrow> aclient \<Rightarrow> aclient" where
  "client_pong i c s = (case rc_wire s c of
     Some (r # q) \<Rightarrow> put_ctask i (Checked c) (put_wire c (Some q) s) | _ \<Rightarrow> s)"

definition client_send :: "nat \<Rightarrow> nat \<Rightarrow> aclient \<Rightarrow> aclient" where
  "client_send i c s = (case rc_wire s c of
     Some q \<Rightarrow> put_ctask i (Sent c) (put_wire c (Some (q @ [Call i])) s) | None \<Rightarrow> s)"

definition client_read :: "nat \<Rightarrow> nat \<Rightarrow> aclient \<Rightarrow> aclient" where
  "client_read i c s = (case rc_wire s c of
     Some (r # q) \<Rightarrow> put_ctask i (Answered c r) (put_wire c (Some q) s) | _ \<Rightarrow> s)"

text \<open>
  An error or a cancellation while the task connects, writes or reads: the handlers of \<open>send_packed_command\<close> and
  \<open>read_response\<close> close the connection. Only a connect that fails outside the library's errors leaves its new
  connection open. A failed ping may be repeated; otherwise the error goes to the failure handler when the retry object supports it,
  or straight to the \<open>finally\<close> clause.
\<close>

definition left_by_failure :: "ctask \<Rightarrow> owed list option \<Rightarrow> owed list option \<Rightarrow> bool" where
  "left_by_failure t w w' = (w' = None \<or> (w = None \<and> w' = Some [] \<and> (case t of Attempting _ \<Rightarrow> True | Probing _ \<Rightarrow> True | _ \<Rightarrow> False)))"

fun at_risk :: "ctask \<Rightarrow> nat option" where
  "at_risk (Attempting c) = Some c"
| "at_risk (Probing c) = Some c"
| "at_risk (Pinged c) = Some c"
| "at_risk (Checked c) = Some c"
| "at_risk (Sent c) = Some c"
| "at_risk _ = None"

definition after_failure :: "nat \<Rightarrow> exc \<Rightarrow> ctask \<Rightarrow> ctask set" where
  "after_failure c e t = {Failing c e, Leaving c e} \<union> (case t of Probing _ \<Rightarrow> {Probing c} | Pinged _ \<Rightarrow> {Probing c} | _ \<Rightarrow> {})"

definition client_break :: "nat \<Rightarrow> nat \<Rightarrow> owed list option \<Rightarrow> ctask \<Rightarrow> aclient \<Rightarrow> aclient" where
  "client_break i c w t s = put_ctask i t (put_wire c w s)"

text \<open>\<open>_disconnect_raise\<close>: the connection is closed, and the command attempted again or the error raised.\<close>

definition client_reset :: "nat \<Rightarrow> nat \<Rightarrow> ctask \<Rightarrow> aclient \<Rightarrow> aclient" where
  "client_reset i c t s = put_ctask i t (put_wire c None s)"

text \<open>The \<open>finally\<close> clause: the lock is released, and the connection too unless the client has one of its own.\<close>

definition client_finish :: "nat \<Rightarrow> nat \<Rightarrow> ctask \<Rightarrow> aclient \<Rightarrow> aclient" where
  "client_finish i c t s =
     (let s1 = unlock_client s in if rc_connection s1 \<noteq> None then put_ctask i t s1 else back_to_pool i c t s1)"

definition client_close :: "aclient \<Rightarrow> aclient" where
  "client_close s = (case rc_connection s of
     None \<Rightarrow> s
   | Some c \<Rightarrow> s\<lparr>rc_connection := None, rc_pool := snd (apool_release c (rc_pool s))\<rparr>)"

definition idle_ctask :: "ctask \<Rightarrow> bool" where
  "idle_ctask t = (case t of Ready \<Rightarrow> True | Done _ \<Rightarrow> True | Raised _ \<Rightarrow> True | _ \<Rightarrow> False)"

text \<open>
  The steps. Whether a health check is due and whether an error is retried is left open, so any number of retries and any
  choice of retried errors is covered. \<open>aclose\<close> may come at any time, and so may a disconnect by the pool.
\<close>

inductive client_step :: "aclient \<Rightarrow> aclient \<Rightarrow> bool" where
  begins: "idle_ctask (rc_task s i) \<Longrightarrow> rc_single s \<longrightarrow> rc_lock s = None \<Longrightarrow> client_step s (client_begin i s)"
| opens: "rc_task s i = Opening c \<Longrightarrow> ensured (rc_wire s c) w \<Longrightarrow> client_step s (client_opened i c w s)"
| open_fails: "rc_task s i = Opening c \<Longrightarrow> w \<in> {None, Some [], rc_wire s c} \<Longrightarrow> client_step s (client_open_failed i c e w s)"
| stops_waiting: "rc_task s i = Chosen c \<Longrightarrow> rc_single s \<Longrightarrow> client_step s (put_ctask i (Raised e) s)"
| enters: "rc_task s i = Chosen c \<Longrightarrow> rc_single s \<longrightarrow> rc_lock s = None \<Longrightarrow> client_step s (client_enter i c s)"
| connects: "(rc_task s i, t) \<in> {(Attempting c, Checked c), (Probing c, Probing c)} \<Longrightarrow> rc_wire s c = None \<Longrightarrow>
    client_step s (client_connected i c t s)"
| probes: "rc_task s i = Attempting c \<Longrightarrow> rc_wire s c \<noteq> None \<Longrightarrow> client_step s (put_ctask i (Probing c) s)"
| pings: "rc_task s i = Probing c \<Longrightarrow> rc_wire s c = Some q \<Longrightarrow> client_step s (client_ping i c s)"
| pongs: "rc_task s i = Pinged c \<Longrightarrow> rc_wire s c = Some (r # q) \<Longrightarrow> client_step s (client_pong i c s)"
| sends: "rc_task s i \<in> {Attempting c, Checked c} \<Longrightarrow> rc_wire s c = Some q \<Longrightarrow> client_step s (client_send i c s)"
| reads: "rc_task s i = Sent c \<Longrightarrow> rc_wire s c = Some (r # q) \<Longrightarrow> client_step s (client_read i c s)"
| breaks: "at_risk (rc_task s i) = Some c \<Longrightarrow> left_by_failure (rc_task s i) (rc_wire s c) w \<Longrightarrow>
    t \<in> after_failure c e (rc_task s i) \<Longrightarrow> client_step s (client_break i c w t s)"
| gives_up: "rc_task s i = Attempting c \<Longrightarrow> client_step s (put_ctask i (Leaving c e) s)"
| rejects: "rc_task s i = Answered c r \<Longrightarrow> t \<in> {Failing c e, Leaving c e} \<Longrightarrow> client_step s (put_ctask i t s)"
| resets: "rc_task s i = Failing c e \<Longrightarrow> t \<in> {Attempting c, Leaving c e'} \<Longrightarrow> client_step s (client_reset i c t s)"
| finishes: "rc_task s i = Answered c r \<Longrightarrow> client_step s (client_finish i c (Done r) s)"
| leaves: "rc_task s i = Leaving c e \<Longrightarrow> client_step s (client_finish i c (Raised e) s)"
| closes: "client_step s (client_close s)"
| drops: "client_step s (put_wire c None s)"

inductive_cases client_stepE: "client_step s s'"

section \<open>Why the tasks get their own answers\<close>

fun ctask_conn :: "ctask \<Rightarrow> nat option" where
  "ctask_conn (Opening c) = Some c"
| "ctask_conn (Chosen c) = Some c"
| "ctask_conn (Attempting c) = Some c"
| "ctask_conn (Probing c) = Some c"
| "ctask_conn (Pinged c) = Some c"
| "ctask_conn (Checked c) = Some c"
| "ctask_conn (Sent c) = Some c"
| "ctask_conn (Answered c r) = Some c"
| "ctask_conn (Failing c e) = Some c"
| "ctask_conn (Leaving c e) = Some c"
| "ctask_conn _ = None"

definition in_turn :: "ctask \<Rightarrow> bool" where
  "in_turn t \<longleftrightarrow> ctask_conn t \<noteq> None \<and> (\<forall>c. t \<noteq> Chosen c)"

text \<open>The request whose answer a task waits for.\<close>

fun expects :: "nat \<Rightarrow> ctask \<Rightarrow> owed option" where
  "expects i (Pinged c) = Some (Health i)"
| "expects i (Sent c) = Some (Call i)"
| "expects i _ = None"

definition rc_held :: "aclient \<Rightarrow> nat \<Rightarrow> nat option" where
  "rc_held s i = ctask_conn (rc_task s i)"

definition waits_on :: "aclient \<Rightarrow> nat \<Rightarrow> nat \<Rightarrow> owed option" where
  "waits_on s i c = (if rc_held s i = Some c then expects i (rc_task s i) else None)"

text \<open>Who may use a connection: the holder of the lock, or the task that has it from the pool.\<close>

definition exclusive :: "aclient \<Rightarrow> bool" where
  "exclusive s \<longleftrightarrow> (if rc_single s then \<forall>i. in_turn (rc_task s i) \<longleftrightarrow> rc_lock s = Some i
     else rc_connection s = None \<and> aio_pool.shares (rc_pool s) (rc_held s))"

text \<open>An open connection carries the one request a task waits for on it, or nothing when no task does.\<close>

definition clean :: "aclient \<Rightarrow> bool" where
  "clean s \<longleftrightarrow> (\<forall>c q. rc_wire s c = Some q \<longrightarrow>
     (\<exists>i r. waits_on s i c = Some r \<and> q = [r]) \<or> (q = [] \<and> (\<forall>i. waits_on s i c = None)))"

definition own_answers :: "aclient \<Rightarrow> bool" where
  "own_answers s \<longleftrightarrow> (\<forall>i c r. rc_task s i = Answered c r \<or> rc_task s i = Done r \<longrightarrow> r = Call i)"

definition client_inv :: "aclient \<Rightarrow> bool" where
  "client_inv s \<longleftrightarrow> exclusive s \<and> clean s \<and> own_answers s"

lemma in_turn_simps [simp]:
  "in_turn (Opening c)" "\<not> in_turn (Chosen c)" "in_turn (Attempting c)" "in_turn (Probing c)" "in_turn (Pinged c)" "in_turn (Checked c)"
  "in_turn (Sent c)" "in_turn (Answered c r)" "in_turn (Failing c e)" "in_turn (Leaving c e)" "\<not> in_turn Ready" "\<not> in_turn (Done r)"
  "\<not> in_turn (Raised e)"
  by (simp_all add: in_turn_def)

lemma put_ctask_simps [simp]:
  "rc_task (put_ctask i t s) = (rc_task s)(i := t)" "rc_wire (put_ctask i t s) = rc_wire s" "rc_pool (put_ctask i t s) = rc_pool s"
  "rc_single (put_ctask i t s) = rc_single s" "rc_lock (put_ctask i t s) = rc_lock s" "rc_connection (put_ctask i t s) = rc_connection s"
  "rc_task (put_wire c w s) = rc_task s" "rc_wire (put_wire c w s) = (rc_wire s)(c := w)" "rc_pool (put_wire c w s) = rc_pool s"
  "rc_single (put_wire c w s) = rc_single s" "rc_lock (put_wire c w s) = rc_lock s" "rc_connection (put_wire c w s) = rc_connection s"
  by (simp_all add: put_ctask_def put_wire_def)

lemma expects_turn: "expects i t = Some r \<Longrightarrow> in_turn t \<and> ctask_conn t \<noteq> None"
  by (cases "(i, t)" rule: expects.cases) simp_all

lemma one_in_turn:
  assumes "exclusive s" "rc_held s i = Some c" "rc_held s j = Some c" "in_turn (rc_task s i)" "in_turn (rc_task s j)"
  shows "i = j"
proof (cases "rc_single s")
  case True
  then show ?thesis using assms by (metis exclusive_def option.inject)
next
  case False
  then have "aio_pool.shares (rc_pool s) (rc_held s)" using assms(1) by (simp add: exclusive_def)
  then show ?thesis using assms(2,3) unfolding aio_pool.shares_def by blast
qed

lemma waits_onD: "waits_on s i c = Some r \<Longrightarrow> rc_held s i = Some c \<and> in_turn (rc_task s i) \<and> expects i (rc_task s i) = Some r"
  using expects_turn by (auto simp: waits_on_def split: if_splits)

text \<open>What a connection in use carries is what its user waits for.\<close>

lemma wire_in_use:
  assumes "exclusive s" "clean s" "rc_held s i = Some c" "in_turn (rc_task s i)" "rc_wire s c = Some q"
  shows "q = (case expects i (rc_task s i) of None \<Rightarrow> [] | Some r \<Rightarrow> [r])"
proof -
  have mine: "waits_on s i c = expects i (rc_task s i)" using assms(3) by (simp add: waits_on_def)
  from assms(2,5) consider (waited) j r where "waits_on s j c = Some r" "q = [r]" | (free) "q = []" "\<forall>j. waits_on s j c = None"
    unfolding clean_def by blast
  then show ?thesis
  proof cases
    case waited
    then have "j = i" using one_in_turn [OF assms(1) _ assms(3) _ assms(4)] waits_onD by blast
    then show ?thesis using waited mine by simp
  next
    case free
    then have "expects i (rc_task s i) = None" using mine by metis
    then show ?thesis using free by simp
  qed
qed

definition fits :: "nat \<Rightarrow> ctask \<Rightarrow> owed list option \<Rightarrow> bool" where
  "fits i t w \<longleftrightarrow> w = None \<or> w = Some (case expects i t of None \<Rightarrow> [] | Some r \<Rightarrow> [r])"

lemma fits_in_use:
  "exclusive s \<Longrightarrow> clean s \<Longrightarrow> rc_held s i = Some c \<Longrightarrow> in_turn (rc_task s i) \<Longrightarrow> fits i (rc_task s i) (rc_wire s c)"
  using wire_in_use [of s i c] by (cases "rc_wire s c") (auto simp: fits_def)

text \<open>A step of a task that is in its turn with a connection keeps all others clean.\<close>

lemma clean_step:
  assumes ex: "exclusive s" and cl: "clean s" and use: "rc_held s i = Some c" "in_turn (rc_task s i)"
    and t: "rc_task s' = (rc_task s)(i := t)" "rc_wire s' = (rc_wire s)(c := w)" "ctask_conn t = Some c \<or> expects i t = None" "fits i t w"
  shows "clean s'"
  unfolding clean_def
proof (intro allI impI)
  fix d q
  assume q: "rc_wire s' d = Some q"
  have others: "waits_on s' j d = waits_on s j d" if "j \<noteq> i" for j
    using that t(1) by (simp add: waits_on_def rc_held_def)
  show "(\<exists>j r. waits_on s' j d = Some r \<and> q = [r]) \<or> q = [] \<and> (\<forall>j. waits_on s' j d = None)"
  proof (cases "d = c")
    case True
    have mine: "waits_on s' i c = expects i t" using t(1,3) by (auto simp: waits_on_def rc_held_def)
    have none: "waits_on s j c = None" if "j \<noteq> i" for j
      using that one_in_turn [OF ex _ use(1) _ use(2)] waits_onD [of s j c] by (cases "waits_on s j c") auto
    from q True t(2) have "w = Some q" by simp
    then have q': "q = (case expects i t of None \<Rightarrow> [] | Some r \<Rightarrow> [r])" using t(4) by (simp add: fits_def)
    show ?thesis
    proof (cases "expects i t")
      case None
      have "waits_on s' j c = None" for j using others [of j] none [of j] mine None True by (cases "j = i") simp_all
      then show ?thesis using q' None True by simp
    next
      case (Some r)
      then show ?thesis using q' mine True by auto
    qed
  next
    case False
    have "waits_on s' i d = None" using t(1,3) False by (auto simp: waits_on_def rc_held_def)
    moreover have "waits_on s i d = None" using use(1) False by (simp add: waits_on_def)
    ultimately have same: "waits_on s' j d = waits_on s j d" for j using others [of j] by (cases "j = i") simp_all
    have "rc_wire s d = Some q" using q False t(2) by simp
    then show ?thesis using cl unfolding clean_def same by blast
  qed
qed

lemma clean_idle:
  assumes "clean s" "rc_task s' = (rc_task s)(i := t)" "rc_wire s' = rc_wire s" "expects i (rc_task s i) = None" "expects i t = None"
  shows "clean s'"
proof -
  have "waits_on s' j d = waits_on s j d" for j d
    using assms(2,4,5) by (cases "j = i") (auto simp: waits_on_def rc_held_def)
  then show ?thesis using assms(1,3) by (simp add: clean_def)
qed

lemma own_answers_step:
  "own_answers s \<Longrightarrow> rc_task s' = (rc_task s)(i := t) \<Longrightarrow> (\<And>c r. t = Answered c r \<or> t = Done r \<Longrightarrow> r = Call i) \<Longrightarrow> own_answers s'"
  by (auto simp: own_answers_def)

lemma exclusive_same:
  assumes "exclusive s" "rc_task s' = (rc_task s)(i := t)" "rc_single s' = rc_single s" "rc_lock s' = rc_lock s"
    "rc_pool s' = rc_pool s" "rc_connection s' = rc_connection s" "ctask_conn t = rc_held s i" "in_turn t = in_turn (rc_task s i)"
  shows "exclusive s'"
proof -
  have "rc_held s' = rc_held s" using assms(2,7) by (auto simp: rc_held_def)
  moreover have "in_turn (rc_task s' j) = in_turn (rc_task s j)" for j using assms(2,8) by simp
  ultimately show ?thesis using assms by (simp add: exclusive_def)
qed

text \<open>Within its turn a task keeps its connection.\<close>

lemma turn_inv:
  assumes inv: "client_inv s" and use: "rc_held s i = Some c" "in_turn (rc_task s i)"
    and t: "ctask_conn t = Some c" "in_turn t" "fits i t w" "\<And>d r. t = Answered d r \<Longrightarrow> r = Call i"
  shows "client_inv (put_ctask i t (put_wire c w s))"
proof -
  let ?s = "put_ctask i t (put_wire c w s)"
  have "exclusive s" "clean s" "own_answers s" using inv by (simp_all add: client_inv_def)
  moreover have "exclusive ?s"
    by (rule exclusive_same [OF \<open>exclusive s\<close>, of _ i t]) (use use t in simp_all)
  moreover have "clean ?s"
    by (rule clean_step [OF \<open>exclusive s\<close> \<open>clean s\<close> use, of _ t w]) (use t in simp_all)
  moreover have "own_answers ?s"
    by (rule own_answers_step [OF \<open>own_answers s\<close>, of _ i t]) (use t(2,4) in auto)
  ultimately show ?thesis by (simp add: client_inv_def)
qed

lemma turn_inv_same:
  assumes inv: "client_inv s" and use: "rc_held s i = Some c" "in_turn (rc_task s i)"
    and t: "ctask_conn t = Some c" "in_turn t" "expects i t = expects i (rc_task s i)" "\<And>d r. t = Answered d r \<Longrightarrow> r = Call i"
  shows "client_inv (put_ctask i t s)"
proof -
  have "fits i t (rc_wire s c)"
    using fits_in_use [of s i c] inv use t(3) by (simp add: client_inv_def fits_def)
  then have "client_inv (put_ctask i t (put_wire c (rc_wire s c) s))" using turn_inv [OF inv use t(1,2)] t(4) by blast
  moreover have "put_wire c (rc_wire s c) s = s" by (simp add: put_wire_def)
  ultimately show ?thesis by simp
qed

text \<open>What a task in its turn with \<open>c\<close> may do.\<close>

lemma held_simps [simp]: "rc_held (put_ctask i t s) = (rc_held s)(i := ctask_conn t)" "rc_held (put_wire c w s) = rc_held s"
  by (simp_all add: rc_held_def fun_eq_iff)

lemma held_fields [simp]:
  "rc_held (s\<lparr>rc_pool := p\<rparr>) = rc_held s" "rc_held (s\<lparr>rc_connection := k\<rparr>) = rc_held s" "rc_held (s\<lparr>rc_lock := l\<rparr>) = rc_held s"
  by (simp_all add: rc_held_def fun_eq_iff)

lemma unlock_fields [simp]:
  "rc_task (unlock_client s) = rc_task s" "rc_wire (unlock_client s) = rc_wire s" "rc_pool (unlock_client s) = rc_pool s"
  "rc_single (unlock_client s) = rc_single s" "rc_connection (unlock_client s) = rc_connection s" "rc_held (unlock_client s) = rc_held s"
  by (simp_all add: unlock_client_def rc_held_def fun_eq_iff)

lemma send_inv:
  assumes inv: "client_inv s" and t: "rc_held s i = Some c" "in_turn (rc_task s i)" "expects i (rc_task s i) = None" and q: "rc_wire s c = Some q"
  shows "client_inv (put_ctask i (Sent c) (put_wire c (Some (q @ [Call i])) s))" "client_inv (put_ctask i (Pinged c) (put_wire c (Some (q @ [Health i])) s))"
proof -
  have "q = []" using wire_in_use [of s i c q] inv t q by (simp add: client_inv_def)
  then show "client_inv (put_ctask i (Sent c) (put_wire c (Some (q @ [Call i])) s))"
    "client_inv (put_ctask i (Pinged c) (put_wire c (Some (q @ [Health i])) s))"
    by (intro turn_inv [OF inv t(1,2)]; simp add: fits_def)+
qed

lemma read_inv:
  assumes inv: "client_inv s" and q: "rc_wire s c = Some (r # q)"
  shows "rc_task s i = Sent c \<Longrightarrow> client_inv (put_ctask i (Answered c r) (put_wire c (Some q) s))"
    "rc_task s i = Pinged c \<Longrightarrow> client_inv (put_ctask i (Checked c) (put_wire c (Some q) s))"
proof -
  assume t: "rc_task s i = Sent c"
  then have "q = [] \<and> r = Call i" using wire_in_use [of s i c "r # q"] inv q by (simp add: client_inv_def rc_held_def)
  then show "client_inv (put_ctask i (Answered c r) (put_wire c (Some q) s))"
    using t by (intro turn_inv [OF inv]) (auto simp: fits_def rc_held_def)
next
  assume t: "rc_task s i = Pinged c"
  then have "q = []" using wire_in_use [of s i c "r # q"] inv q by (simp add: client_inv_def rc_held_def)
  then show "client_inv (put_ctask i (Checked c) (put_wire c (Some q) s))"
    using t by (intro turn_inv [OF inv]) (auto simp: fits_def rc_held_def)
qed

lemma break_inv:
  assumes inv: "client_inv s" and t: "at_risk (rc_task s i) = Some c" "left_by_failure (rc_task s i) (rc_wire s c) w" "t \<in> after_failure c e (rc_task s i)"
  shows "client_inv (client_break i c w t s)"
proof -
  have use: "rc_held s i = Some c" "in_turn (rc_task s i)" using t(1) by (cases "rc_task s i"; simp add: rc_held_def)+
  have w: "w = None \<or> w = Some []" using t(2) by (auto simp: left_by_failure_def)
  have a: "t = Failing c e \<or> t = Leaving c e \<or> t = Probing c" using t(3) by (auto simp: after_failure_def split: ctask.splits)
  show ?thesis unfolding client_break_def
    by (rule turn_inv [OF inv use]) (use a w in \<open>auto simp: fits_def\<close>)
qed

text \<open>Leaving the turn: the lock is free again, or the connection is back in the pool.\<close>

lemma single_out_of_turn:
  assumes "exclusive s" "rc_single s" "in_turn (rc_task s i)" "rc_task s' = (rc_task s)(i := t)" "\<not> in_turn t" "rc_single s'" "rc_lock s' = None"
  shows "exclusive s'"
proof -
  have "in_turn (rc_task s j) \<longleftrightarrow> j = i" for j using assms(1-3) unfolding exclusive_def by auto
  then show ?thesis using assms(4-7) by (simp add: exclusive_def)
qed

lemma end_inv:
  assumes inv: "client_inv s" and use: "rc_held s i = Some c" "in_turn (rc_task s i)"
    and t: "rc_task s' = (rc_task s)(i := t)" "rc_wire s' = (rc_wire s)(c := w)" "w \<in> {None, Some []}" "idle_ctask t" "\<And>r. t = Done r \<Longrightarrow> r = Call i"
    and ex: "exclusive s'"
  shows "client_inv s'"
proof -
  have idle: "expects i t = None" "\<And>d r. t \<noteq> Answered d r" using t(4) by (cases t; simp add: idle_ctask_def)+
  have "clean s'"
    by (rule clean_step [OF _ _ use t(1,2)]) (use inv idle t(3) in \<open>auto simp: client_inv_def fits_def\<close>)
  moreover have "own_answers s'"
    by (rule own_answers_step [OF _ t(1)]) (use inv idle t(5) in \<open>auto simp: client_inv_def\<close>)
  ultimately show ?thesis using ex by (simp add: client_inv_def)
qed

lemma idle_conn: "idle_ctask t \<Longrightarrow> ctask_conn t = None \<and> \<not> in_turn t"
  by (cases t) (simp_all add: idle_ctask_def)

lemma back_inv:
  assumes inv: "client_inv s" and use: "rc_held s i = Some c" "in_turn (rc_task s i)"
    and t: "idle_ctask t" "\<And>r. t = Done r \<Longrightarrow> r = Call i" "w \<in> {None, Some []}"
  shows "client_inv (back_to_pool i c t (unlock_client (put_wire c w s)))"
    "\<not> rc_single s \<Longrightarrow> rc_task (back_to_pool i c t (unlock_client (put_wire c w s))) i = t"
proof -
  let ?s = "unlock_client (put_wire c w s)"
  obtain r p where rel: "apool_release c (rc_pool s) = (r, p)" by force
  define u where "u = (case r of Inl e \<Rightarrow> Raised e | Inr _ \<Rightarrow> t)"
  have b: "back_to_pool i c t ?s = put_ctask i u (?s\<lparr>rc_pool := p\<rparr>)"
    using rel by (simp add: back_to_pool_def u_def split: sum.split)
  have u: "idle_ctask u" "\<And>r. u = Done r \<Longrightarrow> r = Call i" using t by (auto simp: u_def idle_ctask_def split: sum.splits)
  have ex: "exclusive s" using inv by (simp add: client_inv_def)
  have "exclusive (back_to_pool i c t ?s) \<and> (\<not> rc_single s \<longrightarrow> u = t)"
  proof (cases "rc_single s")
    case True
    have "exclusive (put_ctask i u (?s\<lparr>rc_pool := p\<rparr>))"
      by (rule single_out_of_turn [OF ex True use(2), of _ u]) (use True idle_conn [OF u(1)] in \<open>simp_all add: unlock_client_def\<close>)
    then show ?thesis using True by (simp add: b)
  next
    case False
    then have sh: "rc_connection s = None" "aio_pool.shares (rc_pool s) (rc_held s)" using ex by (simp_all add: exclusive_def)
    obtain p' where "apool_release c (rc_pool s) = (Inr (), p')" "aio_pool.shares p' ((rc_held s)(i := None))"
      using aio_pool.shares_give [OF sh(2) use(1)] by blast
    then have "u = t" "aio_pool.shares p ((rc_held s)(i := None))" using rel by (simp_all add: u_def)
    moreover have "ctask_conn t = None" using idle_conn [OF t(1)] by simp
    ultimately show ?thesis
      using False sh(1) by (simp add: b exclusive_def)
  qed
  then have e: "exclusive (back_to_pool i c t ?s)" "\<not> rc_single s \<Longrightarrow> u = t" by simp_all
  show "client_inv (back_to_pool i c t ?s)"
    by (rule end_inv [OF inv use, of _ u w]) (use e(1) u t(3) in \<open>simp_all add: b\<close>)
  show "rc_task (back_to_pool i c t ?s) i = t" if "\<not> rc_single s" using e(2) [OF that] by (simp add: b)
qed

lemma finish_inv:
  assumes inv: "client_inv s" and use: "rc_held s i = Some c" "in_turn (rc_task s i)" "expects i (rc_task s i) = None"
    and t: "idle_ctask t" "\<And>r. t = Done r \<Longrightarrow> r = Call i"
  shows "client_inv (client_finish i c t s)" "(rc_single s \<longrightarrow> rc_connection s \<noteq> None) \<Longrightarrow> rc_task (client_finish i c t s) i = t"
proof -
  have ex: "exclusive s" using inv by (simp add: client_inv_def)
  have w: "rc_wire s c \<in> {None, Some []}" using fits_in_use [of s i c] inv use by (auto simp: client_inv_def fits_def)
  have same: "put_wire c (rc_wire s c) s = s" by (simp add: put_wire_def)
  have "client_inv (client_finish i c t s) \<and> ((rc_single s \<longrightarrow> rc_connection s \<noteq> None) \<longrightarrow> rc_task (client_finish i c t s) i = t)"
  proof (cases "rc_connection s = None")
    case True
    then show ?thesis using back_inv [OF inv use(1,2) t w] by (auto simp: client_finish_def same Let_def)
  next
    case False
    then have single: "rc_single s" using ex by (auto simp: exclusive_def split: if_splits)
    have f: "client_finish i c t s = put_ctask i t (unlock_client s)" using False by (simp add: client_finish_def)
    have "exclusive (put_ctask i t (unlock_client s))"
      by (rule single_out_of_turn [OF ex single use(2), of _ t]) (use single idle_conn [OF t(1)] in \<open>simp_all add: unlock_client_def\<close>)
    then have "client_inv (put_ctask i t (unlock_client s))"
      by (intro end_inv [OF inv use(1,2), of _ t "rc_wire s c"]) (use w t in simp_all)
    then show ?thesis using f by simp
  qed
  then show "client_inv (client_finish i c t s)" "(rc_single s \<longrightarrow> rc_connection s \<noteq> None) \<Longrightarrow> rc_task (client_finish i c t s) i = t"
    by simp_all
qed

text \<open>Beginning, verifying the connection, and entering the turn.\<close>

lemma begin_inv:
  assumes inv: "client_inv s" and idle: "idle_ctask (rc_task s i)" and free: "rc_single s \<longrightarrow> rc_lock s = None"
  shows "client_inv (client_begin i s)"
proof -
  obtain r p where g: "get_available_connection (rc_pool s) = (r, p)" by force
  define t where "t = (case rc_connection s of Some c \<Rightarrow> Chosen c | None \<Rightarrow> (case r of Inl e \<Rightarrow> Raised e | Inr c \<Rightarrow> Opening c))"
  have f: "rc_task (client_begin i s) = (rc_task s)(i := t)" "rc_wire (client_begin i s) = rc_wire s"
    by (simp_all add: client_begin_def t_def g split: option.split sum.split)
  have old: "rc_held s i = None" "\<not> in_turn (rc_task s i)" "expects i (rc_task s i) = None"
    using idle by (cases "rc_task s i"; simp add: rc_held_def idle_ctask_def)+
  have ex: "exclusive s" using inv by (simp add: client_inv_def)
  have "clean (client_begin i s)"
    by (rule clean_idle [OF _ f(1,2)]) (use inv old in \<open>auto simp: client_inv_def t_def split: option.split sum.split\<close>)
  moreover have "own_answers (client_begin i s)"
    by (rule own_answers_step [OF _ f(1)]) (use inv in \<open>auto simp: client_inv_def t_def split: option.splits sum.splits\<close>)
  moreover have "exclusive (client_begin i s)"
  proof (cases "rc_single s")
    case True
    then have "\<not> in_turn (rc_task s j)" for j using ex free by (simp add: exclusive_def)
    then show ?thesis using True free
      by (auto simp: client_begin_def g exclusive_def split: option.split sum.split)
  next
    case False
    then have sh: "rc_connection s = None" "aio_pool.shares (rc_pool s) (rc_held s)" using ex by (simp_all add: exclusive_def)
    have same: "(rc_held s)(i := None) = rc_held s" using old(1) by auto
    show ?thesis
    proof (cases r)
      case (Inl e)
      have "p = rc_pool s" using aio_pool.take_fails [of "rc_pool s" e p] sh(2) g Inl by (simp add: aio_pool.shares_def)
      then show ?thesis using False sh Inl g same by (simp add: client_begin_def exclusive_def)
    next
      case (Inr c)
      then show ?thesis using False sh g aio_pool.shares_take [OF sh(2) old(1), of c p] by (simp add: client_begin_def exclusive_def)
    qed
  qed
  ultimately show ?thesis by (simp add: client_inv_def)
qed

lemma opened_inv:
  assumes inv: "client_inv s" and t: "rc_task s i = Opening c" and w: "ensured (rc_wire s c) w"
  shows "client_inv (client_opened i c w s)"
proof -
  have ex: "exclusive s" using inv by (simp add: client_inv_def)
  have use: "rc_held s i = Some c" "in_turn (rc_task s i)" using t by (simp_all add: rc_held_def)
  have w': "fits i (Chosen c) w"
    using fits_in_use [OF ex _ use] inv w t by (auto simp: client_inv_def ensured_def fits_def)
  have f: "rc_task (client_opened i c w s) = (rc_task s)(i := Chosen c)" "rc_wire (client_opened i c w s) = (rc_wire s)(c := w)"
    by (simp_all add: client_opened_def)
  have "clean (client_opened i c w s)"
    by (rule clean_step [OF ex _ use f]) (use inv w' in \<open>simp_all add: client_inv_def\<close>)
  moreover have "own_answers (client_opened i c w s)"
    by (rule own_answers_step [OF _ f(1)]) (use inv in \<open>simp_all add: client_inv_def\<close>)
  moreover have "exclusive (client_opened i c w s)"
  proof (cases "rc_single s")
    case True
    show ?thesis
      by (rule single_out_of_turn [OF ex True use(2) f(1)]) (use True in \<open>simp_all add: client_opened_def\<close>)
  next
    case False
    then show ?thesis using ex use(1) by (simp add: client_opened_def exclusive_def fun_upd_idem)
  qed
  ultimately show ?thesis by (simp add: client_inv_def)
qed

lemma enter_inv:
  assumes inv: "client_inv s" and t: "rc_task s i = Chosen c" and free: "rc_single s \<longrightarrow> rc_lock s = None"
  shows "client_inv (client_enter i c s)"
proof -
  have ex: "exclusive s" using inv by (simp add: client_inv_def)
  have held: "(rc_held s)(i := Some c) = rc_held s" using t by (auto simp: rc_held_def)
  have f: "rc_task (client_enter i c s) = (rc_task s)(i := Attempting c)" "rc_wire (client_enter i c s) = rc_wire s"
    by (simp_all add: client_enter_def)
  have "clean (client_enter i c s)"
    by (rule clean_idle [OF _ f]) (use inv t in \<open>simp_all add: client_inv_def\<close>)
  moreover have "own_answers (client_enter i c s)"
    by (rule own_answers_step [OF _ f(1)]) (use inv in \<open>simp_all add: client_inv_def\<close>)
  moreover have "exclusive (client_enter i c s)"
  proof (cases "rc_single s")
    case True
    then have "\<not> in_turn (rc_task s j)" for j using ex free by (simp add: exclusive_def)
    then show ?thesis using True by (auto simp: client_enter_def exclusive_def)
  next
    case False
    then show ?thesis using ex held by (simp add: client_enter_def exclusive_def)
  qed
  ultimately show ?thesis by (simp add: client_inv_def)
qed

lemma stop_waiting_inv:
  assumes inv: "client_inv s" and t: "rc_task s i = Chosen c" "rc_single s"
  shows "client_inv (put_ctask i (Raised e) s)"
proof -
  let ?s = "put_ctask i (Raised e) s"
  have "clean ?s" by (rule clean_idle [of s _ i "Raised e"]) (use inv t in \<open>simp_all add: client_inv_def\<close>)
  moreover have "own_answers ?s" by (rule own_answers_step [of s _ i "Raised e"]) (use inv in \<open>simp_all add: client_inv_def\<close>)
  moreover have "\<not> in_turn (rc_task s i)" using t(1) by simp
  then have "rc_lock s \<noteq> Some i" "\<And>j. in_turn (rc_task s j) = (rc_lock s = Some j)"
    using inv t(2) unfolding client_inv_def exclusive_def by metis+
  then have "exclusive ?s" using t(2) by (simp add: exclusive_def)
  ultimately show ?thesis by (simp add: client_inv_def)
qed

text \<open>The client or a connection is closed.\<close>

lemma close_inv:
  assumes "client_inv s"
  shows "client_inv (client_close s)" "client_inv (put_wire c None s)"
proof -
  have "exclusive s" using assms by (simp add: client_inv_def)
  have h: "waits_on (client_close s) i d = waits_on s i d" "waits_on (put_wire c None s) i d = waits_on s i d" for i d
    by (simp_all add: waits_on_def client_close_def rc_held_def split: option.split)
  have f: "rc_task (client_close s) = rc_task s" "rc_wire (client_close s) = rc_wire s"
    by (simp_all add: client_close_def split: option.split)
  have "exclusive (client_close s)"
    using \<open>exclusive s\<close> by (auto simp: client_close_def exclusive_def split: option.split)
  then show "client_inv (client_close s)" using assms by (simp add: client_inv_def clean_def own_answers_def h f)
  have "exclusive (put_wire c None s)" using \<open>exclusive s\<close> by (simp add: exclusive_def)
  then show "client_inv (put_wire c None s)" using assms by (auto simp: client_inv_def clean_def own_answers_def h)
qed

lemmas task_simps = client_connected_def client_ping_def client_pong_def client_send_def client_read_def client_reset_def

lemma client_step_inv:
  assumes "client_step s s'" "client_inv s"
  shows "client_inv s'"
  using assms(1)
proof (cases rule: client_step.cases)
  case (connects i t c)
  then show ?thesis unfolding connects(1) client_connected_def
    by (intro turn_inv [OF assms(2)]) (auto simp: fits_def rc_held_def)
next
  case (open_fails i c w e)
  have "w \<in> {None, Some []}"
    using open_fails fits_in_use [of s i c] assms(2) by (auto simp: client_inv_def fits_def rc_held_def)
  then show ?thesis unfolding open_fails(1) client_open_failed_def
    using open_fails by (intro back_inv(1) [OF assms(2)]) (auto simp: rc_held_def idle_ctask_def)
next
  case (probes i c)
  then show ?thesis by (auto intro!: turn_inv_same [OF assms(2), of i c] simp: rc_held_def)
next
  case (pings i c q)
  then show ?thesis using send_inv(2) [OF assms(2), of i c q] by (simp add: task_simps rc_held_def)
next
  case (pongs i c r q)
  then show ?thesis using read_inv(2) [OF assms(2), of c r q i] by (simp add: task_simps)
next
  case (sends i c q)
  then show ?thesis using send_inv(1) [OF assms(2), of i c q] by (auto simp: task_simps rc_held_def)
next
  case (reads i c r q)
  then show ?thesis using read_inv(1) [OF assms(2), of c r q i] by (simp add: task_simps)
next
  case (gives_up i c e)
  then show ?thesis by (auto intro!: turn_inv_same [OF assms(2), of i c] simp: rc_held_def)
next
  case (rejects i c r t e)
  then show ?thesis by (auto intro!: turn_inv_same [OF assms(2), of i c] simp: rc_held_def)
next
  case (resets i c e t e')
  then show ?thesis unfolding resets(1) client_reset_def
    by (intro turn_inv [OF assms(2)]) (auto simp: fits_def rc_held_def)
next
  case (finishes i c r)
  then have "r = Call i" using assms(2) by (auto simp: client_inv_def own_answers_def)
  then show ?thesis unfolding finishes(1)
    by (intro finish_inv(1) [OF assms(2)]) (simp_all add: finishes(2) rc_held_def idle_ctask_def)
next
  case (leaves i c e)
  then show ?thesis unfolding leaves(1)
    by (intro finish_inv(1) [OF assms(2)]) (simp_all add: rc_held_def idle_ctask_def)
next
  case (begins i)
  then show ?thesis using begin_inv [OF assms(2)] by simp
next
  case (opens i c w)
  then show ?thesis using opened_inv [OF assms(2)] by simp
next
  case (stops_waiting i c e)
  then show ?thesis using stop_waiting_inv [OF assms(2)] by simp
next
  case (enters i c)
  then show ?thesis using enter_inv [OF assms(2)] by simp
next
  case (breaks i c w t e)
  then show ?thesis using break_inv [OF assms(2)] by simp
next
  case closes
  then show ?thesis using close_inv(1) [OF assms(2)] by simp
next
  case (drops c)
  then show ?thesis using close_inv(2) [OF assms(2)] by simp
qed

lemma client_steps_inv: "client_step\<^sup>*\<^sup>* s s' \<Longrightarrow> client_inv s \<Longrightarrow> client_inv s'"
  by (induction rule: rtranclp_induct) (auto dest: client_step_inv)

lemma new_aclient_inv: "apool_inv p \<Longrightarrow> ap_in_use p = [] \<Longrightarrow> client_inv (new_aclient single p opened)"
  by (auto simp: client_inv_def exclusive_def clean_def own_answers_def new_aclient_def rc_held_def waits_on_def aio_pool.shares_def)

text \<open>C9: Tasks that share an asynchronous client get their own answers: however their pieces interleave, fail, are cancelled or
  retried, with one connection behind the client's lock or with connections of the pool, a command that ends with an answer has the answer
  to itself. Unless the client was closed meanwhile, ending with an answer never fails. No open connection carries an answer
  that nobody waits for, and a task that waits for its answer finds nothing else on its connection.\<close>

theorem tasks_get_their_own_answers:
  assumes "apool_inv p" "ap_in_use p = []" "client_step\<^sup>*\<^sup>* (new_aclient single p opened) s"
  shows "(\<forall>i r. rc_task s i = Done r \<longrightarrow> r = Call i) \<and>
    (\<forall>i c r. rc_task s i = Answered c r \<and> (rc_single s \<longrightarrow> rc_connection s \<noteq> None) \<longrightarrow>
       rc_task (client_finish i c (Done r) s) i = Done (Call i)) \<and>
    (\<forall>c q. rc_wire s c = Some q \<and> q \<noteq> [] \<longrightarrow>
       (\<exists>i. rc_task s i = Sent c \<and> q = [Call i] \<or> rc_task s i = Pinged c \<and> q = [Health i])) \<and>
    (\<forall>i c q. rc_task s i = Sent c \<and> rc_wire s c = Some q \<longrightarrow> q = [Call i])"
proof -
  have inv: "client_inv s" by (rule client_steps_inv [OF assms(3) new_aclient_inv [OF assms(1,2)]])
  then have ex: "exclusive s" "clean s" "own_answers s" by (simp_all add: client_inv_def)
  have own: "rc_task s i = Done r \<or> rc_task s i = Answered c r \<Longrightarrow> r = Call i" for i c r
    using ex(3) by (auto simp: own_answers_def)
  have fin: "rc_task (client_finish i c (Done r) s) i = Done (Call i)"
    if "rc_task s i = Answered c r" "rc_single s \<longrightarrow> rc_connection s \<noteq> None" for i c r
    using finish_inv(2) [OF inv, of i c "Done r"] that own [of i r c] by (simp add: rc_held_def idle_ctask_def)
  have carried: "\<exists>i. rc_task s i = Sent c \<and> q = [Call i] \<or> rc_task s i = Pinged c \<and> q = [Health i]"
    if wire: "rc_wire s c = Some q" "q \<noteq> []" for c q
  proof -
    obtain i r where w: "waits_on s i c = Some r" "q = [r]" using ex(2) [unfolded clean_def, rule_format, OF wire(1)] wire(2) by auto
    then have "rc_held s i = Some c" "expects i (rc_task s i) = Some r" using waits_onD by blast+
    then show ?thesis using w(2) by (cases "rc_task s i") (auto simp: rc_held_def)
  qed
  have "q = [Call i]" if "rc_task s i = Sent c" "rc_wire s c = Some q" for i c q
    using wire_in_use [OF ex(1,2), of i c q] that by (simp add: rc_held_def)
  then show ?thesis using own fin carried by blast
qed

text \<open>Task 3 is cancelled while it waits for its answer on the connection of a client that has one; task 4 connects anew.\<close>

definition demo_cancelled :: aclient where
  "demo_cancelled = \<lparr>rc_single = True, rc_connection = Some 0, rc_pool = \<lparr>ap_available = [], ap_in_use = [0], ap_max = 1, ap_next = 1\<rparr>,
     rc_lock = None, rc_wire = (\<lambda>_. None), rc_task = (\<lambda>_. Ready)(3 := Raised (Exc CancelledError []))\<rparr>"

lemma take_one: "get_available_connection one_pool = (Inr 0, \<lparr>ap_available = [], ap_in_use = [0], ap_max = 1, ap_next = 1\<rparr>)"
  by (simp add: get_available_connection_def one_pool_def aio_make_connection_def bindS_def thenS_def add_in_use_def)

lemmas demo_simps = put_ctask_def put_wire_def client_begin_def client_opened_def client_enter_def client_send_def client_break_def
  client_finish_def client_connected_def client_read_def unlock_client_def

lemma demo_cancelled_reached: "client_step\<^sup>*\<^sup>* (new_aclient True one_pool (\<lambda>_. False)) demo_cancelled"
proof -
  let ?s = "new_aclient True one_pool (\<lambda>_. False)"
  let ?a = "client_begin 3 ?s" let ?b = "client_opened 3 0 (Some []) ?a" let ?c = "client_enter 3 0 ?b" let ?d = "client_send 3 0 ?c"
  let ?e = "client_break 3 0 None (Leaving 0 (Exc CancelledError [])) ?d"
  let ?f = "client_finish 3 0 (Raised (Exc CancelledError [])) ?e"
  have "client_step ?s ?a" by (rule client_step.begins) (simp_all add: new_aclient_def idle_ctask_def)
  moreover have "client_step ?a ?b" by (rule client_step.opens) (simp_all add: new_aclient_def demo_simps take_one ensured_def)
  moreover have "client_step ?b ?c" by (rule client_step.enters) (simp_all add: new_aclient_def demo_simps take_one)
  moreover have "client_step ?c ?d" by (rule client_step.sends [where q = "[]"]) (simp_all add: new_aclient_def demo_simps take_one)
  moreover have "client_step ?d ?e"
    by (rule client_step.breaks [where e = "Exc CancelledError []"]) (simp_all add: new_aclient_def demo_simps take_one left_by_failure_def after_failure_def)
  moreover have "client_step ?e ?f" by (rule client_step.leaves) (simp add: new_aclient_def demo_simps take_one)
  moreover have "?f = demo_cancelled" by (simp add: new_aclient_def demo_simps take_one demo_cancelled_def fun_eq_iff)
  ultimately show ?thesis by (metis converse_rtranclp_into_rtranclp rtranclp.rtrancl_refl)
qed

lemma tasks_get_their_own_answers_witness:
  "\<exists>s. client_step\<^sup>*\<^sup>* demo_cancelled s \<and> rc_task s 3 = Raised (Exc CancelledError []) \<and> rc_task s 4 = Done (Call 4) \<and> rc_wire s 0 = Some []"
proof -
  let ?a = "client_begin 4 demo_cancelled" let ?b = "client_enter 4 0 ?a" let ?c = "client_connected 4 0 (Checked 0) ?b"
  let ?d = "client_send 4 0 ?c" let ?e = "client_read 4 0 ?d"
  note defs = demo_cancelled_def demo_simps
  have "client_step demo_cancelled ?a" by (rule client_step.begins) (simp_all add: defs idle_ctask_def)
  moreover have "client_step ?a ?b" by (rule client_step.enters) (simp_all add: defs)
  moreover have "client_step ?b ?c" by (rule client_step.connects) (simp_all add: defs)
  moreover have "client_step ?c ?d" by (rule client_step.sends [where q = "[]"]) (simp_all add: defs)
  moreover have "client_step ?d ?e" by (rule client_step.reads [where r = "Call 4" and q = "[]"]) (simp_all add: defs)
  ultimately have e: "client_step\<^sup>*\<^sup>* demo_cancelled ?e"
    by (rule converse_rtranclp_into_rtranclp [OF _ converse_rtranclp_into_rtranclp [OF _ converse_rtranclp_into_rtranclp
          [OF _ converse_rtranclp_into_rtranclp [OF _ r_into_rtranclp]]]])
  have pool: "apool_inv one_pool" "ap_in_use one_pool = []" by (simp_all add: apool_inv_def one_pool_def)
  have t: "rc_task ?e 4 = Answered 0 (Call 4)" "rc_connection ?e \<noteq> None" "rc_task ?e 3 = Raised (Exc CancelledError [])" "rc_wire ?e 0 = Some []"
    by (simp_all add: defs)
  have "rc_task (client_finish 4 0 (Done (Call 4)) ?e) 4 = Done (Call 4)"
    using tasks_get_their_own_answers [OF pool rtranclp_trans [OF demo_cancelled_reached e]] t(1,2) by blast
  moreover have "client_step ?e (client_finish 4 0 (Done (Call 4)) ?e)" by (rule client_step.finishes [OF t(1)])
  then have "client_step\<^sup>*\<^sup>* demo_cancelled (client_finish 4 0 (Done (Call 4)) ?e)" using e by simp
  moreover have "rc_task (client_finish 4 0 (Done (Call 4)) ?e) 3 = Raised (Exc CancelledError [])" "rc_wire (client_finish 4 0 (Done (Call 4)) ?e) 0 = Some []"
    by (simp_all add: defs)
  ultimately show ?thesis by blast
qed

text \<open>Closing a client with a single connection while a task waits for its answer gives the connection in use to the pool: the pool
  hands it out with the answer still to come, and the task, when it has read its answer, raises KeyError.\<close>

theorem closing_frees_a_connection_in_use:
  assumes "rc_single s" "rc_connection s = Some c" "rc_task s i = Sent c" "rc_wire s c = Some [Call i]"
    and "apool_inv (rc_pool s)" "c \<in> set (ap_in_use (rc_pool s))"
  shows "let s1 = client_close s in
    rc_wire s1 c = Some [Call i] \<and> fst (get_available_connection (rc_pool s1)) = Inr c \<and>
    rc_task (client_finish i c (Done (Call i)) (client_read i c s1)) i = Raised (Exc KeyError ''connection'')"
proof -
  let ?p = "(rc_pool s)\<lparr>ap_in_use := remove1 c (ap_in_use (rc_pool s)), ap_available := ap_available (rc_pool s) @ [c]\<rparr>"
  have rel: "apool_release c (rc_pool s) = (Inr (), ?p)" using assms(6) by (simp add: apool_release_def)
  have "distinct (ap_in_use (rc_pool s))" using assms(5) by (simp add: apool_inv_def)
  then have "apool_release c ?p = (Inl (Exc KeyError ''connection''), ?p)" by (simp add: apool_release_def)
  then show ?thesis
    using assms(1-4) rel
    by (simp add: client_close_def client_read_def client_finish_def back_to_pool_def unlock_client_def put_ctask_def put_wire_def Let_def
        get_available_connection_def bindS_def thenS_def add_in_use_def)
qed

lemma closing_frees_a_connection_in_use_witness:
  "let s = (new_aclient True \<lparr>ap_available = [], ap_in_use = [0], ap_max = 5, ap_next = 1\<rparr> (\<lambda>_. False))
        \<lparr>rc_connection := Some 0, rc_lock := Some 3, rc_wire := (\<lambda>_. None)(0 := Some [Call 3]), rc_task := (\<lambda>_. Ready)(3 := Sent 0)\<rparr>
   in fst (get_available_connection (rc_pool (client_close s))) = Inr 0 \<and>
      rc_task (client_finish 3 0 (Done (Call 3)) (client_read 3 0 (client_close s))) 3 = Raised (Exc KeyError ''connection'')"
  using closing_frees_a_connection_in_use [of "(new_aclient True \<lparr>ap_available = [], ap_in_use = [0], ap_max = 5, ap_next = 1\<rparr> (\<lambda>_. False))
        \<lparr>rc_connection := Some 0, rc_lock := Some 3, rc_wire := (\<lambda>_. None)(0 := Some [Call 3]), rc_task := (\<lambda>_. Ready)(3 := Sent 0)\<rparr>" 0 3]
  by (simp add: Let_def new_aclient_def apool_inv_def)

end
