(* ===== verification/AsyncSentinel.thy ===== *)
theory AsyncSentinel
  imports SentinelCorrect Partial
begin

text \<open>
  Sentinel-backed clients with \<open>asyncio\<close> (\<open>redis/asyncio/sentinel.py\<close>): commands to the sentinels, the search for the master and
  the replicas, the pool that keeps the master's address, and the managed connection. The state, the answers of the
  sentinels and the sockets are those of \<open>Sentinel\<close>. The last parts let tasks share a manager and a pool: the search swaps
  the list it walks over, and the rotation over replicas moves a counter that all connections of the pool share.
\<close>

section \<open>Sentinel\<close>

text \<open>
  The tasks of \<open>gather\<close> are started together: each sentinel gets the command, whatever becomes of the others, and the first failure is
  raised afterwards.
\<close>

fun first_error :: "(exc + 'a) list \<Rightarrow> exc option" where
  "first_error [] = None"
| "first_error (Inl e # rs) = Some e"
| "first_error (Inr _ # rs) = first_error rs"

primrec gather_commands :: "'w sentinel_env \<Rightarrow> pyval list \<Rightarrow> nat list \<Rightarrow> ('w, (exc + pyval) list) sentinel_op" where
  "gather_commands E args [] = retS []"
| "gather_commands E args (n # ns) = (\<lambda>s.
     case on_sentinel (se_command E n args) s of (r, s1) \<Rightarrow> bindS (gather_commands E args ns) (\<lambda>rs. retS (r # rs)) s1)"

definition aio_sentinel_execute_command :: "'w sentinel_env \<Rightarrow> bool \<Rightarrow> pyval list \<Rightarrow> ('w, pyval) sentinel_op" where
  "aio_sentinel_execute_command E once args =
     bindS (getS (\<lambda>s. (sn_sentinels s, sn_world s))) (\<lambda>(ss, w).
       thenS (if once then
                (if ss = [] then raiseS (Exc IndexError ''Cannot choose from an empty sequence'')
                 else bindS (on_sentinel (se_command E (ss ! (se_choice E (length ss) w mod length ss)) args)) (\<lambda>_. retS ()))
              else bindS (gather_commands E args ss) (\<lambda>rs. case first_error rs of None \<Rightarrow> retS () | Some e \<Rightarrow> raiseS e))
         (retS (PBool True)))"

definition aio_check_master_state :: "sentinel_config \<Rightarrow> master_state \<Rightarrow> bool" where
  "aio_check_master_state c st =
     (if \<not> ms_is_master st \<or> ms_is_sdown st \<or> ms_is_odown st then False
      else if ms_num_other_sentinels st < sc_min_other c then False
      else True)"

text \<open>What an answer to SENTINEL MASTERS means: the search ends with an address or an error, or it goes on.\<close>

datatype verdict = FoundAt address | NextSentinel "string list" | Broken exc

definition judge :: "sentinel_config \<Rightarrow> nat \<Rightarrow> string list \<Rightarrow> exc + (string \<times> master_state) list \<Rightarrow> verdict" where
  "judge c n errors r = (case r of
     Inl e \<Rightarrow> if isinstance_any e [ConnectionError, TimeoutError] then NextSentinel (errors @ [dec_nat n @ '' - '' @ exc_msg e]) else Broken e
   | Inr masters \<Rightarrow> (case dict_get masters (sc_service c) of
       Some st \<Rightarrow> if aio_check_master_state c st then FoundAt (ms_address st) else NextSentinel errors
     | None \<Rightarrow> NextSentinel errors))"

text \<open>\<open>self.sentinels[0], self.sentinels[no] = sentinel, self.sentinels[0]\<close>: the right side is evaluated first.\<close>

definition put_first :: "nat \<Rightarrow> nat \<Rightarrow> nat list \<Rightarrow> nat list" where
  "put_first no n ns = ns[0 := n, no := ns ! 0]"

text \<open>The loop walks over the list by position, so it sees what other tasks do to it; here nobody else is at work.\<close>

function aio_discover_master_from :: "'w sentinel_env \<Rightarrow> sentinel_config \<Rightarrow> nat \<Rightarrow> string list \<Rightarrow> ('w, address) sentinel_op" where
  "aio_discover_master_from E c k errors s =
     (if length (sn_sentinels s) \<le> k then (Inl (master_not_found c errors), s)
      else (case se_masters E (sn_sentinels s ! k) (sn_world s) of (r, w) \<Rightarrow>
        (case judge c (sn_sentinels s ! k) errors r of
           Broken e \<Rightarrow> (Inl e, s\<lparr>sn_world := w\<rparr>)
         | NextSentinel errors' \<Rightarrow> aio_discover_master_from E c (Suc k) errors' (s\<lparr>sn_world := w\<rparr>)
         | FoundAt a \<Rightarrow> (Inr a, s\<lparr>sn_world := w, sn_sentinels := put_first k (sn_sentinels s ! k) (sn_sentinels s)\<rparr>))))"
  by pat_completeness auto
termination by (relation "measure (\<lambda>(E, c, k, errors, s). length (sn_sentinels s) - k)") auto

declare aio_discover_master_from.simps [simp del]

definition aio_discover_master :: "'w sentinel_env \<Rightarrow> sentinel_config \<Rightarrow> ('w, address) sentinel_op" where
  "aio_discover_master E c = aio_discover_master_from E c 0 []"

definition aio_filter_slaves :: "master_state list \<Rightarrow> address list" where
  "aio_filter_slaves ss = concat (map (\<lambda>st. if ms_is_odown st \<or> ms_is_sdown st then [] else [ms_address st]) ss)"

fun aio_discover_slaves_from :: "'w sentinel_env \<Rightarrow> sentinel_config \<Rightarrow> nat list \<Rightarrow> ('w, address list) sentinel_op" where
  "aio_discover_slaves_from E c [] = retS []"
| "aio_discover_slaves_from E c (n # ns) = (\<lambda>s.
     case on_sentinel (se_slaves E n (sc_service c)) s of
       (Inl e, s1) \<Rightarrow>
         if isinstance_any e [ConnectionError, ResponseError, TimeoutError] then aio_discover_slaves_from E c ns s1 else (Inl e, s1)
     | (Inr ss, s1) \<Rightarrow> (case aio_filter_slaves ss of [] \<Rightarrow> aio_discover_slaves_from E c ns s1 | a # as \<Rightarrow> (Inr (a # as), s1)))"

definition aio_discover_slaves :: "'w sentinel_env \<Rightarrow> sentinel_config \<Rightarrow> ('w, address list) sentinel_op" where
  "aio_discover_slaves E c = bindS (getS sn_sentinels) (aio_discover_slaves_from E c)"

section \<open>SentinelConnectionPool\<close>

definition aio_pool_reset :: "('w, unit) sentinel_op" where
  "aio_pool_reset = modS (\<lambda>s. s\<lparr>sn_master := None, sn_counter := None\<rparr>)"

definition aio_get_master_address :: "'w sentinel_env \<Rightarrow> sentinel_config \<Rightarrow> ('w, address) sentinel_op" where
  "aio_get_master_address E c =
     bindS (aio_discover_master E c) (\<lambda>a.
     thenS (if sc_is_master c then
              bindS (getS (\<lambda>s. sn_master s \<noteq> Some a)) (\<lambda>changed.
                whenS changed (thenS (modS (\<lambda>s. s\<lparr>sn_master := Some a\<rparr>)) (on_sentinel (se_disconnect_idle E))))
            else retS ())
       (retS a))"

section \<open>SentinelManagedConnection\<close>

text \<open>
  Reading closes the connection on an error unless it is told not to; the synchronous one does so only when it is told to. An expired limit
  is an error of \<open>se_read\<close>.
\<close>

definition aio_sentinel_read_response :: "'w sentinel_env \<Rightarrow> sentinel_config \<Rightarrow> address \<Rightarrow> bool \<Rightarrow> ('w, pyval) sentinel_op" where
  "aio_sentinel_read_response E c a disconnect_on_error =
     catchS (catchS (on_sentinel (se_read E a disconnect_on_error))
         (\<lambda>e. thenS (modS (\<lambda>s. if disconnect_on_error \<and> \<not> isinstance e ResponseError then s\<lparr>sn_sock := None\<rparr> else s)) (raiseS e)))
       (\<lambda>e. if isinstance e ReadOnlyError then
              (if sc_is_master c then
                 thenS (modS (\<lambda>s. s\<lparr>sn_sock := None\<rparr>)) (raiseS (Exc ConnectionError ''The previous master is now a slave''))
               else raiseS e)
            else raiseS e)"

definition aio_check_ping :: "'w sentinel_env \<Rightarrow> sentinel_config \<Rightarrow> ('w, unit) sentinel_op" where
  "aio_check_ping E c =
     bindS (getS sn_sock) (\<lambda>sock. case sock of
         None \<Rightarrow> retS ()
       | Some a \<Rightarrow>
           thenS (catchS (on_sentinel (se_send_ping E a)) (\<lambda>e. thenS (modS (\<lambda>s. s\<lparr>sn_sock := None\<rparr>)) (raiseS e)))
           (bindS (aio_sentinel_read_response E c a True) (\<lambda>r.
              if str_if_bytes r \<noteq> PStr ''PONG'' then raiseS (Exc ConnectionError ''PING failed'') else retS ())))"

definition aio_connect_to :: "'w sentinel_env \<Rightarrow> sentinel_config \<Rightarrow> address \<Rightarrow> ('w, unit) sentinel_op" where
  "aio_connect_to E c a =
     thenS (modS (\<lambda>s. s\<lparr>sn_host := Some a\<rparr>))
     (thenS (base_connect E) (whenS (sc_check_connection c) (aio_check_ping E c)))"

text \<open>\<open>rotate_slaves\<close> is an asynchronous generator; the loop over it as in \<open>Sentinel\<close>.\<close>

definition aio_fallback_to_master :: "'w sentinel_env \<Rightarrow> sentinel_config \<Rightarrow> ('w, unit) sentinel_op" where
  "aio_fallback_to_master E c = (\<lambda>s.
     case aio_get_master_address E c s of
       (Inl e, s1) \<Rightarrow> (Inl (if isinstance e MasterNotFoundError then slave_not_found c else e), s1)
     | (Inr a, s1) \<Rightarrow>
         (case aio_connect_to E c a s1 of
            (Inl e, s2) \<Rightarrow> (Inl (if isinstance e ConnectionError then slave_not_found c else e), s2)
          | (Inr _, s2) \<Rightarrow> (Inr (), s2)))"

definition next_position :: "nat option \<Rightarrow> nat \<Rightarrow> nat" where
  "next_position counter n = ((case counter of Some k \<Rightarrow> k | None \<Rightarrow> 0) + 1) mod n"

fun aio_rotate_slaves :: "'w sentinel_env \<Rightarrow> sentinel_config \<Rightarrow> address list \<Rightarrow> nat \<Rightarrow> ('w, unit) sentinel_op" where
  "aio_rotate_slaves E c slaves 0 = aio_fallback_to_master E c"
| "aio_rotate_slaves E c slaves (Suc n) = (\<lambda>s.
     let k = next_position (sn_counter s) (length slaves) in
     case aio_connect_to E c (slaves ! k) (s\<lparr>sn_counter := Some k\<rparr>) of
       (Inl e, s1) \<Rightarrow> if isinstance e ConnectionError then aio_rotate_slaves E c slaves n s1 else (Inl e, s1)
     | (Inr _, s1) \<Rightarrow> (Inr (), s1))"

definition aio_connect_slave :: "'w sentinel_env \<Rightarrow> sentinel_config \<Rightarrow> ('w, unit) sentinel_op" where
  "aio_connect_slave E c =
     bindS (aio_discover_slaves E c) (\<lambda>slaves.
       thenS (whenS (slaves \<noteq> []) (start_counter E (length slaves))) (aio_rotate_slaves E c slaves (length slaves)))"

definition aio_connect_retry :: "'w sentinel_env \<Rightarrow> sentinel_config \<Rightarrow> ('w, unit) sentinel_op" where
  "aio_connect_retry E c =
     bindS (getS sn_sock) (\<lambda>sock.
       if sock \<noteq> None then retS ()
       else if sc_is_master c then bindS (aio_get_master_address E c) (aio_connect_to E c)
       else aio_connect_slave E c)"

definition aio_sentinel_connect :: "'w sentinel_env \<Rightarrow> sentinel_config \<Rightarrow> ('w sentinel, unit) run" where
  "aio_sentinel_connect E c =
     call_with_retryP (sc_retry c) (se_rnd E) (\<lambda>t s. s\<lparr>sn_world := se_sleep E t (sn_world s)\<rparr>) (total (aio_connect_retry E c)) (\<lambda>_. retP ())"

end
