(* ===== verification/AsyncSentinelCorrect.thy ===== *)
theory AsyncSentinelCorrect
  imports AsyncSentinel
begin

text \<open>
  What Sentinel-backed clients with \<open>asyncio\<close> do: alone, a search gives what the synchronous one gives, a command reaches every sentinel,
  and an open connection leads where it says. Tasks that search at the same time may lose a sentinel, and tasks that connect at the same time may skip a replica.
\<close>

section \<open>One task alone\<close>

lemma aio_check_master_state_eq: "aio_check_master_state = check_master_state"
  by (intro ext) (simp add: aio_check_master_state_def check_master_state_def)

lemma aio_filter_slaves_eq: "aio_filter_slaves ss = filter_slaves ss"
  by (induction ss) (auto simp: aio_filter_slaves_def filter_slaves_def)

lemma put_first_eq: "put_first k (ns ! k) ns = swap_first k ns"
  by (simp add: put_first_def swap_first_def)

lemma aio_discover_from_eq:
  "aio_discover_master_from E c k errors s =
     discover_master_from E (c\<lparr>sc_force_ip := None\<rparr>) k (drop k (sn_sentinels s)) errors s"
proof (induction E c k errors s rule: aio_discover_master_from.induct)
  case (1 E c k errors s)
  show ?case
  proof (cases "k < length (sn_sentinels s)")
    case True
    obtain r w where r: "se_masters E (sn_sentinels s ! k) (sn_world s) = (r, w)" by force
    have "drop k (sn_sentinels s) = sn_sentinels s ! k # drop (Suc k) (sn_sentinels s)"
      using True by (rule Cons_nth_drop_Suc [symmetric])
    then show ?thesis
      using True r 1 [OF _ r [symmetric]]
      by (subst aio_discover_master_from.simps)
        (auto simp: judge_def on_sentinel_def put_first_eq aio_check_master_state_eq check_master_state_def split: sum.splits option.splits verdict.splits)
  next
    case False
    then show ?thesis by (subst aio_discover_master_from.simps) (simp add: master_not_found_def raiseS_def)
  qed
qed

lemma aio_discover_slaves_from_eq: "aio_discover_slaves_from E c ns s = discover_slaves_from E c ns s"
  by (induction ns arbitrary: s) (auto simp: aio_filter_slaves_eq split: sum.splits list.splits prod.splits)

text \<open>A task that searches alone finds the master and the replicas that the synchronous client without a forced address finds, and leaves the
  sentinels in the same order.\<close>

theorem aio_discovery_is_discovery:
  "aio_discover_master E c s = discover_master E (c\<lparr>sc_force_ip := None\<rparr>) s \<and>
   aio_discover_slaves E c s = discover_slaves E (c\<lparr>sc_force_ip := None\<rparr>) s"
proof -
  have "discover_slaves_from E (c\<lparr>sc_force_ip := None\<rparr>) ns t = discover_slaves_from E c ns t" for ns and t :: "'a sentinel"
    by (induction ns arbitrary: t) (simp_all split: sum.splits prod.splits)
  then show ?thesis
    by (simp add: aio_discover_master_def discover_master_def aio_discover_from_eq aio_discover_slaves_def discover_slaves_def
        bindS_def getS_def aio_discover_slaves_from_eq)
qed

section \<open>Commands\<close>

text \<open>A command without \<open>once\<close> reaches every sentinel also when some of them fail; the failure of the first of them in the list is
  raised. The synchronous client stops at the first that fails.\<close>

theorem aio_command_reaches_every_sentinel:
  assumes "\<And>n w. se_command E n args w = (if n \<in> bad then Inl (Exc ConnectionError (dec_nat n)) else Inr PNone, w @ [n])"
  shows "sn_world (snd (aio_sentinel_execute_command E False args s)) = sn_world s @ sn_sentinels s \<and>
    fst (aio_sentinel_execute_command E False args s) =
      (case filter (\<lambda>n. n \<in> bad) (sn_sentinels s) of [] \<Rightarrow> Inr (PBool True) | n # _ \<Rightarrow> Inl (Exc ConnectionError (dec_nat n)))"
proof -
  let ?r = "\<lambda>n. if n \<in> bad then Inl (Exc ConnectionError (dec_nat n)) else Inr PNone"
  have g: "gather_commands E args ns t = (Inr (map ?r ns), t\<lparr>sn_world := sn_world t @ ns\<rparr>)" for ns and t :: "nat list sentinel"
    by (induction ns arbitrary: t) (simp_all add: assms on_sentinel_def bindS_def)
  have f: "first_error (map ?r ns) = (case filter (\<lambda>n. n \<in> bad) ns of [] \<Rightarrow> None | n # _ \<Rightarrow> Some (Exc ConnectionError (dec_nat n)))" for ns
    by (induction ns) simp_all
  show ?thesis
    by (simp add: aio_sentinel_execute_command_def bindS_def getS_def thenS_def g f split: list.splits)
qed

section \<open>Where a connection leads\<close>

text \<open>An open socket leads to the address the connection names.\<close>

definition leads_home :: "'w sentinel \<Rightarrow> bool" where
  "leads_home s \<longleftrightarrow> sn_sock s = None \<or> sn_sock s = sn_host s"

lemma not_both: "isinstance e ConnectionError \<Longrightarrow> isinstance e ResponseError \<Longrightarrow> False"
  by (auto simp: isinstance_def)

lemma on_sentinel_frame: "on_sentinel m s = (r, s') \<Longrightarrow> sn_sock s' = sn_sock s \<and> sn_host s' = sn_host s"
  by (auto simp: on_sentinel_def split: prod.splits)

lemma discover_from_frame:
  "aio_discover_master_from E c k errors s = (r, s') \<Longrightarrow> sn_sock s' = sn_sock s \<and> sn_host s' = sn_host s"
proof (induction E c k errors s rule: aio_discover_master_from.induct)
  case (1 E c k errors s)
  then show ?case
    by (subst (asm) (2) aio_discover_master_from.simps) (auto split: if_splits verdict.splits prod.splits)
qed

lemma master_address_frame:
  "aio_get_master_address E c s = (r, s') \<Longrightarrow> sn_sock s' = sn_sock s \<and> sn_host s' = sn_host s"
  by (auto simp: aio_get_master_address_def aio_discover_master_def bindS_def thenS_def getS_def modS_def retS_def whenS_def
      dest!: discover_from_frame on_sentinel_frame split: prod.splits sum.splits if_splits)

lemma discover_slaves_frame:
  "aio_discover_slaves_from E c ns s = (r, s') \<Longrightarrow> sn_sock s' = sn_sock s \<and> sn_host s' = sn_host s"
proof (induction ns arbitrary: s)
  case (Cons n ns)
  obtain x s1 where o: "on_sentinel (se_slaves E n (sc_service c)) s = (x, s1)" by force
  show ?case
    using Cons.prems Cons.IH [of s1] on_sentinel_frame [OF o]
    by (auto simp: o split: sum.splits if_splits list.splits)
qed (simp add: retS_def)

definition answers_pong :: "'w sentinel_env \<Rightarrow> bool" where
  "answers_pong E \<longleftrightarrow> (\<forall>a d w x w'. se_read E a d w = (Inr x, w') \<longrightarrow> str_if_bytes x = PStr ''PONG'')"

lemma connect_to_leads_home:
  assumes "answers_pong E" "sn_sock s = None" "aio_connect_to E c a s = (r, s')"
  shows "leads_home s' \<and> (\<forall>e. r = Inl e \<longrightarrow> isinstance e ConnectionError \<longrightarrow> sn_sock s' = None)"
proof -
  let ?s = "s\<lparr>sn_host := Some a\<rparr>"
  obtain x w where x: "se_open E a (sn_world s) = (x, w)" by force
  show ?thesis
  proof (cases "\<exists>u. x = Inr u \<and> sc_check_connection c")
    case False
    then show ?thesis using assms(2,3) x
      by (cases x) (auto simp: aio_connect_to_def base_connect_def on_sentinel_def leads_home_def thenS_def bindS_def getS_def modS_def)
  next
    case True
    let ?t = "?s\<lparr>sn_world := w, sn_sock := Some a\<rparr>"
    have r: "aio_check_ping E c ?t = (r, s')" using assms(2,3) x True
      by (auto simp: aio_connect_to_def base_connect_def on_sentinel_def thenS_def bindS_def getS_def modS_def)
    obtain y w1 where y: "se_send_ping E a w = (y, w1)" by force
    show ?thesis
    proof (cases y)
      case (Inl e)
      then show ?thesis using r y by (auto simp: aio_check_ping_def on_sentinel_def catchS_def thenS_def bindS_def getS_def leads_home_def)
    next
      case (Inr u)
      obtain z w2 where z: "se_read E a True w1 = (z, w2)" by force
      have *: "aio_check_ping E c ?t = (case aio_sentinel_read_response E c a True (?t\<lparr>sn_world := w1\<rparr>) of
          (Inl e, s2) \<Rightarrow> (Inl e, s2)
        | (Inr v, s2) \<Rightarrow> (if str_if_bytes v \<noteq> PStr ''PONG'' then Inl (Exc ConnectionError ''PING failed'') else Inr (), s2))"
        using y Inr by (auto simp: aio_check_ping_def on_sentinel_def catchS_def thenS_def bindS_def getS_def split: sum.splits prod.splits)
      show ?thesis
      proof (cases z)
        case (Inr v)
        moreover have "str_if_bytes v = PStr ''PONG''" using assms(1) z Inr unfolding answers_pong_def by blast
        ultimately show ?thesis using r z *
          by (auto simp: aio_sentinel_read_response_def on_sentinel_def catchS_def leads_home_def)
      next
        case (Inl e)
        then show ?thesis using r z * not_both [of e]
          by (auto simp: aio_sentinel_read_response_def on_sentinel_def catchS_def thenS_def bindS_def leads_home_def split: if_splits)
      qed
    qed
  qed
qed

text \<open>Whatever connecting gives, an open connection leads to the address it names, when PING is answered by PONG or an error: a
  check that fails closes the connection before the next replica is tried. The synchronous client leaves it open
  (\<open>checked_connect_mixes_replicas\<close>).\<close>

theorem aio_connect_leads_home:
  assumes "answers_pong E" "leads_home s" "aio_sentinel_connect E c s = Some (r, s')"
  shows "sn_sock s' = None \<or> sn_sock s' = sn_host s'"
proof -
  have to: "leads_home s' \<and> (\<forall>e. r = Inl e \<longrightarrow> isinstance e ConnectionError \<longrightarrow> sn_sock s' = None)"
    if "sn_sock s = None" "aio_connect_to E c a s = (r, s')" for a s r s'
    by (rule connect_to_leads_home [OF assms(1) that])
  have fallback: "leads_home s'" if n: "sn_sock s = None" and f: "aio_fallback_to_master E c s = (r, s')" for s r s'
  proof -
    obtain x s1 where m: "aio_get_master_address E c s = (x, s1)" by force
    then have n1: "sn_sock s1 = None" using master_address_frame [OF m] n by simp
    then show ?thesis using f m to [OF n1]
      by (auto simp: aio_fallback_to_master_def leads_home_def split: sum.splits prod.splits)
  qed
  have rotate: "leads_home s'" if "sn_sock s = None" "aio_rotate_slaves E c slaves n s = (r, s')" for slaves n s r s'
    using that
  proof (induction n arbitrary: s)
    case 0
    then show ?case using fallback by simp
  next
    case (Suc n)
    let ?k = "next_position (sn_counter s) (length slaves)"
    obtain x s1 where x: "aio_connect_to E c (slaves ! ?k) (s\<lparr>sn_counter := Some ?k\<rparr>) = (x, s1)" by force
    have "sn_sock (s\<lparr>sn_counter := Some ?k\<rparr>) = None" using Suc.prems(1) by simp
    from to [OF this x] Suc.prems(2) x Suc.IH [of s1] show ?case by (auto simp: Let_def split: sum.splits if_splits)
  qed
  have retry: "leads_home s'" if "leads_home s" "total (aio_connect_retry E c) s = Some (r, s')" for s r s'
  proof (cases "sn_sock s")
    case (Some a)
    then show ?thesis using that by (auto simp: total_def aio_connect_retry_def)
  next
    case None
    show ?thesis
    proof (cases "sc_is_master c")
      case True
      obtain x s1 where m: "aio_get_master_address E c s = (x, s1)" by force
      then have n1: "sn_sock s1 = None" using master_address_frame [OF m] None by simp
      show ?thesis using that(2) None True m to [OF n1] n1
        by (cases x) (auto simp: total_def aio_connect_retry_def bindS_def leads_home_def)
    next
      case False
      obtain x s1 where m: "aio_discover_slaves E c s = (x, s1)" by force
      then have n1: "sn_sock s1 = None"
        using discover_slaves_frame [of E c "sn_sentinels s" s x s1] None by (simp add: aio_discover_slaves_def bindS_def getS_def)
      obtain t where w: "whenS b (start_counter E n) s1 = (Inr (), t b n)" and t: "sn_sock (t b n) = None" for b n
      proof
        let ?t = "\<lambda>b n. snd (whenS b (start_counter E n) s1)"
        show "whenS b (start_counter E n) s1 = (Inr (), ?t b n)" for b n by (simp add: whenS_def start_counter_def modS_def)
        show "sn_sock (?t b n) = None" for b n using n1 by (simp add: whenS_def start_counter_def modS_def split: option.splits)
      qed
      show ?thesis using that(2) None False m n1 rotate [OF t]
        by (cases x) (auto simp: total_def aio_connect_retry_def aio_connect_slave_def bindS_def thenS_def w leads_home_def)
    qed
  qed
  have "leads_home (snd (r, s'))"
    by (rule retry_run_inv [where I = leads_home and J = leads_home, OF assms(3) [unfolded aio_sentinel_connect_def call_with_retryP_def]])
      (use retry assms(2) in \<open>auto simp: leads_home_def retP_def total_def retS_def\<close>)
  then show ?thesis by (simp add: leads_home_def)
qed

section \<open>Tasks that search at the same time\<close>

text \<open>
  A task asks the sentinel at its position of the list as it is now, waits, and judges the answer; other tasks may have changed the list in
  the meantime. \<open>may n r\<close> tells what the sentinel \<open>n\<close> may answer.
\<close>

datatype dtask = Looking nat "string list" | Asking nat nat "string list" | Searched "exc + address"

record dsys =
  ds_sentinels :: "nat list"
  ds_task :: "nat \<Rightarrow> dtask"

definition start_search :: "nat list \<Rightarrow> dsys" where
  "start_search ns = \<lparr>ds_sentinels = ns, ds_task = (\<lambda>_. Looking 0 [])\<rparr>"

definition put_dtask :: "nat \<Rightarrow> dtask \<Rightarrow> dsys \<Rightarrow> dsys" where
  "put_dtask i t s = s\<lparr>ds_task := (ds_task s)(i := t)\<rparr>"

definition look :: "sentinel_config \<Rightarrow> nat \<Rightarrow> nat \<Rightarrow> string list \<Rightarrow> dsys \<Rightarrow> dsys" where
  "look c i k errors s =
     (if length (ds_sentinels s) \<le> k then put_dtask i (Searched (Inl (master_not_found c errors))) s
      else put_dtask i (Asking k (ds_sentinels s ! k) errors) s)"

definition hear :: "sentinel_config \<Rightarrow> nat \<Rightarrow> nat \<Rightarrow> nat \<Rightarrow> string list \<Rightarrow> exc + (string \<times> master_state) list \<Rightarrow> dsys \<Rightarrow> dsys" where
  "hear c i k n errors r s = (case judge c n errors r of
     Broken e \<Rightarrow> put_dtask i (Searched (Inl e)) s
   | NextSentinel errors' \<Rightarrow> put_dtask i (Looking (Suc k) errors') s
   | FoundAt a \<Rightarrow> put_dtask i (Searched (Inr a)) (s\<lparr>ds_sentinels := put_first k n (ds_sentinels s)\<rparr>))"

inductive search_step :: "sentinel_config \<Rightarrow> (nat \<Rightarrow> exc + (string \<times> master_state) list \<Rightarrow> bool) \<Rightarrow> dsys \<Rightarrow> dsys \<Rightarrow> bool"
  for c may where
  looks: "ds_task s i = Looking k errors \<Longrightarrow> search_step c may s (look c i k errors s)"
| hears: "ds_task s i = Asking k n errors \<Longrightarrow> may n r \<Longrightarrow> search_step c may s (hear c i k n errors r s)"
| again: "ds_task s i = Searched r \<Longrightarrow> search_step c may s (put_dtask i (Looking 0 []) s)"

text \<open>The address of a healthy master that a sentinel may name.\<close>

definition named_by :: "sentinel_config \<Rightarrow> (nat \<Rightarrow> exc + (string \<times> master_state) list \<Rightarrow> bool) \<Rightarrow> nat set \<Rightarrow> address \<Rightarrow> bool" where
  "named_by c may ns a \<longleftrightarrow> (\<exists>n \<in> ns. \<exists>masters st. may n (Inr masters) \<and> dict_get masters (sc_service c) = Some st \<and>
     aio_check_master_state c st \<and> ms_address st = a)"

definition search_inv :: "sentinel_config \<Rightarrow> (nat \<Rightarrow> exc + (string \<times> master_state) list \<Rightarrow> bool) \<Rightarrow> nat list \<Rightarrow> dsys \<Rightarrow> bool" where
  "search_inv c may ns s \<longleftrightarrow> length (ds_sentinels s) = length ns \<and> set (ds_sentinels s) \<subseteq> set ns \<and>
     (\<forall>i k n es. ds_task s i = Asking k n es \<longrightarrow> n \<in> set ns) \<and>
     (\<forall>i a. ds_task s i = Searched (Inr a) \<longrightarrow> named_by c may (set ns) a)"

lemma put_first_set: "n \<in> A \<Longrightarrow> set ns \<subseteq> A \<Longrightarrow> set (put_first k n ns) \<subseteq> A"
proof (cases ns)
  case Nil
  then show ?thesis by (simp add: put_first_def)
next
  case (Cons m ms)
  assume "n \<in> A" "set ns \<subseteq> A"
  then have "set (ns[0 := n]) \<subseteq> A" using set_update_subset_insert [of ns 0 n] by blast
  then show ?thesis using \<open>set ns \<subseteq> A\<close> set_update_subset_insert [of "ns[0 := n]" k "ns ! 0"] Cons
    by (auto simp: put_first_def)
qed

lemma search_step_inv: "search_step c may s s' \<Longrightarrow> search_inv c may ns s \<Longrightarrow> search_inv c may ns s'"
proof (induction rule: search_step.induct)
  case (looks s i k errors)
  then have "k < length (ds_sentinels s) \<Longrightarrow> ds_sentinels s ! k \<in> set ns" unfolding search_inv_def by (meson nth_mem subsetD)
  then show ?case using looks by (auto simp: search_inv_def look_def put_dtask_def)
next
  case (hears s i k n errors r)
  then have n: "n \<in> set ns" unfolding search_inv_def by blast
  have "named_by c may (set ns) a" if "judge c n errors r = FoundAt a" for a
    using that hears(2) n by (fastforce simp: judge_def named_by_def split: sum.splits option.splits if_splits)
  moreover have "set (put_first k n (ds_sentinels s)) \<subseteq> set ns" "length (put_first k n (ds_sentinels s)) = length ns"
    using put_first_set [OF n] hears(3) by (simp_all add: search_inv_def put_first_def)
  ultimately show ?case using hears(3) by (auto simp: search_inv_def hear_def put_dtask_def split: verdict.splits)
next
  case (again s i r)
  then show ?case by (auto simp: search_inv_def put_dtask_def)
qed

lemma search_steps_inv: "(search_step c may)\<^sup>*\<^sup>* s s' \<Longrightarrow> search_inv c may ns s \<Longrightarrow> search_inv c may ns s'"
  by (induction rule: rtranclp_induct) (auto intro: search_step_inv)

text \<open>However tasks that search at the same time interleave, the manager keeps as many sentinels, all of them among those it was
  given, and an address that is found was named by one of them as a healthy master.\<close>

theorem searches_find_named_masters:
  assumes "(search_step c may)\<^sup>*\<^sup>* (start_search ns) s"
  shows "length (ds_sentinels s) = length ns \<and> set (ds_sentinels s) \<subseteq> set ns \<and>
    (\<forall>i a. ds_task s i = Searched (Inr a) \<longrightarrow> named_by c may (set ns) a)"
proof -
  have "search_inv c may ns (start_search ns)" by (simp add: search_inv_def start_search_def)
  with assms have "search_inv c may ns s" by (rule search_steps_inv)
  then show ?thesis by (simp add: search_inv_def)
qed

text \<open>The states of two tasks while the others have not begun.\<close>

definition two_tasks :: "nat list \<Rightarrow> dtask \<Rightarrow> dtask \<Rightarrow> dsys" where
  "two_tasks ns t0 t1 = \<lparr>ds_sentinels = ns, ds_task = (\<lambda>_. Looking 0 [])(0 := t0, 1 := t1)\<rparr>"

lemma two_tasks_simps:
  "ds_sentinels (two_tasks ns t0 t1) = ns" "ds_task (two_tasks ns t0 t1) 0 = t0" "ds_task (two_tasks ns t0 t1) (Suc 0) = t1"
  "put_dtask 0 t (two_tasks ns t0 t1) = two_tasks ns t t1" "put_dtask (Suc 0) t (two_tasks ns t0 t1) = two_tasks ns t0 t"
  "(two_tasks ns t0 t1)\<lparr>ds_sentinels := ns'\<rparr> = two_tasks ns' t0 t1"
  by (simp_all add: two_tasks_def put_dtask_def fun_upd_twist)

lemma two_look:
  "k < length ns \<Longrightarrow> search_step c may (two_tasks ns (Looking k es) t1) (two_tasks ns (Asking k (ns ! k) es) t1)"
  "k < length ns \<Longrightarrow> search_step c may (two_tasks ns t0 (Looking k es)) (two_tasks ns t0 (Asking k (ns ! k) es))"
  using search_step.looks [of "two_tasks ns (Looking k es) t1" 0 k es c may] search_step.looks [of "two_tasks ns t0 (Looking k es)" "Suc 0" k es c may]
  by (simp_all add: two_tasks_simps look_def)

lemma two_hear:
  "may n r \<Longrightarrow> search_step c may (two_tasks ns (Asking k n es) t1) (hear c 0 k n es r (two_tasks ns (Asking k n es) t1))"
  "may n r \<Longrightarrow> search_step c may (two_tasks ns t0 (Asking k n es)) (hear c (Suc 0) k n es r (two_tasks ns t0 (Asking k n es)))"
  by (rule search_step.hears; simp add: two_tasks_simps)+

text \<open>Two tasks that search while the first of two sentinels is down both put the second one first: it stands in the list twice and
  the first one is lost for good.\<close>

theorem searches_lose_a_sentinel:
  assumes "may m (Inl (Exc ConnectionError x))" "may n (Inr masters)"
    and "dict_get masters (sc_service c) = Some st" "aio_check_master_state c st"
  shows "\<exists>s. (search_step c may)\<^sup>*\<^sup>* (start_search [m, n]) s \<and> ds_sentinels s = [n, n] \<and>
    ds_task s 0 = Searched (Inr (ms_address st)) \<and> ds_task s 1 = Searched (Inr (ms_address st)) \<and>
    (\<forall>s'. (search_step c may)\<^sup>*\<^sup>* s s' \<longrightarrow> ds_sentinels s' = [n, n])"
proof -
  let ?es = "[dec_nat m @ '' - '' @ x]" and ?L = "Looking 0 []" and ?A = "Asking 0 m []"
  let ?N = "Looking (Suc 0) ?es" and ?B = "Asking (Suc 0) n ?es" and ?D = "Searched (Inr (ms_address st))"
  let ?R = "search_step c may"
  have fails: "hear c i 0 m [] (Inl (Exc ConnectionError x)) s = put_dtask i ?N s" for i s
    by (simp add: hear_def judge_def isinstance_any_def)
  have finds: "hear c i (Suc 0) n ?es (Inr masters) s = put_dtask i ?D (s\<lparr>ds_sentinels := put_first (Suc 0) n (ds_sentinels s)\<rparr>)" for i s
    using assms(3,4) by (simp add: hear_def judge_def)
  have "?R (two_tasks [m, n] ?L ?L) (two_tasks [m, n] ?A ?L)" "?R (two_tasks [m, n] ?A ?L) (two_tasks [m, n] ?A ?A)"
      "?R (two_tasks [m, n] ?A ?A) (two_tasks [m, n] ?N ?A)" "?R (two_tasks [m, n] ?N ?A) (two_tasks [m, n] ?N ?N)"
      "?R (two_tasks [m, n] ?N ?N) (two_tasks [m, n] ?B ?N)" "?R (two_tasks [m, n] ?B ?N) (two_tasks [m, n] ?B ?B)"
      "?R (two_tasks [m, n] ?B ?B) (two_tasks [n, m] ?D ?B)" "?R (two_tasks [n, m] ?D ?B) (two_tasks [n, n] ?D ?D)"
    using two_look [where k = 0 and ns = "[m, n]" and es = "[]" and c = c and may = may]
      two_look [where k = "Suc 0" and ns = "[m, n]" and es = ?es and c = c and may = may]
      two_hear [where k = 0 and es = "[]" and c = c and may = may and n = m, OF assms(1)]
      two_hear(1) [where k = "Suc 0" and es = ?es and c = c and may = may and n = n and ns = "[m, n]", OF assms(2)]
      two_hear(2) [where k = "Suc 0" and es = ?es and c = c and may = may and n = n and ns = "[n, m]", OF assms(2)]
    unfolding fails finds two_tasks_simps by (simp_all add: put_first_def)
  then have "?R\<^sup>*\<^sup>* (two_tasks [m, n] ?L ?L) (two_tasks [n, n] ?D ?D)" by (meson converse_rtranclp_into_rtranclp rtranclp.rtrancl_refl)
  moreover have "start_search [m, n] = two_tasks [m, n] ?L ?L" by (simp add: start_search_def two_tasks_def fun_eq_iff)
  ultimately have run: "?R\<^sup>*\<^sup>* (start_search [m, n]) (two_tasks [n, n] ?D ?D)" by simp
  have inv: "search_inv c may [n, n] (two_tasks [n, n] ?D ?D)"
    using assms(2-4) by (auto simp: search_inv_def named_by_def two_tasks_def)
  have "ds_sentinels s' = [n, n]" if "?R\<^sup>*\<^sup>* (two_tasks [n, n] ?D ?D) s'" for s'
    using search_steps_inv [OF that inv] by (auto simp: search_inv_def length_Suc_conv numeral_2_eq_2)
  with run show ?thesis by (intro exI [of _ "two_tasks [n, n] ?D ?D"]) (simp add: two_tasks_simps)
qed

section \<open>Tasks that connect to replicas at the same time\<close>

text \<open>
  The connections of a pool share its counter: a task moves it, waits for the connect, and goes on from where the counter is then.
  Every task has as many turns as there are replicas; \<open>up\<close> are those that can be reached.
\<close>

datatype rtask = Turns nat | Connecting address nat | Connected address | AskingMaster

record rsys =
  rs_counter :: nat
  rs_task :: "nat \<Rightarrow> rtask"

definition put_rtask :: "nat \<Rightarrow> rtask \<Rightarrow> rsys \<Rightarrow> rsys" where
  "put_rtask i t s = s\<lparr>rs_task := (rs_task s)(i := t)\<rparr>"

definition take_turn :: "address list \<Rightarrow> nat \<Rightarrow> nat \<Rightarrow> rsys \<Rightarrow> rsys" where
  "take_turn slaves i n s = (case n of
     0 \<Rightarrow> put_rtask i AskingMaster s
   | Suc n \<Rightarrow> (let k = next_position (Some (rs_counter s)) (length slaves) in put_rtask i (Connecting (slaves ! k) n) (s\<lparr>rs_counter := k\<rparr>)))"

inductive rotate_step :: "address list \<Rightarrow> address set \<Rightarrow> rsys \<Rightarrow> rsys \<Rightarrow> bool" for slaves up where
  turns: "rs_task s i = Turns n \<Longrightarrow> rotate_step slaves up s (take_turn slaves i n s)"
| connects: "rs_task s i = Connecting a n \<Longrightarrow> a \<in> up \<Longrightarrow> rotate_step slaves up s (put_rtask i (Connected a) s)"
| refused: "rs_task s i = Connecting a n \<Longrightarrow> a \<notin> up \<Longrightarrow> rotate_step slaves up s (put_rtask i (Turns n) s)"

definition start_rotation :: "address list \<Rightarrow> nat \<Rightarrow> rsys" where
  "start_rotation slaves k = \<lparr>rs_counter = k, rs_task = (\<lambda>_. Turns (length slaves))\<rparr>"

text \<open>However tasks interleave, a task connects only to a replica of the list that can be reached.\<close>

theorem rotation_connects_to_replicas:
  assumes "(rotate_step slaves up)\<^sup>*\<^sup>* (start_rotation slaves k) s" "rs_task s i = Connected a"
  shows "a \<in> set slaves \<inter> up"
proof -
  have "(\<forall>i a n. rs_task s i = Connecting a n \<longrightarrow> a \<in> set slaves) \<and> (\<forall>i n. rs_task s i = Turns n \<longrightarrow> n \<le> length slaves) \<and>
      (\<forall>i a n. rs_task s i = Connecting a n \<longrightarrow> n \<le> length slaves) \<and> (\<forall>i a. rs_task s i = Connected a \<longrightarrow> a \<in> set slaves \<inter> up)"
    using assms(1)
  proof (induction rule: rtranclp_induct)
    case base
    then show ?case by (simp add: start_rotation_def)
  next
    case (step s s')
    from step(2) show ?case
    proof (cases rule: rotate_step.cases)
      case (turns i n)
      show ?thesis
      proof (cases n)
        case 0
        then show ?thesis using step(3) turns by (auto simp: take_turn_def put_rtask_def)
      next
        case (Suc m)
        then have "m < length slaves" using step(3) turns(2) by (meson Suc_le_lessD)
        then have "slaves ! next_position (Some (rs_counter s)) (length slaves) \<in> set slaves"
          by (intro nth_mem) (auto simp: next_position_def intro: mod_less_divisor)
        then obtain a where "slaves ! next_position (Some (rs_counter s)) (length slaves) = a" "a \<in> set slaves" by blast
        then show ?thesis using step(3) turns Suc \<open>m < length slaves\<close> by (cases a) (simp add: take_turn_def put_rtask_def Let_def)
      qed
    next
      case (connects i a n)
      then show ?thesis using step(3) by (auto simp: put_rtask_def)
    next
      case (refused i a n)
      then show ?thesis using step(3) by (cases a) (auto simp: put_rtask_def)
    qed
  qed
  with assms(2) show ?thesis by blast
qed

text \<open>The states of two tasks and the counter while the others have not begun.\<close>

definition two_rotations :: "nat \<Rightarrow> rtask \<Rightarrow> rtask \<Rightarrow> rsys" where
  "two_rotations k t0 t1 = \<lparr>rs_counter = k, rs_task = (\<lambda>_. Turns 2)(0 := t0, Suc 0 := t1)\<rparr>"

lemma two_rotations_simps:
  "rs_counter (two_rotations k t0 t1) = k" "rs_task (two_rotations k t0 t1) 0 = t0" "rs_task (two_rotations k t0 t1) (Suc 0) = t1"
  "put_rtask 0 t (two_rotations k t0 t1) = two_rotations k t t1" "put_rtask (Suc 0) t (two_rotations k t0 t1) = two_rotations k t0 t"
  "(two_rotations k t0 t1)\<lparr>rs_counter := k'\<rparr> = two_rotations k' t0 t1"
  by (simp_all add: two_rotations_def put_rtask_def fun_upd_twist)

lemma two_turn:
  "rotate_step ss up (two_rotations k (Turns n) t1) (take_turn ss 0 n (two_rotations k (Turns n) t1))"
  "rotate_step ss up (two_rotations k t0 (Turns n)) (take_turn ss (Suc 0) n (two_rotations k t0 (Turns n)))"
  by (rule rotate_step.turns; simp add: two_rotations_simps)+

lemma one_connect:
  "a \<in> up \<Longrightarrow> rotate_step ss up (two_rotations k (Connecting a n) t1) (two_rotations k (Connected a) t1)"
  "a \<notin> up \<Longrightarrow> rotate_step ss up (two_rotations k (Connecting a n) t1) (two_rotations k (Turns n) t1)"
  using rotate_step.connects [of "two_rotations k (Connecting a n) t1" 0 a n up ss]
    rotate_step.refused [of "two_rotations k (Connecting a n) t1" 0 a n up ss] by (simp_all add: two_rotations_simps)

text \<open>While another task takes the turns in between, a task tries one of two replicas twice and asks for the master without having
  tried the other, which can be reached; alone it would have tried both.\<close>

theorem rotation_skips_a_replica:
  assumes "a \<noteq> b"
  shows "\<exists>s t. (rotate_step [a, b] {b})\<^sup>*\<^sup>* (start_rotation [a, b] 1) s \<and> rs_task s 0 = AskingMaster \<and>
    (rotate_step [a, b] {b})\<^sup>*\<^sup>* (start_rotation [a, b] 1) t \<and> rs_task t 0 = Connected b"
proof -
  let ?R = "rotate_step [a, b] {b}" and ?T = "\<lambda>n. Turns n" and ?C = Connecting
  have start: "start_rotation [a, b] 1 = two_rotations 1 (?T 2) (?T 2)"
    by (simp add: start_rotation_def two_rotations_def fun_eq_iff)
  have turn: "take_turn [a, b] i (Suc n) (two_rotations k t0 t1) =
      put_rtask i (?C ([a, b] ! (Suc k mod 2)) n) (two_rotations (Suc k mod 2) t0 t1)" for i n k t0 t1
    by (simp add: take_turn_def next_position_def two_rotations_simps Let_def numeral_2_eq_2)
  have "?R (two_rotations 1 (?T 2) (?T 2)) (two_rotations 0 (?C a 1) (?T 2))"
      "?R (two_rotations 0 (?C a 1) (?T 2)) (two_rotations 1 (?C a 1) (?C b 1))"
      "?R (two_rotations 1 (?C a 1) (?C b 1)) (two_rotations 1 (?T 1) (?C b 1))"
      "?R (two_rotations 1 (?T 1) (?C b 1)) (two_rotations 0 (?C a 0) (?C b 1))"
      "?R (two_rotations 0 (?C a 0) (?C b 1)) (two_rotations 0 (?T 0) (?C b 1))"
      "?R (two_rotations 0 (?T 0) (?C b 1)) (two_rotations 0 AskingMaster (?C b 1))"
    using two_turn(1) [of "[a, b]" "{b}" 1 "Suc 1" "?T 2"] two_turn(2) [of "[a, b]" "{b}" 0 "?C a 1" "Suc 1"]
      one_connect(2) [of a "{b}" "[a, b]" 1 1 "?C b 1"] two_turn(1) [of "[a, b]" "{b}" 1 "Suc 0" "?C b 1"]
      one_connect(2) [of a "{b}" "[a, b]" 0 0 "?C b 1"] two_turn(1) [of "[a, b]" "{b}" 0 0 "?C b 1"] assms
    unfolding turn by (simp_all add: two_rotations_simps take_turn_def numeral_2_eq_2)
  then have skip: "?R\<^sup>*\<^sup>* (two_rotations 1 (?T 2) (?T 2)) (two_rotations 0 AskingMaster (?C b 1))"
    by (meson converse_rtranclp_into_rtranclp rtranclp.rtrancl_refl)
  have "?R (two_rotations 1 (?T 2) (?T 2)) (two_rotations 0 (?C a 1) (?T 2))"
      "?R (two_rotations 0 (?C a 1) (?T 2)) (two_rotations 0 (?T 1) (?T 2))"
      "?R (two_rotations 0 (?T 1) (?T 2)) (two_rotations 1 (?C b 0) (?T 2))"
      "?R (two_rotations 1 (?C b 0) (?T 2)) (two_rotations 1 (Connected b) (?T 2))"
    using two_turn(1) [of "[a, b]" "{b}" 1 "Suc 1" "?T 2"] one_connect(2) [of a "{b}" "[a, b]" 0 1 "?T 2"]
      two_turn(1) [of "[a, b]" "{b}" 0 "Suc 0" "?T 2"] one_connect(1) [of b "{b}" "[a, b]" 1 0 "?T 2"] assms
    unfolding turn by (simp_all add: two_rotations_simps take_turn_def numeral_2_eq_2)
  then have "?R\<^sup>*\<^sup>* (two_rotations 1 (?T 2) (?T 2)) (two_rotations 1 (Connected b) (?T 2))"
    by (meson converse_rtranclp_into_rtranclp rtranclp.rtrancl_refl)
  with skip show ?thesis unfolding start by (metis two_rotations_simps(2))
qed

section \<open>Examples\<close>

definition logging_env :: "nat list sentinel_env" where
  "logging_env = \<lparr>
     se_masters = (\<lambda>n. if n = 0 then raiseS (Exc ConnectionError ''refused'')
        else retS [(''mymaster'', example_state False (''10.0.0.1'', 6379))]),
     se_slaves = (\<lambda>_ _. retS [example_state False (''10.0.0.2'', 6379)]),
     se_command = (\<lambda>n _ w. (if n \<in> {1} then Inl (Exc ConnectionError (dec_nat n)) else Inr PNone, w @ [n])),
     se_open = (\<lambda>_. retS ()), se_send_ping = (\<lambda>_. retS ()), se_read = (\<lambda>_ _. raiseS (Exc BusyLoadingError ''loading'')),
     se_disconnect_idle = retS (), se_choice = (\<lambda>_ _. 0), se_rnd = (\<lambda>_. 0), se_sleep = (\<lambda>_ w. w)\<rparr>"

lemma aio_command_reaches_every_sentinel_witness:
  "sn_world (snd (aio_sentinel_execute_command logging_env False [PStr ''SENTINEL RESET''] (new_sentinel [0, 1, 2] []))) = [0, 1, 2]"
  using aio_command_reaches_every_sentinel [of logging_env "[PStr ''SENTINEL RESET'']" "{1}" "new_sentinel [0, 1, 2] []"]
  by (simp add: logging_env_def new_sentinel_def)

lemma aio_connect_leads_home_witness:
  "\<exists>s'. aio_sentinel_connect logging_env (example_config False) (new_sentinel [0, 1] []) = Some (Inl (slave_not_found (example_config False)), s') \<and>
     (sn_sock s' = None \<or> sn_sock s' = sn_host s')"
proof -
  let ?c = "example_config False" and ?s = "new_sentinel [0, 1] ([] :: nat list)"
  have "\<exists>s'. aio_connect_retry logging_env ?c ?s = (Inl (slave_not_found ?c), s')"
    by (simp add: aio_connect_retry_def aio_connect_slave_def aio_discover_slaves_def logging_env_def example_config_def new_sentinel_def
        example_state_def on_sentinel_def aio_filter_slaves_def start_counter_def next_position_def aio_connect_to_def base_connect_def
        aio_check_ping_def aio_sentinel_read_response_def catchS_def thenS_def bindS_def getS_def modS_def aio_fallback_to_master_def
        aio_get_master_address_def aio_discover_master_def aio_discover_master_from.simps judge_def aio_check_master_state_def isinstance_any_def
        put_first_def whenS_def slave_not_found_def Let_def)
  then obtain s' where r: "aio_connect_retry logging_env ?c ?s = (Inl (slave_not_found ?c), s')" by blast
  have "aio_sentinel_connect logging_env ?c ?s = Some (Inl (slave_not_found ?c), s')"
    unfolding aio_sentinel_connect_def
  proof (rule call_with_retryP_once)
    show "total (aio_connect_retry logging_env ?c) ?s = Some (Inl (slave_not_found ?c), s')" using r by (simp add: total_def)
  qed (simp_all add: slave_not_found_def isinstance_any_def example_config_def new_retry_def default_supported_errors_def)
  moreover have "answers_pong logging_env" by (simp add: answers_pong_def logging_env_def)
  ultimately show ?thesis
    using aio_connect_leads_home [of logging_env ?s ?c] by (auto simp: leads_home_def new_sentinel_def)
qed

text \<open>Sentinel 0 is down, the others name a healthy master.\<close>

definition example_may :: "nat \<Rightarrow> exc + (string \<times> master_state) list \<Rightarrow> bool" where
  "example_may n r = (r = (if n = 0 then Inl (Exc ConnectionError ''refused'')
     else Inr [(''mymaster'', example_state False (''10.0.0.1'', 6379))]))"

lemma searches_lose_a_sentinel_witness:
  "\<exists>s. (search_step (example_config True) example_may)\<^sup>*\<^sup>* (start_search [0, 1]) s \<and> ds_sentinels s = [1, 1] \<and>
     ds_task s 0 = Searched (Inr (''10.0.0.1'', 6379))"
  using searches_lose_a_sentinel [of example_may 0 "''refused''" 1 "[(''mymaster'', example_state False (''10.0.0.1'', 6379))]"
      "example_config True" "example_state False (''10.0.0.1'', 6379)"]
  by (auto simp: example_may_def example_config_def example_state_def aio_check_master_state_def)

lemma searches_find_named_masters_witness:
  "named_by (example_config True) example_may {0, 1} (''10.0.0.1'', 6379)"
proof -
  obtain s where "(search_step (example_config True) example_may)\<^sup>*\<^sup>* (start_search [0, 1]) s" "ds_task s 0 = Searched (Inr (''10.0.0.1'', 6379))"
  proof -
    let ?R = "search_step (example_config True) example_may" and ?L = "Looking 0 []" and ?es = "[dec_nat 0 @ '' - '' @ ''refused'']"
    let ?m = "[(''mymaster'', example_state False (''10.0.0.1'', 6379))]" and ?D = "Searched (Inr (''10.0.0.1'', 6379))"
    have fails: "hear (example_config True) 0 0 0 [] (Inl (Exc ConnectionError ''refused'')) t = put_dtask 0 (Looking (Suc 0) ?es) t" for t
      by (simp add: hear_def judge_def isinstance_any_def)
    have finds: "hear (example_config True) 0 (Suc 0) 1 ?es (Inr ?m) t = put_dtask 0 ?D (t\<lparr>ds_sentinels := put_first (Suc 0) 1 (ds_sentinels t)\<rparr>)" for t
      by (simp add: hear_def judge_def example_config_def example_state_def aio_check_master_state_def)
    have 1: "?R (two_tasks [0, 1] ?L ?L) (two_tasks [0, 1] (Asking 0 0 []) ?L)" using two_look(1) [of 0 "[0, 1]"] by simp
    have 2: "?R (two_tasks [0, 1] (Asking 0 0 []) ?L) (two_tasks [0, 1] (Looking (Suc 0) ?es) ?L)"
      using two_hear(1) [of example_may 0 "Inl (Exc ConnectionError ''refused'')" "example_config True" "[0, 1]" 0 "[]" ?L] fails
      by (simp add: example_may_def two_tasks_simps)
    have 3: "?R (two_tasks [0, 1] (Looking (Suc 0) ?es) ?L) (two_tasks [0, 1] (Asking (Suc 0) 1 ?es) ?L)"
      using two_look(1) [of "Suc 0" "[0, 1]"] by simp
    have 4: "?R (two_tasks [0, 1] (Asking (Suc 0) 1 ?es) ?L) (two_tasks [1, 0] ?D ?L)"
      using two_hear(1) [of example_may 1 "Inr ?m" "example_config True" "[0, 1]" "Suc 0" ?es ?L] finds
      by (simp add: example_may_def two_tasks_simps put_first_def)
    have "start_search [0, 1] = two_tasks [0, 1] ?L ?L" by (simp add: start_search_def two_tasks_def fun_eq_iff)
    then have "?R\<^sup>*\<^sup>* (start_search [0, 1]) (two_tasks [1, 0] ?D ?L)"
      using converse_rtranclp_into_rtranclp [OF 1 converse_rtranclp_into_rtranclp [OF 2 converse_rtranclp_into_rtranclp [OF 3 r_into_rtranclp [of ?R, OF 4]]]]
      by simp
    then show thesis by (rule that) (simp add: two_tasks_simps)
  qed
  then show ?thesis using searches_find_named_masters [of "example_config True" example_may "[0, 1]" s] by auto
qed

lemma rotation_connects_to_replicas_witness:
  "(''10.0.0.2'', 6379) \<in> set [(''10.0.0.2'', 6379 :: int)] \<inter> {(''10.0.0.2'', 6379)}"
proof -
  let ?a = "(''10.0.0.2'', 6379 :: int)"
  let ?s = "start_rotation [?a] 0"
  have "rotate_step [?a] {?a} ?s (take_turn [?a] 0 1 ?s)" by (rule rotate_step.turns) (simp add: start_rotation_def)
  moreover have "rotate_step [?a] {?a} (take_turn [?a] 0 1 ?s) (put_rtask 0 (Connected ?a) (take_turn [?a] 0 1 ?s))"
    by (rule rotate_step.connects [of _ _ _ 0]) (simp_all add: take_turn_def put_rtask_def next_position_def)
  ultimately have "(rotate_step [?a] {?a})\<^sup>*\<^sup>* ?s (put_rtask 0 (Connected ?a) (take_turn [?a] 0 1 ?s))" by (meson converse_rtranclp_into_rtranclp r_into_rtranclp)
  then show ?thesis by (rule rotation_connects_to_replicas [where i = 0]) (simp add: put_rtask_def)
qed

lemma rotation_skips_a_replica_witness:
  "\<exists>s. (rotate_step [(''a'', 1), (''b'', 2)] {(''b'', 2)})\<^sup>*\<^sup>* (start_rotation [(''a'', 1), (''b'', 2)] 1) s \<and> rs_task s 0 = AskingMaster"
  using rotation_skips_a_replica [of "(''a'', 1)" "(''b'', 2)"] by auto

end
