(* ===== verification/Sections.thy ===== *)
theory Sections
  imports CommandCall
begin

text \<open>
  How a server reads the arguments of a command with many options: a word, and behind it as many arguments as the word, or the count that
  follows it, announces. \<open>grammar\<close> is the interface: whether a section is complete does not depend on what comes after it. What was put
  together from complete sections is then read back as these sections, whatever the arguments in them look like.
\<close>

type_synonym part = "string \<times> pyval list"

definition flatten :: "part list \<Rightarrow> pyval list" where
  "flatten ss = concat (map (\<lambda>(w, xs). PStr w # xs) ss)"

text \<open>\<open>arity w rest\<close>: how many of the arguments behind the word \<open>w\<close> belong to it.\<close>

function read_sections :: "(string \<Rightarrow> pyval list \<Rightarrow> nat option) \<Rightarrow> pyval list \<Rightarrow> part list option" where
  "read_sections arity [] = Some []"
| "read_sections arity (x # rest) = (case x of
     PStr w \<Rightarrow> (case arity w rest of
       Some n \<Rightarrow> if length rest < n then None else map_option (Cons (w, take n rest)) (read_sections arity (drop n rest))
     | None \<Rightarrow> None)
   | _ \<Rightarrow> None)"
  by pat_completeness auto
termination by (relation "measure (\<lambda>(_, xs). length xs)") auto

lemma flatten_simps [simp]: "flatten [] = []" "flatten ((w, xs) # ss) = PStr w # xs @ flatten ss" "flatten (ss @ ts) = flatten ss @ flatten ts"
  by (simp_all add: flatten_def)

locale grammar =
  fixes arity :: "string \<Rightarrow> pyval list \<Rightarrow> nat option"
  assumes arity_local: "arity w xs = Some (length xs) \<Longrightarrow> arity w (xs @ ys) = Some (length xs)"
begin

definition complete :: "part \<Rightarrow> bool" where
  "complete s \<longleftrightarrow> arity (fst s) (snd s) = Some (length (snd s))"

lemma read_flatten: "list_all complete ss \<Longrightarrow> read_sections arity (flatten ss) = Some ss"
proof (induction ss)
  case (Cons s ss)
  obtain w xs where s: "s = (w, xs)" by force
  with Cons.prems have "arity w (xs @ flatten ss) = Some (length xs)" by (intro arity_local) (simp add: complete_def)
  with Cons s show ?case by simp
qed simp

end

text \<open>A count and as many arguments, written as a number or as its decimal text.\<close>

definition count_of :: "pyval \<Rightarrow> nat option" where
  "count_of v = (case v of PInt n \<Rightarrow> if n < 0 then None else Some (nat n)
     | PStr s \<Rightarrow> digits_val s
     | _ \<Rightarrow> None)"

definition counted_arity :: "pyval list \<Rightarrow> nat option" where
  "counted_arity rest = (case rest of [] \<Rightarrow> None | v # _ \<Rightarrow> map_option Suc (count_of v))"

lemma counted_arity_simps [simp]: "counted_arity (v # xs) = map_option Suc (count_of v)" "counted_arity [] = None"
  by (simp_all add: counted_arity_def)

lemma count_of_simps [simp]: "count_of (PInt (int n)) = Some n" "count_of (PStr (dec_nat n)) = Some n"
  by (simp_all add: count_of_def)

end
