(* ===== verification/SearchQuery.thy ===== *)
theory SearchQuery
  imports Sections
begin

text \<open>
  Queries of the search module: query strings built from trees of conditions (\<open>commands/search/querystring.py\<close>), the query
  object with its options and filters (\<open>query.py\<close>), the fields of a schema (\<open>field.py\<close>) and index definitions
  (\<open>indexDefinition.py\<close>). The lemmas on query strings show that a printed tree can be taken apart again at its parentheses, and where that
  fails.
\<close>

section \<open>Values\<close>

text \<open>Scalars, bounds, tags and coordinates are what \<open>str\<close> gives for them.\<close>

datatype qvalue =
    RangeValue string string bool bool
  | ScalarValue string
  | TagValue "string list"
  | GeoValue string string string string

fun combinable :: "qvalue \<Rightarrow> bool" where
  "combinable (ScalarValue _) = True"
| "combinable _ = False"

fun value_string :: "qvalue \<Rightarrow> string" where
  "value_string (RangeValue a b inclusive_min inclusive_max) =
     ''['' @ (if \<not> inclusive_min then ''('' else []) @ a @ '' '' @ (if \<not> inclusive_max then ''('' else []) @ b @ '']''"
| "value_string (ScalarValue v) = v"
| "value_string (TagValue tags) = ''{'' @ join_with '' | '' tags @ ''}''"
| "value_string (GeoValue lon lat radius unit) = ''['' @ lon @ '' '' @ lat @ '' '' @ radius @ '' '' @ unit @ '']''"

definition tags_value :: "string list \<Rightarrow> exc + qvalue" where
  "tags_value t = (if t = [] then Inl (Exc ValueError ''At least one tag must be specified'') else Inr (TagValue t))"

definition between :: "string option \<Rightarrow> string option \<Rightarrow> bool \<Rightarrow> bool \<Rightarrow> qvalue" where
  "between a b inclusive_min inclusive_max =
     RangeValue (case a of None \<Rightarrow> ''-inf'' | Some x \<Rightarrow> x) (case b of None \<Rightarrow> ''inf'' | Some x \<Rightarrow> x) inclusive_min inclusive_max"

definition equal_to :: "string \<Rightarrow> qvalue" where
  "equal_to n = between (Some n) (Some n) True True"

definition lt :: "string \<Rightarrow> qvalue" where
  "lt n = between None (Some n) True False"

definition le :: "string \<Rightarrow> qvalue" where
  "le n = between None (Some n) True True"

definition gt :: "string \<Rightarrow> qvalue" where
  "gt n = between (Some n) None False True"

definition ge :: "string \<Rightarrow> qvalue" where
  "ge n = between (Some n) None True True"

definition geo :: "string \<Rightarrow> string \<Rightarrow> string \<Rightarrow> string \<Rightarrow> qvalue" where
  "geo lat lon radius unit = GeoValue lat lon radius unit"

section \<open>Nodes\<close>

datatype node_kind = IntersectNode | UnionNode | DisjunctNode | DistjunctUnion | OptionalNode

datatype qnode = BaseNode string | QNode node_kind "qnode list"

fun JOINSTR :: "node_kind \<Rightarrow> string" where
  "JOINSTR UnionNode = ''|''"
| "JOINSTR DistjunctUnion = ''|''"
| "JOINSTR _ = '' ''"

definition should_use_paren :: "bool option \<Rightarrow> 'a list \<Rightarrow> bool" where
  "should_use_paren optval params = (case optval of Some b \<Rightarrow> b | None \<Rightarrow> 1 < length params)"

definition parens :: "bool \<Rightarrow> string \<Rightarrow> string" where
  "parens b s = (if b then ''('' @ s @ '')'' else s)"

fun node_string :: "bool option \<Rightarrow> qnode \<Rightarrow> string" where
  "node_string with_parens (BaseNode s) = s"
| "node_string with_parens (QNode kind params) =
     (let p = should_use_paren with_parens params;
          body = join_with (JOINSTR kind) (map (node_string None) params)
      in case kind of
           DisjunctNode \<Rightarrow> if p then ''(-'' @ body @ '')'' else ''-'' @ body
         | DistjunctUnion \<Rightarrow> if p then ''(-'' @ body @ '')'' else ''-'' @ body
         | OptionalNode \<Rightarrow> if p then ''(~'' @ body @ '')'' else ''~'' @ body
         | _ \<Rightarrow> parens p body)"

text \<open>The conditions on a field: one value or several, each a text or a value object.\<close>

definition make_value :: "string + qvalue \<Rightarrow> qvalue" where
  "make_value v = (case v of Inl s \<Rightarrow> ScalarValue s | Inr q \<Rightarrow> q)"

datatype field_arg = OneValue "string + qvalue" | ManyValues "(string + qvalue) list"

definition field_values :: "field_arg \<Rightarrow> qvalue list" where
  "field_values a = (case a of OneValue v \<Rightarrow> [make_value v] | ManyValues vs \<Rightarrow> map make_value vs)"

definition join_fields :: "node_kind \<Rightarrow> string \<Rightarrow> qvalue list \<Rightarrow> exc + qnode list" where
  "join_fields kind key vals = (case vals of
     [v] \<Rightarrow> Inr [BaseNode (''@'' @ key @ '':'' @ value_string v)]
   | [] \<Rightarrow> Inl (Exc IndexError ''list index out of range'')
   | v # _ \<Rightarrow>
       if \<not> combinable v then Inr (map (\<lambda>v. BaseNode (''@'' @ key @ '':'' @ value_string v)) vals)
       else Inr [BaseNode (''@'' @ key @ '':('' @ join_with (JOINSTR kind) (map value_string vals) @ '')'')])"

definition to_node :: "string + qnode \<Rightarrow> qnode" where
  "to_node x = (case x of Inl s \<Rightarrow> BaseNode s | Inr n \<Rightarrow> n)"

definition make_node :: "node_kind \<Rightarrow> (string + qnode) list \<Rightarrow> (string \<times> field_arg) list \<Rightarrow> exc + qnode" where
  "make_node kind children kwparams =
     bindE (mapE (\<lambda>(k, a). join_fields kind k (field_values a)) kwparams) (\<lambda>ns.
       Inr (QNode kind (map to_node children @ concat ns)))"

definition querystring :: "(string + qnode) list \<Rightarrow> (string \<times> field_arg) list \<Rightarrow> exc + string" where
  "querystring args kwargs = bindE (make_node IntersectNode args kwargs) (\<lambda>n. Inr (node_string None n))"

section \<open>Query\<close>

datatype qfilter = Filter "pyval list" | NotAFilter

record query =
  q_string :: pyval
  q_offset :: pyval
  q_num :: pyval
  q_no_content :: bool
  q_no_stopwords :: bool
  q_fields :: "pyval list"
  q_verbatim :: bool
  q_with_payloads :: bool
  q_with_scores :: bool
  q_scorer :: pyval
  q_filters :: "qfilter list"
  q_ids :: "pyval list"
  q_slop :: int
  q_timeout :: pyval
  q_in_order :: bool
  q_sortby :: "pyval list"
  q_return_fields :: "pyval list"
  q_return_fields_decode_as :: "(pyval \<times> pyval) list"
  q_summarize_fields :: "pyval list"
  q_highlight_fields :: "pyval list"
  q_language :: pyval
  q_expander :: pyval
  q_dialect :: pyval

definition new_query :: "pyval \<Rightarrow> query" where
  "new_query s = \<lparr>q_string = s, q_offset = PInt 0, q_num = PInt 10, q_no_content = False, q_no_stopwords = False, q_fields = [],
     q_verbatim = False, q_with_payloads = False, q_with_scores = False, q_scorer = PNone, q_filters = [], q_ids = [], q_slop = -1,
     q_timeout = PNone, q_in_order = False, q_sortby = [], q_return_fields = [], q_return_fields_decode_as = [],
     q_summarize_fields = [], q_highlight_fields = [], q_language = PNone, q_expander = PNone, q_dialect = PNone\<rparr>"

definition limit_ids :: "pyval list \<Rightarrow> query \<Rightarrow> query" where
  "limit_ids ids q = q\<lparr>q_ids := ids\<rparr>"

definition return_field :: "pyval \<Rightarrow> pyval \<Rightarrow> bool \<Rightarrow> pyval \<Rightarrow> query \<Rightarrow> query" where
  "return_field field as_field decode_field encoding q =
     q\<lparr>q_return_fields := q_return_fields q @ [field] @ (if as_field \<noteq> PNone then [PStr ''AS'', as_field] else []),
       q_return_fields_decode_as := pd_set field (if decode_field then encoding else PNone) (q_return_fields_decode_as q)\<rparr>"

definition return_fields :: "pyval list \<Rightarrow> query \<Rightarrow> query" where
  "return_fields names q = foldl (\<lambda>q f. return_field f PNone True (PStr ''utf8'') q) q names"

text \<open>\<open>_mk_field_list\<close>: nothing, a single name, or several.\<close>

definition mk_field_list :: "pyval \<Rightarrow> exc + pyval list" where
  "mk_field_list names = (if \<not> truthy names then Inr [] else case names of PStr _ \<Rightarrow> Inr [names] | _ \<Rightarrow> py_iter names)"

definition field_section :: "pyval list \<Rightarrow> pyval list" where
  "field_section names = (if names = [] then [] else [PStr ''FIELDS'', PStr (dec_nat (length names))] @ names)"

text \<open>The numbers of \<open>summarize\<close> are what \<open>str\<close> gives for them.\<close>

definition summarize :: "pyval \<Rightarrow> string option \<Rightarrow> string option \<Rightarrow> pyval \<Rightarrow> query \<Rightarrow> exc + query" where
  "summarize names context_len num_frags sep q =
     bindE (mk_field_list names) (\<lambda>fs. Inr (q\<lparr>q_summarize_fields := [PStr ''SUMMARIZE''] @ field_section fs @
       (case context_len of Some n \<Rightarrow> [PStr ''LEN'', PStr n] | None \<Rightarrow> []) @
       (case num_frags of Some n \<Rightarrow> [PStr ''FRAGS'', PStr n] | None \<Rightarrow> []) @
       (if sep \<noteq> PNone then [PStr ''SEPARATOR'', sep] else [])\<rparr>))"

definition highlight :: "pyval \<Rightarrow> pyval \<Rightarrow> query \<Rightarrow> exc + query" where
  "highlight names tags q =
     bindE (mk_field_list names) (\<lambda>fs.
     bindE (if truthy tags then bindE (py_iter tags) (\<lambda>ts. Inr (PStr ''TAGS'' # ts)) else Inr []) (\<lambda>ts.
       Inr (q\<lparr>q_highlight_fields := [PStr ''HIGHLIGHT''] @ field_section fs @ ts\<rparr>)))"

definition language :: "pyval \<Rightarrow> query \<Rightarrow> query" where "language l q = q\<lparr>q_language := l\<rparr>"
definition slop :: "int \<Rightarrow> query \<Rightarrow> query" where "slop n q = q\<lparr>q_slop := n\<rparr>"
definition query_timeout :: "pyval \<Rightarrow> query \<Rightarrow> query" where "query_timeout t q = q\<lparr>q_timeout := t\<rparr>"
definition in_order :: "query \<Rightarrow> query" where "in_order q = q\<lparr>q_in_order := True\<rparr>"
definition scorer :: "pyval \<Rightarrow> query \<Rightarrow> query" where "scorer s q = q\<lparr>q_scorer := s\<rparr>"
definition paging :: "pyval \<Rightarrow> pyval \<Rightarrow> query \<Rightarrow> query" where "paging offset num q = q\<lparr>q_offset := offset, q_num := num\<rparr>"
definition verbatim :: "query \<Rightarrow> query" where "verbatim q = q\<lparr>q_verbatim := True\<rparr>"
definition no_content :: "query \<Rightarrow> query" where "no_content q = q\<lparr>q_no_content := True\<rparr>"
definition no_stopwords :: "query \<Rightarrow> query" where "no_stopwords q = q\<lparr>q_no_stopwords := True\<rparr>"
definition with_payloads :: "query \<Rightarrow> query" where "with_payloads q = q\<lparr>q_with_payloads := True\<rparr>"
definition with_scores :: "query \<Rightarrow> query" where "with_scores q = q\<lparr>q_with_scores := True\<rparr>"
definition limit_fields :: "pyval list \<Rightarrow> query \<Rightarrow> query" where "limit_fields names q = q\<lparr>q_fields := names\<rparr>"
definition add_filter :: "qfilter \<Rightarrow> query \<Rightarrow> query" where "add_filter f q = q\<lparr>q_filters := q_filters q @ [f]\<rparr>"
definition expander :: "pyval \<Rightarrow> query \<Rightarrow> query" where "expander e q = q\<lparr>q_expander := e\<rparr>"
definition dialect :: "pyval \<Rightarrow> query \<Rightarrow> query" where "dialect d q = q\<lparr>q_dialect := d\<rparr>"

definition SortbyField :: "pyval \<Rightarrow> bool \<Rightarrow> pyval list" where
  "SortbyField field asc = [field, PStr (if asc then ''ASC'' else ''DESC'')]"

definition sort_by :: "pyval \<Rightarrow> bool \<Rightarrow> query \<Rightarrow> query" where
  "sort_by field asc q = q\<lparr>q_sortby := SortbyField field asc\<rparr>"

text \<open>An exclusive bound is a text with an opening parenthesis; the second component is what \<open>str\<close> gives for the bound.\<close>

definition bound :: "pyval \<times> string \<Rightarrow> bool \<Rightarrow> pyval" where
  "bound b exclusive = (if exclusive then PStr (''('' @ snd b) else fst b)"

definition NumericFilter :: "pyval \<Rightarrow> pyval \<times> string \<Rightarrow> pyval \<times> string \<Rightarrow> bool \<Rightarrow> bool \<Rightarrow> qfilter" where
  "NumericFilter field minval maxval minExclusive maxExclusive =
     Filter [PStr ''FILTER'', field, bound minval minExclusive, bound maxval maxExclusive]"

definition GeoFilter :: "pyval \<Rightarrow> pyval \<Rightarrow> pyval \<Rightarrow> pyval \<Rightarrow> pyval \<Rightarrow> qfilter" where
  "GeoFilter field lon lat radius unit = Filter [PStr ''GEOFILTER'', field, lon, lat, radius, unit]"

definition filter_args :: "qfilter list \<Rightarrow> exc + pyval list" where
  "filter_args fs = map_sum id concat (mapE (\<lambda>f. case f of
     Filter args \<Rightarrow> Inr args | NotAFilter \<Rightarrow> Inl (Exc AttributeError ''Did not receive a Filter object.'')) fs)"

definition counted :: "string \<Rightarrow> pyval list \<Rightarrow> pyval list" where
  "counted word xs = (if xs = [] then [] else [PStr word, PInt (int (length xs))] @ xs)"

definition flag_arg :: "string \<Rightarrow> bool \<Rightarrow> pyval list" where
  "flag_arg word b = (if b then [PStr word] else [])"

definition truthy_arg :: "string \<Rightarrow> pyval \<Rightarrow> pyval list" where
  "truthy_arg word v = (if truthy v then [PStr word, v] else [])"

definition get_args_tags :: "query \<Rightarrow> exc + pyval list" where
  "get_args_tags q = bindE (filter_args (q_filters q)) (\<lambda>fs. Inr (
     flag_arg ''NOCONTENT'' (q_no_content q) @ counted ''INFIELDS'' (q_fields q) @ flag_arg ''VERBATIM'' (q_verbatim q) @
     flag_arg ''NOSTOPWORDS'' (q_no_stopwords q) @ fs @ flag_arg ''WITHPAYLOADS'' (q_with_payloads q) @
     truthy_arg ''SCORER'' (q_scorer q) @ flag_arg ''WITHSCORES'' (q_with_scores q) @ counted ''INKEYS'' (q_ids q) @
     (if 0 \<le> q_slop q then [PStr ''SLOP'', PInt (q_slop q)] else []) @
     (if q_timeout q \<noteq> PNone then [PStr ''TIMEOUT'', q_timeout q] else []) @ flag_arg ''INORDER'' (q_in_order q) @
     counted ''RETURN'' (q_return_fields q) @ (if q_sortby q \<noteq> [] then PStr ''SORTBY'' # q_sortby q else []) @
     truthy_arg ''LANGUAGE'' (q_language q) @ truthy_arg ''EXPANDER'' (q_expander q) @ truthy_arg ''DIALECT'' (q_dialect q)))"

definition query_args :: "query \<Rightarrow> exc + pyval list" where
  "query_args q = bindE (get_args_tags q) (\<lambda>tags.
     Inr ([q_string q] @ tags @ q_summarize_fields q @ q_highlight_fields q @ [PStr ''LIMIT'', q_offset q, q_num q]))"

section \<open>Reading a query string\<close>

text \<open>
  What encloses a part of a query string: parentheses, which nest, and the brackets and braces of values, in which
  nothing else counts. \<open>enter\<close> is the state after one more character.
\<close>

definition enter :: "nat \<Rightarrow> char option \<Rightarrow> char \<Rightarrow> (nat \<times> char option) option" where
  "enter d q c = (case q of
     Some z \<Rightarrow> Some (d, if c = z then None else Some z)
   | None \<Rightarrow> if c = CHR ''('' then Some (Suc d, None)
       else if c = CHR '')'' then (case d of 0 \<Rightarrow> None | Suc e \<Rightarrow> Some (e, None))
       else if c = CHR ''['' then Some (d, Some (CHR '']''))
       else if c = CHR ''{'' then Some (d, Some (CHR ''}''))
       else Some (d, None))"

fun enclosed :: "nat \<Rightarrow> char option \<Rightarrow> string \<Rightarrow> (nat \<times> char option) option" where
  "enclosed d q [] = Some (d, q)"
| "enclosed d q (c # cs) = (case enter d q c of None \<Rightarrow> None | Some (d', q') \<Rightarrow> enclosed d' q' cs)"

definition balanced :: "string \<Rightarrow> bool" where
  "balanced s \<longleftrightarrow> enclosed 0 None s = Some (0, None)"

text \<open>The parts between the separators that nothing encloses.\<close>

definition onto_first :: "char \<Rightarrow> string list \<Rightarrow> string list" where
  "onto_first c ps = (case ps of [] \<Rightarrow> [[c]] | p # ps \<Rightarrow> (c # p) # ps)"

fun split_top :: "char \<Rightarrow> nat \<Rightarrow> char option \<Rightarrow> string \<Rightarrow> string list option" where
  "split_top sep d q [] = (if d = 0 \<and> q = None then Some [[]] else None)"
| "split_top sep d q (c # cs) =
     (if d = 0 \<and> q = None \<and> c = sep then map_option (Cons []) (split_top sep 0 None cs)
      else case enter d q c of None \<Rightarrow> None | Some (d', q') \<Rightarrow> map_option (onto_first c) (split_top sep d' q' cs))"

text \<open>A text that no reader takes apart.\<close>

definition solid :: "string \<Rightarrow> bool" where
  "solid s \<longleftrightarrow> (\<forall>sep \<in> {CHR '' '', CHR ''|''}. split_top sep 0 None s = Some [s])"

fun leaves :: "qnode \<Rightarrow> string list" where
  "leaves (BaseNode s) = [s]"
| "leaves (QNode _ ns) = concat (map leaves ns)"

lemma split_top_append:
  "split_top sep d q s = Some ps \<Longrightarrow> split_top sep d q (s @ sep # t) = map_option ((@) ps) (split_top sep 0 None t)"
proof (induction sep d q s arbitrary: ps rule: split_top.induct)
  case (1 sep d q)
  then show ?case by (cases "split_top sep 0 None t") (auto split: if_splits)
next
  case (2 sep d q c cs)
  show ?case
  proof (cases "d = 0 \<and> q = None \<and> c = sep")
    case True
    with 2(3) obtain ps' where "split_top sep 0 None cs = Some ps'" "ps = [] # ps'" by auto
    with True 2(1) show ?thesis by (cases "split_top sep 0 None t") auto
  next
    case False
    with 2(3) obtain d' q' ps' where e: "enter d q c = Some (d', q')" "split_top sep d' q' cs = Some ps'" "ps = onto_first c ps'"
      by (auto split: option.splits prod.splits)
    then have "split_top sep d' q' (cs @ sep # t) = map_option ((@) ps') (split_top sep 0 None t)" using 2(2) False by blast
    moreover have "ps' \<noteq> []" using e(2)
      by (induction sep d' q' cs rule: split_top.induct) (auto split: if_splits option.splits simp: onto_first_def split: list.splits)
    ultimately show ?thesis using False e by (cases "split_top sep 0 None t"; cases ps') (auto simp: onto_first_def)
  qed
qed

lemma split_join:
  "\<forall>s \<in> set ss. split_top sep 0 None s = Some [s] \<Longrightarrow> ss \<noteq> [] \<Longrightarrow> split_top sep 0 None (join_with [sep] ss) = Some ss"
proof (induction "[sep]" ss rule: join_with.induct)
  case (3 v w ws)
  then show ?case using split_top_append [of sep 0 None v "[v]"] by simp
qed auto

lemma split_balanced:
  "split_top sep d q s = Some ps \<Longrightarrow> sep \<notin> set ''()[]{}'' \<Longrightarrow> enclosed d q s = Some (0, None)"
proof (induction sep d q s arbitrary: ps rule: split_top.induct)
  case (2 sep d q c cs)
  then show ?case by (auto simp: enter_def split: if_splits option.splits prod.splits nat.splits)
qed (auto split: if_splits)

lemma enclosed_no_split:
  "enclosed d q s = Some (d', q') \<Longrightarrow> split_top sep (Suc d) q (s @ t) = map_option (\<lambda>ps. foldr onto_first s ps) (split_top sep (Suc d') q' t)"
proof (induction d q s rule: enclosed.induct)
  case (1 d q)
  then show ?case by (cases "split_top sep (Suc d) q t") auto
next
  case (2 d q c cs)
  then obtain e p where e: "enter d q c = Some (e, p)" "enclosed e p cs = Some (d', q')" by (auto split: option.splits prod.splits)
  then have "enter (Suc d) q c = Some (Suc e, p)" by (auto simp: enter_def split: option.splits if_splits nat.splits)
  with 2(1) e show ?case by (auto simp: option.map_comp comp_def)
qed

lemma foldr_onto_first: "foldr onto_first s [p] = [s @ p]"
  by (induction s) (simp_all add: onto_first_def)

lemma solid_parens: "balanced s \<Longrightarrow> solid (''('' @ s @ '')'')"
proof -
  assume "balanced s"
  then have "split_top sep (Suc 0) None (s @ '')'') = Some [s @ '')'']" for sep
    using enclosed_no_split [of 0 None s 0 None sep "'')''"] by (simp add: balanced_def enter_def onto_first_def foldr_onto_first)
  then show ?thesis by (simp add: solid_def enter_def onto_first_def)
qed

lemma solid_sign: "solid s \<Longrightarrow> c \<in> set ''-~'' \<Longrightarrow> solid (c # s)"
  by (auto simp: solid_def enter_def onto_first_def)

lemma balanced_sign: "balanced s \<Longrightarrow> c \<in> set ''-~'' \<Longrightarrow> balanced (c # s)"
  by (auto simp: balanced_def enter_def)

lemma JOINSTR_cases: "JOINSTR k = [CHR '' ''] \<or> JOINSTR k = [CHR ''|'']"
  by (cases k) simp_all

lemma solid_join:
  assumes "\<forall>s \<in> set ss. solid s" "ss \<noteq> []"
  shows "split_top (hd (JOINSTR k)) 0 None (join_with (JOINSTR k) ss) = Some ss" "balanced (join_with (JOINSTR k) ss)"
proof -
  show split: "split_top (hd (JOINSTR k)) 0 None (join_with (JOINSTR k) ss) = Some ss"
    using JOINSTR_cases [of k] split_join [OF _ assms(2)] assms(1) unfolding solid_def by force
  then show "balanced (join_with (JOINSTR k) ss)"
    using JOINSTR_cases [of k] split_balanced unfolding balanced_def by force
qed

lemma solid_empty: "solid []"
  by (simp add: solid_def)

lemma node_solid: "\<forall>s \<in> set (leaves n). solid s \<Longrightarrow> solid (node_string None n)"
proof (induction n)
  case (QNode k ns)
  then have all: "\<forall>s \<in> set (map (node_string None) ns). solid s" by auto
  show ?case
  proof (cases ns)
    case Nil
    then show ?thesis by (cases k) (simp_all add: should_use_paren_def parens_def solid_empty solid_sign)
  next
    case (Cons m ms)
    show ?thesis
    proof (cases ms)
      case Nil
      then show ?thesis using Cons all by (cases k) (simp_all add: should_use_paren_def parens_def solid_sign)
    next
      case (Cons m' ms')
      then have "balanced (join_with (JOINSTR k) (map (node_string None) ns))" "1 < length ns"
        using solid_join(2) [OF all] \<open>ns = m # ms\<close> by simp_all
      then show ?thesis using solid_parens balanced_sign [of _ "CHR ''-''"] balanced_sign [of _ "CHR ''~''"]
        by (cases k) (fastforce simp: should_use_paren_def parens_def Let_def)+
    qed
  qed
qed simp

text \<open>A printed intersection or union is taken apart at its separators into exactly the texts of its conditions, and neither it nor any
  condition is taken apart inside another tree, when the texts at the leaves are not.\<close>

theorem query_string_regroups:
  assumes "\<forall>s \<in> set (leaves (QNode k ns)). solid s" "ns \<noteq> []"
  shows "split_top (hd (JOINSTR k)) 0 None (join_with (JOINSTR k) (map (node_string None) ns)) = Some (map (node_string None) ns) \<and>
    (k \<in> {IntersectNode, UnionNode} \<longrightarrow>
       node_string (Some False) (QNode k ns) = join_with (JOINSTR k) (map (node_string None) ns) \<and>
       node_string (Some True) (QNode k ns) = ''('' @ join_with (JOINSTR k) (map (node_string None) ns) @ '')'') \<and>
    solid (node_string None (QNode k ns))"
proof -
  have "\<forall>s \<in> set (map (node_string None) ns). solid s" using assms(1) node_solid by auto
  moreover have "map (node_string None) ns \<noteq> []" using assms(2) by simp
  ultimately have "split_top (hd (JOINSTR k)) 0 None (join_with (JOINSTR k) (map (node_string None) ns)) = Some (map (node_string None) ns)"
    by (rule solid_join(1))
  moreover have "solid (node_string None (QNode k ns))" by (rule node_solid [OF assms(1)])
  ultimately show ?thesis by (auto simp: should_use_paren_def parens_def)
qed

text \<open>A negation or an option with several conditions prints like one of the first condition only, joined with the others:
  \<open>disjunct(a, b)\<close> is the text of "not a, and b".\<close>

theorem negation_reaches_first_condition_only:
  "node_string None (QNode DisjunctNode (a # b # ns)) = node_string None (QNode IntersectNode (QNode DisjunctNode [a] # b # ns)) \<and>
   node_string None (QNode DistjunctUnion (a # b # ns)) = node_string None (QNode UnionNode (QNode DistjunctUnion [a] # b # ns)) \<and>
   node_string None (QNode OptionalNode (a # b # ns)) = node_string None (QNode IntersectNode (QNode OptionalNode [a] # b # ns))"
  by (simp add: should_use_paren_def parens_def)

section \<open>Reading the arguments of a query\<close>

definition fixed_arity :: "(string \<times> nat) list" where
  "fixed_arity = map (\<lambda>w. (w, 0)) [''NOCONTENT'', ''VERBATIM'', ''NOSTOPWORDS'', ''WITHPAYLOADS'', ''WITHSCORES'', ''INORDER'', ''SUMMARIZE'', ''HIGHLIGHT''] @
     map (\<lambda>w. (w, 1)) [''SCORER'', ''SLOP'', ''TIMEOUT'', ''LANGUAGE'', ''EXPANDER'', ''DIALECT'', ''LEN'', ''FRAGS'', ''SEPARATOR''] @
     [(''SORTBY'', 2), (''LIMIT'', 2), (''TAGS'', 2), (''FILTER'', 3), (''GEOFILTER'', 5)]"

definition search_arity :: "string \<Rightarrow> pyval list \<Rightarrow> nat option" where
  "search_arity w rest =
     (if w \<in> {''INFIELDS'', ''INKEYS'', ''RETURN'', ''FIELDS''} then counted_arity rest else map_of fixed_arity w)"

interpretation search: grammar search_arity
proof
  show "search_arity w xs = Some (length xs) \<Longrightarrow> search_arity w (xs @ ys) = Some (length xs)" for w xs ys
    by (cases xs) (auto simp: search_arity_def split: if_splits)
qed

definition filter_part :: "qfilter \<Rightarrow> part" where
  "filter_part f = (case f of Filter (PStr w # xs) \<Rightarrow> (w, xs) | _ \<Rightarrow> ([], []))"

definition proper_filter :: "qfilter \<Rightarrow> bool" where
  "proper_filter f \<longleftrightarrow> (\<exists>w xs. f = Filter (PStr w # xs) \<and> search.complete (w, xs))"

definition flag_part :: "string \<Rightarrow> bool \<Rightarrow> part list" where "flag_part w b = (if b then [(w, [])] else [])"
definition counted_part :: "string \<Rightarrow> pyval list \<Rightarrow> part list" where
  "counted_part w xs = (if xs = [] then [] else [(w, PInt (int (length xs)) # xs)])"
definition one_part :: "bool \<Rightarrow> string \<Rightarrow> pyval \<Rightarrow> part list" where "one_part b w v = (if b then [(w, [v])] else [])"

text \<open>The parts of a query, with those of its summary and highlighting.\<close>

definition query_parts :: "query \<Rightarrow> part list \<Rightarrow> part list \<Rightarrow> part list" where
  "query_parts q sp hp =
     flag_part ''NOCONTENT'' (q_no_content q) @ counted_part ''INFIELDS'' (q_fields q) @ flag_part ''VERBATIM'' (q_verbatim q) @
     flag_part ''NOSTOPWORDS'' (q_no_stopwords q) @ map filter_part (q_filters q) @ flag_part ''WITHPAYLOADS'' (q_with_payloads q) @
     one_part (truthy (q_scorer q)) ''SCORER'' (q_scorer q) @ flag_part ''WITHSCORES'' (q_with_scores q) @ counted_part ''INKEYS'' (q_ids q) @
     one_part (0 \<le> q_slop q) ''SLOP'' (PInt (q_slop q)) @ one_part (q_timeout q \<noteq> PNone) ''TIMEOUT'' (q_timeout q) @
     flag_part ''INORDER'' (q_in_order q) @ counted_part ''RETURN'' (q_return_fields q) @
     (if q_sortby q = [] then [] else [(''SORTBY'', q_sortby q)]) @ one_part (truthy (q_language q)) ''LANGUAGE'' (q_language q) @
     one_part (truthy (q_expander q)) ''EXPANDER'' (q_expander q) @ one_part (truthy (q_dialect q)) ''DIALECT'' (q_dialect q) @
     sp @ hp @ [(''LIMIT'', [q_offset q, q_num q])]"

text \<open>Queries built with the methods of \<open>Query\<close>, filters with the two classes of filters, tags as a pair.\<close>

inductive built_query :: "query \<Rightarrow> bool" where
  new: "built_query (new_query s)"
| ids: "built_query q \<Longrightarrow> built_query (limit_ids xs q)"
| return: "built_query q \<Longrightarrow> built_query (return_field f a dec enc q)"
| summarizes: "built_query q \<Longrightarrow> summarize fs c n sep q = Inr q' \<Longrightarrow> built_query q'"
| highlights: "built_query q \<Longrightarrow> highlight fs tags q = Inr q' \<Longrightarrow> \<not> truthy tags \<or> (\<exists>a b. tags = PList [a, b]) \<Longrightarrow> built_query q'"
| settings: "built_query q \<Longrightarrow> f \<in> {language v, slop n, query_timeout v, in_order, scorer v, paging v w, verbatim, no_content, no_stopwords,
     with_payloads, with_scores, limit_fields xs, sort_by v b, expander v, dialect v} \<Longrightarrow> built_query (f q)"
| numeric: "built_query q \<Longrightarrow> built_query (add_filter (NumericFilter v lo hi el eh) q)"
| geo: "built_query q \<Longrightarrow> built_query (add_filter (GeoFilter v lon lat r u) q)"

text \<open>What every method keeps.\<close>

definition well_built :: "query \<Rightarrow> bool" where
  "well_built q \<longleftrightarrow> list_all proper_filter (q_filters q) \<and> (q_sortby q = [] \<or> length (q_sortby q) = 2) \<and>
     (\<exists>sp. q_summarize_fields q = flatten sp \<and> list_all search.complete sp) \<and>
     (\<exists>hp. q_highlight_fields q = flatten hp \<and> list_all search.complete hp)"

lemma complete_simps [simp]:
  "search.complete (''SORTBY'', xs) \<longleftrightarrow> length xs = 2" "search.complete (''LIMIT'', xs) \<longleftrightarrow> length xs = 2"
  "search.complete (''TAGS'', xs) \<longleftrightarrow> length xs = 2" "search.complete (''FILTER'', xs) \<longleftrightarrow> length xs = 3"
  "search.complete (''GEOFILTER'', xs) \<longleftrightarrow> length xs = 5" "search.complete (''SUMMARIZE'', xs) \<longleftrightarrow> xs = []"
  "search.complete (''HIGHLIGHT'', xs) \<longleftrightarrow> xs = []" "search.complete (''LEN'', xs) \<longleftrightarrow> length xs = 1"
  "search.complete (''FRAGS'', xs) \<longleftrightarrow> length xs = 1" "search.complete (''SEPARATOR'', xs) \<longleftrightarrow> length xs = 1"
  "search.complete (''FIELDS'', v # xs) \<longleftrightarrow> count_of v = Some (length xs)"
  by (auto simp: search.complete_def search_arity_def fixed_arity_def)

lemma field_section_parts: "\<exists>ps. field_section xs = flatten ps \<and> list_all search.complete ps"
proof (cases "xs = []")
  case True
  then show ?thesis by (intro exI [of _ "[]"]) (simp add: field_section_def)
next
  case False
  then show ?thesis
    by (intro exI [of _ "[(''FIELDS'', PStr (dec_nat (length xs)) # xs)]"]) (simp add: field_section_def)
qed

lemma built_query_well_built: "built_query q \<Longrightarrow> well_built q"
proof (induction rule: built_query.induct)
  case (summarizes q fs c n sep q')
  obtain xs where q': "q' = q\<lparr>q_summarize_fields := [PStr ''SUMMARIZE''] @ field_section xs @
       (case c of Some n \<Rightarrow> [PStr ''LEN'', PStr n] | None \<Rightarrow> []) @ (case n of Some n \<Rightarrow> [PStr ''FRAGS'', PStr n] | None \<Rightarrow> []) @
       (if sep \<noteq> PNone then [PStr ''SEPARATOR'', sep] else [])\<rparr>"
    using summarizes.hyps(2) by (auto simp: summarize_def bindE_eq_Inr)
  obtain ps where ps: "field_section xs = flatten ps" "list_all search.complete ps" using field_section_parts by blast
  let ?sp = "(''SUMMARIZE'', []) # ps @ (case c of Some n \<Rightarrow> [(''LEN'', [PStr n])] | None \<Rightarrow> []) @
      (case n of Some n \<Rightarrow> [(''FRAGS'', [PStr n])] | None \<Rightarrow> []) @ (if sep \<noteq> PNone then [(''SEPARATOR'', [sep])] else [])"
  have "q_summarize_fields q' = flatten ?sp" "list_all search.complete ?sp"
    using ps by (auto simp: q' split: option.splits)
  moreover have "q_filters q' = q_filters q" "q_sortby q' = q_sortby q" "q_highlight_fields q' = q_highlight_fields q" by (simp_all add: q')
  ultimately show ?case using summarizes.IH unfolding well_built_def
    by metis
next
  case (highlights q fs tags q')
  obtain xs ts where q': "Inr (q\<lparr>q_highlight_fields := [PStr ''HIGHLIGHT''] @ field_section xs @ ts\<rparr>) = (Inr q' :: exc + query)"
      and t: "(if truthy tags then bindE (py_iter tags) (\<lambda>ts. Inr (PStr ''TAGS'' # ts)) else Inr []) = Inr ts"
    using highlights.hyps(2) unfolding highlight_def bindE_eq_Inr by blast
  have ts: "ts = [] \<or> (\<exists>a b. ts = [PStr ''TAGS'', a, b])"
  proof (cases "truthy tags")
    case True
    then obtain a b where "tags = PList [a, b]" using highlights.hyps(3) by blast
    with t True show ?thesis by (auto simp: py_iter_def)
  qed (use t in simp)
  obtain ps where ps: "field_section xs = flatten ps" "list_all search.complete ps" using field_section_parts by blast
  let ?hp = "(''HIGHLIGHT'', []) # ps @ (case ts of [] \<Rightarrow> [] | _ # rest \<Rightarrow> [(''TAGS'', rest)])"
  have "q_highlight_fields q' = flatten ?hp" "list_all search.complete ?hp"
    using ps ts q' by auto
  moreover have "q_filters q' = q_filters q" "q_sortby q' = q_sortby q" "q_summarize_fields q' = q_summarize_fields q" using q' by auto
  ultimately show ?case using highlights.IH unfolding well_built_def by metis
next
  case (settings q f)
  then have "q_filters (f q) = q_filters q" "q_summarize_fields (f q) = q_summarize_fields q" "q_highlight_fields (f q) = q_highlight_fields q"
      "q_sortby (f q) = q_sortby q \<or> length (q_sortby (f q)) = 2"
    by (auto simp: language_def slop_def query_timeout_def in_order_def scorer_def paging_def verbatim_def no_content_def
        no_stopwords_def with_payloads_def with_scores_def limit_fields_def sort_by_def SortbyField_def expander_def dialect_def)
  with settings.IH show ?case unfolding well_built_def by metis
qed (auto simp: well_built_def new_query_def limit_ids_def return_field_def add_filter_def NumericFilter_def GeoFilter_def
    proper_filter_def intro: exI [of _ "[]"])

lemma filter_args_parts:
  "list_all proper_filter fs \<Longrightarrow> filter_args fs = Inr (flatten (map filter_part fs)) \<and> list_all search.complete (map filter_part fs)"
proof (induction fs)
  case (Cons f fs)
  obtain w xs where f: "f = Filter (PStr w # xs)" "search.complete (w, xs)" using Cons.prems by (auto simp: proper_filter_def)
  with Cons show ?case
    by (cases "mapE (\<lambda>f. case f of Filter args \<Rightarrow> Inr args | NotAFilter \<Rightarrow> Inl (Exc AttributeError ''Did not receive a Filter object.'')) fs")
      (auto simp: filter_args_def filter_part_def)
qed (simp add: filter_args_def)

lemma option_parts [simp]:
  "flatten (flag_part w b) = flag_arg w b" "flatten (counted_part w xs) = counted w xs"
  "flatten (one_part b w v) = (if b then [PStr w, v] else [])"
  by (simp_all add: flag_part_def flag_arg_def counted_part_def counted_def one_part_def)

lemma option_parts_complete:
  "search_arity w [] = Some 0 \<Longrightarrow> list_all search.complete (flag_part w b)"
  "w \<in> {''INFIELDS'', ''INKEYS'', ''RETURN''} \<Longrightarrow> list_all search.complete (counted_part w xs)"
  "search_arity w [v] = Some 1 \<Longrightarrow> list_all search.complete (one_part b w v)"
  by (auto simp: flag_part_def counted_part_def one_part_def search.complete_def search_arity_def)

text \<open>C21: The arguments of a query built with its methods are read back, by the arities of FT.SEARCH, as exactly the options that were
  set, each with its own arguments, and the page, whatever texts the arguments are.\<close>

theorem query_is_read_back:
  assumes "built_query q"
  shows "\<exists>sp hp. query_args q = Inr (q_string q # flatten (query_parts q sp hp)) \<and>
    read_sections search_arity (flatten (query_parts q sp hp)) = Some (query_parts q sp hp) \<and>
    q_summarize_fields q = flatten sp \<and> q_highlight_fields q = flatten hp"
proof -
  obtain sp hp where b: "list_all proper_filter (q_filters q)" "q_sortby q = [] \<or> length (q_sortby q) = 2"
      "q_summarize_fields q = flatten sp" "list_all search.complete sp" "q_highlight_fields q = flatten hp" "list_all search.complete hp"
    using built_query_well_built [OF assms] unfolding well_built_def by blast
  have "list_all search.complete (query_parts q sp hp)"
    using b filter_args_parts [OF b(1)]
    by (auto simp: query_parts_def option_parts_complete search_arity_def fixed_arity_def)
  then have "read_sections search_arity (flatten (query_parts q sp hp)) = Some (query_parts q sp hp)" by (rule search.read_flatten)
  moreover have "query_args q = Inr (q_string q # flatten (query_parts q sp hp))"
    using b filter_args_parts [OF b(1)]
    by (simp add: query_args_def get_args_tags_def query_parts_def truthy_arg_def)
  ultimately show ?thesis using b by blast
qed

section \<open>Examples\<close>

lemma query_string_regroups_witness:
  "split_top (CHR '' '') 0 None ''@n:[(1 5] (red|blue)'' = Some [''@n:[(1 5]'', ''(red|blue)'']"
  using query_string_regroups [of IntersectNode "[BaseNode ''@n:[(1 5]'', QNode UnionNode [BaseNode ''red'', BaseNode ''blue'']]"]
  by (simp add: solid_def enter_def onto_first_def should_use_paren_def parens_def)

definition example_query :: query where
  "example_query = return_field (PStr ''LIMIT'') (PStr ''AS'') True PNone (new_query (PStr ''*''))"

lemma query_is_read_back_witness:
  "\<exists>sp hp. query_args example_query = Inr (q_string example_query # flatten (query_parts example_query sp hp)) \<and>
     read_sections search_arity (flatten (query_parts example_query sp hp)) = Some (query_parts example_query sp hp)"
proof -
  have "built_query example_query" unfolding example_query_def by (intro built_query.intros)
  from query_is_read_back [OF this] show ?thesis by blast
qed

end
