(* ===== verification/SearchAggregate.thy ===== *)
theory SearchAggregate
  imports Sections
begin

text \<open>
  Aggregations of the search module: reducers (\<open>commands/search/reducers.py\<close>), the request with its plan of steps and the cursor
  (\<open>aggregation.py\<close>). A request that was put together step by step is read back, by the arities of FT.AGGREGATE, as these steps in
  their order.
\<close>

section \<open>Reducers\<close>

text \<open>A reducer has a name for the server, arguments, the field it works on when it is on one, and an alias.\<close>

record reducer =
  rd_name :: string
  rd_args :: "pyval list"
  rd_field :: "string option"
  rd_alias :: pyval

definition Reducer :: "string \<Rightarrow> pyval list \<Rightarrow> reducer" where
  "Reducer name args = \<lparr>rd_name = name, rd_args = args, rd_field = None, rd_alias = PNone\<rparr>"

definition FieldOnlyReducer :: "string \<Rightarrow> string \<Rightarrow> reducer" where
  "FieldOnlyReducer name field = (Reducer name [PStr field])\<lparr>rd_field := Some field\<rparr>"

text \<open>\<open>alias(FIELDNAME)\<close> drops the \<open>@\<close> of the field.\<close>

datatype alias_arg = FIELDNAME | Alias pyval

definition set_alias :: "alias_arg \<Rightarrow> reducer \<Rightarrow> exc + reducer" where
  "set_alias a r = (case a of
     Alias v \<Rightarrow> Inr (r\<lparr>rd_alias := v\<rparr>)
   | FIELDNAME \<Rightarrow> (case rd_field r of
       Some (c # field) \<Rightarrow> Inr (r\<lparr>rd_alias := PStr field\<rparr>)
     | _ \<Rightarrow> Inl (Exc ValueError ''Cannot use FIELDNAME alias with no field'')))"

datatype direction = Asc pyval | Desc pyval

definition direction_args :: "direction \<Rightarrow> pyval list" where
  "direction_args d = (case d of Asc f \<Rightarrow> [f, PStr ''ASC''] | Desc f \<Rightarrow> [f, PStr ''DESC''])"

definition count_reducer :: reducer where "count_reducer = Reducer ''COUNT'' []"
definition sum_reducer :: "string \<Rightarrow> reducer" where "sum_reducer field = FieldOnlyReducer ''SUM'' field"
definition min_reducer :: "string \<Rightarrow> reducer" where "min_reducer field = FieldOnlyReducer ''MIN'' field"
definition max_reducer :: "string \<Rightarrow> reducer" where "max_reducer field = FieldOnlyReducer ''MAX'' field"
definition avg :: "string \<Rightarrow> reducer" where "avg field = FieldOnlyReducer ''AVG'' field"
definition tolist :: "string \<Rightarrow> reducer" where "tolist field = FieldOnlyReducer ''TOLIST'' field"
definition count_distinct :: "string \<Rightarrow> reducer" where "count_distinct field = FieldOnlyReducer ''COUNT_DISTINCT'' field"
definition count_distinctish :: "string \<Rightarrow> reducer" where "count_distinctish field = FieldOnlyReducer ''COUNT_DISTINCTISH'' field"
definition stddev :: "string \<Rightarrow> reducer" where "stddev field = FieldOnlyReducer ''STDDEV'' field"

text \<open>Percentages and sizes are what \<open>str\<close> gives for them.\<close>

definition quantile :: "string \<Rightarrow> string \<Rightarrow> reducer" where
  "quantile field pct = (Reducer ''QUANTILE'' [PStr field, PStr pct])\<lparr>rd_field := Some field\<rparr>"

definition random_sample :: "string \<Rightarrow> string \<Rightarrow> reducer" where
  "random_sample field size' = (Reducer ''RANDOM_SAMPLE'' [PStr field, PStr size'])\<lparr>rd_field := Some field\<rparr>"

text \<open>The orders of \<open>first_value\<close>: directions of fields, or the bare class \<open>Asc\<close> or \<open>Desc\<close>, which is of the field itself.\<close>

datatype byfields = ByClass "pyval \<Rightarrow> direction" | ByFields "direction list"

definition first_value :: "string \<Rightarrow> byfields \<Rightarrow> reducer" where
  "first_value field byfields =
     (let ds = (case byfields of ByClass d \<Rightarrow> [d (PStr field)] | ByFields ds \<Rightarrow> ds);
          strs = concat (map direction_args ds)
      in (Reducer ''FIRST_VALUE'' (PStr field # (if strs \<noteq> [] then PStr ''BY'' # strs else [])))\<lparr>rd_field := Some field\<rparr>)"

section \<open>Requests\<close>

record request =
  ag_query :: pyval
  ag_plan :: "pyval list"
  ag_loadfields :: "pyval list"
  ag_loadall :: bool
  ag_with_schema :: bool
  ag_verbatim :: bool
  ag_cursor :: "pyval list"
  ag_dialect :: pyval
  ag_add_scores :: bool

definition AggregateRequest :: "pyval \<Rightarrow> request" where
  "AggregateRequest q = \<lparr>ag_query = q, ag_plan = [], ag_loadfields = [], ag_loadall = False, ag_with_schema = False,
     ag_verbatim = False, ag_cursor = [], ag_dialect = PNone, ag_add_scores = False\<rparr>"

definition extend_plan :: "pyval list \<Rightarrow> request \<Rightarrow> request" where
  "extend_plan xs a = a\<lparr>ag_plan := ag_plan a @ xs\<rparr>"

definition load :: "pyval list \<Rightarrow> request \<Rightarrow> request" where
  "load names a = (if names \<noteq> [] then a\<lparr>ag_loadfields := ag_loadfields a @ names\<rparr> else a\<lparr>ag_loadall := True\<rparr>)"

definition reduce_args :: "reducer \<Rightarrow> pyval list" where
  "reduce_args r = [PStr ''REDUCE'', PStr (rd_name r), PStr (dec_nat (length (rd_args r)))] @ rd_args r @
     (if rd_alias r \<noteq> PNone then [PStr ''AS'', rd_alias r] else [])"

text \<open>A single field is a list of one; reducers are passed one by one.\<close>

definition group_by :: "pyval list \<Rightarrow> reducer list \<Rightarrow> request \<Rightarrow> request" where
  "group_by names reducers = extend_plan ([PStr ''GROUPBY'', PStr (dec_nat (length names))] @ names @ concat (map reduce_args reducers))"

definition apply_exprs :: "(string \<times> pyval) list \<Rightarrow> request \<Rightarrow> request" where
  "apply_exprs kwexpr = extend_plan (concat (map (\<lambda>(alias, expr). [PStr ''APPLY'', expr, PStr ''AS'', PStr alias]) kwexpr))"

definition Limit_args :: "int \<Rightarrow> int \<Rightarrow> pyval list" where
  "Limit_args offset count' = (if count' \<noteq> 0 then [PStr ''LIMIT'', PStr (dec_int offset), PStr (dec_int count')] else [])"

definition limit :: "int \<Rightarrow> int \<Rightarrow> request \<Rightarrow> request" where
  "limit offset num = extend_plan (Limit_args offset num)"

datatype sort_field = Plain pyval | Directed direction

definition sort_args :: "sort_field list \<Rightarrow> pyval list" where
  "sort_args fs = concat (map (\<lambda>f. case f of Plain v \<Rightarrow> [v] | Directed d \<Rightarrow> direction_args d) fs)"

definition sort_by_fields :: "sort_field list \<Rightarrow> int \<Rightarrow> request \<Rightarrow> request" where
  "sort_by_fields fs max_arg = extend_plan ([PStr ''SORTBY'', PStr (dec_nat (length (sort_args fs)))] @ sort_args fs @
     (if 0 < max_arg then [PStr ''MAX'', PStr (dec_int max_arg)] else []))"

definition filter_exprs :: "pyval list \<Rightarrow> request \<Rightarrow> request" where
  "filter_exprs expressions = extend_plan (concat (map (\<lambda>e. [PStr ''FILTER'', e]) expressions))"

definition with_schema :: "request \<Rightarrow> request" where "with_schema a = a\<lparr>ag_with_schema := True\<rparr>"
definition add_scores :: "request \<Rightarrow> request" where "add_scores a = a\<lparr>ag_add_scores := True\<rparr>"
definition agg_verbatim :: "request \<Rightarrow> request" where "agg_verbatim a = a\<lparr>ag_verbatim := True\<rparr>"
definition agg_dialect :: "pyval \<Rightarrow> request \<Rightarrow> request" where "agg_dialect d a = a\<lparr>ag_dialect := d\<rparr>"

text \<open>The idle time in milliseconds is what \<open>str\<close> gives for it, \<open>None\<close> when the time is zero.\<close>

definition with_cursor :: "int \<Rightarrow> string option \<Rightarrow> request \<Rightarrow> request" where
  "with_cursor count' max_idle a = a\<lparr>ag_cursor := [PStr ''WITHCURSOR''] @ (if count' \<noteq> 0 then [PStr ''COUNT'', PStr (dec_int count')] else []) @
     (case max_idle of Some t \<Rightarrow> [PStr ''MAXIDLE'', PStr t] | None \<Rightarrow> [])\<rparr>"

definition build_args :: "request \<Rightarrow> pyval list" where
  "build_args a = [ag_query a] @ (if ag_with_schema a then [PStr ''WITHSCHEMA''] else []) @ (if ag_verbatim a then [PStr ''VERBATIM''] else []) @
     (if ag_add_scores a then [PStr ''ADDSCORES''] else []) @ ag_cursor a @
     (if ag_loadall a then [PStr ''LOAD'', PStr ''*'']
      else if ag_loadfields a \<noteq> [] then [PStr ''LOAD'', PStr (dec_nat (length (ag_loadfields a)))] @ ag_loadfields a else []) @
     (if truthy (ag_dialect a) then [PStr ''DIALECT'', ag_dialect a] else []) @ ag_plan a"

record cursor =
  cu_id :: pyval
  cu_max_idle :: int
  cu_count :: int

definition Cursor :: "pyval \<Rightarrow> cursor" where
  "Cursor cid = \<lparr>cu_id = cid, cu_max_idle = 0, cu_count = 0\<rparr>"

definition cursor_args :: "(pyval \<Rightarrow> string) \<Rightarrow> cursor \<Rightarrow> pyval list" where
  "cursor_args str c = [PStr (str (cu_id c))] @ (if cu_max_idle c \<noteq> 0 then [PStr ''MAXIDLE'', PStr (dec_int (cu_max_idle c))] else []) @
     (if cu_count c \<noteq> 0 then [PStr ''COUNT'', PStr (dec_int (cu_count c))] else [])"

section \<open>Reading a request\<close>

definition agg_fixed :: "(string \<times> nat) list" where
  "agg_fixed = [(''WITHSCHEMA'', 0), (''VERBATIM'', 0), (''ADDSCORES'', 0), (''WITHCURSOR'', 0), (''COUNT'', 1), (''MAXIDLE'', 1), (''DIALECT'', 1),
     (''AS'', 1), (''APPLY'', 1), (''LIMIT'', 2), (''MAX'', 1), (''FILTER'', 1)]"

definition load_arity :: "pyval list \<Rightarrow> nat option" where
  "load_arity rest = (case rest of [] \<Rightarrow> None | v # _ \<Rightarrow> if v = PStr ''*'' then Some 1 else counted_arity rest)"

definition reduce_arity :: "pyval list \<Rightarrow> nat option" where
  "reduce_arity rest = (case rest of _ # n # _ \<Rightarrow> map_option (\<lambda>n. n + 2) (count_of n) | _ \<Rightarrow> None)"

definition aggregate_arity :: "string \<Rightarrow> pyval list \<Rightarrow> nat option" where
  "aggregate_arity w rest =
     (if w = ''GROUPBY'' \<or> w = ''SORTBY'' then counted_arity rest
      else if w = ''LOAD'' then load_arity rest
      else if w = ''REDUCE'' then reduce_arity rest
      else map_of agg_fixed w)"

lemma arity_append:
  "counted_arity xs = Some n \<Longrightarrow> counted_arity (xs @ ys) = Some n" "load_arity xs = Some n \<Longrightarrow> load_arity (xs @ ys) = Some n"
  "reduce_arity xs = Some n \<Longrightarrow> reduce_arity (xs @ ys) = Some n"
  by (auto simp: counted_arity_def load_arity_def reduce_arity_def split: list.splits)

interpretation agg: grammar aggregate_arity
proof
  show "aggregate_arity w xs = Some (length xs) \<Longrightarrow> aggregate_arity w (xs @ ys) = Some (length xs)" for w xs ys
    unfolding aggregate_arity_def by (auto simp: arity_append split: if_splits)
qed

text \<open>The steps of a plan, the calls that make them, and what a server reads for each.\<close>

datatype step =
    GroupBy "pyval list" "reducer list"
  | Apply "(string \<times> pyval) list"
  | LimitTo int int
  | SortBy "sort_field list" int
  | FilterBy "pyval list"

definition take_step :: "step \<Rightarrow> request \<Rightarrow> request" where
  "take_step s = (case s of GroupBy names rs \<Rightarrow> group_by names rs | Apply es \<Rightarrow> apply_exprs es | LimitTo o' n \<Rightarrow> limit o' n
     | SortBy fs m \<Rightarrow> sort_by_fields fs m | FilterBy es \<Rightarrow> filter_exprs es)"

definition reducer_parts :: "reducer \<Rightarrow> part list" where
  "reducer_parts r = (''REDUCE'', PStr (rd_name r) # PStr (dec_nat (length (rd_args r))) # rd_args r) #
     (if rd_alias r \<noteq> PNone then [(''AS'', [rd_alias r])] else [])"

definition step_parts :: "step \<Rightarrow> part list" where
  "step_parts s = (case s of
     GroupBy names rs \<Rightarrow> (''GROUPBY'', PStr (dec_nat (length names)) # names) # concat (map reducer_parts rs)
   | Apply es \<Rightarrow> concat (map (\<lambda>(alias, e). [(''APPLY'', [e]), (''AS'', [PStr alias])]) es)
   | LimitTo o' n \<Rightarrow> if n = 0 then [] else [(''LIMIT'', [PStr (dec_int o'), PStr (dec_int n)])]
   | SortBy fs m \<Rightarrow> (''SORTBY'', PStr (dec_nat (length (sort_args fs))) # sort_args fs) # (if 0 < m then [(''MAX'', [PStr (dec_int m)])] else [])
   | FilterBy es \<Rightarrow> map (\<lambda>e. (''FILTER'', [e])) es)"

lemma agg_complete [simp]:
  "agg.complete (''GROUPBY'', v # xs) \<longleftrightarrow> count_of v = Some (length xs)" "agg.complete (''SORTBY'', v # xs) \<longleftrightarrow> count_of v = Some (length xs)"
  "agg.complete (''REDUCE'', x # v # xs) \<longleftrightarrow> count_of v = Some (length xs)" "agg.complete (''LIMIT'', xs) \<longleftrightarrow> length xs = 2"
  "agg.complete (''AS'', xs) \<longleftrightarrow> length xs = 1" "agg.complete (''APPLY'', xs) \<longleftrightarrow> length xs = 1" "agg.complete (''MAX'', xs) \<longleftrightarrow> length xs = 1"
  "agg.complete (''FILTER'', xs) \<longleftrightarrow> length xs = 1" "agg.complete (''DIALECT'', xs) \<longleftrightarrow> length xs = 1"
  "agg.complete (''WITHSCHEMA'', xs) \<longleftrightarrow> xs = []" "agg.complete (''VERBATIM'', xs) \<longleftrightarrow> xs = []" "agg.complete (''ADDSCORES'', xs) \<longleftrightarrow> xs = []"
  "agg.complete (''LOAD'', [PStr ''*''])" "dec_nat n \<noteq> ''*'' \<Longrightarrow> agg.complete (''LOAD'', PStr (dec_nat n) # xs) \<longleftrightarrow> n = length xs"
  by (auto simp: agg.complete_def aggregate_arity_def load_arity_def reduce_arity_def agg_fixed_def)

lemma flatten_concat: "flatten (concat (map f xs)) = concat (map (\<lambda>x. flatten (f x)) xs)"
  by (induction xs) simp_all

lemma extend_twice: "extend_plan ys (extend_plan xs a) = extend_plan (xs @ ys) a" "extend_plan [] a = a"
  by (simp_all add: extend_plan_def)

lemma step_extends: "take_step s a = extend_plan (flatten (step_parts s)) a"
proof (cases s)
  case (GroupBy names rs)
  have "concat (map reduce_args rs) = flatten (concat (map reducer_parts rs))" by (induction rs) (simp_all add: reducer_parts_def reduce_args_def)
  then show ?thesis using GroupBy by (simp add: take_step_def step_parts_def group_by_def)
next
  case (Apply es)
  then show ?thesis by (simp add: take_step_def step_parts_def apply_exprs_def flatten_concat split_def)
next
  case (FilterBy es)
  have "concat (map (\<lambda>e. [PStr ''FILTER'', e]) es) = flatten (map (\<lambda>e. (''FILTER'', [e])) es)" by (induction es) simp_all
  then show ?thesis using FilterBy by (simp add: take_step_def step_parts_def filter_exprs_def)
qed (simp_all add: take_step_def step_parts_def limit_def Limit_args_def sort_by_fields_def)

lemma steps_extend: "foldl (\<lambda>a s. take_step s a) a steps = extend_plan (flatten (concat (map step_parts steps))) a"
  by (induction steps arbitrary: a) (simp_all add: step_extends extend_twice)

lemma reducers_complete: "list_all agg.complete (concat (map reducer_parts rs))"
  by (induction rs) (simp_all add: reducer_parts_def)

lemma step_complete: "list_all agg.complete (step_parts s)"
proof (cases s)
  case (Apply es)
  have "list_all agg.complete (concat (map (\<lambda>(alias, e). [(''APPLY'', [e]), (''AS'', [PStr alias])]) es))" by (induction es) auto
  then show ?thesis using Apply by (simp add: step_parts_def)
next
  case (FilterBy es)
  then show ?thesis by (simp add: step_parts_def list_all_iff)
qed (simp_all add: step_parts_def reducers_complete)

lemma steps_complete: "list_all agg.complete (concat (map step_parts steps))"
  by (induction steps) (simp_all add: step_complete)

text \<open>The options of a request that are no steps.\<close>

definition head_parts :: "request \<Rightarrow> part list" where
  "head_parts a = (if ag_with_schema a then [(''WITHSCHEMA'', [])] else []) @ (if ag_verbatim a then [(''VERBATIM'', [])] else []) @
     (if ag_add_scores a then [(''ADDSCORES'', [])] else []) @
     (if ag_loadall a then [(''LOAD'', [PStr ''*''])]
      else if ag_loadfields a \<noteq> [] then [(''LOAD'', PStr (dec_nat (length (ag_loadfields a))) # ag_loadfields a)] else []) @
     (if truthy (ag_dialect a) then [(''DIALECT'', [ag_dialect a])] else [])"

lemma dec_nat_not_star: "dec_nat n \<noteq> ''*''"
  using dec_nat_digits [of "CHR ''*''" n] by (auto simp: is_digit_def)

text \<open>A request whose plan was made step by step is read back as its options followed by the parts of the steps in the order of the
  calls: every group has its own reducers, every reducer its own arguments and alias, whatever texts the arguments are.\<close>

theorem plan_is_read_back:
  assumes "ag_plan a = []" "ag_cursor a = []"
  shows "\<exists>rest. build_args (foldl (\<lambda>a s. take_step s a) a steps) = ag_query a # rest \<and>
    read_sections aggregate_arity rest = Some (head_parts a @ concat (map step_parts steps))"
proof -
  let ?ps = "head_parts a @ concat (map step_parts steps)"
  have "build_args (foldl (\<lambda>a s. take_step s a) a steps) = ag_query a # flatten ?ps"
    using assms by (simp add: steps_extend extend_plan_def build_args_def head_parts_def)
  moreover have "list_all agg.complete ?ps" using steps_complete by (simp add: head_parts_def dec_nat_not_star)
  then have "read_sections aggregate_arity (flatten ?ps) = Some ?ps" by (rule agg.read_flatten)
  ultimately show ?thesis by auto
qed

lemma plan_is_read_back_witness:
  "\<exists>rest. build_args (foldl (\<lambda>a s. take_step s a) (AggregateRequest (PStr ''*'')) [GroupBy [PStr ''REDUCE''] [sum_reducer ''@AS''], LimitTo 0 5]) = PStr ''*'' # rest \<and>
     read_sections aggregate_arity rest = Some [(''GROUPBY'', [PStr ''1'', PStr ''REDUCE'']), (''REDUCE'', [PStr ''SUM'', PStr ''1'', PStr ''@AS'']),
       (''LIMIT'', [PStr ''0'', PStr ''5''])]"
proof -
  have d: "dec_nat (Suc 0) = ''1''" "dec_nat 0 = ''0''" "dec_nat 5 = ''5''" by code_simp+
  show ?thesis
    using plan_is_read_back [of "AggregateRequest (PStr ''*'')" "[GroupBy [PStr ''REDUCE''] [sum_reducer ''@AS''], LimitTo 0 5]"]
    by (simp add: AggregateRequest_def head_parts_def step_parts_def reducer_parts_def sum_reducer_def FieldOnlyReducer_def Reducer_def dec_int_def d)
qed

end
