(* ===== verification/SearchCommands.thy ===== *)
theory SearchCommands
  imports SearchQuery SearchAggregate Callbacks
begin

text \<open>
  The commands of the search module (\<open>redis/commands/search/commands.py\<close>) with the fields of a schema (\<open>field.py\<close>), index definitions
  (\<open>indexDefinition.py\<close>), the batch indexer (\<open>__init__.py\<close>) and the parsers of the replies (\<open>result.py\<close>, \<open>document.py\<close>, \<open>suggestion.py\<close>,
  \<open>_util.py\<close> and two functions of \<open>commands/helpers.py\<close>). What \<open>bytes.decode\<close> does for an encoding is an argument.
\<close>

section \<open>Fields\<close>

record sfield =
  sf_name :: pyval
  sf_args :: "pyval list"
  sf_suffix :: "pyval list"
  sf_as :: pyval

record field_options =
  fo_sortable :: bool
  fo_no_index :: bool
  fo_index_missing :: bool
  fo_index_empty :: bool
  fo_as_name :: pyval

definition new_field :: "pyval \<Rightarrow> pyval list \<Rightarrow> field_options \<Rightarrow> exc + sfield" where
  "new_field name args k =
     (if fo_no_index k \<and> \<not> fo_sortable k then Inl (Exc ValueError ''Non-Sortable non-Indexable fields are ignored'')
      else Inr \<lparr>sf_name = name, sf_args = args,
        sf_suffix = flag_arg ''SORTABLE'' (fo_sortable k) @ flag_arg ''NOINDEX'' (fo_no_index k) @
          flag_arg ''INDEXMISSING'' (fo_index_missing k) @ flag_arg ''INDEXEMPTY'' (fo_index_empty k), sf_as = fo_as_name k\<rparr>)"

definition append_args :: "pyval list \<Rightarrow> sfield \<Rightarrow> sfield" where
  "append_args xs f = f\<lparr>sf_args := sf_args f @ xs\<rparr>"

definition redis_args :: "sfield \<Rightarrow> pyval list" where
  "redis_args f = [sf_name f] @ truthy_arg ''AS'' (sf_as f) @ sf_args f @ sf_suffix f"

definition TextField :: "pyval \<Rightarrow> pyval \<Rightarrow> bool \<Rightarrow> pyval \<Rightarrow> bool \<Rightarrow> field_options \<Rightarrow> exc + sfield" where
  "TextField name weight no_stem phonetic_matcher withsuffixtrie k =
     bindE (new_field name [PStr ''TEXT'', PStr ''WEIGHT'', weight] k) (\<lambda>f. Inr (append_args (
       flag_arg ''NOSTEM'' no_stem @
       (if phonetic_matcher \<in> {PStr ''dm:en'', PStr ''dm:fr'', PStr ''dm:pt'', PStr ''dm:es''} then [PStr ''PHONETIC'', phonetic_matcher] else []) @
       flag_arg ''WITHSUFFIXTRIE'' withsuffixtrie) f))"

definition NumericField :: "pyval \<Rightarrow> field_options \<Rightarrow> exc + sfield" where
  "NumericField name k = new_field name [PStr ''NUMERIC''] k"

definition GeoShapeField :: "pyval \<Rightarrow> pyval \<Rightarrow> field_options \<Rightarrow> exc + sfield" where
  "GeoShapeField name coord_system k = new_field name (PStr ''GEOSHAPE'' # (if truthy coord_system then [coord_system] else [])) k"

definition GeoField :: "pyval \<Rightarrow> field_options \<Rightarrow> exc + sfield" where
  "GeoField name k = new_field name [PStr ''GEO''] k"

definition TagField :: "pyval \<Rightarrow> pyval \<Rightarrow> bool \<Rightarrow> bool \<Rightarrow> field_options \<Rightarrow> exc + sfield" where
  "TagField name separator case_sensitive withsuffixtrie k =
     new_field name ([PStr ''TAG'', PStr ''SEPARATOR'', separator] @ flag_arg ''CASESENSITIVE'' case_sensitive @
       flag_arg ''WITHSUFFIXTRIE'' withsuffixtrie) k"

definition VectorField :: "pyval \<Rightarrow> string \<Rightarrow> (pyval \<times> pyval) list \<Rightarrow> field_options \<Rightarrow> exc + sfield" where
  "VectorField name algorithm attributes k =
     (if fo_sortable k \<or> fo_no_index k then Inl (Exc DataError (''Cannot set '' @ [CHR 39] @ ''sortable'' @ [CHR 39] @ '' or '' @ [CHR 39] @ ''no_index'' @ [CHR 39] @ '' in Vector fields.''))
      else if upper algorithm \<notin> {''FLAT'', ''HNSW''} then
        Inl (Exc DataError (''Realtime vector indexing supporting 2 Indexing Methods:'' @ [CHR 39] @ ''FLAT'' @ [CHR 39] @ '' and '' @ [CHR 39] @ ''HNSW'' @ [CHR 39] @ ''.''))
      else new_field name ([PStr ''VECTOR'', PStr algorithm, PInt (int (length (flat_pairs attributes)))] @ flat_pairs attributes) k)"

section \<open>Index definitions\<close>

datatype index_type = HASH | JSON | OtherIndex

text \<open>A prefix given as a single text is taken letter by letter.\<close>

definition IndexDefinition :: "pyval \<Rightarrow> pyval \<Rightarrow> pyval \<Rightarrow> pyval \<Rightarrow> pyval \<Rightarrow> pyval \<Rightarrow> pyval \<Rightarrow> index_type option \<Rightarrow> exc + pyval list" where
  "IndexDefinition prefix filter_arg language_field lang score_field score payload_field index_type =
     bindE (case index_type of None \<Rightarrow> Inr [] | Some HASH \<Rightarrow> Inr [PStr ''ON'', PStr ''HASH''] | Some JSON \<Rightarrow> Inr [PStr ''ON'', PStr ''JSON'']
       | Some OtherIndex \<Rightarrow> Inl (Exc RuntimeError ''index_type must be one of'')) (\<lambda>on.
     bindE (py_iter prefix) (\<lambda>ps. Inr (on @ counted ''PREFIX'' ps @
       (if filter_arg \<noteq> PNone then [PStr ''FILTER'', filter_arg] else []) @
       (if language_field \<noteq> PNone then [PStr ''LANGUAGE_FIELD'', language_field] else []) @
       (if lang \<noteq> PNone then [PStr ''LANGUAGE'', lang] else []) @
       (if score_field \<noteq> PNone then [PStr ''SCORE_FIELD'', score_field] else []) @
       (if score \<noteq> PNone then [PStr ''SCORE'', score] else []) @
       (if payload_field \<noteq> PNone then [PStr ''PAYLOAD_FIELD'', payload_field] else []))))"

section \<open>Commands\<close>

text \<open>The stopwords are \<open>None\<close> when they are no list, tuple or set; a schema is an iterable of fields or a single field.\<close>

datatype schema = ManyFields "sfield list" | OneField sfield

definition schema_args :: "schema \<Rightarrow> pyval list" where
  "schema_args s = (case s of ManyFields fs \<Rightarrow> concat (map redis_args fs) | OneField f \<Rightarrow> redis_args f)"

record index_options =
  io_no_term_offsets :: bool
  io_no_field_flags :: bool
  io_stopwords :: "pyval list option"
  io_definition :: "pyval list option"
  io_max_text_fields :: bool
  io_temporary :: pyval
  io_no_highlight :: bool
  io_no_term_frequencies :: bool
  io_skip_initial_scan :: bool

definition create_index_call :: "pyval \<Rightarrow> schema \<Rightarrow> index_options \<Rightarrow> call" where
  "create_index_call idx s k = call ([PStr ''FT.CREATE'', idx] @ (case io_definition k of None \<Rightarrow> [] | Some args \<Rightarrow> args) @
     flag_arg ''MAXTEXTFIELDS'' (io_max_text_fields k) @ (if is_int (io_temporary k) then [PStr ''TEMPORARY'', io_temporary k] else []) @
     flag_arg ''NOOFFSETS'' (io_no_term_offsets k) @ flag_arg ''NOHL'' (io_no_highlight k) @ flag_arg ''NOFIELDS'' (io_no_field_flags k) @
     flag_arg ''NOFREQS'' (io_no_term_frequencies k) @ flag_arg ''SKIPINITIALSCAN'' (io_skip_initial_scan k) @
     (case io_stopwords k of None \<Rightarrow> [] | Some ws \<Rightarrow> [PStr ''STOPWORDS'', PInt (int (length ws))] @ ws) @
     [PStr ''SCHEMA''] @ schema_args s) []"

definition alter_schema_add_call :: "pyval \<Rightarrow> schema \<Rightarrow> call" where
  "alter_schema_add_call idx s = call ([PStr ''FT.ALTER'', idx, PStr ''SCHEMA'', PStr ''ADD''] @ schema_args s) []"

definition dropindex_call :: "pyval \<Rightarrow> bool \<Rightarrow> call" where
  "dropindex_call idx delete_documents = call [PStr ''FT.DROPINDEX'', idx, PStr (if delete_documents then ''DD'' else [])] []"

record document_options =
  do_nosave :: bool
  do_score :: pyval
  do_payload :: pyval
  do_replace :: bool
  do_partial :: bool
  do_language :: pyval
  do_no_create :: bool

definition add_document_call :: "pyval \<Rightarrow> pyval \<Rightarrow> document_options \<Rightarrow> (string \<times> pyval) list \<Rightarrow> call" where
  "add_document_call idx doc_id k fs =
     (let replace' = do_replace k \<or> do_partial k \<or> do_no_create k in
      call ([PStr ''FT.ADD'', idx, doc_id, do_score k] @ flag_arg ''NOSAVE'' (do_nosave k) @
        (if do_payload k \<noteq> PNone then [PStr ''PAYLOAD'', do_payload k] else []) @
        (if replace' then [PStr ''REPLACE''] @ flag_arg ''PARTIAL'' (do_partial k) @ flag_arg ''NOCREATE'' (do_no_create k) else []) @
        truthy_arg ''LANGUAGE'' (do_language k) @ [PStr ''FIELDS''] @ concat (map (\<lambda>(f, v). [PStr f, v]) fs)) [])"

definition add_document_hash_call :: "pyval \<Rightarrow> pyval \<Rightarrow> pyval \<Rightarrow> pyval \<Rightarrow> bool \<Rightarrow> call" where
  "add_document_hash_call idx doc_id score lang replace' =
     call ([PStr ''FT.ADDHASH'', idx, doc_id, score] @ flag_arg ''REPLACE'' replace' @ truthy_arg ''LANGUAGE'' lang) []"

definition delete_document_call :: "pyval \<Rightarrow> pyval \<Rightarrow> bool \<Rightarrow> call" where
  "delete_document_call idx doc_id delete_actual_document = call ([PStr ''FT.DEL'', idx, doc_id] @ flag_arg ''DD'' delete_actual_document) []"

definition get_documents_call :: "pyval \<Rightarrow> pyval list \<Rightarrow> call" where
  "get_documents_call idx ids = call ([PStr ''FT.MGET'', idx] @ ids) []"

definition search_info_call :: "pyval \<Rightarrow> call" where
  "search_info_call idx = call [PStr ''FT.INFO'', idx] []"

definition get_params_args :: "(pyval \<times> pyval) list option \<Rightarrow> pyval list" where
  "get_params_args query_params = (case query_params of
     None \<Rightarrow> []
   | Some d \<Rightarrow> if 0 < length d then [PStr ''params'', PInt (int (length d) * 2)] @ flat_pairs d else [])"

datatype query_arg = TextQuery string | ObjectQuery query | AggregateQuery request | CursorQuery cursor | OtherQuery

definition mk_query_args :: "pyval \<Rightarrow> query_arg \<Rightarrow> (pyval \<times> pyval) list option \<Rightarrow> exc + (pyval list \<times> query)" where
  "mk_query_args idx q query_params =
     bindE (case q of TextQuery s \<Rightarrow> Inr (new_query (PStr s)) | ObjectQuery q \<Rightarrow> Inr q | _ \<Rightarrow> Inl (Exc ValueError ''Bad query type'')) (\<lambda>q.
     bindE (query_args q) (\<lambda>args. Inr ([idx] @ args @ get_params_args query_params, q)))"

definition search_call :: "bool \<Rightarrow> pyval \<Rightarrow> query_arg \<Rightarrow> (pyval \<times> pyval) list option \<Rightarrow> exc + call" where
  "search_call resp3 idx q query_params = bindE (mk_query_args idx q query_params) (\<lambda>(args, _).
     Inr (call (PStr ''FT.SEARCH'' # args) (if resp3 then [] else [(''NEVER_DECODE'', PBool True)])))"

definition explain_call :: "pyval \<Rightarrow> query_arg \<Rightarrow> (pyval \<times> pyval) list option \<Rightarrow> exc + call" where
  "explain_call idx q query_params = bindE (mk_query_args idx q query_params) (\<lambda>(args, _). Inr (call (PStr ''FT.EXPLAIN'' # args) []))"

definition explain_cli :: "exc + call" where
  "explain_cli = Inl (Exc NotImplementedError ''EXPLAINCLI will not be implemented.'')"

definition aggregate_call :: "(pyval \<Rightarrow> string) \<Rightarrow> pyval \<Rightarrow> query_arg \<Rightarrow> (pyval \<times> pyval) list option \<Rightarrow> exc + (call \<times> bool)" where
  "aggregate_call str idx q query_params =
     bindE (case q of
         AggregateQuery a \<Rightarrow> Inr ([PStr ''FT.AGGREGATE'', idx] @ build_args a, ag_cursor a \<noteq> [])
       | CursorQuery c \<Rightarrow> Inr ([PStr ''FT.CURSOR'', PStr ''READ'', idx] @ cursor_args str c, True)
       | _ \<Rightarrow> Inl (Exc ValueError ''Bad query'')) (\<lambda>(cmd, has_cursor).
       Inr (call (cmd @ get_params_args query_params) [], has_cursor))"

text \<open>The parameters of a query are sent with a profiled search, and dropped with a profiled aggregation.\<close>

definition profile_call :: "pyval \<Rightarrow> query_arg \<Rightarrow> bool \<Rightarrow> (pyval \<times> pyval) list option \<Rightarrow> exc + call" where
  "profile_call idx q limited query_params = (case q of
     AggregateQuery a \<Rightarrow> Inr (call ([PStr ''FT.PROFILE'', idx, PStr ''AGGREGATE''] @ flag_arg ''LIMITED'' limited @ [PStr ''QUERY''] @ build_args a) [])
   | ObjectQuery q \<Rightarrow> bindE (query_args q) (\<lambda>args.
       Inr (call ([PStr ''FT.PROFILE'', idx, PStr ''SEARCH''] @ flag_arg ''LIMITED'' limited @ [PStr ''QUERY''] @ args @ get_params_args query_params) []))
   | _ \<Rightarrow> Inl (Exc ValueError ''Must provide AggregateRequest object or Query object.''))"

definition spellcheck_call :: "pyval \<Rightarrow> pyval \<Rightarrow> pyval \<Rightarrow> pyval \<Rightarrow> pyval \<Rightarrow> call" where
  "spellcheck_call idx q distance incl excl = call ([PStr ''FT.SPELLCHECK'', idx, q] @ truthy_arg ''DISTANCE'' distance @
     (if truthy incl then [PStr ''TERMS'', PStr ''INCLUDE'', incl] else []) @ (if truthy excl then [PStr ''TERMS'', PStr ''EXCLUDE'', excl] else [])) []"

definition dict_add_call :: "pyval \<Rightarrow> pyval list \<Rightarrow> call" where "dict_add_call name terms = call ([PStr ''FT.DICTADD'', name] @ terms) []"
definition dict_del_call :: "pyval \<Rightarrow> pyval list \<Rightarrow> call" where "dict_del_call name terms = call ([PStr ''FT.DICTDEL'', name] @ terms) []"
definition dict_dump_call :: "pyval \<Rightarrow> call" where "dict_dump_call name = call [PStr ''FT.DICTDUMP'', name] []"
definition ft_config_set_call :: "pyval \<Rightarrow> pyval \<Rightarrow> call" where "ft_config_set_call opt' v = call [PStr ''FT.CONFIG'', PStr ''SET'', opt', v] []"
definition ft_config_get_call :: "pyval \<Rightarrow> call" where "ft_config_get_call opt' = call [PStr ''FT.CONFIG'', PStr ''GET'', opt'] []"
definition tagvals_call :: "pyval \<Rightarrow> pyval \<Rightarrow> call" where "tagvals_call idx tagfield = call [PStr ''FT.TAGVALS'', idx, tagfield] []"
definition aliasadd_call :: "pyval \<Rightarrow> pyval \<Rightarrow> call" where "aliasadd_call idx al = call [PStr ''FT.ALIASADD'', al, idx] []"
definition aliasupdate_call :: "pyval \<Rightarrow> pyval \<Rightarrow> call" where "aliasupdate_call idx al = call [PStr ''FT.ALIASUPDATE'', al, idx] []"
definition aliasdel_call :: "pyval \<Rightarrow> call" where "aliasdel_call al = call [PStr ''FT.ALIASDEL'', al] []"

text \<open>A suggestion: its text, score and payload. \<open>sugadd\<close> sends one command each through a pipeline and returns the last answer.\<close>

record suggestion =
  sg_string :: pyval
  sg_score :: pyval
  sg_payload :: pyval

definition sugadd_call :: "pyval \<Rightarrow> bool \<Rightarrow> suggestion \<Rightarrow> call" where
  "sugadd_call key increment s = call ([PStr ''FT.SUGADD'', key, sg_string s, sg_score s] @ flag_arg ''INCR'' increment @ truthy_arg ''PAYLOAD'' (sg_payload s)) []"

definition sugadd :: "(call list \<Rightarrow> 'w \<Rightarrow> (exc + pyval list) \<times> 'w) \<Rightarrow> pyval \<Rightarrow> bool \<Rightarrow> suggestion list \<Rightarrow> 'w \<Rightarrow> (exc + pyval) \<times> 'w" where
  "sugadd pipeline key increment suggestions w =
     (case pipeline (map (sugadd_call key increment) suggestions) w of
        (Inl e, w') \<Rightarrow> (Inl e, w')
      | (Inr rs, w') \<Rightarrow> (list_index rs (-1), w'))"

definition suglen_call :: "pyval \<Rightarrow> call" where "suglen_call key = call [PStr ''FT.SUGLEN'', key] []"
definition sugdel_call :: "pyval \<Rightarrow> pyval \<Rightarrow> call" where "sugdel_call key s = call [PStr ''FT.SUGDEL'', key, s] []"

definition sugget_call :: "pyval \<Rightarrow> pyval \<Rightarrow> bool \<Rightarrow> pyval \<Rightarrow> bool \<Rightarrow> bool \<Rightarrow> call" where
  "sugget_call key prefix fuzzy num scores payloads = call ([PStr ''FT.SUGGET'', key, prefix, PStr ''MAX'', num] @ flag_arg ''FUZZY'' fuzzy @
     flag_arg ''WITHSCORES'' scores @ flag_arg ''WITHPAYLOADS'' payloads) []"

definition synupdate_call :: "pyval \<Rightarrow> pyval \<Rightarrow> bool \<Rightarrow> pyval list \<Rightarrow> call" where
  "synupdate_call idx groupid skipinitial terms = call ([PStr ''FT.SYNUPDATE'', idx, groupid] @ flag_arg ''SKIPINITIALSCAN'' skipinitial @ terms) []"

definition syndump_call :: "pyval \<Rightarrow> call" where "syndump_call idx = call [PStr ''FT.SYNDUMP'', idx] []"

end
