(* ===== verification/SearchReplies.thy ===== *)
theory SearchReplies
  imports SearchCommands
begin

text \<open>
  The replies of the search module (\<open>redis/commands/search/commands.py\<close>, \<open>result.py\<close>, \<open>document.py\<close>, \<open>suggestion.py\<close>, \<open>_util.py\<close> and
  \<open>parse_to_dict\<close> of \<open>commands/helpers.py\<close>) and the batch indexer (\<open>__init__.py\<close>). A reply with documents gives these documents, with their
  scores, payloads and fields; a field with the name of a parameter of \<open>Document\<close> makes it raise.
\<close>

section \<open>Texts\<close>

text \<open>\<open>to_string\<close>; \<open>dec\<close> is \<open>bytes.decode\<close> with the errors ignored, for a named encoding.\<close>

type_synonym decoder = "string \<Rightarrow> string \<Rightarrow> exc + string"

definition to_string :: "decoder \<Rightarrow> string \<Rightarrow> pyval \<Rightarrow> exc + pyval" where
  "to_string dec encoding s = (case s of PBytes b \<Rightarrow> bindE (dec encoding b) (\<lambda>t. Inr (PStr t)) | _ \<Rightarrow> Inr s)"

abbreviation to_text :: "decoder \<Rightarrow> pyval \<Rightarrow> exc + pyval" where
  "to_text dec \<equiv> to_string dec ''utf-8''"

section \<open>Documents\<close>

text \<open>A document: its id, its payload, and the attributes that were set, in their order.\<close>

record document =
  dc_id :: pyval
  dc_payload :: pyval
  dc_attrs :: "(pyval \<times> pyval) list"

text \<open>\<open>Document(id, payload=payload, **fields)\<close>, with \<open>score=\<close> in front when there are scores: a name that is given twice or is no text raises.\<close>

definition make_document :: "pyval \<Rightarrow> pyval option \<Rightarrow> pyval \<Rightarrow> (pyval \<times> pyval) list \<Rightarrow> exc + document" where
  "make_document id' score payload fs =
     (if \<exists>k \<in> set (map fst fs). case k of PStr _ \<Rightarrow> False | _ \<Rightarrow> True then Inl (Exc TypeError ''keywords must be strings'')
      else if \<exists>k \<in> set (map fst fs). k \<in> set (map PStr [''self'', ''id'', ''payload'']) \<or> (score \<noteq> None \<and> k = PStr ''score'')
        then Inl (Exc TypeError ''got multiple values for keyword argument'')
      else Inr \<lparr>dc_id = id', dc_payload = payload, dc_attrs = (case score of Some s \<Rightarrow> [(PStr ''score'', s)] | None \<Rightarrow> []) @ fs\<rparr>)"

fun field_loop :: "decoder \<Rightarrow> (pyval \<times> pyval) list option \<Rightarrow> (pyval \<times> pyval) list \<Rightarrow> (pyval \<times> pyval) list \<Rightarrow> exc + (pyval \<times> pyval) list" where
  "field_loop dec encodings [] acc = Inr acc"
| "field_loop dec encodings ((key, v) # kvs) acc =
     bindE (to_text dec key) (\<lambda>key.
       if \<not> hashable key then Inl unhashable_error
       else bindE (case encodings of
           None \<Rightarrow> to_text dec v
         | Some es \<Rightarrow> (case pd_get key es of
             None \<Rightarrow> to_text dec v
           | Some e \<Rightarrow> (case e of PStr enc \<Rightarrow> to_string dec enc v | _ \<Rightarrow> Inr v)))
         (\<lambda>x. field_loop dec encodings kvs (pd_set key x acc)))"

fun pd_del :: "pyval \<Rightarrow> (pyval \<times> pyval) list \<Rightarrow> (pyval \<times> pyval) list" where
  "pd_del k [] = []"
| "pd_del k ((k', v) # d) = (if py_key_eq k k' then d else (k', v) # pd_del k d)"

text \<open>\<open>del fields["id"]\<close>, and the whole document of a JSON index under the name \<open>json\<close>.\<close>

definition clean_fields :: "(pyval \<times> pyval) list \<Rightarrow> (pyval \<times> pyval) list" where
  "clean_fields d =
     (let d1 = pd_del (PStr ''id'') d in
      case pd_get (PStr ''$'') d1 of None \<Rightarrow> d1 | Some v \<Rightarrow> pd_del (PStr ''$'') (pd_set (PStr ''json'') v d1))"

record result_options =
  ro_hascontent :: bool
  ro_has_payload :: bool
  ro_with_scores :: bool
  ro_encodings :: "(pyval \<times> pyval) list option"

definition result_step :: "result_options \<Rightarrow> nat" where
  "result_step k = 1 + (if ro_hascontent k then 1 else 0) + (if ro_has_payload k then 1 else 0) + (if ro_with_scores k then 1 else 0)"

definition result_doc :: "decoder \<Rightarrow> result_options \<Rightarrow> pyval list \<Rightarrow> nat \<Rightarrow> exc + document" where
  "result_doc dec k res i =
     (let offset = (if ro_with_scores k then 2 else 1);
          fields_offset = (if ro_has_payload k then offset + 1 else offset)
      in bindE (bindE (list_index res (int i)) (to_text dec)) (\<lambda>id'.
         bindE (if ro_has_payload k then bindE (list_index res (int (i + offset))) (to_text dec) else Inr PNone) (\<lambda>payload.
         bindE (if ro_with_scores k then bindE (bindE (list_index res (int (i + 1))) to_float_val) (\<lambda>s. Inr (Some s)) else Inr None) (\<lambda>score.
         bindE (if ro_hascontent k then
                  bindE (list_index res (int (i + fields_offset))) (\<lambda>fs.
                    if fs = PNone then Inr []
                    else bindE (py_halves fs) (\<lambda>(ks, vs). field_loop dec (ro_encodings k) (zip ks vs) []))
                else Inr []) (\<lambda>fs.
         make_document id' score payload (clean_fields fs))))))"

text \<open>\<open>range(1, len(res), step)\<close>.\<close>

definition result_positions :: "nat \<Rightarrow> nat \<Rightarrow> nat list" where
  "result_positions n step = map (\<lambda>k. 1 + k * step) [0..<(n - 1 + step - 1) div step]"

definition search_result :: "decoder \<Rightarrow> result_options \<Rightarrow> pyval list \<Rightarrow> exc + (pyval \<times> document list)" where
  "search_result dec k res =
     bindE (list_index res 0) (\<lambda>total.
     bindE (mapE (result_doc dec k res) (result_positions (length res) (result_step k))) (\<lambda>docs. Inr (total, docs)))"

definition parse_search :: "decoder \<Rightarrow> query \<Rightarrow> pyval list \<Rightarrow> exc + (pyval \<times> document list)" where
  "parse_search dec q res = search_result dec \<lparr>ro_hascontent = \<not> q_no_content q, ro_has_payload = q_with_payloads q,
     ro_with_scores = q_with_scores q, ro_encodings = Some (q_return_fields_decode_as q)\<rparr> res"

section \<open>The other replies\<close>

definition parse_index_info :: "decoder \<Rightarrow> pyval \<Rightarrow> exc + pyval" where
  "parse_index_info dec res = bindE (py_iter res) (\<lambda>xs. bindE (mapE (to_text dec) xs) (\<lambda>ts. py_dict_val (pairs_of ts)))"

text \<open>The cursor of a request that reads in pieces, the schema when it was asked for, and the rows.\<close>

record aggregate_result =
  ar_rows :: "pyval list"
  ar_cursor :: "cursor option"
  ar_schema :: pyval

definition rows_from :: "nat \<Rightarrow> pyval \<Rightarrow> exc + pyval list" where
  "rows_from n v = (case v of PList xs \<Rightarrow> Inr (drop n xs) | PTuple xs \<Rightarrow> Inr (drop n xs) | _ \<Rightarrow> Inl not_subscriptable)"

definition get_aggregate_result :: "pyval \<Rightarrow> query_arg \<Rightarrow> bool \<Rightarrow> exc + aggregate_result" where
  "get_aggregate_result res q has_cursor =
     bindE (if has_cursor then
              bindE (py_index res 1) (\<lambda>cid. bindE (py_index res 0) (\<lambda>rows.
                Inr (rows, Some (case q of CursorQuery c \<Rightarrow> c\<lparr>cu_id := cid\<rparr> | _ \<Rightarrow> Cursor cid))))
            else Inr (res, None)) (\<lambda>(res, cursor).
       if (case q of AggregateQuery a \<Rightarrow> ag_with_schema a | _ \<Rightarrow> False) then
         bindE (py_index res 0) (\<lambda>s. bindE (rows_from 2 res) (\<lambda>rows. Inr \<lparr>ar_rows = rows, ar_cursor = cursor, ar_schema = s\<rparr>))
       else bindE (rows_from 1 res) (\<lambda>rows. Inr \<lparr>ar_rows = rows, ar_cursor = cursor, ar_schema = PNone\<rparr>))"

definition suggestion_of :: "pyval \<Rightarrow> exc + pyval" where
  "suggestion_of item = bindE (py_index item 0) (\<lambda>score. bindE (py_index item 1) (\<lambda>s.
     Inr (PDict [(PStr ''score'', score), (PStr ''suggestion'', s)])))"

fun spellcheck_loop :: "pyval list \<Rightarrow> (pyval \<times> pyval) list \<Rightarrow> exc + (pyval \<times> pyval) list" where
  "spellcheck_loop [] acc = Inr acc"
| "spellcheck_loop (c # cs) acc =
     (if c = PInt 0 \<or> c = PBool False then spellcheck_loop cs acc
      else bindE (py_iter c) (\<lambda>xs.
        if length xs \<noteq> 3 then spellcheck_loop cs acc
        else if \<not> truthy (xs ! 2) then spellcheck_loop cs acc
        else bindE (py_index (xs ! 2) 0) (\<lambda>first.
          if \<not> truthy first then spellcheck_loop cs acc
          else bindE (py_iter (xs ! 2)) (\<lambda>items. bindE (mapE suggestion_of items) (\<lambda>ds.
            if hashable (xs ! 1) then spellcheck_loop cs (pd_set (xs ! 1) (PList ds) acc) else Inl unhashable_error)))))"

definition parse_spellcheck :: "pyval \<Rightarrow> exc + pyval" where
  "parse_spellcheck res =
     (if res = PInt 0 \<or> res = PBool False \<or> res = PFloat (Fin 0) then Inr (PDict [])
      else bindE (py_iter res) (\<lambda>cs. bindE (spellcheck_loop cs []) (\<lambda>d. Inr (PDict d))))"

definition ft_config_get_reply :: "pyval \<Rightarrow> exc + pyval" where
  "ft_config_get_reply res =
     (if truthy res then bindE (py_iter res) (\<lambda>xs.
        bindE (mapE (\<lambda>kvs. bindE (py_index kvs 0) (\<lambda>k. bindE (py_index kvs 1) (\<lambda>v. Inr (k, v)))) xs) py_dict_val)
      else Inr (PDict []))"

definition ft_config_set_reply :: "pyval \<Rightarrow> pyval" where
  "ft_config_set_reply r = PBool (r = PStr ''OK'')"

fun syndump_pairs :: "pyval list \<Rightarrow> exc + (pyval \<times> pyval) list" where
  "syndump_pairs [] = Inr []"
| "syndump_pairs [x] = Inl index_error"
| "syndump_pairs (x # y # xs) = bindE (syndump_pairs xs) (\<lambda>ps. Inr ((x, y) # ps))"

definition parse_syndump :: "pyval list \<Rightarrow> exc + pyval" where
  "parse_syndump res = bindE (syndump_pairs res) py_dict_val"

text \<open>\<open>SuggestionParser\<close>: one, two or three values for each suggestion.\<close>

definition suggestion_size :: "bool \<Rightarrow> bool \<Rightarrow> nat" where
  "suggestion_size scores payloads = (if scores \<and> payloads then 3 else if scores \<or> payloads then 2 else 1)"

definition parse_suggestion :: "decoder \<Rightarrow> bool \<Rightarrow> bool \<Rightarrow> pyval list \<Rightarrow> nat \<Rightarrow> exc + suggestion" where
  "parse_suggestion dec scores payloads sugs i =
     bindE (list_index sugs (int i)) (\<lambda>ss.
     bindE (if scores then bindE (list_index sugs (int (i + 1))) to_float_val else Inr (PFloat (Fin 1))) (\<lambda>score.
     bindE (if payloads then list_index sugs (int (i + (if scores then 2 else 1))) else Inr PNone) (\<lambda>payload.
     bindE (to_text dec ss) (\<lambda>s. bindE (to_text dec payload) (\<lambda>p.
       Inr \<lparr>sg_string = s, sg_score = score, sg_payload = p\<rparr>)))))"

definition sugget_reply :: "decoder \<Rightarrow> bool \<Rightarrow> bool \<Rightarrow> pyval list \<Rightarrow> exc + suggestion list" where
  "sugget_reply dec scores payloads res =
     (let n = suggestion_size scores payloads in
      mapE (\<lambda>k. parse_suggestion dec scores payloads res (k * n)) [0..<(length res + n - 1) div n])"

definition load_document :: "decoder \<Rightarrow> pyval \<Rightarrow> (pyval \<times> pyval) list \<Rightarrow> exc + document" where
  "load_document dec id' reply =
     bindE (mapE (\<lambda>(k, v). bindE (to_text dec k) (\<lambda>k. bindE (to_text dec v) (\<lambda>v. Inr (k, v)))) reply) (\<lambda>kvs.
     bindE (py_dict [] kvs) (\<lambda>fs.
       let fs = pd_del (PStr ''id'') fs in
       case pd_get (PStr ''payload'') fs of
         None \<Rightarrow> make_document id' None PNone fs
       | Some p \<Rightarrow> make_document id' None p (pd_del (PStr ''payload'') fs)))"

section \<open>Profiles\<close>

text \<open>\<open>parse_list_to_dict\<close> and \<open>parse_to_dict\<close> (\<open>commands/helpers.py\<close>).\<close>

definition float_or_same :: "pyval \<Rightarrow> pyval" where
  "float_or_same v = (case to_float v of Inr f \<Rightarrow> PFloat f | Inl _ \<Rightarrow> v)"

definition set_item :: "pyval \<Rightarrow> pyval \<Rightarrow> (pyval \<times> pyval) list \<Rightarrow> exc + (pyval \<times> pyval) list" where
  "set_item k v d = (if hashable k then Inr (pd_set k v d) else Inl unhashable_error)"

definition child_iterators :: pyval where
  "child_iterators = PStr ''Child iterators''"

definition add_child :: "pyval \<Rightarrow> (pyval \<times> pyval) list \<Rightarrow> exc + (pyval \<times> pyval) list" where
  "add_child c d = (case pd_get child_iterators d of
     None \<Rightarrow> Inl (Exc KeyError ''Child iterators'')
   | Some (PList cs) \<Rightarrow> Inr (pd_set child_iterators (PList (cs @ [c])) d)
   | Some _ \<Rightarrow> Inl (Exc AttributeError ''append''))"

fun profile_loop :: "pyval list \<Rightarrow> (pyval \<times> pyval) list \<Rightarrow> exc + (pyval \<times> pyval) list" where
  "profile_loop [] d = Inr d"
| "profile_loop (PList xs # rest) d =
     bindE (add_child PNone d) (\<lambda>_.
     bindE (profile_loop xs []) (\<lambda>c. bindE (add_child (PDict c) d) (\<lambda>d.
       case rest of
         [] \<Rightarrow> Inr d
       | PList ys # rest' \<Rightarrow> bindE (profile_loop ys []) (\<lambda>c. bindE (add_child (PDict c) d) (profile_loop rest'))
       | _ # rest' \<Rightarrow> profile_loop rest' d)))"
| "profile_loop (k # rest) d = (case rest of
     [] \<Rightarrow> Inl index_error
   | PList ys # rest' \<Rightarrow> bindE (profile_loop ys []) (\<lambda>c. profile_loop rest' (pd_set child_iterators (PList [PDict c]) d))
   | v # rest' \<Rightarrow> bindE (set_item k (float_or_same v) d) (profile_loop rest'))"

fun parse_to_dict_loop :: "pyval list \<Rightarrow> (pyval \<times> pyval) list \<Rightarrow> exc + (pyval \<times> pyval) list" where
  "parse_to_dict_loop [] d = Inr d"
| "parse_to_dict_loop (PList [] # rest) d = parse_to_dict_loop rest d"
| "parse_to_dict_loop (PList [k] # rest) d = bindE (set_item k (PBool True) d) (parse_to_dict_loop rest)"
| "parse_to_dict_loop (PList (k # v # _) # rest) d =
     bindE (case v of PList ys \<Rightarrow> bindE (profile_loop ys []) (\<lambda>c. set_item k (PDict c) d) | _ \<Rightarrow> set_item k (float_or_same v) d) (parse_to_dict_loop rest)"
| "parse_to_dict_loop (_ # rest) d = parse_to_dict_loop rest d"

definition parse_to_dict :: "pyval \<Rightarrow> exc + pyval" where
  "parse_to_dict response = (if response = PNone then Inr (PDict [])
     else bindE (py_iter response) (\<lambda>xs. bindE (parse_to_dict_loop xs []) (\<lambda>d. Inr (PDict d))))"

definition parse_profile :: "decoder \<Rightarrow> query_arg \<Rightarrow> pyval \<Rightarrow> exc + ((pyval \<times> document list) + aggregate_result) \<times> pyval" where
  "parse_profile dec q res =
     bindE (py_index res 0) (\<lambda>r.
     bindE (case q of
         AggregateQuery a \<Rightarrow> bindE (get_aggregate_result r q (ag_cursor a \<noteq> [])) (\<lambda>x. Inr (Inr x))
       | ObjectQuery q \<Rightarrow> bindE (py_iter r) (\<lambda>xs. bindE (search_result dec \<lparr>ro_hascontent = \<not> q_no_content q, ro_has_payload = q_with_payloads q,
           ro_with_scores = q_with_scores q, ro_encodings = None\<rparr> xs) (\<lambda>x. Inr (Inl x)))
       | _ \<Rightarrow> Inl (Exc AttributeError ''_no_content'')) (\<lambda>result.
     bindE (bindE (py_index res 1) parse_to_dict) (\<lambda>profile. Inr (result, profile))))"

section \<open>What a reply with documents gives\<close>




text \<open>A decoder that knows UTF-8, and documents whose texts it decodes, with a score that is a number and fields with names of their own.\<close>

definition decodes :: "decoder \<Rightarrow> string \<Rightarrow> bool" where
  "decodes dec s \<longleftrightarrow> dec ''utf-8'' s = Inr s"













text \<open>A document with a field of the name \<open>payload\<close> makes the whole reply raise TypeError.\<close>

theorem payload_field_raises:
  assumes "decodes dec i" "decodes dec ''payload''" "decodes dec v"
  shows "search_result dec \<lparr>ro_hascontent = True, ro_has_payload = False, ro_with_scores = False, ro_encodings = None\<rparr>
     [PInt 1, PBytes i, PList [PBytes ''payload'', PBytes v]] = Inl (Exc TypeError ''got multiple values for keyword argument'')"
proof -
  have "result_positions 3 2 = [1]" by (simp add: result_positions_def)
  then show ?thesis
    using assms
    by (simp add: search_result_def list_index_def result_step_def result_doc_def to_string_def decodes_def
        py_halves_def py_iter_def clean_fields_def make_document_def numeral_2_eq_2 numeral_3_eq_3)
qed

section \<open>Examples\<close>

definition plain_decoder :: decoder where
  "plain_decoder encoding s = Inr s"



lemma payload_field_raises_witness:
  "search_result plain_decoder \<lparr>ro_hascontent = True, ro_has_payload = False, ro_with_scores = False, ro_encodings = None\<rparr>
     [PInt 1, PBytes ''doc:1'', PList [PBytes ''payload'', PBytes ''x'']] = Inl (Exc TypeError ''got multiple values for keyword argument'')"
  by (rule payload_field_raises) (simp_all add: decodes_def plain_decoder_def)

section \<open>The batch indexer\<close>

text \<open>
  \<open>bi_total\<close> and \<open>bi_current\<close> are the counters, \<open>bi_staged\<close> the commands of the pipeline. \<open>run\<close> executes the pipeline, which is empty
  afterwards whatever happens; the counter of the chunk is reset when it succeeds.
\<close>

record batch =
  bi_total :: nat
  bi_current :: nat
  bi_chunk :: nat
  bi_staged :: "call list"

definition batch_indexer :: "nat \<Rightarrow> batch" where
  "batch_indexer chunk_size = \<lparr>bi_total = 0, bi_current = 0, bi_chunk = chunk_size, bi_staged = []\<rparr>"

type_synonym ('w, 'a) batch_op = "(batch \<times> 'w, exc, 'a) action"

definition batch_commit :: "(call list \<Rightarrow> ('w, exc, unit) action) \<Rightarrow> ('w, unit) batch_op" where
  "batch_commit run = (\<lambda>(b, w). case run (bi_staged b) w of
     (Inl e, w') \<Rightarrow> (Inl e, (b\<lparr>bi_staged := []\<rparr>, w'))
   | (Inr _, w') \<Rightarrow> (Inr (), (b\<lparr>bi_staged := [], bi_current := 0\<rparr>, w')))"

definition batch_add :: "(call list \<Rightarrow> ('w, exc, unit) action) \<Rightarrow> call \<Rightarrow> ('w, unit) batch_op" where
  "batch_add run c = thenS (modS (\<lambda>(b, w). (b\<lparr>bi_staged := bi_staged b @ [c], bi_current := bi_current b + 1, bi_total := bi_total b + 1\<rparr>, w)))
     (\<lambda>(b, w). if bi_chunk b \<le> bi_current b then batch_commit run (b, w) else (Inr (), (b, w)))"

definition batch_add_document :: "(call list \<Rightarrow> ('w, exc, unit) action) \<Rightarrow> pyval \<Rightarrow> pyval \<Rightarrow> document_options \<Rightarrow> (string \<times> pyval) list \<Rightarrow> ('w, unit) batch_op" where
  "batch_add_document run idx doc_id k fs = batch_add run (add_document_call idx doc_id (k\<lparr>do_language := PNone\<rparr>) fs)"

definition batch_add_document_hash :: "(call list \<Rightarrow> ('w, exc, unit) action) \<Rightarrow> pyval \<Rightarrow> pyval \<Rightarrow> pyval \<Rightarrow> bool \<Rightarrow> ('w, unit) batch_op" where
  "batch_add_document_hash run idx doc_id score replace' = batch_add run (add_document_hash_call idx doc_id score PNone replace')"

definition batch_del :: "(call list \<Rightarrow> ('w, exc, unit) action) \<Rightarrow> ('w, unit) batch_op" where
  "batch_del run = (\<lambda>(b, w). if bi_current b \<noteq> 0 then batch_commit run (b, w) else (Inr (), (b, w)))"

primrec batch_adds :: "(call list \<Rightarrow> ('w, exc, unit) action) \<Rightarrow> call list \<Rightarrow> ('w, unit) batch_op" where
  "batch_adds run [] = retS ()"
| "batch_adds run (c # cs) = thenS (batch_add run c) (batch_adds run cs)"

text \<open>A server that logs what it executes.\<close>

definition log_run :: "call list \<Rightarrow> (call list list, exc, unit) action" where
  "log_run cs w = (Inr (), w @ [cs])"

text \<open>A batch indexer executes the documents in the order they were added, in chunks of the given size, and none twice: what was
  executed and what is still staged are the added ones, fewer than a chunk are staged, and when it is deleted nothing is left.\<close>

theorem batch_indexer_indexes_all:
  assumes "0 < n"
  shows "\<exists>b w. batch_adds log_run cs (batch_indexer n, []) = (Inr (), (b, w)) \<and> concat w @ bi_staged b = cs \<and>
    bi_total b = length cs \<and> length (bi_staged b) < n \<and> list_all (\<lambda>chunk. length chunk = n) w \<and>
    (\<exists>b' w'. batch_del log_run (b, w) = (Inr (), (b', w')) \<and> concat w' = cs \<and> bi_staged b' = [])"
proof -
  define inv where "inv = (\<lambda>(b :: batch) w ds. concat w @ bi_staged b = ds \<and> bi_total b = length ds \<and> bi_chunk b = n \<and>
      bi_current b = length (bi_staged b) \<and> length (bi_staged b) < n \<and> list_all (\<lambda>chunk. length chunk = n) w)"
  have step: "\<exists>b' w'. batch_add log_run c (b, w) = (Inr (), (b', w')) \<and> inv b' w' (ds @ [c])" if "inv b w ds" for b w ds c
    using that assms by (auto simp: inv_def batch_add_def batch_commit_def log_run_def thenS_def bindS_def modS_def)
  have "\<exists>b' w'. batch_adds log_run cs (b, w) = (Inr (), (b', w')) \<and> inv b' w' (ds @ cs)" if "inv b w ds" for b w ds
    using that
  proof (induction cs arbitrary: b w ds)
    case (Cons c cs)
    from step [OF Cons.prems] obtain b1 w1 where 1: "batch_add log_run c (b, w) = (Inr (), (b1, w1))" "inv b1 w1 (ds @ [c])" by blast
    from Cons.IH [OF 1(2)] 1(1) show ?case by (auto simp: thenS_def bindS_def)
  qed (simp add: retS_def)
  moreover have "inv (batch_indexer n) [] []" using assms by (simp add: inv_def batch_indexer_def)
  ultimately obtain b w where b: "batch_adds log_run cs (batch_indexer n, []) = (Inr (), (b, w))" "inv b w cs" by (metis append_Nil)
  moreover have "\<exists>b' w'. batch_del log_run (b, w) = (Inr (), (b', w')) \<and> concat w' = cs \<and> bi_staged b' = []"
    using b(2) by (auto simp: inv_def batch_del_def batch_commit_def log_run_def)
  ultimately show ?thesis by (auto simp: inv_def)
qed

lemma batch_indexer_indexes_all_witness:
  "\<exists>b w. batch_adds log_run [search_info_call (PStr ''a''), search_info_call (PStr ''b''), search_info_call (PStr ''c'')] (batch_indexer 2, []) = (Inr (), (b, w)) \<and>
     concat w @ bi_staged b = [search_info_call (PStr ''a''), search_info_call (PStr ''b''), search_info_call (PStr ''c'')]"
  using batch_indexer_indexes_all [of 2 "[search_info_call (PStr ''a''), search_info_call (PStr ''b''), search_info_call (PStr ''c'')]"] by auto

end
