(* ===== verification/GraphPlan.thy ===== *)
theory GraphPlan
  imports Utils
begin

text \<open>
  The execution plans of the graph module (\<open>redis/commands/graph/execution_plan.py\<close>): the lines of \<open>GRAPH.EXPLAIN\<close>, indented by four blanks
  for each level, are read into a tree of operations. The code mutates the operations while they lie on its stack; here they live in a store and are
  referred to by index. A plan is read back when no operation without children is followed by a sibling; when there is one, the tree is wrong.
\<close>

section \<open>Operations\<close>

type_synonym profile_stats = "int \<times> pyfloat"

record plan_op =
  op_name :: string
  op_args :: "string option"
  op_stats :: "profile_stats option"
  op_children :: "nat list"

text \<open>A finished plan; \<open>__eq__\<close> of an operation does not look at its statistics nor at its children.\<close>

datatype operation = Op (o_name: string) (o_args: "string option") (o_stats: "profile_stats option") (o_children: "operation list")

definition child_count :: "operation \<Rightarrow> nat" where
  "child_count t = length (o_children t)"

definition operation_eq :: "operation \<Rightarrow> operation \<Rightarrow> bool" where
  "operation_eq a b = (o_name a = o_name b \<and> o_args a = o_args b)"

definition operation_str :: "operation \<Rightarrow> string" where
  "operation_str t = o_name t @ (case o_args t of None \<Rightarrow> '''' | Some a \<Rightarrow> '' | '' @ a)"

section \<open>Reading one line\<close>

text \<open>\<open>line.count("    ")\<close>.\<close>

function indents :: "string \<Rightarrow> nat" where
  "indents s = (if s = [] then 0 else if starts_with ''    '' s then Suc (indents (drop 4 s)) else indents (tl s))"
  by pat_completeness auto

termination indents
  by (relation "measure length") auto

declare indents.simps [simp del]

text \<open>\<open>re.search\<close> for a pattern that begins with a literal text: the first place where the literal and the rest match.\<close>

fun re_after :: "string \<Rightarrow> (string \<Rightarrow> string option) \<Rightarrow> string \<Rightarrow> string option" where
  "re_after p m [] = None"
| "re_after p m (c # cs) =
     (case (if starts_with p (c # cs) then m (drop (length p) (c # cs)) else None) of
        Some g \<Rightarrow> Some g | None \<Rightarrow> re_after p m cs)"

text \<open>The groups \<open>(\d+)\<close> and \<open>(\d+.\d+)\<close>, the latter before \<open>ms\<close>; its point matches any character, a digit too.\<close>

definition digits_group :: "string \<Rightarrow> string option" where
  "digits_group s = (let d = takeWhile is_digit s in if d = [] then None else Some d)"

definition time_group :: "string \<Rightarrow> string option" where
  "time_group s =
     (let d = takeWhile is_digit s; r = drop (length d) s in
      if d = [] \<or> r = [] then None
      else (let e = takeWhile is_digit (tl r); r' = drop (length e) (tl r) in
        if hd r \<noteq> CHR 0x0A \<and> e \<noteq> [] \<and> starts_with '' ms'' r' then Some (d @ hd r # e)
        else if 3 \<le> length d \<and> starts_with '' ms'' r then Some d
        else None))"

definition no_group :: exc where
  "no_group = Exc AttributeError ''NoneType object has no attribute group''"

definition parse_stats :: "string \<Rightarrow> exc + profile_stats" where
  "parse_stats a =
     (case re_after ''Records produced: '' digits_group a of
        None \<Rightarrow> Inl no_group
      | Some n \<Rightarrow> bindE (to_int (PStr n)) (\<lambda>n.
          case re_after ''Execution time: '' time_group a of
            None \<Rightarrow> Inl no_group
          | Some x \<Rightarrow> bindE (to_float (PStr x)) (\<lambda>x. Inr (n, x))))"

text \<open>\<open>_create_operation\<close> on the parts of \<open>line.split("|")\<close>, of which there is at least one.\<close>

definition create_operation :: "string list \<Rightarrow> exc + plan_op" where
  "create_operation parts =
     (let name = strip (hd parts); args = tl parts in
      bindE (if args \<noteq> [] \<and> has_sub ''Records produced'' (last args)
             then bindE (parse_stats (last args)) (\<lambda>s. Inr (Some s, butlast args)) else Inr (None, args)) (\<lambda>(stats, args).
      Inr \<lparr>op_name = name, op_args = (if args = [] then None else Some (strip (hd args))), op_stats = stats, op_children = []\<rparr>))"

section \<open>Reading the tree\<close>

text \<open>The stack has its top in front.\<close>

record tree_state =
  ts_ops :: "plan_op list"
  ts_stack :: "nat list"
  ts_current :: "nat option"
  ts_level :: int

definition tree_init :: tree_state where
  "tree_init = \<lparr>ts_ops = [], ts_stack = [], ts_current = None, ts_level = 0\<rparr>"

text \<open>A new operation in the store, and \<open>append_child\<close>.\<close>

definition new_op :: "plan_op \<Rightarrow> tree_state \<Rightarrow> nat \<times> tree_state" where
  "new_op p st = (length (ts_ops st), st\<lparr>ts_ops := ts_ops st @ [p]\<rparr>)"

definition with_child :: "nat \<Rightarrow> nat \<Rightarrow> plan_op list \<Rightarrow> plan_op list" where
  "with_child i c ops = ops[i := (ops ! i)\<lparr>op_children := op_children (ops ! i) @ [c]\<rparr>]"

definition append_child :: "nat \<Rightarrow> nat \<Rightarrow> tree_state \<Rightarrow> exc + tree_state" where
  "append_child i c st = (if i = c then Inl (Exc PyException ''child must be Operation'') else Inr (st\<lparr>ts_ops := with_child i c (ts_ops st)\<rparr>))"

definition pop_empty :: exc where
  "pop_empty = Exc IndexError ''pop from empty list''"

text \<open>\<open>for _ in range(n): current = stack.pop()\<close>.\<close>

fun pop_times :: "nat \<Rightarrow> tree_state \<Rightarrow> exc + tree_state" where
  "pop_times 0 st = Inr st"
| "pop_times (Suc n) st = (case ts_stack st of [] \<Rightarrow> Inl pop_empty
     | i # is \<Rightarrow> pop_times n (st\<lparr>ts_stack := is, ts_current := Some i\<rparr>))"

definition same_level :: "string \<Rightarrow> tree_state \<Rightarrow> exc + tree_state" where
  "same_level line st =
     bindE (create_operation (split_char (CHR ''|'') line)) (\<lambda>p.
     let (c, st1) = new_op p st in
     bindE (if ts_current st = None then Inr st1
            else bindE (pop_times 1 st1) (\<lambda>st2. append_child (the (ts_current st2)) c st2)) (\<lambda>st3.
     Inr (st3\<lparr>ts_current := Some c\<rparr>)))"

definition next_level :: "string \<Rightarrow> tree_state \<Rightarrow> exc + tree_state" where
  "next_level line st =
     bindE (create_operation (split_char (CHR ''|'') line)) (\<lambda>p.
     let (c, st1) = new_op p st in
     case ts_current st1 of
       None \<Rightarrow> Inl (Exc AttributeError ''NoneType object has no attribute append_child'')
     | Some i \<Rightarrow> bindE (append_child i c st1) (\<lambda>st2.
         Inr (st2\<lparr>ts_stack := i # ts_stack st2, ts_current := Some c, ts_level := ts_level st2 + 1\<rparr>)))"

definition level_back :: "int \<Rightarrow> tree_state \<Rightarrow> exc + tree_state" where
  "level_back op_level st =
     (let back = ts_level st - op_level + 1 in
      bindE (pop_times (nat back) st) (\<lambda>st1. Inr (st1\<lparr>ts_level := ts_level st1 - back\<rparr>)))"

text \<open>One round of the \<open>while\<close> for a line of level at most the next one: after \<open>level_back\<close> the same line is a child of the current operation.\<close>

definition plan_line :: "string \<Rightarrow> tree_state \<Rightarrow> exc + tree_state" where
  "plan_line line st =
     (let l = int (indents line) in
      if l = ts_level st then same_level line st
      else if l = ts_level st + 1 then next_level line st
      else if l < ts_level st then bindE (level_back l st) (next_level line)
      else Inl (Exc PyException ''corrupted plan''))"

fun plan_lines :: "string list \<Rightarrow> tree_state \<Rightarrow> exc + tree_state" where
  "plan_lines [] st = Inr st"
| "plan_lines (l # ls) st = bindE (plan_line l st) (plan_lines ls)"

text \<open>The operations below an index, as a tree; every operation lies behind its parent in the store, which bounds the depth.\<close>

fun read_tree :: "nat \<Rightarrow> plan_op list \<Rightarrow> nat \<Rightarrow> operation" where
  "read_tree 0 ops i = Op (op_name (ops ! i)) (op_args (ops ! i)) (op_stats (ops ! i)) []"
| "read_tree (Suc n) ops i = Op (op_name (ops ! i)) (op_args (ops ! i)) (op_stats (ops ! i)) (map (read_tree n ops) (op_children (ops ! i)))"

definition operation_tree :: "string list \<Rightarrow> exc + operation" where
  "operation_tree plan = bindE (plan_lines plan tree_init) (\<lambda>st.
     if ts_stack st = [] then Inl (Exc IndexError ''list index out of range'')
     else Inr (read_tree (length (ts_ops st)) (ts_ops st) (last (ts_stack st))))"

section \<open>The plan\<close>

definition decode_line :: "pyval \<Rightarrow> exc + string" where
  "decode_line v = (case v of
      PBytes b \<Rightarrow> if utf8_valid b then Inr b else Inl (Exc UnicodeDecodeError ''utf-8'')
    | _ \<Rightarrow> Inl (Exc AttributeError ''object has no attribute decode''))"

definition text_line :: "pyval \<Rightarrow> exc + string" where
  "text_line v = (case v of
      PStr s \<Rightarrow> Inr s
    | PBytes _ \<Rightarrow> Inl (Exc TypeError ''argument should be integer or bytes-like object'')
    | _ \<Rightarrow> Inl (Exc AttributeError ''object has no attribute count''))"

definition ExecutionPlan :: "pyval \<Rightarrow> exc + operation" where
  "ExecutionPlan plan = (case plan of
      PList [] \<Rightarrow> Inl (Exc IndexError ''list index out of range'')
    | PList (v # vs) \<Rightarrow> bindE (mapE (case v of PBytes _ \<Rightarrow> decode_line | _ \<Rightarrow> text_line) (v # vs)) operation_tree
    | _ \<Rightarrow> Inl (Exc PyException ''plan must be an array''))"

fun compare_operations :: "operation \<Rightarrow> operation \<Rightarrow> bool" where
  "compare_operations (Op a b c ts) u =
     (if \<not> operation_eq (Op a b c ts) u then False
      else if child_count (Op a b c ts) \<noteq> child_count u then False
      else list_all (\<lambda>(f, y). f y) (zip (map compare_operations ts) (o_children u)))"

text \<open>\<open>_operation_traverse\<close>, and \<open>str(plan)\<close> with it; \<open>str_lines\<close> of a text with line feeds only.\<close>

fun operation_traverse :: "(operation \<Rightarrow> 'a) \<Rightarrow> ('a list \<Rightarrow> 'a) \<Rightarrow> ('a \<Rightarrow> 'a \<Rightarrow> 'a) \<Rightarrow> operation \<Rightarrow> 'a" where
  "operation_traverse f agg comb (Op a b c ts) =
     (if ts = [] then f (Op a b c ts) else comb (f (Op a b c ts)) (agg (map (operation_traverse f agg comb) ts)))"

definition str_lines :: "string \<Rightarrow> string list" where
  "str_lines s = (let ls = split_char (CHR 0x0A) s in if last ls = [] then butlast ls else ls)"

definition indent_children :: "string list \<Rightarrow> string" where
  "indent_children cs = join_with [CHR 0x0A] (concat (map (\<lambda>c. map (\<lambda>l. ''    '' @ l) (str_lines c)) cs))"

definition plan_str :: "operation \<Rightarrow> string" where
  "plan_str t = operation_traverse operation_str indent_children (\<lambda>x y. x @ [CHR 0x0A] @ y) t"

end
