(* ===== verification/GraphPlanCorrect.thy ===== *)
theory GraphPlanCorrect
  imports GraphPlan
begin

text \<open>
  A plan is read back from its lines when no operation without children is followed by a sibling; what the reader does otherwise; what equality of
  plans means.
\<close>

section \<open>Lines\<close>

fun render :: "nat \<Rightarrow> operation \<Rightarrow> string list" where
  "render l (Op n a s ts) = (replicate (4 * l) (CHR '' '') @ operation_str (Op n a s ts)) # concat (map (render (Suc l)) ts)"

definition clean :: "string \<Rightarrow> bool" where
  "clean w = (w \<noteq> [] \<and> \<not> is_ws (hd w) \<and> \<not> is_ws (last w) \<and> CHR ''|'' \<notin> set w \<and> indents w = 0)"

definition plain_op :: "string \<Rightarrow> string option \<Rightarrow> bool" where
  "plain_op n a = (clean n \<and> (case a of None \<Rightarrow> True | Some w \<Rightarrow> clean w \<and> \<not> has_sub ''Records produced'' w))"

fun plain :: "operation \<Rightarrow> bool" where
  "plain (Op n a s ts) = (plain_op n a \<and> s = None \<and> list_all plain ts)"

text \<open>Only the last of the children may be without children.\<close>

fun leaves_last :: "operation \<Rightarrow> bool" where
  "leaves_last (Op n a s ts) = (list_all (\<lambda>t. o_children t \<noteq> []) (butlast ts) \<and> list_all leaves_last ts)"

lemma indents_Nil [simp]: "indents [] = 0"
  by (simp add: indents.simps)

lemma indents_four: "indents (CHR '' '' # CHR '' '' # CHR '' '' # CHR '' '' # s) = Suc (indents s)"
  by (subst indents.simps) (simp add: starts_with_def)

lemma indents_tab: "indents (replicate (4 * l) (CHR '' '') @ t) = l + indents t"
proof (induction l)
  case (Suc l)
  have "replicate (4 * Suc l) (CHR '' '') = CHR '' '' # CHR '' '' # CHR '' '' # CHR '' '' # replicate (4 * l) (CHR '' '')"
    by (simp add: numeral_eq_Suc)
  then show ?case using Suc by (simp add: indents_four)
qed simp

lemma indents_nonspace: "c \<noteq> CHR '' '' \<Longrightarrow> indents (c # s) = indents s"
  by (subst indents.simps) (simp add: starts_with_def)

lemma four_blanks_inside:
  assumes "u \<noteq> []" "last u \<noteq> CHR '' ''"
  shows "starts_with ''    '' (u @ v) = starts_with ''    '' u"
proof (cases "4 \<le> length u")
  case True
  then show ?thesis by (simp add: starts_with_def)
next
  case False
  have "last u \<in> set (take 4 (u @ v))" using assms False by simp
  moreover have "set ''    '' = {CHR '' ''}" by auto
  ultimately have "take 4 (u @ v) \<noteq> ''    ''" using assms(2) by (metis singletonD)
  moreover have "take 4 u \<noteq> ''    ''" using False by (auto dest: arg_cong [where f = length])
  ultimately show ?thesis by (simp add: starts_with_def numeral_eq_Suc)
qed

lemma starts_four_length: "starts_with ''    '' u \<Longrightarrow> 4 \<le> length u"
  by (auto simp: starts_with_def dest: arg_cong [where f = length])

lemma indents_append: "u \<noteq> [] \<Longrightarrow> last u \<noteq> CHR '' '' \<Longrightarrow> indents (u @ v) = indents u + indents v"
proof (induction u rule: indents.induct)
  case (1 u)
  show ?case
  proof (cases "starts_with ''    '' u")
    case True
    then have len: "4 \<le> length u" by (rule starts_four_length)
    have "drop 4 u \<noteq> []"
    proof
      assume "drop 4 u = []"
      with len have "take 4 u = u" by simp
      then have "u = ''    ''" using True by (simp add: starts_with_def)
      then show False using 1(4) by simp
    qed
    moreover have "last (drop 4 u) = last u" using calculation by (simp add: last_drop)
    ultimately have ih: "indents (drop 4 u @ v) = indents (drop 4 u) + indents v" using 1(1) True 1(3,4) by simp
    have "indents (u @ v) = Suc (indents (drop 4 u @ v))"
      using True 1(3,4) len by (subst indents.simps) (simp add: four_blanks_inside)
    moreover have "indents u = Suc (indents (drop 4 u))" using True 1(3) by (subst indents.simps) simp
    ultimately show ?thesis using ih by simp
  next
    case False
    have ih: "indents (tl u @ v) = indents (tl u) + indents v"
    proof (cases "tl u = []")
      case False
      then show ?thesis using 1(2) \<open>\<not> starts_with ''    '' u\<close> 1(3,4) by (simp add: last_tl)
    qed simp
    have "indents (u @ v) = indents (tl u @ v)"
      using False 1(3,4) by (subst indents.simps) (simp add: four_blanks_inside)
    moreover have "indents u = indents (tl u)" using False 1(3) by (subst indents.simps) simp
    ultimately show ?thesis using ih by simp
  qed
qed

lemma clean_not_blank: "clean w \<Longrightarrow> hd w \<noteq> CHR '' '' \<and> last w \<noteq> CHR '' ''"
  by (auto simp: clean_def is_ws_def)

lemma indents_operation: "plain_op n a \<Longrightarrow> indents (operation_str (Op n a s ts)) = 0"
proof (cases a)
  case (Some w)
  assume p: "plain_op n a"
  then have w: "clean n" "clean w" using Some by (auto simp: plain_op_def)
  have pipe: "indents ('' | '' @ w) = 0"
  proof -
    obtain c cs where c: "w = c # cs" "c \<noteq> CHR '' ''" using w(2) clean_not_blank [of w] by (cases w) (auto simp: clean_def)
    have "indents ('' | '' @ w) = indents (CHR ''|'' # CHR '' '' # w)" by (subst indents.simps) (simp add: starts_with_def)
    also have "\<dots> = indents (CHR '' '' # w)" by (rule indents_nonspace) simp
    also have "\<dots> = indents w" using c by (subst indents.simps) (simp add: starts_with_def)
    finally show ?thesis using w(2) by (simp add: clean_def)
  qed
  have "indents (n @ ('' | '' @ w)) = indents n + indents ('' | '' @ w)"
    by (rule indents_append) (use w(1) clean_not_blank in \<open>auto simp: clean_def\<close>)
  then show ?thesis using Some pipe w(1) by (simp add: operation_str_def clean_def)
qed (simp add: operation_str_def plain_op_def clean_def)

lemma strip_pad: "clean w \<Longrightarrow> strip (replicate k (CHR '' '') @ w @ replicate j (CHR '' '')) = w"
proof -
  assume w: "clean w"
  have sp: "dropWhile is_ws (replicate k (CHR '' '') @ v) = dropWhile is_ws v" for k v
    by (induction k) (auto simp: is_ws_def)
  have "dropWhile is_ws (w @ v) = w @ v" for v using w by (cases w) (auto simp: clean_def)
  moreover have "dropWhile is_ws (rev w) = rev w" using w by (cases w rule: rev_cases) (auto simp: clean_def)
  ultimately show ?thesis by (simp add: strip_def sp)
qed

lemma create_operation_line:
  assumes "plain_op n a"
  shows "create_operation (split_char (CHR ''|'') (replicate k (CHR '' '') @ operation_str (Op n a s ts)))
    = Inr \<lparr>op_name = n, op_args = a, op_stats = None, op_children = []\<rparr>"
proof (cases a)
  case None
  have "CHR ''|'' \<notin> set (replicate k (CHR '' '') @ n)" using assms by (auto simp: plain_op_def clean_def)
  then have "split_char (CHR ''|'') (replicate k (CHR '' '') @ n) = [replicate k (CHR '' '') @ n]" by (rule split_char_no_sep)
  moreover have "strip (replicate k (CHR '' '') @ n) = n" using strip_pad [of n k 0] assms by (simp add: plain_op_def)
  ultimately show ?thesis using None by (simp add: operation_str_def create_operation_def Let_def)
next
  case (Some w)
  have w: "clean n" "clean w" "\<not> has_sub ''Records produced'' w" using assms Some by (auto simp: plain_op_def)
  have "split_char (CHR ''|'') ((replicate k (CHR '' '') @ n @ '' '') @ CHR ''|'' # ('' '' @ w)) =
      (replicate k (CHR '' '') @ n @ '' '') # split_char (CHR ''|'') ('' '' @ w)"
    by (rule split_char_append) (use w in \<open>auto simp: clean_def\<close>)
  moreover have "split_char (CHR ''|'') ('' '' @ w) = ['' '' @ w]"
    by (rule split_char_no_sep) (use w in \<open>auto simp: clean_def\<close>)
  moreover have "strip (replicate k (CHR '' '') @ n @ '' '') = n" using strip_pad [of n k 1] w(1) by simp
  moreover have "strip ('' '' @ w) = w" using strip_pad [of w 1 0] w(2) by simp
  moreover have "\<not> has_sub ''Records produced'' ('' '' @ w)" using w(3) by (simp add: starts_with_def)
  ultimately show ?thesis using Some by (simp add: operation_str_def create_operation_def Let_def)
qed

section \<open>The store that a plan leaves\<close>

text \<open>The operations of a tree in the order of its lines, the first at index \<open>n\<close>, and the indices of a list of siblings.\<close>

fun flat :: "nat \<Rightarrow> operation \<Rightarrow> plan_op list"
  and flats :: "nat \<Rightarrow> operation list \<Rightarrow> plan_op list"
  and roots :: "nat \<Rightarrow> operation list \<Rightarrow> nat list" where
  "flat n (Op a b c ts) = \<lparr>op_name = a, op_args = b, op_stats = c, op_children = roots (Suc n) ts\<rparr> # flats (Suc n) ts"
| "flats n [] = []"
| "flats n (t # ts) = flat n t @ flats (n + length (flat n t)) ts"
| "roots n [] = []"
| "roots n (t # ts) = n # roots (n + length (flat n t)) ts"

definition add_children :: "nat \<Rightarrow> nat list \<Rightarrow> plan_op list \<Rightarrow> plan_op list" where
  "add_children i cs ops = ops[i := (ops ! i)\<lparr>op_children := op_children (ops ! i) @ cs\<rparr>]"

lemma add_children_simps [simp]:
  "i < length ops \<Longrightarrow> add_children i [] ops = ops"
  "length (add_children i cs ops) = length ops"
  "i < length ops \<Longrightarrow> add_children i ds (add_children i cs ops) = add_children i (cs @ ds) ops"
  "i < length ops \<Longrightarrow> add_children i cs (ops @ ps) = add_children i cs ops @ ps"
  by (simp_all add: add_children_def nth_append list_update_append)

lemma add_child_children: "with_child i c ops = add_children i [c] ops"
  by (simp add: with_child_def add_children_def)

text \<open>Where the reader stands before and after a tree at level \<open>l\<close> whose ancestors are \<open>K\<close>, the parent in front.\<close>

definition ready :: "nat \<Rightarrow> nat list \<Rightarrow> tree_state \<Rightarrow> bool" where
  "ready l K st = (K \<noteq> [] \<and> length K = l \<and> hd K < length (ts_ops st) \<and>
     (ts_level st = int l - 1 \<and> ts_current st = Some (hd K) \<and> ts_stack st = tl K \<or>
      int l < ts_level st \<and> (\<exists>X. ts_stack st = X @ K) \<and> int (length (ts_stack st)) = ts_level st))"

definition after :: "nat \<Rightarrow> nat list \<Rightarrow> tree_state \<Rightarrow> bool" where
  "after l K st = ((\<exists>X. ts_stack st = X @ K) \<and> int (length (ts_stack st)) = ts_level st \<and> int l \<le> ts_level st)"

lemma pop_times_append: "K \<noteq> [] \<Longrightarrow> ts_stack st = X @ K \<Longrightarrow>
    pop_times (Suc (length X)) st = Inr (st\<lparr>ts_stack := tl K, ts_current := Some (hd K)\<rparr>)"
proof (induction X arbitrary: st)
  case Nil
  then show ?case by (cases K) simp_all
next
  case (Cons x X)
  then show ?case by simp
qed

lemma next_level_child:
  assumes "create_operation (split_char (CHR ''|'') line) = Inr p" "ts_current st = Some i" "i < length (ts_ops st)"
  shows "next_level line st = Inr (st\<lparr>ts_ops := add_children i [length (ts_ops st)] (ts_ops st) @ [p],
    ts_stack := i # ts_stack st, ts_current := Some (length (ts_ops st)), ts_level := ts_level st + 1\<rparr>)"
  using assms by (simp add: next_level_def new_op_def append_child_def add_child_children)

lemma line_of_child:
  assumes r: "ready l K st" and i: "indents line = l" and c: "create_operation (split_char (CHR ''|'') line) = Inr p"
  shows "plan_line line st = Inr (st\<lparr>ts_ops := add_children (hd K) [length (ts_ops st)] (ts_ops st) @ [p],
    ts_stack := K, ts_current := Some (length (ts_ops st)), ts_level := int l\<rparr>)"
proof (cases "ts_level st = int l - 1")
  case True
  then have "ts_current st = Some (hd K)" "ts_stack st = tl K" "hd K < length (ts_ops st)" "K \<noteq> []"
    using r by (auto simp: ready_def)
  then show ?thesis using True i next_level_child [OF c] by (simp add: plan_line_def)
next
  case False
  then obtain X where X: "ts_stack st = X @ K" "int (length (ts_stack st)) = ts_level st" "int l < ts_level st"
    "K \<noteq> []" "length K = l" "hd K < length (ts_ops st)" using r by (auto simp: ready_def)
  have n: "nat (ts_level st - int l + 1) = Suc (length X)" using X by simp
  have "level_back (int l) st = Inr (st\<lparr>ts_stack := tl K, ts_current := Some (hd K), ts_level := int l - 1\<rparr>)"
    using pop_times_append [OF X(4,1)] X by (simp add: level_back_def n)
  then show ?thesis using X i next_level_child [OF c] by (simp add: plan_line_def)
qed

text \<open>The lines of a tree, and of a list of siblings, put exactly their operations behind the store and their indices below the parent.\<close>

definition reads_tree :: "operation \<Rightarrow> bool" where
  "reads_tree t = (\<forall>l K st rest. plain t \<longrightarrow> leaves_last t \<longrightarrow> ready l K st \<longrightarrow>
     (\<exists>st'. plan_lines (render l t @ rest) st = plan_lines rest st' \<and> after l K st' \<and>
        (o_children t \<noteq> [] \<longrightarrow> int l < ts_level st') \<and>
        ts_ops st' = add_children (hd K) [length (ts_ops st)] (ts_ops st) @ flat (length (ts_ops st)) t))"

lemma read_forest:
  assumes "\<And>t. t \<in> set ts \<Longrightarrow> reads_tree t" "list_all plain ts" "list_all leaves_last ts"
    "list_all (\<lambda>t. o_children t \<noteq> []) (butlast ts)" "ready l K st"
  shows "\<exists>st'. plan_lines (concat (map (render l) ts) @ rest) st = plan_lines rest st' \<and> (ts \<noteq> [] \<longrightarrow> after l K st') \<and>
    (ts = [] \<longrightarrow> st' = st) \<and>
    ts_ops st' = add_children (hd K) (roots (length (ts_ops st)) ts) (ts_ops st) @ flats (length (ts_ops st)) ts"
  using assms
proof (induction ts arbitrary: st)
  case Nil
  then show ?case by (auto simp: ready_def)
next
  case (Cons t ts)
  let ?n = "length (ts_ops st)"
  have K: "hd K < ?n" "K \<noteq> []" "length K = l" using Cons.prems(5) by (auto simp: ready_def)
  have t: "reads_tree t" "plain t" "leaves_last t" using Cons.prems(1-3) by simp_all
  obtain st1 where st1: "plan_lines (render l t @ concat (map (render l) ts) @ rest) st = plan_lines (concat (map (render l) ts) @ rest) st1"
    "after l K st1" "o_children t \<noteq> [] \<longrightarrow> int l < ts_level st1"
    "ts_ops st1 = add_children (hd K) [?n] (ts_ops st) @ flat ?n t"
    using t Cons.prems(5) unfolding reads_tree_def by blast
  show ?case
  proof (cases "ts = []")
    case True
    then show ?thesis using st1 by auto
  next
    case False
    then have "o_children t \<noteq> []" "list_all (\<lambda>t. o_children t \<noteq> []) (butlast ts)" using Cons.prems(4) by simp_all
    moreover have "ready l K st1" using st1 K calculation(1) by (auto simp: ready_def after_def)
    ultimately obtain st2 where st2: "plan_lines (concat (map (render l) ts) @ rest) st1 = plan_lines rest st2" "after l K st2"
      "ts_ops st2 = add_children (hd K) (roots (length (ts_ops st1)) ts) (ts_ops st1) @ flats (length (ts_ops st1)) ts"
      using Cons.IH [of st1] Cons.prems(1-3) False by auto
    then show ?thesis using st1(1,4) K by auto
  qed
qed

lemma read_operation: "reads_tree t"
proof (induction t)
  case (Op n a s ts)
  show ?case unfolding reads_tree_def
  proof (intro allI impI)
    fix l K st rest
    let ?t = "Op n a s ts"
    assume p: "plain ?t" and q: "leaves_last ?t" and r: "ready l K st"
    let ?line = "replicate (4 * l) (CHR '' '') @ operation_str ?t" and ?k = "length (ts_ops st)"
    let ?p = "\<lparr>op_name = n, op_args = a, op_stats = None, op_children = []\<rparr>"
    define st1 where "st1 = st\<lparr>ts_ops := add_children (hd K) [?k] (ts_ops st) @ [?p], ts_stack := K, ts_current := Some ?k, ts_level := int l\<rparr>"
    have "indents ?line = l" using p indents_operation by (simp add: indents_tab)
    moreover have "create_operation (split_char (CHR ''|'') ?line) = Inr ?p" using p create_operation_line by simp
    ultimately have line: "plan_line ?line st = Inr st1" unfolding st1_def by (rule line_of_child [OF r])
    have K: "K \<noteq> []" "length K = l" using r by (auto simp: ready_def)
    have r1: "ready (Suc l) (?k # K) st1" using K by (simp add: ready_def st1_def)
    have prems: "list_all plain ts" "list_all leaves_last ts" "list_all (\<lambda>t. o_children t \<noteq> []) (butlast ts)"
      using p q by simp_all
    obtain st2 where st2: "plan_lines (concat (map (render (Suc l)) ts) @ rest) st1 = plan_lines rest st2"
      "ts \<noteq> [] \<longrightarrow> after (Suc l) (?k # K) st2" "ts = [] \<longrightarrow> st2 = st1"
      "ts_ops st2 = add_children ?k (roots (length (ts_ops st1)) ts) (ts_ops st1) @ flats (length (ts_ops st1)) ts"
      using read_forest [OF Op.IH prems r1, of rest] by auto
    have ops: "ts_ops st2 = add_children (hd K) [?k] (ts_ops st) @ flat ?k ?t"
      using st2(4) p by (simp add: st1_def add_children_def nth_append list_update_append)
    have "after l K st2 \<and> (ts \<noteq> [] \<longrightarrow> int l < ts_level st2)"
    proof (cases "ts = []")
      case True
      then show ?thesis using st2(3) K by (simp add: after_def st1_def)
    next
      case False
      then obtain X where "ts_stack st2 = X @ ?k # K" "int (length (ts_stack st2)) = ts_level st2" "int (Suc l) \<le> ts_level st2"
        using st2(2) by (auto simp: after_def)
      then show ?thesis by (auto simp: after_def intro: exI [of _ "X @ [?k]"])
    qed
    then show "\<exists>st'. plan_lines (render l ?t @ rest) st = plan_lines rest st' \<and> after l K st' \<and>
        (o_children ?t \<noteq> [] \<longrightarrow> int l < ts_level st') \<and>
        ts_ops st' = add_children (hd K) [?k] (ts_ops st) @ flat ?k ?t"
      using line st2(1) ops by (intro exI [of _ st2]) simp
  qed
qed

section \<open>The tree that a store holds\<close>

fun nodes :: "operation \<Rightarrow> nat" where
  "nodes (Op n a s ts) = Suc (sum_list (map nodes ts))"

lemma length_flat: "length (flat n t) = nodes t"
  and length_flats: "length (flats n ts) = sum_list (map nodes ts)"
  and length_roots: "length (roots n ts) = length ts"
  by (induction n t and n ts and n ts rule: flat_flats_roots.induct) simp_all

lemma read_roots:
  assumes "\<And>t pre post. t \<in> set ts \<Longrightarrow> read_tree m (pre @ flat (length pre) t @ post) (length pre) = t"
  shows "map (read_tree m (pre @ flats (length pre) ts @ post)) (roots (length pre) ts) = ts"
  using assms
proof (induction ts arbitrary: pre)
  case (Cons t ts)
  have "read_tree m (pre @ flat (length pre) t @ flats (length pre + length (flat (length pre) t)) ts @ post) (length pre) = t"
    using Cons.prems by simp
  moreover have "map (read_tree m ((pre @ flat (length pre) t) @ flats (length (pre @ flat (length pre) t)) ts @ post))
      (roots (length (pre @ flat (length pre) t)) ts) = ts"
    using Cons.prems by (intro Cons.IH) auto
  ultimately show ?case by simp
qed simp

lemma nodes_child: "t \<in> set ts \<Longrightarrow> nodes t \<le> sum_list (map nodes ts)"
  by (induction ts) auto

lemma read_flat: "nodes t \<le> Suc m \<Longrightarrow> read_tree m (pre @ flat (length pre) t @ post) (length pre) = t"
proof (induction t arbitrary: m pre post)
  case (Op n a s ts)
  show ?case
  proof (cases m)
    case 0
    then have "ts = []" using Op.prems by (cases ts; cases "hd ts") auto
    then show ?thesis using 0 by (simp add: nth_append)
  next
    case (Suc k)
    have "map (read_tree k ((pre @ [p]) @ flats (length (pre @ [p])) ts @ post)) (roots (length (pre @ [p])) ts) = ts" for p
    proof (rule read_roots)
      fix t pre post assume "t \<in> set ts"
      then show "read_tree k (pre @ flat (length pre) t @ post) (length pre) = t"
        using Op.prems Suc nodes_child [of t ts] by (intro Op.IH) auto
    qed
    then show ?thesis using Suc by (simp add: nth_append)
  qed
qed

lemma render_Cons: "render l t \<noteq> []"
  by (cases t) simp

lemma operation_tree_render:
  assumes "plain t" "leaves_last t" "o_children t \<noteq> []"
  shows "operation_tree (render 0 t) = Inr t"
proof (cases t)
  case (Op n a s ts)
  let ?p = "\<lparr>op_name = n, op_args = a, op_stats = None, op_children = []\<rparr>"
  let ?st = "\<lparr>ts_ops = [?p], ts_stack = [], ts_current = Some 0, ts_level = 0\<rparr>"
  have p: "plain_op n a" "s = None" "list_all plain ts" "list_all leaves_last ts" "list_all (\<lambda>t. o_children t \<noteq> []) (butlast ts)" "ts \<noteq> []"
    using assms Op by simp_all
  have "indents (operation_str t) = 0" using indents_operation p(1) Op by simp
  moreover have "create_operation (split_char (CHR ''|'') (operation_str t)) = Inr ?p"
    using create_operation_line [OF p(1), of 0] Op by simp
  ultimately have first: "plan_line (operation_str t) tree_init = Inr ?st"
    by (simp add: plan_line_def same_level_def tree_init_def new_op_def)
  have "ready 1 [0] ?st" by (simp add: ready_def)
  then obtain st where st: "plan_lines (concat (map (render 1) ts)) ?st = Inr st" "after 1 [0] st"
    "ts_ops st = add_children 0 (roots 1 ts) [?p] @ flats 1 ts"
    using read_forest [OF read_operation p(3-5), of 1 "[0]" ?st "[]"] p(6) by auto
  have ops: "ts_ops st = flat 0 t" using st(3) Op p(2) by (simp add: add_children_def)
  have "read_tree (length (flat 0 t)) (flat 0 t) 0 = t"
    using read_flat [of t "length (flat 0 t)" "[]" "[]"] by (simp add: length_flat)
  then have "read_tree (length (ts_ops st)) (ts_ops st) 0 = t" using ops by simp
  moreover have "ts_stack st \<noteq> []" "last (ts_stack st) = 0" using st(2) by (auto simp: after_def)
  ultimately show ?thesis using first st(1) Op by (simp add: operation_tree_def)
qed

section \<open>The text of a plan\<close>

fun one_line :: "operation \<Rightarrow> bool" where
  "one_line (Op n a s ts) = (CHR 0x0A \<notin> set (operation_str (Op n a s ts)) \<and> operation_str (Op n a s ts) \<noteq> [] \<and> list_all one_line ts)"

definition lines_ok :: "string list \<Rightarrow> bool" where
  "lines_ok ls = (ls \<noteq> [] \<and> (\<forall>l \<in> set ls. l \<noteq> [] \<and> CHR 0x0A \<notin> set l))"

lemma split_join_lines: "lines_ok ls \<Longrightarrow> split_char (CHR 0x0A) (join_with [CHR 0x0A] ls) = ls"
proof (induction ls)
  case (Cons l ls)
  show ?case
  proof (cases ls)
    case Nil
    then show ?thesis using Cons.prems by (simp add: lines_ok_def split_char_no_sep)
  next
    case (Cons l' ls')
    then show ?thesis using Cons.IH Cons.prems split_char_append [of "CHR 0x0A" l] by (simp add: lines_ok_def)
  qed
qed (simp add: lines_ok_def)

lemma splitlines_join: "lines_ok ls \<Longrightarrow> str_lines (join_with [CHR 0x0A] ls) = ls"
  by (simp add: str_lines_def split_join_lines Let_def lines_ok_def)

lemma render_lines_ok: "one_line t \<Longrightarrow> lines_ok (render l t)"
proof (induction t arbitrary: l)
  case (Op n a s ts)
  have "\<forall>t \<in> set ts. \<forall>l' \<in> set (render (Suc l) t). l' \<noteq> [] \<and> CHR 0x0A \<notin> set l'"
    using Op by (auto simp: list_all_iff lines_ok_def)
  then show ?case using Op.prems by (auto simp: lines_ok_def)
qed

lemma render_shift: "map (\<lambda>x. ''    '' @ x) (render l t) = render (Suc l) t"
proof (induction t arbitrary: l)
  case (Op n a s ts)
  have "map (\<lambda>x. ''    '' @ x) (concat (map (render (Suc l)) ts)) = concat (map (render (Suc (Suc l))) ts)"
    using Op.IH by (induction ts) auto
  moreover have "''    '' @ replicate (4 * l) (CHR '' '') = replicate (4 * Suc l) (CHR '' '')"
    by (simp add: numeral_eq_Suc)
  ultimately show ?case by simp
qed

lemma join_with_Cons: "ls \<noteq> [] \<Longrightarrow> join_with sep (l # ls) = l @ sep @ join_with sep ls"
  by (cases ls) simp_all

lemma plan_str_Op: "plan_str (Op n a s ts) = operation_str (Op n a s ts) @
    (if ts = [] then [] else [CHR 0x0A] @ indent_children (map plan_str ts))"
  by (simp add: plan_str_def [abs_def])

lemma plan_str_render: "one_line t \<Longrightarrow> plan_str t = join_with [CHR 0x0A] (render 0 t)"
proof (induction t)
  case (Op n a s ts)
  have ok: "\<And>t. t \<in> set ts \<Longrightarrow> one_line t" using Op.prems by (auto simp: list_all_iff)
  show ?case
  proof (cases "ts = []")
    case False
    have "map (\<lambda>l. ''    '' @ l) (str_lines (plan_str t)) = render 1 t" if "t \<in> set ts" for t
      using Op.IH [OF that] ok [OF that] render_lines_ok render_shift [of 0] by (simp add: splitlines_join)
    then have "map (\<lambda>c. map (\<lambda>l. ''    '' @ l) (str_lines c)) (map plan_str ts) = map (render 1) ts"
      by (subst map_map) (auto intro: map_cong simp del: append.simps)
    then have "indent_children (map plan_str ts) = join_with [CHR 0x0A] (concat (map (render 1) ts))"
      unfolding indent_children_def by (simp only:)
    moreover have "concat (map (render 1) ts) \<noteq> []" using False render_Cons by (cases ts) simp_all
    ultimately show ?thesis using False by (simp add: plan_str_Op join_with_Cons)
  qed (simp add: plan_str_Op)
qed

section \<open>Equality\<close>

fun bare :: "operation \<Rightarrow> operation" where
  "bare (Op n a s ts) = Op n a None (map bare ts)"

lemma zip_calls: "list_all (\<lambda>(f, y). f y) (zip (map g xs) ys) = list_all (\<lambda>(x, y). g x y) (zip xs ys)"
  by (simp add: zip_map1 list_all_iff) (auto split: prod.splits)

lemma map_eq_zip:
  "length xs = length ys \<Longrightarrow> (\<And>x y. x \<in> set xs \<Longrightarrow> P x y = (f x = f y)) \<Longrightarrow> list_all (\<lambda>(x, y). P x y) (zip xs ys) = (map f xs = map f ys)"
  by (induction xs ys rule: list_induct2) auto

section \<open>Siblings without children\<close>

lemma operation_line:
  assumes "plain_op n a"
  shows "indents (replicate (4 * l) (CHR '' '') @ operation_str (Op n a s ts)) = l"
    and "create_operation (split_char (CHR ''|'') (replicate (4 * l) (CHR '' '') @ operation_str (Op n a s ts)))
      = Inr \<lparr>op_name = n, op_args = a, op_stats = None, op_children = []\<rparr>"
  using assms by (simp_all add: indents_tab indents_operation create_operation_line)

lemma same_level_sibling:
  assumes "plain_op n a" "ts_level st = int l" "ts_stack st = i # is" "ts_current st \<noteq> None" "i < length (ts_ops st)"
  shows "plan_line (replicate (4 * l) (CHR '' '') @ operation_str (Op n a s ts)) st =
    Inr (st\<lparr>ts_ops := add_children i [length (ts_ops st)] (ts_ops st) @ [\<lparr>op_name = n, op_args = a, op_stats = None, op_children = []\<rparr>],
      ts_stack := is, ts_current := Some (length (ts_ops st))\<rparr>)"
  using assms by (auto simp: plan_line_def operation_line same_level_def new_op_def append_child_def add_child_children)

lemma first_line:
  assumes "plain_op n a"
  shows "plan_line (operation_str (Op n a s ts)) tree_init =
    Inr \<lparr>ts_ops = [\<lparr>op_name = n, op_args = a, op_stats = None, op_children = []\<rparr>], ts_stack = [], ts_current = Some 0, ts_level = 0\<rparr>"
  using operation_line [OF assms, of 0] by (simp add: plan_line_def same_level_def tree_init_def new_op_def)

lemma child_line:
  assumes "plain_op n a" "ts_level st = int l" "ts_current st = Some i" "i < length (ts_ops st)"
  shows "plan_line (replicate (4 * Suc l) (CHR '' '') @ operation_str (Op n a s ts)) st =
    Inr (st\<lparr>ts_ops := add_children i [length (ts_ops st)] (ts_ops st) @ [\<lparr>op_name = n, op_args = a, op_stats = None, op_children = []\<rparr>],
      ts_stack := i # ts_stack st, ts_current := Some (length (ts_ops st)), ts_level := int (Suc l)\<rparr>)"
  using assms next_level_child [OF operation_line(2) [OF assms(1), of "Suc l" s ts]]
  by (simp add: plan_line_def operation_line del: mult_Suc_right replicate_Suc)

section \<open>Properties\<close>

text \<open>C39: The text of a plan is read back: for a plan of more than one operation in which no operation without children is followed by a sibling,
  whose names and arguments hold no bar, line feed or run of four blanks, \<open>ExecutionPlan\<close> on the lines of \<open>str(plan)\<close> gives the plan.\<close>

theorem plan_text_is_read_back:
  assumes "plain t" "one_line t" "leaves_last t" "o_children t \<noteq> []"
  shows "ExecutionPlan (PList (map PStr (split_char (CHR 0x0A) (plan_str t)))) = Inr t"
proof -
  have "split_char (CHR 0x0A) (plan_str t) = render 0 t"
    using assms(2) by (simp add: plan_str_render split_join_lines render_lines_ok)
  moreover have "mapE text_line (map PStr ls) = Inr ls" for ls by (induction ls) (simp_all add: text_line_def)
  moreover obtain l ls where ls: "render 0 t = l # ls" using render_Cons by (meson list.exhaust)
  moreover have "ExecutionPlan (PList (map PStr (l # ls))) = bindE (mapE text_line (map PStr (l # ls))) operation_tree"
    by (simp add: ExecutionPlan_def)
  ultimately show ?thesis using operation_tree_render [OF assms(1,3,4)] by (simp del: list.map)
qed

theorem plan_text_is_read_back_witness:
  "ExecutionPlan (PList (map PStr (split_char (CHR 0x0A)
     (plan_str (Op ''Results'' None None [Op ''Scan'' (Some ''(t:Team)'') None []]))))) =
   Inr (Op ''Results'' None None [Op ''Scan'' (Some ''(t:Team)'') None []])"
  by (rule plan_text_is_read_back) (code_simp, code_simp, code_simp, simp)

text \<open>Two plans are equal exactly when their trees are, without the statistics of a profile.\<close>

theorem plans_equal_up_to_statistics: "compare_operations a b \<longleftrightarrow> bare a = bare b"
proof (induction a arbitrary: b)
  case (Op n a s ts)
  obtain n' a' s' us where b: "b = Op n' a' s' us" by (cases b)
  show ?case
  proof (cases "length ts = length us")
    case True
    have "list_all (\<lambda>(x, y). compare_operations x y) (zip ts us) = (map bare ts = map bare us)"
      by (rule map_eq_zip [OF True]) (rule Op.IH)
    then show ?thesis using True b by (auto simp: operation_eq_def child_count_def zip_calls)
  next
    case False
    then have "map bare ts \<noteq> map bare us" by (metis length_map)
    then show ?thesis using False b by (simp add: child_count_def)
  qed
qed

text \<open>The plan of a single operation cannot be read: the stack is empty at its end.\<close>

theorem single_operation_raises:
  assumes "plain_op n a"
  shows "ExecutionPlan (PList (map PStr (render 0 (Op n a None [])))) = Inl (Exc IndexError ''list index out of range'')"
  using first_line [OF assms] by (simp add: ExecutionPlan_def text_line_def operation_tree_def)

theorem single_operation_raises_witness:
  "ExecutionPlan (PList (map PStr (render 0 (Op ''Results'' None None [])))) = Inl (Exc IndexError ''list index out of range'')"
  by (rule single_operation_raises) code_simp

text \<open>A sibling after an operation without children takes its parent off the stack, so that the next one becomes a child of the grandparent.\<close>

theorem third_leaf_goes_to_grandparent:
  assumes "plain_op q v" "plain_op r w" "plain_op p x" "plain_op a y" "plain_op b z" "plain_op c u"
  shows "operation_tree (render 0 (Op q v None [Op r w None [Op p x None [Op a y None [], Op b z None [], Op c u None []]]])) =
    Inr (Op q v None [Op r w None [Op p x None [Op a y None [], Op b z None []], Op c u None []]])"
proof -
  note lines = first_line [OF assms(1)] child_line [OF assms(2)] child_line [OF assms(3)] child_line [OF assms(4)]
    same_level_sibling [OF assms(5)] same_level_sibling [OF assms(6)]
  show ?thesis
    by (simp add: operation_tree_def lines add_children_def nth_append del: mult_Suc_right replicate_Suc)
qed

theorem third_leaf_goes_to_grandparent_witness:
  "operation_tree (render 0 (Op ''Results'' None None [Op ''Project'' None None [Op ''Join'' None None
     [Op ''Scan'' (Some ''(a)'') None [], Op ''Scan'' (Some ''(b)'') None [], Op ''Scan'' (Some ''(c)'') None []]]])) =
   Inr (Op ''Results'' None None [Op ''Project'' None None [Op ''Join'' None None
     [Op ''Scan'' (Some ''(a)'') None [], Op ''Scan'' (Some ''(b)'') None []], Op ''Scan'' (Some ''(c)'') None []]])"
  by (rule third_leaf_goes_to_grandparent) code_simp+

end
