(* ===== verification/GraphData.thy ===== *)
theory GraphData
  imports GraphPlan Callbacks "HOL-Library.Char_ord" "HOL-Library.List_Lexorder"
begin

text \<open>
  Nodes, edges and paths of the graph module (\<open>redis/commands/graph/node.py\<close>, \<open>edge.py\<close>, \<open>path.py\<close>), their texts and their equality.
  \<open>repr\<close> is Python's \<open>str\<close> on floats, containers and objects, \<open>veq\<close> its equality on values of properties.
\<close>

section \<open>Values\<close>

text \<open>
  A value of a query: a plain value, a list, a dictionary, a node (id, alias, labels, properties), an edge (source, relation, destination, id,
  properties), a path (nodes and edges), or a coroutine that nobody awaited.
\<close>

datatype gval =
    GVal pyval
  | GList "gval list"
  | GMap "(pyval \<times> gval) list"
  | GNode pyval pyval "string list option" "(pyval \<times> gval) list"
  | GEdge gval gval gval pyval "(pyval \<times> gval) list"
  | GPath "gval list" "gval list"
  | GCoroutine

abbreviation GNone :: gval where
  "GNone \<equiv> GVal PNone"

abbreviation GStr :: "string \<Rightarrow> gval" where
  "GStr s \<equiv> GVal (PStr s)"

text \<open>Dictionaries as Python keeps them: a key that is there keeps its place.\<close>

fun gd_get :: "pyval \<Rightarrow> (pyval \<times> 'v) list \<Rightarrow> 'v option" where
  "gd_get k [] = None"
| "gd_get k ((k', v) # d) = (if py_key_eq k k' then Some v else gd_get k d)"

fun gd_set :: "pyval \<Rightarrow> 'v \<Rightarrow> (pyval \<times> 'v) list \<Rightarrow> (pyval \<times> 'v) list" where
  "gd_set k v [] = [(k, v)]"
| "gd_set k v ((k', v') # d) = (if py_key_eq k k' then (k', v) # d else (k', v') # gd_set k v d)"

text \<open>A value used as a key; nodes, edges and paths define \<open>__eq__\<close> only and cannot be hashed.\<close>

definition key_of :: "gval \<Rightarrow> exc + pyval" where
  "key_of v = (case v of GVal k \<Rightarrow> (if hashable k then Inr k else Inl unhashable_error) | _ \<Rightarrow> Inl unhashable_error)"

fun gtruthy :: "gval \<Rightarrow> bool" where
  "gtruthy (GVal v) = truthy v"
| "gtruthy (GList xs) = (xs \<noteq> [])"
| "gtruthy (GMap d) = (d \<noteq> [])"
| "gtruthy _ = True"

definition gtext :: "(gval \<Rightarrow> string) \<Rightarrow> gval \<Rightarrow> string" where
  "gtext repr v = (case v of
      GVal (PStr s) \<Rightarrow> s
    | GVal (PInt n) \<Rightarrow> dec_int n
    | GVal PNone \<Rightarrow> ''None''
    | GVal (PBool b) \<Rightarrow> (if b then ''True'' else ''False'')
    | _ \<Rightarrow> repr v)"

section \<open>Nodes and edges\<close>

text \<open>\<open>Node(node_id, alias, label, properties)\<close>: the labels are those given without the empty ones.\<close>

definition node_labels :: "gval \<Rightarrow> exc + string list option" where
  "node_labels label = (case label of
      GVal PNone \<Rightarrow> Inr None
    | GVal (PStr s) \<Rightarrow> Inr (if s = [] then None else Some [s])
    | GList ls \<Rightarrow>
        (let ls' = filter (\<lambda>l. l \<noteq> GStr []) ls in
         if ls' = [] then Inr None
         else bindE (mapE (\<lambda>l. case l of GVal (PStr s) \<Rightarrow> Inr s | _ \<Rightarrow> Inl (Exc AssertionError ''label should be either None, string or a list of strings'')) ls')
           (\<lambda>ss. Inr (Some ss)))
    | _ \<Rightarrow> Inl (Exc AssertionError ''label should be either None, string or a list of strings''))"

definition Node :: "pyval \<Rightarrow> pyval \<Rightarrow> gval \<Rightarrow> (pyval \<times> gval) list \<Rightarrow> exc + gval" where
  "Node node_id alias_name label properties = bindE (node_labels label) (\<lambda>ls. Inr (GNode node_id alias_name ls properties))"

definition Edge :: "gval \<Rightarrow> gval \<Rightarrow> gval \<Rightarrow> pyval \<Rightarrow> (pyval \<times> gval) list \<Rightarrow> exc + gval" where
  "Edge src_node relation dest_node edge_id properties =
     (if src_node = GNone \<or> dest_node = GNone then Inl (Exc AssertionError ''Both src_node & dest_node must be provided'')
      else Inr (GEdge src_node (if gtruthy relation then relation else GStr []) dest_node edge_id properties))"

text \<open>\<open>sorted(properties.items())\<close>, for names that are texts, and the properties in braces.\<close>

definition quoted_value :: "(gval \<Rightarrow> string) \<Rightarrow> gval \<Rightarrow> exc + string" where
  "quoted_value repr v = (case v of
      GVal p \<Rightarrow> bindE (quote_string p) (\<lambda>q. Inr (gtext repr (GVal q)))
    | _ \<Rightarrow> Inr (gtext repr v))"

definition property_name :: "pyval \<times> gval \<Rightarrow> exc + (string \<times> gval)" where
  "property_name p = (case fst p of PStr s \<Rightarrow> Inr (s, snd p) | _ \<Rightarrow> Inl (Exc TypeError ''unsupported operand types''))"

definition props_text :: "(gval \<Rightarrow> string) \<Rightarrow> (pyval \<times> gval) list \<Rightarrow> exc + string" where
  "props_text repr ps =
     (if ps = [] then Inr []
      else bindE (mapE property_name ps) (\<lambda>nps.
        bindE (mapE (\<lambda>(k, v). bindE (quoted_value repr v) (\<lambda>q. Inr (k @ '':'' @ q))) (sort_key fst nps)) (\<lambda>ts.
        Inr (''{'' @ join_with '','' ts @ ''}''))))"

definition entity_to_string :: "(gval \<Rightarrow> string) \<Rightarrow> gval \<Rightarrow> exc + string" where
  "entity_to_string repr g = (case g of
      GNode _ _ _ ps \<Rightarrow> props_text repr ps
    | GEdge _ _ _ _ ps \<Rightarrow> props_text repr ps
    | _ \<Rightarrow> Inl (Exc AttributeError ''object has no attribute to_string''))"

text \<open>\<open>str(node)\<close>; an alias or a relation that is no text cannot be appended.\<close>

definition text_or_raise :: "gval \<Rightarrow> exc + string" where
  "text_or_raise v = (case v of GVal (PStr s) \<Rightarrow> Inr s | _ \<Rightarrow> Inl (Exc TypeError ''can only concatenate str''))"

definition node_str :: "(gval \<Rightarrow> string) \<Rightarrow> gval \<Rightarrow> exc + string" where
  "node_str repr g = (case g of
      GNode _ a ls ps \<Rightarrow>
        bindE (if truthy a then text_or_raise (GVal a) else Inr []) (\<lambda>al.
        bindE (props_text repr ps) (\<lambda>pt.
        Inr (''('' @ al @ (case ls of None \<Rightarrow> [] | Some l \<Rightarrow> '':'' @ join_with '':'' l) @ pt @ '')'')))
    | _ \<Rightarrow> Inr ''()'')"

definition edge_str :: "(gval \<Rightarrow> string) \<Rightarrow> gval \<Rightarrow> exc + string" where
  "edge_str repr g = (case g of
      GEdge src r dst _ ps \<Rightarrow>
        bindE (node_str repr src) (\<lambda>a.
        bindE (if gtruthy r then bindE (text_or_raise r) (\<lambda>t. Inr ('':'' @ t)) else Inr []) (\<lambda>rt.
        bindE (props_text repr ps) (\<lambda>pt.
        bindE (node_str repr dst) (\<lambda>b.
        Inr (a @ ''-['' @ rt @ pt @ '']->'' @ b)))))
    | _ \<Rightarrow> Inl (Exc AttributeError ''not an edge''))"

section \<open>Equality\<close>

definition props_eq :: "(gval \<Rightarrow> gval \<Rightarrow> bool) \<Rightarrow> (pyval \<times> gval) list \<Rightarrow> (pyval \<times> gval) list \<Rightarrow> bool" where
  "props_eq veq ps qs = (length ps = length qs \<and> list_all (\<lambda>(k, v). case gd_get k qs of None \<Rightarrow> False | Some w \<Rightarrow> veq v w) ps)"

definition id_eq :: "pyval \<Rightarrow> pyval \<Rightarrow> bool" where
  "id_eq = py_key_eq"

definition node_label :: "string list option \<Rightarrow> string option" where
  "node_label ls = (case ls of Some (l # _) \<Rightarrow> Some l | _ \<Rightarrow> None)"

definition node_eq :: "(gval \<Rightarrow> gval \<Rightarrow> bool) \<Rightarrow> gval \<Rightarrow> gval \<Rightarrow> bool" where
  "node_eq veq a b = (case (a, b) of
      (GNode i _ ls ps, GNode j _ ms qs) \<Rightarrow>
        if i \<noteq> PNone \<and> j \<noteq> PNone \<and> \<not> id_eq i j then False
        else if node_label ls \<noteq> node_label ms then False
        else if length ps \<noteq> length qs then False
        else props_eq veq ps qs
    | _ \<Rightarrow> False)"

text \<open>The ends of an edge are nodes, or numbers when it comes from a reply.\<close>

definition end_eq :: "(gval \<Rightarrow> gval \<Rightarrow> bool) \<Rightarrow> gval \<Rightarrow> gval \<Rightarrow> bool" where
  "end_eq veq a b = (case (a, b) of
      (GNode _ _ _ _, GNode _ _ _ _) \<Rightarrow> node_eq veq a b
    | (GVal x, GVal y) \<Rightarrow> py_key_eq x y
    | _ \<Rightarrow> False)"

definition edge_eq :: "(gval \<Rightarrow> gval \<Rightarrow> bool) \<Rightarrow> gval \<Rightarrow> gval \<Rightarrow> bool" where
  "edge_eq veq a b = (case (a, b) of
      (GEdge s r d i ps, GEdge s' r' d' i' ps') \<Rightarrow>
        if i \<noteq> PNone \<and> i' \<noteq> PNone \<and> id_eq i i' then True
        else if \<not> end_eq veq s s' then False
        else if \<not> end_eq veq d d' then False
        else if \<not> veq r r' then False
        else if length ps \<noteq> length ps' then False
        else props_eq veq ps ps'
    | _ \<Rightarrow> False)"

section \<open>Paths\<close>

text \<open>A path that is put together; \<open>pt_wants_node\<close> is \<open>append_type\<close>.\<close>

record path =
  pt_nodes :: "gval list"
  pt_edges :: "gval list"
  pt_wants_node :: bool

definition Path :: "gval \<Rightarrow> gval \<Rightarrow> exc + path" where
  "Path nodes edges = (case (nodes, edges) of
      (GList ns, GList es) \<Rightarrow> Inr \<lparr>pt_nodes = ns, pt_edges = es, pt_wants_node = True\<rparr>
    | _ \<Rightarrow> Inl (Exc TypeError ''nodes and edges must be list''))"

definition new_empty_path :: path where
  "new_empty_path = \<lparr>pt_nodes = [], pt_edges = [], pt_wants_node = True\<rparr>"

definition is_node :: "gval \<Rightarrow> bool" where
  "is_node g = (case g of GNode _ _ _ _ \<Rightarrow> True | _ \<Rightarrow> False)"

definition is_edge :: "gval \<Rightarrow> bool" where
  "is_edge g = (case g of GEdge _ _ _ _ _ \<Rightarrow> True | _ \<Rightarrow> False)"

definition path_add_node :: "gval \<Rightarrow> path \<Rightarrow> exc + path" where
  "path_add_node g p =
     (if (if pt_wants_node p then is_node g else is_edge g) then Inr (p\<lparr>pt_nodes := pt_nodes p @ [g], pt_wants_node := False\<rparr>)
      else Inl (Exc AssertionError ''Add Edge before adding Node''))"

definition path_add_edge :: "gval \<Rightarrow> path \<Rightarrow> exc + path" where
  "path_add_edge g p =
     (if (if pt_wants_node p then is_node g else is_edge g) then Inr (p\<lparr>pt_edges := pt_edges p @ [g], pt_wants_node := True\<rparr>)
      else Inl (Exc AssertionError ''Add Node before adding Edge''))"

definition element_at :: "gval list \<Rightarrow> int \<Rightarrow> exc + gval" where
  "element_at xs i = (let n = int (length xs); j = (if i < 0 then i + n else i) in
     if 0 \<le> j \<and> j < n then Inr (xs ! nat j) else Inl (Exc IndexError ''list index out of range''))"

definition path_get_node :: "path \<Rightarrow> int \<Rightarrow> exc + gval" where
  "path_get_node p i = element_at (pt_nodes p) i"

definition get_relationship :: "path \<Rightarrow> int \<Rightarrow> exc + gval" where
  "get_relationship p i = element_at (pt_edges p) i"

definition first_node :: "path \<Rightarrow> exc + gval" where
  "first_node p = element_at (pt_nodes p) 0"

definition last_node :: "path \<Rightarrow> exc + gval" where
  "last_node p = element_at (pt_nodes p) (-1)"

definition edge_count :: "path \<Rightarrow> nat" where
  "edge_count p = length (pt_edges p)"

definition nodes_count :: "path \<Rightarrow> nat" where
  "nodes_count p = length (pt_nodes p)"

definition path_eq :: "(gval \<Rightarrow> gval \<Rightarrow> bool) \<Rightarrow> path \<Rightarrow> path \<Rightarrow> bool" where
  "path_eq veq p q = (list_all2 (end_eq veq) (pt_nodes p) (pt_nodes q) \<and> list_all2 (edge_eq veq) (pt_edges p) (pt_edges q))"

text \<open>\<open>str(path)\<close>: the direction of an arrow is whether the edge leaves the node before it.\<close>

definition entity_id :: "gval \<Rightarrow> exc + pyval" where
  "entity_id g = (case g of GNode i _ _ _ \<Rightarrow> Inr i | GEdge _ _ _ i _ \<Rightarrow> Inr i | _ \<Rightarrow> Inl (Exc AttributeError ''object has no attribute id''))"

definition edge_source :: "gval \<Rightarrow> exc + gval" where
  "edge_source g = (case g of GEdge s _ _ _ _ \<Rightarrow> Inr s | _ \<Rightarrow> Inl (Exc AttributeError ''object has no attribute src_node''))"

definition arrow_text :: "(gval \<Rightarrow> string) \<Rightarrow> path \<Rightarrow> nat \<Rightarrow> exc + string" where
  "arrow_text repr p i =
     bindE (path_get_node p (int i)) (\<lambda>n. bindE (entity_id n) (\<lambda>nid.
     bindE (get_relationship p (int i)) (\<lambda>e. bindE (edge_source e) (\<lambda>s.
     bindE (bindE (entity_id e) to_int) (\<lambda>eid.
     Inr (''('' @ gtext repr (GVal nid) @ '')'' @
       (if end_eq (=) s (GVal nid) then ''-['' @ dec_int eid @ '']->'' else ''<-['' @ dec_int eid @ '']-'')))))))"

definition path_str :: "(gval \<Rightarrow> string) \<Rightarrow> path \<Rightarrow> exc + string" where
  "path_str repr p =
     bindE (mapE (arrow_text repr p) [0..<edge_count p]) (\<lambda>ts.
     bindE (path_get_node p (int (edge_count p))) (\<lambda>n. bindE (entity_id n) (\<lambda>nid.
     Inr (''<'' @ concat ts @ ''('' @ gtext repr (GVal nid) @ '')'' @ ''>''))))"

end
