(* ===== verification/GraphQuery.thy ===== *)
theory GraphQuery
  imports GraphData CommandCall
begin

text \<open>
  Queries of the graph module (\<open>redis/commands/graph/query_result.py\<close>, \<open>commands.py\<close>, \<open>__init__.py\<close>). The names of labels, relations and
  properties are kept by the client and asked for again when an index is unknown or the server has another version of the graph, by queries of their
  own; the recursion that this makes is bounded by fuel, and ends in \<open>RecursionError\<close>. \<open>execute_command\<close> of the client is an argument.
\<close>

section \<open>The graph\<close>

text \<open>A query raises one of the library's exceptions or tells the version of the server's graph.\<close>

datatype graph_exc = GExc exc | VersionMismatchException pyval

type_synonym 'w server = "pyval list \<Rightarrow> 'w \<Rightarrow> (exc + pyval) \<times> 'w"

record 'w graph =
  g_name :: string
  g_nodes :: "(pyval \<times> gval) list"
  g_edges :: "gval list"
  g_labels :: "gval list"
  g_properties :: "gval list"
  g_relations :: "gval list"
  g_version :: pyval
  g_world :: 'w

type_synonym ('w, 'a) gact = "('w graph, graph_exc, 'a) action"

definition Graph :: "string \<Rightarrow> 'w \<Rightarrow> 'w graph" where
  "Graph name w = \<lparr>g_name = name, g_nodes = [], g_edges = [], g_labels = [], g_properties = [], g_relations = [], g_version = PInt 0, g_world = w\<rparr>"

definition liftG :: "exc + 'a \<Rightarrow> ('w, 'a) gact" where
  "liftG r = liftS (case r of Inl e \<Rightarrow> Inl (GExc e) | Inr a \<Rightarrow> Inr a)"

definition graph_execute :: "'w server \<Rightarrow> pyval list \<Rightarrow> ('w, pyval) gact" where
  "graph_execute srv args g = (let (r, w) = srv args (g_world g) in
     (case r of Inl e \<Rightarrow> Inl (GExc e) | Inr v \<Rightarrow> Inr v, g\<lparr>g_world := w\<rparr>))"

definition clear_schema :: "('w, unit) gact" where
  "clear_schema = modS (\<lambda>g. g\<lparr>g_labels := [], g_properties := [], g_relations := []\<rparr>)"

section \<open>Scalars\<close>

definition py_seq :: "pyval \<Rightarrow> exc + pyval list" where
  "py_seq v = (case v of
      PDict d \<Rightarrow> (if d = [] then Inr [] else Inl (Exc KeyError []))
    | PSet xs \<Rightarrow> (if xs = [] then Inr [] else Inl not_subscriptable)
    | _ \<Rightarrow> (case py_iter v of Inl _ \<Rightarrow> Inl (Exc TypeError ''object has no len()'') | Inr xs \<Rightarrow> Inr xs))"

definition parse_string :: "(gval \<Rightarrow> string) \<Rightarrow> pyval \<Rightarrow> exc + string" where
  "parse_string repr cell = (case cell of
      PBytes b \<Rightarrow> (if utf8_valid b then Inr b else Inl (Exc UnicodeDecodeError ''utf-8''))
    | _ \<Rightarrow> Inr (gtext repr (GVal cell)))"

definition strtobool :: "string \<Rightarrow> exc + bool" where
  "strtobool val = (let v = lower val in
     if v \<in> {''y'', ''yes'', ''t'', ''true'', ''on'', ''1''} then Inr True
     else if v \<in> {''n'', ''no'', ''f'', ''false'', ''off'', ''0''} then Inr False
     else Inl (Exc ValueError ''invalid truth value''))"

definition parse_boolean :: "pyval \<Rightarrow> exc + pyval" where
  "parse_boolean value =
     bindE (case value of
         PBytes b \<Rightarrow> (if utf8_valid b then Inr b else Inl (Exc UnicodeDecodeError ''utf-8''))
       | PStr s \<Rightarrow> Inr s
       | _ \<Rightarrow> Inl (Exc AttributeError ''object has no attribute lower'')) (\<lambda>s.
     Inr (case strtobool s of Inl _ \<Rightarrow> PNone | Inr b \<Rightarrow> PBool b))"

definition parse_point :: "pyval \<Rightarrow> exc + gval" where
  "parse_point cell =
     bindE (bindE (py_index cell 0) to_float) (\<lambda>lat. bindE (bindE (py_index cell 1) to_float) (\<lambda>lon.
     Inr (GMap [(PStr ''latitude'', GVal (PFloat lat)), (PStr ''longitude'', GVal (PFloat lon))])))"

text \<open>The three names that a parser looks up.\<close>

record 'w lookups =
  lk_label :: "pyval \<Rightarrow> ('w, gval) gact"
  lk_relation :: "pyval \<Rightarrow> ('w, gval) gact"
  lk_property :: "pyval \<Rightarrow> ('w, gval) gact"

text \<open>The parsers of values, over the one for scalars.\<close>

fun entity_properties :: "'w lookups \<Rightarrow> (pyval \<Rightarrow> ('w, gval) gact) \<Rightarrow> pyval list \<Rightarrow> (pyval \<times> gval) list \<Rightarrow> ('w, (pyval \<times> gval) list) gact" where
  "entity_properties lk scalar [] d = retS d"
| "entity_properties lk scalar (p # ps) d =
     bindS (liftG (py_index p 0)) (\<lambda>i.
     bindS (lk_property lk i) (\<lambda>name.
     bindS (liftG (bindE (py_seq p) (\<lambda>xs. Inr (PList (drop 1 xs))))) (\<lambda>cell.
     bindS (scalar cell) (\<lambda>v.
     bindS (liftG (key_of name)) (\<lambda>k.
     entity_properties lk scalar ps (gd_set k v d))))))"

definition parse_entity_properties :: "'w lookups \<Rightarrow> (pyval \<Rightarrow> ('w, gval) gact) \<Rightarrow> pyval \<Rightarrow> ('w, (pyval \<times> gval) list) gact" where
  "parse_entity_properties lk scalar props = bindS (liftG (py_iter props)) (\<lambda>ps. entity_properties lk scalar ps [])"

definition parse_node :: "'w lookups \<Rightarrow> (pyval \<Rightarrow> ('w, gval) gact) \<Rightarrow> pyval \<Rightarrow> ('w, gval) gact" where
  "parse_node lk scalar cell =
     bindS (liftG (bindE (py_index cell 0) to_int)) (\<lambda>node_id.
     bindS (liftG (bindE (py_index cell 1) py_seq)) (\<lambda>ls.
     bindS (if ls = [] then retS GNone else bindS (mapS (lk_label lk) ls) (\<lambda>names. retS (GList names))) (\<lambda>labels.
     bindS (bindS (liftG (py_index cell 2)) (parse_entity_properties lk scalar)) (\<lambda>ps.
     liftG (Node (PInt node_id) PNone labels ps)))))"

definition parse_edge :: "'w lookups \<Rightarrow> (pyval \<Rightarrow> ('w, gval) gact) \<Rightarrow> pyval \<Rightarrow> ('w, gval) gact" where
  "parse_edge lk scalar cell =
     bindS (liftG (bindE (py_index cell 0) to_int)) (\<lambda>edge_id.
     bindS (bindS (liftG (py_index cell 1)) (lk_relation lk)) (\<lambda>relation.
     bindS (liftG (bindE (py_index cell 2) to_int)) (\<lambda>src.
     bindS (liftG (bindE (py_index cell 3) to_int)) (\<lambda>dst.
     bindS (bindS (liftG (py_index cell 4)) (parse_entity_properties lk scalar)) (\<lambda>ps.
     liftG (Edge (GVal (PInt src)) relation (GVal (PInt dst)) (PInt edge_id) ps))))))"

definition parse_path :: "(pyval \<Rightarrow> ('w, gval) gact) \<Rightarrow> pyval \<Rightarrow> ('w, gval) gact" where
  "parse_path scalar cell =
     bindS (bindS (liftG (py_index cell 0)) scalar) (\<lambda>nodes.
     bindS (bindS (liftG (py_index cell 1)) scalar) (\<lambda>edges.
     liftG (bindE (Path nodes edges) (\<lambda>p. Inr (GPath (pt_nodes p) (pt_edges p))))))"

fun map_entries :: "(gval \<Rightarrow> string) \<Rightarrow> (pyval \<Rightarrow> ('w, gval) gact) \<Rightarrow> pyval list \<Rightarrow> (pyval \<times> gval) list \<Rightarrow> ('w, gval) gact" where
  "map_entries repr scalar [] d = retS (GMap d)"
| "map_entries repr scalar [k] d = bindS (liftG (parse_string repr k)) (\<lambda>_. liftG (Inl index_error))"
| "map_entries repr scalar (k # v # kvs) d =
     bindS (liftG (parse_string repr k)) (\<lambda>key. bindS (scalar v) (\<lambda>x. map_entries repr scalar kvs (gd_set (PStr key) x d)))"

definition parse_map :: "(gval \<Rightarrow> string) \<Rightarrow> (pyval \<Rightarrow> ('w, gval) gact) \<Rightarrow> pyval \<Rightarrow> ('w, gval) gact" where
  "parse_map repr scalar cell = bindS (liftG (py_seq cell)) (\<lambda>xs. map_entries repr scalar xs [])"

definition parse_array :: "(pyval \<Rightarrow> ('w, gval) gact) \<Rightarrow> pyval \<Rightarrow> ('w, gval) gact" where
  "parse_array scalar value = bindS (liftG (py_seq value)) (\<lambda>xs. bindS (mapS scalar xs) (\<lambda>vs. retS (GList vs)))"

section \<open>Types\<close>

datatype scalar_type = VALUE_UNKNOWN | VALUE_NULL | VALUE_STRING | VALUE_INTEGER | VALUE_BOOLEAN | VALUE_DOUBLE
  | VALUE_ARRAY | VALUE_EDGE | VALUE_NODE | VALUE_PATH | VALUE_MAP | VALUE_POINT

definition scalar_types :: "scalar_type list" where
  "scalar_types = [VALUE_UNKNOWN, VALUE_NULL, VALUE_STRING, VALUE_INTEGER, VALUE_BOOLEAN, VALUE_DOUBLE,
     VALUE_ARRAY, VALUE_EDGE, VALUE_NODE, VALUE_PATH, VALUE_MAP, VALUE_POINT]"

definition scalar_type_of :: "int \<Rightarrow> exc + scalar_type" where
  "scalar_type_of n = (if 0 \<le> n \<and> n < 12 then Inr (scalar_types ! nat n) else Inl (Exc KeyError (dec_int n)))"

text \<open>\<open>parse_scalar_types\<close>: the parser of a type.\<close>

definition parse_typed :: "(gval \<Rightarrow> string) \<Rightarrow> 'w lookups \<Rightarrow> (pyval \<Rightarrow> ('w, gval) gact) \<Rightarrow> scalar_type \<Rightarrow> pyval \<Rightarrow> ('w, gval) gact" where
  "parse_typed repr lk scalar t v = (case t of
      VALUE_UNKNOWN \<Rightarrow> retS GNone
    | VALUE_NULL \<Rightarrow> retS GNone
    | VALUE_STRING \<Rightarrow> liftG (bindE (parse_string repr v) (\<lambda>s. Inr (GStr s)))
    | VALUE_INTEGER \<Rightarrow> liftG (bindE (to_int v) (\<lambda>n. Inr (GVal (PInt n))))
    | VALUE_BOOLEAN \<Rightarrow> liftG (bindE (parse_boolean v) (\<lambda>b. Inr (GVal b)))
    | VALUE_DOUBLE \<Rightarrow> liftG (bindE (to_float v) (\<lambda>f. Inr (GVal (PFloat f))))
    | VALUE_ARRAY \<Rightarrow> parse_array scalar v
    | VALUE_EDGE \<Rightarrow> parse_edge lk scalar v
    | VALUE_NODE \<Rightarrow> parse_node lk scalar v
    | VALUE_PATH \<Rightarrow> parse_path scalar v
    | VALUE_MAP \<Rightarrow> parse_map repr scalar v
    | VALUE_POINT \<Rightarrow> liftG (parse_point v))"

definition scalar_cell :: "pyval \<Rightarrow> exc + (scalar_type \<times> pyval)" where
  "scalar_cell cell = bindE (bindE (py_index cell 0) to_int) (\<lambda>n. bindE (py_index cell 1) (\<lambda>v.
     bindE (scalar_type_of n) (\<lambda>t. Inr (t, v))))"

text \<open>\<open>parse_scalar\<close>; the first number is the depth that Python's stack allows.\<close>

fun parse_scalar :: "(gval \<Rightarrow> string) \<Rightarrow> 'w lookups \<Rightarrow> nat \<Rightarrow> pyval \<Rightarrow> ('w, gval) gact" where
  "parse_scalar repr lk 0 cell = liftG (Inl (Exc RecursionError ''maximum recursion depth exceeded''))"
| "parse_scalar repr lk (Suc n) cell =
     bindS (liftG (scalar_cell cell)) (\<lambda>(t, v). parse_typed repr lk (parse_scalar repr lk n) t v)"

section \<open>The result of a query\<close>

record query_result =
  qr_header :: "pyval list"
  qr_result_set :: "gval list"
  qr_statistics :: "(string \<times> pyfloat) list option"

definition STATS :: "string list" where
  "STATS = [''Labels added'', ''Labels removed'', ''Nodes created'', ''Properties set'', ''Properties removed'', ''Relationships created'',
     ''Nodes deleted'', ''Relationships deleted'', ''Indices created'', ''Indices deleted'', ''Cached execution'', ''internal execution time'']"

definition is_response_error :: "pyval \<Rightarrow> exc option" where
  "is_response_error v = (case v of PExc e \<Rightarrow> (if isinstance e ResponseError then Some e else None) | _ \<Rightarrow> None)"

definition check_for_errors :: "pyval \<Rightarrow> ('w, unit) gact" where
  "check_for_errors response =
     bindS (liftG (py_index response 0)) (\<lambda>first.
     bindS (case is_response_error first of
         Some e \<Rightarrow> if exc_msg e = ''version mismatch''
           then bindS (liftG (py_index response 1)) (\<lambda>v. raiseS (VersionMismatchException v)) else raiseS (GExc e)
       | None \<Rightarrow> retS ()) (\<lambda>_.
     bindS (liftG (py_index response (-1))) (\<lambda>l.
     case is_response_error l of Some e \<Rightarrow> raiseS (GExc e) | None \<Rightarrow> retS ())))"

text \<open>\<open>float(stat.split(": ")[1].split(" ")[0])\<close> of the first line that holds the name.\<close>

definition stat_number :: "string \<Rightarrow> exc + pyfloat" where
  "stat_number stat = (case split1_sub '': '' stat of
      None \<Rightarrow> Inl index_error
    | Some (_, b) \<Rightarrow> to_float (PStr (takeWhile (\<lambda>c. c \<noteq> CHR '' '') (case split1_sub '': '' b of None \<Rightarrow> b | Some (c, _) \<Rightarrow> c))))"

fun get_value :: "string \<Rightarrow> string list \<Rightarrow> exc + pyfloat option" where
  "get_value prop [] = Inr None"
| "get_value prop (stat # stats) = (if has_sub prop stat then bindE (stat_number stat) (\<lambda>f. Inr (Some f)) else get_value prop stats)"

definition stat_line :: "pyval \<Rightarrow> exc + string" where
  "stat_line v = (case v of
      PBytes b \<Rightarrow> (if utf8_valid b then Inr b else Inl (Exc UnicodeDecodeError ''utf-8''))
    | PStr s \<Rightarrow> Inr s
    | _ \<Rightarrow> Inl (Exc TypeError ''argument is not iterable''))"

definition parse_statistics :: "pyval \<Rightarrow> exc + (string \<times> pyfloat) list" where
  "parse_statistics raw_statistics =
     bindE (py_iter raw_statistics) (\<lambda>xs. bindE (mapE stat_line xs) (\<lambda>lines.
     bindE (mapE (\<lambda>s. bindE (get_value s lines) (\<lambda>v. Inr (s, v))) STATS) (\<lambda>ps.
     Inr (concat (map (\<lambda>(s, v). case v of None \<Rightarrow> [] | Some f \<Rightarrow> [(s, f)]) ps)))))"

definition get_stat :: "string \<Rightarrow> query_result \<Rightarrow> exc + pyfloat" where
  "get_stat s r = (case qr_statistics r of
      None \<Rightarrow> Inl (Exc AttributeError ''object has no attribute statistics'')
    | Some d \<Rightarrow> Inr (case map_of d s of None \<Rightarrow> Fin 0 | Some f \<Rightarrow> f))"

definition cached_execution :: "query_result \<Rightarrow> exc + bool" where
  "cached_execution r = bindE (get_stat ''Cached execution'' r) (\<lambda>f. Inr (f = Fin 1))"

text \<open>\<open>x[0 : x.index(",")].strip()\<close>.\<close>

definition profile_line :: "pyval \<Rightarrow> exc + gval" where
  "profile_line x = (case x of
      PStr s \<Rightarrow> (case split1 (CHR '','') s of None \<Rightarrow> Inl (Exc ValueError ''substring not found'') | Some (a, _) \<Rightarrow> Inr (GStr (strip a)))
    | PBytes _ \<Rightarrow> Inl (Exc TypeError ''argument should be integer or bytes-like object'')
    | PList _ \<Rightarrow> Inl (Exc ValueError ''is not in list'')
    | _ \<Rightarrow> Inl (Exc AttributeError ''object has no attribute index''))"

text \<open>\<open>parse_record_types\<close>: the parser of a column.\<close>

datatype column_type = COLUMN_UNKNOWN | COLUMN_SCALAR | COLUMN_NODE | COLUMN_RELATION

definition column_type_of :: "pyval \<Rightarrow> exc + column_type" where
  "column_type_of k =
     (if \<not> hashable k then Inl unhashable_error
      else if py_key_eq k (PInt 0) then Inr COLUMN_UNKNOWN
      else if py_key_eq k (PInt 1) then Inr COLUMN_SCALAR
      else if py_key_eq k (PInt 2) then Inr COLUMN_NODE
      else if py_key_eq k (PInt 3) then Inr COLUMN_RELATION
      else Inl (Exc KeyError []))"

definition parse_cell :: "(gval \<Rightarrow> string) \<Rightarrow> 'w lookups \<Rightarrow> nat \<Rightarrow> pyval list \<Rightarrow> nat \<times> pyval \<Rightarrow> ('w, gval) gact" where
  "parse_cell repr lk n header = (\<lambda>(idx, cell).
     bindS (liftG (bindE (bindE (list_index header (int idx)) (\<lambda>h. py_index h 0)) column_type_of)) (\<lambda>t. case t of
       COLUMN_SCALAR \<Rightarrow> parse_scalar repr lk n cell
     | COLUMN_NODE \<Rightarrow> parse_node lk (parse_scalar repr lk n) cell
     | COLUMN_RELATION \<Rightarrow> parse_edge lk (parse_scalar repr lk n) cell
     | COLUMN_UNKNOWN \<Rightarrow> retS GNone))"

definition parse_record :: "(gval \<Rightarrow> string) \<Rightarrow> 'w lookups \<Rightarrow> nat \<Rightarrow> pyval list \<Rightarrow> pyval \<Rightarrow> ('w, gval) gact" where
  "parse_record repr lk n header row =
     bindS (liftG (py_iter row)) (\<lambda>cells.
     bindS (mapS (parse_cell repr lk n header) (List.enumerate 0 cells)) (\<lambda>vs. retS (GList vs)))"

definition parse_records :: "(gval \<Rightarrow> string) \<Rightarrow> 'w lookups \<Rightarrow> nat \<Rightarrow> pyval list \<Rightarrow> pyval \<Rightarrow> ('w, gval list) gact" where
  "parse_records repr lk n header raw_result_set =
     bindS (liftG (bindE (py_index raw_result_set 1) py_iter)) (mapS (parse_record repr lk n header))"

text \<open>\<open>QueryResult(graph, response, profile)\<close>.\<close>

definition QueryResult :: "(gval \<Rightarrow> string) \<Rightarrow> 'w lookups \<Rightarrow> nat \<Rightarrow> pyval \<Rightarrow> bool \<Rightarrow> ('w, query_result) gact" where
  "QueryResult repr lk n response profile =
     thenS (check_for_errors response)
     (bindS (liftG (py_seq response)) (\<lambda>items.
       if length items = 1 then
         bindS (liftG (bindE (py_index response 0) parse_statistics)) (\<lambda>st. retS \<lparr>qr_header = [], qr_result_set = [], qr_statistics = Some st\<rparr>)
       else if profile then
         bindS (liftG (mapE profile_line items)) (\<lambda>rs. retS \<lparr>qr_header = [], qr_result_set = rs, qr_statistics = None\<rparr>)
       else
         bindS (liftG (bindE (py_index response (-1)) parse_statistics)) (\<lambda>st.
         bindS (liftG (bindE (py_index response 0) py_seq)) (\<lambda>header.
         if header = [] then retS \<lparr>qr_header = [], qr_result_set = [], qr_statistics = Some st\<rparr>
         else bindS (parse_records repr lk n header response) (\<lambda>rs.
           retS \<lparr>qr_header = header, qr_result_set = rs, qr_statistics = Some st\<rparr>)))))"

section \<open>Queries\<close>

lemma mapE_calls_cong [fundef_cong]: "xs = ys \<Longrightarrow> (\<And>x. x \<in> set ys \<Longrightarrow> f x = g x) \<Longrightarrow> mapE f xs = mapE g ys"
  by (induction xs arbitrary: ys) auto

text \<open>\<open>stringify_param_value\<close>; the keys of a dictionary are not quoted.\<close>

fun stringify_param_value :: "(gval \<Rightarrow> string) \<Rightarrow> pyval \<Rightarrow> exc + string" where
  "stringify_param_value repr (PStr s) = bindE (quote_string (PStr s)) (\<lambda>q. Inr (gtext repr (GVal q)))"
| "stringify_param_value repr PNone = Inr ''null''"
| "stringify_param_value repr (PList xs) = bindE (mapE (stringify_param_value repr) xs) (\<lambda>ts. Inr (''['' @ join_with '','' ts @ '']''))"
| "stringify_param_value repr (PTuple xs) = bindE (mapE (stringify_param_value repr) xs) (\<lambda>ts. Inr (''['' @ join_with '','' ts @ '']''))"
| "stringify_param_value repr (PDict d) =
     bindE (mapE (\<lambda>(k, v). bindE (stringify_param_value repr v) (\<lambda>t. Inr (gtext repr (GVal k) @ '':'' @ t))) d)
       (\<lambda>ts. Inr (''{'' @ join_with '','' ts @ ''}''))"
| "stringify_param_value repr v = Inr (gtext repr (GVal v))"

definition build_params_header :: "(gval \<Rightarrow> string) \<Rightarrow> pyval \<Rightarrow> exc + string" where
  "build_params_header repr params = (case params of
      PNone \<Rightarrow> Inr []
    | PDict d \<Rightarrow> bindE (mapE (\<lambda>(k, v). bindE (stringify_param_value repr v) (\<lambda>t. Inr (gtext repr (GVal k) @ ''='' @ t @ '' ''))) d)
        (\<lambda>ts. Inr (''CYPHER '' @ concat ts))
    | _ \<Rightarrow> Inl (Exc TypeError ([CHR 39] @ ''params'' @ [CHR 39] @ '' must be a dict'')))"

record graph_query_args =
  qa_q :: string
  qa_params :: pyval
  qa_timeout :: pyval
  qa_read_only :: bool
  qa_profile :: bool

definition plain_query :: "string \<Rightarrow> bool \<Rightarrow> graph_query_args" where
  "plain_query q ro = \<lparr>qa_q = q, qa_params = PNone, qa_timeout = PNone, qa_read_only = ro, qa_profile = False\<rparr>"

definition query_command :: "(gval \<Rightarrow> string) \<Rightarrow> string \<Rightarrow> graph_query_args \<Rightarrow> exc + pyval list" where
  "query_command repr name a =
     bindE (build_params_header repr (qa_params a)) (\<lambda>h.
     let cmd = (if qa_profile a then ''GRAPH.PROFILE'' else if qa_read_only a then ''GRAPH.RO_QUERY'' else ''GRAPH.QUERY'');
         command = [PStr cmd, PStr name, PStr (h @ qa_q a), PStr ''--compact'']
     in if is_int (qa_timeout a) then Inr (command @ [PStr ''timeout'', qa_timeout a])
        else if qa_timeout a \<noteq> PNone then Inl (Exc PyException ''Timeout argument must be a positive integer'')
        else Inr command)"

text \<open>\<open>call_procedure\<close>, whose result comes from a query.\<close>

definition procedure_text :: "(gval \<Rightarrow> string) \<Rightarrow> string \<Rightarrow> pyval list \<Rightarrow> pyval \<Rightarrow> exc + string" where
  "procedure_text repr procedure args y =
     bindE (mapE (\<lambda>a. bindE (quote_string a) (\<lambda>q. case q of PStr s \<Rightarrow> Inr s | _ \<Rightarrow> Inl (Exc TypeError ''expected str instance''))) args) (\<lambda>qs.
     bindE (if y = PNone then Inr []
            else bindE (py_iter y) (\<lambda>ys. bindE (mapE (\<lambda>v. case v of PStr s \<Rightarrow> Inr s | _ \<Rightarrow> Inl (Exc TypeError ''expected str instance'')) ys)
              (\<lambda>ns. Inr (''YIELD '' @ join_with '','' ns)))) (\<lambda>yt.
     Inr (''CALL '' @ procedure @ ''('' @ join_with '','' qs @ '')'' @ yt)))"

type_synonym 'w querier = "graph_query_args \<Rightarrow> ('w, query_result) gact"

definition call_procedure :: "(gval \<Rightarrow> string) \<Rightarrow> 'w querier \<Rightarrow> string \<Rightarrow> pyval list \<Rightarrow> bool \<Rightarrow> pyval \<Rightarrow> ('w, query_result) gact" where
  "call_procedure repr qry procedure args ro y =
     bindS (liftG (procedure_text repr procedure args y)) (\<lambda>q. qry (plain_query q ro))"

text \<open>The names that a procedure answers: the first value of each row.\<close>

definition row_name :: "gval \<Rightarrow> exc + gval" where
  "row_name r = (case r of
      GList vs \<Rightarrow> element_at vs 0
    | GVal (PStr s) \<Rightarrow> (case s of [] \<Rightarrow> Inl index_error | c # _ \<Rightarrow> Inr (GStr [c]))
    | _ \<Rightarrow> Inl not_subscriptable)"

definition procedure_names :: "(gval \<Rightarrow> string) \<Rightarrow> 'w querier \<Rightarrow> string \<Rightarrow> ('w, gval list) gact" where
  "procedure_names repr qry procedure =
     bindS (call_procedure repr qry procedure [] True PNone) (\<lambda>r. liftG (mapE row_name (qr_result_set r)))"

definition refresh_labels :: "(gval \<Rightarrow> string) \<Rightarrow> 'w querier \<Rightarrow> ('w, unit) gact" where
  "refresh_labels repr qry = bindS (procedure_names repr qry ''DB.LABELS'') (\<lambda>ns. modS (\<lambda>g. g\<lparr>g_labels := ns\<rparr>))"

definition refresh_relations :: "(gval \<Rightarrow> string) \<Rightarrow> 'w querier \<Rightarrow> ('w, unit) gact" where
  "refresh_relations repr qry = bindS (procedure_names repr qry ''DB.RELATIONSHIPTYPES'') (\<lambda>ns. modS (\<lambda>g. g\<lparr>g_relations := ns\<rparr>))"

definition refresh_attributes :: "(gval \<Rightarrow> string) \<Rightarrow> 'w querier \<Rightarrow> ('w, unit) gact" where
  "refresh_attributes repr qry = bindS (procedure_names repr qry ''DB.PROPERTYKEYS'') (\<lambda>ns. modS (\<lambda>g. g\<lparr>g_properties := ns\<rparr>))"

definition refresh_schema :: "(gval \<Rightarrow> string) \<Rightarrow> 'w querier \<Rightarrow> ('w, unit) gact" where
  "refresh_schema repr qry =
     thenS clear_schema (thenS (refresh_labels repr qry) (thenS (refresh_relations repr qry) (refresh_attributes repr qry)))"

text \<open>\<open>get_label\<close>, \<open>get_relation\<close> and \<open>get_property\<close>: an index that is out of range asks the server once.\<close>

definition name_at :: "gval list \<Rightarrow> pyval \<Rightarrow> exc + gval" where
  "name_at ns idx = (if is_int idx then element_at ns (int_of_val idx) else Inl (Exc TypeError ''list indices must be integers or slices''))"

definition get_name :: "('w graph \<Rightarrow> gval list) \<Rightarrow> ('w, unit) gact \<Rightarrow> pyval \<Rightarrow> ('w, gval) gact" where
  "get_name names refresh idx =
     bindS (getS names) (\<lambda>ns. case name_at ns idx of
       Inr v \<Rightarrow> retS v
     | Inl e \<Rightarrow> if isinstance e IndexError then thenS refresh (bindS (getS names) (\<lambda>ns'. liftG (name_at ns' idx)))
         else raiseS (GExc e))"

definition graph_lookups :: "(gval \<Rightarrow> string) \<Rightarrow> 'w querier \<Rightarrow> 'w lookups" where
  "graph_lookups repr qry = \<lparr>
     lk_label = get_name g_labels (refresh_labels repr qry),
     lk_relation = get_name g_relations (refresh_relations repr qry),
     lk_property = get_name g_properties (refresh_attributes repr qry)\<rparr>"

text \<open>The two \<open>except\<close> clauses of \<open>query\<close>: an unknown \<open>GRAPH.RO_QUERY\<close>, and another version of the graph; the second query is never a profile.\<close>

definition query_handler :: "(gval \<Rightarrow> string) \<Rightarrow> 'w querier \<Rightarrow> graph_query_args \<Rightarrow> graph_exc \<Rightarrow> ('w, query_result) gact" where
  "query_handler repr qry a e = (case e of
      GExc x \<Rightarrow>
        if isinstance x ResponseError \<and> has_sub ''unknown command'' (exc_msg x) \<and> qa_read_only a
        then qry (a\<lparr>qa_read_only := False, qa_profile := False\<rparr>) else raiseS e
    | VersionMismatchException v \<Rightarrow>
        thenS (modS (\<lambda>g. g\<lparr>g_version := v\<rparr>)) (thenS (refresh_schema repr qry) (qry (a\<lparr>qa_profile := False\<rparr>))))"

text \<open>\<open>Graph.query\<close> over the queries that it makes itself.\<close>

definition query_step :: "(gval \<Rightarrow> string) \<Rightarrow> 'w server \<Rightarrow> nat \<Rightarrow> 'w querier \<Rightarrow> 'w querier" where
  "query_step repr srv depth qry a =
     bindS (getS g_name) (\<lambda>name. bindS (liftG (query_command repr name a)) (\<lambda>command.
     catchS (bindS (graph_execute srv command) (\<lambda>response. QueryResult repr (graph_lookups repr qry) depth response (qa_profile a)))
       (query_handler repr qry a)))"

fun graph_query :: "(gval \<Rightarrow> string) \<Rightarrow> 'w server \<Rightarrow> nat \<Rightarrow> nat \<Rightarrow> 'w querier" where
  "graph_query repr srv depth 0 a = liftG (Inl (Exc RecursionError ''maximum recursion depth exceeded''))"
| "graph_query repr srv depth (Suc n) a = query_step repr srv depth (graph_query repr srv depth n) a"

declare graph_query.simps [simp del]

section \<open>The other commands\<close>

text \<open>\<open>add_node\<close> gives the node a name when it has none; \<open>add_edge\<close> looks both ends up, and a missing one is a \<open>KeyError\<close>.\<close>

definition add_node :: "string \<Rightarrow> gval \<Rightarrow> ('w, gval) gact" where
  "add_node random n = (case n of
      GNode i a ls ps \<Rightarrow>
        (let a' = (if a = PNone then PStr random else a); n' = GNode i a' ls ps in
         if hashable a' then thenS (modS (\<lambda>g. g\<lparr>g_nodes := gd_set a' n' (g_nodes g)\<rparr>)) (retS n') else liftG (Inl unhashable_error))
    | _ \<Rightarrow> liftG (Inl (Exc AttributeError ''object has no attribute alias'')))"

definition node_known :: "gval \<Rightarrow> 'w graph \<Rightarrow> exc + gval" where
  "node_known n g = (case n of
      GNode _ a _ _ \<Rightarrow> (if \<not> hashable a then Inl unhashable_error
        else case gd_get a (g_nodes g) of None \<Rightarrow> Inl (Exc KeyError []) | Some m \<Rightarrow> Inr m)
    | _ \<Rightarrow> Inl (Exc AttributeError ''object has no attribute alias''))"

definition add_edge :: "gval \<Rightarrow> ('w, unit) gact" where
  "add_edge e = (case e of
      GEdge s r d i ps \<Rightarrow>
        bindS (getS (\<lambda>g. g)) (\<lambda>g. bindS (liftG (node_known s g)) (\<lambda>m.
        bindS (if gtruthy m then bindS (liftG (node_known d g)) (\<lambda>k. retS (gtruthy k)) else retS False) (\<lambda>ok.
        if \<not> ok then liftG (Inl (Exc AssertionError ''Both edge ends must be in the graph''))
        else modS (\<lambda>g. g\<lparr>g_edges := g_edges g @ [e]\<rparr>))))
    | _ \<Rightarrow> liftG (Inl (Exc AttributeError ''object has no attribute src_node'')))"

definition commit_text :: "(gval \<Rightarrow> string) \<Rightarrow> 'w graph \<Rightarrow> exc + string" where
  "commit_text repr g =
     bindE (mapE (\<lambda>(_, n). node_str repr n) (g_nodes g)) (\<lambda>ns. bindE (mapE (edge_str repr) (g_edges g)) (\<lambda>es.
     let query = ''CREATE '' @ concat (map (\<lambda>t. t @ '','') ns) @ join_with '','' es in
     Inr (if last query = CHR '','' then butlast query else query)))"

definition commit :: "(gval \<Rightarrow> string) \<Rightarrow> 'w querier \<Rightarrow> ('w, query_result option) gact" where
  "commit repr qry = bindS (getS (\<lambda>g. g)) (\<lambda>g.
     if g_nodes g = [] \<and> g_edges g = [] then retS None
     else bindS (liftG (commit_text repr g)) (\<lambda>q. bindS (qry (plain_query q False)) (\<lambda>r. retS (Some r))))"

definition graph_flush :: "(gval \<Rightarrow> string) \<Rightarrow> 'w querier \<Rightarrow> ('w, unit) gact" where
  "graph_flush repr qry = thenS (commit repr qry) (modS (\<lambda>g. g\<lparr>g_nodes := [], g_edges := []\<rparr>))"

text \<open>\<open>merge(pattern)\<close> for the text of a node or an edge.\<close>

definition merge :: "(gval \<Rightarrow> string) \<Rightarrow> 'w querier \<Rightarrow> gval \<Rightarrow> ('w, query_result) gact" where
  "merge repr qry pattern =
     bindS (liftG (case pattern of GNode _ _ _ _ \<Rightarrow> node_str repr pattern | GEdge _ _ _ _ _ \<Rightarrow> edge_str repr pattern | _ \<Rightarrow> Inr (gtext repr pattern)))
       (\<lambda>t. qry (plain_query (''MERGE '' @ t) False))"

definition graph_delete :: "'w server \<Rightarrow> ('w, pyval) gact" where
  "graph_delete srv = thenS clear_schema (bindS (getS g_name) (\<lambda>n. graph_execute srv [PStr ''GRAPH.DELETE'', PStr n]))"

definition graph_bulk :: "('w, pyval) gact" where
  "graph_bulk = liftG (Inl (Exc NotImplementedError ''GRAPH.BULK is internal only.''))"

definition graph_profile :: "'w querier \<Rightarrow> string \<Rightarrow> ('w, query_result) gact" where
  "graph_profile qry q = qry ((plain_query q False)\<lparr>qa_profile := True\<rparr>)"

definition graph_slowlog :: "'w server \<Rightarrow> ('w, pyval) gact" where
  "graph_slowlog srv = bindS (getS g_name) (\<lambda>n. graph_execute srv [PStr ''GRAPH.SLOWLOG'', PStr n])"

definition graph_config :: "'w server \<Rightarrow> string \<Rightarrow> pyval \<Rightarrow> bool \<Rightarrow> ('w, pyval) gact" where
  "graph_config srv name value setting =
     (if value \<noteq> PNone \<and> \<not> setting then liftG (Inl (data_error ''``value`` can be provided only when ``set`` is True''))
      else graph_execute srv ([PStr ''GRAPH.CONFIG'', PStr (if setting then ''SET'' else ''GET''), PStr name] @ (if value \<noteq> PNone then [value] else [])))"

definition list_keys :: "'w server \<Rightarrow> ('w, pyval) gact" where
  "list_keys srv = graph_execute srv [PStr ''GRAPH.LIST'']"

definition explain_reply :: "(gval \<Rightarrow> string) \<Rightarrow> 'w server \<Rightarrow> string \<Rightarrow> pyval \<Rightarrow> ('w, pyval) gact" where
  "explain_reply repr srv q params =
     bindS (liftG (build_params_header repr params)) (\<lambda>h. bindS (getS g_name) (\<lambda>n.
     graph_execute srv [PStr ''GRAPH.EXPLAIN'', PStr n, PStr (h @ q)]))"

definition execution_plan :: "(gval \<Rightarrow> string) \<Rightarrow> 'w server \<Rightarrow> string \<Rightarrow> pyval \<Rightarrow> ('w, string) gact" where
  "execution_plan repr srv q params =
     bindS (explain_reply repr srv q params) (\<lambda>plan.
     bindS (liftG (py_index plan 0)) (\<lambda>first.
     bindS (liftG (py_iter plan)) (\<lambda>xs.
     bindS (liftG (mapE (case first of PBytes _ \<Rightarrow> decode_line | _ \<Rightarrow>
         (\<lambda>v. case v of PStr s \<Rightarrow> Inr s | _ \<Rightarrow> Inl (Exc TypeError ''expected str instance''))) xs)) (\<lambda>ls.
     retS (join_with [CHR 0x0A] ls)))))"

definition graph_explain :: "(gval \<Rightarrow> string) \<Rightarrow> 'w server \<Rightarrow> string \<Rightarrow> pyval \<Rightarrow> ('w, operation) gact" where
  "graph_explain repr srv q params = bindS (explain_reply repr srv q params) (\<lambda>plan. liftG (ExecutionPlan plan))"

end
