(* ===== verification/GraphQueryCorrect.thy ===== *)
theory GraphQueryCorrect
  imports GraphQuery GraphPlanCorrect
begin

text \<open>
  What makes queries of the graph module correct: values in the compact form are parsed to themselves, names that the client does not know are asked
  for once, a new version of the graph on the server makes the client read all names again; what \<open>commit\<close> sends, and how paths are put together.
\<close>

section \<open>The compact form\<close>

fun position :: "'a \<Rightarrow> 'a list \<Rightarrow> nat" where
  "position x [] = 0"
| "position x (y # ys) = (if x = y then 0 else Suc (position x ys))"

lemma position_nth [simp]: "x \<in> set ys \<Longrightarrow> ys ! position x ys = x \<and> position x ys < length ys"
  by (induction ys) auto

definition name_index :: "string \<Rightarrow> gval list \<Rightarrow> pyval" where
  "name_index s ns = PInt (int (position (GStr s) ns))"

text \<open>The type and the value of a cell; a double is a number, as the third protocol has it.\<close>

fun type_code :: "gval \<Rightarrow> int" where
  "type_code (GVal (PStr _)) = 2"
| "type_code (GVal (PInt _)) = 3"
| "type_code (GVal (PBool _)) = 4"
| "type_code (GVal (PFloat _)) = 5"
| "type_code (GVal _) = 1"
| "type_code (GList _) = 6"
| "type_code (GEdge _ _ _ _ _) = 7"
| "type_code (GNode _ _ _ _) = 8"
| "type_code (GPath _ _) = 9"
| "type_code (GMap _) = 10"
| "type_code GCoroutine = 0"

definition text_of :: "gval \<Rightarrow> string" where
  "text_of v = (case v of GVal (PStr s) \<Rightarrow> s | _ \<Rightarrow> [])"

definition key_name :: "pyval \<Rightarrow> string" where
  "key_name k = (case k of PStr s \<Rightarrow> s | _ \<Rightarrow> [])"

definition plain_of :: "gval \<Rightarrow> pyval" where
  "plain_of v = (case v of GVal p \<Rightarrow> p | _ \<Rightarrow> PNone)"

fun cell_body :: "'w graph \<Rightarrow> gval \<Rightarrow> pyval" where
  "cell_body g (GVal v) = (case v of PBool b \<Rightarrow> PStr (if b then ''true'' else ''false'') | _ \<Rightarrow> v)"
| "cell_body g (GList vs) = PList (map (\<lambda>v. PList [PInt (type_code v), cell_body g v]) vs)"
| "cell_body g (GMap d) = PList (concat (map (\<lambda>(k, v). [k, PList [PInt (type_code v), cell_body g v]]) d))"
| "cell_body g (GNode i a ls ps) = PList [i,
     PList (case ls of None \<Rightarrow> [] | Some l \<Rightarrow> map (\<lambda>s. name_index s (g_labels g)) l),
     PList (map (\<lambda>(k, v). PList [name_index (key_name k) (g_properties g), PInt (type_code v), cell_body g v]) ps)]"
| "cell_body g (GEdge s r d i ps) = PList [i, name_index (text_of r) (g_relations g), plain_of s, plain_of d,
     PList (map (\<lambda>(k, v). PList [name_index (key_name k) (g_properties g), PInt (type_code v), cell_body g v]) ps)]"
| "cell_body g (GPath ns es) = PList [
     PList [PInt 6, PList (map (\<lambda>v. PList [PInt (type_code v), cell_body g v]) ns)],
     PList [PInt 6, PList (map (\<lambda>v. PList [PInt (type_code v), cell_body g v]) es)]]"
| "cell_body g GCoroutine = PNone"

definition cell_of :: "'w graph \<Rightarrow> gval \<Rightarrow> pyval" where
  "cell_of g v = PList [PInt (type_code v), cell_body g v]"

text \<open>What a server can send with the names that the client knows, nested at most \<open>n\<close> deep.\<close>

definition known_props :: "(gval \<Rightarrow> bool) \<Rightarrow> 'w graph \<Rightarrow> (pyval \<times> gval) list \<Rightarrow> bool" where
  "known_props P g ps = (distinct (map fst ps) \<and>
     (\<forall>(k, v) \<in> set ps. (\<exists>s. k = PStr s \<and> GStr s \<in> set (g_properties g)) \<and> P v))"

fun sendable :: "nat \<Rightarrow> 'w graph \<Rightarrow> gval \<Rightarrow> bool" where
  "sendable 0 g v = False"
| "sendable (Suc n) g v = (case v of
      GVal p \<Rightarrow> (case p of PNone \<Rightarrow> True | PStr _ \<Rightarrow> True | PInt _ \<Rightarrow> True | PBool _ \<Rightarrow> True | PFloat _ \<Rightarrow> True | _ \<Rightarrow> False)
    | GList vs \<Rightarrow> list_all (sendable n g) vs
    | GMap d \<Rightarrow> distinct (map fst d) \<and> (\<forall>(k, v) \<in> set d. (\<exists>s. k = PStr s) \<and> sendable n g v)
    | GNode i a ls ps \<Rightarrow> (\<exists>z. i = PInt z) \<and> a = PNone \<and>
        (case ls of None \<Rightarrow> True | Some l \<Rightarrow> l \<noteq> [] \<and> (\<forall>s \<in> set l. s \<noteq> [] \<and> GStr s \<in> set (g_labels g))) \<and> known_props (sendable n g) g ps
    | GEdge s r d i ps \<Rightarrow> (\<exists>z. i = PInt z) \<and> (\<exists>z. s = GVal (PInt z)) \<and> (\<exists>z. d = GVal (PInt z)) \<and>
        (\<exists>t. r = GStr t \<and> GStr t \<in> set (g_relations g)) \<and> known_props (sendable n g) g ps
    | GPath ns es \<Rightarrow> n \<noteq> 0 \<and> list_all (sendable (n - 1) g) ns \<and> list_all (sendable (n - 1) g) es
    | GCoroutine \<Rightarrow> False)"

section \<open>Parsing what was sent\<close>

lemma liftG_simps [simp]: "liftG (Inr a) s = (Inr a, s)" "liftG (Inl e) s = (Inl (GExc e), s)"
  by (simp_all add: liftG_def)

lemma thenS_liftG [simp]: "bindS (liftG (Inr a)) f = f a"
  by (simp add: bindS_def fun_eq_iff)

lemma get_name_known: "GStr s \<in> set (names g) \<Longrightarrow> get_name names refresh (name_index s (names g)) g = (Inr (GStr s), g)"
  by (simp add: get_name_def name_index_def name_at_def is_int_def int_of_val_def element_at_def Let_def bindS_def getS_def)

lemma py_index_0 [simp]: "py_index (PList (x # xs)) 0 = Inr x"
  by (simp add: py_index_def list_index_def)

lemma py_index_1 [simp]: "py_index (PList (x # y # xs)) 1 = Inr y"
  by (simp add: py_index_def list_index_def)

lemma py_index_2 [simp]: "py_index (PList (x # y # z # xs)) 2 = Inr z"
  by (simp add: py_index_def list_index_def)

lemma py_index_3 [simp]: "py_index (PList (x # y # z # u # xs)) 3 = Inr u"
  by (simp add: py_index_def list_index_def numeral_3_eq_3)

lemma py_index_4 [simp]: "py_index (PList (x # y # z # u # v # xs)) 4 = Inr v"
  by (simp add: py_index_def list_index_def)

lemma py_index_last [simp]: "xs \<noteq> [] \<Longrightarrow> py_index (PList xs) (-1) = Inr (last xs)"
  by (cases xs) (auto simp: py_index_def list_index_def Let_def last_conv_nth nat_diff_distrib)

lemma seq_list [simp]: "py_seq (PList xs) = Inr xs" "py_iter (PList xs) = Inr xs"
  by (simp_all add: py_seq_def py_iter_def)

lemma mapS_same: "(\<And>x. x \<in> set xs \<Longrightarrow> f (e x) s = (Inr (h x), s)) \<Longrightarrow> mapS f (map e xs) s = (Inr (map h xs), s)"
  by (induction xs) simp_all

lemma gd_set_new: "k = PStr s \<Longrightarrow> k \<notin> set (map fst d) \<Longrightarrow> \<forall>k' \<in> set (map fst d). \<exists>t. k' = PStr t \<Longrightarrow> gd_set k v d = d @ [(k, v)]"
  by (induction d) auto

abbreviation text_keys :: "(pyval \<times> gval) list \<Rightarrow> bool" where
  "text_keys d \<equiv> \<forall>k \<in> set (map fst d). \<exists>t. k = PStr t"

lemma entity_properties_known:
  assumes "\<And>k v. (k, v) \<in> set ps \<Longrightarrow> (\<exists>s. k = PStr s \<and> GStr s \<in> set (g_properties g)) \<and> scalar (cell_of g v) g = (Inr v, g)"
    and "distinct (map fst (d @ ps))" "text_keys d" "lk_property lk = get_name g_properties refresh"
  shows "entity_properties lk scalar (map (\<lambda>(k, v). PList [name_index (key_name k) (g_properties g), PInt (type_code v), cell_body g v]) ps) d g
    = (Inr (d @ ps), g)"
  using assms(1-3)
proof (induction ps arbitrary: d)
  case (Cons p ps)
  obtain k v where p: "p = (k, v)" by (cases p)
  then obtain s where k: "k = PStr s" "GStr s \<in> set (g_properties g)" "scalar (PList [PInt (type_code v), cell_body g v]) g = (Inr v, g)"
    using Cons.prems(1) [of k v] by (auto simp: cell_of_def)
  have "lk_property lk (name_index s (g_properties g)) g = (Inr (GStr s), g)" using k(2) assms(4) by (simp add: get_name_known)
  moreover have "gd_set k v d = d @ [(k, v)]" using Cons.prems(2,3) k(1) p by (intro gd_set_new) auto
  moreover have "entity_properties lk scalar (map (\<lambda>(k, v). PList [name_index (key_name k) (g_properties g), PInt (type_code v), cell_body g v]) ps) (d @ [(k, v)]) g
      = (Inr ((d @ [(k, v)]) @ ps), g)"
    by (rule Cons.IH) (use Cons.prems k p in \<open>auto simp: cell_of_def\<close>)
  ultimately show ?case using k p by (simp add: key_name_def key_of_def)
qed simp

lemma map_entries_known:
  assumes "\<And>k v. (k, v) \<in> set ps \<Longrightarrow> (\<exists>s. k = PStr s) \<and> scalar (cell_of g v) g = (Inr v, g)"
    and "distinct (map fst (d @ ps))" "text_keys d"
  shows "map_entries repr scalar (concat (map (\<lambda>(k, v). [k, PList [PInt (type_code v), cell_body g v]]) ps)) d g = (Inr (GMap (d @ ps)), g)"
  using assms
proof (induction ps arbitrary: d)
  case (Cons p ps)
  obtain k v where p: "p = (k, v)" by (cases p)
  then obtain s where k: "k = PStr s" "scalar (PList [PInt (type_code v), cell_body g v]) g = (Inr v, g)"
    using Cons.prems(1) [of k v] by (auto simp: cell_of_def)
  have "gd_set k v d = d @ [(k, v)]" using Cons.prems(2,3) k(1) p by (intro gd_set_new) auto
  moreover have "map_entries repr scalar (concat (map (\<lambda>(k, v). [k, PList [PInt (type_code v), cell_body g v]]) ps)) (d @ [(k, v)]) g
      = (Inr (GMap ((d @ [(k, v)]) @ ps)), g)"
    by (rule Cons.IH) (use Cons.prems k p in \<open>auto simp: cell_of_def\<close>)
  ultimately show ?case using k p by (simp add: parse_string_def gtext_def)
qed simp

lemma scalar_cell_of [simp]:
  "t < 12 \<Longrightarrow> scalar_cell (PList [PInt (int t), v]) = Inr (scalar_types ! t, v)"
  by (simp add: scalar_cell_def scalar_type_of_def)

lemma scalar_cell_types:
  "scalar_cell (PList [PInt 1, v]) = Inr (VALUE_NULL, v)" "scalar_cell (PList [PInt 2, v]) = Inr (VALUE_STRING, v)"
  "scalar_cell (PList [PInt 3, v]) = Inr (VALUE_INTEGER, v)" "scalar_cell (PList [PInt 4, v]) = Inr (VALUE_BOOLEAN, v)"
  "scalar_cell (PList [PInt 5, v]) = Inr (VALUE_DOUBLE, v)" "scalar_cell (PList [PInt 6, v]) = Inr (VALUE_ARRAY, v)"
  "scalar_cell (PList [PInt 7, v]) = Inr (VALUE_EDGE, v)" "scalar_cell (PList [PInt 8, v]) = Inr (VALUE_NODE, v)"
  "scalar_cell (PList [PInt 9, v]) = Inr (VALUE_PATH, v)" "scalar_cell (PList [PInt 10, v]) = Inr (VALUE_MAP, v)"
  by (simp_all add: scalar_cell_def scalar_type_of_def scalar_types_def numeral_eq_Suc)

lemma parse_scalar_cell: "scalar_cell c = Inr (t, v) \<Longrightarrow>
    parse_scalar repr lk (Suc n) c = parse_typed repr lk (parse_scalar repr lk n) t v"
  by (simp add: fun_eq_iff)

definition parses :: "(gval \<Rightarrow> string) \<Rightarrow> 'w lookups \<Rightarrow> 'w graph \<Rightarrow> nat \<Rightarrow> gval \<Rightarrow> bool" where
  "parses repr lk g n v = (parse_scalar repr lk n (cell_of g v) g = (Inr v, g))"

lemma parse_list_known:
  assumes "\<And>v. v \<in> set vs \<Longrightarrow> parses repr lk g n v"
  shows "mapS (parse_scalar repr lk n) (map (\<lambda>v. PList [PInt (type_code v), cell_body g v]) vs) g = (Inr vs, g)"
proof -
  have "mapS (parse_scalar repr lk n) (map (cell_of g) vs) g = (Inr (map (\<lambda>v. v) vs), g)"
    by (rule mapS_same) (use assms in \<open>auto simp: parses_def\<close>)
  then show ?thesis by (simp add: cell_of_def [abs_def])
qed

lemma parse_plain_known:
  assumes "sendable (Suc n) g (GVal p)"
  shows "parses repr lk g (Suc n) (GVal p)"
proof (cases p)
  case (PBool b)
  then show ?thesis
    by (cases b) (simp_all add: parses_def cell_of_def scalar_cell_types parse_scalar_cell parse_typed_def parse_boolean_def strtobool_def Let_def lower_def lower_char_def)
qed (use assms in \<open>auto simp: parses_def cell_of_def scalar_cell_types parse_scalar_cell parse_typed_def parse_string_def gtext_def\<close>)

lemma parse_props_known:
  assumes "known_props P g ps" "\<And>v. P v \<Longrightarrow> parses repr lk g n v" "lk_property lk = get_name g_properties refresh"
  shows "parse_entity_properties lk (parse_scalar repr lk n)
    (PList (map (\<lambda>(k, v). PList [name_index (key_name k) (g_properties g), PInt (type_code v), cell_body g v]) ps)) g = (Inr ps, g)"
proof -
  have "entity_properties lk (parse_scalar repr lk n)
      (map (\<lambda>(k, v). PList [name_index (key_name k) (g_properties g), PInt (type_code v), cell_body g v]) ps) [] g = (Inr ([] @ ps), g)"
    by (rule entity_properties_known) (use assms in \<open>auto simp: known_props_def parses_def\<close>)
  then show ?thesis by (simp add: parse_entity_properties_def)
qed

lemma sendable_parses:
  assumes "lk = graph_lookups repr qry"
  shows "sendable n g v \<Longrightarrow> parses repr lk g n v"
proof (induction n arbitrary: v rule: less_induct)
  case (less n)
  then obtain m where n: "n = Suc m" by (cases n) auto
  have ih: "\<And>v. sendable m g v \<Longrightarrow> parses repr lk g m v" using less.IH n by simp
  have pr: "lk_property lk = get_name g_properties (refresh_attributes repr qry)"
    "lk_label lk = get_name g_labels (refresh_labels repr qry)" "lk_relation lk = get_name g_relations (refresh_relations repr qry)"
    using assms by (simp_all add: graph_lookups_def)
  show ?case
  proof (cases v)
    case (GVal p)
    then show ?thesis using less.prems n parse_plain_known by simp
  next
    case (GList vs)
    then have "mapS (parse_scalar repr lk m) (map (\<lambda>v. PList [PInt (type_code v), cell_body g v]) vs) g = (Inr vs, g)"
      using less.prems n ih by (intro parse_list_known) (auto simp: list_all_iff)
    then show ?thesis using GList n by (simp add: parses_def cell_of_def scalar_cell_types parse_scalar_cell parse_typed_def parse_array_def)
  next
    case (GMap d)
    then have "map_entries repr (parse_scalar repr lk m) (concat (map (\<lambda>(k, v). [k, PList [PInt (type_code v), cell_body g v]]) d)) [] g = (Inr (GMap ([] @ d)), g)"
      using less.prems n ih by (intro map_entries_known) (auto simp: parses_def)
    then show ?thesis using GMap n by (simp add: parses_def cell_of_def scalar_cell_types parse_scalar_cell parse_typed_def parse_map_def)
  next
    case (GNode i a ls ps)
    then obtain z where z: "i = PInt z" "a = PNone" "known_props (sendable m g) g ps"
      "case ls of None \<Rightarrow> True | Some l \<Rightarrow> l \<noteq> [] \<and> (\<forall>s \<in> set l. s \<noteq> [] \<and> GStr s \<in> set (g_labels g))"
      using less.prems n by auto
    have props: "parse_entity_properties lk (parse_scalar repr lk m)
        (PList (map (\<lambda>(k, v). PList [name_index (key_name k) (g_properties g), PInt (type_code v), cell_body g v]) ps)) g = (Inr ps, g)"
      by (rule parse_props_known [OF z(3) ih pr(1)])
    have labels: "mapS (lk_label lk) (map (\<lambda>s. name_index s (g_labels g)) l) g = (Inr (map GStr l), g)"
      if "ls = Some l" for l
      using z(4) that by (intro mapS_same) (simp add: pr get_name_known)
    have node: "Node (PInt z) PNone (case ls of None \<Rightarrow> GNone | Some l \<Rightarrow> GList (map GStr l)) ps = Inr v"
    proof (cases ls)
      case (Some l)
      then have "filter (\<lambda>x. x \<noteq> GStr []) (map GStr l) = map GStr l" using z(4) by (intro filter_id_if) auto
      moreover have "mapE (\<lambda>x. case x of GVal (PStr s) \<Rightarrow> Inr s | _ \<Rightarrow> Inl e) (map GStr l) = Inr l" for e :: exc
        by (induction l) simp_all
      ultimately show ?thesis using Some z GNode by (simp add: Node_def node_labels_def)
    qed (use GNode z in \<open>simp add: Node_def node_labels_def\<close>)
    show ?thesis
      by (cases ls) (use GNode n z(1,4) props labels node in
        \<open>auto simp: parses_def cell_of_def scalar_cell_types parse_scalar_cell parse_typed_def parse_node_def\<close>)
  next
    case (GEdge s r d i ps)
    then obtain z a b t where z: "i = PInt z" "s = GVal (PInt a)" "d = GVal (PInt b)" "r = GStr t" "GStr t \<in> set (g_relations g)"
      "known_props (sendable m g) g ps" using less.prems n by auto
    have props: "parse_entity_properties lk (parse_scalar repr lk m)
        (PList (map (\<lambda>(k, v). PList [name_index (key_name k) (g_properties g), PInt (type_code v), cell_body g v]) ps)) g = (Inr ps, g)"
      by (rule parse_props_known [OF z(6) ih pr(1)])
    have rel: "lk_relation lk (name_index t (g_relations g)) g = (Inr (GStr t), g)" using z(5) by (simp add: pr get_name_known)
    show ?thesis using GEdge n z props rel
      by (cases t) (simp_all add: parses_def cell_of_def scalar_cell_types parse_scalar_cell parse_typed_def parse_edge_def text_of_def plain_of_def Edge_def)
  next
    case (GPath ns es)
    then obtain k where k: "m = Suc k" using less.prems n by (cases m) auto
    have vs: "parse_scalar repr lk m (PList [PInt 6, PList (map (\<lambda>v. PList [PInt (type_code v), cell_body g v]) vs)]) g = (Inr (GList vs), g)"
      if "list_all (sendable k g) vs" for vs
    proof -
      have "mapS (parse_scalar repr lk k) (map (\<lambda>v. PList [PInt (type_code v), cell_body g v]) vs) g = (Inr vs, g)"
        using that less.IH [of k] n k by (intro parse_list_known) (auto simp: list_all_iff)
      then show ?thesis using k by (simp add: scalar_cell_types parse_scalar_cell parse_typed_def parse_array_def)
    qed
    have "list_all (sendable k g) ns" "list_all (sendable k g) es" using less.prems n k GPath by simp_all
    then show ?thesis using GPath n vs
      by (simp add: parses_def cell_of_def scalar_cell_types parse_scalar_cell parse_typed_def parse_path_def Path_def)
  qed (use less.prems n in simp)
qed

section \<open>Results\<close>

text \<open>A whole answer: the columns hold scalars, the rows the given values.\<close>

definition answer :: "'w graph \<Rightarrow> string list \<Rightarrow> gval list list \<Rightarrow> string list \<Rightarrow> pyval" where
  "answer g columns rows stats = PList [
     PList (map (\<lambda>c. PList [PInt 1, PStr c]) columns),
     PList (map (\<lambda>r. PList (map (cell_of g) r)) rows),
     PList (map PStr stats)]"

lemma column_scalar [simp]: "column_type_of (PInt 1) = Inr COLUMN_SCALAR"
  by (simp add: column_type_of_def py_key_eq_def)

lemma parse_cell_known:
  assumes "i < length columns" "sendable n g v"
  shows "parse_cell repr (graph_lookups repr qry) n (map (\<lambda>c. PList [PInt 1, PStr c]) columns) (i, cell_of g v) g = (Inr v, g)"
  using assms sendable_parses [OF refl assms(2)] by (simp add: parse_cell_def list_index_def parses_def)

lemma parse_record_known:
  assumes "length vs = length columns" "list_all (sendable n g) vs"
  shows "parse_record repr (graph_lookups repr qry) n (map (\<lambda>c. PList [PInt 1, PStr c]) columns) (PList (map (cell_of g) vs)) g = (Inr (GList vs), g)"
proof -
  let ?f = "parse_cell repr (graph_lookups repr qry) n (map (\<lambda>c. PList [PInt 1, PStr c]) columns)"
  have "mapS ?f (map (\<lambda>(i, v). (i, cell_of g v)) (List.enumerate 0 vs)) g = (Inr (map snd (List.enumerate 0 vs)), g)"
  proof (rule mapS_same)
    fix x assume "x \<in> set (List.enumerate 0 vs)"
    then have "fst x < length vs" "snd x = vs ! fst x" by (simp_all add: in_set_enumerate_eq)
    then show "?f (case x of (i, v) \<Rightarrow> (i, cell_of g v)) g = (Inr (snd x), g)"
      using assms by (simp add: list_all_length case_prod_beta parse_cell_known)
  qed
  moreover have "map (\<lambda>(i, v). (i, cell_of g v)) (List.enumerate k vs) = List.enumerate k (map (cell_of g) vs)" for k
    by (induction vs arbitrary: k) simp_all
  ultimately show ?thesis by (simp add: parse_record_def)
qed

lemma no_error_answer: "check_for_errors (answer g columns rows stats) g' = (Inr (), g')"
  by (simp add: check_for_errors_def answer_def is_response_error_def bindS_def retS_def)

lemma query_result_known:
  assumes "columns \<noteq> []" "list_all (\<lambda>r. length r = length columns \<and> list_all (sendable n g) r) rows" "parse_statistics (PList (map PStr stats)) = Inr st"
  shows "QueryResult repr (graph_lookups repr qry) n (answer g columns rows stats) False g =
    (Inr \<lparr>qr_header = map (\<lambda>c. PList [PInt 1, PStr c]) columns, qr_result_set = map GList rows, qr_statistics = Some st\<rparr>, g)"
proof -
  let ?h = "map (\<lambda>c. PList [PInt 1, PStr c]) columns"
  have "mapS (parse_record repr (graph_lookups repr qry) n ?h) (map (\<lambda>r. PList (map (cell_of g) r)) rows) g = (Inr (map GList rows), g)"
    by (rule mapS_same) (use assms(2) in \<open>auto simp: list_all_iff intro!: parse_record_known\<close>)
  then have rs: "parse_records repr (graph_lookups repr qry) n ?h (answer g columns rows stats) g = (Inr (map GList rows), g)"
    by (simp add: parse_records_def answer_def)
  have parts: "py_seq (answer g columns rows stats) = Inr [PList ?h, PList (map (\<lambda>r. PList (map (cell_of g) r)) rows), PList (map PStr stats)]"
    "py_index (answer g columns rows stats) 0 = Inr (PList ?h)" "py_index (answer g columns rows stats) (-1) = Inr (PList (map PStr stats))"
    by (simp_all add: answer_def)
  show ?thesis unfolding QueryResult_def using assms(1,3) rs by (simp add: no_error_answer parts)
qed

section \<open>Names\<close>

definition names_reply :: "string \<Rightarrow> string list \<Rightarrow> pyval" where
  "names_reply c ns = PList [PList [PList [PInt 1, PStr c]], PList (map (\<lambda>s. PList [PList [PInt 2, PStr s]]) ns), PList []]"

definition names_request :: "'w graph \<Rightarrow> string \<Rightarrow> pyval list" where
  "names_request g p = [PStr ''GRAPH.RO_QUERY'', PStr (g_name g), PStr (''CALL '' @ p @ ''()''), PStr ''--compact'']"

lemma no_statistics: "parse_statistics (PList []) = Inr []"
  by (simp add: parse_statistics_def STATS_def)

lemma query_command_names: "query_command repr (g_name g) (plain_query (''CALL '' @ p @ ''()'') True) = Inr (names_request g p)"
  by (simp add: query_command_def plain_query_def build_params_header_def names_request_def is_int_def Let_def)

lemma procedure_text_plain: "procedure_text repr p [] PNone = Inr (''CALL '' @ p @ ''()'')"
  by (simp add: procedure_text_def)

lemma names_result:
  "QueryResult repr (graph_lookups repr qry) (Suc d) (names_reply c ns) False g =
    (Inr \<lparr>qr_header = [PList [PInt 1, PStr c]], qr_result_set = map (\<lambda>s. GList [GStr s]) ns, qr_statistics = Some []\<rparr>, g)"
proof -
  have "answer g [c] (map (\<lambda>s. [GStr s]) ns) [] = names_reply c ns"
    by (simp add: names_reply_def answer_def cell_of_def)
  then show ?thesis
    using query_result_known [where columns = "[c]" and rows = "map (\<lambda>s. [GStr s]) ns" and stats = "[]" and st = "[]" and n = "Suc d" and g = g]
    by (simp add: no_statistics list_all_iff)
qed

text \<open>A query whose command the server answered, and one whose command raised.\<close>

lemma query_answered:
  assumes "query_command repr (g_name g) a = Inr command" "srv command (g_world g) = (Inr response, w)"
  shows "query_step repr srv d qry a g =
    (case QueryResult repr (graph_lookups repr qry) d response (qa_profile a) (g\<lparr>g_world := w\<rparr>) of
       (Inr r, s) \<Rightarrow> (Inr r, s) | (Inl e, s) \<Rightarrow> query_handler repr qry a e s)"
  using assms by (simp add: query_step_def bindS_def getS_def graph_execute_def catchS_def split: prod.split sum.split)

lemma query_refused:
  assumes "query_command repr (g_name g) a = Inr command" "srv command (g_world g) = (Inl e, w)"
  shows "query_step repr srv d qry a g = query_handler repr qry a (GExc e) (g\<lparr>g_world := w\<rparr>)"
  using assms by (simp add: query_step_def bindS_def getS_def graph_execute_def catchS_def)

lemma plain_query_simps [simp]: "qa_profile (plain_query q ro) = False" "qa_read_only (plain_query q ro) = ro"
  by (simp_all add: plain_query_def)

lemma procedure_names_reply:
  assumes "srv (names_request g p) (g_world g) = (Inr (names_reply c ns), w)"
  shows "procedure_names repr (graph_query repr srv (Suc d) (Suc n)) p g = (Inr (map GStr ns), g\<lparr>g_world := w\<rparr>)"
proof -
  have q: "graph_query repr srv (Suc d) (Suc n) (plain_query (''CALL '' @ p @ ''()'') True) g =
      (Inr \<lparr>qr_header = [PList [PInt 1, PStr c]], qr_result_set = map (\<lambda>s. GList [GStr s]) ns, qr_statistics = Some []\<rparr>, g\<lparr>g_world := w\<rparr>)"
    using query_answered [where srv = srv and g = g, OF query_command_names assms] by (simp add: names_result graph_query.simps(2) [where n = n])
  have "mapE row_name (map (\<lambda>s. GList [GStr s]) ns) = Inr (map GStr ns)"
    by (induction ns) (simp_all add: row_name_def element_at_def)
  then show ?thesis using q by (simp add: procedure_names_def call_procedure_def procedure_text_plain)
qed

lemma mismatch_result:
  "QueryResult repr lk d (PList [PExc (Exc ResponseError ''version mismatch''), v]) pr s = (Inl (VersionMismatchException v), s)"
  by (simp add: QueryResult_def check_for_errors_def is_response_error_def)

text \<open>The three procedures, asked one after the other.\<close>

definition answers_schema :: "'w server \<Rightarrow> 'w graph \<Rightarrow> string list \<Rightarrow> string list \<Rightarrow> string list \<Rightarrow> 'w \<Rightarrow> bool" where
  "answers_schema srv g ls rs ps w = (\<exists>c w1 c' w2 c''.
     srv (names_request g ''DB.LABELS'') (g_world g) = (Inr (names_reply c ls), w1) \<and>
     srv (names_request g ''DB.RELATIONSHIPTYPES'') w1 = (Inr (names_reply c' rs), w2) \<and>
     srv (names_request g ''DB.PROPERTYKEYS'') w2 = (Inr (names_reply c'' ps), w))"

lemma refresh_schema_reply:
  assumes "answers_schema srv g ls rs ps w"
  shows "refresh_schema repr (graph_query repr srv (Suc d) (Suc n)) g =
    (Inr (), g\<lparr>g_labels := map GStr ls, g_relations := map GStr rs, g_properties := map GStr ps, g_world := w\<rparr>)"
proof -
  obtain c w1 c' w2 c'' where s: "srv (names_request g ''DB.LABELS'') (g_world g) = (Inr (names_reply c ls), w1)"
    "srv (names_request g ''DB.RELATIONSHIPTYPES'') w1 = (Inr (names_reply c' rs), w2)"
    "srv (names_request g ''DB.PROPERTYKEYS'') w2 = (Inr (names_reply c'' ps), w)"
    using assms unfolding answers_schema_def by blast
  define g0 where "g0 = g\<lparr>g_labels := [], g_properties := [], g_relations := []\<rparr>"
  define g1 where "g1 = g0\<lparr>g_world := w1, g_labels := map GStr ls\<rparr>"
  define g2 where "g2 = g1\<lparr>g_world := w2, g_relations := map GStr rs\<rparr>"
  let ?q = "graph_query repr srv (Suc d) (Suc n)"
  have "procedure_names repr ?q ''DB.LABELS'' g0 = (Inr (map GStr ls), g0\<lparr>g_world := w1\<rparr>)"
    by (rule procedure_names_reply) (use s(1) in \<open>simp add: g0_def names_request_def\<close>)
  then have 1: "refresh_labels repr ?q g0 = (Inr (), g1)" by (simp add: refresh_labels_def g1_def)
  have "procedure_names repr ?q ''DB.RELATIONSHIPTYPES'' g1 = (Inr (map GStr rs), g1\<lparr>g_world := w2\<rparr>)"
    by (rule procedure_names_reply) (use s(2) in \<open>simp add: g1_def g0_def names_request_def\<close>)
  then have 2: "refresh_relations repr ?q g1 = (Inr (), g2)" by (simp add: refresh_relations_def g2_def)
  have "procedure_names repr ?q ''DB.PROPERTYKEYS'' g2 = (Inr (map GStr ps), g2\<lparr>g_world := w\<rparr>)"
    by (rule procedure_names_reply) (use s(3) in \<open>simp add: g2_def g1_def g0_def names_request_def\<close>)
  then have 3: "refresh_attributes repr ?q g2 = (Inr (), g2\<lparr>g_world := w, g_properties := map GStr ps\<rparr>)" by (simp add: refresh_attributes_def)
  have "clear_schema g = (Inr (), g0)" by (simp add: clear_schema_def g0_def)
  then show ?thesis using 1 2 3 by (simp add: refresh_schema_def g2_def g1_def g0_def)
qed

section \<open>Properties of queries\<close>

text \<open>C38: A query gives exactly the values that the server sent, to any depth that the stack allows and with the names the client has; nothing
  else is asked for.\<close>

theorem query_gives_the_rows:
  assumes "query_command repr (g_name g) a = Inr command" "\<not> qa_profile a"
    and "srv command (g_world g) = (Inr (answer g columns rows stats), w)"
    and "columns \<noteq> []" "list_all (\<lambda>r. length r = length columns \<and> list_all (sendable d (g\<lparr>g_world := w\<rparr>)) r) rows"
    and "answer (g\<lparr>g_world := w\<rparr>) columns rows stats = answer g columns rows stats"
    and "parse_statistics (PList (map PStr stats)) = Inr st"
  shows "graph_query repr srv d (Suc n) a g =
    (Inr \<lparr>qr_header = map (\<lambda>c. PList [PInt 1, PStr c]) columns, qr_result_set = map GList rows, qr_statistics = Some st\<rparr>, g\<lparr>g_world := w\<rparr>)"
proof -
  have "QueryResult repr (graph_lookups repr (graph_query repr srv d n)) d (answer g columns rows stats) False (g\<lparr>g_world := w\<rparr>) =
      (Inr \<lparr>qr_header = map (\<lambda>c. PList [PInt 1, PStr c]) columns, qr_result_set = map GList rows, qr_statistics = Some st\<rparr>, g\<lparr>g_world := w\<rparr>)"
    using query_result_known [OF assms(4,5,7), of repr "graph_query repr srv d n"] assms(6) by simp
  then show ?thesis using query_answered [where srv = srv and g = g, OF assms(1,3)] assms(2) by (simp add: graph_query.simps(2) [where n = n])
qed

text \<open>A label that the client does not know is looked up with one query for all labels, which replace those it had.\<close>

theorem unknown_label_is_asked_for:
  assumes "length (g_labels g) \<le> i" "i < length ls" "srv (names_request g ''DB.LABELS'') (g_world g) = (Inr (names_reply c ls), w)"
  shows "lk_label (graph_lookups repr (graph_query repr srv (Suc d) (Suc n))) (PInt (int i)) g =
    (Inr (GStr (ls ! i)), g\<lparr>g_labels := map GStr ls, g_world := w\<rparr>)"
proof -
  have "refresh_labels repr (graph_query repr srv (Suc d) (Suc n)) g = (Inr (), g\<lparr>g_labels := map GStr ls, g_world := w\<rparr>)"
    using procedure_names_reply [of srv g "''DB.LABELS''" c ls w repr d n] assms(3) by (simp add: refresh_labels_def)
  moreover have "name_at (g_labels g) (PInt (int i)) = Inl (Exc IndexError ''list index out of range'')"
    using assms(1) by (simp add: name_at_def is_int_def int_of_val_def element_at_def)
  moreover have "name_at (map GStr ls) (PInt (int i)) = Inr (GStr (ls ! i))"
    using assms(2) by (simp add: name_at_def is_int_def int_of_val_def element_at_def)
  moreover have "isinstance (Exc IndexError m) IndexError" for m by simp
  ultimately show ?thesis by (simp add: graph_lookups_def get_name_def bindS_def thenS_def getS_def)
qed

text \<open>When the server has another version of the graph, the client takes over this version and all names, and asks again; the second query is a
  plain one, also when the first was a profile.\<close>

theorem version_mismatch_recovers:
  assumes "query_command repr (g_name g) a = Inr command"
    and "srv command (g_world g) = (Inr (PList [PExc (Exc ResponseError ''version mismatch''), v]), w1)"
    and "answers_schema srv (g\<lparr>g_world := w1\<rparr>) ls rs ps w"
  shows "graph_query repr srv (Suc d) (Suc (Suc n)) a g =
    graph_query repr srv (Suc d) (Suc n) (a\<lparr>qa_profile := False\<rparr>)
      (g\<lparr>g_version := v, g_labels := map GStr ls, g_relations := map GStr rs, g_properties := map GStr ps, g_world := w\<rparr>)"
proof -
  let ?q = "graph_query repr srv (Suc d) (Suc n)"
  define g1 where "g1 = g\<lparr>g_world := w1, g_version := v\<rparr>"
  have "answers_schema srv g1 ls rs ps w" using assms(3) by (simp add: answers_schema_def g1_def names_request_def)
  then have "refresh_schema repr ?q g1 = (Inr (), g1\<lparr>g_labels := map GStr ls, g_relations := map GStr rs, g_properties := map GStr ps, g_world := w\<rparr>)"
    by (rule refresh_schema_reply)
  then show ?thesis using query_answered [where srv = srv and g = g, OF assms(1,2)]
    by (simp add: mismatch_result query_handler_def g1_def graph_query.simps(2) [where n = "Suc n"])
qed

definition demo_graph :: "nat graph" where
  "demo_graph = (Graph ''g'' 0)\<lparr>g_labels := [GStr ''Person''], g_properties := [GStr ''name'']\<rparr>"

definition demo_ann :: gval where
  "demo_ann = GNode (PInt 0) PNone (Some [''Person'']) [(PStr ''name'', GStr ''Ann'')]"

lemma demo_sendable: "sendable 3 (demo_graph\<lparr>g_world := Suc 0\<rparr>) (GList [demo_ann, GVal (PBool True)])"
  by (simp add: demo_graph_def Graph_def demo_ann_def known_props_def numeral_3_eq_3)

lemma demo_statistics: "parse_statistics (PList (map PStr [''Cached execution: 1''])) = Inr [(''Cached execution'', Fin 1)]"
  by code_simp

theorem query_gives_the_rows_witness:
  "graph_query (\<lambda>_. []) (\<lambda>args w. (Inr (answer demo_graph [''p''] [[GList [demo_ann, GVal (PBool True)]]] [''Cached execution: 1'']), Suc w)) 3 (Suc 0)
     (plain_query ''MATCH (p) RETURN p'' False) demo_graph =
   (Inr \<lparr>qr_header = map (\<lambda>c. PList [PInt 1, PStr c]) [''p''], qr_result_set = map GList [[GList [demo_ann, GVal (PBool True)]]],
      qr_statistics = Some [(''Cached execution'', Fin 1)]\<rparr>, demo_graph\<lparr>g_world := Suc 0\<rparr>)"
proof (rule query_gives_the_rows [where columns = "[''p'']" and stats = "[''Cached execution: 1'']"])
  show "query_command (\<lambda>_. []) (g_name demo_graph) (plain_query ''MATCH (p) RETURN p'' False) =
      Inr [PStr ''GRAPH.QUERY'', PStr ''g'', PStr ''MATCH (p) RETURN p'', PStr ''--compact'']"
    by (simp add: query_command_def plain_query_def build_params_header_def is_int_def demo_graph_def Graph_def)
  show "(Inr (answer demo_graph [''p''] [[GList [demo_ann, GVal (PBool True)]]] [''Cached execution: 1'']), Suc (g_world demo_graph)) =
      (Inr (answer demo_graph [''p''] [[GList [demo_ann, GVal (PBool True)]]] [''Cached execution: 1'']), Suc 0)"
    by (simp add: demo_graph_def Graph_def)
  show "answer (demo_graph\<lparr>g_world := Suc 0\<rparr>) [''p''] [[GList [demo_ann, GVal (PBool True)]]] [''Cached execution: 1''] =
      answer demo_graph [''p''] [[GList [demo_ann, GVal (PBool True)]]] [''Cached execution: 1'']"
    by (simp add: answer_def cell_of_def demo_graph_def Graph_def demo_ann_def)
qed (use demo_sendable demo_statistics in simp_all)

theorem unknown_label_is_asked_for_witness:
  "lk_label (graph_lookups (\<lambda>_. []) (graph_query (\<lambda>_. []) (\<lambda>args w. (Inr (names_reply ''label'' [''Person'', ''Team'']), Suc w)) (Suc 0) (Suc 0)))
     (PInt (int 1)) demo_graph = (Inr (GStr ([''Person'', ''Team''] ! 1)), demo_graph\<lparr>g_labels := map GStr [''Person'', ''Team''], g_world := Suc 0\<rparr>)"
  by (rule unknown_label_is_asked_for) (simp_all add: demo_graph_def Graph_def)

text \<open>A server whose graph has version 7: it refuses the first command, and answers the names and everything else.\<close>

definition demo_server :: "nat server" where
  "demo_server args w = (if w = 0 then Inr (PList [PExc (Exc ResponseError ''version mismatch''), PInt 7])
     else Inr (names_reply ''name'' [''Ann'']), Suc w)"

theorem version_mismatch_recovers_witness:
  "graph_query (\<lambda>_. []) demo_server (Suc 0) (Suc (Suc 0)) ((plain_query ''MATCH (p) RETURN p'' False)\<lparr>qa_profile := True\<rparr>) demo_graph =
   graph_query (\<lambda>_. []) demo_server (Suc 0) (Suc 0) ((plain_query ''MATCH (p) RETURN p'' False)\<lparr>qa_profile := True, qa_profile := False\<rparr>)
     (demo_graph\<lparr>g_version := PInt 7, g_labels := map GStr [''Ann''], g_relations := map GStr [''Ann''], g_properties := map GStr [''Ann''], g_world := 4\<rparr>)"
proof (rule version_mismatch_recovers)
  show "query_command (\<lambda>_. []) (g_name demo_graph) ((plain_query ''MATCH (p) RETURN p'' False)\<lparr>qa_profile := True\<rparr>) =
      Inr [PStr ''GRAPH.PROFILE'', PStr ''g'', PStr ''MATCH (p) RETURN p'', PStr ''--compact'']"
    by (simp add: query_command_def plain_query_def build_params_header_def is_int_def demo_graph_def Graph_def)
  show "answers_schema demo_server (demo_graph\<lparr>g_world := 1\<rparr>) [''Ann''] [''Ann''] [''Ann''] 4"
    by (auto simp: answers_schema_def demo_server_def demo_graph_def)
qed (simp add: demo_server_def demo_graph_def Graph_def)

text \<open>A server that tells of another version each time makes the query end in RecursionError, however deep the stack is.\<close>

theorem endless_mismatch_exhausts_stack:
  assumes "query_command repr (g_name g) a = Inr command"
    and "\<And>args w. \<exists>v w'. srv args w = (Inr (PList [PExc (Exc ResponseError ''version mismatch''), v]), w')"
  shows "fst (graph_query repr srv d n a g) = Inl (GExc (Exc RecursionError ''maximum recursion depth exceeded''))"
  using assms(1)
proof (induction n arbitrary: a command g)
  case 0
  then show ?case by (simp add: graph_query.simps)
next
  case (Suc n)
  obtain v w where s: "srv command (g_world g) = (Inr (PList [PExc (Exc ResponseError ''version mismatch''), v]), w)"
    using assms(2) by blast
  define g1 where "g1 = g\<lparr>g_world := w, g_version := v, g_labels := [], g_properties := [], g_relations := []\<rparr>"
  have "fst (graph_query repr srv d n (plain_query (''CALL '' @ ''DB.LABELS'' @ ''()'') True) g1) =
      Inl (GExc (Exc RecursionError ''maximum recursion depth exceeded''))"
    by (rule Suc.IH [OF query_command_names])
  then obtain g2 where "graph_query repr srv d n (plain_query (''CALL '' @ ''DB.LABELS'' @ ''()'') True) g1 =
      (Inl (GExc (Exc RecursionError ''maximum recursion depth exceeded'')), g2)" by (metis prod.collapse)
  then have "refresh_labels repr (graph_query repr srv d n) g1 = (Inl (GExc (Exc RecursionError ''maximum recursion depth exceeded'')), g2)"
    by (simp add: refresh_labels_def procedure_names_def call_procedure_def procedure_text_plain)
  then have "refresh_schema repr (graph_query repr srv d n) (g\<lparr>g_world := w, g_version := v\<rparr>) =
      (Inl (GExc (Exc RecursionError ''maximum recursion depth exceeded'')), g2)"
    by (simp add: refresh_schema_def clear_schema_def g1_def)
  then show ?case using query_answered [where srv = srv and g = g, OF Suc.prems s]
    by (simp add: mismatch_result query_handler_def graph_query.simps(2) [where n = n])
qed

theorem endless_mismatch_exhausts_stack_witness:
  "fst (graph_query (\<lambda>_. []) (\<lambda>args w. (Inr (PList [PExc (Exc ResponseError ''version mismatch''), PInt 7]), w)) 5 100
     (plain_query (''CALL '' @ ''DB.LABELS'' @ ''()'') True) demo_graph) = Inl (GExc (Exc RecursionError ''maximum recursion depth exceeded''))"
  by (rule endless_mismatch_exhausts_stack [OF query_command_names]) simp

text \<open>On a server without GRAPH.RO_QUERY a read-only query is sent again as GRAPH.QUERY.\<close>

theorem old_server_gets_plain_query:
  assumes "query_command repr (g_name g) a = Inr command" "qa_read_only a"
    and "srv command (g_world g) = (Inl e, w)" "isinstance e ResponseError" "has_sub ''unknown command'' (exc_msg e)"
  shows "graph_query repr srv d (Suc n) a g = graph_query repr srv d n (a\<lparr>qa_read_only := False, qa_profile := False\<rparr>) (g\<lparr>g_world := w\<rparr>)"
  using query_refused [where srv = srv and g = g, OF assms(1,3)] assms(2,4,5)
  by (simp add: query_handler_def graph_query.simps(2) [where n = n])

theorem old_server_gets_plain_query_witness:
  "graph_query (\<lambda>_. []) (\<lambda>args w. (Inl (Exc ResponseError ''unknown command GRAPH.RO_QUERY''), Suc w)) 5 (Suc 1)
     (plain_query (''CALL '' @ ''DB.LABELS'' @ ''()'') True) demo_graph =
   graph_query (\<lambda>_. []) (\<lambda>args w. (Inl (Exc ResponseError ''unknown command GRAPH.RO_QUERY''), Suc w)) 5 1
     ((plain_query (''CALL '' @ ''DB.LABELS'' @ ''()'') True)\<lparr>qa_read_only := False, qa_profile := False\<rparr>) (demo_graph\<lparr>g_world := Suc 0\<rparr>)"
  by (rule old_server_gets_plain_query [OF query_command_names]) (simp add: demo_graph_def Graph_def, simp add: demo_graph_def Graph_def, code_simp, code_simp)

section \<open>Committing\<close>

lemma node_str_end: "node_str repr n = Inr t \<Longrightarrow> t \<noteq> [] \<and> last t = CHR '')''"
  by (cases n) (auto simp: node_str_def bindE_eq_Inr)

lemma edge_str_end: "edge_str repr e = Inr t \<Longrightarrow> t \<noteq> [] \<and> last t = CHR '')''"
  by (cases e) (auto simp: edge_str_def bindE_eq_Inr dest!: node_str_end)

lemma concat_commas: "us \<noteq> [] \<Longrightarrow> concat (map (\<lambda>t. t @ '','') ts) @ join_with '','' us = join_with '','' (ts @ us)"
  by (induction ts) (simp_all add: join_with_Cons)

lemma butlast_commas: "ts \<noteq> [] \<Longrightarrow> concat (map (\<lambda>t. t @ '','') ts) = join_with '','' ts @ '',''"
proof (induction ts)
  case (Cons t ts)
  then show ?case by (cases ts) simp_all
qed simp

lemma last_join: "us \<noteq> [] \<Longrightarrow> last us \<noteq> [] \<Longrightarrow> last (join_with sep us) = last (last us) \<and> join_with sep us \<noteq> []"
proof (induction us)
  case (Cons u us)
  then show ?case by (cases us) auto
qed simp

text \<open>A commit creates exactly the nodes and the edges of the graph, in their order and separated by commas.\<close>

theorem commit_creates_everything:
  assumes "mapE (\<lambda>(_, n). node_str repr n) (g_nodes g) = Inr ns" "mapE (edge_str repr) (g_edges g) = Inr es"
    and "g_nodes g \<noteq> [] \<or> g_edges g \<noteq> []"
  shows "commit repr qry g =
    bindS (qry (plain_query (''CREATE '' @ join_with '','' (ns @ es)) False)) (\<lambda>r. retS (Some r)) g"
proof -
  have len: "length ns = length (g_nodes g)" "length es = length (g_edges g)" using assms(1,2) by (simp_all add: mapE_length)
  have "commit_text repr g = Inr (''CREATE '' @ join_with '','' (ns @ es))"
  proof (cases "es = []")
    case True
    then have "ns \<noteq> []" using assms(3) len by auto
    then show ?thesis using assms(1,2) True by (simp add: commit_text_def butlast_commas Let_def)
  next
    case False
    then have "last es \<in> set es" by simp
    then obtain e where "edge_str repr e = Inr (last es)"
      using assms(2) by (metis in_set_conv_nth mapE_Inr_nth mapE_length)
    then have l: "last es \<noteq> []" "last (last es) = CHR '')''" using edge_str_end by auto
    have "concat (map (\<lambda>t. t @ '','') ns) @ join_with '','' es = join_with '','' (ns @ es)" using False by (rule concat_commas)
    moreover have "last (join_with '','' (ns @ es)) = CHR '')''" "join_with '','' (ns @ es) \<noteq> []"
      using last_join [of "ns @ es"] False l by simp_all
    ultimately show ?thesis using assms(1,2) by (simp add: commit_text_def Let_def)
  qed
  then show ?thesis using assms(3) by (auto simp: commit_def)
qed

theorem commit_creates_everything_witness:
  "commit (\<lambda>_. []) (\<lambda>a g. (Inl (GExc (Exc ConnectionError (qa_q a))), g)) (demo_graph\<lparr>g_nodes := [(PStr ''a'', GNode PNone (PStr ''a'') (Some [''Person'']) [])]\<rparr>) =
   bindS ((\<lambda>a g. (Inl (GExc (Exc ConnectionError (qa_q a))), g)) (plain_query (''CREATE '' @ join_with '','' ([''(a:Person)''] @ [])) False)) (\<lambda>r. retS (Some r))
     (demo_graph\<lparr>g_nodes := [(PStr ''a'', GNode PNone (PStr ''a'') (Some [''Person'']) [])]\<rparr>)"
  by (rule commit_creates_everything) (simp_all add: demo_graph_def Graph_def node_str_def props_text_def text_or_raise_def)

section \<open>Putting paths together\<close>

text \<open>Paths to which nodes are added as nodes and edges as edges.\<close>

inductive built :: "path \<Rightarrow> bool" where
  built_empty: "built new_empty_path"
| built_node: "built p \<Longrightarrow> is_node n \<Longrightarrow> path_add_node n p = Inr p' \<Longrightarrow> built p'"
| built_edge: "built p \<Longrightarrow> is_edge e \<Longrightarrow> path_add_edge e p = Inr p' \<Longrightarrow> built p'"

lemma node_is_no_edge: "is_node g \<Longrightarrow> \<not> is_edge g"
  by (cases g) (simp_all add: is_node_def is_edge_def)

text \<open>A path to which nodes are added as nodes and edges as edges alternates: it has as many nodes as edges when it waits for a node and one more
  when it waits for an edge.\<close>

theorem built_paths_alternate:
  assumes "built p"
  shows "list_all is_node (pt_nodes p) \<and> list_all is_edge (pt_edges p) \<and>
    nodes_count p = edge_count p + (if pt_wants_node p then 0 else 1)"
  using assms
  by (induction rule: built.induct)
    (auto simp: new_empty_path_def path_add_node_def path_add_edge_def nodes_count_def edge_count_def dest: node_is_no_edge split: if_splits)

theorem built_paths_alternate_witness:
  "list_all is_node (pt_nodes \<lparr>pt_nodes = [demo_ann], pt_edges = [], pt_wants_node = False\<rparr>) \<and>
   list_all is_edge (pt_edges \<lparr>pt_nodes = [demo_ann], pt_edges = [], pt_wants_node = False\<rparr>) \<and>
   nodes_count \<lparr>pt_nodes = [demo_ann], pt_edges = [], pt_wants_node = False\<rparr> =
     edge_count \<lparr>pt_nodes = [demo_ann], pt_edges = [], pt_wants_node = False\<rparr> +
     (if pt_wants_node \<lparr>pt_nodes = [demo_ann], pt_edges = [], pt_wants_node = False\<rparr> then 0 else 1)"
proof (rule built_paths_alternate)
  show "built \<lparr>pt_nodes = [demo_ann], pt_edges = [], pt_wants_node = False\<rparr>"
    by (rule built_node [OF built_empty, of demo_ann]) (simp_all add: demo_ann_def is_node_def path_add_node_def new_empty_path_def)
qed

text \<open>The check of \<open>add_node\<close> looks at what is expected, not at what it adds: after a node it puts an edge among the nodes.\<close>

theorem edge_becomes_node:
  "\<not> pt_wants_node p \<Longrightarrow> is_edge e \<Longrightarrow> path_add_node e p = Inr (p\<lparr>pt_nodes := pt_nodes p @ [e], pt_wants_node := False\<rparr>)"
  by (simp add: path_add_node_def)

theorem edge_becomes_node_witness:
  "path_add_node (GEdge (GVal (PInt 0)) (GStr ''knows'') (GVal (PInt 1)) (PInt 5) []) \<lparr>pt_nodes = [demo_ann], pt_edges = [], pt_wants_node = False\<rparr> =
    Inr (\<lparr>pt_nodes = [demo_ann], pt_edges = [], pt_wants_node = False\<rparr>\<lparr>pt_nodes := pt_nodes \<lparr>pt_nodes = [demo_ann], pt_edges = [], pt_wants_node = False\<rparr> @
      [GEdge (GVal (PInt 0)) (GStr ''knows'') (GVal (PInt 1)) (PInt 5) []], pt_wants_node := False\<rparr>)"
  by (rule edge_becomes_node) (simp_all add: is_edge_def)

text \<open>An edge to a node that is not in the graph raises KeyError, not the announced AssertionError, and leaves the graph alone.\<close>

theorem foreign_edge_raises_key_error:
  assumes "hashable a" "hashable b" "gd_get a (g_nodes g) = None \<or> gd_get b (g_nodes g) = None"
    and "\<And>k m. gd_get k (g_nodes g) = Some m \<Longrightarrow> is_node m"
  shows "add_edge (GEdge (GNode i a ls ps) r (GNode j b ms qs) e us) g = (Inl (GExc (Exc KeyError [])), g)"
proof (cases "gd_get a (g_nodes g)")
  case None
  then show ?thesis using assms(1) by (simp add: add_edge_def node_known_def bindS_def getS_def)
next
  case (Some m)
  then have "gtruthy m" using assms(4) [OF Some] by (cases m) (auto simp: is_node_def)
  then show ?thesis using Some assms(1-3) by (simp add: add_edge_def node_known_def bindS_def getS_def)
qed

theorem foreign_edge_raises_key_error_witness:
  "add_edge (GEdge (GNode PNone (PStr ''a'') None []) (GStr ''knows'') (GNode PNone (PStr ''b'') None []) PNone []) demo_graph =
    (Inl (GExc (Exc KeyError [])), demo_graph)"
  by (rule foreign_edge_raises_key_error) (simp_all add: demo_graph_def Graph_def)

end
