(* ===== verification/AsyncGraph.thy ===== *)
theory AsyncGraph
  imports GraphQuery
begin

text \<open>
  The asynchronous graph (\<open>AsyncGraph\<close>, \<open>AsyncQueryResult\<close> and \<open>AsyncGraphCommands\<close> in \<open>redis/commands/graph\<close>). A parser is awaited whether it is a
  coroutine or not, and a \<open>TypeError\<close> is taken for a sign that it is not; the names are not read again when the graph has another version. What the
  synchronous class parses, the asynchronous one parses to the same value; it also makes values of what the synchronous class refuses.
\<close>

section \<open>Parsing\<close>

definition await_none :: exc where
  "await_none = Exc TypeError ''object NoneType cannot be used in await expression''"

text \<open>The parsers that \<open>AsyncQueryResult\<close> overrides are coroutines.\<close>

definition is_coroutine :: "scalar_type \<Rightarrow> bool" where
  "is_coroutine t = (t \<in> {VALUE_ARRAY, VALUE_EDGE, VALUE_NODE, VALUE_PATH, VALUE_MAP})"

definition aio_parse_node :: "'w lookups \<Rightarrow> (pyval \<Rightarrow> ('w, gval) gact) \<Rightarrow> pyval \<Rightarrow> ('w, gval) gact" where
  "aio_parse_node lk scalar cell =
     bindS (liftG (bindE (py_index cell 1) py_seq)) (\<lambda>ls.
     bindS (if ls = [] then retS GNone else bindS (mapS (lk_label lk) ls) (\<lambda>names. retS (GList names))) (\<lambda>labels.
     bindS (bindS (liftG (py_index cell 2)) (parse_entity_properties lk scalar)) (\<lambda>ps.
     bindS (liftG (bindE (py_index cell 0) to_int)) (\<lambda>node_id.
     liftG (Node (PInt node_id) PNone labels ps)))))"

definition aio_parse_typed :: "(gval \<Rightarrow> string) \<Rightarrow> 'w lookups \<Rightarrow> (pyval \<Rightarrow> ('w, gval) gact) \<Rightarrow> scalar_type \<Rightarrow> pyval \<Rightarrow> ('w, gval) gact" where
  "aio_parse_typed repr lk scalar t v = (if t = VALUE_NODE then aio_parse_node lk scalar v else parse_typed repr lk scalar t v)"

text \<open>\<open>except TypeError\<close>: the parser is called again; a coroutine is then the value itself, and nobody awaits it.\<close>

definition call_again :: "(gval \<Rightarrow> string) \<Rightarrow> 'w lookups \<Rightarrow> (pyval \<Rightarrow> ('w, gval) gact) \<Rightarrow> scalar_type \<Rightarrow> pyval \<Rightarrow> graph_exc \<Rightarrow> ('w, gval) gact" where
  "call_again repr lk scalar t v e = (case e of
      GExc x \<Rightarrow> (if isinstance x TypeError
        then (if is_coroutine t then retS GCoroutine else aio_parse_typed repr lk scalar t v) else raiseS e)
    | VersionMismatchException _ \<Rightarrow> raiseS e)"

fun aio_parse_scalar :: "(gval \<Rightarrow> string) \<Rightarrow> 'w lookups \<Rightarrow> nat \<Rightarrow> pyval \<Rightarrow> ('w, gval) gact" where
  "aio_parse_scalar repr lk 0 cell = liftG (Inl (Exc RecursionError ''maximum recursion depth exceeded''))"
| "aio_parse_scalar repr lk (Suc n) cell =
     bindS (liftG (scalar_cell cell)) (\<lambda>(t, v).
       catchS (bindS (aio_parse_typed repr lk (aio_parse_scalar repr lk n) t v)
                 (\<lambda>r. if is_coroutine t then retS r else raiseS (GExc await_none)))
         (call_again repr lk (aio_parse_scalar repr lk n) t v))"

definition aio_parse_cell :: "(gval \<Rightarrow> string) \<Rightarrow> 'w lookups \<Rightarrow> nat \<Rightarrow> pyval list \<Rightarrow> nat \<times> pyval \<Rightarrow> ('w, gval) gact" where
  "aio_parse_cell repr lk n header = (\<lambda>(idx, cell).
     bindS (liftG (bindE (bindE (list_index header (int idx)) (\<lambda>h. py_index h 0)) column_type_of)) (\<lambda>t. case t of
       COLUMN_SCALAR \<Rightarrow> aio_parse_scalar repr lk n cell
     | COLUMN_NODE \<Rightarrow> aio_parse_node lk (aio_parse_scalar repr lk n) cell
     | COLUMN_RELATION \<Rightarrow> parse_edge lk (aio_parse_scalar repr lk n) cell
     | COLUMN_UNKNOWN \<Rightarrow> liftG (Inl await_none)))"

definition aio_parse_record :: "(gval \<Rightarrow> string) \<Rightarrow> 'w lookups \<Rightarrow> nat \<Rightarrow> pyval list \<Rightarrow> pyval \<Rightarrow> ('w, gval) gact" where
  "aio_parse_record repr lk n header row =
     bindS (liftG (py_iter row)) (\<lambda>cells.
     bindS (mapS (aio_parse_cell repr lk n header) (List.enumerate 0 cells)) (\<lambda>vs. retS (GList vs)))"

definition aio_parse_records :: "(gval \<Rightarrow> string) \<Rightarrow> 'w lookups \<Rightarrow> nat \<Rightarrow> pyval list \<Rightarrow> pyval \<Rightarrow> ('w, gval list) gact" where
  "aio_parse_records repr lk n header raw_result_set =
     bindS (liftG (bindE (py_index raw_result_set 1) py_iter)) (mapS (aio_parse_record repr lk n header))"

text \<open>\<open>AsyncQueryResult().initialize(graph, response, profile)\<close>.\<close>

definition AsyncQueryResult :: "(gval \<Rightarrow> string) \<Rightarrow> 'w lookups \<Rightarrow> nat \<Rightarrow> pyval \<Rightarrow> bool \<Rightarrow> ('w, query_result) gact" where
  "AsyncQueryResult repr lk n response profile =
     thenS (check_for_errors response)
     (bindS (liftG (py_seq response)) (\<lambda>items.
       if length items = 1 then
         bindS (liftG (bindE (py_index response 0) parse_statistics)) (\<lambda>st. retS \<lparr>qr_header = [], qr_result_set = [], qr_statistics = Some st\<rparr>)
       else if profile then
         bindS (liftG (mapE profile_line items)) (\<lambda>rs. retS \<lparr>qr_header = [], qr_result_set = rs, qr_statistics = None\<rparr>)
       else
         bindS (liftG (bindE (py_index response (-1)) parse_statistics)) (\<lambda>st.
         bindS (liftG (bindE (py_index response 0) py_seq)) (\<lambda>header.
         if header = [] then retS \<lparr>qr_header = [], qr_result_set = [], qr_statistics = Some st\<rparr>
         else bindS (aio_parse_records repr lk n header response) (\<lambda>rs.
           retS \<lparr>qr_header = header, qr_result_set = rs, qr_statistics = Some st\<rparr>)))))"

section \<open>Queries\<close>

text \<open>The asynchronous \<open>call_procedure\<close> makes the text of \<open>YIELD\<close> and drops it.\<close>

definition aio_call_procedure :: "(gval \<Rightarrow> string) \<Rightarrow> 'w querier \<Rightarrow> string \<Rightarrow> pyval list \<Rightarrow> bool \<Rightarrow> pyval \<Rightarrow> ('w, query_result) gact" where
  "aio_call_procedure repr qry procedure args ro y =
     bindS (liftG (procedure_text repr procedure args y)) (\<lambda>_.
     bindS (liftG (procedure_text repr procedure args PNone)) (\<lambda>q. qry (plain_query q ro)))"

definition aio_procedure_names :: "(gval \<Rightarrow> string) \<Rightarrow> 'w querier \<Rightarrow> string \<Rightarrow> ('w, gval list) gact" where
  "aio_procedure_names repr qry procedure =
     bindS (aio_call_procedure repr qry procedure [] True PNone) (\<lambda>r. liftG (mapE row_name (qr_result_set r)))"

definition aio_refresh_labels :: "(gval \<Rightarrow> string) \<Rightarrow> 'w querier \<Rightarrow> ('w, unit) gact" where
  "aio_refresh_labels repr qry = bindS (aio_procedure_names repr qry ''DB.LABELS'') (\<lambda>ns. modS (\<lambda>g. g\<lparr>g_labels := ns\<rparr>))"

definition aio_refresh_relations :: "(gval \<Rightarrow> string) \<Rightarrow> 'w querier \<Rightarrow> ('w, unit) gact" where
  "aio_refresh_relations repr qry = bindS (aio_procedure_names repr qry ''DB.RELATIONSHIPTYPES'') (\<lambda>ns. modS (\<lambda>g. g\<lparr>g_relations := ns\<rparr>))"

definition aio_refresh_attributes :: "(gval \<Rightarrow> string) \<Rightarrow> 'w querier \<Rightarrow> ('w, unit) gact" where
  "aio_refresh_attributes repr qry = bindS (aio_procedure_names repr qry ''DB.PROPERTYKEYS'') (\<lambda>ns. modS (\<lambda>g. g\<lparr>g_properties := ns\<rparr>))"

definition aio_graph_lookups :: "(gval \<Rightarrow> string) \<Rightarrow> 'w querier \<Rightarrow> 'w lookups" where
  "aio_graph_lookups repr qry = \<lparr>
     lk_label = get_name g_labels (aio_refresh_labels repr qry),
     lk_relation = get_name g_relations (aio_refresh_relations repr qry),
     lk_property = get_name g_properties (aio_refresh_attributes repr qry)\<rparr>"

text \<open>\<open>_refresh_schema\<close> is the synchronous one: it makes the coroutines that would read the names and does not await them.\<close>

definition aio_query_handler :: "'w querier \<Rightarrow> graph_query_args \<Rightarrow> graph_exc \<Rightarrow> ('w, query_result) gact" where
  "aio_query_handler qry a e = (case e of
      GExc x \<Rightarrow>
        if isinstance x ResponseError \<and> has_sub ''unknown command'' (exc_msg x) \<and> qa_read_only a
        then qry (a\<lparr>qa_read_only := False, qa_profile := False\<rparr>) else raiseS e
    | VersionMismatchException v \<Rightarrow>
        thenS (modS (\<lambda>g. g\<lparr>g_version := v\<rparr>)) (thenS clear_schema (qry (a\<lparr>qa_profile := False\<rparr>))))"

definition aio_query_step :: "(gval \<Rightarrow> string) \<Rightarrow> 'w server \<Rightarrow> nat \<Rightarrow> 'w querier \<Rightarrow> 'w querier" where
  "aio_query_step repr srv depth qry a =
     bindS (getS g_name) (\<lambda>name. bindS (liftG (query_command repr name a)) (\<lambda>command.
     catchS (bindS (graph_execute srv command) (\<lambda>response. AsyncQueryResult repr (aio_graph_lookups repr qry) depth response (qa_profile a)))
       (aio_query_handler qry a)))"

fun aio_graph_query :: "(gval \<Rightarrow> string) \<Rightarrow> 'w server \<Rightarrow> nat \<Rightarrow> nat \<Rightarrow> 'w querier" where
  "aio_graph_query repr srv depth 0 a = liftG (Inl (Exc RecursionError ''maximum recursion depth exceeded''))"
| "aio_graph_query repr srv depth (Suc n) a = aio_query_step repr srv depth (aio_graph_query repr srv depth n) a"

declare aio_graph_query.simps [simp del]

text \<open>\<open>await self.commit()\<close>: without nodes and edges there is nothing to await.\<close>

definition aio_flush :: "(gval \<Rightarrow> string) \<Rightarrow> 'w querier \<Rightarrow> ('w, unit) gact" where
  "aio_flush repr qry = bindS (commit repr qry) (\<lambda>r. case r of
      None \<Rightarrow> liftG (Inl await_none)
    | Some _ \<Rightarrow> modS (\<lambda>g. g\<lparr>g_nodes := [], g_edges := []\<rparr>))"

section \<open>Agreement with the synchronous parsers\<close>

definition refines_parser :: "(pyval \<Rightarrow> ('w, gval) gact) \<Rightarrow> (pyval \<Rightarrow> ('w, gval) gact) \<Rightarrow> bool" where
  "refines_parser f h = (\<forall>c g v g'. f c g = (Inr v, g') \<longrightarrow> h c g = (Inr v, g'))"

lemma refines_parserD: "refines_parser f h \<Longrightarrow> f c g = (Inr v, g') \<Longrightarrow> h c g = (Inr v, g')"
  by (simp add: refines_parser_def)

lemma liftG_eq: "liftG r g = (Inr v, g') \<longleftrightarrow> r = Inr v \<and> g' = g"
  by (cases r) (auto simp: liftG_def)

lemma entity_properties_refines:
  "refines_parser f h \<Longrightarrow> entity_properties lk f ps d g = (Inr r, g') \<Longrightarrow> entity_properties lk h ps d g = (Inr r, g')"
proof (induction ps arbitrary: d g)
  case (Cons p ps)
  then show ?case by (auto simp: bindS_eq_Inr liftG_eq dest: refines_parserD)
qed simp

lemma mapS_refines: "refines_parser f h \<Longrightarrow> mapS f xs g = (Inr vs, g') \<Longrightarrow> mapS h xs g = (Inr vs, g')"
proof (induction xs arbitrary: vs g)
  case (Cons x xs)
  then show ?case by (auto simp: bindS_eq_Inr dest: refines_parserD)
qed simp

lemma map_entries_refines:
  "refines_parser f h \<Longrightarrow> map_entries repr f xs d g = (Inr r, g') \<Longrightarrow> map_entries repr h xs d g = (Inr r, g')"
proof (induction repr f xs d arbitrary: g rule: map_entries.induct)
  case (3 repr scalar k v kvs d)
  then show ?case by (auto simp: bindS_eq_Inr liftG_eq dest: refines_parserD)
qed simp_all

lemma props_refines:
  "refines_parser f h \<Longrightarrow> parse_entity_properties lk f c g = (Inr r, g') \<Longrightarrow> parse_entity_properties lk h c g = (Inr r, g')"
  by (auto simp: parse_entity_properties_def bindS_eq_Inr liftG_eq intro: entity_properties_refines)

lemma typed_refines:
  assumes "refines_parser f h" "parse_typed repr lk f t c g = (Inr v, g')"
  shows "aio_parse_typed repr lk h t c g = (Inr v, g')"
proof (cases t)
  case VALUE_ARRAY
  then show ?thesis using assms by (auto simp: aio_parse_typed_def parse_typed_def parse_array_def bindS_eq_Inr liftG_eq dest: mapS_refines)
next
  case VALUE_EDGE
  then show ?thesis using assms by (auto simp: aio_parse_typed_def parse_typed_def parse_edge_def bindS_eq_Inr liftG_eq dest: props_refines)
next
  case VALUE_NODE
  let ?names = "\<lambda>ls. if ls = [] then retS GNone else bindS (mapS (lk_label lk) ls) (\<lambda>names. retS (GList names))"
  obtain i ls labels s1 ps s2 cp where n: "bindE (py_index c 0) to_int = Inr i" "bindE (py_index c 1) py_seq = Inr ls" "?names ls g = (Inr labels, s1)"
    "py_index c 2 = Inr cp" "parse_entity_properties lk f cp s1 = (Inr ps, s2)" "Node (PInt i) PNone labels ps = Inr v" "g' = s2"
    using assms(2) unfolding VALUE_NODE by (simp add: parse_typed_def parse_node_def bindS_eq_Inr liftG_eq) blast
  have "parse_entity_properties lk h cp s1 = (Inr ps, s2)" using assms(1) n(5) by (rule props_refines)
  then show ?thesis unfolding VALUE_NODE using n
    by (simp add: aio_parse_typed_def aio_parse_node_def bindS_Inr [where m = "?names ls" and s = g, OF n(3)] liftG_def)
next
  case VALUE_PATH
  then show ?thesis using assms(2)
    by (auto simp: aio_parse_typed_def parse_typed_def parse_path_def bindS_eq_Inr liftG_eq dest: refines_parserD [OF assms(1)])
      (blast dest: refines_parserD [OF assms(1)])
next
  case VALUE_MAP
  then show ?thesis using assms by (auto simp: aio_parse_typed_def parse_typed_def parse_map_def bindS_eq_Inr liftG_eq dest: map_entries_refines)
qed (use assms in \<open>auto simp: aio_parse_typed_def parse_typed_def\<close>)

lemma plain_types_keep_state: "\<not> is_coroutine t \<Longrightarrow> parse_typed repr lk f t c g = (Inr v, g') \<Longrightarrow> g' = g"
  by (cases t) (auto simp: is_coroutine_def parse_typed_def liftG_eq)

lemma await_none_type [simp]: "isinstance await_none TypeError"
  by (simp add: await_none_def isinstance_def)

text \<open>Every value that the synchronous parser gives, the asynchronous one gives too, with the same lookups.\<close>

theorem aio_parser_agrees:
  assumes "parse_scalar repr lk n c g = (Inr v, g')"
  shows "aio_parse_scalar repr lk n c g = (Inr v, g')"
proof -
  have "refines_parser (parse_scalar repr lk n) (aio_parse_scalar repr lk n)"
  proof (induction n)
    case 0
    then show ?case by (simp add: refines_parser_def liftG_eq)
  next
    case (Suc n)
    show ?case unfolding refines_parser_def
    proof (intro allI impI)
      fix c g v g' assume "parse_scalar repr lk (Suc n) c g = (Inr v, g')"
      then obtain t w where t: "scalar_cell c = Inr (t, w)" "parse_typed repr lk (parse_scalar repr lk n) t w g = (Inr v, g')"
        by (auto simp: bindS_eq_Inr liftG_eq)
      have aio: "aio_parse_typed repr lk (aio_parse_scalar repr lk n) t w g = (Inr v, g')" by (rule typed_refines [OF Suc.IH t(2)])
      show "aio_parse_scalar repr lk (Suc n) c g = (Inr v, g')"
      proof (cases "is_coroutine t")
        case True
        then show ?thesis using t(1) aio by (simp add: liftG_def catchS_def)
      next
        case False
        then have "g' = g" using t(2) plain_types_keep_state by blast
        then show ?thesis using t(1) aio False by (simp add: liftG_def catchS_def call_again_def)
      qed
    qed
  qed
  then show ?thesis using assms by (rule refines_parserD)
qed

theorem aio_parser_agrees_witness:
  "aio_parse_scalar (\<lambda>_. []) \<lparr>lk_label = (\<lambda>_. retS GNone), lk_relation = (\<lambda>_. retS GNone), lk_property = (\<lambda>_. retS GNone)\<rparr>
     (Suc (Suc 0)) (PList [PInt 6, PList [PList [PInt 3, PInt 5]]]) (Graph ''g'' (0 :: nat)) = (Inr (GList [GVal (PInt 5)]), Graph ''g'' 0)"
  by (rule aio_parser_agrees) (simp add: scalar_cell_def py_index_def list_index_def scalar_type_of_def scalar_types_def numeral_eq_Suc parse_typed_def parse_array_def
    py_seq_def py_iter_def liftG_def)

text \<open>A list in which a number is missing is refused by the synchronous parser, and becomes a coroutine that nobody awaits in the asynchronous one.\<close>

theorem type_error_becomes_coroutine:
  "fst (parse_scalar repr lk (Suc (Suc n)) (PList [PInt 6, PList [PList [PInt 3, PNone]]]) g) = Inl (GExc (Exc TypeError ''int() argument must be a string or a number''))
   \<and> aio_parse_scalar repr lk (Suc (Suc n)) (PList [PInt 6, PList [PList [PInt 3, PNone]]]) g = (Inr GCoroutine, g)"
  by (simp add: scalar_cell_def py_index_def list_index_def scalar_type_of_def scalar_types_def numeral_eq_Suc parse_typed_def aio_parse_typed_def parse_array_def
    py_seq_def py_iter_def liftG_def catchS_def call_again_def is_coroutine_def)

text \<open>Flushing an asynchronous graph without nodes and edges raises TypeError.\<close>

theorem flush_of_empty_graph_raises:
  assumes "g_nodes g = []" "g_edges g = []"
  shows "aio_flush repr qry g = (Inl (GExc await_none), g) \<and> graph_flush repr qry g = (Inr (), g)"
  using assms by (simp add: aio_flush_def graph_flush_def commit_def bindS_def thenS_def getS_def retS_def liftG_def modS_def)

theorem flush_of_empty_graph_raises_witness:
  "aio_flush (\<lambda>_. []) (\<lambda>a g. (Inl (GExc await_none), g)) (Graph ''g'' (0 :: nat)) = (Inl (GExc await_none), Graph ''g'' 0) \<and>
   graph_flush (\<lambda>_. []) (\<lambda>a g. (Inl (GExc await_none), g)) (Graph ''g'' (0 :: nat)) = (Inr (), Graph ''g'' 0)"
  by (rule flush_of_empty_graph_raises) (simp_all add: Graph_def)

text \<open>When the graph has another version the asynchronous client only forgets its names; they are read when a reply needs them.\<close>

theorem aio_mismatch_forgets_names:
  assumes "query_command repr (g_name g) a = Inr command"
    and "srv command (g_world g) = (Inr (PList [PExc (Exc ResponseError ''version mismatch''), v]), w)"
  shows "aio_graph_query repr srv d (Suc n) a g = aio_graph_query repr srv d n (a\<lparr>qa_profile := False\<rparr>)
    (g\<lparr>g_world := w, g_version := v, g_labels := [], g_properties := [], g_relations := []\<rparr>)"
proof -
  have e: "AsyncQueryResult repr lk d (PList [PExc (Exc ResponseError ''version mismatch''), v]) pr s = (Inl (VersionMismatchException v), s)"
    for lk :: "'a lookups" and pr s
    by (simp add: AsyncQueryResult_def check_for_errors_def is_response_error_def isinstance_def py_index_def list_index_def thenS_def bindS_def liftG_def)
  have "clear_schema (g\<lparr>g_world := w, g_version := v\<rparr>) =
      (Inr (), g\<lparr>g_world := w, g_version := v, g_labels := [], g_properties := [], g_relations := []\<rparr>)"
    by (simp add: clear_schema_def)
  then show ?thesis using assms
    by (simp add: aio_graph_query.simps(2) [where n = n] aio_query_step_def bindS_def getS_def liftG_def graph_execute_def catchS_def e aio_query_handler_def thenS_def modS_def)
qed

theorem aio_mismatch_forgets_names_witness:
  "aio_graph_query (\<lambda>_. []) (\<lambda>args w. (Inr (PList [PExc (Exc ResponseError ''version mismatch''), PInt 7]), Suc w)) 1 (Suc 1)
     (plain_query ''RETURN 1'' False) (Graph ''g'' (0 :: nat)) =
   aio_graph_query (\<lambda>_. []) (\<lambda>args w. (Inr (PList [PExc (Exc ResponseError ''version mismatch''), PInt 7]), Suc w)) 1 1
     ((plain_query ''RETURN 1'' False)\<lparr>qa_profile := False\<rparr>)
     ((Graph ''g'' 0)\<lparr>g_world := Suc 0, g_version := PInt 7, g_labels := [], g_properties := [], g_relations := []\<rparr>)"
  by (rule aio_mismatch_forgets_names)
    (simp_all add: Graph_def query_command_def plain_query_def build_params_header_def is_int_def)

end
