(* ===== verification/Monitor.thy ===== *)
theory Monitor
  imports Serializer Callbacks
begin

text \<open>
  \<open>Monitor\<close> of \<open>redis/client.py\<close> and \<open>redis/asyncio/client.py\<close>: entering MONITOR, and the parser of the lines that the server sends from then on.
  A line gives back its command when no argument holds a backslash; an argument that ends in one swallows what follows. The pool and the
  connection are an argument.
\<close>

section \<open>A line\<close>

record monitor_command =
  mc_time :: pyfloat
  mc_db :: int
  mc_address :: string
  mc_port :: string
  mc_type :: string
  mc_command :: string

text \<open>\<open>\[(\d+) (.*?)\] (.*)\<close>: a point matches everything but a line feed, and the middle group is as short as possible.\<close>

fun client_group :: "string \<Rightarrow> (string \<times> string) option" where
  "client_group [] = None"
| "client_group (c # cs) =
     (if c = CHR '']'' \<and> starts_with '' '' cs then Some ([], drop 1 cs)
      else if c = CHR 0x0A then None
      else map_option (\<lambda>(a, b). (c # a, b)) (client_group cs))"

definition monitor_re :: "string \<Rightarrow> (string \<times> string \<times> string) option" where
  "monitor_re s = (case s of
      [] \<Rightarrow> None
    | c # cs \<Rightarrow>
        (let d = takeWhile is_digit cs; r = drop (length d) cs in
         if c \<noteq> CHR ''['' \<or> d = [] \<or> \<not> starts_with '' '' r then None
         else map_option (\<lambda>(a, b). (d, a, takeWhile (\<lambda>x. x \<noteq> CHR 0x0A) b)) (client_group (drop 1 r))))"

text \<open>\<open>"(.*?)(?<!\\)"\<close>: up to the first quote without a backslash in front of it; the character before is the first argument.\<close>

fun close_quote :: "char \<Rightarrow> string \<Rightarrow> (string \<times> string) option" where
  "close_quote prev [] = None"
| "close_quote prev (c # cs) =
     (if c = CHR 0x22 \<and> prev \<noteq> CHR 0x5C then Some ([], cs)
      else if c = CHR 0x0A then None
      else map_option (\<lambda>(a, b). (c # a, b)) (close_quote c cs))"

lemma close_quote_shorter: "close_quote p s = Some (a, b) \<Longrightarrow> length b < length s"
  by (induction p s arbitrary: a b rule: close_quote.induct) (auto split: if_splits)

text \<open>\<open>command_re.findall\<close>.\<close>

function command_pieces :: "string \<Rightarrow> string list" where
  "command_pieces s = (case s of
      [] \<Rightarrow> []
    | c # cs \<Rightarrow>
        if c \<noteq> CHR 0x22 then command_pieces cs
        else (case close_quote (CHR 0x22) cs of None \<Rightarrow> command_pieces cs | Some (a, rest) \<Rightarrow> a # command_pieces rest))"
  by pat_completeness auto

termination command_pieces
  by (relation "measure length") (auto dest: close_quote_shorter)

declare command_pieces.simps [simp del]

lemma command_pieces_Nil [simp]: "command_pieces [] = []"
  by (simp add: command_pieces.simps [of "[]"])

lemma command_pieces_quote: "close_quote (CHR 0x22) cs = Some (a, rest) \<Longrightarrow> command_pieces (CHR 0x22 # cs) = a # command_pieces rest"
  by (simp add: command_pieces.simps [of "CHR 0x22 # cs"])

text \<open>\<open>command.replace('\\"', '"')\<close>.\<close>

fun unescape_quotes :: "string \<Rightarrow> string" where
  "unescape_quotes [] = []"
| "unescape_quotes [c] = [c]"
| "unescape_quotes (c # d # cs) =
     (if c = CHR 0x5C \<and> d = CHR 0x22 then CHR 0x22 # unescape_quotes cs else c # unescape_quotes (d # cs))"

definition command_text :: "string \<Rightarrow> string" where
  "command_text s = unescape_quotes (join_with '' '' (command_pieces s))"

definition client_parts :: "string \<Rightarrow> exc + (string \<times> string \<times> string)" where
  "client_parts info =
     (if info = ''lua'' then Inr (''lua'', '''', ''lua'')
      else if starts_with ''unix'' info then Inr (''unix'', drop 5 info, ''unix'')
      else (case rsplit1 (CHR '':'') info of
          None \<Rightarrow> Inl (Exc ValueError ''not enough values to unpack'')
        | Some (a, p) \<Rightarrow> Inr (a, p, ''tcp'')))"

definition monitor_line :: "string \<Rightarrow> exc + monitor_command" where
  "monitor_line response = (case split1 (CHR '' '') response of
      None \<Rightarrow> Inl (Exc ValueError ''not enough values to unpack'')
    | Some (command_time, command_data) \<Rightarrow>
        (case monitor_re command_data of
           None \<Rightarrow> Inl (Exc AttributeError ''NoneType object has no attribute groups'')
         | Some (db, info, command) \<Rightarrow>
             bindE (client_parts info) (\<lambda>(a, p, t).
             bindE (to_float (PStr command_time)) (\<lambda>f.
             bindE (to_int (PStr db)) (\<lambda>n.
             Inr \<lparr>mc_time = f, mc_db = n, mc_address = a, mc_port = p, mc_type = t, mc_command = command_text command\<rparr>)))))"

text \<open>\<open>response\<close> as it is read; bytes are decoded first.\<close>

definition monitor_reply :: "encoder \<Rightarrow> pyval \<Rightarrow> exc + monitor_command" where
  "monitor_reply enc response =
     bindE (case response of PBytes b \<Rightarrow> decode enc response True | _ \<Rightarrow> Inr response) (\<lambda>r. case r of
        PStr s \<Rightarrow> monitor_line s
      | _ \<Rightarrow> Inl (Exc AttributeError ''object has no attribute split''))"

section \<open>The monitor\<close>

record 'w monitor_link =
  mk_get :: "('w, exc, unit) action"
  mk_send :: "pyval \<Rightarrow> ('w, exc, unit) action"
  mk_read :: "('w, exc, pyval) action"
  mk_disconnect :: "('w, exc, unit) action"
  mk_release :: "('w, exc, unit) action"
  mk_encoder :: encoder

definition monitor_enter :: "'w monitor_link \<Rightarrow> ('w, exc, unit) action" where
  "monitor_enter K = thenS (mk_send K (PStr ''MONITOR'')) (bindS (mk_read K) (\<lambda>r.
     if bool_ok r = PBool True then retS () else raiseS (Exc RedisError ''MONITOR failed'')))"

definition monitor_exit :: "'w monitor_link \<Rightarrow> ('w, exc, unit) action" where
  "monitor_exit K = thenS (mk_disconnect K) (mk_release K)"

definition next_command :: "'w monitor_link \<Rightarrow> ('w, exc, monitor_command) action" where
  "next_command K = bindS (mk_read K) (\<lambda>r. liftS (monitor_reply (mk_encoder K) r))"

text \<open>\<open>with client.monitor() as m\<close> over a body: an error of \<open>__enter__\<close> does not reach \<open>__exit__\<close>.\<close>

definition with_monitor :: "'w monitor_link \<Rightarrow> ('w, exc, 'a) action \<Rightarrow> ('w, exc, 'a) action" where
  "with_monitor K body = thenS (mk_get K) (thenS (monitor_enter K) (finallyS body (monitor_exit K)))"

text \<open>The asynchronous monitor takes its connection when it first needs one; the flag is whether it has one.\<close>

definition aio_monitor_connect :: "'w monitor_link \<Rightarrow> (bool \<times> 'w, exc, unit) action" where
  "aio_monitor_connect K = (\<lambda>(have, w). if have then (Inr (), (True, w))
     else (case mk_get K w of (Inl e, w') \<Rightarrow> (Inl e, (False, w')) | (Inr _, w') \<Rightarrow> (Inr (), (True, w'))))"

definition on_monitor_link :: "('w, exc, 'a) action \<Rightarrow> (bool \<times> 'w, exc, 'a) action" where
  "on_monitor_link m = (\<lambda>(have, w). case m w of (r, w') \<Rightarrow> (r, (have, w')))"

definition aio_monitor_enter :: "'w monitor_link \<Rightarrow> (bool \<times> 'w, exc, unit) action" where
  "aio_monitor_enter K = thenS (aio_monitor_connect K) (on_monitor_link (monitor_enter K))"

definition aio_next_command :: "'w monitor_link \<Rightarrow> (bool \<times> 'w, exc, monitor_command) action" where
  "aio_next_command K = thenS (aio_monitor_connect K) (on_monitor_link (next_command K))"

section \<open>Reading back what the server quotes\<close>

text \<open>The server's line: every argument in quotes, with a backslash in front of each quote and each backslash.\<close>

definition quoted_arg :: "string \<Rightarrow> string" where
  "quoted_arg a = CHR 0x22 # escape a @ [CHR 0x22]"

definition no_backslash :: "string \<Rightarrow> bool" where
  "no_backslash a = (CHR 0x5C \<notin> set a \<and> CHR 0x0A \<notin> set a)"

lemma close_escape:
  "no_backslash a \<Longrightarrow> prev \<noteq> CHR 0x5C \<Longrightarrow> close_quote prev (escape a @ CHR 0x22 # rest) = Some (escape a, rest)"
  by (induction a arbitrary: prev) (auto simp: no_backslash_def)

lemma pieces_quoted: "no_backslash a \<Longrightarrow> command_pieces (quoted_arg a @ rest) = escape a # command_pieces rest"
  using command_pieces_quote [OF close_escape, of a rest] by (simp add: quoted_arg_def)

lemma pieces_space: "command_pieces (CHR '' '' # rest) = command_pieces rest"
  by (simp add: command_pieces.simps [of "CHR '' '' # rest"])

lemma pieces_of_args: "list_all no_backslash as \<Longrightarrow> command_pieces (join_with '' '' (map quoted_arg as)) = map escape as"
proof (induction as)
  case Nil
  show ?case by simp
next
  case (Cons a as)
  show ?case
  proof (cases as)
    case Nil
    then show ?thesis using Cons.prems pieces_quoted [of a "[]"] by simp
  next
    case (Cons b bs)
    then show ?thesis using Cons.IH Cons.prems pieces_quoted [of a "CHR '' '' # join_with '' '' (map quoted_arg as)"] \<open>as = b # bs\<close>
      by (simp add: pieces_space)
  qed
qed

lemma unescape_plain: "c \<noteq> CHR 0x5C \<Longrightarrow> unescape_quotes (c # s) = c # unescape_quotes s"
  by (cases s) simp_all

lemma unescape_escape: "no_backslash a \<Longrightarrow> (rest = [] \<or> hd rest \<noteq> CHR 0x22) \<Longrightarrow> unescape_quotes (escape a @ rest) = a @ unescape_quotes rest"
proof (induction a)
  case (Cons c a)
  have ih: "unescape_quotes (escape a @ rest) = a @ unescape_quotes rest" using Cons by (simp add: no_backslash_def)
  moreover have "c \<noteq> CHR 0x5C" using Cons.prems(1) by (auto simp: no_backslash_def)
  ultimately show ?case by (cases "c = CHR 0x22") (simp_all add: unescape_plain)
qed simp

lemma unescape_args: "list_all no_backslash as \<Longrightarrow> unescape_quotes (join_with '' '' (map escape as)) = join_with '' '' as"
proof (induction as)
  case (Cons a as)
  show ?case
  proof (cases as)
    case Nil
    then show ?thesis using Cons.prems unescape_escape [of a "[]"] by simp
  next
    case (Cons b bs)
    then show ?thesis using Cons.IH Cons.prems unescape_escape [of a "CHR '' '' # join_with '' '' (map escape as)"] \<open>as = b # bs\<close>
      by (simp add: unescape_plain)
  qed
qed simp

lemma client_group_append: "CHR '']'' \<notin> set info \<Longrightarrow> CHR 0x0A \<notin> set info \<Longrightarrow> client_group (info @ '']'' @ '' '' @ rest) = Some (info, rest)"
  by (induction info) (auto simp: starts_with_def)

lemma digits_prefix: "takeWhile is_digit (dec_nat n @ CHR '' '' # s) = dec_nat n"
  by (subst takeWhile_append2) (use dec_nat_digits in auto)

lemma escape_no_newline: "CHR 0x0A \<notin> set a \<Longrightarrow> CHR 0x0A \<notin> set (escape a)"
  by (induction a) auto

lemma join_no_newline: "list_all no_backslash as \<Longrightarrow> CHR 0x0A \<notin> set (join_with '' '' (map quoted_arg as))"
proof (induction as)
  case (Cons a as)
  have "CHR 0x0A \<notin> set (quoted_arg a)" using Cons.prems escape_no_newline by (simp add: quoted_arg_def no_backslash_def)
  then show ?case using Cons by (cases as) auto
qed simp

section \<open>Properties\<close>

text \<open>A line of the server gives back the time, the database, the address of the client and the arguments of its command, when no argument
  holds a backslash or a line feed.\<close>

theorem monitor_line_is_read_back:
  assumes "CHR '' '' \<notin> set t" "py_float t = Some f" "list_all no_backslash as"
    and "CHR '']'' \<notin> set addr" "CHR 0x0A \<notin> set addr" "CHR '':'' \<notin> set port" "CHR '']'' \<notin> set port" "CHR 0x0A \<notin> set port"
    and "\<not> starts_with ''unix'' (addr @ '':'' @ port)"
  shows "monitor_line (t @ '' ['' @ dec_nat db @ '' '' @ addr @ '':'' @ port @ ''] '' @ join_with '' '' (map quoted_arg as)) =
    Inr \<lparr>mc_time = f, mc_db = int db, mc_address = addr, mc_port = port, mc_type = ''tcp'', mc_command = join_with '' '' as\<rparr>"
proof -
  let ?args = "join_with '' '' (map quoted_arg as)"
  have "split1 (CHR '' '') (t @ CHR '' '' # (''['' @ dec_nat db @ '' '' @ addr @ '':'' @ port @ ''] '' @ ?args)) =
      Some (t, ''['' @ dec_nat db @ '' '' @ addr @ '':'' @ port @ ''] '' @ ?args)" using assms(1) by (rule split1_append)
  moreover have "client_group ((addr @ '':'' @ port) @ '']'' @ '' '' @ ?args) = Some (addr @ '':'' @ port, ?args)"
    by (rule client_group_append) (use assms in auto)
  then have "monitor_re (''['' @ dec_nat db @ '' '' @ addr @ '':'' @ port @ ''] '' @ ?args) = Some (dec_nat db, addr @ '':'' @ port, ?args)"
    using join_no_newline [OF assms(3)] digits_prefix [of db "addr @ '':'' @ port @ ''] '' @ ?args"]
    by (auto simp: monitor_re_def starts_with_def takeWhile_eq_all_conv)
  moreover have "client_parts (addr @ '':'' @ port) = Inr (addr, port, ''tcp'')"
    using assms(6,9) rsplit1_append [of "CHR '':''" port addr] by (auto simp: client_parts_def dest: arg_cong [where f = "\<lambda>s. CHR '':'' \<in> set s"])
  moreover have "command_text ?args = join_with '' '' as"
    by (simp add: command_text_def pieces_of_args [OF assms(3)] unescape_args [OF assms(3)])
  ultimately show ?thesis using assms(2) by (simp add: monitor_line_def)
qed

lemma starts_with_unix_demo: "\<not> starts_with ''unix'' (''127.0.0.1'' @ '':'' @ ''60866'')"
  by code_simp

lemma demo_arguments: "list_all no_backslash [''set'', ''x'', ''a \"b\"'']"
  by code_simp

theorem monitor_line_is_read_back_witness:
  "monitor_line (''13.5'' @ '' ['' @ dec_nat 0 @ '' '' @ ''127.0.0.1'' @ '':'' @ ''60866'' @ ''] '' @ join_with '' '' (map quoted_arg [''set'', ''x'', ''a \"b\"''])) =
   Inr \<lparr>mc_time = Fin (27 / 2), mc_db = int 0, mc_address = ''127.0.0.1'', mc_port = ''60866'', mc_type = ''tcp'',
     mc_command = join_with '' '' [''set'', ''x'', ''a \"b\"'']\<rparr>"
proof (rule monitor_line_is_read_back)
  show "py_float ''13.5'' = Some (Fin (27 / 2))" by code_simp
qed (use starts_with_unix_demo demo_arguments in \<open>simp_all\<close>)

definition wordy :: "string \<Rightarrow> bool" where
  "wordy a = (\<forall>c \<in> set a. c \<noteq> CHR 0x5C \<and> c \<noteq> CHR 0x22 \<and> c \<noteq> CHR 0x0A)"

lemma escape_wordy: "wordy a \<Longrightarrow> escape (a @ t) = a @ escape t"
  by (induction a) (auto simp: wordy_def)

lemma close_wordy: "wordy a \<Longrightarrow> prev \<noteq> CHR 0x5C \<Longrightarrow>
    close_quote prev (a @ CHR 0x5C # t) = map_option (\<lambda>(x, y). (a @ CHR 0x5C # x, y)) (close_quote (CHR 0x5C) t)"
proof (induction a arbitrary: prev)
  case Nil
  show ?case by (cases "close_quote (CHR 0x5C) t") auto
next
  case (Cons c a)
  then have "close_quote c (a @ CHR 0x5C # t) = map_option (\<lambda>(x, y). (a @ CHR 0x5C # x, y)) (close_quote (CHR 0x5C) t)"
    by (auto simp: wordy_def)
  then show ?case using Cons.prems by (cases "close_quote (CHR 0x5C) t") (auto simp: wordy_def)
qed

lemma no_pieces_wordy: "wordy b \<Longrightarrow> command_pieces (b @ [CHR 0x22]) = []"
proof (induction b)
  case Nil
  show ?case by (simp add: command_pieces.simps [of "[CHR 0x22]"])
next
  case (Cons c b)
  then show ?case by (simp add: command_pieces.simps [of "c # b @ [CHR 0x22]"] wordy_def)
qed

text \<open>An argument that ends in a backslash swallows its own quote and the blank behind it, and the next argument is lost.\<close>

theorem backslash_swallows_next:
  assumes "wordy a" "wordy b"
  shows "command_pieces (quoted_arg (a @ [CHR 0x5C]) @ '' '' @ quoted_arg b) = [a @ [CHR 0x5C, CHR 0x5C, CHR 0x22, CHR '' '']]"
proof -
  have "close_quote (CHR 0x22) (a @ CHR 0x5C # CHR 0x5C # CHR 0x22 # CHR '' '' # CHR 0x22 # b @ [CHR 0x22]) =
      Some (a @ [CHR 0x5C, CHR 0x5C, CHR 0x22, CHR '' ''], b @ [CHR 0x22])"
    by (simp add: close_wordy [OF assms(1)])
  then have "command_pieces (CHR 0x22 # a @ CHR 0x5C # CHR 0x5C # CHR 0x22 # CHR '' '' # CHR 0x22 # b @ [CHR 0x22]) =
      (a @ [CHR 0x5C, CHR 0x5C, CHR 0x22, CHR '' '']) # command_pieces (b @ [CHR 0x22])"
    by (rule command_pieces_quote)
  then show ?thesis using escape_wordy [OF assms(1), of "[CHR 0x5C]"] escape_wordy [OF assms(2), of "[]"] assms(2)
    by (simp add: quoted_arg_def no_pieces_wordy)
qed

theorem backslash_swallows_next_witness:
  "command_pieces (quoted_arg (''dir'' @ [CHR 0x5C]) @ '' '' @ quoted_arg ''value'') = [''dir'' @ [CHR 0x5C, CHR 0x5C, CHR 0x22, CHR '' '']]"
  by (rule backslash_swallows_next) (simp_all add: wordy_def)

text \<open>When the server refuses MONITOR, the connection is neither closed nor given back to the pool: nothing follows the reading of the answer.\<close>

theorem refused_monitor_keeps_connection:
  assumes "mk_get K w = (Inr (), w1)" "mk_send K (PStr ''MONITOR'') w1 = (Inr (), w2)" "mk_read K w2 = (Inr r, w3)"
    and "str_if_bytes r \<noteq> PStr ''OK''"
  shows "with_monitor K body w = (Inl (Exc RedisError ''MONITOR failed''), w3)"
proof -
  have "monitor_enter K w1 = (Inl (Exc RedisError ''MONITOR failed''), w3)"
    using assms(2-4) by (simp add: monitor_enter_def bool_ok_def)
  then show ?thesis using assms(1) by (simp add: with_monitor_def)
qed

definition demo_link :: "pyval \<Rightarrow> string list monitor_link" where
  "demo_link answer = \<lparr>mk_get = (\<lambda>w. (Inr (), w @ [''get''])), mk_send = (\<lambda>c w. (Inr (), w @ [''send''])), mk_read = (\<lambda>w. (Inr answer, w @ [''read''])),
     mk_disconnect = (\<lambda>w. (Inr (), w @ [''disconnect''])), mk_release = (\<lambda>w. (Inr (), w @ [''release''])),
     mk_encoder = \<lparr>encoding_errors = Strict, decode_responses = True, float_repr = (\<lambda>_. [])\<rparr>\<rparr>"

theorem refused_monitor_keeps_connection_witness:
  "with_monitor (demo_link (PStr ''ERR'')) (retS ()) [] = (Inl (Exc RedisError ''MONITOR failed''), [''get'', ''send'', ''read''])"
  by (rule refused_monitor_keeps_connection) (simp add: demo_link_def)+

text \<open>A monitor that was entered ends with its connection closed and given back, whatever its body does.\<close>

theorem monitor_gives_back:
  assumes "mk_get K w = (Inr (), w1)" "monitor_enter K w1 = (Inr (), w2)" "body w2 = (r, w3)"
    and "mk_disconnect K w3 = (Inr (), w4)" "mk_release K w4 = (Inr (), w5)"
  shows "with_monitor K body w = (r, w5)"
proof -
  have "monitor_exit K w3 = (Inr (), w5)" using assms(4,5) by (simp add: monitor_exit_def)
  then show ?thesis using assms(1-3) by (simp add: with_monitor_def finallyS_def)
qed

theorem monitor_gives_back_witness:
  "with_monitor (demo_link (PStr ''OK'')) (raiseS (Exc ConnectionError [])) [] =
    ((Inl (Exc ConnectionError []) :: exc + unit), [''get'', ''send'', ''read'', ''disconnect'', ''release''])"
  by (rule monitor_gives_back) (simp_all add: demo_link_def monitor_enter_def bool_ok_def str_if_bytes.simps)

text \<open>The asynchronous monitor takes one connection from the pool and then reads each line like the synchronous one.\<close>

theorem aio_monitor_reads_the_same:
  "aio_next_command K (True, w) = (case next_command K w of (r, w') \<Rightarrow> (r, (True, w')))"
  by (simp add: aio_next_command_def thenS_def bindS_def aio_monitor_connect_def on_monitor_link_def)

end
