(* ===== verification/ClusterPubSub.thy ===== *)
theory ClusterPubSub
  imports PubSub
begin

text \<open>
  \<open>ClusterPubSub\<close> of \<open>redis/cluster.py\<close>: an object of publish and subscribe for the cluster, with one object for each node that serves a shard
  channel. A subscription to a shard channel goes to the object of the channel's node, and messages are read from the objects in turn by a generator
  that walks the dictionary of them. The connections of the nodes and the cluster's tables (the node of a key) are arguments.
\<close>

section \<open>State\<close>

text \<open>
  The generator \<open>_pubsubs_generator\<close>: about to walk, at a position of a dictionary that had some size, or ended by an error. A dictionary that has
  its old size again is walked on at the position.
\<close>

datatype walk = Fresh | Walking nat nat | Ended

record 'w cpubsub =
  cp_self :: "'w pubsub"
  cp_node :: "string option"
  cp_map :: "(string, 'w pubsub) dict"
  cp_walk :: walk

text \<open>
  What the object uses: the connections of each node and their connect callback, a new object for a node, the node of a key
  (\<open>get_node_from_key\<close>) and the one that serves its slot for reading (\<open>get_node_from_slot\<close>), a random node, the nodes of the cluster, and
  its own \<open>ignore_subscribe_messages\<close>.
\<close>

record 'w cluster_link =
  ck_link :: "string \<Rightarrow> 'w sub_link"
  ck_callback :: "string \<Rightarrow> ('w, unit) sub_run"
  ck_fresh :: "string \<Rightarrow> 'w"
  ck_home :: "pyval \<Rightarrow> exc + string"
  ck_slot_node :: "pyval \<Rightarrow> exc + string"
  ck_random :: string
  ck_nodes :: "(string \<times> (string \<times> int)) list"
  ck_ignore :: bool

type_synonym ('w, 'a) cp_run = "('w cpubsub, 'a) run"

definition new_cpubsub :: "'w \<Rightarrow> string option \<Rightarrow> 'w cpubsub" where
  "new_cpubsub w node = \<lparr>cp_self = new_pubsub w, cp_node = node, cp_map = [], cp_walk = Fresh\<rparr>"

text \<open>\<open>set_pubsub_node\<close>; a node or an address that the cluster does not know is refused, and so is half an address.\<close>

definition set_pubsub_node :: "'w cluster_link \<Rightarrow> string option \<Rightarrow> string \<Rightarrow> int \<Rightarrow> bool \<Rightarrow> bool \<Rightarrow> exc + string option" where
  "set_pubsub_node K node host port has_host has_port =
     (let unknown = Inl (Exc RedisClusterException ''Node does not exist in the cluster'') in
      case node of
        Some n \<Rightarrow> if n \<in> set (map fst (ck_nodes K)) then Inr (Some n) else unknown
      | None \<Rightarrow>
          if has_host \<and> has_port then
            (case find (\<lambda>(_, a). a = (host, port)) (ck_nodes K) of None \<Rightarrow> unknown | Some (n, _) \<Rightarrow> Inr (Some n))
          else if (has_host \<and> host \<noteq> []) \<or> (has_port \<and> port \<noteq> 0) then Inl (Exc DataError ''Passing a host requires passing a port, and vice versa'')
          else Inr None)"

text \<open>A run of the object itself, and of the object of a node.\<close>

definition on_self :: "('w, 'a) sub_run \<Rightarrow> ('w, 'a) cp_run" where
  "on_self m = (\<lambda>c. case m (cp_self c) of None \<Rightarrow> None | Some (r, p) \<Rightarrow> Some (r, c\<lparr>cp_self := p\<rparr>))"

definition on_node :: "string \<Rightarrow> ('w, 'a) sub_run \<Rightarrow> ('w, 'a) cp_run" where
  "on_node n m = (\<lambda>c. case dict_get (cp_map c) n of
      None \<Rightarrow> Some (Inl (Exc KeyError n), c)
    | Some p \<Rightarrow> (case m p of None \<Rightarrow> None | Some (r, p') \<Rightarrow> Some (r, c\<lparr>cp_map := dict_set n p' (cp_map c)\<rparr>)))"

definition ensure_node :: "'w cluster_link \<Rightarrow> string \<Rightarrow> ('w, unit) cp_run" where
  "ensure_node K n = modP (\<lambda>c. case dict_get (cp_map c) n of
      Some _ \<Rightarrow> c | None \<Rightarrow> c\<lparr>cp_map := dict_set n (new_pubsub (ck_fresh K n)) (cp_map c)\<rparr>)"

section \<open>Commands of the object itself\<close>

text \<open>\<open>execute_command\<close>: the node is that of the first channel, or a random one, and kept; the link of the object is then the one of this node.\<close>

definition choose_pubsub_node :: "'w cluster_link \<Rightarrow> pyval list \<Rightarrow> ('w, string) cp_run" where
  "choose_pubsub_node K args =
     bindP (getP cp_node) (\<lambda>n. case n of
       Some n \<Rightarrow> retP n
     | None \<Rightarrow>
         bindP (if 1 < length args then total (liftS (ck_slot_node K (args ! 1))) else retP (ck_random K)) (\<lambda>n.
         thenP (modP (\<lambda>c. c\<lparr>cp_node := Some n\<rparr>)) (retP n)))"

definition cps_execute_command :: "'w cluster_link \<Rightarrow> pyval list \<Rightarrow> ('w, unit) cp_run" where
  "cps_execute_command K args =
     bindP (getP (\<lambda>c. ps_connection (cp_self c))) (\<lambda>have.
     bindP (if have then getP (\<lambda>c. case cp_node c of Some n \<Rightarrow> n | None \<Rightarrow> ck_random K) else choose_pubsub_node K args) (\<lambda>n.
     on_self (thenP (if have then retP () else thenP (on_conn (sk_get (ck_link K n))) (modP (\<lambda>p. p\<lparr>ps_connection := True\<rparr>)))
       (ps_execute (ck_link K n) (ck_callback K n) (ps_send (ck_link K n) (ck_callback K n) True args)))))"

section \<open>Shard channels\<close>

text \<open>The own tables after a channel was subscribed to at its node.\<close>

definition adopt_shard :: "subs \<Rightarrow> bool \<Rightarrow> subs \<Rightarrow> 'w pubsub \<Rightarrow> 'w pubsub" where
  "adopt_shard node_subs node_subscribed new p =
     (let p1 = p\<lparr>ps_subs := (ps_subs p)(Shard := subs_update (ps_subs p Shard) node_subs),
                 ps_pending := (ps_pending p)(Shard := filter (\<lambda>x. \<not> py_in x (map fst new)) (ps_pending p Shard))\<rparr>
      in if node_subscribed \<and> \<not> ps_subscribed p then p1\<lparr>ps_subscribed := True, ps_counter := 0\<rparr> else p1)"

text \<open>One turn of the loop of \<open>ssubscribe\<close>; a handler is passed as a keyword argument, and so never to a channel named \<open>target_node\<close>.\<close>

definition ssubscribe_one :: "'w cluster_link \<Rightarrow> pyval \<times> nat option \<Rightarrow> ('w, unit) cp_run" where
  "ssubscribe_one K = (\<lambda>(ch, h).
     bindP (total (liftS (ck_home K ch))) (\<lambda>n.
     thenP (ensure_node K n)
     (thenP (on_node n (case (h, ch) of
         (Some f, PStr s) \<Rightarrow> bindP (total (liftS (keyword_call Shard [(s, Some f)]))) (\<lambda>kw. subscribe (ck_link K n) (ck_callback K n) Shard [] kw)
       | _ \<Rightarrow> subscribe (ck_link K n) (ck_callback K n) Shard [ch] []))
     (bindP (total (liftS (normalize_keys (sk_encoder (ck_link K n)) [(ch, None)]))) (\<lambda>new.
      modP (\<lambda>c. case dict_get (cp_map c) n of
          None \<Rightarrow> c
        | Some p \<Rightarrow> c\<lparr>cp_self := adopt_shard (ps_subs p Shard) (ps_subscribed p) new (cp_self c)\<rparr>))))))"

definition cps_ssubscribe :: "'w cluster_link \<Rightarrow> pyval list \<Rightarrow> (string \<times> nat option) list \<Rightarrow> ('w, unit) cp_run" where
  "cps_ssubscribe K args kwargs = bindP (total (liftS (new_subs args kwargs))) (eachP (ssubscribe_one K))"

definition sunsubscribe_one :: "'w cluster_link \<Rightarrow> pyval \<Rightarrow> ('w, unit) cp_run" where
  "sunsubscribe_one K ch =
     bindP (total (liftS (ck_home K ch))) (\<lambda>n.
     thenP (ensure_node K n)
     (thenP (on_node n (unsubscribe (ck_link K n) (ck_callback K n) Shard [ch]))
     (modP (\<lambda>c. case dict_get (cp_map c) n of
          None \<Rightarrow> c
        | Some p \<Rightarrow> c\<lparr>cp_self := (cp_self c)\<lparr>ps_pending := (ps_pending (cp_self c))(Shard := set_union (ps_pending (cp_self c) Shard) (ps_pending p Shard))\<rparr>\<rparr>))))"

definition cps_sunsubscribe :: "'w cluster_link \<Rightarrow> pyval list \<Rightarrow> ('w, unit) cp_run" where
  "cps_sunsubscribe K args =
     bindP (if args \<noteq> [] then retP (name_args args) else getP (\<lambda>c. map fst (ps_subs (cp_self c) Shard))) (eachP (sunsubscribe_one K))"

section \<open>Messages of the shards\<close>

text \<open>\<open>next(self._pubsubs_generator)\<close>; it is called only when there are objects.\<close>

definition next_pubsub :: "('w, string) cp_run" where
  "next_pubsub = (\<lambda>c.
     let ns = map fst (cp_map c); n = length ns in
     case cp_walk c of
       Ended \<Rightarrow> Some (Inl (Exc StopIteration []), c)
     | Fresh \<Rightarrow> (if n = 0 then None else Some (Inr (ns ! 0), c\<lparr>cp_walk := Walking 1 n\<rparr>))
     | Walking i k \<Rightarrow>
         if k \<noteq> n then Some (Inl (Exc RuntimeError ''dictionary changed size during iteration''), c\<lparr>cp_walk := Ended\<rparr>)
         else if i < n then Some (Inr (ns ! i), c\<lparr>cp_walk := Walking (Suc i) k\<rparr>)
         else if n = 0 then None
         else Some (Inr (ns ! 0), c\<lparr>cp_walk := Walking 1 n\<rparr>))"

definition node_message :: "'w cluster_link \<Rightarrow> string \<Rightarrow> bool \<Rightarrow> rat option \<Rightarrow> ('w, pyval) cp_run" where
  "node_message K n ignore timeout = on_node n (get_message (ck_link K n) (ck_callback K n) ignore timeout)"

primrec sharded_message :: "'w cluster_link \<Rightarrow> nat \<Rightarrow> ('w, pyval) cp_run" where
  "sharded_message K 0 = retP PNone"
| "sharded_message K (Suc k) =
     bindP next_pubsub (\<lambda>n. bindP (node_message K n False (Some 0)) (\<lambda>m. if m \<noteq> PNone then retP m else sharded_message K k))"

definition message_field :: "pyval \<Rightarrow> string \<Rightarrow> exc + pyval" where
  "message_field m f = (case m of
      PDict d \<Rightarrow> (case pd_get (PStr f) d of None \<Rightarrow> Inl (Exc KeyError f) | Some v \<Rightarrow> Inr v)
    | _ \<Rightarrow> Inl (Exc TypeError ''object is not subscriptable''))"

text \<open>An unsubscribe message for a pending channel: forget the channel, and the object of its node when it has no subscription left.\<close>

definition drop_shard :: "'w cluster_link \<Rightarrow> pyval \<Rightarrow> ('w, unit) cp_run" where
  "drop_shard K ch =
     bindP (getP (\<lambda>c. py_in ch (ps_pending (cp_self c) Shard))) (\<lambda>pending.
     if \<not> pending then retP ()
     else thenP (modP (\<lambda>c. c\<lparr>cp_self := forget Shard ch (cp_self c)\<rparr>))
       (bindP (total (liftS (ck_home K ch))) (\<lambda>n c. case dict_get (cp_map c) n of
          None \<Rightarrow> Some (Inl (Exc KeyError n), c)
        | Some p \<Rightarrow> Some (Inr (), if ps_subscribed p then c else c\<lparr>cp_map := dict_del n (cp_map c)\<rparr>))))"

definition get_sharded_message :: "'w cluster_link \<Rightarrow> bool \<Rightarrow> rat \<Rightarrow> string option \<Rightarrow> ('w, pyval) cp_run" where
  "get_sharded_message K ignore timeout target =
     bindP (case target of
         Some n \<Rightarrow> node_message K n ignore (Some timeout)
       | None \<Rightarrow> bindP (getP (\<lambda>c. length (cp_map c))) (sharded_message K)) (\<lambda>m.
     if m = PNone then retP PNone
     else
       bindP (total (liftS (message_field m ''type''))) (\<lambda>t.
       thenP (if str_if_bytes t = PStr ''sunsubscribe'' then bindP (total (liftS (message_field m ''channel''))) (drop_shard K) else retP ())
       (thenP (modP (\<lambda>c. c\<lparr>cp_self := clear_if_none (cp_self c)\<rparr>))
       (if ck_ignore K \<or> ignore then retP PNone else retP m))))"

text \<open>\<open>disconnect\<close>: an object without a connection makes it raise.\<close>

fun disconnect_nodes :: "'w cluster_link \<Rightarrow> string list \<Rightarrow> ('w, unit) cp_run" where
  "disconnect_nodes K [] = retP ()"
| "disconnect_nodes K (n # ns) =
     thenP (on_node n (bindP (getP ps_connection) (\<lambda>have.
       if have then on_conn (sk_disconnect (ck_link K n)) else raiseP (Exc AttributeError ''NoneType object has no attribute disconnect''))))
     (disconnect_nodes K ns)"

definition cps_disconnect :: "'w cluster_link \<Rightarrow> ('w, unit) cp_run" where
  "cps_disconnect K =
     bindP (getP (\<lambda>c. (ps_connection (cp_self c), cp_node c, map fst (cp_map c)))) (\<lambda>(have, node, ns).
     thenP (if have then on_self (on_conn (sk_disconnect (ck_link K (case node of Some n \<Rightarrow> n | None \<Rightarrow> ck_random K)))) else retP ())
     (disconnect_nodes K ns))"

section \<open>Properties\<close>

text \<open>\<open>next\<close> called several times.\<close>

primrec nexts :: "nat \<Rightarrow> ('w, string list) cp_run" where
  "nexts 0 = retP []"
| "nexts (Suc k) = bindP next_pubsub (\<lambda>n. bindP (nexts k) (\<lambda>ns. retP (n # ns)))"

text \<open>The next position of a generator that walks a dictionary of \<open>n\<close> objects.\<close>

definition walk_pos :: "nat \<Rightarrow> walk \<Rightarrow> nat" where
  "walk_pos n w = (case w of Walking i k \<Rightarrow> if i < n then i else 0 | _ \<Rightarrow> 0)"

definition in_step :: "nat \<Rightarrow> walk \<Rightarrow> bool" where
  "in_step n w = (case w of Fresh \<Rightarrow> True | Walking i k \<Rightarrow> k = n \<and> i \<le> n | Ended \<Rightarrow> False)"

lemma next_in_step:
  assumes "cp_map c \<noteq> []" "in_step (length (cp_map c)) (cp_walk c)"
  shows "next_pubsub c = Some (Inr (map fst (cp_map c) ! walk_pos (length (cp_map c)) (cp_walk c)),
      c\<lparr>cp_walk := Walking (Suc (walk_pos (length (cp_map c)) (cp_walk c))) (length (cp_map c))\<rparr>)"
  using assms by (auto simp: next_pubsub_def walk_pos_def in_step_def Let_def split: walk.splits)

lemma walk_pos_step: "i < n \<Longrightarrow> (walk_pos n (Walking (Suc i) n) + j) mod n = (i + Suc j) mod n"
proof (cases "Suc i < n")
  case False
  assume "i < n"
  with False have n: "n = Suc i" by simp
  have "i + Suc j = j + n" using n by simp
  then have "(i + Suc j) mod n = j mod n" by (simp only: mod_add_self2)
  then show ?thesis using False by (simp add: walk_pos_def)
qed (simp add: walk_pos_def)

lemma nexts_walk:
  assumes "cp_map c \<noteq> []" "in_step (length (cp_map c)) (cp_walk c)"
  shows "\<exists>c'. nexts k c = Some (Inr (map (\<lambda>j. map fst (cp_map c) ! ((walk_pos (length (cp_map c)) (cp_walk c) + j) mod length (cp_map c))) [0..<k]), c')"
  using assms
proof (induction k arbitrary: c)
  case (Suc k)
  let ?n = "length (cp_map c)" and ?i = "walk_pos (length (cp_map c)) (cp_walk c)"
  define c1 where "c1 = c\<lparr>cp_walk := Walking (Suc ?i) ?n\<rparr>"
  have i: "?i < ?n" using Suc.prems(1) by (auto simp: walk_pos_def split: walk.splits)
  have n: "next_pubsub c = Some (Inr (map fst (cp_map c) ! ?i), c1)" unfolding c1_def by (rule next_in_step [OF Suc.prems])
  have "in_step (length (cp_map c1)) (cp_walk c1)" "cp_map c1 \<noteq> []" using i Suc.prems(1) by (simp_all add: c1_def in_step_def)
  then obtain c2 where c2: "nexts k c1 = Some (Inr (map (\<lambda>j. map fst (cp_map c1) ! ((walk_pos (length (cp_map c1)) (cp_walk c1) + j) mod length (cp_map c1))) [0..<k]), c2)"
    using Suc.IH by blast
  have "(walk_pos ?n (Walking (Suc ?i) ?n) + j) mod ?n = (?i + Suc j) mod ?n" for j
    using i by (rule walk_pos_step)
  then have "map (\<lambda>j. map fst (cp_map c1) ! ((walk_pos (length (cp_map c1)) (cp_walk c1) + j) mod length (cp_map c1))) [0..<k] =
      map (\<lambda>j. map fst (cp_map c) ! ((?i + Suc j) mod ?n)) [0..<k]" by (simp add: c1_def)
  moreover have "[0..<Suc k] = 0 # map Suc [0..<k]" by (simp add: map_Suc_upt upt_conv_Cons)
  ultimately show ?case using n c2 i by (simp add: comp_def)
qed simp

text \<open>As long as no object comes or goes, the generator gives every object once before it gives one again: so many calls as there are objects
  give all of them, from the place where it stood.\<close>

theorem generator_visits_every_node:
  assumes "cp_map c \<noteq> []" "in_step (length (cp_map c)) (cp_walk c)"
  shows "\<exists>c'. nexts (length (cp_map c)) c = Some (Inr (rotate (walk_pos (length (cp_map c)) (cp_walk c)) (map fst (cp_map c))), c')"
proof -
  let ?ns = "map fst (cp_map c)" and ?i = "walk_pos (length (cp_map c)) (cp_walk c)"
  have "map (\<lambda>j. ?ns ! ((?i + j) mod length (cp_map c))) [0..<length (cp_map c)] = rotate ?i ?ns"
    by (rule nth_equalityI) (simp_all add: nth_rotate)
  then show ?thesis using nexts_walk [OF assms, of "length (cp_map c)"] by simp
qed

definition demo_pubsubs :: "walk \<Rightarrow> unit cpubsub" where
  "demo_pubsubs w = \<lparr>cp_self = new_pubsub (), cp_node = None, cp_map = [(''a'', new_pubsub ()), (''b'', new_pubsub ()), (''c'', new_pubsub ())], cp_walk = w\<rparr>"

theorem generator_visits_every_node_witness:
  "\<exists>c'. nexts (length (cp_map (demo_pubsubs (Walking 2 3)))) (demo_pubsubs (Walking 2 3)) =
    Some (Inr (rotate (walk_pos (length (cp_map (demo_pubsubs (Walking 2 3)))) (cp_walk (demo_pubsubs (Walking 2 3)))) (map fst (cp_map (demo_pubsubs (Walking 2 3))))), c')"
  by (rule generator_visits_every_node) (simp_all add: demo_pubsubs_def in_step_def)

text \<open>When a shard channel of another node was subscribed to between two reads, the next read raises RuntimeError, and every read after it
  raises StopIteration: the object gives no message of a shard any more.\<close>

theorem new_node_ends_reading:
  assumes "cp_walk c = Walking i k" "k \<noteq> length (cp_map c)" "cp_map c \<noteq> []"
  shows "get_sharded_message K ignore t None c = Some (Inl (Exc RuntimeError ''dictionary changed size during iteration''), c\<lparr>cp_walk := Ended\<rparr>)
    \<and> get_sharded_message K ignore' t' None (c\<lparr>cp_walk := Ended\<rparr>) = Some (Inl (Exc StopIteration []), c\<lparr>cp_walk := Ended\<rparr>)"
proof -
  obtain n where n: "length (cp_map c) = Suc n" using assms(3) by (cases "cp_map c") auto
  have "next_pubsub c = Some (Inl (Exc RuntimeError ''dictionary changed size during iteration''), c\<lparr>cp_walk := Ended\<rparr>)"
    using assms(1,2) by (simp add: next_pubsub_def Let_def)
  moreover have "next_pubsub (c\<lparr>cp_walk := Ended\<rparr>) = Some (Inl (Exc StopIteration []), c\<lparr>cp_walk := Ended\<rparr>)"
    by (simp add: next_pubsub_def)
  ultimately show ?thesis using n by (simp add: get_sharded_message_def getP_def total_def getS_def bindP_def)
qed

definition demo_sub_link :: "unit sub_link" where
  "demo_sub_link = \<lparr>sk_get = retS (), sk_release = retS (), sk_open = retS False, sk_send = (\<lambda>_ _. retS ()), sk_can_read = (\<lambda>_. retS False),
     sk_read = (\<lambda>_. retS PNone), sk_disconnect = retS (), sk_due = (\<lambda>_. False), sk_timeout = None,
     sk_retry = new_retry NoBackoff 1, sk_rnd = (\<lambda>_. 0), sk_sleep = (\<lambda>_ w. w), sk_retry_on_error = None,
     sk_encoder = \<lparr>encoding_errors = Strict, decode_responses = True, float_repr = (\<lambda>_. [])\<rparr>, sk_ignore_subscribe = False, sk_handler = (\<lambda>_ _. retS ())\<rparr>"

definition demo_cluster_link :: "unit cluster_link" where
  "demo_cluster_link = \<lparr>ck_link = (\<lambda>_. demo_sub_link), ck_callback = (\<lambda>_. retP ()), ck_fresh = (\<lambda>_. ()), ck_home = (\<lambda>_. Inr ''a''), ck_slot_node = (\<lambda>_. Inr ''a''),
     ck_random = ''a'', ck_nodes = [(''a'', (''h'', 1))], ck_ignore = False\<rparr>"

theorem new_node_ends_reading_witness:
  "get_sharded_message demo_cluster_link False 0 None (demo_pubsubs (Walking 1 2)) =
     Some (Inl (Exc RuntimeError ''dictionary changed size during iteration''), demo_pubsubs (Walking 1 2)\<lparr>cp_walk := Ended\<rparr>)
   \<and> get_sharded_message demo_cluster_link False 0 None (demo_pubsubs (Walking 1 2)\<lparr>cp_walk := Ended\<rparr>) =
     Some (Inl (Exc StopIteration []), demo_pubsubs (Walking 1 2)\<lparr>cp_walk := Ended\<rparr>)"
  by (rule new_node_ends_reading [of _ 1 2]) (simp_all add: demo_pubsubs_def)

lemma bindP_Some_Inr: "bindP m f c = Some (Inr v, c') \<Longrightarrow> \<exists>a c1. m c = Some (Inr a, c1) \<and> f a c1 = Some (Inr v, c')"
  by (auto simp: bindP_def split: option.splits sum.splits prod.splits)

text \<open>With \<open>ignore_subscribe_messages\<close> a read of the shards never gives a message: published messages are taken off the connection and dropped.\<close>

theorem ignoring_drops_published_messages:
  assumes "ignore" "get_sharded_message K ignore t target c = Some (Inr v, c')"
  shows "v = PNone"
proof -
  obtain m c1 where m: "(if m = PNone then retP PNone
     else bindP (total (liftS (message_field m ''type''))) (\<lambda>t.
       thenP (if str_if_bytes t = PStr ''sunsubscribe'' then bindP (total (liftS (message_field m ''channel''))) (drop_shard K) else retP ())
       (thenP (modP (\<lambda>c. c\<lparr>cp_self := clear_if_none (cp_self c)\<rparr>))
       (if ck_ignore K \<or> ignore then retP PNone else retP m)))) c1 = Some (Inr v, c')"
    using bindP_Some_Inr [OF assms(2) [unfolded get_sharded_message_def]] by blast
  then show ?thesis using assms(1) by (auto simp: thenP_def split: if_splits dest!: bindP_Some_Inr)
qed

definition demo_message_link :: "unit sub_link" where
  "demo_message_link = demo_sub_link\<lparr>sk_can_read := (\<lambda>_. retS True), sk_read := (\<lambda>_. retS (PList [PStr ''smessage'', PStr ''ch'', PStr ''hi'']))\<rparr>"

definition demo_node :: "unit pubsub" where
  "demo_node = (new_pubsub ())\<lparr>ps_connection := True, ps_subs := (\<lambda>k. if k = Shard then [(PStr ''ch'', None)] else []), ps_subscribed := True\<rparr>"

lemma demo_node_message:
  "get_message demo_message_link (retP ()) ignore (Some 0) demo_node =
    Some (Inr (message_dict (PStr ''smessage'') PNone (PStr ''ch'') (PStr ''hi'')), demo_node)"
proof -
  have read: "try_read demo_message_link (retP ()) False (Some 0) demo_node =
      Some (Inr (PList [PStr ''smessage'', PStr ''ch'', PStr ''hi'']), demo_node)"
    by (simp add: try_read_def ps_can_read_def open_conn_def on_conn_def thenP_def bindP_def whenP_def demo_message_link_def demo_sub_link_def demo_node_def new_pubsub_def)
  have "ps_parse_response demo_message_link (retP ()) False (Some 0) demo_node =
      Some (Inr (PList [PStr ''smessage'', PStr ''ch'', PStr ''hi'']), demo_node)"
    using call_with_retryP_Inr [where op = "try_read demo_message_link (retP ()) False (Some 0)" and s = demo_node, OF read]
    by (simp add: ps_parse_response_def ps_check_health_def getP_def total_def getS_def bindP_def thenP_def ps_execute_def is_health_check_response_def
      health_check_response_def health_check_response_b_def)
      (simp add: demo_node_def new_pubsub_def demo_message_link_def demo_sub_link_def)
  then show ?thesis
    by (simp add: get_message_def getP_def total_def getS_def bindP_def handle_message_def parse_message_def item_at_def is_type_def Let_def getP_def
      UNSUBSCRIBE_MESSAGE_TYPES_def PUBLISH_MESSAGE_TYPES_def thenP_def kind_of_message_def demo_node_def new_pubsub_def message_dict_def)
qed

theorem ignoring_drops_published_messages_witness:
  "node_message (demo_cluster_link\<lparr>ck_link := (\<lambda>_. demo_message_link)\<rparr>) ''a'' True (Some 0) ((demo_pubsubs Fresh)\<lparr>cp_map := [(''a'', demo_node)]\<rparr>) = 
     Some (Inr (message_dict (PStr ''smessage'') PNone (PStr ''ch'') (PStr ''hi'')), (demo_pubsubs Fresh)\<lparr>cp_map := [(''a'', demo_node)]\<rparr>) \<and>
   fst (the (get_sharded_message (demo_cluster_link\<lparr>ck_link := (\<lambda>_. demo_message_link)\<rparr>) True 0 (Some ''a'') ((demo_pubsubs Fresh)\<lparr>cp_map := [(''a'', demo_node)]\<rparr>))) = Inr PNone"
proof -
  let ?K = "demo_cluster_link\<lparr>ck_link := (\<lambda>_. demo_message_link)\<rparr>" and ?c = "(demo_pubsubs Fresh)\<lparr>cp_map := [(''a'', demo_node)]\<rparr>"
  have m: "node_message ?K ''a'' True (Some 0) ?c = Some (Inr (message_dict (PStr ''smessage'') PNone (PStr ''ch'') (PStr ''hi'')), ?c)"
    using demo_node_message [of True] by (simp add: node_message_def on_node_def demo_cluster_link_def)
  have "message_field (message_dict (PStr ''smessage'') PNone (PStr ''ch'') (PStr ''hi'')) ''type'' = Inr (PStr ''smessage'')"
    by (simp add: message_field_def message_dict_def)
  then obtain c' where c': "get_sharded_message ?K True 0 (Some ''a'') ?c = Some (Inr PNone, c')"
    using m by (simp add: get_sharded_message_def bindP_def thenP_def total_def modP_def message_dict_def str_if_bytes.simps)
  have "PNone = PNone" by (rule ignoring_drops_published_messages [OF TrueI c'])
  with m c' show ?thesis by simp
qed

lemma nd_get_set: "nd_get k (nd_set k' v d) = (if py_key_eq k k' then Some v else nd_get k d)"
  by (induction d) (auto simp: py_key_eq_def)

lemma nd_get_update: "nd_get k d \<noteq> None \<or> nd_get k e \<noteq> None \<Longrightarrow> nd_get k (subs_update d e) \<noteq> None"
proof (induction e arbitrary: d)
  case (Cons x e)
  obtain k' v where x: "x = (k', v)" by (cases x)
  have "nd_get k (nd_set k' v d) \<noteq> None \<or> nd_get k e \<noteq> None" using Cons.prems x by (auto simp: nd_get_set split: if_splits)
  from Cons.IH [OF this] show ?case by (simp add: subs_update_def x)
qed (simp add: subs_update_def)

text \<open>A subscription to a shard channel goes to the object of the node of its key: when that object has the channel, so has the own table, and both
  are subscribed; no other object changes.\<close>

theorem shard_subscription_goes_home:
  assumes "ck_home K ch = Inr n" "normalize_keys (sk_encoder (ck_link K n)) [(ch, None)] = Inr new"
    and "dict_get (cp_map c) n = Some p0"
    and "subscribe (ck_link K n) (ck_callback K n) Shard [ch] [] p0 = Some (Inr (), p)"
    and "nd_get k (ps_subs p Shard) \<noteq> None" "ps_subscribed p"
  shows "\<exists>c'. ssubscribe_one K (ch, None) c = Some (Inr (), c') \<and> dict_get (cp_map c') n = Some p \<and>
    (\<forall>m. m = n \<or> dict_get (cp_map c') m = dict_get (cp_map c) m) \<and>
    nd_get k (ps_subs (cp_self c') Shard) \<noteq> None \<and> ps_subscribed (cp_self c')"
proof -
  define c1 where "c1 = c\<lparr>cp_map := dict_set n p (cp_map c)\<rparr>"
  define c2 where "c2 = c1\<lparr>cp_self := adopt_shard (ps_subs p Shard) (ps_subscribed p) new (cp_self c1)\<rparr>"
  have "ensure_node K n c = Some (Inr (), c)" using assms(3) by (simp add: ensure_node_def modP_def total_def)
  moreover have "on_node n (subscribe (ck_link K n) (ck_callback K n) Shard [ch] []) c = Some (Inr (), c1)"
    using assms(3,4) by (simp add: on_node_def c1_def)
  ultimately have "ssubscribe_one K (ch, None) c = Some (Inr (), c2)"
    using assms(1,2) by (simp add: ssubscribe_one_def bindP_def thenP_def total_def modP_def c1_def c2_def)
  moreover have "nd_get k (ps_subs (cp_self c2) Shard) \<noteq> None"
    using assms(5) nd_get_update [of k "ps_subs (cp_self c1) Shard" "ps_subs p Shard"] by (auto simp: c2_def adopt_shard_def Let_def)
  moreover have "ps_subscribed (cp_self c2)" using assms(6) by (auto simp: c2_def adopt_shard_def Let_def)
  ultimately show ?thesis by (auto simp: c2_def c1_def)
qed

lemma demo_normalize: "normalize_keys (sk_encoder demo_sub_link) [(PStr ''ch'', None)] = Inr [(PStr ''ch'', None)]"
  by code_simp

lemma demo_subscribe:
  "subscribe demo_sub_link (retP ()) Shard [PStr ''ch''] [] ((new_pubsub ())\<lparr>ps_connection := True, ps_subscribed := True\<rparr>) =
   Some (Inr (), (new_pubsub ())\<lparr>ps_connection := True, ps_subscribed := True, ps_subs := (\<lambda>_. [])(Shard := [(PStr ''ch'', None)])\<rparr>)"
proof -
  let ?p = "(new_pubsub ())\<lparr>ps_connection := True, ps_subscribed := True\<rparr>"
  have "ps_send demo_sub_link (retP ()) False [PStr ''SSUBSCRIBE'', PStr ''ch''] ?p = Some (Inr (), ?p)"
    by (simp add: ps_send_def open_conn_def on_conn_def thenP_def bindP_def whenP_def demo_sub_link_def new_pubsub_def)
  note sent = call_with_retryP_Inr [where op = "ps_send demo_sub_link (retP ()) False [PStr ''SSUBSCRIBE'', PStr ''ch'']" and s = ?p, OF this]
  have "ps_execute_command demo_sub_link (retP ()) [PStr ''SSUBSCRIBE'', PStr ''ch''] ?p = Some (Inr (), ?p)"
    using sent by (simp add: ps_execute_command_def getP_def total_def getS_def bindP_def thenP_def whenP_def ps_execute_def)
  then show ?thesis
    by (simp add: subscribe_def new_subs_def name_args_def list_or_args_def update_kwargs_def subscribe_dict_def command_of_def thenP_def bindP_def total_def
      demo_normalize modP_def subscribed_to_def subs_update_def new_pubsub_def fun_eq_iff)
qed

theorem shard_subscription_goes_home_witness:
  "\<exists>c'. ssubscribe_one demo_cluster_link (PStr ''ch'', None)
      ((demo_pubsubs Fresh)\<lparr>cp_map := [(''a'', (new_pubsub ())\<lparr>ps_connection := True, ps_subscribed := True\<rparr>)]\<rparr>) = Some (Inr (), c') \<and>
    dict_get (cp_map c') ''a'' = Some ((new_pubsub ())\<lparr>ps_connection := True, ps_subscribed := True, ps_subs := (\<lambda>_. [])(Shard := [(PStr ''ch'', None)])\<rparr>) \<and>
    (\<forall>m. m = ''a'' \<or> dict_get (cp_map c') m =
       dict_get (cp_map ((demo_pubsubs Fresh)\<lparr>cp_map := [(''a'', (new_pubsub ())\<lparr>ps_connection := True, ps_subscribed := True\<rparr>)]\<rparr>)) m) \<and>
    nd_get (PStr ''ch'') (ps_subs (cp_self c') Shard) \<noteq> None \<and> ps_subscribed (cp_self c')"
proof -
  let ?before = "(new_pubsub ())\<lparr>ps_connection := True, ps_subscribed := True\<rparr>"
  let ?after = "(new_pubsub ())\<lparr>ps_connection := True, ps_subscribed := True, ps_subs := (\<lambda>_. [])(Shard := [(PStr ''ch'', None)])\<rparr>"
  have "subscribe (ck_link demo_cluster_link ''a'') (ck_callback demo_cluster_link ''a'') Shard [PStr ''ch''] [] ?before = Some (Inr (), ?after)"
    using demo_subscribe by (simp add: demo_cluster_link_def)
  moreover have "normalize_keys (sk_encoder (ck_link demo_cluster_link ''a'')) [(PStr ''ch'', None)] = Inr [(PStr ''ch'', None)]"
    using demo_normalize by (simp add: demo_cluster_link_def)
  ultimately show ?thesis
    by (intro shard_subscription_goes_home [where new = "[(PStr ''ch'', None)]" and ?p0.0 = ?before and p = ?after]) (simp_all add: demo_cluster_link_def demo_pubsubs_def)
qed

end
